(* ===== verification/Prelude.thy ===== *)
theory Prelude
  imports Complex_Main "HOL-Library.Multiset" "HOL-Library.Sublist"
begin

text \<open>
  Shared vocabulary of the development.

  A TypeScript function that can throw returns a value of the sum type \<^verbatim>\<open>'a result\<close>:
  \<^verbatim>\<open>Inl\<close> carries the thrown error and \<^verbatim>\<open>Inr\<close> the returned value.  An error is the
  template of the message the source throws, with a \<^verbatim>\<open>$\<close> at every hole of the template
  literal, and the values interpolated there, so two throw sites never share an error
  (a quote that would end the Isabelle string is left out of the template).

  A JavaScript string is a list of \<^verbatim>\<open>char\<close>, that is, the code units below 256.
\<close>

named_theorems result_simps
named_theorems accepts_iff

subsection \<open>Errors and results\<close>

text \<open>
  JSON values as the program sees them after \<^verbatim>\<open>JSON.parse\<close>: numbers are finite binary64
  values (a literal that overflows to \<^verbatim>\<open>Infinity\<close> is outside the model), objects keep the
  order of their entries.  A hole \<^verbatim>\<open>JSON.stringify(v)\<close> of an error message is the value \<^verbatim>\<open>AJson v\<close>.
\<close>

datatype json =
    JNull
  | JBool bool
  | JNum rat
  | JStr string
  | JArr "json list"
  | JObj "(string \<times> json) list"

datatype arg = ANat nat | AInt int | ARat rat | AStr string | ASeq "nat list" | AStrs "string list" | AJson json

datatype error = Error string "arg list"

type_synonym 'a result = "error + 'a"

definition try_in :: "'a result \<Rightarrow> ('a \<Rightarrow> 'b result) \<Rightarrow> 'b result" where
  "try_in m k = (case m of Inl e \<Rightarrow> Inl e | Inr x \<Rightarrow> k x)"

definition ensure :: "bool \<Rightarrow> error \<Rightarrow> unit result" where
  "ensure b e = (if b then Inr () else Inl e)"

definition is_ok :: "'a result \<Rightarrow> bool" where
  "is_ok m = (case m of Inl _ \<Rightarrow> False | Inr _ \<Rightarrow> True)"

lemma try_in_Inl [simp]: "try_in (Inl e) k = Inl e"
  by (simp add: try_in_def)

lemma try_in_Inr [simp]: "try_in (Inr x) k = k x"
  by (simp add: try_in_def)

lemma try_in_eq_Inr [result_simps]: "try_in m k = Inr y \<longleftrightarrow> (\<exists>x. m = Inr x \<and> k x = Inr y)"
  by (cases m) auto

lemma ensure_eq_Inr [result_simps]: "ensure b e = Inr u \<longleftrightarrow> b"
  by (simp add: ensure_def)

lemma ensure_True [simp]: "ensure True e = Inr ()"
  by (simp add: ensure_def)

lemma ensure_False [simp]: "ensure False e = Inl e"
  by (simp add: ensure_def)

lemma is_ok_Inr [simp]: "is_ok (Inr x)"
  by (simp add: is_ok_def)

lemma is_ok_Inl [simp]: "\<not> is_ok (Inl e)"
  by (simp add: is_ok_def)

lemma is_ok_iff [result_simps]: "is_ok m \<longleftrightarrow> (\<exists>x. m = Inr x)"
  by (cases m) auto

lemma is_ok_unit: "is_ok m \<longleftrightarrow> m = Inr ()"
  by (cases m) auto

lemma Inr_unit_iff: "m = Inr u \<longleftrightarrow> m = Inr ()" for u :: unit
  by simp

subsection \<open>Loops that may throw\<close>

text \<open>
  \<^verbatim>\<open>for_each\<close> is a \<^verbatim>\<open>for ... of\<close> loop whose body only checks, \<^verbatim>\<open>traverse\<close> is
  \<^verbatim>\<open>Array.prototype.map\<close> with a callback that may throw and \<^verbatim>\<open>fold_result\<close> a loop that
  updates local variables and may throw; all stop at the first error.
\<close>

fun for_each :: "('a \<Rightarrow> unit result) \<Rightarrow> 'a list \<Rightarrow> unit result" where
  "for_each f [] = Inr ()"
| "for_each f (x # xs) = try_in (f x) (\<lambda>_. for_each f xs)"

fun traverse :: "('a \<Rightarrow> 'b result) \<Rightarrow> 'a list \<Rightarrow> 'b list result" where
  "traverse f [] = Inr []"
| "traverse f (x # xs) = try_in (f x) (\<lambda>y. try_in (traverse f xs) (\<lambda>ys. Inr (y # ys)))"

fun fold_result :: "('s \<Rightarrow> 'a \<Rightarrow> 's result) \<Rightarrow> 's \<Rightarrow> 'a list \<Rightarrow> 's result" where
  "fold_result f s [] = Inr s"
| "fold_result f s (x # xs) = try_in (f s x) (\<lambda>s'. fold_result f s' xs)"

lemma for_each_ok [result_simps]: "for_each f xs = Inr u \<longleftrightarrow> (\<forall>x \<in> set xs. f x = Inr ())"
  by (induction xs) (auto simp: result_simps)

lemma for_each_cong [fundef_cong]:
  "xs = ys \<Longrightarrow> (\<And>x. x \<in> set ys \<Longrightarrow> f x = g x) \<Longrightarrow> for_each f xs = for_each g ys"
  by (induction xs arbitrary: ys) auto

lemma for_each_error:
  "for_each f xs = Inl e \<Longrightarrow> \<exists>x \<in> set xs. f x = Inl e"
proof (induction xs)
  case Nil
  then show ?case by simp
next
  case (Cons x xs)
  then show ?case by (cases "f x") auto
qed

lemma traverse_ok [result_simps]:
  "traverse f xs = Inr ys \<longleftrightarrow> list_all2 (\<lambda>x y. f x = Inr y) xs ys"
  by (induction xs arbitrary: ys) (auto simp: result_simps list_all2_Cons1)

lemma traverse_length: "traverse f xs = Inr ys \<Longrightarrow> length ys = length xs"
  by (simp add: result_simps list_all2_lengthD)

lemma traverse_set:
  "traverse f xs = Inr ys \<Longrightarrow> y \<in> set ys \<longleftrightarrow> (\<exists>x \<in> set xs. f x = Inr y)"
proof (induction xs arbitrary: ys)
  case Nil
  then show ?case by simp
next
  case (Cons x xs)
  then show ?case by (auto simp: try_in_eq_Inr)
qed

lemma traverse_total:
  "(\<And>x. x \<in> set xs \<Longrightarrow> f x = Inr (g x)) \<Longrightarrow> traverse f xs = Inr (map g xs)"
  by (induction xs) auto

lemma fold_result_append:
  "fold_result f s (xs @ ys) = try_in (fold_result f s xs) (\<lambda>s'. fold_result f s' ys)"
proof (induction xs arbitrary: s)
  case Nil
  then show ?case by simp
next
  case (Cons x xs)
  then show ?case by (cases "f s x") auto
qed

lemma fold_result_invariant:
  assumes "fold_result f s xs = Inr t" and "P s"
    and "\<And>s x s'. x \<in> set xs \<Longrightarrow> P s \<Longrightarrow> f s x = Inr s' \<Longrightarrow> P s'"
  shows "P t"
  using assms
proof (induction xs arbitrary: s)
  case Nil
  then show ?case by simp
next
  case (Cons x xs)
  from Cons.prems(1) obtain s' where s': "f s x = Inr s'" and rest: "fold_result f s' xs = Inr t"
    by (auto simp: result_simps)
  have "P s'" using Cons.prems(3) [OF _ Cons.prems(2) s'] by simp
  then show ?case using Cons.IH [OF rest] Cons.prems(3) by (meson list.set_intros(2))
qed

subsection \<open>Array helpers of the standard library\<close>

definition find_last :: "('a \<Rightarrow> bool) \<Rightarrow> 'a list \<Rightarrow> 'a option" where
  "find_last P xs = find P (rev xs)"

lemma find_last_Some: "find_last P xs = Some x \<Longrightarrow> P x \<and> x \<in> set xs"
  by (auto simp: find_last_def find_Some_iff) (metis nth_mem set_rev length_rev)

lemma find_last_None: "find_last P xs = None \<longleftrightarrow> (\<forall>x \<in> set xs. \<not> P x)"
  by (auto simp: find_last_def find_None_iff)

lemma find_last_append_hit: "P x \<Longrightarrow> find_last P (xs @ [x]) = Some x"
  by (simp add: find_last_def)

text \<open>\<^verbatim>\<open>[...new Set(xs)]\<close>: the first occurrence of every value, in order.\<close>

fun dedup :: "'a list \<Rightarrow> 'a list" where
  "dedup [] = []"
| "dedup (x # xs) = x # filter (\<lambda>y. y \<noteq> x) (dedup xs)"

lemma set_dedup [simp]: "set (dedup xs) = set xs"
  by (induction xs) auto

lemma distinct_dedup [simp]: "distinct (dedup xs)"
  by (induction xs) auto

lemma dedup_distinct: "distinct xs \<Longrightarrow> dedup xs = xs"
proof (induction xs)
  case Nil
  then show ?case by simp
next
  case (Cons x xs)
  then have "filter (\<lambda>y. y \<noteq> x) xs = xs" by (auto simp: filter_id_conv)
  with Cons show ?case by simp
qed

lemma length_dedup: "length (dedup xs) = card (set xs)"
  by (metis distinct_card distinct_dedup set_dedup)

lemma length_dedup_eq: "length (dedup xs) = length xs \<longleftrightarrow> distinct xs"
  by (simp add: length_dedup) (metis card_distinct distinct_card)

text \<open>
  \<^verbatim>\<open>findDuplicate\<close> of the ledgers: the first value that was already seen.
\<close>

fun find_duplicate_from :: "'a list \<Rightarrow> 'a list \<Rightarrow> 'a option" where
  "find_duplicate_from seen [] = None"
| "find_duplicate_from seen (x # xs) =
     (if x \<in> set seen then Some x else find_duplicate_from (x # seen) xs)"

lemma find_duplicate_from_None:
  "find_duplicate_from seen xs = None \<longleftrightarrow> distinct xs \<and> set seen \<inter> set xs = {}"
  by (induction xs arbitrary: seen) auto

lemma find_duplicate_None: "find_duplicate_from [] xs = None \<longleftrightarrow> distinct xs"
  by (simp add: find_duplicate_from_None)

text \<open>Sorting by value is \<^verbatim>\<open>sort\<close>; a list equal to \<^verbatim>\<open>Array.from({length: n}, i)\<close>.\<close>

lemma sort_eq_upt: "sort xs = [0..<n] \<longleftrightarrow> mset xs = mset [0..<n]"
  by (metis mset_sort properties_for_sort sorted_upt)

lemma mset_upt_iff: "mset xs = mset [0..<n] \<longleftrightarrow> distinct xs \<and> set xs = {0..<n}"
  by (metis atLeast_upt distinct_upt set_eq_iff_mset_eq_distinct set_upt mset_eq_setD
      distinct_count_atmost_1 mset_eq_imp_distinct_iff)

end
