(* ===== verification/Model.thy ===== *)
theory Model
  imports Prelude "HOL-Library.Word"
begin

unbundle bit_operations_syntax

text \<open>
  The workload model (src/workloads/model.ts): the seven Fitz domains, the \<^verbatim>\<open>--domains\<close>
  parser, the deterministic routes and keys, and the deterministic payload generator
  (FNV-1a seed, xorshift32 stream).  Machine integers are kept at 32 and 8 bits.
\<close>

subsection \<open>Strings\<close>

type_synonym byte = "8 word"

fun show_nat :: "nat \<Rightarrow> string" where
  "show_nat n = (if n < 10 then [char_of (48 + n)] else show_nat (n div 10) @ [char_of (48 + n mod 10)])"

declare show_nat.simps [simp del]

definition pad :: "nat \<Rightarrow> nat \<Rightarrow> string" where
  "pad value width = (let s = show_nat value in replicate (width - length s) CHR ''0'' @ s)"

text \<open>\<^verbatim>\<open>String.prototype.trim\<close> on code units below 256, and \<^verbatim>\<open>split\<close> on one character.\<close>

definition is_space :: "char \<Rightarrow> bool" where
  "is_space c = (of_char c \<in> {9, 10, 11, 12, 13, 32, 160 :: nat})"

definition js_trim :: "string \<Rightarrow> string" where
  "js_trim s = rev (dropWhile is_space (rev (dropWhile is_space s)))"

fun split_on :: "char \<Rightarrow> string \<Rightarrow> string list" where
  "split_on c [] = [[]]"
| "split_on c (x # xs) =
     (if x = c then [] # split_on c xs
      else (case split_on c xs of [] \<Rightarrow> [[x]] | y # ys \<Rightarrow> (x # y) # ys))"

fun join_with :: "string \<Rightarrow> string list \<Rightarrow> string" where
  "join_with sep [] = []"
| "join_with sep [x] = x"
| "join_with sep (x # xs) = x @ sep @ join_with sep xs"

text \<open>\<^verbatim>\<open>TextEncoder\<close>: UTF-8 of the code units below 256.\<close>

definition utf8_char :: "char \<Rightarrow> byte list" where
  "utf8_char c = (let n = of_char c :: byte in
     if n < 128 then [n] else [192 OR drop_bit 6 n, 128 OR (n AND 63)])"

definition utf8 :: "string \<Rightarrow> byte list" where
  "utf8 s = concat (map utf8_char s)"

subsection \<open>Domains\<close>

datatype domain = Queue | Kv | Stream | Schedule | Notice | Lease | Rpc

definition DURABLE_DOMAINS :: "domain list" where
  "DURABLE_DOMAINS = [Queue, Kv, Stream, Schedule]"

definition ALL_DOMAINS :: "domain list" where
  "ALL_DOMAINS = [Queue, Kv, Stream, Schedule, Notice, Lease, Rpc]"

primrec domain_name :: "domain \<Rightarrow> string" where
  "domain_name Queue = ''queue''"
| "domain_name Kv = ''kv''"
| "domain_name Stream = ''stream''"
| "domain_name Schedule = ''schedule''"
| "domain_name Notice = ''notice''"
| "domain_name Lease = ''lease''"
| "domain_name Rpc = ''rpc''"

text \<open>\<^verbatim>\<open>isDomain\<close>: membership of the string in the list of names.\<close>

definition domain_of_name :: "string \<Rightarrow> domain option" where
  "domain_of_name s = find (\<lambda>d. domain_name d = s) ALL_DOMAINS"

definition domain_selection_error :: "string \<Rightarrow> error" where
  "domain_selection_error s =
     Error ''Domain selection contains '$'; expected a comma-separated subset of $''
       [AStr (if s = [] then ''<empty>'' else s), AStrs (map domain_name ALL_DOMAINS)]"

definition select_domain :: "domain list \<Rightarrow> string \<Rightarrow> domain list result" where
  "select_domain selected raw =
     (case domain_of_name (js_trim raw) of
        None \<Rightarrow> Inl (domain_selection_error (js_trim raw))
      | Some d \<Rightarrow> Inr (d # selected))"

definition parse_domain_selection :: "string option \<Rightarrow> domain list result" where
  "parse_domain_selection value =
     (case value of
        None \<Rightarrow> Inr ALL_DOMAINS
      | Some v \<Rightarrow>
          if js_trim v = [] then Inr ALL_DOMAINS
          else try_in (fold_result select_domain [] (split_on CHR '','' v))
                 (\<lambda>selected. Inr (filter (\<lambda>d. d \<in> set selected) ALL_DOMAINS)))"

subsection \<open>Routes, keys and payloads\<close>

record workload_shape =
  namespace :: string
  seed :: nat
  resources :: nat
  entriesPerResource :: nat
  payloadBytes :: nat

definition resource_route :: "domain \<Rightarrow> workload_shape \<Rightarrow> nat \<Rightarrow> string" where
  "resource_route d shape resource =
     domain_name d @ ''://destroyer/'' @ namespace shape @ ''/'' @ domain_name d @ ''-'' @ pad resource 4"

definition schedule_route :: "workload_shape \<Rightarrow> nat \<Rightarrow> nat \<Rightarrow> string" where
  "schedule_route shape resource entry =
     ''schedule://destroyer/'' @ namespace shape @ ''/schedule-'' @ pad resource 4 @ ''/job-'' @ pad entry 8"

definition schedule_selector :: "workload_shape \<Rightarrow> string" where
  "schedule_selector shape = ''schedule://destroyer/'' @ namespace shape @ ''/*''"

definition kv_key :: "nat \<Rightarrow> byte list" where
  "kv_key entry = utf8 (''key-'' @ pad entry 8)"

definition fnv1a_step :: "32 word \<Rightarrow> byte \<Rightarrow> 32 word" where
  "fnv1a_step h b = (h XOR ucast b) * 0x01000193"

definition fnv1a :: "string \<Rightarrow> 32 word" where
  "fnv1a value = foldl fnv1a_step 0x811c9dc5 (utf8 value)"

definition xorshift :: "32 word \<Rightarrow> 32 word" where
  "xorshift s0 =
     (let s1 = s0 XOR push_bit 13 s0;
          s2 = s1 XOR drop_bit 17 s1
      in s2 XOR push_bit 5 s2)"

fun xorshift_bytes :: "nat \<Rightarrow> 32 word \<Rightarrow> byte list" where
  "xorshift_bytes 0 state = []"
| "xorshift_bytes (Suc n) state =
     (let state' = xorshift state in ucast (state' AND 0xff) # xorshift_bytes n state')"

definition payload_seed :: "nat \<Rightarrow> domain \<Rightarrow> nat \<Rightarrow> nat \<Rightarrow> 32 word" where
  "payload_seed sd d resource entry =
     (let h = fnv1a (show_nat sd @ '':'' @ domain_name d @ '':'' @ show_nat resource @ '':'' @ show_nat entry)
      in if h = 0 then 0x9e3779b9 else h)"

definition payload_prefix :: "domain \<Rightarrow> nat \<Rightarrow> nat \<Rightarrow> byte list" where
  "payload_prefix d resource entry =
     utf8 (domain_name d @ '':'' @ pad resource 4 @ '':'' @ pad entry 8 @ '':'')"

definition deterministic_payload :: "nat \<Rightarrow> nat \<Rightarrow> domain \<Rightarrow> nat \<Rightarrow> nat \<Rightarrow> byte list" where
  "deterministic_payload sd bytes d resource entry =
     (let prefix = payload_prefix d resource entry
      in take bytes prefix @ xorshift_bytes (bytes - length prefix) (payload_seed sd d resource entry))"

definition total_durable_entries :: "workload_shape \<Rightarrow> nat" where
  "total_durable_entries shape = length DURABLE_DOMAINS * resources shape * entriesPerResource shape"

text \<open>\<^verbatim>\<open>assertBytesEqual\<close>: the length first, then the first mismatching offset.\<close>

fun compare_bytes :: "string \<Rightarrow> nat \<Rightarrow> byte list \<Rightarrow> byte list \<Rightarrow> unit result" where
  "compare_bytes context i (a # as) (e # es) =
     (if a \<noteq> e then Inl (Error ''$: byte mismatch at offset $'' [AStr context, ANat i])
      else compare_bytes context (Suc i) as es)"
| "compare_bytes context i _ _ = Inr ()"

definition assert_bytes_equal :: "byte list \<Rightarrow> byte list \<Rightarrow> string \<Rightarrow> unit result" where
  "assert_bytes_equal actual expected context =
     (if length actual \<noteq> length expected
      then Inl (Error ''$: byte length $ != $'' [AStr context, ANat (length actual), ANat (length expected)])
      else compare_bytes context 0 actual expected)"


subsection \<open>Decimal strings\<close>

definition is_digit :: "char \<Rightarrow> bool" where
  "is_digit c = (48 \<le> (of_char c :: nat) \<and> (of_char c :: nat) \<le> 57)"

definition nat_of_digits :: "string \<Rightarrow> nat" where
  "nat_of_digits s = foldl (\<lambda>a c. a * 10 + (of_char c - 48)) 0 s"

lemma of_char_of_small [simp]: "n < 256 \<Longrightarrow> (of_char (char_of n) :: nat) = n"
  by (simp add: of_char_of)

lemma nat_of_digits_append_one:
  "nat_of_digits (s @ [c]) = nat_of_digits s * 10 + (of_char c - 48)"
  by (simp add: nat_of_digits_def)

lemma show_nat_value [simp]: "nat_of_digits (show_nat n) = n"
proof (induction n rule: show_nat.induct)
  case (1 n)
  show ?case
  proof (cases "n < 10")
    case True
    then show ?thesis by (subst show_nat.simps) (simp add: nat_of_digits_def)
  next
    case False
    then show ?thesis using 1 by (subst show_nat.simps) (simp add: nat_of_digits_append_one)
  qed
qed

lemma show_nat_digits: "\<forall>c \<in> set (show_nat n). is_digit c"
proof (induction n rule: show_nat.induct)
  case (1 n)
  then show ?case by (subst show_nat.simps) (auto simp: is_digit_def)
qed

lemma show_nat_nonempty [simp]: "show_nat n \<noteq> []"
  by (subst show_nat.simps) simp

lemma show_nat_inj: "show_nat m = show_nat n \<Longrightarrow> m = n"
  by (metis show_nat_value)

lemma pad_digits: "\<forall>c \<in> set (pad n w). is_digit c"
  using show_nat_digits [of n] by (auto simp: pad_def Let_def is_digit_def)

lemma nat_of_digits_zeros: "nat_of_digits (replicate k CHR ''0'' @ s) = nat_of_digits s"
  by (induction k) (auto simp: nat_of_digits_def)

lemma pad_value [simp]: "nat_of_digits (pad n w) = n"
  by (simp add: pad_def Let_def nat_of_digits_zeros)

lemma pad_inj: "pad m w = pad n w \<Longrightarrow> m = n"
  by (metis pad_value)

lemma length_show_nat: "n < 10 ^ w \<Longrightarrow> 0 < w \<Longrightarrow> length (show_nat n) \<le> w"
proof (induction n arbitrary: w rule: show_nat.induct)
  case (1 n)
  show ?case
  proof (cases "n < 10")
    case True
    then show ?thesis using "1.prems" by (subst show_nat.simps) simp
  next
    case False
    then obtain v where w: "w = Suc v" "0 < v" using "1.prems" by (cases w) (auto, cases "w - 1", auto)
    then have "length (show_nat (n div 10)) \<le> v" using "1.prems" False by (intro "1.IH") auto
    then show ?thesis using False w by (subst show_nat.simps) simp
  qed
qed

lemma length_pad: "n < 10 ^ w \<Longrightarrow> 0 < w \<Longrightarrow> length (pad n w) = w"
  using length_show_nat [of n w] by (simp add: pad_def Let_def)

lemma length_pad_ge: "w \<le> length (pad n w)"
  by (simp add: pad_def Let_def)

text \<open>Fields separated by a character neither field contains are read back uniquely.\<close>

lemma separated_eq:
  assumes "xs @ c # ys = xs' @ c # ys'" "c \<notin> set xs" "c \<notin> set xs'"
  shows "xs = xs' \<and> ys = ys'"
  using assms
proof (induction xs arbitrary: xs')
  case Nil
  then show ?case by (cases xs') auto
next
  case (Cons x xs)
  then show ?case by (cases xs') auto
qed

lemma digit_not_sep: "is_digit c \<Longrightarrow> c \<noteq> CHR '':'' \<and> c \<noteq> CHR ''/'' \<and> c \<noteq> CHR ''-''"
  by (auto simp: is_digit_def)

lemma pad_no_sep:
  "CHR '':'' \<notin> set (pad n w)" "CHR ''/'' \<notin> set (pad n w)" "CHR ''-'' \<notin> set (pad n w)"
  using pad_digits [of n w] digit_not_sep by blast+

lemma domain_name_no_sep: "CHR '':'' \<notin> set (domain_name d)" "CHR ''/'' \<notin> set (domain_name d)"
  by (cases d; simp)+

lemma domain_name_inj: "domain_name d = domain_name d' \<Longrightarrow> d = d'"
  by (cases d; cases d') auto

lemma domain_of_name_name [simp]: "domain_of_name (domain_name d) = Some d"
  by (cases d) (simp_all add: domain_of_name_def ALL_DOMAINS_def)

lemma in_ALL_DOMAINS [simp]: "d \<in> set ALL_DOMAINS"
  by (cases d) (auto simp: ALL_DOMAINS_def)

lemma distinct_ALL_DOMAINS [simp]: "distinct ALL_DOMAINS"
  by (simp add: ALL_DOMAINS_def)

lemma domain_of_name_Some: "domain_of_name s = Some d \<longleftrightarrow> s = domain_name d"
proof
  assume "domain_of_name s = Some d"
  then show "s = domain_name d" by (auto simp: domain_of_name_def find_Some_iff)
qed simp

subsection \<open>The xorshift stream\<close>

lemma xor_zero_iff: "x XOR y = 0 \<longleftrightarrow> x = y" for x :: "'a :: len word"
  by (auto simp: bit_eq_iff bit_xor_iff)

lemma xor_push_bit_zero:
  fixes x :: "'a :: len word"
  assumes "x XOR push_bit n x = 0" "0 < n" shows "x = 0"
proof (rule bit_word_eqI)
  fix i
  have eq: "x = push_bit n x" using assms(1) by (simp add: xor_zero_iff)
  have "\<not> bit x i"
  proof (induction i rule: less_induct)
    case (less i)
    show ?case
    proof
      assume "bit x i"
      then have "n \<le> i" "bit x (i - n)" using eq by (metis bit_push_bit_iff)+
      then show False using less [of "i - n"] assms(2) by simp
    qed
  qed
  then show "bit x i = bit (0 :: 'a word) i" by simp
qed

lemma xor_drop_bit_zero:
  fixes x :: "'a :: len word"
  assumes "x XOR drop_bit n x = 0" "0 < n" shows "x = 0"
proof (rule bit_word_eqI)
  fix i
  have eq: "x = drop_bit n x" using assms(1) by (simp add: xor_zero_iff)
  have up: "bit x i \<Longrightarrow> bit x (i + k * n)" for k
  proof (induction k)
    case (Suc k)
    then have "bit (drop_bit n x) (i + k * n)" using eq by simp
    then show ?case by (simp add: bit_drop_bit_eq ac_simps)
  qed simp
  have "\<not> bit x i"
  proof
    assume "bit x i"
    then have "bit x (i + LENGTH('a) * n)" by (rule up)
    then have "i + LENGTH('a) * n < LENGTH('a)" by (metis bit_imp_le_length)
    then show False using assms(2) by (cases n) auto
  qed
  then show "bit x i = bit (0 :: 'a word) i" by simp
qed

lemma xorshift_zero [simp]: "xorshift s = 0 \<longleftrightarrow> s = 0"
proof
  assume zero: "xorshift s = 0"
  define s1 where "s1 = s XOR push_bit 13 s"
  define s2 where "s2 = s1 XOR drop_bit 17 s1"
  from zero have "s2 XOR push_bit 5 s2 = 0" unfolding xorshift_def Let_def s1_def s2_def .
  then have "s2 = 0" by (rule xor_push_bit_zero) simp
  then have "s1 = 0" unfolding s2_def by (rule xor_drop_bit_zero) simp
  then show "s = 0" unfolding s1_def by (rule xor_push_bit_zero) simp
qed (simp add: xorshift_def)

lemma xor_push_bit_linear:
  "(a XOR b) XOR push_bit n (a XOR b) = (a XOR push_bit n a) XOR (b XOR push_bit n b)"
  for a :: "'a :: len word"
  by (simp only: push_bit_xor xor.assoc xor.left_commute)

lemma xor_drop_bit_linear:
  "(a XOR b) XOR drop_bit n (a XOR b) = (a XOR drop_bit n a) XOR (b XOR drop_bit n b)"
  for a :: "'a :: len word"
  by (simp only: drop_bit_xor xor.assoc xor.left_commute)

lemma xorshift_xor: "xorshift (a XOR b) = xorshift a XOR xorshift b"
proof -
  define f :: "nat \<Rightarrow> 32 word \<Rightarrow> 32 word" where "f n s = s XOR push_bit n s" for n s
  define g :: "32 word \<Rightarrow> 32 word" where "g s = s XOR drop_bit 17 s" for s
  have f: "f n (x XOR y) = f n x XOR f n y" for n x y unfolding f_def by (rule xor_push_bit_linear)
  have g: "g (x XOR y) = g x XOR g y" for x y unfolding g_def by (rule xor_drop_bit_linear)
  have "xorshift s = f 5 (g (f 13 s))" for s by (simp only: xorshift_def f_def g_def Let_def)
  then show ?thesis by (simp only: f g)
qed

lemma xorshift_inj: "xorshift a = xorshift b \<longleftrightarrow> a = b"
proof
  assume "xorshift a = xorshift b"
  then have "xorshift (a XOR b) = 0" by (simp add: xorshift_xor)
  then have "a XOR b = 0" by simp
  then show "a = b" by (simp add: xor_zero_iff)
qed simp

lemma payload_seed_nonzero [simp]: "payload_seed sd d r e \<noteq> 0"
  by (simp add: payload_seed_def Let_def)

lemma xorshift_orbit_nonzero: "s \<noteq> 0 \<Longrightarrow> (xorshift ^^ n) s \<noteq> 0"
  by (induction n) auto

lemma length_xorshift_bytes [simp]: "length (xorshift_bytes n s) = n"
  by (induction n s rule: xorshift_bytes.induct) (simp_all add: Let_def)

lemma nth_xorshift_bytes:
  "i < n \<Longrightarrow> xorshift_bytes n s ! i = ucast ((xorshift ^^ Suc i) s AND 0xff)"
proof (induction n s arbitrary: i rule: xorshift_bytes.induct)
  case (2 n s)
  then show ?case by (cases i) (simp_all add: Let_def funpow_swap1)
qed simp

lemma length_payload [simp]: "length (deterministic_payload sd n d r e) = n"
  by (simp add: deterministic_payload_def Let_def)

subsection \<open>ASCII text\<close>

definition is_ascii :: "string \<Rightarrow> bool" where
  "is_ascii s = list_all (\<lambda>c. (of_char c :: nat) < 128) s"

lemma of_char_lt_256: "(of_char c :: nat) < 256"
  by (metis of_char_mod_256 mod_less_divisor zero_less_numeral)

lemma unat_of_char [simp]: "unat (of_char c :: byte) = of_char c"
proof -
  have "(of_char c :: byte) = of_nat (of_char c)" by (cases c) (simp add: of_char_def)
  then show ?thesis using of_char_lt_256 [of c] by (simp only: unat_of_nat) simp
qed

lemma utf8_char_ascii: "(of_char c :: nat) < 128 \<Longrightarrow> utf8_char c = [of_char c]"
  by (simp add: utf8_char_def Let_def word_less_nat_alt)

lemma utf8_ascii: "is_ascii s \<Longrightarrow> utf8 s = map of_char s"
  by (induction s) (auto simp: utf8_def is_ascii_def utf8_char_ascii)

lemma byte_of_char_inj: "(of_char c :: byte) = of_char c' \<longleftrightarrow> c = c'"
  by (metis unat_of_char of_char_eq_iff)


lemma domain_name_ascii [simp]: "is_ascii (domain_name d)"
  by (cases d) (simp_all add: is_ascii_def)

lemma digits_ascii: "\<forall>c \<in> set s. is_digit c \<Longrightarrow> is_ascii s"
  by (auto simp: is_ascii_def list_all_iff is_digit_def)

lemma pad_ascii [simp]: "is_ascii (pad n w)"
  by (rule digits_ascii [OF pad_digits])

lemma is_ascii_append [simp]: "is_ascii (s @ t) \<longleftrightarrow> is_ascii s \<and> is_ascii t"
  by (simp add: is_ascii_def)

lemma is_ascii_Cons [simp]: "is_ascii (c # s) \<longleftrightarrow> (of_char c :: nat) < 128 \<and> is_ascii s"
  by (simp add: is_ascii_def)

lemma is_ascii_Nil [simp]: "is_ascii []"
  by (simp add: is_ascii_def)

lemma map_byte_inj: "map (of_char :: char \<Rightarrow> byte) s = map of_char t \<longleftrightarrow> s = t"
  by (rule inj_map_eq_map) (simp add: inj_def byte_of_char_inj)

lemma payload_prefix_bytes:
  "payload_prefix d r e = map of_char (domain_name d) @ of_char CHR '':'' #
     map of_char (pad r 4) @ of_char CHR '':'' # map of_char (pad e 8) @ [of_char CHR '':'']"
  by (simp add: payload_prefix_def utf8_ascii)

lemma colon_free: "CHR '':'' \<notin> set s \<Longrightarrow> (of_char CHR '':'' :: byte) \<notin> set (map of_char s)"
  by (auto simp only: set_map image_iff byte_of_char_inj)

lemma payload_prefix_field:
  assumes "payload_prefix d r e @ xs = payload_prefix d' r' e' @ ys"
  shows "d = d' \<and> r = r' \<and> e = e'"
proof -
  note free = domain_name_no_sep pad_no_sep
  let ?b = "map (of_char :: char \<Rightarrow> byte)"
  have eq: "?b (domain_name d) @ of_char CHR '':'' # (?b (pad r 4) @ of_char CHR '':'' # (?b (pad e 8) @ of_char CHR '':'' # xs))
    = ?b (domain_name d') @ of_char CHR '':'' # (?b (pad r' 4) @ of_char CHR '':'' # (?b (pad e' 8) @ of_char CHR '':'' # ys))"
    using assms by (simp only: payload_prefix_bytes append_assoc append_Cons append_Nil)
  note s1 = separated_eq [OF eq colon_free [OF free(1)] colon_free [OF free(1)]]
  note s2 = separated_eq [OF s1 [THEN conjunct2] colon_free [OF free(3)] colon_free [OF free(3)]]
  note s3 = separated_eq [OF s2 [THEN conjunct2] colon_free [OF free(3)] colon_free [OF free(3)]]
  from s1 s2 s3 show ?thesis by (auto simp only: map_byte_inj dest: domain_name_inj pad_inj)
qed

lemma payload_has_prefix:
  "length (payload_prefix d r e) \<le> n \<Longrightarrow>
   deterministic_payload sd n d r e =
     payload_prefix d r e @ xorshift_bytes (n - length (payload_prefix d r e)) (payload_seed sd d r e)"
  by (simp add: deterministic_payload_def Let_def)

lemma length_payload_prefix:
  assumes "r < 10 ^ 4" "e < 10 ^ 8" shows "length (payload_prefix d r e) = length (domain_name d) + 15"
  using length_pad [of r 4] length_pad [of e 8] assms by (simp add: payload_prefix_bytes)

lemma length_domain_name: "length (domain_name d) \<le> 8"
  by (cases d) simp_all

lemma split_on_set_nonempty: "split_on c s \<noteq> []"
  by (induction s) (auto split: list.split)

lemma select_domains:
  "fold_result select_domain acc raws = Inr sel \<longleftrightarrow>
     js_trim ` set raws \<subseteq> range domain_name \<and> sel = rev (map (the \<circ> domain_of_name \<circ> js_trim) raws) @ acc"
proof (induction raws arbitrary: acc)
  case Nil
  then show ?case by auto
next
  case (Cons raw raws)
  show ?case
  proof (cases "domain_of_name (js_trim raw)")
    case None
    then have "js_trim raw \<notin> range domain_name" by (auto simp: domain_of_name_Some [symmetric])
    then show ?thesis using None by (simp add: select_domain_def)
  next
    case (Some d)
    then show ?thesis using Cons by (auto simp: select_domain_def domain_of_name_Some)
  qed
qed

lemma named_selection:
  assumes "js_trim ` set raws \<subseteq> range domain_name"
  shows "d \<in> set (rev (map (the \<circ> domain_of_name \<circ> js_trim) raws) @ []) \<longleftrightarrow> domain_name d \<in> js_trim ` set raws"
proof -
  have "the (domain_of_name (js_trim raw)) = d \<longleftrightarrow> js_trim raw = domain_name d" if "raw \<in> set raws" for raw
    using that assms by (metis domain_of_name_name domain_of_name_Some image_subset_iff option.sel rangeE)
  then have "(\<exists>x \<in> set raws. the (domain_of_name (js_trim x)) = d) \<longleftrightarrow> (\<exists>x \<in> set raws. js_trim x = domain_name d)"
    by blast
  then show ?thesis by (simp add: image_iff eq_commute [of d] eq_commute [of "domain_name d"])
qed

lemma compare_bytes_ok:
  "length xs = length ys \<Longrightarrow> compare_bytes label i xs ys = Inr u \<longleftrightarrow> xs = ys"
  by (induction label i xs ys rule: compare_bytes.induct) auto



text \<open>
  A \<^verbatim>\<open>--domains\<close> value is accepted exactly when it is blank (all domains) or every
  comma-separated item, trimmed, names a domain; the result is then the named domains,
  once each, in the canonical order of \<^verbatim>\<open>ALL_DOMAINS\<close>.
\<close>
lemma parse_domain_selection_ok:
  "parse_domain_selection (Some v) = Inr ds \<longleftrightarrow>
     (if js_trim v = [] then ds = ALL_DOMAINS
      else js_trim ` set (split_on CHR '','' v) \<subseteq> range domain_name \<and>
           ds = filter (\<lambda>d. domain_name d \<in> js_trim ` set (split_on CHR '','' v)) ALL_DOMAINS)"
proof -
  let ?raws = "split_on CHR '','' v"
  let ?f = "the \<circ> domain_of_name \<circ> js_trim"
  have "filter (\<lambda>d. d \<in> set (rev (map ?f ?raws) @ [])) ALL_DOMAINS =
      filter (\<lambda>d. domain_name d \<in> js_trim ` set ?raws) ALL_DOMAINS"
    if "js_trim ` set ?raws \<subseteq> range domain_name"
    by (rule filter_cong [OF refl]) (rule named_selection [OF that])
  then show ?thesis
    unfolding parse_domain_selection_def option.case try_in_eq_Inr select_domains if_distrib [of "\<lambda>x. x = Inr ds"]
    by (simp only: sum.inject) metis
qed

lemma resource_route_inj:
  "resource_route d shape r = resource_route d' shape r' \<longleftrightarrow> d = d' \<and> r = r'"
proof
  assume "resource_route d shape r = resource_route d' shape r'"
  then have eq: "domain_name d @ CHR '':'' # (''//destroyer/'' @ namespace shape @ ''/'' @ domain_name d @ ''-'' @ pad r 4)
    = domain_name d' @ CHR '':'' # (''//destroyer/'' @ namespace shape @ ''/'' @ domain_name d' @ ''-'' @ pad r' 4)"
    by (simp add: resource_route_def)
  from separated_eq [OF eq] domain_name_no_sep show "d = d' \<and> r = r'"
    by (auto dest: domain_name_inj pad_inj)
qed simp

lemma schedule_route_inj:
  "schedule_route shape r e = schedule_route shape r' e' \<longleftrightarrow> r = r' \<and> e = e'"
proof
  assume "schedule_route shape r e = schedule_route shape r' e'"
  then have eq: "pad r 4 @ CHR ''/'' # (''job-'' @ pad e 8) = pad r' 4 @ CHR ''/'' # (''job-'' @ pad e' 8)"
    by (simp add: schedule_route_def)
  from separated_eq [OF eq] pad_no_sep show "r = r' \<and> e = e'"
    by (auto dest: pad_inj)
qed simp

lemma assert_bytes_equal_ok:
  "assert_bytes_equal actual expected context = Inr () \<longleftrightarrow> actual = expected"
  by (auto simp: assert_bytes_equal_def compare_bytes_ok)

end
