(* ===== verification/JsMap.thy ===== *)
theory JsMap
  imports Prelude
begin

text \<open>
  JavaScript maps and plain objects.  A \<^verbatim>\<open>Map\<close> (or an object used as one) is the list of
  its entries in insertion order: \<^verbatim>\<open>map_set\<close> overwrites an entry in place or appends a new
  one, \<^verbatim>\<open>map_get\<close> is \<^verbatim>\<open>None\<close> for \<^verbatim>\<open>undefined\<close>.  Keys that live on the object prototype
  and integer-like keys (which objects enumerate first) do not occur in the modelled code.

  The locale \<^verbatim>\<open>ordered_map\<close> is what the counting and grouping code of the repository
  relies on; it is interpreted on the entry lists at the end of the theory.
\<close>

type_synonym ('k, 'v) js_map = "('k \<times> 'v) list"

fun map_get :: "('k, 'v) js_map \<Rightarrow> 'k \<Rightarrow> 'v option" where
  "map_get [] k = None"
| "map_get ((k', v) # m) k = (if k' = k then Some v else map_get m k)"

fun map_set :: "('k, 'v) js_map \<Rightarrow> 'k \<Rightarrow> 'v \<Rightarrow> ('k, 'v) js_map" where
  "map_set [] k v = [(k, v)]"
| "map_set ((k', v') # m) k v = (if k' = k then (k, v) # m else (k', v') # map_set m k v)"

definition map_keys :: "('k, 'v) js_map \<Rightarrow> 'k list" where
  "map_keys m = map fst m"

definition get_or :: "'v \<Rightarrow> 'v option \<Rightarrow> 'v" where
  "get_or d v = (case v of None \<Rightarrow> d | Some x \<Rightarrow> x)"

text \<open>\<^verbatim>\<open>m[k] = (m[k] ?? 0) + n\<close>.\<close>

definition map_bump :: "('k, nat) js_map \<Rightarrow> 'k \<Rightarrow> nat \<Rightarrow> ('k, nat) js_map" where
  "map_bump m k n = map_set m k (get_or 0 (map_get m k) + n)"

lemma get_or_simps [simp]: "get_or d None = d" "get_or d (Some x) = x"
  by (simp_all add: get_or_def)

lemma map_get_eq: "map_get m = map_of m"
proof
  fix k show "map_get m k = map_of m k" by (induction m k rule: map_get.induct) auto
qed

subsection \<open>The interface\<close>

locale ordered_map =
  fixes get :: "'m \<Rightarrow> 'k \<Rightarrow> 'v option"
    and set_at :: "'m \<Rightarrow> 'k \<Rightarrow> 'v \<Rightarrow> 'm"
    and ks :: "'m \<Rightarrow> 'k list"
    and blank :: 'm
  assumes get_set_same [simp]: "get (set_at m k v) k = Some v"
    and get_set_other [simp]: "k' \<noteq> k \<Longrightarrow> get (set_at m k v) k' = get m k'"
    and keys_set: "ks (set_at m k v) = (if k \<in> set (ks m) then ks m else ks m @ [k])"
    and keys_get: "k \<in> set (ks m) \<longleftrightarrow> get m k \<noteq> None"
    and keys_blank [simp]: "ks blank = []"
begin

lemma get_blank [simp]: "get blank k = None"
  using keys_get [of k blank] by simp

lemma get_set: "get (set_at m k v) k' = (if k' = k then Some v else get m k')"
  by simp

lemma distinct_set: "distinct (ks m) \<Longrightarrow> distinct (ks (set_at m k v))"
  by (simp add: keys_set)

lemma set_keys_set: "set (ks (set_at m k v)) = insert k (set (ks m))"
  by (auto simp: keys_set)

text \<open>A loop that updates the entry named by each element.\<close>

lemma fold_set_distinct:
  "distinct (ks m) \<Longrightarrow> distinct (ks (foldl (\<lambda>m x. set_at m (key x) (val m x)) m xs))"
  by (induction xs arbitrary: m) (auto simp: distinct_set)

lemma fold_set_keys:
  "set (ks (foldl (\<lambda>m x. set_at m (key x) (val m x)) m xs)) = set (ks m) \<union> key ` set xs"
  by (induction xs arbitrary: m) (auto simp: set_keys_set)

lemma fold_set_other:
  "k \<notin> key ` set xs \<Longrightarrow> get (foldl (\<lambda>m x. set_at m (key x) (val m x)) m xs) k = get m k"
  by (induction xs arbitrary: m) auto

end

lemma map_get_set: "map_get (map_set m k v) k' = (if k' = k then Some v else map_get m k')"
  by (induction m k v rule: map_set.induct) auto

lemma map_keys_set: "map_keys (map_set m k v) = (if k \<in> set (map_keys m) then map_keys m else map_keys m @ [k])"
  by (induction m k v rule: map_set.induct) (auto simp: map_keys_def)

lemma map_keys_get: "k \<in> set (map_keys m) \<longleftrightarrow> map_get m k \<noteq> None"
  by (induction m k rule: map_get.induct) (auto simp: map_keys_def)

interpretation jm: ordered_map map_get map_set map_keys "[]"
  by unfold_locales (simp_all add: map_get_set map_keys_set map_keys_get, simp add: map_keys_def)

declare map_get_set [simp]

subsection \<open>Counting\<close>

definition map_total :: "('k, nat) js_map \<Rightarrow> nat" where
  "map_total m = sum_list (map snd m)"

lemma map_total_set:
  "map_total (map_set m k v) + get_or 0 (map_get m k) = map_total m + v"
  by (induction m k v rule: map_set.induct) (auto simp: map_total_def)

lemma map_total_bump [simp]: "map_total (map_bump m k n) = map_total m + n"
  using map_total_set [of m k "get_or 0 (map_get m k) + n"] by (simp add: map_bump_def)

lemma map_get_bump:
  "get_or 0 (map_get (map_bump m k n) k') = get_or 0 (map_get m k') + (if k' = k then n else 0)"
  by (simp add: map_bump_def)

lemma map_keys_bump: "set (map_keys (map_bump m k n)) = insert k (set (map_keys m))"
  by (simp add: map_bump_def jm.set_keys_set)

lemma distinct_bump: "distinct (map_keys m) \<Longrightarrow> distinct (map_keys (map_bump m k n))"
  by (simp add: map_bump_def jm.distinct_set)

lemma map_get_in: "distinct (map_keys m) \<Longrightarrow> (k, v) \<in> set m \<Longrightarrow> map_get m k = Some v"
  by (simp add: map_get_eq map_keys_def)

lemma map_get_Some_in: "map_get m k = Some v \<Longrightarrow> (k, v) \<in> set m"
  by (simp add: map_get_eq map_of_SomeD)

text \<open>Merging a second counter into the first, entry by entry.\<close>

lemma fold_bump_get:
  "distinct (map_keys d) \<Longrightarrow>
   get_or 0 (map_get (foldl (\<lambda>m (k, n). map_bump m k n) m d) k) =
     get_or 0 (map_get m k) + get_or 0 (map_get d k)"
proof (induction d arbitrary: m)
  case Nil
  then show ?case by simp
next
  case (Cons x d)
  obtain k' n where x: "x = (k', n)" by (cases x)
  with Cons.prems have "k' \<notin> set (map_keys d)" "distinct (map_keys d)" by (auto simp: map_keys_def)
  then show ?case using Cons.IH by (auto simp: x map_get_bump map_keys_get)
qed

lemma fold_bump_total:
  "map_total (foldl (\<lambda>m (k, n). map_bump m k n) m d) = map_total m + map_total d"
proof (induction d arbitrary: m)
  case Nil
  then show ?case by (simp add: map_total_def [of "[]"])
next
  case (Cons x d)
  then show ?case by (cases x) (simp add: map_total_def [of "_ # _"], simp add: map_total_def [of d])
qed

end
