(* ===== verification/JsNumber.thy ===== *)
theory JsNumber
  imports Prelude "HOL-Library.Log_Nat"
begin

text \<open>
  JavaScript numbers.  A finite number is the rational it denotes; \<^verbatim>\<open>fl\<close> rounds a rational
  to the nearest IEEE 754 binary64 value, ties to even, with gradual underflow, so the
  arithmetic operator applied to two numbers is \<^verbatim>\<open>fl\<close> of the exact result.  Overflow
  to \<^verbatim>\<open>Infinity\<close> is not modelled (\<^verbatim>\<open>fl\<close> has no upper bound) and \<^verbatim>\<open>-0\<close> is \<^verbatim>\<open>0\<close>.

  The locale \<^verbatim>\<open>rounding\<close> states what the metric code relies on (monotone, exact on the
  safe integers); it is interpreted on \<^verbatim>\<open>fl\<close> at the end of the theory.
\<close>

subsection \<open>Rounding to binary64\<close>

text \<open>The binary exponent of a positive rational: \<^verbatim>\<open>2^e \<le> x < 2^(e+1)\<close>.\<close>

definition expo :: "rat \<Rightarrow> int" where
  "expo x = (case quotient_of x of (p, q) \<Rightarrow>
     (let a = bitlen p - bitlen q in if 2 powi a \<le> x then a else a - 1))"

text \<open>Round to the nearest integer, ties to even.\<close>

definition rne :: "rat \<Rightarrow> int" where
  "rne y = (let f = \<lfloor>y\<rfloor>; d = y - of_int f in
     if d < 1 / 2 then f else if d > 1 / 2 then f + 1 else if even f then f else f + 1)"

definition ulp_expo :: "rat \<Rightarrow> int" where
  "ulp_expo x = max (expo x - 52) (- 1074)"

definition fl :: "rat \<Rightarrow> rat" where
  "fl x = (if x = 0 then 0 else
     (let u = 2 powi ulp_expo \<bar>x\<bar> in sgn x * (u * of_int (rne (\<bar>x\<bar> / u)))))"

text \<open>\<^verbatim>\<open>Math.round\<close>: the nearest integer, ties towards plus infinity.\<close>

definition js_round :: "rat \<Rightarrow> int" where
  "js_round x = \<lfloor>x + 1 / 2\<rfloor>"

definition max_safe_integer :: int where
  "max_safe_integer = 9007199254740991"

definition is_safe_integer :: "rat \<Rightarrow> bool" where
  "is_safe_integer x = (x = of_int \<lfloor>x\<rfloor> \<and> \<bar>\<lfloor>x\<rfloor>\<bar> \<le> max_safe_integer)"

subsection \<open>Facts about the integer rounding\<close>

lemma rne_of_int [simp]: "rne (of_int n) = n"
  by (simp add: rne_def)

lemma rne_cases: "rne y = \<lfloor>y\<rfloor> \<and> y - of_int \<lfloor>y\<rfloor> \<le> 1 / 2 \<or> rne y = \<lfloor>y\<rfloor> + 1 \<and> y - of_int \<lfloor>y\<rfloor> \<ge> 1 / 2"
  by (auto simp: rne_def Let_def)

lemma rne_error: "\<bar>of_int (rne y) - y\<bar> \<le> 1 / 2"
proof -
  have "of_int \<lfloor>y\<rfloor> \<le> y" "y < of_int \<lfloor>y\<rfloor> + 1" by linarith+
  then show ?thesis using rne_cases [of y] by (auto simp: abs_le_iff)
qed

lemma rne_mono: assumes "x \<le> y" shows "rne x \<le> rne y"
proof (cases "\<lfloor>x\<rfloor> = \<lfloor>y\<rfloor>")
  case True
  with assms show ?thesis by (auto simp: rne_def Let_def)
next
  case False
  with assms have "\<lfloor>x\<rfloor> + 1 \<le> \<lfloor>y\<rfloor>" by (meson floor_mono less_le zless_imp_add1_zle)
  then show ?thesis using rne_cases [of x] rne_cases [of y] by auto
qed

lemma rne_le_int: "y \<le> of_int n \<Longrightarrow> rne y \<le> n"
  using rne_mono [of y "of_int n"] by simp

lemma rne_ge_int: "of_int n \<le> y \<Longrightarrow> n \<le> rne y"
  using rne_mono [of "of_int n" y] by simp

subsection \<open>The binary exponent\<close>

lemma powi_nat_int: "0 \<le> k \<Longrightarrow> (2 :: rat) powi k = of_int (2 ^ nat k)"
  by (simp add: power_int_def)

lemma powi_add: "(2 :: rat) powi (a + b) = 2 powi a * 2 powi b"
  by (simp add: power_int_add)

lemma powi_grid: "k \<le> e \<Longrightarrow> (2 :: rat) powi e = 2 powi k * of_int (2 ^ nat (e - k))"
  using powi_add [of k "e - k"] powi_nat_int [of "e - k"] by simp

lemma bitlen_powi:
  assumes "0 < p" shows "(2 :: rat) powi (bitlen p - 1) \<le> of_int p \<and> of_int p < (2 :: rat) powi bitlen p"
proof -
  from assms have "0 < bitlen p" by (simp add: bitlen_eq_zero_iff bitlen_nonneg order_less_le)
  moreover have "2 ^ nat (bitlen p - 1) \<le> p" "p < 2 ^ nat (bitlen p)"
    using bitlen_bounds [OF assms] by auto
  ultimately show ?thesis by (simp add: powi_nat_int del: of_int_power flip: of_int_power)
qed

lemma expo_bounds:
  assumes "0 < x" shows "2 powi expo x \<le> x \<and> x < 2 powi (expo x + 1)"
proof -
  obtain p q where pq: "quotient_of x = (p, q)" by (cases "quotient_of x")
  then have q: "0 < q" and x: "x = of_int p / of_int q"
    by (simp_all add: quotient_of_denom_pos quotient_of_div)
  from assms q x have p: "0 < p" by (simp add: zero_less_divide_iff)
  let ?a = "bitlen p - bitlen q"
  note bp = bitlen_powi [OF p] and bq = bitlen_powi [OF q]
  have "2 powi (?a - 1) = (2 :: rat) powi (bitlen p - 1) / 2 powi bitlen q"
    using powi_add [of "bitlen p - bitlen q - 1" "bitlen q"] by (simp add: field_simps)
  also have "\<dots> \<le> x" unfolding x using bp bq p q by (intro frac_le) auto
  finally have lo: "2 powi (?a - 1) \<le> x" .
  have "x < (2 :: rat) powi bitlen p / 2 powi (bitlen q - 1)"
    unfolding x using bp bq p q by (intro frac_less) auto
  also have "\<dots> = 2 powi (?a + 1)"
    using powi_add [of "bitlen p - bitlen q + 1" "bitlen q - 1"] by (simp add: field_simps)
  finally have "x < 2 powi (?a + 1)" .
  then show ?thesis using lo by (simp add: expo_def pq Let_def)
qed

lemma powi_mono: "a \<le> b \<Longrightarrow> (2 :: rat) powi a \<le> 2 powi b"
  by (rule power_int_increasing) auto

lemma expo_mono:
  assumes "0 < x" "x \<le> y" shows "expo x \<le> expo y"
proof (rule ccontr)
  assume "\<not> ?thesis"
  then have "(2 :: rat) powi (expo y + 1) \<le> 2 powi expo x" by (intro powi_mono) simp
  with expo_bounds [of x] expo_bounds [of y] assms show False by linarith
qed

subsection \<open>Rounding is monotone and exact on the safe integers\<close>

definition ulp :: "rat \<Rightarrow> rat" where
  "ulp x = 2 powi ulp_expo x"

lemma ulp_pos [simp]: "0 < ulp x"
  by (simp add: ulp_def)

lemma fl_pos: "0 < x \<Longrightarrow> fl x = ulp x * of_int (rne (x / ulp x))"
  by (simp add: fl_def ulp_def Let_def)

lemma fl_zero [simp]: "fl 0 = 0"
  by (simp add: fl_def)

lemma fl_neg: "fl (- x) = - fl x"
  by (simp add: fl_def Let_def)

lemma fl_nonneg: "0 \<le> x \<Longrightarrow> 0 \<le> fl x"
  using rne_ge_int [of 0 "x / ulp x"] ulp_pos [of x]
  by (cases "x = 0") (auto simp: fl_pos less_imp_le intro!: mult_nonneg_nonneg)

lemma fl_le_grid: "0 < x \<Longrightarrow> x \<le> ulp x * of_int n \<Longrightarrow> fl x \<le> ulp x * of_int n"
  using rne_le_int [of "x / ulp x" n] by (simp add: fl_pos field_simps)

lemma fl_ge_grid: "0 < x \<Longrightarrow> ulp x * of_int n \<le> x \<Longrightarrow> ulp x * of_int n \<le> fl x"
  using rne_ge_int [of n "x / ulp x"] by (simp add: fl_pos field_simps)

lemma fl_mono_pos:
  assumes "0 < x" "x \<le> y" shows "fl x \<le> fl y"
proof (cases "ulp_expo x = ulp_expo y")
  case True
  then have "ulp x = ulp y" by (simp add: ulp_def)
  moreover have "rne (x / ulp y) \<le> rne (y / ulp y)"
    using assms by (intro rne_mono divide_right_mono) (auto simp: less_imp_le)
  ultimately show ?thesis using assms by (simp add: fl_pos)
next
  case False
  have "expo x \<le> expo y" using assms by (rule expo_mono)
  with False have e: "expo x < expo y" and k: "ulp_expo y = expo y - 52" "ulp_expo x \<le> expo y"
    by (auto simp: ulp_expo_def)
  have "x < 2 powi (expo x + 1)" using expo_bounds assms by blast
  also have "\<dots> \<le> 2 powi expo y" using e by (intro powi_mono) simp
  finally have "x \<le> ulp x * of_int (2 ^ nat (expo y - ulp_expo x))"
    using powi_grid [OF k(2)] by (simp add: ulp_def)
  then have "fl x \<le> 2 powi expo y"
    using fl_le_grid [OF assms(1)] powi_grid [OF k(2)] by (metis ulp_def)
  moreover have "2 powi expo y = ulp y * of_int (2 ^ 52)"
    using k by (simp add: ulp_def power_int_diff)
  then have "2 powi expo y \<le> fl y"
    using fl_ge_grid [of y "2 ^ 52"] expo_bounds [of y] assms by simp
  ultimately show ?thesis by simp
qed

lemma fl_mono: assumes "x \<le> y" shows "fl x \<le> fl y"
proof -
  consider "0 < x" | "x \<le> 0" "0 \<le> y" | "y < 0" by linarith
  then show ?thesis
  proof cases
    case 1
    then show ?thesis using assms by (rule fl_mono_pos)
  next
    case 2
    then have "fl x \<le> 0" using fl_nonneg [of "- x"] by (simp add: fl_neg)
    then show ?thesis using fl_nonneg [OF 2(2)] by simp
  next
    case 3
    then have "fl (- y) \<le> fl (- x)" using assms by (intro fl_mono_pos) auto
    then show ?thesis by (simp add: fl_neg)
  qed
qed

lemma fl_of_pos_int:
  assumes "0 < n" "n \<le> 2 ^ 53" shows "fl (of_int n) = of_int n"
proof (cases "n = 2 ^ 53")
  case True
  have "fl 9007199254740992 = 9007199254740992" by code_simp
  with True show ?thesis by simp
next
  case False
  let ?x = "of_int n :: rat"
  have x: "0 < ?x" "?x < 2 powi 53" using assms False by (auto simp: of_int_less_iff [of _ "2 ^ 53", symmetric, where 'a = rat] simp del: of_int_less_iff)
  have "expo ?x < 53"
  proof (rule ccontr)
    assume "\<not> expo ?x < 53"
    then have "(2 :: rat) powi 53 \<le> 2 powi expo ?x" by (intro powi_mono) simp
    with expo_bounds [OF x(1)] x(2) show False by simp
  qed
  then have k: "ulp_expo ?x \<le> 0" by (simp add: ulp_expo_def)
  then have "?x / ulp ?x = of_int (n * 2 ^ nat (- ulp_expo ?x))"
    by (simp add: ulp_def power_int_def field_simps)
  then have "rne (?x / ulp ?x) = n * 2 ^ nat (- ulp_expo ?x)" by (metis rne_of_int)
  moreover have "ulp ?x * 2 ^ nat (- ulp_expo ?x) = 1"
    using k by (auto simp: ulp_def power_int_def power_one_over)
  ultimately show ?thesis using x(1) by (simp add: fl_pos mult.left_commute)
qed

lemma fl_of_int: "\<bar>n\<bar> \<le> 2 ^ 53 \<Longrightarrow> fl (of_int n) = of_int n"
  using fl_of_pos_int [of n] fl_of_pos_int [of "- n"] fl_neg [of "of_int n"]
  by (cases n "0 :: int" rule: linorder_cases) (auto simp: fl_neg)

lemma fl_of_nat: "n \<le> 2 ^ 53 \<Longrightarrow> fl (of_nat n) = of_nat n"
  using fl_of_int [of "int n"] by simp

lemma fl_numeral [simp]: "numeral w \<le> (2 ^ 53 :: int) \<Longrightarrow> fl (numeral w) = numeral w"
  using fl_of_int [of "numeral w"] by simp

lemma fl_one [simp]: "fl 1 = 1"
  using fl_of_int [of 1] by simp

lemma safe_integer_fl: "is_safe_integer x \<Longrightarrow> fl x = x"
proof -
  assume safe: "is_safe_integer x"
  then have "\<bar>\<lfloor>x\<rfloor>\<bar> \<le> 2 ^ 53" by (simp add: is_safe_integer_def max_safe_integer_def)
  then have "fl (of_int \<lfloor>x\<rfloor>) = of_int \<lfloor>x\<rfloor>" by (rule fl_of_int)
  with safe show "fl x = x" by (metis is_safe_integer_def)
qed

lemma safe_integer_diff:
  assumes "is_safe_integer x" "is_safe_integer y" "0 \<le> y" "y \<le> x" shows "is_safe_integer (x - y)"
proof -
  obtain m n :: int where x: "x = of_int m" "\<bar>m\<bar> \<le> max_safe_integer" and y: "y = of_int n" "\<bar>n\<bar> \<le> max_safe_integer"
    using assms(1,2) unfolding is_safe_integer_def by blast
  then have d: "x - y = of_int (m - n)" by simp
  have "0 \<le> n" "n \<le> m" using assms(3,4) x y by simp_all
  then show ?thesis using x y unfolding d is_safe_integer_def floor_of_int by simp
qed

lemma fl_error:
  assumes "2 powi (- 1022) \<le> x" shows "\<bar>fl x - x\<bar> \<le> x * 2 powi (- 53)"
proof -
  from assms have x: "0 < x" by (metis less_le_trans zero_less_numeral zero_less_power_int)
  have "expo x \<ge> - 1022"
  proof (rule ccontr)
    assume "\<not> ?thesis"
    then have "(2 :: rat) powi (expo x + 1) \<le> 2 powi (- 1022)" by (intro powi_mono) simp
    with expo_bounds [OF x] assms show False by simp
  qed
  then have k: "ulp_expo x = expo x - 52" by (simp add: ulp_expo_def)
  have "fl x - x = ulp x * (of_int (rne (x / ulp x)) - x / ulp x)"
    using ulp_pos [of x] x by (simp add: fl_pos right_diff_distrib less_imp_neq [symmetric])
  then have "\<bar>fl x - x\<bar> = ulp x * \<bar>of_int (rne (x / ulp x)) - x / ulp x\<bar>"
    using ulp_pos [of x] by (simp only: abs_mult abs_of_pos)
  also have "\<dots> \<le> ulp x * (1 / 2)" by (intro mult_left_mono rne_error) (simp add: less_imp_le)
  also have "\<dots> = 2 powi expo x * 2 powi (- 53)" by (simp add: ulp_def k power_int_diff power_int_minus)
  also have "\<dots> \<le> x * 2 powi (- 53)" using expo_bounds [OF x] by (intro mult_right_mono) auto
  finally show ?thesis .
qed

lemma fl_le_int: assumes "x \<le> of_int n" "\<bar>n\<bar> \<le> 2 ^ 53" shows "fl x \<le> of_int n"
  using fl_mono [OF assms(1)] fl_of_int [OF assms(2)] by simp

lemma fl_ge_int: assumes "of_int n \<le> x" "\<bar>n\<bar> \<le> 2 ^ 53" shows "of_int n \<le> fl x"
  using fl_mono [OF assms(1)] fl_of_int [OF assms(2)] by simp

lemma js_round_mono: "x \<le> y \<Longrightarrow> js_round x \<le> js_round y"
  by (simp add: js_round_def floor_mono)

lemma js_round_of_int [simp]: "js_round (of_int n) = n"
proof -
  have "of_int n + 1 / 2 < (of_int n + 1 :: rat)" by simp
  then show ?thesis unfolding js_round_def by (intro floor_unique) auto
qed

lemma js_round_error: "\<bar>of_int (js_round x) - x\<bar> \<le> 1 / 2"
  unfolding js_round_def by linarith


subsection \<open>What the metric code relies on\<close>

text \<open>
  \<^verbatim>\<open>round2\<close> is \<^verbatim>\<open>Math.round(value * 100) / 100\<close>, the rounding helper shared by
  src/pressure.ts, src/operational-guidance.ts and src/operational-guidance-completion.ts.
  The locale holds what follows from any monotone rounding that is exact on the safe integers.
\<close>

locale rounding =
  fixes rnd :: "rat \<Rightarrow> rat"
  assumes rnd_mono: "x \<le> y \<Longrightarrow> rnd x \<le> rnd y"
    and rnd_int: "\<bar>n\<bar> \<le> 2 ^ 53 \<Longrightarrow> rnd (of_int n) = of_int n"
begin

lemma rnd_0 [simp]: "rnd 0 = 0"
  using rnd_int [of 0] by simp

lemma rnd_nonneg: "0 \<le> x \<Longrightarrow> 0 \<le> rnd x"
  using rnd_mono [of 0 x] by simp

lemma hundredths_mono:
  "x \<le> y \<Longrightarrow> rnd (of_int (js_round (rnd (x * 100))) / 100) \<le> rnd (of_int (js_round (rnd (y * 100))) / 100)"
  by (intro rnd_mono divide_right_mono of_int_le_iff [THEN iffD2] js_round_mono mult_right_mono) auto

lemma hundredths_nonneg: "0 \<le> x \<Longrightarrow> 0 \<le> rnd (of_int (js_round (rnd (x * 100))) / 100)"
  using hundredths_mono [of 0 x] js_round_of_int [of 0] by simp

lemma hundredths_int:
  assumes "\<bar>n\<bar> * 100 \<le> 2 ^ 53" shows "rnd (of_int (js_round (rnd (of_int n * 100))) / 100) = of_int n"
proof -
  have "rnd (of_int (n * 100)) = of_int (n * 100)" using assms by (intro rnd_int) (simp add: abs_mult)
  then have "js_round (rnd (of_int n * 100)) = n * 100" by (metis js_round_of_int of_int_mult of_int_numeral)
  then show ?thesis using assms by (simp add: rnd_int)
qed

lemma quotient_mono:
  assumes "0 \<le> a" "a \<le> b" "0 < d'" "d' \<le> d" shows "rnd (a / d) \<le> rnd (b / d')"
  using assms by (intro rnd_mono frac_le) auto

end

interpretation dbl: rounding fl
  by unfold_locales (auto intro: fl_mono fl_of_int)

definition round2 :: "rat \<Rightarrow> rat" where
  "round2 value = fl (of_int (js_round (fl (value * 100))) / 100)"

lemma round2_mono: "x \<le> y \<Longrightarrow> round2 x \<le> round2 y"
  unfolding round2_def by (rule dbl.hundredths_mono)

lemma round2_nonneg: "0 \<le> x \<Longrightarrow> 0 \<le> round2 x"
  unfolding round2_def by (rule dbl.hundredths_nonneg)

lemma round2_of_int: "\<bar>n\<bar> * 100 \<le> 2 ^ 53 \<Longrightarrow> round2 (of_int n) = of_int n"
  unfolding round2_def by (rule dbl.hundredths_int)

end
