(* ===== verification/Json.thy ===== *)
theory Json
  imports JsMap JsNumber
begin

text \<open>
  Access to the JSON values of the prelude.
\<close>

text \<open>\<^verbatim>\<open>typeof value === "object" && value !== null && !Array.isArray(value)\<close>.\<close>

definition is_plain_object :: "json \<Rightarrow> bool" where
  "is_plain_object j = (case j of JObj _ \<Rightarrow> True | _ \<Rightarrow> False)"

text \<open>\<^verbatim>\<open>value.key\<close> on an object; \<^verbatim>\<open>None\<close> is \<^verbatim>\<open>undefined\<close>.\<close>

definition json_get :: "json \<Rightarrow> string \<Rightarrow> json option" where
  "json_get j k = (case j of JObj m \<Rightarrow> map_get m k | _ \<Rightarrow> None)"

lemma json_get_obj [simp]: "json_get (JObj m) k = map_get m k"
  by (simp add: json_get_def)

lemma json_get_Some: "json_get j k = Some v \<Longrightarrow> \<exists>m. j = JObj m \<and> (k, v) \<in> set m"
  by (cases j) (auto simp: json_get_def dest: map_get_Some_in)

end
