(* ===== verification/Text.thy ===== *)
theory Text
  imports Prelude
begin

text \<open>
  The regular expressions of the error classifier (src/pressure.ts) on strings of code units
  below 256: \<^verbatim>\<open>has_word\<close> is \<^verbatim>\<open>/\b(?:a|b|c)\b/\<close>, \<^verbatim>\<open>has_word_start\<close> is
  \<^verbatim>\<open>/\b(?:a|b)\w*\b/\<close>; case-insensitive patterns are matched on the lowered text.
\<close>

definition is_word_char :: "char \<Rightarrow> bool" where
  "is_word_char c = (let n = of_char c :: nat in
     48 \<le> n \<and> n \<le> 57 \<or> 65 \<le> n \<and> n \<le> 90 \<or> 97 \<le> n \<and> n \<le> 122 \<or> n = 95)"

definition lower_char :: "char \<Rightarrow> char" where
  "lower_char c = (let n = of_char c :: nat in if 65 \<le> n \<and> n \<le> 90 then char_of (n + 32) else c)"

definition lower :: "string \<Rightarrow> string" where
  "lower s = map lower_char s"

fun head_word :: "string \<Rightarrow> bool" where
  "head_word [] = False"
| "head_word (c # _) = is_word_char c"

fun last_word :: "string \<Rightarrow> bool" where
  "last_word s = head_word (rev s)"

declare last_word.simps [simp del]

text \<open>The alternatives of a group tried at one position, a word boundary on both sides.\<close>

definition word_here :: "string list \<Rightarrow> bool \<Rightarrow> string \<Rightarrow> bool" where
  "word_here alts before s =
     list_ex (\<lambda>a. prefix a s \<and> before \<noteq> head_word s \<and> last_word a \<noteq> head_word (drop (length a) s)) alts"

fun has_word_from :: "string list \<Rightarrow> bool \<Rightarrow> string \<Rightarrow> bool" where
  "has_word_from alts before [] = word_here alts before []"
| "has_word_from alts before (c # s) =
     (word_here alts before (c # s) \<or> has_word_from alts (is_word_char c) s)"

definition has_word :: "string list \<Rightarrow> string \<Rightarrow> bool" where
  "has_word alts s = has_word_from alts False s"

text \<open>
  The \<^verbatim>\<open>\w*\<close> is greedy and stops at a boundary, so only the start of the word matters.
\<close>

fun has_word_start_from :: "string list \<Rightarrow> bool \<Rightarrow> string \<Rightarrow> bool" where
  "has_word_start_from alts before [] = False"
| "has_word_start_from alts before (c # s) =
     (list_ex (\<lambda>a. prefix a (c # s) \<and> before \<noteq> is_word_char c) alts \<or>
      has_word_start_from alts (is_word_char c) s)"

definition has_word_start :: "string list \<Rightarrow> string \<Rightarrow> bool" where
  "has_word_start alts s = has_word_start_from alts False s"

lemma last_word_append [simp]: "last_word (s @ [c]) = is_word_char c"
  by (simp add: last_word.simps)

lemma last_word_Nil [simp]: "last_word [] = False"
  by (simp add: last_word.simps)

lemma last_word_Cons: "last_word (c # s) = (if s = [] then is_word_char c else last_word s)"
  by (cases s rule: rev_cases) (auto simp: last_word.simps)

text \<open>What the matcher decides: an alternative occurs between two word boundaries.\<close>

definition occurs_as_word :: "bool \<Rightarrow> string \<Rightarrow> string \<Rightarrow> bool" where
  "occurs_as_word before a s = (\<exists>u v. s = u @ a @ v \<and>
     (if u = [] then before else last_word u) \<noteq> head_word (a @ v) \<and> last_word a \<noteq> head_word v)"

lemma word_here_iff:
  "word_here alts before s \<longleftrightarrow>
     (\<exists>a \<in> set alts. \<exists>v. s = a @ v \<and> before \<noteq> head_word (a @ v) \<and> last_word a \<noteq> head_word v)"
proof -
  have "prefix a s \<and> before \<noteq> head_word s \<and> last_word a \<noteq> head_word (drop (length a) s) \<longleftrightarrow>
      (\<exists>v. s = a @ v \<and> before \<noteq> head_word (a @ v) \<and> last_word a \<noteq> head_word v)" for a
    by (auto elim!: prefixE)
  then show ?thesis by (simp add: word_here_def list_ex_iff)
qed

lemma occurs_Cons:
  "occurs_as_word before a (c # s) \<longleftrightarrow>
     (\<exists>v. c # s = a @ v \<and> before \<noteq> head_word (a @ v) \<and> last_word a \<noteq> head_word v) \<or>
     occurs_as_word (is_word_char c) a s" (is "?l \<longleftrightarrow> ?here \<or> ?rest")
proof
  assume ?l
  then obtain u v where uv: "c # s = u @ a @ v"
    "(if u = [] then before else last_word u) \<noteq> head_word (a @ v)" "last_word a \<noteq> head_word v"
    by (auto simp: occurs_as_word_def)
  show "?here \<or> ?rest"
  proof (cases u)
    case Nil
    with uv show ?thesis by auto
  next
    case (Cons c' u')
    with uv have "s = u' @ a @ v" "c' = c" by auto
    with uv Cons show ?thesis unfolding occurs_as_word_def
      by (intro disjI2 exI [of _ u'] exI [of _ v]) (auto simp: last_word_Cons split: if_splits)
  qed
next
  assume "?here \<or> ?rest"
  then show ?l
  proof
    assume ?here
    then obtain v where "c # s = a @ v" "before \<noteq> head_word (a @ v)" "last_word a \<noteq> head_word v" by blast
    then show ?l unfolding occurs_as_word_def by (intro exI [of _ "[]"] exI [of _ v]) simp
  next
    assume ?rest
    then obtain u v where "s = u @ a @ v"
      "(if u = [] then is_word_char c else last_word u) \<noteq> head_word (a @ v)" "last_word a \<noteq> head_word v"
      by (auto simp: occurs_as_word_def)
    then show ?l unfolding occurs_as_word_def
      by (intro exI [of _ "c # u"] exI [of _ v]) (auto simp: last_word_Cons split: if_splits)
  qed
qed

lemma has_word_from_iff: "has_word_from alts before s \<longleftrightarrow> (\<exists>a \<in> set alts. occurs_as_word before a s)"
proof (induction s arbitrary: before)
  case Nil
  then show ?case by (auto simp: word_here_iff occurs_as_word_def)
next
  case (Cons c s)
  then show ?case by (simp only: has_word_from.simps word_here_iff occurs_Cons) blast
qed

lemma has_word_iff: "has_word alts s \<longleftrightarrow> (\<exists>a \<in> set alts. occurs_as_word False a s)"
  by (simp add: has_word_def has_word_from_iff)

end
