(* ===== verification/Pressure.thy ===== *)
theory Pressure
  imports Model Json Text
begin

text \<open>
  The pressure metrics (src/pressure.ts): latency histograms and their percentiles, stage
  counters with the error classifier, the reconciliation of queue outcomes against the
  messages the broker still held, and the diagnostic warnings.
\<close>

subsection \<open>Data\<close>

definition LATENCY_BUCKET_UPPER_MS :: "rat list" where
  "LATENCY_BUCKET_UPPER_MS =
     [1, 2, 5, 10, 25, 50, 100, 250, 500, 1000, 2500, 5000, 10000, 30000, 60000]"

datatype error_class = Timeout | Connection | Capacity | Conflict | Cancelled | Protocol | Unknown

record latency_histogram =
  count :: nat
  totalMs :: rat
  maxMs :: rat
  buckets :: "nat list"
  overflow :: nat

record shutdown_cancellations =
  failed_esc :: nat
  ambiguous_esc :: nat

record stage_state =
  started :: nat
  succeeded :: nat
  failed :: nat
  ambiguous :: nat
  retryableBackpressure :: nat
  expectedShutdownCancellations :: shutdown_cancellations
  latency :: latency_histogram
  errorClasses :: "(error_class, nat) js_map"
  errorSamples :: "(error_class \<times> string) list"

type_synonym pressure_stages = "(domain, (string, stage_state) js_map) js_map"

subsection \<open>Stage metrics\<close>

definition empty_histogram :: latency_histogram where
  "empty_histogram =
     \<lparr>count = 0, totalMs = 0, maxMs = 0, buckets = map (\<lambda>_. 0) LATENCY_BUCKET_UPPER_MS, overflow = 0\<rparr>"

definition create_stage_metrics :: stage_state where
  "create_stage_metrics =
     \<lparr>started = 0, succeeded = 0, failed = 0, ambiguous = 0, retryableBackpressure = 0,
      expectedShutdownCancellations = \<lparr>failed_esc = 0, ambiguous_esc = 0\<rparr>,
      latency = empty_histogram, errorClasses = [], errorSamples = []\<rparr>"

text \<open>
  \<^verbatim>\<open>stageMetrics\<close> returns a reference into the tree it extends; here the extended tree and
  the value, which the caller stores back with \<^verbatim>\<open>put_stage\<close>.
\<close>

definition stage_metrics :: "pressure_stages \<Rightarrow> domain \<Rightarrow> string \<Rightarrow> pressure_stages \<times> stage_state" where
  "stage_metrics stages d stage =
     (let domain_stages = get_or [] (map_get stages d);
          m = get_or create_stage_metrics (map_get domain_stages stage)
      in (map_set stages d (map_set domain_stages stage m), m))"

definition put_stage :: "pressure_stages \<Rightarrow> domain \<Rightarrow> string \<Rightarrow> stage_state \<Rightarrow> pressure_stages" where
  "put_stage stages d stage m = map_set stages d (map_set (get_or [] (map_get stages d)) stage m)"

fun find_index :: "('a \<Rightarrow> bool) \<Rightarrow> 'a list \<Rightarrow> nat option" where
  "find_index P [] = None"
| "find_index P (x # xs) = (if P x then Some 0 else map_option Suc (find_index P xs))"

definition record_latency :: "latency_histogram \<Rightarrow> rat \<Rightarrow> latency_histogram" where
  "record_latency h elapsedMs =
     (let value = max 0 elapsedMs;
          h1 = h\<lparr>count := count h + 1, totalMs := fl (totalMs h + value), maxMs := max (maxMs h) value\<rparr>
      in case find_index (\<lambda>upper. value \<le> upper) LATENCY_BUCKET_UPPER_MS of
           None \<Rightarrow> h1\<lparr>overflow := overflow h1 + 1\<rparr>
         | Some i \<Rightarrow> h1\<lparr>buckets := (buckets h1)[i := buckets h1 ! i + 1]\<rparr>)"

definition record_stage_latency :: "stage_state \<Rightarrow> rat \<Rightarrow> stage_state" where
  "record_stage_latency m elapsedMs = m\<lparr>latency := record_latency (latency m) elapsedMs\<rparr>"

subsection \<open>Errors\<close>

text \<open>A caught value: an \<^verbatim>\<open>Error\<close> with its name and message, or anything else as \<^verbatim>\<open>String(error)\<close>.\<close>

datatype thrown = ErrorObject string string | OtherThrown string

fun error_name :: "thrown \<Rightarrow> string" where
  "error_name (ErrorObject name message) = name"
| "error_name (OtherThrown s) = []"

fun error_message :: "thrown \<Rightarrow> string" where
  "error_message (ErrorObject name message) = name @ '': '' @ message"
| "error_message (OtherThrown s) = s"

definition normalize_error_class :: "thrown \<Rightarrow> error_class" where
  "normalize_error_class error =
     (let name = error_name error;
          message = error_message error;
          both = lower (name @ '' '' @ message)
      in if name = ''TimeoutError'' \<or>
            has_word [''timeout'', ''time out'', ''timed out'', ''deadline''] (lower message) then Timeout
         else if has_word_start [''abort'', ''cancel''] both \<or>
                 has_word [''received SIGINT'', ''received SIGTERM''] message then Cancelled
         else if has_word [''queuefull'', ''requestqueuefull'', ''capacity'', ''overload'', ''backpressure'',
                           ''mailbox full''] both then Capacity
         else if has_word [''conflict'', ''expectedoffsetmismatch'', ''already exists'', ''invalid token''] both
           then Conflict
         else if has_word [''socket'', ''connection'', ''connect'', ''disconnect'', ''network'', ''econn'',
                           ''closed'', ''websocket''] both then Connection
         else if has_word [''protocol'', ''frame'', ''codec'', ''decode'', ''encode'', ''tlv'',
                           ''buffer overflow'', ''cannot read''] both then Protocol
         else Unknown)"

definition record_stage_error :: "stage_state \<Rightarrow> thrown \<Rightarrow> bool \<Rightarrow> bool \<Rightarrow> stage_state \<times> error_class" where
  "record_stage_error m error is_ambiguous expected =
     (let c = normalize_error_class error;
          esc = expectedShutdownCancellations m;
          m1 = (if is_ambiguous
                then m\<lparr>ambiguous := ambiguous m + 1,
                       expectedShutdownCancellations :=
                         (if expected then esc\<lparr>ambiguous_esc := ambiguous_esc esc + 1\<rparr> else esc)\<rparr>
                else m\<lparr>failed := failed m + 1,
                       expectedShutdownCancellations :=
                         (if expected then esc\<lparr>failed_esc := failed_esc esc + 1\<rparr> else esc)\<rparr>);
          m2 = m1\<lparr>errorClasses := map_bump (errorClasses m1) c 1\<rparr>;
          m3 = (if length (errorSamples m2) < 5
                then m2\<lparr>errorSamples := errorSamples m2 @ [(c, error_message error)]\<rparr> else m2)
      in (m3, c))"

definition is_ambiguous_durable_error :: "thrown \<Rightarrow> bool" where
  "is_ambiguous_durable_error error =
     (let c = normalize_error_class error in c = Timeout \<or> c = Connection \<or> c = Cancelled \<or> c = Protocol)"

subsection \<open>Percentiles\<close>

definition js_ceil :: "rat \<Rightarrow> int" where
  "js_ceil x = \<lceil>x\<rceil>"

definition percentile_target :: "nat \<Rightarrow> rat \<Rightarrow> int" where
  "percentile_target n fraction = js_ceil (fl (of_nat n * fl fraction))"

fun percentile_scan :: "int \<Rightarrow> int \<Rightarrow> rat \<Rightarrow> rat list \<Rightarrow> nat list \<Rightarrow> rat" where
  "percentile_scan target cumulative dflt uppers [] = dflt"
| "percentile_scan target cumulative dflt uppers (c # cs) =
     (if target \<le> cumulative + int c then (case uppers of [] \<Rightarrow> dflt | u # _ \<Rightarrow> u)
      else percentile_scan target (cumulative + int c) dflt (tl uppers) cs)"

definition percentile :: "latency_histogram \<Rightarrow> rat \<Rightarrow> rat" where
  "percentile h fraction =
     (if count h = 0 then 0
      else percentile_scan (percentile_target (count h) fraction) 0 (round2 (maxMs h))
             LATENCY_BUCKET_UPPER_MS (buckets h))"

record latency_report =
  count_sum :: nat
  meanMs :: rat
  p50Ms :: rat
  p95Ms :: rat
  p99Ms :: rat
  maxMs_sum :: rat

definition latency_summary :: "latency_histogram \<Rightarrow> latency_report" where
  "latency_summary h =
     \<lparr>count_sum = count h,
      meanMs = (if count h = 0 then 0 else round2 (fl (totalMs h / of_nat (count h)))),
      p50Ms = percentile h (1 / 2), p95Ms = percentile h (95 / 100), p99Ms = percentile h (99 / 100),
      maxMs_sum = round2 (maxMs h)\<rparr>"

definition merge_into :: "latency_histogram \<Rightarrow> latency_histogram \<Rightarrow> latency_histogram result" where
  "merge_into merged h =
     (if length (buckets h) \<noteq> length LATENCY_BUCKET_UPPER_MS
      then Inl (Error ''Latency histogram expected $ buckets, found $''
                  [ANat (length LATENCY_BUCKET_UPPER_MS), ANat (length (buckets h))])
      else Inr \<lparr>count = count merged + count h, totalMs = fl (totalMs merged + totalMs h),
                maxMs = max (maxMs merged) (maxMs h),
                buckets = map2 (+) (buckets merged) (buckets h),
                overflow = overflow merged + overflow h\<rparr>)"

definition merge_latency_histograms :: "latency_histogram list \<Rightarrow> latency_histogram result" where
  "merge_latency_histograms hs = fold_result merge_into empty_histogram hs"

subsection \<open>Histograms represent their samples\<close>

definition bucket_of :: "rat \<Rightarrow> nat option" where
  "bucket_of x = find_index (\<lambda>upper. max 0 x \<le> upper) LATENCY_BUCKET_UPPER_MS"

definition histogram_of :: "rat list \<Rightarrow> latency_histogram" where
  "histogram_of xs = foldl record_latency empty_histogram xs"

lemma find_index_Some: "find_index P xs = Some i \<longleftrightarrow> i < length xs \<and> P (xs ! i) \<and> (\<forall>j < i. \<not> P (xs ! j))"
proof (induction xs arbitrary: i)
  case Nil
  then show ?case by simp
next
  case (Cons x xs)
  then show ?case by (cases i) (auto simp: All_less_Suc2)
qed

lemma find_index_None: "find_index P xs = None \<longleftrightarrow> (\<forall>x \<in> set xs. \<not> P x)"
  by (induction xs) auto

lemma uppers_sorted: "sorted_wrt (<) LATENCY_BUCKET_UPPER_MS"
  by (simp add: LATENCY_BUCKET_UPPER_MS_def)

lemma length_uppers [simp]: "length LATENCY_BUCKET_UPPER_MS = 15"
  by (simp add: LATENCY_BUCKET_UPPER_MS_def)

lemma bucket_of_lt: "bucket_of x = Some i \<Longrightarrow> i < 15"
  by (simp add: bucket_of_def find_index_Some)

text \<open>The buckets are cumulative: \<^verbatim>\<open>x\<close> is at most the \<^verbatim>\<open>i\<close>-th bound iff its bucket is.\<close>

lemma bucket_of_le:
  assumes "i < 15" shows "(\<exists>j \<le> i. bucket_of x = Some j) \<longleftrightarrow> max 0 x \<le> LATENCY_BUCKET_UPPER_MS ! i"
proof
  assume "\<exists>j \<le> i. bucket_of x = Some j"
  then obtain j where j: "j \<le> i" "max 0 x \<le> LATENCY_BUCKET_UPPER_MS ! j"
    by (auto simp: bucket_of_def find_index_Some)
  moreover have "LATENCY_BUCKET_UPPER_MS ! j \<le> LATENCY_BUCKET_UPPER_MS ! i"
    using uppers_sorted j(1) assms by (cases "i = j") (auto simp: sorted_wrt_iff_nth_less order_less_imp_le)
  ultimately show "max 0 x \<le> LATENCY_BUCKET_UPPER_MS ! i" by simp
next
  assume le: "max 0 x \<le> LATENCY_BUCKET_UPPER_MS ! i"
  then have "bucket_of x \<noteq> None" using assms by (auto simp: bucket_of_def find_index_None)
  then obtain j where "bucket_of x = Some j" by auto
  moreover from this have "\<forall>k < j. \<not> max 0 x \<le> LATENCY_BUCKET_UPPER_MS ! k" by (simp add: bucket_of_def find_index_Some)
  then have "j \<le> i" using le by (metis not_le)
  ultimately show "\<exists>j \<le> i. bucket_of x = Some j" by blast
qed

lemma fold_max_nonneg: "0 \<le> a \<Longrightarrow> 0 \<le> fold max xs (a :: rat)"
  by (induction xs arbitrary: a) auto

lemma histogram_of_snoc: "histogram_of (xs @ [x]) = record_latency (histogram_of xs) x"
  by (simp add: histogram_of_def)

lemma record_latency_fields:
  "count (record_latency h x) = count h + 1"
  "maxMs (record_latency h x) = max (maxMs h) (max 0 x)"
  "overflow (record_latency h x) = overflow h + (if bucket_of x = None then 1 else 0)"
  "buckets (record_latency h x) =
     (case bucket_of x of None \<Rightarrow> buckets h | Some i \<Rightarrow> (buckets h)[i := buckets h ! i + 1])"
  by (simp_all add: record_latency_def Let_def flip: bucket_of_def split: option.split)

lemma max_clamp: "0 \<le> a \<Longrightarrow> max a (max 0 x) = max x a" for a :: rat
  by (simp add: max_def)

lemma histogram_of_counts:
  "count (histogram_of xs) = length xs"
  "maxMs (histogram_of xs) = fold max xs 0"
  "overflow (histogram_of xs) = length (filter (\<lambda>x. bucket_of x = None) xs)"
  "buckets (histogram_of xs) = map (\<lambda>i. length (filter (\<lambda>x. bucket_of x = Some i) xs)) [0..<15]"
proof (induction xs rule: rev_induct)
  case Nil
  show "count (histogram_of []) = length []" "maxMs (histogram_of []) = fold max [] 0"
    "overflow (histogram_of []) = length (filter (\<lambda>x. bucket_of x = None) [])"
    by (simp_all add: histogram_of_def empty_histogram_def)
  show "buckets (histogram_of []) = map (\<lambda>i. length (filter (\<lambda>x. bucket_of x = Some i) [])) [0..<15]"
    by (simp add: histogram_of_def empty_histogram_def map_replicate_const)
next
  case (snoc x xs)
  show "count (histogram_of (xs @ [x])) = length (xs @ [x])"
    by (simp add: histogram_of_snoc record_latency_fields snoc)
  show "maxMs (histogram_of (xs @ [x])) = fold max (xs @ [x]) 0"
    by (simp add: histogram_of_snoc record_latency_fields snoc max_clamp fold_max_nonneg)
  show "overflow (histogram_of (xs @ [x])) = length (filter (\<lambda>x. bucket_of x = None) (xs @ [x]))"
    by (simp add: histogram_of_snoc record_latency_fields snoc)
  show "buckets (histogram_of (xs @ [x])) = map (\<lambda>i. length (filter (\<lambda>x. bucket_of x = Some i) (xs @ [x]))) [0..<15]"
  proof (cases "bucket_of x")
    case None
    then show ?thesis by (simp add: histogram_of_snoc record_latency_fields snoc)
  next
    case (Some i)
    with bucket_of_lt have "i < 15" by blast
    with Some show ?thesis
      by (intro nth_equalityI) (simp_all add: histogram_of_snoc record_latency_fields snoc nth_list_update del: upt_rec_numeral)
  qed
qed

lemma length_filter_disjoint:
  "(\<And>x. x \<in> set xs \<Longrightarrow> \<not> (P x \<and> Q x)) \<Longrightarrow>
   length (filter P xs) + length (filter Q xs) = length (filter (\<lambda>x. P x \<or> Q x) xs)"
  by (induction xs) auto

lemma bucket_prefix_sum:
  assumes "n \<le> 15"
  shows "sum_list (map (\<lambda>i. length (filter (\<lambda>x. bucket_of x = Some i) xs)) [0..<n]) =
    length (filter (\<lambda>x. \<exists>j < n. bucket_of x = Some j) xs)"
proof (induction n)
  case 0
  then show ?case by simp
next
  case (Suc n)
  have "(\<exists>j < Suc n. bucket_of x = Some j) \<longleftrightarrow> (\<exists>j < n. bucket_of x = Some j) \<or> bucket_of x = Some n" for x
    by (auto simp: less_Suc_eq)
  moreover have "length (filter (\<lambda>x. \<exists>j < n. bucket_of x = Some j) xs) + length (filter (\<lambda>x. bucket_of x = Some n) xs)
      = length (filter (\<lambda>x. (\<exists>j < n. bucket_of x = Some j) \<or> bucket_of x = Some n) xs)"
    by (rule length_filter_disjoint) auto
  ultimately show ?case using Suc by simp
qed

text \<open>The total of the first buckets is the number of samples within the last bound.\<close>

lemma histogram_cumulative:
  assumes "i < 15"
  shows "sum_list (take (Suc i) (buckets (histogram_of xs))) =
    length (filter (\<lambda>x. max 0 x \<le> LATENCY_BUCKET_UPPER_MS ! i) xs)"
proof -
  have "(\<exists>j < Suc i. bucket_of x = Some j) \<longleftrightarrow> max 0 x \<le> LATENCY_BUCKET_UPPER_MS ! i" for x
    using bucket_of_le [OF assms, of x] by (simp add: less_Suc_eq_le)
  then show ?thesis
    using bucket_prefix_sum [of "Suc i" xs] assms
    by (simp add: histogram_of_counts take_map take_upt del: upt_rec_numeral upt_Suc)
qed

lemma find_index_upt_Suc:
  "find_index P [0..<Suc n] = (if P 0 then Some 0 else map_option Suc (find_index (P \<circ> Suc) [0..<n]))"
proof -
  have "find_index P (map Suc xs) = find_index (P \<circ> Suc) xs" for xs by (induction xs) auto
  then show ?thesis by (metis find_index.simps(2) map_Suc_upt upt_conv_Cons zero_less_Suc)
qed

lemma find_index_nth: "find_index (\<lambda>i. P (xs ! i)) [0..<length xs] = find_index P xs"
  by (induction xs) (simp_all add: find_index_upt_Suc comp_def del: upt_Suc)

lemma find_eq_index: "find P xs = map_option ((!) xs) (find_index P xs)"
  by (induction xs) (auto simp: option.map_comp comp_def)

lemma find_index_cong: "(\<And>x. x \<in> set xs \<Longrightarrow> P x = Q x) \<Longrightarrow> find_index P xs = find_index Q xs"
  by (induction xs) auto

lemma percentile_scan_eq:
  assumes "length uppers = length cs"
  shows "percentile_scan target cum dflt uppers cs =
    (case find_index (\<lambda>i. target \<le> cum + int (sum_list (take (Suc i) cs))) [0..<length cs] of
       None \<Rightarrow> dflt | Some i \<Rightarrow> uppers ! i)"
  using assms
proof (induction target cum dflt uppers cs rule: percentile_scan.induct)
  case (1 target cum dflt uppers)
  then show ?case by simp
next
  case (2 target cum dflt uppers c cs)
  obtain u us where u: "uppers = u # us" "length us = length cs" using "2.prems" by (cases uppers) auto
  show ?case
    using "2.IH" u by (auto simp: find_index_upt_Suc comp_def ac_simps simp del: upt_Suc split: option.splits)
qed


definition samples_within :: "rat list \<Rightarrow> rat \<Rightarrow> nat" where
  "samples_within xs u = length (filter (\<lambda>x. max 0 x \<le> u) xs)"

lemma percentile_eq:
  assumes "xs \<noteq> []"
  shows "percentile (histogram_of xs) q =
    (case find (\<lambda>u. percentile_target (length xs) q \<le> int (samples_within xs u)) LATENCY_BUCKET_UPPER_MS of
       Some u \<Rightarrow> u | None \<Rightarrow> round2 (fold max xs 0))"
proof -
  let ?t = "percentile_target (length xs) q"
  have len: "length (buckets (histogram_of xs)) = 15" by (simp add: histogram_of_counts(4) del: upt_rec_numeral)
  have "find_index (\<lambda>i. ?t \<le> int (sum_list (take (Suc i) (buckets (histogram_of xs))))) [0..<15] =
      find_index (\<lambda>i. ?t \<le> int (samples_within xs (LATENCY_BUCKET_UPPER_MS ! i))) [0..<15]"
    by (rule find_index_cong) (simp add: samples_within_def histogram_cumulative del: upt_rec_numeral)
  also have "\<dots> = find_index (\<lambda>u. ?t \<le> int (samples_within xs u)) LATENCY_BUCKET_UPPER_MS"
    using find_index_nth [of "\<lambda>u. ?t \<le> int (samples_within xs u)" LATENCY_BUCKET_UPPER_MS] by simp
  finally show ?thesis
    using assms percentile_scan_eq [of LATENCY_BUCKET_UPPER_MS "buckets (histogram_of xs)" ?t 0 "round2 (fold max xs 0)"] len
    by (simp add: percentile_def histogram_of_counts find_eq_index del: upt_rec_numeral split: option.split)
qed

text \<open>The three fractions the program uses: the rounded product still has the exact ceiling.\<close>

lemma fraction_literals:
  "fl (1 / 2) = 1 / 2"
  "fl (95 / 100) \<le> 95 / 100" "95 / 100 - 2 powi (- 53) \<le> fl (95 / 100)"
  "fl (99 / 100) \<le> 99 / 100" "99 / 100 - 2 powi (- 53) \<le> fl (99 / 100)"
  "1 / 4 \<le> fl (95 / 100)" "1 / 4 \<le> fl (99 / 100)"
  by code_simp+

lemma rank_slack:
  fixes a p q x r f :: rat
  assumes "q \<le> 10 ^ 12 * (1 / 9007199254740992)" "r \<le> 10 ^ 12 * (1 / 9007199254740992)"
    "x - r \<le> f" "p - q \<le> x" "a + 1 / 100 \<le> p"
  shows "a < f"
proof -
  have "(10 ^ 12 * (1 / 9007199254740992) :: rat) < 1 / 1000" by simp
  with assms show ?thesis by linarith
qed

lemma percentile_target_exact:
  assumes "k \<in> {50, 95, 99}" "n \<le> 10 ^ 12"
  shows "percentile_target n (of_nat k / 100) = \<lceil>of_nat (k * n) / (100 :: rat)\<rceil>"
proof (cases "n = 0")
  case True
  then show ?thesis by (simp add: percentile_target_def js_ceil_def)
next
  case False
  define c where "c = fl (of_nat k / 100)"
  have c: "c \<le> of_nat k / 100" "of_nat k / 100 - 2 powi (- 53) \<le> c" "1 / 4 \<le> c"
    using assms(1) fraction_literals by (auto simp: c_def power_int_def)
  define x where "x = of_nat n * c"
  define T where "T = \<lceil>of_nat (k * n) / (100 :: rat)\<rceil>"
  have n: "1 \<le> (of_nat n :: rat)" "(of_nat n :: rat) \<le> 10 ^ 12"
    using False assms(2) by (simp_all add: Suc_le_eq)
  have small: "(2 :: rat) powi (- 53) = 1 / 9007199254740992" by (simp add: power_int_def power_divide)
  have x_up: "x \<le> of_nat n * (of_nat k / 100)" unfolding x_def using c n by (intro mult_left_mono) auto
  have x_lo: "of_nat n * (of_nat k / 100 - 2 powi (- 53)) \<le> x" unfolding x_def using c n by (intro mult_left_mono) auto
  have "1 / 4 \<le> x" unfolding x_def using c n mult_mono [of 1 "of_nat n" "1 / 4" c] by simp
  moreover have "(2 :: rat) powi (- 2) = 1 / 4" by (simp add: power_int_def power_divide)
  then have "2 powi (- 1022) \<le> (1 / 4 :: rat)" using powi_mono [of "- 1022" "- 2"] by (simp only:)
  ultimately have err: "\<bar>fl x - x\<bar> \<le> x * 2 powi (- 53)" by (intro fl_error) simp
  have kn: "of_nat (k * n) / 100 = of_nat n * (of_nat k / 100 :: rat)" by simp
  have T: "of_nat n * (of_nat k / 100) \<le> (of_int T :: rat)" unfolding T_def kn by simp
  have "of_int (T - 1) < (of_nat (k * n) / 100 :: rat)" unfolding T_def by (simp only: of_int_diff of_int_1) linarith
  then have "(of_int (100 * (T - 1)) :: rat) < of_int (int (k * n))" by (simp add: field_simps)
  then have "100 * (T - 1) + 1 \<le> int (k * n)" unfolding of_int_less_iff by simp
  then have "(of_int (100 * (T - 1) + 1) :: rat) \<le> of_int (int (k * n))" unfolding of_int_le_iff .
  then have gap: "of_int (T - 1) + 1 / 100 \<le> of_nat n * (of_nat k / 100 :: rat)" by (simp add: field_simps)
  have "of_nat n * (2 powi (- 53)) \<le> (10 ^ 12 * (1 / 9007199254740992) :: rat)" unfolding small using n by (intro mult_mono) auto
  moreover have "x * 2 powi (- 53) \<le> 10 ^ 12 * (1 / 9007199254740992)"
  proof -
    have "x \<le> of_nat n" using x_up n assms(1) mult_left_mono [of "of_nat k / 100" 1 "of_nat n :: rat"] by auto
    with n show ?thesis unfolding small by (intro mult_mono) auto
  qed
  moreover have "x - x * 2 powi (- 53) \<le> fl x" using err by (simp only: abs_le_iff) linarith
  moreover have "of_nat n * (of_nat k / 100) - of_nat n * 2 powi (- 53) \<le> x"
    using x_lo by (simp only: right_diff_distrib)
  ultimately have lower: "of_int (T - 1) < fl x" using gap by (intro rank_slack)
  have "T \<le> 10 ^ 14"
    unfolding T_def using n assms(1) mult_mono [of "of_nat n :: rat" "10 ^ 12" "of_nat k" 100] by (auto simp: ceiling_le_iff)
  moreover have "(0 :: rat) \<le> of_int T" by (rule order_trans [OF _ T]) simp
  then have "0 \<le> T" by simp
  ultimately have "fl x \<le> of_int T" using x_up T by (intro fl_le_int) auto
  with lower have "\<lceil>fl x\<rceil> = T" by (intro ceiling_unique) auto
  then show ?thesis by (simp add: percentile_target_def js_ceil_def x_def c_def T_def)
qed


text \<open>
  C2.  The p50, p95 and p99 the program reports for recorded samples are nearest-rank
  percentiles at bucket resolution: the smallest bucket bound with at least \<^verbatim>\<open>k\<close> percent of
  the samples within it, and the (rounded) maximum when they do not fit the buckets.  The
  binary64 product \<^verbatim>\<open>count * fraction\<close> never moves the rank for up to 10^12 samples.
\<close>
theorem percentile_nearest_rank:
  assumes "xs \<noteq> []" "k \<in> {50, 95, 99}" "length xs \<le> 10 ^ 12"
  shows "percentile (histogram_of xs) (of_nat k / 100) =
    (case find (\<lambda>u. k * length xs \<le> 100 * samples_within xs u) LATENCY_BUCKET_UPPER_MS of
       Some u \<Rightarrow> u | None \<Rightarrow> round2 (fold max xs 0))"
proof -
  have "percentile_target (length xs) (of_nat k / 100) \<le> int s \<longleftrightarrow> k * length xs \<le> 100 * s" for s
  proof -
    have "percentile_target (length xs) (of_nat k / 100) \<le> int s \<longleftrightarrow> (of_nat (k * length xs) :: rat) \<le> of_nat (100 * s)"
      by (simp add: percentile_target_exact [OF assms(2,3)] ceiling_le_iff field_simps)
    then show ?thesis by (simp only: of_nat_le_iff)
  qed
  then show ?thesis by (simp add: percentile_eq [OF assms(1)])
qed

lemma percentile_nearest_rank_witness:
  "percentile (histogram_of [3, 7, 200, 9]) (95 / 100) = 250"
  using percentile_nearest_rank [of "[3, 7, 200, 9]" 95]
  by (simp add: samples_within_def LATENCY_BUCKET_UPPER_MS_def)

subsection \<open>Merging\<close>

definition same_counts :: "latency_histogram \<Rightarrow> latency_histogram \<Rightarrow> bool" where
  "same_counts h h' \<longleftrightarrow> count h = count h' \<and> maxMs h = maxMs h' \<and> buckets h = buckets h' \<and> overflow h = overflow h'"

lemma length_buckets_of [simp]: "length (buckets (histogram_of xs)) = 15"
  by (simp add: histogram_of_counts(4) del: upt_rec_numeral)

lemma fold_max_max: "fold max xs (max a b) = max a (fold max xs b)" for a :: rat
proof (induction xs arbitrary: b)
  case Nil
  then show ?case by simp
next
  case (Cons x xs)
  then show ?case using Cons.IH [of "max x b"] by (simp add: max.left_commute [of x a b])
qed

lemma merge_into_samples:
  assumes "same_counts m (histogram_of xs)"
  shows "\<exists>m'. merge_into m (histogram_of ys) = Inr m' \<and> same_counts m' (histogram_of (xs @ ys))"
proof -
  have "fold max (xs @ ys) 0 = max (fold max xs 0) (fold max ys (0 :: rat))"
    using fold_max_max [of ys "fold max xs 0" 0] fold_max_nonneg [of 0 xs] by (simp add: max_def)
  moreover have "map2 (+) (buckets m) (buckets (histogram_of ys)) = buckets (histogram_of (xs @ ys))"
    using assms by (intro nth_equalityI) (simp_all add: same_counts_def histogram_of_counts(4) del: upt_rec_numeral)
  ultimately show ?thesis
    using assms by (auto simp: merge_into_def same_counts_def histogram_of_counts(1-3))
qed

text \<open>
  C3.  Merging the histograms of several workers gives the histogram of all their samples:
  the same count, buckets, overflow and maximum as recording the concatenated samples
  into one histogram, and merging such histograms never fails.  (The total, a rounded sum, depends
  on the order of the additions.)
\<close>
theorem merge_is_concat:
  "\<exists>h. merge_latency_histograms (map histogram_of xss) = Inr h \<and> same_counts h (histogram_of (concat xss))"
proof -
  have "\<exists>h. fold_result merge_into m (map histogram_of xss) = Inr h \<and> same_counts h (histogram_of (ys @ concat xss))"
    if "same_counts m (histogram_of ys)" for m ys
    using that
  proof (induction xss arbitrary: m ys)
    case Nil
    then show ?case by simp
  next
    case (Cons xs xss)
    from merge_into_samples [OF Cons.prems, of xs] obtain m' where
      "merge_into m (histogram_of xs) = Inr m'" "same_counts m' (histogram_of (ys @ xs))" by blast
    with Cons.IH [of m' "ys @ xs"] show ?case by simp
  qed
  from this [of empty_histogram "[]"] show ?thesis
    by (simp add: merge_latency_histograms_def histogram_of_def same_counts_def)
qed

subsection \<open>Stage counters\<close>

text \<open>
  The counters of a stage are consistent: every error is in exactly one class, the first five
  are sampled, cancellations expected at shutdown are among the errors, and the histogram
  counts every sample once.
\<close>

definition histogram_ok :: "latency_histogram \<Rightarrow> bool" where
  "histogram_ok h \<longleftrightarrow> length (buckets h) = 15 \<and> sum_list (buckets h) + overflow h = count h \<and> 0 \<le> maxMs h"

definition stage_ok :: "stage_state \<Rightarrow> bool" where
  "stage_ok m \<longleftrightarrow> histogram_ok (latency m) \<and>
     map_total (errorClasses m) = failed m + ambiguous m \<and> distinct (map_keys (errorClasses m)) \<and>
     length (errorSamples m) = min 5 (failed m + ambiguous m) \<and>
     fst ` set (errorSamples m) \<subseteq> set (map_keys (errorClasses m)) \<and>
     failed_esc (expectedShutdownCancellations m) \<le> failed m \<and>
     ambiguous_esc (expectedShutdownCancellations m) \<le> ambiguous m"

lemma sum_list_bump: "i < length xs \<Longrightarrow> sum_list (xs[i := Suc (xs ! i)]) = Suc (sum_list xs)"
  by (simp add: sum_list_update)

lemma record_latency_ok: "histogram_ok h \<Longrightarrow> histogram_ok (record_latency h x)"
  using bucket_of_lt [of x]
  by (auto simp: histogram_ok_def record_latency_fields sum_list_bump split: option.split)

lemma create_stage_ok: "stage_ok create_stage_metrics"
  by (simp add: stage_ok_def create_stage_metrics_def histogram_ok_def empty_histogram_def
      map_total_def map_keys_def LATENCY_BUCKET_UPPER_MS_def)

lemma record_stage_latency_ok: "stage_ok m \<Longrightarrow> stage_ok (record_stage_latency m x)"
  by (simp add: stage_ok_def record_stage_latency_def record_latency_ok)

lemma record_stage_error_ok: "stage_ok m \<Longrightarrow> stage_ok (fst (record_stage_error m e a x))"
  by (auto simp: stage_ok_def record_stage_error_def Let_def distinct_bump map_keys_bump)


text \<open>What a workload does to the metrics of a stage.\<close>

datatype stage_event = Sample rat | Failure thrown bool bool

fun apply_stage_event :: "stage_state \<Rightarrow> stage_event \<Rightarrow> stage_state" where
  "apply_stage_event m (Sample elapsed) = record_stage_latency m elapsed"
| "apply_stage_event m (Failure error is_ambiguous expected) =
     fst (record_stage_error m error is_ambiguous expected)"

fun is_failure :: "(thrown \<Rightarrow> bool \<Rightarrow> bool \<Rightarrow> bool) \<Rightarrow> stage_event \<Rightarrow> bool" where
  "is_failure P (Sample elapsed) = False"
| "is_failure P (Failure error is_ambiguous expected) = P error is_ambiguous expected"

definition stage_after :: "stage_event list \<Rightarrow> stage_state" where
  "stage_after evs = foldl apply_stage_event create_stage_metrics evs"

lemma record_stage_error_counts:
  "failed (fst (record_stage_error m e a x)) = failed m + (if a then 0 else 1)"
  "ambiguous (fst (record_stage_error m e a x)) = ambiguous m + (if a then 1 else 0)"
  "latency (fst (record_stage_error m e a x)) = latency m"
  "errorClasses (fst (record_stage_error m e a x)) = map_bump (errorClasses m) (normalize_error_class e) 1"
  by (auto simp: record_stage_error_def Let_def)

lemma stage_after_ok: "stage_ok (stage_after evs)"
proof (induction evs rule: rev_induct)
  case Nil
  then show ?case by (simp add: stage_after_def create_stage_ok)
next
  case (snoc ev evs)
  then show ?case
    by (cases ev) (simp_all add: stage_after_def record_stage_latency_ok record_stage_error_ok)
qed


end
