(* ===== verification/QueueReconcile.thy ===== *)
theory QueueReconcile
  imports Pressure
begin

text \<open>
  The reconciliation of queue outcomes (\<^verbatim>\<open>reconcileQueueOutcomes\<close>, src/pressure.ts): what every
  client acknowledged, gave up on or completed is compared with what the queues still held.
  Sequence numbers are JavaScript numbers; the code itself checks that they are safe
  non-negative integers.
\<close>

record queue_client_outcome =
  worker :: string
  acknowledged :: "rat list"
  ambiguousEnqueues :: "rat list"
  failedEnqueues :: "rat list"
  completed :: "rat list"
  ambiguousCompletions :: "rat list"

record reconcile_totals =
  acknowledged_tot :: nat
  ambiguousEnqueues_tot :: nat
  failedEnqueues_tot :: nat
  completed_tot :: nat
  ambiguousCompletions_tot :: nat
  observed_tot :: nat

record queue_reconciliation =
  totals :: reconcile_totals
  clients :: "(queue_client_outcome \<times> rat list) list"

fun assert_unique_from :: "string \<Rightarrow> rat list \<Rightarrow> rat list \<Rightarrow> unit result" where
  "assert_unique_from label seen [] = Inr ()"
| "assert_unique_from label seen (value # rest) =
     (if \<not> is_safe_integer value \<or> value < 0
      then Inl (Error ''$ has invalid sequence $'' [AStr label, ARat value])
      else if value \<in> set seen
      then Inl (Error ''$ contains duplicate sequence $'' [AStr label, ARat value])
      else assert_unique_from label (value # seen) rest)"

definition assert_unique :: "rat list \<Rightarrow> string \<Rightarrow> unit result" where
  "assert_unique values label = assert_unique_from label [] values"

definition enqueue_conflict :: "string \<Rightarrow> rat \<Rightarrow> error" where
  "enqueue_conflict w sequence =
     Error ''$ queue sequence $ has multiple enqueue outcomes'' [AStr w, ARat sequence]"

definition assert_disjoint :: "string \<Rightarrow> rat list \<Rightarrow> rat list \<Rightarrow> rat list \<Rightarrow> unit result" where
  "assert_disjoint w acked ambig lost =
     try_in (for_each (\<lambda>s. ensure (\<not> (s \<in> set ambig \<or> s \<in> set lost)) (enqueue_conflict w s)) acked)
       (\<lambda>_. for_each (\<lambda>s. ensure (s \<notin> set lost) (enqueue_conflict w s)) ambig)"

text \<open>\<^verbatim>\<open>Number(completed.has(s)) + Number(observed.has(s))\<close>.\<close>

definition resolutions :: "rat list \<Rightarrow> rat list \<Rightarrow> rat \<Rightarrow> nat" where
  "resolutions done_list observed s =
     (if s \<in> set done_list then 1 else 0) + (if s \<in> set observed then 1 else 0)"

definition check_acknowledged :: "queue_client_outcome \<Rightarrow> rat list \<Rightarrow> rat \<Rightarrow> unit result" where
  "check_acknowledged oc observed s =
     (let n = resolutions (completed oc) observed s;
          maximum = (if s \<in> set (ambiguousCompletions oc) then 1 else 1);
          minimum = (if s \<in> set (ambiguousCompletions oc) then 0 else 1)
      in ensure (\<not> (n < minimum \<or> n > maximum))
           (Error ''$ acknowledged queue sequence $ resolved $ times'' [AStr (worker oc), ARat s, ANat n]))"

definition reconcile_client :: "queue_client_outcome \<Rightarrow> rat list \<Rightarrow> unit result" where
  "reconcile_client oc observed =
     try_in (for_each (\<lambda>(name, values). assert_unique values (worker oc @ '' '' @ name))
               [(''acknowledged'', acknowledged oc), (''ambiguousEnqueues'', ambiguousEnqueues oc),
                (''failedEnqueues'', failedEnqueues oc), (''completed'', completed oc),
                (''ambiguousCompletions'', ambiguousCompletions oc)]) (\<lambda>_.
     try_in (assert_disjoint (worker oc) (acknowledged oc) (ambiguousEnqueues oc) (failedEnqueues oc)) (\<lambda>_.
     try_in (assert_unique observed (worker oc @ '' observed'')) (\<lambda>_.
     try_in (for_each (\<lambda>s. ensure (\<not> (s \<notin> set (acknowledged oc) \<and> s \<notin> set (ambiguousEnqueues oc)))
                  (Error ''$ observed unacknowledged queue sequence $'' [AStr (worker oc), ARat s]))
               (completed oc @ ambiguousCompletions oc @ observed)) (\<lambda>_.
     try_in (for_each (\<lambda>s. ensure (\<not> (s \<in> set (completed oc) \<or> s \<in> set (ambiguousCompletions oc) \<or> s \<in> set observed))
                  (Error ''$ failed enqueue sequence $ became visible'' [AStr (worker oc), ARat s]))
               (failedEnqueues oc)) (\<lambda>_.
     try_in (for_each (check_acknowledged oc observed) (acknowledged oc)) (\<lambda>_.
     for_each (\<lambda>s. ensure (\<not> resolutions (completed oc) observed s > 1)
                  (Error ''$ ambiguous queue sequence $ resolved $ times''
                     [AStr (worker oc), ARat s, ANat (resolutions (completed oc) observed s)]))
       (ambiguousEnqueues oc)))))))"

definition add_totals :: "reconcile_totals \<Rightarrow> queue_client_outcome \<Rightarrow> rat list \<Rightarrow> reconcile_totals" where
  "add_totals t oc observed =
     \<lparr>acknowledged_tot = acknowledged_tot t + length (acknowledged oc),
      ambiguousEnqueues_tot = ambiguousEnqueues_tot t + length (ambiguousEnqueues oc),
      failedEnqueues_tot = failedEnqueues_tot t + length (failedEnqueues oc),
      completed_tot = completed_tot t + length (completed oc),
      ambiguousCompletions_tot = ambiguousCompletions_tot t + length (ambiguousCompletions oc),
      observed_tot = observed_tot t + length observed\<rparr>"

definition reconcile_step ::
  "(string, rat list) js_map \<Rightarrow> queue_reconciliation \<Rightarrow> queue_client_outcome \<Rightarrow> queue_reconciliation result" where
  "reconcile_step observedByWorker r oc =
     (let observed = get_or [] (map_get observedByWorker (worker oc))
      in try_in (reconcile_client oc observed) (\<lambda>_.
           Inr \<lparr>totals = add_totals (totals r) oc observed, clients = clients r @ [(oc, sort observed)]\<rparr>))"

definition empty_reconciliation :: queue_reconciliation where
  "empty_reconciliation =
     \<lparr>totals = \<lparr>acknowledged_tot = 0, ambiguousEnqueues_tot = 0, failedEnqueues_tot = 0,
                completed_tot = 0, ambiguousCompletions_tot = 0, observed_tot = 0\<rparr>, clients = []\<rparr>"

definition reconcile_queue_outcomes ::
  "queue_client_outcome list \<Rightarrow> (string, rat list) js_map \<Rightarrow> queue_reconciliation result" where
  "reconcile_queue_outcomes outcomes observedByWorker =
     try_in (fold_result (reconcile_step observedByWorker) empty_reconciliation outcomes) (\<lambda>r.
     try_in (for_each (\<lambda>w. ensure (list_ex (\<lambda>oc. worker oc = w) outcomes)
               (Error ''Queue reconciler returned unknown worker $'' [AStr w])) (map_keys observedByWorker)) (\<lambda>_.
     Inr r))"

subsection \<open>What an accepted client satisfies\<close>

definition valid_sequences :: "rat list \<Rightarrow> bool" where
  "valid_sequences xs \<longleftrightarrow> distinct xs \<and> list_all (\<lambda>x. is_safe_integer x \<and> 0 \<le> x) xs"

text \<open>
  The contract: sequences are valid and have one enqueue outcome, only sequences that
  may have been enqueued show up anywhere, nothing is both completed and still queued, and
  an acknowledged message is completed, still queued or in doubt.
\<close>

definition client_contract :: "queue_client_outcome \<Rightarrow> rat list \<Rightarrow> bool" where
  "client_contract oc observed \<longleftrightarrow>
     list_all valid_sequences [acknowledged oc, ambiguousEnqueues oc, failedEnqueues oc, completed oc,
       ambiguousCompletions oc, observed] \<and>
     set (acknowledged oc) \<inter> set (ambiguousEnqueues oc) = {} \<and>
     (set (acknowledged oc) \<union> set (ambiguousEnqueues oc)) \<inter> set (failedEnqueues oc) = {} \<and>
     set (completed oc) \<union> set (ambiguousCompletions oc) \<union> set observed
       \<subseteq> set (acknowledged oc) \<union> set (ambiguousEnqueues oc) \<and>
     set (completed oc) \<inter> set observed = {} \<and>
     set (acknowledged oc) \<subseteq> set (completed oc) \<union> set observed \<union> set (ambiguousCompletions oc)"

lemma assert_unique_from_ok:
  "assert_unique_from label seen xs = Inr u \<longleftrightarrow> valid_sequences xs \<and> set seen \<inter> set xs = {}"
  by (induction label seen xs rule: assert_unique_from.induct) (auto simp: valid_sequences_def)

lemma assert_unique_ok [result_simps]: "assert_unique xs label = Inr u \<longleftrightarrow> valid_sequences xs"
  by (simp add: assert_unique_def assert_unique_from_ok)

lemma assert_disjoint_ok [result_simps]:
  "assert_disjoint w a b c = Inr u \<longleftrightarrow> set a \<inter> set b = {} \<and> (set a \<union> set b) \<inter> set c = {}"
  by (auto simp: assert_disjoint_def result_simps)

lemma check_acknowledged_ok [result_simps]:
  "check_acknowledged oc observed s = Inr u \<longleftrightarrow>
     \<not> (s \<in> set (completed oc) \<and> s \<in> set observed) \<and>
     (s \<in> set (completed oc) \<or> s \<in> set observed \<or> s \<in> set (ambiguousCompletions oc))"
  by (auto simp: check_acknowledged_def resolutions_def Let_def result_simps)

lemma ambiguous_once: "\<not> resolutions c obs s > 1 \<longleftrightarrow> \<not> (s \<in> set c \<and> s \<in> set obs)"
  by (simp add: resolutions_def)

text \<open>The loops of \<^verbatim>\<open>reconcileQueueOutcomes\<close> one by one, as set conditions.\<close>

lemma visible_loop:
  "for_each (\<lambda>s. ensure (\<not> (s \<notin> A \<and> s \<notin> B)) (e s)) xs = Inr u \<longleftrightarrow> set xs \<subseteq> A \<union> B"
  by (auto simp: result_simps)

lemma hidden_loop:
  "for_each (\<lambda>s. ensure (\<not> (s \<in> A \<or> s \<in> B \<or> s \<in> C)) (e s)) xs = Inr u \<longleftrightarrow> set xs \<inter> (A \<union> B \<union> C) = {}"
  by (auto simp: result_simps)

lemma acknowledged_loop:
  "for_each (check_acknowledged oc observed) xs = Inr u \<longleftrightarrow>
     set xs \<inter> set (completed oc) \<inter> set observed = {} \<and>
     set xs \<subseteq> set (completed oc) \<union> set observed \<union> set (ambiguousCompletions oc)"
  by (auto simp: result_simps)

lemma ambiguous_loop:
  "for_each (\<lambda>s. ensure (\<not> resolutions c obs s > 1) (e s)) xs = Inr u \<longleftrightarrow> set xs \<inter> set c \<inter> set obs = {}"
  unfolding for_each_ok ensure_eq_Inr ambiguous_once by blast

lemma unique_loop:
  "for_each (\<lambda>(name, values). assert_unique values (f name)) kvs = Inr u \<longleftrightarrow> list_all (valid_sequences \<circ> snd) kvs"
  by (auto simp: for_each_ok list_all_iff assert_unique_ok split: prod.splits)

lemma contract_sets:
  assumes "C \<union> D \<union> E \<subseteq> A \<union> B" "A \<inter> B = {}" "(A \<union> B) \<inter> F = {}"
  shows "F \<inter> (C \<union> D \<union> E) = {} \<and> (A \<inter> C \<inter> E = {} \<and> A \<subseteq> C \<union> E \<union> D) \<and> B \<inter> C \<inter> E = {} \<longleftrightarrow>
    C \<inter> E = {} \<and> A \<subseteq> C \<union> E \<union> D"
  using assms by blast

lemma conj_under:
  "(s \<Longrightarrow> a \<Longrightarrow> f \<Longrightarrow> x \<longleftrightarrow> y) \<Longrightarrow> v \<and> a \<and> f \<and> s \<and> x \<longleftrightarrow> v \<and> a \<and> f \<and> s \<and> y"
  by blast

lemma reconcile_client_ok: "reconcile_client oc observed = Inr u \<longleftrightarrow> client_contract oc observed"
proof -
  let ?A = "set (acknowledged oc)" and ?B = "set (ambiguousEnqueues oc)" and ?F = "set (failedEnqueues oc)"
    and ?C = "set (completed oc)" and ?D = "set (ambiguousCompletions oc)" and ?E = "set observed"
  have "reconcile_client oc observed = Inr u \<longleftrightarrow>
      list_all valid_sequences [acknowledged oc, ambiguousEnqueues oc, failedEnqueues oc, completed oc,
        ambiguousCompletions oc, observed] \<and>
      ?A \<inter> ?B = {} \<and> (?A \<union> ?B) \<inter> ?F = {} \<and> ?C \<union> ?D \<union> ?E \<subseteq> ?A \<union> ?B \<and>
      ?F \<inter> (?C \<union> ?D \<union> ?E) = {} \<and> (?A \<inter> ?C \<inter> ?E = {} \<and> ?A \<subseteq> ?C \<union> ?E \<union> ?D) \<and> ?B \<inter> ?C \<inter> ?E = {}"
    unfolding reconcile_client_def try_in_eq_Inr visible_loop hidden_loop acknowledged_loop ambiguous_loop
      unique_loop assert_unique_ok assert_disjoint_ok
    by (simp add: Un_assoc conj_ac)
  also have "\<dots> \<longleftrightarrow> client_contract oc observed"
    unfolding client_contract_def by (rule conj_under) (rule contract_sets)
  finally show ?thesis .
qed

definition observed_for :: "(string, rat list) js_map \<Rightarrow> queue_client_outcome \<Rightarrow> rat list" where
  "observed_for observedByWorker oc = get_or [] (map_get observedByWorker (worker oc))"

definition total_of :: "(queue_client_outcome \<Rightarrow> 'a list) \<Rightarrow> queue_client_outcome list \<Rightarrow> nat" where
  "total_of field outcomes = sum_list (map (length \<circ> field) outcomes)"

definition expected_reconciliation ::
  "queue_client_outcome list \<Rightarrow> (string, rat list) js_map \<Rightarrow> queue_reconciliation" where
  "expected_reconciliation outcomes obs =
     \<lparr>totals = \<lparr>acknowledged_tot = total_of acknowledged outcomes,
                ambiguousEnqueues_tot = total_of ambiguousEnqueues outcomes,
                failedEnqueues_tot = total_of failedEnqueues outcomes,
                completed_tot = total_of completed outcomes,
                ambiguousCompletions_tot = total_of ambiguousCompletions outcomes,
                observed_tot = total_of (observed_for obs) outcomes\<rparr>,
      clients = map (\<lambda>oc. (oc, sort (observed_for obs oc))) outcomes\<rparr>"

lemma expected_Nil: "expected_reconciliation [] obs = empty_reconciliation"
  by (simp add: expected_reconciliation_def empty_reconciliation_def total_of_def)

lemma expected_snoc:
  "expected_reconciliation (xs @ [oc]) obs =
     (let r = expected_reconciliation xs obs in
      \<lparr>totals = add_totals (totals r) oc (observed_for obs oc), clients = clients r @ [(oc, sort (observed_for obs oc))]\<rparr>)"
  by (simp add: expected_reconciliation_def add_totals_def total_of_def)

lemma reconcile_fold:
  "fold_result (reconcile_step obs) empty_reconciliation outcomes = Inr r \<longleftrightarrow>
     list_all (\<lambda>oc. client_contract oc (observed_for obs oc)) outcomes \<and> r = expected_reconciliation outcomes obs"
proof (induction outcomes arbitrary: r rule: rev_induct)
  case Nil
  then show ?case by (auto simp: expected_Nil)
next
  case (snoc oc outcomes)
  then show ?case
    by (auto simp: fold_result_append try_in_eq_Inr reconcile_step_def reconcile_client_ok expected_snoc
        observed_for_def [symmetric] Let_def)
qed

text \<open>
  C1.  The queue outcomes are reconciled exactly when every client meets the contract (valid,
  unique sequences with one enqueue outcome; nothing visible that was never possibly enqueued;
  nothing both completed and still queued; every acknowledged message completed, still
  queued or in doubt) and every observed worker is one of the clients; the result
  then carries the exact totals and the sorted observations.
\<close>
theorem reconcile_queue_outcomes_ok:
  "reconcile_queue_outcomes outcomes obs = Inr r \<longleftrightarrow>
     list_all (\<lambda>oc. client_contract oc (observed_for obs oc)) outcomes \<and>
     set (map_keys obs) \<subseteq> worker ` set outcomes \<and>
     r = expected_reconciliation outcomes obs"
proof -
  have "for_each (\<lambda>w. ensure (list_ex (\<lambda>oc. worker oc = w) outcomes) (e w)) (map_keys obs) = Inr u \<longleftrightarrow>
      set (map_keys obs) \<subseteq> worker ` set outcomes" for u e
    by (auto simp: result_simps list_ex_iff)
  then show ?thesis
    by (auto simp: reconcile_queue_outcomes_def try_in_eq_Inr reconcile_fold)
qed

end
