(* ===== verification/PressureWarnings.thy ===== *)
theory PressureWarnings
  imports Pressure
begin

text \<open>
  The diagnostic warnings of a pressure run (\<^verbatim>\<open>diagnosticWarnings\<close>, src/pressure.ts) over
  the stage latencies and the samples taken from the broker.
\<close>

record broker_router =
  currentMailboxDepth :: rat
  ingressBackpressureRetriesTotal :: rat
  ingressBackpressureAcceptedTotal :: rat
  ingressBackpressureExhaustedTotal :: rat
  ingressDispatchTimeoutsTotal :: rat
  routerBackpressureTotal :: rat
  routerHighLaneBackpressureTotal :: rat

record broker_sample =
  timestamp :: string
  queue_stats :: "(string \<times> json) list"
  rpc_stats :: "(string \<times> json) list"
  metrics_stats :: "(string \<times> json) list"
  router :: broker_router
  rssBytes :: rat

record stage_latency =
  client :: string
  domain_of :: domain
  stage :: string
  latency_of :: latency_histogram

datatype rss_growth_assessment = Assessed | NotAssessed string

text \<open>
  A warning is its code with the details; its message is a template over these values.
\<close>

datatype pressure_warning =
    LatencyNearTimeout stage_latency latency_report rat
  | PendingGrowth "rat list"
  | RssGrowth rat rat rat

definition rss_growth_assessment :: "domain list \<Rightarrow> rss_growth_assessment" where
  "rss_growth_assessment domains =
     (if Stream \<in> set domains then NotAssessed ''Stream pressure retains durable append-only history.''
      else Assessed)"

text \<open>The sample as the object its entries are enumerated from.\<close>

definition router_json :: "broker_router \<Rightarrow> json" where
  "router_json r = JObj
     [(''currentMailboxDepth'', JNum (currentMailboxDepth r)),
      (''ingressBackpressureRetriesTotal'', JNum (ingressBackpressureRetriesTotal r)),
      (''ingressBackpressureAcceptedTotal'', JNum (ingressBackpressureAcceptedTotal r)),
      (''ingressBackpressureExhaustedTotal'', JNum (ingressBackpressureExhaustedTotal r)),
      (''ingressDispatchTimeoutsTotal'', JNum (ingressDispatchTimeoutsTotal r)),
      (''routerBackpressureTotal'', JNum (routerBackpressureTotal r)),
      (''routerHighLaneBackpressureTotal'', JNum (routerHighLaneBackpressureTotal r))]"

definition sample_json :: "broker_sample \<Rightarrow> json" where
  "sample_json s = JObj
     [(''timestamp'', JStr (timestamp s)), (''queue'', JObj (queue_stats s)), (''rpc'', JObj (rpc_stats s)),
      (''metrics'', JObj (metrics_stats s)), (''router'', router_json (router s)), (''rssBytes'', JNum (rssBytes s))]"

text \<open>
  \<^verbatim>\<open>sumMatching\<close>: the sum of the numbers under a matching key, at any depth.  A matching key
  with a number is not searched further; every addition is rounded.
\<close>

fun sum_matching :: "(string \<Rightarrow> bool) \<Rightarrow> json \<Rightarrow> rat"
  and sum_items :: "(string \<Rightarrow> bool) \<Rightarrow> rat \<Rightarrow> json list \<Rightarrow> rat"
  and sum_fields :: "(string \<Rightarrow> bool) \<Rightarrow> rat \<Rightarrow> (string \<times> json) list \<Rightarrow> rat" where
  "sum_matching key (JArr items) = sum_items key 0 items"
| "sum_matching key (JObj entries) = sum_fields key 0 entries"
| "sum_matching key _ = 0"
| "sum_items key tot [] = tot"
| "sum_items key tot (item # items) = sum_items key (fl (tot + sum_matching key item)) items"
| "sum_fields key tot [] = tot"
| "sum_fields key tot ((k, item) # entries) =
     (case item of
        JNum n \<Rightarrow> sum_fields key (fl (tot + (if key k then n else 0))) entries
      | _ \<Rightarrow> sum_fields key (fl (tot + sum_matching key item)) entries)"

definition pending_keys :: "string list" where
  "pending_keys =
     [''messages_ready'', ''messages_delayed'', ''messages_pending'', ''inflight_active'',
      ''requests_pending'', ''waiter_depth'', ''mailboxDepth'', ''currentMailboxDepth'',
      ''session_cleanup_queue_depth'']"

definition pending_work :: "broker_sample \<Rightarrow> rat" where
  "pending_work sample = sum_matching (\<lambda>k. k \<in> set pending_keys) (sample_json sample)"

definition latency_warnings :: "rat \<Rightarrow> stage_latency list \<Rightarrow> pressure_warning list" where
  "latency_warnings requestTimeoutMs stages =
     concat (map (\<lambda>item. let latency = latency_summary (latency_of item) in
       if p95Ms latency > fl (requestTimeoutMs / 2)
       then [LatencyNearTimeout item latency requestTimeoutMs] else []) stages)"

definition pending_warnings :: "broker_sample list \<Rightarrow> pressure_warning list" where
  "pending_warnings samples =
     (if length samples \<ge> 3
      then (let final = map pending_work (drop (length samples - 3) samples) in
            if final ! 0 < final ! 1 \<and> final ! 1 < final ! 2 then [PendingGrowth final] else [])
      else [])"

definition warmup_index :: "nat \<Rightarrow> nat" where
  "warmup_index n = min (n - 2) (nat (max 0 \<lfloor>fl (of_nat n * fl (1 / 10))\<rfloor>))"

definition rss_warnings :: "domain list \<Rightarrow> broker_sample list \<Rightarrow> pressure_warning list" where
  "rss_warnings selectedDomains samples =
     (if rss_growth_assessment selectedDomains = Assessed \<and> length samples \<ge> 2
      then (let baseline = rssBytes (samples ! warmup_index (length samples));
                final = rssBytes (last samples);
                growth = fl (final - baseline)
            in if baseline > 0 \<and> growth \<ge> 64 * 1024 * 1024 \<and> final \<ge> fl (baseline * (5 / 4))
               then [RssGrowth baseline final growth] else [])
      else [])"

definition diagnostic_warnings ::
  "stage_latency list \<Rightarrow> broker_sample list \<Rightarrow> rat \<Rightarrow> domain list \<Rightarrow> pressure_warning list" where
  "diagnostic_warnings stages samples requestTimeoutMs selectedDomains =
     latency_warnings requestTimeoutMs stages @ pending_warnings samples @ rss_warnings selectedDomains samples"

subsection \<open>When each warning is raised\<close>

lemma sum_fields_other:
  "(\<forall>n. item \<noteq> JNum n) \<Longrightarrow>
   sum_fields key tot ((k, item) # entries) = sum_fields key (fl (tot + sum_matching key item)) entries"
  by (cases item) auto

lemma latency_warning_iff:
  "LatencyNearTimeout item summary t \<in> set (latency_warnings timeout stages) \<longleftrightarrow>
     item \<in> set stages \<and> t = timeout \<and> summary = latency_summary (latency_of item) \<and>
     fl (timeout / 2) < percentile (latency_of item) (95 / 100)"
  by (auto simp: latency_warnings_def Let_def latency_summary_def)

lemma last_three:
  "length xs \<ge> 3 \<Longrightarrow> drop (length xs - 3) xs = [xs ! (length xs - 3), xs ! (length xs - 2), xs ! (length xs - 1)]"
  by (rule nth_equalityI) (auto simp: less_Suc_eq numeral_3_eq_3 numeral_2_eq_2)

lemma pending_warning_iff:
  "pending_warnings samples \<noteq> [] \<longleftrightarrow>
     3 \<le> length samples \<and>
     pending_work (samples ! (length samples - 3)) < pending_work (samples ! (length samples - 2)) \<and>
     pending_work (samples ! (length samples - 2)) < pending_work (samples ! (length samples - 1))"
  by (simp add: pending_warnings_def last_three)

lemma warmup_index_bounds: "2 \<le> n \<Longrightarrow> warmup_index n < n - 1"
  unfolding warmup_index_def by (rule le_less_trans [OF min.cobounded1]) simp

lemma rss_warning_iff:
  "rss_warnings ds samples \<noteq> [] \<longleftrightarrow>
     Stream \<notin> set ds \<and> 2 \<le> length samples \<and>
     (let b = rssBytes (samples ! warmup_index (length samples)); f = rssBytes (last samples)
      in 0 < b \<and> 67108864 \<le> fl (f - b) \<and> fl (b * (5 / 4)) \<le> f)"
  by (simp add: rss_warnings_def rss_growth_assessment_def Let_def)


text \<open>
  A run is reported without warnings exactly when no stage has a p95 above half the
  request timeout, the last three samples do not show strictly growing pending work, and
  either Stream took part or the resident memory did not grow by both 64 MiB and a quarter over a
  baseline sample taken strictly before the last one.
\<close>
lemma no_warnings_iff:
  "diagnostic_warnings stages samples timeout ds = [] \<longleftrightarrow>
     list_all (\<lambda>item. percentile (latency_of item) (95 / 100) \<le> fl (timeout / 2)) stages \<and>
     \<not> (3 \<le> length samples \<and>
        pending_work (samples ! (length samples - 3)) < pending_work (samples ! (length samples - 2)) \<and>
        pending_work (samples ! (length samples - 2)) < pending_work (samples ! (length samples - 1))) \<and>
     \<not> (Stream \<notin> set ds \<and> 2 \<le> length samples \<and> warmup_index (length samples) < length samples - 1 \<and>
        (let b = rssBytes (samples ! warmup_index (length samples)); f = rssBytes (last samples)
         in 0 < b \<and> 67108864 \<le> fl (f - b) \<and> fl (b * (5 / 4)) \<le> f))"
proof -
  have "latency_warnings timeout stages = [] \<longleftrightarrow>
      list_all (\<lambda>item. percentile (latency_of item) (95 / 100) \<le> fl (timeout / 2)) stages"
    by (induction stages) (auto simp: latency_warnings_def latency_summary_def Let_def not_less)
  then show ?thesis
    unfolding diagnostic_warnings_def append_is_Nil_conv
    using pending_warning_iff [of samples] rss_warning_iff [of ds samples] warmup_index_bounds by blast
qed

end
