(* ===== verification/Config.thy ===== *)
theory Config
  imports JsMap Model JsNumber
begin

text \<open>
  The command line (src/config.ts): the presets, the argument loop, JavaScript's string to
  number conversion and the range checks of every option.  Node's \<^verbatim>\<open>resolve\<close> and the
  directory of the module are parameters of \<^verbatim>\<open>parse_args\<close>; the environment is a map.
\<close>

subsection \<open>Names\<close>

definition SCENARIO_NAMES :: "string list" where
  "SCENARIO_NAMES =
    [''clean-restart'', ''cache-loss'', ''chaos'', ''notice-fanout'', ''schedule-delivery'',
     ''session-boundaries'', ''half-open-session'', ''response-loss'', ''active-graceful-shutdown'',
     ''queue-redelivery'', ''queue-overload-recovery'', ''authorization-isolation'',
     ''stream-global-recovery'', ''queue-dead-letter-fencing'', ''cold-boot-provider-outage'',
     ''hostile-rpc-worker'', ''upgrade-recovery'', ''cross-transport-recovery'', ''outbound-blackhole'',
     ''broker-pause'', ''route-cardinality-churn'', ''cache-and-disk-exhaustion'', ''lease-contention'',
     ''hot-route-canary'', ''protocol-abuse'', ''rpc-pressure'', ''rpc-stream-hose'',
     ''connection-storm'', ''domain-pressure'', ''durability-crash-cuts'', ''soak'', ''storage-faults'',
     ''queue-lifecycle'', ''schedule-outage'', ''transaction-contention'', ''stream-replay'',
     ''live-churn'', ''lease-route-aliasing'', ''tcp-preauth-framing-slowloris'',
     ''connect-pipeline-family-rebind'', ''ephemeral-reply-loss-cleanup'',
     ''saturated-slow-recipient-isolation'', ''shutdown-reconnect-cleanup-storm'',
     ''control-lane-cleanup-under-saturation'', ''route-family-isolation-matrix'',
     ''rpc-response-state-conformance'', ''response-envelope-boundaries'',
     ''lease-waiter-disconnect-races'', ''wildcard-registration-quota-reclamation'',
     ''stream-selector-cursor-conformance'', ''schedule-due-storm-isolation'',
     ''same-shard-family-fairness'', ''actor-supervision-failpoint'',
     ''family-actor-partial-failure-isolation'', ''same-shard-family-failure-isolation'',
     ''family-actor-exhaustion-readiness'', ''family-actor-degradation-observability'',
     ''family-actor-inflight-concurrent-failure'', ''all'']"

datatype scale_name = Smoke | Standard | Large

datatype client_profile = EndToEnd | BrokerIsolation

definition is_scenario_name :: "string option \<Rightarrow> bool" where
  "is_scenario_name v = (case v of None \<Rightarrow> False | Some s \<Rightarrow> s \<in> set SCENARIO_NAMES)"

definition scale_of_name :: "string \<Rightarrow> scale_name option" where
  "scale_of_name s =
     (if s = ''smoke'' then Some Smoke else if s = ''standard'' then Some Standard
      else if s = ''large'' then Some Large else None)"

definition profile_of_name :: "string \<Rightarrow> client_profile option" where
  "profile_of_name s =
     (if s = ''end-to-end'' then Some EndToEnd else if s = ''broker-isolation'' then Some BrokerIsolation else None)"

definition USAGE_SCENARIOS :: "string list" where
  "USAGE_SCENARIOS =
    [''clean-restart'', ''cache-loss'', ''chaos'', ''durability-crash-cuts'', ''queue-overload-recovery'',
     ''response-loss'', ''active-graceful-shutdown'', ''half-open-session'', ''authorization-isolation'',
     ''stream-global-recovery'', ''queue-dead-letter-fencing'', ''cold-boot-provider-outage'',
     ''hostile-rpc-worker'', ''upgrade-recovery'', ''cross-transport-recovery'', ''outbound-blackhole'',
     ''broker-pause'', ''route-cardinality-churn'', ''cache-and-disk-exhaustion'', ''hot-route-canary'',
     ''lease-contention'', ''notice-fanout'', ''protocol-abuse'', ''queue-redelivery'',
     ''schedule-delivery'', ''schedule-due-storm-isolation'', ''session-boundaries'', ''rpc-pressure'',
     ''rpc-stream-hose'', ''connection-storm'', ''domain-pressure'', ''soak'', ''storage-faults'',
     ''queue-lifecycle'', ''schedule-outage'', ''transaction-contention'', ''stream-replay'',
     ''live-churn'', ''lease-route-aliasing'', ''tcp-preauth-framing-slowloris'',
     ''connect-pipeline-family-rebind'', ''ephemeral-reply-loss-cleanup'',
     ''saturated-slow-recipient-isolation'', ''shutdown-reconnect-cleanup-storm'',
     ''control-lane-cleanup-under-saturation'', ''route-family-isolation-matrix'',
     ''rpc-response-state-conformance'', ''response-envelope-boundaries'',
     ''lease-waiter-disconnect-races'', ''wildcard-registration-quota-reclamation'',
     ''stream-selector-cursor-conformance'', ''same-shard-family-fairness'',
     ''actor-supervision-failpoint'', ''family-actor-partial-failure-isolation'',
     ''same-shard-family-failure-isolation'', ''family-actor-exhaustion-readiness'',
     ''family-actor-degradation-observability'', ''family-actor-inflight-concurrent-failure'', ''all'']"

definition USAGE_OPTIONS :: "string list" where
  "USAGE_OPTIONS =
    [''  --scale <smoke|standard|large>  Workload preset (default: smoke)'',
     ''  --resources <n>                 Families per durable domain'',
     ''  --entries <n>                   Entries per family'',
     ''  --payload-bytes <n>             Value/body size'',
     ''  --seed <n>                      Deterministic unsigned 32-bit seed'',
     ''  --port <n>                      Loopback Fitz HTTP port (default: 4390)'',
     ''  --startup-timeout-ms <n>        Readiness deadline (default: 180000)'',
     ''  --clients <n>                   Bombard client replicas (default: 4)'',
     ''  --phase-ms <n>                  Healthy traffic time around faults (default: 5000)'',
     ''  --duration-ms <n>               Soak duration (default: 900000)'',
     ''  --sample-ms <n>                 Soak/broker sampling interval (default: 1000)'',
     ''  --iterations <n>                Deterministic fault iterations (scale default)'',
     ''  --concurrency <n>               Live operations per producer/caller (scale default)'',
     ''  --handler-delay-ms <n>          Live consumer/worker delay (scale default)'',
     ''  --schedule-lead-ms <n>          Minimum lead before the due minute (scale default)'',
     ''  --domains <list>                Bombard domains (default: all seven)'',
     ''  --client-profile <name>         end-to-end or broker-isolation (default: end-to-end)'',
     ''  --rpc-stream-calls <n>          Streaming RPC calls per caller (scale default)'',
     ''  --rpc-stream-frames <n>         Response frames per streaming call (scale default)'',
     ''  --rpc-stream-frame-bytes <n>    Bytes per streaming response frame (scale default)'',
     ''  --rpc-stream-reader-delay-ms <n> Delay after each received frame (scale default)'',
     ''  --keep                          Preserve a successful Compose stack'']"

definition USAGE :: string where
  "USAGE = ''fitz-destroyer <'' @ join_with ''|'' USAGE_SCENARIOS @ ''> [options]'' @ [CHR 0x0A] @
     concat (map (\<lambda>l. CHR 0x0A # l) USAGE_OPTIONS)"

definition KNOWN_OPTIONS :: "string list" where
  "KNOWN_OPTIONS =
    [''--scale'', ''--resources'', ''--entries'', ''--payload-bytes'', ''--seed'', ''--port'',
     ''--startup-timeout-ms'', ''--clients'', ''--phase-ms'', ''--duration-ms'', ''--sample-ms'',
     ''--iterations'', ''--concurrency'', ''--handler-delay-ms'', ''--schedule-lead-ms'', ''--domains'',
     ''--client-profile'', ''--rpc-stream-calls'', ''--rpc-stream-frames'', ''--rpc-stream-frame-bytes'',
     ''--rpc-stream-reader-delay-ms'']"

subsection \<open>Presets and the configuration\<close>

definition RPC_STREAM_MAX_FRAME_BYTES :: int where
  "RPC_STREAM_MAX_FRAME_BYTES = 65506"

definition DEFAULT_REQUEST_TIMEOUT_MS :: int where
  "DEFAULT_REQUEST_TIMEOUT_MS = 10000"

record scale =
  resources_s :: int
  entriesPerResource_s :: int
  payloadBytes_s :: int
  liveConcurrency_s :: int
  handlerDelayMs_s :: int
  rpcStreamCalls_s :: int
  rpcStreamFrames_s :: int
  rpcStreamFrameBytes_s :: int
  rpcStreamReaderDelayMs_s :: int
  scheduleLeadMs_s :: int
  iterations_s :: int

primrec SCALE_PRESETS :: "scale_name \<Rightarrow> scale" where
  "SCALE_PRESETS Smoke =
     \<lparr>resources_s = 2, entriesPerResource_s = 20, payloadBytes_s = 256, liveConcurrency_s = 8, handlerDelayMs_s = 1,
      rpcStreamCalls_s = 2, rpcStreamFrames_s = 100, rpcStreamFrameBytes_s = 1024, rpcStreamReaderDelayMs_s = 1,
      scheduleLeadMs_s = 45000, iterations_s = 8\<rparr>"
| "SCALE_PRESETS Standard =
     \<lparr>resources_s = 10, entriesPerResource_s = 1000, payloadBytes_s = 1024, liveConcurrency_s = 64, handlerDelayMs_s = 2,
      rpcStreamCalls_s = 25, rpcStreamFrames_s = 1000, rpcStreamFrameBytes_s = RPC_STREAM_MAX_FRAME_BYTES,
      rpcStreamReaderDelayMs_s = 1, scheduleLeadMs_s = 120000, iterations_s = 32\<rparr>"
| "SCALE_PRESETS Large =
     \<lparr>resources_s = 10, entriesPerResource_s = 5000, payloadBytes_s = 1024, liveConcurrency_s = 128, handlerDelayMs_s = 2,
      rpcStreamCalls_s = 100, rpcStreamFrames_s = 5000, rpcStreamFrameBytes_s = RPC_STREAM_MAX_FRAME_BYTES,
      rpcStreamReaderDelayMs_s = 2, scheduleLeadMs_s = 300000, iterations_s = 100\<rparr>"

record run_config =
  scenario :: string
  run_scale :: scale_name
  run_resources :: int
  run_entriesPerResource :: int
  run_payloadBytes :: int
  run_seed :: int
  port :: int
  startupTimeoutMs :: int
  requestTimeoutMs :: int
  clientReplicas :: int
  phaseMs :: int
  durationMs :: int
  sampleMs :: int
  iterations :: int
  liveConcurrency :: int
  handlerDelayMs :: int
  scheduleLeadMs :: int
  rpcStreamCalls :: int
  rpcStreamFrames :: int
  rpcStreamFrameBytes :: int
  rpcStreamReaderDelayMs :: int
  keep :: bool
  bombardDomains :: "domain list"
  clientProfile :: client_profile
  rootDir :: string
  fitzSourceDir :: string
  fitzImage :: "string option"
  upgradeFromImage :: "string option"
  destroyerImage :: "string option"

subsection \<open>Strings to numbers\<close>

text \<open>
  \<^verbatim>\<open>Number(text)\<close>: trimmed, empty is 0, otherwise a hexadecimal, octal or binary literal without a
  sign or a signed decimal literal; \<^verbatim>\<open>None\<close> is \<^verbatim>\<open>NaN\<close> or an infinity.
\<close>

definition digit_value :: "char \<Rightarrow> nat option" where
  "digit_value c = (let n = of_char c :: nat in
     if 48 \<le> n \<and> n \<le> 57 then Some (n - 48)
     else if 65 \<le> n \<and> n \<le> 90 then Some (n - 55)
     else if 97 \<le> n \<and> n \<le> 122 then Some (n - 87) else None)"

fun radix_digits :: "nat \<Rightarrow> nat \<Rightarrow> string \<Rightarrow> nat option" where
  "radix_digits base acc [] = Some acc"
| "radix_digits base acc (c # s) =
     (case digit_value c of
        None \<Rightarrow> None
      | Some d \<Rightarrow> if d < base then radix_digits base (acc * base + d) s else None)"

definition radix_literal :: "nat \<Rightarrow> string \<Rightarrow> rat option" where
  "radix_literal base s = (if s = [] then None else map_option (\<lambda>n. fl (of_nat n)) (radix_digits base 0 s))"

definition decimal_exponent :: "string \<Rightarrow> int option" where
  "decimal_exponent s =
     (let digits = (\<lambda>t. if t \<noteq> [] \<and> list_all is_digit t then Some (int (nat_of_digits t)) else None)
      in case s of
           [] \<Rightarrow> Some 0
         | e # t \<Rightarrow>
             if e = CHR ''e'' \<or> e = CHR ''E'' then
               (case t of
                  [] \<Rightarrow> None
                | g # u \<Rightarrow> if g = CHR ''-'' then map_option uminus (digits u)
                           else if g = CHR ''+'' then digits u else digits t)
             else None)"

definition decimal_literal :: "string \<Rightarrow> rat option" where
  "decimal_literal s =
     (let whole = takeWhile is_digit s;
          rest = dropWhile is_digit s;
          dotted = (rest \<noteq> [] \<and> hd rest = CHR ''.'');
          frac = (if dotted then takeWhile is_digit (tl rest) else []);
          rest2 = (if dotted then dropWhile is_digit (tl rest) else rest)
      in if whole = [] \<and> frac = [] then None
         else map_option (\<lambda>e. of_nat (nat_of_digits (whole @ frac)) * 10 powi (e - int (length frac)))
                (decimal_exponent rest2))"

definition js_to_number :: "string \<Rightarrow> rat option" where
  "js_to_number text =
     (let s = js_trim text in
      case s of
        [] \<Rightarrow> Some 0
      | c # t \<Rightarrow>
          if c = CHR ''0'' \<and> t \<noteq> [] \<and> hd t \<in> {CHR ''x'', CHR ''X''} then radix_literal 16 (tl t)
          else if c = CHR ''0'' \<and> t \<noteq> [] \<and> hd t \<in> {CHR ''o'', CHR ''O''} then radix_literal 8 (tl t)
          else if c = CHR ''0'' \<and> t \<noteq> [] \<and> hd t \<in> {CHR ''b'', CHR ''B''} then radix_literal 2 (tl t)
          else if c = CHR ''-'' then map_option (\<lambda>x. fl (- x)) (decimal_literal t)
          else if c = CHR ''+'' then map_option fl (decimal_literal t)
          else map_option fl (decimal_literal s))"

definition ranged_integer :: "string \<Rightarrow> string option \<Rightarrow> int \<Rightarrow> int \<Rightarrow> int \<Rightarrow> int result" where
  "ranged_integer name raw dflt minimum maximum =
     (case raw of
        None \<Rightarrow> Inr dflt
      | Some text \<Rightarrow>
          (let e = Error ''$ must be an integer between $ and $'' [AStr name, AInt minimum, AInt maximum] in
           case js_to_number text of
             None \<Rightarrow> Inl e
           | Some parsed \<Rightarrow>
               if \<not> is_safe_integer parsed \<or> parsed < of_int minimum \<or> parsed > of_int maximum then Inl e
               else Inr \<lfloor>parsed\<rfloor>))"

definition integer_option :: "(string, string) js_map \<Rightarrow> string \<Rightarrow> int \<Rightarrow> int \<Rightarrow> int \<Rightarrow> int result" where
  "integer_option values name dflt minimum maximum = ranged_integer name (map_get values name) dflt minimum maximum"

definition environment_integer :: "(string, string) js_map \<Rightarrow> string \<Rightarrow> int \<Rightarrow> int \<Rightarrow> int \<Rightarrow> int result" where
  "environment_integer env name dflt minimum maximum = ranged_integer name (map_get env name) dflt minimum maximum"

subsection \<open>Arguments\<close>

text \<open>The loop over \<^verbatim>\<open>argv\<close> from index 1; the state is \<^verbatim>\<open>values\<close> and \<^verbatim>\<open>keep\<close>.\<close>

fun read_arguments :: "(string, string) js_map \<Rightarrow> bool \<Rightarrow> string list \<Rightarrow> ((string, string) js_map \<times> bool) result" where
  "read_arguments vals kp [] = Inr (vals, kp)"
| "read_arguments vals kp (arg # rest) =
     (if arg = ''--keep'' then read_arguments vals True rest
      else if arg = ''--help'' \<or> arg = ''-h'' then Inl (Error USAGE [])
      else if \<not> prefix ''--'' arg then Inl (Error ''Unexpected argument: $'' [AStr arg])
      else (case rest of
              [] \<Rightarrow> Inl (Error ''Missing value for $'' [AStr arg])
            | next_arg # rest' \<Rightarrow>
                if prefix ''--'' next_arg then Inl (Error ''Missing value for $'' [AStr arg])
                else read_arguments (map_set vals arg next_arg) kp rest'))"

text \<open>\<^verbatim>\<open>env.NAME?.trim() || undefined\<close>.\<close>

definition environment_image :: "(string, string) js_map \<Rightarrow> string \<Rightarrow> string option" where
  "environment_image env name =
     (case map_get env name of
        None \<Rightarrow> None
      | Some v \<Rightarrow> if js_trim v = [] then None else Some (js_trim v))"

text \<open>The checks of the options in the order of the code, and the returned record.\<close>

definition read_config ::
  "(string \<Rightarrow> string) \<Rightarrow> (string \<Rightarrow> string \<Rightarrow> string) \<Rightarrow> string \<Rightarrow> (string, string) js_map \<Rightarrow>
   string \<Rightarrow> scale_name \<Rightarrow> client_profile \<Rightarrow> bool \<Rightarrow> (string, string) js_map \<Rightarrow> run_config result" where
  "read_config resolve_path resolve_from root_dir env chosen sc profile kp vals =
    (let preset = SCALE_PRESETS sc in
     try_in (integer_option vals ''--duration-ms'' 900000 1000 86400000) (\<lambda>duration.
     try_in (integer_option vals ''--sample-ms'' 1000 100 60000) (\<lambda>sample.
     if sample > duration then Inl (Error ''--sample-ms must not exceed --duration-ms'' [])
     else
     try_in (integer_option vals ''--resources'' (resources_s preset) 1 10000) (\<lambda>n_resources.
     try_in (integer_option vals ''--entries'' (entriesPerResource_s preset) 1 10000000) (\<lambda>n_entries.
     try_in (integer_option vals ''--payload-bytes'' (payloadBytes_s preset) 32 8000000) (\<lambda>n_payload.
     try_in (integer_option vals ''--seed'' 424242 0 0xffffffff) (\<lambda>n_seed.
     try_in (integer_option vals ''--port'' 4390 1 65535) (\<lambda>n_port.
     try_in (integer_option vals ''--startup-timeout-ms'' 180000 1000 3600000) (\<lambda>n_startup.
     try_in (environment_integer env ''DESTROYER_REQUEST_TIMEOUT_MS'' DEFAULT_REQUEST_TIMEOUT_MS 100 600000) (\<lambda>n_request.
     try_in (integer_option vals ''--clients'' 4 1 100) (\<lambda>n_clients.
     try_in (integer_option vals ''--phase-ms'' 5000 1000 600000) (\<lambda>n_phase.
     try_in (integer_option vals ''--iterations'' (iterations_s preset) 1 10000) (\<lambda>n_iterations.
     try_in (integer_option vals ''--concurrency'' (liveConcurrency_s preset) 1 1024) (\<lambda>n_concurrency.
     try_in (integer_option vals ''--handler-delay-ms'' (handlerDelayMs_s preset) 0 60000) (\<lambda>n_delay.
     try_in (integer_option vals ''--schedule-lead-ms'' (scheduleLeadMs_s preset) 10000 3600000) (\<lambda>n_lead.
     try_in (integer_option vals ''--rpc-stream-calls'' (rpcStreamCalls_s preset) 1 1000000) (\<lambda>n_calls.
     try_in (integer_option vals ''--rpc-stream-frames'' (rpcStreamFrames_s preset) 2 10000000) (\<lambda>n_frames.
     try_in (integer_option vals ''--rpc-stream-frame-bytes'' (rpcStreamFrameBytes_s preset) 64 RPC_STREAM_MAX_FRAME_BYTES) (\<lambda>n_bytes.
     try_in (integer_option vals ''--rpc-stream-reader-delay-ms'' (rpcStreamReaderDelayMs_s preset) 0 60000) (\<lambda>n_reader.
     try_in (parse_domain_selection (map_get vals ''--domains'')) (\<lambda>domains.
     Inr \<lparr>scenario = chosen, run_scale = sc, run_resources = n_resources, run_entriesPerResource = n_entries,
          run_payloadBytes = n_payload, run_seed = n_seed, port = n_port, startupTimeoutMs = n_startup,
          requestTimeoutMs = n_request, clientReplicas = n_clients, phaseMs = n_phase, durationMs = duration,
          sampleMs = sample, iterations = n_iterations, liveConcurrency = n_concurrency, handlerDelayMs = n_delay,
          scheduleLeadMs = n_lead, rpcStreamCalls = n_calls, rpcStreamFrames = n_frames,
          rpcStreamFrameBytes = n_bytes, rpcStreamReaderDelayMs = n_reader, keep = kp, bombardDomains = domains,
          clientProfile = profile, rootDir = root_dir,
          fitzSourceDir = resolve_path (get_or (resolve_from root_dir ''../fitz'') (map_get env ''FITZ_SOURCE_DIR'')),
          fitzImage = environment_image env ''FITZ_IMAGE'',
          upgradeFromImage = environment_image env ''FITZ_UPGRADE_FROM_IMAGE'',
          destroyerImage = environment_image env ''DESTROYER_IMAGE''\<rparr>)))))))))))))))))))))"

definition parse_args ::
  "(string \<Rightarrow> string) \<Rightarrow> (string \<Rightarrow> string \<Rightarrow> string) \<Rightarrow> string \<Rightarrow> string list \<Rightarrow> (string, string) js_map \<Rightarrow> run_config result" where
  "parse_args resolve_path resolve_from root_dir argv env =
     (let chosen = (case argv of [] \<Rightarrow> None | s # _ \<Rightarrow> Some s) in
      if \<not> is_scenario_name chosen then Inl (Error ''Missing or invalid scenario. $'' [AStr USAGE])
      else
      try_in (read_arguments [] False (tl argv)) (\<lambda>(vals, kp).
      try_in (for_each (\<lambda>k. ensure (k \<in> set KNOWN_OPTIONS) (Error ''Unknown option: $'' [AStr k])) (map_keys vals)) (\<lambda>_.
      let scale_value = get_or ''smoke'' (map_get vals ''--scale'');
          profile_value = get_or ''end-to-end'' (map_get vals ''--client-profile'') in
      case scale_of_name scale_value of
        None \<Rightarrow> Inl (Error ''Invalid scale: $'' [AStr scale_value])
      | Some sc \<Rightarrow>
          (case profile_of_name profile_value of
             None \<Rightarrow> Inl (Error ''Invalid client profile: $'' [AStr profile_value])
           | Some profile \<Rightarrow>
               read_config resolve_path resolve_from root_dir env (the chosen) sc profile kp vals))))"

subsection \<open>What an accepted command line satisfies\<close>

lemma ranged_integer_ok:
  "ranged_integer name raw d lo hi = Inr v \<longleftrightarrow>
     raw = None \<and> v = d \<or>
     (\<exists>text. raw = Some text \<and> js_to_number text = Some (of_int v) \<and> \<bar>v\<bar> \<le> max_safe_integer \<and> lo \<le> v \<and> v \<le> hi)"
proof (cases raw)
  case None
  then show ?thesis by (auto simp: ranged_integer_def)
next
  case (Some t)
  show ?thesis
  proof (cases "js_to_number t")
    case None
    then show ?thesis using Some by (simp add: ranged_integer_def)
  next
    case num: (Some x)
    show ?thesis
    proof (cases "is_safe_integer x")
      case True
      then obtain n where n: "x = of_int n" "\<bar>n\<bar> \<le> max_safe_integer" unfolding is_safe_integer_def by blast
      then have "is_safe_integer (of_int n)" using True by simp
      then show ?thesis using Some num n by (auto simp: ranged_integer_def Let_def)
    next
      case False
      then have "x \<noteq> of_int v \<or> \<not> \<bar>v\<bar> \<le> max_safe_integer" by (auto simp: is_safe_integer_def)
      then show ?thesis using Some num False by (auto simp: ranged_integer_def Let_def)
    qed
  qed
qed

lemma option_bounds:
  "integer_option vals name d lo hi = Inr v \<Longrightarrow> lo \<le> d \<and> d \<le> hi \<longrightarrow> lo \<le> v \<and> v \<le> hi"
  "environment_integer env name d lo hi = Inr v \<Longrightarrow> lo \<le> d \<and> d \<le> hi \<longrightarrow> lo \<le> v \<and> v \<le> hi"
  by (auto simp: integer_option_def environment_integer_def ranged_integer_ok)

lemma preset_bounds [simp]:
  "1 \<le> resources_s (SCALE_PRESETS sc)" "resources_s (SCALE_PRESETS sc) \<le> 10000"
  "1 \<le> entriesPerResource_s (SCALE_PRESETS sc)" "entriesPerResource_s (SCALE_PRESETS sc) \<le> 10000000"
  "32 \<le> payloadBytes_s (SCALE_PRESETS sc)" "payloadBytes_s (SCALE_PRESETS sc) \<le> 8000000"
  "1 \<le> iterations_s (SCALE_PRESETS sc)" "iterations_s (SCALE_PRESETS sc) \<le> 10000"
  "1 \<le> liveConcurrency_s (SCALE_PRESETS sc)" "liveConcurrency_s (SCALE_PRESETS sc) \<le> 1024"
  "0 \<le> handlerDelayMs_s (SCALE_PRESETS sc)" "handlerDelayMs_s (SCALE_PRESETS sc) \<le> 60000"
  "10000 \<le> scheduleLeadMs_s (SCALE_PRESETS sc)" "scheduleLeadMs_s (SCALE_PRESETS sc) \<le> 3600000"
  "1 \<le> rpcStreamCalls_s (SCALE_PRESETS sc)" "rpcStreamCalls_s (SCALE_PRESETS sc) \<le> 1000000"
  "2 \<le> rpcStreamFrames_s (SCALE_PRESETS sc)" "rpcStreamFrames_s (SCALE_PRESETS sc) \<le> 10000000"
  "64 \<le> rpcStreamFrameBytes_s (SCALE_PRESETS sc)" "rpcStreamFrameBytes_s (SCALE_PRESETS sc) \<le> RPC_STREAM_MAX_FRAME_BYTES"
  "0 \<le> rpcStreamReaderDelayMs_s (SCALE_PRESETS sc)" "rpcStreamReaderDelayMs_s (SCALE_PRESETS sc) \<le> 60000"
  by (cases sc; simp add: RPC_STREAM_MAX_FRAME_BYTES_def)+

definition between :: "int \<Rightarrow> int \<Rightarrow> int \<Rightarrow> bool" where
  "between lo v hi \<longleftrightarrow> lo \<le> v \<and> v \<le> hi"

definition config_ok :: "run_config \<Rightarrow> bool" where
  "config_ok c \<longleftrightarrow>
     scenario c \<in> set SCENARIO_NAMES \<and>
     between 1 (run_resources c) 10000 \<and> between 1 (run_entriesPerResource c) 10000000 \<and>
     between 32 (run_payloadBytes c) 8000000 \<and> between 0 (run_seed c) (2 ^ 32 - 1) \<and>
     between 1 (port c) 65535 \<and> between 1000 (startupTimeoutMs c) 3600000 \<and>
     between 100 (requestTimeoutMs c) 600000 \<and> between 1 (clientReplicas c) 100 \<and>
     between 1000 (phaseMs c) 600000 \<and> between 1000 (durationMs c) 86400000 \<and>
     between 100 (sampleMs c) (min 60000 (durationMs c)) \<and> between 1 (iterations c) 10000 \<and>
     between 1 (liveConcurrency c) 1024 \<and> between 0 (handlerDelayMs c) 60000 \<and>
     between 10000 (scheduleLeadMs c) 3600000 \<and> between 1 (rpcStreamCalls c) 1000000 \<and>
     between 2 (rpcStreamFrames c) 10000000 \<and> between 64 (rpcStreamFrameBytes c) 65506 \<and>
     between 0 (rpcStreamReaderDelayMs c) 60000 \<and>
     bombardDomains c \<noteq> [] \<and> subseq (bombardDomains c) ALL_DOMAINS"

lemma ALL_DOMAINS_nonempty: "ALL_DOMAINS \<noteq> []"
  by (simp add: ALL_DOMAINS_def)

lemma parse_domain_selection_shape:
  assumes "parse_domain_selection v = Inr ds" shows "ds \<noteq> [] \<and> subseq ds ALL_DOMAINS"
proof (cases v)
  case None
  then show ?thesis using assms by (simp add: parse_domain_selection_def ALL_DOMAINS_nonempty)
next
  case (Some s)
  show ?thesis
  proof (cases "js_trim s = []")
    case True
    then show ?thesis using assms Some by (simp add: parse_domain_selection_def ALL_DOMAINS_nonempty)
  next
    case False
    let ?raws = "split_on CHR '','' s"
    from assms Some False obtain sel where sel: "fold_result select_domain [] ?raws = Inr sel"
      and ds: "ds = filter (\<lambda>d. d \<in> set sel) ALL_DOMAINS"
      by (auto simp: parse_domain_selection_def try_in_eq_Inr)
    then have "sel \<noteq> []" using split_on_set_nonempty [of "CHR '',''" s] by (auto simp: select_domains)
    then show ?thesis unfolding ds by (cases sel) (auto simp: filter_empty_conv)
  qed
qed

lemma try_inE: "try_in m k = Inr y \<Longrightarrow> (\<And>x. m = Inr x \<Longrightarrow> k x = Inr y \<Longrightarrow> thesis) \<Longrightarrow> thesis"
  by (auto simp: try_in_eq_Inr)

lemma read_config_bounds:
  assumes "read_config resolve_path resolve_from root_dir env chosen sc profile kp vals = Inr c"
    and "chosen \<in> set SCENARIO_NAMES"
  shows "config_ok c"
  using assms unfolding read_config_def Let_def
  apply (elim try_inE)
  apply (simp only: sum.distinct(1) simp_thms split: if_splits)
  apply (elim conjE try_inE)
  apply (drule option_bounds parse_domain_selection_shape)+
  apply (drule Inr_inject)
  apply (erule subst)
  apply (use preset_bounds in \<open>simp add: config_ok_def between_def RPC_STREAM_MAX_FRAME_BYTES_def DEFAULT_REQUEST_TIMEOUT_MS_def\<close>)
  done

lemma parse_args_bounds:
  assumes "parse_args resolve_path resolve_from root_dir argv env = Inr c" shows "config_ok c"
proof -
  let ?chosen = "case argv of [] \<Rightarrow> None | s # _ \<Rightarrow> Some s"
  have chosen: "is_scenario_name ?chosen" using assms by (simp add: parse_args_def Let_def split: if_splits)
  then have "the ?chosen \<in> set SCENARIO_NAMES" by (simp add: is_scenario_name_def split: option.splits)
  moreover obtain vals kp sc profile where
    "read_config resolve_path resolve_from root_dir env (the ?chosen) sc profile kp vals = Inr c"
  proof -
    obtain p where "read_arguments [] False (tl argv) = Inr p"
      and rest: "(case p of (vals, kp) \<Rightarrow>
        try_in (for_each (\<lambda>k. ensure (k \<in> set KNOWN_OPTIONS) (Error ''Unknown option: $'' [AStr k])) (map_keys vals)) (\<lambda>_.
          let scale_value = get_or ''smoke'' (map_get vals ''--scale'');
              profile_value = get_or ''end-to-end'' (map_get vals ''--client-profile'')
          in case scale_of_name scale_value of
               None \<Rightarrow> Inl (Error ''Invalid scale: $'' [AStr scale_value])
             | Some sc \<Rightarrow>
                 (case profile_of_name profile_value of
                    None \<Rightarrow> Inl (Error ''Invalid client profile: $'' [AStr profile_value])
                  | Some profile \<Rightarrow>
                      read_config resolve_path resolve_from root_dir env (the ?chosen) sc profile kp vals))) = Inr c"
      using assms chosen by (auto simp: parse_args_def Let_def try_in_eq_Inr)
    show thesis
      using rest by (cases p) (auto simp: try_in_eq_Inr Let_def split: option.splits intro: that)
  qed
  ultimately show ?thesis by (rule read_config_bounds [rotated])
qed

text \<open>
  C9.  A command line that is accepted gives a configuration inside every documented range:
  a known scenario, each number a safe integer between its bounds (presets included), the
  sampling interval no longer than the run, and a non-empty selection of distinct domains in
  canonical order.
\<close>
theorem parse_args_in_range:
  assumes "parse_args resolve_path resolve_from root_dir argv env = Inr c" shows "config_ok c"
  using assms by (rule parse_args_bounds)

lemma try_in_weak_cong: "m = m' \<Longrightarrow> try_in m k = try_in m' k"
  by simp

lemma sample_number: "js_to_number ''7'' = Some 7"
  by code_simp

lemma sample_args_ok:
  "\<exists>c. parse_args id (@) ''/srv'' [''chaos'', ''--seed'', ''7'', ''--keep''] [] = Inr c \<and> run_seed c = 7 \<and> keep c"
  by (simp add: parse_args_def is_scenario_name_def SCENARIO_NAMES_def KNOWN_OPTIONS_def map_keys_def scale_of_name_def
      profile_of_name_def read_config_def integer_option_def environment_integer_def ranged_integer_def sample_number
      is_safe_integer_def max_safe_integer_def parse_domain_selection_def cong: try_in_weak_cong)

lemma parse_args_in_range_witness:
  "\<exists>c. parse_args id (@) ''/srv'' [''chaos'', ''--seed'', ''7'', ''--keep''] [] = Inr c \<and> config_ok c \<and> run_seed c = 7"
  using sample_args_ok parse_args_in_range by blast

subsection \<open>Decimal numbers\<close>

lemma is_digit_cases: "is_digit c \<Longrightarrow> \<not> is_space c \<and> c \<noteq> CHR ''-'' \<and> c \<noteq> CHR ''+'' \<and> c \<notin> {CHR ''x'', CHR ''X'', CHR ''o'', CHR ''O'', CHR ''b'', CHR ''B''}"
  by (auto simp: is_digit_def is_space_def)

lemma js_trim_same: "list_all (\<lambda>c. \<not> is_space c) s \<Longrightarrow> js_trim s = s"
proof -
  have drop: "list_all (\<lambda>c. \<not> is_space c) t \<Longrightarrow> dropWhile is_space t = t" for t by (cases t) auto
  assume "list_all (\<lambda>c. \<not> is_space c) s"
  then show "js_trim s = s" by (simp add: js_trim_def drop list_all_rev)
qed

lemma js_to_number_digits:
  assumes digits: "list_all is_digit d" and "d \<noteq> []" and small: "nat_of_digits d \<le> 2 ^ 53"
  shows "js_to_number d = Some (of_nat (nat_of_digits d))"
proof -
  obtain c t where s: "d = c # t" using assms(2) by (cases d) auto
  have c: "is_digit c" and t: "list_all is_digit t" using digits s by auto
  have trim: "js_trim d = d"
    by (rule js_trim_same) (use digits in \<open>auto simp: list_all_iff dest: is_digit_cases\<close>)
  have parts: "takeWhile is_digit d = d" "dropWhile is_digit d = []"
    using digits by (simp_all add: takeWhile_eq_all_conv dropWhile_eq_Nil_conv list_all_iff)
  have lit: "decimal_literal d = Some (of_nat (nat_of_digits d))"
    by (simp add: decimal_literal_def decimal_exponent_def parts assms(2) del: takeWhile_eq_all_conv dropWhile_eq_Nil_conv)
  have "t \<noteq> [] \<Longrightarrow> is_digit (hd t)" using t by (cases t) auto
  then have x: "\<not> (t \<noteq> [] \<and> hd t \<in> {CHR ''x'', CHR ''X''})" "\<not> (t \<noteq> [] \<and> hd t \<in> {CHR ''o'', CHR ''O''})"
      "\<not> (t \<noteq> [] \<and> hd t \<in> {CHR ''b'', CHR ''B''})"
    using is_digit_cases [of "hd t"] by blast+
  have sign: "c \<noteq> CHR ''-''" "c \<noteq> CHR ''+''" using is_digit_cases [OF c] by blast+
  have "js_to_number d = map_option fl (decimal_literal d)"
    unfolding s unfolding js_to_number_def trim [unfolded s] Let_def list.case by (simp only: x sign if_False simp_thms)
  then show ?thesis by (simp only: lit option.map fl_of_nat [OF small])
qed

lemma js_to_number_show_nat: "n \<le> 2 ^ 53 \<Longrightarrow> js_to_number (show_nat n) = Some (of_nat n)"
  using js_to_number_digits [of "show_nat n"] show_nat_digits [of n] by (simp add: list_all_iff)

lemma js_to_number_pad: "n \<le> 2 ^ 53 \<Longrightarrow> js_to_number (pad n w) = Some (of_nat n)"
  using js_to_number_digits [of "pad n w"] pad_digits [of n w] by (simp add: list_all_iff pad_def Let_def nat_of_digits_zeros)

end
