(* ===== verification/Scenario.thy ===== *)
theory Scenario
  imports Config Text Pressure
begin

text \<open>
  The life of one scenario (src/scenario.ts): the phases of \<^verbatim>\<open>runScenario\<close> with its
  \<^verbatim>\<open>catch\<close> and \<^verbatim>\<open>finally\<close>, the dispatch to a workload, the chaos sequence and the failure
  classifier.  What the stack (Docker Compose) does is the environment of a run: for every
  operation and every artifact write, whether it throws.
\<close>

subsection \<open>Names of runs\<close>

definition is_route_char :: "char \<Rightarrow> bool" where
  "is_route_char c = (let n = of_char c :: nat in 97 \<le> n \<and> n \<le> 122 \<or> 48 \<le> n \<and> n \<le> 57 \<or> c = CHR ''-'')"

text \<open>\<^verbatim>\<open>replace(/-+/g, "-")\<close>.\<close>

fun collapse_dashes :: "string \<Rightarrow> string" where
  "collapse_dashes (a # b # s) =
     (if a = CHR ''-'' \<and> b = CHR ''-'' then collapse_dashes (b # s) else a # collapse_dashes (b # s))"
| "collapse_dashes s = s"

definition drop_last_dash :: "string \<Rightarrow> string" where
  "drop_last_dash s = (if s \<noteq> [] \<and> last s = CHR ''-'' then butlast s else s)"

definition drop_first_dash :: "string \<Rightarrow> string" where
  "drop_first_dash s = (case s of c # t \<Rightarrow> if c = CHR ''-'' then t else s | [] \<Rightarrow> [])"

text \<open>
  \<^verbatim>\<open>toLowerCase\<close> on code units below 256 that a route may hold; any other character
  becomes a dash in both versions.
\<close>

definition route_segment :: "string \<Rightarrow> string" where
  "route_segment v =
     drop_last_dash (drop_first_dash (collapse_dashes
       (map (\<lambda>c. if is_route_char c then c else CHR ''-'') (lower v))))"

text \<open>The run id from the (trimmed) time stamp, the scenario and six random hexadecimal digits.\<close>

definition create_run_id :: "string \<Rightarrow> string \<Rightarrow> string \<Rightarrow> string" where
  "create_run_id timestamp_text chosen random_hex = timestamp_text @ ''-'' @ chosen @ ''-'' @ random_hex"

definition project_name :: "string \<Rightarrow> string" where
  "project_name ns = drop_last_dash (take 63 (''fitz-destroyer-'' @ ns))"

subsection \<open>Failure classification\<close>

datatype failure_class = SetupFailure | WorkloadFailure | AssertionFailure | TimeoutFailure | CleanupFailure

datatype phase = SetupPhase | WorkloadPhase

definition classify_failure :: "thrown \<Rightarrow> phase \<Rightarrow> failure_class" where
  "classify_failure error ph =
     (if ph = SetupPhase then SetupFailure
      else
        (let name = error_name error; message = lower (error_message error) in
         if name = ''TimeoutError'' \<or> has_word [''time out'', ''timed out'', ''timeout'', ''deadline''] message
         then TimeoutFailure
         else if name = ''AssertionError'' \<or>
           has_word [''expected'', ''unexpected'', ''missing'', ''mismatch'', ''duplicate'', ''disappeared'',
             ''observed'', ''omitted'', ''did not'', ''does not'', ''quiesce'', ''reused''] message
         then AssertionFailure
         else WorkloadFailure))"

subsection \<open>Workloads\<close>

text \<open>One awaited call of a workload, by the name of the function.\<close>

datatype workload_step =
    RecoveryJob string
  | GracefulRestartFitz
  | DiscardFitzCacheAndRestart
  | RunScenarioFunction string
  | RunPressureScenario string
  | RunChaos

definition scenario_functions :: "(string, string) js_map" where
  "scenario_functions =
     [(''durability-crash-cuts'', ''runDurabilityCrashCutsScenario''),
      (''queue-overload-recovery'', ''runQueueOverloadRecoveryScenario''),
      (''response-loss'', ''runResponseLossScenario''),
      (''active-graceful-shutdown'', ''runActiveGracefulShutdownScenario''),
      (''half-open-session'', ''runHalfOpenSessionScenario''),
      (''authorization-isolation'', ''runAuthorizationIsolationScenario''),
      (''stream-global-recovery'', ''runStreamGlobalRecoveryScenario''),
      (''queue-dead-letter-fencing'', ''runQueueDeadLetterFencingScenario''),
      (''cold-boot-provider-outage'', ''runColdBootProviderOutageScenario''),
      (''hostile-rpc-worker'', ''runHostileRpcWorkerScenario''),
      (''upgrade-recovery'', ''runUpgradeRecoveryScenario''),
      (''cross-transport-recovery'', ''runCrossTransportRecoveryScenario''),
      (''outbound-blackhole'', ''runOutboundBlackholeScenario''),
      (''broker-pause'', ''runBrokerPauseScenario''),
      (''route-cardinality-churn'', ''runRouteCardinalityChurnScenario''),
      (''cache-and-disk-exhaustion'', ''runCacheAndDiskExhaustionScenario''),
      (''notice-fanout'', ''stack.runNoticeFanout''),
      (''queue-redelivery'', ''runQueueRedeliveryScenario''),
      (''lease-contention'', ''runLeaseContentionScenario''),
      (''hot-route-canary'', ''runHotRouteCanaryScenario''),
      (''protocol-abuse'', ''runProtocolAbuseScenario''), (''schedule-delivery'', ''runScheduleDelivery''),
      (''session-boundaries'', ''runSessionBoundariesScenario''),
      (''rpc-pressure'', ''stack.runRpcPressure''), (''rpc-stream-hose'', ''runRpcStreamHose''),
      (''connection-storm'', ''stack.runConnectionStorm''),
      (''storage-faults'', ''runStorageFaultsScenario''),
      (''queue-lifecycle'', ''runQueueLifecycleScenario''),
      (''transaction-contention'', ''runTransactionContentionScenario''),
      (''stream-replay'', ''runStreamReplayScenario''),
      (''schedule-outage'', ''runScheduleOutageScenario''), (''live-churn'', ''runLiveChurnScenario''),
      (''lease-route-aliasing'', ''runLeaseRouteAliasingScenario''),
      (''tcp-preauth-framing-slowloris'', ''runTcpPreauthFramingSlowlorisScenario''),
      (''connect-pipeline-family-rebind'', ''runConnectPipelineFamilyRebindScenario''),
      (''ephemeral-reply-loss-cleanup'', ''runEphemeralReplyLossCleanupScenario''),
      (''saturated-slow-recipient-isolation'', ''runSaturatedSlowRecipientIsolationScenario''),
      (''shutdown-reconnect-cleanup-storm'', ''runShutdownReconnectCleanupStormScenario''),
      (''control-lane-cleanup-under-saturation'', ''runControlLaneCleanupUnderSaturationScenario''),
      (''route-family-isolation-matrix'', ''runRouteFamilyIsolationMatrixScenario''),
      (''rpc-response-state-conformance'', ''runRpcResponseStateConformanceScenario''),
      (''response-envelope-boundaries'', ''runResponseEnvelopeBoundariesScenario''),
      (''lease-waiter-disconnect-races'', ''runLeaseWaiterDisconnectRacesScenario''),
      (''wildcard-registration-quota-reclamation'', ''runWildcardRegistrationQuotaReclamationScenario''),
      (''stream-selector-cursor-conformance'', ''runStreamSelectorCursorConformanceScenario''),
      (''schedule-due-storm-isolation'', ''runScheduleDueStormIsolationScenario''),
      (''same-shard-family-fairness'', ''runSameShardFamilyFairnessScenario''),
      (''actor-supervision-failpoint'', ''runActorSupervisionFailpointScenario''),
      (''family-actor-partial-failure-isolation'', ''runFamilyActorPartialFailureIsolationScenario''),
      (''same-shard-family-failure-isolation'', ''runSameShardFamilyFailureIsolationScenario''),
      (''family-actor-exhaustion-readiness'', ''runFamilyActorExhaustionReadinessScenario''),
      (''family-actor-degradation-observability'', ''runFamilyActorDegradationObservabilityScenario''),
      (''family-actor-inflight-concurrent-failure'', ''runFamilyActorInflightConcurrentFailureScenario'')]"

definition workload_steps :: "string \<Rightarrow> workload_step list option" where
  "workload_steps s =
     (if s = ''clean-restart'' then
        Some [RecoveryJob ''load'', GracefulRestartFitz, RecoveryJob ''verify'', GracefulRestartFitz, RecoveryJob ''verify'']
      else if s = ''cache-loss'' then
        Some [RecoveryJob ''load'', DiscardFitzCacheAndRestart, RecoveryJob ''verify'', GracefulRestartFitz,
              RecoveryJob ''verify'']
      else if s = ''domain-pressure'' \<or> s = ''soak'' then Some [RunPressureScenario s]
      else if s = ''chaos'' then Some [RunChaos]
      else map_option (\<lambda>f. [RunScenarioFunction f]) (map_get scenario_functions s))"

text \<open>
  A sequence of awaited calls against an oracle that says which call throws: the calls that
  returned, and the error that stopped the sequence.
\<close>

fun run_steps :: "('a \<Rightarrow> thrown option) \<Rightarrow> 'a list \<Rightarrow> 'a list \<times> thrown option" where
  "run_steps fails [] = ([], None)"
| "run_steps fails (s # rest) =
     (case fails s of
        Some e \<Rightarrow> ([], Some e)
      | None \<Rightarrow> (case run_steps fails rest of (completed_steps, e) \<Rightarrow> (s # completed_steps, e)))"

definition not_implemented :: "string \<Rightarrow> thrown" where
  "not_implemented s = ErrorObject ''Error'' (''Scenario '' @ s @ '' is not implemented'')"

definition execute_workload :: "(nat \<times> workload_step \<Rightarrow> thrown option) \<Rightarrow> string \<Rightarrow> thrown option" where
  "execute_workload fails s =
     (case workload_steps s of
        None \<Rightarrow> Some (not_implemented s)
      | Some steps \<Rightarrow> snd (run_steps fails (enumerate 0 steps)))"

subsection \<open>The chaos sequence\<close>

datatype chaos_step =
    StartClients
  | WaitForAllClientDomains
  | SleepPhase
  | KillFitz
  | RestartFitz
  | FreshProgressMarker
  | KillOneClientAndRestore
  | KillSqrzlAndRestore
  | ReplaceClients
  | RecordRecovery string
  | StopClients
  | ChaosComplete

definition chaos_sequence :: "chaos_step list" where
  "chaos_sequence =
     [StartClients, WaitForAllClientDomains, SleepPhase,
      KillFitz, RestartFitz, StartClients, FreshProgressMarker, WaitForAllClientDomains,
      RecordRecovery ''fitz-sigkill'', SleepPhase,
      KillOneClientAndRestore, FreshProgressMarker, WaitForAllClientDomains,
      RecordRecovery ''client-sigkill'', SleepPhase,
      KillSqrzlAndRestore, ReplaceClients, FreshProgressMarker, WaitForAllClientDomains,
      RecordRecovery ''sqrzl-sigkill'',
      StopClients, ChaosComplete]"

definition run_chaos :: "(nat \<times> chaos_step \<Rightarrow> thrown option) \<Rightarrow> chaos_step list \<times> thrown option" where
  "run_chaos fails =
     (case run_steps fails (enumerate 0 chaos_sequence) of (completed_steps, e) \<Rightarrow> (map snd completed_steps, e))"

subsection \<open>The life of a scenario\<close>

datatype verdict = Passed | Failed

datatype cleanup_state = Removed | Preserved | CleanupFailed

datatype scenario_event =
    ScenarioStarted
  | WorkloadStarted string
  | WorkloadComplete verdict
  | ScenarioFailed string failure_class
  | ArtifactCollectionFailed string
  | CleanupFailedEvent string
  | SummaryWritten
  | ScenarioComplete

text \<open>
  The environment: what each operation of the stack does, which artifact writes throw (by their
  number) and the clock readings.
\<close>

record scenario_env =
  preflight :: "thrown option"
  reset :: "thrown option"
  prepareImages :: "thrown option"
  startCore :: "thrown option"
  workload :: "nat \<times> workload_step \<Rightarrow> thrown option"
  stopFitz :: "thrown option"
  collect :: "thrown option"
  cleanup :: "thrown option"
  write_fails :: "nat \<Rightarrow> thrown option"
  started_text :: string
  completed_text :: string
  workload_ms :: int
  total_ms :: int

record run_state =
  verdict :: verdict
  failureClassification :: "failure_class option"
  failureMessage :: "string option"
  cleanupError :: "string option"
  cleanupState :: cleanup_state
  phase_of :: phase
  workloadStartedAt :: "string option"
  workloadCompletedAt :: "string option"
  workloadDurationMs :: "int option"
  log :: "scenario_event list"
  writes :: nat

text \<open>An awaited step: the new state, and the error it threw.\<close>

type_synonym step_result = "run_state \<times> thrown option"

definition and_then :: "step_result \<Rightarrow> (run_state \<Rightarrow> step_result) \<Rightarrow> step_result" where
  "and_then r f = (case r of (st, None) \<Rightarrow> f st | (st, Some e) \<Rightarrow> (st, Some e))"

definition stack_call :: "thrown option \<Rightarrow> run_state \<Rightarrow> step_result" where
  "stack_call outcome st = (st, outcome)"

definition write_artifact :: "scenario_env \<Rightarrow> scenario_event \<Rightarrow> run_state \<Rightarrow> step_result" where
  "write_artifact env ev st =
     (case write_fails env (writes st) of
        None \<Rightarrow> (st\<lparr>log := log st @ [ev], writes := writes st + 1\<rparr>, None)
      | Some e \<Rightarrow> (st\<lparr>writes := writes st + 1\<rparr>, Some e))"

definition initial_state :: run_state where
  "initial_state =
     \<lparr>verdict = Failed, failureClassification = None, failureMessage = None, cleanupError = None,
      cleanupState = Preserved, phase_of = SetupPhase, workloadStartedAt = None, workloadCompletedAt = None,
      workloadDurationMs = None, log = [], writes = 0\<rparr>"

definition try_block :: "scenario_env \<Rightarrow> string \<Rightarrow> run_state \<Rightarrow> step_result" where
  "try_block env chosen st =
     and_then (stack_call (preflight env) st) (\<lambda>st.
     and_then (stack_call (reset env) st) (\<lambda>st.
     and_then (stack_call (prepareImages env) st) (\<lambda>st.
     and_then (stack_call (startCore env) st) (\<lambda>st.
     and_then (write_artifact env (WorkloadStarted chosen)
                (st\<lparr>phase_of := WorkloadPhase, workloadStartedAt := Some (started_text env)\<rparr>)) (\<lambda>st.
     and_then (stack_call (execute_workload (workload env) chosen) st) (\<lambda>st.
     and_then (write_artifact env (WorkloadComplete Passed)
                (st\<lparr>workloadDurationMs := Some (workload_ms env), workloadCompletedAt := Some (completed_text env)\<rparr>)) (\<lambda>st.
     and_then (stack_call (stopFitz env) st) (\<lambda>st.
       (st\<lparr>verdict := Passed\<rparr>, None)))))))))"

definition catch_block :: "scenario_env \<Rightarrow> thrown \<Rightarrow> run_state \<Rightarrow> step_result" where
  "catch_block env error st =
     and_then
       (if workloadStartedAt st \<noteq> None \<and> workloadCompletedAt st = None
        then write_artifact env (WorkloadComplete Failed)
               (st\<lparr>workloadDurationMs := Some (workload_ms env), workloadCompletedAt := Some (completed_text env)\<rparr>)
        else (st, None)) (\<lambda>st.
     let message = error_message error; c = classify_failure error (phase_of st)
     in write_artifact env (ScenarioFailed message c)
          (st\<lparr>failureMessage := Some message, failureClassification := Some c\<rparr>))"

definition collect_block :: "scenario_env \<Rightarrow> run_state \<Rightarrow> step_result" where
  "collect_block env st =
     (case collect env of
        None \<Rightarrow> (st, None)
      | Some error \<Rightarrow>
          (let message = error_message error in
           and_then (write_artifact env (ArtifactCollectionFailed message) st) (\<lambda>st.
             if verdict st = Passed
             then (st\<lparr>verdict := Failed, failureMessage := Some message, failureClassification := Some SetupFailure\<rparr>, None)
             else (st, None))))"

definition cleanup_block :: "scenario_env \<Rightarrow> bool \<Rightarrow> bool option \<Rightarrow> run_state \<Rightarrow> step_result" where
  "cleanup_block env keep_stack preserve_failure st =
     (if (if verdict st = Passed then \<not> keep_stack else preserve_failure = Some False) then
        (case cleanup env of
           None \<Rightarrow> (st\<lparr>cleanupState := Removed\<rparr>, None)
         | Some error \<Rightarrow>
             (let message = error_message error in
              and_then (write_artifact env (CleanupFailedEvent message)
                         (st\<lparr>cleanupError := Some message, cleanupState := CleanupFailed\<rparr>)) (\<lambda>st.
                if verdict st = Passed
                then (st\<lparr>verdict := Failed, failureMessage := Some message, failureClassification := Some CleanupFailure\<rparr>, None)
                else (st, None))))
      else (st, None))"

record scenario_result =
  res_scenario :: string
  res_verdict :: verdict
  res_durationMs :: int
  res_workloadStartedAt :: "string option"
  res_workloadCompletedAt :: "string option"
  res_workloadDurationMs :: "int option"
  res_failureClassification :: "failure_class option"
  res_cleanupState :: cleanup_state
  res_error :: "string option"
  res_cleanupError :: "string option"
  res_cleanupCommand :: "string option"

definition summary_of :: "scenario_env \<Rightarrow> string \<Rightarrow> string \<Rightarrow> run_state \<Rightarrow> scenario_result" where
  "summary_of env chosen cleanup_command st =
     \<lparr>res_scenario = chosen, res_verdict = verdict st, res_durationMs = total_ms env,
      res_workloadStartedAt = workloadStartedAt st, res_workloadCompletedAt = workloadCompletedAt st,
      res_workloadDurationMs = workloadDurationMs st, res_failureClassification = failureClassification st,
      res_cleanupState = cleanupState st, res_error = failureMessage st, res_cleanupError = cleanupError st,
      res_cleanupCommand = (if cleanupState st = Removed then None else Some cleanup_command)\<rparr>"

text \<open>
  The \<^verbatim>\<open>return\<close> inside \<^verbatim>\<open>finally\<close> replaces whatever the \<^verbatim>\<open>try\<close> or the \<^verbatim>\<open>catch\<close> threw;
  an error of \<^verbatim>\<open>finally\<close> itself (or of the first event) is thrown to the caller.
\<close>

definition finally_block ::
  "scenario_env \<Rightarrow> bool \<Rightarrow> bool option \<Rightarrow> run_state \<Rightarrow> step_result" where
  "finally_block env keep_stack preserve_failure st =
     and_then (collect_block env st) (\<lambda>st.
     and_then (cleanup_block env keep_stack preserve_failure st) (\<lambda>st.
     and_then (write_artifact env SummaryWritten st) (write_artifact env ScenarioComplete)))"

definition run_phases :: "scenario_env \<Rightarrow> string \<Rightarrow> run_state \<Rightarrow> run_state" where
  "run_phases env chosen st =
     (case try_block env chosen st of
        (st, None) \<Rightarrow> st
      | (st, Some error) \<Rightarrow> fst (catch_block env error st))"

definition run_scenario ::
  "scenario_env \<Rightarrow> string \<Rightarrow> bool \<Rightarrow> bool option \<Rightarrow> string \<Rightarrow> run_state \<times> (thrown + scenario_result)" where
  "run_scenario env chosen keep_stack preserve_failure cleanup_command =
     (case write_artifact env ScenarioStarted initial_state of
        (st, Some e) \<Rightarrow> (st, Inl e)
      | (st, None) \<Rightarrow>
          (case finally_block env keep_stack preserve_failure (run_phases env chosen st) of
             (st, Some e) \<Rightarrow> (st, Inl e)
           | (st, None) \<Rightarrow> (st, Inr (summary_of env chosen cleanup_command st))))"

subsection \<open>A passed scenario passed everything\<close>

lemma and_then_ok: "and_then r f = (st', None) \<longleftrightarrow> (\<exists>st. r = (st, None) \<and> f st = (st', None))"
  by (auto simp: and_then_def split: prod.splits option.splits)

lemma stack_call_ok: "stack_call x st = (st', None) \<longleftrightarrow> x = None \<and> st' = st"
  by (auto simp: stack_call_def)

text \<open>No step but the end of the \<^verbatim>\<open>try\<close> block makes the verdict positive.\<close>

definition same_fields :: "run_state \<Rightarrow> run_state \<Rightarrow> bool" where
  "same_fields st st' \<longleftrightarrow> st\<lparr>log := [], writes := 0\<rparr> = st'\<lparr>log := [], writes := 0\<rparr>"

lemma write_same [simp]: "same_fields st (fst (write_artifact env ev st))"
  by (simp add: same_fields_def write_artifact_def split: option.split)

lemma same_fieldsD:
  assumes "same_fields st st'"
  shows "verdict st' = verdict st" "failureClassification st' = failureClassification st"
    "failureMessage st' = failureMessage st" "cleanupState st' = cleanupState st" "phase_of st' = phase_of st"
    "workloadStartedAt st' = workloadStartedAt st" "workloadCompletedAt st' = workloadCompletedAt st"
    "cleanupError st' = cleanupError st"
  using assms [unfolded same_fields_def, THEN arg_cong, of verdict] assms [unfolded same_fields_def, THEN arg_cong, of failureClassification]
    assms [unfolded same_fields_def, THEN arg_cong, of failureMessage] assms [unfolded same_fields_def, THEN arg_cong, of cleanupState]
    assms [unfolded same_fields_def, THEN arg_cong, of phase_of] assms [unfolded same_fields_def, THEN arg_cong, of workloadStartedAt]
    assms [unfolded same_fields_def, THEN arg_cong, of workloadCompletedAt] assms [unfolded same_fields_def, THEN arg_cong, of cleanupError]
  by simp_all

lemma write_verdict [simp]: "verdict (fst (write_artifact env ev st)) = verdict st"
  by (rule same_fieldsD [OF write_same])

lemma write_fields: "write_artifact env ev st = (st', r) \<Longrightarrow> same_fields st st'"
  by (metis fst_conv write_same)

lemma and_then_verdict:
  "(\<And>st. verdict (fst (f st)) = verdict st) \<Longrightarrow> verdict (fst (and_then r f)) = verdict (fst r)"
  by (auto simp: and_then_def split: prod.splits option.splits)

lemma catch_verdict [simp]: "verdict (fst (catch_block env e st)) = verdict st"
  by (simp add: catch_block_def and_then_verdict Let_def)

definition all_steps_ok :: "scenario_env \<Rightarrow> string \<Rightarrow> bool" where
  "all_steps_ok env chosen \<longleftrightarrow> preflight env = None \<and> reset env = None \<and> prepareImages env = None \<and>
     startCore env = None \<and> execute_workload (workload env) chosen = None \<and> stopFitz env = None"

lemma try_block_result:
  assumes "try_block env chosen st = (st', r)" "verdict st = Failed"
  shows "verdict st' = Passed \<longleftrightarrow> r = None" and "r = None \<Longrightarrow> all_steps_ok env chosen"
    and "failureClassification st' = failureClassification st" "cleanupState st' = cleanupState st"
proof -
  have w: "verdict s' = verdict s \<and> failureClassification s' = failureClassification s \<and> cleanupState s' = cleanupState s"
    if "write_artifact env ev s = (s', x)" for ev s s' x
    using same_fieldsD [OF write_same [of s env ev]] that by simp
  show "verdict st' = Passed \<longleftrightarrow> r = None" and "r = None \<Longrightarrow> all_steps_ok env chosen"
    and "failureClassification st' = failureClassification st" "cleanupState st' = cleanupState st"
    using assms
    by (auto simp: try_block_def and_then_def stack_call_def all_steps_ok_def split: prod.splits option.splits dest!: w dest: sym [of "Some _"])
qed


lemma run_phases_result:
  assumes "verdict st = Failed" "failureClassification st = None" "cleanupState st = Preserved"
    and "verdict (run_phases env chosen st) = Passed"
  shows "all_steps_ok env chosen \<and> failureClassification (run_phases env chosen st) = None \<and>
    cleanupState (run_phases env chosen st) = Preserved"
proof -
  obtain st' r where t: "try_block env chosen st = (st', r)" by (cases "try_block env chosen st")
  note res = try_block_result [OF t assms(1)]
  from t assms(4) have "verdict st' = Passed" by (cases r) (auto simp: run_phases_def)
  with res have "r = None" by simp
  with t res assms show ?thesis by (simp add: run_phases_def)
qed

lemma collect_block_passed:
  assumes "collect_block env st = (st', None)" "verdict st' = Passed"
  shows "collect env = None \<and> st' = st"
proof (cases "collect env")
  case None
  then show ?thesis using assms by (simp add: collect_block_def)
next
  case (Some e)
  then obtain s where "write_artifact env (ArtifactCollectionFailed (error_message e)) st = (s, None)"
    and "(if verdict s = Passed then (s\<lparr>verdict := Failed, failureMessage := Some (error_message e),
            failureClassification := Some SetupFailure\<rparr>, None) else (s, None)) = (st', None :: thrown option)"
    using assms(1) by (auto simp: collect_block_def Let_def and_then_ok)
  then show ?thesis using assms(2) by (auto split: if_splits)
qed

lemma cleanup_block_passed:
  assumes "cleanup_block env kp pf st = (st', None)" "verdict st' = Passed"
  shows "verdict st = Passed \<and> (if kp then st' = st else cleanup env = None \<and> st' = st\<lparr>cleanupState := Removed\<rparr>)"
proof (cases "(if verdict st = Passed then \<not> kp else pf = Some False)")
  case False
  then show ?thesis using assms by (auto simp: cleanup_block_def split: if_splits)
next
  case True
  show ?thesis
  proof (cases "cleanup env")
    case None
    then show ?thesis using True assms by (auto simp: cleanup_block_def split: if_splits)
  next
    case (Some e)
    then obtain s where "(if verdict s = Passed then (s\<lparr>verdict := Failed, failureMessage := Some (error_message e),
            failureClassification := Some CleanupFailure\<rparr>, None) else (s, None)) = (st', None :: thrown option)"
      using assms(1) unfolding cleanup_block_def if_P [OF True] Some by (auto simp: Let_def and_then_ok)
    then show ?thesis using assms(2) by (auto split: if_splits)
  qed
qed

text \<open>
  A scenario that is reported as passed did pass: preparing the stack, the whole
  workload and stopping the broker succeeded, the artifacts were collected, and the stack was
  removed unless the caller asked to keep it; no failure is recorded next to the verdict.
  This holds for every pattern of failing artifact writes.
\<close>
lemma scenario_passed:
  assumes "snd (run_scenario env chosen keep_stack preserve_failure cleanup_command) = Inr r" "res_verdict r = Passed"
  shows "all_steps_ok env chosen \<and> collect env = None \<and> (keep_stack \<or> cleanup env = None) \<and>
    res_failureClassification r = None \<and> res_cleanupState r = (if keep_stack then Preserved else Removed)"
proof -
  obtain st0 st where st0: "write_artifact env ScenarioStarted initial_state = (st0, None)"
    and fin: "finally_block env keep_stack preserve_failure (run_phases env chosen st0) = (st, None)"
    and r: "r = summary_of env chosen cleanup_command st"
    using assms(1) by (auto simp: run_scenario_def split: prod.splits option.splits)
  have init: "verdict st0 = Failed" "failureClassification st0 = None" "cleanupState st0 = Preserved"
    using same_fieldsD [OF write_fields [OF st0]] by (simp_all add: initial_state_def)
  obtain s1 s2 s3 where s1: "collect_block env (run_phases env chosen st0) = (s1, None)"
    and s2: "cleanup_block env keep_stack preserve_failure s1 = (s2, None)"
    and s3: "write_artifact env SummaryWritten s2 = (s3, None)" "write_artifact env ScenarioComplete s3 = (st, None)"
    using fin by (auto simp: finally_block_def and_then_ok)
  have same: "verdict st = verdict s2" "failureClassification st = failureClassification s2" "cleanupState st = cleanupState s2"
    using same_fieldsD [OF write_fields [OF s3(1)]] same_fieldsD [OF write_fields [OF s3(2)]] by simp_all
  have "verdict s2 = Passed" using assms(2) same by (simp add: r summary_of_def)
  with s2 have c: "verdict s1 = Passed" "if keep_stack then s2 = s1 else cleanup env = None \<and> s2 = s1\<lparr>cleanupState := Removed\<rparr>"
    using cleanup_block_passed by blast+
  with s1 have "collect env = None" and s1_eq: "s1 = run_phases env chosen st0" using collect_block_passed by blast+
  moreover have "all_steps_ok env chosen \<and> failureClassification s1 = None \<and> cleanupState s1 = Preserved"
    using run_phases_result [OF init] c(1) by (simp add: s1_eq)
  ultimately show ?thesis using c(2) same by (auto simp: r summary_of_def split: if_splits)
qed

definition calm_env :: scenario_env where
  "calm_env = \<lparr>preflight = None, reset = None, prepareImages = None, startCore = None, workload = (\<lambda>_. None),
     stopFitz = None, collect = None, cleanup = None, write_fails = (\<lambda>_. None), started_text = ''t0'',
     completed_text = ''t1'', workload_ms = 5, total_ms = 9\<rparr>"

lemma calm_passes:
  "\<exists>r. snd (run_scenario calm_env ''clean-restart'' False None ''down'') = Inr r \<and> res_verdict r = Passed"
  by (simp add: run_scenario_def write_artifact_def calm_env_def run_phases_def try_block_def and_then_def stack_call_def
      execute_workload_def workload_steps_def finally_block_def collect_block_def cleanup_block_def summary_of_def)

lemma scenario_passed_witness:
  "\<exists>r. snd (run_scenario calm_env ''clean-restart'' False None ''down'') = Inr r \<and> res_cleanupState r = Removed"
  using calm_passes scenario_passed by fastforce

subsection \<open>The outcome matrix\<close>

definition setup_error :: "scenario_env \<Rightarrow> thrown option" where
  "setup_error env =
     (if preflight env \<noteq> None then preflight env else if reset env \<noteq> None then reset env
      else if prepareImages env \<noteq> None then prepareImages env else startCore env)"

definition workload_error :: "scenario_env \<Rightarrow> string \<Rightarrow> thrown option" where
  "workload_error env chosen =
     (if execute_workload (workload env) chosen \<noteq> None then execute_workload (workload env) chosen else stopFitz env)"

text \<open>The first error of the run decides its classification.\<close>

definition expected_class :: "scenario_env \<Rightarrow> string \<Rightarrow> bool \<Rightarrow> failure_class option" where
  "expected_class env chosen keep_stack =
     (case setup_error env of
        Some e \<Rightarrow> Some SetupFailure
      | None \<Rightarrow>
          (case workload_error env chosen of
             Some e \<Rightarrow> Some (classify_failure e WorkloadPhase)
           | None \<Rightarrow> if collect env \<noteq> None then Some SetupFailure
                     else if \<not> keep_stack \<and> cleanup env \<noteq> None then Some CleanupFailure else None))"

definition expected_cleanup :: "scenario_env \<Rightarrow> string \<Rightarrow> bool \<Rightarrow> bool option \<Rightarrow> cleanup_state" where
  "expected_cleanup env chosen keep_stack preserve_failure =
     (let passed = setup_error env = None \<and> workload_error env chosen = None \<and> collect env = None;
          attempted = (if passed then \<not> keep_stack else preserve_failure = Some False)
      in if \<not> attempted then Preserved else if cleanup env = None then Removed else CleanupFailed)"

definition workload_marks :: "scenario_event list \<Rightarrow> scenario_event list" where
  "workload_marks evs =
     filter (\<lambda>e. case e of WorkloadStarted _ \<Rightarrow> True | WorkloadComplete _ \<Rightarrow> True | _ \<Rightarrow> False) evs"

definition expected_marks :: "scenario_env \<Rightarrow> string \<Rightarrow> scenario_event list" where
  "expected_marks env chosen =
     (if setup_error env \<noteq> None then []
      else [WorkloadStarted chosen,
            WorkloadComplete (if execute_workload (workload env) chosen = None then Passed else Failed)])"

lemma reliable_write:
  "write_fails env = (\<lambda>_. None) \<Longrightarrow> write_artifact env ev st = (st\<lparr>log := log st @ [ev], writes := writes st + 1\<rparr>, None)"
  by (simp add: write_artifact_def)

lemma and_then_simps [simp]: "and_then (st, None) f = f st" "and_then (st, Some e) f = (st, Some e)"
  by (simp_all add: and_then_def)

lemma classify_setup [simp]: "classify_failure e SetupPhase = SetupFailure"
  by (simp add: classify_failure_def)

text \<open>The state after the \<^verbatim>\<open>try\<close> and \<^verbatim>\<open>catch\<close> blocks.\<close>

lemma phases_outcome:
  assumes "write_fails env = (\<lambda>_. None)" and st: "st = initial_state\<lparr>log := [ScenarioStarted], writes := 1\<rparr>"
  shows "failureClassification (run_phases env chosen st) =
      (case setup_error env of Some e \<Rightarrow> Some SetupFailure
       | None \<Rightarrow> map_option (\<lambda>e. classify_failure e WorkloadPhase) (workload_error env chosen))"
    and "verdict (run_phases env chosen st) =
      (if setup_error env = None \<and> workload_error env chosen = None then Passed else Failed)"
    and "cleanupState (run_phases env chosen st) = Preserved"
    and "workload_marks (log (run_phases env chosen st)) = expected_marks env chosen"
proof -
  note defs = run_phases_def try_block_def stack_call_def catch_block_def Let_def reliable_write [OF assms(1)]
    initial_state_def setup_error_def workload_error_def workload_marks_def expected_marks_def
  have "failureClassification (run_phases env chosen st) =
      (case setup_error env of Some e \<Rightarrow> Some SetupFailure
       | None \<Rightarrow> map_option (\<lambda>e. classify_failure e WorkloadPhase) (workload_error env chosen)) \<and>
    verdict (run_phases env chosen st) =
      (if setup_error env = None \<and> workload_error env chosen = None then Passed else Failed) \<and>
    cleanupState (run_phases env chosen st) = Preserved \<and>
    workload_marks (log (run_phases env chosen st)) = expected_marks env chosen"
  proof (cases "setup_error env")
    case (Some e)
    then show ?thesis unfolding st
      by (cases "preflight env"; cases "reset env"; cases "prepareImages env"; cases "startCore env") (simp_all add: defs)
  next
    case None
    then have "preflight env = None" "reset env = None" "prepareImages env = None" "startCore env = None"
      by (auto simp: setup_error_def split: if_splits)
    then show ?thesis unfolding st
      by (cases "execute_workload (workload env) chosen"; cases "stopFitz env") (simp_all add: defs)
  qed
  then show "failureClassification (run_phases env chosen st) =
      (case setup_error env of Some e \<Rightarrow> Some SetupFailure
       | None \<Rightarrow> map_option (\<lambda>e. classify_failure e WorkloadPhase) (workload_error env chosen))"
    and "verdict (run_phases env chosen st) =
      (if setup_error env = None \<and> workload_error env chosen = None then Passed else Failed)"
    and "cleanupState (run_phases env chosen st) = Preserved"
    and "workload_marks (log (run_phases env chosen st)) = expected_marks env chosen" by blast+
qed

lemma scenario_summary:
  assumes "write_fails env = (\<lambda>_. None)"
  shows "\<exists>st r. run_scenario env chosen keep_stack preserve_failure cleanup_command = (st, Inr r) \<and>
    res_failureClassification r = expected_class env chosen keep_stack \<and>
    (res_verdict r = Passed \<longleftrightarrow> expected_class env chosen keep_stack = None) \<and>
    res_cleanupState r = expected_cleanup env chosen keep_stack preserve_failure \<and>
    (res_cleanupCommand r = None \<longleftrightarrow> res_cleanupState r = Removed) \<and>
    workload_marks (log st) = expected_marks env chosen"
proof -
  define st0 where "st0 = initial_state\<lparr>log := [ScenarioStarted], writes := 1\<rparr>"
  define st1 where "st1 = run_phases env chosen st0"
  note phases = phases_outcome [OF assms st0_def, of chosen, folded st1_def]
  have start: "write_artifact env ScenarioStarted initial_state = (st0, None)"
    by (simp add: reliable_write [OF assms] st0_def initial_state_def)
  have run: "run_scenario env chosen keep_stack preserve_failure cleanup_command =
      (case finally_block env keep_stack preserve_failure st1 of
         (st, Some e) \<Rightarrow> (st, Inl e) | (st, None) \<Rightarrow> (st, Inr (summary_of env chosen cleanup_command st)))"
    by (simp add: run_scenario_def start st1_def)
  show ?thesis
    using phases
    by (cases "setup_error env"; cases "workload_error env chosen"; cases "collect env"; cases "cleanup env")
       (auto simp: run finally_block_def collect_block_def cleanup_block_def Let_def
          reliable_write [OF assms] expected_class_def expected_cleanup_def summary_of_def workload_marks_def)
qed

text \<open>
  C8.  When the artifact writes succeed, every scenario returns a summary, whatever the
  stack does: it is classified by the first thing that went wrong (setup, then the workload
  by its error, then collection, then cleanup) and has no classification exactly when it
  passed; the stack is removed, preserved or reported as failed to remove by the
  documented policy; and the log brackets the workload with exactly one start and one
  completion when it began, and with neither otherwise.
\<close>
theorem scenario_outcome:
  assumes "write_fails env = (\<lambda>_. None)"
  shows "\<exists>st r. run_scenario env chosen keep_stack preserve_failure cleanup_command = (st, Inr r) \<and>
    res_failureClassification r = expected_class env chosen keep_stack \<and>
    (res_verdict r = Passed \<longleftrightarrow> expected_class env chosen keep_stack = None) \<and>
    res_cleanupState r = expected_cleanup env chosen keep_stack preserve_failure \<and>
    (res_cleanupCommand r = None \<longleftrightarrow> res_cleanupState r = Removed) \<and>
    workload_marks (log st) = expected_marks env chosen"
  using assms by (rule scenario_summary)

lemma scenario_outcome_witness:
  "\<exists>st r. run_scenario (calm_env\<lparr>startCore := Some (ErrorObject ''Error'' ''no image'')\<rparr>) ''chaos'' False (Some False) ''down'' = (st, Inr r) \<and>
    res_failureClassification r = Some SetupFailure \<and> res_cleanupState r = Removed"
  using scenario_outcome [of "calm_env\<lparr>startCore := Some (ErrorObject ''Error'' ''no image'')\<rparr>" "''chaos''" False "Some False" "''down''"]
  by (auto simp: calm_env_def expected_class_def expected_cleanup_def setup_error_def)

subsection \<open>Names are valid route segments and project names\<close>

fun no_double_dash :: "string \<Rightarrow> bool" where
  "no_double_dash (a # b # s) = (\<not> (a = CHR ''-'' \<and> b = CHR ''-'') \<and> no_double_dash (b # s))"
| "no_double_dash s = True"

definition segment_ok :: "string \<Rightarrow> bool" where
  "segment_ok s \<longleftrightarrow> list_all is_route_char s \<and> no_double_dash s \<and>
     (s = [] \<or> hd s \<noteq> CHR ''-'' \<and> last s \<noteq> CHR ''-'')"

lemma collapse_hd: "s \<noteq> [] \<Longrightarrow> collapse_dashes s \<noteq> [] \<and> hd (collapse_dashes s) = hd s"
  by (induction s rule: collapse_dashes.induct) auto

lemma collapse_set: "set (collapse_dashes s) \<subseteq> set s"
  by (induction s rule: collapse_dashes.induct) auto

lemma collapse_ok: "no_double_dash (collapse_dashes s)"
proof (induction s rule: collapse_dashes.induct)
  case (1 a b s)
  then show ?case using collapse_hd [of "b # s"] by (cases "collapse_dashes (b # s)") auto
qed auto

lemma no_double_dash_Cons: "no_double_dash (c # s) \<Longrightarrow> no_double_dash s"
  by (cases s) auto

lemma no_double_dash_butlast: "no_double_dash s \<Longrightarrow> no_double_dash (butlast s)"
proof (induction s rule: no_double_dash.induct)
  case (1 a b s)
  then show ?case by (cases s) auto
qed auto

lemma no_double_dash_last: "no_double_dash s \<Longrightarrow> length s \<ge> 2 \<Longrightarrow> last s = CHR ''-'' \<Longrightarrow> last (butlast s) \<noteq> CHR ''-''"
proof (induction s rule: no_double_dash.induct)
  case (1 a b s)
  then show ?case by (cases s) auto
qed auto

lemma drop_last_dash_ok:
  assumes "no_double_dash s" "s = [] \<or> hd s \<noteq> CHR ''-''"
  shows "no_double_dash (drop_last_dash s) \<and> set (drop_last_dash s) \<subseteq> set s \<and>
    (drop_last_dash s = [] \<or> hd (drop_last_dash s) \<noteq> CHR ''-'' \<and> last (drop_last_dash s) \<noteq> CHR ''-'')"
proof (cases "s \<noteq> [] \<and> last s = CHR ''-''")
  case True
  then have "length s \<ge> 2" using assms(2) by (cases s; cases "tl s") auto
  then have "last (butlast s) \<noteq> CHR ''-''" using no_double_dash_last [OF assms(1)] True by blast
  moreover have "hd (butlast s) = hd s" using \<open>length s \<ge> 2\<close> by (cases s; cases "tl s") auto
  ultimately show ?thesis using True assms no_double_dash_butlast [OF assms(1)]
    by (auto simp: drop_last_dash_def dest: in_set_butlastD)
qed (use assms in \<open>auto simp: drop_last_dash_def\<close>)

lemma drop_first_dash_ok:
  assumes "no_double_dash s"
  shows "no_double_dash (drop_first_dash s) \<and> set (drop_first_dash s) \<subseteq> set s \<and>
    (drop_first_dash s = [] \<or> hd (drop_first_dash s) \<noteq> CHR ''-'')"
proof (cases s)
  case (Cons c t)
  then show ?thesis using assms by (cases t) (auto simp: drop_first_dash_def)
qed (simp add: drop_first_dash_def)

lemma no_double_dash_take: "no_double_dash s \<Longrightarrow> no_double_dash (take n s)"
proof (induction s arbitrary: n rule: no_double_dash.induct)
  case (1 a b s)
  show ?case
  proof (cases "n < 2")
    case True
    then show ?thesis by (cases n) (auto simp: less_Suc_eq numeral_2_eq_2)
  next
    case False
    then obtain m where "n = Suc (Suc m)" by (metis less_2_cases_iff not0_implies_Suc)
    then show ?thesis using 1 by (simp, metis take_Suc_Cons)
  qed
next
  case "2_2"
  then show ?case by (cases n) auto
qed auto

text \<open>
  Whatever the run id, its route segment holds only lower-case letters, digits and single
  dashes, neither first nor last, so a namespace never adds a path separator to a route; and
  the Compose project name has at most 63 characters of the same alphabet.
\<close>
lemma route_segment_valid:
  "segment_ok (route_segment v) \<and> length (project_name (route_segment v)) \<le> 63 \<and>
   list_all is_route_char (project_name (route_segment v)) \<and> last (project_name (route_segment v)) \<noteq> CHR ''-''"
proof (intro conjI)
  let ?m = "map (\<lambda>c. if is_route_char c then c else CHR ''-'') (lower v)"
  have dash: "is_route_char CHR ''-''" by (simp add: is_route_char_def Let_def)
  have chars: "set ?m \<subseteq> {c. is_route_char c}" using dash by auto
  note c = collapse_ok [of ?m]
  note f = drop_first_dash_ok [OF c]
  have l: "no_double_dash (route_segment v) \<and> set (route_segment v) \<subseteq> set ?m \<and>
      (route_segment v = [] \<or> hd (route_segment v) \<noteq> CHR ''-'' \<and> last (route_segment v) \<noteq> CHR ''-'')"
    unfolding route_segment_def using drop_last_dash_ok f collapse_set by blast
  then show ok: "segment_ok (route_segment v)"
    using chars unfolding segment_ok_def list_all_iff by blast
  have "length (drop_last_dash s) \<le> length s" for s by (simp add: drop_last_dash_def)
  then show "length (project_name (route_segment v)) \<le> 63"
    unfolding project_name_def by (rule order_trans) (simp only: length_take min.cobounded2)
  define full where "full = ''fitz-destroyer-'' @ route_segment v"
  define p where "p = take 63 full"
  have name: "project_name (route_segment v) = drop_last_dash p"
    by (simp only: project_name_def p_def full_def)
  have "list_all is_route_char ''fitz-destroyer-''" by code_simp
  then have "list_all is_route_char full" using ok by (simp only: full_def list_all_append segment_ok_def)
  then have p: "list_all is_route_char p" using set_take_subset [of 63 full] by (auto simp only: p_def list_all_iff)
  then show "list_all is_route_char (project_name (route_segment v))"
    by (auto simp: name drop_last_dash_def list_all_iff dest: in_set_butlastD)
  have "no_double_dash full"
    using ok by (cases "route_segment v") (auto simp: segment_ok_def full_def)
  then have "no_double_dash p" unfolding p_def by (rule no_double_dash_take)
  moreover have first: "p \<noteq> [] \<and> hd p = CHR ''f''" by (simp add: p_def full_def)
  then have "drop_last_dash p \<noteq> []" by (cases p; cases "tl p") (auto simp: drop_last_dash_def)
  ultimately show "last (project_name (route_segment v)) \<noteq> CHR ''-''"
    using drop_last_dash_ok [of p] first unfolding name by auto
qed

end
