(* ===== verification/Suite.thy ===== *)
theory Suite
  imports Scenario
begin

text \<open>
  The suite (src/suite.ts): consecutive ports, one scenario after the other, and the totals.
  The executor is \<^verbatim>\<open>runScenario\<close>; an executor that throws ends the suite.
\<close>

definition ALL_SCENARIOS :: "string list" where
  "ALL_SCENARIOS =
    [''clean-restart'', ''cache-loss'', ''durability-crash-cuts'', ''queue-overload-recovery'',
     ''response-loss'', ''active-graceful-shutdown'', ''half-open-session'', ''authorization-isolation'',
     ''stream-global-recovery'', ''queue-dead-letter-fencing'', ''cold-boot-provider-outage'',
     ''hostile-rpc-worker'', ''upgrade-recovery'', ''cross-transport-recovery'', ''outbound-blackhole'',
     ''broker-pause'', ''route-cardinality-churn'', ''cache-and-disk-exhaustion'', ''queue-redelivery'',
     ''lease-contention'', ''hot-route-canary'', ''protocol-abuse'', ''notice-fanout'',
     ''schedule-delivery'', ''session-boundaries'', ''rpc-pressure'', ''rpc-stream-hose'',
     ''connection-storm'', ''domain-pressure'', ''chaos'', ''soak'', ''storage-faults'',
     ''queue-lifecycle'', ''schedule-outage'', ''transaction-contention'', ''stream-replay'',
     ''live-churn'', ''lease-route-aliasing'', ''tcp-preauth-framing-slowloris'',
     ''connect-pipeline-family-rebind'', ''ephemeral-reply-loss-cleanup'',
     ''saturated-slow-recipient-isolation'', ''shutdown-reconnect-cleanup-storm'',
     ''control-lane-cleanup-under-saturation'', ''route-family-isolation-matrix'',
     ''rpc-response-state-conformance'', ''response-envelope-boundaries'',
     ''lease-waiter-disconnect-races'', ''wildcard-registration-quota-reclamation'',
     ''stream-selector-cursor-conformance'', ''schedule-due-storm-isolation'',
     ''same-shard-family-fairness'', ''actor-supervision-failpoint'',
     ''family-actor-partial-failure-isolation'', ''same-shard-family-failure-isolation'',
     ''family-actor-exhaustion-readiness'', ''family-actor-degradation-observability'',
     ''family-actor-inflight-concurrent-failure'']"

definition allocate_one :: "run_config \<Rightarrow> nat \<Rightarrow> nat \<times> string \<Rightarrow> (string \<times> run_config) result" where
  "allocate_one config n indexed =
     (case indexed of (index, s) \<Rightarrow>
        let p = port config + int index in
        if p > 65535
        then Inl (Error ''Suite port allocation exceeds 65535 at scenario $; choose --port $ or lower''
                    [AStr s, AInt (65536 - int n)])
        else Inr (s, config\<lparr>scenario := s, port := p, keep := False\<rparr>))"

definition allocate_scenario_configs :: "run_config \<Rightarrow> string list \<Rightarrow> (string \<times> run_config) list result" where
  "allocate_scenario_configs config scenarios =
     traverse (allocate_one config (length scenarios)) (enumerate 0 scenarios)"

record suite_totals =
  tot_passed :: nat
  tot_failed :: nat
  tot_scenarios :: nat

record suite_summary =
  suiteId :: string
  suite_startedAt :: string
  suite_completedAt :: string
  suite_durationMs :: int
  suite_totals :: suite_totals
  suite_results :: "scenario_result list"

definition aggregate_suite_results ::
  "string \<Rightarrow> string \<Rightarrow> string \<Rightarrow> int \<Rightarrow> scenario_result list \<Rightarrow> suite_summary" where
  "aggregate_suite_results sid startedAt completedAt duration results =
     (let n_passed = length (filter (\<lambda>r. res_verdict r = Passed) results) in
      \<lparr>suiteId = sid, suite_startedAt = startedAt, suite_completedAt = completedAt, suite_durationMs = duration,
       suite_totals = \<lparr>tot_passed = n_passed, tot_failed = length results - n_passed, tot_scenarios = length results\<rparr>,
       suite_results = results\<rparr>)"

datatype suite_error = AllocationError error | ExecutorThrew thrown

text \<open>The loop over the allocated configurations, with \<^verbatim>\<open>preserveFailure: false\<close>.\<close>

fun execute_all ::
  "(run_config \<Rightarrow> string \<Rightarrow> bool \<Rightarrow> thrown + scenario_result) \<Rightarrow> (string \<times> run_config) list \<Rightarrow>
   thrown + scenario_result list" where
  "execute_all execute [] = Inr []"
| "execute_all execute ((s, config) # rest) =
     (case execute config s False of
        Inl e \<Rightarrow> Inl e
      | Inr r \<Rightarrow> (case execute_all execute rest of Inl e \<Rightarrow> Inl e | Inr rs \<Rightarrow> Inr (r # rs)))"

definition run_suite ::
  "(run_config \<Rightarrow> string \<Rightarrow> bool \<Rightarrow> thrown + scenario_result) \<Rightarrow> run_config \<Rightarrow> string list \<Rightarrow>
   string \<Rightarrow> string \<Rightarrow> string \<Rightarrow> int \<Rightarrow> suite_error + suite_summary" where
  "run_suite execute config scenarios sid startedAt completedAt duration =
     (case allocate_scenario_configs config scenarios of
        Inl e \<Rightarrow> Inl (AllocationError e)
      | Inr entries \<Rightarrow>
          (case execute_all execute entries of
             Inl e \<Rightarrow> Inl (ExecutorThrew e)
           | Inr results \<Rightarrow> Inr (aggregate_suite_results sid startedAt completedAt duration results)))"

subsection \<open>Ports\<close>

definition allocated :: "run_config \<Rightarrow> string list \<Rightarrow> (string \<times> run_config) list" where
  "allocated config ss =
     map (\<lambda>(i, s). (s, config\<lparr>scenario := s, port := port config + int i, keep := False\<rparr>)) (enumerate 0 ss)"

lemma allocate_from:
  "ss = [] \<or> port config + int (k + length ss) \<le> 65536 \<Longrightarrow>
   traverse (allocate_one config n) (enumerate k ss) =
     Inr (map (\<lambda>(i, s). (s, config\<lparr>scenario := s, port := port config + int i, keep := False\<rparr>)) (enumerate k ss))"
proof (induction ss arbitrary: k)
  case Nil
  then show ?case by simp
next
  case (Cons s ss)
  then have "port config + int k \<le> 65535" "ss = [] \<or> port config + int (Suc k + length ss) \<le> 65536" by auto
  with Cons.IH [of "Suc k"] show ?case by (simp add: allocate_one_def Let_def)
qed

lemma allocate_fails:
  assumes "ss \<noteq> []" "65536 < port config + int (k + length ss)"
  shows "\<not> is_ok (traverse (allocate_one config n) (enumerate k ss))"
  using assms
proof (induction ss arbitrary: k)
  case Nil
  then show ?case by simp
next
  case (Cons s ss)
  show ?case
  proof (cases "port config + int k > 65535")
    case True
    then show ?thesis by (simp add: allocate_one_def)
  next
    case False
    then have "ss \<noteq> []" using Cons.prems by (cases ss) auto
    moreover have "65536 < port config + int (Suc k + length ss)" using Cons.prems(2) by simp
    ultimately have "\<not> is_ok (traverse (allocate_one config n) (enumerate (Suc k) ss))" by (rule Cons.IH)
    then show ?thesis
      by (cases "allocate_one config n (k, s)"; cases "traverse (allocate_one config n) (enumerate (Suc k) ss)") simp_all
  qed
qed

lemma allocated_ports: "map (port \<circ> snd) (allocated config ss) = map (\<lambda>i. port config + int i) [0..<length ss]"
  by (rule nth_equalityI) (simp_all add: allocated_def split_def nth_enumerate_eq)

lemma allocated_names: "map fst (allocated config ss) = ss"
  by (rule nth_equalityI) (simp_all add: allocated_def split_def nth_enumerate_eq)

lemma allocation:
  "allocate_scenario_configs config ss = Inr entries \<longleftrightarrow>
     (ss = [] \<or> port config \<le> 65536 - int (length ss)) \<and> entries = allocated config ss"
proof (cases "ss = [] \<or> port config \<le> 65536 - int (length ss)")
  case True
  then have "ss = [] \<or> port config + int (0 + length ss) \<le> 65536" by auto
  from allocate_from [OF this] True show ?thesis
    by (auto simp: allocate_scenario_configs_def allocated_def)
next
  case False
  then have "\<not> is_ok (allocate_scenario_configs config ss)"
    unfolding allocate_scenario_configs_def by (intro allocate_fails) auto
  with False show ?thesis by (auto simp: is_ok_iff)
qed

text \<open>
  The suite gets its ports exactly when the last scenario still fits below 65536, so the
  port its error message suggests is the highest that works; every scenario then runs
  under its own name on its own port, without \<^verbatim>\<open>--keep\<close>, with all other settings unchanged.
\<close>
lemma allocate_scenario_configs_ok:
  "(allocate_scenario_configs config ss = Inr entries \<longleftrightarrow>
      (ss = [] \<or> port config \<le> 65536 - int (length ss)) \<and> entries = allocated config ss) \<and>
   distinct (map (port \<circ> snd) (allocated config ss))"
  unfolding allocation allocated_ports by (simp add: distinct_map inj_on_def)

subsection \<open>Running the suite\<close>

lemma execute_all_ok:
  "(\<And>s c. (s, c) \<in> set entries \<Longrightarrow> \<exists>r. execute c s False = Inr r \<and> P s r) \<Longrightarrow>
   \<exists>rs. execute_all execute entries = Inr rs \<and> list_all2 (\<lambda>(s, c) r. P s r) entries rs"
proof (induction entries)
  case Nil
  then show ?case by simp
next
  case (Cons e entries)
  obtain s c where e: "e = (s, c)" by (cases e)
  from Cons.prems [of s c] obtain r where r: "execute c s False = Inr r" "P s r" by (auto simp: e)
  from Cons obtain rs where "execute_all execute entries = Inr rs" "list_all2 (\<lambda>(s, c) r. P s r) entries rs" by auto
  with r e show ?case by auto
qed

lemma run_scenario_summary:
  assumes "write_fails env = (\<lambda>_. None)"
  shows "\<exists>r. snd (run_scenario env s False (Some False) cmd) = Inr r \<and>
    res_scenario r = s \<and> (res_verdict r = Passed \<longleftrightarrow> expected_class env s False = None) \<and> res_cleanupState r \<noteq> Preserved"
proof -
  obtain st r where run: "run_scenario env s False (Some False) cmd = (st, Inr r)"
    and facts: "res_verdict r = Passed \<longleftrightarrow> expected_class env s False = None"
      "res_cleanupState r = expected_cleanup env s False (Some False)"
    using scenario_summary [OF assms, of s False "Some False" cmd] by metis
  moreover have "res_scenario r = s"
    using run by (auto simp: run_scenario_def summary_of_def split: prod.splits option.splits)
  ultimately show ?thesis by (auto simp: expected_cleanup_def Let_def)
qed


definition sample_config :: run_config where
  "sample_config =
     \<lparr>scenario = ''all'', run_scale = Smoke, run_resources = 2, run_entriesPerResource = 20, run_payloadBytes = 256,
      run_seed = 7, port = 4390, startupTimeoutMs = 180000, requestTimeoutMs = 10000, clientReplicas = 4,
      phaseMs = 5000, durationMs = 900000, sampleMs = 1000, iterations = 8, liveConcurrency = 8, handlerDelayMs = 1,
      scheduleLeadMs = 45000, rpcStreamCalls = 2, rpcStreamFrames = 100, rpcStreamFrameBytes = 1024,
      rpcStreamReaderDelayMs = 1, keep = False, bombardDomains = ALL_DOMAINS, clientProfile = EndToEnd,
      rootDir = ''/srv'', fitzSourceDir = ''/fitz'', fitzImage = None, upgradeFromImage = None, destroyerImage = None\<rparr>"


end
