(* ===== verification/GuidanceMetrics.thy ===== *)
theory GuidanceMetrics
  imports Pressure "HOL-Library.List_Lexorder" "HOL-Library.Product_Lexorder"
begin

text \<open>
  The vocabulary of the operational guidance (src/operational-guidance.ts): the metric
  records, the validators that read fields of an evidence record, and the operations that add
  a metric.  An event record is the parsed JSON object; a text assembled from a template
  literal that holds numbers is kept as its template with the values (\<^verbatim>\<open>Error\<close>).
\<close>

type_synonym text_template = error

subsection \<open>Evidence fields\<close>

definition json_number :: "json option \<Rightarrow> rat option" where
  "json_number v = (case v of Some (JNum n) \<Rightarrow> Some n | _ \<Rightarrow> None)"

definition optional_non_negative_integer :: "json option \<Rightarrow> rat option" where
  "optional_non_negative_integer v =
     (case json_number v of Some n \<Rightarrow> if is_safe_integer n \<and> 0 \<le> n then Some n else None | None \<Rightarrow> None)"

definition non_negative_integer :: "json option \<Rightarrow> string \<Rightarrow> rat result" where
  "non_negative_integer v label =
     (case optional_non_negative_integer v of
        Some n \<Rightarrow> Inr n
      | None \<Rightarrow> Inl (Error ''$ was not a non-negative integer'' [AStr label]))"

definition valid_duration :: "json option \<Rightarrow> rat option" where
  "valid_duration v = (case json_number v of Some n \<Rightarrow> if 0 \<le> n then Some n else None | None \<Rightarrow> None)"

definition non_negative_number :: "json option \<Rightarrow> string \<Rightarrow> rat result" where
  "non_negative_number v label =
     (case valid_duration v of
        Some n \<Rightarrow> Inr n
      | None \<Rightarrow> Inl (Error ''$ was not a non-negative number'' [AStr label]))"

definition number_field :: "json \<Rightarrow> string \<Rightarrow> rat result" where
  "number_field rec field = non_negative_integer (json_get rec field) field"

definition positive_number_field :: "json \<Rightarrow> string \<Rightarrow> rat result" where
  "positive_number_field rec field =
     try_in (number_field rec field) (\<lambda>value.
       if value = 0 then Inl (Error ''$ must be greater than zero'' [AStr field]) else Inr value)"

definition optional_number_field :: "json \<Rightarrow> string \<Rightarrow> rat result" where
  "optional_number_field rec field = (if json_get rec field = None then Inr 0 else number_field rec field)"

definition string_field :: "json \<Rightarrow> string \<Rightarrow> string result" where
  "string_field rec field =
     (case json_get rec field of
        Some (JStr s) \<Rightarrow> if s = [] then Inl (Error ''$ was not a string'' [AStr field]) else Inr s
      | _ \<Rightarrow> Inl (Error ''$ was not a string'' [AStr field]))"

definition array_field :: "json \<Rightarrow> string \<Rightarrow> json list result" where
  "array_field rec field =
     (case json_get rec field of
        Some (JArr items) \<Rightarrow> Inr items
      | _ \<Rightarrow> Inl (Error ''$ was not an array'' [AStr field]))"

definition record_value :: "json option \<Rightarrow> string \<Rightarrow> json result" where
  "record_value v label =
     (case v of
        Some (JObj m) \<Rightarrow> Inr (JObj m)
      | _ \<Rightarrow> Inl (Error ''$ was not an object'' [AStr label]))"

definition record_field :: "json \<Rightarrow> string \<Rightarrow> json result" where
  "record_field rec field = record_value (json_get rec field) field"

text \<open>\<^verbatim>\<open>Object.entries\<close>, \<^verbatim>\<open>Object.values\<close>.\<close>

definition json_entries :: "json \<Rightarrow> (string \<times> json) list" where
  "json_entries j = (case j of JObj m \<Rightarrow> m | _ \<Rightarrow> [])"

definition json_values :: "json \<Rightarrow> json list" where
  "json_values j = map snd (json_entries j)"

definition sum_numbers :: "rat list \<Rightarrow> rat" where
  "sum_numbers values = foldl (\<lambda>total_so_far v. fl (total_so_far + v)) 0 values"

subsection \<open>Events\<close>

definition event_name :: "json \<Rightarrow> string option" where
  "event_name e = (case json_get e ''event'' of Some (JStr s) \<Rightarrow> Some s | _ \<Rightarrow> None)"

definition events_named :: "string \<Rightarrow> json list \<Rightarrow> json list" where
  "events_named name events = filter (\<lambda>e. event_name e = Some name) events"

definition last_event :: "json list \<Rightarrow> string \<Rightarrow> json option" where
  "last_event events name = find_last (\<lambda>e. event_name e = Some name) events"

definition required_last_event :: "json list \<Rightarrow> string \<Rightarrow> json result" where
  "required_last_event events name =
     (case last_event events name of
        Some e \<Rightarrow> Inr e
      | None \<Rightarrow> Inl (Error ''Missing $ event'' [AStr name]))"

definition event_duration :: "json option \<Rightarrow> rat option" where
  "event_duration e = (case e of None \<Rightarrow> None | Some r \<Rightarrow> valid_duration (json_get r ''elapsedMs''))"

subsection \<open>Metrics\<close>

record count_metric =
  c_key :: string
  c_label :: string
  c_value :: rat
  c_unit :: string
  c_semantics :: string

record rate_metric =
  r_key :: string
  r_label :: string
  r_count :: rat
  r_durationMs :: rat
  r_valuePerSecond :: rat
  r_unit :: string
  r_semantics :: string

record latency_metric =
  l_key :: string
  l_label :: string
  l_statistic :: string
  l_valueMs :: rat

text \<open>A rate that is not finite has no value (\<^verbatim>\<open>None\<close>).\<close>

record bandwidth_metric =
  b_key :: string
  b_label :: string
  b_bytes :: rat
  b_durationMs :: rat
  b_bytesPerSecond :: "rat option"
  b_semantics :: string

record recovery_metric =
  v_key :: string
  v_label :: string
  v_durationMs :: rat

record metric_collections =
  completionSemantics :: "(string \<times> string) list"
  counts :: "count_metric list"
  rates :: "rate_metric list"
  latencies :: "latency_metric list"
  bandwidth :: "bandwidth_metric list"
  recoveries :: "recovery_metric list"

definition mutable_metrics :: metric_collections where
  "mutable_metrics =
     \<lparr>completionSemantics = [], counts = [], rates = [], latencies = [], bandwidth = [], recoveries = []\<rparr>"

definition observed_rate :: "rat \<Rightarrow> rat \<Rightarrow> rat option" where
  "observed_rate n durationMs =
     (if n < 0 \<or> durationMs \<le> 0 then None else Some (round2 (fl (n / fl (durationMs / 1000)))))"

definition add_count ::
  "metric_collections \<Rightarrow> string \<Rightarrow> string \<Rightarrow> rat \<Rightarrow> string \<Rightarrow> string \<Rightarrow> metric_collections" where
  "add_count metrics key label value un semantics =
     (let m = metrics\<lparr>counts := counts metrics @
                [\<lparr>c_key = key, c_label = label, c_value = value, c_unit = un, c_semantics = semantics\<rparr>]\<rparr>
      in if list_ex (\<lambda>(k, _). k = key) (completionSemantics m) then m
         else m\<lparr>completionSemantics := completionSemantics m @ [(key, semantics)]\<rparr>)"

definition add_count_and_rate ::
  "metric_collections \<Rightarrow> string \<Rightarrow> string \<Rightarrow> rat \<Rightarrow> string \<Rightarrow> string \<Rightarrow> rat option \<Rightarrow> metric_collections" where
  "add_count_and_rate metrics key label value un semantics durationMs =
     (let m = add_count metrics key label value un semantics in
      case durationMs of
        None \<Rightarrow> m
      | Some d \<Rightarrow>
          (case observed_rate value d of
             None \<Rightarrow> m
           | Some per_second \<Rightarrow>
               m\<lparr>rates := rates m @
                  [\<lparr>r_key = key, r_label = label, r_count = value, r_durationMs = d,
                    r_valuePerSecond = per_second, r_unit = un @ ''/s'', r_semantics = semantics\<rparr>]\<rparr>))"

definition add_bandwidth ::
  "metric_collections \<Rightarrow> string \<Rightarrow> string \<Rightarrow> rat \<Rightarrow> rat option \<Rightarrow> string \<Rightarrow> metric_collections" where
  "add_bandwidth metrics key label bytes durationMs semantics =
     (case durationMs of
        None \<Rightarrow> metrics
      | Some d \<Rightarrow>
          (case observed_rate bytes d of
             None \<Rightarrow> metrics
           | Some rate \<Rightarrow>
               metrics\<lparr>bandwidth := bandwidth metrics @
                  [\<lparr>b_key = key, b_label = label, b_bytes = bytes, b_durationMs = d,
                    b_bytesPerSecond = Some rate, b_semantics = semantics\<rparr>]\<rparr>))"

definition recovery :: "string \<Rightarrow> string \<Rightarrow> rat \<Rightarrow> recovery_metric" where
  "recovery key label durationMs = \<lparr>v_key = key, v_label = label, v_durationMs = durationMs\<rparr>"

definition push_recovery :: "metric_collections \<Rightarrow> recovery_metric \<Rightarrow> metric_collections" where
  "push_recovery metrics r = metrics\<lparr>recoveries := recoveries metrics @ [r]\<rparr>"

definition add_recovery ::
  "metric_collections \<Rightarrow> string \<Rightarrow> string \<Rightarrow> rat option \<Rightarrow> metric_collections" where
  "add_recovery metrics key label durationMs =
     (case durationMs of None \<Rightarrow> metrics | Some d \<Rightarrow> push_recovery metrics (recovery key label d))"

definition add_latency ::
  "metric_collections \<Rightarrow> string \<Rightarrow> string \<Rightarrow> string \<Rightarrow> rat \<Rightarrow> metric_collections" where
  "add_latency metrics key label statistic valueMs =
     metrics\<lparr>latencies := latencies metrics @
       [\<lparr>l_key = key, l_label = label, l_statistic = statistic, l_valueMs = valueMs\<rparr>]\<rparr>"

definition metric_count :: "metric_collections \<Rightarrow> nat" where
  "metric_count m = length (counts m) + length (rates m) + length (latencies m) +
     length (bandwidth m) + length (recoveries m)"

subsection \<open>Text\<close>

text \<open>The decimal text of a non-negative safe integer.\<close>

definition show_number :: "rat \<Rightarrow> string" where
  "show_number r = show_nat (nat \<lfloor>r\<rfloor>)"

definition upper_char :: "char \<Rightarrow> char" where
  "upper_char c = (let n = of_char c :: nat in if 97 \<le> n \<and> n \<le> 122 then char_of (n - 32) else c)"

definition capitalize :: "string \<Rightarrow> string" where
  "capitalize value = map upper_char (take 1 value) @ drop 1 value"

definition dashes_to_spaces :: "string \<Rightarrow> string" where
  "dashes_to_spaces s = map (\<lambda>c. if c = CHR ''-'' then CHR '' '' else c) s"

text \<open>
  \<^verbatim>\<open>localeCompare\<close> on the keys that are sorted (lower-case letters, digits and hyphens),
  where the collation order is that of the code units.
\<close>

definition locale_key :: "string \<Rightarrow> nat list" where
  "locale_key s = map of_char s"

subsection \<open>What the validators guarantee\<close>

lemma optional_integer_Some:
  "optional_non_negative_integer v = Some n \<longleftrightarrow> v = Some (JNum n) \<and> is_safe_integer n \<and> 0 \<le> n"
  by (auto simp: optional_non_negative_integer_def json_number_def split: option.splits json.splits)

lemma non_negative_integer_ok:
  "non_negative_integer v label = Inr n \<longleftrightarrow> v = Some (JNum n) \<and> is_safe_integer n \<and> 0 \<le> n"
  by (auto simp: non_negative_integer_def optional_non_negative_integer_def json_number_def
      split: option.splits json.splits if_splits)

lemma valid_duration_Some: "valid_duration v = Some n \<longleftrightarrow> v = Some (JNum n) \<and> 0 \<le> n"
  by (auto simp: valid_duration_def json_number_def split: option.splits json.splits)

lemma non_negative_number_ok: "non_negative_number v label = Inr n \<longleftrightarrow> v = Some (JNum n) \<and> 0 \<le> n"
  by (auto simp: non_negative_number_def valid_duration_def json_number_def
      split: option.splits json.splits if_splits)

lemma number_field_ok:
  "number_field rec field = Inr n \<longleftrightarrow> json_get rec field = Some (JNum n) \<and> is_safe_integer n \<and> 0 \<le> n"
  by (simp add: number_field_def non_negative_integer_ok)

lemma number_field_nonneg: "number_field rec field = Inr n \<Longrightarrow> 0 \<le> n"
  by (simp add: number_field_ok)

lemma positive_number_field_ok:
  "positive_number_field rec field = Inr n \<longleftrightarrow> number_field rec field = Inr n \<and> n \<noteq> 0"
  by (auto simp: positive_number_field_def result_simps)

lemma optional_number_field_nonneg: "optional_number_field rec field = Inr n \<Longrightarrow> 0 \<le> n"
  by (auto simp: optional_number_field_def number_field_ok split: if_splits)

lemma record_value_ok: "record_value v label = Inr j \<longleftrightarrow> (\<exists>m. v = Some (JObj m) \<and> j = JObj m)"
  by (auto simp: record_value_def split: option.splits json.splits)

lemma sum_numbers_nonneg:
  assumes "list_all (\<lambda>v. 0 \<le> v) vs" shows "0 \<le> sum_numbers vs"
proof -
  have "0 \<le> foldl (\<lambda>t v. fl (t + v)) acc vs" if "0 \<le> acc" for acc
    using assms that
  proof (induction vs arbitrary: acc)
    case Nil
    then show ?case by simp
  next
    case (Cons v vs)
    then have "0 \<le> fl (acc + v)" by (intro fl_nonneg) simp
    with Cons show ?case by simp
  qed
  then show ?thesis by (simp add: sum_numbers_def)
qed

definition duration_ok :: "rat option \<Rightarrow> bool" where
  "duration_ok d \<longleftrightarrow> (case d of None \<Rightarrow> True | Some x \<Rightarrow> 0 \<le> x)"

lemma duration_ok_simps [simp]: "duration_ok None" "duration_ok (Some x) \<longleftrightarrow> 0 \<le> x"
  by (simp_all add: duration_ok_def)

lemma valid_duration_ok [simp]: "duration_ok (valid_duration v)"
  by (auto simp: duration_ok_def valid_duration_Some split: option.split)

lemma event_duration_ok [simp]: "duration_ok (event_duration e)"
  by (simp add: event_duration_def split: option.split)

lemma observed_rate_Some:
  "observed_rate n d = Some r \<longleftrightarrow> 0 \<le> n \<and> 0 < d \<and> r = round2 (fl (n / fl (d / 1000)))"
  by (auto simp: observed_rate_def)

lemma observed_rate_nonneg: "observed_rate n d = Some r \<Longrightarrow> 0 \<le> r"
  by (auto simp: observed_rate_Some intro!: round2_nonneg fl_nonneg divide_nonneg_nonneg)

text \<open>The rate is monotone: more completions, or the same in less time, never lower it.\<close>

lemma observed_rate_mono:
  assumes "observed_rate n d = Some r" "observed_rate n' d' = Some r'" "n \<le> n'" "d' \<le> d"
    and "0 < fl (d' / 1000)"
  shows "r \<le> r'"
proof -
  have "fl (d' / 1000) \<le> fl (d / 1000)" using assms(4) by (intro fl_mono) simp
  then have "n / fl (d / 1000) \<le> n' / fl (d' / 1000)"
    using assms by (intro frac_le) (auto simp: observed_rate_Some)
  then show ?thesis using assms(1,2) by (auto simp: observed_rate_Some intro!: round2_mono fl_mono)
qed

subsection \<open>Well-formed metrics\<close>

text \<open>
  No reported number is negative, every rate is over a positive duration and belongs to a
  reported count, a bandwidth is finite whenever its duration is not zero, and every count
  key has exactly one completion semantics.
\<close>

definition rate_ok :: "string set \<Rightarrow> rate_metric \<Rightarrow> bool" where
  "rate_ok ks r \<longleftrightarrow> r_key r \<in> ks \<and> 0 \<le> r_count r \<and> 0 < r_durationMs r \<and>
     r_valuePerSecond r = round2 (fl (r_count r / fl (r_durationMs r / 1000)))"

definition bandwidth_ok :: "bandwidth_metric \<Rightarrow> bool" where
  "bandwidth_ok b \<longleftrightarrow> 0 \<le> b_bytes b \<and> 0 \<le> b_durationMs b \<and>
     b_bytesPerSecond b =
       (if b_durationMs b = 0 then None else Some (round2 (fl (b_bytes b / fl (b_durationMs b / 1000)))))"

definition metrics_ok :: "metric_collections \<Rightarrow> bool" where
  "metrics_ok m \<longleftrightarrow>
     distinct (map fst (completionSemantics m)) \<and>
     set (map fst (completionSemantics m)) = c_key ` set (counts m) \<and>
     list_all (\<lambda>c. 0 \<le> c_value c) (counts m) \<and>
     list_all (rate_ok (c_key ` set (counts m))) (rates m) \<and>
     list_all bandwidth_ok (bandwidth m) \<and>
     list_all (\<lambda>l. 0 \<le> l_valueMs l) (latencies m) \<and>
     list_all (\<lambda>r. 0 \<le> v_durationMs r) (recoveries m)"

lemma mutable_metrics_ok [simp]: "metrics_ok mutable_metrics"
  by (simp add: metrics_ok_def mutable_metrics_def)

lemma rate_ok_mono: "rate_ok ks r \<Longrightarrow> ks \<subseteq> ks' \<Longrightarrow> rate_ok ks' r"
  by (auto simp: rate_ok_def)

lemma add_count_ok [simp]:
  assumes "metrics_ok m" "0 \<le> value" shows "metrics_ok (add_count m key label value un sem)"
proof -
  let ?m = "add_count m key label value un sem"
  have cs: "counts ?m = counts m @ [\<lparr>c_key = key, c_label = label, c_value = value, c_unit = un, c_semantics = sem\<rparr>]"
    and rest: "rates ?m = rates m" "bandwidth ?m = bandwidth m" "latencies ?m = latencies m" "recoveries ?m = recoveries m"
    by (simp_all add: add_count_def Let_def)
  have sem: "completionSemantics ?m =
      (if key \<in> fst ` set (completionSemantics m) then completionSemantics m else completionSemantics m @ [(key, sem)])"
    by (force simp: add_count_def Let_def list_ex_iff)
  have "list_all (rate_ok (c_key ` set (counts ?m))) (rates m)"
    using assms(1) unfolding metrics_ok_def cs by (auto simp: list_all_iff intro: rate_ok_mono)
  then show ?thesis
    using assms unfolding metrics_ok_def rest sem by (auto simp: cs)
qed

lemma add_count_key: "key \<in> c_key ` set (counts (add_count m key label value un sem))"
  by (simp add: add_count_def Let_def)

lemma add_count_and_rate_ok [simp]:
  assumes "metrics_ok m" "0 \<le> value" shows "metrics_ok (add_count_and_rate m key label value un sem d)"
proof -
  let ?m = "add_count m key label value un sem"
  have "metrics_ok ?m" "key \<in> c_key ` set (counts ?m)" using assms add_count_key by auto
  then show ?thesis
    by (auto simp: add_count_and_rate_def Let_def metrics_ok_def rate_ok_def observed_rate_Some split: option.split)
qed

lemma add_bandwidth_ok [simp]: "metrics_ok m \<Longrightarrow> metrics_ok (add_bandwidth m key label bytes d sem)"
  by (auto simp: add_bandwidth_def metrics_ok_def bandwidth_ok_def observed_rate_Some split: option.split)

lemma push_recovery_ok [simp]:
  "metrics_ok m \<Longrightarrow> 0 \<le> d \<Longrightarrow> metrics_ok (push_recovery m (recovery key label d))"
  by (simp add: push_recovery_def metrics_ok_def recovery_def)

lemma add_recovery_ok [simp]: "metrics_ok m \<Longrightarrow> duration_ok d \<Longrightarrow> metrics_ok (add_recovery m key label d)"
  by (cases d) (simp_all add: add_recovery_def)

lemma add_latency_ok [simp]: "metrics_ok m \<Longrightarrow> 0 \<le> v \<Longrightarrow> metrics_ok (add_latency m key label stat v)"
  by (simp add: add_latency_def metrics_ok_def)

end
