(* ===== verification/GuidanceScenarios.thy ===== *)
theory GuidanceScenarios
  imports GuidanceMetrics
begin

text \<open>
  The per-scenario metric extractors of src/operational-guidance.ts: each reads the closing
  event of its scenario and adds the metrics it vouches for, or throws.
\<close>

subsection \<open>Restarts and canaries\<close>

definition add_restart_recovery :: "metric_collections \<Rightarrow> nat \<times> json \<Rightarrow> metric_collections result" where
  "add_restart_recovery metrics indexed =
     (case indexed of (index, e) \<Rightarrow>
        try_in (string_field e ''kind'') (\<lambda>kind.
        try_in (number_field e ''elapsedMs'') (\<lambda>elapsed.
          Inr (push_recovery metrics
                (recovery (''restart-'' @ show_nat (index + 1)) (kind @ '' restart '' @ show_nat (index + 1)) elapsed)))))"

definition restart_triggers :: "string list" where
  "restart_triggers =
     [''fitz_graceful_stop_started'', ''fitz_sigkill_started'', ''fitz_cache_discard_started'', ''sqrzl_sigkill_started'']"

definition is_restart_trigger :: "json \<Rightarrow> bool" where
  "is_restart_trigger e = (case event_name e of Some n \<Rightarrow> n \<in> set restart_triggers | None \<Rightarrow> False)"

text \<open>The loop over the events: the state is \<^verbatim>\<open>restartPending\<close>.\<close>

fun readiness_events :: "bool \<Rightarrow> json list \<Rightarrow> json list" where
  "readiness_events pending [] = []"
| "readiness_events pending (e # events) =
     (if is_restart_trigger e then readiness_events True events
      else if event_name e = Some ''fitz_ready'' \<and> pending then e # readiness_events False events
      else readiness_events pending events)"

definition add_readiness :: "metric_collections \<Rightarrow> nat \<times> json \<Rightarrow> metric_collections result" where
  "add_readiness metrics indexed =
     (case indexed of (index, e) \<Rightarrow>
        try_in (number_field e ''elapsedMs'') (\<lambda>elapsed.
          Inr (add_latency metrics (''readiness-'' @ show_nat (index + 1))
                 (''Restart readiness '' @ show_nat (index + 1)) ''observed'' elapsed)))"

definition add_restart_metrics :: "metric_collections \<Rightarrow> json list \<Rightarrow> metric_collections result" where
  "add_restart_metrics metrics events =
     try_in (fold_result add_restart_recovery metrics (enumerate 0 (events_named ''fitz_restart_complete'' events)))
       (\<lambda>m. fold_result add_readiness m (enumerate 0 (readiness_events False events)))"

definition add_canary_latency :: "metric_collections \<Rightarrow> string \<times> json \<Rightarrow> metric_collections result" where
  "add_canary_latency metrics entry =
     (case entry of (domain, value) \<Rightarrow>
        try_in (non_negative_number (Some value) (domain @ '' canary maximum'')) (\<lambda>v.
          Inr (add_latency metrics (''canary-'' @ domain) (domain @ '' canary maximum'') ''max'' v)))"

definition add_canary_latencies :: "metric_collections \<Rightarrow> json \<Rightarrow> metric_collections result" where
  "add_canary_latencies metrics e =
     try_in (record_field e ''canaryMaximumMs'') (\<lambda>maximums.
       fold_result add_canary_latency metrics (sort_key (\<lambda>(k, _). locale_key k) (json_entries maximums)))"

text \<open>A loop that adds one recovery, named by the event, for every event of a kind.\<close>

definition add_event_recoveries ::
  "string \<Rightarrow> (json \<Rightarrow> (string \<times> string) result) \<Rightarrow> json list \<Rightarrow> metric_collections \<Rightarrow> metric_collections result" where
  "add_event_recoveries name labels events metrics =
     fold_result (\<lambda>m e. try_in (labels e) (\<lambda>(key, label). Inr (add_recovery m key label (event_duration (Some e)))))
       metrics (events_named name events)"

text \<open>\<^verbatim>\<open>sum(Object.values(record).map(f))\<close>.\<close>

definition sum_over :: "(json \<Rightarrow> rat result) \<Rightarrow> json list \<Rightarrow> rat result" where
  "sum_over f values = try_in (traverse f values) (\<lambda>ns. Inr (sum_numbers ns))"

definition observed_count :: "string \<Rightarrow> json \<Rightarrow> rat result" where
  "observed_count label value =
     try_in (record_value (Some value) label) (\<lambda>rec.
     try_in (array_field rec ''observed'') (\<lambda>items. Inr (of_nat (length items))))"

subsection \<open>Extractors\<close>

definition recovery_mode_metrics :: "json list \<Rightarrow> metric_collections \<Rightarrow> string \<Rightarrow> metric_collections" where
  "recovery_mode_metrics jobs metrics mode =
     (let selected = filter (\<lambda>e. json_get e ''mode'' = Some (JStr mode)) jobs;
          entries_by_job = map (\<lambda>e. optional_non_negative_integer (json_get e ''entries'')) selected
      in if selected = [] then metrics
         else if None \<in> set entries_by_job then metrics
         else (let durations = map (\<lambda>e. valid_duration (json_get e ''workerElapsedMs'')) selected;
                   entries = sum_numbers (map the entries_by_job);
                   durationMs = (if None \<in> set durations then None else Some (sum_numbers (map the durations)));
                   semantics = (if mode = ''load'' then ''durable operations accepted by the client''
                                else ''durable entries read and verified'')
               in add_count_and_rate metrics (mode @ ''-entries'') (capitalize mode @ '' entries'')
                    entries ''entries'' semantics durationMs))"

definition recovery_scenario_metrics :: "json list \<Rightarrow> metric_collections result" where
  "recovery_scenario_metrics events =
     add_restart_metrics
       (foldl (recovery_mode_metrics (events_named ''client_job_complete'' events)) mutable_metrics [''load'', ''verify''])
       events"

definition crash_cut_metrics :: "json list \<Rightarrow> metric_collections result" where
  "crash_cut_metrics events =
     try_in (required_last_event events ''durability_crash_cuts_complete'') (\<lambda>complete.
     try_in (array_field complete ''iterations'') (\<lambda>its.
     let elapsedMs = event_duration (Some complete);
         m = add_count_and_rate mutable_metrics ''fault-iterations'' ''Fault iterations'' (of_nat (length its))
               ''iterations'' ''completed crash-cut iterations'' elapsedMs
     in
     try_in (record_field complete ''domains'') (\<lambda>domains.
     try_in (sum_over (observed_count ''durability domain'') (json_values domains)) (\<lambda>observed.
     try_in (add_event_recoveries ''durability_crash_cut_iteration_complete''
               (\<lambda>e. try_in (number_field e ''iteration'') (\<lambda>iteration.
                  Inr (''iteration-'' @ show_number iteration, ''Crash-cut iteration '' @ show_number iteration)))
               events
               (add_count_and_rate m ''observed-records'' ''Observed durable records'' observed ''records''
                  ''records observed after broker recovery'' elapsedMs))
       (\<lambda>m. add_restart_metrics m events)))))"

definition queue_redelivery_metrics :: "json list \<Rightarrow> metric_collections result" where
  "queue_redelivery_metrics events =
     try_in (required_last_event events ''queue_redelivery_complete'') (\<lambda>complete.
     let durationMs = event_duration (Some complete) in
     try_in (number_field complete ''produced'') (\<lambda>produced.
     try_in (number_field complete ''recovered'') (\<lambda>recovered.
     let m = add_count mutable_metrics ''produced'' ''Acknowledged enqueues'' produced ''records''
               ''acknowledged Queue enqueues'';
         m = add_count_and_rate m ''recovered'' ''Recovered records'' recovered ''records''
               ''records completed after redelivery'' durationMs
     in Inr (add_recovery m ''redelivery'' ''Reservation loss to complete drain'' durationMs))))"

definition lease_contention_metrics :: "json list \<Rightarrow> metric_collections result" where
  "lease_contention_metrics events =
     try_in (required_last_event events ''lease_contention_complete'') (\<lambda>complete.
     let durationMs = event_duration (Some complete) in
     try_in (number_field complete ''contenderAdmissions'') (\<lambda>admissions.
     let m = add_count_and_rate mutable_metrics ''contender-admissions'' ''Contender admissions'' admissions
               ''admissions'' ''completed fenced Lease critical sections'' durationMs;
         m = add_count m ''post-loss-admissions'' ''Post-owner-loss admissions'' 1 ''admissions''
               ''waiter admission after owner loss''
     in Inr (add_recovery m ''owner-loss'' ''Contention and owner-loss recovery'' durationMs)))"

definition or_duration :: "rat option \<Rightarrow> rat option \<Rightarrow> rat option" where
  "or_duration a b = (case a of Some d \<Rightarrow> Some d | None \<Rightarrow> b)"

definition hot_total :: "string \<Rightarrow> json \<Rightarrow> rat result" where
  "hot_total field value =
     try_in (record_value (Some value) ''hot route total'') (\<lambda>rec. number_field rec field)"

definition hot_route_metrics :: "json list \<Rightarrow> rat option \<Rightarrow> metric_collections result" where
  "hot_route_metrics events duration =
     try_in (required_last_event events ''hot_route_canary_complete'') (\<lambda>complete.
     let elapsedMs = or_duration (event_duration (Some complete)) duration in
     try_in (record_field complete ''hotTotals'') (\<lambda>hot_totals.
     try_in (sum_over (hot_total ''success'') (json_values hot_totals)) (\<lambda>successes.
     try_in (sum_over (hot_total ''error'') (json_values hot_totals)) (\<lambda>errors.
     let m = add_count_and_rate mutable_metrics ''hot-route-successes'' ''Hot-route successes'' successes
               ''operations'' ''successful operations on shared hot routes'' elapsedMs;
         m = add_count m ''hot-route-errors'' ''Hot-route errors'' errors ''errors''
               ''recorded hot-route operation errors''
     in add_canary_latencies m complete))))"

definition protocol_metrics :: "json list \<Rightarrow> rat option \<Rightarrow> metric_collections result" where
  "protocol_metrics events duration =
     try_in (required_last_event events ''protocol_abuse_scenario_complete'') (\<lambda>complete.
     try_in (number_field complete ''attacks'') (\<lambda>attacks.
       add_canary_latencies
         (add_count_and_rate mutable_metrics ''protocol-cases'' ''Protocol cases'' attacks ''cases''
            ''completed adversarial protocol cases'' (or_duration (event_duration (Some complete)) duration))
         complete))"

definition notice_metrics :: "json list \<Rightarrow> metric_collections result" where
  "notice_metrics events =
     try_in (required_last_event events ''notice_fanout_complete'') (\<lambda>complete.
     try_in (required_last_event events ''notice_fanout_started'') (\<lambda>start.
     let durationMs = event_duration (Some complete) in
     try_in (number_field complete ''publications'') (\<lambda>publications.
     try_in (number_field complete ''deliveries'') (\<lambda>deliveries.
     try_in (number_field start ''payloadBytes'') (\<lambda>payload_bytes.
     let m = add_count_and_rate mutable_metrics ''publications'' ''Publications'' publications ''publications''
               ''publisher acceptance, not confirmed fanout'' durationMs;
         m = add_count_and_rate m ''deliveries'' ''Verified deliveries'' deliveries ''deliveries''
               ''verified while-connected subscriber deliveries'' durationMs
     in Inr (add_bandwidth m ''delivery-bandwidth'' ''Verified payload delivery bandwidth''
               (fl (deliveries * payload_bytes)) durationMs ''verified while-connected subscriber deliveries''))))))"

definition schedule_delivery_metrics :: "json list \<Rightarrow> metric_collections result" where
  "schedule_delivery_metrics events =
     try_in (required_last_event events ''schedule_delivery_complete'') (\<lambda>complete.
     let durationMs = event_duration (Some complete) in
     try_in (number_field complete ''broadcastDeliveries'') (\<lambda>broadcast.
     try_in (number_field complete ''singleDeliveries'') (\<lambda>single.
     try_in (number_field complete ''maxLatenessMs'') (\<lambda>lateness.
     let m = add_count_and_rate mutable_metrics ''schedule-deliveries'' ''Schedule deliveries''
               (fl (broadcast + single)) ''deliveries'' ''verified live Schedule handoffs'' durationMs;
         m = add_count m ''broadcast-deliveries'' ''Broadcast deliveries'' broadcast ''deliveries''
               ''verified broadcast handoffs'';
         m = add_count m ''single-deliveries'' ''Single deliveries'' single ''deliveries''
               ''verified single handoffs''
     in Inr (add_latency m ''maximum-lateness'' ''Maximum delivery lateness'' ''max'' lateness)))))"

definition session_boundary_fields :: "(string \<times> string) list" where
  "session_boundary_fields =
     [(''staleRejections'', ''Stale-handle rejections''), (''queueRedelivered'', ''Queue redeliveries''),
      (''queueCompleted'', ''Queue completions''), (''leaseReacquired'', ''Lease reacquisitions'')]"

definition session_boundary_metrics :: "json list \<Rightarrow> metric_collections result" where
  "session_boundary_metrics events =
     try_in (required_last_event events ''session_boundaries_complete'') (\<lambda>complete.
     let durationMs = event_duration (Some complete) in
     try_in (fold_result (\<lambda>m (key, label). try_in (number_field complete key) (\<lambda>v.
               Inr (add_count m key label v ''outcomes'' ''verified post-restart boundary outcomes'')))
               mutable_metrics session_boundary_fields) (\<lambda>m.
       add_restart_metrics
         (add_recovery m ''session-boundary'' ''Broker restart to boundary verification'' durationMs) events))"

definition rpc_pressure_metrics :: "json list \<Rightarrow> metric_collections result" where
  "rpc_pressure_metrics events =
     try_in (required_last_event events ''rpc_pressure_complete'') (\<lambda>complete.
     try_in (required_last_event events ''rpc_pressure_started'') (\<lambda>start.
     let durationMs = event_duration (Some complete) in
     try_in (number_field complete ''calls'') (\<lambda>calls.
     try_in (number_field complete ''responseFrames'') (\<lambda>frames.
     try_in (number_field start ''payloadBytes'') (\<lambda>payload_bytes.
     let m = add_count_and_rate mutable_metrics ''rpc-calls'' ''RPC calls'' calls ''calls''
               ''completed RPC calls with ordered responses'' durationMs;
         m = add_count_and_rate m ''rpc-frames'' ''RPC response frames'' frames ''frames''
               ''verified ordered RPC response frames'' durationMs
     in Inr (add_bandwidth m ''rpc-response-bandwidth'' ''RPC response payload bandwidth''
               (fl (frames * payload_bytes)) durationMs ''verified RPC response payloads''))))))"

definition is_full_success :: "json \<Rightarrow> bool" where
  "is_full_success e \<longleftrightarrow> event_name e = Some ''rpc_stream_success_phase_complete'' \<and>
     json_get e ''label'' = Some (JStr ''rpc-stream-full'')"

definition rpc_stream_metrics :: "json list \<Rightarrow> metric_collections result" where
  "rpc_stream_metrics events =
     try_in (required_last_event events ''rpc_stream_hose_complete'') (\<lambda>complete.
     case find is_full_success events of
       None \<Rightarrow> Inl (Error ''Missing rpc_stream_success_phase_complete for rpc-stream-full'' [])
     | Some success \<Rightarrow>
         try_in (number_field success ''elapsedMs'') (\<lambda>durationMs.
         try_in (number_field success ''completed'') (\<lambda>calls.
         try_in (number_field success ''responseFrames'') (\<lambda>frames.
         try_in (number_field success ''responseBytes'') (\<lambda>bytes.
         let m = add_count_and_rate mutable_metrics ''streaming-calls'' ''Streaming RPC calls'' calls ''calls''
                   ''completed streaming RPC calls'' (Some durationMs);
             m = add_count_and_rate m ''streaming-frames'' ''Streaming response frames'' frames ''frames''
                   ''verified streaming RPC response frames'' (Some durationMs);
             m = add_bandwidth m ''streaming-bandwidth'' ''Verified response bandwidth'' bytes (Some durationMs)
                   ''verified streaming RPC response bytes''
         in try_in (add_event_recoveries ''rpc_stream_fault_phase_complete''
                      (\<lambda>e. try_in (string_field e ''label'') (\<lambda>label. Inr (label, dashes_to_spaces label))) events m)
              (\<lambda>m. try_in (number_field complete ''elapsedMs'') (\<lambda>elapsed.
                 Inr (push_recovery m
                   (recovery ''scenario'' ''Streaming workload and destructive phases'' elapsed)))))))))"

definition in_storm_wave :: "string \<Rightarrow> json \<Rightarrow> bool" where
  "in_storm_wave name e \<longleftrightarrow> event_name e = Some name \<and>
     (case json_get e ''runLabel'' of Some (JStr l) \<Rightarrow> prefix ''connection-storm-wave-'' l | _ \<Rightarrow> False)"

definition connection_storm_metrics :: "json list \<Rightarrow> metric_collections result" where
  "connection_storm_metrics events =
     try_in (required_last_event events ''connection_storm_complete'') (\<lambda>complete.
     try_in (required_last_event events ''connection_storm_started'') (\<lambda>start.
     let durationMs = event_duration (Some complete);
         notices = filter (in_storm_wave ''notice_fanout_complete'') events;
         rpcs = filter (in_storm_wave ''rpc_pressure_complete'') events
     in
     try_in (number_field start ''totalConnectionLifecycles'') (\<lambda>lifecycles.
     try_in (sum_over (\<lambda>e. number_field e ''deliveries'') notices) (\<lambda>deliveries.
     try_in (sum_over (\<lambda>e. number_field e ''calls'') rpcs) (\<lambda>calls.
     let m = add_count_and_rate mutable_metrics ''connection-lifecycles'' ''Connection lifecycles'' lifecycles
               ''connections'' ''completed client connection lifecycles'' durationMs;
         m = add_count_and_rate m ''notice-deliveries'' ''Notice deliveries'' deliveries ''deliveries''
               ''verified while-connected Notice deliveries'' durationMs;
         m = add_count_and_rate m ''rpc-calls'' ''RPC calls'' calls ''calls'' ''completed RPC calls'' durationMs
     in add_event_recoveries ''connection_storm_wave_complete''
          (\<lambda>e. try_in (number_field e ''wave'') (\<lambda>wave.
             Inr (''wave-'' @ show_number wave, ''Connection wave '' @ show_number wave))) events m)))))"

definition chaos_metrics :: "json list \<Rightarrow> metric_collections result" where
  "chaos_metrics events =
     try_in (required_last_event events ''chaos_complete'') (\<lambda>complete.
     try_in (number_field complete ''iterations'') (\<lambda>iterations.
       add_event_recoveries ''chaos_fault_recovery_complete''
         (\<lambda>e. try_in (string_field e ''fault'') (\<lambda>fault. Inr (fault, fault @ '' to fresh all-domain progress'')))
         events
         (add_count_and_rate mutable_metrics ''fault-recoveries'' ''Fault recoveries'' iterations ''recoveries''
            ''faults followed by fresh progress in every selected domain'' (event_duration (Some complete)))))"

definition storage_fault_metrics :: "json list \<Rightarrow> metric_collections result" where
  "storage_fault_metrics events =
     try_in (required_last_event events ''storage_faults_complete'') (\<lambda>complete.
     let durationMs = event_duration (Some complete) in
     try_in (number_field complete ''iterations'') (\<lambda>iterations.
     try_in (record_field complete ''domains'') (\<lambda>domains.
     try_in (sum_over (observed_count ''storage domain'') (json_values domains)) (\<lambda>observed.
     let m = add_count_and_rate mutable_metrics ''fault-iterations'' ''Storage fault iterations'' iterations
               ''iterations'' ''completed storage-fault iterations'' durationMs;
         m = add_count_and_rate m ''observed-records'' ''Observed durable records'' observed ''records''
               ''durable records observed after restored-provider verification'' durationMs
     in add_event_recoveries ''storage_fault_iteration_complete''
          (\<lambda>e. try_in (number_field e ''iteration'') (\<lambda>iteration.
             try_in (string_field e ''fault'') (\<lambda>fault.
               Inr (''iteration-'' @ show_number iteration, fault @ '' iteration '' @ show_number iteration))))
          events m))))"

definition queue_lifecycle_metrics :: "json list \<Rightarrow> metric_collections result" where
  "queue_lifecycle_metrics events =
     try_in (required_last_event events ''queue_lifecycle_complete'') (\<lambda>complete.
     let durationMs = event_duration (Some complete) in
     try_in (number_field complete ''operations'') (\<lambda>operations.
     let m = add_count_and_rate mutable_metrics ''drained-records'' ''Completed Queue records'' operations
               ''records'' ''records completed across partial completion and redelivery'' durationMs;
         m = add_count m ''abandoned-records'' ''Abandoned reservations'' 1 ''records''
               ''reservations deliberately abandoned before redelivery''
     in Inr (add_recovery m ''queue-lifecycle'' ''Queue lifecycle completion and recovery'' durationMs)))"

definition schedule_outage_metrics :: "json list \<Rightarrow> metric_collections result" where
  "schedule_outage_metrics events =
     try_in (required_last_event events ''schedule_outage_complete'') (\<lambda>complete.
     let durationMs = event_duration (Some complete) in
     try_in (array_field complete ''repeatedSequences'') (\<lambda>repeated.
     try_in (array_field complete ''raceSequences'') (\<lambda>race.
     try_in (number_field complete ''missedDeliveries'') (\<lambda>missed.
     let m = add_count_and_rate mutable_metrics ''repeated-deliveries'' ''Repeated occurrences''
               (of_nat (length repeated)) ''deliveries'' ''verified live delivery of the next repeated occurrence''
               durationMs;
         m = add_count m ''race-deliveries'' ''Cancellation-race deliveries'' (of_nat (length race)) ''deliveries''
               ''live handoffs accepted during cancellation races'';
         m = add_count m ''missed-deliveries'' ''Missed-occurrence deliveries'' missed ''deliveries''
               ''unexpected deliveries from the intentionally missed occurrence'';
         m = add_recovery m ''schedule-outage'' ''Outage through repeated-occurrence verification'' durationMs
     in add_restart_metrics m events))))"

definition transaction_contention_metrics :: "json list \<Rightarrow> metric_collections result" where
  "transaction_contention_metrics events =
     try_in (required_last_event events ''transaction_contention_complete'') (\<lambda>complete.
     let durationMs = event_duration (Some complete) in
     try_in (number_field complete ''conflicts'') (\<lambda>conflicts.
     let m = add_count_and_rate mutable_metrics ''transaction-outcomes'' ''Contention outcomes'' (fl (1 + conflicts))
               ''outcomes'' ''one committed KV winner plus rejected conflicts'' durationMs;
         m = add_count m ''commits'' ''Committed winners'' 1 ''transactions'' ''verified committed KV winners'';
         m = add_count m ''conflicts'' ''Rejected conflicts'' conflicts ''transactions''
               ''verified conflicting KV commits rejected''
     in Inr (add_recovery m ''transaction-contention'' ''Contention and killed-transaction cleanup'' durationMs)))"

definition stream_replay_metrics :: "json list \<Rightarrow> metric_collections result" where
  "stream_replay_metrics events =
     try_in (required_last_event events ''stream_replay_complete'') (\<lambda>complete.
     let durationMs = event_duration (Some complete) in
     try_in (number_field complete ''records'') (\<lambda>records.
     try_in (number_field complete ''pages'') (\<lambda>pages.
     try_in (number_field complete ''boundaryBytes'') (\<lambda>boundary_bytes.
     let m = add_count_and_rate mutable_metrics ''replayed-records'' ''Replayed records'' records ''records''
               ''records read and verified through paged replay'' durationMs;
         m = add_count m ''replay-pages'' ''Replay pages'' pages ''pages'' ''verified replay pages''
     in Inr (add_bandwidth m ''boundary-bandwidth'' ''Boundary response bandwidth'' boundary_bytes durationMs
               ''verified boundary response bytes'')))))"

definition add_churn_phase :: "metric_collections \<Rightarrow> json \<Rightarrow> metric_collections result" where
  "add_churn_phase m value =
     try_in (record_value (Some value) ''live churn phase'') (\<lambda>phase.
     try_in (string_field phase ''phase'') (\<lambda>name.
       Inr (add_recovery m name (dashes_to_spaces name) (valid_duration (json_get phase ''elapsedMs'')))))"

definition live_churn_metrics :: "json list \<Rightarrow> metric_collections result" where
  "live_churn_metrics events =
     try_in (required_last_event events ''live_churn_complete'') (\<lambda>complete.
     try_in (array_field complete ''phases'') (\<lambda>phases.
       fold_result add_churn_phase
         (add_count_and_rate mutable_metrics ''churn-phases'' ''Churn phases'' (of_nat (length phases)) ''phases''
            ''completed live-domain churn and recovery phases'' (event_duration (Some complete)))
         phases))"

subsection \<open>Every extractor yields well-formed metrics\<close>

lemma metrics_loop:
  assumes "fold_result f m xs = Inr m'" "metrics_ok m"
    and "\<And>m x m'. f m x = Inr m' \<Longrightarrow> metrics_ok m \<Longrightarrow> metrics_ok m'"
  shows "metrics_ok m'"
  using fold_result_invariant [where P = metrics_ok, OF assms(1,2)] assms(3) by blast

lemma add_restart_recovery_ok: "add_restart_recovery m ie = Inr m' \<Longrightarrow> metrics_ok m \<Longrightarrow> metrics_ok m'"
  by (auto simp: add_restart_recovery_def try_in_eq_Inr number_field_ok split: prod.splits)

lemma add_readiness_ok: "add_readiness m ie = Inr m' \<Longrightarrow> metrics_ok m \<Longrightarrow> metrics_ok m'"
  by (auto simp: add_readiness_def try_in_eq_Inr number_field_ok split: prod.splits)

lemma add_restart_metrics_ok:
  assumes "add_restart_metrics m events = Inr m'" "metrics_ok m" shows "metrics_ok m'"
proof -
  obtain m1 where m1: "fold_result add_restart_recovery m (enumerate 0 (events_named ''fitz_restart_complete'' events)) = Inr m1"
    and m': "fold_result add_readiness m1 (enumerate 0 (readiness_events False events)) = Inr m'"
    using assms(1) by (auto simp: add_restart_metrics_def try_in_eq_Inr)
  have "metrics_ok m1" using m1 assms(2) by (rule metrics_loop) (rule add_restart_recovery_ok)
  with m' show ?thesis by (rule metrics_loop) (rule add_readiness_ok)
qed

lemma add_canary_latencies_ok:
  assumes "add_canary_latencies m e = Inr m'" "metrics_ok m" shows "metrics_ok m'"
proof -
  obtain es where "fold_result add_canary_latency m es = Inr m'"
    using assms(1) by (auto simp: add_canary_latencies_def try_in_eq_Inr)
  then show ?thesis using assms(2)
    by (rule metrics_loop) (auto simp: add_canary_latency_def try_in_eq_Inr non_negative_number_ok split: prod.splits)
qed

lemma add_event_recoveries_ok:
  assumes "add_event_recoveries name labels events m = Inr m'" "metrics_ok m" shows "metrics_ok m'"
  using assms unfolding add_event_recoveries_def
  by (rule metrics_loop) (auto simp: try_in_eq_Inr split: prod.splits)

lemma sum_over_nonneg:
  assumes "sum_over f xs = Inr s" and f: "\<And>x n. f x = Inr n \<Longrightarrow> 0 \<le> n" shows "0 \<le> s"
proof -
  obtain ns where ns: "traverse f xs = Inr ns" and s: "s = sum_numbers ns"
    using assms(1) by (auto simp: sum_over_def try_in_eq_Inr)
  have "list_all (\<lambda>n. 0 \<le> n) ns" using f by (auto simp: list_all_iff traverse_set [OF ns])
  then show ?thesis using s by (simp add: sum_numbers_nonneg)
qed

lemma observed_count_nonneg: "observed_count label v = Inr n \<Longrightarrow> 0 \<le> n"
  by (auto simp: observed_count_def try_in_eq_Inr)

lemma hot_total_nonneg: "hot_total field v = Inr n \<Longrightarrow> 0 \<le> n"
  by (auto simp: hot_total_def try_in_eq_Inr number_field_ok)

lemma recovery_mode_metrics_ok:
  assumes "metrics_ok m" shows "metrics_ok (recovery_mode_metrics jobs m mode)"
proof -
  have "0 \<le> sum_numbers (map the ns)" if "None \<notin> set ns" "ns = map (\<lambda>e. optional_non_negative_integer (json_get e k)) es" for ns es k
  proof -
    have "0 \<le> the (optional_non_negative_integer v)" if "optional_non_negative_integer v \<noteq> None" for v
      using that by (metis option.exhaust_sel optional_integer_Some)
    then show ?thesis using that by (intro sum_numbers_nonneg) (force simp: list_all_iff)
  qed
  then show ?thesis using assms by (auto simp: recovery_mode_metrics_def Let_def)
qed

lemma recovery_scenario_metrics_ok: "recovery_scenario_metrics events = Inr m \<Longrightarrow> metrics_ok m"
  unfolding recovery_scenario_metrics_def
  by (erule add_restart_metrics_ok) (simp add: recovery_mode_metrics_ok)

lemmas extractor_simps = try_in_eq_Inr Let_def

lemmas extractor_intros =
  add_count_ok add_count_and_rate_ok add_bandwidth_ok add_recovery_ok push_recovery_ok add_latency_ok
  mutable_metrics_ok event_duration_ok valid_duration_ok

lemma crash_cut_metrics_ok: "crash_cut_metrics events = Inr m \<Longrightarrow> metrics_ok m"
  by (auto simp: crash_cut_metrics_def extractor_simps elim!: add_restart_metrics_ok add_event_recoveries_ok
      intro!: extractor_intros intro: sum_over_nonneg [OF _ observed_count_nonneg])

lemma queue_redelivery_metrics_ok: "queue_redelivery_metrics events = Inr m \<Longrightarrow> metrics_ok m"
  by (auto simp: queue_redelivery_metrics_def extractor_simps number_field_ok)

lemma lease_contention_metrics_ok: "lease_contention_metrics events = Inr m \<Longrightarrow> metrics_ok m"
  by (auto simp: lease_contention_metrics_def extractor_simps number_field_ok)

lemma hot_route_metrics_ok: "hot_route_metrics events d = Inr m \<Longrightarrow> metrics_ok m"
  by (auto simp: hot_route_metrics_def extractor_simps elim!: add_canary_latencies_ok
      intro!: extractor_intros intro: sum_over_nonneg [OF _ hot_total_nonneg])

lemma protocol_metrics_ok: "protocol_metrics events d = Inr m \<Longrightarrow> metrics_ok m"
  by (auto simp: protocol_metrics_def extractor_simps number_field_ok elim!: add_canary_latencies_ok)

lemma notice_metrics_ok: "notice_metrics events = Inr m \<Longrightarrow> metrics_ok m"
  by (auto simp: notice_metrics_def extractor_simps number_field_ok)

lemma schedule_delivery_metrics_ok: "schedule_delivery_metrics events = Inr m \<Longrightarrow> metrics_ok m"
  by (auto simp: schedule_delivery_metrics_def extractor_simps number_field_ok intro!: extractor_intros fl_nonneg)

lemma session_boundary_metrics_ok: "session_boundary_metrics events = Inr m \<Longrightarrow> metrics_ok m"
  by (auto simp: session_boundary_metrics_def extractor_simps session_boundary_fields_def number_field_ok
      elim!: add_restart_metrics_ok)

lemma rpc_pressure_metrics_ok: "rpc_pressure_metrics events = Inr m \<Longrightarrow> metrics_ok m"
  by (auto simp: rpc_pressure_metrics_def extractor_simps number_field_ok)

lemma rpc_stream_metrics_ok: "rpc_stream_metrics events = Inr m \<Longrightarrow> metrics_ok m"
  by (auto simp: rpc_stream_metrics_def extractor_simps number_field_ok elim!: add_event_recoveries_ok
      intro!: extractor_intros split: option.splits)

lemma connection_storm_metrics_ok: "connection_storm_metrics events = Inr m \<Longrightarrow> metrics_ok m"
  by (auto simp: connection_storm_metrics_def extractor_simps elim!: add_event_recoveries_ok
      intro!: extractor_intros intro: sum_over_nonneg [OF _ number_field_nonneg] number_field_nonneg)

lemma chaos_metrics_ok: "chaos_metrics events = Inr m \<Longrightarrow> metrics_ok m"
  by (auto simp: chaos_metrics_def extractor_simps number_field_ok elim!: add_event_recoveries_ok)

lemma storage_fault_metrics_ok: "storage_fault_metrics events = Inr m \<Longrightarrow> metrics_ok m"
  by (auto simp: storage_fault_metrics_def extractor_simps elim!: add_event_recoveries_ok
      intro!: extractor_intros intro: sum_over_nonneg [OF _ observed_count_nonneg] number_field_nonneg)

lemma queue_lifecycle_metrics_ok: "queue_lifecycle_metrics events = Inr m \<Longrightarrow> metrics_ok m"
  by (auto simp: queue_lifecycle_metrics_def extractor_simps number_field_ok)

lemma schedule_outage_metrics_ok: "schedule_outage_metrics events = Inr m \<Longrightarrow> metrics_ok m"
  by (auto simp: schedule_outage_metrics_def extractor_simps number_field_ok elim!: add_restart_metrics_ok)

lemma transaction_contention_metrics_ok: "transaction_contention_metrics events = Inr m \<Longrightarrow> metrics_ok m"
  by (auto simp: transaction_contention_metrics_def extractor_simps number_field_ok intro!: extractor_intros fl_nonneg)

lemma stream_replay_metrics_ok: "stream_replay_metrics events = Inr m \<Longrightarrow> metrics_ok m"
  by (auto simp: stream_replay_metrics_def extractor_simps number_field_ok)

lemma live_churn_metrics_ok:
  assumes "live_churn_metrics events = Inr m" shows "metrics_ok m"
proof -
  obtain m0 ps where "fold_result add_churn_phase m0 ps = Inr m" "metrics_ok m0"
    using assms by (auto simp: live_churn_metrics_def extractor_simps)
  then show ?thesis
    by (rule metrics_loop) (auto simp: add_churn_phase_def extractor_simps)
qed

subsection \<open>Which readiness events are reported\<close>

definition is_ready :: "json \<Rightarrow> bool" where
  "is_ready e \<longleftrightarrow> event_name e = Some ''fitz_ready''"

text \<open>Event \<^verbatim>\<open>i\<close> follows a restart trigger with no other readiness event in between.\<close>

definition awaits_ready :: "json list \<Rightarrow> nat \<Rightarrow> bool" where
  "awaits_ready events i \<longleftrightarrow>
     (\<exists>j < i. is_restart_trigger (events ! j) \<and> (\<forall>k. j < k \<longrightarrow> k < i \<longrightarrow> \<not> is_ready (events ! k)))"

lemma trigger_not_ready: "is_restart_trigger e \<Longrightarrow> \<not> is_ready e"
  by (auto simp: is_restart_trigger_def is_ready_def restart_triggers_def split: option.splits)

definition still_pending :: "bool \<Rightarrow> json list \<Rightarrow> bool" where
  "still_pending p events = foldl (\<lambda>p e. if is_restart_trigger e then True else if is_ready e \<and> p then False else p) p events"

lemma readiness_snoc:
  "readiness_events p (events @ [e]) =
     readiness_events p events @ (if is_ready e \<and> still_pending p events then [e] else [])"
  using trigger_not_ready [of e]
  by (induction p events rule: readiness_events.induct) (auto simp: still_pending_def is_ready_def)

lemma awaits_Suc:
  "awaits_ready events (Suc i) \<longleftrightarrow> is_restart_trigger (events ! i) \<or> awaits_ready events i \<and> \<not> is_ready (events ! i)"
  by (auto simp: awaits_ready_def less_Suc_eq)

lemma awaits_append: "i \<le> length events \<Longrightarrow> awaits_ready (events @ es) i \<longleftrightarrow> awaits_ready events i"
  by (auto simp: awaits_ready_def nth_append)

lemma still_pending_iff: "still_pending False events \<longleftrightarrow> awaits_ready events (length events)"
proof (induction events rule: rev_induct)
  case Nil
  then show ?case by (simp add: still_pending_def awaits_ready_def)
next
  case (snoc e events)
  then show ?case
    using trigger_not_ready [of e] by (auto simp: still_pending_def awaits_Suc awaits_append)
qed

text \<open>
  The readiness latencies reported for a run are those of exactly the \<^verbatim>\<open>fitz_ready\<close>
  events that follow a stop, kill or cache discard with no other \<^verbatim>\<open>fitz_ready\<close> in
  between, in order: a start without a restart is never reported and a restart at most once.
\<close>
lemma readiness_events_exact:
  "readiness_events False events =
     map ((!) events) (filter (\<lambda>i. is_ready (events ! i) \<and> awaits_ready events i) [0..<length events])"
proof (induction events rule: rev_induct)
  case Nil
  then show ?case by simp
next
  case (snoc e events)
  have "filter (\<lambda>i. is_ready ((events @ [e]) ! i) \<and> awaits_ready (events @ [e]) i) [0..<length events] =
      filter (\<lambda>i. is_ready (events ! i) \<and> awaits_ready events i) [0..<length events]"
    by (rule filter_cong) (auto simp: nth_append awaits_append)
  moreover have "map ((!) (events @ [e])) (filter P [0..<length events]) = map ((!) events) (filter P [0..<length events])" for P
    by (simp add: nth_append)
  ultimately show ?case
    using snoc by (simp add: readiness_snoc still_pending_iff awaits_append)
qed

end
