(* ===== verification/GuidanceCompletion.thy ===== *)
theory GuidanceCompletion
  imports GuidanceMetrics
begin

text \<open>
  The completion metrics (src/operational-guidance-completion.ts): for the scenarios listed in
  \<^verbatim>\<open>CONFIGS\<close>, the counts, rates, bandwidth and recoveries read from the closing event.
\<close>

record completion_config =
  cfg_event :: string
  cfg_fields :: "(string \<times> string) list"
  cfg_bandwidthFields :: "(string \<times> string) list"
  cfg_recoveryField :: "string option"

definition completion ::
  "string \<Rightarrow> (string \<times> string) list \<Rightarrow> (string \<times> string) list \<Rightarrow> string option \<Rightarrow> completion_config" where
  "completion ev fs bandwidth_fs recovery_field =
     \<lparr>cfg_event = ev, cfg_fields = fs, cfg_bandwidthFields = bandwidth_fs, cfg_recoveryField = recovery_field\<rparr>"

definition COMPLETION_CONFIGS :: "(string, completion_config) js_map" where
  "COMPLETION_CONFIGS =
    [
     (''queue-overload-recovery'', completion ''queue_overload_recovery_complete''
        [(''attempted'', ''Queue attempts''), (''failed'', ''Bounded failures''),
         (''recovered'', ''Recovered records''),
         (''probeCompleted'', ''Post-overload probe completions'')]
        [] None),
     (''response-loss'', completion ''response_loss_complete''
        [(''attempted'', ''Durable attempts''),
         (''observedAfterDrop'', ''Reconciled ambiguous outcomes'')]
        [] None),
     (''active-graceful-shutdown'', completion ''active_graceful_shutdown_complete''
        [(''durableOperationsStarted'', ''Durable operations started''),
         (''rpcCallsInterrupted'', ''RPC calls interrupted''),
         (''probeFrames'', ''Post-shutdown probe frames'')]
        [] None),
     (''half-open-session'', completion ''half_open_session_complete''
        [(''staleRejections'', ''Stale-handle rejections''),
         (''queueRedelivered'', ''Queue redeliveries''), (''leaseReacquired'', ''Lease reacquisitions'')]
        [] None),
     (''authorization-isolation'', completion ''authorization_isolation_complete''
        [(''identities'', ''Isolated identities''), (''ownRouteOperations'', ''Own-route operations''),
         (''deniedOperations'', ''Denied cross-realm operations'')]
        [] None),
     (''stream-global-recovery'', completion ''stream_global_recovery_complete''
        [(''loaded'', ''Loaded global records''), (''recovered'', ''Recovered global records''),
         (''pages'', ''Replay pages'')]
        [] None),
     (''queue-dead-letter-fencing'', completion ''queue_dead_letter_fencing_complete''
        [(''oversizedRejected'', ''Undeliverable bodies rejected''),
         (''staleCompletionRejected'', ''Stale completions rejected''),
         (''redelivered'', ''Records redelivered''), (''completed'', ''Records completed'')]
        [] None),
     (''cold-boot-provider-outage'', completion ''cold_boot_provider_outage_complete''
        [(''readinessChecks'', ''Outage readiness checks''),
         (''readyResponsesDuringOutage'', ''Incorrect ready responses'')]
        [] (Some ''recoveryMs'')),
     (''hostile-rpc-worker'', completion ''hostile_rpc_worker_complete''
        [(''returnWithoutTerminalFailures'', ''Missing-terminal timeouts''),
         (''returnWithoutTerminalFrames'', ''Missing-terminal frames''),
         (''thrownHandlerFailures'', ''Thrown-handler caller failures''),
         (''thrownHandlerFrames'', ''Thrown-handler terminal frames''),
         (''probeFrames'', ''Healthy probe frames'')]
        [] None),
     (''upgrade-recovery'', completion ''upgrade_recovery_complete''
        [(''loaded'', ''Pre-replacement records''), (''verified'', ''Post-replacement records'')]
        [] (Some ''replacementMs'')),
     (''cross-transport-recovery'', completion ''cross_transport_recovery_complete''
        [(''websocketToTcpVerified'', ''WebSocket to TCP records''),
         (''tcpToWebsocketVerified'', ''TCP to WebSocket records'')]
        [] None),
     (''outbound-blackhole'', completion ''outbound_blackhole_complete''
        [(''staleRejections'', ''Stale-handle rejections''),
         (''queueRedelivered'', ''Queue redeliveries''), (''leaseReacquired'', ''Lease reacquisitions'')]
        [] None),
     (''broker-pause'', completion ''broker_pause_complete''
        [(''staleRejections'', ''Stale-handle rejections''),
         (''queueRedelivered'', ''Queue redeliveries''), (''leaseReacquired'', ''Lease reacquisitions'')]
        [] None),
     (''route-cardinality-churn'', completion ''route_cardinality_churn_scenario_complete''
        [(''routes'', ''Unique route operations''),
         (''recoveryProbeOperations'', ''Recovery probe operations'')]
        [] None),
     (''cache-and-disk-exhaustion'', completion ''cache_and_disk_exhaustion_complete''
        [(''rejectedMutations'', ''Exhaustion rejections''),
         (''verified'', ''Recovered baseline records'')]
        [] None),
     (''lease-route-aliasing'', completion ''lease_route_aliasing_complete''
        [(''operations'', ''Trailing-route operations''), (''rejected'', ''Rejected trailing routes''),
         (''canonicalPreserved'', ''Canonical leases preserved'')]
        [] None),
     (''tcp-preauth-framing-slowloris'', completion ''tcp_preauth_framing_slowloris_complete''
        [(''socketsOpened'', ''Pre-auth sockets opened''),
         (''socketsClosed'', ''Pre-auth sockets closed''),
         (''secondWaveAdmitted'', ''Second-wave admissions''), (''tcpCanary'', ''TCP canaries''),
         (''websocketCanary'', ''WebSocket canaries'')]
        [] None),
     (''connect-pipeline-family-rebind'', completion ''connect_pipeline_family_rebind_complete''
        [(''transports'', ''Combined-frame transports''),
         (''accepted'', ''Atomically accepted pipelines''),
         (''rejected'', ''Atomically rejected pipelines'')]
        [] None),
     (''ephemeral-reply-loss-cleanup'', completion ''ephemeral_reply_loss_cleanup_complete''
        [(''lostReplies'', ''Lost setup replies''),
         (''queueRedelivered'', ''Queue reservations recovered''),
         (''kvTransactions'', ''KV transactions recovered''),
         (''streamSessions'', ''Stream sessions recovered''),
         (''noticeDeliveries'', ''Notice subscriptions recovered''),
         (''scheduleSubscriptions'', ''Schedule subscriptions recovered''),
         (''leaseRoutesReacquired'', ''Lease routes reacquired''),
         (''rpcCallsCompleted'', ''RPC workers recovered'')]
        [] None),
     (''saturated-slow-recipient-isolation'', completion ''saturated_slow_recipient_isolation_complete''
        [(''published'', ''Notice publications''), (''received'', ''Healthy deliveries''),
         (''siblingCanaryDomains'', ''Sibling canary domains'')]
        [(''bytesPublished'', ''Notice bytes published'')] None),
     (''shutdown-reconnect-cleanup-storm'', completion ''shutdown_reconnect_cleanup_storm_complete''
        [(''cycles'', ''Shutdown cycles''), (''reconnects'', ''Client reconnects''),
         (''staleHandleRejections'', ''Stale handles rejected'')]
        [] None),
     (''control-lane-cleanup-under-saturation'', completion ''control_lane_cleanup_under_saturation_complete''
        [(''targets'', ''Cleanup targets''),
         (''canaryOperationsPerDomain'', ''Canary operations per domain'')]
        [] None),
     (''route-family-isolation-matrix'', completion ''route_family_isolation_matrix_complete''
        [(''identities'', ''Route families''), (''domains'', ''Isolated domains''),
         (''holderDomainChecks'', ''Holder domain checks''),
         (''probeDomainChecks'', ''Probe domain checks''),
         (''crossFamilyDeliveries'', ''Cross-family deliveries'')]
        [] None),
     (''rpc-response-state-conformance'', completion ''rpc_response_state_conformance_complete''
        [(''cases'', ''Response-state cases''), (''callersTerminated'', ''Callers terminated''),
         (''healthyCalls'', ''Healthy follow-up calls''),
         (''healthyFailures'', ''Healthy follow-up failures'')]
        [] None),
     (''response-envelope-boundaries'', completion ''response_envelope_boundaries_complete''
        [(''domains'', ''Boundary domains''), (''exactFit'', ''Exact-fit responses''),
         (''oneOverRejected'', ''One-over rejections''),
         (''boundedAggregates'', ''Bounded aggregate responses''),
         (''canaryOperations'', ''Canary operations'')]
        [] None),
     (''lease-waiter-disconnect-races'', completion ''lease_waiter_disconnect_races_complete''
        [(''rounds'', ''Race rounds''), (''waitersQueued'', ''Waiters queued''),
         (''waitersDisconnected'', ''Waiters disconnected''),
         (''replacementAcquisitions'', ''Replacement acquisitions''),
         (''ghostAcquisitions'', ''Ghost acquisitions''),
         (''fencingRegressions'', ''Fencing regressions'')]
        [] None),
     (''wildcard-registration-quota-reclamation'', completion ''wildcard_registration_quota_reclamation_complete''
        [(''domains'', ''Quota domains''), (''registrations'', ''Registrations''),
         (''limitRejections'', ''Limit rejections''), (''unsubscribeReclaims'', ''Unsubscribe reclaims''),
         (''disconnectReclaims'', ''Disconnect reclaims''), (''canaryFailures'', ''Canary failures'')]
        [] None),
     (''stream-selector-cursor-conformance'', completion ''stream_selector_cursor_conformance_complete''
        [(''selectors'', ''Selector shapes''), (''recordsWritten'', ''Records written''),
         (''visibleRecords'', ''Visible records''), (''filteredOffsets'', ''Filtered offsets''),
         (''cursorAdvances'', ''Cursor advances''),
         (''reconnectContinuations'', ''Reconnect continuations''),
         (''duplicateRecords'', ''Duplicate records''), (''missingRecords'', ''Missing records'')]
        [] None),
     (''schedule-due-storm-isolation'', completion ''schedule_due_storm_isolation_complete''
        [(''definitionsCreated'', ''Due definitions''), (''deliveries'', ''Exact deliveries''),
         (''canariesAttempted'', ''Sibling canaries attempted''),
         (''canariesCompleted'', ''Sibling canaries completed''),
         (''readinessChecks'', ''Readiness checks''), (''postStormCanaries'', ''Post-storm canaries'')]
        [] None),
     (''same-shard-family-fairness'', completion ''same_shard_family_fairness_complete''
        [(''noisyCompleted'', ''Noisy-family operations''),
         (''canariesAttempted'', ''Sibling canaries attempted''),
         (''canariesCompleted'', ''Sibling canaries completed''),
         (''canaryErrors'', ''Sibling canary errors'')]
        [] None),
     (''actor-supervision-failpoint'', completion ''actor_supervision_failpoint_complete''
        [(''domainsInjected'', ''Single-domain actor failpoints''),
         (''correlatedDomainsInjected'', ''Correlated domain actor failpoints''),
         (''activeFaultClients'', ''Active-fault clients''),
         (''activeFaultErrors'', ''Completed active-fault errors''),
         (''readinessWithdrawals'', ''Readiness withdrawals''),
         (''restartsRecovered'', ''Recovered restarts''),
         (''canaryDeliveries'', ''Post-restart Notice deliveries''),
         (''queueRecovered'', ''Post-restart Queue completions''),
         (''kvRecovered'', ''Post-restart KV canaries''),
         (''leaseRecovered'', ''Post-restart Lease canaries''),
         (''scheduleRecovered'', ''Post-restart Schedule canaries''),
         (''streamRecovered'', ''Post-restart Stream canaries''),
         (''rpcRecovered'', ''Post-restart RPC canaries''),
         (''correlatedRecoveryOperations'', ''Post-correlated-failure domain canaries'')]
        [] None),
     (''family-actor-partial-failure-isolation'', completion ''family_actor_partial_failure_isolation_complete''
        [(''targetedFamilies'', ''Targeted family failures''),
         (''failedFamilyRejections'', ''Failed-family rejections''),
         (''siblingOperations'', ''Sibling operations''),
         (''readinessChecks'', ''Healthy readiness checks''),
         (''crossFamilyDeliveries'', ''Cross-family deliveries'')]
        [] None),
     (''same-shard-family-failure-isolation'', completion ''same_shard_family_failure_isolation_complete''
        [(''shardCount'', ''Configured shards''), (''failedFamily'', ''Failed family''),
         (''siblingFamily'', ''Same-shard sibling family''),
         (''failedFamilyRejections'', ''Failed-family rejections''),
         (''siblingOperations'', ''Sibling operations''),
         (''readinessChecks'', ''Healthy readiness checks''),
         (''crossFamilyDeliveries'', ''Cross-family deliveries'')]
        [] None),
     (''family-actor-exhaustion-readiness'', completion ''family_actor_exhaustion_readiness_complete''
        [(''domainsExhausted'', ''Exhausted domain pools''),
         (''partialReadinessChecks'', ''Healthy partial-failure checks''),
         (''totalReadinessWithdrawals'', ''Zero-capacity readiness withdrawals''),
         (''failedFamilyRejections'', ''Failed-family rejections''),
         (''restartRecoveries'', ''Restart recoveries'')]
        [] None),
     (''family-actor-degradation-observability'', completion ''family_actor_degradation_observability_complete''
        [(''domainsObserved'', ''Observed degraded domains''),
         (''metricIncrements'', ''Failure metric increments''),
         (''duplicateMetricIncrements'', ''Duplicate metric increments''),
         (''siblingCanaries'', ''Healthy sibling canaries''),
         (''readinessChecks'', ''Healthy readiness checks''),
         (''restartMetricResets'', ''Restart metric resets'')]
        [] None),
     (''family-actor-inflight-concurrent-failure'', completion ''family_actor_inflight_concurrent_failure_complete''
        [(''cycles'', ''Failure cycles''), (''concurrentFailures'', ''Concurrent family failures''),
         (''streamInflightRejections'', ''Stream in-flight rejections''),
         (''rpcInflightTerminations'', ''RPC in-flight terminations''),
         (''siblingOperations'', ''Healthy sibling operations''),
         (''readinessChecks'', ''Healthy readiness checks''),
         (''metricIncrements'', ''Failure metric increments''),
         (''restartRecoveries'', ''Restart recoveries''),
         (''crossFamilyDeliveries'', ''Cross-family deliveries'')]
        [] None)
    ]"

definition completion_semantics :: string where
  "completion_semantics = ''verified fault and recovery outcomes''"

definition completion_count :: "json \<Rightarrow> string \<times> string \<Rightarrow> count_metric result" where
  "completion_count closing field =
     (case field of (key, label) \<Rightarrow>
        try_in (non_negative_integer (json_get closing key) key) (\<lambda>value.
          Inr \<lparr>c_key = key, c_label = label, c_value = value, c_unit = ''outcomes'',
               c_semantics = completion_semantics\<rparr>))"

text \<open>\<^verbatim>\<open>Math.round((value / (durationMs / 1_000)) * 100) / 100\<close>.\<close>

definition per_second :: "rat \<Rightarrow> rat \<Rightarrow> rat" where
  "per_second value durationMs = round2 (fl (value / fl (durationMs / 1000)))"

definition completion_rate :: "rat \<Rightarrow> count_metric \<Rightarrow> rate_metric" where
  "completion_rate durationMs c =
     \<lparr>r_key = c_key c, r_label = c_label c, r_count = c_value c, r_durationMs = durationMs,
      r_valuePerSecond = per_second (c_value c) durationMs, r_unit = c_unit c @ ''/s'',
      r_semantics = c_semantics c\<rparr>"

definition completion_rates :: "rat option \<Rightarrow> count_metric list \<Rightarrow> rate_metric list" where
  "completion_rates durationMs cs =
     (case durationMs of None \<Rightarrow> [] | Some d \<Rightarrow> if d = 0 then [] else map (completion_rate d) cs)"

text \<open>
  Unlike the rates, the bandwidth is not guarded against a zero duration: the quotient is
  then not finite (\<^verbatim>\<open>None\<close>).
\<close>

definition completion_bandwidth :: "json \<Rightarrow> rat \<Rightarrow> string \<times> string \<Rightarrow> bandwidth_metric result" where
  "completion_bandwidth closing durationMs field =
     (case field of (key, label) \<Rightarrow>
        try_in (non_negative_integer (json_get closing key) key) (\<lambda>bytes.
          Inr \<lparr>b_key = key, b_label = label, b_bytes = bytes, b_durationMs = durationMs,
               
               b_bytesPerSecond = (if durationMs = 0 then None else Some (per_second bytes durationMs)),
               b_semantics = completion_semantics\<rparr>))"

definition scenario_recovery :: "rat option \<Rightarrow> recovery_metric list" where
  "scenario_recovery durationMs =
     (case durationMs of None \<Rightarrow> []
      | Some d \<Rightarrow> [recovery ''scenario-recovery'' ''Fault injection through recovery verification'' d])"

definition configured_recovery :: "completion_config \<Rightarrow> json \<Rightarrow> recovery_metric list result" where
  "configured_recovery config closing =
     (case cfg_recoveryField config of
        None \<Rightarrow> Inr []
      | Some field \<Rightarrow>
          try_in (non_negative_integer (json_get closing field) field) (\<lambda>value.
            Inr [recovery field ''Provider restoration to verified recovery'' value]))"

definition completion_metrics :: "completion_config \<Rightarrow> json \<Rightarrow> metric_collections result" where
  "completion_metrics config closing =
     (let durationMs = valid_duration (json_get closing ''elapsedMs'') in
      try_in (traverse (completion_count closing) (cfg_fields config)) (\<lambda>cs.
      try_in (configured_recovery config closing) (\<lambda>extra.
      try_in (case durationMs of None \<Rightarrow> Inr []
              | Some d \<Rightarrow> traverse (completion_bandwidth closing d) (cfg_bandwidthFields config)) (\<lambda>bw.
        Inr \<lparr>completionSemantics = map (\<lambda>c. (c_key c, completion_semantics)) cs, counts = cs,
             rates = completion_rates durationMs cs, latencies = [], bandwidth = bw,
             recoveries = scenario_recovery durationMs @ extra\<rparr>))))"

text \<open>\<^verbatim>\<open>None\<close> is \<^verbatim>\<open>null\<close>: the scenario has no completion config.\<close>

definition completion_metrics_for_scenario :: "string \<Rightarrow> json list \<Rightarrow> metric_collections option result" where
  "completion_metrics_for_scenario scenario events =
     (case map_get COMPLETION_CONFIGS scenario of
        None \<Rightarrow> Inr None
      | Some config \<Rightarrow>
          (case last_event events (cfg_event config) of
             None \<Rightarrow> Inl (Error ''Missing $ event'' [AStr (cfg_event config)])
           | Some closing \<Rightarrow> try_in (completion_metrics config closing) (\<lambda>m. Inr (Some m))))"

subsection \<open>What a completion reports\<close>

lemma completion_keys_distinct:
  "list_all (\<lambda>(_, config). distinct (map fst (cfg_fields config))) COMPLETION_CONFIGS"
  by code_simp

lemma map_get_list_all: "list_all (\<lambda>(_, v). P v) m \<Longrightarrow> map_get m k = Some v \<Longrightarrow> P v"
  by (auto simp: list_all_iff dest!: map_get_Some_in)

lemma completion_counts_ok:
  "traverse (completion_count closing) fs = Inr cs \<Longrightarrow>
   map (\<lambda>c. (c_key c, c_label c)) cs = fs \<and>
   list_all (\<lambda>c. json_get closing (c_key c) = Some (JNum (c_value c)) \<and> is_safe_integer (c_value c) \<and> 0 \<le> c_value c) cs"
  by (induction fs arbitrary: cs)
     (auto simp: completion_count_def try_in_eq_Inr non_negative_integer_ok split: prod.splits)

lemma completion_metrics_fields:
  assumes "completion_metrics config closing = Inr m"
  shows "map (\<lambda>c. (c_key c, c_label c)) (counts m) = cfg_fields config"
    and "list_all (\<lambda>c. json_get closing (c_key c) = Some (JNum (c_value c)) \<and> is_safe_integer (c_value c) \<and> 0 \<le> c_value c) (counts m)"
    and "map fst (completionSemantics m) = map c_key (counts m)"
    and "rates m = completion_rates (valid_duration (json_get closing ''elapsedMs'')) (counts m)"
  using assms by (auto simp: completion_metrics_def Let_def try_in_eq_Inr dest!: completion_counts_ok)


definition sample_closing :: json where
  "sample_closing = JObj
     [(''event'', JStr ''response_loss_complete''), (''elapsedMs'', JNum 2000), (''attempted'', JNum 4),
      (''observedAfterDrop'', JNum 3)]"

lemma response_loss_config:
  "map_get COMPLETION_CONFIGS ''response-loss'' = Some (completion ''response_loss_complete''
     [(''attempted'', ''Durable attempts''), (''observedAfterDrop'', ''Reconciled ambiguous outcomes'')] [] None)"
  by (simp add: COMPLETION_CONFIGS_def)

lemma sample_closing_metrics: "\<exists>m. completion_metrics_for_scenario ''response-loss'' [sample_closing] = Inr (Some m)"
  by (simp add: completion_metrics_for_scenario_def response_loss_config completion_def last_event_def find_last_def
      sample_closing_def event_name_def completion_metrics_def completion_count_def non_negative_integer_def
      optional_non_negative_integer_def json_number_def is_safe_integer_def max_safe_integer_def
      configured_recovery_def Let_def split: option.split)


text \<open>
  With a zero duration the rates are left out but the bandwidth is still reported, and is
  not a finite number.
\<close>

lemma zero_duration_bandwidth:
  assumes "completion_metrics config closing = Inr m" "json_get closing ''elapsedMs'' = Some (JNum 0)"
  shows "rates m = []" "map b_key (bandwidth m) = map fst (cfg_bandwidthFields config)"
    "list_all (\<lambda>b. b_bytesPerSecond b = None) (bandwidth m)"
proof -
  have "map b_key bw = map fst fs \<and> list_all (\<lambda>b. b_bytesPerSecond b = None) bw"
    if "traverse (completion_bandwidth closing 0) fs = Inr bw" for fs bw
    using that by (induction fs arbitrary: bw) (auto simp: completion_bandwidth_def try_in_eq_Inr split: prod.splits)
  then show "rates m = []" "map b_key (bandwidth m) = map fst (cfg_bandwidthFields config)"
    "list_all (\<lambda>b. b_bytesPerSecond b = None) (bandwidth m)"
    using assms by (auto simp: completion_metrics_def Let_def try_in_eq_Inr valid_duration_def json_number_def
        completion_rates_def)
qed

end
