(* ===== verification/PressureGuidance.thy ===== *)
theory PressureGuidance
  imports GuidanceMetrics
begin

text \<open>
  The categorical rating of a pressure run (\<^verbatim>\<open>extractPressureGuidance\<close> and its parsers,
  src/operational-guidance.ts) from the parsed \<^verbatim>\<open>pressure-evidence.json\<close>.
\<close>

datatype guidance_rating = Clear | Watch | Constrained | NotRated

record stage_summary =
  ss_stage :: string
  ss_started :: rat
  ss_succeeded :: rat
  ss_errors :: rat
  ss_ambiguousOutcomes :: rat
  ss_expectedCancellations :: rat
  ss_latency :: latency_report

record domain_summary =
  ds_domain :: domain
  ds_completionSemantics :: string
  ds_completedOperations :: rat
  ds_observedOperationsPerSecond :: rat
  ds_errors :: rat
  ds_ambiguousOutcomes :: rat
  ds_expectedCancellations :: rat
  ds_slowestStage :: string
  ds_stages :: "stage_summary list"

record operational_guidance =
  g_workloadDurationMs :: "rat option"
  g_metrics :: metric_collections
  g_rating :: guidance_rating
  g_reasons :: "text_template list"
  g_pressureDomains :: "domain_summary list"

definition plain_text :: "string \<Rightarrow> text_template" where
  "plain_text s = Error s []"

definition completion_semantics_for_domain :: "domain \<Rightarrow> string" where
  "completion_semantics_for_domain d =
     (if d = Queue then ''completed Queue enqueue/reserve/completion loops''
      else if d = Kv then ''committed KV transactions''
      else if d = Stream then ''committed Stream append sessions''
      else if d = Schedule then ''accepted durable Schedule upserts''
      else if d = Notice then ''publisher acceptance, not confirmed fanout''
      else if d = Lease then ''completed Lease acquire/release cycles''
      else ''completed RPC calls with a response'')"

subsection \<open>Expected shutdown cancellations\<close>

definition is_legacy_signal :: "json \<Rightarrow> bool" where
  "is_legacy_signal sample =
     (is_plain_object sample \<and> json_get sample ''class'' \<noteq> Some (JStr ''cancelled'') \<and>
      (case json_get sample ''error'' of
         Some (JStr e) \<Rightarrow> has_word [''received SIGINT'', ''received SIGTERM''] e | _ \<Rightarrow> False))"

definition legacy_signal_cancellations :: "json option \<Rightarrow> rat" where
  "legacy_signal_cancellations v =
     (case v of Some (JArr samples) \<Rightarrow> of_nat (length (filter is_legacy_signal samples)) | _ \<Rightarrow> 0)"

definition expected_shutdown_cancellations ::
  "json option \<Rightarrow> rat \<Rightarrow> rat \<Rightarrow> rat \<Rightarrow> json option \<Rightarrow> string \<Rightarrow> (rat \<times> rat) result" where
  "expected_shutdown_cancellations v fails ambig legacy_cancelled legacy_error_samples label =
     (case v of
        None \<Rightarrow>
          (let inferred_total = min (fl (fails + ambig))
                 (fl (legacy_cancelled + legacy_signal_cancellations legacy_error_samples));
               inferred_ambiguous = min ambig inferred_total
           in Inr (min fails (fl (inferred_total - inferred_ambiguous)), inferred_ambiguous))
      | Some _ \<Rightarrow>
          try_in (record_value v (label @ '' expectedShutdownCancellations'')) (\<lambda>rec.
          try_in (number_field rec ''failed'') (\<lambda>f.
          try_in (number_field rec ''ambiguous'') (\<lambda>a.
            if f > fails \<or> a > ambig
            then Inl (Error ''$ expected shutdown cancellations exceeded recorded outcomes'' [AStr label])
            else Inr (f, a)))))"

subsection \<open>Stages and domains\<close>

definition to_nat :: "rat \<Rightarrow> nat" where
  "to_nat r = nat \<lfloor>r\<rfloor>"

definition read_histogram :: "json option \<Rightarrow> string \<Rightarrow> latency_histogram result" where
  "read_histogram v label =
     try_in (record_value v label) (\<lambda>rec.
     try_in (array_field rec ''buckets'') (\<lambda>items.
     try_in (traverse (\<lambda>item. non_negative_integer (Some item) (label @ '' bucket'')) items) (\<lambda>bs.
     if length bs \<noteq> length LATENCY_BUCKET_UPPER_MS
     then Inl (Error ''$ expected $ buckets, found $''
            [AStr label, ANat (length LATENCY_BUCKET_UPPER_MS), ANat (length bs)])
     else
       try_in (number_field rec ''count'') (\<lambda>n.
       try_in (number_field rec ''overflow'') (\<lambda>over.
       if fl (sum_numbers bs + over) \<noteq> n
       then Inl (Error ''$ count did not match its buckets and overflow'' [AStr label])
       else
         try_in (non_negative_number (json_get rec ''totalMs'') (label @ ''.totalMs'')) (\<lambda>total_ms.
         try_in (non_negative_number (json_get rec ''maxMs'') (label @ ''.maxMs'')) (\<lambda>max_ms.
           Inr \<lparr>count = to_nat n, totalMs = total_ms, maxMs = max_ms, buckets = map to_nat bs,
                overflow = to_nat over\<rparr>)))))))"

definition parse_stage :: "domain \<Rightarrow> string \<times> json \<Rightarrow> stage_summary result" where
  "parse_stage d entry =
     (case entry of (stage, item) \<Rightarrow>
        let label = domain_name d @ ''/'' @ stage in
        try_in (record_value (Some item) label) (\<lambda>rec.
        try_in (read_histogram (json_get rec ''latencyHistogram'') (label @ '' latencyHistogram'')) (\<lambda>histogram.
        try_in (record_field rec ''errorClasses'') (\<lambda>error_classes.
        try_in (number_field rec ''failed'') (\<lambda>fails.
        try_in (number_field rec ''ambiguous'') (\<lambda>ambig.
        try_in (optional_number_field error_classes ''cancelled'') (\<lambda>cancelled.
        try_in (expected_shutdown_cancellations (json_get rec ''expectedShutdownCancellations'') fails ambig
                  cancelled (json_get rec ''errorSamples'') label) (\<lambda>(cf, ca).
        try_in (number_field rec ''started'') (\<lambda>n_started.
        try_in (number_field rec ''succeeded'') (\<lambda>n_succeeded.
          Inr \<lparr>ss_stage = stage, ss_started = n_started, ss_succeeded = n_succeeded,
               ss_errors = fl (fails - cf), ss_ambiguousOutcomes = ambig,
               ss_expectedCancellations = fl (cf + ca), ss_latency = latency_summary histogram\<rparr>))))))))))"

definition slowest_stage :: "stage_summary list \<Rightarrow> string" where
  "slowest_stage stages =
     ss_stage (hd (sort_key (\<lambda>s. (- p95Ms (ss_latency s), locale_key (ss_stage s))) stages))"

definition parse_pressure_domain :: "domain \<Rightarrow> json option \<Rightarrow> rat \<Rightarrow> domain_summary result" where
  "parse_pressure_domain d v durationMs =
     try_in (record_value v (domain_name d @ '' pressure evidence'')) (\<lambda>evidence.
     try_in (number_field evidence ''succeeded'') (\<lambda>completed_operations.
     try_in (record_field evidence ''stages'') (\<lambda>stages_record.
     try_in (traverse (parse_stage d) (sort_key (\<lambda>(k, _). locale_key k) (json_entries stages_record))) (\<lambda>stages.
     if stages = [] then Inl (Error ''$ omitted stage evidence'' [AStr (domain_name d)])
     else
       (case observed_rate completed_operations durationMs of
          None \<Rightarrow> Inl (Error ''$ observed rate could not be calculated'' [AStr (domain_name d)])
        | Some rate \<Rightarrow>
            Inr \<lparr>ds_domain = d, ds_completionSemantics = completion_semantics_for_domain d,
                 ds_completedOperations = completed_operations, ds_observedOperationsPerSecond = rate,
                 ds_errors = sum_numbers (map ss_errors stages),
                 ds_ambiguousOutcomes = sum_numbers (map ss_ambiguousOutcomes stages),
                 ds_expectedCancellations = sum_numbers (map ss_expectedCancellations stages),
                 ds_slowestStage = slowest_stage stages, ds_stages = stages\<rparr>)))))"

definition domain_item :: "json \<Rightarrow> domain result" where
  "domain_item item =
     (case item of
        JStr s \<Rightarrow> (case domain_of_name s of
                     Some d \<Rightarrow> Inr d
                   | None \<Rightarrow> Inl (Error ''selectedDomains contained $'' [AStr s]))
      | _ \<Rightarrow> Inl (Error ''selectedDomains contained a value that is not a string'' []))"

definition domain_array :: "json option \<Rightarrow> domain list result" where
  "domain_array v =
     (case v of
        Some (JArr items) \<Rightarrow> traverse domain_item items
      | _ \<Rightarrow> Inl (Error ''selectedDomains must be an array'' []))"

subsection \<open>The rating\<close>

definition stage_constraints :: "rat \<Rightarrow> domain \<Rightarrow> stage_summary \<Rightarrow> text_template list" where
  "stage_constraints timeout d s =
     (if ss_errors s > 0
      then [Error ''$/$ recorded $ definite workload errors''
              [AStr (domain_name d), AStr (ss_stage s), ARat (ss_errors s)]] else []) @
     (if p95Ms (ss_latency s) > fl (timeout / 2)
      then [Error ''$/$ p95 $ ms exceeded 50% of the $ ms request timeout''
              [AStr (domain_name d), AStr (ss_stage s), ARat (p95Ms (ss_latency s)), ARat timeout]] else [])"

definition stage_watches :: "rat \<Rightarrow> domain \<Rightarrow> stage_summary \<Rightarrow> text_template list" where
  "stage_watches timeout d s =
     (if p95Ms (ss_latency s) > fl (timeout / 2) then []
      else if p95Ms (ss_latency s) > fl (timeout / 4)
      then [Error ''$/$ p95 $ ms exceeded 25% of the $ ms request timeout''
              [AStr (domain_name d), AStr (ss_stage s), ARat (p95Ms (ss_latency s)), ARat timeout]] else [])"

definition over_stages ::
  "(domain \<Rightarrow> stage_summary \<Rightarrow> text_template list) \<Rightarrow> domain_summary list \<Rightarrow> text_template list" where
  "over_stages f ds = concat (map (\<lambda>d. concat (map (f (ds_domain d)) (ds_stages d))) ds)"

definition constrained_signals :: "rat \<Rightarrow> domain_summary list \<Rightarrow> rat \<Rightarrow> rat \<Rightarrow> text_template list" where
  "constrained_signals timeout ds ingress_timeouts router_backpressure =
     over_stages (stage_constraints timeout) ds @
     (if ingress_timeouts > 0 then [Error ''Ingress dispatch timeouts increased by $'' [ARat ingress_timeouts]] else []) @
     (if router_backpressure > 0 then [Error ''Router backpressure increased by $'' [ARat router_backpressure]] else [])"

definition warning_watch :: "string \<Rightarrow> text_template list" where
  "warning_watch code =
     (if code = ''pending-growth'' then [plain_text ''Broker pending work grew through the final samples''] else []) @
     (if code = ''rss-growth'' then [plain_text ''Post-warmup Fitz RSS growth crossed the diagnostic signal''] else [])"

definition watch_signals :: "rat \<Rightarrow> domain_summary list \<Rightarrow> string list \<Rightarrow> text_template list" where
  "watch_signals timeout ds codes = over_stages (stage_watches timeout) ds @ concat (map warning_watch codes)"

definition rate_signals ::
  "text_template list \<Rightarrow> text_template list \<Rightarrow> text_template list \<Rightarrow> guidance_rating \<times> text_template list" where
  "rate_signals constrained watch disclosures =
     (if constrained \<noteq> [] then (Constrained, constrained @ watch @ disclosures)
      else if watch \<noteq> [] then (Watch, watch @ disclosures)
      else (Clear, plain_text ''No saturation signals at the observed rate.'' # disclosures))"

definition rss_disclosures :: "json option \<Rightarrow> text_template list result" where
  "rss_disclosures v =
     (case v of
        None \<Rightarrow> Inr []
      | Some _ \<Rightarrow>
          try_in (record_value v ''RSS growth assessment'') (\<lambda>assessment.
          try_in (string_field assessment ''status'') (\<lambda>status.
          if status = ''not-assessed''
          then try_in (string_field assessment ''reason'') (\<lambda>reason.
                 Inr [Error ''RSS growth was not assessed: $'' [AStr reason]])
          else if status \<noteq> ''assessed''
          then Inl (Error ''RSS growth assessment had unknown status $'' [AStr status])
          else Inr [])))"

definition add_stage_latencies :: "domain \<Rightarrow> metric_collections \<Rightarrow> stage_summary \<Rightarrow> metric_collections" where
  "add_stage_latencies d metrics s =
     foldl (\<lambda>m (statistic, valueMs).
         add_latency m (domain_name d @ ''-'' @ ss_stage s @ ''-'' @ statistic)
           (domain_name d @ ''/'' @ ss_stage s @ '' '' @ statistic) statistic valueMs)
       metrics
       [(''mean'', meanMs (ss_latency s)), (''p50'', p50Ms (ss_latency s)), (''p95'', p95Ms (ss_latency s)),
        (''p99'', p99Ms (ss_latency s)), (''max'', maxMs_sum (ss_latency s))]"

definition add_domain_metrics :: "rat \<Rightarrow> metric_collections \<Rightarrow> domain_summary \<Rightarrow> metric_collections" where
  "add_domain_metrics durationMs metrics d =
     (let name = domain_name (ds_domain d);
          m = add_count_and_rate metrics (name @ ''-operations'') (capitalize name @ '' operations'')
                (ds_completedOperations d) ''operations'' (ds_completionSemantics d) (Some durationMs);
          m = add_count m (name @ ''-errors'') (capitalize name @ '' errors'') (ds_errors d) ''errors''
                ''definite workload errors excluding expected shutdown cancellations''
      in foldl (add_stage_latencies (ds_domain d)) m (ds_stages d))"

definition extract_pressure_guidance :: "json \<Rightarrow> rat option \<Rightarrow> operational_guidance result" where
  "extract_pressure_guidance v workloadDurationMs =
     try_in (record_value (Some v) ''pressure evidence'') (\<lambda>evidence.
     try_in (positive_number_field evidence ''durationMs'') (\<lambda>durationMs.
     try_in (positive_number_field evidence ''requestTimeoutMs'') (\<lambda>requestTimeoutMs.
     try_in (domain_array (json_get evidence ''selectedDomains'')) (\<lambda>selected.
     if selected = [] then Inl (Error ''selectedDomains was empty'' [])
     else
     try_in (record_field evidence ''aggregate'') (\<lambda>aggregate.
     try_in (traverse (\<lambda>d. parse_pressure_domain d (json_get aggregate (domain_name d)) durationMs) selected) (\<lambda>ds.
     try_in (record_field evidence ''brokerSummary'') (\<lambda>broker.
     try_in (number_field broker ''ingressDispatchTimeoutsDelta'') (\<lambda>ingress.
     try_in (number_field broker ''routerBackpressureDelta'') (\<lambda>router1.
     try_in (optional_number_field broker ''routerHighLaneBackpressureDelta'') (\<lambda>router2.
     try_in (array_field evidence ''warnings'') (\<lambda>items.
     try_in (traverse (\<lambda>item. record_value (Some item) ''pressure warning'') items) (\<lambda>warnings.
     try_in (rss_disclosures (json_get evidence ''rssGrowthAssessment'')) (\<lambda>disclosures.
     try_in (traverse (\<lambda>w. string_field w ''code'') warnings) (\<lambda>codes.
       let rating = rate_signals (constrained_signals requestTimeoutMs ds ingress (fl (router1 + router2)))
                      (watch_signals requestTimeoutMs ds codes) disclosures
       in Inr \<lparr>g_workloadDurationMs = workloadDurationMs,
               g_metrics = foldl (add_domain_metrics durationMs) mutable_metrics ds,
               g_rating = fst rating, g_reasons = snd rating, g_pressureDomains = ds\<rparr>))))))))))))))"

subsection \<open>Cancellations never exceed the recorded outcomes\<close>

lemma legacy_nonneg: "0 \<le> legacy_signal_cancellations v"
  by (simp add: legacy_signal_cancellations_def split: option.split json.split)

lemma min_safe: "is_safe_integer x \<Longrightarrow> is_safe_integer y \<Longrightarrow> is_safe_integer (min x y)"
  by (simp add: min_def)

lemma cancellations_bounds:
  assumes "expected_shutdown_cancellations v fails ambig c samples label = Inr (cf, ca)"
    and "is_safe_integer fails" "0 \<le> fails" "is_safe_integer ambig" "0 \<le> ambig" "0 \<le> c"
  shows "0 \<le> cf \<and> cf \<le> fails \<and> 0 \<le> ca \<and> ca \<le> ambig"
proof (cases v)
  case None
  define total_inferred where "total_inferred = min (fl (fails + ambig)) (fl (c + legacy_signal_cancellations samples))"
  have "0 \<le> total_inferred"
    using assms legacy_nonneg [of samples] by (auto simp: total_inferred_def intro!: fl_nonneg)
  moreover have "cf = min fails (fl (total_inferred - min ambig total_inferred))" "ca = min ambig total_inferred"
    using assms(1) None by (auto simp: expected_shutdown_cancellations_def Let_def total_inferred_def)
  ultimately show ?thesis using assms by (auto intro!: fl_nonneg)
next
  case (Some j)
  then show ?thesis
    using assms by (auto simp: expected_shutdown_cancellations_def try_in_eq_Inr number_field_ok not_less split: if_splits)
qed

lemma parse_stage_bounds:
  assumes "parse_stage d (stage, item) = Inr s"
  shows "\<exists>failed ambiguous. number_field item ''failed'' = Inr failed \<and> number_field item ''ambiguous'' = Inr ambiguous \<and>
    0 \<le> ss_errors s \<and> ss_errors s \<le> failed \<and> ss_ambiguousOutcomes s = ambiguous \<and>
    0 \<le> ss_expectedCancellations s \<and> ss_expectedCancellations s \<le> fl (failed + ambiguous)"
proof -
  obtain ec f a c cf ca where f: "number_field item ''failed'' = Inr f" and a: "number_field item ''ambiguous'' = Inr a"
    and c: "optional_number_field ec ''cancelled'' = Inr c"
    and esc: "expected_shutdown_cancellations (json_get item ''expectedShutdownCancellations'') f a c
        (json_get item ''errorSamples'') (domain_name d @ ''/'' @ stage) = Inr (cf, ca)"
    and s: "ss_errors s = fl (f - cf)" "ss_ambiguousOutcomes s = a" "ss_expectedCancellations s = fl (cf + ca)"
    using assms by (auto simp: parse_stage_def Let_def try_in_eq_Inr record_value_ok)
  have "0 \<le> cf \<and> cf \<le> f \<and> 0 \<le> ca \<and> ca \<le> a"
    using f a optional_number_field_nonneg [OF c] by (intro cancellations_bounds [OF esc]) (auto simp: number_field_ok)
  moreover have "fl (f - cf) \<le> f" using calculation f fl_mono [of "f - cf" f] safe_integer_fl [of f]
    by (auto simp: number_field_ok)
  ultimately show ?thesis using f a s by (auto intro!: fl_nonneg fl_mono)
qed

text \<open>
  Whatever the evidence of a stage says about shutdown cancellations, the errors that
  feed the rating are the recorded failures less at most the failures themselves: they are
  never negative, never more than the failures, and the cancellations taken out never
  exceed the recorded failures and ambiguous outcomes together.
\<close>
lemma parse_stage_errors:
  assumes "parse_stage d (stage, item) = Inr s"
  shows "\<exists>failed ambiguous. number_field item ''failed'' = Inr failed \<and> number_field item ''ambiguous'' = Inr ambiguous \<and>
    0 \<le> ss_errors s \<and> ss_errors s \<le> failed \<and> ss_ambiguousOutcomes s = ambiguous \<and>
    0 \<le> ss_expectedCancellations s \<and> ss_expectedCancellations s \<le> fl (failed + ambiguous)"
  using assms by (rule parse_stage_bounds)

definition sample_stage :: json where
  "sample_stage = JObj
     [(''latencyHistogram'', JObj [(''buckets'', JArr (map JNum [0, 0, 3, 0, 0, 0, 0, 0, 0, 0, 0, 0, 0, 0, 0])),
        (''count'', JNum 3), (''overflow'', JNum 0), (''totalMs'', JNum 9), (''maxMs'', JNum 4)]),
      (''errorClasses'', JObj [(''cancelled'', JNum 1)]), (''failed'', JNum 2), (''ambiguous'', JNum 0),
      (''started'', JNum 5), (''succeeded'', JNum 3)]"

lemma sample_stage_parses: "is_ok (parse_stage Queue (''enqueue'', sample_stage))"
  by (simp add: sample_stage_def parse_stage_def read_histogram_def record_value_def array_field_def record_field_def
      number_field_def optional_number_field_def non_negative_integer_def optional_non_negative_integer_def
      json_number_def is_safe_integer_def max_safe_integer_def sum_numbers_def non_negative_number_def
      valid_duration_def expected_shutdown_cancellations_def legacy_signal_cancellations_def Let_def)

lemma parse_stage_errors_witness:
  "\<exists>s failed ambiguous. parse_stage Queue (''enqueue'', sample_stage) = Inr s \<and>
     number_field sample_stage ''failed'' = Inr failed \<and> number_field sample_stage ''ambiguous'' = Inr ambiguous \<and>
     0 \<le> ss_errors s \<and> ss_errors s \<le> failed"
  using sample_stage_parses parse_stage_errors [of Queue "''enqueue''" sample_stage] by (fastforce simp: is_ok_iff)

subsection \<open>The rating is decided by the thresholds\<close>

definition any_stage :: "(stage_summary \<Rightarrow> bool) \<Rightarrow> domain_summary list \<Rightarrow> bool" where
  "any_stage P ds = list_ex (\<lambda>d. list_ex P (ds_stages d)) ds"

definition is_constrained :: "rat \<Rightarrow> domain_summary list \<Rightarrow> rat \<Rightarrow> rat \<Rightarrow> bool" where
  "is_constrained timeout ds ingress backpressure \<longleftrightarrow>
     any_stage (\<lambda>s. 0 < ss_errors s \<or> fl (timeout / 2) < p95Ms (ss_latency s)) ds \<or> 0 < ingress \<or> 0 < backpressure"

definition is_watched :: "rat \<Rightarrow> domain_summary list \<Rightarrow> string list \<Rightarrow> bool" where
  "is_watched timeout ds codes \<longleftrightarrow>
     any_stage (\<lambda>s. fl (timeout / 4) < p95Ms (ss_latency s)) ds \<or>
     ''pending-growth'' \<in> set codes \<or> ''rss-growth'' \<in> set codes"

lemma over_stages_nonempty: "over_stages f ds \<noteq> [] \<longleftrightarrow> (\<exists>d \<in> set ds. \<exists>s \<in> set (ds_stages d). f (ds_domain d) s \<noteq> [])"
  by (auto simp: over_stages_def)

lemma constrained_nonempty: "constrained_signals t ds i r \<noteq> [] \<longleftrightarrow> is_constrained t ds i r"
proof -
  have "stage_constraints t d s \<noteq> [] \<longleftrightarrow> 0 < ss_errors s \<or> fl (t / 2) < p95Ms (ss_latency s)" for d s
    by (simp add: stage_constraints_def)
  then show ?thesis
    by (auto simp: constrained_signals_def is_constrained_def any_stage_def list_ex_iff over_stages_nonempty)
qed

lemma watch_nonempty:
  assumes "\<not> is_constrained t ds i r" shows "watch_signals t ds codes \<noteq> [] \<longleftrightarrow> is_watched t ds codes"
proof -
  have "stage_watches t d s \<noteq> [] \<longleftrightarrow> fl (t / 4) < p95Ms (ss_latency s)"
    if "d' \<in> set ds" "s \<in> set (ds_stages d')" for d d' s
    using assms that by (auto simp: stage_watches_def is_constrained_def any_stage_def list_ex_iff)
  then have stages: "over_stages (stage_watches t) ds \<noteq> [] \<longleftrightarrow> any_stage (\<lambda>s. fl (t / 4) < p95Ms (ss_latency s)) ds"
    unfolding over_stages_nonempty any_stage_def list_ex_iff by (intro bex_cong refl)
  have "warning_watch c = [] \<longleftrightarrow> c \<noteq> ''pending-growth'' \<and> c \<noteq> ''rss-growth''" for c
    by (simp add: warning_watch_def)
  then have "concat (map warning_watch codes) \<noteq> [] \<longleftrightarrow> ''pending-growth'' \<in> set codes \<or> ''rss-growth'' \<in> set codes"
    by auto
  with stages show ?thesis by (simp only: watch_signals_def is_watched_def append_is_Nil_conv) blast
qed

lemma rate_signals_value:
  "fst (rate_signals (constrained_signals t ds i r) (watch_signals t ds codes) disclosures) =
     (if is_constrained t ds i r then Constrained else if is_watched t ds codes then Watch else Clear)"
  using constrained_nonempty [of t ds i r] watch_nonempty [of t ds i r codes] by (simp add: rate_signals_def)

lemma record_value_same: "record_value (Some v) label = Inr x \<Longrightarrow> x = v"
  by (auto simp: record_value_ok)

lemma record_values_same: "traverse (\<lambda>item. record_value (Some item) label) items = Inr ws \<Longrightarrow> ws = items"
  by (induction items arbitrary: ws) (auto simp: try_in_eq_Inr record_value_ok)

text \<open>
  The rating of a pressure run is \<^verbatim>\<open>constrained\<close> exactly when some stage has errors or a
  p95 above half the request timeout, or the ingress timeouts or the router backpressure grew;
  otherwise \<^verbatim>\<open>watch\<close> exactly when some p95 is above a quarter of the timeout or the run
  warned of pending or memory growth; otherwise \<^verbatim>\<open>clear\<close>, with the broker figures and
  warnings read from the evidence.
\<close>
lemma pressure_rating:
  assumes "extract_pressure_guidance evidence duration = Inr g"
  shows "\<exists>timeout broker ingress router high warnings codes.
    number_field evidence ''requestTimeoutMs'' = Inr timeout \<and> json_get evidence ''brokerSummary'' = Some broker \<and>
    number_field broker ''ingressDispatchTimeoutsDelta'' = Inr ingress \<and>
    number_field broker ''routerBackpressureDelta'' = Inr router \<and>
    optional_number_field broker ''routerHighLaneBackpressureDelta'' = Inr high \<and>
    array_field evidence ''warnings'' = Inr warnings \<and> traverse (\<lambda>w. string_field w ''code'') warnings = Inr codes \<and>
    g_rating g =
      (if is_constrained timeout (g_pressureDomains g) ingress (fl (router + high)) then Constrained
       else if is_watched timeout (g_pressureDomains g) codes then Watch else Clear)"
proof -
  obtain d t sel agg ds broker i r1 r2 items ws disc codes where
    "positive_number_field evidence ''durationMs'' = Inr d"
    and t: "positive_number_field evidence ''requestTimeoutMs'' = Inr t"
    and b: "record_field evidence ''brokerSummary'' = Inr broker"
    and f: "number_field broker ''ingressDispatchTimeoutsDelta'' = Inr i"
      "number_field broker ''routerBackpressureDelta'' = Inr r1"
      "optional_number_field broker ''routerHighLaneBackpressureDelta'' = Inr r2"
    and g: "g_rating g = fst (rate_signals (constrained_signals t ds i (fl (r1 + r2))) (watch_signals t ds codes) disc)"
      "g_pressureDomains g = ds"
    and w: "array_field evidence ''warnings'' = Inr items"
      "traverse (\<lambda>item. record_value (Some item) ''pressure warning'') items = Inr ws"
      "traverse (\<lambda>w. string_field w ''code'') ws = Inr codes"
    using assms unfolding extract_pressure_guidance_def
    by (auto simp: try_in_eq_Inr Let_def dest!: record_value_same split: if_splits)
  moreover have "ws = items" using w(2) by (rule record_values_same)
  moreover have "json_get evidence ''brokerSummary'' = Some broker"
    using b by (auto simp: record_field_def record_value_ok)
  ultimately show ?thesis unfolding rate_signals_value positive_number_field_ok by blast
qed

definition sample_evidence :: json where
  "sample_evidence = JObj
     [(''durationMs'', JNum 1000), (''requestTimeoutMs'', JNum 5000), (''selectedDomains'', JArr [JStr ''queue'']),
      (''aggregate'', JObj [(''queue'', JObj [(''succeeded'', JNum 3), (''stages'', JObj [(''enqueue'', sample_stage)])])]),
      (''brokerSummary'', JObj [(''ingressDispatchTimeoutsDelta'', JNum 0), (''routerBackpressureDelta'', JNum 2)]),
      (''warnings'', JArr [])]"

lemma sample_evidence_parses: "is_ok (extract_pressure_guidance sample_evidence None)"
  using sample_stage_parses
  by (auto simp: sample_evidence_def extract_pressure_guidance_def parse_pressure_domain_def is_ok_iff
      record_value_def array_field_def record_field_def positive_number_field_def number_field_def
      non_negative_integer_def optional_non_negative_integer_def json_number_def is_safe_integer_def
      max_safe_integer_def domain_array_def domain_item_def domain_of_name_def ALL_DOMAINS_def
      json_entries_def observed_rate_def optional_number_field_def rss_disclosures_def Let_def)

lemma pressure_rating_witness:
  "\<exists>g. extract_pressure_guidance sample_evidence None = Inr g \<and> g_rating g = Constrained"
proof -
  obtain g where g: "extract_pressure_guidance sample_evidence None = Inr g"
    using sample_evidence_parses by (auto simp: is_ok_iff)
  have fields: "number_field broker ''routerBackpressureDelta'' = Inr 2 \<and> optional_number_field broker k = Inr 0"
    if "json_get sample_evidence ''brokerSummary'' = Some broker" "k = ''routerHighLaneBackpressureDelta''" for broker k
    using that by (auto simp: sample_evidence_def number_field_def non_negative_integer_def
        optional_non_negative_integer_def json_number_def is_safe_integer_def max_safe_integer_def optional_number_field_def)
  from pressure_rating [OF g] fields have "g_rating g = Constrained"
    by (auto simp: is_constrained_def)
  with g show ?thesis by blast
qed

end
