(* ===== verification/JsonParse.thy ===== *)
theory JsonParse
  imports Json Model
begin

text \<open>
  \<^verbatim>\<open>JSON.parse\<close> on code units below 256: a recursive-descent reader of the JSON grammar.
  \<^verbatim>\<open>None\<close> is the \<^verbatim>\<open>SyntaxError\<close>.  The fuel bounds the nesting of the calls; every
  call that goes deeper has read at least one character, so twice the length is enough.  A
  \<^verbatim>\<open>\u\<close> escape above 00FF is outside the model of strings and is rejected.
\<close>

definition json_space :: "char \<Rightarrow> bool" where
  "json_space c = (of_char c \<in> {9, 10, 13, 32 :: nat})"

definition skip_space :: "string \<Rightarrow> string" where
  "skip_space s = dropWhile json_space s"

definition hex_value :: "char \<Rightarrow> nat option" where
  "hex_value c = (let n = of_char c :: nat in
     if 48 \<le> n \<and> n \<le> 57 then Some (n - 48)
     else if 65 \<le> n \<and> n \<le> 70 then Some (n - 55)
     else if 97 \<le> n \<and> n \<le> 102 then Some (n - 87) else None)"

definition hex_char :: "char \<Rightarrow> char \<Rightarrow> char \<Rightarrow> char \<Rightarrow> char option" where
  "hex_char a b c d =
     (case (hex_value a, hex_value b, hex_value c, hex_value d) of
        (Some 0, Some 0, Some h, Some l) \<Rightarrow> Some (char_of (16 * h + l))
      | _ \<Rightarrow> None)"

definition escape_char :: "char \<Rightarrow> char option" where
  "escape_char c = map_of
     [(CHR 0x22, CHR 0x22), (CHR 0x5C, CHR 0x5C), (CHR ''/'', CHR ''/''), (CHR ''b'', CHR 0x08),
      (CHR ''f'', CHR 0x0C), (CHR ''n'', CHR 0x0A), (CHR ''r'', CHR 0x0D), (CHR ''t'', CHR 0x09)] c"

text \<open>The characters of a string literal up to the closing quote.\<close>

definition cons_first :: "'a \<Rightarrow> ('a list \<times> 'b) option \<Rightarrow> ('a list \<times> 'b) option" where
  "cons_first x r = map_option (\<lambda>(xs, rest). (x # xs, rest)) r"

fun parse_chars :: "string \<Rightarrow> (string \<times> string) option" where
  "parse_chars [] = None"
| "parse_chars (c # s) =
     (if c = CHR 0x22 then Some ([], s)
      else if c = CHR 0x5C then
        (case s of
           [] \<Rightarrow> None
         | e # s1 \<Rightarrow>
             if e = CHR ''u'' then
               (case s1 of
                  h1 # h2 # h3 # h4 # s2 \<Rightarrow>
                    (case hex_char h1 h2 h3 h4 of None \<Rightarrow> None | Some x \<Rightarrow> cons_first x (parse_chars s2))
                | _ \<Rightarrow> None)
             else (case escape_char e of None \<Rightarrow> None | Some x \<Rightarrow> cons_first x (parse_chars s1)))
      else if (of_char c :: nat) < 32 then None
      else cons_first c (parse_chars s))"

text \<open>Numbers: an integer part without leading zeros, a fraction, an exponent.\<close>

definition span :: "('a \<Rightarrow> bool) \<Rightarrow> 'a list \<Rightarrow> 'a list \<times> 'a list" where
  "span P xs = (takeWhile P xs, dropWhile P xs)"

definition parse_fraction :: "string \<Rightarrow> (string \<times> string) option" where
  "parse_fraction s =
     (case s of
        c # t \<Rightarrow> if c = CHR ''.'' then (case span is_digit t of (ds, rest) \<Rightarrow> if ds = [] then None else Some (ds, rest))
                 else Some ([], s)
      | [] \<Rightarrow> Some ([], s))"

definition parse_exponent_digits :: "bool \<Rightarrow> string \<Rightarrow> (int \<times> string) option" where
  "parse_exponent_digits neg t =
     (case span is_digit t of (ds, rest) \<Rightarrow>
        if ds = [] then None
        else Some (if neg then - int (nat_of_digits ds) else int (nat_of_digits ds), rest))"

definition parse_exponent :: "string \<Rightarrow> (int \<times> string) option" where
  "parse_exponent s =
     (case s of
        c # t \<Rightarrow>
          if c = CHR ''e'' \<or> c = CHR ''E'' then
            (case t of
               g # u \<Rightarrow> if g = CHR ''+'' then parse_exponent_digits False u
                        else if g = CHR ''-'' then parse_exponent_digits True u
                        else parse_exponent_digits False t
             | [] \<Rightarrow> None)
          else Some (0, s)
      | [] \<Rightarrow> Some (0, s))"

definition number_value :: "bool \<Rightarrow> string \<Rightarrow> string \<Rightarrow> int \<Rightarrow> rat" where
  "number_value neg ds fs e =
     (let m = of_nat (nat_of_digits (ds @ fs)) * 10 powi (e - int (length fs)) :: rat
      in fl (if neg then - m else m))"

definition parse_unsigned :: "bool \<Rightarrow> string \<Rightarrow> (json \<times> string) option" where
  "parse_unsigned neg s =
     (case span is_digit s of (ds, rest) \<Rightarrow>
        if ds = [] \<or> (hd ds = CHR ''0'' \<and> length ds \<noteq> 1) then None
        else
          (case parse_fraction rest of
             None \<Rightarrow> None
           | Some (fs, rest1) \<Rightarrow>
               (case parse_exponent rest1 of
                  None \<Rightarrow> None
                | Some (e, rest2) \<Rightarrow> Some (JNum (number_value neg ds fs e), rest2))))"

definition parse_number :: "string \<Rightarrow> (json \<times> string) option" where
  "parse_number s =
     (case s of
        c # t \<Rightarrow> if c = CHR ''-'' then parse_unsigned True t else parse_unsigned False s
      | [] \<Rightarrow> None)"

definition parse_literal :: "string \<Rightarrow> json \<Rightarrow> string \<Rightarrow> (json \<times> string) option" where
  "parse_literal word j s = (if prefix word s then Some (j, drop (length word) s) else None)"

text \<open>\<^verbatim>\<open>parse_value\<close> expects the leading space to be skipped.\<close>

fun parse_value :: "nat \<Rightarrow> string \<Rightarrow> (json \<times> string) option"
  and parse_items :: "nat \<Rightarrow> string \<Rightarrow> (json list \<times> string) option"
  and parse_members :: "nat \<Rightarrow> string \<Rightarrow> ((string \<times> json) list \<times> string) option" where
  "parse_value 0 s = None"
| "parse_value (Suc n) s =
     (case s of
        [] \<Rightarrow> None
      | c # t \<Rightarrow>
          if c = CHR ''{'' then
            (case skip_space t of
               d # u \<Rightarrow> if d = CHR ''}'' then Some (JObj [], u)
                        else map_option (\<lambda>(ms, rest). (JObj (foldl (\<lambda>m (k, v). map_set m k v) [] ms), rest))
                               (parse_members n (d # u))
             | [] \<Rightarrow> None)
          else if c = CHR ''['' then
            (case skip_space t of
               d # u \<Rightarrow> if d = CHR '']'' then Some (JArr [], u)
                        else map_option (\<lambda>(xs, rest). (JArr xs, rest)) (parse_items n (d # u))
             | [] \<Rightarrow> None)
          else if c = CHR 0x22 then map_option (\<lambda>(x, rest). (JStr x, rest)) (parse_chars t)
          else if c = CHR ''t'' then parse_literal ''true'' (JBool True) s
          else if c = CHR ''f'' then parse_literal ''false'' (JBool False) s
          else if c = CHR ''n'' then parse_literal ''null'' JNull s
          else parse_number s)"
| "parse_items 0 s = None"
| "parse_items (Suc n) s =
     (case parse_value n s of
        None \<Rightarrow> None
      | Some (v, rest) \<Rightarrow>
          (case skip_space rest of
             [] \<Rightarrow> None
           | d # u \<Rightarrow>
               if d = CHR '']'' then Some ([v], u)
               else if d = CHR '','' then cons_first v (parse_items n (skip_space u))
               else None))"
| "parse_members 0 s = None"
| "parse_members (Suc n) s =
     (case s of
        [] \<Rightarrow> None
      | q # t \<Rightarrow>
          if q \<noteq> CHR 0x22 then None
          else (case parse_chars t of
             None \<Rightarrow> None
           | Some (k, rest) \<Rightarrow>
               (case skip_space rest of
                  [] \<Rightarrow> None
                | d # u \<Rightarrow>
                    if d \<noteq> CHR '':'' then None
                    else (case parse_value n (skip_space u) of
                       None \<Rightarrow> None
                     | Some (v, rest2) \<Rightarrow>
                         (case skip_space rest2 of
                            [] \<Rightarrow> None
                          | e # w \<Rightarrow>
                              if e = CHR ''}'' then Some ([(k, v)], w)
                              else if e = CHR '','' then cons_first (k, v) (parse_members n (skip_space w))
                              else None)))))"

definition parse_json :: "string \<Rightarrow> json option" where
  "parse_json s =
     (case parse_value (2 * length s + 2) (skip_space s) of
        None \<Rightarrow> None
      | Some (j, rest) \<Rightarrow> if skip_space rest = [] then Some j else None)"

lemma parse_json_object_example:
  "parse_json (''{'' @ [CHR 0x22] @ ''event'' @ [CHR 0x22] @ '':'' @ [CHR 0x22] @ ''fitz_ready'' @ [CHR 0x22] @ '', '' @
     [CHR 0x22] @ ''elapsedMs'' @ [CHR 0x22] @ '': [1.5, -20, 3e2, true, null]}'') =
   Some (JObj [(''event'', JStr ''fitz_ready''),
     (''elapsedMs'', JArr [JNum (3 / 2), JNum (- 20), JNum 300, JBool True, JNull])])"
  by code_simp

end
