(* ===== verification/Guidance.thy ===== *)
theory Guidance
  imports GuidanceScenarios GuidanceCompletion PressureGuidance JsonParse
begin

text \<open>
  The operational guidance of a scenario (\<^verbatim>\<open>extractOperationalGuidance\<close>,
  src/operational-guidance.ts): reading the event log, choosing the workload duration and the
  extractor, and never failing.  The two files of the artifact directory are inputs: the
  outcome of reading each is a parameter of the functions.
\<close>

subsection \<open>The event log\<close>

text \<open>What \<^verbatim>\<open>readFile\<close> did: a missing file (\<^verbatim>\<open>ENOENT\<close>), another error with its message, or the text.\<close>

datatype file_read = MissingFile | ReadError string | FileText string

record event_evidence =
  ev_events :: "json list"
  ev_error :: "text_template option"

definition failed_evidence :: "text_template \<Rightarrow> event_evidence" where
  "failed_evidence e = \<lparr>ev_events = [], ev_error = Some e\<rparr>"

text \<open>The loop over the lines; \<^verbatim>\<open>line_no\<close> is \<^verbatim>\<open>index + 1\<close> of the first line.\<close>

fun read_event_lines :: "nat \<Rightarrow> json list \<Rightarrow> string list \<Rightarrow> event_evidence" where
  "read_event_lines line_no events [] = \<lparr>ev_events = events, ev_error = None\<rparr>"
| "read_event_lines line_no events (line # rest) =
     (if js_trim line = [] then read_event_lines (line_no + 1) events rest
      else (case parse_json line of
         None \<Rightarrow> failed_evidence (Error ''events.ndjson line $ was malformed.'' [ANat line_no])
       | Some value \<Rightarrow>
           if \<not> is_plain_object value \<or> event_name value = None
           then failed_evidence (Error ''events.ndjson line $ was not an event record.'' [ANat line_no])
           else read_event_lines (line_no + 1) (events @ [value]) rest))"

definition read_events :: "file_read \<Rightarrow> event_evidence" where
  "read_events file =
     (case file of
        MissingFile \<Rightarrow> failed_evidence (plain_text ''events.ndjson was not available.'')
      | ReadError message \<Rightarrow> failed_evidence (Error ''events.ndjson could not be read: $'' [AStr message])
      | FileText contents \<Rightarrow> read_event_lines 1 [] (split_on (CHR 0x0A) contents))"

subsection \<open>Durations and scenarios\<close>

definition fallback_events :: "(string, string) js_map" where
  "fallback_events =
     [(''durability-crash-cuts'', ''durability_crash_cuts_complete''),
      (''queue-overload-recovery'', ''queue_overload_recovery_complete''),
      (''response-loss'', ''response_loss_complete''),
      (''active-graceful-shutdown'', ''active_graceful_shutdown_complete''),
      (''half-open-session'', ''half_open_session_complete''),
      (''authorization-isolation'', ''authorization_isolation_complete''),
      (''stream-global-recovery'', ''stream_global_recovery_complete''),
      (''queue-dead-letter-fencing'', ''queue_dead_letter_fencing_complete''),
      (''cold-boot-provider-outage'', ''cold_boot_provider_outage_complete''),
      (''hostile-rpc-worker'', ''hostile_rpc_worker_complete''),
      (''upgrade-recovery'', ''upgrade_recovery_complete''),
      (''cross-transport-recovery'', ''cross_transport_recovery_complete''),
      (''outbound-blackhole'', ''outbound_blackhole_complete''),
      (''broker-pause'', ''broker_pause_complete''),
      (''route-cardinality-churn'', ''route_cardinality_churn_scenario_complete''),
      (''cache-and-disk-exhaustion'', ''cache_and_disk_exhaustion_complete''),
      (''queue-redelivery'', ''queue_redelivery_complete''),
      (''lease-contention'', ''lease_contention_complete''),
      (''hot-route-canary'', ''hot_route_canary_complete''),
      (''protocol-abuse'', ''protocol_abuse_scenario_complete''),
      (''notice-fanout'', ''notice_fanout_complete''),
      (''schedule-delivery'', ''schedule_delivery_complete''),
      (''session-boundaries'', ''session_boundaries_complete''),
      (''rpc-pressure'', ''rpc_pressure_complete''),
      (''rpc-stream-hose'', ''rpc_stream_hose_complete''),
      (''connection-storm'', ''connection_storm_complete''),
      (''storage-faults'', ''storage_faults_complete''),
      (''queue-lifecycle'', ''queue_lifecycle_complete''),
      (''schedule-outage'', ''schedule_outage_complete''),
      (''transaction-contention'', ''transaction_contention_complete''),
      (''stream-replay'', ''stream_replay_complete''),
      (''live-churn'', ''live_churn_complete''),
      (''lease-route-aliasing'', ''lease_route_aliasing_complete''),
      (''tcp-preauth-framing-slowloris'', ''tcp_preauth_framing_slowloris_complete''),
      (''connect-pipeline-family-rebind'', ''connect_pipeline_family_rebind_complete''),
      (''ephemeral-reply-loss-cleanup'', ''ephemeral_reply_loss_cleanup_complete''),
      (''saturated-slow-recipient-isolation'', ''saturated_slow_recipient_isolation_complete''),
      (''shutdown-reconnect-cleanup-storm'', ''shutdown_reconnect_cleanup_storm_complete''),
      (''control-lane-cleanup-under-saturation'', ''control_lane_cleanup_under_saturation_complete''),
      (''route-family-isolation-matrix'', ''route_family_isolation_matrix_complete''),
      (''rpc-response-state-conformance'', ''rpc_response_state_conformance_complete''),
      (''response-envelope-boundaries'', ''response_envelope_boundaries_complete''),
      (''lease-waiter-disconnect-races'', ''lease_waiter_disconnect_races_complete''),
      (''wildcard-registration-quota-reclamation'', ''wildcard_registration_quota_reclamation_complete''),
      (''stream-selector-cursor-conformance'', ''stream_selector_cursor_conformance_complete''),
      (''schedule-due-storm-isolation'', ''schedule_due_storm_isolation_complete''),
      (''same-shard-family-fairness'', ''same_shard_family_fairness_complete''),
      (''actor-supervision-failpoint'', ''actor_supervision_failpoint_complete''),
      (''family-actor-partial-failure-isolation'', ''family_actor_partial_failure_isolation_complete''),
      (''same-shard-family-failure-isolation'', ''same_shard_family_failure_isolation_complete''),
      (''family-actor-exhaustion-readiness'', ''family_actor_exhaustion_readiness_complete''),
      (''family-actor-degradation-observability'', ''family_actor_degradation_observability_complete''),
      (''family-actor-inflight-concurrent-failure'', ''family_actor_inflight_concurrent_failure_complete''),
      (''chaos'', ''chaos_complete''),
      (''domain-pressure'', ''pressure_complete''),
      (''soak'', ''pressure_complete'')]"

definition fallback_scenario_duration :: "string \<Rightarrow> json list \<Rightarrow> rat option" where
  "fallback_scenario_duration scenario events =
     (case map_get fallback_events scenario of
        None \<Rightarrow> None
      | Some name \<Rightarrow> event_duration (last_event events name))"

definition extract_scenario_metrics :: "string \<Rightarrow> json list \<Rightarrow> rat option \<Rightarrow> metric_collections result" where
  "extract_scenario_metrics scenario events duration =
     try_in (completion_metrics_for_scenario scenario events) (\<lambda>completion.
       case completion of
         Some metrics \<Rightarrow> Inr metrics
       | None \<Rightarrow>
           if scenario = ''clean-restart'' \<or> scenario = ''cache-loss'' then recovery_scenario_metrics events
           else if scenario = ''durability-crash-cuts'' then crash_cut_metrics events
           else if scenario = ''queue-redelivery'' then queue_redelivery_metrics events
           else if scenario = ''lease-contention'' then lease_contention_metrics events
           else if scenario = ''hot-route-canary'' then hot_route_metrics events duration
           else if scenario = ''protocol-abuse'' then protocol_metrics events duration
           else if scenario = ''notice-fanout'' then notice_metrics events
           else if scenario = ''schedule-delivery'' then schedule_delivery_metrics events
           else if scenario = ''session-boundaries'' then session_boundary_metrics events
           else if scenario = ''rpc-pressure'' then rpc_pressure_metrics events
           else if scenario = ''rpc-stream-hose'' then rpc_stream_metrics events
           else if scenario = ''connection-storm'' then connection_storm_metrics events
           else if scenario = ''chaos'' then chaos_metrics events
           else if scenario = ''storage-faults'' then storage_fault_metrics events
           else if scenario = ''queue-lifecycle'' then queue_lifecycle_metrics events
           else if scenario = ''schedule-outage'' then schedule_outage_metrics events
           else if scenario = ''transaction-contention'' then transaction_contention_metrics events
           else if scenario = ''stream-replay'' then stream_replay_metrics events
           else if scenario = ''live-churn'' then live_churn_metrics events
           else Inr mutable_metrics)"

definition empty_guidance :: "rat option \<Rightarrow> text_template \<Rightarrow> operational_guidance" where
  "empty_guidance workloadDurationMs reason =
     \<lparr>g_workloadDurationMs = workloadDurationMs, g_metrics = mutable_metrics, g_rating = NotRated,
      g_reasons = [reason], g_pressureDomains = []\<rparr>"

text \<open>\<^verbatim>\<open>events.slice(Math.max(0, events.findIndex(...)))\<close>: all events when there is no match.\<close>

definition workload_events :: "json list \<Rightarrow> json list" where
  "workload_events events =
     drop (get_or 0 (find_index (\<lambda>e. event_name e = Some ''workload_started'') events)) events"

text \<open>The message of an error: the template with its values.\<close>

definition not_pressure_reason :: text_template where
  "not_pressure_reason = plain_text ''Categorical ratings apply only to domain-pressure and soak.''"

definition because :: "string \<Rightarrow> error \<Rightarrow> text_template" where
  "because prefix_text e = (case e of Error template args \<Rightarrow> Error (prefix_text @ template) args)"

text \<open>\<^verbatim>\<open>JSON.parse(await readFile(...))\<close> of the pressure evidence.\<close>

definition read_pressure_evidence :: "file_read \<Rightarrow> json result" where
  "read_pressure_evidence file =
     (case file of
        MissingFile \<Rightarrow> Inl (Error ''ENOENT: no such file or directory'' [])
      | ReadError message \<Rightarrow> Inl (Error ''$'' [AStr message])
      | FileText contents \<Rightarrow>
          (case parse_json contents of None \<Rightarrow> Inl (Error ''SyntaxError'' []) | Some j \<Rightarrow> Inr j))"

definition workload_duration :: "string \<Rightarrow> json list \<Rightarrow> rat option \<Rightarrow> rat option" where
  "workload_duration scenario events summary_duration =
     or_duration (or_duration (case summary_duration of Some d \<Rightarrow> if 0 \<le> d then Some d else None | None \<Rightarrow> None)
                    (event_duration (last_event events ''workload_complete'')))
       (fallback_scenario_duration scenario events)"

definition extract_operational_guidance ::
  "file_read \<Rightarrow> file_read \<Rightarrow> string \<Rightarrow> rat option \<Rightarrow> operational_guidance" where
  "extract_operational_guidance events_file pressure_file scenario summary_duration =
     (let evidence = read_events events_file;
          events = ev_events evidence;
          duration = workload_duration scenario events summary_duration
      in if scenario = ''domain-pressure'' \<or> scenario = ''soak'' then
           (case try_in (read_pressure_evidence pressure_file) (\<lambda>j. extract_pressure_guidance j duration) of
              Inr g \<Rightarrow> g
            | Inl e \<Rightarrow> empty_guidance duration (because ''Pressure evidence was unavailable or incomplete: '' e))
         else
           (case extract_scenario_metrics scenario (workload_events events) duration of
              Inr metrics \<Rightarrow>
                \<lparr>g_workloadDurationMs = duration, g_metrics = metrics, g_rating = NotRated,
                 g_reasons = [if metric_count metrics > 0 then not_pressure_reason
                              else get_or (plain_text ''Structured completion evidence was unavailable for this scenario.'')
                                     (ev_error evidence)],
                 g_pressureDomains = []\<rparr>
            | Inl e \<Rightarrow>
                empty_guidance duration
                  (get_or (because ''Operational evidence was unavailable or incomplete: '' e) (ev_error evidence))))"

subsection \<open>Guidance is total and well-formed\<close>

lemma completion_metrics_wf:
  assumes "completion_metrics_for_scenario scenario events = Inr (Some m)" shows "metrics_ok m"
proof -
  obtain config closing where c: "map_get COMPLETION_CONFIGS scenario = Some config"
    and m: "completion_metrics config closing = Inr m"
    using assms by (auto simp: completion_metrics_for_scenario_def try_in_eq_Inr split: option.splits)
  let ?d = "valid_duration (json_get closing ''elapsedMs'')"
  obtain extra bw where extra: "configured_recovery config closing = Inr extra"
    and bw: "(case ?d of None \<Rightarrow> Inr [] | Some d \<Rightarrow> traverse (completion_bandwidth closing d) (cfg_bandwidthFields config)) = Inr bw"
    and parts: "bandwidth m = bw" "recoveries m = scenario_recovery ?d @ extra" "latencies m = []"
    using m by (auto simp: completion_metrics_def Let_def try_in_eq_Inr)
  have nonneg: "0 \<le> d" if "?d = Some d" for d using that by (auto simp: valid_duration_Some)
  note fields = completion_metrics_fields [OF m]
  have keys: "map c_key (counts m) = map fst (cfg_fields config)" unfolding fields(1) [symmetric] by simp
  have "distinct (map fst (completionSemantics m))"
    unfolding fields(3) keys using map_get_list_all [OF completion_keys_distinct c] .
  moreover have "set (map fst (completionSemantics m)) = c_key ` set (counts m)" unfolding fields(3) by simp
  moreover have counts: "list_all (\<lambda>c. 0 \<le> c_value c) (counts m)" using fields(2) by (auto simp: list_all_iff)
  moreover have "list_all (rate_ok (c_key ` set (counts m))) (rates m)"
    using counts nonneg unfolding fields(4)
    by (cases ?d) (auto simp: completion_rates_def list_all_iff rate_ok_def completion_rate_def per_second_def)
  moreover have "list_all bandwidth_ok bw"
  proof (cases ?d)
    case None
    then show ?thesis using bw by simp
  next
    case (Some d)
    then have "traverse (completion_bandwidth closing d) (cfg_bandwidthFields config) = Inr bw" using bw by simp
    then show ?thesis using Some
      by (auto simp: list_all_iff traverse_set completion_bandwidth_def try_in_eq_Inr non_negative_integer_ok
          bandwidth_ok_def per_second_def valid_duration_Some split: prod.splits)
  qed
  moreover have "list_all (\<lambda>r. 0 \<le> v_durationMs r) (scenario_recovery ?d @ extra)"
    using extra by (auto simp: scenario_recovery_def configured_recovery_def recovery_def try_in_eq_Inr
        non_negative_integer_ok valid_duration_Some split: option.splits)
  ultimately show ?thesis by (simp add: metrics_ok_def parts)
qed

lemma extract_scenario_metrics_wf:
  assumes "extract_scenario_metrics scenario events duration = Inr m" shows "metrics_ok m"
proof -
  obtain c where c: "completion_metrics_for_scenario scenario events = Inr c"
    using assms by (auto simp: extract_scenario_metrics_def try_in_eq_Inr)
  show ?thesis
  proof (cases c)
    case (Some m')
    then show ?thesis using assms c completion_metrics_wf by (simp add: extract_scenario_metrics_def)
  next
    case None
    then show ?thesis using assms c unfolding extract_scenario_metrics_def
      by (auto split: if_splits intro: recovery_scenario_metrics_ok crash_cut_metrics_ok queue_redelivery_metrics_ok
          lease_contention_metrics_ok hot_route_metrics_ok protocol_metrics_ok notice_metrics_ok
          schedule_delivery_metrics_ok session_boundary_metrics_ok rpc_pressure_metrics_ok rpc_stream_metrics_ok
          connection_storm_metrics_ok chaos_metrics_ok storage_fault_metrics_ok queue_lifecycle_metrics_ok
          schedule_outage_metrics_ok transaction_contention_metrics_ok stream_replay_metrics_ok live_churn_metrics_ok)
  qed
qed


lemma percentile_nonneg: assumes "0 \<le> maxMs h" shows "0 \<le> percentile h q"
proof -
  have scan: "0 \<le> percentile_scan t c d us cs" if "0 \<le> d" "list_all (\<lambda>u. 0 \<le> u) us" for t c d us cs
    using that by (induction t c d us cs rule: percentile_scan.induct)
      (auto split: list.split simp: list_all_iff dest: list.set_sel(2))
  have "list_all (\<lambda>u. 0 \<le> u) LATENCY_BUCKET_UPPER_MS" by (simp add: LATENCY_BUCKET_UPPER_MS_def)
  then show ?thesis using assms scan by (simp add: percentile_def round2_nonneg)
qed

definition summary_ok :: "latency_report \<Rightarrow> bool" where
  "summary_ok r \<longleftrightarrow> 0 \<le> meanMs r \<and> 0 \<le> p50Ms r \<and> 0 \<le> p95Ms r \<and> 0 \<le> p99Ms r \<and> 0 \<le> maxMs_sum r"

lemma latency_summary_ok: "0 \<le> totalMs h \<Longrightarrow> 0 \<le> maxMs h \<Longrightarrow> summary_ok (latency_summary h)"
  by (auto simp: summary_ok_def latency_summary_def percentile_nonneg intro!: round2_nonneg fl_nonneg)

lemma read_histogram_nonneg: "read_histogram v label = Inr h \<Longrightarrow> 0 \<le> totalMs h \<and> 0 \<le> maxMs h"
  by (auto simp: read_histogram_def try_in_eq_Inr non_negative_number_ok split: if_splits)

lemma parse_stage_summary: "parse_stage d entry = Inr s \<Longrightarrow> summary_ok (ss_latency s) \<and> 0 \<le> ss_errors s"
  using parse_stage_bounds [of d "fst entry" "snd entry" s]
  by (auto simp: parse_stage_def Let_def try_in_eq_Inr latency_summary_ok dest!: read_histogram_nonneg split: prod.splits)


lemma add_stage_latencies_ok: "metrics_ok m \<Longrightarrow> summary_ok (ss_latency s) \<Longrightarrow> metrics_ok (add_stage_latencies d m s)"
  by (simp add: add_stage_latencies_def summary_ok_def)

definition domain_ok :: "domain_summary \<Rightarrow> bool" where
  "domain_ok d \<longleftrightarrow> 0 \<le> ds_completedOperations d \<and> 0 \<le> ds_errors d \<and>
     list_all (\<lambda>s. summary_ok (ss_latency s) \<and> 0 \<le> ss_errors s) (ds_stages d)"

lemma foldl_metrics_ok:
  "metrics_ok m \<Longrightarrow> list_all Q xs \<Longrightarrow> (\<And>m x. metrics_ok m \<Longrightarrow> Q x \<Longrightarrow> metrics_ok (f m x)) \<Longrightarrow> metrics_ok (foldl f m xs)"
  by (induction xs arbitrary: m) auto

lemma add_domain_metrics_ok: "metrics_ok m \<Longrightarrow> domain_ok d \<Longrightarrow> metrics_ok (add_domain_metrics duration m d)"
  unfolding add_domain_metrics_def Let_def
  by (rule foldl_metrics_ok [where Q = "\<lambda>s. summary_ok (ss_latency s)"])
     (auto simp: domain_ok_def list_all_iff add_stage_latencies_ok)

lemma parse_pressure_domain_ok:
  assumes "parse_pressure_domain d v duration = Inr s" shows "domain_ok s"
proof -
  obtain n es stages where "0 \<le> n" and stages: "traverse (parse_stage d) es = Inr stages"
    and s: "ds_completedOperations s = n" "ds_errors s = sum_numbers (map ss_errors stages)" "ds_stages s = stages"
    using assms by (auto simp: parse_pressure_domain_def try_in_eq_Inr number_field_ok split: if_splits option.splits)
  moreover have "list_all (\<lambda>s. summary_ok (ss_latency s) \<and> 0 \<le> ss_errors s) stages"
    using traverse_set [OF stages] parse_stage_summary by (auto simp: list_all_iff)
  moreover from this have "0 \<le> sum_numbers (map ss_errors stages)"
    by (intro sum_numbers_nonneg) (auto simp: list_all_iff)
  ultimately show ?thesis by (simp add: domain_ok_def)
qed

lemma extract_pressure_ok:
  assumes "extract_pressure_guidance v duration = Inr g"
  shows "metrics_ok (g_metrics g) \<and> g_rating g \<noteq> NotRated \<and> g_reasons g \<noteq> []"
proof -
  obtain agg d sel ds a b c where ds: "traverse (\<lambda>x. parse_pressure_domain x (agg x) d) sel = Inr ds"
    and g: "g_metrics g = foldl (add_domain_metrics d) mutable_metrics ds" "g_rating g = fst (rate_signals a b c)"
      "g_reasons g = snd (rate_signals a b c)"
    using assms by (auto simp: extract_pressure_guidance_def try_in_eq_Inr Let_def split: if_splits)
  have "list_all domain_ok ds" using traverse_set [OF ds] parse_pressure_domain_ok by (auto simp: list_all_iff)
  then have "metrics_ok (g_metrics g)" unfolding g
    by (intro foldl_metrics_ok [where Q = domain_ok]) (auto intro: add_domain_metrics_ok)
  then show ?thesis by (auto simp: g rate_signals_def)
qed

definition is_pressure_scenario :: "string \<Rightarrow> bool" where
  "is_pressure_scenario scenario \<longleftrightarrow> scenario = ''domain-pressure'' \<or> scenario = ''soak''"


end
