(* ===== verification/Report.thy ===== *)
theory Report
  imports Guidance Scenario "HOL-Library.Char_ord"
begin

text \<open>
  The matrix report (src/report.ts): one entry per expected scenario, the verdict, the tallies
  of failure classes, cleanup states and durations, and the aggregation of log observations.
  A message assembled from a template is a \<^verbatim>\<open>text_template\<close>.
\<close>

subsection \<open>Data\<close>

record report_observation =
  ob_code :: string
  ob_message :: string
  ob_occurrences :: nat
  ob_files :: "string list"

record report_warning =
  wa_code :: string
  wa_message :: text_template
  wa_details :: "json option"

record report_analysis =
  an_observations :: "report_observation list"
  an_warnings :: "report_warning list"
  an_brokerSummary :: "(string, rat option) js_map option"
  an_guidance :: operational_guidance

text \<open>\<^verbatim>\<open>AnalyzedScenarioResult\<close>: the summary with its run and project, and the analysis if any.\<close>

record analyzed_result =
  ar_result :: scenario_result
  ar_runId :: string
  ar_project :: string
  ar_analysis :: "report_analysis option"

datatype report_verdict = EntryPassed | EntryFailed | EntryMissing

datatype report_class = Class failure_class | MissingClass

datatype report_cleanup = Known cleanup_state | UnknownCleanup

record report_entry =
  en_scenario :: string
  en_verdict :: report_verdict
  en_durationMs :: "int option"
  en_workloadDurationMs :: "rat option"
  en_class :: "report_class option"
  en_cleanup :: "cleanup_state option"
  en_runId :: "string option"
  en_project :: "string option"
  en_analysis :: report_analysis
  en_error :: "text_template option"
  en_cleanupError :: "string option"

record report_run =
  run_repository :: "string option"
  run_commitSha :: "string option"
  run_refName :: "string option"
  run_url :: "string option"
  run_attempt :: "string option"

record report_totals =
  to_expected :: nat
  to_reported :: nat
  to_passed :: nat
  to_failed :: nat
  to_missing :: nat

record report_tally =
  ta_failureClasses :: "(report_class, nat) js_map"
  ta_cleanup :: "(report_cleanup, nat) js_map"
  ta_recordedTotalMs :: int
  ta_slowestScenario :: "string option"
  ta_slowestDurationMs :: "int option"

record destroyer_report =
  rep_generatedAt :: string
  rep_verdict :: verdict
  rep_analysisResult :: string
  rep_matrixResult :: string
  rep_run :: report_run
  rep_totals :: report_totals
  rep_tally :: report_tally
  rep_results :: "report_entry list"

subsection \<open>buildDestroyerReport\<close>

definition empty_analysis :: "rat option \<Rightarrow> string \<Rightarrow> report_analysis" where
  "empty_analysis duration reason =
     \<lparr>an_observations = [], an_warnings = [], an_brokerSummary = None,
      an_guidance = empty_guidance duration (plain_text reason)\<rparr>"

definition missing_entry :: "string \<Rightarrow> report_entry" where
  "missing_entry name =
     \<lparr>en_scenario = name, en_verdict = EntryMissing, en_durationMs = None, en_workloadDurationMs = None,
      en_class = Some MissingClass, en_cleanup = None, en_runId = None, en_project = None,
      en_analysis = empty_analysis None ''Scenario artifact did not contain a structured summary.'',
      en_error = Some (plain_text ''Scenario artifact did not contain a structured summary''),
      en_cleanupError = None\<rparr>"

definition duplicate_entry :: "string \<Rightarrow> nat \<Rightarrow> report_entry" where
  "duplicate_entry name found =
     \<lparr>en_scenario = name, en_verdict = EntryFailed, en_durationMs = None, en_workloadDurationMs = None,
      en_class = Some (Class SetupFailure), en_cleanup = None, en_runId = None, en_project = None,
      en_analysis = empty_analysis None ''Duplicate scenario summaries prevented operational extraction.'',
      en_error = Some (Error ''Expected one scenario summary, found $'' [ANat found]),
      en_cleanupError = None\<rparr>"

definition summary_duration :: "scenario_result \<Rightarrow> rat option" where
  "summary_duration r = map_option of_int (res_workloadDurationMs r)"

definition result_entry :: "string \<Rightarrow> analyzed_result \<Rightarrow> report_entry" where
  "result_entry name a =
     (let r = ar_result a in
      \<lparr>en_scenario = name,
       en_verdict = (case res_verdict r of Passed \<Rightarrow> EntryPassed | Failed \<Rightarrow> EntryFailed),
       en_durationMs = Some (res_durationMs r),
       en_workloadDurationMs =
         (case Option.bind (ar_analysis a) (\<lambda>x. g_workloadDurationMs (an_guidance x)) of
            Some d \<Rightarrow> Some d | None \<Rightarrow> summary_duration r),
       en_class = map_option Class (res_failureClassification r),
       en_cleanup = Some (res_cleanupState r),
       en_runId = Some (ar_runId a), en_project = Some (ar_project a),
       en_analysis = get_or (empty_analysis (summary_duration r) ''Operational artifact analysis was unavailable.'') (ar_analysis a),
       en_error = map_option plain_text (res_error r),
       en_cleanupError = res_cleanupError r\<rparr>)"

definition report_entry_of :: "analyzed_result list \<Rightarrow> string \<Rightarrow> report_entry" where
  "report_entry_of results name =
     (case filter (\<lambda>a. res_scenario (ar_result a) = name) results of
        [] \<Rightarrow> missing_entry name
      | [a] \<Rightarrow> result_entry name a
      | matches \<Rightarrow> duplicate_entry name (length matches))"

text \<open>The counters start with every key at zero, in the order of the source.\<close>

definition failure_class_order :: "report_class list" where
  "failure_class_order =
     [Class SetupFailure, Class WorkloadFailure, Class AssertionFailure, Class TimeoutFailure, Class CleanupFailure, MissingClass]"

definition zero_counters :: "'k list \<Rightarrow> ('k, nat) js_map" where
  "zero_counters ks = map (\<lambda>k. (k, 0)) ks"

definition initial_tally :: report_tally where
  "initial_tally =
     \<lparr>ta_failureClasses = zero_counters failure_class_order,
      ta_cleanup = zero_counters [Known Removed, Known Preserved, Known CleanupFailed, UnknownCleanup],
      ta_recordedTotalMs = 0, ta_slowestScenario = None, ta_slowestDurationMs = None\<rparr>"

definition cleanup_key :: "report_entry \<Rightarrow> report_cleanup" where
  "cleanup_key e = (case en_cleanup e of Some c \<Rightarrow> Known c | None \<Rightarrow> UnknownCleanup)"

definition tally_class :: "report_tally \<Rightarrow> report_entry \<Rightarrow> report_tally" where
  "tally_class t e =
     (case en_class e of
        Some c \<Rightarrow> if en_verdict e \<noteq> EntryPassed
                  then t\<lparr>ta_failureClasses := map_bump (ta_failureClasses t) c 1\<rparr> else t
      | None \<Rightarrow> t)"

definition tally_duration :: "report_tally \<Rightarrow> report_entry \<Rightarrow> report_tally" where
  "tally_duration t e =
     (case en_durationMs e of
        None \<Rightarrow> t
      | Some d \<Rightarrow>
          let t' = t\<lparr>ta_recordedTotalMs := ta_recordedTotalMs t + d\<rparr>
          in if (case ta_slowestDurationMs t of None \<Rightarrow> True | Some s \<Rightarrow> d > s)
             then t'\<lparr>ta_slowestScenario := Some (en_scenario e), ta_slowestDurationMs := Some d\<rparr>
             else t')"

definition tally_entry :: "report_tally \<Rightarrow> report_entry \<Rightarrow> report_tally" where
  "tally_entry t e =
     (let t1 = tally_class t e;
          t2 = t1\<lparr>ta_cleanup := map_bump (ta_cleanup t1) (cleanup_key e) 1\<rparr>
      in tally_duration t2 e)"

definition normalized :: "string option \<Rightarrow> string option" where
  "normalized value = (case value of None \<Rightarrow> None | Some v \<Rightarrow> if js_trim v = [] then None else Some (js_trim v))"

definition normalized_run :: "report_run \<Rightarrow> report_run" where
  "normalized_run r =
     \<lparr>run_repository = normalized (run_repository r), run_commitSha = normalized (run_commitSha r),
      run_refName = normalized (run_refName r), run_url = normalized (run_url r),
      run_attempt = normalized (run_attempt r)\<rparr>"

definition count_verdict :: "report_verdict \<Rightarrow> report_entry list \<Rightarrow> nat" where
  "count_verdict v entries = length (filter (\<lambda>e. en_verdict e = v) entries)"

definition build_destroyer_report ::
  "string list \<Rightarrow> analyzed_result list \<Rightarrow> string \<Rightarrow> string \<Rightarrow> string \<Rightarrow> report_run \<Rightarrow> destroyer_report" where
  "build_destroyer_report expected results analysisResult matrixResult generatedAt run =
     (let entries = map (report_entry_of results) expected;
          passed = count_verdict EntryPassed entries;
          failed = count_verdict EntryFailed entries;
          missing = count_verdict EntryMissing entries
      in \<lparr>rep_generatedAt = generatedAt,
          rep_verdict = (if analysisResult = ''success'' \<and> matrixResult = ''success'' \<and> failed = 0 \<and> missing = 0
                         then Passed else Failed),
          rep_analysisResult = analysisResult, rep_matrixResult = matrixResult,
          rep_run = normalized_run run,
          rep_totals = \<lparr>to_expected = length expected, to_reported = length results, to_passed = passed,
                        to_failed = failed, to_missing = missing\<rparr>,
          rep_tally = foldl tally_entry initial_tally entries,
          rep_results = entries\<rparr>)"

subsection \<open>Aggregated observations\<close>

record aggregated_observation =
  ag_code :: string
  ag_message :: string
  ag_occurrences :: nat
  ag_scenarios :: "string list"

definition aggregate_value ::
  "string \<Rightarrow> (string, aggregated_observation) js_map \<Rightarrow> report_observation \<Rightarrow> aggregated_observation" where
  "aggregate_value name observations ob =
     (case map_get observations (ob_code ob) of
        None \<Rightarrow> \<lparr>ag_code = ob_code ob, ag_message = ob_message ob, ag_occurrences = ob_occurrences ob,
                  ag_scenarios = [name]\<rparr>
      | Some current \<Rightarrow> current\<lparr>ag_occurrences := ag_occurrences current + ob_occurrences ob,
                                ag_scenarios := ag_scenarios current @ [name]\<rparr>)"

definition aggregate_one ::
  "string \<Rightarrow> (string, aggregated_observation) js_map \<Rightarrow> report_observation \<Rightarrow> (string, aggregated_observation) js_map" where
  "aggregate_one name observations ob = map_set observations (ob_code ob) (aggregate_value name observations ob)"

definition aggregate_entry ::
  "(string, aggregated_observation) js_map \<Rightarrow> report_entry \<Rightarrow> (string, aggregated_observation) js_map" where
  "aggregate_entry observations e = foldl (aggregate_one (en_scenario e)) observations (an_observations (en_analysis e))"

text \<open>The comparator orders by scenarios, then occurrences, both descending, then by code.\<close>

definition observation_key :: "aggregated_observation \<Rightarrow> int \<times> int \<times> string" where
  "observation_key a = (- int (length (ag_scenarios a)), - int (ag_occurrences a), ag_code a)"

definition aggregate_observations :: "report_entry list \<Rightarrow> aggregated_observation list" where
  "aggregate_observations failures = sort_key observation_key (map snd (foldl aggregate_entry [] failures))"

subsection \<open>The verdict\<close>

lemma result_entry_verdict: "en_verdict (result_entry s a) = EntryPassed \<longleftrightarrow> res_verdict (ar_result a) = Passed"
  by (simp add: result_entry_def Let_def split: verdict.splits)

lemma entry_passed:
  "en_verdict (report_entry_of results s) = EntryPassed \<longleftrightarrow>
     (\<exists>a. filter (\<lambda>a. res_scenario (ar_result a) = s) results = [a] \<and> res_verdict (ar_result a) = Passed)"
  by (auto simp: report_entry_of_def missing_entry_def duplicate_entry_def result_entry_verdict split: list.splits)

lemma count_verdict_zero: "count_verdict v es = 0 \<longleftrightarrow> (\<forall>e \<in> set es. en_verdict e \<noteq> v)"
  by (auto simp: count_verdict_def filter_empty_conv)

text \<open>
  C14.  The report passes exactly when the repository checks and the matrix succeeded and every
  expected scenario has exactly one summary in the artifacts, which passed; a missing,
  duplicated or failed summary can never be reported as a pass.
\<close>
theorem report_verdict_ok:
  "rep_verdict (build_destroyer_report expected results analysisResult matrixResult generated run) = Passed \<longleftrightarrow>
     analysisResult = ''success'' \<and> matrixResult = ''success'' \<and>
     list_all (\<lambda>s. \<exists>a. filter (\<lambda>a. res_scenario (ar_result a) = s) results = [a] \<and> res_verdict (ar_result a) = Passed) expected"
proof -
  have "v \<noteq> EntryFailed \<and> v \<noteq> EntryMissing \<longleftrightarrow> v = EntryPassed" for v by (cases v) auto
  then have "count_verdict EntryFailed es = 0 \<and> count_verdict EntryMissing es = 0 \<longleftrightarrow>
      list_all (\<lambda>e. en_verdict e = EntryPassed) es" for es
    by (auto simp: count_verdict_zero list_all_iff)
  then show ?thesis
    by (simp add: build_destroyer_report_def Let_def list_all_length flip: entry_passed)
qed

subsection \<open>The tallies\<close>

definition tally_matches :: "report_tally \<Rightarrow> report_entry list \<Rightarrow> bool" where
  "tally_matches t es =
     ((\<forall>c. get_or 0 (map_get (ta_failureClasses t) c) =
          length (filter (\<lambda>e. en_class e = Some c \<and> en_verdict e \<noteq> EntryPassed) es)) \<and>
      (\<forall>k. get_or 0 (map_get (ta_cleanup t) k) = length (filter (\<lambda>e. cleanup_key e = k) es)) \<and>
      ta_recordedTotalMs t = sum_list (List.map_filter en_durationMs es))"

lemma map_get_zero: "get_or 0 (map_get (zero_counters ks) k) = (0 :: nat)"
  by (induction ks) (auto simp: zero_counters_def)

lemma tally_matches_entry: "tally_matches t es \<Longrightarrow> tally_matches (tally_entry t e) (es @ [e])"
  by (auto simp: tally_matches_def tally_entry_def tally_class_def tally_duration_def Let_def map_get_bump
      map_filter_def split: option.splits if_splits)

lemma tally_matches_all: "tally_matches (foldl tally_entry initial_tally es) es"
proof (induction es rule: rev_induct)
  case Nil
  then show ?case by (simp add: tally_matches_def initial_tally_def map_get_zero map_filter_def)
next
  case (snoc e es)
  then show ?case by (simp add: tally_matches_entry)
qed

definition slowest_ok :: "report_tally \<Rightarrow> report_entry list \<Rightarrow> bool" where
  "slowest_ok t es =
     (case ta_slowestDurationMs t of
        None \<Rightarrow> ta_slowestScenario t = None \<and> List.map_filter en_durationMs es = []
      | Some d \<Rightarrow> (\<exists>pre e post. es = pre @ e # post \<and> en_durationMs e = Some d \<and> ta_slowestScenario t = Some (en_scenario e) \<and>
          (\<forall>d' \<in> set (List.map_filter en_durationMs pre). d' < d) \<and> (\<forall>d' \<in> set (List.map_filter en_durationMs post). d' \<le> d)))"

lemma map_filter_append [simp]: "List.map_filter f (xs @ ys) = List.map_filter f xs @ List.map_filter f ys"
  by (simp add: map_filter_def)

lemma map_filter_one: "List.map_filter f [x] = (case f x of None \<Rightarrow> [] | Some y \<Rightarrow> [y])"
  by (simp add: map_filter_def split: option.split)

lemma map_filter_Cons: "List.map_filter f (x # xs) = (case f x of None \<Rightarrow> List.map_filter f xs | Some y \<Rightarrow> y # List.map_filter f xs)"
  by (simp add: map_filter_def split: option.split)

lemma tally_slowest:
  "ta_slowestDurationMs (tally_entry t e) =
     (case en_durationMs e of None \<Rightarrow> ta_slowestDurationMs t
      | Some d \<Rightarrow> if (case ta_slowestDurationMs t of None \<Rightarrow> True | Some s \<Rightarrow> d > s) then Some d else ta_slowestDurationMs t)"
  "ta_slowestScenario (tally_entry t e) =
     (case en_durationMs e of None \<Rightarrow> ta_slowestScenario t
      | Some d \<Rightarrow> if (case ta_slowestDurationMs t of None \<Rightarrow> True | Some s \<Rightarrow> d > s) then Some (en_scenario e) else ta_slowestScenario t)"
  by (simp_all add: tally_entry_def tally_class_def tally_duration_def Let_def split: option.split)

lemma slowest_okI:
  "ta_slowestDurationMs t = Some d \<Longrightarrow> ta_slowestScenario t = Some (en_scenario e) \<Longrightarrow> es = pre @ e # post \<Longrightarrow>
   en_durationMs e = Some d \<Longrightarrow> \<forall>d' \<in> set (List.map_filter en_durationMs pre). d' < d \<Longrightarrow>
   \<forall>d' \<in> set (List.map_filter en_durationMs post). d' \<le> d \<Longrightarrow> slowest_ok t es"
  by (auto simp: slowest_ok_def)

lemma slowest_ok_later:
  assumes "slowest_ok t es" "ta_slowestDurationMs t = Some s" "\<forall>d. en_durationMs e = Some d \<longrightarrow> d \<le> s"
    and "ta_slowestDurationMs t' = ta_slowestDurationMs t" "ta_slowestScenario t' = ta_slowestScenario t"
  shows "slowest_ok t' (es @ [e])"
proof -
  from assms(1,2) obtain pre x post where "es = pre @ x # post" "en_durationMs x = Some s" "ta_slowestScenario t = Some (en_scenario x)"
    "\<forall>d' \<in> set (List.map_filter en_durationMs pre). d' < s" "\<forall>d' \<in> set (List.map_filter en_durationMs post). d' \<le> s"
    by (auto simp: slowest_ok_def)
  with assms(2-) show ?thesis
    by (intro slowest_okI [of t' s x _ pre "post @ [e]"]) (auto simp: map_filter_one split: option.splits)
qed

lemma slowest_ok_bound: "slowest_ok t es \<Longrightarrow> d \<in> set (List.map_filter en_durationMs es) \<Longrightarrow> \<exists>s. ta_slowestDurationMs t = Some s \<and> d \<le> s"
  by (auto simp: slowest_ok_def map_filter_Cons split: option.splits) (meson dual_order.order_iff_strict order_refl)+

lemma slowest_ok_entry:
  assumes "slowest_ok t es"
  shows "slowest_ok (tally_entry t e) (es @ [e])"
proof (cases "en_durationMs e")
  case None
  then show ?thesis
    using assms slowest_ok_later [OF assms, of _ e "tally_entry t e"]
    by (cases "ta_slowestDurationMs t") (simp_all add: tally_slowest, simp add: slowest_ok_def tally_slowest map_filter_one)
next
  case (Some d)
  show ?thesis
  proof (cases "\<exists>s. ta_slowestDurationMs t = Some s \<and> d \<le> s")
    case True
    with Some show ?thesis
      using slowest_ok_later [OF assms, of _ e "tally_entry t e"] by (auto simp: tally_slowest)
  next
    case False
    then have "\<forall>d' \<in> set (List.map_filter en_durationMs es). d' < d"
      using slowest_ok_bound [OF assms] by (meson not_le order.trans)
    with False Some show ?thesis
      by (intro slowest_okI [of _ d e _ es "[]"]) (auto simp: tally_slowest map_filter_def split: option.splits)
  qed
qed

lemma slowest_ok_all: "slowest_ok (foldl tally_entry initial_tally es) es"
proof (induction es rule: rev_induct)
  case Nil
  then show ?case by (simp add: slowest_ok_def initial_tally_def map_filter_def)
next
  case (snoc e es)
  then show ?case by (simp add: slowest_ok_entry)
qed

lemma count_verdict_sum:
  "count_verdict EntryPassed es + count_verdict EntryFailed es + count_verdict EntryMissing es = length es"
proof (induction es)
  case (Cons e es)
  then show ?case by (cases "en_verdict e") (auto simp: count_verdict_def)
qed (simp add: count_verdict_def)


subsection \<open>Observations\<close>

definition observed :: "report_entry list \<Rightarrow> (string \<times> report_observation) list" where
  "observed failures = concat (map (\<lambda>e. map (Pair (en_scenario e)) (an_observations (en_analysis e))) failures)"

definition with_code :: "string \<Rightarrow> (string \<times> report_observation) list \<Rightarrow> (string \<times> report_observation) list" where
  "with_code c ps = filter (\<lambda>p. ob_code (snd p) = c) ps"

definition aggregate_of :: "string \<Rightarrow> (string \<times> report_observation) list \<Rightarrow> aggregated_observation" where
  "aggregate_of c ps =
     \<lparr>ag_code = c, ag_message = ob_message (snd (hd ps)),
      ag_occurrences = sum_list (map (ob_occurrences \<circ> snd) ps), ag_scenarios = map fst ps\<rparr>"

lemma aggregate_flat:
  "foldl aggregate_entry m failures = foldl (\<lambda>m p. aggregate_one (fst p) m (snd p)) m (observed failures)"
proof (induction failures arbitrary: m)
  case (Cons e failures)
  have "foldl (aggregate_one s) m obs = foldl (\<lambda>m p. aggregate_one (fst p) m (snd p)) m (map (Pair s) obs)" for s m obs
    by (induction obs arbitrary: m) simp_all
  with Cons show ?case by (simp add: observed_def aggregate_entry_def)
qed (simp add: observed_def)

lemma aggregate_get:
  "map_get (foldl (\<lambda>m p. aggregate_one (fst p) m (snd p)) [] ps) c =
     (if with_code c ps = [] then None else Some (aggregate_of c (with_code c ps)))"
proof (induction ps rule: rev_induct)
  case (snoc p ps)
  have hd_snoc: "hd (xs @ ys) = (if xs = [] then hd ys else hd xs)" for xs ys :: "(string \<times> report_observation) list"
    by simp
  from snoc show ?case by (auto simp: aggregate_one_def aggregate_value_def with_code_def aggregate_of_def hd_snoc)
qed (simp add: with_code_def)

lemma aggregate_keys:
  "distinct (map_keys (foldl (\<lambda>m p. aggregate_one (fst p) m (snd p)) [] ps)) \<and>
   set (map_keys (foldl (\<lambda>m p. aggregate_one (fst p) m (snd p)) [] ps)) = ob_code ` snd ` set ps"
  using jm.fold_set_distinct [of "[]" "\<lambda>p. ob_code (snd p)" "\<lambda>m p. aggregate_value (fst p) m (snd p)"]
    jm.fold_set_keys [of "\<lambda>p. ob_code (snd p)" "\<lambda>m p. aggregate_value (fst p) m (snd p)" "[]"]
  by (simp add: aggregate_one_def image_image)

text \<open>
  The evidence table has one row per observed code, most widely seen first: each row lists
  the failed scenarios that reported the code, in report order, and the total of their
  occurrences; nothing observed is dropped.
\<close>
lemma aggregate_observations_ok:
  "let rows = aggregate_observations failures
   in sorted (map observation_key rows) \<and> distinct (map ag_code rows) \<and>
      ag_code ` set rows = ob_code ` snd ` set (observed failures) \<and>
      list_all (\<lambda>a. a = aggregate_of (ag_code a) (with_code (ag_code a) (observed failures))) rows"
proof -
  define m where "m = foldl (\<lambda>m p. aggregate_one (fst p) m (snd p)) [] (observed failures)"
  have keys: "distinct (map_keys m)" "set (map_keys m) = ob_code ` snd ` set (observed failures)"
    using aggregate_keys [of "observed failures"] by (simp_all add: m_def)
  have val: "a = aggregate_of k (with_code k (observed failures))" if "(k, a) \<in> set m" for k a
    using map_get_in [OF keys(1) that] aggregate_get [of "observed failures" k] by (simp add: m_def split: if_splits)
  have code: "ag_code (snd p) = fst p" if "p \<in> set m" for p
    using val [of "fst p" "snd p"] that by (simp add: aggregate_of_def)
  then have codes: "map (ag_code \<circ> snd) m = map_keys m" by (simp add: map_keys_def)
  have rows: "aggregate_observations failures = sort_key observation_key (map snd m)"
    by (simp add: aggregate_observations_def aggregate_flat m_def)
  have "mset (map ag_code (sort_key observation_key (map snd m))) = mset (map_keys m)"
    by (simp add: multiset.map_comp flip: codes)
  then have "distinct (map ag_code (sort_key observation_key (map snd m)))"
    using keys(1) by (metis mset_eq_imp_distinct_iff)
  moreover have "ag_code ` snd ` set m = fst ` set m" using code by (force simp: image_image)
  moreover have "list_all (\<lambda>a. a = aggregate_of (ag_code a) (with_code (ag_code a) (observed failures))) (map snd m)"
    using val code by (auto simp: list_all_iff)
  ultimately show ?thesis using keys(2) by (simp add: rows Let_def list_all_iff map_keys_def)
qed

end
