(* ===== verification/ReportText.thy ===== *)
theory ReportText
  imports Report
begin

text \<open>
  The text of the report (src/report.ts): escaping for Markdown tables and HTML, quoting of
  captured errors, durations and the summary sentences.  The characters beyond U+00FF that
  the source prints (the ellipsis and the dashes) are arguments, because a string of
  the model holds code units below 256.
\<close>

subsection \<open>Escaping\<close>

text \<open>\<^verbatim>\<open>value.replace(/x/gu, "text")\<close> for one character.\<close>

definition replace_char :: "char \<Rightarrow> string \<Rightarrow> string \<Rightarrow> string" where
  "replace_char c by_text s = concat (map (\<lambda>x. if x = c then by_text else [x]) s)"

abbreviation (input) LF :: char where "LF \<equiv> CHR 0x0A"

abbreviation (input) CR :: char where "CR \<equiv> CHR 0x0D"

text \<open>\<^verbatim>\<open>replace(/\r?\n/gu, " ")\<close> and \<^verbatim>\<open>replace(/\r\n?/gu, "\n")\<close>.\<close>

fun newlines_to_spaces :: "string \<Rightarrow> string" where
  "newlines_to_spaces [] = []"
| "newlines_to_spaces [c] = (if c = CHR 0x0A then '' '' else [c])"
| "newlines_to_spaces (c # d # s) =
     (if c = CHR 0x0D \<and> d = CHR 0x0A then CHR '' '' # newlines_to_spaces s
      else if c = CHR 0x0A then CHR '' '' # newlines_to_spaces (d # s)
      else c # newlines_to_spaces (d # s))"

fun unify_newlines :: "string \<Rightarrow> string" where
  "unify_newlines [] = []"
| "unify_newlines [c] = (if c = CHR 0x0D then [CHR 0x0A] else [c])"
| "unify_newlines (c # d # s) =
     (if c = CHR 0x0D \<and> d = CHR 0x0A then CHR 0x0A # unify_newlines s
      else if c = CHR 0x0D then CHR 0x0A # unify_newlines (d # s)
      else c # unify_newlines (d # s))"

definition table_cell :: "string \<Rightarrow> string" where
  "table_cell value = newlines_to_spaces (replace_char CHR ''|'' [CHR 0x5C, CHR ''|''] value)"

definition escape_html :: "string \<Rightarrow> string" where
  "escape_html value =
     replace_char CHR ''>'' ''&gt;'' (replace_char CHR ''<'' ''&lt;'' (replace_char CHR ''&'' ''&amp;'' value))"

subsection \<open>Captured errors\<close>

definition bounded_diagnostic :: "string \<Rightarrow> string \<Rightarrow> string" where
  "bounded_diagnostic ellipsis value =
     (if length value \<le> 12000 then value
      else
        let omitted = length value - 9000 - 2000
        in take 9000 value @ [CHR 0x0A, CHR 0x0A] @ ellipsis @ '' '' @ show_nat omitted @ '' characters omitted '' @ ellipsis @
           [CHR 0x0A, CHR 0x0A] @ drop (length value - 2000) value)"

text \<open>\<^verbatim>\<open>replace(/; (?=(?:Error|AssertionError|TimeoutError):)/gu, ";\n")\<close>.\<close>

definition error_name_ahead :: "string \<Rightarrow> bool" where
  "error_name_ahead s =
     list_ex (\<lambda>name. take (length name) s = name) [''Error:'', ''AssertionError:'', ''TimeoutError:'']"

fun break_before_errors :: "string \<Rightarrow> string" where
  "break_before_errors (c # d # s) =
     (if c = CHR '';'' \<and> d = CHR '' '' \<and> error_name_ahead s then CHR '';'' # CHR 0x0A # break_before_errors s
      else c # break_before_errors (d # s))"
| "break_before_errors s = s"

definition diagnostic_quote :: "string \<Rightarrow> string \<Rightarrow> string list" where
  "diagnostic_quote ellipsis value =
     (let normalized_value = js_trim (unify_newlines value);
          bounded = break_before_errors (bounded_diagnostic ellipsis normalized_value)
      in map (\<lambda>line. ''> '' @ escape_html line) (split_on (CHR 0x0A) bounded))"

subsection \<open>Sentences and labels\<close>

definition counted :: "nat \<Rightarrow> string \<Rightarrow> string" where
  "counted n noun = show_nat n @ '' '' @ noun @ (if n = 1 then '''' else ''s'')"

definition sentence_list :: "string list \<Rightarrow> string" where
  "sentence_list vals =
     (case vals of
        [] \<Rightarrow> ''an unspecified report signal failed''
      | [a] \<Rightarrow> a
      | [a, b] \<Rightarrow> a @ '' and '' @ b
      | _ \<Rightarrow> join_with '', '' (butlast vals) @ '', and '' @ last vals)"

definition failure_reasons :: "destroyer_report \<Rightarrow> string list" where
  "failure_reasons rep =
     (let totals = rep_totals rep in
      (if to_failed totals > 0 then [counted (to_failed totals) ''scenario'' @ '' failed''] else []) @
      (if to_missing totals > 0
       then [counted (to_missing totals) ''scenario summary artifact'' @ '' '' @
             (if to_missing totals = 1 then ''was'' else ''were'') @ '' missing''] else []) @
      (if rep_analysisResult rep \<noteq> ''success'' then [''repository checks reported '' @ rep_analysisResult rep] else []) @
      (if rep_matrixResult rep \<noteq> ''success'' then [''the scenario matrix reported '' @ rep_matrixResult rep] else []))"

definition verdict_summary :: "destroyer_report \<Rightarrow> string" where
  "verdict_summary rep =
     (if rep_verdict rep = Passed
      then ''All '' @ show_nat (to_expected (rep_totals rep)) @
           '' scenarios passed and the repository checks completed successfully.''
      else ''The Destroyer verdict failed because '' @ sentence_list (failure_reasons rep) @ ''.'')"

text \<open>\<^verbatim>\<open>Number.prototype.toFixed(1)\<close> of a non-negative number: the nearest tenth of its exact value.\<close>

definition to_fixed1 :: "rat \<Rightarrow> string" where
  "to_fixed1 x = (let n = nat \<lfloor>x * 10 + 1 / 2\<rfloor> in show_nat (n div 10) @ ''.'' @ show_nat (n mod 10))"

text \<open>The remainder \<^verbatim>\<open>%\<close> of non-negative doubles is exact.\<close>

definition js_rem :: "rat \<Rightarrow> rat \<Rightarrow> rat" where
  "js_rem x y = x - y * of_int \<lfloor>x / y\<rfloor>"

definition duration_label :: "int option \<Rightarrow> string" where
  "duration_label elapsed =
     (case elapsed of
        None \<Rightarrow> ''-''
      | Some ms \<Rightarrow>
          if ms < 60000 then to_fixed1 (fl (of_int ms / 1000)) @ '' s''
          else
            let totalSeconds = fl (of_int ms / 1000);
                hours = nat \<lfloor>fl (totalSeconds / 3600)\<rfloor>;
                minutes = nat \<lfloor>fl (js_rem totalSeconds 3600 / 60)\<rfloor>;
                seconds = js_rem totalSeconds 60
            in if hours > 0
               then show_nat hours @ ''h '' @ show_nat minutes @ ''m '' @ to_fixed1 seconds @ ''s''
               else show_nat minutes @ ''m '' @ to_fixed1 seconds @ ''s'')"

definition timing_summary :: "destroyer_report \<Rightarrow> string" where
  "timing_summary rep =
     (case (ta_slowestScenario (rep_tally rep), ta_slowestDurationMs (rep_tally rep)) of
        (Some slowest, Some duration) \<Rightarrow>
          ''Recorded scenario runtime was '' @ duration_label (Some (ta_recordedTotalMs (rep_tally rep))) @
          '' across parallel jobs; the slowest scenario was `'' @ slowest @ ''` at '' @ duration_label (Some duration) @
          ''. Timings are diagnostic, not correctness gates.''
      | _ \<Rightarrow> ''No scenario duration data was available.'')"

text \<open>\<^verbatim>\<open>run.url?.replace(/\/actions\/runs\/.*$/u, "")\<close>; the dot does not match a line break.\<close>

fun without_actions_run :: "string \<Rightarrow> string" where
  "without_actions_run [] = []"
| "without_actions_run (c # s) =
     (if take 14 (c # s) = ''/actions/runs/'' \<and> CHR 0x0A \<notin> set (c # s) \<and> CHR 0x0D \<notin> set (c # s) then []
      else c # without_actions_run s)"

definition run_summary :: "destroyer_report \<Rightarrow> string" where
  "run_summary rep =
     (let run = rep_run rep;
          part = (\<lambda>f v. case v of None \<Rightarrow> [] | Some x \<Rightarrow> [f x]);
          parts = [''Generated '' @ rep_generatedAt rep] @
            part (\<lambda>url. ''[workflow run]('' @ url @ '')'') (run_url run) @
            part (\<lambda>r. ''repository `'' @ r @ ''`'') (run_repository run) @
            part (\<lambda>r. ''ref `'' @ r @ ''`'') (run_refName run) @
            part (\<lambda>sha. case run_url run of
                    None \<Rightarrow> ''commit `'' @ take 7 sha @ ''`''
                  | Some url \<Rightarrow> ''commit [`'' @ take 7 sha @ ''`]('' @ without_actions_run url @ ''/commit/'' @ sha @ '')'')
              (run_commitSha run) @
            part (\<lambda>a. ''attempt '' @ a) (run_attempt run)
      in join_with [CHR '' '', CHR 0xB7, CHR '' ''] parts @ ''.'')"

definition evidence_label :: "report_entry \<Rightarrow> report_run \<Rightarrow> string" where
  "evidence_label e run =
     (let artifact = (case run_attempt run of
            None \<Rightarrow> None
          | Some attempt \<Rightarrow>
              let name = ''scenario-'' @ en_scenario e @ ''-'' @ attempt
              in Some (case run_url run of
                   None \<Rightarrow> ''`'' @ name @ ''`''
                 | Some url \<Rightarrow> ''[`'' @ name @ ''`]('' @ url @ '')''));
          run_id = map_option (\<lambda>r. ''<code>'' @ escape_html r @ ''</code>'') (en_runId e)
      in case (artifact, run_id) of
           (Some a, Some r) \<Rightarrow> a @ ''<br>'' @ r
         | (Some a, None) \<Rightarrow> a
         | (None, Some r) \<Rightarrow> r
         | (None, None) \<Rightarrow> ''not available'')"

text \<open>\<^verbatim>\<open>replace(/([a-z0-9])([A-Z])/gu, "$1 $2").toLowerCase()\<close>; a match consumes both characters.\<close>

definition is_lower_or_digit :: "char \<Rightarrow> bool" where
  "is_lower_or_digit c = (let n = of_char c :: nat in 97 \<le> n \<and> n \<le> 122 \<or> 48 \<le> n \<and> n \<le> 57)"

definition is_upper :: "char \<Rightarrow> bool" where
  "is_upper c = (let n = of_char c :: nat in 65 \<le> n \<and> n \<le> 90)"

fun split_camel :: "string \<Rightarrow> string" where
  "split_camel (c # d # s) =
     (if is_lower_or_digit c \<and> is_upper d then c # CHR '' '' # d # split_camel s
      else c # split_camel (d # s))"
| "split_camel s = s"

definition humanize :: "string \<Rightarrow> string" where
  "humanize value = lower (split_camel value)"

subsection \<open>Escaped text is safe\<close>

lemma replace_char_free: "c \<notin> set by_text \<Longrightarrow> c \<notin> set (replace_char c by_text s)"
  by (auto simp: replace_char_def)

lemma replace_char_keeps_free: "d \<notin> set by_text \<Longrightarrow> d \<notin> set s \<Longrightarrow> d \<notin> set (replace_char c by_text s)"
  by (auto simp: replace_char_def)

lemma newlines_to_spaces_no_LF: "LF \<notin> set (newlines_to_spaces s)"
  by (induction s rule: newlines_to_spaces.induct) auto

lemma unify_newlines_no_CR: "CR \<notin> set (unify_newlines s)"
  by (induction s rule: unify_newlines.induct) auto

text \<open>A pipe of a table row separates cells unless a backslash stands right before it.\<close>

fun has_bare_pipe :: "char \<Rightarrow> string \<Rightarrow> bool" where
  "has_bare_pipe before [] = False"
| "has_bare_pipe before (c # s) = (c = CHR ''|'' \<and> before \<noteq> CHR 0x5C \<or> has_bare_pipe c s)"

lemma has_bare_pipe_before: "s = [] \<or> hd s \<noteq> CHR ''|'' \<Longrightarrow> has_bare_pipe b s = has_bare_pipe b' s"
  by (cases s) auto

lemma newlines_to_spaces_head:
  "s \<noteq> [] \<Longrightarrow> hd s \<noteq> LF \<Longrightarrow> hd s \<noteq> CR \<Longrightarrow> newlines_to_spaces s = hd s # newlines_to_spaces (tl s)"
  by (cases s rule: newlines_to_spaces.cases) auto

lemma newlines_to_spaces_hd: "newlines_to_spaces s = [] \<or> hd (newlines_to_spaces s) = hd s \<or> hd (newlines_to_spaces s) = CHR '' ''"
  by (cases s rule: newlines_to_spaces.cases) auto

lemma bare_pipe_blank: "b \<noteq> CHR 0x5C \<Longrightarrow> \<not> has_bare_pipe b t \<Longrightarrow> \<not> has_bare_pipe b' t"
  by (cases t) auto

lemma newlines_keep_pipes: "\<not> has_bare_pipe b s \<Longrightarrow> \<not> has_bare_pipe b (newlines_to_spaces s)"
proof (induction s arbitrary: b rule: newlines_to_spaces.induct)
  case (3 c d s)
  consider (crlf) "c = CR" "d = LF" | (lf) "c = LF" | (other) "\<not> (c = CR \<and> d = LF)" "c \<noteq> LF" by blast
  then show ?case
  proof cases
    case crlf
    with 3(4) have "\<not> has_bare_pipe LF s" by simp
    then have "\<not> has_bare_pipe CHR '' '' s" by (rule bare_pipe_blank [rotated]) simp
    with 3(1) crlf show ?thesis by simp
  next
    case lf
    with 3(4) have "\<not> has_bare_pipe LF (d # s)" by simp
    then have "\<not> has_bare_pipe CHR '' '' (d # s)" by (rule bare_pipe_blank [rotated]) simp
    with 3(2) lf show ?thesis by simp
  next
    case other
    with 3(4) have "\<not> has_bare_pipe c (d # s)" "\<not> (c = CHR ''|'' \<and> b \<noteq> CHR 0x5C)" by simp_all
    with 3(3) [of c] other show ?thesis by (cases "c = CR") simp_all
  qed
qed auto

lemma escaped_pipes: "\<not> has_bare_pipe b (replace_char CHR ''|'' [CHR 0x5C, CHR ''|''] s)"
  by (induction s arbitrary: b) (auto simp: replace_char_def)

text \<open>
  The text of a table cell can neither end its row nor start another cell: it has no
  line feed and every pipe in it is escaped, whatever the captured text.
\<close>
lemma table_cell_safe:
  "LF \<notin> set (table_cell value) \<and> \<not> has_bare_pipe before (table_cell value)"
  by (simp add: table_cell_def newlines_to_spaces_no_LF newlines_keep_pipes escaped_pipes)

text \<open>A lone carriage return, which Markdown also reads as the end of a line, is kept.\<close>

lemma table_cell_keeps_CR: "CR \<in> set (table_cell [CHR ''a'', CR, CHR ''b''])"
  by (simp add: table_cell_def replace_char_def)

definition escape_char :: "char \<Rightarrow> string" where
  "escape_char c =
     (if c = CHR ''&'' then ''&amp;'' else if c = CHR ''<'' then ''&lt;''
      else if c = CHR ''>'' then ''&gt;'' else [c])"

lemma replace_char_simps [simp]:
  "replace_char c t [] = []"
  "replace_char c t (x # s) = (if x = c then t else [x]) @ replace_char c t s"
  "replace_char c t (s @ s') = replace_char c t s @ replace_char c t s'"
  by (simp_all add: replace_char_def)

lemma escape_html_eq: "escape_html s = concat (map escape_char s)"
  by (induction s) (auto simp: escape_html_def escape_char_def)

text \<open>What a browser shows for escaped text.\<close>

fun unescape :: "string \<Rightarrow> string" where
  "unescape [] = []"
| "unescape (c # s) =
     (if c = CHR ''&'' then
        if take 4 s = ''amp;'' then CHR ''&'' # unescape (drop 4 s)
        else if take 3 s = ''lt;'' then CHR ''<'' # unescape (drop 3 s)
        else if take 3 s = ''gt;'' then CHR ''>'' # unescape (drop 3 s)
        else c # unescape s
      else c # unescape s)"

lemma unescape_escape: "unescape (escape_html s @ t) = s @ unescape t"
  by (induction s) (auto simp: escape_html_eq escape_char_def)

lemma escape_html_set: "set (escape_html s) \<subseteq> (set s - {CHR ''<'', CHR ''>''}) \<union> set ''&amp;lt;gt;''"
  by (auto simp: escape_html_eq escape_char_def split: if_splits)

text \<open>
  Escaping removes every angle bracket and loses nothing: a browser shows the original
  text, in particular the order of the three replacements does not escape twice.
\<close>
lemma escape_html_ok:
  "CHR ''<'' \<notin> set (escape_html value) \<and> CHR ''>'' \<notin> set (escape_html value) \<and> unescape (escape_html value) = value"
  using escape_html_set [of "value"] unescape_escape [of "value" "[]"] by auto

lemma split_on_no_sep: "list_all (\<lambda>l. c \<notin> set l) (split_on c s)"
  by (induction s) (auto split: list.split)

lemma split_on_nonempty: "split_on c s \<noteq> []"
  by (induction s) (auto split: list.split)

lemma join_split_on: "join_with [c] (split_on c s) = s"
proof (induction s)
  case (Cons x s)
  obtain l ls where "split_on c s = l # ls" using split_on_nonempty [of c s] by (cases "split_on c s") auto
  with Cons show ?case by (cases ls) auto
qed simp

lemma set_split_on: "l \<in> set (split_on c s) \<Longrightarrow> set l \<subseteq> set s"
proof (induction s arbitrary: l)
  case (Cons x s)
  obtain m ls where m: "split_on c s = m # ls" using split_on_nonempty [of c s] by (cases "split_on c s") auto
  have "set m \<subseteq> set s" "\<And>l. l \<in> set ls \<Longrightarrow> set l \<subseteq> set s" using Cons.IH m by auto
  with Cons.prems show ?case by (auto simp: m split: if_splits)
qed simp

lemma set_break_before_errors: "set (break_before_errors s) \<subseteq> insert LF (set s)"
  by (induction s rule: break_before_errors.induct) auto

lemma set_dropWhile_subset: "set (dropWhile P s) \<subseteq> set s"
  by (auto dest: set_dropWhileD)

lemma set_js_trim: "set (js_trim s) \<subseteq> set s"
  using set_dropWhile_subset [of is_space "rev (dropWhile is_space s)"] set_dropWhile_subset [of is_space s]
  by (auto simp: js_trim_def)

lemma show_nat_codes: "c \<in> set (show_nat n) \<Longrightarrow> 48 \<le> (of_char c :: nat)"
proof (induction n rule: show_nat.induct)
  case (1 n)
  then show ?case by (subst (asm) (2) show_nat.simps) (auto split: if_splits)
qed

lemma bounded_diagnostic_chars:
  assumes "c \<in> set (bounded_diagnostic ellipsis s)" "c \<notin> set s" "c \<notin> set ellipsis" shows "c \<noteq> CR"
proof
  assume "c = CR"
  moreover from this have "c \<notin> set (show_nat n)" for n using show_nat_codes [of c n] by auto
  ultimately show False
    using assms by (auto simp: bounded_diagnostic_def Let_def split: if_splits dest: in_set_takeD in_set_dropD)
qed

lemma quoted_text_no_CR:
  "CR \<notin> set ellipsis \<Longrightarrow> CR \<notin> set (break_before_errors (bounded_diagnostic ellipsis (js_trim (unify_newlines value))))"
  using set_break_before_errors bounded_diagnostic_chars set_js_trim unify_newlines_no_CR by fastforce

text \<open>
  A captured error is quoted line by line: the result has at least one line, every line
  starts with the quote mark, none contains a line break or an angle bracket, so a
  captured text can neither leave the quote nor inject HTML; and joining the lines a browser
  shows gives back the bounded text.
\<close>
lemma diagnostic_quote_safe:
  assumes "CR \<notin> set ellipsis"
  shows "\<exists>ls. diagnostic_quote ellipsis value = map (\<lambda>l. ''> '' @ l) ls \<and> ls \<noteq> [] \<and>
    list_all (\<lambda>l. set l \<inter> {LF, CR, CHR ''<'', CHR ''>''} = {}) ls \<and>
    join_with [LF] (map unescape ls) = break_before_errors (bounded_diagnostic ellipsis (js_trim (unify_newlines value)))"
proof -
  let ?b = "break_before_errors (bounded_diagnostic ellipsis (js_trim (unify_newlines value)))"
  let ?ls = "map escape_html (split_on LF ?b)"
  have "set l \<inter> {LF, CR, CHR ''<'', CHR ''>''} = {}" if "l \<in> set ?ls" for l
  proof -
    from that obtain k where k: "k \<in> set (split_on LF ?b)" "l = escape_html k" by auto
    then have "LF \<notin> set k" "CR \<notin> set k"
      using split_on_no_sep [of LF ?b] set_split_on [OF k(1)] quoted_text_no_CR [OF assms, of "value"] by (auto simp: list_all_iff)
    then show ?thesis using escape_html_set [of k] k(2) by auto
  qed
  moreover have "map unescape ?ls = split_on LF ?b" using unescape_escape [of _ "[]"] by (simp add: map_idI)
  then have "join_with [LF] (map unescape ?ls) = ?b" by (simp only: join_split_on)
  moreover have "?ls \<noteq> []" using split_on_nonempty by simp
  moreover have "diagnostic_quote ellipsis value = map (\<lambda>l. ''> '' @ l) ?ls"
    by (simp add: diagnostic_quote_def Let_def)
  ultimately show ?thesis unfolding list_all_iff by blast
qed

lemma sample_quote: "diagnostic_quote ''...'' ''a<b; Error: c'' = [''> a&lt;b;'', ''> Error: c'']"
  by code_simp

lemma diagnostic_quote_safe_witness:
  "diagnostic_quote ''...'' ''a<b; Error: c'' = [''> a&lt;b;'', ''> Error: c''] \<and>
   (\<exists>ls. diagnostic_quote ''...'' ''a<b; Error: c'' = map (\<lambda>l. ''> '' @ l) ls \<and> ls \<noteq> [])"
proof -
  have "CR \<notin> set ''...''" by simp
  from diagnostic_quote_safe [OF this, of "''a<b; Error: c''"] sample_quote show ?thesis by blast
qed

text \<open>
  A failed report always says why: at least one reason is listed, so the fallback
  sentence is never printed.
\<close>
lemma failed_report_has_reason:
  "let rep = build_destroyer_report expected results analysisResult matrixResult generated run
   in rep_verdict rep = Failed \<longleftrightarrow> failure_reasons rep \<noteq> []"
  by (auto simp: build_destroyer_report_def Let_def failure_reasons_def)

text \<open>The seconds of a label are rounded after the minutes were split off.\<close>

lemma duration_label_sixty: "duration_label (Some 119960) = ''1m 60.0s''"
  by code_simp

end
