(* ===== verification/ReportAnalysis.thy ===== *)
theory ReportAnalysis
  imports Report
begin

text \<open>
  The analysis of a scenario's artifacts (src/report-analysis.ts): the pressure evidence, and for a
  failed scenario the known signals counted in its log files.  The directory and the files
  are inputs.
\<close>

subsection \<open>The signals\<close>

text \<open>A pattern is a literal, or two literals with \<^verbatim>\<open>.*\<close> between them.\<close>

datatype log_pattern = Literal string | Spanning string string

record observation_definition =
  od_code :: string
  od_message :: string
  od_pattern :: log_pattern

definition observation_definitions :: "observation_definition list" where
  "observation_definitions =
     [\<lparr>od_code = ''actor-stopped'', od_message = ''Fitz reported delivery to an actor that had stopped'',
       od_pattern = Literal ''Actor has stopped''\<rparr>,
      \<lparr>od_code = ''connection-loss'', od_message = ''Clients recorded a Fitz connection-loss event'',
       od_pattern = Literal ''fitz.connection.lost''\<rparr>,
      \<lparr>od_code = ''storage-object-missing'', od_message = ''Fitz reported a message body disappearing from storage'',
       od_pattern = Literal ''disappeared from storage''\<rparr>,
      \<lparr>od_code = ''queue-command-timeout'', od_message = ''Fitz reported a Queue actor command reply timing out'',
       od_pattern = Spanning ''Queue actor command reply failed'' ''timed out waiting on receive operation''\<rparr>,
      \<lparr>od_code = ''kv-inventory-update-failure'', od_message = ''Fitz reported a KV inventory estimate update failure'',
       od_pattern = Literal ''KV inventory estimate update failed''\<rparr>]"

text \<open>
  \<^verbatim>\<open>line.match(/literal/gu)?.length ?? 0\<close>; \<^verbatim>\<open>skip\<close> is what is left of the match before.  The greedy
  \<^verbatim>\<open>.*\<close> runs to the last occurrence of the second literal, so a line matches at most once; a line
  of \<^verbatim>\<open>readline\<close> holds no line break, which is all that a dot does not match.
\<close>

fun count_literal :: "string \<Rightarrow> nat \<Rightarrow> string \<Rightarrow> nat" where
  "count_literal lit skip [] = 0"
| "count_literal lit skip (c # s) =
     (if skip > 0 then count_literal lit (skip - 1) s
      else if take (length lit) (c # s) = lit then Suc (count_literal lit (length lit - 1) s)
      else count_literal lit 0 s)"

fun after_literal :: "string \<Rightarrow> string \<Rightarrow> string option" where
  "after_literal lit s =
     (if take (length lit) s = lit then Some (drop (length lit) s)
      else (case s of [] \<Rightarrow> None | _ # t \<Rightarrow> after_literal lit t))"

declare after_literal.simps [simp del]

fun count_pattern :: "log_pattern \<Rightarrow> string \<Rightarrow> nat" where
  "count_pattern (Literal lit) line = count_literal lit 0 line"
| "count_pattern (Spanning a b) line =
     (case after_literal a line of
        None \<Rightarrow> 0
      | Some rest \<Rightarrow> if after_literal b rest = None then 0 else 1)"

subsection \<open>analyzeLogs\<close>

record directory_entry =
  de_name :: string
  de_is_file :: bool
  de_lines :: "string list"

type_synonym observed_files = "(string, (string, nat) js_map) js_map"

definition observe :: "string \<Rightarrow> string \<Rightarrow> observed_files \<Rightarrow> observation_definition \<Rightarrow> observed_files" where
  "observe file line obs d =
     (let occurrences = count_pattern (od_pattern d) line in
      if occurrences = 0 then obs
      else map_set obs (od_code d) (map_bump (get_or [] (map_get obs (od_code d))) file occurrences))"

definition scan_line :: "string \<Rightarrow> observed_files \<Rightarrow> string \<Rightarrow> observed_files" where
  "scan_line file obs line = foldl (observe file line) obs observation_definitions"

definition scan_file :: "observed_files \<Rightarrow> directory_entry \<Rightarrow> observed_files" where
  "scan_file obs e = foldl (scan_line (de_name e)) obs (de_lines e)"

definition ends_with :: "string \<Rightarrow> string \<Rightarrow> bool" where
  "ends_with ending s = (length ending \<le> length s \<and> drop (length s - length ending) s = ending)"

definition log_files :: "directory_entry list \<Rightarrow> directory_entry list" where
  "log_files directory = sort_key de_name (filter (\<lambda>e. de_is_file e \<and> ends_with ''.log'' (de_name e)) directory)"

definition observation_of :: "observed_files \<Rightarrow> observation_definition \<Rightarrow> report_observation list" where
  "observation_of obs d =
     (case map_get obs (od_code d) of
        None \<Rightarrow> []
      | Some result \<Rightarrow>
          let entries = (if od_code d = ''connection-loss'' \<and> list_ex (\<lambda>file. file \<noteq> ''compose.log'') (map_keys result)
                         then filter (\<lambda>(file, _). file \<noteq> ''compose.log'') result else result)
          in if entries = [] then []
             else [\<lparr>ob_code = od_code d, ob_message = od_message d,
                    ob_occurrences = foldl (\<lambda>total (_, n). total + n) 0 entries,
                    ob_files = sort (map fst entries)\<rparr>])"

definition analyze_logs :: "directory_entry list \<Rightarrow> report_observation list" where
  "analyze_logs directory =
     (let obs = foldl scan_file [] (log_files directory)
      in concat (map (observation_of obs) observation_definitions))"

subsection \<open>The pressure evidence and the analysis\<close>

definition numeric_record :: "json option \<Rightarrow> (string, rat option) js_map option" where
  "numeric_record j =
     (case j of
        Some (JObj m) \<Rightarrow>
          (let entries = List.map_filter
             (\<lambda>(k, v). case v of JNull \<Rightarrow> Some (k, None) | JNum x \<Rightarrow> Some (k, Some x) | _ \<Rightarrow> None) m
           in if entries = [] then None else Some entries)
      | _ \<Rightarrow> None)"

definition warning_of_json :: "json \<Rightarrow> report_warning option" where
  "warning_of_json j =
     (case (json_get j ''code'', json_get j ''message'') of
        (Some (JStr c), Some (JStr m)) \<Rightarrow>
          Some \<lparr>wa_code = c, wa_message = plain_text m,
                wa_details = (case json_get j ''details'' of Some (JObj d) \<Rightarrow> Some (JObj d) | _ \<Rightarrow> None)\<rparr>
      | _ \<Rightarrow> None)"

definition read_report_pressure :: "file_read \<Rightarrow> report_warning list \<times> (string, rat option) js_map option" where
  "read_report_pressure file =
     (case file of
        MissingFile \<Rightarrow> ([], None)
      | _ \<Rightarrow>
          (case read_pressure_evidence file of
             Inl e \<Rightarrow> ([\<lparr>wa_code = ''pressure-evidence-unreadable'', wa_message = e, wa_details = None\<rparr>], None)
           | Inr evidence \<Rightarrow>
               (case evidence of
                  JObj _ \<Rightarrow>
                    (case json_get evidence ''warnings'' of
                       Some (JArr ws) \<Rightarrow> List.map_filter warning_of_json ws
                     | _ \<Rightarrow> [],
                     numeric_record (json_get evidence ''brokerSummary''))
                | _ \<Rightarrow> ([], None))))"

text \<open>Listing or reading the directory may throw, which is \<^verbatim>\<open>Inl\<close> of the message.\<close>

definition analyze_scenario_artifacts ::
  "file_read \<Rightarrow> file_read \<Rightarrow> string + directory_entry list \<Rightarrow> string \<Rightarrow> verdict \<Rightarrow> rat option \<Rightarrow> report_analysis" where
  "analyze_scenario_artifacts events_file pressure_file directory chosen outcome duration =
     (let (pressure_warnings, broker_summary) = read_report_pressure pressure_file;
          (found, failures) =
            (if outcome = Failed then
               (case directory of
                  Inl message \<Rightarrow> ([], [\<lparr>wa_code = ''failure-logs-unreadable'', wa_message = plain_text message, wa_details = None\<rparr>])
                | Inr entries \<Rightarrow> (analyze_logs entries, []))
             else ([], []))
      in \<lparr>an_observations = found, an_warnings = pressure_warnings @ failures, an_brokerSummary = broker_summary,
          an_guidance = extract_operational_guidance events_file pressure_file chosen duration\<rparr>)"

subsection \<open>What analyzeLogs counts\<close>

definition file_total :: "observation_definition \<Rightarrow> directory_entry \<Rightarrow> nat" where
  "file_total d e = sum_list (map (count_pattern (od_pattern d)) (de_lines e))"

definition file_hits :: "observation_definition \<Rightarrow> directory_entry list \<Rightarrow> (string \<times> nat) list" where
  "file_hits d es = map (\<lambda>e. (de_name e, file_total d e)) (filter (\<lambda>e. file_total d e > 0) es)"

lemma map_bump_bump: "map_bump (map_bump m k a) k b = map_bump m k (a + b)"
proof -
  have "map_set (map_set m k v) k w = map_set m k w" for v w
    by (induction m k v rule: map_set.induct) auto
  then show ?thesis by (simp add: map_bump_def add.assoc)
qed

lemma map_bump_new: "k \<notin> set (map_keys m) \<Longrightarrow> map_bump m k n = m @ [(k, n)]"
proof -
  assume new: "k \<notin> set (map_keys m)"
  then have "map_get m k = None" by (simp add: map_keys_get)
  moreover have "map_set m k v = m @ [(k, v)]" for v
    using new by (induction m k v rule: map_set.induct) (auto simp: map_keys_def)
  ultimately show ?thesis by (simp add: map_bump_def)
qed

definition bump_file :: "string \<Rightarrow> (string, nat) js_map option \<Rightarrow> nat \<Rightarrow> (string, nat) js_map option" where
  "bump_file file m n = (if n = 0 then m else Some (map_bump (get_or [] m) file n))"

lemma observe_get:
  "map_get (observe file line obs d) c =
     (if c = od_code d then bump_file file (map_get obs c) (count_pattern (od_pattern d) line) else map_get obs c)"
  by (simp add: observe_def bump_file_def Let_def)

lemma observe_all_get:
  "distinct (map od_code ds) \<Longrightarrow> d \<in> set ds \<Longrightarrow>
   map_get (foldl (observe file line) obs ds) (od_code d) =
     bump_file file (map_get obs (od_code d)) (count_pattern (od_pattern d) line)"
proof (induction ds arbitrary: obs)
  case (Cons e ds)
  have other: "od_code d \<notin> od_code ` set es \<Longrightarrow> map_get (foldl (observe file line) obs es) (od_code d) = map_get obs (od_code d)" for es obs
    by (induction es arbitrary: obs) (auto simp: observe_get)
  show ?case
  proof (cases "d = e")
    case True
    then show ?thesis using Cons.prems other [of ds] by (simp add: observe_get)
  next
    case False
    then have d: "d \<in> set ds" using Cons.prems by simp
    then have "od_code d \<noteq> od_code e" using Cons.prems by (metis distinct.simps(2) list.simps(9) image_eqI list.set_map)
    with d show ?thesis using Cons by (simp add: observe_get)
  qed
qed simp

lemma distinct_codes: "distinct (map od_code observation_definitions)"
  by (simp add: observation_definitions_def)

lemma scan_line_get:
  "d \<in> set observation_definitions \<Longrightarrow> map_get (scan_line file obs line) (od_code d) =
     bump_file file (map_get obs (od_code d)) (count_pattern (od_pattern d) line)"
  unfolding scan_line_def by (rule observe_all_get [OF distinct_codes])

lemma bump_file_add: "bump_file file (bump_file file m a) b = bump_file file m (a + b)"
  by (simp add: bump_file_def map_bump_bump)

lemma scan_file_get:
  assumes "d \<in> set observation_definitions"
  shows "map_get (scan_file obs e) (od_code d) = bump_file (de_name e) (map_get obs (od_code d)) (file_total d e)"
proof -
  have "map_get (foldl (scan_line f) obs ls) (od_code d) =
      bump_file f (map_get obs (od_code d)) (sum_list (map (count_pattern (od_pattern d)) ls))" for f ls
    by (induction ls arbitrary: obs) (simp_all add: scan_line_get [OF assms] bump_file_add, simp add: bump_file_def)
  then show ?thesis by (simp add: scan_file_def file_total_def)
qed

lemma scan_files_get:
  assumes "d \<in> set observation_definitions"
  shows "distinct (map de_name es) \<Longrightarrow>
    map_get (foldl scan_file [] es) (od_code d) = (if file_hits d es = [] then None else Some (file_hits d es))"
proof (induction es rule: rev_induct)
  case (snoc e es)
  have "de_name e \<notin> set (map_keys (file_hits d es))"
    using snoc.prems by (auto simp: file_hits_def map_keys_def)
  then have "map_bump (file_hits d es) (de_name e) n = file_hits d es @ [(de_name e, n)]" for n by (rule map_bump_new)
  with snoc show ?case
    by (auto simp: scan_file_get [OF assms] bump_file_def file_hits_def map_bump_def)
qed (simp add: file_hits_def)

definition observation_spec :: "observation_definition \<Rightarrow> directory_entry list \<Rightarrow> report_observation list" where
  "observation_spec d logs =
     (let hits = (if od_code d = ''connection-loss'' \<and> list_ex (\<lambda>e. de_name e \<noteq> ''compose.log'' \<and> file_total d e > 0) logs
                  then file_hits d (filter (\<lambda>e. de_name e \<noteq> ''compose.log'') logs) else file_hits d logs)
      in if hits = [] then []
         else [\<lparr>ob_code = od_code d, ob_message = od_message d, ob_occurrences = sum_list (map snd hits), ob_files = map fst hits\<rparr>])"

lemma foldl_total: "foldl (\<lambda>total (_, n). total + n) a hits = a + sum_list (map snd hits)" for a :: nat
  by (induction hits arbitrary: a) auto

lemma file_hits_filter:
  "filter (\<lambda>(file, _). file \<noteq> ''compose.log'') (file_hits d es) = file_hits d (filter (\<lambda>e. de_name e \<noteq> ''compose.log'') es)"
  by (induction es) (auto simp: file_hits_def)

lemma file_hits_sorted: "sorted (map de_name es) \<Longrightarrow> sort (map fst (file_hits d es)) = map fst (file_hits d es)"
  by (simp add: file_hits_def comp_def sorted_filter sort_key_id_if_sorted)

lemma observation_of_spec:
  assumes "d \<in> set observation_definitions" "distinct (map de_name es)" "sorted (map de_name es)"
  shows "observation_of (foldl scan_file [] es) d = observation_spec d es"
proof -
  have "sorted (map de_name (filter P es))" for P using assms(3) by (rule sorted_filter)
  note sorts = file_hits_sorted [OF this] file_hits_sorted [OF assms(3)]
  have ex: "list_ex (\<lambda>file. file \<noteq> ''compose.log'') (map_keys (file_hits d es)) \<longleftrightarrow>
      list_ex (\<lambda>e. de_name e \<noteq> ''compose.log'' \<and> file_total d e > 0) es"
    by (auto simp: list_ex_iff map_keys_def file_hits_def)
  have get: "map_get (foldl scan_file [] es) (od_code d) = (if file_hits d es = [] then None else Some (file_hits d es))"
    using scan_files_get [OF assms(1,2)] .
  have sorts_if: "sort (map fst (if c then file_hits d (filter P es) else file_hits d es)) =
      map fst (if c then file_hits d (filter P es) else file_hits d es)" for c P
    by (simp add: sorts)
  show ?thesis
  proof (cases "file_hits d es = []")
    case True
    then have "file_hits d (filter P es) = []" for P by (auto simp: file_hits_def filter_empty_conv)
    with True show ?thesis by (simp add: observation_of_def get observation_spec_def)
  next
    case False
    then show ?thesis
      by (simp only: observation_of_def get observation_spec_def Let_def foldl_total file_hits_filter ex sorts_if if_False option.case add_0)
  qed
qed

text \<open>
  The signals of a failed scenario are exact: for every known pattern, in the fixed order,
  the log files with a match are listed in order with the total of their matches over all
  lines, and the pattern is absent when no file has one; connection losses of the Compose log
  count only when no other file has any.
\<close>
lemma analyze_logs_exact:
  assumes "distinct (map de_name directory)"
  shows "analyze_logs directory = concat (map (\<lambda>d. observation_spec d (log_files directory)) observation_definitions)"
proof -
  have "distinct (map de_name (log_files directory))"
    using assms by (simp add: log_files_def distinct_map_filter distinct_map)
       (auto simp: distinct_map inj_on_def)
  moreover have "sorted (map de_name (log_files directory))" by (simp add: log_files_def)
  ultimately have "observation_of (foldl scan_file [] (log_files directory)) d = observation_spec d (log_files directory)"
    if "d \<in> set observation_definitions" for d using that by (intro observation_of_spec)
  then show ?thesis unfolding analyze_logs_def Let_def by (intro arg_cong [where f = concat] map_cong) simp_all
qed

lemma analyze_logs_exact_witness:
  "let log = (\<lambda>name. \<lparr>de_name = name, de_is_file = True, de_lines = [''x fitz.connection.lost fitz.connection.lost'']\<rparr>)
   in map ob_occurrences (analyze_logs [log ''compose.log'', log ''a.log'']) = [2]"
proof -
  let ?log = "\<lambda>name. \<lparr>de_name = name, de_is_file = True, de_lines = [''x fitz.connection.lost fitz.connection.lost'']\<rparr>"
  have "distinct (map de_name [?log ''compose.log'', ?log ''a.log''])" by simp
  note analyze_logs_exact [OF this]
  moreover have "map ob_occurrences (concat (map (\<lambda>d. observation_spec d (log_files [?log ''compose.log'', ?log ''a.log'']))
      observation_definitions)) = [2]"
    by code_simp
  ultimately show ?thesis by (simp add: Let_def)
qed

end
