(* ===== verification/RawProtocol.thy ===== *)
theory RawProtocol
  imports Model JsNumber
begin

unbundle bit_operations_syntax

text \<open>
  The raw protocol client of the wire tests (src/workloads/raw-protocol.ts): the TLV and
  primitive codecs, and the TCP and WebSocket connections.  A connection is a state machine
  whose events are the callbacks of the socket, the calls of \<^verbatim>\<open>receive\<close> and their timers; a
  promise is the number of its \<^verbatim>\<open>receive\<close> call, and its first settlement is its outcome.
\<close>

subsection \<open>Type-length-value records\<close>

type_synonym bytes = "byte list"

record tlv =
  tlv_type :: nat
  tlv_payload :: bytes

text \<open>The two bytes \<^verbatim>\<open>n >>> 8\<close> and \<^verbatim>\<open>n & 0xff\<close> of a number, and \<^verbatim>\<open>(a << 8) | b\<close> back.\<close>

definition high_byte :: "32 word \<Rightarrow> byte" where
  "high_byte n = ucast (drop_bit 8 n)"

definition low_byte :: "32 word \<Rightarrow> byte" where
  "low_byte n = ucast (n AND 0xff)"

definition be16 :: "byte \<Rightarrow> byte \<Rightarrow> nat" where
  "be16 a b = unat (push_bit 8 (ucast a :: 32 word) OR ucast b)"

definition encode_tlv :: "rat \<Rightarrow> bytes \<Rightarrow> bytes result" where
  "encode_tlv type payload =
     (if type \<noteq> of_int \<lfloor>type\<rfloor> \<or> type < 0 \<or> type > 0xffff
      then Inl (Error ''TLV type $ is outside u16'' [ARat type])
      else if length payload > 0xffff
      then Inl (Error ''TLV payload is too large: $'' [ANat (length payload)])
      else
        (let t = word_of_int \<lfloor>type\<rfloor>; n = word_of_nat (length payload)
         in Inr ((if type \<le> 0xfe then [ucast t] else [0xff, high_byte t, low_byte t]) @
              [high_byte n, low_byte n] @ payload)))"

definition read_tlv_type :: "bytes \<Rightarrow> nat \<Rightarrow> (nat \<times> nat) result" where
  "read_tlv_type frame offset =
     (if frame ! offset = 0xff then
        if offset + 1 + 2 > length frame then Inl (Error ''TLV frame ended in escaped type'' [])
        else Inr (be16 (frame ! (offset + 1)) (frame ! (offset + 2)), offset + 3)
      else Inr (unat (frame ! offset), offset + 1))"

definition read_tlv_value :: "bytes \<Rightarrow> nat \<Rightarrow> (bytes \<times> nat) result" where
  "read_tlv_value frame offset =
     (if offset + 2 > length frame then Inl (Error ''TLV frame ended in length'' [])
      else
        let len = be16 (frame ! offset) (frame ! (offset + 1)); start = offset + 2
        in if start + len > length frame
           then Inl (Error ''TLV value is incomplete: need $, have $'' [ANat len, ANat (length frame - start)])
           else Inr (take len (drop start frame), start + len))"

definition read_tlv :: "bytes \<Rightarrow> nat \<Rightarrow> (tlv \<times> nat) result" where
  "read_tlv frame offset =
     try_in (read_tlv_type frame offset) (\<lambda>(t, offset1).
     try_in (read_tlv_value frame offset1) (\<lambda>(payload, offset2).
     Inr (\<lparr>tlv_type = t, tlv_payload = payload\<rparr>, offset2)))"

lemma read_tlv_type_offset: "read_tlv_type frame offset = Inr (t, offset1) \<Longrightarrow> offset < offset1"
  by (auto simp: read_tlv_type_def split: if_splits)

lemma read_tlv_value_offset: "read_tlv_value frame offset = Inr (p, offset1) \<Longrightarrow> offset < offset1 \<and> offset1 \<le> length frame"
  by (auto simp: read_tlv_value_def Let_def split: if_splits)

lemma read_tlv_offset: "read_tlv frame offset = Inr (r, offset') \<Longrightarrow> offset < offset' \<and> offset' \<le> length frame"
  by (auto simp: read_tlv_def result_simps dest!: read_tlv_type_offset read_tlv_value_offset)

function decode_loop :: "bytes \<Rightarrow> nat \<Rightarrow> tlv list \<Rightarrow> tlv list result" where
  "decode_loop frame offset records =
     (if offset < length frame then
        case read_tlv frame offset of
          Inl e \<Rightarrow> Inl e
        | Inr (r, offset') \<Rightarrow> decode_loop frame offset' (records @ [r])
      else Inr records)"
  by pat_completeness auto

termination
  by (relation "measure (\<lambda>(frame, offset, _). length frame - offset)") (auto dest: read_tlv_offset)

declare decode_loop.simps [simp del]

definition decode_tlvs :: "bytes \<Rightarrow> tlv list result" where
  "decode_tlvs frame =
     try_in (decode_loop frame 0 []) (\<lambda>records.
     if records = [] then Inl (Error ''TLV frame is empty'' []) else Inr records)"

subsection \<open>Primitives\<close>

text \<open>\<^verbatim>\<open>DataView.setUint32\<close> and \<^verbatim>\<open>getUint32\<close>, big-endian; the value is taken modulo 2 to the 32nd.\<close>

definition set_u32 :: "32 word \<Rightarrow> bytes" where
  "set_u32 w = [ucast (drop_bit 24 w), ucast (drop_bit 16 w), ucast (drop_bit 8 w), ucast w]"

definition get_u32 :: "bytes \<Rightarrow> nat \<Rightarrow> 32 word" where
  "get_u32 bs i =
     push_bit 24 (ucast (bs ! i)) OR push_bit 16 (ucast (bs ! (i + 1))) OR
     push_bit 8 (ucast (bs ! (i + 2))) OR ucast (bs ! (i + 3))"

definition encode_bytes :: "bytes \<Rightarrow> bytes" where
  "encode_bytes value = set_u32 (word_of_nat (length value)) @ value"

definition encode_string :: "string \<Rightarrow> bytes" where
  "encode_string value = encode_bytes (utf8 value)"

definition encode_u64 :: "int \<Rightarrow> bytes" where
  "encode_u64 value =
     (let w = word_of_int value :: 64 word in set_u32 (ucast (drop_bit 32 w)) @ set_u32 (ucast w))"

definition encode_u32 :: "rat \<Rightarrow> bytes result" where
  "encode_u32 value =
     (if value \<noteq> of_int \<lfloor>value\<rfloor> \<or> value < 0 \<or> value > 0xffffffff
      then Inl (Error ''u32 value $ is invalid'' [ARat value])
      else Inr (set_u32 (word_of_int \<lfloor>value\<rfloor>)))"

definition concat_bytes :: "bytes list \<Rightarrow> bytes" where
  "concat_bytes parts = fold (\<lambda>part done. done @ part) parts []"

definition encode_tcp_frame :: "bytes \<Rightarrow> bytes" where
  "encode_tcp_frame frame = set_u32 (word_of_nat (length frame)) @ frame"

text \<open>
  \<^verbatim>\<open>decodeStandardResponse\<close>; \<^verbatim>\<open>TextDecoder\<close> is the argument \<^verbatim>\<open>decode_text\<close>.
\<close>

datatype standard_response =
  ResponseOk bytes
| ResponseError nat string

definition decode_standard_response :: "(bytes \<Rightarrow> string) \<Rightarrow> bytes \<Rightarrow> standard_response result" where
  "decode_standard_response decode_text payload =
     (if payload = [] then Inl (Error ''standard response is empty'' [])
      else if payload ! 0 = 0 then Inr (ResponseOk (drop 1 payload))
      else if payload ! 0 \<noteq> 1 \<or> length payload < 9
      then Inl (Error ''invalid standard response status $'' [ANat (unat (payload ! 0))])
      else
        let error_code = unat (get_u32 payload 1); message_length = unat (get_u32 payload 5)
        in if 9 + message_length > length payload
           then Inl (Error ''standard response error is truncated'' [])
           else Inr (ResponseError error_code (decode_text (take message_length (drop 9 payload)))))"

subsection \<open>Codec round trips\<close>

lemma bit_nat_less: "n < 2 ^ k \<Longrightarrow> bit (n :: nat) i \<Longrightarrow> i < k"
proof (rule ccontr)
  assume n: "n < 2 ^ k" and b: "bit n i" and "\<not> i < k"
  then have "n < 2 ^ i" by (meson linorder_not_less order_less_le_trans power_increasing one_le_numeral)
  with b show False by (simp add: bit_iff_odd)
qed

lemma byte_mask: "(0xff :: 32 word) = mask 8"
  by (simp add: mask_eq_exp_minus_1)

lemma be16_bytes:
  assumes "n < 0x10000"
  shows "be16 (high_byte (word_of_nat n)) (low_byte (word_of_nat n)) = n"
proof -
  let ?w = "word_of_nat n :: 32 word"
  have high: "i < 16" if "bit ?w i" for i
    using that assms bit_nat_less [of n 16 i] by (simp add: bit_simps)
  have "push_bit 8 (ucast (high_byte ?w)) OR ucast (low_byte ?w) = ?w"
    by (rule bit_word_eqI) (auto simp: high_byte_def low_byte_def byte_mask bit_ucast_iff bit_push_bit_iff bit_or_iff
        bit_and_iff bit_mask_iff bit_drop_bit_eq dest: high)
  then show ?thesis using assms by (simp add: be16_def unat_of_nat take_bit_nat_eq_self)
qed

lemma get_set_u32: "get_u32 (pre @ set_u32 w @ post) (length pre) = w"
proof -
  let ?b = "pre @ set_u32 w @ post"
  have idx: "?b ! length pre = ucast (drop_bit 24 w)" "?b ! (length pre + 1) = ucast (drop_bit 16 w)"
    "?b ! (length pre + 2) = ucast (drop_bit 8 w)" "?b ! (length pre + 3) = ucast w"
    by (simp_all add: nth_append set_u32_def)
  show ?thesis
    unfolding get_u32_def idx
  proof (rule bit_word_eqI)
    fix n assume "n < LENGTH(32)"
    then show "bit (push_bit 24 (ucast (ucast (drop_bit 24 w) :: byte)) OR push_bit 16 (ucast (ucast (drop_bit 16 w) :: byte)) OR
        push_bit 8 (ucast (ucast (drop_bit 8 w) :: byte)) OR ucast (ucast w :: byte) :: 32 word) n = bit w n"
      by (cases "n < 8"; cases "n < 16"; cases "n < 24")
         (auto simp: bit_ucast_iff bit_push_bit_iff bit_or_iff bit_drop_bit_eq)
  qed
qed

lemma low_byte_of_nat: "(ucast (word_of_nat n :: 32 word) :: byte) = word_of_nat n"
  by (rule bit_word_eqI) (auto simp: bit_ucast_iff bit_simps)

lemma encode_tlv_ok:
  "encode_tlv (of_nat t) payload = Inr b \<longleftrightarrow> t \<le> 0xffff \<and> length payload \<le> 0xffff \<and>
     b = (if t \<le> 0xfe then [word_of_nat t] else [0xff, high_byte (word_of_nat t), low_byte (word_of_nat t)]) @
         [high_byte (word_of_nat (length payload)), low_byte (word_of_nat (length payload))] @ payload"
  by (auto simp: encode_tlv_def Let_def low_byte_of_nat)

lemma read_tlv_type_encoded:
  assumes "t \<le> 0xffff"
  defines "b \<equiv> if t \<le> 0xfe then [word_of_nat t] else [0xff, high_byte (word_of_nat t), low_byte (word_of_nat t)] :: bytes"
  shows "read_tlv_type (pre @ b @ post) (length pre) = Inr (t, length pre + length b)"
proof (cases "t \<le> 0xfe")
  case True
  then have "unat (word_of_nat t :: byte) = t" by (simp add: unat_of_nat take_bit_nat_eq_self)
  moreover from this True have "(word_of_nat t :: byte) \<noteq> 0xff" by auto
  ultimately show ?thesis using True by (simp add: b_def read_tlv_type_def nth_append)
next
  case False
  then show ?thesis using be16_bytes [of t] assms(1) by (simp add: b_def read_tlv_type_def nth_append)
qed

lemma read_tlv_value_encoded:
  assumes "length p \<le> 0xffff"
  defines "b \<equiv> [high_byte (word_of_nat (length p)), low_byte (word_of_nat (length p))] @ p"
  shows "read_tlv_value (pre @ b @ post) (length pre) = Inr (p, length pre + length b)"
  using be16_bytes [of "length p"] assms(1) by (simp add: b_def read_tlv_value_def nth_append Let_def)

lemma read_tlv_encoded:
  assumes "encode_tlv (of_nat t) p = Inr b"
  shows "read_tlv (pre @ b @ post) (length pre) = Inr (\<lparr>tlv_type = t, tlv_payload = p\<rparr>, length pre + length b)"
proof -
  define ty where "ty = (if t \<le> 0xfe then [word_of_nat t] else [0xff, high_byte (word_of_nat t), low_byte (word_of_nat t)] :: bytes)"
  define va where "va = [high_byte (word_of_nat (length p)), low_byte (word_of_nat (length p))] @ p"
  have bounds: "t \<le> 0xffff" "length p \<le> 0xffff" and b: "b = ty @ va"
    using assms by (simp_all add: encode_tlv_ok ty_def va_def)
  have "read_tlv_type (pre @ b @ post) (length pre) = Inr (t, length (pre @ ty))"
    using read_tlv_type_encoded [OF bounds(1), of pre "va @ post", folded ty_def] by (simp add: b)
  moreover have "read_tlv_value (pre @ b @ post) (length (pre @ ty)) = Inr (p, length pre + length b)"
    using read_tlv_value_encoded [OF bounds(2), of "pre @ ty" post, folded va_def] by (simp add: b)
  ultimately show ?thesis by (simp add: read_tlv_def)
qed

lemma encode_tlv_nonempty: "encode_tlv t p = Inr b \<Longrightarrow> b \<noteq> []"
  by (auto simp: encode_tlv_def Let_def split: if_splits)

lemma decode_loop_encoded:
  "traverse (\<lambda>r. encode_tlv (of_nat (tlv_type r)) (tlv_payload r)) rs = Inr parts \<Longrightarrow>
   decode_loop (pre @ concat parts) (length pre) acc = Inr (acc @ rs)"
proof (induction rs arbitrary: pre parts acc)
  case Nil
  then show ?case by (simp add: decode_loop.simps)
next
  case (Cons r rs)
  from Cons.prems obtain b parts' where b: "encode_tlv (of_nat (tlv_type r)) (tlv_payload r) = Inr b"
    and rest: "traverse (\<lambda>r. encode_tlv (of_nat (tlv_type r)) (tlv_payload r)) rs = Inr parts'"
    and parts: "parts = b # parts'"
    by (auto simp: try_in_eq_Inr)
  have "read_tlv (pre @ concat parts) (length pre) = Inr (r, length (pre @ b))"
    using read_tlv_encoded [OF b, of pre "concat parts'"] by (simp add: parts)
  moreover have "length pre < length (pre @ concat parts)"
    using encode_tlv_nonempty [OF b] by (simp add: parts)
  ultimately have "decode_loop (pre @ concat parts) (length pre) acc =
      decode_loop ((pre @ b) @ concat parts') (length (pre @ b)) (acc @ [r])"
    by (subst decode_loop.simps) (simp add: parts)
  then show ?case using Cons.IH [OF rest, of "pre @ b" "acc @ [r]"] by simp
qed



subsection \<open>The standard response\<close>

lemma set_get_u32:
  assumes "i + 4 \<le> length bs" shows "set_u32 (get_u32 bs i) = take 4 (drop i bs)"
proof -
  have four: "take 4 (drop i bs) = [bs ! i, bs ! (i + 1), bs ! (i + 2), bs ! (i + 3)]"
    using assms by (intro nth_equalityI) (auto simp: less_Suc_eq numeral_eq_Suc)
  have low: "n < 8" if "bit (x :: byte) n" for x n using that bit_imp_le_length [of x n] by simp
  have "ucast (drop_bit 24 (get_u32 bs i)) = bs ! i" "ucast (drop_bit 16 (get_u32 bs i)) = bs ! (i + 1)"
    "ucast (drop_bit 8 (get_u32 bs i)) = bs ! (i + 2)" "ucast (get_u32 bs i) = bs ! (i + 3)"
    by (rule bit_word_eqI, auto simp: get_u32_def bit_ucast_iff bit_push_bit_iff bit_or_iff bit_drop_bit_eq dest: low)+
  then show ?thesis by (simp add: four set_u32_def)
qed

lemma length_set_u32 [simp]: "length (set_u32 w) = 4"
  by (simp add: set_u32_def)

text \<open>
  \<^verbatim>\<open>decodeStandardResponse\<close> accepts exactly the well-formed responses: status 0 followed by
  the data, or status 1 followed by a 32-bit code and a length-prefixed message, what comes
  after the message being ignored; anything else, the empty payload included, is an error.
\<close>
lemma standard_response_exact:
  "(decode_standard_response decode_text payload = Inr (ResponseOk body) \<longleftrightarrow> payload = 0 # body) \<and>
   (decode_standard_response decode_text payload = Inr (ResponseError code message) \<longleftrightarrow>
      (\<exists>w msg rest. payload = 1 # set_u32 w @ encode_bytes msg @ rest \<and> length msg < 2 ^ 32 \<and>
         code = unat w \<and> message = decode_text msg))"
proof (intro conjI iffI)
  assume "decode_standard_response decode_text payload = Inr (ResponseOk body)"
  then show "payload = 0 # body"
    by (cases payload) (auto simp: decode_standard_response_def Let_def split: if_splits)
next
  assume "payload = 0 # body"
  then show "decode_standard_response decode_text payload = Inr (ResponseOk body)"
    by (simp add: decode_standard_response_def)
next
  assume a: "decode_standard_response decode_text payload = Inr (ResponseError code message)"
  define n where "n = unat (get_u32 payload 5)"
  have facts: "payload \<noteq> []" "payload ! 0 = 1" "9 + n \<le> length payload"
      "code = unat (get_u32 payload 1)" "message = decode_text (take n (drop 9 payload))"
    using a by (auto simp: decode_standard_response_def Let_def n_def split: if_splits)
  define msg where "msg = take n (drop 9 payload)"
  have len: "length msg = n" using facts by (simp add: msg_def)
  have n: "word_of_nat n = get_u32 payload 5" "n < 2 ^ 32"
    unfolding n_def using unsigned_less [of "get_u32 payload 5", where 'a = nat] by simp_all
  have "payload = payload ! 0 # take 4 (drop 1 payload) @ take 4 (drop 5 payload) @ drop 9 payload"
    using facts append_take_drop_id [of 4 "drop 1 payload"] append_take_drop_id [of 4 "drop 5 payload"]
    by (cases payload) simp_all
  also have "\<dots> = 1 # set_u32 (get_u32 payload 1) @ encode_bytes msg @ drop (9 + n) payload"
    using facts set_get_u32 [of 1 payload] set_get_u32 [of 5 payload]
    by (simp add: encode_bytes_def len n(1)) (simp add: msg_def add.commute flip: drop_drop)
  finally show "\<exists>w msg rest. payload = 1 # set_u32 w @ encode_bytes msg @ rest \<and> length msg < 2 ^ 32 \<and>
      code = unat w \<and> message = decode_text msg"
    using facts n len by (metis msg_def)
next
  assume "\<exists>w msg rest. payload = 1 # set_u32 w @ encode_bytes msg @ rest \<and> length msg < 2 ^ 32 \<and>
      code = unat w \<and> message = decode_text msg"
  then obtain w msg rest where p: "payload = 1 # set_u32 w @ encode_bytes msg @ rest"
    and len: "length msg < 2 ^ 32" and res: "code = unat w" "message = decode_text msg" by blast
  have "get_u32 payload 1 = w" using get_set_u32 [of "[1]" w] by (simp add: p)
  moreover have "unat (get_u32 payload 5) = length msg"
    using get_set_u32 [of "1 # set_u32 w" "word_of_nat (length msg)" "msg @ rest"] len
    by (simp add: p encode_bytes_def unat_of_nat take_bit_nat_eq_self)
  moreover have "drop 9 payload = msg @ rest" by (simp add: p encode_bytes_def set_u32_def)
  ultimately show "decode_standard_response decode_text payload = Inr (ResponseError code message)"
    using res by (simp add: decode_standard_response_def Let_def) (simp add: p encode_bytes_def)
qed

end
