(* ===== verification/RawConnection.thy ===== *)
theory RawConnection
  imports RawProtocol
begin

text \<open>
  The connections of src/workloads/raw-protocol.ts as state machines.  An event is a callback
  of the socket, a call of \<^verbatim>\<open>receive\<close> or the expiry of its timer.  A promise is the number of
  its \<^verbatim>\<open>receive\<close> call; \<^verbatim>\<open>withTimeout\<close> races it against the timer, and the first settlement is
  the outcome.  As in the source, a timer that expires leaves the waiter in the queue.
\<close>

record connection =
  c_frames :: "bytes list"
  c_waiters :: "nat list"
  c_buffer :: bytes
  c_closed :: bool
  c_closeError :: "error option"
  c_calls :: nat
  c_outcomes :: "nat \<Rightarrow> bytes result option"

definition new_connection :: connection where
  "new_connection = \<lparr>c_frames = [], c_waiters = [], c_buffer = [], c_closed = False,
     c_closeError = None, c_calls = 0, c_outcomes = (\<lambda>_. None)\<rparr>"

text \<open>Resolving or rejecting a promise that is already settled has no effect.\<close>

definition settle :: "nat \<Rightarrow> bytes result \<Rightarrow> connection \<Rightarrow> connection" where
  "settle call outcome st =
     (if c_outcomes st call = None then st\<lparr>c_outcomes := (c_outcomes st)(call \<mapsto> outcome)\<rparr> else st)"

definition deliver :: "bytes \<Rightarrow> connection \<Rightarrow> connection" where
  "deliver frame st =
     (case c_waiters st of
        waiter # rest \<Rightarrow> settle waiter (Inr frame) (st\<lparr>c_waiters := rest\<rparr>)
      | [] \<Rightarrow> st\<lparr>c_frames := c_frames st @ [frame]\<rparr>)"

definition reject_waiters :: "error \<Rightarrow> connection \<Rightarrow> connection" where
  "reject_waiters e st = fold (\<lambda>waiter. settle waiter (Inl e)) (c_waiters st) (st\<lparr>c_waiters := []\<rparr>)"

lemma settle_buffer [simp]: "c_buffer (settle i r st) = c_buffer st"
  by (simp add: settle_def)

lemma deliver_buffer [simp]: "c_buffer (deliver f st) = c_buffer st"
  by (simp add: deliver_def split: list.splits)

text \<open>The \<^verbatim>\<open>while\<close> loop of the TCP data handler.\<close>

function drain_buffer :: "connection \<Rightarrow> connection" where
  "drain_buffer st =
     (if 4 \<le> length (c_buffer st) then
        let len = unat (get_u32 (c_buffer st) 0)
        in if length (c_buffer st) < 4 + len then st
           else
             drain_buffer (deliver (take len (drop 4 (c_buffer st)))
               (st\<lparr>c_buffer := drop (4 + len) (c_buffer st)\<rparr>))
      else st)"
  by pat_completeness auto

termination
  by (relation "measure (\<lambda>st. length (c_buffer st))") auto

declare drain_buffer.simps [simp del]

datatype socket_event =
  DataArrived bytes
| SocketError error
| SocketClosed
| ReceiveCalled
| TimerExpired nat nat

definition timeout_error :: "string \<Rightarrow> nat \<Rightarrow> error" where
  "timeout_error label ms = Error ''$ timed out after $ms'' [AStr label, ANat ms]"

definition close_error :: "string \<Rightarrow> connection \<Rightarrow> error" where
  "close_error message st = (case c_closeError st of Some e \<Rightarrow> e | None \<Rightarrow> Error message [])"

definition on_close :: "string \<Rightarrow> connection \<Rightarrow> connection" where
  "on_close message st = (let st' = st\<lparr>c_closed := True\<rparr> in reject_waiters (close_error message st') st')"

definition receive_frame :: "string \<Rightarrow> connection \<Rightarrow> connection" where
  "receive_frame message st =
     (let call = c_calls st; st' = st\<lparr>c_calls := c_calls st + 1\<rparr>
      in case c_frames st of
           frame # rest \<Rightarrow> settle call (Inr frame) (st'\<lparr>c_frames := rest\<rparr>)
         | [] \<Rightarrow> if c_closed st then settle call (Inl (close_error message st)) st'
                 else st'\<lparr>c_waiters := c_waiters st @ [call]\<rparr>)"

definition expire_timer :: "string \<Rightarrow> nat \<Rightarrow> nat \<Rightarrow> connection \<Rightarrow> connection" where
  "expire_timer label call ms st = (if call < c_calls st then settle call (Inl (timeout_error label ms)) st else st)"

fun tcp_step :: "connection \<Rightarrow> socket_event \<Rightarrow> connection" where
  "tcp_step st (DataArrived chunk) = drain_buffer (st\<lparr>c_buffer := c_buffer st @ chunk\<rparr>)"
| "tcp_step st (SocketError e) = reject_waiters e (st\<lparr>c_closeError := Some e\<rparr>)"
| "tcp_step st SocketClosed = on_close ''raw TCP closed'' st"
| "tcp_step st ReceiveCalled = receive_frame ''raw TCP closed'' st"
| "tcp_step st (TimerExpired call ms) = expire_timer ''TCP receive'' call ms st"

text \<open>A WebSocket message is a frame; the error event carries no error of its own.\<close>

fun ws_step :: "connection \<Rightarrow> socket_event \<Rightarrow> connection" where
  "ws_step st (DataArrived frame) = deliver frame st"
| "ws_step st (SocketError _) =
     (let e = Error ''raw WebSocket failed'' [] in reject_waiters e (st\<lparr>c_closeError := Some e\<rparr>))"
| "ws_step st SocketClosed = on_close ''raw WebSocket closed'' st"
| "ws_step st ReceiveCalled = receive_frame ''raw WebSocket closed'' st"
| "ws_step st (TimerExpired call ms) = expire_timer ''WebSocket receive'' call ms st"

definition tcp_run :: "socket_event list \<Rightarrow> connection" where
  "tcp_run evs = foldl tcp_step new_connection evs"

definition ws_run :: "socket_event list \<Rightarrow> connection" where
  "ws_run evs = foldl ws_step new_connection evs"

subsection \<open>Splitting a byte stream into frames\<close>

function split_frames :: "bytes \<Rightarrow> bytes list \<times> bytes" where
  "split_frames bs =
     (if 4 \<le> length bs then
        let len = unat (get_u32 bs 0)
        in if length bs < 4 + len then ([], bs)
           else (let (fs, rest) = split_frames (drop (4 + len) bs) in (take len (drop 4 bs) # fs, rest))
      else ([], bs))"
  by pat_completeness auto

termination
  by (relation "measure length") auto

declare split_frames.simps [simp del]

definition incomplete :: "bytes \<Rightarrow> bool" where
  "incomplete bs = (length bs < 4 \<or> length bs < 4 + unat (get_u32 bs 0))"

lemma split_frames_incomplete: "incomplete bs \<Longrightarrow> split_frames bs = ([], bs)"
  by (subst split_frames.simps) (auto simp: incomplete_def Let_def)

lemma split_frames_complete:
  "\<not> incomplete bs \<Longrightarrow> split_frames bs =
     (let len = unat (get_u32 bs 0); (fs, rest) = split_frames (drop (4 + len) bs) in (take len (drop 4 bs) # fs, rest))"
  by (subst split_frames.simps) (simp add: incomplete_def Let_def)

lemma drain_incomplete: "incomplete (c_buffer st) \<Longrightarrow> drain_buffer st = st"
  by (subst drain_buffer.simps) (auto simp: incomplete_def Let_def)

lemma drain_complete:
  "\<not> incomplete (c_buffer st) \<Longrightarrow> drain_buffer st =
     (let len = unat (get_u32 (c_buffer st) 0)
      in drain_buffer (deliver (take len (drop 4 (c_buffer st))) (st\<lparr>c_buffer := drop (4 + len) (c_buffer st)\<rparr>)))"
  by (subst drain_buffer.simps) (simp add: incomplete_def Let_def)

lemma settle_buffer_commute: "settle i r (st\<lparr>c_buffer := b\<rparr>) = (settle i r st)\<lparr>c_buffer := b\<rparr>"
  by (simp add: settle_def)

lemma deliver_buffer_commute: "deliver f (st\<lparr>c_buffer := b\<rparr>) = (deliver f st)\<lparr>c_buffer := b\<rparr>"
  by (cases "c_waiters st") (simp_all add: deliver_def settle_def)

lemma drain_buffer_eq:
  "drain_buffer st =
     (let (fs, rest) = split_frames (c_buffer st) in (fold deliver fs st)\<lparr>c_buffer := rest\<rparr>)"
proof (induction st rule: drain_buffer.induct)
  case (1 st)
  show ?case
  proof (cases "incomplete (c_buffer st)")
    case True
    then show ?thesis by (simp add: drain_incomplete split_frames_incomplete)
  next
    case False
    let ?len = "unat (get_u32 (c_buffer st) 0)"
    let ?st = "deliver (take ?len (drop 4 (c_buffer st))) (st\<lparr>c_buffer := drop (4 + ?len) (c_buffer st)\<rparr>)"
    have commute: "fold deliver fs (s\<lparr>c_buffer := b\<rparr>) = (fold deliver fs s)\<lparr>c_buffer := b\<rparr>" for fs s b
      by (induction fs arbitrary: s) (simp_all add: deliver_buffer_commute)
    have "drain_buffer ?st = (let (fs, rest) = split_frames (c_buffer ?st) in (fold deliver fs ?st)\<lparr>c_buffer := rest\<rparr>)"
      using False by (intro 1) (auto simp: incomplete_def)
    then show ?thesis
      using False by (simp add: drain_complete split_frames_complete Let_def split_def deliver_buffer_commute commute)
  qed
qed

lemma get_u32_append: "i + 4 \<le> length bs \<Longrightarrow> get_u32 (bs @ cs) i = get_u32 bs i"
  by (simp add: get_u32_def nth_append)

lemma split_frames_append:
  "split_frames (bs @ cs) =
     (let (fs, rest) = split_frames bs; (fs', rest') = split_frames (rest @ cs) in (fs @ fs', rest'))"
proof (induction bs rule: split_frames.induct)
  case (1 bs)
  show ?case
  proof (cases "incomplete bs")
    case True
    then show ?thesis by (simp add: split_frames_incomplete split_def)
  next
    case False
    then have len: "4 \<le> length bs" "4 + unat (get_u32 bs 0) \<le> length bs" by (auto simp: incomplete_def)
    have get: "get_u32 (bs @ cs) 0 = get_u32 bs 0" using len by (intro get_u32_append) simp
    have "\<not> incomplete (bs @ cs)" using len by (auto simp: incomplete_def get)
    then show ?thesis
      using False len 1 [OF len(1) refl] by (simp add: split_frames_complete get Let_def split_def)
  qed
qed

lemma split_frames_incomplete_rest: "incomplete (snd (split_frames bs))"
proof (induction bs rule: split_frames.induct)
  case (1 bs)
  show ?case
  proof (cases "incomplete bs")
    case False
    then show ?thesis using 1 by (auto simp: split_frames_complete Let_def split_def incomplete_def)
  qed (simp add: split_frames_incomplete)
qed

lemma split_frame:
  assumes "length f < 2 ^ 32"
  shows "split_frames (encode_tcp_frame f @ bs) = (let (fs, rest) = split_frames bs in (f # fs, rest))"
proof -
  let ?all = "encode_tcp_frame f @ bs"
  have n: "unat (get_u32 ?all 0) = length f"
    using get_set_u32 [of "[]" "word_of_nat (length f)" "f @ bs"] assms
    by (simp add: encode_tcp_frame_def unat_of_nat take_bit_nat_eq_self)
  have "\<not> incomplete ?all" using n by (simp add: incomplete_def) (simp add: encode_tcp_frame_def)
  moreover have "take (length f) (drop 4 ?all) = f" "drop (4 + length f) ?all = bs"
    by (simp_all add: encode_tcp_frame_def)
  ultimately show ?thesis by (simp add: split_frames_complete n Let_def)
qed

lemma split_encoded:
  assumes "\<forall>f \<in> set fs. length f < 2 ^ 32" "incomplete partial"
  shows "split_frames (concat (map encode_tcp_frame fs) @ partial) = (fs, partial)"
  using assms by (induction fs) (simp_all add: split_frames_incomplete split_frame)

subsection \<open>Frames and calls are matched in order\<close>

definition outcome_ok :: "string \<Rightarrow> (nat \<times> nat) set \<Rightarrow> bytes list \<Rightarrow> nat \<Rightarrow> nat \<Rightarrow> bytes result option \<Rightarrow> bool" where
  "outcome_ok label timers fs n i r =
     (case r of
        None \<Rightarrow> n \<le> i \<or> length fs \<le> i
      | Some (Inr f) \<Rightarrow> i < n \<and> i < length fs \<and> f = fs ! i
      | Some (Inl e) \<Rightarrow> i < n \<and> (\<exists>ms. (i, ms) \<in> timers \<and> e = timeout_error label ms))"

definition matched :: "string \<Rightarrow> (nat \<times> nat) set \<Rightarrow> bytes list \<Rightarrow> nat \<Rightarrow> connection \<Rightarrow> bool" where
  "matched label timers fs n st =
     (c_calls st = n \<and> c_frames st = drop n fs \<and> c_waiters st = [length fs..<n] \<and> \<not> c_closed st \<and>
      (\<forall>i. outcome_ok label timers fs n i (c_outcomes st i)))"

lemma outcome_ok_more_frames: "outcome_ok l T fs n i r \<Longrightarrow> i \<noteq> length fs \<or> n \<le> i \<or> r \<noteq> None \<Longrightarrow> outcome_ok l T (fs @ [f]) n i r"
  by (auto simp: outcome_ok_def nth_append split: option.splits sum.splits)

lemma outcome_ok_more_calls: "outcome_ok l T fs n i r \<Longrightarrow> i \<noteq> n \<or> length fs \<le> i \<or> r \<noteq> None \<Longrightarrow> outcome_ok l T fs (Suc n) i r"
  by (auto simp: outcome_ok_def split: option.splits sum.splits)

lemma matched_deliver:
  assumes "matched l T fs n st"
  shows "matched l T (fs @ [f]) n (deliver f st)"
proof (cases "length fs < n")
  case True
  from assms have st: "c_calls st = n" "c_frames st = drop n fs" "\<not> c_closed st" "c_waiters st = [length fs..<n]"
    and ok: "outcome_ok l T fs n i (c_outcomes st i)" for i by (simp_all add: matched_def)
  have d: "deliver f st = settle (length fs) (Inr f) (st\<lparr>c_waiters := [Suc (length fs)..<n]\<rparr>)"
    using True by (simp add: deliver_def st(4) upt_conv_Cons)
  have new: "outcome_ok l T (fs @ [f]) n (length fs) (Some (Inr f))" using True by (simp add: outcome_ok_def)
  have old: "outcome_ok l T (fs @ [f]) n i (c_outcomes st i)" if "i \<noteq> length fs \<or> c_outcomes st i \<noteq> None" for i
    using that by (intro outcome_ok_more_frames [OF ok]) blast
  show ?thesis
    unfolding d using True st(1-3) new old by (auto simp: matched_def settle_def)
next
  case False
  then show ?thesis using assms by (auto simp: matched_def deliver_def intro!: outcome_ok_more_frames)
qed

lemma matched_buffer: "matched l T fs n (st\<lparr>c_buffer := b\<rparr>) = matched l T fs n st"
  by (simp add: matched_def)

lemma matched_delivers: "matched l T fs n st \<Longrightarrow> matched l T (fs @ gs) n (fold deliver gs st)"
proof (induction gs arbitrary: fs st)
  case (Cons g gs)
  from Cons.IH [OF matched_deliver [OF Cons.prems, of g]] show ?case by simp
qed simp

lemma matched_receive:
  assumes "matched l T fs n st"
  shows "matched l T fs (Suc n) (receive_frame message st)"
proof (cases "n < length fs")
  case True
  from assms have st: "c_calls st = n" "c_frames st = drop n fs" "\<not> c_closed st" "c_waiters st = [length fs..<n]"
    and ok: "outcome_ok l T fs n i (c_outcomes st i)" for i by (simp_all add: matched_def)
  have fresh: "c_outcomes st n = None" using ok [of n] by (auto simp: outcome_ok_def split: option.splits sum.splits)
  have frames: "c_frames st = fs ! n # drop (Suc n) fs" using True st(2) by (simp add: Cons_nth_drop_Suc)
  have d: "receive_frame message st = st\<lparr>c_calls := Suc n, c_frames := drop (Suc n) fs,
      c_outcomes := (c_outcomes st)(n \<mapsto> Inr (fs ! n))\<rparr>"
    by (simp add: receive_frame_def frames st(1) settle_def fresh)
  have new: "outcome_ok l T fs (Suc n) n (Some (Inr (fs ! n)))" using True by (simp add: outcome_ok_def)
  have old: "outcome_ok l T fs (Suc n) i (c_outcomes st i)" if "i \<noteq> n" for i
    using that by (intro outcome_ok_more_calls [OF ok]) blast
  show ?thesis unfolding d using True st new old by (auto simp: matched_def)
next
  case False
  then show ?thesis using assms by (auto simp: matched_def receive_frame_def Let_def intro!: outcome_ok_more_calls)
qed

lemma matched_expire:
  assumes "matched l T fs n st"
  shows "matched l (insert (i, ms) T) fs n (expire_timer l i ms st)"
proof -
  have mono: "outcome_ok l (insert (i, ms) T) fs n j r" if "outcome_ok l T fs n j r" for j r
    using that by (auto simp: outcome_ok_def split: option.splits sum.splits)
  have "outcome_ok l (insert (i, ms) T) fs n i (Some (Inl (timeout_error l ms)))" if "i < n"
    using that by (auto simp: outcome_ok_def)
  then show ?thesis using assms mono by (auto simp: matched_def expire_timer_def settle_def)
qed

fun timer_of :: "socket_event \<Rightarrow> (nat \<times> nat) set" where
  "timer_of (TimerExpired i ms) = {(i, ms)}"
| "timer_of _ = {}"

fun chunk_of :: "socket_event \<Rightarrow> bytes" where
  "chunk_of (DataArrived chunk) = chunk"
| "chunk_of _ = []"

fun is_running :: "socket_event \<Rightarrow> bool" where
  "is_running (SocketError _) = False"
| "is_running SocketClosed = False"
| "is_running _ = True"

definition timers :: "socket_event list \<Rightarrow> (nat \<times> nat) set" where
  "timers evs = (\<Union>ev \<in> set evs. timer_of ev)"

definition calls :: "socket_event list \<Rightarrow> nat" where
  "calls evs = length (filter (\<lambda>ev. ev = ReceiveCalled) evs)"

definition stream :: "socket_event list \<Rightarrow> bytes" where
  "stream evs = concat (map chunk_of evs)"

fun message_of :: "socket_event \<Rightarrow> bytes list" where
  "message_of (DataArrived frame) = [frame]"
| "message_of _ = []"

lemmas event_defs = timers_def calls_def stream_def

lemma matched_start: "matched l {} [] 0 new_connection"
  by (simp add: matched_def new_connection_def outcome_ok_def)

lemma tcp_matched:
  "list_all is_running evs \<Longrightarrow>
   matched ''TCP receive'' (timers evs) (fst (split_frames (stream evs))) (calls evs) (tcp_run evs) \<and>
   c_buffer (tcp_run evs) = snd (split_frames (stream evs))"
proof (induction evs rule: rev_induct)
  case Nil
  then show ?case
    using matched_start by (simp add: event_defs tcp_run_def split_frames_incomplete incomplete_def)
      (simp add: new_connection_def)
next
  case (snoc ev evs)
  let ?st = "tcp_run evs"
  have run: "tcp_run (evs @ [e]) = tcp_step ?st e" for e by (simp add: tcp_run_def)
  from snoc have ih: "matched ''TCP receive'' (timers evs) (fst (split_frames (stream evs))) (calls evs) ?st"
    "c_buffer ?st = snd (split_frames (stream evs))" by simp_all
  show ?case
  proof (cases ev)
    case (DataArrived chunk)
    obtain fs p where s: "split_frames (stream evs) = (fs, p)" by (cases "split_frames (stream evs)")
    obtain gs q where g: "split_frames (p @ chunk) = (gs, q)" by (cases "split_frames (p @ chunk)")
    have st: "stream (evs @ [ev]) = stream evs @ chunk" "calls (evs @ [ev]) = calls evs" "timers (evs @ [ev]) = timers evs"
      by (simp_all add: event_defs DataArrived)
    have "split_frames (stream (evs @ [ev])) = (fs @ gs, q)" 
      using split_frames_append [of "stream evs" chunk] by (simp add: st s g)
    moreover have "tcp_step ?st ev = (fold deliver gs (?st\<lparr>c_buffer := p @ chunk\<rparr>))\<lparr>c_buffer := q\<rparr>"
      using ih(2) by (simp add: DataArrived drain_buffer_eq s g)
    moreover have "matched ''TCP receive'' (timers evs) (fs @ gs) (calls evs) (fold deliver gs (?st\<lparr>c_buffer := p @ chunk\<rparr>))"
      using ih(1) by (intro matched_delivers) (simp add: matched_buffer s)
    ultimately show ?thesis by (simp add: run st matched_buffer)
  next
    case ReceiveCalled
    have "c_buffer (receive_frame m ?st) = c_buffer ?st" for m
      by (simp add: receive_frame_def Let_def split: list.splits)
    with ReceiveCalled ih matched_receive show ?thesis by (simp add: run event_defs)
  next
    case (TimerExpired i ms)
    with ih matched_expire [OF ih(1), of i ms] show ?thesis
      by (simp add: run event_defs expire_timer_def split: if_splits)
  qed (use snoc.prems in simp_all)
qed

text \<open>
  C11.  However TCP cuts the bytes into chunks and whenever \<^verbatim>\<open>receive\<close> is called, the i-th call is
  matched with the i-th frame that was sent: it returns that frame, or its timer expired
  before; frames nobody asked for wait in order and the unfinished frame stays in the
  buffer.  A call that timed out still takes its frame, which is lost to the later calls.
\<close>
theorem tcp_receive_order:
  assumes "list_all is_running evs" "stream evs = concat (map encode_tcp_frame fs) @ partial"
    and "\<forall>f \<in> set fs. length f < 2 ^ 32" "incomplete partial"
  shows "c_frames (tcp_run evs) = drop (calls evs) fs \<and> c_buffer (tcp_run evs) = partial \<and>
    c_waiters (tcp_run evs) = [length fs..<calls evs] \<and>
    (\<forall>i. outcome_ok ''TCP receive'' (timers evs) fs (calls evs) i (c_outcomes (tcp_run evs) i))"
  using tcp_matched [OF assms(1)] split_encoded [OF assms(3,4)] by (simp add: assms(2) matched_def)

lemma tcp_receive_order_witness:
  "let evs = [DataArrived [0, 0, 0, 1, 7, 0, 0], ReceiveCalled, ReceiveCalled, TimerExpired 1 50, ReceiveCalled,
      DataArrived [0, 1, 8, 0]]
   in c_frames (tcp_run evs) = [] \<and> c_buffer (tcp_run evs) = [0] \<and> c_waiters (tcp_run evs) = [2]"
proof -
  let ?evs = "[DataArrived [0, 0, 0, 1, 7, 0, 0], ReceiveCalled, ReceiveCalled, TimerExpired 1 50, ReceiveCalled,
      DataArrived [0, 1, 8, 0]]"
  have "stream ?evs = concat (map encode_tcp_frame [[7], [8]]) @ [0]"
    by (simp add: stream_def encode_tcp_frame_def set_u32_def)
  from tcp_receive_order [OF _ this] show ?thesis by (simp add: incomplete_def calls_def Let_def)
qed

lemma ws_matched:
  "list_all is_running evs \<Longrightarrow>
   matched ''WebSocket receive'' (timers evs) (concat (map message_of evs)) (calls evs) (ws_run evs)"
proof (induction evs rule: rev_induct)
  case Nil
  then show ?case using matched_start by (simp add: event_defs ws_run_def)
next
  case (snoc ev evs)
  have run: "ws_run (evs @ [e]) = ws_step (ws_run evs) e" for e by (simp add: ws_run_def)
  from snoc have ih: "matched ''WebSocket receive'' (timers evs) (concat (map message_of evs)) (calls evs) (ws_run evs)"
    by simp
  show ?case
    using snoc.prems ih matched_deliver [OF ih] matched_receive [OF ih] matched_expire [OF ih]
    by (cases ev) (simp_all add: run event_defs)
qed

subsection \<open>No call hangs after the connection closed\<close>

definition no_call_lost :: "connection \<Rightarrow> bool" where
  "no_call_lost st = ((\<forall>i < c_calls st. i \<in> set (c_waiters st) \<or> c_outcomes st i \<noteq> None) \<and>
     (c_closed st \<longrightarrow> c_waiters st = []))"

lemma settle_fields [simp]:
  "c_calls (settle i r st) = c_calls st" "c_waiters (settle i r st) = c_waiters st" "c_closed (settle i r st) = c_closed st"
  "c_outcomes (settle i r st) j \<noteq> None \<longleftrightarrow> j = i \<or> c_outcomes st j \<noteq> None"
  by (auto simp: settle_def)

lemma settle_all_fields:
  "c_calls (fold (\<lambda>i. settle i r) is st) = c_calls st \<and> c_waiters (fold (\<lambda>i. settle i r) is st) = c_waiters st \<and>
   c_closed (fold (\<lambda>i. settle i r) is st) = c_closed st \<and>
   (c_outcomes (fold (\<lambda>i. settle i r) is st) j \<noteq> None \<longleftrightarrow> j \<in> set is \<or> c_outcomes st j \<noteq> None)"
  by (induction "is" arbitrary: st) (auto simp del: not_None_eq)

lemma no_call_lost_deliver: "no_call_lost st \<Longrightarrow> no_call_lost (deliver f st)"
  by (auto simp: no_call_lost_def deliver_def simp del: not_None_eq split: list.splits)

lemma no_call_lost_delivers: "no_call_lost st \<Longrightarrow> no_call_lost (fold deliver fs st)"
  by (induction fs arbitrary: st) (simp_all add: no_call_lost_deliver)

lemma no_call_lost_reject: "(\<forall>i < c_calls st. i \<in> set (c_waiters st) \<or> c_outcomes st i \<noteq> None) \<Longrightarrow> no_call_lost (reject_waiters e st)"
  by (auto simp: no_call_lost_def reject_waiters_def settle_all_fields simp del: not_None_eq)

lemma no_call_lost_receive: "no_call_lost st \<Longrightarrow> no_call_lost (receive_frame m st)"
  by (auto simp: no_call_lost_def receive_frame_def Let_def less_Suc_eq simp del: not_None_eq split: list.splits)

lemma no_call_lost_close: "no_call_lost st \<Longrightarrow> no_call_lost (on_close m st) \<and> c_closed (on_close m st)"
  by (auto simp: on_close_def Let_def reject_waiters_def settle_all_fields no_call_lost_def simp del: not_None_eq)

lemma no_call_lost_expire: "no_call_lost st \<Longrightarrow> no_call_lost (expire_timer l i ms st)"
  by (auto simp: no_call_lost_def expire_timer_def simp del: not_None_eq)

lemma no_call_lost_buffer: "no_call_lost (st\<lparr>c_buffer := b\<rparr>) = no_call_lost st"
  by (simp add: no_call_lost_def)

lemma no_call_lost_error: "no_call_lost st \<Longrightarrow> no_call_lost (reject_waiters e (st\<lparr>c_closeError := x\<rparr>))"
  by (rule no_call_lost_reject) (auto simp: no_call_lost_def simp del: not_None_eq)

lemmas no_call_lost_intros = no_call_lost_deliver no_call_lost_delivers no_call_lost_receive
  no_call_lost_expire no_call_lost_error no_call_lost_close [THEN conjunct1]

lemma tcp_no_call_lost: "no_call_lost (tcp_run evs)"
proof (induction evs rule: rev_induct)
  case (snoc ev evs)
  then show ?case
    by (cases ev) (simp_all add: tcp_run_def no_call_lost_intros drain_buffer_eq no_call_lost_buffer split_def Let_def)
qed (simp add: tcp_run_def new_connection_def no_call_lost_def)

lemma ws_no_call_lost: "no_call_lost (ws_run evs)"
proof (induction evs rule: rev_induct)
  case (snoc ev evs)
  then show ?case by (cases ev) (simp_all add: ws_run_def Let_def no_call_lost_intros)
qed (simp add: ws_run_def new_connection_def no_call_lost_def)

text \<open>
  C12.  Once the socket has closed, every \<^verbatim>\<open>receive\<close> ever called, before or after, is settled and
  none is queued; and while it is open a call that is not settled is queued.  This holds for
  both transports under every sequence of data, errors, closes, calls and timers.
\<close>
theorem no_receive_hangs:
  assumes "st = tcp_run evs \<or> st = ws_run evs"
  shows "(c_closed st \<longrightarrow> c_waiters st = [] \<and> (\<forall>i < c_calls st. c_outcomes st i \<noteq> None)) \<and>
    (\<forall>i < c_calls st. c_outcomes st i = None \<longrightarrow> i \<in> set (c_waiters st))"
  using tcp_no_call_lost [of evs] ws_no_call_lost [of evs] assms by (auto simp: no_call_lost_def)

lemma no_receive_hangs_witness:
  "let st = ws_run [ReceiveCalled, SocketClosed, ReceiveCalled]
   in c_closed st \<and> (\<forall>i < c_calls st. c_outcomes st i \<noteq> None) \<and> c_calls st = 2"
proof -
  let ?st = "ws_run [ReceiveCalled, SocketClosed, ReceiveCalled]"
  have "c_closed ?st \<and> c_calls ?st = 2"
    by (simp add: ws_run_def new_connection_def receive_frame_def on_close_def reject_waiters_def settle_def Let_def)
  then show ?thesis using no_receive_hangs [of ?st "[ReceiveCalled, SocketClosed, ReceiveCalled]"] by simp
qed

text \<open>
  A WebSocket message is one frame: as long as the socket is open, the i-th call of
  \<^verbatim>\<open>receive\<close> is matched with the i-th message, as on TCP.
\<close>
lemma ws_receive_order:
  assumes "list_all is_running evs"
  shows "c_frames (ws_run evs) = drop (calls evs) (concat (map message_of evs)) \<and>
    (\<forall>i. outcome_ok ''WebSocket receive'' (timers evs) (concat (map message_of evs)) (calls evs) i (c_outcomes (ws_run evs) i))"
  using ws_matched [OF assms] by (simp add: matched_def)

lemma ws_receive_order_witness:
  "c_frames (ws_run [DataArrived [1], ReceiveCalled, DataArrived [2]]) = [[2]]"
  using ws_receive_order [of "[DataArrived [1], ReceiveCalled, DataArrived [2]]"] by (simp add: calls_def)

text \<open>A frame that arrives after its call timed out reaches nobody.\<close>

lemma late_frame_lost:
  "let st = ws_run [ReceiveCalled, TimerExpired 0 50, DataArrived [9], ReceiveCalled]
   in c_outcomes st 0 = Some (Inl (timeout_error ''WebSocket receive'' 50)) \<and> c_outcomes st 1 = None \<and> c_frames st = []"
  by (simp add: ws_run_def new_connection_def receive_frame_def expire_timer_def deliver_def settle_def Let_def)

end
