(* ===== verification/WorkerPool.thy ===== *)
theory WorkerPool
  imports Prelude
begin

text \<open>
  The worker pool of the workloads (\<^verbatim>\<open>runConcurrent\<close> in src/workloads/live.ts and its copies in
  the queue, schedule and protocol workloads) as a step relation.  Between two awaits a lane
  runs without interruption, so a step is one lane's code from one await to the next, the
  settlement of its operation, or the abort of the signal; the steps interleave freely.
\<close>

subsection \<open>The pool\<close>

text \<open>
  A lane is at the test of its loop, awaits the operation on a sequence, returned, or threw
  (the reason of the abort, or the rejection of its operation).
\<close>

datatype lane = AtLoop | Awaiting nat | Returned | Threw

record pool =
  next_sequence :: nat
  lanes :: "lane list"
  started :: "nat list"
  settled :: "(nat \<times> bool) list"
  aborted :: bool

definition start_pool :: "nat \<Rightarrow> nat \<Rightarrow> pool" where
  "start_pool operations concurrency =
     \<lparr>next_sequence = 0, lanes = replicate (min operations concurrency) AtLoop, started = [], settled = [], aborted = False\<rparr>"

text \<open>
  The loop of a lane: test the counter, throw when aborted, take the sequence and call the
  operation.
\<close>

definition lane_turn :: "nat \<Rightarrow> nat \<Rightarrow> pool \<Rightarrow> pool" where
  "lane_turn operations i p =
     (if next_sequence p < operations then
        if aborted p then p\<lparr>lanes := (lanes p)[i := Threw]\<rparr>
        else p\<lparr>lanes := (lanes p)[i := Awaiting (next_sequence p)], started := started p @ [next_sequence p],
               next_sequence := next_sequence p + 1\<rparr>
      else p\<lparr>lanes := (lanes p)[i := Returned]\<rparr>)"

inductive pool_step :: "nat \<Rightarrow> pool \<Rightarrow> pool \<Rightarrow> bool" for operations :: nat where
  turn: "i < length (lanes p) \<Longrightarrow> lanes p ! i = AtLoop \<Longrightarrow> pool_step operations p (lane_turn operations i p)"
| resolved: "i < length (lanes p) \<Longrightarrow> lanes p ! i = Awaiting n \<Longrightarrow>
    pool_step operations p (p\<lparr>lanes := (lanes p)[i := AtLoop], settled := settled p @ [(n, True)]\<rparr>)"
| rejected: "i < length (lanes p) \<Longrightarrow> lanes p ! i = Awaiting n \<Longrightarrow>
    pool_step operations p (p\<lparr>lanes := (lanes p)[i := Threw], settled := settled p @ [(n, False)]\<rparr>)"
| abort: "\<not> aborted p \<Longrightarrow> pool_step operations p (p\<lparr>aborted := True\<rparr>)"

inductive_cases pool_stepE: "pool_step operations p q"

lemma pool_step_cases [consumes 1, case_names turn resolved rejected abort]:
  assumes "pool_step operations p q"
  obtains i where "i < length (lanes p)" "lanes p ! i = AtLoop" "q = lane_turn operations i p"
  | i n where "i < length (lanes p)" "lanes p ! i = Awaiting n"
      "q = p\<lparr>lanes := (lanes p)[i := AtLoop], settled := settled p @ [(n, True)]\<rparr>"
  | i n where "i < length (lanes p)" "lanes p ! i = Awaiting n"
      "q = p\<lparr>lanes := (lanes p)[i := Threw], settled := settled p @ [(n, False)]\<rparr>"
  | "\<not> aborted p" "q = p\<lparr>aborted := True\<rparr>"
  using assms by (elim pool_stepE) blast+

inductive pool_run :: "nat \<Rightarrow> nat \<Rightarrow> pool \<Rightarrow> bool" for operations concurrency :: nat where
  start: "pool_run operations concurrency (start_pool operations concurrency)"
| step: "pool_run operations concurrency p \<Longrightarrow> pool_step operations p q \<Longrightarrow> pool_run operations concurrency q"

text \<open>\<^verbatim>\<open>Promise.all\<close> resolves when every lane returned and rejects as soon as one threw.\<close>

definition pool_resolved :: "pool \<Rightarrow> bool" where
  "pool_resolved p = list_all (\<lambda>l. l = Returned) (lanes p)"

definition pool_rejected :: "pool \<Rightarrow> bool" where
  "pool_rejected p = list_ex (\<lambda>l. l = Threw) (lanes p)"

subsection \<open>Invariant\<close>

fun awaited :: "lane \<Rightarrow> nat list" where
  "awaited (Awaiting n) = [n]"
| "awaited _ = []"

definition in_flight :: "pool \<Rightarrow> nat list" where
  "in_flight p = concat (map awaited (lanes p))"

text \<open>
  The sequences started are 0, 1, ... in order; each is in flight or settled, once; a lane
  returns only when all were taken; and there is a lane whenever there is work.
\<close>

definition pool_ok :: "nat \<Rightarrow> nat \<Rightarrow> pool \<Rightarrow> bool" where
  "pool_ok operations concurrency p =
     (next_sequence p \<le> operations \<and> started p = [0..<next_sequence p] \<and>
      mset (in_flight p) + mset (map fst (settled p)) = mset [0..<next_sequence p] \<and>
      (Returned \<in> set (lanes p) \<longrightarrow> next_sequence p = operations) \<and>
      length (lanes p) = min operations concurrency \<and>
      (list_ex (\<lambda>(_, ok). \<not> ok) (settled p) \<longrightarrow> pool_rejected p))"

lemma in_flight_update:
  "i < length ls \<Longrightarrow> mset (concat (map awaited (ls[i := l]))) + mset (awaited (ls ! i)) =
     mset (concat (map awaited ls)) + mset (awaited l)"
proof (induction ls arbitrary: i)
  case (Cons a ls)
  then show ?case by (cases i) (auto simp: ac_simps)
qed simp

lemma threw_update: "list_ex (\<lambda>l. l = Threw) ls \<Longrightarrow> ls ! i \<noteq> Threw \<Longrightarrow> list_ex (\<lambda>l. l = Threw) (ls[i := l'])"
  by (auto simp: list_ex_length) (metis nth_list_update_neq)

lemma set_update_cases: "x \<in> set (ls[i := l]) \<Longrightarrow> x = l \<or> x \<in> set ls"
  using set_update_subset_insert by fast

lemma pool_ok_start: "pool_ok operations concurrency (start_pool operations concurrency)"
  by (auto simp: pool_ok_def start_pool_def in_flight_def)

lemma pool_ok_step:
  assumes "pool_step operations p q" "pool_ok operations concurrency p"
  shows "pool_ok operations concurrency q"
  using assms(1)
proof (cases rule: pool_step_cases)
  case (turn i)
  note flight = in_flight_update [of i "lanes p"]
  from turn assms(2) show ?thesis
    using flight [of "Awaiting (next_sequence p)"] flight [of Returned] flight [of Threw] threw_update [of "lanes p" i]
    by (auto simp: lane_turn_def pool_ok_def in_flight_def pool_rejected_def simp del: mset_upt dest!: set_update_cases)
next
  case (resolved i n)
  with assms(2) show ?thesis
    using in_flight_update [of i "lanes p" AtLoop, symmetric] threw_update [of "lanes p" i AtLoop]
    by (auto simp: pool_ok_def in_flight_def pool_rejected_def simp del: mset_upt dest!: set_update_cases)
next
  case (rejected i n)
  then have "list_ex (\<lambda>l. l = Threw) ((lanes p)[i := Threw])" by (auto simp: list_ex_length)
  with rejected assms(2) show ?thesis
    using in_flight_update [of i "lanes p" Threw, symmetric]
    by (auto simp: pool_ok_def in_flight_def pool_rejected_def simp del: mset_upt dest!: set_update_cases)
next
  case abort
  with assms(2) show ?thesis by (auto simp: pool_ok_def in_flight_def pool_rejected_def)
qed

lemma pool_run_ok: "pool_run operations concurrency p \<Longrightarrow> pool_ok operations concurrency p"
  by (induction rule: pool_run.induct) (auto intro: pool_ok_start pool_ok_step)

subsection \<open>Progress\<close>

fun lane_weight :: "lane \<Rightarrow> nat" where
  "lane_weight AtLoop = 1"
| "lane_weight (Awaiting _) = 2"
| "lane_weight _ = 0"

definition remaining_work :: "nat \<Rightarrow> pool \<Rightarrow> nat" where
  "remaining_work operations p =
     2 * (operations - next_sequence p) + sum_list (map lane_weight (lanes p)) + (if aborted p then 0 else 1)"

lemma sum_weight_update:
  "i < length ls \<Longrightarrow> sum_list (map lane_weight (ls[i := l])) + lane_weight (ls ! i) = sum_list (map lane_weight ls) + lane_weight l"
proof (induction ls arbitrary: i)
  case (Cons a ls)
  then show ?case by (cases i) auto
qed simp

lemma step_decreases:
  assumes "pool_step operations p q"
  shows "remaining_work operations q < remaining_work operations p"
  using assms
proof (cases rule: pool_step_cases)
  case (turn i)
  then show ?thesis
    using sum_weight_update [of i "lanes p" "Awaiting (next_sequence p)"] sum_weight_update [of i "lanes p" Returned]
      sum_weight_update [of i "lanes p" Threw]
    by (auto simp: lane_turn_def remaining_work_def)
next
  case (resolved i n)
  then show ?thesis using sum_weight_update [of i "lanes p" AtLoop] by (auto simp: remaining_work_def)
next
  case (rejected i n)
  then show ?thesis using sum_weight_update [of i "lanes p" Threw] by (auto simp: remaining_work_def)
next
  case abort
  then show ?thesis by (auto simp: remaining_work_def)
qed

lemma step_possible:
  assumes "\<not> pool_resolved p" "\<not> pool_rejected p" shows "\<exists>q. pool_step operations p q"
proof -
  obtain i where "i < length (lanes p)" "lanes p ! i \<noteq> Returned"
    using assms(1) by (auto simp: pool_resolved_def list_all_length)
  moreover from this assms(2) have "lanes p ! i \<noteq> Threw" by (auto simp: pool_rejected_def list_ex_length)
  ultimately show ?thesis by (cases "lanes p ! i") (auto intro: pool_step.intros)
qed

subsection \<open>Every operation once\<close>

lemma resolved_all:
  assumes "pool_run operations concurrency p" "pool_resolved p" "0 < concurrency"
  shows "started p = [0..<operations] \<and> mset (map fst (settled p)) = mset [0..<operations] \<and> list_all snd (settled p)"
proof -
  note ok = pool_run_ok [OF assms(1)]
  have "next_sequence p = operations"
  proof (cases "operations = 0")
    case False
    then have "lanes p \<noteq> []" using ok assms(3) by (auto simp: pool_ok_def)
    then have "Returned \<in> set (lanes p)" using assms(2) by (cases "lanes p") (auto simp: pool_resolved_def)
    then show ?thesis using ok by (simp add: pool_ok_def)
  qed (use ok in \<open>simp add: pool_ok_def\<close>)
  moreover have "concat (map awaited (lanes p)) = []" using assms(2) by (auto simp: pool_resolved_def list_all_iff)
  moreover have "\<not> pool_rejected p" using assms(2) by (auto simp: pool_resolved_def pool_rejected_def list_all_iff list_ex_iff)
  then have "list_all snd (settled p)" using ok by (auto simp: pool_ok_def list_all_iff list_ex_iff)
  ultimately show ?thesis using ok by (simp add: pool_ok_def in_flight_def del: concat_eq_Nil_conv)
qed




end
