(* ===== verification/WorkloadLog.thy ===== *)
theory WorkloadLog
  imports JsonParse Model
begin

text \<open>
  The reader of workload logs (src/orchestration/workload-log.ts): JSON records in container
  output, the last record of an event, and checked fields.  The logs of the containers of a
  role are a map from worker to text.
\<close>

type_synonym role_logs = "(string, string) js_map"

fun from_brace :: "string \<Rightarrow> string option" where
  "from_brace [] = None"
| "from_brace (c # s) = (if c = CHR ''{'' then Some (c # s) else from_brace s)"

definition record_of_line :: "string \<Rightarrow> json option" where
  "record_of_line line =
     (case from_brace line of
        None \<Rightarrow> None
      | Some rest \<Rightarrow>
          (case parse_json rest of
             None \<Rightarrow> None
           | Some v \<Rightarrow> if is_plain_object v then Some v else None))"

definition parse_json_records :: "string \<Rightarrow> json list" where
  "parse_json_records logs = List.map_filter record_of_line (split_on (CHR 0x0A) logs)"

definition has_event :: "string \<Rightarrow> json \<Rightarrow> bool" where
  "has_event name record = (json_get record ''event'' = Some (JStr name))"

definition required_event :: "string \<Rightarrow> string \<Rightarrow> json result" where
  "required_event logs name =
     (case find_last (has_event name) (parse_json_records logs) of
        None \<Rightarrow> Inl (Error ''Missing $ workload record'' [AStr name])
      | Some r \<Rightarrow> Inr r)"

text \<open>Sample logs of the witnesses are written with a tilde for the double quote.\<close>

definition with_quotes :: "string \<Rightarrow> string" where
  "with_quotes s = map (\<lambda>c. if c = CHR ''~'' then CHR 0x22 else c) s"

text \<open>\<^verbatim>\<open>numericValue\<close>: the value may be absent; the result is a natural number.\<close>

definition numeric_value :: "json option \<Rightarrow> string \<Rightarrow> nat result" where
  "numeric_value v field =
     (case v of
        Some (JNum x) \<Rightarrow>
          if is_safe_integer x \<and> 0 \<le> x then Inr (nat \<lfloor>x\<rfloor>)
          else Inl (Error ''$ is not a non-negative integer'' [AStr field])
      | _ \<Rightarrow> Inl (Error ''$ is not a non-negative integer'' [AStr field]))"

definition numeric_field :: "json \<Rightarrow> string \<Rightarrow> nat result" where
  "numeric_field r field = numeric_value (json_get r field) field"

definition object_field :: "json \<Rightarrow> string \<Rightarrow> json result" where
  "object_field r field =
     (case json_get r field of
        Some (JObj m) \<Rightarrow> Inr (JObj m)
      | _ \<Rightarrow> Inl (Error ''$ is not an object'' [AStr field]))"

text \<open>\<^verbatim>\<open>numericArray\<close> of the ledgers: an array of non-negative integers; the two errors name the label.\<close>

definition numeric_array :: "json option \<Rightarrow> string \<Rightarrow> nat list result" where
  "numeric_array v label =
     (case v of
        Some (JArr items) \<Rightarrow> traverse (\<lambda>item. numeric_value (Some item) label) items
      | _ \<Rightarrow> Inl (Error ''$ must be an array'' [AStr label]))"

definition only_log :: "role_logs \<Rightarrow> string \<Rightarrow> string result" where
  "only_log logs label =
     (case logs of
        [(_, contents)] \<Rightarrow> Inr contents
      | _ \<Rightarrow> Inl (Error ''$ log count $/1'' [AStr label, ANat (length logs)]))"

subsection \<open>Reading is line by line\<close>

lemma split_on_append: "split_on c (s @ c # t) = split_on c s @ split_on c t"
proof (induction s)
  case (Cons x s)
  have ne: "split_on c u \<noteq> []" for u by (induction u) (auto split: list.split)
  show ?case
  proof (cases "x = c")
    case False
    with Cons show ?thesis using ne [of s] by (cases "split_on c s") auto
  qed (use Cons in simp)
qed simp

lemma map_filter_append': "List.map_filter f (xs @ ys) = List.map_filter f xs @ List.map_filter f ys"
  by (simp add: map_filter_def)

lemma parse_json_records_append:
  "parse_json_records (a @ CHR 0x0A # b) = parse_json_records a @ parse_json_records b"
  by (simp add: parse_json_records_def split_on_append map_filter_append')

lemma find_last_append: "find_last P (xs @ ys) = (case find_last P ys of None \<Rightarrow> find_last P xs | Some y \<Rightarrow> Some y)"
proof -
  have "find P (us @ vs) = (case find P us of None \<Rightarrow> find P vs | Some y \<Rightarrow> Some y)" for us vs
    by (induction us) auto
  from this [of "rev ys" "rev xs"] show ?thesis by (simp only: find_last_def rev_append)
qed

lemma required_event_later:
  "required_event b name = Inr r \<Longrightarrow> required_event (a @ CHR 0x0A # b) name = Inr r"
  by (auto simp: required_event_def parse_json_records_append find_last_append split: option.splits)

lemma required_event_ok:
  "required_event logs name = Inr r \<Longrightarrow> r \<in> set (parse_json_records logs) \<and> has_event name r"
  by (auto simp: required_event_def split: option.splits dest: find_last_Some)

lemma numeric_value_ok: "numeric_value v f = Inr n \<longleftrightarrow>
    (\<exists>x. v = Some (JNum x) \<and> is_safe_integer x \<and> 0 \<le> x \<and> n = nat \<lfloor>x\<rfloor>)"
  by (auto simp: numeric_value_def split: option.splits json.splits)

end
