(* ===== verification/LiveObservability.thy ===== *)
theory LiveObservability
  imports WorkloadLog
begin

text \<open>
  Broker statistics of a live domain (src/orchestration/live-observability.ts): the cleanup
  counters, the quiescence test and the check that no failure counter moved.  A statistics
  record is the entry list of its JSON object.
\<close>

type_synonym stats = "(string, json) js_map"

datatype live_domain = LiveKv | LiveStream | LiveNotice | LiveRpc | LiveLease | LiveSchedule

fun live_domain_name :: "live_domain \<Rightarrow> string" where
  "live_domain_name LiveKv = ''kv''"
| "live_domain_name LiveStream = ''stream''"
| "live_domain_name LiveNotice = ''notice''"
| "live_domain_name LiveRpc = ''rpc''"
| "live_domain_name LiveLease = ''lease''"
| "live_domain_name LiveSchedule = ''schedule''"

record cleanup_metrics =
  cl_failures :: rat
  cl_retries :: rat
  cl_successes :: rat
  cl_pending :: rat
  cl_oldestAgeMs :: rat

record live_snapshot =
  sn_domain :: stats
  sn_cleanup :: cleanup_metrics

subsection \<open>Cleanup counters\<close>

text \<open>The loop fills a map from the samples; a later sample of the same name overwrites.\<close>

definition sample_value :: "(string, rat) js_map \<Rightarrow> json \<Rightarrow> (string, rat) js_map" where
  "sample_value values_of sample =
     (case (json_get sample ''name'', json_get sample ''value'') of
        (Some (JStr name), Some (JNum x)) \<Rightarrow> map_set values_of name x
      | _ \<Rightarrow> values_of)"

definition cleanup_metrics_of :: "stats \<Rightarrow> cleanup_metrics result" where
  "cleanup_metrics_of metrics =
     (case map_get metrics ''samples'' of
        Some (JArr samples) \<Rightarrow>
          (let values_of = foldl sample_value [] samples;
               metric = (\<lambda>name. get_or 0 (map_get values_of name))
           in Inr \<lparr>cl_failures = metric ''fitz_session_cleanup_failures_total'',
                   cl_retries = metric ''fitz_session_cleanup_retries_total'',
                   cl_successes = metric ''fitz_session_cleanup_successes_total'',
                   cl_pending = metric ''fitz_session_cleanup_pending'',
                   cl_oldestAgeMs = metric ''fitz_session_cleanup_oldest_age_ms''\<rparr>)
      | _ \<Rightarrow> Inl (Error ''Structured metrics omitted samples'' []))"

definition non_negative_delta :: "rat \<Rightarrow> rat \<Rightarrow> string \<Rightarrow> rat result" where
  "non_negative_delta before after field =
     (if after < before then Inl (Error ''$ decreased from $ to $'' [AStr field, ARat before, ARat after])
      else Inr (fl (after - before)))"

definition cleanup_delta :: "cleanup_metrics \<Rightarrow> cleanup_metrics \<Rightarrow> cleanup_metrics result" where
  "cleanup_delta before after =
     try_in (non_negative_delta (cl_failures before) (cl_failures after) ''session cleanup failures'') (\<lambda>f.
     try_in (non_negative_delta (cl_retries before) (cl_retries after) ''session cleanup retries'') (\<lambda>r.
     try_in (non_negative_delta (cl_successes before) (cl_successes after) ''session cleanup successes'') (\<lambda>s.
     Inr \<lparr>cl_failures = f, cl_retries = r, cl_successes = s,
          cl_pending = cl_pending after, cl_oldestAgeMs = cl_oldestAgeMs after\<rparr>)))"

subsection \<open>Quiescence\<close>

fun quiescence_fields :: "live_domain \<Rightarrow> string list" where
  "quiescence_fields LiveKv = [''transactions_active'']"
| "quiescence_fields LiveStream = [''append_sessions_active'']"
| "quiescence_fields LiveNotice = [''subscriptions_active'', ''routes_active'']"
| "quiescence_fields LiveRpc = [''workers_registered'', ''requests_pending'', ''pending_routes_active'']"
| "quiescence_fields LiveLease = [''leases_active'', ''waiter_depth'']"
| "quiescence_fields LiveSchedule =
     [''schedules_active'', ''subscriptions_active'', ''pending_fire_claims'', ''pending_ack_retries'']"

definition is_live_domain_quiescent :: "live_domain \<Rightarrow> live_snapshot \<Rightarrow> bool" where
  "is_live_domain_quiescent d snapshot =
     (if cl_pending (sn_cleanup snapshot) \<noteq> 0 \<or> cl_oldestAgeMs (sn_cleanup snapshot) \<noteq> 0 then False
      else list_all (\<lambda>field. map_get (sn_domain snapshot) field = Some (JNum 0)) (quiescence_fields d))"

subsection \<open>Failure counters\<close>

fun failure_fields :: "live_domain \<Rightarrow> string list" where
  "failure_fields LiveKv = [''commits_failed_total'', ''invalid_transaction_rejects_total'']"
| "failure_fields LiveStream = [''failure_total'', ''append_conflicts_total'', ''notify_drops_total'']"
| "failure_fields LiveNotice = [''failure_total'', ''delivery_drops_total'', ''wildcard_limit_rejects_total'']"
| "failure_fields LiveRpc =
     [''failure_total'', ''request_timeouts_total'', ''backpressure_rejects_total'',
      ''duplicate_correlation_rejects_total'', ''wrong_worker_rejects_total'',
      ''responses_dropped_closed_caller_total'', ''responses_missing_pending_total'',
      ''invalid_sequence_responses_total'', ''invalid_sequence_errors_forwarded_total'',
      ''invalid_sequence_errors_dropped_total'']"
| "failure_fields LiveLease = [''failure_total'', ''acquire_timeouts_total'', ''invalid_token_rejects_total'']"
| "failure_fields LiveSchedule =
     [''notify_failures_total'', ''ack_failures_total'', ''create_persistence_failures_total'',
      ''upsert_persistence_failures_total'', ''cancel_persistence_failures_total'']"

definition counter_of :: "stats \<Rightarrow> string \<Rightarrow> nat result" where
  "counter_of r field = numeric_value (map_get r field) field"

definition field_increase :: "live_domain \<Rightarrow> stats \<Rightarrow> stats \<Rightarrow> string \<Rightarrow> (string \<times> nat) list result" where
  "field_increase d before after field =
     try_in (counter_of before field) (\<lambda>a.
     try_in (counter_of after field) (\<lambda>b.
     try_in (if b < a then Inl (Error ''$ decreased from $ to $'' [AStr (live_domain_name d @ ''.'' @ field), ANat a, ANat b])
             else Inr (b - a)) (\<lambda>delta.
     Inr (if delta = 0 then [] else [(field, delta)]))))"

definition assert_no_domain_failures :: "live_domain \<Rightarrow> stats \<Rightarrow> stats \<Rightarrow> unit result" where
  "assert_no_domain_failures d before after =
     try_in (traverse (field_increase d before after) (failure_fields d)) (\<lambda>parts.
     let increased = concat parts in
     if increased \<noteq> []
     then Inl (Error ''$ reported failed operations: $''
       [AStr (live_domain_name d), AStrs (map (\<lambda>(f, n). f @ ''=+'' @ show_nat n) increased)])
     else Inr ())"

subsection \<open>What the checks accept\<close>

lemma field_increase_none:
  "field_increase d before after f = Inr [] \<longleftrightarrow>
     (\<exists>n. counter_of before f = Inr n \<and> counter_of after f = Inr n)"
  by (auto simp: field_increase_def try_in_eq_Inr split: if_splits)

lemma traverse_all_empty:
  "(\<exists>parts. traverse f xs = Inr parts \<and> concat parts = []) \<longleftrightarrow> (\<forall>x \<in> set xs. f x = Inr [])"
proof (induction xs)
  case (Cons x xs)
  then show ?case by (auto simp: try_in_eq_Inr)
qed simp

text \<open>
  The failure check passes exactly when every failure counter of the domain is a non-negative
  integer before and after and has the same value in both: a counter that is absent,
  moved or went backwards is an error.
\<close>
lemma no_domain_failures_iff:
  "assert_no_domain_failures d before after = Inr () \<longleftrightarrow>
     list_all (\<lambda>f. \<exists>n. numeric_value (map_get before f) f = Inr n \<and> numeric_value (map_get after f) f = Inr n)
       (failure_fields d)"
proof -
  have "assert_no_domain_failures d before after = Inr () \<longleftrightarrow>
      (\<exists>parts. traverse (field_increase d before after) (failure_fields d) = Inr parts \<and> concat parts = [])"
    by (auto simp: assert_no_domain_failures_def try_in_eq_Inr Let_def split: if_splits)
  then show ?thesis
    unfolding traverse_all_empty field_increase_none by (simp add: counter_of_def list_all_iff)
qed

text \<open>
  A gauge that the metrics do not report counts as zero, and of several samples of one name
  only the last is read.
\<close>

lemma cleanup_gauges_absent:
  "cleanup_metrics_of [(''samples'', JArr [])] =
     Inr \<lparr>cl_failures = 0, cl_retries = 0, cl_successes = 0, cl_pending = 0, cl_oldestAgeMs = 0\<rparr>"
  by (simp add: cleanup_metrics_of_def)

lemma cleanup_last_sample_wins:
  "map_option cl_pending (case cleanup_metrics_of [(''samples'', JArr
       [JObj [(''name'', JStr ''fitz_session_cleanup_pending''), (''value'', JNum 5)],
        JObj [(''name'', JStr ''fitz_session_cleanup_pending''), (''value'', JNum 0)]])] of
      Inl _ \<Rightarrow> None | Inr m \<Rightarrow> Some m) = Some 0"
  by (simp add: cleanup_metrics_of_def sample_value_def)

end
