(* ===== verification/Script.thy ===== *)
theory Script
  imports Prelude
begin

text \<open>
  Asynchronous code as state passing: a script takes the world, returns its value or the error
  it throws, and leaves a world; scripts over a client throw errors of a type of their own.  An \<^verbatim>\<open>await\<close> is sequencing.  Promises started together
  by \<^verbatim>\<open>Promise.all\<close> run in the order of the array.  A polling loop has fuel; \<^verbatim>\<open>poll_ends\<close> says
  when the fuel is enough.
\<close>

named_theorems script_ok

type_synonym ('e, 'w, 'a) throwing = "'w \<Rightarrow> ('e + 'a) \<times> 'w"

type_synonym ('w, 'a) script = "(error, 'w, 'a) throwing"

definition ret :: "'a \<Rightarrow> ('e, 'w, 'a) throwing" where
  "ret x = (\<lambda>w. (Inr x, w))"

definition fail :: "'e \<Rightarrow> ('e, 'w, 'a) throwing" where
  "fail e = (\<lambda>w. (Inl e, w))"

definition of_result :: "('e + 'a) \<Rightarrow> ('e, 'w, 'a) throwing" where
  "of_result r = (\<lambda>w. (r, w))"

definition run_then :: "('e, 'w, 'a) throwing \<Rightarrow> ('a \<Rightarrow> ('e, 'w, 'b) throwing) \<Rightarrow> ('e, 'w, 'b) throwing" where
  "run_then m k = (\<lambda>w. case m w of (Inl e, w') \<Rightarrow> (Inl e, w') | (Inr x, w') \<Rightarrow> k x w')"

definition get_state :: "('w \<Rightarrow> 'a) \<Rightarrow> ('e, 'w, 'a) throwing" where
  "get_state f = (\<lambda>w. (Inr (f w), w))"

definition modify :: "('w \<Rightarrow> 'w) \<Rightarrow> ('e, 'w, unit) throwing" where
  "modify f = (\<lambda>w. (Inr (), f w))"

text \<open>\<^verbatim>\<open>try { m } catch (e) { h(e) }\<close>, and \<^verbatim>\<open>try { m } finally { f }\<close>, where an error of \<^verbatim>\<open>f\<close> wins.\<close>

definition try_catch :: "('e, 'w, 'a) throwing \<Rightarrow> ('e \<Rightarrow> ('e, 'w, 'a) throwing) \<Rightarrow> ('e, 'w, 'a) throwing" where
  "try_catch m h = (\<lambda>w. case m w of (Inl e, w') \<Rightarrow> h e w' | (Inr x, w') \<Rightarrow> (Inr x, w'))"

definition try_finally :: "('e, 'w, 'a) throwing \<Rightarrow> ('e, 'w, unit) throwing \<Rightarrow> ('e, 'w, 'a) throwing" where
  "try_finally m f = (\<lambda>w. case m w of (r, w') \<Rightarrow> (case f w' of (Inl e, w'') \<Rightarrow> (Inl e, w'') | (Inr _, w'') \<Rightarrow> (r, w'')))"

text \<open>\<^verbatim>\<open>m.catch(() => undefined)\<close>.\<close>

definition ignore_failure :: "('e, 'w, 'a) throwing \<Rightarrow> ('e, 'w, unit) throwing" where
  "ignore_failure m = (\<lambda>w. (Inr (), snd (m w)))"

text \<open>
  A \<^verbatim>\<open>try\<close> block that stores its failure in a variable; the settled outcome of \<^verbatim>\<open>Promise.allSettled\<close>.
\<close>

definition attempt :: "('e, 'w, 'a) throwing \<Rightarrow> ('e, 'w, ('e + 'a)) throwing" where
  "attempt m = (\<lambda>w. case m w of (r, w') \<Rightarrow> (Inr r, w'))"

definition when_do :: "bool \<Rightarrow> ('e, 'w, unit) throwing \<Rightarrow> ('e, 'w, unit) throwing" where
  "when_do b m = (if b then m else ret ())"

text \<open>Statements one after the other.\<close>

fun steps :: "('e, 'w, unit) throwing list \<Rightarrow> ('e, 'w, unit) throwing" where
  "steps [] = ret ()"
| "steps (m # ms) = run_then m (\<lambda>_. steps ms)"

fun each :: "('a \<Rightarrow> ('e, 'w, unit) throwing) \<Rightarrow> 'a list \<Rightarrow> ('e, 'w, unit) throwing" where
  "each f [] = ret ()"
| "each f (x # xs) = run_then (f x) (\<lambda>_. each f xs)"

fun gather :: "('a \<Rightarrow> ('e, 'w, 'b) throwing) \<Rightarrow> 'a list \<Rightarrow> ('e, 'w, 'b list) throwing" where
  "gather f [] = ret []"
| "gather f (x # xs) = run_then (f x) (\<lambda>y. run_then (gather f xs) (\<lambda>ys. ret (y # ys)))"

definition out_of_fuel :: error where
  "out_of_fuel = Error ''out of fuel'' []"

text \<open>A loop whose body says whether to go on with new local variables or to leave with a value.\<close>

fun poll :: "nat \<Rightarrow> ('s \<Rightarrow> ('w, 's + 'a) script) \<Rightarrow> 's \<Rightarrow> ('w, 'a) script" where
  "poll 0 body s = fail out_of_fuel"
| "poll (Suc n) body s =
     run_then (body s) (\<lambda>r. case r of Inl s' \<Rightarrow> poll n body s' | Inr x \<Rightarrow> ret x)"

text \<open>
  A local variable that a \<^verbatim>\<open>finally\<close> clause reads: \<^verbatim>\<open>with_local v m\<close> runs \<^verbatim>\<open>m\<close> on the world paired
  with the variable, in which \<^verbatim>\<open>outer\<close> lifts the scripts of the world.
\<close>

definition with_local :: "'v \<Rightarrow> ('e, 'w \<times> 'v, 'a) throwing \<Rightarrow> ('e, 'w, 'a) throwing" where
  "with_local v m = (\<lambda>w. case m (w, v) of (r, w', _) \<Rightarrow> (r, w'))"

definition outer :: "('e, 'w, 'a) throwing \<Rightarrow> ('e, 'w \<times> 'v, 'a) throwing" where
  "outer m = (\<lambda>(w, v). case m w of (r, w') \<Rightarrow> (r, w', v))"

definition set_local :: "'v \<Rightarrow> ('e, 'w \<times> 'v, unit) throwing" where
  "set_local v = modify (\<lambda>(w, _). (w, v))"

definition get_local :: "('e, 'w \<times> 'v, 'v) throwing" where
  "get_local = get_state snd"

subsection \<open>Successful runs\<close>

lemma ret_ok [script_ok]: "ret x w = (Inr y, w') \<longleftrightarrow> y = x \<and> w' = w"
  by (auto simp: ret_def)

lemma fail_ok [script_ok]: "fail e w = (Inr y, w') \<longleftrightarrow> False"
  by (simp add: fail_def)

lemma of_result_ok [script_ok]: "of_result r w = (Inr y, w') \<longleftrightarrow> r = Inr y \<and> w' = w"
  by (auto simp: of_result_def)

lemma run_then_ok [script_ok]:
  "run_then m k w = (Inr y, w') \<longleftrightarrow> (\<exists>x v. m w = (Inr x, v) \<and> k x v = (Inr y, w'))"
  by (auto simp: run_then_def split: prod.splits sum.splits)

lemma get_state_ok [script_ok]: "get_state f w = (Inr y, w') \<longleftrightarrow> y = f w \<and> w' = w"
  by (auto simp: get_state_def)

lemma modify_ok [script_ok]: "modify f w = (Inr u, w') \<longleftrightarrow> w' = f w"
  by (auto simp: modify_def)

lemma ignore_failure_ok [script_ok]: "ignore_failure m w = (Inr u, w') \<longleftrightarrow> w' = snd (m w)"
  by (auto simp: ignore_failure_def)

lemma when_do_ok [script_ok]: "when_do b m w = (Inr u, w') \<longleftrightarrow> (if b then m w = (Inr (), w') else w' = w)"
  by (auto simp: when_do_def script_ok)

lemma try_finally_ok [script_ok]:
  "try_finally m f w = (Inr x, w') \<longleftrightarrow> (\<exists>v. m w = (Inr x, v) \<and> f v = (Inr (), w'))"
  by (auto simp: try_finally_def split: prod.splits sum.splits)

lemma steps_ok [script_ok]:
  "steps [] w = (Inr u, w') \<longleftrightarrow> w' = w"
  "steps (m # ms) w = (Inr u, w') \<longleftrightarrow> (\<exists>v. m w = (Inr (), v) \<and> steps ms v = (Inr (), w'))"
  by (auto simp: script_ok)

subsection \<open>What a script keeps\<close>

text \<open>
  \<^verbatim>\<open>keeps I m\<close>: however the script ends, it leads from a world with \<^verbatim>\<open>I\<close> to a world with \<^verbatim>\<open>I\<close>.
\<close>

definition keeps :: "('w \<Rightarrow> bool) \<Rightarrow> ('e, 'w, 'a) throwing \<Rightarrow> bool" where
  "keeps I m = (\<forall>w. I w \<longrightarrow> I (snd (m w)))"

named_theorems keeps_intros

lemma keepsD: "keeps I m \<Longrightarrow> m w = (r, w') \<Longrightarrow> I w \<Longrightarrow> I w'"
  by (metis keeps_def snd_conv)

lemma keeps_ret [keeps_intros]: "keeps I (ret x)"
  by (simp add: keeps_def ret_def)

lemma keeps_fail [keeps_intros]: "keeps I (fail e)"
  by (simp add: keeps_def fail_def)

lemma keeps_of_result [keeps_intros]: "keeps I (of_result r)"
  by (simp add: keeps_def of_result_def)

lemma keeps_get_state [keeps_intros]: "keeps I (get_state f)"
  by (simp add: keeps_def get_state_def)

lemma keeps_run_then [keeps_intros]: "keeps I m \<Longrightarrow> (\<And>x. keeps I (k x)) \<Longrightarrow> keeps I (run_then m k)"
  by (auto simp: keeps_def run_then_def split: prod.splits sum.splits; metis snd_conv)

lemma keeps_try_catch [keeps_intros]: "keeps I m \<Longrightarrow> (\<And>e. keeps I (h e)) \<Longrightarrow> keeps I (try_catch m h)"
  by (auto simp: keeps_def try_catch_def split: prod.splits sum.splits; metis snd_conv)

lemma keeps_try_finally [keeps_intros]: "keeps I m \<Longrightarrow> keeps I f \<Longrightarrow> keeps I (try_finally m f)"
  by (auto simp: keeps_def try_finally_def split: prod.splits sum.splits; metis snd_conv)

lemma keeps_ignore_failure [keeps_intros]: "keeps I m \<Longrightarrow> keeps I (ignore_failure m)"
  by (simp add: keeps_def ignore_failure_def)

lemma keeps_attempt [keeps_intros]: "keeps I m \<Longrightarrow> keeps I (attempt m)"
  by (auto simp: keeps_def attempt_def split: prod.splits)

lemma keeps_when_do [keeps_intros]: "keeps I m \<Longrightarrow> keeps I (when_do b m)"
  by (simp add: when_do_def keeps_ret)

lemma keeps_steps [keeps_intros]: "list_all (keeps I) ms \<Longrightarrow> keeps I (steps ms)"
  by (induction ms) (simp_all add: keeps_intros)

lemma keeps_each [keeps_intros]: "(\<And>x. keeps I (f x)) \<Longrightarrow> keeps I (each f xs)"
  by (induction xs) (simp_all add: keeps_intros)

lemma keeps_gather [keeps_intros]: "(\<And>x. keeps I (f x)) \<Longrightarrow> keeps I (gather f xs)"
  by (induction xs) (simp_all add: keeps_intros)

lemma keeps_poll [keeps_intros]: "(\<And>s. keeps I (body s)) \<Longrightarrow> keeps I (poll n body s)"
proof (induction n arbitrary: s)
  case (Suc n)
  then show ?case by (simp, intro keeps_intros) (simp_all add: keeps_intros split: sum.split)
qed (simp add: keeps_intros)

lemma keeps_option [keeps_intros]:
  "(z = None \<Longrightarrow> keeps I m) \<Longrightarrow> (\<And>x. z = Some x \<Longrightarrow> keeps I (k x)) \<Longrightarrow> keeps I (case z of None \<Rightarrow> m | Some x \<Rightarrow> k x)"
  by (cases z) simp_all

lemma keeps_if [keeps_intros]: "(b \<Longrightarrow> keeps I m) \<Longrightarrow> (\<not> b \<Longrightarrow> keeps I m') \<Longrightarrow> keeps I (if b then m else m')"
  by simp

lemma keeps_sum [keeps_intros]:
  "(\<And>x. keeps I (f x)) \<Longrightarrow> (\<And>y. keeps I (g y)) \<Longrightarrow> keeps I (case z of Inl x \<Rightarrow> f x | Inr y \<Rightarrow> g y)"
  by (cases z) simp_all

lemma keeps_prod [keeps_intros]: "(\<And>x y. keeps I (f x y)) \<Longrightarrow> keeps I (case z of (x, y) \<Rightarrow> f x y)"
  by (cases z) simp

lemma keeps_list [keeps_intros]:
  "keeps I m \<Longrightarrow> (\<And>x xs. keeps I (f x xs)) \<Longrightarrow> keeps I (case z of [] \<Rightarrow> m | x # xs \<Rightarrow> f x xs)"
  by (cases z) simp_all

subsection \<open>Polling\<close>

lemma poll_ok:
  assumes "poll n body s w = (Inr x, w')"
  shows "\<exists>s' v. body s' v = (Inr (Inr x), w')"
  using assms
proof (induction n arbitrary: s w)
  case (Suc n)
  then obtain r v where "body s w = (Inr r, v)" and "(case r of Inl s' \<Rightarrow> poll n body s' | Inr x \<Rightarrow> ret x) v = (Inr x, w')"
    by (auto simp: run_then_ok)
  then show ?case using Suc.IH by (cases r) (auto simp: ret_ok)
qed (simp add: fail_ok)

text \<open>
  The loop ends within the fuel when every round that goes on lowers a measure of the world.
\<close>

lemma poll_ends:
  assumes "\<And>s w s' w'. body s w = (Inr (Inl s'), w') \<Longrightarrow> I w \<Longrightarrow> I w' \<and> m w' < m w"
    and "\<And>s w e w'. body s w = (Inl e, w') \<Longrightarrow> e \<noteq> out_of_fuel"
  shows "I w \<Longrightarrow> m w < n \<Longrightarrow> fst (poll n body s w) \<noteq> Inl out_of_fuel"
proof (induction n arbitrary: s w)
  case (Suc n)
  obtain r w1 where b: "body s w = (r, w1)" by (cases "body s w")
  show ?case
  proof (cases r)
    case (Inl e)
    then show ?thesis using assms(2) [of s w e w1] b by (simp add: run_then_def)
  next
    case (Inr c)
    show ?thesis
    proof (cases c)
      case (Inl s')
      then have step: "I w1 \<and> m w1 < m w" using assms(1) [of s w s' w1] b \<open>r = Inr c\<close> Suc.prems by simp
      then have "fst (poll n body s' w1) \<noteq> Inl out_of_fuel" using Suc.prems by (intro Suc.IH) auto
      then show ?thesis using b \<open>r = Inr c\<close> Inl by (simp add: run_then_def)
    next
      case (Inr x)
      then show ?thesis using b \<open>r = Inr c\<close> by (simp add: run_then_def ret_def)
    qed
  qed
qed simp

end
