(* ===== verification/ComposeEvidence.thy ===== *)
theory ComposeEvidence
  imports LiveObservability PressureWarnings Config Script
begin

text \<open>
  The readers of Docker and broker output (src/orchestration/compose-evidence.ts): published
  ports, progress windows, memory usage, Prometheus samples, and the retried fetch.
\<close>

subsection \<open>Published ports\<close>

definition LOOPBACK_HOSTS :: "string list" where
  "LOOPBACK_HOSTS = [''127.0.0.1'', ''[::1]'', ''0.0.0.0'', ''[::]'']"

definition loopback_port :: "string \<Rightarrow> string option" where
  "loopback_port address =
     (case find (\<lambda>host. prefix (host @ '':'') address) LOOPBACK_HOSTS of
        None \<Rightarrow> None
      | Some host \<Rightarrow>
          (let digits = drop (length host + 1) address
           in if digits \<noteq> [] \<and> list_all is_digit digits then Some digits else None))"

definition loopback_port_url :: "string \<Rightarrow> string \<Rightarrow> string result" where
  "loopback_port_url output label =
     (case loopback_port (js_trim (hd (split_on (CHR 0x0A) (js_trim output)))) of
        None \<Rightarrow> Inl (Error ''Could not resolve loopback $ port from $'' [AStr label, AStr (js_trim output)])
      | Some digits \<Rightarrow> Inr (''http://127.0.0.1:'' @ digits))"

subsection \<open>Progress windows\<close>

text \<open>
  The window of a progress record; a line without one, or that is no JSON, is skipped (a window
  that is \<^verbatim>\<open>null\<close> throws inside the \<^verbatim>\<open>try\<close>).  A counter that is present is a number, as
  \<^verbatim>\<open>ProgressRecord\<close> declares; anything else counts as absent.
\<close>

definition progress_window :: "string \<Rightarrow> json option" where
  "progress_window line =
     (case from_brace line of
        None \<Rightarrow> None
      | Some rest \<Rightarrow>
          (case parse_json rest of
             None \<Rightarrow> None
           | Some r \<Rightarrow>
               if has_event ''progress'' r
               then (case json_get r ''window'' of None \<Rightarrow> None | Some JNull \<Rightarrow> None | Some v \<Rightarrow> Some v)
               else None))"

definition window_counter :: "json \<Rightarrow> string \<Rightarrow> domain \<Rightarrow> rat" where
  "window_counter w field d =
     (case json_get w (domain_name d) of
        Some cell \<Rightarrow> (case json_get cell field of Some (JNum x) \<Rightarrow> x | _ \<Rightarrow> 0)
      | None \<Rightarrow> 0)"

definition progress_windows :: "string \<Rightarrow> json list" where
  "progress_windows logs = List.map_filter progress_window (split_on (CHR 0x0A) logs)"

definition parse_window_successes :: "string \<Rightarrow> (domain, rat) js_map" where
  "parse_window_successes logs =
     foldl (\<lambda>successes w. map (\<lambda>(d, n). (d, fl (n + window_counter w ''success'' d))) successes)
       (map (\<lambda>d. (d, 0)) ALL_DOMAINS) (progress_windows logs)"

definition parse_window_errors :: "string \<Rightarrow> rat" where
  "parse_window_errors logs =
     foldl (\<lambda>errors w. foldl (\<lambda>n d. fl (n + window_counter w ''error'' d)) errors ALL_DOMAINS) 0
       (progress_windows logs)"

record bombard_total =
  bt_success :: nat
  bt_error :: nat

definition empty_bombard_totals :: "(domain, bombard_total) js_map" where
  "empty_bombard_totals = map (\<lambda>d. (d, \<lparr>bt_success = 0, bt_error = 0\<rparr>)) ALL_DOMAINS"

definition client_handler_concurrency :: "run_config \<Rightarrow> int" where
  "client_handler_concurrency config =
     (if clientProfile config = BrokerIsolation then 1000000 else liveConcurrency config)"

definition elapsed_ms :: "rat \<Rightarrow> rat \<Rightarrow> int" where
  "elapsed_ms now_ms started_at = js_round (fl (now_ms - started_at))"

subsection \<open>Docker memory usage\<close>

definition MEMORY_POWERS :: "(string, nat) js_map" where
  "MEMORY_POWERS =
     [(''b'', 0), (''kb'', 1), (''kib'', 1), (''mb'', 2), (''mib'', 2), (''gb'', 3), (''gib'', 3),
      (''tb'', 4), (''tib'', 4), (''pb'', 5), (''pib'', 5), (''eb'', 6), (''eib'', 6)]"

text \<open>The pattern \<^verbatim>\<open>[kmgtpe]?i?b\<close> on a lower-case unit.\<close>

definition is_memory_unit :: "string \<Rightarrow> bool" where
  "is_memory_unit unit_text =
     (let t = (case unit_text of c # u \<Rightarrow> if c \<in> set ''kmgtpe'' then u else unit_text | [] \<Rightarrow> [])
      in t = ''b'' \<or> t = ''ib'')"

text \<open>\<^verbatim>\<open>(\d+(?:\.\d+)?)\s*(unit)\<close>: the amount and the unit in lower case.\<close>

definition memory_amount :: "string \<Rightarrow> (rat \<times> string) option" where
  "memory_amount used =
     (case span is_digit used of (ds, rest) \<Rightarrow>
        if ds = [] then None
        else (case parse_fraction rest of
           None \<Rightarrow> None
         | Some (fs, rest1) \<Rightarrow>
             (let unit_text = lower (dropWhile is_space rest1)
              in if is_memory_unit unit_text then Some (number_value False ds fs 0, unit_text) else None)))"

definition parse_docker_memory_usage :: "string \<Rightarrow> int result" where
  "parse_docker_memory_usage usage =
     (case memory_amount (js_trim (hd (split_on (CHR ''/'') usage))) of
        None \<Rightarrow> Inl (Error ''Cannot parse Docker memory usage $'' [AStr usage])
      | Some (amount, unit_text) \<Rightarrow>
          (case map_get MEMORY_POWERS unit_text of
             None \<Rightarrow> Inl (Error ''Cannot parse Docker memory unit $'' [AStr unit_text])
           | Some exponent \<Rightarrow> Inr (js_round (fl (amount * 1024 ^ exponent)))))"

subsection \<open>Quiescence of a pressure sample\<close>

definition sample_field :: "(string \<times> json) list \<Rightarrow> string \<Rightarrow> rat" where
  "sample_field m field = (case map_get m field of Some (JNum x) \<Rightarrow> x | _ \<Rightarrow> 0)"

definition is_pressure_quiescent :: "broker_sample \<Rightarrow> bool" where
  "is_pressure_quiescent s =
     (sample_field (queue_stats s) ''messages_ready'' = 0 \<and>
      sample_field (queue_stats s) ''messages_delayed'' = 0 \<and>
      sample_field (queue_stats s) ''messages_pending'' = 0 \<and>
      sample_field (queue_stats s) ''inflight_active'' = 0 \<and>
      sample_field (rpc_stats s) ''workers_registered'' = 0 \<and>
      sample_field (rpc_stats s) ''requests_pending'' = 0 \<and>
      sample_field (metrics_stats s) ''sessionCleanupPending'' = 0)"

subsection \<open>Prometheus samples\<close>

text \<open>
  The number of a sample line: \<^verbatim>\<open>-?(\d+(\.\d+)?|\.\d+)(e[+-]?\d+)?\<close> up to the end of the line.
  A literal whose value rounds to 2^1024 or beyond is \<^verbatim>\<open>Infinity\<close>, which the loop skips.
\<close>

definition unsigned_number :: "bool \<Rightarrow> string \<Rightarrow> rat option" where
  "unsigned_number neg s =
     (case span is_digit s of (ds, rest) \<Rightarrow>
        (case parse_fraction rest of
           None \<Rightarrow> None
         | Some (fs, rest1) \<Rightarrow>
             if ds = [] \<and> fs = [] then None
             else (case parse_exponent rest1 of
                Some (e, []) \<Rightarrow> Some (number_value neg ds fs e)
              | _ \<Rightarrow> None)))"

definition prometheus_number :: "string \<Rightarrow> rat option" where
  "prometheus_number s =
     (case s of
        c # t \<Rightarrow> if c = CHR ''-'' then unsigned_number True t else unsigned_number False s
      | [] \<Rightarrow> None)"

definition spaced_number :: "string \<Rightarrow> rat option" where
  "spaced_number s =
     (case s of
        c # _ \<Rightarrow> if is_space c then prometheus_number (dropWhile is_space s) else None
      | [] \<Rightarrow> None)"

text \<open>What follows the metric name: an optional label block, space, the number.\<close>

definition sample_tail :: "string \<Rightarrow> rat option" where
  "sample_tail r =
     (case r of
        c # t \<Rightarrow>
          if c = CHR ''{'' then
            (case dropWhile (\<lambda>x. x \<noteq> CHR ''}'') t of _ # u \<Rightarrow> spaced_number u | [] \<Rightarrow> None)
          else spaced_number r
      | [] \<Rightarrow> None)"

text \<open>The lazy \<^verbatim>\<open>\S+?\<close>: the shortest name after which the rest of the line matches.\<close>

fun split_sample :: "string \<Rightarrow> string \<Rightarrow> (string \<times> rat) option" where
  "split_sample name [] = None"
| "split_sample name (c # r) =
     (if is_space c then None
      else (case sample_tail r of
         Some x \<Rightarrow> Some (name @ [c], x)
       | None \<Rightarrow> split_sample (name @ [c]) r))"

definition add_sample :: "string \<Rightarrow> rat \<Rightarrow> string \<Rightarrow> rat" where
  "add_sample name total_so_far line =
     (if prefix ''#'' line then total_so_far
      else (case split_sample [] (js_trim line) of
         Some (n, x) \<Rightarrow> if n = name \<and> \<bar>x\<bar> < 2 ^ 1024 then fl (total_so_far + x) else total_so_far
       | None \<Rightarrow> total_so_far))"

definition prometheus_metric :: "string \<Rightarrow> string \<Rightarrow> rat" where
  "prometheus_metric exposition name = foldl (add_sample name) 0 (split_on (CHR 0x0A) exposition)"

subsection \<open>The retried fetch\<close>

fun fetch_attempts :: "('w, 'a) script \<Rightarrow> ('w, unit) script \<Rightarrow> nat \<Rightarrow> error \<Rightarrow> ('w, 'a) script" where
  "fetch_attempts fetch_once pause 0 last_error = fail last_error"
| "fetch_attempts fetch_once pause (Suc n) last_error =
     try_catch fetch_once (\<lambda>e.
       run_then (when_do (0 < n) pause) (\<lambda>_. fetch_attempts fetch_once pause n e))"

definition fetch_with_transient_retry :: "('w, 'a) script \<Rightarrow> ('w, unit) script \<Rightarrow> ('w, 'a) script" where
  "fetch_with_transient_retry fetch_once pause = fetch_attempts fetch_once pause 3 (Error ''undefined'' [])"

lemma keeps_fetch_attempts [keeps_intros]:
  "keeps I fetch_once \<Longrightarrow> keeps I pause \<Longrightarrow> keeps I (fetch_attempts fetch_once pause n e)"
  by (induction n arbitrary: e) (simp_all add: keeps_intros)

lemma keeps_fetch_with_transient_retry [keeps_intros]:
  "keeps I fetch_once \<Longrightarrow> keeps I pause \<Longrightarrow> keeps I (fetch_with_transient_retry fetch_once pause)"
  by (simp add: fetch_with_transient_retry_def keeps_fetch_attempts)

text \<open>A result comes from some attempt; three failures in a row give the error of the last.\<close>

lemma fetch_attempts_ok:
  "fetch_attempts fetch_once pause n e w = (Inr x, w') \<Longrightarrow> \<exists>v. fetch_once v = (Inr x, w')"
proof (induction n arbitrary: e w)
  case (Suc n)
  then show ?case
    by (auto simp: try_catch_def run_then_ok split: prod.splits sum.splits; metis)
qed (simp add: fail_ok)

subsection \<open>What the readers accept\<close>

lemma loopback_port_url_ok:
  "loopback_port_url output label = Inr url \<Longrightarrow>
     \<exists>host \<in> set LOOPBACK_HOSTS. \<exists>digits. digits \<noteq> [] \<and> list_all is_digit digits \<and>
       js_trim (hd (split_on (CHR 0x0A) (js_trim output))) = host @ '':'' @ digits \<and>
       url = ''http://127.0.0.1:'' @ digits"
proof -
  assume "loopback_port_url output label = Inr url"
  then obtain digits where d: "loopback_port (js_trim (hd (split_on (CHR 0x0A) (js_trim output)))) = Some digits"
    and url: "url = ''http://127.0.0.1:'' @ digits"
    by (auto simp: loopback_port_url_def split: option.splits)
  from d obtain host where h: "find (\<lambda>host. prefix (host @ '':'') (js_trim (hd (split_on (CHR 0x0A) (js_trim output))))) LOOPBACK_HOSTS = Some host"
    and digits: "digits = drop (length host + 1) (js_trim (hd (split_on (CHR 0x0A) (js_trim output))))"
      "digits \<noteq> []" "list_all is_digit digits"
    by (auto simp: loopback_port_def Let_def split: option.splits if_splits)
  from h have "host \<in> set LOOPBACK_HOSTS" and "prefix (host @ '':'') (js_trim (hd (split_on (CHR 0x0A) (js_trim output))))"
    by (auto simp: find_Some_iff)
  with digits url show ?thesis by (auto simp: prefix_def)
qed

text \<open>Absent counters count as zero: an empty sample is quiescent.\<close>

lemma pressure_quiescent_empty:
  "queue_stats s = [] \<Longrightarrow> rpc_stats s = [] \<Longrightarrow> metrics_stats s = [] \<Longrightarrow> is_pressure_quiescent s"
  by (simp add: is_pressure_quiescent_def sample_field_def)

lemma fold_invariant_list: "P s \<Longrightarrow> (\<And>s x. P s \<Longrightarrow> P (f s x)) \<Longrightarrow> P (foldl f s xs)"
  by (induction xs arbitrary: s) auto

lemma window_successes_keys: "map_keys (parse_window_successes logs) = ALL_DOMAINS"
  unfolding parse_window_successes_def
  by (rule fold_invariant_list) (auto simp: map_keys_def comp_def case_prod_beta)

end
