(* ===== verification/Host.thy ===== *)
theory Host
  imports ComposeEvidence
begin

text \<open>
  The machine a stack runs on: child processes (src/orchestration/command.ts), HTTP, clocks and
  the artifact files (src/orchestration/artifacts.ts).  What a process, a server or the file
  system answers is a parameter, the record \<^verbatim>\<open>host\<close> over an unknown state \<^verbatim>\<open>'o\<close>; the world of a
  script is that state with the mutable fields of a stack and the list of the calls made.
\<close>

subsection \<open>The world\<close>

record http_response =
  resp_status :: nat
  resp_body :: string

record command_result =
  stdout :: string
  stderr :: string
  exitCode :: int

record command_options =
  opt_cwd :: string
  opt_env :: "(string, string) js_map"
  opt_allowFailure :: bool

text \<open>The calls that have an effect outside, in the order they were made.\<close>

datatype os_call =
    Spawned string "string list" "(string, string) js_map"
  | Fetched string string
  | EventAppended string "(string \<times> json) list"
  | FileWritten string string
  | JsonWritten string json
  | Slept int

text \<open>
  A child process ends with its output and its exit code (\<^verbatim>\<open>None\<close> when a signal ended it), or the
  spawn fails; a fetch answers or throws; a clock is read in milliseconds.
\<close>

record 'o host =
  host_spawn :: "string \<Rightarrow> string list \<Rightarrow> command_options \<Rightarrow> 'o \<Rightarrow> (string \<times> string \<times> int option) result \<times> 'o"
  host_fetch :: "string \<Rightarrow> string \<Rightarrow> string \<Rightarrow> int \<Rightarrow> 'o \<Rightarrow> http_response result \<times> 'o"
  host_append :: "string \<Rightarrow> json \<Rightarrow> 'o \<Rightarrow> unit result \<times> 'o"
  host_write :: "string \<Rightarrow> string \<Rightarrow> 'o \<Rightarrow> unit result \<times> 'o"
  host_write_json :: "string \<Rightarrow> json \<Rightarrow> 'o \<Rightarrow> unit result \<times> 'o"
  host_access :: "string \<Rightarrow> 'o \<Rightarrow> unit result \<times> 'o"
  host_now :: "'o \<Rightarrow> rat \<times> 'o"
  host_performance :: "'o \<Rightarrow> rat \<times> 'o"
  host_timestamp :: "'o \<Rightarrow> string \<times> 'o"
  host_sleep :: "int \<Rightarrow> 'o \<Rightarrow> 'o"

record 'o world =
  environment :: "(string, string) js_map"
  job_sequence :: nat
  role_sequence :: nat
  metrics_url :: "string option"
  rss_cached :: "int option"
  rss_sampled_at :: rat
  calls :: "os_call list"
  outside :: 'o

type_synonym ('o, 'a) action = "('o world, 'a) script"

definition effect :: "os_call list \<Rightarrow> ('o \<Rightarrow> 'a result \<times> 'o) \<Rightarrow> ('o, 'a) action" where
  "effect cs f = (\<lambda>w. case f (outside w) of (r, o') \<Rightarrow> (r, w\<lparr>outside := o', calls := calls w @ cs\<rparr>))"

definition read_clock :: "('o \<Rightarrow> 'a \<times> 'o) \<Rightarrow> ('o, 'a) action" where
  "read_clock f = effect [] (\<lambda>o'. case f o' of (x, o'') \<Rightarrow> (Inr x, o''))"

definition date_now :: "'o host \<Rightarrow> ('o, rat) action" where
  "date_now h = read_clock (host_now h)"

definition performance_now :: "'o host \<Rightarrow> ('o, rat) action" where
  "performance_now h = read_clock (host_performance h)"

definition sleep :: "'o host \<Rightarrow> int \<Rightarrow> ('o, unit) action" where
  "sleep h ms = effect [Slept ms] (\<lambda>o'. (Inr (), host_sleep h ms o'))"

definition elapsed_since :: "'o host \<Rightarrow> rat \<Rightarrow> ('o, int) action" where
  "elapsed_since h started_at = run_then (performance_now h) (\<lambda>t. ret (elapsed_ms t started_at))"

subsection \<open>Commands\<close>

definition last_chars :: "nat \<Rightarrow> string \<Rightarrow> string" where
  "last_chars n s = drop (length s - n) s"

definition run_command :: "'o host \<Rightarrow> string \<Rightarrow> string list \<Rightarrow> command_options \<Rightarrow> ('o, command_result) action" where
  "run_command h executable args options =
     run_then (effect [Spawned executable args (opt_env options)] (host_spawn h executable args options)) (\<lambda>(out, err, code).
       let exit_code = (case code of None \<Rightarrow> 1 | Some c \<Rightarrow> c);
           r = \<lparr>stdout = out, stderr = err, exitCode = exit_code\<rparr>
       in if exit_code \<noteq> 0 \<and> \<not> opt_allowFailure options
          then fail (Error ''$ $ exited $/1$'' [AStr executable, AStr (join_with '' '' args), AInt exit_code,
                 AStr (last_chars 8000 (js_trim (out @ [CHR 0x0A] @ err)))])
          else ret r)"

lemma run_command_ok: "run_command h e args opts w = (Inr r, w') \<Longrightarrow> exitCode r = 0 \<or> opt_allowFailure opts"
  by (auto simp: run_command_def script_ok Let_def split: if_splits)

subsection \<open>Artifacts\<close>

definition show_int :: "int \<Rightarrow> string" where
  "show_int n = (if n < 0 then CHR ''-'' # show_nat (nat (- n)) else show_nat (nat n))"

definition jint :: "int \<Rightarrow> json" where "jint n = JNum (of_int n)"

definition jnat :: "nat \<Rightarrow> json" where "jnat n = JNum (of_nat n)"

definition jstrs :: "string list \<Rightarrow> json" where "jstrs xs = JArr (map JStr xs)"

text \<open>\<^verbatim>\<open>{ timestamp, event, ...fields }\<close>: a field replaces an entry of the same name.\<close>

definition event_record :: "string \<Rightarrow> string \<Rightarrow> (string \<times> json) list \<Rightarrow> json" where
  "event_record stamp name entries =
     JObj (foldl (\<lambda>m (k, v). map_set m k v) [(''timestamp'', JStr stamp), (''event'', JStr name)] entries)"

definition artifact_event :: "'o host \<Rightarrow> string \<Rightarrow> (string \<times> json) list \<Rightarrow> ('o, unit) action" where
  "artifact_event h name entries =
     run_then (read_clock (host_timestamp h)) (\<lambda>stamp.
       effect [EventAppended name entries] (host_append h ''events.ndjson'' (event_record stamp name entries)))"

definition artifact_write :: "'o host \<Rightarrow> string \<Rightarrow> string \<Rightarrow> ('o, unit) action" where
  "artifact_write h name content = effect [FileWritten name content] (host_write h name content)"

definition artifact_write_json :: "'o host \<Rightarrow> string \<Rightarrow> json \<Rightarrow> ('o, unit) action" where
  "artifact_write_json h name v = effect [JsonWritten name v] (host_write_json h name v)"

subsection \<open>HTTP\<close>

definition response_ok :: "http_response \<Rightarrow> bool" where
  "response_ok r = (200 \<le> resp_status r \<and> resp_status r \<le> 299)"

text \<open>\<^verbatim>\<open>new URL(url).pathname\<close> of a URL of the form \<^verbatim>\<open>http://host:port/path\<close>.\<close>

definition url_pathname :: "string \<Rightarrow> string" where
  "url_pathname url = dropWhile (\<lambda>c. c \<noteq> CHR ''/'') (drop (length ''http://'') url)"

definition fetch_get :: "'o host \<Rightarrow> string \<Rightarrow> int \<Rightarrow> ('o, http_response) action" where
  "fetch_get h url timeout_ms = effect [Fetched ''GET'' url] (host_fetch h ''GET'' url [] timeout_ms)"

definition fetch_retried :: "'o host \<Rightarrow> string \<Rightarrow> int \<Rightarrow> ('o, http_response) action" where
  "fetch_retried h url timeout_ms =
     fetch_with_transient_retry (fetch_get h url (min timeout_ms 30000)) (sleep h 100)"

definition fetch_json_object :: "'o host \<Rightarrow> string \<Rightarrow> int \<Rightarrow> ('o, (string \<times> json) list) action" where
  "fetch_json_object h url timeout_ms =
     run_then (fetch_retried h url timeout_ms) (\<lambda>r.
       if \<not> response_ok r
       then fail (Error ''$ returned HTTP $: $'' [AStr (url_pathname url), ANat (resp_status r), AStr (take 500 (resp_body r))])
       else case parse_json (resp_body r) of
           None \<Rightarrow> fail (Error ''SyntaxError'' [AStr (resp_body r)])
         | Some (JObj m) \<Rightarrow> ret m
         | Some _ \<Rightarrow> fail (Error ''$ did not return a JSON object'' [AStr (url_pathname url)]))"

definition fetch_text :: "'o host \<Rightarrow> string \<Rightarrow> string \<Rightarrow> int \<Rightarrow> ('o, string) action" where
  "fetch_text h url label timeout_ms =
     run_then (fetch_retried h url timeout_ms) (\<lambda>r.
       if \<not> response_ok r
       then fail (Error ''$ returned HTTP $: $'' [AStr label, ANat (resp_status r), AStr (take 500 (resp_body r))])
       else ret (resp_body r))"

subsection \<open>Invariants over the calls\<close>

text \<open>
  \<^verbatim>\<open>only_calls P m\<close>: every call the script makes, however it ends, satisfies \<^verbatim>\<open>P\<close>.
\<close>

definition only_calls :: "(os_call \<Rightarrow> bool) \<Rightarrow> ('o, 'a) action \<Rightarrow> bool" where
  "only_calls P m = (\<forall>w. \<exists>cs. calls (snd (m w)) = calls w @ cs \<and> list_all P cs)"

named_theorems calls_intros

lemma only_calls_effect: "list_all P cs \<Longrightarrow> only_calls P (effect cs f)"
  by (auto simp: only_calls_def effect_def split: prod.splits)

lemma only_calls_silent: "(\<And>w. calls (snd (m w)) = calls w) \<Longrightarrow> only_calls P m"
  by (auto simp: only_calls_def intro: exI [of _ "[]"])

lemma only_calls_Pair [simp]: "only_calls P (Pair x)"
  by (simp add: only_calls_silent)

lemma only_calls_simple [calls_intros]:
  "only_calls P (ret x)" "only_calls P (fail e)" "only_calls P (of_result r)" "only_calls P (get_state f)"
  by (simp_all add: only_calls_silent ret_def fail_def of_result_def get_state_def)

lemma only_calls_modify [calls_intros]: "(\<And>w. calls (f w) = calls w) \<Longrightarrow> only_calls P (modify f)"
  by (simp add: only_calls_silent modify_def)

lemma only_calls_read_clock [calls_intros]: "only_calls P (read_clock f)"
  by (simp add: read_clock_def only_calls_effect)

text \<open>Every sequencing operator runs a script and then one chosen by its outcome.\<close>

lemma only_calls_then:
  assumes "only_calls P m" "\<And>r. only_calls P (k r)"
    and "\<And>w. calls (snd (c w)) = calls (snd (case m w of (r, w') \<Rightarrow> k r w'))"
  shows "only_calls P c"
  unfolding only_calls_def
proof
  fix w
  obtain r w1 where m: "m w = (r, w1)" by (cases "m w")
  obtain cs where cs: "calls w1 = calls w @ cs" "list_all P cs"
    using assms(1) m by (auto simp: only_calls_def dest: spec [of _ w])
  obtain ds where "calls (snd (k r w1)) = calls w1 @ ds" "list_all P ds"
    using assms(2) [of r] by (auto simp: only_calls_def dest: spec [of _ w1])
  then show "\<exists>cs. calls (snd (c w)) = calls w @ cs \<and> list_all P cs"
    using m cs assms(3) [of w] by auto
qed

lemma only_calls_run_then [calls_intros]:
  assumes "only_calls P m" "\<And>x. only_calls P (k x)"
  shows "only_calls P (run_then m k)"
  by (rule only_calls_then [of P m "\<lambda>r. case r of Inl e \<Rightarrow> fail e | Inr x \<Rightarrow> k x"])
    (simp_all add: assms only_calls_simple run_then_def fail_def split: sum.splits prod.splits)

lemma only_calls_try_catch [calls_intros]:
  assumes "only_calls P m" "\<And>e. only_calls P (g e)"
  shows "only_calls P (try_catch m g)"
  by (rule only_calls_then [of P m "\<lambda>r. case r of Inl e \<Rightarrow> g e | Inr x \<Rightarrow> ret x"])
    (simp_all add: assms only_calls_simple try_catch_def ret_def split: sum.splits prod.splits)

lemma only_calls_try_finally [calls_intros]:
  assumes "only_calls P m" "only_calls P g"
  shows "only_calls P (try_finally m g)"
  by (rule only_calls_then [of P m "\<lambda>_. g"])
    (auto simp: assms try_finally_def split: sum.splits prod.splits)

lemma only_calls_ignore_failure [calls_intros]: "only_calls P m \<Longrightarrow> only_calls P (ignore_failure m)"
  by (simp add: only_calls_def ignore_failure_def)

lemma only_calls_attempt [calls_intros]: "only_calls P m \<Longrightarrow> only_calls P (attempt m)"
  unfolding attempt_def only_calls_def by (auto split: prod.splits) (metis snd_conv)

lemma only_calls_when_do [calls_intros]: "only_calls P m \<Longrightarrow> only_calls P (when_do b m)"
  by (simp add: when_do_def calls_intros)

lemma only_calls_steps [calls_intros]:
  "only_calls P (steps [])" "only_calls P m \<Longrightarrow> only_calls P (steps ms) \<Longrightarrow> only_calls P (steps (m # ms))"
  by (simp_all add: calls_intros)

lemma only_calls_each [calls_intros]: "(\<And>x. only_calls P (f x)) \<Longrightarrow> only_calls P (each f xs)"
  by (induction xs) (simp_all add: calls_intros)

lemma only_calls_gather [calls_intros]: "(\<And>x. only_calls P (f x)) \<Longrightarrow> only_calls P (gather f xs)"
  by (induction xs) (simp_all add: calls_intros)

lemma only_calls_option [calls_intros]:
  "(z = None \<Longrightarrow> only_calls P m) \<Longrightarrow> (\<And>x. z = Some x \<Longrightarrow> only_calls P (k x)) \<Longrightarrow>
     only_calls P (case z of None \<Rightarrow> m | Some x \<Rightarrow> k x)"
  by (cases z) simp_all

lemma only_calls_if [calls_intros]:
  "(b \<Longrightarrow> only_calls P m) \<Longrightarrow> (\<not> b \<Longrightarrow> only_calls P m') \<Longrightarrow> only_calls P (if b then m else m')"
  by simp

lemma only_calls_prod [calls_intros]: "(\<And>x y. only_calls P (f x y)) \<Longrightarrow> only_calls P (case z of (x, y) \<Rightarrow> f x y)"
  by (cases z) simp

lemma only_calls_sum [calls_intros]:
  "(\<And>x. only_calls P (f x)) \<Longrightarrow> (\<And>y. only_calls P (g y)) \<Longrightarrow> only_calls P (case z of Inl x \<Rightarrow> f x | Inr y \<Rightarrow> g y)"
  by (cases z) simp_all

lemma only_calls_list [calls_intros]:
  "only_calls P m \<Longrightarrow> (\<And>x xs. only_calls P (f x xs)) \<Longrightarrow> only_calls P (case z of [] \<Rightarrow> m | x # xs \<Rightarrow> f x xs)"
  by (cases z) simp_all

lemma only_calls_poll [calls_intros]: "(\<And>s. only_calls P (body s)) \<Longrightarrow> only_calls P (poll n body s)"
proof (induction n arbitrary: s)
  case (Suc n)
  then show ?case by (simp, intro calls_intros) (simp_all add: calls_intros split: sum.split)
qed (simp add: calls_intros)

lemma only_calls_fetch_attempts [calls_intros]:
  "only_calls P m \<Longrightarrow> only_calls P pause \<Longrightarrow> only_calls P (fetch_attempts m pause n e)"
  by (induction n arbitrary: e) (simp_all add: calls_intros)

lemma only_calls_run_command [calls_intros]:
  "P (Spawned e args (opt_env opts)) \<Longrightarrow> only_calls P (run_command h e args opts)"
  unfolding run_command_def Let_def by (intro calls_intros only_calls_effect) simp

text \<open>A predicate that holds of everything but spawns, and of those that are allowed.\<close>

definition on_spawns :: "(string \<Rightarrow> string list \<Rightarrow> bool) \<Rightarrow> os_call \<Rightarrow> bool" where
  "on_spawns Q c = (case c of Spawned e args _ \<Rightarrow> Q e args | _ \<Rightarrow> True)"

lemma on_spawns_simps [simp]:
  "on_spawns Q (Spawned e args v) = Q e args" "on_spawns Q (Fetched m u)" "on_spawns Q (EventAppended n fs)"
  "on_spawns Q (FileWritten n s)" "on_spawns Q (JsonWritten n v')" "on_spawns Q (Slept ms)"
  by (simp_all add: on_spawns_def)

lemma only_calls_quiet [calls_intros]:
  "only_calls (on_spawns Q) (artifact_event h name entries)" "only_calls (on_spawns Q) (artifact_write h name content)"
  "only_calls (on_spawns Q) (artifact_write_json h name v)" "only_calls (on_spawns Q) (sleep h ms)"
  "only_calls (on_spawns Q) (date_now h)" "only_calls (on_spawns Q) (performance_now h)"
  "only_calls (on_spawns Q) (elapsed_since h t)" "only_calls (on_spawns Q) (fetch_get h url timeout)"
  by (auto simp: artifact_event_def artifact_write_def artifact_write_json_def sleep_def date_now_def
      performance_now_def elapsed_since_def fetch_get_def intro!: calls_intros only_calls_effect)

lemma only_calls_fetches [calls_intros]:
  "only_calls (on_spawns Q) (fetch_retried h url timeout)"
  "only_calls (on_spawns Q) (fetch_json_object h url timeout)"
  "only_calls (on_spawns Q) (fetch_text h url label timeout)"
proof -
  show r: "only_calls (on_spawns Q) (fetch_retried h url timeout)" for url timeout
    unfolding fetch_retried_def fetch_with_transient_retry_def by (intro calls_intros)
  show "only_calls (on_spawns Q) (fetch_json_object h url timeout)"
    unfolding fetch_json_object_def by (intro calls_intros r) (auto split: json.split intro: calls_intros)
  show "only_calls (on_spawns Q) (fetch_text h url label timeout)"
    unfolding fetch_text_def by (intro calls_intros r)
qed

end
