(* ===== verification/Compose.thy ===== *)
theory Compose
  imports Host "HOL-Library.List_Lexorder" "HOL-Library.Char_ord"
begin

text \<open>
  The Compose stack (src/orchestration/compose.ts with compose-model.ts): its construction, the
  docker commands of its life cycle, its faults and its readings.  The waits are in \<^verbatim>\<open>ComposeWait\<close>.
  A stack is the constant part of the object; the mutable fields are in the world.  Promises
  joined by \<^verbatim>\<open>Promise.all\<close> run in order and stop at the first failure.
\<close>

subsection \<open>Construction\<close>

record 'o stack =
  host_of :: "'o host"
  config_of :: run_config
  project_of :: string
  compose_files :: "string list"
  target_image :: string
  fuel :: nat

definition AUTHENTICATED_ROUTE_FAMILY_SCENARIOS :: "string list" where
  "AUTHENTICATED_ROUTE_FAMILY_SCENARIOS =
    [''authorization-isolation'', ''connect-pipeline-family-rebind'', ''route-family-isolation-matrix'',
     ''schedule-due-storm-isolation'', ''same-shard-family-fairness'',
     ''family-actor-partial-failure-isolation'', ''same-shard-family-failure-isolation'',
     ''family-actor-exhaustion-readiness'', ''family-actor-degradation-observability'',
     ''family-actor-inflight-concurrent-failure'']"

definition uses_authenticated_route_families :: "string \<Rightarrow> bool" where
  "uses_authenticated_route_families sc = (sc \<in> set AUTHENTICATED_ROUTE_FAMILY_SCENARIOS)"

definition FAILPOINT_SCENARIOS :: "string list" where
  "FAILPOINT_SCENARIOS =
    [''actor-supervision-failpoint'', ''family-actor-partial-failure-isolation'',
     ''same-shard-family-failure-isolation'', ''family-actor-exhaustion-readiness'',
     ''family-actor-degradation-observability'', ''family-actor-inflight-concurrent-failure'']"

definition DESTROYER_FAMILY_ACTOR_SHARD_COUNT :: nat where
  "DESTROYER_FAMILY_ACTOR_SHARD_COUNT = 4"

definition DESTROYER_PRIMARY_FAMILY :: nat where
  "DESTROYER_PRIMARY_FAMILY = 1"

definition DESTROYER_SAME_SHARD_FAMILY :: nat where
  "DESTROYER_SAME_SHARD_FAMILY = DESTROYER_FAMILY_ACTOR_SHARD_COUNT + 1"

definition DESTROYER_FAMILY_ACTOR_FAMILIES :: "nat list" where
  "DESTROYER_FAMILY_ACTOR_FAMILIES = map (\<lambda>index. index + 1) [0..<DESTROYER_SAME_SHARD_FAMILY]"

definition authenticated_route_family_environment :: "string \<Rightarrow> (string, string) js_map" where
  "authenticated_route_family_environment sc =
     (let families = join_with '','' (map show_nat DESTROYER_FAMILY_ACTOR_FAMILIES) in
      if sc = ''family-actor-inflight-concurrent-failure'' then
        [(''FITZ_ROUTE_FAMILIES'', families),
         (''FITZ_ROUTE_FAMILY_MAP'', ''identity-a='' @ show_nat DESTROYER_PRIMARY_FAMILY @
            '',identity-b=2,identity-c='' @ show_nat DESTROYER_SAME_SHARD_FAMILY),
         (''FITZ_ROUTE_FAMILY_CLAIM'', ''tid''),
         (''FITZ_CPU_LIMIT'', show_nat DESTROYER_FAMILY_ACTOR_SHARD_COUNT)]
      else if sc = ''same-shard-family-fairness'' \<or> sc = ''same-shard-family-failure-isolation'' then
        [(''FITZ_ROUTE_FAMILIES'', families),
         (''FITZ_ROUTE_FAMILY_MAP'', ''identity-a='' @ show_nat DESTROYER_PRIMARY_FAMILY @
            '',identity-b='' @ show_nat DESTROYER_SAME_SHARD_FAMILY),
         (''FITZ_ROUTE_FAMILY_CLAIM'', ''tid''),
         (''FITZ_CPU_LIMIT'', show_nat DESTROYER_FAMILY_ACTOR_SHARD_COUNT)]
      else
        [(''FITZ_ROUTE_FAMILIES'', ''1,2''),
         (''FITZ_ROUTE_FAMILY_MAP'', ''identity-a=1,identity-b=2''),
         (''FITZ_ROUTE_FAMILY_CLAIM'', ''tid'')])"

definition stack_environment :: "run_config \<Rightarrow> string \<Rightarrow> string \<Rightarrow> string \<Rightarrow> (string, string) js_map" where
  "stack_environment config project ns fitz_image =
     [(''FITZ_SOURCE_DIR'', fitzSourceDir config), (''FITZ_IMAGE'', fitz_image),
      (''DESTROYER_DISK_FILLER_IMAGE'', project @ ''-disk-filler:latest'')] @
     (case destroyerImage config of None \<Rightarrow> [] | Some i \<Rightarrow> [(''DESTROYER_IMAGE'', i)]) @
     [(''FITZ_HOST_HTTP_PORT'', show_int (port config)), (''FITZ_STORAGE_PREFIX'', ns),
      (''DESTROYER_NAMESPACE'', ns), (''DESTROYER_SEED'', show_int (run_seed config)),
      (''DESTROYER_DOMAINS'', join_with '','' (map domain_name (bombardDomains config))),
      (''DESTROYER_ASYNC_HANDLER_CONCURRENCY'', show_int (client_handler_concurrency config)),
      (''DESTROYER_PROGRESS_INTERVAL_MS'', show_int (sampleMs config)),
      (''DESTROYER_REQUEST_TIMEOUT_MS'', show_int (requestTimeoutMs config))] @
     (if scenario config \<in> set FAILPOINT_SCENARIOS then [(''FITZ_DESTROYER_FAILPOINTS'', ''enabled'')] else []) @
     (if uses_authenticated_route_families (scenario config)
      then [(''FITZ_AUTH_REQUIRED'', ''true''), (''FITZ_ASSUME_EXTERNAL_TLS'', ''true''),
            (''FITZ_JWT_HMAC_SECRET'', ''fitz-destroyer-local-auth-only''),
            (''FITZ_JWT_AUDIENCES'', ''fitz-destroyer'')] @
           authenticated_route_family_environment (scenario config)
      else [])"

text \<open>The constructor; \<^verbatim>\<open>join_path\<close> is \<^verbatim>\<open>node:path\<close>'s join.\<close>

definition new_stack ::
  "(string \<Rightarrow> string \<Rightarrow> string) \<Rightarrow> 'o host \<Rightarrow> nat \<Rightarrow> run_config \<Rightarrow> string \<Rightarrow> 'o stack" where
  "new_stack join_path h n config project =
     (let compose_file = join_path (rootDir config)
            (if destroyerImage config = None then ''compose.yml'' else ''compose.destroyer.yml'')
      in \<lparr>host_of = h, config_of = config, project_of = project,
          compose_files = (if scenario config = ''cache-and-disk-exhaustion''
            then [compose_file, join_path (rootDir config) ''compose.exhaustion.yml''] else [compose_file]),
          target_image = (case fitzImage config of Some i \<Rightarrow> i
            | None \<Rightarrow> if destroyerImage config = None then project @ ''-fitz:latest'' else ''ghcr.io/cntryl/fitz:latest''),
          fuel = n\<rparr>)"

definition new_world :: "'o stack \<Rightarrow> string \<Rightarrow> 'o \<Rightarrow> 'o world" where
  "new_world st ns o' =
     \<lparr>environment = stack_environment (config_of st) (project_of st) ns (target_image st), job_sequence = 0,
      role_sequence = 0, metrics_url = None, rss_cached = None, rss_sampled_at = 0, calls = [], outside = o'\<rparr>"

subsection \<open>Docker commands\<close>

definition docker_with :: "'o stack \<Rightarrow> bool \<Rightarrow> string list \<Rightarrow> ('o, command_result) action" where
  "docker_with st allow args =
     run_command (host_of st) ''docker'' args
       \<lparr>opt_cwd = rootDir (config_of st), opt_env = [], opt_allowFailure = allow\<rparr>"

definition docker :: "'o stack \<Rightarrow> string list \<Rightarrow> ('o, command_result) action" where
  "docker st args = docker_with st False args"

definition compose_args :: "'o stack \<Rightarrow> string list \<Rightarrow> string list" where
  "compose_args st args =
     ''compose'' # concat (map (\<lambda>file. [''-f'', file]) (compose_files st)) @
       [''--project-name'', project_of st, ''--profile'', ''clients''] @ args"

definition compose_with :: "'o stack \<Rightarrow> bool \<Rightarrow> bool \<Rightarrow> string list \<Rightarrow> ('o, command_result) action" where
  "compose_with st allow ignore_orphans args =
     run_then (get_state environment) (\<lambda>env.
       run_command (host_of st) ''docker'' (compose_args st args)
         \<lparr>opt_cwd = rootDir (config_of st),
          opt_env = (if ignore_orphans then map_set env ''COMPOSE_IGNORE_ORPHANS'' ''true'' else env),
          opt_allowFailure = allow\<rparr>)"

text \<open>A command that must succeed, and one whose failure is allowed; the output is not read.\<close>

definition compose :: "'o stack \<Rightarrow> string list \<Rightarrow> ('o, unit) action" where
  "compose st args = run_then (compose_with st False False args) (\<lambda>_. ret ())"

definition compose_try :: "'o stack \<Rightarrow> string list \<Rightarrow> ('o, unit) action" where
  "compose_try st args = run_then (compose_with st True False args) (\<lambda>_. ret ())"

definition docker_run :: "'o stack \<Rightarrow> string list \<Rightarrow> ('o, unit) action" where
  "docker_run st args = run_then (docker st args) (\<lambda>_. ret ())"

definition event :: "'o stack \<Rightarrow> string \<Rightarrow> (string \<times> json) list \<Rightarrow> ('o, unit) action" where
  "event st name entries = artifact_event (host_of st) name entries"

definition nonempty_lines :: "string \<Rightarrow> string list" where
  "nonempty_lines out = filter (\<lambda>l. l \<noteq> []) (split_on (CHR 0x0A) (js_trim out))"

definition service_containers :: "'o stack \<Rightarrow> string \<Rightarrow> bool \<Rightarrow> ('o, string list) action" where
  "service_containers st service include_stopped =
     run_then (docker st (''ps'' # (if include_stopped then [''--all''] else []) @
         [''--filter'', ''label=com.docker.compose.project='' @ project_of st,
          ''--filter'', ''label=com.docker.compose.service='' @ service, ''--format'', ''{{.ID}}'']))
       (\<lambda>r. ret (nonempty_lines (stdout r)))"

definition container_logs :: "'o stack \<Rightarrow> string \<Rightarrow> ('o, string) action" where
  "container_logs st container =
     run_then (docker_with st True [''logs'', container]) (\<lambda>r. ret (stdout r @ stderr r))"

definition capture_container_logs :: "'o stack \<Rightarrow> string \<Rightarrow> string \<Rightarrow> ('o, unit) action" where
  "capture_container_logs st label container =
     run_then (docker_with st True [''logs'', ''--timestamps'', container]) (\<lambda>r.
       artifact_write (host_of st) (label @ ''-'' @ take 12 container @ ''.log'') (stdout r @ stderr r))"

definition capture_service_logs :: "'o stack \<Rightarrow> string \<Rightarrow> string \<Rightarrow> ('o, unit) action" where
  "capture_service_logs st service label =
     run_then (service_containers st service True) (\<lambda>cs. each (capture_container_logs st label) cs)"

record container_state =
  cs_status :: string
  cs_exitCode :: int

text \<open>\<^verbatim>\<open>trim().split(/\s+/)\<close>: the first word and the second, which must be an integer.\<close>

definition state_of_output :: "string \<Rightarrow> container_state option" where
  "state_of_output out =
     (let t = js_trim out;
          status = takeWhile (\<lambda>c. \<not> is_space c) t;
          rest = dropWhile is_space (drop (length status) t);
          raw = takeWhile (\<lambda>c. \<not> is_space c) rest
      in if rest = [] then None
         else case js_to_number raw of
             Some x \<Rightarrow> if x = of_int \<lfloor>x\<rfloor> then Some \<lparr>cs_status = status, cs_exitCode = \<lfloor>x\<rfloor>\<rparr> else None
           | None \<Rightarrow> None)"

definition container_state_of :: "'o stack \<Rightarrow> string \<Rightarrow> ('o, container_state) action" where
  "container_state_of st container =
     run_then (docker st [''inspect'', ''--format'', ''{{.State.Status}} {{.State.ExitCode}}'', container]) (\<lambda>r.
       case state_of_output (stdout r) of
         None \<Rightarrow> fail (Error ''Invalid container state '$' for $'' [AStr (js_trim (stdout r)), AStr container])
       | Some s \<Rightarrow> ret s)"

subsection \<open>Broker readings\<close>

definition fetch_json :: "'o stack \<Rightarrow> string \<Rightarrow> ('o, (string \<times> json) list) action" where
  "fetch_json st path =
     fetch_json_object (host_of st) (''http://127.0.0.1:'' @ show_int (port (config_of st)) @ path)
       (requestTimeoutMs (config_of st))"

definition port_url :: "'o stack \<Rightarrow> string \<Rightarrow> string \<Rightarrow> string \<Rightarrow> ('o, string) action" where
  "port_url st service port_text label =
     run_then (compose_with st False False [''port'', service, port_text]) (\<lambda>r.
       of_result (loopback_port_url (stdout r) label))"

definition metrics_url_of :: "'o stack \<Rightarrow> ('o, string) action" where
  "metrics_url_of st =
     run_then (get_state metrics_url) (\<lambda>known.
       case known of
         Some url \<Rightarrow> ret url
       | None \<Rightarrow>
           run_then (port_url st ''fitz'' ''9090'' ''Fitz metrics'') (\<lambda>url.
           run_then (modify (\<lambda>w. w\<lparr>metrics_url := Some url\<rparr>)) (\<lambda>_. ret url)))"

definition fault_proxy_control_url :: "'o stack \<Rightarrow> string \<Rightarrow> string \<Rightarrow> ('o, string) action" where
  "fault_proxy_control_url st service control_port = port_url st service control_port (service @ '' control'')"

definition forget_metrics_url :: "('o, unit) action" where
  "forget_metrics_url = modify (\<lambda>w. w\<lparr>metrics_url := None\<rparr>)"

definition fetch_prometheus :: "'o stack \<Rightarrow> ('o, string) action" where
  "fetch_prometheus st =
     run_then (metrics_url_of st) (\<lambda>url.
       fetch_text (host_of st) (url @ ''/metrics'') ''Prometheus /metrics'' (requestTimeoutMs (config_of st)))"

definition prometheus_metric_value :: "'o stack \<Rightarrow> string \<Rightarrow> ('o, rat) action" where
  "prometheus_metric_value st name = run_then (fetch_prometheus st) (\<lambda>t. ret (prometheus_metric t name))"

definition memory_usage_of :: "string \<Rightarrow> int result" where
  "memory_usage_of out =
     (case parse_json (js_trim out) of
        None \<Rightarrow> Inl (Error ''SyntaxError'' [AStr (js_trim out)])
      | Some JNull \<Rightarrow> Inl (Error ''TypeError'' [])
      | Some r \<Rightarrow>
          (case json_get r ''MemUsage'' of
             Some (JStr usage) \<Rightarrow> parse_docker_memory_usage usage
           | _ \<Rightarrow> Inl (Error ''Docker stats omitted Fitz MemUsage: $'' [AStr (js_trim out)])))"

text \<open>The resident set is read at most every ten seconds.\<close>

definition pressure_rss :: "'o stack \<Rightarrow> string \<Rightarrow> ('o, int) action" where
  "pressure_rss st container =
     run_then (date_now (host_of st)) (\<lambda>now_ms.
     run_then (get_state (\<lambda>w. (rss_cached w, rss_sampled_at w))) (\<lambda>(known, sampled_at).
       case (if fl (now_ms - sampled_at) < 10000 then known else None) of
         Some bytes \<Rightarrow> ret bytes
       | None \<Rightarrow>
           run_then (docker st [''stats'', ''--no-stream'', ''--format'', ''{{json .}}'', container]) (\<lambda>r.
           run_then (of_result (memory_usage_of (stdout r))) (\<lambda>bytes.
           run_then (modify (\<lambda>w. w\<lparr>rss_cached := Some bytes, rss_sampled_at := now_ms\<rparr>)) (\<lambda>_.
           ret bytes)))))"

definition metrics_sample :: "string \<Rightarrow> (string \<times> json) list" where
  "metrics_sample t =
     [(''domainOperationsCompletedTotal'', JNum (prometheus_metric t ''fitz_domain_operations_total'')),
      (''domainOperationFailuresTotal'', JNum (prometheus_metric t ''fitz_domain_errors_total'')),
      (''deliveryFailuresTotal'', JNum (prometheus_metric t ''fitz_delivery_failures_total'')),
      (''sessionCleanupPending'', JNum (prometheus_metric t ''fitz_session_cleanup_pending'')),
      (''sessionCleanupFailuresTotal'', JNum (prometheus_metric t ''fitz_session_cleanup_failures_total''))]"

definition router_sample :: "string \<Rightarrow> broker_router" where
  "router_sample t =
     \<lparr>currentMailboxDepth = prometheus_metric t ''fitz_mailbox_depth'',
      ingressBackpressureRetriesTotal = prometheus_metric t ''fitz_ingress_domain_backpressure_retries_total'',
      ingressBackpressureAcceptedTotal = prometheus_metric t ''fitz_ingress_domain_backpressure_accepted_total'',
      ingressBackpressureExhaustedTotal = prometheus_metric t ''fitz_ingress_domain_backpressure_exhausted_total'',
      ingressDispatchTimeoutsTotal = prometheus_metric t ''fitz_ingress_domain_dispatch_timeouts_total'',
      routerBackpressureTotal = prometheus_metric t ''fitz_router_backpressure_total'',
      routerHighLaneBackpressureTotal = prometheus_metric t ''fitz_router_high_lane_backpressure_total''\<rparr>"

definition pressure_snapshot :: "'o stack \<Rightarrow> ('o, broker_sample) action" where
  "pressure_snapshot st =
     run_then (metrics_url_of st) (\<lambda>url.
     run_then (service_containers st ''fitz'' False) (\<lambda>containers.
       case containers of
         [container] \<Rightarrow>
           run_then (fetch_json st ''/api/v1/all/queue/stats'') (\<lambda>queue_m.
           run_then (fetch_json st ''/api/v1/all/rpc/stats'') (\<lambda>rpc_m.
           run_then (fetch_text (host_of st) (url @ ''/metrics'') ''Prometheus /metrics'' (requestTimeoutMs (config_of st))) (\<lambda>t.
           run_then (pressure_rss st container) (\<lambda>bytes.
           run_then (read_clock (host_timestamp (host_of st))) (\<lambda>stamp.
           ret \<lparr>timestamp = stamp, queue_stats = queue_m, rpc_stats = rpc_m, metrics_stats = metrics_sample t,
                router = router_sample t, rssBytes = of_int bytes\<rparr>)))))
       | _ \<Rightarrow> fail (Error ''Expected one running Fitz container for pressure snapshot, found $''
                [ANat (length containers)])))"

definition domain_snapshot :: "'o stack \<Rightarrow> string \<Rightarrow> ('o, live_snapshot) action" where
  "domain_snapshot st name =
     run_then (fetch_json st (''/api/v1/all/'' @ name @ ''/stats'')) (\<lambda>domain_stats.
     run_then (fetch_json st ''/api/v1/all/metrics'') (\<lambda>m.
     run_then (of_result (cleanup_metrics_of m)) (\<lambda>cl.
     ret \<lparr>sn_domain = domain_stats, sn_cleanup = cl\<rparr>)))"

definition live_domain_snapshot :: "'o stack \<Rightarrow> live_domain \<Rightarrow> ('o, live_snapshot) action" where
  "live_domain_snapshot st d = domain_snapshot st (live_domain_name d)"

subsection \<open>Volumes\<close>

text \<open>
  The volume of the broker's cache: the only one \<^verbatim>\<open>docker volume ls\<close> names, and only when its name
  carries the project.
\<close>

definition cache_volume :: "'o stack \<Rightarrow> string list \<Rightarrow> string result" where
  "cache_volume st volumes =
     (if length volumes \<noteq> 1 then Inl (Error ''Expected exactly one Fitz cache volume, found $'' [ANat (length volumes)])
      else if \<not> prefix (project_of st @ ''_'') (hd volumes)
      then Inl (Error ''Refusing to remove unresolved cache volume $'' [AStr (hd volumes)])
      else Inr (hd volumes))"

definition cache_volume_filter :: "'o stack \<Rightarrow> string list" where
  "cache_volume_filter st =
     [''volume'', ''ls'', ''--filter'', ''label=com.docker.compose.project='' @ project_of st,
      ''--filter'', ''label=com.docker.compose.volume=fitz-cache'', ''--format'', ''{{.Name}}'']"

definition remove_cache_volume :: "'o stack \<Rightarrow> ('o, unit) action" where
  "remove_cache_volume st =
     run_then (docker st (cache_volume_filter st)) (\<lambda>listed.
     run_then (of_result (cache_volume st (nonempty_lines (stdout listed)))) (\<lambda>volume.
     run_then (docker st [''volume'', ''inspect'', volume]) (\<lambda>inspected.
     steps
       [artifact_write (host_of st) ''discarded-cache-volume.json'' (stdout inspected),
        docker_run st [''volume'', ''rm'', volume],
        event st ''fitz_cache_discard_complete'' [(''volume'', JStr volume)]])))"

end
