(* ===== verification/ComposeWait.thy ===== *)
theory ComposeWait
  imports Compose
begin

text \<open>
  The waits of the Compose stack (src/orchestration/compose.ts): readiness of the broker,
  progress and errors of the clients, quiescence, and the containers of a role.  Every wait is
  \<^verbatim>\<open>poll\<close> with the fuel of the stack; \<^verbatim>\<open>poll_until_ends\<close> says which fuel is enough.
\<close>

subsection \<open>Loops against a deadline\<close>

text \<open>
  \<^verbatim>\<open>while (Date.now() < deadline) { body; await sleep(pause); } expired\<close>, where the body may leave
  the loop with a value.
\<close>

definition round_until ::
  "'o host \<Rightarrow> rat \<Rightarrow> int \<Rightarrow> ('s \<Rightarrow> ('o, 's + 'a) action) \<Rightarrow> ('s \<Rightarrow> ('o, 'a) action) \<Rightarrow> 's \<Rightarrow> ('o, 's + 'a) action" where
  "round_until h deadline pause body expired s =
     run_then (date_now h) (\<lambda>t.
       if t < deadline
       then run_then (body s) (\<lambda>r. case r of
           Inl s' \<Rightarrow> run_then (sleep h pause) (\<lambda>_. ret (Inl s'))
         | Inr x \<Rightarrow> ret (Inr x))
       else run_then (expired s) (\<lambda>x. ret (Inr x)))"

definition poll_until ::
  "'o stack \<Rightarrow> rat \<Rightarrow> int \<Rightarrow> ('s \<Rightarrow> ('o, 's + 'a) action) \<Rightarrow> ('s \<Rightarrow> ('o, 'a) action) \<Rightarrow> 's \<Rightarrow> ('o, 'a) action" where
  "poll_until st deadline pause body expired s =
     poll (fuel st) (round_until (host_of st) deadline pause body expired) s"

text \<open>
  \<^verbatim>\<open>let s = sample(); while (Date.now() < deadline && !settled(s)) { sleep; s = sample(); }\<close>.
\<close>

definition resample_until ::
  "'o stack \<Rightarrow> rat \<Rightarrow> int \<Rightarrow> ('o, 's) action \<Rightarrow> ('s \<Rightarrow> bool) \<Rightarrow> ('o, 's) action" where
  "resample_until st deadline pause sample calm =
     run_then sample (poll (fuel st) (\<lambda>s.
       run_then (date_now (host_of st)) (\<lambda>t.
         if t < deadline \<and> \<not> calm s
         then run_then (sleep (host_of st) pause) (\<lambda>_. run_then sample (\<lambda>s'. ret (Inl s')))
         else ret (Inr s))))"

definition deadline_in :: "'o stack \<Rightarrow> int \<Rightarrow> ('o, rat) action" where
  "deadline_in st timeout_ms = run_then (date_now (host_of st)) (\<lambda>t. ret (fl (t + of_int timeout_ms)))"

subsection \<open>Readiness\<close>

definition also_error :: "string \<Rightarrow> error \<Rightarrow> error" where
  "also_error lead e = (case e of Error t args \<Rightarrow> Error (lead @ t) args)"

definition ready_round :: "'o stack \<Rightarrow> rat \<Rightarrow> error \<Rightarrow> ('o, error + unit) action" where
  "ready_round st started_at last_error =
     try_catch
       (run_then (fetch_get (host_of st)
           (''http://127.0.0.1:'' @ show_int (port (config_of st)) @ ''/readyz'') 2000) (\<lambda>r.
         if resp_status r = 200
         then run_then (elapsed_since (host_of st) started_at) (\<lambda>ms.
              run_then (event st ''fitz_ready'' [(''elapsedMs'', jint ms)]) (\<lambda>_. ret (Inr ())))
         else ret (Inl (Error ''HTTP $: $'' [ANat (resp_status r), AStr (take 500 (resp_body r))]))))
       (\<lambda>e. ret (Inl e))"

definition wait_ready :: "'o stack \<Rightarrow> ('o, unit) action" where
  "wait_ready st =
     run_then (performance_now (host_of st)) (\<lambda>started_at.
     run_then (deadline_in st (startupTimeoutMs (config_of st))) (\<lambda>deadline.
     poll_until st deadline 250 (ready_round st started_at)
       (\<lambda>e. fail (also_error ''Fitz did not become ready: '' e)) (Error ''no response'' [])))"

subsection \<open>Quiescence\<close>

definition wait_for_pressure_quiescence :: "'o stack \<Rightarrow> ('o, broker_sample) action" where
  "wait_for_pressure_quiescence st =
     run_then (deadline_in st (min (startupTimeoutMs (config_of st)) 30000)) (\<lambda>deadline.
     run_then (resample_until st deadline 250 (pressure_snapshot st) is_pressure_quiescent) (\<lambda>s.
       if \<not> is_pressure_quiescent s
       then fail (Error ''Pressure workload did not quiesce: $'' [AJson (sample_json s)])
       else ret s))"

definition cleanup_json :: "cleanup_metrics \<Rightarrow> json" where
  "cleanup_json c = JObj
     [(''failures'', JNum (cl_failures c)), (''retries'', JNum (cl_retries c)), (''successes'', JNum (cl_successes c)),
      (''pending'', JNum (cl_pending c)), (''oldestAgeMs'', JNum (cl_oldestAgeMs c))]"

definition snapshot_json :: "live_snapshot \<Rightarrow> json" where
  "snapshot_json s = JObj [(''domain'', JObj (sn_domain s)), (''cleanup'', cleanup_json (sn_cleanup s))]"

definition wait_for_live_domain_quiescence ::
  "'o stack \<Rightarrow> live_domain \<Rightarrow> live_snapshot \<Rightarrow> string \<Rightarrow> bool \<Rightarrow> ('o, live_snapshot) action" where
  "wait_for_live_domain_quiescence st d baseline run_label allow_failures =
     run_then (performance_now (host_of st)) (\<lambda>started_at.
     run_then (deadline_in st (min (startupTimeoutMs (config_of st)) 15000)) (\<lambda>deadline.
     run_then (resample_until st deadline 100 (live_domain_snapshot st d) (is_live_domain_quiescent d)) (\<lambda>s.
     run_then (artifact_write_json (host_of st) (run_label @ ''-stats-after.json'') (snapshot_json s)) (\<lambda>_.
       if \<not> is_live_domain_quiescent d s
       then fail (Error ''$ did not quiesce after live clients disconnected: $''
              [AStr (live_domain_name d), AJson (snapshot_json s)])
       else
         run_then (when_do (\<not> allow_failures)
             (of_result (assert_no_domain_failures d (sn_domain baseline) (sn_domain s)))) (\<lambda>_.
         run_then (of_result (cleanup_delta (sn_cleanup baseline) (sn_cleanup s))) (\<lambda>delta.
         run_then (elapsed_since (host_of st) started_at) (\<lambda>ms.
         run_then (event st ''live_domain_quiescent''
             [(''runLabel'', JStr run_label), (''domain'', JStr (live_domain_name d)), (''elapsedMs'', jint ms),
              (''cleanup'', cleanup_json delta)]) (\<lambda>_.
         ret \<lparr>sn_domain = sn_domain s, sn_cleanup = delta\<rparr>))))))))"

definition wait_for_rpc_worker_count :: "'o stack \<Rightarrow> nat \<Rightarrow> ('o, unit) action" where
  "wait_for_rpc_worker_count st expected =
     run_then (deadline_in st (startupTimeoutMs (config_of st))) (\<lambda>deadline.
     poll_until st deadline 100
       (\<lambda>_. run_then (live_domain_snapshot st LiveRpc) (\<lambda>s.
          let registered = map_get (sn_domain s) ''workers_registered''
          in ret (if registered = Some (jnat expected) then Inr () else Inl registered)))
       (\<lambda>registered. fail (Error ''Timed out waiting for $ RPC workers; observed $''
          [ANat expected, AJson (get_or (JStr ''undefined'') registered)]))
       (Some (JStr ''unknown'')))"

subsection \<open>Client progress\<close>

definition logs_since :: "'o stack \<Rightarrow> string \<Rightarrow> string \<Rightarrow> ('o, string) action" where
  "logs_since st since container =
     run_then (docker_with st True [''logs'', ''--since'', since, container]) (\<lambda>r.
       ret (stdout r @ [CHR 0x0A] @ stderr r))"

definition missing_domains :: "'o stack \<Rightarrow> string \<Rightarrow> domain list" where
  "missing_domains st logs =
     (let successes = parse_window_successes logs
      in filter (\<lambda>d. map_get successes d = Some 0) (bombardDomains (config_of st)))"

definition progress_round :: "'o stack \<Rightarrow> string \<Rightarrow> nat \<Rightarrow> ('o, error + unit) action" where
  "progress_round st since replicas =
     run_then (service_containers st ''client'' False) (\<lambda>containers.
       if length containers = replicas
       then run_then (gather (\<lambda>c. run_then (logs_since st since c) (\<lambda>l. ret (c, missing_domains st l))) containers) (\<lambda>found.
         let lacking = filter (\<lambda>(_, missing). missing \<noteq> []) found
         in if lacking = []
            then run_then (event st ''client_domain_progress_confirmed''
                [(''since'', JStr since), (''replicas'', jnat replicas),
                 (''domains'', jstrs (map domain_name (bombardDomains (config_of st))))]) (\<lambda>_. ret (Inr ()))
            else ret (Inl (Error ''$'' [AJson (JObj (map (\<lambda>(c, ds). (c, jstrs (map domain_name ds))) lacking))])))
       else ret (Inl (Error ''running replicas $/$'' [ANat (length containers), ANat replicas])))"

definition wait_for_all_client_domains :: "'o stack \<Rightarrow> string \<Rightarrow> nat \<Rightarrow> ('o, unit) action" where
  "wait_for_all_client_domains st since replicas =
     run_then (deadline_in st (startupTimeoutMs (config_of st))) (\<lambda>deadline.
     poll_until st deadline 1000 (\<lambda>_. progress_round st since replicas)
       (\<lambda>e. fail (also_error ''Timed out waiting for fresh client success in every domain: '' e))
       (Error ''waiting for client containers'' []))"

definition wait_for_all_client_errors :: "'o stack \<Rightarrow> string \<Rightarrow> nat \<Rightarrow> int \<Rightarrow> ('o, rat) action" where
  "wait_for_all_client_errors st since replicas timeout_ms =
     run_then (deadline_in st timeout_ms) (\<lambda>deadline.
     poll_until st deadline 250
       (\<lambda>_. run_then (service_containers st ''client'' True) (\<lambda>containers.
          if length containers = replicas
          then run_then (gather (\<lambda>c. run_then (logs_since st since c) (\<lambda>l. ret (parse_window_errors l))) containers) (\<lambda>errors.
            ret (if length (filter (\<lambda>n. 0 < n) errors) = replicas
                 then Inr (foldl (\<lambda>n x. fl (n + x)) 0 errors) else Inl ()))
          else ret (Inl ())))
       (\<lambda>_. fail (Error ''Timed out waiting for all $ active-fault clients to report a completed error'' [ANat replicas]))
       ())"

subsection \<open>Totals of the clients\<close>

definition has_totals :: "json \<Rightarrow> bool" where
  "has_totals r = (has_event ''progress'' r \<and> json_get r ''totals'' \<noteq> None)"

text \<open>\<^verbatim>\<open>typeof value === "object" && value !== null\<close>.\<close>

definition is_object_or_array :: "json \<Rightarrow> bool" where
  "is_object_or_array v = (case v of JObj _ \<Rightarrow> True | JArr _ \<Rightarrow> True | _ \<Rightarrow> False)"

definition latest_totals :: "string \<Rightarrow> string \<Rightarrow> json result" where
  "latest_totals container log_text =
     (case find_last has_totals (parse_json_records log_text) of
        Some r \<Rightarrow>
          (case json_get r ''totals'' of
             Some v \<Rightarrow> if is_object_or_array v then Inr v
               else Inl (Error ''Bombard client $ did not report cumulative totals'' [AStr container])
           | None \<Rightarrow> Inl (Error ''Bombard client $ did not report cumulative totals'' [AStr container]))
      | None \<Rightarrow> Inl (Error ''Bombard client $ did not report cumulative totals'' [AStr container]))"

definition add_domain_total ::
  "string \<Rightarrow> json \<Rightarrow> (domain, bombard_total) js_map \<Rightarrow> domain \<Rightarrow> (domain, bombard_total) js_map result" where
  "add_domain_total container latest totals d =
     (case json_get latest (domain_name d) of
        Some v \<Rightarrow>
          if is_object_or_array v then
            try_in (numeric_value (json_get v ''success'') (domain_name d @ ''.success'')) (\<lambda>s.
            try_in (numeric_value (json_get v ''error'') (domain_name d @ ''.error'')) (\<lambda>e.
            let t = get_or \<lparr>bt_success = 0, bt_error = 0\<rparr> (map_get totals d)
            in Inr (map_set totals d \<lparr>bt_success = bt_success t + s, bt_error = bt_error t + e\<rparr>)))
          else Inl (Error ''Bombard client $ omitted $ totals'' [AStr container, AStr (domain_name d)])
      | None \<Rightarrow> Inl (Error ''Bombard client $ omitted $ totals'' [AStr container, AStr (domain_name d)]))"

fun add_client_totals ::
  "'o stack \<Rightarrow> string \<Rightarrow> nat \<Rightarrow> string list \<Rightarrow> (domain, bombard_total) js_map \<Rightarrow> ('o, (domain, bombard_total) js_map) action" where
  "add_client_totals st since index [] totals = ret totals"
| "add_client_totals st since index (c # cs) totals =
     run_then (logs_since st since c) (\<lambda>l.
     run_then (artifact_write (host_of st) (''domain-pressure-client-'' @ pad index 3 @ ''.log'') l) (\<lambda>_.
     run_then (of_result (try_in (latest_totals c l) (\<lambda>latest.
         fold_result (add_domain_total c latest) totals (bombardDomains (config_of st))))) (\<lambda>totals'.
     add_client_totals st since (index + 1) cs totals')))"

definition bombard_totals_since :: "'o stack \<Rightarrow> string \<Rightarrow> nat \<Rightarrow> ('o, (domain, bombard_total) js_map) action" where
  "bombard_totals_since st since replicas =
     run_then (service_containers st ''client'' False) (\<lambda>containers.
       if length containers \<noteq> replicas
       then fail (Error ''Expected $ bombard clients, found $'' [ANat replicas, ANat (length containers)])
       else add_client_totals st since 0 containers empty_bombard_totals)"

subsection \<open>Role containers\<close>

record role_container =
  rc_id :: string
  rc_name :: string
  rc_workerId :: string

definition role_container_name :: "string \<Rightarrow> string \<Rightarrow> nat \<Rightarrow> nat \<Rightarrow> string" where
  "role_container_name project role wave replica =
     project @ ''-'' @ role @ ''-'' @ pad wave 3 @ ''-'' @ pad replica 3"

definition is_container_id :: "string \<Rightarrow> bool" where
  "is_container_id s = (12 \<le> length s \<and> length s \<le> 64 \<and> list_all (\<lambda>c. c \<in> set ''0123456789abcdef'') s)"

definition role_environment ::
  "'o stack \<Rightarrow> string \<Rightarrow> workload_shape \<Rightarrow> nat \<Rightarrow> (string, string) js_map \<Rightarrow> (string, string) js_map" where
  "role_environment st role shape index extra_env =
     foldl (\<lambda>m (k, v). map_set m k v)
       [(''DESTROYER_MODE'', role), (''DESTROYER_NAMESPACE'', namespace shape),
        (''DESTROYER_WORKER_ID'', show_nat index),
        (''DESTROYER_OPERATIONS'', show_nat (entriesPerResource shape)),
        (''DESTROYER_PAYLOAD_BYTES'', show_nat (payloadBytes shape)),
        (''DESTROYER_CONCURRENCY'', show_int (liveConcurrency (config_of st))),
        (''DESTROYER_ASYNC_HANDLER_CONCURRENCY'', show_int (client_handler_concurrency (config_of st))),
        (''DESTROYER_HANDLER_DELAY_MS'', show_int (handlerDelayMs (config_of st))),
        (''DESTROYER_JOB_TIMEOUT_MS'', show_int (startupTimeoutMs (config_of st)))] extra_env"

definition start_role_container ::
  "'o stack \<Rightarrow> string \<Rightarrow> nat \<Rightarrow> workload_shape \<Rightarrow> (string, string) js_map \<Rightarrow> nat \<Rightarrow> ('o, role_container) action" where
  "start_role_container st role wave shape extra_env index =
     (let name = role_container_name (project_of st) role wave index in
      run_then (compose_with st False True
        ([''run'', ''-d'', ''--no-deps'', ''--name'', name] @
         concat (map (\<lambda>(k, v). [''-e'', k @ ''='' @ v]) (role_environment st role shape index extra_env)) @ [''client''])) (\<lambda>r.
      let id_text = js_trim (last (split_on (CHR 0x0A) (js_trim (stdout r))))
      in if is_container_id id_text
         then ret \<lparr>rc_id = id_text, rc_name = name, rc_workerId = show_nat index\<rparr>
         else fail (Error ''Could not resolve $ container ID from $'' [AStr role, AStr (js_trim (stdout r))])))"

definition start_role_containers ::
  "'o stack \<Rightarrow> string \<Rightarrow> nat \<Rightarrow> workload_shape \<Rightarrow> (string, string) js_map \<Rightarrow> ('o, role_container list) action" where
  "start_role_containers st role replicas shape extra_env =
     run_then (modify (\<lambda>w. w\<lparr>role_sequence := role_sequence w + 1\<rparr>)) (\<lambda>_.
     run_then (get_state role_sequence) (\<lambda>wave.
     run_then (gather (start_role_container st role wave shape extra_env) [0..<replicas]) (\<lambda>containers.
     run_then (event st ''live_role_started'' [(''role'', JStr role), (''replicas'', jnat replicas)]) (\<lambda>_.
     ret containers))))"

definition capture_role_logs :: "'o stack \<Rightarrow> role_container list \<Rightarrow> string \<Rightarrow> ('o, role_logs) action" where
  "capture_role_logs st containers label =
     run_then (gather (\<lambda>c.
       run_then (container_logs st (rc_id c)) (\<lambda>l.
       run_then (artifact_write (host_of st)
         (label @ ''-'' @ replicate (3 - length (rc_workerId c)) CHR ''0'' @ rc_workerId c @ ''.log'') l) (\<lambda>_.
       ret (rc_workerId c, l)))) containers) (\<lambda>logs.
     ret (foldl (\<lambda>m (k, v). map_set m k v) [] logs))"

definition role_logs_of :: "'o stack \<Rightarrow> role_container list \<Rightarrow> ('o, role_logs) action" where
  "role_logs_of st containers = capture_role_logs st containers ''live-role-snapshot''"

definition stopped :: "container_state \<Rightarrow> bool" where
  "stopped s = (cs_status s = ''exited'' \<or> cs_status s = ''dead'')"

text \<open>\<^verbatim>\<open>name.split("-").slice(-3, -1).join("-")\<close>: the last two parts before the replica.\<close>

definition name_tail :: "string \<Rightarrow> string" where
  "name_tail name =
     (let parts = split_on (CHR ''-'') name
      in join_with ''-'' (take (length parts - 1 - (length parts - 3)) (drop (length parts - 3) parts)))"

text \<open>One container of a round: nothing missing, or its name; an exited one ends the wait.\<close>

definition missing_event ::
  "'o stack \<Rightarrow> role_container list \<Rightarrow> string \<Rightarrow> role_container \<Rightarrow> ('o, string list) action" where
  "missing_event st containers name c =
     run_then (container_logs st (rc_id c)) (\<lambda>l.
       if list_ex (has_event name) (parse_json_records l) then ret []
       else
         run_then (container_state_of st (rc_id c)) (\<lambda>s.
           if stopped s
           then run_then (capture_role_logs st containers (name_tail (rc_name c))) (\<lambda>_.
             fail (Error ''$ exited $ before $'' [AStr (rc_name c), AInt (cs_exitCode s), AStr name]))
           else ret [rc_name c]))"

definition role_event_round ::
  "'o stack \<Rightarrow> role_container list \<Rightarrow> string \<Rightarrow> ('o, string list + unit) action" where
  "role_event_round st containers name =
     run_then (gather (missing_event st containers name) containers) (\<lambda>found.
       if concat found = []
       then run_then (event st ''live_role_ready'' [(''event'', JStr name), (''replicas'', jnat (length containers))]) (\<lambda>_.
         ret (Inr ()))
       else ret (Inl (concat found)))"

definition wait_for_role_event :: "'o stack \<Rightarrow> role_container list \<Rightarrow> string \<Rightarrow> ('o, unit) action" where
  "wait_for_role_event st containers name =
     run_then (deadline_in st (startupTimeoutMs (config_of st))) (\<lambda>deadline.
     poll_until st deadline 200 (\<lambda>_. role_event_round st containers name)
       (\<lambda>missing. run_then (capture_role_logs st containers (name @ ''-timeout'')) (\<lambda>_.
          fail (Error ''Timed out waiting for $: $'' [AStr name, AStrs missing])))
       (map rc_name containers))"

definition role_states :: "'o stack \<Rightarrow> role_container list \<Rightarrow> ('o, (string, container_state) js_map) action" where
  "role_states st containers =
     run_then (gather (\<lambda>c. run_then (container_state_of st (rc_id c)) (\<lambda>s. ret (rc_id c, s))) containers) (\<lambda>found.
       ret (foldl (\<lambda>m (k, v). map_set m k v) [] found))"

definition still_running :: "(string, container_state) js_map \<Rightarrow> role_container \<Rightarrow> bool" where
  "still_running states c = (case map_get states (rc_id c) of None \<Rightarrow> True | Some s \<Rightarrow> \<not> stopped s)"

definition exit_failed :: "(string, container_state) js_map \<Rightarrow> role_container \<Rightarrow> bool" where
  "exit_failed states c = (map_option cs_exitCode (map_get states (rc_id c)) \<noteq> Some 0)"

definition finish_role_containers :: "'o stack \<Rightarrow> role_container list \<Rightarrow> string \<Rightarrow> ('o, role_logs) action" where
  "finish_role_containers st containers label =
     run_then (deadline_in st (startupTimeoutMs (config_of st))) (\<lambda>deadline.
     run_then (poll_until st deadline 200
       (\<lambda>_. run_then (role_states st containers) (\<lambda>states.
          ret (if list_all (\<lambda>(_, s). stopped s) states then Inr states else Inl states)))
       ret []) (\<lambda>states.
     run_then (capture_role_logs st containers label) (\<lambda>logs.
     let running = filter (still_running states) containers; failed = filter (exit_failed states) containers
     in if running \<noteq> []
        then fail (Error ''Timed out waiting for $: $'' [AStr label, AStrs (map rc_name running)])
        else if failed \<noteq> []
        then fail (Error ''$ containers failed: $'' [AStr label, AStrs (map (\<lambda>c. rc_name c @ ''='' @
               (case map_get states (rc_id c) of Some s \<Rightarrow> show_int (cs_exitCode s) | None \<Rightarrow> ''unknown'')) failed)])
        else run_then (docker_run st (''rm'' # map rc_id containers)) (\<lambda>_.
             run_then (event st ''live_role_complete'' [(''role'', JStr label), (''replicas'', jnat (length containers))]) (\<lambda>_.
             ret logs)))))"

definition signal_role_containers :: "'o stack \<Rightarrow> role_container list \<Rightarrow> string \<Rightarrow> ('o, unit) action" where
  "signal_role_containers st containers signal_name =
     run_then (docker_with st True ([''kill'', ''--signal'', signal_name] @ map rc_id containers)) (\<lambda>_. ret ())"

definition kill_role_containers :: "'o stack \<Rightarrow> role_container list \<Rightarrow> string \<Rightarrow> ('o, role_logs) action" where
  "kill_role_containers st containers label =
     run_then (signal_role_containers st containers ''SIGKILL'') (\<lambda>_.
     run_then (capture_role_logs st containers label) (\<lambda>logs.
     run_then (docker_run st (''rm'' # map rc_id containers)) (\<lambda>_.
     run_then (event st ''live_role_killed'' [(''role'', JStr label), (''replicas'', jnat (length containers))]) (\<lambda>_.
     ret logs))))"

end
