(* ===== verification/ComposeLife.thy ===== *)
theory ComposeLife
  imports ComposeWait
begin

text \<open>
  The life of a Compose stack (src/orchestration/compose.ts, compose-jobs.ts, compose-upgrade.ts):
  preparation, starts, stops, restarts, faults and clean-up, the client jobs and the image
  replacement.  The theorem says which volume a stack ever removes.
\<close>

subsection \<open>Preparation\<close>

definition access_file :: "'o stack \<Rightarrow> string \<Rightarrow> ('o, unit) action" where
  "access_file st file = effect [] (host_access (host_of st) file)"

definition preflight :: "(string \<Rightarrow> string \<Rightarrow> string) \<Rightarrow> 'o stack \<Rightarrow> ('o, unit) action" where
  "preflight join_path st =
     (let c = config_of st in
      steps
       [each (access_file st) (compose_files st),
        when_do (destroyerImage c = None) (access_file st (join_path (fitzSourceDir c) ''Dockerfile'')),
        docker_run st [''version''],
        docker_run st [''compose'', ''version''],
        event st ''preflight_complete''
          ([(''project'', JStr (project_of st)), (''composeFiles'', jstrs (compose_files st))] @
           (case destroyerImage c of
              None \<Rightarrow> [(''fitzSourceDir'', JStr (fitzSourceDir c))]
            | Some i \<Rightarrow> [(''fitzImage'', JStr (get_or ''ghcr.io/cntryl/fitz:latest'' (fitzImage c))),
                        (''destroyerImage'', JStr i)]))])"

definition reset_stack :: "'o stack \<Rightarrow> ('o, unit) action" where
  "reset_stack st = compose_try st [''down'', ''--volumes'', ''--remove-orphans'']"

definition set_fitz_image :: "string \<Rightarrow> ('o, unit) action" where
  "set_fitz_image i = modify (\<lambda>w. w\<lparr>environment := map_set (environment w) ''FITZ_IMAGE'' i\<rparr>)"

definition prepare_images :: "'o stack \<Rightarrow> ('o, unit) action" where
  "prepare_images st =
     (let c = config_of st;
          mode = (if destroyerImage c = None then ''source'' else ''published-images'');
          source_image = get_or (target_image st) (upgradeFromImage c)
      in run_then (performance_now (host_of st)) (\<lambda>started_at.
         steps
          [event st ''image_preparation_started'' [(''mode'', JStr mode)],
           if destroyerImage c = None
           then compose st ([''build'', ''fitz'', ''client'', ''storage-proxy'', ''client-proxy''] @
                  (if scenario c = ''cache-and-disk-exhaustion'' then [''disk-filler''] else []))
           else compose st [''pull'', ''fitz'', ''client'', ''storage-proxy'', ''client-proxy''],
           run_then (elapsed_since (host_of st) started_at) (\<lambda>ms.
             event st ''image_preparation_complete'' [(''mode'', JStr mode), (''elapsedMs'', jint ms)]),
           when_do (scenario c = ''upgrade-recovery'')
             (steps
               [when_do (source_image \<noteq> target_image st) (docker_run st [''pull'', source_image]),
                set_fitz_image source_image,
                event st ''upgrade_images_prepared''
                  [(''sourceImage'', JStr source_image), (''targetImage'', JStr (target_image st)),
                   (''crossVersionRequested'', JBool (upgradeFromImage c \<noteq> None))]])]))"

subsection \<open>Starts and stops\<close>

definition start_fitz :: "'o stack \<Rightarrow> ('o, unit) action" where
  "start_fitz st = compose st [''up'', ''-d'', ''--no-deps'', ''--no-build'', ''fitz'']"

definition start_core :: "'o stack \<Rightarrow> ('o, unit) action" where
  "start_core st =
     steps [compose st [''up'', ''-d'', ''--no-build'', ''sqrzl'', ''storage-proxy'', ''fitz'', ''client-proxy''], wait_ready st]"

definition restart_complete :: "'o stack \<Rightarrow> rat \<Rightarrow> string \<Rightarrow> ('o, unit) action" where
  "restart_complete st started_at restart_kind =
     run_then (elapsed_since (host_of st) started_at) (\<lambda>ms.
       event st ''fitz_restart_complete'' [(''kind'', JStr restart_kind), (''elapsedMs'', jint ms)])"

definition graceful_restart_fitz :: "'o stack \<Rightarrow> ('o, unit) action" where
  "graceful_restart_fitz st =
     run_then (performance_now (host_of st)) (\<lambda>started_at.
     steps
      [event st ''fitz_graceful_stop_started'' [],
       compose st [''stop'', ''-t'', ''20'', ''fitz''],
       forget_metrics_url,
       event st ''fitz_graceful_stop_complete'' [],
       start_fitz st,
       wait_ready st,
       restart_complete st started_at ''graceful''])"

definition stop_fitz :: "'o stack \<Rightarrow> ('o, unit) action" where
  "stop_fitz st =
     steps
      [event st ''fitz_final_stop_started'' [],
       compose_try st [''stop'', ''-t'', ''20'', ''fitz''],
       forget_metrics_url,
       event st ''fitz_final_stop_complete'' []]"

definition discard_fitz_cache_and_restart :: "'o stack \<Rightarrow> ('o, unit) action" where
  "discard_fitz_cache_and_restart st =
     run_then (performance_now (host_of st)) (\<lambda>started_at.
     steps
      [event st ''fitz_cache_discard_started'' [],
       compose st [''stop'', ''-t'', ''20'', ''fitz''],
       forget_metrics_url,
       capture_service_logs st ''fitz'' ''cache-loss-fitz'',
       compose st [''rm'', ''-f'', ''fitz''],
       remove_cache_volume st,
       start_fitz st,
       wait_ready st,
       restart_complete st started_at ''cache-loss''])"

definition restart_fitz :: "'o stack \<Rightarrow> ('o, unit) action" where
  "restart_fitz st =
     run_then (performance_now (host_of st)) (\<lambda>started_at.
     steps [start_fitz st, wait_ready st, restart_complete st started_at ''forced''])"

definition kill_and_remove_service :: "'o stack \<Rightarrow> string \<Rightarrow> string \<Rightarrow> bool \<Rightarrow> ('o, unit) action" where
  "kill_and_remove_service st service label allow_missing =
     run_then (service_containers st service True) (\<lambda>containers.
     run_then (compose_with st allow_missing False [''kill'', ''-s'', ''SIGKILL'', service]) (\<lambda>_.
     run_then (each (capture_container_logs st label) containers) (\<lambda>_.
     run_then (compose_with st allow_missing False [''rm'', ''-f'', service]) (\<lambda>_. ret ()))))"

definition kill_fitz :: "'o stack \<Rightarrow> ('o, unit) action" where
  "kill_fitz st =
     steps [event st ''fitz_sigkill_started'' [], kill_and_remove_service st ''fitz'' ''fitz-sigkill'' False,
            event st ''fitz_sigkill_complete'' []]"

definition pause_service :: "'o stack \<Rightarrow> string \<Rightarrow> ('o, unit) action" where
  "pause_service st service =
     steps [event st (service @ ''_pause_started'') [], compose st [''pause'', service],
            event st (service @ ''_pause_complete'') []]"

definition unpause_service :: "'o stack \<Rightarrow> string \<Rightarrow> ('o, unit) action" where
  "unpause_service st service =
     steps [compose_try st [''unpause'', service], event st (service @ ''_unpaused'') []]"

definition pause_fitz :: "'o stack \<Rightarrow> ('o, unit) action" where
  "pause_fitz st = pause_service st ''fitz''"

definition unpause_fitz :: "'o stack \<Rightarrow> ('o, unit) action" where
  "unpause_fitz st = unpause_service st ''fitz''"

definition pause_sqrzl :: "'o stack \<Rightarrow> ('o, unit) action" where
  "pause_sqrzl st = pause_service st ''sqrzl''"

definition unpause_sqrzl :: "'o stack \<Rightarrow> ('o, unit) action" where
  "unpause_sqrzl st = unpause_service st ''sqrzl''"

definition recycle_fitz_after_fault :: "'o stack \<Rightarrow> ('o, unit) action" where
  "recycle_fitz_after_fault st =
     steps [kill_and_remove_service st ''fitz'' ''fitz-after-exhaustion'' True, start_fitz st, wait_ready st]"

definition execute_storage_fault_recovery :: "('o, unit) action \<Rightarrow> ('o, unit) action \<Rightarrow> ('o, unit) action" where
  "execute_storage_fault_recovery stop start = steps [stop, start]"

definition recycle_storage_after_fault :: "'o stack \<Rightarrow> ('o, unit) action" where
  "recycle_storage_after_fault st =
     execute_storage_fault_recovery
       (kill_and_remove_service st ''fitz'' ''fitz-after-storage-exhaustion'' True)
       (steps [start_fitz st, wait_ready st])"

definition start_clients :: "'o stack \<Rightarrow> nat \<Rightarrow> ('o, unit) action" where
  "start_clients st replicas =
     compose st [''up'', ''-d'', ''--no-deps'', ''--no-build'', ''--scale'', ''client='' @ show_nat replicas, ''client'']"

definition stop_clients :: "'o stack \<Rightarrow> ('o, unit) action" where
  "stop_clients st = compose_try st [''stop'', ''-t'', ''10'', ''client'']"

fun capture_bombard_logs :: "'o stack \<Rightarrow> string \<Rightarrow> nat \<Rightarrow> string list \<Rightarrow> ('o, role_logs) action" where
  "capture_bombard_logs st label index [] = ret []"
| "capture_bombard_logs st label index (c # cs) =
     run_then (container_logs st c) (\<lambda>l.
     run_then (artifact_write (host_of st) (label @ ''-client-'' @ pad index 3 @ ''.log'') l) (\<lambda>_.
     run_then (capture_bombard_logs st label (index + 1) cs) (\<lambda>rest.
     ret ((c, l) # rest))))"

definition stop_bombard_clients_and_capture :: "'o stack \<Rightarrow> string \<Rightarrow> ('o, role_logs) action" where
  "stop_bombard_clients_and_capture st label =
     run_then (service_containers st ''client'' True) (\<lambda>containers.
     run_then (stop_clients st) (\<lambda>_.
     capture_bombard_logs st label 0 containers))"

definition totals_json :: "(domain, bombard_total) js_map \<Rightarrow> json" where
  "totals_json totals = JObj (map (\<lambda>(d, t). (domain_name d,
     JObj [(''success'', jnat (bt_success t)), (''error'', jnat (bt_error t))])) totals)"

definition selected_errors :: "'o stack \<Rightarrow> (domain, bombard_total) js_map \<Rightarrow> nat" where
  "selected_errors st totals =
     sum_list (map (\<lambda>d. case map_get totals d of Some t \<Rightarrow> bt_error t | None \<Rightarrow> 0) (bombardDomains (config_of st)))"

definition run_domain_pressure :: "'o stack \<Rightarrow> nat \<Rightarrow> int \<Rightarrow> ('o, unit) action" where
  "run_domain_pressure st replicas phase_ms =
     (let domains = jstrs (map domain_name (bombardDomains (config_of st))) in
      run_then (performance_now (host_of st)) (\<lambda>started_at.
      run_then (read_clock (host_timestamp (host_of st))) (\<lambda>since.
      run_then (steps
        [event st ''domain_pressure_started'' [(''replicas'', jnat replicas), (''domains'', domains), (''phaseMs'', jint phase_ms)],
         start_clients st replicas,
         wait_for_all_client_domains st since replicas,
         sleep (host_of st) phase_ms]) (\<lambda>_.
      run_then (bombard_totals_since st since replicas) (\<lambda>totals.
      run_then (stop_clients st) (\<lambda>_.
        if selected_errors st totals > 0
        then fail (Error ''Domain pressure observed $ client errors: $'' [ANat (selected_errors st totals), AJson (totals_json totals)])
        else run_then (elapsed_since (host_of st) started_at) (\<lambda>ms.
          event st ''domain_pressure_complete''
            [(''replicas'', jnat replicas), (''domains'', domains), (''totals'', totals_json totals), (''elapsedMs'', jint ms)])))))))"

subsection \<open>Faults on clients and storage\<close>

datatype fault_proxy_fault =
    Healthy | Latency int | Reset | Partition | Blackhole | DownstreamDrop | DownstreamPause

fun fault_mode :: "fault_proxy_fault \<Rightarrow> string" where
  "fault_mode Healthy = ''healthy''"
| "fault_mode (Latency _) = ''latency''"
| "fault_mode Reset = ''reset''"
| "fault_mode Partition = ''partition''"
| "fault_mode Blackhole = ''blackhole''"
| "fault_mode DownstreamDrop = ''downstream-drop''"
| "fault_mode DownstreamPause = ''downstream-pause''"

definition fault_json :: "fault_proxy_fault \<Rightarrow> json" where
  "fault_json f = JObj ((''mode'', JStr (fault_mode f)) # (case f of Latency ms \<Rightarrow> [(''latencyMs'', jint ms)] | _ \<Rightarrow> []))"

definition fault_body :: "fault_proxy_fault \<Rightarrow> string" where
  "fault_body f = ''{'' @ [CHR 0x22] @ ''mode'' @ [CHR 0x22] @ '':'' @ [CHR 0x22] @ fault_mode f @ [CHR 0x22] @
     (case f of Latency ms \<Rightarrow> '','' @ [CHR 0x22] @ ''latencyMs'' @ [CHR 0x22] @ '':'' @ show_int ms | _ \<Rightarrow> []) @ ''}''"

definition set_fault_proxy :: "'o stack \<Rightarrow> string \<Rightarrow> fault_proxy_fault \<Rightarrow> ('o, unit) action" where
  "set_fault_proxy st service f =
     run_then (fault_proxy_control_url st service (if service = ''storage-proxy'' then ''9100'' else ''9101'')) (\<lambda>url.
     run_then (effect [Fetched ''PUT'' (url @ ''/fault'')]
         (host_fetch (host_of st) ''PUT'' (url @ ''/fault'') (fault_body f) 5000)) (\<lambda>r.
       if \<not> response_ok r
       then fail (Error ''$ rejected $: HTTP $: $'' [AStr service, AStr (fault_mode f), ANat (resp_status r), AStr (take 500 (resp_body r))])
       else case parse_json (resp_body r) of
           None \<Rightarrow> fail (Error ''SyntaxError'' [AStr (resp_body r)])
         | Some state_v \<Rightarrow>
             event st (map (\<lambda>c. if c = CHR ''-'' then CHR ''_'' else c) service @ ''_fault_changed'')
               [(''fault'', fault_json f), (''state'', state_v)]))"

definition kill_one_client_and_restore :: "'o stack \<Rightarrow> nat \<Rightarrow> ('o, string) action" where
  "kill_one_client_and_restore st replicas =
     run_then (service_containers st ''client'' False) (\<lambda>containers.
       case sort containers of
         [] \<Rightarrow> fail (Error ''No running client container is available to kill'' [])
       | target # _ \<Rightarrow>
           run_then (docker st [''inspect'', ''--format'', ''{{.Name}}'', target]) (\<lambda>inspect.
           let name = js_trim (stdout inspect) in
           run_then (steps
             [event st ''client_sigkill_started'' [(''containerId'', JStr target), (''name'', JStr name)],
              docker_run st [''kill'', ''--signal'', ''SIGKILL'', target],
              capture_container_logs st ''client-sigkill'' target,
              docker_run st [''rm'', target],
              start_clients st replicas,
              event st ''client_replica_restored'' [(''killedContainerId'', JStr target), (''name'', JStr name)]]) (\<lambda>_.
           ret target)))"

definition kill_sqrzl_and_restore :: "'o stack \<Rightarrow> ('o, unit) action" where
  "kill_sqrzl_and_restore st =
     steps
      [event st ''sqrzl_sigkill_started'' [],
       kill_and_remove_service st ''sqrzl'' ''sqrzl-sigkill'' False,
       event st ''sqrzl_sigkill_complete'' [],
       sleep (host_of st) (phaseMs (config_of st)),
       compose st [''up'', ''-d'', ''--no-deps'', ''sqrzl''],
       event st ''sqrzl_restarted'' [],
       kill_and_remove_service st ''fitz'' ''fitz-after-sqrzl'' True,
       start_fitz st,
       wait_ready st,
       event st ''fitz_recycled_after_sqrzl_fault'' []]"

definition replace_clients :: "'o stack \<Rightarrow> nat \<Rightarrow> ('o, unit) action" where
  "replace_clients st replicas =
     steps
      [event st ''client_replica_set_replacement_started'' [(''replicas'', jnat replicas)],
       run_then (service_containers st ''client'' True) (\<lambda>containers.
         steps
          [compose_try st [''kill'', ''-s'', ''SIGKILL'', ''client''],
           each (capture_container_logs st ''client-after-infrastructure-fault'') containers,
           compose_try st [''rm'', ''-f'', ''client''],
           start_clients st replicas,
           event st ''client_replica_set_replacement_complete'' [(''replicas'', jnat replicas)]])]"

subsection \<open>Jobs\<close>

definition job_log :: "command_result \<Rightarrow> json list" where
  "job_log r = parse_json_records (stdout r @ [CHR 0x0A] @ stderr r)"

definition env_args :: "(string, string) js_map \<Rightarrow> string list" where
  "env_args env = concat (map (\<lambda>(k, v). [''-e'', k @ ''='' @ v]) env)"

definition recovery_environment :: "'o stack \<Rightarrow> string \<Rightarrow> workload_shape \<Rightarrow> string \<Rightarrow> (string, string) js_map" where
  "recovery_environment st mode shape transport =
     [(''DESTROYER_MODE'', mode), (''DESTROYER_NAMESPACE'', namespace shape), (''DESTROYER_SEED'', show_nat (seed shape)),
      (''DESTROYER_RESOURCES'', show_nat (resources shape)), (''DESTROYER_ENTRIES'', show_nat (entriesPerResource shape)),
      (''DESTROYER_PAYLOAD_BYTES'', show_nat (payloadBytes shape)),
      (''DESTROYER_STARTUP_TIMEOUT_MS'', show_int (startupTimeoutMs (config_of st))), (''DESTROYER_TRANSPORT'', transport),
      (''FITZ_URL'', if transport = ''tcp'' then ''tcp://fitz:4091'' else ''ws://fitz:4090/ws'')]"

definition job_complete :: "string \<Rightarrow> json \<Rightarrow> bool" where
  "job_complete mode r = (has_event ''job_complete'' r \<and> json_get r ''mode'' = Some (JStr mode))"

definition execute_recovery_job :: "'o stack \<Rightarrow> nat \<Rightarrow> string \<Rightarrow> workload_shape \<Rightarrow> string \<Rightarrow> ('o, unit) action" where
  "execute_recovery_job st sequence mode shape transport =
     run_then (performance_now (host_of st)) (\<lambda>started_at.
     run_then (event st ''client_job_started'' [(''mode'', JStr mode), (''transport'', JStr transport)]) (\<lambda>_.
     run_then (compose_with st False False
         ([''run'', ''--rm'', ''-T'', ''--no-deps''] @ env_args (recovery_environment st mode shape transport) @ [''client''])) (\<lambda>r.
     run_then (artifact_write (host_of st) (''client-job-'' @ pad sequence 2 @ ''-'' @ mode @ ''.log'') (stdout r @ stderr r)) (\<lambda>_.
       case find_last (job_complete mode) (job_log r) of
         None \<Rightarrow> fail (Error ''$ client job omitted completion evidence'' [AStr mode])
       | Some done \<Rightarrow>
           run_then (of_result (numeric_value (json_get done ''entries'') (mode @ '' client job entries''))) (\<lambda>entries.
           run_then (of_result (numeric_value (json_get done ''elapsedMs'') (mode @ '' client job elapsedMs''))) (\<lambda>worker_ms.
           run_then (elapsed_since (host_of st) started_at) (\<lambda>ms.
           event st ''client_job_complete''
             [(''mode'', JStr mode), (''transport'', JStr transport), (''entries'', jnat entries),
              (''workerElapsedMs'', jnat worker_ms), (''elapsedMs'', jint ms)])))))))"

definition run_recovery_job :: "'o stack \<Rightarrow> string \<Rightarrow> workload_shape \<Rightarrow> string \<Rightarrow> ('o, unit) action" where
  "run_recovery_job st mode shape transport =
     run_then (modify (\<lambda>w. w\<lparr>job_sequence := job_sequence w + 1\<rparr>)) (\<lambda>_.
     run_then (get_state job_sequence) (\<lambda>sequence.
     execute_recovery_job st sequence mode shape transport))"

definition run_disk_filler :: "'o stack \<Rightarrow> string \<Rightarrow> string \<Rightarrow> ('o, nat) action" where
  "run_disk_filler st target act =
     run_then (compose_with st False False
         ([''run'', ''--rm'', ''-T'', ''--no-deps''] @
          env_args [(''DESTROYER_FILL_TARGET'', target), (''DESTROYER_FILL_ACTION'', act)] @ [''disk-filler''])) (\<lambda>r.
       case find_last (has_event (''disk_filler_'' @ (if act = ''fill'' then ''complete'' else ''removed''))) (job_log r) of
         None \<Rightarrow> fail (Error ''Disk filler omitted $ completion evidence'' [AStr act])
       | Some completion \<Rightarrow>
           run_then (if act = ''fill''
             then of_result (numeric_value (json_get completion ''bytesWritten'') (target @ '' filler bytesWritten''))
             else ret 0) (\<lambda>bytes.
           run_then (event st ''disk_filler_action_complete''
             [(''target'', JStr target), (''action'', JStr act), (''bytesWritten'', jnat bytes)]) (\<lambda>_.
           ret bytes)))"

subsection \<open>Replacement of the image\<close>

definition is_image_id :: "string \<Rightarrow> bool" where
  "is_image_id s = (prefix ''sha256:'' s \<and> length s = 71 \<and> list_all (\<lambda>c. c \<in> set ''0123456789abcdef'') (drop 7 s))"

definition running_service_image_id :: "'o stack \<Rightarrow> string \<Rightarrow> ('o, string) action" where
  "running_service_image_id st service =
     run_then (service_containers st service False) (\<lambda>containers.
       case containers of
         [container] \<Rightarrow>
           run_then (docker st [''inspect'', ''--format'', ''{{.Image}}'', container]) (\<lambda>inspect.
             let i = js_trim (stdout inspect)
             in if is_image_id i then ret i else fail (Error ''Invalid $ image ID $'' [AStr service, AStr i]))
       | _ \<Rightarrow> fail (Error ''Expected one running $ container, found $'' [AStr service, ANat (length containers)]))"

definition replace_fitz_for_upgrade :: "'o stack \<Rightarrow> ('o, string \<times> string \<times> bool) action" where
  "replace_fitz_for_upgrade st =
     run_then (running_service_image_id st ''fitz'') (\<lambda>source_id.
     run_then (steps
       [stop_fitz st,
        compose st [''rm'', ''-f'', ''fitz''],
        set_fitz_image (target_image st),
        compose st [''up'', ''-d'', ''--no-deps'', ''--no-build'', ''--force-recreate'', ''fitz''],
        wait_ready st]) (\<lambda>_.
     run_then (running_service_image_id st ''fitz'') (\<lambda>target_id.
       let cross_version = (source_id \<noteq> target_id)
       in if upgradeFromImage (config_of st) \<noteq> None \<and> \<not> cross_version
          then fail (Error ''FITZ_UPGRADE_FROM_IMAGE resolved to the same image as the upgrade target'' [])
          else run_then (event st ''fitz_upgrade_replacement_complete''
              [(''sourceImage'', JStr (get_or (target_image st) (upgradeFromImage (config_of st)))),
               (''targetImage'', JStr (target_image st)), (''sourceImageId'', JStr source_id),
               (''targetImageId'', JStr target_id), (''crossVersion'', JBool cross_version)]) (\<lambda>_.
            ret (source_id, target_id, cross_version)))))"

subsection \<open>Collection and clean-up\<close>

definition collect :: "'o stack \<Rightarrow> ('o, unit) action" where
  "collect st =
     run_then (compose_with st True False [''logs'', ''--no-color'', ''--timestamps'']) (\<lambda>logs.
     run_then (artifact_write (host_of st) ''compose.log'' (stdout logs @ stderr logs)) (\<lambda>_.
     run_then (compose_with st True False [''ps'', ''--all'', ''--format'', ''json'']) (\<lambda>ps.
     artifact_write (host_of st) ''compose-ps.json'' (if stdout ps = [] then ''[]'' @ [CHR 0x0A] else stdout ps))))"

definition cleanup :: "'o stack \<Rightarrow> ('o, unit) action" where
  "cleanup st =
     steps [compose st [''down'', ''--volumes'', ''--remove-orphans''],
            event st ''cleanup_complete'' [(''project'', JStr (project_of st))]]"

definition cleanup_command :: "'o stack \<Rightarrow> string" where
  "cleanup_command st =
     ''docker compose '' @ join_with '' '' (map (\<lambda>file. ''-f '' @ file) (compose_files st)) @
     '' --project-name '' @ project_of st @ '' --profile clients down --volumes --remove-orphans''"

end
