(* ===== verification/ComposeProofs.thy ===== *)
theory ComposeProofs
  imports ComposeLife Suite
begin

text \<open>
  What the Compose stack guarantees whatever the machine answers: which volume it removes, what a
  wait has seen when it returns, and that a wait ends when the clock goes forward.
\<close>

subsection \<open>A machine for examples\<close>

text \<open>
  Its state is the clock; every container has logged one event and exited with code 0, and the
  broker answers 503.
\<close>

definition sample_host :: "int host" where
  "sample_host =
     \<lparr>host_spawn = (\<lambda>e args opts t.
        (Inr (if take 1 args = [''logs''] then ''{'' @ [CHR 0x22] @ ''event'' @ [CHR 0x22] @ '':'' @ [CHR 0x22] @ ''up'' @ [CHR 0x22] @ ''}''
              else ''exited 0'', [], Some 0), t)),
      host_fetch = (\<lambda>m url body ms t. (Inr \<lparr>resp_status = 503, resp_body = []\<rparr>, t)),
      host_append = (\<lambda>name v t. (Inr (), t)), host_write = (\<lambda>name v t. (Inr (), t)),
      host_write_json = (\<lambda>name v t. (Inr (), t)), host_access = (\<lambda>name t. (Inr (), t)),
      host_now = (\<lambda>t. (of_int \<bar>t\<bar>, t)),
      host_performance = (\<lambda>t. (of_int t, t)), host_timestamp = (\<lambda>t. ([], t)),
      host_sleep = (\<lambda>ms t. \<bar>t\<bar> + \<bar>ms\<bar>)\<rparr>"

definition sample_stack :: "run_config \<Rightarrow> int stack" where
  "sample_stack c =
     \<lparr>host_of = sample_host, config_of = c\<lparr>startupTimeoutMs := 5\<rparr>, project_of = ''p'', compose_files = [], target_image = ''fitz'', fuel = 6\<rparr>"


subsection \<open>Removed volumes\<close>

definition volume_removals :: "string list \<Rightarrow> string list" where
  "volume_removals args = (if take 2 args = [''volume'', ''rm''] then drop 2 args else [])"

definition removes_project_volumes :: "string \<Rightarrow> string \<Rightarrow> string list \<Rightarrow> bool" where
  "removes_project_volumes project executable args =
     list_all (\<lambda>v. prefix (project @ ''_'') v) (volume_removals args)"

lemma only_calls_compose [calls_intros]:
  "only_calls (on_spawns (removes_project_volumes p)) (compose_with st allow ignore_orphans args)"
  "only_calls (on_spawns (removes_project_volumes p)) (compose st args)"
  "only_calls (on_spawns (removes_project_volumes p)) (compose_try st args)"
  unfolding compose_with_def compose_def compose_try_def
  by (intro calls_intros; simp add: removes_project_volumes_def volume_removals_def compose_args_def)+

lemma only_calls_docker [calls_intros]:
  "list_all (\<lambda>v. prefix (p @ ''_'') v) (volume_removals args) \<Longrightarrow>
     only_calls (on_spawns (removes_project_volumes p)) (docker_with st allow args)"
  unfolding docker_with_def by (intro calls_intros) (simp add: removes_project_volumes_def)

lemma only_calls_containers [calls_intros]:
  "only_calls (on_spawns (removes_project_volumes p)) (service_containers st service b)"
  "only_calls (on_spawns (removes_project_volumes p)) (container_logs st c)"
  "only_calls (on_spawns (removes_project_volumes p)) (capture_container_logs st label c)"
  "only_calls (on_spawns (removes_project_volumes p)) (capture_service_logs st service label)"
  unfolding service_containers_def container_logs_def capture_container_logs_def capture_service_logs_def docker_def
  by (intro calls_intros; simp add: volume_removals_def)+

lemma only_calls_event [calls_intros]: "only_calls (on_spawns Q) (event st name entries)"
  by (simp add: event_def calls_intros)

lemma only_calls_wait_ready [calls_intros]: "only_calls (on_spawns Q) (wait_ready st)"
  unfolding wait_ready_def poll_until_def round_until_def ready_round_def deadline_in_def
  by (intro calls_intros)

lemma cache_volume_ok: "cache_volume st vs = Inr v \<Longrightarrow> vs = [v] \<and> prefix (project_of st @ ''_'') v"
  by (auto simp: cache_volume_def length_Suc_conv split: if_splits)

lemma only_calls_remove_cache_volume [calls_intros]:
  "only_calls (on_spawns (removes_project_volumes (project_of st))) (remove_cache_volume st)"
proof -
  have "only_calls (on_spawns (removes_project_volumes (project_of st)))
     (run_then (of_result (cache_volume st vs)) (\<lambda>volume.
       run_then (docker st [''volume'', ''inspect'', volume]) (\<lambda>inspected.
       steps
         [artifact_write (host_of st) ''discarded-cache-volume.json'' (stdout inspected),
          docker_run st [''volume'', ''rm'', volume],
          event st ''fitz_cache_discard_complete'' [(''volume'', JStr volume)]])))" for vs
  proof (cases "cache_volume st vs")
    case (Inl e)
    then show ?thesis by (simp add: run_then_def of_result_def)
  next
    case (Inr v)
    then have "prefix (project_of st @ ''_'') v" by (blast dest: cache_volume_ok)
    with Inr show ?thesis
      unfolding of_result_def docker_def docker_run_def
      by (simp only: run_then_def [of "\<lambda>w. (Inr v, w)"] split_conv sum.case)
        (intro calls_intros; simp add: volume_removals_def)
  qed
  then show ?thesis
    unfolding remove_cache_volume_def
    by (intro only_calls_run_then [OF only_calls_docker [where allow = False, folded docker_def]])
      (simp_all add: volume_removals_def cache_volume_filter_def)
qed

text \<open>
  C18.  Whatever docker, the broker and the file system answer, and however the operation ends,
  \<^verbatim>\<open>discardFitzCacheAndRestart\<close> only issues \<^verbatim>\<open>docker volume rm\<close> for volumes whose name starts with
  its own project followed by an underscore.
\<close>
theorem discard_removes_only_project_volumes:
  "\<exists>cs. calls (snd (discard_fitz_cache_and_restart st w)) = calls w @ cs \<and>
     list_all (on_spawns (removes_project_volumes (project_of st))) cs"
proof -
  have "only_calls (on_spawns (removes_project_volumes (project_of st))) (discard_fitz_cache_and_restart st)"
    unfolding discard_fitz_cache_and_restart_def forget_metrics_url_def start_fitz_def restart_complete_def
    by (intro calls_intros) simp_all
  then show ?thesis by (simp add: only_calls_def)
qed

subsection \<open>What a wait has seen\<close>

lemma poll_error:
  "poll n body s w = (Inl e, w') \<Longrightarrow> e = out_of_fuel \<or> (\<exists>s' v. body s' v = (Inl e, w'))"
proof (induction n arbitrary: s w)
  case (Suc n)
  then show ?case
    by (auto simp: run_then_def ret_def split: prod.splits sum.splits)
qed (simp add: fail_def)

lemma poll_invariant:
  assumes "poll n body s w = (Inr x, w')" and "Q s"
    and "\<And>s v s' v'. Q s \<Longrightarrow> body s v = (Inr (Inl s'), v') \<Longrightarrow> Q s'"
    and "\<And>s v x v'. Q s \<Longrightarrow> body s v = (Inr (Inr x), v') \<Longrightarrow> R x"
  shows "R x"
  using assms(1,2)
proof (induction n arbitrary: s w)
  case (Suc n)
  then obtain r v where b: "body s w = (Inr r, v)"
    and rest: "(case r of Inl s' \<Rightarrow> poll n body s' | Inr x \<Rightarrow> ret x) v = (Inr x, w')"
    by (auto simp: run_then_ok)
  show ?case
  proof (cases r)
    case (Inl s')
    with b rest Suc assms(3) [of s w s' v] show ?thesis by simp
  next
    case (Inr y)
    with b rest Suc.prems assms(4) [of s w y v] show ?thesis by (simp add: ret_ok)
  qed
qed (simp add: fail_ok)

lemma round_until_ok:
  "round_until h deadline pause body expired s v = (Inr r, w') \<Longrightarrow>
     (\<exists>x. r = Inr x \<and> (\<exists>v. expired s v = (Inr x, w'))) \<or> (\<exists>x v. r = Inr x \<and> body s v = (Inr (Inr x), w')) \<or>
     (\<exists>s' v v'. r = Inl s' \<and> body s v = (Inr (Inl s'), v'))"
  by (auto simp: round_until_def script_ok split: if_splits) (auto simp: script_ok split: sum.splits)

text \<open>
  The value a deadline loop returns: every local state is the first one or came from the body, and
  the value came from the body or from what follows the loop.
\<close>

lemma poll_until_ok:
  assumes "poll_until st deadline pause body expired s w = (Inr x, w')" and "Q s"
    and "\<And>s v s' v'. body s v = (Inr (Inl s'), v') \<Longrightarrow> Q s'"
    and "\<And>s v x v'. body s v = (Inr (Inr x), v') \<Longrightarrow> R x"
    and "\<And>s v x v'. Q s \<Longrightarrow> expired s v = (Inr x, v') \<Longrightarrow> R x"
  shows "R x"
  using assms(1) unfolding poll_until_def
  by (rule poll_invariant [where Q = Q]) (use assms(2-5) in \<open>blast dest: round_until_ok\<close>)+

lemma try_catch_ok:
  "try_catch m g w = (Inr x, w') \<longleftrightarrow> m w = (Inr x, w') \<or> (\<exists>e v. m w = (Inl e, v) \<and> g e v = (Inr x, w'))"
  by (auto simp: try_catch_def split: prod.splits sum.splits)

lemma wait_ready_saw_200:
  assumes "wait_ready st w = (Inr (), w')"
  shows "\<exists>url v v' r. fetch_get (host_of st) url 2000 v = (Inr r, v') \<and> resp_status r = 200"
proof -
  from assms obtain t deadline v where
    "poll_until st deadline 250 (ready_round st t)
       (\<lambda>e. fail (also_error ''Fitz did not become ready: '' e)) (Error ''no response'' []) v = (Inr (), w')"
    by (auto simp: wait_ready_def script_ok)
  then have "\<exists>e v v'. ready_round st t e v = (Inr (Inr ()), v')"
    by (rule poll_until_ok [where Q = "\<lambda>_. True"]) (auto simp: fail_ok)
  then show ?thesis
    by (auto simp: ready_round_def try_catch_ok script_ok split: if_splits)
qed

lemma gather_ok:
  "gather f xs w = (Inr ys, w') \<Longrightarrow> list_all2 (\<lambda>x y. \<exists>v v'. f x v = (Inr y, v')) xs ys"
proof (induction xs arbitrary: ys w)
  case (Cons x xs)
  then show ?case by (auto simp: script_ok)
qed (simp add: script_ok)

lemma list_all2_inD: "list_all2 P xs ys \<Longrightarrow> x \<in> set xs \<Longrightarrow> \<exists>y \<in> set ys. P x y"
  by (induction rule: list_all2_induct) auto

text \<open>
  \<^verbatim>\<open>waitForRoleEvent\<close> returns only after a round in which the log of every container, as
  docker printed it, held a JSON record with that event.
\<close>
lemma role_event_seen:
  assumes "wait_for_role_event st containers name w = (Inr (), w')" and "c \<in> set containers"
  shows "\<exists>v v' l. container_logs st (rc_id c) v = (Inr l, v') \<and> list_ex (has_event name) (parse_json_records l)"
proof -
  from assms(1) obtain deadline v0 where
    "poll_until st deadline 200 (\<lambda>_. role_event_round st containers name)
       (\<lambda>missing. run_then (capture_role_logs st containers (name @ ''-timeout'')) (\<lambda>_.
          fail (Error ''Timed out waiting for $: $'' [AStr name, AStrs missing])))
       (map rc_name containers) v0 = (Inr (), w')"
    by (auto simp: wait_for_role_event_def script_ok)
  then have "\<exists>v v'. role_event_round st containers name v = (Inr (Inr ()), v')"
    by (rule poll_until_ok [where Q = "\<lambda>_. True"]) (auto simp: script_ok)
  then obtain v s where "role_event_round st containers name v = (Inr (Inr ()), s)" by blast
  then obtain found v1 v2 where g: "gather (missing_event st containers name) containers v1 = (Inr found, v2)"
    and "concat found = []"
    by (auto simp: role_event_round_def script_ok split: if_splits)
  then obtain v3 v4 where "missing_event st containers name c v3 = (Inr [], v4)"
    using list_all2_inD [OF gather_ok [OF g] assms(2)] by auto
  then show ?thesis
    by (auto simp: missing_event_def script_ok split: if_splits)
qed

lemma fold_map_set_get:
  "map_get (foldl (\<lambda>m (k, v). map_set m k v) m kvs) k = Some v \<Longrightarrow> map_get m k = Some v \<or> (k, v) \<in> set kvs"
proof (induction kvs arbitrary: m)
  case (Cons kv kvs)
  then show ?case by (cases kv) (auto simp: map_get_set split: if_splits dest!: Cons.IH)
qed simp

lemma list_all2_inD2: "list_all2 P xs ys \<Longrightarrow> y \<in> set ys \<Longrightarrow> \<exists>x \<in> set xs. P x y"
  by (induction rule: list_all2_induct) auto

lemma role_states_entry:
  assumes "role_states st containers w = (Inr states, w')" and "map_get states i = Some s"
  shows "\<exists>v v'. container_state_of st i v = (Inr s, v')"
proof -
  from assms(1) obtain found where
    g: "gather (\<lambda>c. run_then (container_state_of st (rc_id c)) (\<lambda>s. ret (rc_id c, s))) containers w = (Inr found, w')"
    and states: "states = foldl (\<lambda>m (k, v). map_set m k v) [] found"
    by (auto simp: role_states_def script_ok)
  from assms(2) states have "(i, s) \<in> set found" by (auto dest: fold_map_set_get)
  from list_all2_inD2 [OF gather_ok [OF g] this] show ?thesis by (auto simp: script_ok)
qed

text \<open>
  \<^verbatim>\<open>finishRoleContainers\<close> returns the logs only when docker reported every container as
  exited (or dead) with exit code 0.
\<close>
lemma finished_containers_exited_zero:
  assumes "finish_role_containers st containers label w = (Inr logs, w')" and "c \<in> set containers"
  shows "\<exists>v v' s. container_state_of st (rc_id c) v = (Inr s, v') \<and> stopped s \<and> cs_exitCode s = 0"
proof -
  from assms(1) obtain states deadline v v1 where
    p: "poll_until st deadline 200
       (\<lambda>_. run_then (role_states st containers) (\<lambda>states.
          ret (if list_all (\<lambda>(_, s). stopped s) states then Inr states else Inl states)))
       ret [] v = (Inr states, v1)"
    and running: "filter (still_running states) containers = []"
    and failed: "filter (exit_failed states) containers = []"
    by (auto simp: finish_role_containers_def script_ok Let_def split: if_splits)
  from running failed assms(2) obtain s where s: "map_get states (rc_id c) = Some s" "stopped s" "cs_exitCode s = 0"
    by (auto simp: filter_empty_conv still_running_def exit_failed_def split: option.splits)
  have "states = [] \<or> (\<exists>v2 v3. role_states st containers v2 = (Inr states, v3))"
    using p by (rule poll_until_ok [where Q = "\<lambda>m. m = [] \<or> (\<exists>v2 v3. role_states st containers v2 = (Inr m, v3))"])
      (auto simp: script_ok split: if_splits)
  with s have "\<exists>v v'. container_state_of st (rc_id c) v = (Inr s, v')"
    by (elim disjE exE) (simp_all add: role_states_entry)
  with s show ?thesis by blast
qed

subsection \<open>Waits end\<close>

text \<open>
  A machine whose clock reads whole milliseconds, never goes back, and has moved on by the time
  asked for when a sleep returns.
\<close>

definition forward_host :: "'o host \<Rightarrow> ('o \<Rightarrow> int) \<Rightarrow> bool" where
  "forward_host h clk =
     ((\<forall>o'. fst (host_now h o') = of_int (clk o') \<and> 0 \<le> clk o') \<and>
      (\<forall>o'. clk o' \<le> clk (snd (host_now h o')) \<and> clk o' \<le> clk (snd (host_performance h o')) \<and>
            clk o' \<le> clk (snd (host_timestamp h o'))) \<and>
      (\<forall>m url body ms o'. clk o' \<le> clk (snd (host_fetch h m url body ms o'))) \<and>
      (\<forall>name v o'. clk o' \<le> clk (snd (host_append h name v o'))) \<and>
      (\<forall>ms o'. clk o' + ms \<le> clk (host_sleep h ms o')))"

definition since_ms :: "('o \<Rightarrow> int) \<Rightarrow> int \<Rightarrow> 'o world \<Rightarrow> bool" where
  "since_ms clk t w = (t \<le> clk (outside w))"

lemma keeps_effect: "(\<And>o'. clk o' \<le> clk (snd (f o'))) \<Longrightarrow> keeps (since_ms clk t) (effect cs f)"
  by (auto simp: keeps_def effect_def since_ms_def split: prod.splits) (metis order_trans snd_conv)

lemma keeps_read_clock: "(\<And>o'. clk o' \<le> clk (snd (f o'))) \<Longrightarrow> keeps (since_ms clk t) (read_clock f)"
  unfolding read_clock_def by (rule keeps_effect) (auto split: prod.splits; metis snd_conv)

lemma keeps_ready_round:
  assumes "forward_host (host_of st) clk"
  shows "keeps (since_ms clk t) (ready_round st started_at e)"
  using assms
  unfolding ready_round_def fetch_get_def elapsed_since_def performance_now_def event_def artifact_event_def forward_host_def
  by (intro keeps_intros keeps_effect keeps_read_clock) auto

lemma ready_round_never_fails: "fst (ready_round st started_at e w) \<noteq> Inl e'"
  by (auto simp: ready_round_def try_catch_def ret_def split: prod.splits sum.splits)

lemma date_now_forward:
  assumes "forward_host h clk" "date_now h w = (r, w')"
  shows "r = Inr (of_int (clk (outside w)))" "clk (outside w) \<le> clk (outside w')"
  using assms by (auto simp: date_now_def read_clock_def effect_def forward_host_def split: prod.splits)
    (metis fst_conv, metis snd_conv)

lemma sleep_forward:
  "forward_host h clk \<Longrightarrow> sleep h ms w = (r, w') \<Longrightarrow> r = Inr () \<and> clk (outside w) + ms \<le> clk (outside w')"
  by (auto simp: sleep_def effect_def forward_host_def)

text \<open>A round that goes on has waited before the deadline.\<close>

lemma round_until_later:
  assumes fwd: "forward_host h clk" and body: "\<And>s t. keeps (since_ms clk t) (body s)"
    and run: "round_until h (of_int deadline) pause body expired s w = (Inr (Inl s'), w')" and "1 \<le> pause"
  shows "clk (outside w) < deadline \<and> clk (outside w) + 1 \<le> clk (outside w')"
proof -
  obtain t w1 where n: "date_now h w = (t, w1)" by (cases "date_now h w")
  note now = date_now_forward [OF fwd n]
  from run n now(1) have before: "clk (outside w) < deadline"
    and "run_then (body s) (\<lambda>r. case r of
           Inl s' \<Rightarrow> run_then (sleep h pause) (\<lambda>_. ret (Inl s')) | Inr x \<Rightarrow> ret (Inr x)) w1 = (Inr (Inl s'), w')"
    by (auto simp: round_until_def run_then_def ret_def split: if_splits prod.splits sum.splits)
  then obtain w2 where b: "body s w1 = (Inr (Inl s'), w2)" and sl: "sleep h pause w2 = (Inr (), w')"
    unfolding run_then_ok by (elim exE conjE) (auto simp: script_ok split: sum.split_asm)
  have "clk (outside w1) \<le> clk (outside w2)"
    using keepsD [OF body [of "clk (outside w1)" s] b] by (simp add: since_ms_def)
  with before now(2) sleep_forward [OF fwd sl] \<open>1 \<le> pause\<close> show ?thesis by linarith
qed

lemma poll_until_ends:
  assumes fwd: "forward_host (host_of st) clk" and body: "\<And>s t. keeps (since_ms clk t) (body s)"
    and errors: "\<And>s w. fst (body s w) \<noteq> Inl out_of_fuel" "\<And>s w. fst (expired s w) \<noteq> Inl out_of_fuel"
    and "1 \<le> pause" and fuel: "nat (deadline - clk (outside w)) < fuel st"
  shows "fst (poll_until st (of_int deadline) pause body expired s w) \<noteq> Inl out_of_fuel"
  unfolding poll_until_def
proof (rule poll_ends [where I = "\<lambda>_. True" and m = "\<lambda>w. nat (deadline - clk (outside w))"])
  fix s w s' w'
  assume "round_until (host_of st) (of_int deadline) pause body expired s w = (Inr (Inl s'), w')"
  from round_until_later [OF fwd body this \<open>1 \<le> pause\<close>]
  show "True \<and> nat (deadline - clk (outside w')) < nat (deadline - clk (outside w))" by auto
next
  fix s w e w'
  assume run: "round_until (host_of st) (of_int deadline) pause body expired s w = (Inl e, w')"
  obtain t w1 where n: "date_now (host_of st) w = (t, w1)" by (cases "date_now (host_of st) w")
  have t: "t = Inr (of_int (clk (outside w)))" using date_now_forward [OF fwd n] by simp
  show "e \<noteq> out_of_fuel"
  proof (cases "body s w1")
    case (Pair r w2)
    then show ?thesis
      using run n t errors(1) [of s w1] errors(2) [of s w1] sleep_forward [OF fwd, of pause w2]
      by (auto simp: round_until_def run_then_def ret_def split: if_splits prod.splits sum.splits)
  qed
qed (use fuel in simp_all)

lemma also_error_fuel: "also_error ''Fitz did not become ready: '' e \<noteq> out_of_fuel"
  by (cases e) (simp add: also_error_def out_of_fuel_def)

lemma deadline_in_forward:
  assumes "forward_host (host_of st) clk" "deadline_in st timeout_ms w = (r, w')" "0 \<le> timeout_ms" "timeout_ms \<le> 100000000000000"
    and "clk (outside w) \<le> 8640000000000000"
  shows "r = Inr (of_int (clk (outside w) + timeout_ms))" "clk (outside w) \<le> clk (outside w')"
proof -
  obtain t w1 where n: "date_now (host_of st) w = (t, w1)" by (cases "date_now (host_of st) w")
  note now = date_now_forward [OF assms(1) n]
  have range: "0 \<le> clk (outside w)" "clk (outside w) \<le> 8640000000000000"
    using assms(1,5) by (simp_all add: forward_host_def)
  then have "fl (of_int (clk (outside w) + timeout_ms)) = of_int (clk (outside w) + timeout_ms)"
    using assms(3,4) by (intro fl_of_int) simp
  with assms(2) n now show "r = Inr (of_int (clk (outside w) + timeout_ms))" "clk (outside w) \<le> clk (outside w')"
    by (auto simp: deadline_in_def run_then_def ret_def)
qed

text \<open>
  C19.  On a machine whose clock goes forward \<^verbatim>\<open>waitReady\<close> ends: with one round of fuel for every
  millisecond of the start-up timeout the loop has either seen HTTP 200 or reached the deadline
  and thrown its own error.  The start lies in the range of a \<^verbatim>\<open>Date\<close>.
\<close>
theorem wait_ready_ends:
  assumes "forward_host (host_of st) clk" "0 \<le> startupTimeoutMs (config_of st)"
    "startupTimeoutMs (config_of st) \<le> 100000000000000" "nat (startupTimeoutMs (config_of st)) < fuel st"
    "clk (snd (host_performance (host_of st) (outside w))) \<le> 8640000000000000"
  shows "fst (wait_ready st w) \<noteq> Inl out_of_fuel"
proof -
  obtain t w1 where p: "performance_now (host_of st) w = (Inr t, w1)"
    by (cases "host_performance (host_of st) (outside w)") (auto simp: performance_now_def read_clock_def effect_def)
  then have range: "clk (outside w1) \<le> 8640000000000000"
    using assms(5) by (auto simp: performance_now_def read_clock_def effect_def split: prod.splits)
  obtain d w2 where d: "deadline_in st (startupTimeoutMs (config_of st)) w1 = (d, w2)"
    by (cases "deadline_in st (startupTimeoutMs (config_of st)) w1")
  note dl = deadline_in_forward [OF assms(1) d assms(2,3) range]
  have "fst (poll_until st (of_int (clk (outside w1) + startupTimeoutMs (config_of st))) 250 (ready_round st t)
       (\<lambda>e. fail (also_error ''Fitz did not become ready: '' e)) (Error ''no response'' []) w2) \<noteq> Inl out_of_fuel"
  proof (rule poll_until_ends [OF assms(1) keeps_ready_round [OF assms(1)]])
    show "nat (clk (outside w1) + startupTimeoutMs (config_of st) - clk (outside w2)) < fuel st"
      using dl(2) assms(4) by linarith
  qed (simp_all add: ready_round_never_fails fail_def also_error_fuel)
  then show ?thesis using p d dl(1) by (simp add: wait_ready_def run_then_def)
qed

lemma wait_ready_ends_witness:
  "fst (wait_ready (sample_stack sample_config) (new_world (sample_stack sample_config) ''ns'' 7)) \<noteq> Inl out_of_fuel"
  by (rule wait_ready_ends [where clk = abs])
    (simp_all add: abs_ge_self sample_stack_def sample_config_def sample_host_def forward_host_def new_world_def)

definition sample_containers :: "role_container list" where
  "sample_containers = [\<lparr>rc_id = ''c1'', rc_name = ''p-r-001-000'', rc_workerId = ''0''\<rparr>]"

lemma sample_log:
  "parse_json_records (''{'' @ [CHR 0x22] @ ''event'' @ [CHR 0x22] @ '':'' @ [CHR 0x22] @ ''up'' @ [CHR 0x22] @ ''}'') =
     [JObj [(''event'', JStr ''up'')]]"
  by code_simp

lemma sample_state: "state_of_output ''exited 0'' = Some \<lparr>cs_status = ''exited'', cs_exitCode = 0\<rparr>"
  by code_simp

lemma sample_deadline:
  "deadline_in (sample_stack sample_config) 5 (new_world (sample_stack sample_config) ''ns'' 7) =
     (Inr 12, new_world (sample_stack sample_config) ''ns'' 7)"
  by (simp add: deadline_in_def run_then_def date_now_def read_clock_def effect_def ret_def sample_stack_def sample_host_def
      new_world_def)

lemmas sample_run = poll_until_def round_until_def run_then_def ret_def date_now_def read_clock_def effect_def
  event_def artifact_event_def artifact_write_def run_command_def docker_with_def docker_def docker_run_def container_logs_def
  container_state_of_def capture_role_logs_def sample_stack_def sample_host_def sample_containers_def Let_def eval_nat_numeral

lemma sample_role_event:
  "fst (wait_for_role_event (sample_stack sample_config) sample_containers ''up''
     (new_world (sample_stack sample_config) ''ns'' 7)) = Inr ()"
proof -
  have t: "startupTimeoutMs (config_of (sample_stack sample_config)) = 5" by (simp add: sample_stack_def)
  show ?thesis
    unfolding wait_for_role_event_def t run_then_def [of "deadline_in (sample_stack sample_config) 5"] sample_deadline
    using sample_log
    by (simp add: sample_run role_event_round_def missing_event_def has_event_def new_world_def)
qed

lemma sample_finish:
  "is_ok (fst (finish_role_containers (sample_stack sample_config) sample_containers ''r''
     (new_world (sample_stack sample_config) ''ns'' 7)))"
proof -
  have t: "startupTimeoutMs (config_of (sample_stack sample_config)) = 5" by (simp add: sample_stack_def)
  show ?thesis
    unfolding finish_role_containers_def t run_then_def [of "deadline_in (sample_stack sample_config) 5"] sample_deadline
    using sample_state
    by (simp add: sample_run role_states_def still_running_def exit_failed_def stopped_def new_world_def)
qed

lemma sample_in: "sample_containers ! 0 \<in> set sample_containers"
  by (simp add: sample_containers_def)

lemma role_event_seen_witness:
  "\<exists>v v' l. container_logs (sample_stack sample_config) ''c1'' v = (Inr l, v') \<and> list_ex (has_event ''up'') (parse_json_records l)"
proof -
  have "wait_for_role_event (sample_stack sample_config) sample_containers ''up'' (new_world (sample_stack sample_config) ''ns'' 7) =
     (Inr (), snd (wait_for_role_event (sample_stack sample_config) sample_containers ''up''
       (new_world (sample_stack sample_config) ''ns'' 7)))"
    using sample_role_event by (simp add: prod_eq_iff)
  from role_event_seen [OF this sample_in] show ?thesis by (simp add: sample_containers_def)
qed

lemma finished_containers_exited_zero_witness:
  "\<exists>v v' s. container_state_of (sample_stack sample_config) ''c1'' v = (Inr s, v') \<and> stopped s \<and> cs_exitCode s = 0"
proof -
  obtain logs where "fst (finish_role_containers (sample_stack sample_config) sample_containers ''r''
     (new_world (sample_stack sample_config) ''ns'' 7)) = Inr logs"
    using sample_finish by (auto simp: is_ok_iff)
  then have "finish_role_containers (sample_stack sample_config) sample_containers ''r''
     (new_world (sample_stack sample_config) ''ns'' 7) = (Inr logs, snd (finish_role_containers (sample_stack sample_config)
       sample_containers ''r'' (new_world (sample_stack sample_config) ''ns'' 7)))"
    by (simp add: prod_eq_iff)
  from finished_containers_exited_zero [OF this sample_in] show ?thesis by (simp add: sample_containers_def)
qed

end
