(* ===== verification/StackCalls.thy ===== *)
theory StackCalls
  imports ComposeProofs
begin

text \<open>
  What a scenario may report.  A predicate on calls that restricts nothing but the events and JSON
  files of given names holds of every call the stack itself makes, so a scenario keeps it when
  its own reports do.  The locale is interpreted once per scenario.
\<close>

definition STACK_REPORTS :: "string list" where
  "STACK_REPORTS =
    [''fitz_ready'', ''live_role_started'', ''live_role_ready'', ''live_role_complete'', ''live_role_killed'',
     ''live_domain_quiescent'', ''client_domain_progress_confirmed'', ''fitz_sigkill_started'', ''fitz_sigkill_complete'',
     ''fitz_restart_complete'', ''fitz_pause_started'', ''fitz_pause_complete'', ''fitz_unpaused'', ''sqrzl_pause_started'',
     ''sqrzl_pause_complete'', ''sqrzl_unpaused'', ''storage_proxy_fault_changed'', ''client_proxy_fault_changed'',
     ''fitz_final_stop_started'', ''fitz_final_stop_complete'']"

definition reports_under :: "string list \<Rightarrow> os_call \<Rightarrow> bool" where
  "reports_under names c =
     (case c of EventAppended n _ \<Rightarrow> n \<in> set names | JsonWritten n _ \<Rightarrow> n \<in> set names | _ \<Rightarrow> False)"

lemma reports_under_simps [simp]:
  "\<not> reports_under names (Spawned e args v)" "\<not> reports_under names (Fetched m u)"
  "\<not> reports_under names (FileWritten n s)" "\<not> reports_under names (Slept ms)"
  "reports_under names (EventAppended n es) \<longleftrightarrow> n \<in> set names"
  "reports_under names (JsonWritten n v') \<longleftrightarrow> n \<in> set names"
  by (simp_all add: reports_under_def)

lemma only_calls_of_result_then:
  "(\<And>x. r = Inr x \<Longrightarrow> only_calls P (k x)) \<Longrightarrow> only_calls P (run_then (of_result r) k)"
  by (cases r) (simp_all add: run_then_def of_result_def only_calls_def)

locale quiet_stack =
  fixes names :: "string list" and P :: "os_call \<Rightarrow> bool"
  assumes quiet: "\<not> reports_under names c \<Longrightarrow> P c"
    and own_names: "list_all (\<lambda>n. n \<notin> set STACK_REPORTS) names"
begin

lemma own: "n \<in> set STACK_REPORTS \<Longrightarrow> n \<notin> set names"
  using own_names by (auto simp: list_all_iff)

lemma calls_effect [calls_intros]: "list_all (\<lambda>c. \<not> reports_under names c) cs \<Longrightarrow> only_calls P (effect cs f)"
  by (rule only_calls_effect) (auto simp: list_all_iff intro: quiet)

lemma calls_host [calls_intros]:
  "only_calls P (artifact_write h name content)" "only_calls P (sleep h ms)" "only_calls P (date_now h)"
  "only_calls P (performance_now h)" "only_calls P (elapsed_since h t)" "only_calls P (fetch_get h url ms)"
  "only_calls P (run_command h e args opts)"
  unfolding artifact_write_def sleep_def date_now_def performance_now_def elapsed_since_def fetch_get_def
  by (intro calls_intros calls_effect quiet; simp)+

lemma calls_event: "n \<notin> set names \<Longrightarrow> only_calls P (event st n es)"
  unfolding event_def artifact_event_def by (intro calls_intros) simp

lemma calls_json: "n \<notin> set names \<Longrightarrow> only_calls P (artifact_write_json h n v)"
  unfolding artifact_write_json_def by (intro calls_intros) simp

lemma calls_fetches [calls_intros]:
  "only_calls P (fetch_retried h url ms)" "only_calls P (fetch_json_object h url ms)" "only_calls P (fetch_text h url l ms)"
proof -
  show r: "only_calls P (fetch_retried h url ms)" for h :: "'a host" and url ms
    unfolding fetch_retried_def fetch_with_transient_retry_def by (intro calls_intros)
  show "only_calls P (fetch_json_object h url ms)"
    unfolding fetch_json_object_def by (intro calls_intros r) (auto split: json.split intro: calls_intros)
  show "only_calls P (fetch_text h url l ms)"
    unfolding fetch_text_def by (intro calls_intros r)
qed

lemma calls_compose [calls_intros]:
  "only_calls P (docker_with st allow args)" "only_calls P (docker st args)" "only_calls P (docker_run st args)"
  "only_calls P (compose_with st allow ig args)" "only_calls P (compose st args)" "only_calls P (compose_try st args)"
  unfolding docker_with_def docker_run_def docker_def compose_with_def compose_def compose_try_def by (intro calls_intros)+

lemma calls_containers [calls_intros]:
  "only_calls P (service_containers st service b)" "only_calls P (container_logs st c)"
  "only_calls P (capture_container_logs st l c)" "only_calls P (container_state_of st c)"
  "only_calls P (fetch_json st path)" "only_calls P (port_url st service p l)"
  unfolding service_containers_def container_logs_def capture_container_logs_def container_state_of_def fetch_json_def
    port_url_def
  by (intro calls_intros)+

lemma calls_readings [calls_intros]:
  "only_calls P (metrics_url_of st)" "only_calls P (fetch_prometheus st)" "only_calls P (pressure_rss st c)"
  "only_calls P (domain_snapshot st name)" "only_calls P (live_domain_snapshot st d)" "only_calls P (fault_proxy_control_url st service p)"
  unfolding metrics_url_of_def fetch_prometheus_def pressure_rss_def live_domain_snapshot_def domain_snapshot_def fault_proxy_control_url_def
  by (intro calls_intros; simp)+

lemma calls_pressure_snapshot [calls_intros]: "only_calls P (pressure_snapshot st)"
  unfolding pressure_snapshot_def by (intro calls_intros)

lemma calls_loops [calls_intros]:
  "(\<And>s. only_calls P (body s)) \<Longrightarrow> (\<And>s. only_calls P (expired s)) \<Longrightarrow> only_calls P (poll_until st d pause body expired s)"
  "only_calls P sample \<Longrightarrow> only_calls P (resample_until st d pause sample calm)"
  "only_calls P (deadline_in st ms)"
  unfolding poll_until_def round_until_def resample_until_def deadline_in_def by (intro calls_intros; simp)+

lemma calls_role_logs [calls_intros]:
  "only_calls P (capture_role_logs st cs l)" "only_calls P (role_logs_of st cs)"
  "only_calls P (signal_role_containers st cs sig)" "only_calls P (role_states st cs)"
  unfolding capture_role_logs_def role_logs_of_def signal_role_containers_def role_states_def
  by (intro calls_intros)+

lemma calls_roles [calls_intros]:
  "only_calls P (start_role_containers st role n shape env)" "only_calls P (wait_for_role_event st cs ev)"
  "only_calls P (finish_role_containers st cs l)" "only_calls P (kill_role_containers st cs l)"
  unfolding start_role_containers_def start_role_container_def wait_for_role_event_def role_event_round_def
    missing_event_def finish_role_containers_def kill_role_containers_def Let_def
  by (intro calls_intros calls_event own; simp add: STACK_REPORTS_def)+

lemma calls_wait_ready [calls_intros]: "only_calls P (wait_ready st)"
  unfolding wait_ready_def ready_round_def by (intro calls_intros calls_event own) (simp_all add: STACK_REPORTS_def)

lemma calls_pressure_quiescence [calls_intros]: "only_calls P (wait_for_pressure_quiescence st)"
  unfolding wait_for_pressure_quiescence_def by (intro calls_intros; simp)

lemma calls_quiescence [calls_intros]:
  assumes "run_label @ ''-stats-after.json'' \<notin> set names"
  shows "only_calls P (wait_for_live_domain_quiescence st d base run_label allow)"
proof -
  have "''live_domain_quiescent'' \<notin> set names" by (rule own) (simp add: STACK_REPORTS_def)
  with assms show ?thesis
    unfolding wait_for_live_domain_quiescence_def by (intro calls_intros calls_event calls_json; simp)
qed

lemma calls_faults [calls_intros]:
  "only_calls P (kill_and_remove_service st service l b)" "only_calls P (kill_fitz st)" "only_calls P (restart_fitz st)"
  "only_calls P (start_fitz st)" "only_calls P (pause_fitz st)" "only_calls P (unpause_fitz st)"
  "only_calls P (pause_sqrzl st)" "only_calls P (unpause_sqrzl st)" "only_calls P (stop_fitz st)"
  unfolding kill_and_remove_service_def kill_fitz_def restart_fitz_def restart_complete_def start_fitz_def pause_fitz_def
    unpause_fitz_def pause_sqrzl_def unpause_sqrzl_def pause_service_def unpause_service_def stop_fitz_def forget_metrics_url_def
  by (intro calls_intros calls_event own; simp add: STACK_REPORTS_def)+

lemma calls_fault_proxy [calls_intros]:
  "only_calls P (set_fault_proxy st ''storage-proxy'' f)" "only_calls P (set_fault_proxy st ''client-proxy'' f)"
  unfolding set_fault_proxy_def by (intro calls_intros calls_event own; simp add: STACK_REPORTS_def)+

end

interpretation any_calls: quiet_stack "[]" "\<lambda>_. True"
  by unfold_locales simp_all

subsection \<open>Calls as an invariant\<close>

text \<open>
  With a local variable beside the world (\<^verbatim>\<open>with_local\<close>) the same statements are invariants.
\<close>

definition since_calls :: "(os_call \<Rightarrow> bool) \<Rightarrow> os_call list \<Rightarrow> 'o world \<Rightarrow> bool" where
  "since_calls P cs0 w = (\<exists>cs. calls w = cs0 @ cs \<and> list_all P cs)"

lemma only_calls_keeps: "only_calls P m \<Longrightarrow> keeps (since_calls P cs0) m"
  unfolding keeps_def since_calls_def only_calls_def
  by (metis append.assoc list_all_append)

lemma keeps_only_calls: "(\<And>cs0. keeps (since_calls P cs0) m) \<Longrightarrow> only_calls P m"
  unfolding only_calls_def keeps_def since_calls_def
  by (metis append_Nil2 list.pred_inject(1))

lemma keeps_outer: "(\<And>v. keeps (\<lambda>w. J w v) m) \<Longrightarrow> keeps (\<lambda>p. J (fst p) (snd p)) (outer m)"
  by (auto simp: keeps_def outer_def split: prod.splits) (metis snd_conv)

lemma keeps_set_local: "(\<And>w v'. J w v' \<Longrightarrow> J w v) \<Longrightarrow> keeps (\<lambda>p. J (fst p) (snd p)) (set_local v)"
  by (auto simp: keeps_def set_local_def modify_def)

lemma keeps_get_local: "keeps I get_local"
  by (simp add: get_local_def keeps_get_state)

lemma keeps_with_local: "keeps (\<lambda>p. J (fst p)) m \<Longrightarrow> keeps J (with_local v m)"
  by (auto simp: keeps_def with_local_def split: prod.splits) (metis fst_conv snd_conv)

lemmas keeps_locals = keeps_outer [where J = "\<lambda>w _. since_calls P cs0 w" for P cs0]
  keeps_set_local [where J = "\<lambda>w _. since_calls P cs0 w" for P cs0] keeps_get_local

subsection \<open>Values that a script returns\<close>

text \<open>\<^verbatim>\<open>returns Q m\<close>: a value that the script returns satisfies \<^verbatim>\<open>Q\<close>.\<close>

definition returns :: "('a \<Rightarrow> bool) \<Rightarrow> ('o, 'a) action \<Rightarrow> bool" where
  "returns Q m = (\<forall>w x w'. m w = (Inr x, w') \<longrightarrow> Q x)"

lemma returns_run_then: "(\<And>x. returns Q (k x)) \<Longrightarrow> returns Q (run_then m k)"
  by (auto simp: returns_def run_then_def split: prod.splits sum.splits)

lemma returns_of_result: "(\<And>x. r = Inr x \<Longrightarrow> returns Q (k x)) \<Longrightarrow> returns Q (run_then (of_result r) k)"
  by (auto simp: returns_def run_then_def of_result_def split: sum.splits)

lemma returns_ret: "Q x \<Longrightarrow> returns Q (ret x)"
  by (simp add: returns_def ret_def)

lemma returns_try_finally: "returns Q m \<Longrightarrow> returns Q (try_finally m f)"
  by (auto simp: returns_def try_finally_def split: prod.splits sum.splits)

lemma only_calls_then_returned:
  assumes "only_calls P m" "returns Q m" "\<And>x. Q x \<Longrightarrow> only_calls P (k x)"
  shows "only_calls P (run_then m k)"
proof (rule only_calls_then [OF assms(1)])
  show "only_calls P (case r of Inl e \<Rightarrow> fail e | Inr x \<Rightarrow> if Q x then k x else ret undefined)" for r
    by (cases r) (simp_all add: assms(3) calls_intros)
  show "calls (snd (run_then m k w)) = calls (snd (case m w of (r, w') \<Rightarrow>
      (case r of Inl e \<Rightarrow> fail e | Inr x \<Rightarrow> if Q x then k x else ret undefined) w'))" for w
    using assms(2) by (auto simp: run_then_def returns_def fail_def split: prod.splits sum.splits)
qed

lemma only_calls_pair:
  "(\<And>x y. z = (x, y) \<Longrightarrow> only_calls P (f x y)) \<Longrightarrow> only_calls P (case z of (x, y) \<Rightarrow> f x y)"
  by (cases z) simp

lemma returns_attempt: "returns Q m \<Longrightarrow> returns (\<lambda>r. \<forall>x. r = Inr x \<longrightarrow> Q x) (attempt m)"
  by (auto simp: returns_def attempt_def split: prod.splits)

end
