(* ===== verification/QueueScenarios.thy ===== *)
theory QueueScenarios
  imports StackCalls
begin

text \<open>
  The queue scenarios and their ledgers: src/orchestration/queue-redelivery.ts,
  queue-lifecycle.ts, queue-overload.ts and queue-dead-letter-fencing.ts.  A scenario is the
  script of its calls on the stack; its ledger is a function of the role logs.

  The locale \<^verbatim>\<open>exact_ledger\<close> is what a drain ledger promises; it is interpreted on the redelivery
  and on the life-cycle ledger.
\<close>

subsection \<open>Exact drains\<close>

locale exact_ledger =
  fixes accepted :: "'l \<Rightarrow> bool" and size_of :: "'l \<Rightarrow> nat" and drained :: "'l \<Rightarrow> int list"
  assumes drained_once: "accepted l \<Longrightarrow> distinct (drained l)"
    and drained_all: "accepted l \<Longrightarrow> set (drained l) = {0..<int (size_of l)}"
begin

lemma drained_count: "accepted l \<Longrightarrow> Multiset.count (mset (drained l)) i = (if 0 \<le> i \<and> i < int (size_of l) then 1 else 0)"
  using drained_once [of l] drained_all [of l] by (simp add: distinct_count_atmost_1)

lemma drained_length: "accepted l \<Longrightarrow> length (drained l) = size_of l"
  using drained_once [of l] drained_all [of l] distinct_card [of "drained l"] by simp

lemma drained_permutation: "accepted l \<Longrightarrow> mset (drained l) = mset (map int [0..<size_of l])"
proof -
  assume a: "accepted l"
  have "set (drained l) = set (map int [0..<size_of l])"
    using drained_all [OF a] by (simp add: image_int_atLeastLessThan)
  moreover have "distinct (map int [0..<size_of l])" by (simp add: distinct_map)
  ultimately show ?thesis using drained_once [OF a] set_eq_iff_mset_eq_distinct by blast
qed

end

subsection \<open>Reading role logs\<close>

definition expect_one_log :: "role_logs \<Rightarrow> string result" where
  "expect_one_log logs =
     (case logs of [(_, contents)] \<Rightarrow> Inr contents | _ \<Rightarrow> Inl (Error ''Expected one log, found $'' [ANat (length logs)]))"

definition safe_integer_item :: "string \<Rightarrow> json \<Rightarrow> int result" where
  "safe_integer_item field v =
     (case v of
        JNum x \<Rightarrow> if is_safe_integer x then Inr \<lfloor>x\<rfloor> else Inl (Error ''$ contained a non-integer value'' [AStr field])
      | _ \<Rightarrow> Inl (Error ''$ contained a non-integer value'' [AStr field]))"

definition integer_array_field :: "json \<Rightarrow> string \<Rightarrow> int list result" where
  "integer_array_field r field =
     (case json_get r field of
        Some (JArr items) \<Rightarrow> traverse (safe_integer_item field) items
      | _ \<Rightarrow> Inl (Error ''$ is not an array'' [AStr field]))"

definition role_env :: "workload_shape \<Rightarrow> string \<Rightarrow> string \<Rightarrow> (string, string) js_map" where
  "role_env shape action_name action_value =
     [(''DESTROYER_SEED'', show_nat (seed shape)), (action_name, action_value)]"

definition jints :: "int list \<Rightarrow> json" where "jints xs = JArr (map jint xs)"

definition jnats :: "nat list \<Rightarrow> json" where "jnats xs = JArr (map jnat xs)"

subsection \<open>Redelivery\<close>

text \<open>\<^verbatim>\<open>[...].includes\<close> on sequences 0 to \<^verbatim>\<open>expected - 1\<close>: the first that is missing.\<close>

definition assert_queue_redelivery :: "nat \<Rightarrow> int list \<Rightarrow> int list \<Rightarrow> unit result" where
  "assert_queue_redelivery expected victim recovered =
     try_in (ensure (length (dedup recovered) = length recovered)
       (Error ''Queue recovery contained $ duplicates'' [ANat (length recovered - length (dedup recovered))])) (\<lambda>_.
     try_in (ensure (length recovered = expected)
       (Error ''Queue recovery completed $/$ messages'' [ANat (length recovered), ANat expected])) (\<lambda>_.
     try_in (for_each (\<lambda>sequence. ensure (int sequence \<in> set recovered)
       (Error ''Queue recovery lost sequence $'' [ANat sequence])) [0..<expected]) (\<lambda>_.
     for_each (\<lambda>sequence. ensure (sequence \<in> set recovered)
       (Error ''Queue reservation $ disappeared with its killed consumer'' [AInt sequence])) victim)))"

definition recovered_sequences :: "role_logs \<Rightarrow> int list result" where
  "recovered_sequences logs =
     try_in (traverse (\<lambda>(_, contents).
       try_in (required_event contents ''queue_drainer_complete'') (\<lambda>r. integer_array_field r ''sequences'')) logs)
       (\<lambda>parts. Inr (concat parts))"

definition run_queue_redelivery_scenario :: "'o stack \<Rightarrow> run_config \<Rightarrow> workload_shape \<Rightarrow> ('o, unit) action" where
  "run_queue_redelivery_scenario st config shape =
     (let replicas = nat (clientReplicas config); act = ''DESTROYER_QUEUE_REDELIVERY_ACTION'' in
     run_then (performance_now (host_of st)) (\<lambda>started_at.
     run_then (start_role_containers st ''queue-redelivery-producer'' 1 shape (role_env shape act ''produce'')) (\<lambda>producer.
     run_then (finish_role_containers st producer ''queue-redelivery-producer'') (\<lambda>producer_logs.
     run_then (of_result (try_in (expect_one_log producer_logs) (\<lambda>l.
        try_in (required_event l ''queue_redelivery_producer_complete'') (\<lambda>r. numeric_field r ''produced'')))) (\<lambda>produced.
     if produced \<noteq> entriesPerResource shape
     then fail (Error ''Queue producer acknowledged $/$'' [ANat produced, ANat (entriesPerResource shape)])
     else
     run_then (start_role_containers st ''queue-redelivery-victim'' 1 shape (role_env shape act ''victim'')) (\<lambda>victim.
     run_then (wait_for_role_event st victim ''queue_victim_reserved'') (\<lambda>_.
     run_then (kill_role_containers st victim ''queue-redelivery-victim-sigkill'') (\<lambda>victim_logs.
     run_then (of_result (try_in (expect_one_log victim_logs) (\<lambda>l.
        try_in (required_event l ''queue_victim_reserved'') (\<lambda>r. integer_array_field r ''sequences'')))) (\<lambda>victim_sequences.
     run_then (start_role_containers st ''queue-redelivery-drainer'' replicas shape (role_env shape act ''drain'')) (\<lambda>drainers.
     run_then (finish_role_containers st drainers ''queue-redelivery-drainers'') (\<lambda>drainer_logs.
     run_then (of_result (recovered_sequences drainer_logs)) (\<lambda>recovered.
     run_then (of_result (assert_queue_redelivery (entriesPerResource shape) victim_sequences recovered)) (\<lambda>_.
     run_then (artifact_write_json (host_of st) ''queue-redelivery-ledger.json'' (JObj
       [(''produced'', jnat produced), (''killedReservations'', jints victim_sequences), (''recovered'', jints recovered)])) (\<lambda>_.
     run_then (elapsed_since (host_of st) started_at) (\<lambda>ms.
     event st ''queue_redelivery_complete''
       [(''produced'', jnat produced), (''killedReservations'', jnat (length victim_sequences)),
        (''recovered'', jnat (length recovered)), (''drainers'', jint (clientReplicas config)),
        (''elapsedMs'', jint ms)])))))))))))))))"

lemma assert_queue_redelivery_ok:
  "assert_queue_redelivery n victim recovered = Inr () \<longleftrightarrow>
     distinct recovered \<and> set recovered = {0..<int n} \<and> set victim \<subseteq> set recovered"
proof -
  have "assert_queue_redelivery n victim recovered = Inr () \<longleftrightarrow>
      distinct recovered \<and> length recovered = n \<and> (\<forall>i < n. int i \<in> set recovered) \<and> set victim \<subseteq> set recovered"
    by (auto simp: assert_queue_redelivery_def result_simps length_dedup_eq)
  also have "\<dots> \<longleftrightarrow> distinct recovered \<and> set recovered = {0..<int n} \<and> set victim \<subseteq> set recovered"
  proof -
    have "distinct recovered \<Longrightarrow> length recovered = n \<Longrightarrow> \<forall>i < n. int i \<in> set recovered \<Longrightarrow> set recovered = {0..<int n}"
    proof -
      assume d: "distinct recovered" "length recovered = n" and c: "\<forall>i < n. int i \<in> set recovered"
      have "{0..<int n} \<subseteq> set recovered" using c by (auto elim!: nonneg_int_cases)
      moreover have "card {0..<int n} = card (set recovered)" using d by (simp add: distinct_card)
      ultimately show "set recovered = {0..<int n}" by (metis List.finite_set card_subset_eq)
    qed
    then show ?thesis using distinct_card [of recovered] by auto
  qed
  finally show ?thesis .
qed

subsection \<open>Life cycle\<close>

record queue_lifecycle_ledger =
  ql_operations :: nat
  ql_producerCompleted :: "nat list"
  ql_abandoned :: nat
  ql_consumers :: "(string, nat list) js_map"

text \<open>\<^verbatim>\<open>consumers[worker] = ...\<close> while walking the logs.\<close>

definition analyze_queue_lifecycle :: "role_logs \<Rightarrow> role_logs \<Rightarrow> role_logs \<Rightarrow> nat \<Rightarrow> queue_lifecycle_ledger result" where
  "analyze_queue_lifecycle producer_logs abandoner_logs consumer_logs operations =
     try_in (only_log producer_logs ''Queue lifecycle producer'') (\<lambda>pl.
     try_in (only_log abandoner_logs ''Queue lifecycle abandoner'') (\<lambda>al.
     try_in (required_event pl ''queue_lifecycle_producer_complete'') (\<lambda>producer.
     try_in (required_event al ''queue_lifecycle_abandoned'') (\<lambda>abandoner.
     try_in (fold_result (\<lambda>m (worker, contents).
         try_in (required_event contents ''queue_lifecycle_consumer_complete'') (\<lambda>r.
         try_in (numeric_array (json_get r ''sequences'') (worker @ '' sequences'')) (\<lambda>ns.
         Inr (map_set m worker ns)))) [] consumer_logs) (\<lambda>consumers.
     try_in (numeric_array (json_get producer ''completed'') ''producer completed'') (\<lambda>completed.
     try_in (numeric_value (json_get abandoner ''sequence'') ''abandoned sequence'') (\<lambda>abandoned.
     Inr \<lparr>ql_operations = operations, ql_producerCompleted = completed, ql_abandoned = abandoned,
          ql_consumers = consumers\<rparr>)))))))"

definition ledger_sequences :: "queue_lifecycle_ledger \<Rightarrow> nat list" where
  "ledger_sequences l = ql_producerCompleted l @ concat (map snd (ql_consumers l))"

definition assert_queue_lifecycle :: "queue_lifecycle_ledger \<Rightarrow> nat \<Rightarrow> unit result" where
  "assert_queue_lifecycle l replicas =
     try_in (ensure (length (ql_consumers l) = replicas)
       (Error ''Queue lifecycle consumer count $/$'' [ANat (length (ql_consumers l)), ANat replicas])) (\<lambda>_.
     try_in (case find_duplicate_from [] (ledger_sequences l) of
         Some d \<Rightarrow> Inl (Error ''Queue lifecycle sequence $ completed twice'' [ANat d]) | None \<Rightarrow> Inr ()) (\<lambda>_.
     try_in (ensure (sort (ledger_sequences l) = [0..<ql_operations l])
       (Error ''Queue lifecycle did not drain exact backlog: $'' [ASeq (sort (ledger_sequences l))])) (\<lambda>_.
     try_in (ensure (list_ex (\<lambda>(_, ns). ql_abandoned l \<in> set ns) (ql_consumers l))
       (Error ''Abandoned Queue sequence $ was not redelivered'' [ANat (ql_abandoned l)])) (\<lambda>_.
     let unfair = filter (\<lambda>(_, ns). ns = []) (ql_consumers l)
     in ensure (unfair = []) (Error ''Queue consumer fairness failed for $'' [AStrs (map fst unfair)])))))"

definition lifecycle_entries :: "queue_lifecycle_ledger \<Rightarrow> (string \<times> json) list" where
  "lifecycle_entries l =
     [(''operations'', jnat (ql_operations l)), (''producerCompleted'', jnats (ql_producerCompleted l)),
      (''abandoned'', jnat (ql_abandoned l)), (''consumers'', JObj (map (\<lambda>(w, ns). (w, jnats ns)) (ql_consumers l)))]"

definition run_queue_lifecycle_scenario :: "'o stack \<Rightarrow> run_config \<Rightarrow> workload_shape \<Rightarrow> ('o, unit) action" where
  "run_queue_lifecycle_scenario st config shape =
     (let operations = max 8 (resources shape * entriesPerResource shape);
          run_shape = shape\<lparr>entriesPerResource := operations\<rparr>;
          act = ''DESTROYER_QUEUE_LIFECYCLE_ACTION'' in
     run_then (performance_now (host_of st)) (\<lambda>started_at.
     run_then (start_role_containers st ''queue-lifecycle-producer'' 1 run_shape (role_env shape act ''produce'')) (\<lambda>producer.
     run_then (finish_role_containers st producer ''queue-lifecycle-producer'') (\<lambda>producer_logs.
     run_then (start_role_containers st ''queue-lifecycle-abandoner'' 1 run_shape (role_env shape act ''abandon'')) (\<lambda>abandoner.
     run_then (finish_role_containers st abandoner ''queue-lifecycle-abandoner'') (\<lambda>abandoner_logs.
     run_then (start_role_containers st ''queue-lifecycle-consumer'' (nat (clientReplicas config)) run_shape
         (role_env shape act ''consume'' @ [(''DESTROYER_WAIT_FOR_START_SIGNAL'', ''true'')])) (\<lambda>consumers.
     run_then (wait_for_role_event st consumers ''live_producer_ready'') (\<lambda>_.
     run_then (signal_role_containers st consumers ''SIGUSR1'') (\<lambda>_.
     run_then (finish_role_containers st consumers ''queue-lifecycle-consumer'') (\<lambda>consumer_logs.
     run_then (of_result (analyze_queue_lifecycle producer_logs abandoner_logs consumer_logs operations)) (\<lambda>ledger.
     run_then (artifact_write_json (host_of st) ''queue-lifecycle-ledger.json'' (JObj (lifecycle_entries ledger))) (\<lambda>_.
     run_then (of_result (assert_queue_lifecycle ledger (nat (clientReplicas config)))) (\<lambda>_.
     run_then (wait_for_pressure_quiescence st) (\<lambda>_.
     run_then (elapsed_since (host_of st) started_at) (\<lambda>ms.
     event st ''queue_lifecycle_complete'' (lifecycle_entries ledger @ [(''elapsedMs'', jint ms)]))))))))))))))))"

lemma assert_queue_lifecycle_ok:
  "assert_queue_lifecycle l replicas = Inr () \<longleftrightarrow>
     length (ql_consumers l) = replicas \<and> distinct (ledger_sequences l) \<and>
     set (ledger_sequences l) = {0..<ql_operations l} \<and>
     (\<exists>(_, ns) \<in> set (ql_consumers l). ql_abandoned l \<in> set ns) \<and> (\<forall>(_, ns) \<in> set (ql_consumers l). ns \<noteq> [])"
proof -
  have dup: "(case x of None \<Rightarrow> Inr () | Some d \<Rightarrow> Inl (e d)) = Inr u \<longleftrightarrow> x = None" for x :: "nat option" and e :: "nat \<Rightarrow> error" and u
    by (cases x) auto
  have "assert_queue_lifecycle l replicas = Inr () \<longleftrightarrow>
      length (ql_consumers l) = replicas \<and> distinct (ledger_sequences l) \<and>
      mset (ledger_sequences l) = mset [0..<ql_operations l] \<and>
      (\<exists>(_, ns) \<in> set (ql_consumers l). ql_abandoned l \<in> set ns) \<and> (\<forall>(_, ns) \<in> set (ql_consumers l). ns \<noteq> [])"
    by (simp add: assert_queue_lifecycle_def result_simps Let_def dup find_duplicate_None sort_eq_upt
        list_ex_iff filter_empty_conv case_prod_beta del: mset_upt)
  then show ?thesis unfolding mset_upt_iff by blast
qed

interpretation redelivery: exact_ledger "\<lambda>(n, victim, recovered). assert_queue_redelivery n victim recovered = Inr ()"
    fst "\<lambda>(n, victim, recovered). recovered"
  by unfold_locales (auto simp: assert_queue_redelivery_ok)

interpretation lifecycle: exact_ledger "\<lambda>(l, replicas). assert_queue_lifecycle l replicas = Inr ()"
    "\<lambda>(l, replicas). ql_operations l" "\<lambda>(l, replicas). map int (ledger_sequences l)"
  by unfold_locales (auto simp: assert_queue_lifecycle_ok distinct_map image_int_atLeastLessThan)

text \<open>
  C20.  The life-cycle ledger is accepted exactly when the backlog was drained exactly: every
  sequence of the backlog completed once by the producer or by one consumer, nothing else
  did, the abandoned message was completed by a consumer, and no consumer starved.
\<close>
theorem queue_lifecycle_exact:
  "assert_queue_lifecycle l replicas = Inr () \<longleftrightarrow>
     mset (ql_producerCompleted l) + (\<Sum>(_, ns) \<leftarrow> ql_consumers l. mset ns) = mset [0..<ql_operations l] \<and>
     length (ql_consumers l) = replicas \<and>
     list_ex (\<lambda>(_, ns). ql_abandoned l \<in> set ns) (ql_consumers l) \<and> list_all (\<lambda>(_, ns). ns \<noteq> []) (ql_consumers l)"
proof -
  have "mset (concat (map snd m)) = (\<Sum>(_, ns) \<leftarrow> m. mset ns)" for m :: "(string, nat list) js_map"
    by (induction m) (auto simp: case_prod_beta)
  then have "mset (ledger_sequences l) = mset (ql_producerCompleted l) + (\<Sum>(_, ns) \<leftarrow> ql_consumers l. mset ns)"
    by (simp add: ledger_sequences_def)
  then have "distinct (ledger_sequences l) \<and> set (ledger_sequences l) = {0..<ql_operations l} \<longleftrightarrow>
      mset (ql_producerCompleted l) + (\<Sum>(_, ns) \<leftarrow> ql_consumers l. mset ns) = mset [0..<ql_operations l]"
    using mset_upt_iff [of "ledger_sequences l" "ql_operations l"] by simp
  then show ?thesis
    unfolding assert_queue_lifecycle_ok list_ex_iff list_all_iff by (simp only: conj_ac) blast
qed

subsection \<open>Overload\<close>

record overload_evidence =
  qo_started :: nat
  qo_acknowledged :: "nat list"
  qo_failed :: "nat list"

text \<open>
  \<^verbatim>\<open>integerArray\<close>; the messages of the two call sites are the arguments.
\<close>

definition sequence_items :: "error \<Rightarrow> error \<Rightarrow> json option \<Rightarrow> nat list result" where
  "sequence_items not_array invalid v =
     (case v of
        Some (JArr items) \<Rightarrow>
          traverse (\<lambda>item. case item of
              JNum x \<Rightarrow> if is_safe_integer x \<and> 0 \<le> x then Inr (nat \<lfloor>x\<rfloor>) else Inl invalid
            | _ \<Rightarrow> Inl invalid) items
      | _ \<Rightarrow> Inl not_array)"

definition integer_array :: "json option \<Rightarrow> string \<Rightarrow> nat list result" where
  "integer_array v label =
     sequence_items (Error ''$ was not an array'' [AStr label]) (Error ''$ contained an invalid sequence'' [AStr label]) v"

definition producer_evidence :: "role_logs \<Rightarrow> (string, overload_evidence) js_map result" where
  "producer_evidence logs =
     traverse (\<lambda>(worker, contents).
       try_in (required_event contents ''queue_overload_producer_complete'') (\<lambda>r.
       try_in (numeric_field r ''started'') (\<lambda>n.
       try_in (integer_array (json_get r ''acknowledged'') (worker @ '' acknowledged'')) (\<lambda>acked.
       try_in (integer_array (json_get r ''failed'') (worker @ '' failed'')) (\<lambda>lost.
       Inr (worker, \<lparr>qo_started = n, qo_acknowledged = acked, qo_failed = lost\<rparr>)))))) logs"

definition drain_queue :: "'o stack \<Rightarrow> workload_shape \<Rightarrow> string list \<Rightarrow> string \<Rightarrow> ('o, (string, nat list) js_map) action" where
  "drain_queue st shape workers label =
     run_then (start_role_containers st ''queue-overload-drainer'' 1 shape
       [(''DESTROYER_QUEUE_OVERLOAD_ACTION'', ''drain''), (''DESTROYER_QUEUE_OVERLOAD_WORKERS'', join_with '','' workers)]) (\<lambda>drainer.
     run_then (finish_role_containers st drainer label) (\<lambda>logs.
     of_result
       (try_in (case map_get logs ''0'' of Some contents \<Rightarrow> Inr contents | None \<Rightarrow> Inl (Error ''$ log was missing'' [AStr label])) (\<lambda>contents.
        try_in (required_event contents ''queue_overload_drain_complete'') (\<lambda>r.
        try_in (object_field r ''observed'') (\<lambda>observed.
        traverse (\<lambda>worker.
          try_in (sequence_items (Error ''$ omitted worker $'' [AStr label, AStr worker])
              (Error ''$ contained an invalid Queue sequence'' [AStr label]) (json_get observed worker)) (\<lambda>ns.
          Inr (worker, ns))) workers))))))"

definition reconcile_worker ::
  "(string, nat list) js_map \<Rightarrow> string \<times> overload_evidence \<Rightarrow> unit result" where
  "reconcile_worker observed p =
     (case p of (worker, producer) \<Rightarrow>
       (let found = get_or [] (map_get observed worker) in
        try_in (for_each (\<lambda>n. ensure (n \<in> set found)
          (Error ''Acknowledged Queue sequence $/$ disappeared'' [AStr worker, ANat n])) (qo_acknowledged producer)) (\<lambda>_.
        for_each (\<lambda>n. ensure (n < qo_started producer)
          (Error ''Queue exposed unstarted sequence $/$'' [AStr worker, ANat n])) found)))"

definition assert_queue_overload_reconciled ::
  "(string, overload_evidence) js_map \<Rightarrow> (string, nat list) js_map \<Rightarrow> unit result" where
  "assert_queue_overload_reconciled producers observed = for_each (reconcile_worker observed) producers"

definition failed_total :: "(string, overload_evidence) js_map \<Rightarrow> nat" where
  "failed_total evidence = sum_list (map (\<lambda>(_, e). length (qo_failed e)) evidence)"

definition evidence_json :: "(string, overload_evidence) js_map \<Rightarrow> json" where
  "evidence_json evidence = JObj (map (\<lambda>(w, e). (w, JObj [(''started'', jnat (qo_started e)),
     (''acknowledged'', jnats (qo_acknowledged e)), (''failed'', jnats (qo_failed e))])) evidence)"

definition run_queue_overload_recovery_scenario :: "'o stack \<Rightarrow> run_config \<Rightarrow> workload_shape \<Rightarrow> ('o, unit) action" where
  "run_queue_overload_recovery_scenario st config shape =
     (let workers = nat (max 2 (clientReplicas config));
          operations = nat (max 64 (liveConcurrency config * 4));
          fault_shape = shape\<lparr>namespace := namespace shape @ ''-fault'', entriesPerResource := operations\<rparr>;
          worker_ids = map show_nat [0..<workers];
          probe_shape = shape\<lparr>namespace := namespace shape @ ''-probe'',
            entriesPerResource := max 8 (min 64 (entriesPerResource shape))\<rparr> in
     run_then (performance_now (host_of st)) (\<lambda>started_at.
     run_then (event st ''queue_overload_recovery_started''
       [(''workers'', jnat workers), (''operationsPerWorker'', jnat operations), (''fault'', JStr ''storage-partition'')]) (\<lambda>_.
     run_then (start_role_containers st ''queue-overload-producer'' workers fault_shape
       [(''DESTROYER_QUEUE_OVERLOAD_ACTION'', ''produce''), (''DESTROYER_REQUEST_TIMEOUT_MS'', ''1000''),
        (''DESTROYER_WAIT_FOR_START_SIGNAL'', ''true'')]) (\<lambda>producers.
     run_then (steps
       [wait_for_role_event st producers ''live_producer_ready'',
        set_fault_proxy st ''storage-proxy'' Partition,
        signal_role_containers st producers ''SIGUSR1'',
        wait_for_role_event st producers ''queue_overload_failure_observed'',
        set_fault_proxy st ''storage-proxy'' Healthy]) (\<lambda>_.
     run_then (finish_role_containers st producers ''queue-overload-fault'') (\<lambda>producer_logs.
     run_then (of_result (producer_evidence producer_logs)) (\<lambda>evidence.
     if failed_total evidence = 0
     then fail (Error ''Queue overload did not produce a bounded admission failure'' [])
     else
     run_then (drain_queue st fault_shape worker_ids ''queue-overload-fault-drain'') (\<lambda>drain.
     run_then (of_result (assert_queue_overload_reconciled evidence drain)) (\<lambda>_.
     run_then (start_role_containers st ''queue-overload-producer'' 1 probe_shape
       [(''DESTROYER_QUEUE_OVERLOAD_ACTION'', ''produce'')]) (\<lambda>probe.
     run_then (finish_role_containers st probe ''queue-overload-probe'') (\<lambda>probe_logs.
     run_then (of_result (producer_evidence probe_logs)) (\<lambda>probe_evidence.
     if map_option (\<lambda>e. length (qo_acknowledged e)) (map_get probe_evidence ''0'') \<noteq> Some (entriesPerResource probe_shape)
     then fail (Error ''Queue did not accept every post-overload probe operation'' [])
     else
     run_then (drain_queue st probe_shape [''0''] ''queue-overload-probe-drain'') (\<lambda>probe_observed.
     run_then (of_result (assert_queue_overload_reconciled probe_evidence probe_observed)) (\<lambda>_.
     run_then (artifact_write_json (host_of st) ''queue-overload-ledger.json'' (JObj
       [(''evidence'', evidence_json evidence), (''observed'', JObj (map (\<lambda>(w, ns). (w, jnats ns)) drain))])) (\<lambda>_.
     run_then (elapsed_since (host_of st) started_at) (\<lambda>ms.
     event st ''queue_overload_recovery_complete''
       [(''attempted'', jnat (workers * operations)), (''failed'', jnat (failed_total evidence)),
        (''recovered'', jnat (sum_list (map (\<lambda>(_, ns). length ns) drain))),
        (''probeCompleted'', jnat (entriesPerResource probe_shape)), (''elapsedMs'', jint ms)]))))))))))))))))"

lemma overload_reconciled_ok:
  "assert_queue_overload_reconciled producers observed = Inr () \<longleftrightarrow>
     (\<forall>(worker, e) \<in> set producers.
        set (qo_acknowledged e) \<subseteq> set (get_or [] (map_get observed worker)) \<and>
        set (get_or [] (map_get observed worker)) \<subseteq> {0..<qo_started e})"
  by (fastforce simp: assert_queue_overload_reconciled_def reconcile_worker_def result_simps Let_def)

subsection \<open>Dead letters\<close>

definition assert_queue_dead_letter_fencing :: "nat \<Rightarrow> nat \<Rightarrow> nat \<Rightarrow> nat \<Rightarrow> unit result" where
  "assert_queue_dead_letter_fencing oversized stale missing_family wrong_family =
     ensure (\<not> (oversized \<noteq> 1 \<or> stale \<noteq> 1 \<or> missing_family < 400 \<or> wrong_family < 400))
       (Error ''Queue dead-letter fencing failed: oversized=$, stale=$, missingFamily=$, wrongFamily=$''
         [ANat oversized, ANat stale, ANat missing_family, ANat wrong_family])"

definition queue_route :: "string \<Rightarrow> string" where
  "queue_route ns = ''queue://'' @ ns @ ''/fencing/dead-letter''"

text \<open>\<^verbatim>\<open>new URL(route)\<close>: the host up to the first slash, then the path.\<close>

definition dead_letter_path :: "string \<Rightarrow> string result" where
  "dead_letter_path route =
     (let rest = drop (length ''queue://'') route;
          hostname = takeWhile (\<lambda>c. c \<noteq> CHR ''/'') rest;
          parts = split_on (CHR ''/'') (drop 1 (dropWhile (\<lambda>c. c \<noteq> CHR ''/'') rest))
      in case parts of
           area # resource # _ \<Rightarrow>
             Inr (''/queue/realms/'' @ hostname @ ''/areas/'' @ area @ ''/resources/'' @ resource @ ''/dead-letters'')
         | _ \<Rightarrow> Inl (Error ''Invalid Queue route $'' [AStr route]))"

definition fetch_plain_json :: "'o stack \<Rightarrow> string \<Rightarrow> ('o, json) action" where
  "fetch_plain_json st url =
     run_then (fetch_get (host_of st) url 5000) (\<lambda>r.
       if \<not> response_ok r then fail (Error ''$ returned HTTP $'' [AStr (url_pathname url), ANat (resp_status r)])
       else case parse_json (resp_body r) of None \<Rightarrow> fail (Error ''SyntaxError'' [AStr (resp_body r)]) | Some v \<Rightarrow> ret v)"

definition mutation_status :: "'o stack \<Rightarrow> string \<Rightarrow> string \<Rightarrow> ('o, nat) action" where
  "mutation_status st url http_method =
     run_then (effect [Fetched http_method url] (host_fetch (host_of st) http_method url [] 5000)) (\<lambda>r. ret (resp_status r))"

definition run_queue_dead_letter_fencing_scenario :: "'o stack \<Rightarrow> run_config \<Rightarrow> workload_shape \<Rightarrow> ('o, unit) action" where
  "run_queue_dead_letter_fencing_scenario st config shape =
     (let base = ''http://127.0.0.1:'' @ show_int (port config) @ ''/api/v1'' in
     run_then (performance_now (host_of st)) (\<lambda>started_at.
     run_then (start_role_containers st ''queue-dead-letter-fencing'' 1 shape []) (\<lambda>workers.
     run_then (finish_role_containers st workers ''queue-dead-letter-fencing'') (\<lambda>logs.
     run_then (of_result (required_event (case logs of (_, contents) # _ \<Rightarrow> contents | [] \<Rightarrow> [])
         ''queue_dead_letter_fencing_worker_complete'')) (\<lambda>done.
     run_then (of_result (dead_letter_path (queue_route (namespace shape)))) (\<lambda>path.
     run_then (fetch_plain_json st (base @ ''/1'' @ path)) (\<lambda>listed.
     if json_get listed ''messages'' \<noteq> Some (JArr [])
     then fail (Error ''Rejected oversized Queue body created a dead letter: $'' [AJson listed])
     else
     run_then (mutation_status st (base @ path @ ''/18446744073709551615/replay'') ''POST'') (\<lambda>missing_family.
     run_then (mutation_status st (base @ ''/2'' @ path @ ''/18446744073709551615/replay'') ''POST'') (\<lambda>wrong_family.
     run_then (of_result
        (try_in (numeric_field done ''oversizedRejected'') (\<lambda>oversized.
         try_in (numeric_field done ''staleCompletionRejected'') (\<lambda>stale.
         assert_queue_dead_letter_fencing oversized stale missing_family wrong_family)))) (\<lambda>_.
     run_then (of_result
        (try_in (numeric_field done ''redelivered'') (\<lambda>redelivered.
         try_in (numeric_field done ''completed'') (\<lambda>completed. Inr (redelivered, completed))))) (\<lambda>(redelivered, completed).
     run_then (elapsed_since (host_of st) started_at) (\<lambda>ms.
     event st ''queue_dead_letter_fencing_complete''
       [(''oversizedRejected'', jnat 1), (''staleCompletionRejected'', jnat 1), (''redelivered'', jnat redelivered),
        (''completed'', jnat completed), (''deadLetters'', jnat 0), (''missingFamilyStatus'', jnat missing_family),
        (''wrongFamilyStatus'', jnat wrong_family), (''elapsedMs'', jint ms)]))))))))))))"

subsection \<open>What the scenarios report\<close>

lemma redelivery_permutation:
  "assert_queue_redelivery n victim recovered = Inr () \<Longrightarrow>
     mset recovered = mset (map int [0..<n]) \<and> list_all (\<lambda>s. s \<in> set recovered) victim"
  using redelivery.drained_permutation [of "(n, victim, recovered)"] by (auto simp: assert_queue_redelivery_ok list_all_iff)

text \<open>A redelivery ledger in the artifacts lists every produced message once.\<close>

definition exact_redelivery_report :: "workload_shape \<Rightarrow> os_call \<Rightarrow> bool" where
  "exact_redelivery_report shape c =
     (case c of
        JsonWritten name v \<Rightarrow> name = ''queue-redelivery-ledger.json'' \<longrightarrow>
          (\<exists>victim recovered. v = JObj [(''produced'', jnat (entriesPerResource shape)),
               (''killedReservations'', jints victim), (''recovered'', jints recovered)] \<and>
             mset recovered = mset (map int [0..<entriesPerResource shape]) \<and> set victim \<subseteq> set recovered)
      | _ \<Rightarrow> True)"

interpretation redelivery_calls: quiet_stack "[''queue-redelivery-ledger.json'']" "exact_redelivery_report shape" for shape
  by unfold_locales (auto simp: exact_redelivery_report_def reports_under_def STACK_REPORTS_def split: os_call.splits)

text \<open>
  Whatever the containers log, a redelivery scenario writes its ledger only after the check
  that every produced message was completed exactly once by the drainers, the messages reserved
  by the killed consumer included.
\<close>
lemma queue_redelivery_exact:
  "\<exists>cs. calls (snd (run_queue_redelivery_scenario st config shape w)) = calls w @ cs \<and>
     list_all (exact_redelivery_report shape) cs"
proof -
  have ledger: "only_calls (exact_redelivery_report shape) (artifact_write_json h ''queue-redelivery-ledger.json''
      (JObj [(''produced'', jnat (entriesPerResource shape)), (''killedReservations'', jints victim), (''recovered'', jints recovered)]))"
    if "assert_queue_redelivery (entriesPerResource shape) victim recovered = Inr u" for h :: "'a host" and victim recovered u
    using redelivery_permutation [of "entriesPerResource shape" victim recovered] that
    unfolding artifact_write_json_def
    by (intro only_calls_effect) (auto simp: exact_redelivery_report_def list_all_iff)
  have "only_calls (exact_redelivery_report shape) (run_queue_redelivery_scenario st config shape)"
    unfolding run_queue_redelivery_scenario_def Let_def
    by (intro only_calls_of_result_then calls_intros ledger redelivery_calls.calls_event) (simp_all add: ledger)
  then show ?thesis by (simp add: only_calls_def)
qed

end
