(* ===== verification/LeaseScenarios.thy ===== *)
theory LeaseScenarios
  imports QueueScenarios
begin

text \<open>
  Lease contention (src/orchestration/lease-contention.ts): the admissions in the logs of the
  contenders, their check, and the script of the scenario.
\<close>

record lease_admission =
  la_participant :: string
  la_sequence :: nat
  la_fencingToken :: int

subsection \<open>Reading admissions\<close>

text \<open>\<^verbatim>\<open>BigInt(text)\<close>: trimmed, empty is 0, a prefixed literal or signed decimal digits.\<close>

definition prefixed_integer :: "nat \<Rightarrow> string \<Rightarrow> int option" where
  "prefixed_integer base s = (if s = [] then None else map_option int (radix_digits base 0 s))"

definition decimal_integer :: "string \<Rightarrow> int option" where
  "decimal_integer s = (if s \<noteq> [] \<and> list_all is_digit s then Some (int (nat_of_digits s)) else None)"

definition big_int_of :: "string \<Rightarrow> int option" where
  "big_int_of text_value =
     (case js_trim text_value of
        [] \<Rightarrow> Some 0
      | c # t \<Rightarrow>
          if c = CHR ''0'' \<and> t \<noteq> [] \<and> hd t \<in> {CHR ''x'', CHR ''X''} then prefixed_integer 16 (tl t)
          else if c = CHR ''0'' \<and> t \<noteq> [] \<and> hd t \<in> {CHR ''o'', CHR ''O''} then prefixed_integer 8 (tl t)
          else if c = CHR ''0'' \<and> t \<noteq> [] \<and> hd t \<in> {CHR ''b'', CHR ''B''} then prefixed_integer 2 (tl t)
          else if c = CHR ''-'' then map_option uminus (decimal_integer t)
          else if c = CHR ''+'' then decimal_integer t
          else decimal_integer (c # t))"

definition admission_of :: "json \<Rightarrow> lease_admission result" where
  "admission_of r =
     (case (json_get r ''participant'', json_get r ''fencingToken'') of
        (Some (JStr p), Some (JStr token)) \<Rightarrow>
          try_in (numeric_field r ''sequence'') (\<lambda>n.
          case big_int_of token of
            None \<Rightarrow> Inl (Error ''SyntaxError'' [AStr token])
          | Some i \<Rightarrow> Inr \<lparr>la_participant = p, la_sequence = n, la_fencingToken = i\<rparr>)
      | _ \<Rightarrow> Inl (Error ''Lease admission omitted participant or fencing token'' []))"

definition lease_admissions :: "role_logs \<Rightarrow> lease_admission list result" where
  "lease_admissions logs =
     traverse admission_of (filter (has_event ''lease_entered'') (concat (map (\<lambda>(_, l). parse_json_records l) logs)))"

subsection \<open>The check\<close>

text \<open>
  The sorted sequences of a participant are compared, position by position, with 0, 1, ... up to
  \<^verbatim>\<open>expected / participants\<close>; a position beyond that list differs (it reads \<^verbatim>\<open>undefined\<close>).
\<close>

definition participant_sequences :: "lease_admission list \<Rightarrow> string \<Rightarrow> nat list" where
  "participant_sequences admissions p = sort (map la_sequence (filter (\<lambda>a. la_participant a = p) admissions))"

definition sequences_match :: "nat list \<Rightarrow> nat list \<Rightarrow> bool" where
  "sequences_match sequences expected =
     list_all (\<lambda>i. i < length expected \<and> sequences ! i = expected ! i) [0..<length sequences]"

definition assert_lease_admissions :: "lease_admission list \<Rightarrow> nat \<Rightarrow> nat \<Rightarrow> unit result" where
  "assert_lease_admissions admissions expected participants =
     (let tokens = map la_fencingToken admissions;
          names = dedup (map la_participant admissions) in
      try_in (ensure (length admissions = expected)
        (Error ''Lease admitted $/$ callbacks'' [ANat (length admissions), ANat expected])) (\<lambda>_.
      try_in (ensure (length (dedup tokens) = length tokens)
        (Error ''Lease reused a fencing token across distinct ownership admissions'' [])) (\<lambda>_.
      try_in (ensure (length names = participants)
        (Error ''Lease admitted $/$ contenders'' [ANat (length names), ANat participants])) (\<lambda>_.
      for_each (\<lambda>p.
        ensure (sequences_match (participant_sequences admissions p) [0..<expected div participants])
          (Error ''Lease contender $ did not complete every sequence exactly once'' [AStr p])) names))))"

text \<open>
  \<^verbatim>\<open>Array.from({length: expected / participants})\<close> takes the whole part of the quotient.
\<close>

definition require_lease_probe :: "string \<Rightarrow> unit result" where
  "require_lease_probe log_text =
     try_in (required_event log_text ''lease_probe_complete'') (\<lambda>r.
     if json_get r ''isHeld'' \<noteq> Some (JBool False)
     then Inl (Error ''Lease probe reported retained ownership or waiters'' [])
     else try_in (numeric_field r ''pendingWaiters'') (\<lambda>n.
       ensure (n = 0) (Error ''Lease probe reported retained ownership or waiters'' [])))"

subsection \<open>The scenario\<close>

definition admission_json :: "lease_admission \<Rightarrow> json" where
  "admission_json a = JObj [(''participant'', JStr (la_participant a)), (''sequence'', jnat (la_sequence a)),
     (''fencingToken'', JStr (show_int (la_fencingToken a)))]"

definition first_admission :: "role_logs \<Rightarrow> string \<Rightarrow> lease_admission result" where
  "first_admission logs missing =
     try_in (lease_admissions logs) (\<lambda>as1. case as1 of a # _ \<Rightarrow> Inr a | [] \<Rightarrow> Inl (Error missing []))"

definition run_lease_contention_scenario :: "'o stack \<Rightarrow> run_config \<Rightarrow> workload_shape \<Rightarrow> ('o, unit) action" where
  "run_lease_contention_scenario st config shape =
     (let replicas = nat (clientReplicas config) in
     run_then (performance_now (host_of st)) (\<lambda>started_at.
     run_then (start_role_containers st ''lease-contender'' replicas shape
       [(''DESTROYER_LEASE_ACTION'', ''contend''), (''DESTROYER_WAIT_FOR_START_SIGNAL'', ''true'')]) (\<lambda>contenders.
     run_then (steps [wait_for_role_event st contenders ''live_producer_ready'', signal_role_containers st contenders ''SIGUSR1'']) (\<lambda>_.
     run_then (finish_role_containers st contenders ''lease-contenders'') (\<lambda>contender_logs.
     run_then (of_result (lease_admissions contender_logs)) (\<lambda>admissions.
     run_then (of_result (assert_lease_admissions admissions (replicas * entriesPerResource shape) replicas)) (\<lambda>_.
     run_then (start_role_containers st ''lease-owner'' 1 shape
       [(''DESTROYER_LEASE_ACTION'', ''hold''), (''DESTROYER_LEASE_PARTICIPANT'', ''owner'')]) (\<lambda>owner.
     run_then (wait_for_role_event st owner ''lease_entered'') (\<lambda>_.
     run_then (role_logs_of st owner) (\<lambda>owner_log.
     run_then (of_result (first_admission owner_log ''Lease owner never entered its callback'')) (\<lambda>owner_admission.
     run_then (start_role_containers st ''lease-contender'' 1 shape
       [(''DESTROYER_LEASE_ACTION'', ''contend''), (''DESTROYER_LEASE_PARTICIPANT'', ''waiter''), (''DESTROYER_OPERATIONS'', ''1'')]) (\<lambda>waiter.
     run_then (wait_for_role_event st waiter ''lease_contender_ready'') (\<lambda>_.
     run_then (kill_role_containers st owner ''lease-owner-sigkill'') (\<lambda>_.
     run_then (finish_role_containers st waiter ''lease-waiter-after-owner-kill'') (\<lambda>waiter_logs.
     run_then (of_result (first_admission waiter_logs ''Lease waiter did not acquire after owner death'')) (\<lambda>waiter_admission.
     if la_fencingToken waiter_admission \<le> la_fencingToken owner_admission
     then fail (Error ''Lease fencing did not advance after owner death: $ <= $''
       [AInt (la_fencingToken waiter_admission), AInt (la_fencingToken owner_admission)])
     else
     run_then (start_role_containers st ''lease-probe'' 1 shape [(''DESTROYER_LEASE_ACTION'', ''probe'')]) (\<lambda>probe.
     run_then (finish_role_containers st probe ''lease-quiescence-probe'') (\<lambda>_.
     run_then (artifact_write_json (host_of st) ''lease-contention-admissions.json'' (JObj
       [(''contenders'', JArr (map admission_json admissions)), (''killedOwner'', admission_json owner_admission),
        (''replacementOwner'', admission_json waiter_admission)])) (\<lambda>_.
     run_then (elapsed_since (host_of st) started_at) (\<lambda>ms.
     event st ''lease_contention_complete''
       [(''contenderAdmissions'', jnat (length admissions)), (''participants'', jint (clientReplicas config)),
        (''ownerToken'', JStr (show_int (la_fencingToken owner_admission))),
        (''replacementToken'', JStr (show_int (la_fencingToken waiter_admission))),
        (''elapsedMs'', jint ms)]))))))))))))))))))))"

subsection \<open>What the check accepts\<close>

lemma sequences_match_iff: "sequences_match xs [0..<k] \<longleftrightarrow> length xs \<le> k \<and> xs = [0..<length xs]"
proof -
  have "sequences_match xs [0..<k] \<longleftrightarrow> (\<forall>i < length xs. i < k \<and> xs ! i = i)"
    by (simp add: sequences_match_def list_all_iff Ball_def cong: conj_cong)
  also have "\<dots> \<longleftrightarrow> (\<forall>i < length xs. i < k) \<and> (\<forall>i < length xs. xs ! i = i)" by blast
  also have "(\<forall>i < length xs. i < k) \<longleftrightarrow> length xs \<le> k"
    by (cases "length xs \<le> k") (auto simp: not_le)
  also have "(\<forall>i < length xs. xs ! i = i) \<longleftrightarrow> xs = [0..<length xs]"
    by (subst list_eq_iff_nth_eq) simp
  finally show ?thesis .
qed

lemma sum_indicator:
  "distinct ps \<Longrightarrow> (\<Sum>p \<leftarrow> ps. if q = p then 1 else 0 :: nat) = (if q \<in> set ps then 1 else 0)"
  by (induction ps) auto

lemma group_lengths:
  "distinct ps \<Longrightarrow> (\<forall>a \<in> set xs. f a \<in> set ps) \<Longrightarrow> (\<Sum>p \<leftarrow> ps. length (filter (\<lambda>a. f a = p) xs)) = length xs"
proof (induction xs)
  case (Cons a xs)
  have "(\<Sum>p \<leftarrow> ps. if f a = p then 1 else 0 :: nat) = 1"
    using Cons.prems by (simp add: sum_indicator)
  moreover have "(\<Sum>p \<leftarrow> ps. length (filter (\<lambda>b. f b = p) (a # xs))) =
      (\<Sum>p \<leftarrow> ps. if f a = p then 1 else 0) + (\<Sum>p \<leftarrow> ps. length (filter (\<lambda>b. f b = p) xs))"
    by (simp add: sum_list_addf [symmetric]) (rule arg_cong [where f = sum_list], simp)
  ultimately show ?case using Cons by simp
qed simp

lemma all_reach_bound:
  fixes xs :: "nat list"
  assumes "\<forall>x \<in> set xs. x \<le> k" "sum_list xs = length xs * k" shows "\<forall>x \<in> set xs. x = k"
proof -
  have le: "sum_list ys \<le> length ys * k" if "\<forall>x \<in> set ys. x \<le> k" for ys :: "nat list"
    using that by (induction ys) (auto intro: add_mono)
  show ?thesis
    using assms
  proof (induction xs)
    case (Cons x xs)
    have "sum_list xs \<le> length xs * k" using le Cons.prems(1) by simp
    with Cons.prems have "x = k" "sum_list xs = length xs * k" by auto
    with Cons show ?case by simp
  qed simp
qed

text \<open>
  The admissions of \<^verbatim>\<open>participants\<close> contenders with \<^verbatim>\<open>k\<close> operations each are accepted exactly
  when no fencing token was used twice and each of the contenders entered its callback
  once for every sequence 0 to \<^verbatim>\<open>k - 1\<close> and for nothing else.  The code compares only a
  prefix, but the total number of admissions leaves no contender with fewer.
\<close>
lemma lease_admissions_exact:
  assumes "0 < participants"
  shows "assert_lease_admissions admissions (participants * k) participants = Inr () \<longleftrightarrow>
     length admissions = participants * k \<and> distinct (map la_fencingToken admissions) \<and>
     card (la_participant ` set admissions) = participants \<and>
     list_all (\<lambda>a. mset (map la_sequence (filter (\<lambda>b. la_participant b = la_participant a) admissions)) = mset [0..<k]) admissions"
proof -
  let ?ps = "dedup (map la_participant admissions)"
  let ?n = "\<lambda>p. length (filter (\<lambda>a. la_participant a = p) admissions)"
  have total_count: "(\<Sum>p \<leftarrow> ?ps. ?n p) = length admissions" by (rule group_lengths) auto
  have len: "length (participant_sequences admissions p) = ?n p" for p by (simp add: participant_sequences_def)
  have accepted: "assert_lease_admissions admissions (participants * k) participants = Inr () \<longleftrightarrow>
      length admissions = participants * k \<and> distinct (map la_fencingToken admissions) \<and> length ?ps = participants \<and>
      (\<forall>p \<in> set ?ps. ?n p \<le> k \<and> participant_sequences admissions p = [0..<?n p])"
    using assms by (simp add: assert_lease_admissions_def result_simps Let_def length_dedup_eq sequences_match_iff len)
  have full: "?n p = k" if "length admissions = participants * k" "length ?ps = participants"
      "\<forall>p \<in> set ?ps. ?n p \<le> k" "p \<in> set ?ps" for p
  proof -
    have "\<forall>x \<in> set (map ?n ?ps). x = k"
      using that(1-3) total_count by (intro all_reach_bound) (simp_all del: set_dedup)
    with that(4) show ?thesis by (simp del: set_dedup)
  qed
  have exact: "participant_sequences admissions p = [0..<k] \<longleftrightarrow>
      mset (map la_sequence (filter (\<lambda>a. la_participant a = p) admissions)) = mset [0..<k]" for p
    unfolding participant_sequences_def by (rule sort_eq_upt)
  have "(\<forall>p \<in> set ?ps. ?n p \<le> k \<and> participant_sequences admissions p = [0..<?n p]) \<longleftrightarrow>
      (\<forall>p \<in> set ?ps. participant_sequences admissions p = [0..<k])"
    if "length admissions = participants * k" "length ?ps = participants"
    using full [OF that] len by (metis length_upt minus_nat.diff_0 order_refl)
  then show ?thesis
    unfolding accepted exact by (auto simp: list_all_iff length_dedup simp del: mset_upt)
qed

lemma lease_admissions_exact_witness:
  "assert_lease_admissions
     [\<lparr>la_participant = ''a'', la_sequence = 1, la_fencingToken = 9\<rparr>, \<lparr>la_participant = ''a'', la_sequence = 0, la_fencingToken = 7\<rparr>] (1 * 2) 1
   = Inr ()"
  by (subst lease_admissions_exact) (simp_all add: numeral_2_eq_2)

end
