(* ===== verification/DurabilityScenarios.thy ===== *)
theory DurabilityScenarios
  imports StackCalls QueueScenarios
begin

text \<open>
  The durability scenarios: crash cuts (src/orchestration/durability-crash-cuts.ts) and storage
  faults (src/orchestration/storage-faults.ts), with the ledger both check at the end.
\<close>

subsection \<open>The durability ledger\<close>

record durable_entry =
  de_started :: "nat list"
  de_acknowledged :: "nat list"
  de_failed :: "nat list"
  de_observed :: "nat list"

type_synonym domain_ledger = "(domain, durable_entry) js_map"

definition empty_entry :: durable_entry where
  "empty_entry = \<lparr>de_started = [], de_acknowledged = [], de_failed = [], de_observed = []\<rparr>"

definition empty_ledger :: domain_ledger where
  "empty_ledger = [(Queue, empty_entry), (Kv, empty_entry), (Stream, empty_entry), (Schedule, empty_entry)]"

definition durable_domain :: "json option \<Rightarrow> domain option" where
  "durable_domain v =
     (case v of Some (JStr s) \<Rightarrow> find (\<lambda>d. domain_name d = s) DURABLE_DOMAINS | _ \<Rightarrow> None)"

definition update_entry :: "domain_ledger \<Rightarrow> domain \<Rightarrow> (durable_entry \<Rightarrow> durable_entry) \<Rightarrow> domain_ledger" where
  "update_entry l d f = map (\<lambda>(d', e). if d' = d then (d', f e) else (d', e)) l"

definition record_operation :: "json \<Rightarrow> nat \<Rightarrow> durable_entry \<Rightarrow> durable_entry" where
  "record_operation r n e =
     (if has_event ''durability_operation_started'' r then e\<lparr>de_started := de_started e @ [n]\<rparr>
      else if has_event ''durability_operation_acknowledged'' r then e\<lparr>de_acknowledged := de_acknowledged e @ [n]\<rparr>
      else if has_event ''durability_operation_failed'' r then e\<lparr>de_failed := de_failed e @ [n]\<rparr>
      else e)"

definition collect_operation :: "domain_ledger \<Rightarrow> json \<Rightarrow> domain_ledger result" where
  "collect_operation l r =
     (case durable_domain (json_get r ''domain'') of
        None \<Rightarrow> Inr l
      | Some d \<Rightarrow>
          try_in (numeric_value (json_get r ''sequence'') ''durability sequence'') (\<lambda>n.
          Inr (update_entry l d (record_operation r n))))"

definition sort_unique :: "nat list \<Rightarrow> nat list" where
  "sort_unique xs = sort (dedup xs)"

definition verify_domain :: "json \<Rightarrow> domain_ledger \<Rightarrow> domain \<Rightarrow> domain_ledger result" where
  "verify_domain observed l d =
     (case json_get observed (domain_name d) of
        Some (JArr items) \<Rightarrow>
          try_in (traverse (\<lambda>v. numeric_value (Some v) (domain_name d @ '' observed'')) items) (\<lambda>ns.
          case find_duplicate_from [] ns of
            Some n \<Rightarrow> Inl (Error ''$ observed sequence $ more than once after restart'' [AStr (domain_name d), ANat n])
          | None \<Rightarrow>
              Inr (update_entry l d (\<lambda>e. \<lparr>de_started = sort_unique (de_started e), de_acknowledged = sort_unique (de_acknowledged e),
                de_failed = sort_unique (de_failed e), de_observed = sort_unique ns\<rparr>)))
      | _ \<Rightarrow> Inl (Error ''Durability verifier omitted $'' [AStr (domain_name d)]))"

definition analyze_durability_ledger :: "role_logs \<Rightarrow> role_logs \<Rightarrow> role_logs \<Rightarrow> domain_ledger result" where
  "analyze_durability_ledger baseline_logs cut_logs verify_logs =
     try_in (fold_result collect_operation empty_ledger
       (concat (map (\<lambda>(_, l). parse_json_records l) (baseline_logs @ cut_logs)))) (\<lambda>l.
     try_in (case verify_logs of [(_, contents)] \<Rightarrow> Inr contents
         | _ \<Rightarrow> Inl (Error ''Expected one durability verifier log, found $'' [ANat (length verify_logs)])) (\<lambda>contents.
     try_in (required_event contents ''durability_verify_complete'') (\<lambda>r.
     try_in (object_field r ''observed'') (\<lambda>observed.
     fold_result (verify_domain observed) l DURABLE_DOMAINS))))"

definition check_domain :: "domain_ledger \<Rightarrow> nat \<Rightarrow> domain \<Rightarrow> unit result" where
  "check_domain l iteration_count d =
     (let e = get_or empty_entry (map_get l d); name = domain_name d in
      try_in (for_each (\<lambda>n. ensure (n \<in> set (de_started e))
        (Error ''$ did not start durability sequence $'' [AStr name, ANat n])) [0..<iteration_count + 1]) (\<lambda>_.
      try_in (ensure (0 \<in> set (de_acknowledged e)) (Error ''$ baseline was not acknowledged'' [AStr name])) (\<lambda>_.
      try_in (for_each (\<lambda>n. ensure (n \<in> set (de_observed e))
        (Error ''$ acknowledged sequence $ disappeared after restart'' [AStr name, ANat n])) (de_acknowledged e)) (\<lambda>_.
      for_each (\<lambda>n. ensure (n \<in> set (de_started e))
        (Error ''$ exposed unstarted sequence $'' [AStr name, ANat n])) (de_observed e)))))"

definition assert_durability_ledger :: "domain_ledger \<Rightarrow> nat \<Rightarrow> unit result" where
  "assert_durability_ledger l iteration_count = for_each (check_domain l iteration_count) DURABLE_DOMAINS"

datatype cut_outcome = AcknowledgedCut | FailedCut | AmbiguousCut

text \<open>
  The outcome of one sequence per domain: an acknowledgement wins over a failure.
\<close>

definition outcome_step :: "nat \<Rightarrow> (domain, cut_outcome) js_map \<Rightarrow> json \<Rightarrow> (domain, cut_outcome) js_map" where
  "outcome_step sequence result r =
     (case durable_domain (json_get r ''domain'') of
        None \<Rightarrow> result
      | Some d \<Rightarrow>
          if json_get r ''sequence'' \<noteq> Some (jnat sequence) then result
          else if has_event ''durability_operation_acknowledged'' r then map_set result d AcknowledgedCut
          else if has_event ''durability_operation_failed'' r \<and> map_get result d \<noteq> Some AcknowledgedCut
          then map_set result d FailedCut else result)"

definition ambiguous_outcomes :: "(domain, cut_outcome) js_map" where
  "ambiguous_outcomes = map (\<lambda>d. (d, AmbiguousCut)) DURABLE_DOMAINS"

definition cut_outcomes :: "role_logs \<Rightarrow> nat \<Rightarrow> (domain, cut_outcome) js_map" where
  "cut_outcomes logs sequence =
     foldl (outcome_step sequence) ambiguous_outcomes (concat (map (\<lambda>(_, l). parse_json_records l) logs))"

fun outcome_name :: "cut_outcome \<Rightarrow> string" where
  "outcome_name AcknowledgedCut = ''acknowledged''"
| "outcome_name FailedCut = ''failed''"
| "outcome_name AmbiguousCut = ''ambiguous''"

definition outcomes_json :: "(domain, cut_outcome) js_map \<Rightarrow> json" where
  "outcomes_json m = JObj (map (\<lambda>(d, c). (domain_name d, JStr (outcome_name c))) m)"

definition ledger_json :: "domain_ledger \<Rightarrow> json" where
  "ledger_json l = JObj (map (\<lambda>(d, e). (domain_name d, JObj
     [(''started'', jnats (de_started e)), (''acknowledged'', jnats (de_acknowledged e)),
      (''failed'', jnats (de_failed e)), (''observed'', jnats (de_observed e))])) l)"

subsection \<open>Crash cuts\<close>

datatype crash_cut =
    RequestDispatch | BlockedProviderAccess | ProviderRecovery | BrokerKill | Acknowledgement | RestartWithStorageInflight

definition CRASH_CUT_IDENTITIES :: "crash_cut list" where
  "CRASH_CUT_IDENTITIES =
     [RequestDispatch, BlockedProviderAccess, ProviderRecovery, BrokerKill, Acknowledgement, RestartWithStorageInflight]"

fun cut_name :: "crash_cut \<Rightarrow> string" where
  "cut_name RequestDispatch = ''request-dispatch''"
| "cut_name BlockedProviderAccess = ''blocked-provider-access''"
| "cut_name ProviderRecovery = ''provider-recovery''"
| "cut_name BrokerKill = ''broker-kill''"
| "cut_name Acknowledgement = ''acknowledgement''"
| "cut_name RestartWithStorageInflight = ''restart-with-storage-inflight''"

record crash_cut_iteration =
  ci_iteration :: nat
  ci_sequence :: nat
  ci_seed :: nat
  ci_cut :: crash_cut

definition crash_cut_plan :: "nat \<Rightarrow> nat \<Rightarrow> crash_cut_iteration list" where
  "crash_cut_plan iteration_count sd =
     map (\<lambda>index. \<lparr>ci_iteration = index + 1, ci_sequence = index + 1, ci_seed = sd,
       ci_cut = CRASH_CUT_IDENTITIES ! ((sd + index) mod length CRASH_CUT_IDENTITIES)\<rparr>) [0..<iteration_count]"

definition iteration_entries :: "crash_cut_iteration \<Rightarrow> (string \<times> json) list" where
  "iteration_entries i = [(''iteration'', jnat (ci_iteration i)), (''sequence'', jnat (ci_sequence i)),
     (''seed'', jnat (ci_seed i)), (''cut'', JStr (cut_name (ci_cut i)))]"

definition cut_environment :: "(string, string) js_map \<Rightarrow> string \<Rightarrow> nat \<Rightarrow> (string, string) js_map" where
  "cut_environment env act sequence =
     env @ [(''DESTROYER_DURABILITY_ACTION'', act), (''DESTROYER_DURABILITY_SEQUENCE'', show_nat sequence)]"

text \<open>
  One iteration; the local variable \<^verbatim>\<open>sqrzlPaused\<close> is read by the \<^verbatim>\<open>finally\<close> clause.
\<close>

definition pauses_sqrzl :: "crash_cut \<Rightarrow> bool" where
  "pauses_sqrzl c = (c = BlockedProviderAccess \<or> c = ProviderRecovery \<or> c = RestartWithStorageInflight)"

definition unpause_and_clear :: "'o stack \<Rightarrow> ('o world \<times> bool, unit) script" where
  "unpause_and_clear st = run_then (outer (unpause_sqrzl st)) (\<lambda>_. set_local False)"

definition crash_cut_body ::
  "'o stack \<Rightarrow> workload_shape \<Rightarrow> (string, string) js_map \<Rightarrow> crash_cut_iteration \<Rightarrow> string \<Rightarrow> ('o world \<times> bool, role_logs) script" where
  "crash_cut_body st shape env i run_label =
     run_then (outer (start_role_containers st ''durability-writer'' 1 shape
       (cut_environment env ''cut'' (ci_sequence i) @ [(''DESTROYER_WAIT_FOR_START_SIGNAL'', ''true'')]))) (\<lambda>cut.
     run_then (outer (wait_for_role_event st cut ''live_producer_ready'')) (\<lambda>_.
     run_then (outer (signal_role_containers st cut ''SIGUSR1'')) (\<lambda>_.
     run_then (when_do (ci_cut i \<noteq> RequestDispatch) (outer (wait_for_role_event st cut ''durability_operations_dispatched''))) (\<lambda>_.
     run_then
       (if ci_cut i = ProviderRecovery
        then run_then (unpause_and_clear st) (\<lambda>_. outer (sleep (host_of st) 25))
        else if ci_cut i = Acknowledgement
        then outer (wait_for_role_event st cut ''durability_operation_acknowledged'')
        else if ci_cut i = BrokerKill then outer (sleep (host_of st) 10) else ret ()) (\<lambda>_.
     run_then (outer (kill_fitz st)) (\<lambda>_.
     run_then (get_local) (\<lambda>paused.
     run_then (when_do paused (unpause_and_clear st)) (\<lambda>_.
     run_then (outer (restart_fitz st)) (\<lambda>_.
     outer (finish_role_containers st cut
       (run_label @ ''-iteration-'' @ pad (ci_iteration i) 3 @ ''-'' @ cut_name (ci_cut i))))))))))))"

definition run_crash_cut_iteration ::
  "'o stack \<Rightarrow> workload_shape \<Rightarrow> (string, string) js_map \<Rightarrow> crash_cut_iteration \<Rightarrow> string \<Rightarrow> ('o, role_logs) action" where
  "run_crash_cut_iteration st shape env i run_label =
     with_local False
       (try_finally
         (run_then (when_do (pauses_sqrzl (ci_cut i))
             (run_then (outer (pause_sqrzl st)) (\<lambda>_. set_local True))) (\<lambda>_.
          crash_cut_body st shape env i run_label))
         (run_then get_local (\<lambda>paused. when_do paused (ignore_failure (outer (unpause_sqrzl st))))))"

text \<open>The loop over the plan: the cut logs are keyed by iteration and worker.\<close>

definition merge_cut_logs :: "nat \<Rightarrow> role_logs \<Rightarrow> role_logs \<Rightarrow> role_logs" where
  "merge_cut_logs n cut_logs logs = foldl (\<lambda>m (worker, l). map_set m (show_nat n @ ''-'' @ worker) l) cut_logs logs"

fun run_crash_cut_plan ::
  "'o stack \<Rightarrow> workload_shape \<Rightarrow> (string, string) js_map \<Rightarrow> string \<Rightarrow> crash_cut_iteration list \<Rightarrow> role_logs \<Rightarrow>
   json list \<Rightarrow> ('o, role_logs \<times> json list) action" where
  "run_crash_cut_plan st shape env run_label [] cut_logs evidence = ret (cut_logs, evidence)"
| "run_crash_cut_plan st shape env run_label (i # is1) cut_logs evidence =
     run_then (performance_now (host_of st)) (\<lambda>started_at.
     run_then (run_crash_cut_iteration st shape env i run_label) (\<lambda>logs.
     let outcomes = [(''outcomes'', outcomes_json (cut_outcomes logs (ci_sequence i)))] in
     run_then (elapsed_since (host_of st) started_at) (\<lambda>ms.
     run_then (event st ''durability_crash_cut_iteration_complete'' (iteration_entries i @ outcomes @ [(''elapsedMs'', jint ms)])) (\<lambda>_.
     run_crash_cut_plan st shape env run_label is1 (merge_cut_logs (ci_iteration i) cut_logs logs)
       (evidence @ [JObj (iteration_entries i @ outcomes)])))))"

definition durability_environment :: "run_config \<Rightarrow> workload_shape \<Rightarrow> (string, string) js_map" where
  "durability_environment config shape =
     [(''DESTROYER_SEED'', show_nat (seed shape)), (''DESTROYER_DURABILITY_ITERATIONS'', show_int (iterations config))]"

definition run_durability_crash_cuts_scenario :: "'o stack \<Rightarrow> run_config \<Rightarrow> workload_shape \<Rightarrow> ('o, unit) action" where
  "run_durability_crash_cuts_scenario st config shape =
     (let label = ''durability-crash-cuts''; env = durability_environment config shape;
          plan = crash_cut_plan (nat (iterations config)) (seed shape) in
     run_then (performance_now (host_of st)) (\<lambda>started_at.
     run_then (event st ''durability_crash_cuts_started''
       [(''domains'', jstrs (map domain_name DURABLE_DOMAINS)), (''iterations'', jint (iterations config)),
        (''cuts'', JArr (map (\<lambda>i. JObj (iteration_entries i)) plan))]) (\<lambda>_.
     run_then (start_role_containers st ''durability-writer'' 1 shape (cut_environment env ''baseline'' 0)) (\<lambda>baseline.
     run_then (finish_role_containers st baseline (label @ ''-baseline'')) (\<lambda>baseline_logs.
     run_then (run_crash_cut_plan st shape env label plan [] []) (\<lambda>(cut_logs, evidence).
     run_then (start_role_containers st ''durability-verifier'' 1 shape
       (env @ [(''DESTROYER_DURABILITY_SEQUENCE'', ''0'')])) (\<lambda>verifier.
     run_then (finish_role_containers st verifier (label @ ''-verify'')) (\<lambda>verify_logs.
     run_then (of_result (analyze_durability_ledger baseline_logs cut_logs verify_logs)) (\<lambda>ledger.
     run_then (artifact_write_json (host_of st) (label @ ''-ledger.json'')
       (JObj [(''seed'', jnat (seed shape)), (''iterations'', JArr evidence), (''domains'', ledger_json ledger)])) (\<lambda>_.
     run_then (of_result (assert_durability_ledger ledger (nat (iterations config)))) (\<lambda>_.
     run_then (elapsed_since (host_of st) started_at) (\<lambda>ms.
     event st ''durability_crash_cuts_complete''
       [(''seed'', jnat (seed shape)), (''iterations'', JArr evidence), (''domains'', ledger_json ledger),
        (''elapsedMs'', jint ms)]))))))))))))"

subsection \<open>Storage faults\<close>

datatype storage_fault = BoundedLatency | ConnectionReset | ProviderPartition | ProviderRecoveryFault | FitzCrashInflight

definition STORAGE_FAULT_IDENTITIES :: "storage_fault list" where
  "STORAGE_FAULT_IDENTITIES = [BoundedLatency, ConnectionReset, ProviderPartition, ProviderRecoveryFault, FitzCrashInflight]"

fun storage_fault_name :: "storage_fault \<Rightarrow> string" where
  "storage_fault_name BoundedLatency = ''bounded-latency''"
| "storage_fault_name ConnectionReset = ''connection-reset''"
| "storage_fault_name ProviderPartition = ''provider-partition''"
| "storage_fault_name ProviderRecoveryFault = ''provider-recovery''"
| "storage_fault_name FitzCrashInflight = ''fitz-crash-inflight''"

datatype failure_layer = NoLayer | AdmissionLayer | RoutingLayer | PersistenceLayer | RecoveryLayer

fun layer_name :: "failure_layer \<Rightarrow> string" where
  "layer_name NoLayer = ''none''"
| "layer_name AdmissionLayer = ''admission''"
| "layer_name RoutingLayer = ''routing''"
| "layer_name PersistenceLayer = ''persistence''"
| "layer_name RecoveryLayer = ''recovery''"

record storage_fault_iteration =
  si_iteration :: nat
  si_sequence :: nat
  si_seed :: nat
  si_fault :: storage_fault

definition storage_fault_plan :: "nat \<Rightarrow> nat \<Rightarrow> storage_fault_iteration list" where
  "storage_fault_plan iteration_count sd =
     map (\<lambda>index. \<lparr>si_iteration = index + 1, si_sequence = index + 1, si_seed = sd,
       si_fault = STORAGE_FAULT_IDENTITIES ! (index mod length STORAGE_FAULT_IDENTITIES)\<rparr>) [0..<iteration_count]"

definition classify_storage_failure :: "string \<Rightarrow> failure_layer" where
  "classify_storage_failure error_text =
     (if has_word_start [''recover'', ''hydrate'', ''replay'', ''restore''] (lower error_text) then RecoveryLayer
      else if has_word_start [''storage'', ''provider'', ''persist'', ''durab'', ''cloud'', ''s3'', ''sqrzl'', ''object'']
        (lower error_text) then PersistenceLayer
      else (let normalized = normalize_error_class (ErrorObject ''Error'' error_text)
            in if normalized = Connection \<or> normalized = Timeout \<or> normalized = Protocol then RoutingLayer else AdmissionLayer))"

definition run_storage_fault_iteration ::
  "'o stack \<Rightarrow> workload_shape \<Rightarrow> (string, string) js_map \<Rightarrow> storage_fault_iteration \<Rightarrow> ('o, role_logs) action" where
  "run_storage_fault_iteration st shape env i =
     (let fault = si_fault i;
          proxy = set_fault_proxy st ''storage-proxy'';
          wait_for_gate = (fault \<noteq> BoundedLatency \<and> fault \<noteq> ProviderRecoveryFault) in
     run_then (proxy Healthy) (\<lambda>_.
     run_then (when_do (fault = BoundedLatency) (proxy (Latency 250))) (\<lambda>_.
     run_then (start_role_containers st ''durability-writer'' 1 shape
       (cut_environment env ''cut'' (si_sequence i) @ (if wait_for_gate then [(''DESTROYER_WAIT_FOR_START_SIGNAL'', ''true'')] else []))) (\<lambda>writer.
     run_then (when_do wait_for_gate (steps
       [wait_for_role_event st writer ''live_producer_ready'',
        if fault = ConnectionReset then proxy Reset
        else when_do (fault = ProviderPartition \<or> fault = FitzCrashInflight) (proxy Partition),
        signal_role_containers st writer ''SIGUSR1'',
        wait_for_role_event st writer ''durability_operations_dispatched''])) (\<lambda>_.
     run_then
       (if fault = ConnectionReset then steps [sleep (host_of st) 250, proxy Healthy]
        else if fault = ProviderPartition then steps [sleep (host_of st) 5000, proxy Healthy]
        else if fault = FitzCrashInflight then steps [kill_fitz st, proxy Healthy, restart_fitz st]
        else ret ()) (\<lambda>_.
     run_then (finish_role_containers st writer
       (''storage-fault-'' @ pad (si_iteration i) 3 @ ''-'' @ storage_fault_name fault)) (\<lambda>logs.
     run_then (proxy Healthy) (\<lambda>_.
     run_then (wait_ready st) (\<lambda>_.
     ret logs)))))))))"

text \<open>
  At most twenty error texts are kept, of failures that no acknowledgement preceded.
\<close>

definition evidence_step ::
  "nat \<Rightarrow> (domain, cut_outcome) js_map \<times> string list \<Rightarrow> json \<Rightarrow> (domain, cut_outcome) js_map \<times> string list" where
  "evidence_step sequence state r =
     (case state of (outcomes, samples) \<Rightarrow>
       if json_get r ''sequence'' \<noteq> Some (jnat sequence) then (outcomes, samples)
       else (case durable_domain (json_get r ''domain'') of
           None \<Rightarrow> (outcomes, samples)
         | Some d \<Rightarrow>
             if has_event ''durability_operation_acknowledged'' r then (map_set outcomes d AcknowledgedCut, samples)
             else if has_event ''durability_operation_failed'' r \<and> map_get outcomes d \<noteq> Some AcknowledgedCut
             then (map_set outcomes d FailedCut,
                   case json_get r ''error'' of
                     Some (JStr e) \<Rightarrow> if length samples < 20 then samples @ [e] else samples
                   | _ \<Rightarrow> samples)
             else (outcomes, samples)))"

record storage_evidence =
  se_outcomes :: "(domain, cut_outcome) js_map"
  se_layers :: "failure_layer list"
  se_samples :: "string list"

definition storage_operation_evidence :: "role_logs \<Rightarrow> nat \<Rightarrow> storage_evidence" where
  "storage_operation_evidence logs sequence =
     (case foldl (evidence_step sequence) (ambiguous_outcomes, []) (concat (map (\<lambda>(_, l). parse_json_records l) logs)) of
        (outcomes, samples) \<Rightarrow>
          \<lparr>se_outcomes = outcomes, se_layers = dedup (map classify_storage_failure samples), se_samples = samples\<rparr>)"

definition storage_iteration_entries :: "storage_fault_iteration \<Rightarrow> (string \<times> json) list" where
  "storage_iteration_entries i = [(''iteration'', jnat (si_iteration i)), (''sequence'', jnat (si_sequence i)),
     (''seed'', jnat (si_seed i)), (''fault'', JStr (storage_fault_name (si_fault i)))]"

definition storage_evidence_entries :: "storage_evidence \<Rightarrow> failure_layer list \<Rightarrow> (string \<times> json) list" where
  "storage_evidence_entries e layers =
     [(''outcomes'', outcomes_json (se_outcomes e)), (''failureLayers'', jstrs (map layer_name layers)),
      (''errorSamples'', jstrs (se_samples e))]"

fun run_storage_plan ::
  "'o stack \<Rightarrow> workload_shape \<Rightarrow> (string, string) js_map \<Rightarrow> storage_fault_iteration list \<Rightarrow> role_logs \<Rightarrow>
   (storage_fault_iteration \<times> storage_evidence) list \<Rightarrow>
   ('o, role_logs \<times> (storage_fault_iteration \<times> storage_evidence) list) action" where
  "run_storage_plan st shape env [] cut_logs evidence = ret (cut_logs, evidence)"
| "run_storage_plan st shape env (i # is1) cut_logs evidence =
     run_then (performance_now (host_of st)) (\<lambda>started_at.
     run_then (run_storage_fault_iteration st shape env i) (\<lambda>logs.
     let e = storage_operation_evidence logs (si_sequence i) in
     run_then (elapsed_since (host_of st) started_at) (\<lambda>ms.
     run_then (event st ''storage_fault_iteration_complete''
       (storage_iteration_entries i @ storage_evidence_entries e (se_layers e) @ [(''elapsedMs'', jint ms)])) (\<lambda>_.
     run_storage_plan st shape env is1 (merge_cut_logs (si_iteration i) cut_logs logs) (evidence @ [(i, e)])))))"

definition storage_ledger_entries ::
  "nat \<Rightarrow> (storage_fault_iteration \<times> storage_evidence) list \<Rightarrow> bool \<Rightarrow> domain_ledger \<Rightarrow> (string \<times> json) list" where
  "storage_ledger_entries sd evidence recovering l =
     [(''seed'', jnat sd),
      (''iterations'', JArr (map (\<lambda>(i, e). JObj (storage_iteration_entries i @ storage_evidence_entries e
         (if recovering then dedup (se_layers e @ [RecoveryLayer]) else se_layers e))) evidence)),
      (''domains'', ledger_json l)]"

text \<open>\<^verbatim>\<open>errorMessage\<close> of the caught error is kept as the template and its values.\<close>

definition error_json :: "error \<Rightarrow> json" where
  "error_json e = (case e of Error t _ \<Rightarrow> JStr (''Error: '' @ t))"

definition run_storage_faults_scenario :: "'o stack \<Rightarrow> run_config \<Rightarrow> workload_shape \<Rightarrow> ('o, unit) action" where
  "run_storage_faults_scenario st config shape =
     (let plan = storage_fault_plan (nat (iterations config)) (seed shape); env = durability_environment config shape in
     run_then (performance_now (host_of st)) (\<lambda>started_at.
     run_then (event st ''storage_faults_started'' [(''plan'', JArr (map (\<lambda>i. JObj (storage_iteration_entries i)) plan))]) (\<lambda>_.
     run_then (set_fault_proxy st ''storage-proxy'' Healthy) (\<lambda>_.
     run_then (start_role_containers st ''durability-writer'' 1 shape (cut_environment env ''baseline'' 0)) (\<lambda>baseline.
     run_then (finish_role_containers st baseline ''storage-faults-baseline'') (\<lambda>baseline_logs.
     run_then (run_storage_plan st shape env plan [] []) (\<lambda>(cut_logs, evidence).
     run_then (set_fault_proxy st ''storage-proxy'' Healthy) (\<lambda>_.
     run_then (wait_ready st) (\<lambda>_.
     run_then (start_role_containers st ''durability-verifier'' 1 shape
       (env @ [(''DESTROYER_DURABILITY_SEQUENCE'', ''0'')])) (\<lambda>verifier.
     run_then
       (try_catch (finish_role_containers st verifier ''storage-faults-verify'') (\<lambda>e.
          run_then (role_logs_of st verifier) (\<lambda>partial_logs.
          run_then (artifact_write_json (host_of st) ''storage-fault-ledger.json''
            (JObj (storage_ledger_entries (seed shape) evidence True empty_ledger @
              [(''recoveryError'', error_json e),
               (''verifierLogs'', JObj (map (\<lambda>(w, l). (w, JStr l)) partial_logs))]))) (\<lambda>_.
          fail e)))) (\<lambda>verify_logs.
     run_then (of_result (analyze_durability_ledger baseline_logs cut_logs verify_logs)) (\<lambda>ledger.
     run_then (artifact_write_json (host_of st) ''storage-fault-ledger.json''
       (JObj (storage_ledger_entries (seed shape) evidence False ledger))) (\<lambda>_.
     run_then (of_result (assert_durability_ledger ledger (nat (iterations config)))) (\<lambda>_.
     run_then (elapsed_since (host_of st) started_at) (\<lambda>ms.
     event st ''storage_faults_complete''
       [(''iterations'', jnat (length evidence)), (''domains'', ledger_json ledger), (''elapsedMs'', jint ms)])))))))))))))))"

subsection \<open>The ledger\<close>

definition sound_ledger :: "domain_ledger \<Rightarrow> nat \<Rightarrow> bool" where
  "sound_ledger l n =
     list_all (\<lambda>d. let e = get_or empty_entry (map_get l d) in
       set [0..<n + 1] \<subseteq> set (de_started e) \<and> 0 \<in> set (de_acknowledged e) \<and>
       set (de_acknowledged e) \<subseteq> set (de_observed e) \<and> set (de_observed e) \<subseteq> set (de_started e)) DURABLE_DOMAINS"

lemma assert_durability_ledger_ok: "assert_durability_ledger l n = Inr () \<longleftrightarrow> sound_ledger l n"
  unfolding assert_durability_ledger_def sound_ledger_def check_domain_def Let_def list_all_iff
  by (simp add: result_simps subset_iff Ball_def del: set_upt)

lemma crash_cut_plan_covers:
  "set (map ci_cut (take 6 (drop i (crash_cut_plan (i + 6 + m) sd)))) = set CRASH_CUT_IDENTITIES"
proof -
  have "take 6 (drop i [0..<i + 6 + m]) = [i..<i + 6]" by (simp add: take_upt drop_upt)
  then have cuts: "map ci_cut (take 6 (drop i (crash_cut_plan (i + 6 + m) sd))) =
      map (\<lambda>index. CRASH_CUT_IDENTITIES ! ((sd + index) mod 6)) [i..<i + 6]"
    by (simp add: crash_cut_plan_def CRASH_CUT_IDENTITIES_def take_map drop_map)
  have residues: "(\<lambda>index. (sd + index) mod 6) ` {i..<i + 6} = {0..<6}"
  proof -
    have "inj_on (\<lambda>index. (sd + index) mod 6) {i..<i + 6}"
    proof (rule inj_onI)
      have le: "a = b" if "a \<in> {i..<i + 6}" "b \<in> {i..<i + 6}" "(sd + b) mod 6 = (sd + a) mod 6" "a \<le> b" for a b
      proof -
        have "6 dvd (sd + b) - (sd + a)" using that(3,4) by (subst mod_eq_dvd_iff_nat [symmetric]) simp_all
        then have "6 dvd b - a" by simp
        moreover have "b - a < 6" using that(1,2) by auto
        ultimately have "b - a = 0" by (meson dvd_imp_le not_le neq0_conv)
        with that(4) show ?thesis by simp
      qed
      fix a b assume "a \<in> {i..<i + 6}" "b \<in> {i..<i + 6}" "(sd + a) mod 6 = (sd + b) mod 6"
      then show "a = b" using le [of a b] le [of b a] by (cases "a \<le> b") simp_all
    qed
    then have "card ((\<lambda>index. (sd + index) mod 6) ` {i..<i + 6}) = card {0..<6::nat}" by (simp add: card_image)
    then show ?thesis by (intro card_subset_eq) auto
  qed
  have "set (map ci_cut (take 6 (drop i (crash_cut_plan (i + 6 + m) sd)))) =
      (!) CRASH_CUT_IDENTITIES ` ((\<lambda>index. (sd + index) mod 6) ` {i..<i + 6})"
    by (simp only: cuts set_map set_upt image_image)
  also have "(\<lambda>index. (sd + index) mod 6) ` {i..<i + 6} = set [0..<6]" using residues by simp
  also have "(!) CRASH_CUT_IDENTITIES ` set [0..<6] = set (map ((!) CRASH_CUT_IDENTITIES) [0..<6])" by (simp only: set_map)
  also have "\<dots> = set CRASH_CUT_IDENTITIES" by (simp add: CRASH_CUT_IDENTITIES_def upt_rec)
  finally show ?thesis .
qed

subsection \<open>Completion\<close>

text \<open>
  A completion event carries a ledger in which, for every durable domain, every sequence
  was started, the baseline was acknowledged, and acknowledged, observed and started sequences
  are included in this order.
\<close>

definition sound_completion :: "string \<Rightarrow> nat \<Rightarrow> os_call \<Rightarrow> bool" where
  "sound_completion name n c =
     (case c of
        EventAppended nm es \<Rightarrow> nm = name \<longrightarrow> (\<exists>l. map_get es ''domains'' = Some (ledger_json l) \<and> sound_ledger l n)
      | _ \<Rightarrow> True)"

interpretation crash_calls: quiet_stack "[''durability_crash_cuts_complete'']" "sound_completion ''durability_crash_cuts_complete'' n" for n
  by unfold_locales (auto simp: sound_completion_def reports_under_def STACK_REPORTS_def split: os_call.splits)

interpretation storage_calls: quiet_stack "[''storage_faults_complete'']" "sound_completion ''storage_faults_complete'' n" for n
  by unfold_locales (auto simp: sound_completion_def reports_under_def STACK_REPORTS_def split: os_call.splits)

lemma calls_completion:
  "sound_ledger l n \<Longrightarrow> only_calls (sound_completion ''durability_crash_cuts_complete'' n)
     (event st ''durability_crash_cuts_complete'' [(''seed'', a), (''iterations'', b), (''domains'', ledger_json l), (''elapsedMs'', ms)])"
  "sound_ledger l n \<Longrightarrow> only_calls (sound_completion ''storage_faults_complete'' n)
     (event st ''storage_faults_complete'' [(''iterations'', b), (''domains'', ledger_json l), (''elapsedMs'', ms)])"
  unfolding event_def artifact_event_def
  by (intro calls_intros only_calls_effect; auto simp: sound_completion_def)+

lemma crash_iteration_calls [calls_intros]:
  "only_calls (sound_completion ''durability_crash_cuts_complete'' n) (run_crash_cut_iteration st shape env i label)"
  unfolding run_crash_cut_iteration_def crash_cut_body_def unpause_and_clear_def
  by (rule keeps_only_calls, rule keeps_with_local, intro keeps_intros keeps_locals)
    (fastforce intro!: only_calls_keeps calls_intros)+

lemma crash_plan_calls [calls_intros]:
  "only_calls (sound_completion ''durability_crash_cuts_complete'' n) (run_crash_cut_plan st shape env label plan cut_logs evidence)"
  by (induction plan arbitrary: cut_logs evidence)
    (auto simp: Let_def intro!: calls_intros crash_calls.calls_event)

lemma storage_iteration_calls [calls_intros]:
  "only_calls (sound_completion ''storage_faults_complete'' n) (run_storage_fault_iteration st shape env i)"
  unfolding run_storage_fault_iteration_def Let_def by (intro calls_intros)

lemma storage_plan_calls [calls_intros]:
  "only_calls (sound_completion ''storage_faults_complete'' n) (run_storage_plan st shape env plan cut_logs evidence)"
  by (induction plan arbitrary: cut_logs evidence)
    (auto simp: Let_def intro!: calls_intros storage_calls.calls_event)

text \<open>
  C21.  Crash cuts and storage faults report completion only with a sound ledger: nothing that the
  broker acknowledged is missing after the restarts, and nothing is observed that was not
  started.
\<close>
theorem durability_completion_sound:
  "(\<exists>cs. calls (snd (run_durability_crash_cuts_scenario st config shape w)) = calls w @ cs \<and>
      list_all (sound_completion ''durability_crash_cuts_complete'' (nat (iterations config))) cs) \<and>
   (\<exists>cs. calls (snd (run_storage_faults_scenario st config shape w)) = calls w @ cs \<and>
      list_all (sound_completion ''storage_faults_complete'' (nat (iterations config))) cs)"
proof
  have "only_calls (sound_completion ''durability_crash_cuts_complete'' (nat (iterations config)))
      (run_durability_crash_cuts_scenario st config shape)"
    unfolding run_durability_crash_cuts_scenario_def Let_def
    by (intro only_calls_of_result_then calls_intros calls_completion)
      (simp_all add: assert_durability_ledger_ok crash_calls.calls_event crash_calls.calls_json)
  then show "\<exists>cs. calls (snd (run_durability_crash_cuts_scenario st config shape w)) = calls w @ cs \<and>
      list_all (sound_completion ''durability_crash_cuts_complete'' (nat (iterations config))) cs"
    by (simp add: only_calls_def)
  have "only_calls (sound_completion ''storage_faults_complete'' (nat (iterations config)))
      (run_storage_faults_scenario st config shape)"
    unfolding run_storage_faults_scenario_def Let_def
    by (intro only_calls_of_result_then calls_intros calls_completion)
      (simp_all add: assert_durability_ledger_ok storage_calls.calls_event storage_calls.calls_json)
  then show "\<exists>cs. calls (snd (run_storage_faults_scenario st config shape w)) = calls w @ cs \<and>
      list_all (sound_completion ''storage_faults_complete'' (nat (iterations config))) cs"
    by (simp add: only_calls_def)
qed

subsection \<open>The provider is unpaused\<close>

definition is_unpause :: "'o stack \<Rightarrow> os_call \<Rightarrow> bool" where
  "is_unpause st c =
     (case c of Spawned e args _ \<Rightarrow> e = ''docker'' \<and> args = compose_args st [''unpause'', ''sqrzl''] | _ \<Rightarrow> False)"

text \<open>Since the pause: either the local variable still says paused or the unpause was issued.\<close>

definition pause_tracked :: "'o stack \<Rightarrow> os_call list \<Rightarrow> 'o world \<Rightarrow> bool \<Rightarrow> bool" where
  "pause_tracked st cs0 w paused = (\<exists>cs. calls w = cs0 @ cs \<and> (paused \<or> list_ex (is_unpause st) cs))"

lemma only_calls_extends: "only_calls P m \<Longrightarrow> m w = (r, w') \<Longrightarrow> \<exists>cs. calls w' = calls w @ cs"
  unfolding only_calls_def by (metis snd_conv)

lemma unpause_issues: "\<exists>cs. calls (snd (unpause_sqrzl st w)) = calls w @ cs \<and> list_ex (is_unpause st) cs"
proof -
  obtain r w1 where m: "compose_try st [''unpause'', ''sqrzl''] w = (r, w1)" by (cases "compose_try st [''unpause'', ''sqrzl''] w")
  obtain env where w1: "calls w1 = calls w @ [Spawned ''docker'' (compose_args st [''unpause'', ''sqrzl'']) env]"
    using m by (auto simp: compose_try_def compose_with_def run_command_def run_then_def get_state_def effect_def Let_def
        fail_def ret_def split: prod.splits sum.splits if_splits)
  have "only_calls (\<lambda>_. True) (steps [event st ''sqrzl_unpaused'' []])"
    by (intro calls_intros any_calls.calls_event) simp
  then obtain cs where "calls (snd (steps [event st ''sqrzl_unpaused'' []] w1)) = calls w1 @ cs"
    unfolding only_calls_def by blast
  then show ?thesis
    using m w1 by (cases r) (auto simp: unpause_sqrzl_def unpause_service_def run_then_def is_unpause_def)
qed

lemma tracked_outer:
  assumes "only_calls (\<lambda>_. True) m"
  shows "keeps (\<lambda>p. pause_tracked st cs0 (fst p) (snd p)) (outer m)"
proof (rule keeps_outer)
  fix v
  show "keeps (\<lambda>w. pause_tracked st cs0 w v) m"
    unfolding keeps_def
  proof (intro allI impI)
    fix w assume "pause_tracked st cs0 w v"
    then obtain cs where cs: "calls w = cs0 @ cs" "v \<or> list_ex (is_unpause st) cs" by (auto simp: pause_tracked_def)
    obtain ds where "calls (snd (m w)) = calls w @ ds" using assms by (auto simp: only_calls_def dest: spec [of _ w])
    with cs show "pause_tracked st cs0 (snd (m w)) v" by (auto simp: pause_tracked_def)
  qed
qed

lemma tracked_unpause:
  "keeps (\<lambda>p. pause_tracked st cs0 (fst p) (snd p)) (unpause_and_clear st)"
  unfolding keeps_def
proof (intro allI impI)
  fix p assume "pause_tracked st cs0 (fst p) (snd p)"
  then obtain cs where cs: "calls (fst p) = cs0 @ cs" by (auto simp: pause_tracked_def)
  obtain ds where ds: "calls (snd (unpause_sqrzl st (fst p))) = calls (fst p) @ ds" "list_ex (is_unpause st) ds"
    using unpause_issues by blast
  show "pause_tracked st cs0 (fst (snd (unpause_and_clear st p))) (snd (snd (unpause_and_clear st p)))"
    using cs ds
    by (cases p; cases "unpause_sqrzl st (fst p)")
      (auto simp: unpause_and_clear_def run_then_def outer_def set_local_def modify_def pause_tracked_def split: sum.split)
qed

lemma tracked_body:
  "keeps (\<lambda>p. pause_tracked st cs0 (fst p) (snd p)) (crash_cut_body st shape env i label)"
  unfolding crash_cut_body_def
  by (intro keeps_intros tracked_unpause keeps_get_local tracked_outer calls_intros)

text \<open>
  C22.  Once an iteration of the crash cuts has paused the storage provider, it issues the
  unpause before it ends, whichever call of the iteration fails.
\<close>
theorem crash_cut_unpauses_provider:
  assumes "pauses_sqrzl (ci_cut i)" "pause_sqrzl st w = (Inr (), w1)"
  shows "\<exists>cs. calls (snd (run_crash_cut_iteration st shape env i label w)) = calls w1 @ cs \<and> list_ex (is_unpause st) cs"
proof -
  obtain r w2 paused where body: "crash_cut_body st shape env i label (w1, True) = (r, w2, paused)"
    by (metis prod.exhaust)
  have "pause_tracked st (calls w1) (fst (w1, True)) (snd (w1, True))" by (simp add: pause_tracked_def)
  from keepsD [OF tracked_body body this] obtain cs where
    cs: "calls w2 = calls w1 @ cs" "paused \<or> list_ex (is_unpause st) cs" by (auto simp: pause_tracked_def)
  obtain ds where ds: "calls (snd (unpause_sqrzl st w2)) = calls w2 @ ds" "list_ex (is_unpause st) ds"
    using unpause_issues by blast
  have "calls (snd (run_crash_cut_iteration st shape env i label w)) =
      (if paused then calls (snd (unpause_sqrzl st w2)) else calls w2)"
    using assms body
    by (cases "unpause_sqrzl st w2")
      (simp add: run_crash_cut_iteration_def with_local_def try_finally_def run_then_def when_do_def outer_def set_local_def
        modify_def get_local_def get_state_def ignore_failure_def ret_def)
  then show ?thesis using cs ds by auto
qed

lemma sample_pause:
  "pause_sqrzl (sample_stack sample_config) (new_world (sample_stack sample_config) ''ns'' 7) =
     (Inr (), snd (pause_sqrzl (sample_stack sample_config) (new_world (sample_stack sample_config) ''ns'' 7)))"
  by (simp add: pause_sqrzl_def pause_service_def compose_def compose_with_def run_then_def ret_def get_state_def effect_def
      run_command_def event_def artifact_event_def read_clock_def sample_stack_def sample_host_def Let_def)

lemma crash_cut_unpauses_provider_witness:
  "\<exists>cs. calls (snd (run_crash_cut_iteration (sample_stack sample_config)
        \<lparr>namespace = ''ns'', seed = 1, resources = 1, entriesPerResource = 1, payloadBytes = 1\<rparr> []
        \<lparr>ci_iteration = 1, ci_sequence = 1, ci_seed = 1, ci_cut = ProviderRecovery\<rparr> ''x''
        (new_world (sample_stack sample_config) ''ns'' 7))) =
      calls (snd (pause_sqrzl (sample_stack sample_config) (new_world (sample_stack sample_config) ''ns'' 7))) @ cs \<and>
    list_ex (is_unpause (sample_stack sample_config)) cs"
  by (rule crash_cut_unpauses_provider) (simp add: pauses_sqrzl_def, rule sample_pause)

end
