(* ===== verification/ScheduleScenarios.thy ===== *)
theory ScheduleScenarios
  imports DurabilityScenarios
begin

text \<open>
  The schedule scenarios: delivery across a restart (src/orchestration/schedule-delivery.ts) and
  missed occurrences (src/orchestration/schedule-outage.ts).  Times are whole milliseconds.
\<close>

subsection \<open>Delivery evidence\<close>

record delivery_summary =
  ds_broadcast :: nat
  ds_single :: nat
  ds_cancelled :: nat
  ds_duplicates :: nat
  ds_invalid :: nat
  ds_maxLateness :: nat

record delivery_evidence =
  ev_replicas :: nat
  ev_fires :: nat
  ev_observed :: delivery_summary
  ev_subscriberBroadcast :: "(string, nat) js_map"
  ev_clientEvents :: "(string, nat) js_map"
  ev_saturations :: "(string, nat) js_map"
  ev_missingBroadcast :: "nat list"
  ev_missingSingle :: "nat list"
  ev_duplicateSingle :: "nat list"

text \<open>
  The local variables of \<^verbatim>\<open>analyzeScheduleDeliveryLogs\<close>.  The set of workers of a sequence is the
  list of its elements in insertion order.
\<close>

record delivery_state =
  st_workers :: "(nat, string list) js_map"
  st_singles :: "(nat, nat) js_map"
  st_subscriberBroadcast :: "(string, nat) js_map"
  st_clientEvents :: "(string, nat) js_map"
  st_saturations :: "(string, nat) js_map"
  st_summary :: delivery_summary

definition empty_delivery :: delivery_state where
  "empty_delivery = \<lparr>st_workers = [], st_singles = [], st_subscriberBroadcast = [], st_clientEvents = [],
     st_saturations = [], st_summary = \<lparr>ds_broadcast = 0, ds_single = 0, ds_cancelled = 0, ds_duplicates = 0,
       ds_invalid = 0, ds_maxLateness = 0\<rparr>\<rparr>"

text \<open>
  \<^verbatim>\<open>String(record.clientEvent)\<close>; the workers log a string, other values share one key here.
\<close>

definition client_event_name :: "json \<Rightarrow> string" where
  "client_event_name r = (case json_get r ''clientEvent'' of Some (JStr s) \<Rightarrow> s | _ \<Rightarrow> ''undefined'')"

definition add_worker :: "(nat, string list) js_map \<Rightarrow> nat \<Rightarrow> string \<Rightarrow> (nat, string list) js_map" where
  "add_worker m n worker =
     (let ws = get_or [] (map_get m n) in map_set m n (if worker \<in> set ws then ws else ws @ [worker]))"

definition delivery_record :: "nat \<Rightarrow> string \<Rightarrow> delivery_state \<Rightarrow> json \<Rightarrow> delivery_state result" where
  "delivery_record fires worker s r =
     (if has_event ''fitz_client_event'' r then
        (let name = client_event_name r; s' = s\<lparr>st_clientEvents := map_bump (st_clientEvents s) name 1\<rparr>
         in Inr (if name = ''fitz.connection.handler_saturated''
              then s'\<lparr>st_saturations := map_bump (st_saturations s) worker 1\<rparr> else s'))
      else if \<not> has_event ''schedule_notification_received'' r then Inr s
      else try_in (numeric_value (json_get r ''sequence'') ''schedule notification sequence'') (\<lambda>n.
        if fires \<le> n then Inl (Error ''Schedule notification sequence $ exceeds $'' [ANat n, AInt (int fires - 1)])
        else if json_get r ''kind'' = Some (JStr ''broadcast'')
        then Inr (s\<lparr>st_workers := add_worker (st_workers s) n worker\<rparr>)
        else if json_get r ''kind'' = Some (JStr ''single'')
        then Inr (s\<lparr>st_singles := map_bump (st_singles s) n 1\<rparr>)
        else if json_get r ''kind'' = Some (JStr ''cancelled'') then Inr s
        else Inl (Error ''Schedule notification has invalid kind $'' [AJson (get_or JNull (json_get r ''kind''))])))"

definition add_completion :: "string \<Rightarrow> delivery_state \<Rightarrow> json \<Rightarrow> delivery_state result" where
  "add_completion worker s complete_r =
     try_in (numeric_field complete_r ''broadcast'') (\<lambda>b.
     try_in (numeric_field complete_r ''single'') (\<lambda>n.
     try_in (numeric_field complete_r ''cancelled'') (\<lambda>c.
     try_in (numeric_field complete_r ''duplicates'') (\<lambda>d.
     try_in (numeric_field complete_r ''invalid'') (\<lambda>i.
     try_in (numeric_field complete_r ''maxLatenessMs'') (\<lambda>l.
     let t = st_summary s in
     Inr (s\<lparr>st_summary := \<lparr>ds_broadcast = ds_broadcast t + b, ds_single = ds_single t + n, ds_cancelled = ds_cancelled t + c,
              ds_duplicates = ds_duplicates t + d, ds_invalid = ds_invalid t + i, ds_maxLateness = max (ds_maxLateness t) l\<rparr>,
            st_subscriberBroadcast := map_set (st_subscriberBroadcast s) worker b\<rparr>)))))))"

definition delivery_log :: "nat \<Rightarrow> delivery_state \<Rightarrow> string \<times> string \<Rightarrow> delivery_state result" where
  "delivery_log fires s p =
     (case p of (worker, contents) \<Rightarrow>
       try_in (required_event contents ''schedule_subscriber_complete'') (\<lambda>r.
       try_in (add_completion worker s r) (\<lambda>s'.
       fold_result (delivery_record fires worker) s' (parse_json_records contents))))"

definition sequence_violations :: "nat \<Rightarrow> (nat \<Rightarrow> bool) \<Rightarrow> nat list" where
  "sequence_violations n ok = filter (\<lambda>i. \<not> ok i) [0..<n]"

definition analyze_schedule_delivery_logs :: "role_logs \<Rightarrow> nat \<Rightarrow> nat \<Rightarrow> delivery_evidence result" where
  "analyze_schedule_delivery_logs logs fires replicas =
     (if length logs \<noteq> replicas
      then Inl (Error ''Schedule subscriber logs cover $/$ replicas'' [ANat (length logs), ANat replicas])
      else try_in (fold_result (delivery_log fires) empty_delivery logs) (\<lambda>s.
        Inr \<lparr>ev_replicas = replicas, ev_fires = fires, ev_observed = st_summary s,
             ev_subscriberBroadcast = st_subscriberBroadcast s, ev_clientEvents = st_clientEvents s,
             ev_saturations = st_saturations s,
             ev_missingBroadcast = sequence_violations fires
               (\<lambda>n. map_option length (map_get (st_workers s) n) = Some replicas),
             ev_missingSingle = sequence_violations fires (\<lambda>n. 0 < get_or 0 (map_get (st_singles s) n)),
             ev_duplicateSingle = sequence_violations fires (\<lambda>n. get_or 0 (map_get (st_singles s) n) \<le> 1)\<rparr>))"

text \<open>The samples of the evidence file hold the first twenty violations, the counts all.\<close>

definition subscriber_deficits :: "delivery_evidence \<Rightarrow> (string \<times> nat) list" where
  "subscriber_deficits e = filter (\<lambda>(_, n). n \<noteq> ev_fires e) (ev_subscriberBroadcast e)"

definition delivery_accepted :: "delivery_evidence \<Rightarrow> bool" where
  "delivery_accepted e =
     (ds_broadcast (ev_observed e) = ev_fires e * ev_replicas e \<and> ds_single (ev_observed e) = ev_fires e \<and>
      ds_cancelled (ev_observed e) = 0 \<and> ds_duplicates (ev_observed e) = 0 \<and> ds_invalid (ev_observed e) = 0 \<and>
      ev_missingBroadcast e = [] \<and> ev_missingSingle e = [] \<and> ev_duplicateSingle e = [] \<and>
      ev_saturations e = [] \<and> subscriber_deficits e = [])"

definition format_violations :: "nat list \<Rightarrow> string" where
  "format_violations vs =
     (if vs = [] then ''0''
      else show_nat (length vs) @ '' ['' @ join_with '','' (map show_nat (take 20 vs)) @
        (if 20 < length vs then '',...'' else []) @ '']'')"

definition format_counts :: "(string, nat) js_map \<Rightarrow> string" where
  "format_counts counts =
     (if counts = [] then ''none''
      else show_nat (sum_list (map snd counts)) @ '' ['' @
        join_with '','' (map (\<lambda>(k, n). k @ '':'' @ show_nat n) counts) @ '']'')"

definition assert_schedule_delivery :: "delivery_evidence \<Rightarrow> unit result" where
  "assert_schedule_delivery e =
     (let o1 = ev_observed e;
          deficits = map (\<lambda>(w, n). w @ '':'' @ show_nat n @ ''/'' @ show_nat (ev_fires e)) (subscriber_deficits e)
      in ensure (delivery_accepted e)
        (Error ''Schedule delivery failed; Broadcast=$/$; Single=$/$; cancelled=$/$; duplicates=$; invalid=$; subscriber Broadcast=$; client handler saturation=$; missing Broadcast=$; missing Single=$; duplicate Single=$''
          [ANat (ds_broadcast o1), ANat (ev_fires e * ev_replicas e), ANat (ds_single o1), ANat (ev_fires e),
           ANat (ds_cancelled o1), ANat 0, ANat (ds_duplicates o1), ANat (ds_invalid o1),
           AStr (if deficits = [] then ''none'' else join_with '','' deficits), AStr (format_counts (ev_saturations e)),
           AStr (format_violations (ev_missingBroadcast e)), AStr (format_violations (ev_missingSingle e)),
           AStr (format_violations (ev_duplicateSingle e))]))"

definition summarize_schedule_delivery_logs :: "role_logs \<Rightarrow> nat \<Rightarrow> nat \<Rightarrow> delivery_summary result" where
  "summarize_schedule_delivery_logs logs fires replicas =
     try_in (analyze_schedule_delivery_logs logs fires replicas) (\<lambda>e.
     try_in (assert_schedule_delivery e) (\<lambda>_. Inr (ev_observed e)))"

definition assert_producer_complete :: "role_logs \<Rightarrow> bool \<Rightarrow> nat \<Rightarrow> unit result" where
  "assert_producer_complete logs creating fires =
     (let act = (if creating then ''create'' else ''cancel'');
          expected_created = (if creating then fires * 3 else 0);
          expected_cancelled = (if creating then fires else fires * 2);
          expected_listed = (if creating then fires * 2 else 0) in
      try_in (case logs of [(_, contents)] \<Rightarrow> Inr contents
          | _ \<Rightarrow> Inl (Error ''Expected one Schedule $ producer log, found $'' [AStr act, ANat (length logs)])) (\<lambda>contents.
      try_in (required_event contents ''schedule_producer_complete'') (\<lambda>r.
      try_in (numeric_field r ''created'') (\<lambda>created.
      try_in (numeric_field r ''cancelled'') (\<lambda>cancelled.
      try_in (numeric_field r ''listed'') (\<lambda>listed.
      ensure (json_get r ''action'' = Some (JStr act) \<and> created = expected_created \<and> cancelled = expected_cancelled \<and>
          listed = expected_listed)
        (Error ''Schedule $ producer counts do not match: created=$/$, cancelled=$/$, listed=$/$''
          [AStr act, ANat created, ANat expected_created, ANat cancelled, ANat expected_cancelled,
           ANat listed, ANat expected_listed])))))))"

subsection \<open>The delivery scenario\<close>

definition next_whole_minute :: "rat \<Rightarrow> rat" where
  "next_whole_minute t = fl (of_int \<lceil>fl (t / 60000)\<rceil> * 60000)"

definition safe_product :: "nat \<Rightarrow> nat \<Rightarrow> string \<Rightarrow> nat result" where
  "safe_product a b label =
     (if int (a * b) \<le> max_safe_integer then Inr (a * b) else Inl (Error ''$ exceeds safe integer range'' [AStr label]))"

definition wait_for_schedule_counts :: "'o stack \<Rightarrow> int \<Rightarrow> nat \<Rightarrow> nat \<Rightarrow> string \<Rightarrow> ('o, unit) action" where
  "wait_for_schedule_counts st timeout_ms schedules subscriptions label =
     run_then (deadline_in st timeout_ms) (\<lambda>deadline.
     poll_until st deadline 100
       (\<lambda>_. run_then (live_domain_snapshot st LiveSchedule) (\<lambda>s.
          let found = (map_get (sn_domain s) ''schedules_active'', map_get (sn_domain s) ''subscriptions_active'')
          in ret (if found = (Some (jnat schedules), Some (jnat subscriptions)) then Inr () else Inl found)))
       (\<lambda>(a, b). fail (Error ''Timed out waiting for Schedule $: schedules=$/$, subscriptions=$/$''
          [AStr label, AJson (get_or (JStr ''undefined'') a), ANat schedules,
           AJson (get_or (JStr ''undefined'') b), ANat subscriptions]))
       (Some (JStr ''unknown''), Some (JStr ''unknown'')))"

definition assert_restart_margin :: "'o stack \<Rightarrow> rat \<Rightarrow> string \<Rightarrow> ('o, unit) action" where
  "assert_restart_margin st fire_at phase_name =
     run_then (date_now (host_of st)) (\<lambda>t.
       let remaining = fl (fire_at - t)
       in if remaining < 10000
          then fail (Error ''Schedule due minute is only $ms away $; increase --schedule-lead-ms'' [ARat remaining, AStr phase_name])
          else ret ())"

definition sleep_until :: "'o stack \<Rightarrow> rat \<Rightarrow> ('o, unit) action" where
  "sleep_until st t =
     run_then (date_now (host_of st)) (\<lambda>now_ms.
       let remaining = fl (t - now_ms) in when_do (0 < remaining) (sleep (host_of st) \<lfloor>remaining\<rfloor>))"

definition stop_subscribers :: "'o stack \<Rightarrow> role_container list \<Rightarrow> string \<Rightarrow> ('o, unit) action" where
  "stop_subscribers st subscribers label =
     steps [ignore_failure (signal_role_containers st subscribers ''SIGTERM''),
            ignore_failure (finish_role_containers st subscribers label)]"

definition schedule_environment :: "rat \<Rightarrow> workload_shape \<Rightarrow> (string, string) js_map" where
  "schedule_environment fire_at shape =
     [(''DESTROYER_SCHEDULE_FIRE_AT_MS'', show_int \<lfloor>fire_at\<rfloor>), (''DESTROYER_SEED'', show_nat (seed shape))]"

definition violation_sample :: "nat list \<Rightarrow> json" where
  "violation_sample vs = jnats (take 20 vs)"

definition summary_entries :: "delivery_summary \<Rightarrow> (string \<times> json) list" where
  "summary_entries t =
     [(''broadcastDeliveries'', jnat (ds_broadcast t)), (''singleDeliveries'', jnat (ds_single t)),
      (''cancelledDeliveries'', jnat (ds_cancelled t)), (''duplicates'', jnat (ds_duplicates t)),
      (''invalid'', jnat (ds_invalid t)), (''maxLatenessMs'', jnat (ds_maxLateness t))]"

definition counts_json :: "(string, nat) js_map \<Rightarrow> json" where
  "counts_json m = JObj (map (\<lambda>(k, n). (k, jnat n)) m)"

definition delivery_evidence_json :: "delivery_evidence \<Rightarrow> json" where
  "delivery_evidence_json e = JObj
     [(''expected'', JObj [(''replicas'', jnat (ev_replicas e)), (''firesPerMode'', jnat (ev_fires e)),
         (''broadcastDeliveries'', jnat (ev_fires e * ev_replicas e)), (''singleDeliveries'', jnat (ev_fires e)),
         (''cancelledDeliveries'', jnat 0)]),
      (''observed'', JObj (summary_entries (ev_observed e))),
      (''subscriberBroadcastDeliveries'', counts_json (ev_subscriberBroadcast e)),
      (''clientEventCounts'', counts_json (ev_clientEvents e)), (''clientHandlerSaturations'', counts_json (ev_saturations e)),
      (''missingBroadcastCount'', jnat (length (ev_missingBroadcast e))),
      (''missingBroadcastSequences'', violation_sample (ev_missingBroadcast e)),
      (''missingSingleCount'', jnat (length (ev_missingSingle e))), (''missingSingleSequences'', violation_sample (ev_missingSingle e)),
      (''duplicateSingleCount'', jnat (length (ev_duplicateSingle e))),
      (''duplicateSingleSequences'', violation_sample (ev_duplicateSingle e))]"

text \<open>
  The body of the \<^verbatim>\<open>try\<close>: the local variable is \<^verbatim>\<open>subscribersFinished\<close>.
\<close>

definition schedule_delivery_body ::
  "'o stack \<Rightarrow> run_config \<Rightarrow> workload_shape \<Rightarrow> rat \<Rightarrow> rat \<Rightarrow> nat \<Rightarrow> nat \<Rightarrow> nat \<Rightarrow> nat \<Rightarrow> role_container list \<Rightarrow>
   ('o world \<times> bool, unit) script" where
  "schedule_delivery_body st config shape started_at fire_at active expected_broadcast base_schedules base_subscriptions subscribers =
     (let replicas = nat (clientReplicas config); fires = entriesPerResource shape; label = ''schedule-delivery'';
          env = schedule_environment fire_at shape; timeout_ms = startupTimeoutMs config in
     run_then (outer (wait_for_role_event st subscribers ''schedule_subscriber_ready'')) (\<lambda>_.
     run_then (outer (wait_for_schedule_counts st timeout_ms base_schedules (base_subscriptions + replicas)
       ''subscriber registration'')) (\<lambda>_.
     run_then (outer (start_role_containers st ''schedule-producer'' 1 shape (env @ [(''DESTROYER_SCHEDULE_ACTION'', ''create'')]))) (\<lambda>producers.
     run_then (outer (finish_role_containers st producers (label @ ''-producer-create''))) (\<lambda>producer_logs.
     run_then (of_result (assert_producer_complete producer_logs True fires)) (\<lambda>_.
     run_then (outer (steps
       [wait_for_schedule_counts st timeout_ms (base_schedules + active) (base_subscriptions + replicas) ''definition creation'',
        assert_restart_margin st fire_at ''before Fitz restart'',
        graceful_restart_fitz st,
        wait_for_schedule_counts st timeout_ms (base_schedules + active) (base_subscriptions + replicas)
          ''post-restart recovery and re-subscription'',
        assert_restart_margin st fire_at ''after Fitz restart''])) (\<lambda>_.
     run_then (outer (live_domain_snapshot st LiveSchedule)) (\<lambda>delivery_baseline.
     run_then (outer (artifact_write_json (host_of st) (label @ ''-stats-after-restart.json'') (snapshot_json delivery_baseline))) (\<lambda>_.
     run_then (outer (date_now (host_of st))) (\<lambda>t.
     run_then (outer (steps
       [event st ''schedule_delivery_armed''
          [(''fireAtMs'', JNum fire_at), (''remainingMs'', JNum (fl (fire_at - t))), (''schedules'', jnat (base_schedules + active)),
           (''subscriptions'', jnat (base_subscriptions + replicas))],
        sleep_until st (fl (fire_at + of_int (max 2000 (phaseMs config)))),
        signal_role_containers st subscribers ''SIGTERM''])) (\<lambda>_.
     run_then (outer (finish_role_containers st subscribers (label @ ''-subscriber''))) (\<lambda>subscriber_logs.
     run_then (set_local True) (\<lambda>_.
     run_then (of_result (analyze_schedule_delivery_logs subscriber_logs fires replicas)) (\<lambda>evidence.
     run_then (outer (artifact_write_json (host_of st) (label @ ''-observed.json'') (delivery_evidence_json evidence))) (\<lambda>_.
     run_then (of_result (assert_schedule_delivery evidence)) (\<lambda>_.
     run_then (outer (start_role_containers st ''schedule-producer'' 1 shape (env @ [(''DESTROYER_SCHEDULE_ACTION'', ''cancel'')]))) (\<lambda>cleanup_role.
     run_then (outer (finish_role_containers st cleanup_role (label @ ''-producer-cancel''))) (\<lambda>cleanup_logs.
     run_then (of_result (assert_producer_complete cleanup_logs False fires)) (\<lambda>_.
     run_then (outer (wait_for_live_domain_quiescence st LiveSchedule delivery_baseline label False)) (\<lambda>calm.
     run_then (outer (elapsed_since (host_of st) started_at)) (\<lambda>ms.
     outer (event st ''schedule_delivery_complete'' (summary_entries (ev_observed evidence) @
       [(''expectedBroadcastDeliveries'', jnat expected_broadcast), (''expectedSingleDeliveries'', jnat fires),
        (''expectedCancelledDeliveries'', jnat 0), (''cleanup'', cleanup_json (sn_cleanup calm)),
        (''elapsedMs'', jint ms)])))))))))))))))))))))))"

text \<open>The started event leaves out \<^verbatim>\<open>fireAt\<close>, the ISO text of \<^verbatim>\<open>fireAtMs\<close>.\<close>

definition run_schedule_delivery :: "'o stack \<Rightarrow> run_config \<Rightarrow> workload_shape \<Rightarrow> ('o, unit) action" where
  "run_schedule_delivery st config shape =
     (let replicas = nat (clientReplicas config); fires = entriesPerResource shape; label = ''schedule-delivery'' in
     run_then (performance_now (host_of st)) (\<lambda>started_at.
     run_then (of_result (safe_product fires 2 ''active Schedule definitions'')) (\<lambda>active.
     run_then (of_result (safe_product fires replicas ''Broadcast Schedule deliveries'')) (\<lambda>expected_broadcast.
     run_then (date_now (host_of st)) (\<lambda>t.
     let fire_at = next_whole_minute (fl (t + of_int (scheduleLeadMs config))) in
     run_then (live_domain_snapshot st LiveSchedule) (\<lambda>baseline.
     run_then (artifact_write_json (host_of st) (label @ ''-stats-before.json'') (snapshot_json baseline)) (\<lambda>_.
     run_then (of_result (numeric_value (map_get (sn_domain baseline) ''schedules_active'') ''schedules_active'')) (\<lambda>base_schedules.
     run_then (of_result (numeric_value (map_get (sn_domain baseline) ''subscriptions_active'') ''subscriptions_active'')) (\<lambda>base_subscriptions.
     run_then (event st ''schedule_delivery_started''
       [(''subscribers'', jnat replicas), (''firesPerMode'', jnat fires), (''definitionsCreated'', jnat (fires * 3)),
        (''definitionsCancelledBeforeFire'', jnat fires), (''expectedActiveDefinitions'', jnat active),
        (''expectedBroadcastDeliveries'', jnat expected_broadcast), (''expectedSingleDeliveries'', jnat fires),
        (''expectedCancelledDeliveries'', jnat 0), (''fireAtMs'', JNum fire_at),
        (''deliveryToleranceMs'', jnat 1000), (''restartBeforeFire'', JBool True)]) (\<lambda>_.
     run_then (start_role_containers st ''schedule-subscriber'' replicas shape (schedule_environment fire_at shape)) (\<lambda>subscribers.
     with_local False
       (try_catch
         (schedule_delivery_body st config shape started_at fire_at active expected_broadcast base_schedules base_subscriptions subscribers)
         (\<lambda>e. run_then get_local (\<lambda>finished.
            run_then (when_do (\<not> finished) (outer (stop_subscribers st subscribers (label @ ''-subscriber-after-failure'')))) (\<lambda>_.
            fail e)))))))))))))))"

subsection \<open>Missed occurrences\<close>

record outage_ledger =
  so_missedAt :: rat
  so_repeatedAt :: rat
  so_missedDeliveries :: nat
  so_repeated :: "nat list"
  so_race :: "nat list"
  so_duplicates :: nat
  so_cancelAcknowledged :: "nat list"
  so_cancelFailed :: "nat list"

record outage_state =
  os_missed :: nat
  os_repeated :: "nat list"
  os_race :: "nat list"
  os_duplicates :: nat

definition outage_delivery :: "rat \<Rightarrow> outage_state \<Rightarrow> json \<Rightarrow> outage_state result" where
  "outage_delivery repeated_at s v =
     (if \<not> is_plain_object v then Inr s
      else
       try_in (numeric_value (json_get v ''sequence'') ''Schedule outage sequence'') (\<lambda>n.
       try_in (numeric_value (json_get v ''receivedAtMs'') ''Schedule outage receivedAtMs'') (\<lambda>t.
       let s' = (if of_nat t < repeated_at then s\<lparr>os_missed := os_missed s + 1\<rparr> else s) in
       if json_get v ''kind'' = Some (JStr ''repeated'') then Inr (s'\<lparr>os_repeated := os_repeated s @ [n]\<rparr>)
       else if json_get v ''kind'' = Some (JStr ''race'') then Inr (s'\<lparr>os_race := os_race s @ [n]\<rparr>)
       else Inl (Error ''Unexpected Schedule outage kind $'' [AJson (get_or JNull (json_get v ''kind''))]))))"

definition outage_log :: "rat \<Rightarrow> outage_state \<Rightarrow> string \<times> string \<Rightarrow> outage_state result" where
  "outage_log repeated_at s p =
     (case p of (_, contents) \<Rightarrow>
       try_in (required_event contents ''schedule_outage_subscriber_complete'') (\<lambda>r.
       try_in (numeric_value (json_get r ''duplicates'') ''Schedule outage duplicates'') (\<lambda>d.
       case json_get r ''deliveries'' of
         Some (JArr vs) \<Rightarrow> fold_result (outage_delivery repeated_at) (s\<lparr>os_duplicates := os_duplicates s + d\<rparr>) vs
       | _ \<Rightarrow> Inl (Error ''Schedule outage deliveries must be an array'' []))))"

definition outage_only_log :: "role_logs \<Rightarrow> string result" where
  "outage_only_log logs =
     (case logs of [(_, contents)] \<Rightarrow> Inr contents
      | _ \<Rightarrow> Inl (Error ''Expected one Schedule outage log, found $'' [ANat (length logs)]))"

definition analyze_schedule_outage :: "role_logs \<Rightarrow> role_logs \<Rightarrow> rat \<Rightarrow> rat \<Rightarrow> outage_ledger result" where
  "analyze_schedule_outage subscriber_logs canceller_logs missed_at repeated_at =
     try_in (fold_result (outage_log repeated_at) \<lparr>os_missed = 0, os_repeated = [], os_race = [], os_duplicates = 0\<rparr> subscriber_logs) (\<lambda>s.
     try_in (outage_only_log canceller_logs) (\<lambda>contents.
     try_in (required_event contents ''schedule_outage_race_cancel_complete'') (\<lambda>r.
     try_in (numeric_array (json_get r ''acknowledged'') ''Schedule cancellation acknowledged'') (\<lambda>acked.
     try_in (numeric_array (json_get r ''failed'') ''Schedule cancellation failed'') (\<lambda>lost.
     Inr \<lparr>so_missedAt = missed_at, so_repeatedAt = repeated_at, so_missedDeliveries = os_missed s,
          so_repeated = os_repeated s, so_race = os_race s, so_duplicates = os_duplicates s,
          so_cancelAcknowledged = acked, so_cancelFailed = lost\<rparr>)))))"

definition outage_json :: "outage_ledger \<Rightarrow> (string \<times> json) list" where
  "outage_json l =
     [(''missedAtMs'', JNum (so_missedAt l)), (''repeatedAtMs'', JNum (so_repeatedAt l)),
      (''missedDeliveries'', jnat (so_missedDeliveries l)), (''repeatedSequences'', jnats (so_repeated l)),
      (''raceSequences'', jnats (so_race l)), (''duplicateDeliveries'', jnat (so_duplicates l)),
      (''cancellationAcknowledged'', jnats (so_cancelAcknowledged l)), (''cancellationFailed'', jnats (so_cancelFailed l))]"

definition assert_exact_sequences :: "nat list \<Rightarrow> nat \<Rightarrow> string \<Rightarrow> unit result" where
  "assert_exact_sequences ns operations label =
     ensure (sort ns = [0..<operations]) (Error ''$ sequences $ != $'' [AStr label, ASeq (sort ns), ASeq [0..<operations]])"

definition assert_schedule_outage :: "outage_ledger \<Rightarrow> nat \<Rightarrow> unit result" where
  "assert_schedule_outage l operations =
     try_in (ensure (\<not> (so_missedDeliveries l \<noteq> 0 \<or> so_duplicates l \<noteq> 0))
       (Error ''Schedule outage produced missed/duplicate delivery: $'' [AJson (JObj (outage_json l))])) (\<lambda>_.
     try_in (assert_exact_sequences (so_repeated l) operations ''repeated Schedule occurrence'') (\<lambda>_.
     try_in (case find_duplicate_from [] (so_race l) of
         Some n \<Rightarrow> Inl (Error ''Schedule cancellation race delivered sequence $ twice'' [ANat n]) | None \<Rightarrow> Inr ()) (\<lambda>_.
     try_in (for_each (\<lambda>n. ensure (n < operations) (Error ''Schedule race sequence $ is invalid'' [ANat n])) (so_race l)) (\<lambda>_.
     assert_exact_sequences (sort (so_cancelAcknowledged l @ so_cancelFailed l)) operations ''Schedule cancellation outcome''))))"

definition next_consecutive_minute_pair :: "rat \<Rightarrow> rat" where
  "next_consecutive_minute_pair t =
     (let candidate = next_whole_minute t
      in if \<lfloor>candidate / 60000\<rfloor> mod 60 = 59 then fl (candidate + 60000) else candidate)"

definition count_deliveries_before :: "role_logs \<Rightarrow> rat \<Rightarrow> nat" where
  "count_deliveries_before logs before_ms =
     sum_list (map (\<lambda>(_, contents). length (filter (\<lambda>r. has_event ''schedule_outage_delivery'' r \<and>
       (case json_get r ''receivedAtMs'' of Some (JNum t) \<Rightarrow> t < before_ms | _ \<Rightarrow> False)) (parse_json_records contents))) logs)"

definition delivery_drain_ms :: "run_config \<Rightarrow> workload_shape \<Rightarrow> int" where
  "delivery_drain_ms config shape =
     (let waves = \<lceil>fl (of_nat (entriesPerResource shape) / of_int (clientReplicas config * liveConcurrency config))\<rceil>
      in max (phaseMs config) (waves * max 250 (handlerDelayMs config) + 2000))"

definition sleep_until_time :: "'o stack \<Rightarrow> rat \<Rightarrow> ('o, unit) action" where
  "sleep_until_time st t =
     run_then (date_now (host_of st)) (\<lambda>now_ms. sleep (host_of st) \<lfloor>max 0 (fl (t - now_ms))\<rfloor>)"

definition outage_environment :: "rat \<Rightarrow> rat \<Rightarrow> workload_shape \<Rightarrow> string \<Rightarrow> (string, string) js_map" where
  "outage_environment missed_at repeated_at shape act =
     [(''DESTROYER_SEED'', show_nat (seed shape)), (''DESTROYER_SCHEDULE_OUTAGE_MISSED_AT_MS'', show_int \<lfloor>missed_at\<rfloor>),
      (''DESTROYER_SCHEDULE_OUTAGE_RACE_AT_MS'', show_int \<lfloor>repeated_at\<rfloor>), (''DESTROYER_SCHEDULE_OUTAGE_ACTION'', act)]"

definition schedule_outage_body ::
  "'o stack \<Rightarrow> run_config \<Rightarrow> workload_shape \<Rightarrow> rat \<Rightarrow> rat \<Rightarrow> rat \<Rightarrow> live_snapshot \<Rightarrow> role_container list \<Rightarrow>
   ('o world \<times> bool, unit) script" where
  "schedule_outage_body st config shape started_at missed_at repeated_at baseline subscribers =
     (let env = outage_environment missed_at repeated_at shape; n = entriesPerResource shape in
     run_then (outer (wait_for_role_event st subscribers ''schedule_outage_subscriber_ready'')) (\<lambda>_.
     run_then (outer (start_role_containers st ''schedule-outage-producer'' 1 shape (env ''create''))) (\<lambda>producer.
     run_then (outer (finish_role_containers st producer ''schedule-outage-producer'')) (\<lambda>producer_logs.
     run_then (of_result (try_in (outage_only_log producer_logs) (\<lambda>contents.
        try_in (required_event contents ''schedule_outage_create_complete'') (\<lambda>r.
        try_in (numeric_value (json_get r ''created'') ''Schedule outage created'') (\<lambda>created.
        ensure (created = n * 2) (Error ''Schedule outage producer did not create every definition'' [])))))) (\<lambda>_.
     run_then (outer (date_now (host_of st))) (\<lambda>t.
     if fl (missed_at - 10000) \<le> t then fail (Error ''Schedule outage lacks ten-second shutdown margin'' [])
     else
     run_then (outer (steps
       [sleep_until_time st (fl (missed_at - 10000)), stop_fitz st, sleep_until_time st (fl (missed_at + 2000)), restart_fitz st])) (\<lambda>_.
     run_then (outer (role_logs_of st subscribers)) (\<lambda>missed_logs.
     let missed = count_deliveries_before missed_logs repeated_at in
     if missed \<noteq> 0 then fail (Error ''Schedule outage replayed $ missed occurrences'' [ANat missed])
     else
     run_then (outer (start_role_containers st ''schedule-outage-canceller'' 1 shape (env ''race-cancel''))) (\<lambda>canceller.
     run_then (outer (sleep_until_time st (fl (repeated_at + of_int (delivery_drain_ms config shape))))) (\<lambda>_.
     run_then (outer (finish_role_containers st canceller ''schedule-outage-canceller'')) (\<lambda>canceller_logs.
     run_then (outer (signal_role_containers st subscribers ''SIGTERM'')) (\<lambda>_.
     run_then (outer (finish_role_containers st subscribers ''schedule-outage-subscriber'')) (\<lambda>subscriber_logs.
     run_then (set_local True) (\<lambda>_.
     run_then (of_result (analyze_schedule_outage subscriber_logs canceller_logs missed_at repeated_at)) (\<lambda>ledger.
     run_then (outer (artifact_write_json (host_of st) ''schedule-outage-ledger.json'' (JObj (outage_json ledger)))) (\<lambda>_.
     run_then (of_result (assert_schedule_outage ledger n)) (\<lambda>_.
     run_then (outer (start_role_containers st ''schedule-outage-cleanup'' 1 shape (env ''cleanup''))) (\<lambda>cleanup_role.
     run_then (outer (finish_role_containers st cleanup_role ''schedule-outage-cleanup'')) (\<lambda>_.
     run_then (outer (wait_for_live_domain_quiescence st LiveSchedule baseline ''schedule-outage'' False)) (\<lambda>_.
     run_then (outer (elapsed_since (host_of st) started_at)) (\<lambda>ms.
     outer (event st ''schedule_outage_complete'' (outage_json ledger @ [(''elapsedMs'', jint ms)])))))))))))))))))))))))"

definition run_schedule_outage_scenario :: "'o stack \<Rightarrow> run_config \<Rightarrow> workload_shape \<Rightarrow> ('o, unit) action" where
  "run_schedule_outage_scenario st config shape =
     run_then (performance_now (host_of st)) (\<lambda>started_at.
     run_then (date_now (host_of st)) (\<lambda>t.
     let missed_at = next_consecutive_minute_pair (fl (t + of_int (scheduleLeadMs config)));
         repeated_at = fl (missed_at + 60000) in
     run_then (live_domain_snapshot st LiveSchedule) (\<lambda>baseline.
     run_then (start_role_containers st ''schedule-outage-subscriber'' (nat (clientReplicas config)) shape
       (outage_environment missed_at repeated_at shape ''subscribe'' @
        [(''DESTROYER_HANDLER_DELAY_MS'', show_int (max 250 (handlerDelayMs config)))])) (\<lambda>subscribers.
     with_local False
       (try_catch (schedule_outage_body st config shape started_at missed_at repeated_at baseline subscribers)
         (\<lambda>e. run_then get_local (\<lambda>finished.
            run_then (when_do (\<not> finished) (outer (stop_subscribers st subscribers ''schedule-outage-subscriber-failed''))) (\<lambda>_.
            fail e))))))))"

subsection \<open>What an accepted delivery means\<close>

definition notified :: "string \<Rightarrow> nat \<Rightarrow> json \<Rightarrow> bool" where
  "notified kind_name n r =
     (has_event ''schedule_notification_received'' r \<and> json_get r ''kind'' = Some (JStr kind_name) \<and>
      numeric_value (json_get r ''sequence'') ''schedule notification sequence'' = Inr n)"

definition singles_of :: "delivery_state \<Rightarrow> nat \<Rightarrow> nat" where
  "singles_of s n = get_or 0 (map_get (st_singles s) n)"

definition workers_of :: "delivery_state \<Rightarrow> nat \<Rightarrow> string list" where
  "workers_of s n = get_or [] (map_get (st_workers s) n)"

lemma one_event: "has_event a r \<Longrightarrow> a \<noteq> b \<Longrightarrow> \<not> has_event b r"
  by (auto simp: has_event_def)

lemma delivery_record_cases:
  assumes "delivery_record fires worker s r = Inr s'"
  obtains (other) "\<not> has_event ''schedule_notification_received'' r" "st_workers s' = st_workers s" "st_singles s' = st_singles s"
  | (broadcast) k where "notified ''broadcast'' k r" "\<And>n. \<not> notified ''single'' n r"
      "s' = s\<lparr>st_workers := add_worker (st_workers s) k worker\<rparr>"
  | (single) k where "notified ''single'' k r" "\<And>n. \<not> notified ''broadcast'' n r" "s' = s\<lparr>st_singles := map_bump (st_singles s) k 1\<rparr>"
  | (cancelled) "json_get r ''kind'' = Some (JStr ''cancelled'')" "s' = s"
proof (cases "has_event ''schedule_notification_received'' r")
  case True
  then have no: "\<not> has_event ''fitz_client_event'' r" by (auto simp: has_event_def)
  from assms True no obtain k
    where k: "numeric_value (json_get r ''sequence'') ''schedule notification sequence'' = Inr k"
      and run: "(if json_get r ''kind'' = Some (JStr ''broadcast'') then Inr (s\<lparr>st_workers := add_worker (st_workers s) k worker\<rparr>)
        else if json_get r ''kind'' = Some (JStr ''single'') then Inr (s\<lparr>st_singles := map_bump (st_singles s) k 1\<rparr>)
        else if json_get r ''kind'' = Some (JStr ''cancelled'') then Inr s
        else Inl (Error ''Schedule notification has invalid kind $'' [AJson (get_or JNull (json_get r ''kind''))])) = Inr s'"
    unfolding delivery_record_def by (auto simp: try_in_eq_Inr split: if_split_asm)
  from run show thesis
  proof (cases "json_get r ''kind'' = Some (JStr ''broadcast'')")
    case True
    show thesis by (rule broadcast [of k]) (use run True k \<open>has_event ''schedule_notification_received'' r\<close> in \<open>simp_all add: notified_def\<close>)
  next
    case False
    then show thesis
      using run k True single [of k] cancelled by (simp add: notified_def split: if_split_asm)
  qed
next
  case False
  show thesis by (rule other) (use assms False in \<open>auto simp: delivery_record_def Let_def split: if_split_asm\<close>)
qed

lemma workers_after_add:
  "workers_of (s\<lparr>st_workers := add_worker (st_workers s) k worker\<rparr>) n =
     (if n = k \<and> worker \<notin> set (workers_of s n) then workers_of s n @ [worker] else workers_of s n)"
  by (simp add: workers_of_def add_worker_def map_get_set Let_def)

lemma notified_unique: "notified kind_name k r \<Longrightarrow> notified kind_name n r \<longleftrightarrow> n = k"
  by (auto simp: notified_def)

lemma delivery_record_effect:
  assumes "delivery_record fires worker s r = Inr s'"
  shows "singles_of s' n = singles_of s n + (if notified ''single'' n r then 1 else 0) \<and>
    (distinct (workers_of s n) \<longrightarrow> distinct (workers_of s' n) \<and>
      set (workers_of s' n) = set (workers_of s n) \<union> (if notified ''broadcast'' n r then {worker} else {}))"
  using assms
proof (cases rule: delivery_record_cases)
  case other
  then show ?thesis by (simp add: notified_def singles_of_def workers_of_def)
next
  case (broadcast k)
  show ?thesis
    using broadcast(2) by (simp add: broadcast(3) workers_after_add notified_unique [OF broadcast(1)]) (auto simp: singles_of_def)
next
  case (single k)
  show ?thesis
    using single(2) by (simp add: single(3) notified_unique [OF single(1)] singles_of_def workers_of_def map_get_bump)
next
  case cancelled
  then show ?thesis by (simp add: notified_def)
qed

lemma delivery_records_effect:
  assumes "fold_result (delivery_record fires worker) s rs = Inr s'"
  shows "singles_of s' n = singles_of s n + length (filter (notified ''single'' n) rs)"
    and "distinct (workers_of s n) \<Longrightarrow> distinct (workers_of s' n) \<and>
      set (workers_of s' n) = set (workers_of s n) \<union> (if list_ex (notified ''broadcast'' n) rs then {worker} else {})"
proof -
  show "singles_of s' n = singles_of s n + length (filter (notified ''single'' n) rs)"
    using assms
  proof (induction rs arbitrary: s)
    case (Cons r rs)
    then obtain s1 where "delivery_record fires worker s r = Inr s1" "fold_result (delivery_record fires worker) s1 rs = Inr s'"
      by (auto simp: try_in_eq_Inr)
    with Cons.IH delivery_record_effect [of fires worker s r s1 n] show ?case by simp
  qed simp
  show "distinct (workers_of s n) \<Longrightarrow> distinct (workers_of s' n) \<and>
      set (workers_of s' n) = set (workers_of s n) \<union> (if list_ex (notified ''broadcast'' n) rs then {worker} else {})"
    using assms
  proof (induction rs arbitrary: s)
    case (Cons r rs)
    then obtain s1 where "delivery_record fires worker s r = Inr s1" "fold_result (delivery_record fires worker) s1 rs = Inr s'"
      by (auto simp: try_in_eq_Inr)
    with Cons.IH [of s1] delivery_record_effect [of fires worker s r s1 n] Cons.prems(1) show ?case by auto
  qed simp
qed

lemma add_completion_effect:
  "add_completion worker s r = Inr s' \<Longrightarrow> singles_of s' n = singles_of s n \<and> workers_of s' n = workers_of s n"
  by (auto simp: add_completion_def singles_of_def workers_of_def try_in_eq_Inr Let_def)

definition broadcast_workers :: "nat \<Rightarrow> role_logs \<Rightarrow> string set" where
  "broadcast_workers n logs = {w. \<exists>l. (w, l) \<in> set logs \<and> list_ex (notified ''broadcast'' n) (parse_json_records l)}"

lemma delivery_logs_effect:
  assumes "fold_result (delivery_log fires) s logs = Inr s'" and "distinct (workers_of s n)"
  shows "singles_of s' n = singles_of s n +
      (\<Sum>(_, l) \<leftarrow> logs. length (filter (notified ''single'' n) (parse_json_records l)))"
    and "distinct (workers_of s' n) \<and> set (workers_of s' n) = set (workers_of s n) \<union> broadcast_workers n logs"
  using assms
proof (induction logs arbitrary: s)
  case Nil
  { case 1 then show ?case by simp }
  { case 2 then show ?case by (simp add: broadcast_workers_def) }
next
  case (Cons p logs)
  obtain w l where p: "p = (w, l)" by (cases p)
  have step: "\<exists>s1. fold_result (delivery_log fires) s1 logs = Inr s' \<and>
      singles_of s1 n = singles_of s n + length (filter (notified ''single'' n) (parse_json_records l)) \<and>
      distinct (workers_of s1 n) \<and>
      set (workers_of s1 n) = set (workers_of s n) \<union> (if list_ex (notified ''broadcast'' n) (parse_json_records l) then {w} else {})"
    if run: "fold_result (delivery_log fires) s (p # logs) = Inr s'" and d: "distinct (workers_of s n)" for s
  proof -
    from run p obtain r s0 s1 where s0: "add_completion w s r = Inr s0"
      and s1: "fold_result (delivery_record fires w) s0 (parse_json_records l) = Inr s1"
      and rest: "fold_result (delivery_log fires) s1 logs = Inr s'"
      by (auto simp: delivery_log_def try_in_eq_Inr)
    note e0 = add_completion_effect [OF s0, of n]
    show ?thesis
      using rest delivery_records_effect(1) [OF s1, of n] delivery_records_effect(2) [OF s1, of n] e0 d by auto
  qed
  { case 1
    from step [OF this(1,2)] Cons.IH(1) show ?case by (auto simp: p) }
  { case 2
    from step [OF this(1,2)] obtain s1 where s1: "fold_result (delivery_log fires) s1 logs = Inr s'" "distinct (workers_of s1 n)"
      "set (workers_of s1 n) = set (workers_of s n) \<union> (if list_ex (notified ''broadcast'' n) (parse_json_records l) then {w} else {})"
      by blast
    have "broadcast_workers n (p # logs) =
        (if list_ex (notified ''broadcast'' n) (parse_json_records l) then {w} else {}) \<union> broadcast_workers n logs"
      by (auto simp: p broadcast_workers_def)
    with Cons.IH(2) [OF s1(1,2)] s1(3) show ?case by (simp add: Un_assoc) }
qed

text \<open>
  When the delivery check accepts the logs of the subscribers, every occurrence was received:
  each broadcast sequence by every subscriber, and each single sequence once, by one of them.
\<close>
lemma accepted_delivery_complete:
  assumes "summarize_schedule_delivery_logs logs fires replicas = Inr t" and "distinct (map fst logs)"
  shows "list_all (\<lambda>n. list_all (\<lambda>(_, l). list_ex (notified ''broadcast'' n) (parse_json_records l)) logs \<and>
      (\<Sum>(_, l) \<leftarrow> logs. length (filter (notified ''single'' n) (parse_json_records l))) = 1) [0..<fires]"
proof -
  from assms(1) obtain s where len: "length logs = replicas" and run: "fold_result (delivery_log fires) empty_delivery logs = Inr s"
    and b: "sequence_violations fires (\<lambda>n. map_option length (map_get (st_workers s) n) = Some replicas) = []"
    and s1: "sequence_violations fires (\<lambda>n. 0 < get_or 0 (map_get (st_singles s) n)) = []"
    and s2: "sequence_violations fires (\<lambda>n. get_or 0 (map_get (st_singles s) n) \<le> 1) = []"
    by (auto simp: summarize_schedule_delivery_logs_def analyze_schedule_delivery_logs_def assert_schedule_delivery_def
        delivery_accepted_def Let_def try_in_eq_Inr ensure_eq_Inr split: if_splits)
  have start: "workers_of empty_delivery n = []" "singles_of empty_delivery n = 0" for n
    by (simp_all add: empty_delivery_def workers_of_def singles_of_def)
  show ?thesis
    unfolding list_all_iff
  proof (intro ballI conjI)
    fix n assume n: "n \<in> set [0..<fires]"
    note effect = delivery_logs_effect [OF run, of n, unfolded start]
    have "singles_of s n = 1"
      using s1 s2 n unfolding sequence_violations_def filter_empty_conv singles_of_def by fastforce
    then show "(\<Sum>(_, l) \<leftarrow> logs. length (filter (notified ''single'' n) (parse_json_records l))) = 1"
      using effect(1) by simp
    have "map_option length (map_get (st_workers s) n) = Some replicas"
      using b n by (simp add: sequence_violations_def filter_empty_conv)
    then have "length (workers_of s n) = length logs" by (auto simp: workers_of_def len)
    moreover have "distinct (workers_of s n)" "set (workers_of s n) = broadcast_workers n logs" using effect(2) by simp_all
    ultimately have "card (broadcast_workers n logs) = card (fst ` set logs)"
      using assms(2) by (metis distinct_card length_map set_map)
    moreover have "broadcast_workers n logs \<subseteq> fst ` set logs" by (force simp: broadcast_workers_def)
    ultimately have all: "broadcast_workers n logs = fst ` set logs" by (simp add: card_subset_eq)
    show "\<And>p. p \<in> set logs \<Longrightarrow> case p of (_, l) \<Rightarrow> list_ex (notified ''broadcast'' n) (parse_json_records l)"
    proof -
      fix p assume p: "p \<in> set logs"
      then have "fst p \<in> broadcast_workers n logs" unfolding all by simp
      then obtain l where "(fst p, l) \<in> set logs" "list_ex (notified ''broadcast'' n) (parse_json_records l)"
        by (auto simp: broadcast_workers_def)
      moreover have "l = snd p" using p calculation(1) assms(2) by (metis eq_key_imp_eq_value prod.collapse)
      ultimately show "case p of (_, l) \<Rightarrow> list_ex (notified ''broadcast'' n) (parse_json_records l)"
        by (simp add: case_prod_beta)
    qed
  qed
qed

text \<open>One subscriber, one occurrence of each mode.\<close>

definition sample_delivery_log :: string where
  "sample_delivery_log = with_quotes (join_with [CHR 0x0A]
     [''{~event~:~schedule_notification_received~,~kind~:~broadcast~,~sequence~:0}'',
      ''{~event~:~schedule_notification_received~,~kind~:~single~,~sequence~:0}'',
      ''{~event~:~schedule_subscriber_complete~,~broadcast~:1,~single~:1,~cancelled~:0,~duplicates~:0,~invalid~:0,~maxLatenessMs~:7}''])"

lemma sample_delivery_accepted:
  "summarize_schedule_delivery_logs [(''0'', sample_delivery_log)] 1 1 =
     Inr \<lparr>ds_broadcast = 1, ds_single = 1, ds_cancelled = 0, ds_duplicates = 0, ds_invalid = 0, ds_maxLateness = 7\<rparr>"
  by code_simp

lemma accepted_delivery_complete_witness:
  "list_all (\<lambda>n. list_all (\<lambda>(_, l). list_ex (notified ''broadcast'' n) (parse_json_records l)) [(''0'', sample_delivery_log)] \<and>
     (\<Sum>(_, l) \<leftarrow> [(''0'', sample_delivery_log)]. length (filter (notified ''single'' n) (parse_json_records l))) = 1) [0..<1]"
  by (rule accepted_delivery_complete [OF sample_delivery_accepted]) simp

end
