(* ===== verification/AuthToken.thy ===== *)
theory AuthToken
  imports Host
begin

text \<open>
  The bearer tokens of the authenticated scenarios (src/auth-token.ts).  The keyed hash of
  \<^verbatim>\<open>node:crypto\<close> is the parameter \<^verbatim>\<open>hmac\<close>: from the secret and the input to the bytes of the digest.
\<close>

subsection \<open>JSON text and base64url\<close>

text \<open>\<^verbatim>\<open>JSON.stringify\<close> of a string: the short escapes, \<^verbatim>\<open>u00xx\<close> for other control characters.\<close>

definition hex_digit :: "nat \<Rightarrow> char" where
  "hex_digit n = ''0123456789abcdef'' ! n"

definition json_escape :: "char \<Rightarrow> string" where
  "json_escape c =
     (let n = of_char c :: nat in
      if n = 0x22 \<or> n = 0x5C then [CHR 0x5C, c]
      else if n = 8 then [CHR 0x5C, CHR ''b''] else if n = 9 then [CHR 0x5C, CHR ''t'']
      else if n = 10 then [CHR 0x5C, CHR ''n''] else if n = 12 then [CHR 0x5C, CHR ''f'']
      else if n = 13 then [CHR 0x5C, CHR ''r'']
      else if n < 32 then CHR 0x5C # ''u00'' @ [hex_digit (n div 16), hex_digit (n mod 16)]
      else [c])"

definition json_quote :: "string \<Rightarrow> string" where
  "json_quote s = CHR 0x22 # concat (map json_escape s) @ [CHR 0x22]"

definition json_object_text :: "(string \<times> string) list \<Rightarrow> string" where
  "json_object_text entries = ''{'' @ join_with '','' (map (\<lambda>(k, v). json_quote k @ '':'' @ v) entries) @ ''}''"

text \<open>\<^verbatim>\<open>Buffer.from(text)\<close>: UTF-8, two bytes for the code units from 128.\<close>

definition utf8_of_char :: "char \<Rightarrow> byte list" where
  "utf8_of_char c =
     (let n = of_char c :: nat in if n < 128 then [of_nat n] else [of_nat (192 + n div 64), of_nat (128 + n mod 64)])"

definition utf8_bytes :: "string \<Rightarrow> byte list" where
  "utf8_bytes s = concat (map utf8_of_char s)"

definition BASE64URL_ALPHABET :: string where
  "BASE64URL_ALPHABET = ''ABCDEFGHIJKLMNOPQRSTUVWXYZabcdefghijklmnopqrstuvwxyz0123456789-_''"

definition sextet :: "nat \<Rightarrow> char" where
  "sextet n = BASE64URL_ALPHABET ! (n mod 64)"

fun base64url :: "byte list \<Rightarrow> string" where
  "base64url [] = []"
| "base64url [a] = [sextet (unat a div 4), sextet (unat a mod 4 * 16)]"
| "base64url [a, b] =
     [sextet (unat a div 4), sextet (unat a mod 4 * 16 + unat b div 16), sextet (unat b mod 16 * 4)]"
| "base64url (a # b # c # bs) =
     sextet (unat a div 4) # sextet (unat a mod 4 * 16 + unat b div 16) #
     sextet (unat b mod 16 * 4 + unat c div 64) # sextet (unat c mod 64) # base64url bs"

subsection \<open>The token\<close>

definition DESTROYER_AUTH_SECRET :: string where
  "DESTROYER_AUTH_SECRET = ''fitz-destroyer-local-auth-only''"

definition DESTROYER_AUTH_AUDIENCE :: string where
  "DESTROYER_AUTH_AUDIENCE = ''fitz-destroyer''"

definition token_header :: "(string \<times> string) list" where
  "token_header = [(''alg'', json_quote ''HS256''), (''typ'', json_quote ''JWT'')]"

definition token_claims :: "string \<Rightarrow> string list \<Rightarrow> rat \<Rightarrow> (string \<times> string) list" where
  "token_claims identity permissions now_ms =
     [(''sub'', json_quote identity), (''iss'', json_quote []), (''aud'', json_quote DESTROYER_AUTH_AUDIENCE),
      (''exp'', show_int (\<lfloor>fl (now_ms / 1000)\<rfloor> + 3600)), (''tid'', json_quote identity),
      (''permissions'', ''['' @ join_with '','' (map json_quote permissions) @ '']'')]"

definition encode_segment :: "(string \<times> string) list \<Rightarrow> string" where
  "encode_segment entries = base64url (utf8_bytes (json_object_text entries))"

definition create_destroyer_token ::
  "(string \<Rightarrow> string \<Rightarrow> byte list) \<Rightarrow> string \<Rightarrow> string list \<Rightarrow> rat \<Rightarrow> string" where
  "create_destroyer_token hmac identity permissions now_ms =
     (let input = encode_segment token_header @ ''.'' @ encode_segment (token_claims identity permissions now_ms)
      in input @ ''.'' @ base64url (hmac DESTROYER_AUTH_SECRET input))"

subsection \<open>The segments of a token\<close>

definition url_safe :: "char \<Rightarrow> bool" where
  "url_safe c = (c \<in> set BASE64URL_ALPHABET)"

lemma sextet_safe: "url_safe (sextet n)"
proof -
  have "n mod 64 < length BASE64URL_ALPHABET" by (simp add: BASE64URL_ALPHABET_def)
  then show ?thesis by (simp only: url_safe_def sextet_def nth_mem)
qed

lemma base64url_safe: "list_all url_safe (base64url bs)"
  by (induction bs rule: base64url.induct) (simp_all add: sextet_safe)

lemma dot_unsafe: "\<not> url_safe CHR ''.''"
  by (simp add: url_safe_def BASE64URL_ALPHABET_def)

lemma split_on_join:
  "list_all url_safe s \<Longrightarrow> split_on CHR ''.'' (s @ CHR ''.'' # t) = s # split_on CHR ''.'' t"
  by (induction s) (use dot_unsafe in auto)

lemma split_on_safe: "list_all url_safe s \<Longrightarrow> split_on CHR ''.'' s = [s]"
  by (induction s) (use dot_unsafe in auto)

text \<open>
  A token consists of three segments separated by dots, the encoded header, the encoded
  claims and the encoded digest of the first two, and each segment is over the URL-safe
  alphabet, whatever the identity and the permissions contain.
\<close>
lemma token_segments:
  "split_on CHR ''.'' (create_destroyer_token hmac identity permissions now_ms) =
     [encode_segment token_header, encode_segment (token_claims identity permissions now_ms),
      base64url (hmac DESTROYER_AUTH_SECRET
        (encode_segment token_header @ ''.'' @ encode_segment (token_claims identity permissions now_ms)))] \<and>
   list_all (list_all url_safe) (split_on CHR ''.'' (create_destroyer_token hmac identity permissions now_ms))"
proof -
  have safe: "list_all url_safe (encode_segment es)" for es by (simp add: encode_segment_def base64url_safe)
  show ?thesis
    by (simp add: create_destroyer_token_def Let_def split_on_join safe split_on_safe base64url_safe)
qed

end
