(* ===== verification/Evidence.thy ===== *)
theory Evidence
  imports ScheduleScenarios AuthToken
begin

text \<open>
  The evidence checks of the scenarios in which one worker runs and its closing record is
  compared with fixed counts.  The locale \<^verbatim>\<open>fixed_counts\<close> is what such a check promises; it is
  interpreted on each of them.
\<close>

subsection \<open>Comparing fields\<close>

definition shown_field :: "json \<Rightarrow> string \<Rightarrow> arg" where
  "shown_field r field = AJson (get_or (JStr ''undefined'') (json_get r field))"

text \<open>\<^verbatim>\<open>if (record[field] !== value) throw ...\<close>, with the two message forms of the source.\<close>

definition expect_field :: "json \<Rightarrow> string \<times> nat \<Rightarrow> unit result" where
  "expect_field r p =
     (case p of (field, n) \<Rightarrow> ensure (json_get r field = Some (jnat n)) (Error ''$=$/$'' [AStr field, shown_field r field, ANat n]))"

definition exact_field :: "json \<Rightarrow> string \<times> nat \<times> string \<Rightarrow> unit result" where
  "exact_field r p =
     (case p of (field, n, label) \<Rightarrow>
       ensure (json_get r field = Some (jnat n)) (Error ''$ $/$'' [AStr label, shown_field r field, ANat n]))"

definition assert_count :: "json \<Rightarrow> string \<times> nat \<Rightarrow> unit result" where
  "assert_count r p =
     (case p of (field, n) \<Rightarrow>
       try_in (numeric_field r field) (\<lambda>actual. ensure (actual = n) (Error ''$=$/$'' [AStr field, ANat actual, ANat n])))"

definition record_number :: "json \<Rightarrow> string \<Rightarrow> rat result" where
  "record_number r field =
     (case json_get r field of Some (JNum x) \<Rightarrow> Inr x | _ \<Rightarrow> Inl (Error ''$ is unavailable'' [AStr field]))"

text \<open>\<^verbatim>\<open>field.replaceAll(/([A-Z])/gu, " $1").toLowerCase()\<close>.\<close>

definition spaced_words :: "string \<Rightarrow> string" where
  "spaced_words s = lower (concat (map (\<lambda>c. if (of_char c :: nat) \<in> {65..90} then [CHR '' '', c] else [c]) s))"

subsection \<open>The checks\<close>

definition SESSION_BOUNDARY_COUNTS :: "(string \<times> nat) list" where
  "SESSION_BOUNDARY_COUNTS =
     [(''staleRejections'', 4), (''queueRedelivered'', 1), (''queueCompleted'', 1), (''kvUncommittedValues'', 0),
      (''streamUncommittedRecords'', 0), (''leaseReacquired'', 1)]"

definition assert_session_boundary_evidence :: "string \<Rightarrow> json result" where
  "assert_session_boundary_evidence log_text =
     try_in (required_event log_text ''session_boundaries_complete'') (\<lambda>r.
     try_in (for_each (assert_count r) SESSION_BOUNDARY_COUNTS) (\<lambda>_.
     try_in (ensure (json_get r ''leaseHeldAfterRestart'' = Some (JBool False))
       (Error ''Lease remained held after the half-open session was reaped'' [])) (\<lambda>_.
     Inr r)))"

definition RPC_RESPONSE_STATE_COUNTS :: "(string \<times> nat) list" where
  "RPC_RESPONSE_STATE_COUNTS =
     [(''cases'', 5), (''callersTerminated'', 4), (''duplicateCallerTerminals'', 0), (''unknownCorrelationRejected'', 1),
      (''duplicateTerminalRejected'', 1), (''postCancelResponsesObserved'', 1), (''postDisconnectRejected'', 1),
      (''healthyCalls'', 4), (''healthyFailures'', 0)]"

text \<open>The fields are read in order, each of which may throw, before any is compared.\<close>

definition read_counts :: "json \<Rightarrow> string list \<Rightarrow> (string \<times> nat) list result" where
  "read_counts r fields_of = traverse (\<lambda>field. try_in (numeric_field r field) (\<lambda>n. Inr (field, n))) fields_of"

definition compare_counts :: "(string \<times> nat) list \<Rightarrow> (string \<times> nat) list \<Rightarrow> unit result" where
  "compare_counts expected found =
     for_each (\<lambda>(field, n). ensure (map_get found field = Some n)
       (Error ''$=$/$'' [AStr field, ANat (get_or 0 (map_get found field)), ANat n])) expected"

definition assert_rpc_response_state_evidence :: "json \<Rightarrow> (string \<times> nat) list result" where
  "assert_rpc_response_state_evidence r =
     try_in (read_counts r (map fst RPC_RESPONSE_STATE_COUNTS)) (\<lambda>found.
     try_in (compare_counts RPC_RESPONSE_STATE_COUNTS found) (\<lambda>_. Inr found))"

definition RESPONSE_ENVELOPE_COUNTS :: "(string \<times> nat) list" where
  "RESPONSE_ENVELOPE_COUNTS =
     [(''domains'', 7), (''exactFit'', 7), (''oneOverRejected'', 3), (''boundedAggregates'', 2), (''canaryOperations'', 7)]"

definition assert_response_envelope_evidence :: "json \<Rightarrow> unit result" where
  "assert_response_envelope_evidence r =
     try_in (read_counts r (map fst RESPONSE_ENVELOPE_COUNTS)) (\<lambda>found. compare_counts RESPONSE_ENVELOPE_COUNTS found)"

definition STREAM_SELECTOR_COUNTS :: "(string \<times> nat) list" where
  "STREAM_SELECTOR_COUNTS =
     [(''selectors'', 8), (''recordsWritten'', 8), (''visibleRecords'', 21), (''filteredOffsets'', 21), (''cursorAdvances'', 42),
      (''duplicateRecords'', 0), (''missingRecords'', 0), (''reconnectContinuations'', 1)]"

definition assert_stream_selector_evidence :: "json \<Rightarrow> unit result" where
  "assert_stream_selector_evidence r = for_each (expect_field r) STREAM_SELECTOR_COUNTS"

definition WILDCARD_LIMIT :: nat where
  "WILDCARD_LIMIT = 128"

definition WILDCARD_DOMAINS :: "domain list" where
  "WILDCARD_DOMAINS = [Queue, Kv, Stream, Schedule, Notice, Rpc]"

definition WILDCARD_COUNTS :: "(string \<times> nat) list" where
  "WILDCARD_COUNTS =
     (let d = length WILDCARD_DOMAINS in
      [(''domains'', d), (''registrations'', d * WILDCARD_LIMIT * 2), (''limitRejections'', d * 2),
       (''unsubscribeReclaims'', d), (''disconnectReclaims'', d), (''canaryFailures'', 0)])"

definition assert_wildcard_quota_evidence :: "json \<Rightarrow> unit result" where
  "assert_wildcard_quota_evidence r = for_each (expect_field r) WILDCARD_COUNTS"

definition ROUNDS :: nat where
  "ROUNDS = 8"

definition WAITERS_PER_ROUND :: nat where
  "WAITERS_PER_ROUND = 4"

definition LEASE_WAITER_COUNTS :: "(string \<times> nat) list" where
  "LEASE_WAITER_COUNTS =
     [(''rounds'', ROUNDS), (''waitersQueued'', ROUNDS * WAITERS_PER_ROUND), (''waitersDisconnected'', ROUNDS * WAITERS_PER_ROUND),
      (''ghostAcquisitions'', 0), (''pendingWaiters'', 0), (''replacementAcquisitions'', ROUNDS), (''fencingRegressions'', 0)]"

definition assert_lease_waiter_race_evidence :: "json \<Rightarrow> unit result" where
  "assert_lease_waiter_race_evidence r = for_each (expect_field r) LEASE_WAITER_COUNTS"

definition PARTIAL_FAILURE_COUNTS :: "(string \<times> nat) list" where
  "PARTIAL_FAILURE_COUNTS =
     [(''targetedFamilies'', 2), (''failedFamilyRejections'', 2), (''siblingOperations'', 2), (''readinessChecks'', 2),
      (''crossFamilyDeliveries'', 0)]"

definition assert_family_actor_partial_failure_evidence :: "json \<Rightarrow> unit result" where
  "assert_family_actor_partial_failure_evidence r =
     for_each (\<lambda>(field, n). exact_field r (field, n, spaced_words field)) PARTIAL_FAILURE_COUNTS"

definition positive_integer :: "json \<Rightarrow> string \<Rightarrow> nat result" where
  "positive_integer r field =
     (case json_get r field of
        Some (JNum x) \<Rightarrow> if is_safe_integer x \<and> 1 \<le> x then Inr (nat \<lfloor>x\<rfloor>) else Inl (Error ''$ is unavailable'' [AStr field])
      | _ \<Rightarrow> Inl (Error ''$ is unavailable'' [AStr field]))"

definition SAME_SHARD_COUNTS :: "(string \<times> nat) list" where
  "SAME_SHARD_COUNTS =
     [(''failedFamilyRejections'', 2), (''siblingOperations'', 2), (''readinessChecks'', 2), (''crossFamilyDeliveries'', 0)]"

definition assert_same_shard_family_failure_evidence :: "json \<Rightarrow> unit result" where
  "assert_same_shard_family_failure_evidence r =
     try_in (positive_integer r ''shardCount'') (\<lambda>shards.
     try_in (positive_integer r ''failedFamily'') (\<lambda>failed.
     try_in (positive_integer r ''siblingFamily'') (\<lambda>sibling.
     try_in (ensure ((failed - 1) mod shards = (sibling - 1) mod shards)
       (Error ''families $ and $ do not share the same shard'' [ANat failed, ANat sibling])) (\<lambda>_.
     for_each (\<lambda>(field, n). exact_field r (field, n, spaced_words field)) SAME_SHARD_COUNTS))))"

definition assert_same_shard_family_fairness_evidence :: "json \<Rightarrow> unit result" where
  "assert_same_shard_family_fairness_evidence r =
     try_in (record_number r ''canariesAttempted'') (\<lambda>attempted.
     try_in (record_number r ''canariesCompleted'') (\<lambda>completed.
     try_in (record_number r ''canaryErrors'') (\<lambda>errors.
     try_in (record_number r ''noisyCompleted'') (\<lambda>noisy.
     try_in (record_number r ''longestCanaryMs'') (\<lambda>longest.
     try_in (record_number r ''requestTimeoutMs'') (\<lambda>timeout.
     try_in (ensure (\<not> noisy < 1) (Error ''no same-shard noisy operations completed'' [])) (\<lambda>_.
     try_in (ensure (completed = attempted) (Error ''canaries completed $/$'' [ARat completed, ARat attempted])) (\<lambda>_.
     try_in (ensure (errors = 0) (Error ''same-shard canary errors=$'' [ARat errors])) (\<lambda>_.
     ensure (\<not> timeout \<le> longest)
       (Error ''same-shard canary latency $ms reached request timeout $ms'' [ARat longest, ARat timeout]))))))))))"

definition optional_record_number :: "json \<Rightarrow> string \<Rightarrow> rat result" where
  "optional_record_number r field = (if json_get r field = None then Inr 0 else record_number r field)"

record storm_numbers =
  sn_created :: rat
  sn_cancelled :: rat
  sn_remaining :: rat
  sn_deliveries :: rat
  sn_duplicates :: rat
  sn_invalid :: rat
  sn_attempted :: rat
  sn_completed :: rat
  sn_errors :: rat
  sn_longest :: rat
  sn_readinessChecks :: rat
  sn_readinessFailures :: rat
  sn_postStorm :: rat
  sn_timeout :: rat
  sn_maxLateness :: rat

definition read_storm_numbers :: "json \<Rightarrow> storm_numbers result" where
  "read_storm_numbers r =
     try_in (record_number r ''definitionsCreated'') (\<lambda>created.
     try_in (record_number r ''definitionsCancelled'') (\<lambda>cancelled.
     try_in (optional_record_number r ''remainingDefinitions'') (\<lambda>remaining.
     try_in (traverse (record_number r)
       [''deliveries'', ''duplicates'', ''invalidDeliveries'', ''canariesAttempted'', ''canariesCompleted'', ''canaryErrors'',
        ''longestCanaryMs'', ''readinessChecks'', ''readinessFailures'', ''postStormCanaries'', ''requestTimeoutMs'',
        ''maxLatenessMs'']) (\<lambda>xs.
     Inr \<lparr>sn_created = created, sn_cancelled = cancelled, sn_remaining = remaining, sn_deliveries = xs ! 0,
          sn_duplicates = xs ! 1, sn_invalid = xs ! 2, sn_attempted = xs ! 3, sn_completed = xs ! 4, sn_errors = xs ! 5,
          sn_longest = xs ! 6, sn_readinessChecks = xs ! 7, sn_readinessFailures = xs ! 8, sn_postStorm = xs ! 9,
          sn_timeout = xs ! 10, sn_maxLateness = xs ! 11\<rparr>))))"

definition check_storm_numbers :: "storm_numbers \<Rightarrow> unit result" where
  "check_storm_numbers n =
     for_each (\<lambda>(ok, e). ensure ok e)
       [(\<not> sn_created n < 1, Error ''schedule due storm created no definitions'' []),
        (sn_cancelled n = sn_created n, Error ''definitions cancelled $/$'' [ARat (sn_cancelled n), ARat (sn_created n)]),
        (sn_remaining n = 0, Error ''schedule due storm left $ definitions'' [ARat (sn_remaining n)]),
        (sn_deliveries n = sn_created n, Error ''deliveries $/$'' [ARat (sn_deliveries n), ARat (sn_created n)]),
        (sn_duplicates n = 0, Error ''duplicate deliveries=$'' [ARat (sn_duplicates n)]),
        (sn_invalid n = 0, Error ''invalid deliveries=$'' [ARat (sn_invalid n)]),
        (\<not> sn_attempted n < 1, Error ''schedule due storm attempted no sibling canaries'' []),
        (sn_completed n = sn_attempted n, Error ''canaries completed $/$'' [ARat (sn_completed n), ARat (sn_attempted n)]),
        (sn_errors n = 0, Error ''sibling canary errors=$'' [ARat (sn_errors n)]),
        (\<not> sn_timeout n \<le> sn_longest n,
         Error ''sibling canary latency $ms reached request timeout $ms'' [ARat (sn_longest n), ARat (sn_timeout n)]),
        (\<not> sn_timeout n \<le> sn_maxLateness n,
         Error ''storm delivery lateness $ms reached request timeout $ms'' [ARat (sn_maxLateness n), ARat (sn_timeout n)]),
        (\<not> sn_readinessChecks n < 1, Error ''schedule due storm performed no readiness checks'' []),
        (sn_readinessFailures n = 0, Error ''readiness failures=$'' [ARat (sn_readinessFailures n)]),
        (sn_postStorm n = 1, Error ''post-storm canaries=$'' [ARat (sn_postStorm n)])]"

definition assert_schedule_due_storm_evidence :: "json \<Rightarrow> unit result" where
  "assert_schedule_due_storm_evidence r = try_in (read_storm_numbers r) check_storm_numbers"

subsection \<open>What the checks accept\<close>

locale fixed_counts =
  fixes check :: "json \<Rightarrow> unit result" and counts :: "(string \<times> nat) list"
  assumes sound: "check r = Inr () \<Longrightarrow> (f, n) \<in> set counts \<Longrightarrow> json_get r f = Some (jnat n)"
    and complete_check: "(\<And>f n. (f, n) \<in> set counts \<Longrightarrow> json_get r f = Some (jnat n)) \<Longrightarrow> check r = Inr ()"
begin

lemma exact: "check r = Inr () \<longleftrightarrow> list_all (\<lambda>(f, n). json_get r f = Some (jnat n)) counts"
proof
  show "check r = Inr () \<Longrightarrow> list_all (\<lambda>(f, n). json_get r f = Some (jnat n)) counts"
    using sound [of r] by (auto simp: list_all_iff)
  show "list_all (\<lambda>(f, n). json_get r f = Some (jnat n)) counts \<Longrightarrow> check r = Inr ()"
    by (rule complete_check) (auto simp: list_all_iff)
qed

lemma only_counts_matter:
  assumes "\<And>f. f \<in> fst ` set counts \<Longrightarrow> json_get r f = json_get r' f" and "check r = Inr ()"
  shows "check r' = Inr ()"
proof (rule complete_check)
  fix f n assume "(f, n) \<in> set counts"
  moreover from this have "f \<in> fst ` set counts" by force
  ultimately show "json_get r' f = Some (jnat n)" using assms(1) [of f] sound [OF assms(2), of f n] by simp
qed

end

lemma expect_field_ok: "expect_field r p = Inr u \<longleftrightarrow> json_get r (fst p) = Some (jnat (snd p))"
  by (auto simp: expect_field_def result_simps split: prod.splits)

lemma exact_field_ok: "exact_field r p = Inr u \<longleftrightarrow> json_get r (fst p) = Some (jnat (fst (snd p)))"
  by (auto simp: exact_field_def result_simps split: prod.splits)

lemma numeric_field_iff:
  assumes "int n \<le> max_safe_integer"
  shows "numeric_field r f = Inr n \<longleftrightarrow> json_get r f = Some (jnat n)"
proof -
  have "(\<exists>x. v = Some (JNum x) \<and> is_safe_integer x \<and> 0 \<le> x \<and> n = nat \<lfloor>x\<rfloor>) \<longleftrightarrow> v = Some (jnat n)" for v
  proof
    assume "\<exists>x. v = Some (JNum x) \<and> is_safe_integer x \<and> 0 \<le> x \<and> n = nat \<lfloor>x\<rfloor>"
    then obtain x where x: "v = Some (JNum x)" "x = of_int \<lfloor>x\<rfloor>" "0 \<le> x" "n = nat \<lfloor>x\<rfloor>" by (auto simp: is_safe_integer_def)
    then have "x = of_nat n" by (metis of_int_of_nat_eq of_nat_nat zero_le_floor)
    with x(1) show "v = Some (jnat n)" by (simp add: jnat_def)
  qed (use assms in \<open>auto simp: jnat_def is_safe_integer_def\<close>)
  then show ?thesis by (simp add: numeric_field_def numeric_value_ok)
qed

lemma read_counts_ok:
  "read_counts r fs = Inr found \<longleftrightarrow> map fst found = fs \<and> (\<forall>(f, n) \<in> set found. numeric_field r f = Inr n)"
proof (induction fs arbitrary: found)
  case (Cons f fs)
  then show ?case by (cases found) (auto simp: read_counts_def result_simps)
qed (auto simp: read_counts_def)

lemma compare_counts_ok:
  "compare_counts expected found = Inr u \<longleftrightarrow> (\<forall>(f, n) \<in> set expected. map_get found f = Some n)"
  by (simp add: compare_counts_def result_simps case_prod_beta)

lemma read_and_compare:
  assumes "distinct (map fst counts)" and "list_all (\<lambda>(_, n). int n \<le> max_safe_integer) counts"
  shows "(\<exists>found. read_counts r (map fst counts) = Inr found \<and> compare_counts counts found = Inr ()) \<longleftrightarrow>
    (\<forall>(f, n) \<in> set counts. json_get r f = Some (jnat n))"
proof
  assume "\<exists>found. read_counts r (map fst counts) = Inr found \<and> compare_counts counts found = Inr ()"
  then obtain found where f: "\<forall>(f, n) \<in> set found. numeric_field r f = Inr n"
    and c: "\<forall>(f, n) \<in> set counts. map_get found f = Some n"
    by (auto simp: read_counts_ok compare_counts_ok)
  show "\<forall>(f, n) \<in> set counts. json_get r f = Some (jnat n)"
  proof (intro ballI, clarify)
    fix f' n assume p: "(f', n) \<in> set counts"
    with c have "(f', n) \<in> set found" by (auto dest!: map_get_Some_in)
    with f have "numeric_field r f' = Inr n" by auto
    with p assms(2) show "json_get r f' = Some (jnat n)" by (auto simp: list_all_iff numeric_field_iff)
  qed
next
  assume all: "\<forall>(f, n) \<in> set counts. json_get r f = Some (jnat n)"
  have "read_counts r (map fst counts) = Inr counts"
    using all assms(2) unfolding read_counts_ok list_all_iff by (fastforce simp: numeric_field_iff)
  moreover have "compare_counts counts counts = Inr ()"
    using assms(1) by (auto simp: compare_counts_ok map_get_in map_keys_def)
  ultimately show "\<exists>found. read_counts r (map fst counts) = Inr found \<and> compare_counts counts found = Inr ()" by blast
qed

definition exact_counts :: "(string \<times> nat) list \<Rightarrow> json \<Rightarrow> bool" where
  "exact_counts counts r = list_all (\<lambda>(f, n). json_get r f = Some (jnat n)) counts"

definition holds :: "'a result \<Rightarrow> unit result" where
  "holds m = try_in m (\<lambda>_. Inr ())"

lemma holds_ok: "holds m = Inr u \<longleftrightarrow> (\<exists>x. m = Inr x)"
  by (cases m) (simp_all add: holds_def)

lemma every_expected: "for_each (expect_field r) counts = Inr u \<longleftrightarrow> (\<forall>(f, n) \<in> set counts. json_get r f = Some (jnat n))"
  by (simp add: result_simps expect_field_ok case_prod_beta)

interpretation rpc_response: fixed_counts "\<lambda>r. holds (assert_rpc_response_state_evidence r)" RPC_RESPONSE_STATE_COUNTS
proof -
  have "holds (assert_rpc_response_state_evidence r) = Inr () \<longleftrightarrow> (\<forall>(f, n) \<in> set RPC_RESPONSE_STATE_COUNTS. json_get r f = Some (jnat n))" for r
    by (subst read_and_compare [symmetric])
      (auto simp: holds_ok assert_rpc_response_state_evidence_def result_simps RPC_RESPONSE_STATE_COUNTS_def max_safe_integer_def)
  then show "fixed_counts (\<lambda>r. holds (assert_rpc_response_state_evidence r)) RPC_RESPONSE_STATE_COUNTS"
    by unfold_locales auto
qed

interpretation response_envelope: fixed_counts assert_response_envelope_evidence RESPONSE_ENVELOPE_COUNTS
proof -
  have "assert_response_envelope_evidence r = Inr () \<longleftrightarrow> (\<forall>(f, n) \<in> set RESPONSE_ENVELOPE_COUNTS. json_get r f = Some (jnat n))" for r
    by (subst read_and_compare [symmetric])
      (auto simp: assert_response_envelope_evidence_def result_simps RESPONSE_ENVELOPE_COUNTS_def max_safe_integer_def)
  then show "fixed_counts assert_response_envelope_evidence RESPONSE_ENVELOPE_COUNTS"
    by unfold_locales auto
qed

interpretation stream_selector: fixed_counts assert_stream_selector_evidence STREAM_SELECTOR_COUNTS
  by unfold_locales (auto simp: assert_stream_selector_evidence_def every_expected)

interpretation wildcard_quota: fixed_counts assert_wildcard_quota_evidence WILDCARD_COUNTS
  by unfold_locales (auto simp: assert_wildcard_quota_evidence_def every_expected)

interpretation lease_waiter: fixed_counts assert_lease_waiter_race_evidence LEASE_WAITER_COUNTS
  by unfold_locales (auto simp: assert_lease_waiter_race_evidence_def every_expected)

interpretation partial_failure: fixed_counts assert_family_actor_partial_failure_evidence PARTIAL_FAILURE_COUNTS
  by unfold_locales
    (auto simp: assert_family_actor_partial_failure_evidence_def result_simps exact_field_ok case_prod_beta)

text \<open>
  Each of these checks accepts exactly the closing records that hold every expected count of
  its table as a number; a field that is missing, not a number or off by one is an error, and
  fields outside the table do not matter.
\<close>
lemma evidence_checks_exact:
  "(is_ok (assert_rpc_response_state_evidence r) \<longleftrightarrow> exact_counts RPC_RESPONSE_STATE_COUNTS r) \<and>
   (assert_response_envelope_evidence r = Inr () \<longleftrightarrow> exact_counts RESPONSE_ENVELOPE_COUNTS r) \<and>
   (assert_stream_selector_evidence r = Inr () \<longleftrightarrow> exact_counts STREAM_SELECTOR_COUNTS r) \<and>
   (assert_wildcard_quota_evidence r = Inr () \<longleftrightarrow> exact_counts WILDCARD_COUNTS r) \<and>
   (assert_lease_waiter_race_evidence r = Inr () \<longleftrightarrow> exact_counts LEASE_WAITER_COUNTS r) \<and>
   (assert_family_actor_partial_failure_evidence r = Inr () \<longleftrightarrow> exact_counts PARTIAL_FAILURE_COUNTS r)"
  using rpc_response.exact [of r]
  by (simp add: exact_counts_def response_envelope.exact stream_selector.exact wildcard_quota.exact lease_waiter.exact
      partial_failure.exact holds_ok is_ok_iff)

text \<open>
  The same-shard check compares the shards of two families that may be the same one, and the
  storm check reads a missing number of remaining definitions as zero.
\<close>

lemma same_family_accepted:
  "assert_same_shard_family_failure_evidence (JObj
     [(''shardCount'', jnat 4), (''failedFamily'', jnat 1), (''siblingFamily'', jnat 1), (''failedFamilyRejections'', jnat 2),
      (''siblingOperations'', jnat 2), (''readinessChecks'', jnat 2), (''crossFamilyDeliveries'', jnat 0)]) = Inr ()"
  by (simp add: assert_same_shard_family_failure_evidence_def positive_integer_def jnat_def is_safe_integer_def max_safe_integer_def
      SAME_SHARD_COUNTS_def exact_field_def)

lemma remaining_absent: "json_get r ''remainingDefinitions'' = None \<Longrightarrow> optional_record_number r ''remainingDefinitions'' = Inr 0"
  by (simp add: optional_record_number_def)

end
