(* ===== verification/ConformanceScenarios.thy ===== *)
theory ConformanceScenarios
  imports Evidence
begin

text \<open>
  The scenarios in which one worker container runs a conformance workload and its closing record
  is checked, and the small scenarios around them: src/orchestration/rpc-response-state-conformance.ts,
  response-envelope-boundaries.ts, stream-selector-cursor-conformance.ts,
  wildcard-registration-quota-reclamation.ts, lease-waiter-disconnect-races.ts,
  family-actor-partial-failure-isolation.ts, same-shard-family-failure-isolation.ts,
  same-shard-family-fairness.ts, schedule-due-storm-isolation.ts, wire-conformance.ts,
  authorization-isolation.ts, hostile-rpc-worker.ts and stream-global-recovery.ts.  The keyed hash that
  signs tokens is the parameter \<^verbatim>\<open>hmac\<close>.
\<close>

type_synonym keyed_hash = "string \<Rightarrow> string \<Rightarrow> byte list"

subsection \<open>The worker and its record\<close>

definition worker_log :: "role_logs \<Rightarrow> error \<Rightarrow> string result" where
  "worker_log logs missing = (case map_get logs ''0'' of None \<Rightarrow> Inl missing | Some l \<Rightarrow> Inr l)"

definition first_log :: "role_logs \<Rightarrow> string" where
  "first_log logs = (case logs of [] \<Rightarrow> [] | (_, l) # _ \<Rightarrow> l)"

definition run_role :: "'o stack \<Rightarrow> string \<Rightarrow> workload_shape \<Rightarrow> (string, string) js_map \<Rightarrow> string \<Rightarrow> ('o, role_logs) action" where
  "run_role st role shape env label =
     run_then (start_role_containers st role 1 shape env) (\<lambda>containers. finish_role_containers st containers label)"

definition worker_record ::
  "'o stack \<Rightarrow> string \<Rightarrow> workload_shape \<Rightarrow> (string, string) js_map \<Rightarrow> string \<Rightarrow> string \<Rightarrow> ('o, json) action" where
  "worker_record st role shape env missing closing =
     run_then (run_role st role shape env role) (\<lambda>logs.
     of_result (try_in (worker_log logs (Error missing [])) (\<lambda>l. required_event l closing)))"

text \<open>\<^verbatim>\<open>{ ...record, key: value }\<close>.\<close>

definition spread :: "json \<Rightarrow> (string \<times> json) list \<Rightarrow> (string \<times> json) list" where
  "spread r extra = foldl (\<lambda>m (k, v). map_set m k v) (case r of JObj m \<Rightarrow> m | _ \<Rightarrow> []) extra"

definition report_evidence ::
  "'o stack \<Rightarrow> rat \<Rightarrow> string \<Rightarrow> string \<Rightarrow> json \<Rightarrow> (string \<times> json) list \<Rightarrow> ('o, unit) action" where
  "report_evidence st started_at file done evidence extra =
     run_then (artifact_write_json (host_of st) file evidence) (\<lambda>_.
     run_then (elapsed_since (host_of st) started_at) (\<lambda>ms.
     event st done (spread evidence ([(''elapsedMs'', jint ms)] @ extra))))"

definition sign_token :: "keyed_hash \<Rightarrow> 'o stack \<Rightarrow> string \<Rightarrow> string list \<Rightarrow> ('o, string) action" where
  "sign_token hmac st identity permissions =
     run_then (date_now (host_of st)) (\<lambda>t. ret (create_destroyer_token hmac identity permissions t))"

definition WEBSOCKET_URL :: string where
  "WEBSOCKET_URL = ''ws://fitz:4090/ws''"

definition family_permissions :: "string \<Rightarrow> string list" where
  "family_permissions ns = [''stream://'' @ ns @ ''/**#*'', ''rpc://'' @ ns @ ''/**#*'']"

definition timeout_entry :: "run_config \<Rightarrow> (string \<times> json) list" where
  "timeout_entry config = [(''configuredTimeoutMs'', jint (requestTimeoutMs config))]"

subsection \<open>Checked workers\<close>

definition run_rpc_response_state_conformance_scenario :: "'o stack \<Rightarrow> workload_shape \<Rightarrow> ('o, unit) action" where
  "run_rpc_response_state_conformance_scenario st shape =
     run_then (performance_now (host_of st)) (\<lambda>started_at.
     run_then (event st ''rpc_response_state_conformance_started'' [(''cases'', jnat 5), (''workerCredit'', jnat 1)]) (\<lambda>_.
     run_then (worker_record st ''rpc-response-state-conformance'' shape [(''DESTROYER_RPC_STATE_URL'', WEBSOCKET_URL)]
       ''RPC response-state worker log was missing'' ''rpc_response_state_conformance_worker_complete'') (\<lambda>r.
     run_then (of_result (assert_rpc_response_state_evidence r)) (\<lambda>evidence.
     report_evidence st started_at ''rpc-response-state-conformance-evidence.json'' ''rpc_response_state_conformance_complete''
       (JObj (map (\<lambda>(f, n). (f, jnat n)) evidence)) []))))"

definition run_response_envelope_boundaries_scenario :: "'o stack \<Rightarrow> workload_shape \<Rightarrow> ('o, unit) action" where
  "run_response_envelope_boundaries_scenario st shape =
     run_then (performance_now (host_of st)) (\<lambda>started_at.
     run_then (worker_record st ''response-envelope-boundaries'' shape []
       ''response-envelope-boundaries worker log was missing'' ''response_envelope_boundaries_worker_complete'') (\<lambda>r.
     run_then (of_result (assert_response_envelope_evidence r)) (\<lambda>_.
     run_then (of_result (read_counts r (map fst RESPONSE_ENVELOPE_COUNTS))) (\<lambda>evidence.
     run_then (of_result (ensure (evidence = RESPONSE_ENVELOPE_COUNTS)
       (Error ''response envelope boundary evidence was incomplete'' []))) (\<lambda>_.
     report_evidence st started_at ''response-envelope-boundaries-evidence.json'' ''response_envelope_boundaries_complete''
       (JObj (map (\<lambda>(f, n). (f, jnat n)) evidence)) [])))))"

definition run_stream_selector_cursor_conformance_scenario :: "'o stack \<Rightarrow> workload_shape \<Rightarrow> ('o, unit) action" where
  "run_stream_selector_cursor_conformance_scenario st shape =
     run_then (performance_now (host_of st)) (\<lambda>started_at.
     run_then (worker_record st ''stream-selector-cursor-conformance'' shape []
       ''stream selector worker log was missing'' ''stream_selector_cursor_conformance_worker_complete'') (\<lambda>evidence.
     run_then (of_result (assert_stream_selector_evidence evidence)) (\<lambda>_.
     report_evidence st started_at ''stream-selector-cursor-conformance-evidence.json''
       ''stream_selector_cursor_conformance_complete'' evidence [])))"

definition run_wildcard_registration_quota_reclamation_scenario :: "'o stack \<Rightarrow> workload_shape \<Rightarrow> ('o, unit) action" where
  "run_wildcard_registration_quota_reclamation_scenario st shape =
     run_then (performance_now (host_of st)) (\<lambda>started_at.
     run_then (worker_record st ''wildcard-registration-quota-reclamation'' shape []
       ''wildcard quota worker log was missing'' ''wildcard_registration_quota_reclamation_worker_complete'') (\<lambda>evidence.
     run_then (of_result (assert_wildcard_quota_evidence evidence)) (\<lambda>_.
     report_evidence st started_at ''wildcard-registration-quota-reclamation-evidence.json''
       ''wildcard_registration_quota_reclamation_complete'' evidence [])))"

definition run_lease_waiter_disconnect_races_scenario :: "'o stack \<Rightarrow> workload_shape \<Rightarrow> ('o, unit) action" where
  "run_lease_waiter_disconnect_races_scenario st shape =
     run_then (performance_now (host_of st)) (\<lambda>started_at.
     run_then (worker_record st ''lease-waiter-disconnect-races'' shape []
       ''lease waiter race worker log was missing'' ''lease_waiter_disconnect_races_worker_complete'') (\<lambda>evidence.
     run_then (of_result (assert_lease_waiter_race_evidence evidence)) (\<lambda>_.
     report_evidence st started_at ''lease-waiter-disconnect-races-evidence.json''
       ''lease_waiter_disconnect_races_complete'' evidence [])))"

definition run_family_actor_partial_failure_isolation_scenario ::
  "keyed_hash \<Rightarrow> 'o stack \<Rightarrow> run_config \<Rightarrow> workload_shape \<Rightarrow> ('o, unit) action" where
  "run_family_actor_partial_failure_isolation_scenario hmac st config shape =
     run_then (performance_now (host_of st)) (\<lambda>started_at.
     run_then (sign_token hmac st ''identity-a'' (family_permissions (namespace shape))) (\<lambda>token.
     run_then (worker_record st ''family-actor-partial-failure-isolation'' shape
       [(''DESTROYER_JWT'', token), (''DESTROYER_FAMILY_FAILURE_URL'', WEBSOCKET_URL),
        (''DESTROYER_FAMILY_FAILURE_HTTP_URL'', ''http://fitz:4090'')]
       ''family actor partial failure worker log was missing'' ''family_actor_partial_failure_isolation_worker_complete'') (\<lambda>evidence.
     run_then (of_result (assert_family_actor_partial_failure_evidence evidence)) (\<lambda>_.
     report_evidence st started_at ''family-actor-partial-failure-isolation-evidence.json''
       ''family_actor_partial_failure_isolation_complete'' evidence (timeout_entry config)))))"

definition run_same_shard_family_failure_isolation_scenario ::
  "keyed_hash \<Rightarrow> 'o stack \<Rightarrow> run_config \<Rightarrow> workload_shape \<Rightarrow> ('o, unit) action" where
  "run_same_shard_family_failure_isolation_scenario hmac st config shape =
     run_then (performance_now (host_of st)) (\<lambda>started_at.
     run_then (sign_token hmac st ''identity-a'' (family_permissions (namespace shape))) (\<lambda>token.
     run_then (worker_record st ''same-shard-family-failure-isolation'' shape
       [(''DESTROYER_JWT'', token), (''DESTROYER_SAME_SHARD_FAILURE_URL'', WEBSOCKET_URL),
        (''DESTROYER_SAME_SHARD_FAILURE_HTTP_URL'', ''http://fitz:4090'')]
       ''same-shard family failure worker log was missing'' ''same_shard_family_failure_isolation_worker_complete'') (\<lambda>evidence.
     run_then (of_result (assert_same_shard_family_failure_evidence evidence)) (\<lambda>_.
     report_evidence st started_at ''same-shard-family-failure-isolation-evidence.json''
       ''same_shard_family_failure_isolation_complete'' evidence (timeout_entry config)))))"

definition run_same_shard_family_fairness_scenario ::
  "keyed_hash \<Rightarrow> 'o stack \<Rightarrow> run_config \<Rightarrow> workload_shape \<Rightarrow> ('o, unit) action" where
  "run_same_shard_family_fairness_scenario hmac st config shape =
     run_then (performance_now (host_of st)) (\<lambda>started_at.
     run_then (sign_token hmac st ''identity-a'' [''notice://'' @ namespace shape @ ''/**#*'']) (\<lambda>token.
     run_then (worker_record st ''same-shard-family-fairness'' shape
       [(''DESTROYER_JWT'', token), (''DESTROYER_SAME_SHARD_URL'', WEBSOCKET_URL)]
       ''same-shard fairness worker log was missing'' ''same_shard_family_fairness_worker_complete'') (\<lambda>evidence.
     run_then (of_result (assert_same_shard_family_fairness_evidence evidence)) (\<lambda>_.
     report_evidence st started_at ''same-shard-family-fairness-evidence.json''
       ''same_shard_family_fairness_complete'' evidence (timeout_entry config)))))"

definition schedule_due_storm_definition_count :: "scale_name \<Rightarrow> nat \<Rightarrow> nat" where
  "schedule_due_storm_definition_count sc configured =
     max (case sc of Smoke \<Rightarrow> 512 | Standard \<Rightarrow> 2000 | Large \<Rightarrow> 5000) configured"

definition schedule_due_storm_permissions :: "string \<Rightarrow> string list" where
  "schedule_due_storm_permissions ns = [''schedule://destroyer/'' @ ns @ ''/**#*'', ''schedule://**#read'']"

definition run_schedule_due_storm_isolation_scenario ::
  "keyed_hash \<Rightarrow> 'o stack \<Rightarrow> run_config \<Rightarrow> workload_shape \<Rightarrow> ('o, unit) action" where
  "run_schedule_due_storm_isolation_scenario hmac st config shape =
     (let label = ''schedule-due-storm-isolation'';
          definitions = schedule_due_storm_definition_count (run_scale config) (entriesPerResource shape);
          storm_shape = shape\<lparr>entriesPerResource := definitions\<rparr> in
     run_then (performance_now (host_of st)) (\<lambda>started_at.
     run_then (date_now (host_of st)) (\<lambda>t.
     let fire_at = next_whole_minute (fl (t + of_int (scheduleLeadMs config))) in
     run_then (live_domain_snapshot st LiveSchedule) (\<lambda>baseline.
     run_then (event st ''schedule_due_storm_isolation_started''
       [(''definitions'', jnat definitions), (''noisyFamily'', jnat 1), (''siblingFamily'', jnat 2), (''fireAtMs'', JNum fire_at),
        (''requestTimeoutMs'', jint (requestTimeoutMs config))]) (\<lambda>_.
     run_then (sign_token hmac st ''identity-a'' (schedule_due_storm_permissions (namespace shape))) (\<lambda>token.
     run_then (start_role_containers st label 1 storm_shape
       [(''DESTROYER_JWT'', token), (''DESTROYER_SCHEDULE_STORM_FIRE_AT_MS'', show_int \<lfloor>fire_at\<rfloor>),
        (''DESTROYER_SCHEDULE_STORM_OBSERVATION_MS'', show_int (phaseMs config)), (''DESTROYER_SCHEDULE_STORM_URL'', WEBSOCKET_URL)]) (\<lambda>role.
     run_then (wait_for_role_event st role ''schedule_due_storm_armed'') (\<lambda>_.
     run_then (sleep_until_time st (fl (fire_at + of_int (phaseMs config)))) (\<lambda>_.
     run_then (finish_role_containers st role label) (\<lambda>logs.
     run_then (of_result (try_in (worker_log logs (Error ''schedule due storm worker log was missing'' []))
        (\<lambda>l. required_event l ''schedule_due_storm_worker_complete''))) (\<lambda>evidence.
     run_then (of_result (assert_schedule_due_storm_evidence evidence)) (\<lambda>_.
     run_then (wait_for_live_domain_quiescence st LiveSchedule baseline label False) (\<lambda>calm.
     let cleaned = (''cleanup'', cleanup_json (sn_cleanup calm)) in
     run_then (artifact_write_json (host_of st) (label @ ''-evidence.json'') (JObj (spread evidence [cleaned]))) (\<lambda>_.
     run_then (elapsed_since (host_of st) started_at) (\<lambda>ms.
     event st ''schedule_due_storm_isolation_complete'' (spread evidence [cleaned, (''elapsedMs'', jint ms)]))))))))))))))))"

subsection \<open>Wire conformance\<close>

datatype wire_conformance_case = LeaseRouteAliasing | TcpPreauthFramingSlowloris | ConnectPipelineFamilyRebind

fun wire_case_name :: "wire_conformance_case \<Rightarrow> string" where
  "wire_case_name LeaseRouteAliasing = ''lease-route-aliasing''"
| "wire_case_name TcpPreauthFramingSlowloris = ''tcp-preauth-framing-slowloris''"
| "wire_case_name ConnectPipelineFamilyRebind = ''connect-pipeline-family-rebind''"

definition event_prefix :: "wire_conformance_case \<Rightarrow> string" where
  "event_prefix c = map (\<lambda>x. if x = CHR ''-'' then CHR ''_'' else x) (wire_case_name c)"

definition assert_wire_evidence :: "wire_conformance_case \<Rightarrow> json \<Rightarrow> string \<Rightarrow> unit result" where
  "assert_wire_evidence c r log_text =
     (case c of
        LeaseRouteAliasing \<Rightarrow>
          try_in (numeric_field r ''operations'') (\<lambda>operations.
          if operations \<noteq> 6 then Inl (Error ''Lease alias evidence did not reject all six operations'' [])
          else try_in (numeric_field r ''rejected'') (\<lambda>rejected.
          if rejected \<noteq> 6 then Inl (Error ''Lease alias evidence did not reject all six operations'' [])
          else try_in (numeric_field r ''canonicalPreserved'') (\<lambda>preserved.
            ensure (preserved = 6) (Error ''Lease alias evidence did not preserve all canonical leases'' []))))
      | TcpPreauthFramingSlowloris \<Rightarrow>
          try_in (numeric_field r ''socketsOpened'') (\<lambda>opened.
          try_in (numeric_field r ''socketsClosed'') (\<lambda>closed.
          if opened \<noteq> closed then Inl (Error ''pre-auth evidence did not close every held TCP socket'' [])
          else try_in (numeric_field r ''tcpCanary'') (\<lambda>tcp.
          if tcp \<noteq> 1 then Inl (Error ''pre-auth evidence is missing a transport canary'' [])
          else try_in (numeric_field r ''websocketCanary'') (\<lambda>ws.
            ensure (ws = 1) (Error ''pre-auth evidence is missing a transport canary'' [])))))
      | ConnectPipelineFamilyRebind \<Rightarrow>
          try_in (numeric_field r ''transports'') (\<lambda>transports.
          if transports \<noteq> 2 then Inl (Error ''pipeline did not exercise WS and TCP'' [])
          else try_in (numeric_field r ''accepted'') (\<lambda>accepted.
          try_in (numeric_field r ''rejected'') (\<lambda>rejected.
          if accepted + rejected \<noteq> 2 then Inl (Error ''pipeline evidence has an incomplete outcome count'' [])
          else let cases = filter (has_event ''connect_pipeline_family_rebind_case'') (parse_json_records log_text)
            in ensure (length cases = 2) (Error ''pipeline emitted $/2 transport cases'' [ANat (length cases)])))))"

definition run_wire_case :: "'o stack \<Rightarrow> run_config \<Rightarrow> workload_shape \<Rightarrow> wire_conformance_case \<Rightarrow> ('o, unit) action" where
  "run_wire_case st config shape c =
     (let name = wire_case_name c in
     run_then (performance_now (host_of st)) (\<lambda>started_at.
     run_then (event st ''wire_conformance_started'' [(''wireCase'', JStr name)]) (\<lambda>_.
     run_then (run_role st ''wire-conformance'' shape
       [(''DESTROYER_WIRE_CASE'', name), (''DESTROYER_WIRE_URL'', WEBSOCKET_URL),
        (''DESTROYER_REQUEST_TIMEOUT_MS'', show_int (requestTimeoutMs config)),
        (''DESTROYER_CLIENT_REPLICAS'', show_int (clientReplicas config))] (''wire-'' @ name)) (\<lambda>logs.
     run_then (of_result (worker_log logs (Error ''wire conformance log was missing for $'' [AStr name]))) (\<lambda>l.
     run_then (of_result (required_event l (event_prefix c @ ''_complete''))) (\<lambda>r.
     run_then (of_result (assert_wire_evidence c r l)) (\<lambda>_.
     let evidence = filter (\<lambda>(k, _). k \<noteq> ''event'') (case r of JObj m \<Rightarrow> m | _ \<Rightarrow> []) in
     report_evidence st started_at (name @ ''-evidence.json'') (event_prefix c @ ''_observed'') (JObj evidence) [])))))))"

subsection \<open>Authorization, hostile workers and global recovery\<close>

definition assert_authorization_isolation :: "nat \<Rightarrow> nat \<Rightarrow> unit result" where
  "assert_authorization_isolation own denied =
     ensure (own = 4 \<and> denied = 4) (Error ''Authorization isolation counts mismatch: own=$, denied=$'' [ANat own, ANat denied])"

definition authorization_action ::
  "'o stack \<Rightarrow> workload_shape \<Rightarrow> string \<Rightarrow> string \<Rightarrow> string \<Rightarrow> nat \<times> nat \<Rightarrow> ('o, nat \<times> nat) action" where
  "authorization_action st shape token identity act totals =
     run_then (run_role st ''authorization-isolation'' shape
       [(''DESTROYER_WORKER_ID'', last_chars 1 identity), (''DESTROYER_AUTH_ACTION'', act), (''DESTROYER_JWT'', token)]
       (''authorization-'' @ identity @ ''-'' @ act)) (\<lambda>logs.
     of_result (try_in (required_event (first_log logs) ''authorization_isolation_role_complete'') (\<lambda>r.
       try_in (numeric_field r ''ownRouteOperations'') (\<lambda>own.
       try_in (numeric_field r ''deniedOperations'') (\<lambda>denied.
       Inr (fst totals + own, snd totals + denied))))))"

definition authorization_identity ::
  "keyed_hash \<Rightarrow> 'o stack \<Rightarrow> workload_shape \<Rightarrow> string \<Rightarrow> nat \<times> nat \<Rightarrow> ('o, nat \<times> nat) action" where
  "authorization_identity hmac st shape identity totals =
     run_then (sign_token hmac st identity
       [''kv://'' @ namespace shape @ ''/**#read'', ''kv://'' @ namespace shape @ ''/**#write'']) (\<lambda>token.
     run_then (authorization_action st shape token identity ''write'' totals) (\<lambda>totals'.
     authorization_action st shape token identity ''verify'' totals'))"

definition run_authorization_isolation_scenario :: "keyed_hash \<Rightarrow> 'o stack \<Rightarrow> workload_shape \<Rightarrow> ('o, unit) action" where
  "run_authorization_isolation_scenario hmac st shape =
     run_then (performance_now (host_of st)) (\<lambda>started_at.
     run_then (authorization_identity hmac st shape ''identity-a'' (0, 0)) (\<lambda>totals.
     run_then (authorization_identity hmac st shape ''identity-b'' totals) (\<lambda>(own, denied).
     run_then (of_result (assert_authorization_isolation own denied)) (\<lambda>_.
     run_then (elapsed_since (host_of st) started_at) (\<lambda>ms.
     event st ''authorization_isolation_complete''
       [(''identities'', jnat 2), (''ownRouteOperations'', jnat own), (''deniedOperations'', jnat denied), (''elapsedMs'', jint ms)])))))"

definition assert_hostile_rpc_worker :: "nat \<times> nat \<Rightarrow> nat \<times> nat \<Rightarrow> nat \<Rightarrow> unit result" where
  "assert_hostile_rpc_worker returned threw probe_frames =
     ensure (returned = (1, 0) \<and> threw = (0, 1) \<and> probe_frames = 2)
       (Error ''Hostile RPC isolation failed: returned=$/$, thrown=$/$, probeFrames=$''
         [ANat (fst returned), ANat (snd returned), ANat (fst threw), ANat (snd threw), ANat probe_frames])"

definition run_hostile_phase :: "'o stack \<Rightarrow> workload_shape \<Rightarrow> string \<Rightarrow> ('o, nat \<times> nat) action" where
  "run_hostile_phase st shape behavior =
     (let phase_shape = shape\<lparr>namespace := namespace shape @ ''-'' @ behavior, entriesPerResource := 1\<rparr>;
          env = [(''DESTROYER_HOSTILE_RPC_BEHAVIOR'', behavior), (''DESTROYER_REQUEST_TIMEOUT_MS'', ''1500'')] in
     run_then (start_role_containers st ''hostile-rpc-worker'' 1 phase_shape env) (\<lambda>workers.
     run_then (wait_for_role_event st workers ''hostile_rpc_worker_ready'') (\<lambda>_.
     run_then (run_role st ''hostile-rpc-caller'' phase_shape env (''hostile-rpc-'' @ behavior @ ''-caller'')) (\<lambda>caller_logs.
     run_then (signal_role_containers st workers ''SIGTERM'') (\<lambda>_.
     run_then (finish_role_containers st workers (''hostile-rpc-'' @ behavior @ ''-worker'')) (\<lambda>_.
     of_result (try_in (required_event (first_log caller_logs) ''hostile_rpc_caller_complete'') (\<lambda>r.
       try_in (numeric_field r ''failures'') (\<lambda>failures.
       try_in (numeric_field r ''frames'') (\<lambda>frames. Inr (failures, frames)))))))))))"

definition run_hostile_rpc_worker_scenario :: "'o stack \<Rightarrow> workload_shape \<Rightarrow> ('o, unit) action" where
  "run_hostile_rpc_worker_scenario st shape =
     (let probe_shape = shape\<lparr>namespace := namespace shape @ ''-probe'', entriesPerResource := 1\<rparr> in
     run_then (performance_now (host_of st)) (\<lambda>started_at.
     run_then (live_domain_snapshot st LiveRpc) (\<lambda>baseline.
     run_then (run_hostile_phase st shape ''return-without-terminal'') (\<lambda>returned.
     run_then (run_hostile_phase st shape ''throw'') (\<lambda>threw.
     run_then (start_role_containers st ''rpc-worker'' 1 probe_shape []) (\<lambda>workers.
     run_then (wait_for_role_event st workers ''rpc_worker_ready'') (\<lambda>_.
     run_then (run_role st ''rpc-caller'' probe_shape [] ''hostile-rpc-probe-caller'') (\<lambda>caller_logs.
     run_then (signal_role_containers st workers ''SIGTERM'') (\<lambda>_.
     run_then (finish_role_containers st workers ''hostile-rpc-probe-worker'') (\<lambda>_.
     run_then (of_result (try_in (required_event (first_log caller_logs) ''rpc_caller_complete'')
       (\<lambda>probe. numeric_field probe ''responseFrames''))) (\<lambda>probe_frames.
     run_then (of_result (assert_hostile_rpc_worker returned threw probe_frames)) (\<lambda>_.
     run_then (wait_for_live_domain_quiescence st LiveRpc baseline ''hostile-rpc-worker'' True) (\<lambda>_.
     run_then (elapsed_since (host_of st) started_at) (\<lambda>ms.
     event st ''hostile_rpc_worker_complete''
       [(''returnWithoutTerminalFailures'', jnat (fst returned)), (''returnWithoutTerminalFrames'', jnat (snd returned)),
        (''thrownHandlerFailures'', jnat (fst threw)), (''thrownHandlerFrames'', jnat (snd threw)),
        (''probeFrames'', jnat probe_frames), (''elapsedMs'', jint ms)]))))))))))))))"

definition assert_stream_global_recovery :: "nat \<Rightarrow> nat \<Rightarrow> nat \<Rightarrow> nat \<Rightarrow> unit result" where
  "assert_stream_global_recovery loaded recovered pages expected =
     ensure (loaded = expected \<and> recovered = expected \<and> 1 \<le> pages)
       (Error ''Global Stream recovery mismatch: loaded=$, recovered=$, pages=$, expected=$''
         [ANat loaded, ANat recovered, ANat pages, ANat expected])"

definition run_stream_global_recovery_scenario :: "'o stack \<Rightarrow> workload_shape \<Rightarrow> ('o, unit) action" where
  "run_stream_global_recovery_scenario st shape =
     (let operations = max 4 (resources shape * entriesPerResource shape);
          role_shape = shape\<lparr>entriesPerResource := operations\<rparr> in
     run_then (performance_now (host_of st)) (\<lambda>started_at.
     run_then (run_role st ''stream-global-recovery'' role_shape [(''DESTROYER_STREAM_GLOBAL_ACTION'', ''load'')] ''stream-global-load'') (\<lambda>load_logs.
     run_then (of_result (try_in (required_event (first_log load_logs) ''stream_global_load_complete'')
       (\<lambda>r. numeric_field r ''records''))) (\<lambda>loaded.
     run_then (discard_fitz_cache_and_restart st) (\<lambda>_.
     run_then (run_role st ''stream-global-recovery'' role_shape [(''DESTROYER_STREAM_GLOBAL_ACTION'', ''verify'')] ''stream-global-verify'') (\<lambda>verify_logs.
     run_then (of_result (required_event (first_log verify_logs) ''stream_global_verify_complete'')) (\<lambda>r.
     run_then (of_result (numeric_field r ''records'')) (\<lambda>recovered.
     run_then (of_result (numeric_field r ''pages'')) (\<lambda>pages.
     run_then (of_result (assert_stream_global_recovery loaded recovered pages operations)) (\<lambda>_.
     run_then (elapsed_since (host_of st) started_at) (\<lambda>ms.
     event st ''stream_global_recovery_complete''
       [(''loaded'', jnat loaded), (''recovered'', jnat recovered), (''pages'', jnat pages), (''elapsedMs'', jint ms)])))))))))))"

subsection \<open>Evidence files\<close>

text \<open>The evidence files and the counts that each of them has to hold.\<close>

definition EVIDENCE_FILES :: "(string \<times> (string \<times> nat) list) list" where
  "EVIDENCE_FILES =
     [(''rpc-response-state-conformance-evidence.json'', RPC_RESPONSE_STATE_COUNTS),
      (''response-envelope-boundaries-evidence.json'', RESPONSE_ENVELOPE_COUNTS),
      (''stream-selector-cursor-conformance-evidence.json'', STREAM_SELECTOR_COUNTS),
      (''wildcard-registration-quota-reclamation-evidence.json'', WILDCARD_COUNTS),
      (''lease-waiter-disconnect-races-evidence.json'', LEASE_WAITER_COUNTS),
      (''family-actor-partial-failure-isolation-evidence.json'', PARTIAL_FAILURE_COUNTS)]"

definition exact_evidence_file :: "os_call \<Rightarrow> bool" where
  "exact_evidence_file c =
     (case c of
        JsonWritten name v \<Rightarrow> (case map_get EVIDENCE_FILES name of Some counts \<Rightarrow> exact_counts counts v | None \<Rightarrow> True)
      | _ \<Rightarrow> True)"

interpretation evidence_files: quiet_stack "map fst EVIDENCE_FILES" exact_evidence_file
proof
  show "\<not> reports_under (map fst EVIDENCE_FILES) c \<Longrightarrow> exact_evidence_file c" for c
    by (cases c) (force simp: exact_evidence_file_def dest!: map_get_Some_in split: option.split)+
  show "list_all (\<lambda>n. n \<notin> set STACK_REPORTS) (map fst EVIDENCE_FILES)"
    by (simp add: EVIDENCE_FILES_def STACK_REPORTS_def)
qed

lemma map_get_map: "map_get (map (\<lambda>(k, v). (k, g v)) m) k = map_option g (map_get m k)"
  by (induction m) auto

lemma counts_object:
  "compare_counts counts found = Inr u \<Longrightarrow> exact_counts counts (JObj (map (\<lambda>(f, n). (f, jnat n)) found))"
  by (auto simp: compare_counts_ok exact_counts_def list_all_iff map_get_map)

lemma any_event:
  "only_calls exact_evidence_file (event st n es)"
  unfolding event_def artifact_event_def read_clock_def
  by (intro calls_intros only_calls_effect) (simp_all add: exact_evidence_file_def)

lemma report_evidence_calls:
  assumes "map_get EVIDENCE_FILES file = Some counts" "exact_counts counts evidence"
  shows "only_calls exact_evidence_file (report_evidence st started_at file done evidence extra)"
  unfolding report_evidence_def artifact_write_json_def
  by (intro calls_intros only_calls_effect any_event) (simp add: exact_evidence_file_def assms)

lemma worker_record_calls [calls_intros]:
  "only_calls exact_evidence_file (worker_record st role shape env missing closing)"
  unfolding worker_record_def run_role_def by (intro calls_intros)

lemmas checked_worker = only_calls_of_result_then calls_intros any_event report_evidence_calls

text \<open>
  C27.  The conformance scenarios write their evidence files only with every expected count, whatever
  the containers log.
\<close>
theorem evidence_files_exact:
  "(\<exists>cs. calls (snd (run_rpc_response_state_conformance_scenario st shape w)) = calls w @ cs \<and> list_all exact_evidence_file cs) \<and>
   (\<exists>cs. calls (snd (run_response_envelope_boundaries_scenario st shape w)) = calls w @ cs \<and> list_all exact_evidence_file cs) \<and>
   (\<exists>cs. calls (snd (run_stream_selector_cursor_conformance_scenario st shape w)) = calls w @ cs \<and> list_all exact_evidence_file cs) \<and>
   (\<exists>cs. calls (snd (run_wildcard_registration_quota_reclamation_scenario st shape w)) = calls w @ cs \<and> list_all exact_evidence_file cs) \<and>
   (\<exists>cs. calls (snd (run_lease_waiter_disconnect_races_scenario st shape w)) = calls w @ cs \<and> list_all exact_evidence_file cs) \<and>
   (\<exists>cs. calls (snd (run_family_actor_partial_failure_isolation_scenario hmac st config shape w)) = calls w @ cs \<and>
      list_all exact_evidence_file cs)"
proof -
  note checks = stream_selector.exact wildcard_quota.exact lease_waiter.exact partial_failure.exact
  have "only_calls exact_evidence_file (run_rpc_response_state_conformance_scenario st shape)"
    unfolding run_rpc_response_state_conformance_scenario_def
    by (intro checked_worker) (auto simp: EVIDENCE_FILES_def assert_rpc_response_state_evidence_def result_simps intro!: counts_object)
  moreover have "only_calls exact_evidence_file (run_response_envelope_boundaries_scenario st shape)"
    unfolding run_response_envelope_boundaries_scenario_def
    by (intro checked_worker) (auto simp: EVIDENCE_FILES_def ensure_eq_Inr RESPONSE_ENVELOPE_COUNTS_def exact_counts_def)
  moreover have "only_calls exact_evidence_file (run_stream_selector_cursor_conformance_scenario st shape)"
    unfolding run_stream_selector_cursor_conformance_scenario_def
    by (intro checked_worker) (auto simp: EVIDENCE_FILES_def checks exact_counts_def)
  moreover have "only_calls exact_evidence_file (run_wildcard_registration_quota_reclamation_scenario st shape)"
    unfolding run_wildcard_registration_quota_reclamation_scenario_def
    by (intro checked_worker) (auto simp: EVIDENCE_FILES_def checks exact_counts_def)
  moreover have "only_calls exact_evidence_file (run_lease_waiter_disconnect_races_scenario st shape)"
    unfolding run_lease_waiter_disconnect_races_scenario_def
    by (intro checked_worker) (auto simp: EVIDENCE_FILES_def checks exact_counts_def)
  moreover have "only_calls exact_evidence_file (run_family_actor_partial_failure_isolation_scenario hmac st config shape)"
    unfolding run_family_actor_partial_failure_isolation_scenario_def sign_token_def
    by (intro checked_worker) (auto simp: EVIDENCE_FILES_def checks exact_counts_def)
  ultimately show ?thesis unfolding only_calls_def by blast
qed

subsection \<open>The name of the closing event\<close>

text \<open>
  The worker's record has an \<^verbatim>\<open>event\<close> entry of its own, and \<^verbatim>\<open>{ timestamp, event, ...fields }\<close> lets it
  replace the name of the event that the scenario appends.
\<close>

definition loses_its_name :: "string \<Rightarrow> os_call \<Rightarrow> bool" where
  "loses_its_name done c =
     (case c of
        EventAppended name es \<Rightarrow> name = done \<longrightarrow> (\<forall>stamp. \<not> has_event done (event_record stamp name es))
      | _ \<Rightarrow> True)"

lemma map_get_fold_set:
  "map_get (foldl (\<lambda>m (k, v). map_set m k v) m es) k = (case map_get (rev es) k of Some v \<Rightarrow> Some v | None \<Rightarrow> map_get m k)"
  by (induction es arbitrary: m rule: rev_induct) (auto simp: map_get_set split: option.split)

lemma distinct_fold_set: "distinct (map_keys m) \<Longrightarrow> distinct (map_keys (foldl (\<lambda>m (k, v). map_set m k v) m es))"
  by (induction es arbitrary: m) (auto simp: map_keys_set)

lemma map_get_rev: "distinct (map_keys es) \<Longrightarrow> map_get (rev es) k = map_get es k"
proof -
  assume d: "distinct (map_keys es)"
  have "map_of (rev es) k = Some v \<longleftrightarrow> map_of es k = Some v" for v
    using d by (simp add: map_keys_def map_of_eq_Some_iff rev_map [symmetric])
  then show ?thesis unfolding map_get_eq by (metis not_Some_eq)
qed

lemma parsed_object_distinct: "parse_value n s = Some (JObj m, rest) \<Longrightarrow> distinct (map_keys m)"
proof (cases n)
  case (Suc k)
  assume "parse_value n s = Some (JObj m, rest)"
  then show ?thesis
    unfolding Suc
    by (auto simp: parse_number_def parse_unsigned_def parse_literal_def map_keys_def distinct_fold_set [of "[]", unfolded map_keys_def]
        split: list.splits if_split_asm option.splits prod.splits)
qed simp

lemma required_event_object:
  assumes "required_event l name = Inr r"
  obtains m where "r = JObj m" "distinct (map_keys m)" "map_get m ''event'' = Some (JStr name)"
proof -
  from assms have r: "r \<in> set (parse_json_records l)" "json_get r ''event'' = Some (JStr name)"
    by (auto dest!: required_event_ok simp: has_event_def)
  obtain m where m: "r = JObj m" using r(2) json_get_Some by blast
  with r(2) have e: "map_get m ''event'' = Some (JStr name)" by simp
  from r(1) obtain line where "record_of_line line = Some r" by (auto simp: parse_json_records_def map_filter_def)
  then obtain s where "parse_json s = Some r" unfolding record_of_line_def by (fastforce split: option.splits if_splits)
  then obtain n rest where "parse_value n (skip_space s) = Some (JObj m, rest)"
    unfolding parse_json_def m by (fastforce split: option.splits if_splits prod.splits simp del: parse_value.simps)
  then have "distinct (map_keys m)" by (rule parsed_object_distinct)
  then show thesis by (rule that [OF m _ e])
qed

lemma spread_keeps_name:
  assumes "distinct (map_keys m)" "map_get m ''event'' = Some (JStr closing)" "map_get (rev extra) ''event'' = None" "closing \<noteq> done"
  shows "\<not> has_event done (event_record stamp done (spread (JObj m) extra))"
proof -
  have "distinct (map_keys (spread (JObj m) extra))" using assms(1) by (simp add: spread_def distinct_fold_set)
  moreover have "map_get (spread (JObj m) extra) ''event'' = Some (JStr closing)"
    using assms(2,3) by (simp add: spread_def map_get_fold_set)
  ultimately show ?thesis
    using assms(4) by (simp add: event_record_def has_event_def map_get_fold_set map_get_rev)
qed

definition RENAMED_EVENTS :: "string list" where
  "RENAMED_EVENTS =
     [''stream_selector_cursor_conformance_complete'', ''wildcard_registration_quota_reclamation_complete'',
      ''lease_waiter_disconnect_races_complete'', ''family_actor_partial_failure_isolation_complete'',
      ''same_shard_family_failure_isolation_complete'', ''same_shard_family_fairness_complete'',
      ''schedule_due_storm_isolation_complete'']"

definition renamed_event :: "os_call \<Rightarrow> bool" where
  "renamed_event c = list_all (\<lambda>done. loses_its_name done c) RENAMED_EVENTS"

interpretation renamed: quiet_stack RENAMED_EVENTS renamed_event
proof
  show "\<not> reports_under RENAMED_EVENTS c \<Longrightarrow> renamed_event c" for c
    by (cases c) (auto simp: renamed_event_def loses_its_name_def list_all_iff)
  show "list_all (\<lambda>n. n \<notin> set STACK_REPORTS) RENAMED_EVENTS"
    by (simp add: RENAMED_EVENTS_def STACK_REPORTS_def)
qed

lemma renamed_json: "only_calls renamed_event (artifact_write_json h n v)"
  unfolding artifact_write_json_def
  by (intro only_calls_effect) (simp add: renamed_event_def loses_its_name_def list_all_iff)

lemma renamed_closing:
  assumes "required_event l closing = Inr evidence" "closing \<notin> set RENAMED_EVENTS" "map_get (rev extra) ''event'' = None"
  shows "only_calls renamed_event (event st done (spread evidence extra))"
proof -
  obtain m where m: "evidence = JObj m" "distinct (map_keys m)" "map_get m ''event'' = Some (JStr closing)"
    using assms(1) by (rule required_event_object)
  have "renamed_event (EventAppended done (spread evidence extra))"
    unfolding renamed_event_def loses_its_name_def list_all_iff os_call.case m(1)
  proof (intro ballI impI allI)
    fix done' stamp assume "done' \<in> set RENAMED_EVENTS" "done = done'"
    then show "\<not> has_event done' (event_record stamp done (spread (JObj m) extra))"
      using spread_keeps_name [OF m(2,3) assms(3), of "done"] assms(2) by auto
  qed
  then show ?thesis
    unfolding event_def artifact_event_def read_clock_def
    by (intro calls_intros only_calls_effect) (simp_all add: renamed_event_def loses_its_name_def list_all_iff)
qed

lemma renamed_logged:
  assumes "try_in (worker_log logs e) (\<lambda>l. required_event l closing) = Inr evidence" "closing \<notin> set RENAMED_EVENTS"
    and "map_get (rev extra) ''event'' = None"
  shows "only_calls renamed_event (event st done (spread evidence extra))"
proof -
  from assms(1) obtain l where "required_event l closing = Inr evidence" by (auto simp: result_simps)
  then show ?thesis using assms(2,3) by (rule renamed_closing)
qed

lemma run_then_assoc: "run_then (run_then m f) k = run_then m (\<lambda>x. run_then (f x) k)"
  by (rule ext) (simp add: run_then_def split: prod.splits sum.splits)

lemma worker_record_then:
  assumes "only_calls P (run_role st role shape env role)" and "\<And>l r. required_event l closing = Inr r \<Longrightarrow> only_calls P (k r)"
  shows "only_calls P (run_then (worker_record st role shape env missing closing) k)"
  unfolding worker_record_def run_then_assoc
proof (rule only_calls_run_then [OF assms(1)], rule only_calls_of_result_then)
  fix logs r assume "try_in (worker_log logs (Error missing [])) (\<lambda>l. required_event l closing) = Inr r"
  then show "only_calls P (k r)" by (auto simp: result_simps intro: assms(2))
qed

lemma renamed_report:
  assumes "required_event l closing = Inr evidence" "closing \<notin> set RENAMED_EVENTS"
    and "''event'' \<notin> fst ` set extra"
  shows "only_calls renamed_event (report_evidence st started_at file done evidence extra)"
proof -
  have "map_get (rev ([(''elapsedMs'', jint ms)] @ extra)) ''event'' = None" for ms
    using assms(3) by (simp add: map_get_eq map_of_eq_None_iff)
  then show ?thesis
    unfolding report_evidence_def
    by (intro calls_intros renamed_json renamed_closing [OF assms(1,2)])
qed

lemma run_role_renamed: "only_calls renamed_event (run_role st role shape env label)"
  unfolding run_role_def by (intro calls_intros)

lemmas renamed_worker = only_calls_of_result_then worker_record_then run_role_renamed calls_intros

text \<open>The names that the guidance looks up for the wire scenarios.\<close>

definition WIRE_COMPLETIONS :: "string list" where
  "WIRE_COMPLETIONS = map (\<lambda>c. event_prefix c @ ''_complete'')
     [LeaseRouteAliasing, TcpPreauthFramingSlowloris, ConnectPipelineFamilyRebind]"

definition not_wire_completion :: "os_call \<Rightarrow> bool" where
  "not_wire_completion c = (case c of EventAppended name _ \<Rightarrow> name \<notin> set WIRE_COMPLETIONS | _ \<Rightarrow> True)"

interpretation wire_calls: quiet_stack WIRE_COMPLETIONS not_wire_completion
proof
  show "\<not> reports_under WIRE_COMPLETIONS c \<Longrightarrow> not_wire_completion c" for c
    by (cases c) (auto simp: not_wire_completion_def)
  show "list_all (\<lambda>n. n \<notin> set STACK_REPORTS) WIRE_COMPLETIONS"
    by (simp add: WIRE_COMPLETIONS_def STACK_REPORTS_def event_prefix_def)
qed

lemma wire_json: "only_calls not_wire_completion (artifact_write_json h n v)"
  unfolding artifact_write_json_def by (intro only_calls_effect) (simp add: not_wire_completion_def)

text \<open>
  Ten scenarios leave no closing event of the name that the operational guidance looks up for them:
  seven append the record of their completion under the name of the worker's closing event, and
  the wire scenarios append an event of another name.
\<close>
lemma completion_event_renamed:
  "(\<exists>cs. calls (snd (run_stream_selector_cursor_conformance_scenario st shape w)) = calls w @ cs \<and> list_all renamed_event cs) \<and>
   (\<exists>cs. calls (snd (run_wildcard_registration_quota_reclamation_scenario st shape w)) = calls w @ cs \<and> list_all renamed_event cs) \<and>
   (\<exists>cs. calls (snd (run_lease_waiter_disconnect_races_scenario st shape w)) = calls w @ cs \<and> list_all renamed_event cs) \<and>
   (\<exists>cs. calls (snd (run_family_actor_partial_failure_isolation_scenario hmac st config shape w)) = calls w @ cs \<and>
      list_all renamed_event cs) \<and>
   (\<exists>cs. calls (snd (run_same_shard_family_failure_isolation_scenario hmac st config shape w)) = calls w @ cs \<and>
      list_all renamed_event cs) \<and>
   (\<exists>cs. calls (snd (run_same_shard_family_fairness_scenario hmac st config shape w)) = calls w @ cs \<and>
      list_all renamed_event cs) \<and>
   (\<exists>cs. calls (snd (run_schedule_due_storm_isolation_scenario hmac st config shape w)) = calls w @ cs \<and>
      list_all renamed_event cs) \<and>
   (\<exists>cs. calls (snd (run_wire_case st config shape c w)) = calls w @ cs \<and> list_all not_wire_completion cs)"
proof -
  note defs = sign_token_def timeout_entry_def RENAMED_EVENTS_def
  have "only_calls renamed_event (run_stream_selector_cursor_conformance_scenario st shape)"
    unfolding run_stream_selector_cursor_conformance_scenario_def
    by (intro renamed_worker renamed_report) (assumption | simp add: defs)+
  moreover have "only_calls renamed_event (run_wildcard_registration_quota_reclamation_scenario st shape)"
    unfolding run_wildcard_registration_quota_reclamation_scenario_def
    by (intro renamed_worker renamed_report) (assumption | simp add: defs)+
  moreover have "only_calls renamed_event (run_lease_waiter_disconnect_races_scenario st shape)"
    unfolding run_lease_waiter_disconnect_races_scenario_def
    by (intro renamed_worker renamed_report) (assumption | simp add: defs)+
  moreover have "only_calls renamed_event (run_family_actor_partial_failure_isolation_scenario hmac st config shape)"
    unfolding run_family_actor_partial_failure_isolation_scenario_def sign_token_def
    by (intro renamed_worker renamed_report) (assumption | simp add: defs)+
  moreover have "only_calls renamed_event (run_same_shard_family_failure_isolation_scenario hmac st config shape)"
    unfolding run_same_shard_family_failure_isolation_scenario_def sign_token_def
    by (intro renamed_worker renamed_report) (assumption | simp add: defs)+
  moreover have "only_calls renamed_event (run_same_shard_family_fairness_scenario hmac st config shape)"
    unfolding run_same_shard_family_fairness_scenario_def sign_token_def
    by (intro renamed_worker renamed_report) (assumption | simp add: defs)+
  moreover have "only_calls renamed_event (run_schedule_due_storm_isolation_scenario hmac st config shape)"
    unfolding run_schedule_due_storm_isolation_scenario_def sign_token_def sleep_until_time_def Let_def
    by (intro only_calls_of_result_then calls_intros renamed.calls_event renamed_json renamed_logged)
      (assumption | simp add: defs)+
  moreover have "only_calls not_wire_completion (run_wire_case st config shape c)"
    unfolding run_wire_case_def report_evidence_def run_role_def Let_def
    by (intro calls_intros wire_calls.calls_event wire_json) (cases c; simp add: WIRE_COMPLETIONS_def event_prefix_def)+
  ultimately show ?thesis unfolding only_calls_def by blast
qed

end
