(* ===== verification/SessionScenarios.thy ===== *)
theory SessionScenarios
  imports ConformanceScenarios
begin

text \<open>
  The scenarios around lost sessions, provider outages and replaced brokers:
  src/orchestration/session-boundaries.ts, half-open-session.ts, outbound-blackhole.ts, broker-pause.ts,
  response-loss.ts, cold-boot-provider-outage.ts, upgrade-recovery.ts, cross-transport-recovery.ts,
  route-cardinality-churn.ts, cache-and-disk-exhaustion.ts, active-graceful-shutdown.ts and
  saturated-slow-recipient-isolation.ts.
\<close>

subsection \<open>Session boundaries\<close>

definition RESTART_BOUNDARY_COUNTS :: "(string \<times> nat) list" where
  "RESTART_BOUNDARY_COUNTS =
     [(''staleRejections'', 4), (''queueRedelivered'', 1), (''queueCompleted'', 1), (''kvCommittedValues'', 1),
      (''kvUncommittedValues'', 0), (''streamCommittedRecords'', 1), (''streamUncommittedRecords'', 0), (''leaseReacquired'', 1)]"

definition assert_restart_boundary :: "json \<Rightarrow> unit result" where
  "assert_restart_boundary r =
     try_in (for_each (assert_count r) RESTART_BOUNDARY_COUNTS) (\<lambda>_.
     ensure (json_get r ''leaseHeldAfterRestart'' = Some (JBool False)) (Error ''Lease was still held after broker restart'' []))"

definition run_session_boundaries_scenario :: "'o stack \<Rightarrow> workload_shape \<Rightarrow> ('o, unit) action" where
  "run_session_boundaries_scenario st shape =
     run_then (performance_now (host_of st)) (\<lambda>started_at.
     run_then (event st ''session_boundaries_started''
       [(''fault'', JStr ''fitz-sigkill''),
        (''assertions'', jstrs [''stale handles reject'', ''Queue inflight redelivers'', ''KV uncommitted writes roll back'',
           ''Stream uncommitted appends abort'', ''Lease ownership is released''])]) (\<lambda>_.
     run_then (start_role_containers st ''session-boundaries'' 1 shape [(''DESTROYER_SEED'', show_nat (seed shape))]) (\<lambda>holders.
     run_then (steps [wait_for_role_event st holders ''session_boundaries_armed'', kill_fitz st, restart_fitz st]) (\<lambda>_.
     run_then (finish_role_containers st holders ''session-boundaries'') (\<lambda>logs.
     run_then (of_result (try_in (worker_log logs (Error ''Session-boundary worker log is missing'' []))
       (\<lambda>l. required_event l ''session_boundaries_complete''))) (\<lambda>r.
     run_then (of_result (assert_restart_boundary r)) (\<lambda>_.
     run_then (elapsed_since (host_of st) started_at) (\<lambda>ms.
     event st ''session_boundaries_complete''
       [(''staleRejections'', jnat 4), (''queueRedelivered'', jnat 1), (''queueCompleted'', jnat 1), (''kvUncommittedValues'', jnat 0),
        (''streamUncommittedRecords'', jnat 0), (''leaseReacquired'', jnat 1), (''elapsedMs'', jint ms)]))))))))"

definition PROXIED_URL :: string where
  "PROXIED_URL = ''ws://client-proxy:4090/ws''"

definition heal_client_proxy :: "'o stack \<Rightarrow> ('o, unit) action" where
  "heal_client_proxy st = ignore_failure (set_fault_proxy st ''client-proxy'' Healthy)"

definition run_half_open_session_scenario :: "'o stack \<Rightarrow> workload_shape \<Rightarrow> ('o, unit) action" where
  "run_half_open_session_scenario st shape =
     run_then (performance_now (host_of st)) (\<lambda>started_at.
     run_then (event st ''half_open_session_started''
       [(''fault'', JStr ''bidirectional-silent-blackhole''), (''detection'', JStr ''client-heartbeat''),
        (''assertions'', jstrs [''stale handles reject'', ''Queue inflight redelivers'',
           ''KV and Stream uncommitted state is discarded'', ''Lease ownership is released''])]) (\<lambda>_.
     run_then (start_role_containers st ''session-boundaries'' 1 shape
       [(''FITZ_URL'', PROXIED_URL), (''DESTROYER_SEED'', show_nat (seed shape))]) (\<lambda>holder.
     run_then (wait_for_role_event st holder ''session_boundaries_armed'') (\<lambda>_.
     run_then (try_finally
       (steps [set_fault_proxy st ''client-proxy'' Blackhole, wait_for_role_event st holder ''session_boundaries_disconnect_observed''])
       (heal_client_proxy st)) (\<lambda>_.
     run_then (finish_role_containers st holder ''half-open-session'') (\<lambda>logs.
     run_then (of_result (try_in (worker_log logs (Error ''Half-open session worker log was missing'' []))
       assert_session_boundary_evidence)) (\<lambda>r.
     run_then (of_result (numeric_field r ''staleRejections'')) (\<lambda>stale.
     run_then (of_result (numeric_field r ''queueRedelivered'')) (\<lambda>redelivered.
     run_then (of_result (numeric_field r ''leaseReacquired'')) (\<lambda>reacquired.
     run_then (elapsed_since (host_of st) started_at) (\<lambda>ms.
     event st ''half_open_session_complete''
       [(''staleRejections'', jnat stale), (''queueRedelivered'', jnat redelivered), (''leaseReacquired'', jnat reacquired),
        (''elapsedMs'', jint ms)])))))))))))"

definition run_outbound_blackhole_scenario :: "'o stack \<Rightarrow> workload_shape \<Rightarrow> ('o, unit) action" where
  "run_outbound_blackhole_scenario st shape =
     run_then (performance_now (host_of st)) (\<lambda>started_at.
     run_then (start_role_containers st ''session-boundaries'' 1 shape
       [(''FITZ_URL'', PROXIED_URL), (''DESTROYER_SEED'', show_nat (seed shape))]) (\<lambda>holder.
     run_then (wait_for_role_event st holder ''session_boundaries_armed'') (\<lambda>_.
     run_then (try_finally
       (steps [set_fault_proxy st ''client-proxy'' DownstreamDrop,
         wait_for_role_event st holder ''session_boundaries_disconnect_observed''])
       (heal_client_proxy st)) (\<lambda>_.
     run_then (finish_role_containers st holder ''outbound-blackhole'') (\<lambda>logs.
     run_then (of_result (try_in (worker_log logs (Error ''Outbound blackhole worker log was missing'' []))
       assert_session_boundary_evidence)) (\<lambda>_.
     run_then (elapsed_since (host_of st) started_at) (\<lambda>ms.
     event st ''outbound_blackhole_complete''
       [(''staleRejections'', jnat 4), (''queueRedelivered'', jnat 1), (''leaseReacquired'', jnat 1), (''elapsedMs'', jint ms)])))))))"

definition run_broker_pause_scenario :: "'o stack \<Rightarrow> workload_shape \<Rightarrow> ('o, unit) action" where
  "run_broker_pause_scenario st shape =
     run_then (performance_now (host_of st)) (\<lambda>started_at.
     run_then (start_role_containers st ''session-boundaries'' 1 shape [(''DESTROYER_SEED'', show_nat (seed shape))]) (\<lambda>holder.
     run_then (wait_for_role_event st holder ''session_boundaries_armed'') (\<lambda>_.
     run_then (performance_now (host_of st)) (\<lambda>paused_at.
     run_then (try_finally
       (steps [pause_fitz st, wait_for_role_event st holder ''session_boundaries_disconnect_observed''])
       (unpause_fitz st)) (\<lambda>_.
     run_then (elapsed_since (host_of st) paused_at) (\<lambda>paused_ms.
     run_then (wait_ready st) (\<lambda>_.
     run_then (finish_role_containers st holder ''broker-pause'') (\<lambda>logs.
     run_then (of_result (try_in (worker_log logs (Error ''Broker pause worker log was missing'' []))
       assert_session_boundary_evidence)) (\<lambda>_.
     run_then (elapsed_since (host_of st) started_at) (\<lambda>ms.
     event st ''broker_pause_complete''
       [(''pausedMs'', jint paused_ms), (''staleRejections'', jnat 4), (''queueRedelivered'', jnat 1), (''leaseReacquired'', jnat 1),
        (''elapsedMs'', jint ms)]))))))))))"

subsection \<open>Lost responses\<close>

definition count_sequence_one :: "(durable_entry \<Rightarrow> nat list) \<Rightarrow> domain_ledger \<Rightarrow> nat" where
  "count_sequence_one field l =
     sum_list (map (\<lambda>d. if 1 \<in> set (field (get_or empty_entry (map_get l d))) then 1 else 0) DURABLE_DOMAINS)"

definition check_response_loss :: "domain_ledger \<Rightarrow> (nat \<times> nat) result" where
  "check_response_loss l =
     try_in (assert_durability_ledger l 1) (\<lambda>_.
     let acknowledged = count_sequence_one de_acknowledged l; observed = count_sequence_one de_observed l in
     if acknowledged \<noteq> 0 then Inl (Error ''$ operations received replies during response loss'' [ANat acknowledged])
     else if observed = 0 then Inl (Error ''Response loss did not produce an ambiguous durable outcome to reconcile'' [])
     else Inr (acknowledged, observed))"

definition run_response_loss_scenario :: "'o stack \<Rightarrow> workload_shape \<Rightarrow> ('o, unit) action" where
  "run_response_loss_scenario st shape =
     (let env = [(''DESTROYER_SEED'', show_nat (seed shape)), (''DESTROYER_DURABILITY_ITERATIONS'', ''1'')] in
     run_then (performance_now (host_of st)) (\<lambda>started_at.
     run_then (event st ''response_loss_started''
       [(''domains'', jstrs (map domain_name DURABLE_DOMAINS)), (''fault'', JStr ''broker-to-client-response-drop'')]) (\<lambda>_.
     run_then (run_role st ''durability-writer'' shape (cut_environment env ''baseline'' 0) ''response-loss-baseline'') (\<lambda>baseline_logs.
     run_then (start_role_containers st ''durability-writer'' 1 shape
       (env @ [(''FITZ_URL'', PROXIED_URL), (''DESTROYER_DURABILITY_ACTION'', ''cut''), (''DESTROYER_DURABILITY_SEQUENCE'', ''1''),
         (''DESTROYER_REQUEST_TIMEOUT_MS'', ''1000''), (''DESTROYER_WAIT_FOR_START_SIGNAL'', ''true'')])) (\<lambda>cut.
     run_then (wait_for_role_event st cut ''live_producer_ready'') (\<lambda>_.
     run_then (try_finally
       (run_then (steps [set_fault_proxy st ''client-proxy'' DownstreamDrop, signal_role_containers st cut ''SIGUSR1'',
          wait_for_role_event st cut ''durability_operations_dispatched'']) (\<lambda>_.
        finish_role_containers st cut ''response-loss-cut''))
       (heal_client_proxy st)) (\<lambda>cut_logs.
     run_then (run_role st ''durability-verifier'' shape (env @ [(''DESTROYER_DURABILITY_SEQUENCE'', ''0'')]) ''response-loss-verify'') (\<lambda>verify_logs.
     run_then (of_result (analyze_durability_ledger baseline_logs cut_logs verify_logs)) (\<lambda>ledger.
     run_then (of_result (check_response_loss ledger)) (\<lambda>(acknowledged, observed).
     run_then (artifact_write_json (host_of st) ''response-loss-ledger.json'' (ledger_json ledger)) (\<lambda>_.
     run_then (elapsed_since (host_of st) started_at) (\<lambda>ms.
     event st ''response_loss_complete''
       [(''attempted'', jnat (length DURABLE_DOMAINS)), (''acknowledgedAfterDrop'', jnat acknowledged),
        (''observedAfterDrop'', jnat observed), (''elapsedMs'', jint ms)]))))))))))))"

subsection \<open>Cold boot, upgrade and transports\<close>

definition assert_cold_boot_observation :: "nat list \<Rightarrow> unit result" where
  "assert_cold_boot_observation observations =
     try_in (ensure (observations \<noteq> []) (Error ''Cold-boot outage produced no readiness evidence'' [])) (\<lambda>_.
     let ready = length (filter (\<lambda>status. status = 200) observations) in
     ensure (\<not> 0 < ready) (Error ''Fitz reported ready $ times while its provider was unavailable'' [ANat ready]))"

definition ready_status :: "'o stack \<Rightarrow> string \<Rightarrow> int \<Rightarrow> ('o, nat) action" where
  "ready_status st url timeout_ms =
     try_catch (run_then (fetch_get (host_of st) url timeout_ms) (\<lambda>r. ret (resp_status r))) (\<lambda>_. ret 0)"

definition observe_unready :: "'o stack \<Rightarrow> string \<Rightarrow> int \<Rightarrow> ('o, nat list) action" where
  "observe_unready st url duration_ms =
     run_then (deadline_in st duration_ms) (\<lambda>deadline.
     poll (fuel st)
       (\<lambda>statuses. run_then (date_now (host_of st)) (\<lambda>t.
          if \<not> t < deadline then ret (Inr statuses)
          else run_then (ready_status st url 500) (\<lambda>s.
               run_then (sleep (host_of st) 200) (\<lambda>_. ret (Inl (statuses @ [s])))))) [])"

definition run_cold_boot_provider_outage_scenario :: "'o stack \<Rightarrow> run_config \<Rightarrow> workload_shape \<Rightarrow> ('o, unit) action" where
  "run_cold_boot_provider_outage_scenario st config shape =
     run_then (performance_now (host_of st)) (\<lambda>started_at.
     run_then (steps [run_recovery_job st ''load'' shape ''ws'', stop_fitz st, set_fault_proxy st ''storage-proxy'' Partition]) (\<lambda>_.
     run_then (try_finally
       (run_then (start_fitz st) (\<lambda>_.
        run_then (observe_unready st (''http://127.0.0.1:'' @ show_int (port config) @ ''/readyz'')
          (max 1000 (min (phaseMs config) 5000))) (\<lambda>observations.
        run_then (of_result (assert_cold_boot_observation observations)) (\<lambda>_. ret observations))))
       (set_fault_proxy st ''storage-proxy'' Healthy)) (\<lambda>observations.
     run_then (performance_now (host_of st)) (\<lambda>recovery_started_at.
     run_then (steps [restart_fitz st, run_recovery_job st ''verify'' shape ''ws'']) (\<lambda>_.
     run_then (elapsed_since (host_of st) recovery_started_at) (\<lambda>recovery_ms.
     run_then (elapsed_since (host_of st) started_at) (\<lambda>ms.
     event st ''cold_boot_provider_outage_complete''
       [(''readinessChecks'', jnat (length observations)),
        (''readyResponsesDuringOutage'', jnat (length (filter (\<lambda>status. status = 200) observations))),
        (''recoveryMs'', jint recovery_ms), (''elapsedMs'', jint ms)])))))))"

definition run_upgrade_recovery_scenario :: "'o stack \<Rightarrow> run_config \<Rightarrow> workload_shape \<Rightarrow> ('o, unit) action" where
  "run_upgrade_recovery_scenario st config shape =
     run_then (performance_now (host_of st)) (\<lambda>started_at.
     run_then (run_recovery_job st ''load'' shape ''ws'') (\<lambda>_.
     run_then (performance_now (host_of st)) (\<lambda>replacement_started_at.
     run_then (replace_fitz_for_upgrade st) (\<lambda>(source_id, target_id, cross_version).
     run_then (elapsed_since (host_of st) replacement_started_at) (\<lambda>replacement_ms.
     run_then (run_recovery_job st ''verify'' shape ''ws'') (\<lambda>_.
     run_then (elapsed_since (host_of st) started_at) (\<lambda>ms.
     event st ''upgrade_recovery_complete''
       [(''loaded'', jnat (total_durable_entries shape)), (''verified'', jnat (total_durable_entries shape)),
        (''replacementMs'', jint replacement_ms), (''crossVersion'', JBool cross_version),
        (''crossVersionRequested'', JBool (upgradeFromImage config \<noteq> None)), (''sourceImageId'', JStr source_id),
        (''targetImageId'', JStr target_id), (''elapsedMs'', jint ms)])))))))"

definition run_cross_transport_recovery_scenario :: "'o stack \<Rightarrow> workload_shape \<Rightarrow> ('o, unit) action" where
  "run_cross_transport_recovery_scenario st shape =
     (let reverse = shape\<lparr>namespace := namespace shape @ ''-tcp-source''\<rparr> in
     run_then (performance_now (host_of st)) (\<lambda>started_at.
     run_then (steps
       [run_recovery_job st ''load'' shape ''ws'', discard_fitz_cache_and_restart st, run_recovery_job st ''verify'' shape ''tcp'',
        run_recovery_job st ''load'' reverse ''tcp'', graceful_restart_fitz st, run_recovery_job st ''verify'' reverse ''ws'']) (\<lambda>_.
     run_then (elapsed_since (host_of st) started_at) (\<lambda>ms.
     event st ''cross_transport_recovery_complete''
       [(''websocketToTcpVerified'', jnat (total_durable_entries shape)),
        (''tcpToWebsocketVerified'', jnat (total_durable_entries reverse)), (''transports'', jstrs [''ws'', ''tcp'']),
        (''elapsedMs'', jint ms)]))))"

subsection \<open>Route cardinality\<close>

definition log_or_empty :: "role_logs \<Rightarrow> string" where
  "log_or_empty logs = get_or [] (map_get logs ''0'')"

definition run_route_cardinality_churn_scenario :: "'o stack \<Rightarrow> workload_shape \<Rightarrow> ('o, unit) action" where
  "run_route_cardinality_churn_scenario st shape =
     (let expected = entriesPerResource shape * length ALL_DOMAINS;
          probe_shape = shape\<lparr>namespace := namespace shape @ ''-probe'', entriesPerResource := 1\<rparr> in
     run_then (performance_now (host_of st)) (\<lambda>started_at.
     run_then (run_role st ''route-cardinality-churn'' shape [] ''route-cardinality-churn'') (\<lambda>logs.
     run_then (of_result (try_in (required_event (log_or_empty logs) ''route_cardinality_churn_complete'')
       (\<lambda>r. numeric_field r ''routes''))) (\<lambda>routes.
     if routes \<noteq> expected then fail (Error ''Route cardinality completed $/$ routes'' [ANat routes, ANat expected])
     else
     run_then (graceful_restart_fitz st) (\<lambda>_.
     run_then (run_role st ''canary'' probe_shape [] ''route-cardinality-probe'') (\<lambda>probe_logs.
     run_then (of_result (try_in (required_event (log_or_empty probe_logs) ''canary_complete'')
       (\<lambda>r. numeric_field r ''operationsPerDomain''))) (\<lambda>operations.
     if operations \<noteq> 1 then fail (Error ''Route-cardinality recovery probe was incomplete'' [])
     else
     run_then (wait_for_pressure_quiescence st) (\<lambda>_.
     run_then (elapsed_since (host_of st) started_at) (\<lambda>ms.
     event st ''route_cardinality_churn_scenario_complete''
       [(''routes'', jnat routes), (''domains'', jnat (length ALL_DOMAINS)),
        (''recoveryProbeOperations'', jnat (length ALL_DOMAINS)), (''elapsedMs'', jint ms)])))))))))"

subsection \<open>Cache and disk exhaustion\<close>

datatype exhaustion_target = CacheTarget | StorageTarget

fun exhaustion_name :: "exhaustion_target \<Rightarrow> string" where
  "exhaustion_name CacheTarget = ''cache''"
| "exhaustion_name StorageTarget = ''storage''"

definition exhaustion_phase_shape :: "workload_shape \<Rightarrow> exhaustion_target \<Rightarrow> workload_shape" where
  "exhaustion_phase_shape shape target = shape\<lparr>namespace := namespace shape @ ''-'' @ exhaustion_name target\<rparr>"

definition exhaustion_probe :: "'o stack \<Rightarrow> workload_shape \<Rightarrow> exhaustion_target \<Rightarrow> ('o, unit) action" where
  "exhaustion_probe st phase_shape target =
     run_then (run_role st ''exhaustion-probe'' (phase_shape\<lparr>namespace := namespace phase_shape @ ''-probe'', entriesPerResource := 1\<rparr>)
       [(''DESTROYER_REQUEST_TIMEOUT_MS'', ''1500'')] (exhaustion_name target @ ''-exhaustion-probe'')) (\<lambda>logs.
     of_result (try_in (required_event (log_or_empty logs) ''exhaustion_probe_complete'') (\<lambda>r.
       try_in (numeric_field r ''acknowledged'') (\<lambda>acknowledged.
       if acknowledged \<noteq> 0 then Inl (Error ''$ exhaustion did not reject the synchronous mutation'' [AStr (exhaustion_name target)])
       else try_in (numeric_field r ''rejected'') (\<lambda>rejected.
         ensure (rejected = 1) (Error ''$ exhaustion did not reject the synchronous mutation'' [AStr (exhaustion_name target)]))))))"

text \<open>The local variables \<^verbatim>\<open>results\<close> and \<^verbatim>\<open>verifiedRecoveries\<close>, read when the scenario ends either way.\<close>

type_synonym exhaustion_state = "(exhaustion_target \<times> nat) list \<times> nat"

definition recovered_baseline :: "'o stack \<Rightarrow> workload_shape \<Rightarrow> exhaustion_target \<Rightarrow> ('o, unit) action" where
  "recovered_baseline st phase_shape target =
     try_catch (run_recovery_job st ''verify'' phase_shape ''ws'') (\<lambda>e.
       fail (also_error (''Acknowledged baseline did not recover after '' @ exhaustion_name target @ '' exhaustion: Error: '') e))"

definition exhaustion_phase ::
  "'o stack \<Rightarrow> workload_shape \<Rightarrow> exhaustion_target \<Rightarrow> ('o world \<times> exhaustion_state, unit) script" where
  "exhaustion_phase st shape target =
     (let phase_shape = exhaustion_phase_shape shape target; name = exhaustion_name target in
     run_then (outer (run_recovery_job st ''load'' phase_shape ''ws'')) (\<lambda>_.
     run_then (outer (run_disk_filler st name ''fill'')) (\<lambda>bytes.
     run_then (outer (try_finally (exhaustion_probe st phase_shape target)
       (run_then (run_disk_filler st name ''remove'') (\<lambda>_. ret ())))) (\<lambda>_.
     run_then get_local (\<lambda>(results, verified).
     run_then (set_local (results @ [(target, bytes)], verified)) (\<lambda>_.
     run_then (outer (case target of CacheTarget \<Rightarrow> recycle_fitz_after_fault st | StorageTarget \<Rightarrow> recycle_storage_after_fault st)) (\<lambda>_.
     run_then (outer (recovered_baseline st phase_shape target)) (\<lambda>_.
     set_local (results @ [(target, bytes)], verified + 1)))))))))"

definition emit_completion :: "'o stack \<Rightarrow> rat \<Rightarrow> workload_shape \<Rightarrow> string \<Rightarrow> exhaustion_state \<Rightarrow> ('o, unit) action" where
  "emit_completion st started_at shape outcome state =
     (case state of (results, verified) \<Rightarrow>
       run_then (elapsed_since (host_of st) started_at) (\<lambda>ms.
       event st ''cache_and_disk_exhaustion_complete''
         [(''outcome'', JStr outcome), (''rejectedMutations'', jnat (length results)),
          (''verified'', jnat (verified * total_durable_entries shape)),
          (''results'', JArr (map (\<lambda>(target, bytes). JObj [(''target'', JStr (exhaustion_name target)), (''bytesFilled'', jnat bytes)]) results)),
          (''elapsedMs'', jint ms)]))"

definition run_cache_and_disk_exhaustion_scenario :: "'o stack \<Rightarrow> workload_shape \<Rightarrow> ('o, unit) action" where
  "run_cache_and_disk_exhaustion_scenario st shape =
     run_then (performance_now (host_of st)) (\<lambda>started_at.
     with_local ([], 0)
       (run_then (try_catch (each (exhaustion_phase st shape) [CacheTarget, StorageTarget]) (\<lambda>e.
          run_then get_local (\<lambda>state.
          run_then (outer (emit_completion st started_at shape ''failed'' state)) (\<lambda>_. fail e)))) (\<lambda>_.
        run_then get_local (\<lambda>state. outer (emit_completion st started_at shape ''passed'' state)))))"

end
