(* ===== verification/DomainScenarios.thy ===== *)
theory DomainScenarios
  imports SessionScenarios
begin

text \<open>
  Contention and interference: src/orchestration/transaction-contention.ts, stream-replay.ts,
  interference.ts, active-graceful-shutdown.ts and saturated-slow-recipient-isolation.ts.
\<close>

subsection \<open>Contended commits\<close>

definition contender_outcomes :: "role_logs \<Rightarrow> string \<Rightarrow> json list result" where
  "contender_outcomes logs name = traverse (\<lambda>(_, l). required_event l name) logs"

definition with_outcome :: "string \<Rightarrow> json list \<Rightarrow> json list" where
  "with_outcome name rs = filter (\<lambda>r. json_get r ''outcome'' = Some (JStr name)) rs"

text \<open>Exactly one record committed and one was rejected; the committed one.\<close>

definition single_winner :: "string \<Rightarrow> json list \<Rightarrow> json result" where
  "single_winner template outcomes =
     (case (with_outcome ''committed'' outcomes, with_outcome ''rejected'' outcomes) of
        ([winner], [_]) \<Rightarrow> Inr winner
      | _ \<Rightarrow> Inl (Error template [AJson (JArr outcomes)]))"

record transaction_ledger =
  tl_winner :: nat
  tl_conflicts :: nat
  tl_rollbackIsolated :: bool
  tl_deleteHidden :: bool
  tl_longLivedCleanup :: bool

definition one_workload_log :: "role_logs \<Rightarrow> string result" where
  "one_workload_log logs =
     (case logs of [(_, l)] \<Rightarrow> Inr l | _ \<Rightarrow> Inl (Error ''Expected one workload log, found $'' [ANat (length logs)]))"

definition analyze_transaction_contention :: "role_logs \<Rightarrow> role_logs \<Rightarrow> role_logs \<Rightarrow> transaction_ledger result" where
  "analyze_transaction_contention prepare_logs contender_logs verifier_logs =
     try_in (try_in (one_workload_log prepare_logs) (\<lambda>l. required_event l ''transaction_prepare_complete'')) (\<lambda>prepare.
     try_in (contender_outcomes contender_logs ''transaction_contender_complete'') (\<lambda>outcomes.
     try_in (try_in (one_workload_log verifier_logs) (\<lambda>l. required_event l ''transaction_cleanup_verified'')) (\<lambda>verifier.
     try_in (single_winner ''Expected one KV winner and one conflict: $'' outcomes) (\<lambda>committed.
     try_in (numeric_value (json_get committed ''writer'') ''committed transaction writer'') (\<lambda>writer.
     try_in (numeric_value (json_get verifier ''winner'') ''transaction winner'') (\<lambda>winner.
     if writer \<noteq> winner then Inl (Error ''Committed KV writer $ != verified winner $'' [ANat writer, ANat winner])
     else Inr \<lparr>tl_winner = winner, tl_conflicts = length (with_outcome ''rejected'' outcomes),
       tl_rollbackIsolated = (json_get prepare ''rollbackIsolated'' = Some (JBool True)),
       tl_deleteHidden = (json_get prepare ''deleteHidden'' = Some (JBool True)), tl_longLivedCleanup = True\<rparr>))))))"

definition transaction_json :: "transaction_ledger \<Rightarrow> (string \<times> json) list" where
  "transaction_json l =
     [(''winner'', jnat (tl_winner l)), (''conflicts'', jnat (tl_conflicts l)), (''rollbackIsolated'', JBool (tl_rollbackIsolated l)),
      (''deleteHidden'', JBool (tl_deleteHidden l)), (''longLivedCleanup'', JBool (tl_longLivedCleanup l))]"

definition assert_transaction_contention :: "transaction_ledger \<Rightarrow> unit result" where
  "assert_transaction_contention l =
     ensure (\<not> ((tl_winner l \<noteq> 1 \<and> tl_winner l \<noteq> 2) \<or> tl_conflicts l \<noteq> 1 \<or> \<not> tl_rollbackIsolated l \<or> \<not> tl_deleteHidden l \<or>
         \<not> tl_longLivedCleanup l))
       (Error ''Transaction contention invariants failed: $'' [AJson (JObj (transaction_json l))])"

definition transaction_environment :: "workload_shape \<Rightarrow> string \<Rightarrow> (string, string) js_map" where
  "transaction_environment shape act = role_env shape ''DESTROYER_TRANSACTION_ACTION'' act"

definition run_transaction_contention_scenario :: "'o stack \<Rightarrow> workload_shape \<Rightarrow> ('o, unit) action" where
  "run_transaction_contention_scenario st shape =
     (let env = transaction_environment shape in
     run_then (performance_now (host_of st)) (\<lambda>started_at.
     run_then (run_role st ''transaction-contender'' shape (env ''prepare'') ''transaction-prepare'') (\<lambda>prepare_logs.
     run_then (date_now (host_of st)) (\<lambda>t.
     run_then (start_role_containers st ''transaction-contender'' 2 shape
       (env ''contend'' @ [(''DESTROYER_TRANSACTION_COMMIT_AT_MS'', show_int \<lfloor>fl (t + 10000)\<rfloor>)])) (\<lambda>contenders.
     run_then (finish_role_containers st contenders ''transaction-contenders'') (\<lambda>contender_logs.
     run_then (live_domain_snapshot st LiveKv) (\<lambda>baseline.
     run_then (start_role_containers st ''transaction-holder'' 1 shape (env ''hold'')) (\<lambda>holder.
     run_then (wait_for_role_event st holder ''transaction_holder_ready'') (\<lambda>_.
     run_then (kill_role_containers st holder ''transaction-holder-killed'') (\<lambda>_.
     run_then (wait_for_live_domain_quiescence st LiveKv baseline ''transaction-holder-cleanup'' False) (\<lambda>_.
     run_then (run_role st ''transaction-verifier'' shape (env ''verify'') ''transaction-verifier'') (\<lambda>verifier_logs.
     run_then (of_result (analyze_transaction_contention prepare_logs contender_logs verifier_logs)) (\<lambda>ledger.
     run_then (artifact_write_json (host_of st) ''transaction-contention-ledger.json'' (JObj (transaction_json ledger))) (\<lambda>_.
     run_then (of_result (assert_transaction_contention ledger)) (\<lambda>_.
     run_then (wait_for_live_domain_quiescence st LiveKv baseline ''transaction-contention'' False) (\<lambda>_.
     run_then (elapsed_since (host_of st) started_at) (\<lambda>ms.
     event st ''transaction_contention_complete'' (transaction_json ledger @ [(''elapsedMs'', jint ms)]))))))))))))))))))"

record stream_replay_ledger =
  sr_winner :: nat
  sr_conflicts :: nat
  sr_offsetConflicts :: nat
  sr_records :: nat
  sr_pages :: nat
  sr_boundaryBytes :: nat
  sr_boundaryRecords :: nat

definition analyze_stream_replay :: "role_logs \<Rightarrow> role_logs \<Rightarrow> stream_replay_ledger result" where
  "analyze_stream_replay contender_logs verifier_logs =
     try_in (contender_outcomes contender_logs ''stream_replay_contender_complete'') (\<lambda>outcomes.
     try_in (single_winner ''Expected one Stream winner and one conflict: $'' outcomes) (\<lambda>committed.
     try_in (case verifier_logs of [(_, l)] \<Rightarrow> Inr l
         | _ \<Rightarrow> Inl (Error ''Expected one Stream replay verifier log, found $'' [ANat (length verifier_logs)])) (\<lambda>l.
     try_in (required_event l ''stream_replay_complete'') (\<lambda>r.
     try_in (numeric_value (json_get committed ''writer'') ''committed Stream writer'') (\<lambda>writer.
     try_in (numeric_value (json_get r ''winner'') ''stream winner'') (\<lambda>winner.
     if writer \<noteq> winner then Inl (Error ''Committed Stream writer $ != verified winner $'' [ANat writer, ANat winner])
     else
     try_in (numeric_value (json_get r ''offsetConflicts'') ''stream offset conflicts'') (\<lambda>offset_conflicts.
     try_in (numeric_value (json_get r ''records'') ''stream records'') (\<lambda>records.
     try_in (numeric_value (json_get r ''pages'') ''stream pages'') (\<lambda>pages.
     try_in (numeric_value (json_get r ''boundaryBytes'') ''stream boundary bytes'') (\<lambda>boundary_bytes.
     try_in (numeric_value (json_get r ''boundaryRecords'') ''stream boundary records'') (\<lambda>boundary_records.
     Inr \<lparr>sr_winner = winner, sr_conflicts = length (with_outcome ''rejected'' outcomes), sr_offsetConflicts = offset_conflicts,
       sr_records = records, sr_pages = pages, sr_boundaryBytes = boundary_bytes, sr_boundaryRecords = boundary_records\<rparr>)))))))))))"

definition stream_replay_json :: "stream_replay_ledger \<Rightarrow> (string \<times> json) list" where
  "stream_replay_json l =
     [(''winner'', jnat (sr_winner l)), (''conflicts'', jnat (sr_conflicts l)), (''offsetConflicts'', jnat (sr_offsetConflicts l)),
      (''records'', jnat (sr_records l)), (''pages'', jnat (sr_pages l)), (''boundaryBytes'', jnat (sr_boundaryBytes l)),
      (''boundaryRecords'', jnat (sr_boundaryRecords l))]"

definition assert_stream_replay :: "stream_replay_ledger \<Rightarrow> nat \<Rightarrow> unit result" where
  "assert_stream_replay l expected =
     ensure (\<not> ((sr_winner l \<noteq> 1 \<and> sr_winner l \<noteq> 2) \<or> sr_conflicts l \<noteq> 1 \<or> sr_offsetConflicts l \<noteq> 1 \<or>
         sr_records l \<noteq> max 1 expected \<or> sr_pages l < 1 \<or> sr_boundaryBytes l \<noteq> 60000 \<or> sr_boundaryRecords l \<noteq> 1))
       (Error ''Stream replay invariants failed: $'' [AJson (JObj (stream_replay_json l))])"

definition run_stream_replay_scenario :: "'o stack \<Rightarrow> workload_shape \<Rightarrow> ('o, unit) action" where
  "run_stream_replay_scenario st shape =
     (let operations = resources shape * entriesPerResource shape;
          role_shape = shape\<lparr>entriesPerResource := operations\<rparr>;
          env = role_env shape ''DESTROYER_STREAM_REPLAY_ACTION'' in
     run_then (performance_now (host_of st)) (\<lambda>started_at.
     run_then (date_now (host_of st)) (\<lambda>t.
     run_then (start_role_containers st ''stream-replay-worker'' 2 role_shape
       (env ''contend'' @ [(''DESTROYER_STREAM_REPLAY_COMMIT_AT_MS'', show_int \<lfloor>fl (t + 10000)\<rfloor>)])) (\<lambda>contenders.
     run_then (finish_role_containers st contenders ''stream-replay-contenders'') (\<lambda>contender_logs.
     run_then (run_role st ''stream-replay-worker'' role_shape (env ''verify'') ''stream-replay-verifier'') (\<lambda>verifier_logs.
     run_then (of_result (analyze_stream_replay contender_logs verifier_logs)) (\<lambda>ledger.
     run_then (artifact_write_json (host_of st) ''stream-replay-ledger.json'' (JObj (stream_replay_json ledger))) (\<lambda>_.
     run_then (of_result (assert_stream_replay ledger operations)) (\<lambda>_.
     run_then (live_domain_snapshot st LiveStream) (\<lambda>baseline.
     run_then (wait_for_live_domain_quiescence st LiveStream baseline ''stream-replay'' False) (\<lambda>_.
     run_then (elapsed_since (host_of st) started_at) (\<lambda>ms.
     event st ''stream_replay_complete'' (stream_replay_json ledger @ [(''elapsedMs'', jint ms)])))))))))))))"

subsection \<open>Hot routes and protocol abuse\<close>

definition run_canary :: "'o stack \<Rightarrow> workload_shape \<Rightarrow> string \<Rightarrow> ('o, role_logs) action" where
  "run_canary st shape label =
     run_role st ''canary'' (shape\<lparr>entriesPerResource := min (entriesPerResource shape) 20\<rparr>) [] label"

definition hot_route_domain ::
  "json \<Rightarrow> (domain, bombard_total) js_map \<Rightarrow> domain \<Rightarrow> (domain, bombard_total) js_map result" where
  "hot_route_domain worker_totals totals d =
     (case json_get worker_totals (domain_name d) of
        Some (JObj m) \<Rightarrow>
          (let t = get_or \<lparr>bt_success = 0, bt_error = 0\<rparr> (map_get totals d) in
           try_in (numeric_field (JObj m) ''success'') (\<lambda>s.
           try_in (numeric_field (JObj m) ''error'') (\<lambda>e.
           Inr (map_set totals d \<lparr>bt_success = bt_success t + s, bt_error = bt_error t + e\<rparr>))))
      | _ \<Rightarrow> Inl (Error ''Hot route log omitted $ totals'' [AStr (domain_name d)]))"

definition hot_route_totals :: "role_logs \<Rightarrow> domain list \<Rightarrow> (domain, bombard_total) js_map result" where
  "hot_route_totals logs ds =
     fold_result (\<lambda>totals (_, l).
       try_in (required_event l ''stopped'') (\<lambda>stopped.
       try_in (object_field stopped ''totals'') (\<lambda>worker_totals.
       fold_result (hot_route_domain worker_totals) totals ds))) [] logs"

definition check_hot_progress :: "(domain, bombard_total) js_map \<Rightarrow> domain list \<Rightarrow> unit result" where
  "check_hot_progress totals ds =
     for_each (\<lambda>d. ensure (get_or 0 (map_option bt_success (map_get totals d)) \<noteq> 0)
       (Error ''Hot $ route made no successful progress'' [AStr (domain_name d)])) ds"

definition canary_maximum :: "role_logs \<Rightarrow> json result" where
  "canary_maximum logs =
     try_in (try_in (expect_one_log logs) (\<lambda>l. required_event l ''canary_complete'')) (\<lambda>canary. object_field canary ''maximumMs'')"

definition run_hot_route_canary_scenario :: "'o stack \<Rightarrow> run_config \<Rightarrow> workload_shape \<Rightarrow> ('o, unit) action" where
  "run_hot_route_canary_scenario st config shape =
     run_then (performance_now (host_of st)) (\<lambda>started_at.
     run_then (start_role_containers st ''hot-route'' (nat (clientReplicas config)) shape [(''DESTROYER_SHARED_ROUTE'', ''true'')]) (\<lambda>hot.
     run_then (wait_for_role_event st hot ''progress'') (\<lambda>_.
     run_then (run_canary st shape ''hot-route-canary'') (\<lambda>canary_logs.
     run_then (signal_role_containers st hot ''SIGTERM'') (\<lambda>_.
     run_then (finish_role_containers st hot ''hot-route-bombarders'') (\<lambda>hot_logs.
     run_then (of_result (hot_route_totals hot_logs (bombardDomains config))) (\<lambda>totals.
     run_then (of_result (check_hot_progress totals (bombardDomains config))) (\<lambda>_.
     run_then (of_result (canary_maximum canary_logs)) (\<lambda>maximum.
     run_then (elapsed_since (host_of st) started_at) (\<lambda>ms.
     event st ''hot_route_canary_complete''
       [(''hotTotals'', totals_json totals), (''canaryMaximumMs'', maximum), (''elapsedMs'', jint ms)]))))))))))"

definition attacks_completed :: "role_logs \<Rightarrow> nat result" where
  "attacks_completed logs =
     fold_result (\<lambda>n (_, l). try_in (required_event l ''protocol_abuse_complete'') (\<lambda>r.
       try_in (numeric_field r ''completed'') (\<lambda>k. Inr (n + k)))) 0 logs"

definition run_protocol_abuse_scenario :: "'o stack \<Rightarrow> run_config \<Rightarrow> workload_shape \<Rightarrow> ('o, unit) action" where
  "run_protocol_abuse_scenario st config shape =
     run_then (performance_now (host_of st)) (\<lambda>started_at.
     run_then (start_role_containers st ''protocol-abuse'' (nat (clientReplicas config)) shape []) (\<lambda>attackers.
     run_then (finish_role_containers st attackers ''protocol-abuse'') (\<lambda>attack_logs.
     run_then (of_result (attacks_completed attack_logs)) (\<lambda>attacks.
     run_then (run_canary st shape ''protocol-abuse-canary'') (\<lambda>canary_logs.
     run_then (of_result (canary_maximum canary_logs)) (\<lambda>maximum.
     run_then (elapsed_since (host_of st) started_at) (\<lambda>ms.
     event st ''protocol_abuse_scenario_complete''
       [(''attacks'', jnat attacks), (''canaryMaximumMs'', maximum), (''elapsedMs'', jint ms)])))))))"

definition protocol_attack_count :: "string \<Rightarrow> nat" where
  "protocol_attack_count l = length (filter (has_event ''protocol_attack_complete'') (parse_json_records l))"

subsection \<open>Graceful shutdown under load\<close>

definition shutdown_stream_environment :: "run_config \<Rightarrow> nat \<Rightarrow> nat \<Rightarrow> string \<Rightarrow> (string, string) js_map" where
  "shutdown_stream_environment config frames progress_after expected =
     [(''DESTROYER_RPC_STREAM_FRAMES'', show_nat frames),
      (''DESTROYER_RPC_STREAM_FRAME_BYTES'', show_int (min 1024 (rpcStreamFrameBytes config))),
      (''DESTROYER_RPC_STREAM_READER_DELAY_MS'', ''1''), (''DESTROYER_RPC_STREAM_PROGRESS_AFTER_FRAMES'', show_nat progress_after),
      (''DESTROYER_HANDLER_DELAY_MS'', ''5''), (''DESTROYER_REQUEST_TIMEOUT_MS'', ''30000''),
      (''DESTROYER_RPC_STREAM_EXPECTED_OUTCOME'', expected)]"

definition only_completion :: "role_logs \<Rightarrow> json result" where
  "only_completion logs =
     (case logs of [(_, l)] \<Rightarrow> required_event l ''rpc_stream_caller_complete''
      | _ \<Rightarrow> Inl (Error ''Expected exactly one RPC caller log'' []))"

text \<open>
  The disjunction reads \<^verbatim>\<open>completed\<close> only when the outcome is the expected one and \<^verbatim>\<open>interrupted\<close> only when
  nothing completed.
\<close>

definition interrupted_as :: "string \<Rightarrow> error \<Rightarrow> json \<Rightarrow> unit result" where
  "interrupted_as expected e r =
     (if json_get r ''expectedOutcome'' \<noteq> Some (JStr expected) then Inl e
      else try_in (numeric_field r ''completed'') (\<lambda>completed.
        if completed \<noteq> 0 then Inl e
        else try_in (numeric_field r ''interrupted'') (\<lambda>interrupted. ensure (interrupted = 1) e)))"

definition assert_interrupted_caller :: "role_logs \<Rightarrow> unit result" where
  "assert_interrupted_caller logs =
     try_in (only_completion logs) (\<lambda>r.
     interrupted_as ''failure'' (Error ''Active RPC call did not terminate during shutdown: $'' [AJson r]) r)"

definition probe_complete :: "nat \<Rightarrow> role_logs \<Rightarrow> unit result" where
  "probe_complete frames logs =
     try_in (only_completion logs) (\<lambda>r.
     let e = Error ''Post-shutdown RPC probe was incomplete: $'' [AJson r] in
     try_in (numeric_field r ''completed'') (\<lambda>completed.
     if completed \<noteq> 1 then Inl e
     else try_in (numeric_field r ''responseFrames'') (\<lambda>found. ensure (found = frames) e)))"

definition stop_workers :: "'o stack \<Rightarrow> role_container list \<Rightarrow> string \<Rightarrow> ('o, unit) action" where
  "stop_workers st workers label =
     run_then (signal_role_containers st workers ''SIGTERM'') (\<lambda>_.
     run_then (finish_role_containers st workers label) (\<lambda>_. ret ()))"

definition shutdown_probe :: "'o stack \<Rightarrow> run_config \<Rightarrow> workload_shape \<Rightarrow> nat \<Rightarrow> ('o, unit) action" where
  "shutdown_probe st config probe_shape frames =
     (let env = shutdown_stream_environment config frames 1 ''complete'' in
     run_then (start_role_containers st ''rpc-stream-worker'' 1 probe_shape env) (\<lambda>worker.
     run_then (wait_for_role_event st worker ''rpc_stream_worker_ready'') (\<lambda>_.
     run_then (run_role st ''rpc-stream-caller'' probe_shape env ''active-graceful-shutdown-probe-caller'') (\<lambda>logs.
     run_then (of_result (probe_complete frames logs)) (\<lambda>_.
     stop_workers st worker ''active-graceful-shutdown-probe-worker'')))))"

definition run_active_graceful_shutdown_scenario :: "'o stack \<Rightarrow> run_config \<Rightarrow> workload_shape \<Rightarrow> ('o, unit) action" where
  "run_active_graceful_shutdown_scenario st config shape =
     (let env = [(''DESTROYER_SEED'', show_nat (seed shape)), (''DESTROYER_DURABILITY_ITERATIONS'', ''1'')];
          rpc_shape = shape\<lparr>namespace := namespace shape @ ''-active-rpc'', entriesPerResource := 1\<rparr>;
          rpc_env = shutdown_stream_environment config 1000 5 ''failure'';
          gate = [(''DESTROYER_WAIT_FOR_START_SIGNAL'', ''true'')]; probe_frames = 16 in
     run_then (performance_now (host_of st)) (\<lambda>started_at.
     run_then (event st ''active_graceful_shutdown_started''
       [(''durableDomains'', jstrs [''queue'', ''kv'', ''stream'', ''schedule'']), (''liveDomain'', JStr ''rpc'')]) (\<lambda>_.
     run_then (run_role st ''durability-writer'' shape (cut_environment env ''baseline'' 0) ''active-graceful-shutdown-baseline'') (\<lambda>baseline_logs.
     run_then (start_role_containers st ''rpc-stream-worker'' 1 rpc_shape rpc_env) (\<lambda>rpc_worker.
     run_then (wait_for_role_event st rpc_worker ''rpc_stream_worker_ready'') (\<lambda>_.
     run_then (start_role_containers st ''rpc-stream-caller'' 1 rpc_shape (rpc_env @ gate)) (\<lambda>rpc_caller.
     run_then (steps [wait_for_role_event st rpc_caller ''live_producer_ready'', signal_role_containers st rpc_caller ''SIGUSR1'',
       wait_for_role_event st rpc_worker ''rpc_stream_worker_progress'']) (\<lambda>_.
     run_then (start_role_containers st ''durability-writer'' 1 shape (cut_environment env ''cut'' 1 @ gate)) (\<lambda>cut.
     run_then (steps [wait_for_role_event st cut ''live_producer_ready'', signal_role_containers st cut ''SIGUSR1'',
       wait_for_role_event st cut ''durability_operations_dispatched'', graceful_restart_fitz st]) (\<lambda>_.
     run_then (finish_role_containers st rpc_caller ''active-graceful-shutdown-rpc-caller'') (\<lambda>caller_logs.
     run_then (of_result (assert_interrupted_caller caller_logs)) (\<lambda>_.
     run_then (stop_workers st rpc_worker ''active-graceful-shutdown-rpc-worker'') (\<lambda>_.
     run_then (finish_role_containers st cut ''active-graceful-shutdown-cut'') (\<lambda>cut_logs.
     run_then (run_role st ''durability-verifier'' shape (env @ [(''DESTROYER_DURABILITY_SEQUENCE'', ''0'')])
       ''active-graceful-shutdown-verify'') (\<lambda>verify_logs.
     run_then (of_result (analyze_durability_ledger baseline_logs cut_logs verify_logs)) (\<lambda>ledger.
     run_then (of_result (assert_durability_ledger ledger 1)) (\<lambda>_.
     run_then (shutdown_probe st config (rpc_shape\<lparr>namespace := namespace rpc_shape @ ''-probe''\<rparr>) probe_frames) (\<lambda>_.
     run_then (artifact_write_json (host_of st) ''active-graceful-shutdown-ledger.json'' (ledger_json ledger)) (\<lambda>_.
     run_then (elapsed_since (host_of st) started_at) (\<lambda>ms.
     event st ''active_graceful_shutdown_complete''
       [(''durableOperationsStarted'', jnat 4), (''rpcCallsInterrupted'', jnat 1), (''probeFrames'', jnat probe_frames),
        (''elapsedMs'', jint ms)]))))))))))))))))))))"

subsection \<open>A slow recipient\<close>

record slow_recipient_evidence =
  sl_published :: nat
  sl_received :: nat
  sl_duplicates :: nat
  sl_invalid :: nat

definition assert_slow_recipient_evidence :: "string \<Rightarrow> string \<Rightarrow> slow_recipient_evidence result" where
  "assert_slow_recipient_evidence publisher_log observer_log =
     try_in (required_event publisher_log ''slow_recipient_publisher_complete'') (\<lambda>publisher.
     try_in (required_event observer_log ''slow_recipient_observer_complete'') (\<lambda>observer.
     try_in (numeric_field publisher ''published'') (\<lambda>published.
     try_in (numeric_field observer ''received'') (\<lambda>received.
     try_in (numeric_field observer ''duplicates'') (\<lambda>duplicates.
     try_in (numeric_field observer ''invalid'') (\<lambda>invalid.
     if received \<noteq> published then Inl (Error ''received=$/$'' [ANat received, ANat published])
     else if duplicates \<noteq> 0 \<or> invalid \<noteq> 0
     then Inl (Error ''Healthy observer saw duplicates=$, invalid=$'' [ANat duplicates, ANat invalid])
     else Inr \<lparr>sl_published = published, sl_received = received, sl_duplicates = duplicates, sl_invalid = invalid\<rparr>))))))"

definition slow_recipient_saturation_shape :: "nat \<Rightarrow> nat \<times> nat" where
  "slow_recipient_saturation_shape requested_operations = (max 512 requested_operations, 60000)"

definition slow_recipient_body ::
  "'o stack \<Rightarrow> workload_shape \<Rightarrow> workload_shape \<Rightarrow> role_container list \<Rightarrow> role_container list \<Rightarrow>
   ('o, slow_recipient_evidence \<times> role_logs) action" where
  "slow_recipient_body st shape pressure_shape slow observer =
     run_then (set_fault_proxy st ''client-proxy'' DownstreamPause) (\<lambda>_.
     run_then (run_role st ''slow-recipient-publisher'' pressure_shape [] ''slow-recipient-publisher'') (\<lambda>publisher_logs.
     run_then (finish_role_containers st observer ''slow-recipient-observer'') (\<lambda>observer_logs.
     run_then (of_result
       (case (map_get publisher_logs ''0'', map_get observer_logs ''0'') of
          (Some p, Some q) \<Rightarrow> assert_slow_recipient_evidence p q
        | _ \<Rightarrow> Inl (Error ''Slow-recipient publisher or healthy observer log was missing'' []))) (\<lambda>evidence.
     run_then (run_role st ''canary'' (shape\<lparr>namespace := namespace shape @ ''-sibling-canary'', entriesPerResource := 1,
         payloadBytes := min (payloadBytes shape) 1024\<rparr>) [] ''slow-recipient-sibling-canary'') (\<lambda>_.
     run_then (kill_role_containers st slow ''slow-recipient-paused'') (\<lambda>slow_logs.
     ret (evidence, slow_logs)))))))"

definition run_saturated_slow_recipient_isolation_scenario :: "'o stack \<Rightarrow> workload_shape \<Rightarrow> ('o, unit) action" where
  "run_saturated_slow_recipient_isolation_scenario st shape =
     (case slow_recipient_saturation_shape (entriesPerResource shape) of (operations, bytes) \<Rightarrow>
     let pressure_shape = shape\<lparr>entriesPerResource := operations, payloadBytes := bytes\<rparr> in
     run_then (performance_now (host_of st)) (\<lambda>started_at.
     run_then (live_domain_snapshot st LiveNotice) (\<lambda>baseline.
     run_then (event st ''saturated_slow_recipient_isolation_started''
       [(''fault'', JStr ''downstream-read-paused''), (''operations'', jnat operations), (''payloadBytes'', jnat bytes),
        (''attemptedBytes'', jnat (operations * bytes)), (''completionSemantics'', JStr ''healthy-recipient-delivery'')]) (\<lambda>_.
     run_then (start_role_containers st ''slow-recipient'' 1 pressure_shape
       [(''FITZ_URL'', PROXIED_URL), (''DESTROYER_HEARTBEAT_ENABLED'', ''false'')]) (\<lambda>slow.
     run_then (wait_for_role_event st slow ''slow_recipient_ready'') (\<lambda>_.
     run_then (start_role_containers st ''slow-recipient-observer'' 1 pressure_shape []) (\<lambda>observer.
     run_then (wait_for_role_event st observer ''slow_recipient_observer_ready'') (\<lambda>_.
     run_then (try_finally (slow_recipient_body st shape pressure_shape slow observer) (heal_client_proxy st)) (\<lambda>(evidence, slow_logs).
     run_then (of_result (worker_log slow_logs (Error ''Paused slow-recipient log was missing'' []))) (\<lambda>_.
     run_then (wait_for_live_domain_quiescence st LiveNotice baseline ''saturated-slow-recipient-isolation'' True) (\<lambda>_.
     run_then (elapsed_since (host_of st) started_at) (\<lambda>ms.
     event st ''saturated_slow_recipient_isolation_complete''
       [(''published'', jnat (sl_published evidence)), (''received'', jnat (sl_received evidence)),
        (''duplicates'', jnat (sl_duplicates evidence)), (''invalid'', jnat (sl_invalid evidence)),
        (''bytesPublished'', jnat (sl_published evidence * bytes)), (''siblingCanaryDomains'', jnat 7),
        (''elapsedMs'', jint ms)]))))))))))))"

subsection \<open>What a completion event says\<close>

definition entry_holds :: "(string \<times> json) list \<Rightarrow> string \<Rightarrow> (nat \<Rightarrow> bool) \<Rightarrow> bool" where
  "entry_holds es k Q = (\<exists>n. map_get es k = Some (jnat n) \<and> Q n)"

definition DOMAIN_COMPLETIONS :: "string list" where
  "DOMAIN_COMPLETIONS =
     [''transaction_contention_complete'', ''stream_replay_complete'', ''saturated_slow_recipient_isolation_complete'']"

text \<open>
  One of the two contenders won and the other one met the conflict; the stream was read back in
  full; the healthy recipient got every message once.
\<close>

definition sound_domain_report :: "workload_shape \<Rightarrow> os_call \<Rightarrow> bool" where
  "sound_domain_report shape c =
     (case c of
        EventAppended n es \<Rightarrow>
          (n = ''transaction_contention_complete'' \<longrightarrow>
             entry_holds es ''winner'' (\<lambda>k. k \<in> {1, 2}) \<and> entry_holds es ''conflicts'' (\<lambda>k. k = 1) \<and>
             map_get es ''rollbackIsolated'' = Some (JBool True) \<and> map_get es ''deleteHidden'' = Some (JBool True)) \<and>
          (n = ''stream_replay_complete'' \<longrightarrow>
             entry_holds es ''winner'' (\<lambda>k. k \<in> {1, 2}) \<and> entry_holds es ''conflicts'' (\<lambda>k. k = 1) \<and>
             entry_holds es ''offsetConflicts'' (\<lambda>k. k = 1) \<and>
             entry_holds es ''records'' (\<lambda>k. k = max 1 (resources shape * entriesPerResource shape))) \<and>
          (n = ''saturated_slow_recipient_isolation_complete'' \<longrightarrow>
             (\<exists>k. entry_holds es ''published'' (\<lambda>x. x = k) \<and> entry_holds es ''received'' (\<lambda>x. x = k)) \<and>
             entry_holds es ''duplicates'' (\<lambda>k. k = 0) \<and> entry_holds es ''invalid'' (\<lambda>k. k = 0))
      | _ \<Rightarrow> True)"

interpretation domain_calls: quiet_stack DOMAIN_COMPLETIONS "sound_domain_report shape" for shape
  by unfold_locales
    (auto simp: sound_domain_report_def reports_under_def STACK_REPORTS_def DOMAIN_COMPLETIONS_def split: os_call.splits)

lemma domain_event:
  "sound_domain_report shape (EventAppended n es) \<Longrightarrow> only_calls (sound_domain_report shape) (event st n es)"
  unfolding event_def artifact_event_def by (intro calls_intros only_calls_effect) simp_all

lemma entry_holds_simps [simp]:
  "entry_holds [] k Q \<longleftrightarrow> False"
  "entry_holds ((k', jnat n) # es) k Q \<longleftrightarrow> (if k' = k then Q n else entry_holds es k Q)"
  "k' \<noteq> k \<Longrightarrow> entry_holds ((k', v) # es) k Q \<longleftrightarrow> entry_holds es k Q"
  by (auto simp: entry_holds_def jnat_def)

definition good_slow_recipient :: "slow_recipient_evidence \<Rightarrow> bool" where
  "good_slow_recipient l = (sl_received l = sl_published l \<and> sl_duplicates l = 0 \<and> sl_invalid l = 0)"

lemma slow_recipient_evidence_good: "assert_slow_recipient_evidence p q = Inr l \<Longrightarrow> good_slow_recipient l"
  by (auto simp: assert_slow_recipient_evidence_def good_slow_recipient_def result_simps split: if_splits)

lemma slow_recipient_body_good:
  "returns (\<lambda>(l, _). good_slow_recipient l) (slow_recipient_body st shape pressure slow observer)"
  unfolding slow_recipient_body_def
  by (intro returns_run_then returns_of_result returns_ret)
    (auto split: option.splits intro: slow_recipient_evidence_good)

lemma slow_recipient_body_calls [calls_intros]:
  "only_calls (sound_domain_report shape) (slow_recipient_body st shape' pressure slow observer)"
  "only_calls (sound_domain_report shape) (heal_client_proxy st)"
  unfolding slow_recipient_body_def heal_client_proxy_def run_role_def by (intro calls_intros)+

text \<open>
  C26.  The contention, replay and slow-recipient scenarios report completion only with the outcome
  they promise: one contender won and one met the conflict, nothing rolled back is visible, every
  appended record was read back, and the healthy recipient got every message once.
\<close>
theorem domain_completion_sound:
  "(\<exists>cs. calls (snd (run_transaction_contention_scenario st shape w)) = calls w @ cs \<and> list_all (sound_domain_report shape) cs) \<and>
   (\<exists>cs. calls (snd (run_stream_replay_scenario st shape w)) = calls w @ cs \<and> list_all (sound_domain_report shape) cs) \<and>
   (\<exists>cs. calls (snd (run_saturated_slow_recipient_isolation_scenario st shape w)) = calls w @ cs \<and>
      list_all (sound_domain_report shape) cs)"
proof -
  note defs = DOMAIN_COMPLETIONS_def
  have "only_calls (sound_domain_report shape) (run_transaction_contention_scenario st shape)"
    unfolding run_transaction_contention_scenario_def Let_def run_role_def
    by (intro only_calls_of_result_then calls_intros domain_event domain_calls.calls_json)
      (auto simp: defs sound_domain_report_def assert_transaction_contention_def transaction_json_def result_simps)
  moreover have "only_calls (sound_domain_report shape) (run_stream_replay_scenario st shape)"
    unfolding run_stream_replay_scenario_def Let_def run_role_def
    by (intro only_calls_of_result_then calls_intros domain_event domain_calls.calls_json)
      (auto simp: defs sound_domain_report_def assert_stream_replay_def stream_replay_json_def result_simps)
  moreover have "only_calls (sound_domain_report shape) (run_saturated_slow_recipient_isolation_scenario st shape)"
    unfolding run_saturated_slow_recipient_isolation_scenario_def Let_def run_role_def
    by (intro only_calls_of_result_then only_calls_then_returned [OF _ returns_try_finally [OF slow_recipient_body_good]]
          only_calls_pair calls_intros domain_event domain_calls.calls_event)
      (auto simp: defs sound_domain_report_def good_slow_recipient_def)
  ultimately show ?thesis unfolding only_calls_def by blast
qed

end
