(* ===== verification/RpcScenarios.thy ===== *)
theory RpcScenarios
  imports DomainScenarios LeaseScenarios
begin

text \<open>
  The live-domain scenarios whose callers may fail while the workers are still to be stopped:
  src/orchestration/rpc-stream-hose.ts, live-scenarios.ts (notice fan-out, RPC pressure, connection
  storm) and live-churn.ts.
\<close>

subsection \<open>Streamed RPC: the shape of a phase\<close>

record stream_shape =
  ss_namespace :: string
  ss_callers :: nat
  ss_callsPerCaller :: nat
  ss_framesPerCall :: nat
  ss_frameBytes :: nat
  ss_readerDelayMs :: nat
  ss_handlerDelayMs :: nat

definition stream_product :: "nat list \<Rightarrow> string \<Rightarrow> nat result" where
  "stream_product values_of label =
     (let n = foldl (*) 1 values_of in
      if int n \<le> max_safe_integer then Inr n else Inl (Error ''$ exceeds JavaScript's safe integer range'' [AStr label]))"

text \<open>The calls, frames and bytes that the callers of a phase exchange.\<close>

definition stream_expectation :: "string \<Rightarrow> stream_shape \<Rightarrow> (nat \<times> nat \<times> nat) result" where
  "stream_expectation label s =
     try_in (stream_product [ss_callers s, ss_callsPerCaller s] (label @ '' calls'')) (\<lambda>expected_calls.
     try_in (stream_product [expected_calls, ss_framesPerCall s] (label @ '' frames'')) (\<lambda>expected_frames.
     try_in (stream_product [expected_frames, ss_frameBytes s] (label @ '' bytes'')) (\<lambda>expected_bytes.
     Inr (expected_calls, expected_frames, expected_bytes))))"

definition stream_workload_shape :: "stream_shape \<Rightarrow> workload_shape" where
  "stream_workload_shape s =
     \<lparr>namespace = ss_namespace s, seed = 0, resources = 1, entriesPerResource = ss_callsPerCaller s, payloadBytes = ss_frameBytes s\<rparr>"

definition stream_environment :: "stream_shape \<Rightarrow> nat \<Rightarrow> int \<Rightarrow> (string, string) js_map" where
  "stream_environment s progress_after timeout_ms =
     [(''DESTROYER_RPC_STREAM_FRAMES'', show_nat (ss_framesPerCall s)),
      (''DESTROYER_RPC_STREAM_FRAME_BYTES'', show_nat (ss_frameBytes s)),
      (''DESTROYER_RPC_STREAM_READER_DELAY_MS'', show_nat (ss_readerDelayMs s)),
      (''DESTROYER_RPC_STREAM_PROGRESS_AFTER_FRAMES'', show_nat progress_after),
      (''DESTROYER_HANDLER_DELAY_MS'', show_nat (ss_handlerDelayMs s)),
      (''DESTROYER_REQUEST_TIMEOUT_MS'', show_int timeout_ms)]"

definition progress_threshold :: "nat \<Rightarrow> nat" where
  "progress_threshold frames = max 1 (min 10 (frames div 4))"

subsection \<open>Streamed RPC: the logs\<close>

record caller_totals =
  ct_completed :: nat
  ct_interrupted :: nat
  ct_responseFrames :: nat
  ct_responseBytes :: nat

definition sum_completion_logs :: "role_logs \<Rightarrow> string \<Rightarrow> caller_totals result" where
  "sum_completion_logs logs name =
     fold_result (\<lambda>t (_, l).
       try_in (required_event l name) (\<lambda>r.
       try_in (numeric_field r ''completed'') (\<lambda>completed.
       try_in (numeric_field r ''interrupted'') (\<lambda>interrupted.
       try_in (numeric_field r ''responseFrames'') (\<lambda>frames.
       try_in (numeric_field r ''responseBytes'') (\<lambda>bytes.
       Inr \<lparr>ct_completed = ct_completed t + completed, ct_interrupted = ct_interrupted t + interrupted,
         ct_responseFrames = ct_responseFrames t + frames, ct_responseBytes = ct_responseBytes t + bytes\<rparr>))))))
     \<lparr>ct_completed = 0, ct_interrupted = 0, ct_responseFrames = 0, ct_responseBytes = 0\<rparr> logs"

record stream_worker_totals =
  wt_handled :: nat
  wt_failures :: nat
  wt_framesSent :: nat
  wt_maxActive :: nat

definition sum_worker_logs :: "role_logs \<Rightarrow> stream_worker_totals result" where
  "sum_worker_logs logs =
     fold_result (\<lambda>t (_, l).
       try_in (required_event l ''rpc_stream_worker_complete'') (\<lambda>r.
       try_in (numeric_field r ''handled'') (\<lambda>handled.
       try_in (numeric_field r ''failures'') (\<lambda>failures.
       try_in (numeric_field r ''framesSent'') (\<lambda>frames.
       try_in (numeric_field r ''maxActive'') (\<lambda>active.
       Inr \<lparr>wt_handled = wt_handled t + handled, wt_failures = wt_failures t + failures,
         wt_framesSent = wt_framesSent t + frames, wt_maxActive = max (wt_maxActive t) active\<rparr>))))))
     \<lparr>wt_handled = 0, wt_failures = 0, wt_framesSent = 0, wt_maxActive = 0\<rparr> logs"

definition caller_totals_entries :: "caller_totals \<Rightarrow> (string \<times> json) list" where
  "caller_totals_entries t =
     [(''completed'', jnat (ct_completed t)), (''interrupted'', jnat (ct_interrupted t)),
      (''responseFrames'', jnat (ct_responseFrames t)), (''responseBytes'', jnat (ct_responseBytes t))]"

definition worker_totals_entries :: "stream_worker_totals \<Rightarrow> (string \<times> json) list" where
  "worker_totals_entries t =
     [(''handled'', jnat (wt_handled t)), (''failures'', jnat (wt_failures t)),
      (''framesSent'', jnat (wt_framesSent t)), (''maxActive'', jnat (wt_maxActive t))]"

definition check_stream_counts ::
  "string \<Rightarrow> nat \<times> nat \<times> nat \<Rightarrow> caller_totals \<Rightarrow> stream_worker_totals \<Rightarrow> unit result" where
  "check_stream_counts label expected caller worker =
     (case expected of (expected_calls, expected_frames, expected_bytes) \<Rightarrow>
     ensure (\<not> (ct_completed caller \<noteq> expected_calls \<or> ct_interrupted caller \<noteq> 0 \<or> ct_responseFrames caller \<noteq> expected_frames \<or>
         ct_responseBytes caller \<noteq> expected_bytes \<or> wt_handled worker \<noteq> expected_calls \<or> wt_failures worker \<noteq> 0 \<or>
         wt_framesSent worker \<noteq> expected_frames))
       (Error ''$ counts do not match: callers=$, workers=$, expectedCalls=$, expectedFrames=$, expectedBytes=$''
         [AStr label, AJson (JObj (caller_totals_entries caller)), AJson (JObj (worker_totals_entries worker)),
          ANat expected_calls, ANat expected_frames, ANat expected_bytes]))"

definition assert_observed_fault :: "role_logs \<Rightarrow> string \<Rightarrow> unit result" where
  "assert_observed_fault logs expected =
     (case logs of
        [(_, l)] \<Rightarrow> try_in (required_event l ''rpc_stream_caller_complete'') (\<lambda>r.
          interrupted_as expected (Error ''RPC stream did not observe $: $'' [AStr expected, AJson r]) r)
      | _ \<Rightarrow> Inl (Error ''Expected one RPC stream fault caller, found $'' [ANat (length logs)]))"

subsection \<open>Streamed RPC: the phases\<close>

text \<open>The workers are signalled and awaited whether or not the callers ended well.\<close>

definition stream_callers :: "'o stack \<Rightarrow> string \<Rightarrow> stream_shape \<Rightarrow> (string, string) js_map \<Rightarrow> ('o, role_logs) action" where
  "stream_callers st label s env =
     run_then (start_role_containers st ''rpc-stream-caller'' (ss_callers s) (stream_workload_shape s)
       (env @ [(''DESTROYER_WAIT_FOR_START_SIGNAL'', ''true''), (''DESTROYER_RPC_STREAM_EXPECTED_OUTCOME'', ''complete'')])) (\<lambda>callers.
     run_then (wait_for_role_event st callers ''live_producer_ready'') (\<lambda>_.
     run_then (signal_role_containers st callers ''SIGUSR1'') (\<lambda>_.
     finish_role_containers st callers (label @ ''-caller''))))"

definition run_successful_fleet :: "'o stack \<Rightarrow> run_config \<Rightarrow> string \<Rightarrow> stream_shape \<Rightarrow> ('o, unit) action" where
  "run_successful_fleet st config label s =
     (let env = stream_environment s (progress_threshold (ss_framesPerCall s)) (startupTimeoutMs config) in
     run_then (performance_now (host_of st)) (\<lambda>started_at.
     run_then (live_domain_snapshot st LiveRpc) (\<lambda>baseline.
     run_then (artifact_write_json (host_of st) (label @ ''-stats-before.json'') (snapshot_json baseline)) (\<lambda>_.
     run_then (start_role_containers st ''rpc-stream-worker'' (ss_callers s) (stream_workload_shape s) env) (\<lambda>workers.
     run_then (wait_for_role_event st workers ''rpc_stream_worker_ready'') (\<lambda>_.
     run_then (attempt (stream_callers st label s env)) (\<lambda>callers_outcome.
     run_then (signal_role_containers st workers ''SIGTERM'') (\<lambda>_.
     run_then (finish_role_containers st workers (label @ ''-worker'')) (\<lambda>worker_logs.
     run_then (of_result callers_outcome) (\<lambda>caller_logs.
     run_then (of_result (stream_expectation label s)) (\<lambda>expected.
     run_then (of_result (sum_completion_logs caller_logs ''rpc_stream_caller_complete'')) (\<lambda>caller.
     run_then (of_result (sum_worker_logs worker_logs)) (\<lambda>worker.
     run_then (of_result (check_stream_counts label expected caller worker)) (\<lambda>_.
     run_then (wait_for_live_domain_quiescence st LiveRpc baseline label False) (\<lambda>quiescence.
     run_then (elapsed_since (host_of st) started_at) (\<lambda>ms.
     event st ''rpc_stream_success_phase_complete''
       ([(''label'', JStr label)] @ caller_totals_entries caller @
        [(''workerMaxActive'', jnat (wt_maxActive worker)), (''cleanup'', cleanup_json (sn_cleanup quiescence)),
         (''elapsedMs'', jint ms)])))))))))))))))))"

definition start_fault_worker :: "'o stack \<Rightarrow> stream_shape \<Rightarrow> nat \<Rightarrow> ('o, role_container list) action" where
  "start_fault_worker st s progress_after =
     run_then (start_role_containers st ''rpc-stream-worker'' 1 (stream_workload_shape s)
       (stream_environment s progress_after 15000)) (\<lambda>workers.
     run_then (wait_for_role_event st workers ''rpc_stream_worker_ready'') (\<lambda>_. ret workers))"

definition start_fault_caller :: "'o stack \<Rightarrow> stream_shape \<Rightarrow> string \<Rightarrow> nat \<Rightarrow> ('o, role_container list) action" where
  "start_fault_caller st s expected cancel_after =
     run_then (start_role_containers st ''rpc-stream-caller'' 1 (stream_workload_shape s)
       (stream_environment s cancel_after 15000 @
        [(''DESTROYER_WAIT_FOR_START_SIGNAL'', ''true''), (''DESTROYER_RPC_STREAM_EXPECTED_OUTCOME'', expected),
         (''DESTROYER_RPC_STREAM_CANCEL_AFTER_FRAMES'', show_nat cancel_after)])) (\<lambda>callers.
     run_then (wait_for_role_event st callers ''live_producer_ready'') (\<lambda>_.
     run_then (signal_role_containers st callers ''SIGUSR1'') (\<lambda>_. ret callers)))"

definition run_probe :: "'o stack \<Rightarrow> run_config \<Rightarrow> string \<Rightarrow> stream_shape \<Rightarrow> ('o, unit) action" where
  "run_probe st config label source =
     run_successful_fleet st config label
       (source\<lparr>ss_namespace := ss_namespace source @ ''-probe'', ss_callers := 1, ss_callsPerCaller := 1,
         ss_framesPerCall := min (ss_framesPerCall source) 32, ss_frameBytes := min (ss_frameBytes source) 4096,
         ss_readerDelayMs := 0, ss_handlerDelayMs := 0\<rparr>)"

definition fault_phase_entries :: "string \<Rightarrow> string \<Rightarrow> string \<Rightarrow> nat \<Rightarrow> live_snapshot \<Rightarrow> int \<Rightarrow> (string \<times> json) list" where
  "fault_phase_entries label expected threshold_name threshold quiescence ms =
     [(''label'', JStr label), (''expectedOutcome'', JStr expected), (threshold_name, jnat threshold),
      (''cleanup'', cleanup_json (sn_cleanup quiescence)), (''elapsedMs'', jint ms)]"

definition run_cancellation_phase :: "'o stack \<Rightarrow> run_config \<Rightarrow> stream_shape \<Rightarrow> nat \<Rightarrow> ('o, unit) action" where
  "run_cancellation_phase st config s cancel_after =
     (let label = ''rpc-stream-caller-cancel'' in
     run_then (performance_now (host_of st)) (\<lambda>started_at.
     run_then (live_domain_snapshot st LiveRpc) (\<lambda>baseline.
     run_then (artifact_write_json (host_of st) (label @ ''-stats-before.json'') (snapshot_json baseline)) (\<lambda>_.
     run_then (start_fault_worker st s cancel_after) (\<lambda>workers.
     run_then (start_fault_caller st s ''cancel'' cancel_after) (\<lambda>callers.
     run_then (finish_role_containers st callers (label @ ''-caller'')) (\<lambda>caller_logs.
     run_then (of_result (assert_observed_fault caller_logs ''cancel'')) (\<lambda>_.
     run_then (stop_workers st workers (label @ ''-worker'')) (\<lambda>_.
     run_then (wait_for_live_domain_quiescence st LiveRpc baseline label True) (\<lambda>quiescence.
     run_then (elapsed_since (host_of st) started_at) (\<lambda>ms.
     run_then (event st ''rpc_stream_fault_phase_complete''
       (fault_phase_entries label ''cancel'' ''cancelAfterFrames'' cancel_after quiescence ms)) (\<lambda>_.
     run_probe st config (label @ ''-probe'') s))))))))))))"

definition run_worker_kill_phase :: "'o stack \<Rightarrow> run_config \<Rightarrow> stream_shape \<Rightarrow> nat \<Rightarrow> ('o, unit) action" where
  "run_worker_kill_phase st config s progress_after =
     (let label = ''rpc-stream-worker-kill'' in
     run_then (performance_now (host_of st)) (\<lambda>started_at.
     run_then (live_domain_snapshot st LiveRpc) (\<lambda>baseline.
     run_then (artifact_write_json (host_of st) (label @ ''-stats-before.json'') (snapshot_json baseline)) (\<lambda>_.
     run_then (start_fault_worker st s progress_after) (\<lambda>workers.
     run_then (start_fault_caller st s ''failure'' 1) (\<lambda>callers.
     run_then (wait_for_role_event st workers ''rpc_stream_worker_progress'') (\<lambda>_.
     run_then (kill_role_containers st workers (label @ ''-worker'')) (\<lambda>_.
     run_then (finish_role_containers st callers (label @ ''-caller'')) (\<lambda>caller_logs.
     run_then (of_result (assert_observed_fault caller_logs ''failure'')) (\<lambda>_.
     run_then (wait_for_live_domain_quiescence st LiveRpc baseline label True) (\<lambda>quiescence.
     run_then (elapsed_since (host_of st) started_at) (\<lambda>ms.
     run_then (event st ''rpc_stream_fault_phase_complete''
       (fault_phase_entries label ''failure'' ''progressAfterFrames'' progress_after quiescence ms)) (\<lambda>_.
     run_probe st config (label @ ''-probe'') s)))))))))))))"

definition run_fitz_restart_phase :: "'o stack \<Rightarrow> run_config \<Rightarrow> stream_shape \<Rightarrow> nat \<Rightarrow> ('o, unit) action" where
  "run_fitz_restart_phase st config s progress_after =
     (let label = ''rpc-stream-fitz-restart'' in
     run_then (performance_now (host_of st)) (\<lambda>started_at.
     run_then (live_domain_snapshot st LiveRpc) (\<lambda>baseline.
     run_then (artifact_write_json (host_of st) (label @ ''-stats-before.json'') (snapshot_json baseline)) (\<lambda>_.
     run_then (start_fault_worker st s progress_after) (\<lambda>workers.
     run_then (start_fault_caller st s ''failure'' 1) (\<lambda>callers.
     run_then (steps [wait_for_role_event st workers ''rpc_stream_worker_progress'', kill_fitz st, restart_fitz st]) (\<lambda>_.
     run_then (live_domain_snapshot st LiveRpc) (\<lambda>restarted.
     run_then (artifact_write_json (host_of st) (label @ ''-stats-after-restart.json'') (snapshot_json restarted)) (\<lambda>_.
     run_then (finish_role_containers st callers (label @ ''-caller'')) (\<lambda>caller_logs.
     run_then (of_result (assert_observed_fault caller_logs ''failure'')) (\<lambda>_.
     run_then (stop_workers st workers (label @ ''-worker'')) (\<lambda>_.
     run_then (wait_for_live_domain_quiescence st LiveRpc restarted label True) (\<lambda>quiescence.
     run_then (elapsed_since (host_of st) started_at) (\<lambda>ms.
     run_then (event st ''rpc_stream_fault_phase_complete''
       (fault_phase_entries label ''failure'' ''progressAfterFrames'' progress_after quiescence ms)) (\<lambda>_.
     run_probe st config (label @ ''-probe'') s)))))))))))))))"

definition full_stream_shape :: "run_config \<Rightarrow> workload_shape \<Rightarrow> stream_shape" where
  "full_stream_shape config shape =
     \<lparr>ss_namespace = namespace shape @ ''-full'', ss_callers = nat (clientReplicas config),
      ss_callsPerCaller = nat (rpcStreamCalls config), ss_framesPerCall = nat (rpcStreamFrames config),
      ss_frameBytes = nat (rpcStreamFrameBytes config), ss_readerDelayMs = nat (rpcStreamReaderDelayMs config),
      ss_handlerDelayMs = nat (handlerDelayMs config)\<rparr>"

definition fault_stream_shape :: "run_config \<Rightarrow> workload_shape \<Rightarrow> stream_shape" where
  "fault_stream_shape config shape =
     \<lparr>ss_namespace = namespace shape @ ''-fault'', ss_callers = 1, ss_callsPerCaller = 1,
      ss_framesPerCall = min (nat (rpcStreamFrames config)) 1000, ss_frameBytes = nat (rpcStreamFrameBytes config),
      ss_readerDelayMs = nat (rpcStreamReaderDelayMs config), ss_handlerDelayMs = max 5 (nat (handlerDelayMs config))\<rparr>"

definition run_rpc_stream_hose :: "'o stack \<Rightarrow> run_config \<Rightarrow> workload_shape \<Rightarrow> ('o, unit) action" where
  "run_rpc_stream_hose st config shape =
     (let full = full_stream_shape config shape; fault = fault_stream_shape config shape;
          threshold = progress_threshold (ss_framesPerCall fault);
          at_phase = (\<lambda>phase. fault\<lparr>ss_namespace := ss_namespace fault @ phase\<rparr>) in
     run_then (performance_now (host_of st)) (\<lambda>started_at.
     run_then (of_result (stream_expectation ''RPC stream'' full)) (\<lambda>(expected_calls, expected_frames, expected_bytes).
     run_then (event st ''rpc_stream_hose_started''
       [(''callers'', jnat (ss_callers full)), (''workers'', jnat (ss_callers full)),
        (''callsPerCaller'', jnat (ss_callsPerCaller full)), (''framesPerCall'', jnat (ss_framesPerCall full)),
        (''frameBytes'', jnat (ss_frameBytes full)), (''expectedCalls'', jnat expected_calls),
        (''expectedFrames'', jnat expected_frames), (''expectedBytes'', jnat expected_bytes),
        (''readerDelayMs'', jnat (ss_readerDelayMs full)), (''handlerDelayMs'', jnat (ss_handlerDelayMs full))]) (\<lambda>_.
     run_then (steps
       [run_successful_fleet st config ''rpc-stream-full'' full,
        run_cancellation_phase st config (at_phase ''-cancel'') threshold,
        run_worker_kill_phase st config (at_phase ''-worker-kill'') threshold,
        run_fitz_restart_phase st config (at_phase ''-fitz-restart'') threshold]) (\<lambda>_.
     run_then (elapsed_since (host_of st) started_at) (\<lambda>ms.
     event st ''rpc_stream_hose_complete''
       [(''expectedCalls'', jnat expected_calls), (''expectedFrames'', jnat expected_frames), (''expectedBytes'', jnat expected_bytes),
        (''destructivePhases'', jstrs [''caller-cancel'', ''worker-kill'', ''fitz-restart'']), (''elapsedMs'', jint ms)]))))))"

subsection \<open>Notice fan-out\<close>

record notice_totals =
  nt_publications :: nat
  nt_deliveries :: nat
  nt_maxActive :: nat

definition notice_counts :: "role_logs \<Rightarrow> role_logs \<Rightarrow> notice_totals result" where
  "notice_counts publisher_logs subscriber_logs =
     try_in (fold_result (\<lambda>n (_, l). try_in (try_in (required_event l ''notice_publisher_complete'') (\<lambda>r.
       numeric_field r ''published'')) (\<lambda>k. Inr (n + k))) 0 publisher_logs) (\<lambda>publications.
     fold_result (\<lambda>t (_, l).
       try_in (required_event l ''notice_subscriber_complete'') (\<lambda>r.
       try_in (numeric_field r ''received'') (\<lambda>received.
       try_in (numeric_field r ''maxActiveHandlers'') (\<lambda>active.
       Inr (t\<lparr>nt_deliveries := nt_deliveries t + received, nt_maxActive := max (nt_maxActive t) active\<rparr>)))))
     \<lparr>nt_publications = publications, nt_deliveries = 0, nt_maxActive = 0\<rparr> subscriber_logs)"

definition check_notice_counts :: "nat \<Rightarrow> nat \<Rightarrow> notice_totals \<Rightarrow> unit result" where
  "check_notice_counts per_subscriber replicas t =
     ensure (\<not> (nt_publications t \<noteq> per_subscriber \<or> nt_deliveries t \<noteq> per_subscriber * replicas))
       (Error ''Notice fanout counts do not match: publications=$/$, deliveries=$/$''
         [ANat (nt_publications t), ANat per_subscriber, ANat (nt_deliveries t), ANat (per_subscriber * replicas)])"

definition run_notice_fanout_scenario :: "'o stack \<Rightarrow> run_config \<Rightarrow> workload_shape \<Rightarrow> string \<Rightarrow> ('o, unit) action" where
  "run_notice_fanout_scenario st config shape run_label =
     (let replicas = nat (clientReplicas config); per_subscriber = replicas * entriesPerResource shape in
     run_then (performance_now (host_of st)) (\<lambda>started_at.
     run_then (live_domain_snapshot st LiveNotice) (\<lambda>baseline.
     run_then (artifact_write_json (host_of st) (run_label @ ''-stats-before.json'') (snapshot_json baseline)) (\<lambda>_.
     run_then (event st ''notice_fanout_started''
       [(''runLabel'', JStr run_label), (''publishers'', jnat replicas), (''subscribers'', jnat replicas),
        (''messagesPerPublisher'', jnat (entriesPerResource shape)), (''expectedPublications'', jnat per_subscriber),
        (''expectedDeliveries'', jnat (per_subscriber * replicas)), (''payloadBytes'', jnat (payloadBytes shape)),
        (''concurrency'', jint (liveConcurrency config)), (''handlerDelayMs'', jint (handlerDelayMs config))]) (\<lambda>_.
     run_then (start_role_containers st ''notice-subscriber'' replicas shape
       [(''DESTROYER_PUBLISHER_COUNT'', show_nat replicas)]) (\<lambda>subscribers.
     run_then (wait_for_role_event st subscribers ''notice_subscriber_ready'') (\<lambda>_.
     run_then (start_role_containers st ''notice-publisher'' replicas shape
       [(''DESTROYER_WAIT_FOR_START_SIGNAL'', ''true'')]) (\<lambda>publishers.
     run_then (steps [wait_for_role_event st publishers ''live_producer_ready'', signal_role_containers st publishers ''SIGUSR1'']) (\<lambda>_.
     run_then (finish_role_containers st publishers (run_label @ ''-notice-publisher'')) (\<lambda>publisher_logs.
     run_then (finish_role_containers st subscribers (run_label @ ''-notice-subscriber'')) (\<lambda>subscriber_logs.
     run_then (of_result (notice_counts publisher_logs subscriber_logs)) (\<lambda>found.
     run_then (of_result (check_notice_counts per_subscriber replicas found)) (\<lambda>_.
     run_then (wait_for_live_domain_quiescence st LiveNotice baseline run_label False) (\<lambda>quiescence.
     run_then (elapsed_since (host_of st) started_at) (\<lambda>ms.
     event st ''notice_fanout_complete''
       [(''runLabel'', JStr run_label), (''publications'', jnat (nt_publications found)), (''deliveries'', jnat (nt_deliveries found)),
        (''maxActiveHandlers'', jnat (nt_maxActive found)), (''cleanup'', cleanup_json (sn_cleanup quiescence)),
        (''elapsedMs'', jint ms)])))))))))))))))"

subsection \<open>RPC pressure\<close>

record rpc_calls =
  rc_calls :: nat
  rc_responseFrames :: nat
  rc_selected :: "string list"

definition select_workers :: "json \<Rightarrow> string list \<Rightarrow> string list result" where
  "select_workers worker_counts selected =
     fold_result (\<lambda>chosen (worker, found).
       try_in (numeric_value (Some found) (''workerCounts.'' @ worker)) (\<lambda>n.
       Inr (if n > 0 \<and> worker \<notin> set chosen then chosen @ [worker] else chosen))) selected
       (case worker_counts of JObj m \<Rightarrow> m | _ \<Rightarrow> [])"

definition rpc_call_counts :: "role_logs \<Rightarrow> rpc_calls result" where
  "rpc_call_counts logs =
     fold_result (\<lambda>t (_, l).
       try_in (required_event l ''rpc_caller_complete'') (\<lambda>r.
       try_in (numeric_field r ''completed'') (\<lambda>completed.
       try_in (numeric_field r ''responseFrames'') (\<lambda>frames.
       try_in (object_field r ''workerCounts'') (\<lambda>worker_counts.
       try_in (select_workers worker_counts (rc_selected t)) (\<lambda>selected.
       Inr \<lparr>rc_calls = rc_calls t + completed, rc_responseFrames = rc_responseFrames t + frames, rc_selected = selected\<rparr>))))))
     \<lparr>rc_calls = 0, rc_responseFrames = 0, rc_selected = []\<rparr> logs"

definition rpc_handled :: "role_logs \<Rightarrow> (nat \<times> nat) result" where
  "rpc_handled logs =
     fold_result (\<lambda>(handled, active) (_, l).
       try_in (required_event l ''rpc_worker_complete'') (\<lambda>r.
       try_in (numeric_field r ''handled'') (\<lambda>n.
       try_in (numeric_field r ''failures'') (\<lambda>failures.
       if n = 0 \<or> failures \<noteq> 0
       then Inl (Error ''RPC worker did not complete cleanly: handled=$, failures=$'' [ANat n, ANat failures])
       else try_in (numeric_field r ''maxActive'') (\<lambda>m. Inr (handled + n, max active m)))))) (0, 0) logs"

definition check_rpc_counts :: "nat \<Rightarrow> nat \<Rightarrow> rpc_calls \<Rightarrow> nat \<Rightarrow> unit result" where
  "check_rpc_counts expected replicas found handled =
     (if rc_calls found \<noteq> expected \<or> rc_responseFrames found \<noteq> expected * 2 \<or> handled \<noteq> expected
      then Inl (Error ''RPC pressure counts do not match: calls=$/$, frames=$/$, handled=$/$''
        [ANat (rc_calls found), ANat expected, ANat (rc_responseFrames found), ANat (expected * 2), ANat handled, ANat expected])
      else ensure (length (rc_selected found) = replicas)
        (Error ''RPC calls reached $/$ registered workers'' [ANat (length (rc_selected found)), ANat replicas]))"

text \<open>The default order of \<^verbatim>\<open>Array.sort\<close> is the one of the code units.\<close>

definition sort_strings :: "string list \<Rightarrow> string list" where
  "sort_strings xs = sort_key (map (of_char :: char \<Rightarrow> nat)) xs"

definition rpc_pressure_callers :: "'o stack \<Rightarrow> nat \<Rightarrow> workload_shape \<Rightarrow> string \<Rightarrow> ('o, role_logs) action" where
  "rpc_pressure_callers st replicas shape run_label =
     run_then (start_role_containers st ''rpc-caller'' replicas shape [(''DESTROYER_WAIT_FOR_START_SIGNAL'', ''true'')]) (\<lambda>callers.
     run_then (wait_for_role_event st callers ''live_producer_ready'') (\<lambda>_.
     run_then (signal_role_containers st callers ''SIGUSR1'') (\<lambda>_.
     finish_role_containers st callers (run_label @ ''-rpc-caller''))))"

definition run_rpc_pressure_scenario :: "'o stack \<Rightarrow> run_config \<Rightarrow> workload_shape \<Rightarrow> string \<Rightarrow> ('o, unit) action" where
  "run_rpc_pressure_scenario st config shape run_label =
     (let replicas = nat (clientReplicas config); expected = replicas * entriesPerResource shape in
     run_then (performance_now (host_of st)) (\<lambda>started_at.
     run_then (live_domain_snapshot st LiveRpc) (\<lambda>baseline.
     run_then (artifact_write_json (host_of st) (run_label @ ''-stats-before.json'') (snapshot_json baseline)) (\<lambda>_.
     run_then (event st ''rpc_pressure_started''
       [(''runLabel'', JStr run_label), (''callers'', jnat replicas), (''workers'', jnat replicas),
        (''callsPerCaller'', jnat (entriesPerResource shape)), (''expectedCalls'', jnat expected),
        (''expectedResponseFrames'', jnat (expected * 2)), (''payloadBytes'', jnat (payloadBytes shape)),
        (''callerConcurrency'', jint (liveConcurrency config)), (''workerConcurrency'', jint (max 1 (liveConcurrency config div 4))),
        (''handlerDelayMs'', jint (handlerDelayMs config))]) (\<lambda>_.
     run_then (start_role_containers st ''rpc-worker'' replicas shape []) (\<lambda>workers.
     run_then (wait_for_role_event st workers ''rpc_worker_ready'') (\<lambda>_.
     run_then (attempt (rpc_pressure_callers st replicas shape run_label)) (\<lambda>callers_outcome.
     run_then (signal_role_containers st workers ''SIGTERM'') (\<lambda>_.
     run_then (finish_role_containers st workers (run_label @ ''-rpc-worker'')) (\<lambda>worker_logs.
     run_then (of_result callers_outcome) (\<lambda>caller_logs.
     run_then (of_result (rpc_call_counts caller_logs)) (\<lambda>found.
     run_then (of_result (rpc_handled worker_logs)) (\<lambda>(handled, active).
     run_then (of_result (check_rpc_counts expected replicas found handled)) (\<lambda>_.
     run_then (wait_for_live_domain_quiescence st LiveRpc baseline run_label False) (\<lambda>quiescence.
     run_then (elapsed_since (host_of st) started_at) (\<lambda>ms.
     event st ''rpc_pressure_complete''
       [(''runLabel'', JStr run_label), (''calls'', jnat (rc_calls found)), (''responseFrames'', jnat (rc_responseFrames found)),
        (''handled'', jnat handled), (''selectedWorkers'', jstrs (sort_strings (rc_selected found))),
        (''maxActive'', jnat active), (''cleanup'', cleanup_json (sn_cleanup quiescence)), (''elapsedMs'', jint ms)]))))))))))))))))"

subsection \<open>Connection storm\<close>

definition storm_waves :: "workload_shape \<Rightarrow> nat" where
  "storm_waves shape = min (resources shape) (entriesPerResource shape)"

definition storm_operations :: "workload_shape \<Rightarrow> nat \<Rightarrow> nat" where
  "storm_operations shape wave =
     entriesPerResource shape div storm_waves shape + (if wave < entriesPerResource shape mod storm_waves shape then 1 else 0)"

definition add_cleanup :: "cleanup_metrics \<Rightarrow> cleanup_metrics \<Rightarrow> cleanup_metrics" where
  "add_cleanup t c =
     \<lparr>cl_failures = fl (cl_failures t + cl_failures c), cl_retries = fl (cl_retries t + cl_retries c),
      cl_successes = fl (cl_successes t + cl_successes c), cl_pending = cl_pending c, cl_oldestAgeMs = cl_oldestAgeMs c\<rparr>"

text \<open>\<^verbatim>\<open>failures.join('; ')\<close> of the messages of the rejected outcomes.\<close>

definition rejections :: "'a result list \<Rightarrow> error list" where
  "rejections outcomes = concat (map (\<lambda>r. case r of Inl e \<Rightarrow> [e] | Inr _ \<Rightarrow> []) outcomes)"

fun join_errors :: "error list \<Rightarrow> error" where
  "join_errors [] = Error [] []"
| "join_errors [Error t args] = Error (''Error: '' @ t) args"
| "join_errors (Error t args # es) = (case join_errors es of Error t' args' \<Rightarrow> Error (''Error: '' @ t @ ''; '' @ t') (args @ args'))"

definition wave_failure :: "nat \<Rightarrow> error list \<Rightarrow> error" where
  "wave_failure wave_number es =
     (case join_errors es of Error t args \<Rightarrow> Error (''Connection storm wave $ failed: '' @ t) (ANat wave_number # args))"

definition storm_wave ::
  "'o stack \<Rightarrow> run_config \<Rightarrow> workload_shape \<Rightarrow> nat \<Rightarrow> cleanup_metrics \<Rightarrow> ('o, cleanup_metrics) action" where
  "storm_wave st config shape wave totals =
     (let wave_number = wave + 1; operations = storm_operations shape wave;
          run_label = ''connection-storm-wave-'' @ pad wave_number 3;
          wave_shape = shape\<lparr>namespace := namespace shape @ ''-wave-'' @ show_nat wave_number, entriesPerResource := operations\<rparr> in
     run_then (performance_now (host_of st)) (\<lambda>wave_started_at.
     run_then (event st ''connection_storm_wave_started''
       [(''wave'', jnat wave_number), (''waves'', jnat (storm_waves shape)), (''operations'', jnat operations)]) (\<lambda>_.
     run_then (live_domain_snapshot st LiveNotice) (\<lambda>before.
     run_then (attempt (run_notice_fanout_scenario st config wave_shape run_label)) (\<lambda>notice.
     run_then (attempt (run_rpc_pressure_scenario st config wave_shape run_label)) (\<lambda>rpc.
     run_then (live_domain_snapshot st LiveNotice) (\<lambda>after.
     run_then (of_result (cleanup_delta (sn_cleanup before) (sn_cleanup after))) (\<lambda>delta.
     run_then (of_result (case rejections [notice, rpc] of [] \<Rightarrow> Inr () | es \<Rightarrow> Inl (wave_failure wave_number es))) (\<lambda>_.
     run_then (elapsed_since (host_of st) wave_started_at) (\<lambda>ms.
     run_then (event st ''connection_storm_wave_complete''
       [(''wave'', jnat wave_number), (''waves'', jnat (storm_waves shape)), (''cleanup'', cleanup_json delta),
        (''elapsedMs'', jint ms)]) (\<lambda>_.
     ret (add_cleanup totals delta))))))))))))"

fun storm_loop ::
  "'o stack \<Rightarrow> run_config \<Rightarrow> workload_shape \<Rightarrow> nat list \<Rightarrow> cleanup_metrics \<Rightarrow> ('o, cleanup_metrics) action" where
  "storm_loop st config shape [] totals = ret totals"
| "storm_loop st config shape (wave # waves) totals =
     run_then (storm_wave st config shape wave totals) (storm_loop st config shape waves)"

definition run_connection_storm_scenario :: "'o stack \<Rightarrow> run_config \<Rightarrow> workload_shape \<Rightarrow> ('o, unit) action" where
  "run_connection_storm_scenario st config shape =
     run_then (performance_now (host_of st)) (\<lambda>started_at.
     run_then (event st ''connection_storm_started''
       [(''waves'', jnat (storm_waves shape)), (''connectionsPerWave'', jint (clientReplicas config * 4)),
        (''totalConnectionLifecycles'', jint (int (storm_waves shape) * clientReplicas config * 4)),
        (''operationsPerRole'', jnat (entriesPerResource shape))]) (\<lambda>_.
     run_then (storm_loop st config shape [0..<storm_waves shape]
       \<lparr>cl_failures = 0, cl_retries = 0, cl_successes = 0, cl_pending = 0, cl_oldestAgeMs = 0\<rparr>) (\<lambda>totals.
     run_then (elapsed_since (host_of st) started_at) (\<lambda>ms.
     event st ''connection_storm_complete''
       [(''waves'', jnat (storm_waves shape)), (''cleanup'', cleanup_json totals), (''elapsedMs'', jint ms)]))))"

subsection \<open>Live churn\<close>

definition timed_phase :: "'o stack \<Rightarrow> string \<Rightarrow> ('o, unit) action \<Rightarrow> ('o, json) action" where
  "timed_phase st phase act =
     run_then (performance_now (host_of st)) (\<lambda>phase_started.
     run_then act (\<lambda>_.
     run_then (elapsed_since (host_of st) phase_started) (\<lambda>ms.
     ret (JObj [(''phase'', JStr phase), (''elapsedMs'', jint ms)]))))"

definition run_live_churn_scenario :: "'o stack \<Rightarrow> run_config \<Rightarrow> workload_shape \<Rightarrow> ('o, unit) action" where
  "run_live_churn_scenario st config shape =
     run_then (performance_now (host_of st)) (\<lambda>started_at.
     run_then (timed_phase st ''notice-subscription-and-rpc-registration-churn''
       (run_connection_storm_scenario st (config_of st) shape)) (\<lambda>storm.
     run_then (timed_phase st ''lease-expiry-renewal-loss-and-waiters'' (run_lease_contention_scenario st config shape)) (\<lambda>leases.
     run_then (timed_phase st ''rpc-worker-replacement-during-active-calls'' (run_rpc_stream_hose st config shape)) (\<lambda>rpc.
     run_then (elapsed_since (host_of st) started_at) (\<lambda>ms.
     let ledger = [(''phases'', JArr [storm, leases, rpc]), (''elapsedMs'', jint ms)] in
     run_then (artifact_write_json (host_of st) ''live-churn-ledger.json'' (JObj ledger)) (\<lambda>_.
     event st ''live_churn_complete'' ledger))))))"

subsection \<open>Waves\<close>

text \<open>
  The waves of a connection storm share out the operations of a role exactly: every wave runs at
  least one, no wave runs more than one more than another, and together they run them all.
\<close>
lemma storm_shares_operations:
  "list_all (\<lambda>wave. 1 \<le> storm_operations shape wave \<and>
       (storm_operations shape wave = entriesPerResource shape div storm_waves shape \<or>
        storm_operations shape wave = entriesPerResource shape div storm_waves shape + 1)) [0..<storm_waves shape] \<and>
   sum_list (map (storm_operations shape) [0..<storm_waves shape]) = (if storm_waves shape = 0 then 0 else entriesPerResource shape)"
proof
  let ?e = "entriesPerResource shape" and ?w = "storm_waves shape"
  show "list_all (\<lambda>wave. 1 \<le> storm_operations shape wave \<and>
      (storm_operations shape wave = ?e div ?w \<or> storm_operations shape wave = ?e div ?w + 1)) [0..<?w]"
  proof (clarsimp simp: list_all_iff)
    fix wave assume "wave < ?w"
    then have "0 < ?w" "?w \<le> ?e" by (auto simp: storm_waves_def)
    then have "1 \<le> ?e div ?w" using div_le_mono [of ?w ?e ?w] by simp
    then show "Suc 0 \<le> storm_operations shape wave \<and>
        (storm_operations shape wave = ?e div ?w \<or> storm_operations shape wave = Suc (?e div ?w))"
      by (simp add: storm_operations_def)
  qed
  show "sum_list (map (storm_operations shape) [0..<?w]) = (if ?w = 0 then 0 else ?e)"
  proof (cases "?w = 0")
    case False
    have extra: "sum_list (map (\<lambda>i. if i < m then 1 else 0) [0..<n]) = min m n" for m n :: nat
      by (induction n) auto
    have "sum_list (map (storm_operations shape) [0..<?w]) =
        sum_list (map (\<lambda>i. ?e div ?w + (if i < ?e mod ?w then 1 else 0)) [0..<?w])"
      by (simp add: storm_operations_def cong: map_cong)
    also have "\<dots> = ?w * (?e div ?w) + min (?e mod ?w) ?w"
      by (simp only: sum_list_addf extra) (simp add: sum_list_triv)
    also have "min (?e mod ?w) ?w = ?e mod ?w" using False by (simp add: less_imp_le)
    finally show ?thesis using False by simp
  qed simp
qed

subsection \<open>What a completion event says\<close>

definition LIVE_COMPLETIONS :: "string list" where
  "LIVE_COMPLETIONS = [''notice_fanout_complete'', ''rpc_pressure_complete'', ''rpc_stream_success_phase_complete'']"

text \<open>
  Every publication reached every subscriber; every call was answered with its frames and every
  worker took part; the full streamed phase moved exactly its calls, frames and bytes.
\<close>

definition sound_live_report :: "run_config \<Rightarrow> workload_shape \<Rightarrow> os_call \<Rightarrow> bool" where
  "sound_live_report config shape c =
     (let replicas = nat (clientReplicas config); expected = replicas * entriesPerResource shape;
          full = full_stream_shape config shape; expected_calls = ss_callers full * ss_callsPerCaller full;
          expected_frames = expected_calls * ss_framesPerCall full in
      case c of
        EventAppended n es \<Rightarrow>
          (n = ''notice_fanout_complete'' \<longrightarrow>
             entry_holds es ''publications'' (\<lambda>k. k = expected) \<and> entry_holds es ''deliveries'' (\<lambda>k. k = expected * replicas)) \<and>
          (n = ''rpc_pressure_complete'' \<longrightarrow>
             entry_holds es ''calls'' (\<lambda>k. k = expected) \<and> entry_holds es ''responseFrames'' (\<lambda>k. k = expected * 2) \<and>
             entry_holds es ''handled'' (\<lambda>k. k = expected) \<and>
             (\<exists>workers. map_get es ''selectedWorkers'' = Some (jstrs workers) \<and> distinct workers \<and> length workers = replicas)) \<and>
          (n = ''rpc_stream_success_phase_complete'' \<and> map_get es ''label'' = Some (JStr ''rpc-stream-full'') \<longrightarrow>
             entry_holds es ''completed'' (\<lambda>k. k = expected_calls) \<and> entry_holds es ''interrupted'' (\<lambda>k. k = 0) \<and>
             entry_holds es ''responseFrames'' (\<lambda>k. k = expected_frames) \<and>
             entry_holds es ''responseBytes'' (\<lambda>k. k = expected_frames * ss_frameBytes full))
      | _ \<Rightarrow> True)"

interpretation live_calls: quiet_stack LIVE_COMPLETIONS "sound_live_report config shape" for config shape
  by unfold_locales
    (auto simp: sound_live_report_def reports_under_def STACK_REPORTS_def LIVE_COMPLETIONS_def Let_def split: os_call.splits)

lemma live_event:
  "sound_live_report config shape (EventAppended n es) \<Longrightarrow> only_calls (sound_live_report config shape) (event st n es)"
  unfolding event_def artifact_event_def by (intro calls_intros only_calls_effect) simp_all

lemma selected_distinct: "rpc_call_counts logs = Inr t \<Longrightarrow> distinct (rc_selected t)"
proof -
  have chosen: "distinct zs" if "select_workers m xs = Inr zs" "distinct xs" for m xs zs
    using that(1) unfolding select_workers_def
    by (rule fold_result_invariant [where P = distinct]) (auto simp: that(2) result_simps split: if_splits)
  assume "rpc_call_counts logs = Inr t"
  then show ?thesis unfolding rpc_call_counts_def
    by (rule fold_result_invariant [where P = "\<lambda>t. distinct (rc_selected t)"]) (auto simp: result_simps, blast dest: chosen)
qed

lemma sort_strings_same: "distinct (sort_strings xs) = distinct xs" "length (sort_strings xs) = length xs"
  by (simp_all add: sort_strings_def)

lemma stream_expectation_exact:
  "stream_expectation label s = Inr (a, b, c) \<Longrightarrow>
     a = ss_callers s * ss_callsPerCaller s \<and> b = a * ss_framesPerCall s \<and> c = b * ss_frameBytes s"
  by (auto simp: stream_expectation_def stream_product_def Let_def result_simps split: if_splits)

lemma fleet_calls [calls_intros]:
  assumes "label = ''rpc-stream-full'' \<Longrightarrow> s = full_stream_shape config shape"
  shows "only_calls (sound_live_report config shape) (run_successful_fleet st config label s)"
  unfolding run_successful_fleet_def stream_callers_def Let_def
  by (intro only_calls_of_result_then only_calls_pair calls_intros live_event live_calls.calls_json)
    (auto simp: LIVE_COMPLETIONS_def sound_live_report_def Let_def caller_totals_entries_def check_stream_counts_def result_simps
      dest!: stream_expectation_exact assms)

text \<open>
  C25.  The live scenarios report completion only with exact counts: every publication reached every
  subscriber, every call was answered by its frames and each replica of the workers took part, and
  the full streamed phase moved the calls, frames and bytes that its configuration multiplies to.
\<close>
theorem live_completion_sound:
  "(\<exists>cs. calls (snd (run_notice_fanout_scenario st config shape run_label w)) = calls w @ cs \<and>
      list_all (sound_live_report config shape) cs) \<and>
   (\<exists>cs. calls (snd (run_rpc_pressure_scenario st config shape run_label w)) = calls w @ cs \<and>
      list_all (sound_live_report config shape) cs) \<and>
   (\<exists>cs. calls (snd (run_rpc_stream_hose st config shape w)) = calls w @ cs \<and> list_all (sound_live_report config shape) cs)"
proof -
  note defs = LIVE_COMPLETIONS_def sound_live_report_def Let_def result_simps
  have "only_calls (sound_live_report config shape) (run_notice_fanout_scenario st config shape run_label)"
    unfolding run_notice_fanout_scenario_def Let_def
    by (intro only_calls_of_result_then calls_intros live_event live_calls.calls_json)
      (auto simp: defs check_notice_counts_def)
  moreover have "only_calls (sound_live_report config shape) (run_rpc_pressure_scenario st config shape run_label)"
    unfolding run_rpc_pressure_scenario_def rpc_pressure_callers_def Let_def
    by (intro only_calls_of_result_then only_calls_pair calls_intros live_event live_calls.calls_json)
      (auto simp: defs check_rpc_counts_def sort_strings_same split: if_splits
        intro!: exI [of _ "sort_strings ws" for ws] dest: selected_distinct)
  moreover have "only_calls (sound_live_report config shape) (run_rpc_stream_hose st config shape)"
    unfolding run_rpc_stream_hose_def run_cancellation_phase_def run_worker_kill_phase_def run_fitz_restart_phase_def
      run_probe_def start_fault_worker_def start_fault_caller_def stop_workers_def Let_def
    by (intro only_calls_of_result_then only_calls_pair calls_intros live_calls.calls_event live_calls.calls_json)
      (simp_all add: defs)
  ultimately show ?thesis unfolding only_calls_def by blast
qed

end
