(* ===== verification/IsolationScenarios.thy ===== *)
theory IsolationScenarios
  imports RpcScenarios
begin

text \<open>
  The scenarios that make an actor of the broker panic and the one that runs two identities on the
  same routes: src/orchestration/actor-supervision-failpoint.ts,
  family-actor-degradation-observability.ts, family-actor-exhaustion-readiness.ts,
  family-actor-inflight-concurrent-failure.ts and route-family-isolation-matrix.ts.
\<close>

subsection \<open>Canaries\<close>

definition canary_covers :: "string list \<Rightarrow> json \<Rightarrow> bool" where
  "canary_covers domains r =
     (case json_get r ''domains'' of
        Some (JArr ds) \<Rightarrow> list_all (\<lambda>d. JStr d \<in> set ds) domains \<and> json_get r ''operationsPerDomain'' = Some (jnat 1)
      | _ \<Rightarrow> False)"

definition canary_domain_count :: "json \<Rightarrow> nat" where
  "canary_domain_count r =
     (case json_get r ''domains'' of
        Some (JArr ds) \<Rightarrow> if json_get r ''operationsPerDomain'' = Some (jnat 1) then length ds else 0
      | _ \<Rightarrow> 0)"

definition onlyLog :: "string \<Rightarrow> role_logs \<Rightarrow> string result" where
  "onlyLog template logs =
     (case logs of [(_, contents)] \<Rightarrow> Inr contents | _ \<Rightarrow> Inl (Error template [ANat (length logs)]))"

definition role_record ::
  "'o stack \<Rightarrow> string \<Rightarrow> workload_shape \<Rightarrow> (string, string) js_map \<Rightarrow> string \<Rightarrow> string \<Rightarrow> string \<Rightarrow> ('o, json) action" where
  "role_record st role shape env label template closing =
     run_then (run_role st role shape env label) (\<lambda>logs.
     of_result (try_in (onlyLog template logs) (\<lambda>l. required_event l closing)))"

definition all_permissions :: "string list" where
  "all_permissions =
     [''queue://**#*'', ''kv://**#*'', ''stream://**#*'', ''schedule://**#*'', ''notice://**#*'', ''lease://**#*'', ''rpc://**#*'']"

subsection \<open>Failpoints and readiness\<close>

definition post_failpoint :: "'o stack \<Rightarrow> run_config \<Rightarrow> string \<Rightarrow> ('o, http_response) action" where
  "post_failpoint st config failpoint =
     (let url = ''http://127.0.0.1:'' @ show_int (port config) @ ''/destroyer/failpoints/'' @ failpoint in
      effect [Fetched ''POST'' url] (host_fetch (host_of st) ''POST'' url [] (requestTimeoutMs config)))"

definition readyz_url :: "run_config \<Rightarrow> string" where
  "readyz_url config = ''http://127.0.0.1:'' @ show_int (port config) @ ''/readyz''"

definition wait_for_readiness_withdrawal :: "'o stack \<Rightarrow> run_config \<Rightarrow> ('o, bool) action" where
  "wait_for_readiness_withdrawal st config =
     run_then (deadline_in st (requestTimeoutMs config)) (\<lambda>deadline.
     poll_until st deadline 25
       (\<lambda>_. try_catch
          (run_then (fetch_get (host_of st) (readyz_url config) 500) (\<lambda>r.
             ret (if resp_status r \<noteq> 200 then Inr True else Inl ())))
          (\<lambda>_. ret (Inr True)))
       (\<lambda>_. ret False) ())"

definition inject_and_wait_for_readiness_withdrawal :: "'o stack \<Rightarrow> run_config \<Rightarrow> string \<Rightarrow> ('o, unit) action" where
  "inject_and_wait_for_readiness_withdrawal st config d =
     run_then (post_failpoint st config (d @ ''-actor-panic'')) (\<lambda>r.
     if \<not> response_ok r
     then fail (Error ''$ actor failpoint returned HTTP $'' [AStr d, ANat (resp_status r)])
     else case parse_json (resp_body r) of
         None \<Rightarrow> fail (Error ''SyntaxError'' [AStr (resp_body r)])
       | Some v \<Rightarrow>
           if json_get v ''injected'' \<noteq> Some (JBool True)
           then fail (Error ''$ actor failpoint did not confirm injection'' [AStr d])
           else run_then (wait_for_readiness_withdrawal st config) (\<lambda>withdrawn.
             if withdrawn then ret ()
             else fail (Error ''$ actor panic did not withdraw readiness'' [AStr d])))"

definition inject_and_restart :: "'o stack \<Rightarrow> run_config \<Rightarrow> string \<Rightarrow> ('o, unit) action" where
  "inject_and_restart st config d =
     steps [inject_and_wait_for_readiness_withdrawal st config d, stop_fitz st, restart_fitz st]"

subsection \<open>Actor supervision\<close>

definition ACTOR_COUNTS :: "(string \<times> nat \<times> string) list" where
  "ACTOR_COUNTS =
     [(''domainsInjected'', 7, ''actor failpoints injected for $/7 domains''),
      (''correlatedDomainsInjected'', 7, ''correlated actor failpoint injected for $/7 domains''),
      (''readinessWithdrawals'', 8, ''readiness withdrawals $/8''),
      (''restartsRecovered'', 8, ''restart recoveries $/8'')]"

definition RECOVERY_COUNTS :: "(string \<times> nat \<times> string) list" where
  "RECOVERY_COUNTS =
     [(''kvRecovered'', 1, ''KV recovery $/1''), (''leaseRecovered'', 1, ''Lease recovery $/1''),
      (''scheduleRecovered'', 1, ''Schedule recovery $/1''), (''streamRecovered'', 1, ''Stream recovery $/1''),
      (''rpcRecovered'', 1, ''RPC recovery $/1''),
      (''correlatedRecoveryOperations'', 7, ''Correlated recovery $/7 operations'')]"

definition templated_field :: "json \<Rightarrow> string \<times> nat \<times> string \<Rightarrow> unit result" where
  "templated_field r p =
     (case p of (field, n, template) \<Rightarrow>
       ensure (json_get r field = Some (jnat n)) (Error template [shown_field r field]))"

definition same_field :: "json \<Rightarrow> string \<Rightarrow> string \<Rightarrow> string \<Rightarrow> unit result" where
  "same_field r field expected template =
     ensure (json_get r field = json_get r expected) (Error template [shown_field r field, shown_field r expected])"

definition assert_actor_supervision_evidence :: "json \<Rightarrow> unit result" where
  "assert_actor_supervision_evidence r =
     try_in (for_each (templated_field r) ACTOR_COUNTS) (\<lambda>_.
     try_in (same_field r ''canaryDeliveries'' ''expectedCanaryDeliveries'' ''Notice recovery canary deliveries $/$'') (\<lambda>_.
     try_in (same_field r ''queueRecovered'' ''expectedQueueRecovered'' ''Queue recovery $/$'') (\<lambda>_.
     try_in (for_each (templated_field r) RECOVERY_COUNTS) (\<lambda>_.
     try_in (same_field r ''activeFaultClients'' ''expectedActiveFaultClients'' ''Active-fault clients $/$'') (\<lambda>_.
     case (json_get r ''activeFaultErrors'', json_get r ''activeFaultClients'') of
       (Some (JNum errors), Some (JNum found)) \<Rightarrow>
         ensure (\<not> errors < found) (Error ''Active-fault errors $/$ clients'' [ARat errors, ARat found])
     | _ \<Rightarrow> Inl (Error ''Active-fault errors $/$ clients''
         [shown_field r ''activeFaultErrors'', shown_field r ''activeFaultClients'']))))))"

definition active_fault_observation_timeout_ms :: "int \<Rightarrow> int \<Rightarrow> int" where
  "active_fault_observation_timeout_ms request_timeout_ms startup_timeout_ms = min startup_timeout_ms (request_timeout_ms * 3)"

definition recovery_canary_namespace :: "string \<Rightarrow> string \<Rightarrow> string" where
  "recovery_canary_namespace ns d = ns @ ''-'' @ d @ ''-recovery''"

definition supervision_canary :: "'o stack \<Rightarrow> workload_shape \<Rightarrow> string \<Rightarrow> ('o, json) action" where
  "supervision_canary st shape d =
     role_record st ''canary'' (shape\<lparr>entriesPerResource := 1\<rparr>)
       [(''DESTROYER_NAMESPACE'', recovery_canary_namespace (namespace shape) d)]
       (''actor-supervision-'' @ d @ ''-recovery-canary'') ''Expected one canary log, found $'' ''canary_complete''"

definition inject_and_recover :: "'o stack \<Rightarrow> run_config \<Rightarrow> workload_shape \<Rightarrow> string \<Rightarrow> ('o, nat) action" where
  "inject_and_recover st config shape d =
     run_then (inject_and_restart st config d) (\<lambda>_.
     run_then (supervision_canary st shape d) (\<lambda>r.
     ret (if canary_covers [d] r then 1 else 0)))"

definition observe_active_fault :: "'o stack \<Rightarrow> run_config \<Rightarrow> ('o, rat) action" where
  "observe_active_fault st config =
     (let replicas = nat (clientReplicas config) in
     run_then (read_clock (host_timestamp (host_of st))) (\<lambda>active_fault_started_at.
     run_then (start_clients st replicas) (\<lambda>_.
     run_then (wait_for_all_client_domains st active_fault_started_at replicas) (\<lambda>_.
     run_then (read_clock (host_timestamp (host_of st))) (\<lambda>fault_started_at.
     run_then (inject_and_wait_for_readiness_withdrawal st config ''all-domain'') (\<lambda>_.
     run_then (wait_for_all_client_errors st fault_started_at replicas
       (active_fault_observation_timeout_ms (requestTimeoutMs config) (startupTimeoutMs config))) (\<lambda>errors.
     run_then (stop_bombard_clients_and_capture st ''actor-supervision-active-fault'') (\<lambda>_.
     run_then (steps [stop_fitz st, restart_fitz st]) (\<lambda>_.
     ret errors)))))))))"

text \<open>The counters of the straight-line code are written with the values they have at its end.\<close>

definition run_actor_supervision_failpoint_scenario :: "'o stack \<Rightarrow> run_config \<Rightarrow> workload_shape \<Rightarrow> ('o, unit) action" where
  "run_actor_supervision_failpoint_scenario st config shape =
     (let canary_shape = shape\<lparr>entriesPerResource := 1\<rparr>;
          deliveries = jint (clientReplicas config * clientReplicas config);
          replicas = jint (clientReplicas config) in
     run_then (performance_now (host_of st)) (\<lambda>started_at.
     run_then (inject_and_restart st config ''notice'') (\<lambda>_.
     run_then (run_notice_fanout_scenario st config canary_shape ''actor-supervision-recovery-canary'') (\<lambda>_.
     run_then (inject_and_restart st config ''queue'') (\<lambda>_.
     run_then (run_queue_redelivery_scenario st config canary_shape) (\<lambda>_.
     run_then (inject_and_recover st config shape ''kv'') (\<lambda>kv.
     run_then (inject_and_recover st config shape ''lease'') (\<lambda>lease.
     run_then (inject_and_recover st config shape ''schedule'') (\<lambda>schedule.
     run_then (inject_and_recover st config shape ''stream'') (\<lambda>stream.
     run_then (inject_and_recover st config shape ''rpc'') (\<lambda>rpc.
     run_then (observe_active_fault st config) (\<lambda>errors.
     run_then (supervision_canary st shape ''correlated'') (\<lambda>correlated.
     let evidence = JObj
       [(''domainsInjected'', jnat 7), (''correlatedDomainsInjected'', jnat 7), (''activeFaultClients'', replicas),
        (''expectedActiveFaultClients'', replicas), (''activeFaultErrors'', JNum errors), (''readinessWithdrawals'', jnat 8),
        (''restartsRecovered'', jnat 8), (''canaryDeliveries'', deliveries), (''expectedCanaryDeliveries'', deliveries),
        (''queueRecovered'', jnat 1), (''expectedQueueRecovered'', jnat 1), (''kvRecovered'', jnat kv),
        (''leaseRecovered'', jnat lease), (''scheduleRecovered'', jnat schedule), (''streamRecovered'', jnat stream),
        (''rpcRecovered'', jnat rpc), (''correlatedRecoveryOperations'', jnat (canary_domain_count correlated))] in
     run_then (of_result (assert_actor_supervision_evidence evidence)) (\<lambda>_.
     report_evidence st started_at ''actor-supervision-failpoint-evidence.json'' ''actor_supervision_failpoint_complete''
       evidence []))))))))))))))"

subsection \<open>Degradation of a family actor\<close>

definition DEGRADATION_DOMAINS :: "(string \<times> string) list" where
  "DEGRADATION_DOMAINS =
     [(''stream'', ''fitz_stream_family_failed_closed_total''), (''rpc'', ''fitz_rpc_family_failed_closed_total'')]"

definition DEGRADATION_COUNTS :: "(string \<times> nat \<times> string) list" where
  "DEGRADATION_COUNTS =
     [(''domainsObserved'', 2, ''observed domains''), (''metricIncrements'', 2, ''metric increments''),
      (''duplicateMetricIncrements'', 0, ''duplicate metric increments''), (''siblingCanaries'', 2, ''sibling canaries''),
      (''readinessChecks'', 2, ''readiness checks''), (''restartMetricResets'', 2, ''restart metric resets'')]"

definition assert_family_actor_degradation_evidence :: "json \<Rightarrow> unit result" where
  "assert_family_actor_degradation_evidence r = for_each (exact_field r) DEGRADATION_COUNTS"

record degradation_tally =
  dg_increments :: rat
  dg_duplicates :: rat
  dg_canaries :: nat
  dg_readiness :: nat
  dg_resets :: nat

definition no_degradation :: degradation_tally where
  "no_degradation = \<lparr>dg_increments = 0, dg_duplicates = 0, dg_canaries = 0, dg_readiness = 0, dg_resets = 0\<rparr>"

definition degradation_json :: "degradation_tally \<Rightarrow> json" where
  "degradation_json t = JObj
     [(''domainsObserved'', jnat 2), (''metricIncrements'', JNum (dg_increments t)),
      (''duplicateMetricIncrements'', JNum (dg_duplicates t)), (''siblingCanaries'', jnat (dg_canaries t)),
      (''readinessChecks'', jnat (dg_readiness t)), (''restartMetricResets'', jnat (dg_resets t))]"

definition inject_family :: "'o stack \<Rightarrow> run_config \<Rightarrow> string \<Rightarrow> ('o, unit) action" where
  "inject_family st config d =
     run_then (post_failpoint st config (d @ ''-family-1-actor-panic'')) (\<lambda>r.
     if response_ok r then ret ()
     else fail (Error ''$ family failpoint returned HTTP $'' [AStr d, ANat (resp_status r)]))"

text \<open>The local variables are the last value seen and the last failure.\<close>

definition wait_for_metric :: "'o stack \<Rightarrow> string \<Rightarrow> rat \<Rightarrow> int \<Rightarrow> ('o, rat) action" where
  "wait_for_metric st metric expected timeout_ms =
     run_then (deadline_in st timeout_ms) (\<lambda>deadline.
     poll_until st deadline 25
       (\<lambda>(observed, last_error). run_then (attempt (prometheus_metric_value st metric)) (\<lambda>r.
          ret (case r of
            Inl e \<Rightarrow> Inl (observed, Some e)
          | Inr x \<Rightarrow> if x = expected then Inr x else Inl (Some x, last_error))))
       (\<lambda>(observed, last_error). fail
          (case (case last_error of None \<Rightarrow> Error ''undefined'' [] | Some e \<Rightarrow> e) of Error template args \<Rightarrow>
             Error (''$ observed $, expected $; last fetch error='' @ template)
               ([AStr metric, (case observed of None \<Rightarrow> AStr ''undefined'' | Some x \<Rightarrow> ARat x), ARat expected] @ args)))
       (None, None))"

definition degradation_round ::
  "keyed_hash \<Rightarrow> 'o stack \<Rightarrow> run_config \<Rightarrow> workload_shape \<Rightarrow> string \<times> string \<Rightarrow> degradation_tally \<Rightarrow> ('o, degradation_tally) action" where
  "degradation_round hmac st config shape p t =
     (case p of (d, metric) \<Rightarrow>
     run_then (prometheus_metric_value st metric) (\<lambda>baseline.
     run_then (inject_family st config d) (\<lambda>_.
     run_then (wait_for_metric st metric (fl (baseline + 1)) (requestTimeoutMs config)) (\<lambda>first.
     run_then (steps [inject_family st config d, sleep (host_of st) 250]) (\<lambda>_.
     run_then (prometheus_metric_value st metric) (\<lambda>repeated.
     run_then (fetch_get (host_of st) (readyz_url config) (requestTimeoutMs config)) (\<lambda>ready.
     if resp_status ready \<noteq> 200 then fail (Error ''$ partial family failure withdrew readiness'' [AStr d])
     else
     run_then (sign_token hmac st ''identity-b'' all_permissions) (\<lambda>token.
     run_then (role_record st ''canary''
       (shape\<lparr>namespace := namespace shape @ ''-'' @ d @ ''-degradation-canary'', entriesPerResource := 1\<rparr>)
       [(''DESTROYER_JWT'', token)] (''family-degradation-'' @ d @ ''-canary'') ''expected one canary log, found $''
       ''canary_complete'') (\<lambda>complete.
     run_then (steps [stop_fitz st, restart_fitz st]) (\<lambda>_.
     run_then (wait_for_metric st metric 0 (requestTimeoutMs config)) (\<lambda>reset.
     ret \<lparr>dg_increments = fl (dg_increments t + fl (first - baseline)),
          dg_duplicates = fl (dg_duplicates t + fl (repeated - first)),
          dg_canaries = dg_canaries t + (if canary_covers [d] complete then 1 else 0),
          dg_readiness = dg_readiness t + 1,
          dg_resets = dg_resets t + (if reset = 0 then 1 else 0)\<rparr>)))))))))))"

fun fold_rounds :: "('a \<Rightarrow> 's \<Rightarrow> ('o, 's) action) \<Rightarrow> 'a list \<Rightarrow> 's \<Rightarrow> ('o, 's) action" where
  "fold_rounds f [] s = ret s"
| "fold_rounds f (x # xs) s = run_then (f x s) (fold_rounds f xs)"

definition run_family_actor_degradation_observability_scenario ::
  "keyed_hash \<Rightarrow> 'o stack \<Rightarrow> run_config \<Rightarrow> workload_shape \<Rightarrow> ('o, unit) action" where
  "run_family_actor_degradation_observability_scenario hmac st config shape =
     run_then (performance_now (host_of st)) (\<lambda>started_at.
     run_then (fold_rounds (degradation_round hmac st config shape) DEGRADATION_DOMAINS no_degradation) (\<lambda>t.
     run_then (of_result (assert_family_actor_degradation_evidence (degradation_json t))) (\<lambda>_.
     report_evidence st started_at ''family-actor-degradation-observability-evidence.json''
       ''family_actor_degradation_observability_complete'' (degradation_json t) (timeout_entry config))))"

subsection \<open>Exhaustion of the families\<close>

definition EXHAUSTION_COUNTS :: "(string \<times> nat \<times> string) list" where
  "EXHAUSTION_COUNTS =
     [(''domainsExhausted'', 2, ''exhausted domains''), (''partialReadinessChecks'', 2, ''partial readiness checks''),
      (''totalReadinessWithdrawals'', 2, ''total readiness withdrawals''),
      (''failedFamilyRejections'', 4, ''failed-family rejections''), (''restartRecoveries'', 2, ''restart recoveries'')]"

definition assert_family_actor_exhaustion_evidence :: "json \<Rightarrow> unit result" where
  "assert_family_actor_exhaustion_evidence r = for_each (exact_field r) EXHAUSTION_COUNTS"

text \<open>Counters summed from the records of the workers, by their field names.\<close>

type_synonym counter_sums = "(string, rat) js_map"

definition add_counters :: "json \<Rightarrow> string list \<Rightarrow> counter_sums \<Rightarrow> counter_sums result" where
  "add_counters r names acc =
     try_in (traverse (\<lambda>field. try_in (record_number r field) (\<lambda>x. Inr (field, x))) names) (\<lambda>found.
     Inr (foldl (\<lambda>m (k, x). map_set m k (fl (get_or 0 (map_get m k) + x))) acc found))"

definition counter_entries :: "string list \<Rightarrow> counter_sums \<Rightarrow> (string \<times> json) list" where
  "counter_entries names acc = map (\<lambda>k. (k, JNum (get_or 0 (map_get acc k)))) names"

definition EXHAUSTION_FIELDS :: "string list" where
  "EXHAUSTION_FIELDS = [''partialReadinessChecks'', ''totalReadinessWithdrawals'', ''failedFamilyRejections'']"

definition exhaustion_round ::
  "keyed_hash \<Rightarrow> 'o stack \<Rightarrow> workload_shape \<Rightarrow> string \<Rightarrow> counter_sums \<times> nat \<Rightarrow> ('o, counter_sums \<times> nat) action" where
  "exhaustion_round hmac st shape d p =
     (case p of (acc, recoveries) \<Rightarrow>
     run_then (sign_token hmac st ''identity-a'' [d @ ''://'' @ namespace shape @ ''/**#*'']) (\<lambda>token.
     run_then (role_record st ''family-actor-exhaustion-readiness'' shape
       [(''DESTROYER_JWT'', token), (''DESTROYER_FAMILY_EXHAUSTION_DOMAIN'', d),
        (''DESTROYER_FAMILY_EXHAUSTION_URL'', WEBSOCKET_URL), (''DESTROYER_FAMILY_EXHAUSTION_HTTP_URL'', ''http://fitz:4090'')]
       (''family-actor-exhaustion-'' @ d) ''expected one worker log, found $'' ''family_actor_exhaustion_worker_complete'') (\<lambda>complete.
     run_then (of_result (add_counters complete EXHAUSTION_FIELDS acc)) (\<lambda>acc'.
     run_then (steps [stop_fitz st, restart_fitz st]) (\<lambda>_.
     run_then (sign_token hmac st ''identity-a'' all_permissions) (\<lambda>canary_token.
     run_then (role_record st ''canary''
       (shape\<lparr>entriesPerResource := 1, namespace := namespace shape @ ''-'' @ d @ ''-exhaustion-recovery''\<rparr>)
       [(''DESTROYER_JWT'', canary_token)] (''family-actor-exhaustion-'' @ d @ ''-recovery'')
       ''expected one worker log, found $'' ''canary_complete'') (\<lambda>canary.
     ret (acc', recoveries + (if canary_covers [d] canary then 1 else 0)))))))))"

definition exhaustion_json :: "counter_sums \<times> nat \<Rightarrow> json" where
  "exhaustion_json p = JObj
     ((''domainsExhausted'', jnat 2) # counter_entries EXHAUSTION_FIELDS (fst p) @ [(''restartRecoveries'', jnat (snd p))])"

definition run_family_actor_exhaustion_readiness_scenario ::
  "keyed_hash \<Rightarrow> 'o stack \<Rightarrow> run_config \<Rightarrow> workload_shape \<Rightarrow> ('o, unit) action" where
  "run_family_actor_exhaustion_readiness_scenario hmac st config shape =
     run_then (performance_now (host_of st)) (\<lambda>started_at.
     run_then (fold_rounds (exhaustion_round hmac st shape) [''stream'', ''rpc''] ([], 0)) (\<lambda>p.
     run_then (of_result (assert_family_actor_exhaustion_evidence (exhaustion_json p))) (\<lambda>_.
     report_evidence st started_at ''family-actor-exhaustion-readiness-evidence.json''
       ''family_actor_exhaustion_readiness_complete'' (exhaustion_json p) (timeout_entry config))))"

subsection \<open>Concurrent failures in flight\<close>

definition CYCLES :: nat where
  "CYCLES = 3"

definition INFLIGHT_COUNTS :: "(string \<times> nat \<times> string) list" where
  "INFLIGHT_COUNTS =
     [(''cycles'', CYCLES, ''cycles''), (''concurrentFailures'', 12, ''concurrent failures''),
      (''streamInflightRejections'', 6, ''Stream in-flight rejections''),
      (''rpcInflightTerminations'', 6, ''RPC in-flight terminations''), (''siblingOperations'', 6, ''sibling operations''),
      (''readinessChecks'', 6, ''readiness checks''), (''metricIncrements'', 12, ''metric increments''),
      (''restartRecoveries'', CYCLES, ''restart recoveries''), (''crossFamilyDeliveries'', 0, ''cross-family deliveries'')]"

definition assert_family_actor_inflight_failure_evidence :: "json \<Rightarrow> unit result" where
  "assert_family_actor_inflight_failure_evidence r = for_each (exact_field r) INFLIGHT_COUNTS"

definition wait_for_metric_delta :: "'o stack \<Rightarrow> string \<Rightarrow> rat \<Rightarrow> nat \<Rightarrow> int \<Rightarrow> ('o, rat) action" where
  "wait_for_metric_delta st metric baseline expected timeout_ms =
     run_then (deadline_in st timeout_ms) (\<lambda>deadline.
     poll_until st deadline 25
       (\<lambda>_. run_then (prometheus_metric_value st metric) (\<lambda>x.
          let delta = fl (x - baseline) in ret (if delta = of_nat expected then Inr delta else Inl delta)))
       (\<lambda>delta. fail (Error ''$ incremented $/$'' [AStr metric, ARat delta, ANat expected])) 0)"

definition INFLIGHT_FIELDS :: "string list" where
  "INFLIGHT_FIELDS =
     [''concurrentFailures'', ''streamInflightRejections'', ''rpcInflightTerminations'', ''siblingOperations'',
      ''readinessChecks'', ''crossFamilyDeliveries'']"

record inflight_tally =
  if_sums :: counter_sums
  if_increments :: rat
  if_recoveries :: nat

definition inflight_cycle ::
  "keyed_hash \<Rightarrow> 'o stack \<Rightarrow> run_config \<Rightarrow> workload_shape \<Rightarrow> nat \<Rightarrow> inflight_tally \<Rightarrow> ('o, inflight_tally) action" where
  "inflight_cycle hmac st config shape cycle t =
     (let ns = namespace shape @ ''-cycle-'' @ show_nat cycle;
          label = ''family-actor-inflight-cycle-'' @ show_nat cycle;
          stream_metric = ''fitz_stream_family_failed_closed_total'';
          rpc_metric = ''fitz_rpc_family_failed_closed_total'';
          timeout_ms = requestTimeoutMs config in
     run_then (prometheus_metric_value st stream_metric) (\<lambda>stream_baseline.
     run_then (prometheus_metric_value st rpc_metric) (\<lambda>rpc_baseline.
     run_then (sign_token hmac st ''identity-a'' (family_permissions ns)) (\<lambda>token.
     run_then (role_record st ''family-actor-inflight-concurrent-failure'' (shape\<lparr>namespace := ns\<rparr>)
       [(''DESTROYER_JWT'', token), (''DESTROYER_FAMILY_INFLIGHT_URL'', WEBSOCKET_URL),
        (''DESTROYER_FAMILY_INFLIGHT_HTTP_URL'', ''http://fitz:4090'')]
       label ''expected one worker log, found $'' ''family_actor_inflight_concurrent_failure_worker_complete'') (\<lambda>complete.
     run_then (of_result (add_counters complete INFLIGHT_FIELDS (if_sums t))) (\<lambda>acc.
     run_then (wait_for_metric_delta st stream_metric stream_baseline 2 timeout_ms) (\<lambda>stream_delta.
     run_then (wait_for_metric_delta st rpc_metric rpc_baseline 2 timeout_ms) (\<lambda>rpc_delta.
     run_then (steps [stop_fitz st, restart_fitz st]) (\<lambda>_.
     run_then (sign_token hmac st ''identity-c'' all_permissions) (\<lambda>canary_token.
     run_then (role_record st ''canary'' (shape\<lparr>namespace := ns @ ''-recovery'', entriesPerResource := 1\<rparr>)
       [(''DESTROYER_JWT'', canary_token)] (label @ ''-recovery'') ''expected one worker log, found $'' ''canary_complete'') (\<lambda>recovered.
     ret \<lparr>if_sums = acc, if_increments = fl (fl (if_increments t + stream_delta) + rpc_delta),
          if_recoveries = if_recoveries t + (if canary_covers [''stream'', ''rpc''] recovered then 1 else 0)\<rparr>)))))))))))"

definition inflight_json :: "inflight_tally \<Rightarrow> json" where
  "inflight_json t = JObj
     ((''cycles'', jnat CYCLES) # counter_entries (take 5 INFLIGHT_FIELDS) (if_sums t) @
      [(''metricIncrements'', JNum (if_increments t)), (''restartRecoveries'', jnat (if_recoveries t))] @
      counter_entries (drop 5 INFLIGHT_FIELDS) (if_sums t))"

definition run_family_actor_inflight_concurrent_failure_scenario ::
  "keyed_hash \<Rightarrow> 'o stack \<Rightarrow> run_config \<Rightarrow> workload_shape \<Rightarrow> ('o, unit) action" where
  "run_family_actor_inflight_concurrent_failure_scenario hmac st config shape =
     run_then (performance_now (host_of st)) (\<lambda>started_at.
     run_then (fold_rounds (inflight_cycle hmac st config shape) [0..<CYCLES]
       \<lparr>if_sums = [], if_increments = 0, if_recoveries = 0\<rparr>) (\<lambda>t.
     run_then (of_result (assert_family_actor_inflight_failure_evidence (inflight_json t))) (\<lambda>_.
     report_evidence st started_at ''family-actor-inflight-concurrent-failure-evidence.json''
       ''family_actor_inflight_concurrent_failure_complete'' (inflight_json t) (timeout_entry config))))"

subsection \<open>Two identities on the same routes\<close>

definition route_family_permissions :: "string \<Rightarrow> string list" where
  "route_family_permissions ns =
     map (\<lambda>d. domain_name d @ ''://'' @ ns @ ''/**#*'') ALL_DOMAINS @ [''schedule://**#read'']"

definition check_identity :: "json \<Rightarrow> string \<Rightarrow> unit result" where
  "check_identity r identity =
     ensure (json_get r ''identity'' = Some (JStr identity))
       (Error ''RouteFamily holder identity $ != $'' [shown_field r ''identity'', AStr identity])"

definition check_verified_domains :: "json \<Rightarrow> string \<Rightarrow> string \<Rightarrow> unit result" where
  "check_verified_domains r identity template =
     try_in (numeric_field r ''verifiedDomains'') (\<lambda>n.
     ensure (n = length ALL_DOMAINS) (Error template [AStr identity, ANat n, ANat (length ALL_DOMAINS)]))"

definition assert_route_family_holder_evidence :: "json \<Rightarrow> string \<Rightarrow> nat \<Rightarrow> json result" where
  "assert_route_family_holder_evidence r identity minimum =
     try_in (check_identity r identity) (\<lambda>_.
     try_in (check_verified_domains r identity ''$ verified $/$ domains'') (\<lambda>_.
     try_in (numeric_field r ''foreignNotices'') (\<lambda>foreign.
     try_in (ensure (foreign = 0) (Error ''$ observed $ cross-family Notice deliveries'' [AStr identity, ANat foreign])) (\<lambda>_.
     try_in (numeric_field r ''ownNotices'') (\<lambda>own.
     try_in (ensure (\<not> own < minimum) (Error ''$ received $/$ own Notices'' [AStr identity, ANat own, ANat minimum])) (\<lambda>_.
     try_in (numeric_field r ''rpcResponses'') (\<lambda>responses.
     try_in (ensure (responses = 1) (Error ''$ received $/1 self RPC responses'' [AStr identity, ANat responses])) (\<lambda>_.
     try_in (numeric_field r ''rpcRequestsHandled'') (\<lambda>handled.
     try_in (ensure (\<not> handled < minimum)
       (Error ''$ handled $/$ same-family RPC requests'' [AStr identity, ANat handled, ANat minimum])) (\<lambda>_.
     Inr r))))))))))"

definition assert_route_family_armed_evidence :: "json \<Rightarrow> string \<Rightarrow> json result" where
  "assert_route_family_armed_evidence r identity =
     try_in (check_identity r identity) (\<lambda>_.
     try_in (check_verified_domains r identity ''$ verified $/$ domains'') (\<lambda>_. Inr r))"

definition assert_no_cross_family_notice :: "string \<Rightarrow> string \<Rightarrow> unit result" where
  "assert_no_cross_family_notice log_text identity =
     (let foreign = filter (has_event ''route_family_isolation_foreign_notice'') (parse_json_records log_text) in
      ensure (foreign = []) (Error ''$ observed $ cross-family Notice deliveries'' [AStr identity, ANat (length foreign)]))"

definition assert_route_family_probe_evidence :: "json \<Rightarrow> string \<Rightarrow> string \<Rightarrow> json result" where
  "assert_route_family_probe_evidence r identity act =
     try_in (ensure (json_get r ''identity'' = Some (JStr identity) \<and> json_get r ''action'' = Some (JStr act))
       (Error ''RouteFamily probe identity/action $/$ != $/$''
         [shown_field r ''identity'', shown_field r ''action'', AStr identity, AStr act])) (\<lambda>_.
     try_in (check_verified_domains r identity ''$ probe verified $/$ domains'') (\<lambda>_.
     let held = json_get r ''leaseHeldBeforeProbe''; unavailable = json_get r ''rpcUnavailableBeforeProbe'' in
     if act = ''verify-survivor''
     then try_in (ensure (held = Some (JBool True)) (Error ''surviving family lost Lease ownership'' [])) (\<lambda>_.
          try_in (ensure (unavailable = Some (JBool False)) (Error ''surviving family lost its RPC worker'' [])) (\<lambda>_. Inr r))
     else try_in (ensure (held = Some (JBool False)) (Error ''closed family retained Lease ownership'' [])) (\<lambda>_.
          try_in (ensure (unavailable = Some (JBool True)) (Error ''closed family retained its RPC worker'' [])) (\<lambda>_. Inr r))))"

definition start_family_role ::
  "keyed_hash \<Rightarrow> 'o stack \<Rightarrow> workload_shape \<Rightarrow> string \<Rightarrow> string \<Rightarrow> ('o, role_container list) action" where
  "start_family_role hmac st shape identity act =
     run_then (sign_token hmac st identity (route_family_permissions (namespace shape))) (\<lambda>token.
     start_role_containers st ''route-family-isolation-matrix'' 1 shape
       [(''DESTROYER_JWT'', token), (''DESTROYER_ROUTE_FAMILY_IDENTITY'', identity), (''DESTROYER_ROUTE_FAMILY_ACTION'', act),
        (''DESTROYER_OPERATIONS'', ''1'')])"

definition terminate_role :: "'o stack \<Rightarrow> role_container list \<Rightarrow> string \<Rightarrow> ('o, unit) action" where
  "terminate_role st containers label =
     run_then (ignore_failure (signal_role_containers st containers ''SIGTERM'')) (\<lambda>_.
     try_catch (run_then (finish_role_containers st containers label) (\<lambda>_. ret ()))
       (\<lambda>_. ignore_failure (kill_role_containers st containers (label @ ''-sigkill''))))"

definition family_log :: "role_logs \<Rightarrow> string result" where
  "family_log logs =
     (case logs of [] \<Rightarrow> Inl (Error ''RouteFamily isolation worker log was missing'' []) | (_, l) # _ \<Rightarrow> Inr l)"

definition family_record :: "role_logs \<Rightarrow> string \<Rightarrow> (json \<Rightarrow> json result) \<Rightarrow> json result" where
  "family_record logs closing check = try_in (family_log logs) (\<lambda>l. try_in (required_event l closing) check)"

definition family_probe ::
  "keyed_hash \<Rightarrow> 'o stack \<Rightarrow> workload_shape \<Rightarrow> string \<Rightarrow> string \<Rightarrow> string \<Rightarrow> ('o, json) action" where
  "family_probe hmac st shape identity act label =
     run_then (start_family_role hmac st shape identity act) (\<lambda>containers.
     run_then (finish_role_containers st containers label) (\<lambda>logs.
     of_result (family_record logs ''route_family_isolation_probe_complete''
       (\<lambda>r. assert_route_family_probe_evidence r identity act))))"

text \<open>The holders that are still active, which the \<^verbatim>\<open>finally\<close> clause terminates.\<close>

record active_holders =
  holder_a :: "role_container list option"
  holder_b :: "role_container list option"

definition keep_holders :: "(active_holders \<Rightarrow> active_holders) \<Rightarrow> ('o world \<times> active_holders, unit) script" where
  "keep_holders f = modify (\<lambda>(w, h). (w, f h))"

definition route_family_body ::
  "keyed_hash \<Rightarrow> 'o stack \<Rightarrow> workload_shape \<Rightarrow> rat \<Rightarrow> ('o world \<times> active_holders, unit) script" where
  "route_family_body hmac st shape started_at =
     run_then (outer (start_family_role hmac st shape ''identity-a'' ''hold'')) (\<lambda>a.
     run_then (keep_holders (\<lambda>h. h\<lparr>holder_a := Some a\<rparr>)) (\<lambda>_.
     run_then (outer (wait_for_role_event st a ''route_family_isolation_holder_armed'')) (\<lambda>_.
     run_then (outer (start_family_role hmac st shape ''identity-b'' ''hold'')) (\<lambda>b.
     run_then (keep_holders (\<lambda>h. h\<lparr>holder_b := Some b\<rparr>)) (\<lambda>_.
     run_then (outer (wait_for_role_event st b ''route_family_isolation_holder_armed'')) (\<lambda>_.
     run_then (outer (sleep (host_of st) 100)) (\<lambda>_.
     run_then (outer (role_logs_of st a)) (\<lambda>a_logs.
     run_then (of_result (family_record a_logs ''route_family_isolation_holder_armed''
       (\<lambda>r. assert_route_family_armed_evidence r ''identity-a''))) (\<lambda>a_evidence.
     run_then (of_result (try_in (family_log a_logs) (\<lambda>l. assert_no_cross_family_notice l ''identity-a''))) (\<lambda>_.
     run_then (outer (kill_role_containers st a ''route-family-holder-a-sigkill'')) (\<lambda>_.
     run_then (keep_holders (\<lambda>h. h\<lparr>holder_a := None\<rparr>)) (\<lambda>_.
     run_then (outer (family_probe hmac st shape ''identity-b'' ''verify-survivor'' ''route-family-survivor-b'')) (\<lambda>survivor.
     run_then (outer (family_probe hmac st shape ''identity-a'' ''verify-closed'' ''route-family-closed-a'')) (\<lambda>closed.
     run_then (outer (signal_role_containers st b ''SIGTERM'')) (\<lambda>_.
     run_then (outer (finish_role_containers st b ''route-family-holder-b'')) (\<lambda>b_logs.
     run_then (keep_holders (\<lambda>h. h\<lparr>holder_b := None\<rparr>)) (\<lambda>_.
     run_then (of_result (family_record b_logs ''route_family_isolation_holder_complete''
       (\<lambda>r. assert_route_family_holder_evidence r ''identity-b'' 2))) (\<lambda>b_evidence.
     outer (run_then (artifact_write_json (host_of st) ''route-family-isolation-evidence.json''
       (JObj [(''holderA'', a_evidence), (''holderB'', b_evidence), (''survivor'', survivor), (''closed'', closed)])) (\<lambda>_.
     run_then (elapsed_since (host_of st) started_at) (\<lambda>ms.
     event st ''route_family_isolation_matrix_complete''
       [(''identities'', jnat 2), (''domains'', jnat (length ALL_DOMAINS)), (''holderDomainChecks'', jnat (length ALL_DOMAINS * 2)),
        (''probeDomainChecks'', jnat (length ALL_DOMAINS * 2)), (''crossFamilyDeliveries'', jnat 0),
        (''elapsedMs'', jint ms)])))))))))))))))))))))"

definition route_family_teardown :: "'o stack \<Rightarrow> ('o world \<times> active_holders, unit) script" where
  "route_family_teardown st =
     run_then get_local (\<lambda>h.
     steps [case holder_a h of None \<Rightarrow> ret () | Some a \<Rightarrow> outer (terminate_role st a ''route-family-holder-a-cleanup''),
            case holder_b h of None \<Rightarrow> ret () | Some b \<Rightarrow> outer (terminate_role st b ''route-family-holder-b-cleanup'')])"

definition run_route_family_isolation_matrix_scenario ::
  "keyed_hash \<Rightarrow> 'o stack \<Rightarrow> workload_shape \<Rightarrow> ('o, unit) action" where
  "run_route_family_isolation_matrix_scenario hmac st shape =
     run_then (performance_now (host_of st)) (\<lambda>started_at.
     run_then (event st ''route_family_isolation_matrix_started''
       [(''identities'', jstrs [''identity-a'', ''identity-b'']), (''domains'', jstrs (map domain_name ALL_DOMAINS)),
        (''assertion'', JStr ''identical logical routes remain isolated by authenticated RouteFamily'')]) (\<lambda>_.
     with_local \<lparr>holder_a = None, holder_b = None\<rparr>
       (try_finally (route_family_body hmac st shape started_at) (route_family_teardown st))))"

subsection \<open>What the evidence files hold\<close>

definition ISOLATION_FILES :: "(string \<times> (string \<times> nat) list) list" where
  "ISOLATION_FILES =
     map (\<lambda>(file, counts). (file, map (\<lambda>(field, n, _). (field, n)) counts))
       [(''actor-supervision-failpoint-evidence.json'', ACTOR_COUNTS @ RECOVERY_COUNTS),
        (''family-actor-degradation-observability-evidence.json'', DEGRADATION_COUNTS),
        (''family-actor-exhaustion-readiness-evidence.json'', EXHAUSTION_COUNTS),
        (''family-actor-inflight-concurrent-failure-evidence.json'', INFLIGHT_COUNTS)]"

text \<open>
  The surviving family kept its lease and its worker and saw nothing of the other one, and the
  killed family lost both.
\<close>

definition families_isolated :: "json \<Rightarrow> bool" where
  "families_isolated v =
     (case map (json_get v) [''holderB'', ''survivor'', ''closed''] of
        [Some b, Some s, Some c] \<Rightarrow>
          json_get b ''foreignNotices'' = Some (jnat 0) \<and>
          json_get s ''leaseHeldBeforeProbe'' = Some (JBool True) \<and> json_get s ''rpcUnavailableBeforeProbe'' = Some (JBool False) \<and>
          json_get c ''leaseHeldBeforeProbe'' = Some (JBool False) \<and> json_get c ''rpcUnavailableBeforeProbe'' = Some (JBool True) \<and>
          list_all (\<lambda>r. json_get r ''verifiedDomains'' = Some (jnat (length ALL_DOMAINS))) [b, s, c]
      | _ \<Rightarrow> False)"

definition sound_isolation_file :: "os_call \<Rightarrow> bool" where
  "sound_isolation_file c =
     (case c of
        JsonWritten name v \<Rightarrow>
          (case map_get ISOLATION_FILES name of
             Some counts \<Rightarrow> exact_counts counts v
           | None \<Rightarrow> name = ''route-family-isolation-evidence.json'' \<longrightarrow> families_isolated v)
      | _ \<Rightarrow> True)"

definition ISOLATION_NAMES :: "string list" where
  "ISOLATION_NAMES = ''route-family-isolation-evidence.json'' # map fst ISOLATION_FILES"

interpretation isolation_files: quiet_stack ISOLATION_NAMES sound_isolation_file
proof
  show "\<not> reports_under ISOLATION_NAMES c \<Longrightarrow> sound_isolation_file c" for c
    by (cases c) (force simp: sound_isolation_file_def ISOLATION_NAMES_def dest!: map_get_Some_in split: option.split)+
  show "list_all (\<lambda>n. n \<notin> set STACK_REPORTS) ISOLATION_NAMES"
    by (simp add: ISOLATION_NAMES_def ISOLATION_FILES_def STACK_REPORTS_def)
qed

lemma isolation_event: "only_calls sound_isolation_file (event st n es)"
  unfolding event_def artifact_event_def read_clock_def
  by (intro calls_intros only_calls_effect) (simp_all add: sound_isolation_file_def)

lemma isolation_report:
  assumes "map_get ISOLATION_FILES file = Some counts" "exact_counts counts evidence"
  shows "only_calls sound_isolation_file (report_evidence st started_at file done evidence extra)"
  unfolding report_evidence_def artifact_write_json_def
  by (intro calls_intros only_calls_effect isolation_event) (simp add: sound_isolation_file_def assms)

lemma isolation_steps [calls_intros]:
  "only_calls sound_isolation_file (role_record st role shape env label template closing)"
  "only_calls sound_isolation_file (sign_token hmac st identity permissions)"
  "only_calls sound_isolation_file (post_failpoint st config failpoint)"
  "only_calls sound_isolation_file (prometheus_metric_value st metric)"
  unfolding role_record_def run_role_def sign_token_def post_failpoint_def prometheus_metric_value_def Let_def
  by (intro calls_intros; simp)+

lemma isolation_waits [calls_intros]:
  "only_calls sound_isolation_file (wait_for_readiness_withdrawal st config)"
  "only_calls sound_isolation_file (wait_for_metric st metric x ms)"
  "only_calls sound_isolation_file (wait_for_metric_delta st metric x n ms)"
  "only_calls sound_isolation_file (inject_family st config d)"
  unfolding wait_for_readiness_withdrawal_def wait_for_metric_def wait_for_metric_delta_def inject_family_def Let_def
  by (intro calls_intros; simp add: calls_intros split: error.split)+

lemma isolation_restart [calls_intros]:
  "only_calls sound_isolation_file (inject_and_wait_for_readiness_withdrawal st config d)"
  "only_calls sound_isolation_file (inject_and_restart st config d)"
proof -
  show i: "only_calls sound_isolation_file (inject_and_wait_for_readiness_withdrawal st config d)" for d
    unfolding inject_and_wait_for_readiness_withdrawal_def by (intro calls_intros)
  show "only_calls sound_isolation_file (inject_and_restart st config d)"
    unfolding inject_and_restart_def by (intro calls_intros i)
qed

lemma isolation_recover [calls_intros]:
  "only_calls sound_isolation_file (supervision_canary st shape d)"
  "only_calls sound_isolation_file (inject_and_recover st config shape d)"
  unfolding inject_and_recover_def supervision_canary_def by (intro calls_intros)+

lemma fold_rounds_calls [calls_intros]:
  "(\<And>x s. only_calls P (f x s)) \<Longrightarrow> only_calls P (fold_rounds f xs s)"
  by (induction xs arbitrary: s) (simp_all add: calls_intros)

lemma isolation_rounds [calls_intros]:
  "only_calls sound_isolation_file (degradation_round hmac st config shape p t)"
  "only_calls sound_isolation_file (exhaustion_round hmac st shape d q)"
  "only_calls sound_isolation_file (inflight_cycle hmac st config shape cycle u)"
  unfolding degradation_round_def exhaustion_round_def inflight_cycle_def Let_def by (intro calls_intros)+

lemma exact_fields_counts:
  "for_each (exact_field r) counts = Inr u \<Longrightarrow> exact_counts (map (\<lambda>(field, n, _). (field, n)) counts) r"
  by (induction counts) (auto simp: exact_counts_def exact_field_ok result_simps)

lemma templated_field_ok: "templated_field r p = Inr u \<longleftrightarrow> json_get r (fst p) = Some (jnat (fst (snd p)))"
  by (auto simp: templated_field_def result_simps split: prod.splits)

lemma templated_fields_counts:
  "for_each (templated_field r) counts = Inr u \<Longrightarrow> exact_counts (map (\<lambda>(field, n, _). (field, n)) counts) r"
  by (induction counts) (auto simp: exact_counts_def templated_field_ok result_simps)

lemma actor_supervision_counts:
  assumes "assert_actor_supervision_evidence r = Inr u"
  shows "exact_counts (map (\<lambda>(field, n, _). (field, n)) (ACTOR_COUNTS @ RECOVERY_COUNTS)) r"
proof -
  have "for_each (templated_field r) ACTOR_COUNTS = Inr ()" "for_each (templated_field r) RECOVERY_COUNTS = Inr ()"
    using assms unfolding assert_actor_supervision_evidence_def by (simp_all add: result_simps)
  then show ?thesis using templated_fields_counts [of r] by (simp add: exact_counts_def)
qed

lemma bombard_capture_calls [calls_intros]: "only_calls sound_isolation_file (capture_bombard_logs st label i cs)"
  by (induction cs arbitrary: i) (simp_all add: calls_intros)

lemma active_fault_calls [calls_intros]: "only_calls sound_isolation_file (observe_active_fault st config)"
  unfolding observe_active_fault_def start_clients_def wait_for_all_client_domains_def progress_round_def logs_since_def
    wait_for_all_client_errors_def stop_bombard_clients_and_capture_def stop_clients_def Let_def
  by (intro calls_intros isolation_event)

lemma notice_canary_calls [calls_intros]:
  "only_calls sound_isolation_file (run_notice_fanout_scenario st config shape ''actor-supervision-recovery-canary'')"
  unfolding run_notice_fanout_scenario_def Let_def run_role_def
  by (intro calls_intros isolation_event isolation_files.calls_json; simp add: ISOLATION_NAMES_def ISOLATION_FILES_def)

lemma redelivery_canary_calls [calls_intros]:
  "only_calls sound_isolation_file (run_queue_redelivery_scenario st config shape)"
  unfolding run_queue_redelivery_scenario_def Let_def
  by (intro calls_intros isolation_event isolation_files.calls_json; simp add: ISOLATION_NAMES_def ISOLATION_FILES_def)

subsection \<open>The isolated families\<close>

definition isolated_record :: "bool \<Rightarrow> json \<Rightarrow> bool" where
  "isolated_record survived r =
     (json_get r ''leaseHeldBeforeProbe'' = Some (JBool survived) \<and> json_get r ''rpcUnavailableBeforeProbe'' = Some (JBool (\<not> survived)) \<and>
      json_get r ''verifiedDomains'' = Some (jnat (length ALL_DOMAINS)))"

definition undisturbed_record :: "json \<Rightarrow> bool" where
  "undisturbed_record r =
     (json_get r ''foreignNotices'' = Some (jnat 0) \<and> json_get r ''verifiedDomains'' = Some (jnat (length ALL_DOMAINS)))"

lemma small_field: "numeric_field r f = Inr n \<Longrightarrow> int n \<le> max_safe_integer \<Longrightarrow> json_get r f = Some (jnat n)"
  by (simp add: numeric_field_iff)

lemma verified_domains_ok:
  "check_verified_domains r identity template = Inr u \<Longrightarrow> json_get r ''verifiedDomains'' = Some (jnat (length ALL_DOMAINS))"
  by (auto simp: check_verified_domains_def result_simps ALL_DOMAINS_def max_safe_integer_def intro!: small_field)

lemma probe_evidence_isolated:
  "assert_route_family_probe_evidence r identity ''verify-survivor'' = Inr r' \<Longrightarrow> isolated_record True r'"
  "assert_route_family_probe_evidence r identity ''verify-closed'' = Inr r' \<Longrightarrow> isolated_record False r'"
  by (auto simp: assert_route_family_probe_evidence_def isolated_record_def result_simps Let_def dest: verified_domains_ok)

lemma holder_evidence_undisturbed:
  "assert_route_family_holder_evidence r identity n = Inr r' \<Longrightarrow> undisturbed_record r'"
  by (auto simp: assert_route_family_holder_evidence_def undisturbed_record_def result_simps max_safe_integer_def
      dest: verified_domains_ok small_field)

lemma family_probe_isolated:
  "returns (isolated_record True) (family_probe hmac st shape identity ''verify-survivor'' label)"
  "returns (isolated_record False) (family_probe hmac st shape identity ''verify-closed'' label)"
  unfolding family_probe_def family_record_def
  by (intro returns_run_then; auto simp: returns_def of_result_def result_simps dest: probe_evidence_isolated)+

lemma families_isolated_intro:
  "undisturbed_record b \<Longrightarrow> isolated_record True s \<Longrightarrow> isolated_record False c \<Longrightarrow>
     families_isolated (JObj [(''holderA'', a), (''holderB'', b), (''survivor'', s), (''closed'', c)])"
  by (simp add: families_isolated_def undisturbed_record_def isolated_record_def)

lemma keeps_outer_returned:
  fixes m :: "('o, 'b) action" and k :: "'b \<Rightarrow> ('o world \<times> 'v, 'c) script"
  assumes "only_calls P m" "returns Q m" "\<And>x. Q x \<Longrightarrow> keeps (\<lambda>p. since_calls P cs0 (fst p)) (k x)"
  shows "keeps (\<lambda>p. since_calls P cs0 (fst p)) (run_then (outer m) k)"
  unfolding keeps_def
proof (intro allI impI)
  fix p :: "'o world \<times> 'v" assume p: "since_calls P cs0 (fst p)"
  obtain w v where wv: "p = (w, v)" by (cases p)
  obtain r w' where "m w = (r, w')" by (cases "m w")
  note w = wv this
  then have w': "since_calls P cs0 w'" using p keepsD [OF only_calls_keeps [OF assms(1)]] by simp
  show "since_calls P cs0 (fst (snd (run_then (outer m) k p)))"
  proof (cases r)
    case (Inr x)
    with w(2) assms(2) have "Q x" unfolding returns_def by blast
    then show ?thesis using assms(3) [of x] w w' Inr by (auto simp: run_then_def outer_def keeps_def)
  qed (simp add: w w' run_then_def outer_def)
qed

lemma keeps_of_result_then: "(\<And>x. r = Inr x \<Longrightarrow> keeps I (k x)) \<Longrightarrow> keeps I (run_then (of_result r) k)"
  by (cases r) (simp_all add: keeps_def run_then_def of_result_def)

lemma keeps_holders: "keeps (\<lambda>p. since_calls P cs0 (fst p)) (keep_holders f)"
  by (auto simp: keeps_def keep_holders_def modify_def)

lemma keeps_outer_calls: "only_calls P m \<Longrightarrow> keeps (\<lambda>p. since_calls P cs0 (fst p)) (outer m)"
  using keeps_outer [where J = "\<lambda>w _. since_calls P cs0 w" and m = m] only_calls_keeps [of P m cs0] by simp

lemma keeps_outer_then:
  "only_calls P m \<Longrightarrow> (\<And>x. keeps (\<lambda>p. since_calls P cs0 (fst p)) (k x)) \<Longrightarrow>
     keeps (\<lambda>p. since_calls P cs0 (fst p)) (run_then (outer m) k)"
  by (intro keeps_run_then keeps_outer_calls)

lemma keeps_holders_then:
  "(\<And>x. keeps (\<lambda>p. since_calls P cs0 (fst p)) (k x)) \<Longrightarrow>
     keeps (\<lambda>p. since_calls P cs0 (fst p)) (run_then (keep_holders f) k)"
  by (intro keeps_run_then keeps_holders)

lemma family_calls [calls_intros]:
  "only_calls sound_isolation_file (start_family_role hmac st shape identity act)"
  "only_calls sound_isolation_file (terminate_role st containers label)"
  unfolding start_family_role_def terminate_role_def by (intro calls_intros)+

lemma family_probe_calls [calls_intros]:
  "only_calls sound_isolation_file (family_probe hmac st shape identity act label)"
  unfolding family_probe_def by (intro calls_intros)

lemma family_report_calls:
  assumes "undisturbed_record b" "isolated_record True s" "isolated_record False c"
  shows "only_calls sound_isolation_file (artifact_write_json h ''route-family-isolation-evidence.json''
     (JObj [(''holderA'', a), (''holderB'', b), (''survivor'', s), (''closed'', c)]))"
  unfolding artifact_write_json_def
  by (intro only_calls_effect) (simp add: sound_isolation_file_def ISOLATION_FILES_def families_isolated_intro assms)

lemma family_record_undisturbed:
  "family_record logs closing (\<lambda>r. assert_route_family_holder_evidence r identity n) = Inr r' \<Longrightarrow> undisturbed_record r'"
  by (auto simp: family_record_def result_simps dest: holder_evidence_undisturbed)

lemma route_family_body_keeps:
  "keeps (\<lambda>p. since_calls sound_isolation_file cs0 (fst p)) (route_family_body hmac st shape started_at)"
  unfolding route_family_body_def
  by (rule keeps_of_result_then keeps_holders_then
      keeps_outer_returned [OF family_probe_calls family_probe_isolated(1)]
      keeps_outer_returned [OF family_probe_calls family_probe_isolated(2)]
      keeps_outer_then keeps_outer_calls calls_intros isolation_event
      family_report_calls family_record_undisturbed | assumption)+

lemma route_family_teardown_keeps:
  "keeps (\<lambda>p. since_calls sound_isolation_file cs0 (fst p)) (route_family_teardown st)"
  unfolding route_family_teardown_def
  by (intro keeps_run_then keeps_get_local) (auto intro!: keeps_intros keeps_outer_calls calls_intros split: option.split)


end
