(* ===== verification/CleanupScenarios.thy ===== *)
theory CleanupScenarios
  imports IsolationScenarios
begin

text \<open>
  The scenarios that watch the broker clean up after lost sessions:
  src/orchestration/reliability-cleanup-helpers.ts, shutdown-reconnect-cleanup-storm.ts,
  control-lane-cleanup-under-saturation.ts and ephemeral-reply-loss-cleanup.ts.
\<close>

subsection \<open>Readiness while something happens\<close>

record readiness_observation =
  ro_dropped :: bool
  ro_final :: nat
  ro_samples :: "nat list"

definition poll_readiness :: "'o stack \<Rightarrow> string \<Rightarrow> int \<Rightarrow> nat \<Rightarrow> ('o, nat list) action" where
  "poll_readiness st url sample_ms rounds =
     gather (\<lambda>_. run_then (sleep (host_of st) sample_ms) (\<lambda>_. ready_status st url 1000)) [0..<rounds]"

text \<open>
  The poller runs beside the action: how many of its rounds end before the action settles is the
  argument \<^verbatim>\<open>rounds\<close>, and the round in flight when it settles is always completed.
\<close>

definition observe_readiness_during ::
  "nat \<Rightarrow> 'o stack \<Rightarrow> string \<Rightarrow> ('o, unit) action \<Rightarrow> int \<Rightarrow> ('o, readiness_observation) action" where
  "observe_readiness_during rounds st url act sample_ms =
     run_then (ready_status st url 1000) (\<lambda>before.
     run_then (poll_readiness st url sample_ms rounds) (\<lambda>during.
     run_then (attempt act) (\<lambda>outcome.
     run_then (poll_readiness st url sample_ms 1) (\<lambda>in_flight.
     run_then (of_result outcome) (\<lambda>_.
     run_then (ready_status st url 1000) (\<lambda>final.
     let samples = before # during @ in_flight @ [final] in
     ret \<lparr>ro_dropped = list_ex (\<lambda>status. status \<noteq> 200) samples, ro_final = final, ro_samples = samples\<rparr>))))))"

definition readiness_json :: "readiness_observation \<Rightarrow> json" where
  "readiness_json o' = JObj
     [(''readinessDropped'', JBool (ro_dropped o')), (''finalReadinessStatus'', jnat (ro_final o')),
      (''samples'', jnats (ro_samples o'))]"

subsection \<open>Registrations of the sessions\<close>

record registrations =
  rg_pending :: rat
  rg_notice :: nat
  rg_rpc :: nat
  rg_schedule :: nat

definition registrations_json :: "registrations \<Rightarrow> json" where
  "registrations_json g = JObj
     [(''cleanupPending'', JNum (rg_pending g)), (''noticeSubscriptions'', jnat (rg_notice g)),
      (''rpcWorkers'', jnat (rg_rpc g)), (''scheduleSubscriptions'', jnat (rg_schedule g))]"

definition max_pending :: "live_snapshot list \<Rightarrow> rat" where
  "max_pending ss = (case map (\<lambda>s. cl_pending (sn_cleanup s)) ss of [] \<Rightarrow> 0 | x # xs \<Rightarrow> foldl max x xs)"

definition registration_counts :: "live_snapshot \<Rightarrow> live_snapshot \<Rightarrow> live_snapshot \<Rightarrow> (nat \<times> nat \<times> nat) result" where
  "registration_counts notice rpc schedule =
     try_in (counter_of (sn_domain notice) ''subscriptions_active'') (\<lambda>n.
     try_in (counter_of (sn_domain rpc) ''workers_registered'') (\<lambda>r.
     try_in (counter_of (sn_domain schedule) ''subscriptions_active'') (\<lambda>s. Inr (n, r, s))))"

definition registration_state :: "'o stack \<Rightarrow> ('o, registrations) action" where
  "registration_state st =
     run_then (live_domain_snapshot st LiveNotice) (\<lambda>notice.
     run_then (live_domain_snapshot st LiveRpc) (\<lambda>rpc.
     run_then (live_domain_snapshot st LiveSchedule) (\<lambda>schedule.
     run_then (of_result (registration_counts notice rpc schedule)) (\<lambda>(n, r, s).
     ret \<lparr>rg_pending = max_pending [notice, rpc, schedule], rg_notice = n, rg_rpc = r, rg_schedule = s\<rparr>))))"

definition registration_state_matches :: "registrations \<Rightarrow> nat \<times> nat \<times> nat \<Rightarrow> bool" where
  "registration_state_matches g expected =
     (rg_pending g = 0 \<and> (rg_notice g, rg_rpc g, rg_schedule g) = expected)"

definition wait_for_registration_cleanup :: "'o stack \<Rightarrow> nat \<times> nat \<times> nat \<Rightarrow> int \<Rightarrow> ('o, registrations) action" where
  "wait_for_registration_cleanup st expected timeout_ms =
     run_then (deadline_in st timeout_ms) (\<lambda>deadline.
     run_then (resample_until st deadline 25 (registration_state st) (\<lambda>g. registration_state_matches g expected)) (\<lambda>g.
     if registration_state_matches g expected then ret g
     else fail (Error ''Session cleanup remained visible during saturation: $'' [AJson (registrations_json g)])))"

subsection \<open>Counters of the workers\<close>

definition RELIABILITY_RPC_PROBE_CALLS :: nat where
  "RELIABILITY_RPC_PROBE_CALLS = 4"

definition add_numeric :: "json \<Rightarrow> string \<Rightarrow> counter_sums \<Rightarrow> counter_sums result" where
  "add_numeric r field acc =
     try_in (numeric_field r field) (\<lambda>n. Inr (map_set acc field (fl (get_or 0 (map_get acc field) + of_nat n))))"

fun add_all_numeric :: "json \<Rightarrow> string list \<Rightarrow> counter_sums \<Rightarrow> counter_sums result" where
  "add_all_numeric r [] acc = Inr acc"
| "add_all_numeric r (f # fs) acc = try_in (add_numeric r f acc) (add_all_numeric r fs)"

fun sum_evidence :: "string \<Rightarrow> string list \<Rightarrow> string list \<Rightarrow> counter_sums \<Rightarrow> counter_sums result" where
  "sum_evidence closing names [] acc = Inr acc"
| "sum_evidence closing names (l # ls) acc =
     try_in (required_event l closing) (\<lambda>r.
     try_in (add_all_numeric r names acc) (sum_evidence closing names ls))"

definition PROBE_FIELDS :: "string list" where
  "PROBE_FIELDS =
     [''queueRedelivered'', ''kvUncommittedValues'', ''streamUncommittedRecords'', ''leaseHeld'', ''leasePendingWaiters'',
      ''rpcProbeCalls'', ''rpcProbeFailures'']"

definition zero_sums :: "string list \<Rightarrow> counter_sums" where
  "zero_sums names = map (\<lambda>f. (f, 0)) names"

definition expect_counter :: "string \<Rightarrow> arg list \<Rightarrow> counter_sums \<Rightarrow> string \<times> nat \<Rightarrow> unit result" where
  "expect_counter lead lead_args acc p =
     (case p of (field, n) \<Rightarrow>
       ensure (map_get acc field = Some (of_nat n))
         (Error (lead @ '' $=$/$'')
           (lead_args @ [AStr field, (case map_get acc field of None \<Rightarrow> AStr ''undefined'' | Some x \<Rightarrow> ARat x), ANat n])))"

subsection \<open>Shutdowns and reconnects\<close>

definition LIVE_DOMAINS :: "live_domain list" where
  "LIVE_DOMAINS = [LiveKv, LiveStream, LiveNotice, LiveRpc, LiveLease, LiveSchedule]"

definition RECONNECT_FIELDS :: "string list" where
  "RECONNECT_FIELDS = [''reconnects'', ''staleHandleRejections''] @ PROBE_FIELDS"

record shutdown_cycle =
  cy_cycle :: nat
  cy_clients :: nat
  cy_dropped :: bool
  cy_final :: nat
  cy_restartMs :: int
  cy_counters :: counter_sums
  cy_registrations :: "nat \<times> nat \<times> nat"

record shutdown_ledger =
  sh_expected :: nat
  sh_budget :: int
  sh_cycles :: "shutdown_cycle list"

definition cycle_entries :: "shutdown_cycle \<Rightarrow> (string \<times> json) list" where
  "cycle_entries c =
     [(''cycle'', jnat (cy_cycle c)), (''clients'', jnat (cy_clients c)), (''readinessDropped'', JBool (cy_dropped c)),
      (''finalReadinessStatus'', jnat (cy_final c)), (''restartElapsedMs'', jint (cy_restartMs c))] @
     counter_entries (RECONNECT_FIELDS @ [''cleanupPending'']) (cy_counters c) @
     (case cy_registrations c of (n, r, s) \<Rightarrow>
       [(''noticeSubscriptions'', jnat n), (''rpcWorkers'', jnat r), (''scheduleSubscriptions'', jnat s)])"

definition shutdown_json :: "shutdown_ledger \<Rightarrow> json" where
  "shutdown_json l = JObj
     [(''expectedCycles'', jnat (sh_expected l)), (''restartBudgetMs'', jint (sh_budget l)),
      (''cycles'', JArr (map (\<lambda>c. JObj (cycle_entries c)) (sh_cycles l)))]"

definition cycle_counts :: "nat \<Rightarrow> (string \<times> nat) list" where
  "cycle_counts clients =
     [(''reconnects'', clients), (''staleHandleRejections'', clients * 4), (''queueRedelivered'', clients),
      (''kvUncommittedValues'', 0), (''streamUncommittedRecords'', 0), (''leaseHeld'', 0), (''leasePendingWaiters'', 0),
      (''rpcProbeCalls'', clients * RELIABILITY_RPC_PROBE_CALLS), (''rpcProbeFailures'', 0), (''cleanupPending'', 0)]"

definition check_cycle :: "int \<Rightarrow> nat \<times> shutdown_cycle \<Rightarrow> unit result" where
  "check_cycle budget p =
     (case p of (index, c) \<Rightarrow>
       let id = ANat (cy_cycle c) in
       try_in (ensure (cy_cycle c = index + 1) (Error ''Shutdown cleanup cycle $ is out of order'' [id])) (\<lambda>_.
       try_in (ensure (cy_dropped c) (Error ''Shutdown cleanup cycle $ readiness never became unavailable'' [id])) (\<lambda>_.
       try_in (ensure (cy_final c = 200)
         (Error ''Shutdown cleanup cycle $ ended at readiness HTTP $'' [id, ANat (cy_final c)])) (\<lambda>_.
       try_in (ensure (\<not> budget < cy_restartMs c)
         (Error ''Shutdown cleanup cycle $ restart took $ms beyond $ms'' [id, AInt (cy_restartMs c), AInt budget])) (\<lambda>_.
       try_in (for_each (expect_counter ''Shutdown cleanup cycle $'' [id] (cy_counters c)) (cycle_counts (cy_clients c))) (\<lambda>_.
       case cy_registrations c of (n, r, s) \<Rightarrow>
         try_in (ensure (n = 0) (Error ''Notice subscriptions remained after cycle $'' [id])) (\<lambda>_.
         try_in (ensure (r = 0) (Error ''RPC workers remained after cycle $'' [id])) (\<lambda>_.
         ensure (s = 0) (Error ''Schedule subscriptions remained after cycle $'' [id])))))))))"

definition assert_shutdown_reconnect_cleanup_storm :: "shutdown_ledger \<Rightarrow> unit result" where
  "assert_shutdown_reconnect_cleanup_storm l =
     try_in (ensure (length (sh_cycles l) = sh_expected l)
       (Error ''Shutdown cleanup storm completed $/$ cycles'' [ANat (length (sh_cycles l)), ANat (sh_expected l)])) (\<lambda>_.
     for_each (check_cycle (sh_budget l)) (zip [0..<length (sh_cycles l)] (sh_cycles l)))"

definition domain_baselines :: "'o stack \<Rightarrow> ('o, (live_domain, live_snapshot) js_map) action" where
  "domain_baselines st = gather (\<lambda>d. run_then (live_domain_snapshot st d) (\<lambda>s. ret (d, s))) LIVE_DOMAINS"

definition final_snapshot ::
  "'o stack \<Rightarrow> string \<Rightarrow> (live_domain, live_snapshot) js_map \<Rightarrow> live_domain \<Rightarrow> ('o, live_domain \<times> live_snapshot) action" where
  "final_snapshot st label baselines d =
     (case map_get baselines d of
        None \<Rightarrow> fail (Error ''Missing $ post-restart baseline'' [AStr (live_domain_name d)])
      | Some baseline \<Rightarrow>
          run_then (wait_for_live_domain_quiescence st d baseline (label @ ''-'' @ live_domain_name d) True) (\<lambda>s. ret (d, s)))"

definition required_snapshot :: "(live_domain, live_snapshot) js_map \<Rightarrow> live_domain \<Rightarrow> live_snapshot result" where
  "required_snapshot snapshots d =
     (case map_get snapshots d of
        None \<Rightarrow> Inl (Error ''Missing final $ snapshot'' [AStr (live_domain_name d)]) | Some s \<Rightarrow> Inr s)"

definition final_registrations :: "(live_domain, live_snapshot) js_map \<Rightarrow> (nat \<times> nat \<times> nat) result" where
  "final_registrations snapshots =
     try_in (required_snapshot snapshots LiveNotice) (\<lambda>notice.
     try_in (required_snapshot snapshots LiveRpc) (\<lambda>rpc.
     try_in (required_snapshot snapshots LiveSchedule) (\<lambda>schedule.
     registration_counts notice rpc schedule)))"

definition shutdown_cycle_round ::
  "(nat \<Rightarrow> nat) \<Rightarrow> 'o stack \<Rightarrow> run_config \<Rightarrow> workload_shape \<Rightarrow> nat \<Rightarrow> shutdown_cycle list \<Rightarrow> ('o, shutdown_cycle list) action" where
  "shutdown_cycle_round rounds st config shape index cycles =
     (let cycle = index + 1; clients = nat (clientReplicas config);
          label = ''shutdown-reconnect-cycle-'' @ pad cycle 3;
          cycle_shape = shape\<lparr>namespace := namespace shape @ ''-shutdown-'' @ show_nat cycle, entriesPerResource := 1\<rparr> in
     run_then (start_role_containers st ''shutdown-reconnect-cleanup-storm'' clients cycle_shape
       [(''DESTROYER_RECONNECT_TIMEOUT_MS'', show_int (startupTimeoutMs config))]) (\<lambda>workers.
     run_then (wait_for_role_event st workers ''shutdown_reconnect_cleanup_armed'') (\<lambda>_.
     run_then (performance_now (host_of st)) (\<lambda>restart_started_at.
     run_then (observe_readiness_during (rounds index) st (readyz_url config) (graceful_restart_fitz st) 25) (\<lambda>readiness.
     run_then (elapsed_since (host_of st) restart_started_at) (\<lambda>restart_ms.
     run_then (artifact_write_json (host_of st) (label @ ''-readiness.json'') (readiness_json readiness)) (\<lambda>_.
     run_then (domain_baselines st) (\<lambda>baselines.
     run_then (finish_role_containers st workers label) (\<lambda>logs.
     run_then (of_result (sum_evidence ''shutdown_reconnect_cleanup_complete'' RECONNECT_FIELDS (map snd logs)
       (zero_sums RECONNECT_FIELDS))) (\<lambda>evidence.
     run_then (gather (final_snapshot st label baselines) LIVE_DOMAINS) (\<lambda>finals.
     run_then (wait_for_pressure_quiescence st) (\<lambda>_.
     run_then (of_result (final_registrations finals)) (\<lambda>left.
     let c = \<lparr>cy_cycle = cycle, cy_clients = clients, cy_dropped = ro_dropped readiness, cy_final = ro_final readiness,
              cy_restartMs = restart_ms, cy_counters = evidence @ [(''cleanupPending'', max_pending (map snd finals))],
              cy_registrations = left\<rparr> in
     run_then (event st ''shutdown_reconnect_cleanup_cycle_complete'' (cycle_entries c)) (\<lambda>_.
     ret (cycles @ [c])))))))))))))))"

definition total_counter :: "shutdown_cycle list \<Rightarrow> string \<Rightarrow> rat" where
  "total_counter cycles field = foldl (\<lambda>sum c. fl (sum + get_or 0 (map_get (cy_counters c) field))) 0 cycles"

definition run_shutdown_reconnect_cleanup_storm_scenario ::
  "(nat \<Rightarrow> nat) \<Rightarrow> 'o stack \<Rightarrow> run_config \<Rightarrow> workload_shape \<Rightarrow> ('o, unit) action" where
  "run_shutdown_reconnect_cleanup_storm_scenario rounds st config shape =
     (let expected = min (resources shape) 10; budget = startupTimeoutMs config + 25000 in
     run_then (performance_now (host_of st)) (\<lambda>started_at.
     run_then (event st ''shutdown_reconnect_cleanup_storm_started''
       [(''cycles'', jnat expected), (''clientsPerCycle'', jint (clientReplicas config)), (''restartBudgetMs'', jint budget)]) (\<lambda>_.
     run_then (fold_rounds (shutdown_cycle_round rounds st config shape) [0..<expected] []) (\<lambda>cycles.
     let ledger = \<lparr>sh_expected = expected, sh_budget = budget, sh_cycles = cycles\<rparr> in
     run_then (of_result (assert_shutdown_reconnect_cleanup_storm ledger)) (\<lambda>_.
     run_then (artifact_write_json (host_of st) ''shutdown-reconnect-cleanup-storm-ledger.json'' (shutdown_json ledger)) (\<lambda>_.
     run_then (elapsed_since (host_of st) started_at) (\<lambda>ms.
     event st ''shutdown_reconnect_cleanup_storm_complete''
       [(''cycles'', jnat (length cycles)), (''reconnects'', JNum (total_counter cycles ''reconnects'')),
        (''staleHandleRejections'', JNum (total_counter cycles ''staleHandleRejections'')), (''elapsedMs'', jint ms)])))))))"

subsection \<open>Cleanup while the normal lanes are saturated\<close>

record control_lane_ledger =
  cn_targets :: nat
  cn_pending :: rat
  cn_notice_delta :: int
  cn_rpc_delta :: int
  cn_schedule_delta :: int
  cn_probes :: counter_sums
  cn_progress :: "(domain, rat) js_map"
  cn_canary_domains :: "domain list"
  cn_canary_operations :: nat

text \<open>\<^verbatim>\<open>cleanupCompletedWhileSaturated\<close> is the literal true of the code.\<close>

definition control_lane_json :: "control_lane_ledger \<Rightarrow> json" where
  "control_lane_json l = JObj
     ([(''targets'', jnat (cn_targets l)), (''cleanupCompletedWhileSaturated'', JBool True), (''cleanupPending'', JNum (cn_pending l)),
       (''noticeSubscriptionsDelta'', jint (cn_notice_delta l)), (''rpcWorkersDelta'', jint (cn_rpc_delta l)),
       (''scheduleSubscriptionsDelta'', jint (cn_schedule_delta l))] @
      counter_entries PROBE_FIELDS (cn_probes l) @
      [(''saturationProgress'', JObj (map (\<lambda>(d, x). (domain_name d, JNum x)) (cn_progress l))),
       (''canaryDomains'', jstrs (map domain_name (cn_canary_domains l))),
       (''canaryOperationsPerDomain'', jnat (cn_canary_operations l))])"

definition control_lane_counts :: "nat \<Rightarrow> (string \<times> nat) list" where
  "control_lane_counts targets =
     [(''cleanupPending'', 0), (''noticeSubscriptionsDelta'', 0), (''rpcWorkersDelta'', 0), (''scheduleSubscriptionsDelta'', 0),
      (''queueRedelivered'', targets), (''kvUncommittedValues'', 0), (''streamUncommittedRecords'', 0), (''leaseHeld'', 0),
      (''leasePendingWaiters'', 0), (''rpcProbeCalls'', targets * RELIABILITY_RPC_PROBE_CALLS), (''rpcProbeFailures'', 0)]"

definition control_lane_counters :: "control_lane_ledger \<Rightarrow> counter_sums" where
  "control_lane_counters l =
     [(''cleanupPending'', cn_pending l), (''noticeSubscriptionsDelta'', of_int (cn_notice_delta l)),
      (''rpcWorkersDelta'', of_int (cn_rpc_delta l)), (''scheduleSubscriptionsDelta'', of_int (cn_schedule_delta l))] @ cn_probes l"

definition check_lane :: "control_lane_ledger \<Rightarrow> domain \<Rightarrow> unit result" where
  "check_lane l d =
     try_in (ensure (\<not> get_or 0 (map_get (cn_progress l) d) \<le> 0)
       (Error ''Normal $ lane made no progress across the cleanup cut'' [AStr (domain_name d)])) (\<lambda>_.
     ensure (d \<in> set (cn_canary_domains l)) (Error ''Sibling canary omitted $'' [AStr (domain_name d)]))"

definition assert_control_lane_cleanup_under_saturation :: "control_lane_ledger \<Rightarrow> unit result" where
  "assert_control_lane_cleanup_under_saturation l =
     try_in (for_each (expect_counter ''Control-lane cleanup'' [] (control_lane_counters l)) (control_lane_counts (cn_targets l))) (\<lambda>_.
     try_in (for_each (check_lane l) ALL_DOMAINS) (\<lambda>_.
     ensure (\<not> cn_canary_operations l \<le> 0) (Error ''Sibling canary made no domain progress'' [])))"

definition add_domain_success :: "json \<Rightarrow> (domain, rat) js_map \<Rightarrow> domain \<Rightarrow> (domain, rat) js_map result" where
  "add_domain_success domain_totals acc d =
     try_in (object_field domain_totals (domain_name d)) (\<lambda>r.
     try_in (numeric_field r ''success'') (\<lambda>n.
     Inr (map_set acc d (fl (get_or 0 (map_get acc d) + of_nat n)))))"

fun add_domain_successes :: "json \<Rightarrow> domain list \<Rightarrow> (domain, rat) js_map \<Rightarrow> (domain, rat) js_map result" where
  "add_domain_successes r [] acc = Inr acc"
| "add_domain_successes r (d # ds) acc = try_in (add_domain_success r acc d) (add_domain_successes r ds)"

fun latest_saturation_totals :: "string list \<Rightarrow> (domain, rat) js_map \<Rightarrow> (domain, rat) js_map result" where
  "latest_saturation_totals [] acc = Inr acc"
| "latest_saturation_totals (l # ls) acc =
     (case find_last (has_event ''control_lane_saturation_progress'') (parse_json_records l) of
        None \<Rightarrow> Inl (Error ''Saturator omitted progress evidence'' [])
      | Some progress \<Rightarrow>
          try_in (object_field progress ''totals'') (\<lambda>r.
          try_in (add_domain_successes r ALL_DOMAINS acc) (latest_saturation_totals ls)))"

definition aggregate_latest_saturation_totals :: "role_logs \<Rightarrow> (domain, rat) js_map result" where
  "aggregate_latest_saturation_totals logs = latest_saturation_totals (map snd logs) (map (\<lambda>d. (d, 0)) ALL_DOMAINS)"

definition saturation_progress_delta :: "role_logs \<Rightarrow> role_logs \<Rightarrow> (domain, rat) js_map result" where
  "saturation_progress_delta before after =
     try_in (aggregate_latest_saturation_totals before) (\<lambda>b.
     try_in (aggregate_latest_saturation_totals after) (\<lambda>a.
     traverse (\<lambda>d.
       let delta = fl (get_or 0 (map_get a d) - get_or 0 (map_get b d)) in
       if delta < 0 then Inl (Error ''$ saturation progress decreased'' [AStr (domain_name d)]) else Inr (d, delta)) ALL_DOMAINS))"

definition canary_domain_item :: "json \<Rightarrow> domain result" where
  "canary_domain_item v =
     (case v of
        JStr name \<Rightarrow> (case domain_of_name name of None \<Rightarrow> Inl (Error ''Canary reported invalid domain $'' [AStr name]) | Some d \<Rightarrow> Inr d)
      | _ \<Rightarrow> Inl (Error ''Canary reported invalid domain $'' [AJson v]))"

definition canary_domain_array :: "json option \<Rightarrow> domain list result" where
  "canary_domain_array v =
     (case v of Some (JArr items) \<Rightarrow> traverse canary_domain_item items | _ \<Rightarrow> Inl (Error ''Canary domains are not an array'' []))"

definition current_registration_state :: "'o stack \<Rightarrow> ('o, nat \<times> nat \<times> nat) action" where
  "current_registration_state st =
     run_then (live_domain_snapshot st LiveNotice) (\<lambda>notice.
     run_then (live_domain_snapshot st LiveRpc) (\<lambda>rpc.
     run_then (live_domain_snapshot st LiveSchedule) (\<lambda>schedule.
     of_result (registration_counts notice rpc schedule))))"

definition reliability_env :: "run_config \<Rightarrow> string \<Rightarrow> (string, string) js_map" where
  "reliability_env config act =
     [(''DESTROYER_RELIABILITY_ACTION'', act), (''DESTROYER_RECONNECT_TIMEOUT_MS'', show_int (startupTimeoutMs config))]"

definition lane_quiescence :: "'o stack \<Rightarrow> (live_domain, live_snapshot) js_map \<Rightarrow> live_domain \<Rightarrow> ('o, unit) action" where
  "lane_quiescence st initial d =
     (case map_get initial d of
        None \<Rightarrow> fail (Error ''Missing initial $ snapshot'' [AStr (live_domain_name d)])
      | Some baseline \<Rightarrow>
          run_then (wait_for_live_domain_quiescence st d baseline (''control-lane-cleanup-'' @ live_domain_name d) True) (\<lambda>_. ret ()))"

text \<open>The boolean of the script is \<^verbatim>\<open>saturatorsStopped\<close>, which the \<^verbatim>\<open>finally\<close> clause reads.\<close>

definition control_lane_body ::
  "'o stack \<Rightarrow> run_config \<Rightarrow> workload_shape \<Rightarrow> rat \<Rightarrow> (live_domain, live_snapshot) js_map \<Rightarrow> role_container list \<Rightarrow>
   ('o world \<times> bool, unit) script" where
  "control_lane_body st config shape started_at initial saturators =
     (let role = ''control-lane-cleanup-under-saturation''; targets = nat (clientReplicas config);
          target_shape = shape\<lparr>namespace := namespace shape @ ''-control-target'', entriesPerResource := 1\<rparr> in
     run_then (outer (wait_for_role_event st saturators ''control_lane_saturator_ready'')) (\<lambda>_.
     run_then (outer (wait_for_role_event st saturators ''control_lane_saturation_progress'')) (\<lambda>_.
     run_then (outer (role_logs_of st saturators)) (\<lambda>progress_before.
     run_then (outer (current_registration_state st)) (\<lambda>baseline.
     run_then (outer (start_role_containers st role targets target_shape (reliability_env config ''hold''))) (\<lambda>holders.
     run_then (outer (wait_for_role_event st holders ''control_lane_cleanup_target_armed'')) (\<lambda>_.
     run_then (outer (kill_role_containers st holders ''control-lane-cleanup-targets'')) (\<lambda>_.
     run_then (outer (wait_for_registration_cleanup st baseline (min (startupTimeoutMs config) 30000))) (\<lambda>cleaned.
     run_then (outer (start_role_containers st role targets target_shape (reliability_env config ''probe''))) (\<lambda>probes.
     run_then (outer (finish_role_containers st probes ''control-lane-cleanup-probes'')) (\<lambda>probe_logs.
     run_then (outer (role_record st ''canary''
       (shape\<lparr>namespace := namespace shape @ ''-control-canary'', entriesPerResource := 1\<rparr>) []
       ''control-lane-sibling-canary'' ''Expected one canary log, found $'' ''canary_complete'')) (\<lambda>canary.
     run_then (outer (role_logs_of st saturators)) (\<lambda>progress_after.
     run_then (of_result (saturation_progress_delta progress_before progress_after)) (\<lambda>progress.
     run_then (outer (signal_role_containers st saturators ''SIGTERM'')) (\<lambda>_.
     run_then (outer (finish_role_containers st saturators ''control-lane-saturators'')) (\<lambda>_.
     run_then (set_local True) (\<lambda>_.
     run_then (outer (wait_for_pressure_quiescence st)) (\<lambda>_.
     run_then (outer (each (lane_quiescence st initial) LIVE_DOMAINS)) (\<lambda>_.
     run_then (of_result (sum_evidence ''control_lane_cleanup_probe_complete'' PROBE_FIELDS (map snd probe_logs)
       (zero_sums PROBE_FIELDS))) (\<lambda>probe_evidence.
     run_then (of_result (canary_domain_array (json_get canary ''domains''))) (\<lambda>canary_domains.
     run_then (of_result (numeric_field canary ''operationsPerDomain'')) (\<lambda>canary_operations.
     let ledger = \<lparr>cn_targets = targets, cn_pending = rg_pending cleaned,
           cn_notice_delta = int (rg_notice cleaned) - int (fst baseline),
           cn_rpc_delta = int (rg_rpc cleaned) - int (fst (snd baseline)),
           cn_schedule_delta = int (rg_schedule cleaned) - int (snd (snd baseline)),
           cn_probes = probe_evidence, cn_progress = progress, cn_canary_domains = canary_domains,
           cn_canary_operations = canary_operations\<rparr> in
     run_then (of_result (assert_control_lane_cleanup_under_saturation ledger)) (\<lambda>_.
     outer (run_then (artifact_write_json (host_of st) ''control-lane-cleanup-under-saturation-ledger.json'' (control_lane_json ledger)) (\<lambda>_.
     run_then (elapsed_since (host_of st) started_at) (\<lambda>ms.
     event st ''control_lane_cleanup_under_saturation_complete''
       [(''targets'', jnat targets), (''saturationProgress'', JObj (map (\<lambda>(d, x). (domain_name d, JNum x)) progress)),
        (''canaryOperationsPerDomain'', jnat canary_operations), (''elapsedMs'', jint ms)]))))))))))))))))))))))))))"

definition stop_saturators :: "'o stack \<Rightarrow> role_container list \<Rightarrow> ('o world \<times> bool, unit) script" where
  "stop_saturators st saturators =
     run_then get_local (\<lambda>stopped.
     when_do (\<not> stopped) (outer (steps
       [ignore_failure (signal_role_containers st saturators ''SIGTERM''),
        ignore_failure (finish_role_containers st saturators ''control-lane-saturators-after-failure'')])))"

definition run_control_lane_cleanup_under_saturation_scenario ::
  "'o stack \<Rightarrow> run_config \<Rightarrow> workload_shape \<Rightarrow> ('o, unit) action" where
  "run_control_lane_cleanup_under_saturation_scenario st config shape =
     (let replicas = nat (clientReplicas config) in
     run_then (performance_now (host_of st)) (\<lambda>started_at.
     run_then (domain_baselines st) (\<lambda>initial.
     run_then (start_role_containers st ''control-lane-cleanup-under-saturation'' replicas
       (shape\<lparr>namespace := namespace shape @ ''-control-saturation'', entriesPerResource := 1\<rparr>)
       [(''DESTROYER_RELIABILITY_ACTION'', ''saturate''),
        (''DESTROYER_PROGRESS_INTERVAL_MS'', show_int (min (sampleMs config) 250)),
        (''DESTROYER_RECONNECT_TIMEOUT_MS'', show_int (startupTimeoutMs config))]) (\<lambda>saturators.
     run_then (event st ''control_lane_cleanup_under_saturation_started''
       [(''saturators'', jnat replicas), (''targets'', jnat replicas), (''domains'', jstrs (map domain_name ALL_DOMAINS))]) (\<lambda>_.
     with_local False
       (try_finally (control_lane_body st config shape started_at initial saturators) (stop_saturators st saturators)))))))"

subsection \<open>Lost replies\<close>

definition CLEANUP_DOMAINS :: "domain list" where
  "CLEANUP_DOMAINS = [Queue, Kv, Stream, Notice, Rpc, Lease, Schedule]"

definition REPLY_LOSS_COUNTS :: "(string \<times> nat) list" where
  "REPLY_LOSS_COUNTS =
     [(''queueRedelivered'', 1), (''queueWatchDeliveries'', 1), (''kvTransactions'', 1), (''kvWatchDeliveries'', 1),
      (''streamSessions'', 1), (''streamWatchDeliveries'', 1), (''noticeDeliveries'', 1), (''scheduleSubscriptions'', 1),
      (''leaseRoutesReacquired'', 2), (''leaseWatchDeliveries'', 1), (''rpcCallsCompleted'', 1)]"

definition assert_ephemeral_reply_loss_evidence :: "string \<Rightarrow> (string \<times> nat) list result" where
  "assert_ephemeral_reply_loss_evidence log_text =
     try_in (required_event log_text ''ephemeral_reply_loss_verifier_complete'') (\<lambda>r.
     try_in (for_each (assert_count r) REPLY_LOSS_COUNTS) (\<lambda>_. Inr REPLY_LOSS_COUNTS))"

definition assert_ephemeral_reply_loss_dispatch :: "string \<Rightarrow> nat result" where
  "assert_ephemeral_reply_loss_dispatch log_text =
     try_in (required_event log_text ''ephemeral_reply_loss_dispatched'') (\<lambda>r.
     try_in (numeric_field r ''requests'') (\<lambda>requests.
     try_in (numeric_field r ''repliesReceived'') (\<lambda>replies.
     try_in (ensure (requests = 1 \<or> requests = 11) (Error ''requests=$; expected 1 or 11'' [ANat requests])) (\<lambda>_.
     try_in (ensure (replies = 0) (Error ''$ ephemeral handle replies escaped the response-loss fault'' [ANat replies])) (\<lambda>_.
     Inr requests)))))"

fun ephemeral_fields :: "domain \<Rightarrow> string list" where
  "ephemeral_fields Queue = [''inflight_active'']"
| "ephemeral_fields Kv = [''transactions_active'']"
| "ephemeral_fields Stream = [''append_sessions_active'', ''subscriptions_active'']"
| "ephemeral_fields Notice = [''subscriptions_active'', ''routes_active'']"
| "ephemeral_fields Rpc = [''workers_registered'', ''requests_pending'', ''pending_routes_active'']"
| "ephemeral_fields Lease = [''leases_active'', ''waiter_depth'']"
| "ephemeral_fields Schedule = [''schedules_active'', ''subscriptions_active'', ''pending_fire_claims'', ''pending_ack_retries'']"

definition is_ephemeral_domain_quiescent :: "domain \<Rightarrow> live_snapshot \<Rightarrow> bool" where
  "is_ephemeral_domain_quiescent d snapshot =
     (if cl_pending (sn_cleanup snapshot) \<noteq> 0 \<or> cl_oldestAgeMs (sn_cleanup snapshot) \<noteq> 0 then False
      else list_all (\<lambda>field. map_get (sn_domain snapshot) field = Some (JNum 0)) (ephemeral_fields d))"

definition is_queue_resource_quiescent :: "stats \<Rightarrow> bool" where
  "is_queue_resource_quiescent resource =
     (map_get resource ''messages_inflight'' = Some (JNum 0) \<and> map_get resource ''subscriptions_active'' = Some (JNum 0))"

definition at_least :: "stats \<Rightarrow> string \<Rightarrow> nat \<Rightarrow> bool" where
  "at_least r field minimum = (case map_get r field of Some (JNum x) \<Rightarrow> of_nat minimum \<le> x | _ \<Rightarrow> False)"

definition at_least_lease_waiter :: "stats \<Rightarrow> bool" where
  "at_least_lease_waiter r =
     (at_least r ''waiter_depth'' 1 \<or>
      (case map_get r ''diagnostics'' of Some (JObj m) \<Rightarrow> at_least m ''waiter_count'' 1 | _ \<Rightarrow> False))"

record armed_state =
  am_domains :: "(domain, stats) js_map"
  am_queueResource :: stats

definition armed_domain :: "armed_state \<Rightarrow> domain \<Rightarrow> stats" where
  "armed_domain a d = get_or [] (map_get (am_domains a) d)"

definition is_ephemeral_state_armed :: "armed_state \<Rightarrow> bool" where
  "is_ephemeral_state_armed a =
     (list_all (\<lambda>(d, field, n). at_least (armed_domain a d) field n)
        [(Queue, ''inflight_active'', 1), (Kv, ''transactions_active'', 1), (Stream, ''append_sessions_active'', 1),
         (Stream, ''subscriptions_active'', 1), (Notice, ''subscriptions_active'', 1), (Rpc, ''workers_registered'', 1),
         (Lease, ''leases_active'', 2)] \<and>
      at_least_lease_waiter (armed_domain a Lease) \<and> at_least (armed_domain a Schedule) ''subscriptions_active'' 1 \<and>
      at_least (am_queueResource a) ''messages_inflight'' 1 \<and> at_least (am_queueResource a) ''subscriptions_active'' 1)"

definition armed_json :: "armed_state \<Rightarrow> json" where
  "armed_json a = JObj (map (\<lambda>d. (domain_name d, JObj (armed_domain a d))) [Queue, Kv, Stream, Notice, Rpc, Lease, Schedule] @
     [(''queueResource'', JObj (am_queueResource a))])"

text \<open>\<^verbatim>\<open>encodeURIComponent\<close>: every byte of a character outside the unreserved set is percent-encoded.\<close>

definition uri_unreserved :: "char \<Rightarrow> bool" where
  "uri_unreserved c =
     (let n = of_char c :: nat in n \<in> {48..57} \<or> n \<in> {65..90} \<or> n \<in> {97..122} \<or> n \<in> {33, 45, 46, 95, 126} \<or> n \<in> {39..42})"

definition percent_byte :: "byte \<Rightarrow> string" where
  "percent_byte b = [CHR ''%'', ''0123456789ABCDEF'' ! (unat b div 16), ''0123456789ABCDEF'' ! (unat b mod 16)]"

definition encode_uri_component :: "string \<Rightarrow> string" where
  "encode_uri_component s = concat (map (\<lambda>c. if uri_unreserved c then [c] else concat (map percent_byte (utf8_of_char c))) s)"

definition area_url :: "run_config \<Rightarrow> string \<Rightarrow> string \<Rightarrow> string" where
  "area_url config d ns =
     ''http://127.0.0.1:'' @ show_int (port config) @ ''/api/v1/all/'' @ d @ ''/realms/destroyer/areas/'' @ encode_uri_component ns @ ''/resources/''"

definition queue_resource_snapshot :: "'o stack \<Rightarrow> run_config \<Rightarrow> string \<Rightarrow> ('o, stats) action" where
  "queue_resource_snapshot st config ns =
     fetch_json_object (host_of st) (area_url config ''queue'' ns @ ''reply-loss-queue'') (requestTimeoutMs config)"

definition wait_for_queue_resource_quiescence :: "'o stack \<Rightarrow> run_config \<Rightarrow> string \<Rightarrow> ('o, stats) action" where
  "wait_for_queue_resource_quiescence st config ns =
     run_then (deadline_in st (min (startupTimeoutMs config) 15000)) (\<lambda>deadline.
     run_then (resample_until st deadline 100 (queue_resource_snapshot st config ns) is_queue_resource_quiescent) (\<lambda>resource.
     if is_queue_resource_quiescent resource then ret resource
     else fail (Error ''Queue resource retained reply-loss state: $'' [AJson (JObj resource)])))"

definition domain_quiesced ::
  "'o stack \<Rightarrow> run_config \<Rightarrow> (domain, live_snapshot) js_map \<Rightarrow> string \<Rightarrow> domain \<Rightarrow> ('o, unit) action" where
  "domain_quiesced st config baselines phase d =
     (case map_get baselines d of
        None \<Rightarrow> fail (Error ''Missing $ cleanup baseline'' [AStr (domain_name d)])
      | Some baseline \<Rightarrow>
          run_then (deadline_in st (min (startupTimeoutMs config) 15000)) (\<lambda>deadline.
          run_then (resample_until st deadline 100 (domain_snapshot st (domain_name d)) (is_ephemeral_domain_quiescent d)) (\<lambda>s.
          run_then (artifact_write_json (host_of st) (''ephemeral-reply-loss-'' @ phase @ ''-'' @ domain_name d @ ''.json'') (snapshot_json s)) (\<lambda>_.
          if \<not> is_ephemeral_domain_quiescent d s
          then fail (Error ''$ retained ephemeral state after reply loss: $'' [AStr (domain_name d), AJson (snapshot_json s)])
          else if cl_failures (sn_cleanup baseline) < cl_failures (sn_cleanup s)
          then fail (Error ''$ cleanup failures increased from $ to $''
            [AStr (domain_name d), ARat (cl_failures (sn_cleanup baseline)), ARat (cl_failures (sn_cleanup s))])
          else ret ()))))"

definition wait_for_every_domain_to_quiesce ::
  "'o stack \<Rightarrow> run_config \<Rightarrow> workload_shape \<Rightarrow> (domain, live_snapshot) js_map \<Rightarrow> string \<Rightarrow> ('o, unit) action" where
  "wait_for_every_domain_to_quiesce st config shape baselines phase =
     run_then (each (domain_quiesced st config baselines phase) CLEANUP_DOMAINS) (\<lambda>_.
     run_then (wait_for_queue_resource_quiescence st config (namespace shape)) (\<lambda>resource.
     artifact_write_json (host_of st) (''ephemeral-reply-loss-'' @ phase @ ''-queue-resource.json'') (JObj resource)))"

definition ephemeral_armed_state :: "'o stack \<Rightarrow> run_config \<Rightarrow> string \<Rightarrow> ('o, armed_state) action" where
  "ephemeral_armed_state st config ns =
     run_then (fetch_json_object (host_of st) (area_url config ''notice'' ns @ ''reply-loss-notice/subscriptions'')
       (requestTimeoutMs config)) (\<lambda>_.
     run_then (gather (\<lambda>d. run_then (domain_snapshot st (domain_name d)) (\<lambda>s. ret (d, sn_domain s)))
       [Queue, Kv, Stream, Notice, Rpc, Lease, Schedule]) (\<lambda>domains.
     run_then (queue_resource_snapshot st config ns) (\<lambda>resource.
     ret \<lparr>am_domains = domains, am_queueResource = resource\<rparr>)))"

definition wait_for_ephemeral_state_armed :: "'o stack \<Rightarrow> run_config \<Rightarrow> string \<Rightarrow> ('o, unit) action" where
  "wait_for_ephemeral_state_armed st config ns =
     run_then (deadline_in st (min (startupTimeoutMs config) 8000)) (\<lambda>deadline.
     run_then (resample_until st deadline 100 (ephemeral_armed_state st config ns) is_ephemeral_state_armed) (\<lambda>state.
     run_then (artifact_write_json (host_of st) ''ephemeral-reply-loss-armed-state.json'' (armed_json state)) (\<lambda>_.
     if is_ephemeral_state_armed state then ret ()
     else fail (Error ''Fitz did not expose every lost-reply state before the cut: $'' [AJson (armed_json state)]))))"

definition lose_replies :: "'o stack \<Rightarrow> run_config \<Rightarrow> workload_shape \<Rightarrow> role_container list \<Rightarrow> ('o, role_logs) action" where
  "lose_replies st config shape victims =
     try_finally
       (run_then (steps [set_fault_proxy st ''client-proxy'' DownstreamPause, signal_role_containers st victims ''SIGUSR1'',
           wait_for_role_event st victims ''ephemeral_reply_loss_dispatched'',
           wait_for_ephemeral_state_armed st config (namespace shape)]) (\<lambda>_.
        kill_role_containers st victims ''ephemeral-reply-loss-victims''))
       (ignore_failure (set_fault_proxy st ''client-proxy'' Healthy))"

definition check_dispatched :: "role_logs \<Rightarrow> unit result" where
  "check_dispatched victim_logs =
     try_in (traverse assert_ephemeral_reply_loss_dispatch (map snd victim_logs)) (\<lambda>dispatched.
     ensure (length dispatched = 2 \<and> sum_list dispatched = 12)
       (Error ''Reply-loss victims dispatched [$], expected 1 + 11'' [ASeq dispatched]))"

definition run_ephemeral_reply_loss_cleanup_scenario :: "'o stack \<Rightarrow> run_config \<Rightarrow> workload_shape \<Rightarrow> ('o, unit) action" where
  "run_ephemeral_reply_loss_cleanup_scenario st config shape =
     run_then (performance_now (host_of st)) (\<lambda>started_at.
     run_then (gather (\<lambda>d. run_then (domain_snapshot st (domain_name d)) (\<lambda>s. ret (d, s))) CLEANUP_DOMAINS) (\<lambda>baselines.
     run_then (event st ''ephemeral_reply_loss_cleanup_started''
       [(''domains'', jstrs (map domain_name CLEANUP_DOMAINS)), (''fault'', JStr ''broker-to-client-handle-response-pause''),
        (''expectedLostReplies'', jnat 12)]) (\<lambda>_.
     run_then (start_role_containers st ''ephemeral-reply-loss-preparer'' 1 shape
       [(''DESTROYER_EPHEMERAL_REPLY_ACTION'', ''prepare'')]) (\<lambda>preparer.
     run_then (wait_for_role_event st preparer ''ephemeral_reply_loss_preparer_ready'') (\<lambda>_.
     run_then (start_role_containers st ''ephemeral-reply-loss-victim'' 2 shape
       [(''FITZ_URL'', PROXIED_URL), (''DESTROYER_EPHEMERAL_REPLY_ACTION'', ''victim''),
        (''DESTROYER_REQUEST_TIMEOUT_MS'', ''10000''), (''DESTROYER_WAIT_FOR_START_SIGNAL'', ''true'')]) (\<lambda>victims.
     run_then (wait_for_role_event st victims ''live_producer_ready'') (\<lambda>_.
     run_then (lose_replies st config shape victims) (\<lambda>victim_logs.
     run_then (kill_role_containers st preparer ''ephemeral-reply-loss-preparer'') (\<lambda>preparer_logs.
     run_then (of_result (worker_log preparer_logs (Error ''Reply-loss preparer log was missing'' []))) (\<lambda>_.
     run_then (of_result (check_dispatched victim_logs)) (\<lambda>_.
     run_then (wait_for_every_domain_to_quiesce st config shape baselines ''after-victims'') (\<lambda>_.
     run_then (run_role st ''ephemeral-reply-loss-verifier'' shape [(''DESTROYER_EPHEMERAL_REPLY_ACTION'', ''verify'')]
       ''ephemeral-reply-loss-verifier'') (\<lambda>verifier_logs.
     run_then (of_result (try_in (worker_log verifier_logs (Error ''Reply-loss verifier log was missing'' []))
       assert_ephemeral_reply_loss_evidence)) (\<lambda>evidence.
     run_then (wait_for_every_domain_to_quiesce st config shape baselines ''after-verifier'') (\<lambda>_.
     run_then (elapsed_since (host_of st) started_at) (\<lambda>ms.
     event st ''ephemeral_reply_loss_cleanup_complete''
       ((''lostReplies'', jnat 12) # map (\<lambda>(f, n). (f, jnat n)) evidence @ [(''elapsedMs'', jint ms)])))))))))))))))))"

subsection \<open>What the ledgers hold\<close>

definition counters_are :: "counter_sums \<Rightarrow> (string \<times> nat) list \<Rightarrow> bool" where
  "counters_are acc counts = list_all (\<lambda>(field, n). map_get acc field = Some (of_nat n)) counts"

text \<open>
  Every cycle is there in order; the broker went away and came back within the budget, every
  client reconnected and found its queue message, nothing uncommitted and no stale handle, and no
  registration and no pending cleanup is left.
\<close>

definition clean_cycle :: "int \<Rightarrow> nat \<Rightarrow> shutdown_cycle \<Rightarrow> bool" where
  "clean_cycle budget index c =
     (cy_cycle c = index + 1 \<and> cy_dropped c \<and> cy_final c = 200 \<and> cy_restartMs c \<le> budget \<and>
      counters_are (cy_counters c) (cycle_counts (cy_clients c)) \<and> cy_registrations c = (0, 0, 0))"

definition clean_shutdown :: "workload_shape \<Rightarrow> run_config \<Rightarrow> shutdown_ledger \<Rightarrow> bool" where
  "clean_shutdown shape config l =
     (sh_budget l = startupTimeoutMs config + 25000 \<and> length (sh_cycles l) = min (resources shape) 10 \<and>
      list_all (\<lambda>i. clean_cycle (sh_budget l) i (sh_cycles l ! i)) [0..<length (sh_cycles l)])"

text \<open>
  The registrations of the killed targets are gone while every normal lane made progress, the
  targets lost nothing, and a canary went through every domain.
\<close>

definition clean_control_lane :: "run_config \<Rightarrow> control_lane_ledger \<Rightarrow> bool" where
  "clean_control_lane config l =
     (cn_targets l = nat (clientReplicas config) \<and> cn_pending l = 0 \<and> cn_notice_delta l = 0 \<and> cn_rpc_delta l = 0 \<and>
      cn_schedule_delta l = 0 \<and>
      counters_are (control_lane_counters l) (control_lane_counts (cn_targets l)) \<and>
      list_all (\<lambda>d. 0 < get_or 0 (map_get (cn_progress l) d) \<and> d \<in> set (cn_canary_domains l)) ALL_DOMAINS \<and>
      0 < cn_canary_operations l)"

definition QUEUE_RESOURCE_FILES :: "string list" where
  "QUEUE_RESOURCE_FILES =
     map (\<lambda>phase. ''ephemeral-reply-loss-'' @ phase @ ''-queue-resource.json'') [''after-victims'', ''after-verifier'']"

definition sound_cleanup_file :: "workload_shape \<Rightarrow> run_config \<Rightarrow> os_call \<Rightarrow> bool" where
  "sound_cleanup_file shape config c =
     (case c of
        JsonWritten name v \<Rightarrow>
          (name = ''shutdown-reconnect-cleanup-storm-ledger.json'' \<longrightarrow> (\<exists>l. v = shutdown_json l \<and> clean_shutdown shape config l)) \<and>
          (name = ''control-lane-cleanup-under-saturation-ledger.json'' \<longrightarrow>
             (\<exists>l. v = control_lane_json l \<and> clean_control_lane config l)) \<and>
          (name \<in> set QUEUE_RESOURCE_FILES \<longrightarrow> (\<exists>m. v = JObj m \<and> is_queue_resource_quiescent m))
      | _ \<Rightarrow> True)"

definition CLEANUP_FILES :: "string list" where
  "CLEANUP_FILES =
     [''shutdown-reconnect-cleanup-storm-ledger.json'', ''control-lane-cleanup-under-saturation-ledger.json''] @ QUEUE_RESOURCE_FILES"

interpretation cleanup_files: quiet_stack CLEANUP_FILES "sound_cleanup_file shape config" for shape config
  by unfold_locales
    (auto simp: sound_cleanup_file_def reports_under_def STACK_REPORTS_def CLEANUP_FILES_def QUEUE_RESOURCE_FILES_def split: os_call.splits)

lemma expect_counters_ok:
  "for_each (expect_counter lead args acc) counts = Inr u \<Longrightarrow> counters_are acc counts"
  by (auto simp: expect_counter_def counters_are_def result_simps list_all_iff)

lemma check_cycle_clean:
  assumes "check_cycle budget (i, c) = Inr u"
  shows "clean_cycle budget i c"
proof -
  obtain n r s where g: "cy_registrations c = (n, r, s)" by (cases "cy_registrations c")
  have "counters_are (cy_counters c) (cycle_counts (cy_clients c))"
    using assms unfolding check_cycle_def Let_def prod.case try_in_eq_Inr
    by (elim exE conjE) (rule expect_counters_ok)
  moreover have "cy_cycle c = i + 1" "cy_dropped c" "cy_final c = 200" "cy_restartMs c \<le> budget" "n = 0" "r = 0" "s = 0"
    using assms unfolding check_cycle_def Let_def prod.case try_in_eq_Inr ensure_eq_Inr g by auto
  ultimately show ?thesis using g by (simp add: clean_cycle_def)
qed

lemma shutdown_storm_clean:
  assumes "assert_shutdown_reconnect_cleanup_storm \<lparr>sh_expected = min (resources shape) 10, sh_budget = startupTimeoutMs config + 25000,
      sh_cycles = cycles\<rparr> = Inr u"
  shows "clean_shutdown shape config \<lparr>sh_expected = min (resources shape) 10, sh_budget = startupTimeoutMs config + 25000,
      sh_cycles = cycles\<rparr>"
proof -
  let ?budget = "startupTimeoutMs config + 25000"
  have n: "length cycles = min (resources shape) 10"
    and each: "\<forall>p \<in> set (zip [0..<length cycles] cycles). check_cycle ?budget p = Inr ()"
    using assms by (simp_all add: assert_shutdown_reconnect_cleanup_storm_def result_simps)
  have "clean_cycle ?budget i (cycles ! i)" if "i < length cycles" for i
  proof (rule check_cycle_clean)
    have "(i, cycles ! i) \<in> set (zip [0..<length cycles] cycles)"
      using that by (auto simp: in_set_zip intro: exI [of _ i])
    then show "check_cycle ?budget (i, cycles ! i) = Inr ()" using each by blast
  qed
  then show ?thesis using n by (simp add: clean_shutdown_def list_all_iff)
qed

lemma control_lane_clean:
  assumes "assert_control_lane_cleanup_under_saturation l = Inr u" "cn_targets l = nat (clientReplicas config)"
  shows "clean_control_lane config l"
proof -
  have c: "counters_are (control_lane_counters l) (control_lane_counts (cn_targets l))"
    using assms(1) unfolding assert_control_lane_cleanup_under_saturation_def try_in_eq_Inr
    by (elim exE conjE) (rule expect_counters_ok)
  have "cn_pending l = 0" "cn_notice_delta l = 0" "cn_rpc_delta l = 0" "cn_schedule_delta l = 0"
    using c unfolding counters_are_def control_lane_counts_def control_lane_counters_def by simp_all
  moreover have "\<forall>d \<in> set ALL_DOMAINS. check_lane l d = Inr ()" "0 < cn_canary_operations l"
    using assms(1) unfolding assert_control_lane_cleanup_under_saturation_def by (simp_all add: result_simps)
  ultimately show ?thesis
    using c assms(2) by (simp add: clean_control_lane_def list_all_iff check_lane_def result_simps not_le)
qed

lemma cleanup_event: "only_calls (sound_cleanup_file shape config) (event st n es)"
  unfolding event_def artifact_event_def read_clock_def
  by (intro calls_intros only_calls_effect) (simp_all add: sound_cleanup_file_def)

lemma shutdown_report:
  "clean_shutdown shape config l \<Longrightarrow> only_calls (sound_cleanup_file shape config)
     (artifact_write_json h ''shutdown-reconnect-cleanup-storm-ledger.json'' (shutdown_json l))"
  unfolding artifact_write_json_def by (intro only_calls_effect) (auto simp: sound_cleanup_file_def QUEUE_RESOURCE_FILES_def)

lemma control_lane_report:
  "clean_control_lane config l \<Longrightarrow> only_calls (sound_cleanup_file shape config)
     (artifact_write_json h ''control-lane-cleanup-under-saturation-ledger.json'' (control_lane_json l))"
  unfolding artifact_write_json_def by (intro only_calls_effect) (auto simp: sound_cleanup_file_def QUEUE_RESOURCE_FILES_def)

lemma stats_file_name: "label @ ''-stats-after.json'' \<notin> set CLEANUP_FILES"
proof
  assume "label @ ''-stats-after.json'' \<in> set CLEANUP_FILES"
  then have "take 12 (rev (label @ ''-stats-after.json'')) \<in> (\<lambda>f. take 12 (rev f)) ` set CLEANUP_FILES" by (rule imageI)
  then show False by (simp add: CLEANUP_FILES_def QUEUE_RESOURCE_FILES_def)
qed

lemma readiness_file_name: "label @ ''-readiness.json'' \<notin> set CLEANUP_FILES"
proof
  assume "label @ ''-readiness.json'' \<in> set CLEANUP_FILES"
  then have "take 12 (rev (label @ ''-readiness.json'')) \<in> (\<lambda>f. take 12 (rev f)) ` set CLEANUP_FILES" by (rule imageI)
  then show False by (simp add: CLEANUP_FILES_def QUEUE_RESOURCE_FILES_def)
qed

lemma cleanup_quiescence [calls_intros]:
  "only_calls (sound_cleanup_file shape config) (wait_for_live_domain_quiescence st d base label allow)"
  by (rule cleanup_files.calls_quiescence) (rule stats_file_name)

lemma readiness_calls [calls_intros]:
  "only_calls (sound_cleanup_file shape config) (observe_readiness_during n st url (graceful_restart_fitz st) ms)"
  unfolding observe_readiness_during_def poll_readiness_def ready_status_def Let_def graceful_restart_fitz_def restart_complete_def
  by (intro calls_intros cleanup_event; simp add: forget_metrics_url_def calls_intros)

lemma registration_calls [calls_intros]:
  "only_calls (sound_cleanup_file shape config) (current_registration_state st)"
  "only_calls (sound_cleanup_file shape config) (wait_for_registration_cleanup st expected ms)"
  unfolding current_registration_state_def wait_for_registration_cleanup_def registration_state_def
  by (intro calls_intros; simp)+

lemma baseline_calls [calls_intros]:
  "only_calls (sound_cleanup_file shape config) (domain_baselines st)"
  "only_calls (sound_cleanup_file shape config) (final_snapshot st label baselines d)"
  "only_calls (sound_cleanup_file shape config) (lane_quiescence st initial d)"
  "only_calls (sound_cleanup_file shape config) (role_record st role shape' env label template closing)"
  unfolding domain_baselines_def final_snapshot_def lane_quiescence_def role_record_def run_role_def
  by (intro calls_intros)+

lemma shutdown_round_calls [calls_intros]:
  "only_calls (sound_cleanup_file shape config) (shutdown_cycle_round rounds st config' shape' i cycles)"
  unfolding shutdown_cycle_round_def Let_def
  by (intro calls_intros cleanup_event cleanup_files.calls_json readiness_file_name)

lemma control_lane_body_keeps:
  "keeps (\<lambda>p. since_calls (sound_cleanup_file shape config) cs0 (fst p)) (control_lane_body st config shape' started_at initial saturators)"
  unfolding control_lane_body_def Let_def
  by (rule keeps_of_result_then keeps_outer_then keeps_outer_calls keeps_run_then keeps_locals
      control_lane_report control_lane_clean calls_intros cleanup_event | assumption | simp)+

lemma stop_saturators_keeps:
  "keeps (\<lambda>p. since_calls (sound_cleanup_file shape config) cs0 (fst p)) (stop_saturators st saturators)"
  unfolding stop_saturators_def
  by (intro keeps_run_then keeps_get_local) (auto intro!: keeps_intros keeps_outer_calls calls_intros)

lemma ephemeral_fetches [calls_intros]:
  "only_calls (sound_cleanup_file shape config) (queue_resource_snapshot st config' ns)"
  "only_calls (sound_cleanup_file shape config) (ephemeral_armed_state st config' ns)"
  unfolding ephemeral_armed_state_def queue_resource_snapshot_def by (intro calls_intros)+

lemma armed_wait_calls [calls_intros]:
  "only_calls (sound_cleanup_file shape config) (wait_for_ephemeral_state_armed st config' ns)"
  unfolding wait_for_ephemeral_state_armed_def
  by (intro calls_intros cleanup_files.calls_json) (simp add: CLEANUP_FILES_def QUEUE_RESOURCE_FILES_def)

lemma lose_replies_calls [calls_intros]:
  "only_calls (sound_cleanup_file shape config) (lose_replies st config' shape' victims)"
  unfolding lose_replies_def by (intro calls_intros)

lemma domain_file_name: "''ephemeral-reply-loss-'' @ phase @ ''-'' @ domain_name d @ ''.json'' \<notin> set CLEANUP_FILES"
proof
  assume "''ephemeral-reply-loss-'' @ phase @ ''-'' @ domain_name d @ ''.json'' \<in> set CLEANUP_FILES"
  then have "take 14 (rev (''ephemeral-reply-loss-'' @ phase @ ''-'' @ domain_name d @ ''.json'')) \<in>
      (\<lambda>f. take 14 (rev f)) ` set CLEANUP_FILES" by (rule imageI)
  then show False by (cases d) (simp_all add: CLEANUP_FILES_def QUEUE_RESOURCE_FILES_def)
qed

lemma domain_quiesced_calls [calls_intros]:
  "only_calls (sound_cleanup_file shape config) (domain_quiesced st config' baselines phase d)"
  unfolding domain_quiesced_def by (intro calls_intros cleanup_files.calls_json domain_file_name)

lemma queue_resource_returned:
  "returns is_queue_resource_quiescent (wait_for_queue_resource_quiescence st config ns)"
  unfolding wait_for_queue_resource_quiescence_def
  by (intro returns_run_then) (auto simp: returns_def ret_def fail_def split: if_splits)

lemma queue_resource_calls [calls_intros]:
  "only_calls (sound_cleanup_file shape config) (wait_for_queue_resource_quiescence st config' ns)"
  unfolding wait_for_queue_resource_quiescence_def by (intro calls_intros)

lemma queue_resource_report:
  assumes "is_queue_resource_quiescent m"
  shows "only_calls (sound_cleanup_file shape config)
     (artifact_write_json h (''ephemeral-reply-loss-'' @ phase @ ''-queue-resource.json'') (JObj m))"
proof -
  have "''ephemeral-reply-loss-'' @ phase @ ''-queue-resource.json'' \<notin>
      {''shutdown-reconnect-cleanup-storm-ledger.json'', ''control-lane-cleanup-under-saturation-ledger.json''}" by simp
  then show ?thesis
    using assms unfolding artifact_write_json_def
    by (intro only_calls_effect) (simp add: sound_cleanup_file_def)
qed

lemma every_domain_calls [calls_intros]:
  "only_calls (sound_cleanup_file shape config) (wait_for_every_domain_to_quiesce st config' shape' baselines phase)"
  unfolding wait_for_every_domain_to_quiesce_def
  by (intro calls_intros only_calls_then_returned [OF queue_resource_calls queue_resource_returned] queue_resource_report)


end
