(* ===== verification/ClientCalls.thy ===== *)
theory ClientCalls
  imports Pressure Script Config
begin

text \<open>
  What the workloads share (src/workloads): the errors that calls of the third-party client throw,
  \<^verbatim>\<open>TextDecoder\<close>, and the retry of queue back pressure (src/workloads/queue-backpressure.ts).
  A workload is a script over the world of its client, whose calls are arguments of the model.
\<close>

subsection \<open>Errors of the client\<close>

text \<open>
  \<^verbatim>\<open>Thrown e code\<close> is a thrown value with its \<^verbatim>\<open>domainCode\<close>, \<^verbatim>\<open>Raised\<close> an error of the workload
  itself; \<^verbatim>\<open>StillRunning\<close> is no error of the code: it is the outcome of a retry loop that has used its
  fuel and has not returned.
\<close>

datatype client_error = Thrown thrown "rat option" | Raised error | StillRunning

type_synonym ('w, 'a) client_script = "(client_error, 'w, 'a) throwing"

fun domain_code :: "client_error \<Rightarrow> rat option" where
  "domain_code (Thrown e code) = code"
| "domain_code (Raised e) = None"
| "domain_code StillRunning = None"

fun thrown_value :: "client_error \<Rightarrow> thrown" where
  "thrown_value (Thrown e code) = e"
| "thrown_value (Raised e) = (case e of Error t args \<Rightarrow> ErrorObject ''Error'' t)"
| "thrown_value StillRunning = OtherThrown []"

definition raise :: "string \<Rightarrow> ('w, 'a) client_script" where
  "raise message = fail (Thrown (ErrorObject ''Error'' message) None)"

definition of_checked :: "'a result \<Rightarrow> ('w, 'a) client_script" where
  "of_checked r = (case r of Inl e \<Rightarrow> fail (Raised e) | Inr x \<Rightarrow> ret x)"

subsection \<open>Texts\<close>

text \<open>
  \<^verbatim>\<open>TextDecoder\<close>: ASCII and the two-byte forms of the code units below 256; every other byte is the
  replacement character, which is outside the model and stands as the control character 26.
\<close>

fun utf8_decode :: "byte list \<Rightarrow> string" where
  "utf8_decode [] = []"
| "utf8_decode [b] = [if b < 128 then char_of (unat b) else CHR 0x1A]"
| "utf8_decode (b # c # bs) =
     (if b < 128 then char_of (unat b) # utf8_decode (c # bs)
      else if (b = 0xC2 \<or> b = 0xC3) \<and> 0x80 \<le> c \<and> c < 0xC0
      then char_of (64 * unat (b - 0xC0) + unat (c - 0x80)) # utf8_decode bs
      else CHR 0x1A # utf8_decode (c # bs))"

lemma utf8_decode_cons: "b < 128 \<Longrightarrow> utf8_decode (b # bs) = char_of (unat b) # utf8_decode bs"
  by (cases bs) auto

lemma utf8_decode_ascii: "is_ascii s \<Longrightarrow> utf8_decode (map of_char s) = s"
proof (induction s)
  case (Cons c s)
  have "(of_char c :: byte) < 128" using Cons.prems by (simp add: word_less_nat_alt)
  moreover have "char_of (unat (of_char c :: byte)) = c" by (simp add: unat_of_char)
  ultimately show ?case using Cons by (simp add: utf8_decode_cons)
qed simp

lemma utf8_decode_utf8: "is_ascii s \<Longrightarrow> utf8_decode (utf8 s) = s"
  by (simp add: utf8_ascii utf8_decode_ascii)

subsection \<open>Back pressure\<close>

definition QUEUE_FULL :: rat where
  "QUEUE_FULL = 4005"

definition is_queue_backpressure :: "client_error \<Rightarrow> bool" where
  "is_queue_backpressure e = (domain_code e = Some QUEUE_FULL)"

definition backpressure_delay_ms :: "nat \<Rightarrow> nat" where
  "backpressure_delay_ms retries = min (25 * 2 ^ (retries - 1)) 250"

text \<open>
  \<^verbatim>\<open>retryQueueBackpressure\<close> after \<^verbatim>\<open>retries\<close> retries; the fuel bounds the attempts that are looked at.
\<close>

fun retry_queue_backpressure ::
  "nat \<Rightarrow> nat \<Rightarrow> ('w, 'a) client_script \<Rightarrow> (nat \<Rightarrow> nat \<Rightarrow> client_error \<Rightarrow> ('w, unit) client_script) \<Rightarrow>
   (nat \<Rightarrow> ('w, unit) client_script) \<Rightarrow> ('w, 'a) client_script" where
  "retry_queue_backpressure 0 retries operation on_retry wait = fail StillRunning"
| "retry_queue_backpressure (Suc n) retries operation on_retry wait =
     run_then (attempt operation) (\<lambda>r. case r of
       Inr x \<Rightarrow> ret x
     | Inl e \<Rightarrow>
         if \<not> is_queue_backpressure e then fail e
         else
           (let retries' = retries + 1; delay = backpressure_delay_ms retries' in
            run_then (on_retry retries' delay e) (\<lambda>_.
            run_then (wait delay) (\<lambda>_.
            retry_queue_backpressure n retries' operation on_retry wait))))"

text \<open>The delays double from 25 ms up to 250 ms.\<close>

lemma backpressure_delay_bounds: "0 < r \<Longrightarrow> 25 \<le> backpressure_delay_ms r \<and> backpressure_delay_ms r \<le> 250"
  by (simp add: backpressure_delay_ms_def)

lemma backpressure_delay_doubles:
  "0 < r \<Longrightarrow> backpressure_delay_ms (r + 1) = min (2 * backpressure_delay_ms r) 250"
  by (cases r) (auto simp: backpressure_delay_ms_def)

text \<open>
  The retry returns as soon as the operation gives an answer that is no back pressure: the fuel is
  enough when every attempt lowers a measure of the world while the queue stays full.
\<close>

lemma retry_returns:
  assumes "\<And>w e w'. operation w = (Inl e, w') \<Longrightarrow> is_queue_backpressure e \<Longrightarrow> m w' < m w"
    and "\<And>w e w'. operation w = (Inl e, w') \<Longrightarrow> e \<noteq> StillRunning"
    and "\<And>r d e w. fst (on_retry r d e w) = Inr () \<and> m (snd (on_retry r d e w)) \<le> m w"
    and "\<And>d w. fst (wait d w) = Inr () \<and> m (snd (wait d w)) \<le> m w"
  shows "m w < n \<Longrightarrow> fst (retry_queue_backpressure n retries operation on_retry wait w) \<noteq> Inl StillRunning"
proof (induction n arbitrary: retries w)
  case (Suc n)
  obtain r w1 where op: "operation w = (r, w1)" by (cases "operation w")
  show ?case
  proof (cases r)
    case (Inr x)
    then show ?thesis using op by (simp add: run_then_def attempt_def ret_def)
  next
    case (Inl e)
    let ?d = "backpressure_delay_ms (Suc retries)"
    show ?thesis
    proof (cases "is_queue_backpressure e")
      case True
      obtain w2 where w2: "on_retry (Suc retries) ?d e w1 = (Inr (), w2)" "m w2 \<le> m w1"
        using assms(3) [of "Suc retries" ?d e w1] by (cases "on_retry (Suc retries) ?d e w1") auto
      obtain w3 where w3: "wait ?d w2 = (Inr (), w3)" "m w3 \<le> m w2"
        using assms(4) [of ?d w2] by (cases "wait ?d w2") auto
      have "m w3 < n" using assms(1) [OF op [unfolded Inl] True] w2(2) w3(2) Suc.prems by simp
      from Suc.IH [OF this] show ?thesis
        using op Inl True w2(1) w3(1) by (simp add: run_then_def attempt_def Let_def)
    next
      case False
      then show ?thesis using op Inl assms(2) [of w e w1] by (simp add: run_then_def attempt_def fail_def)
    qed
  qed
qed simp

end
