(* ===== verification/PressureWorkload.thy ===== *)
theory PressureWorkload
  imports ClientCalls QueueReconcile
begin

text \<open>
  The pressure workload of one client (src/workloads/pressure.ts): the payloads and their
  decoding, the replacement of a stream client and the queue reconciler.
\<close>

subsection \<open>Payloads and routes\<close>

definition pressure_value :: "string \<Rightarrow> string \<Rightarrow> domain \<Rightarrow> nat \<Rightarrow> byte list" where
  "pressure_value ns w d counter = utf8 (ns @ '':'' @ w @ '':'' @ domain_name d @ '':'' @ pad counter 12)"

definition pressure_kv_write :: "string \<Rightarrow> string \<Rightarrow> nat \<Rightarrow> byte list \<times> byte list" where
  "pressure_kv_write ns w counter = (pressure_value ns w Kv 0, pressure_value ns w Kv (counter + 1))"

definition pressure_stream_write :: "string \<Rightarrow> string \<Rightarrow> nat \<Rightarrow> string \<times> nat" where
  "pressure_stream_write ns w expected = (''stream://destroyer/'' @ ns @ ''/'' @ w @ ''-stream'', expected)"

definition next_pressure_stream_offset :: "nat option \<Rightarrow> nat" where
  "next_pressure_stream_offset latest = (case latest of None \<Rightarrow> 0 | Some n \<Rightarrow> n + 1)"

definition is_pressure_stream_cleanup_pending :: "client_error \<Rightarrow> bool" where
  "is_pressure_stream_cleanup_pending e = (domain_code e = Some 2002)"

definition pressure_schedule_route :: "string \<Rightarrow> string \<Rightarrow> string" where
  "pressure_schedule_route ns w = ''schedule://destroyer/'' @ ns @ ''/'' @ w @ ''/job''"

definition pressure_loop_delay_ms :: "domain \<Rightarrow> nat" where
  "pressure_loop_delay_ms d = (if d = Notice then 100 else if d = Lease \<or> d = Rpc then 250 else 1000)"

definition decode_pressure_queue_sequence :: "string \<Rightarrow> string \<Rightarrow> byte list \<Rightarrow> rat result" where
  "decode_pressure_queue_sequence ns w body =
     (let v = utf8_decode body; start = ns @ '':'' @ w @ '':queue:'' in
      if \<not> prefix start v
      then Inl (Error ''$ queue payload $ has an unexpected identity'' [AStr w, AStr (take 160 v)])
      else
        (let e = Error ''$ queue payload has invalid sequence $'' [AStr w, AStr (drop (length start) v)] in
         case js_to_number (drop (length start) v) of
           None \<Rightarrow> Inl e
         | Some s \<Rightarrow> if \<not> is_safe_integer s \<or> s < 0 then Inl e else Inr s))"

subsection \<open>Replacing the stream client\<close>

text \<open>Clients are handles; \<^verbatim>\<open>peek\<close> answers with the offset of the last record of the stream.\<close>

definition replace_and_reconcile ::
  "('w, unit) client_script \<Rightarrow> ('w, 'c) client_script \<Rightarrow> ('c \<Rightarrow> ('w, nat option) client_script) \<Rightarrow>
   ('c \<Rightarrow> ('w, unit) client_script) \<Rightarrow> ('w, 'c \<times> nat) client_script" where
  "replace_and_reconcile close_current connect peek_offset close =
     run_then (ignore_failure close_current) (\<lambda>_.
     run_then connect (\<lambda>c.
     try_catch
       (run_then (peek_offset c) (\<lambda>latest. ret (c, next_pressure_stream_offset latest)))
       (\<lambda>e. run_then (ignore_failure (close c)) (\<lambda>_. fail e))))"

subsection \<open>The queue reconciler\<close>

record queue_item =
  qi_handle :: nat
  qi_body :: "byte list"

record 'w queue_calls =
  qc_reserve :: "string \<Rightarrow> nat \<Rightarrow> nat \<Rightarrow> nat option \<Rightarrow> ('w, queue_item list) client_script"
  qc_complete :: "queue_item \<Rightarrow> ('w, unit) client_script"

text \<open>One item: its sequence must be new for the worker; then it is completed.\<close>

definition take_item :: "'w queue_calls \<Rightarrow> string \<Rightarrow> string \<Rightarrow> rat list \<Rightarrow> queue_item \<Rightarrow> ('w, rat list) client_script" where
  "take_item calls ns w seen item =
     run_then (of_checked (decode_pressure_queue_sequence ns w (qi_body item))) (\<lambda>s.
     if s \<in> set seen
     then fail (Raised (Error ''$ queue reconciler observed duplicate sequence $'' [AStr w, ARat s]))
     else run_then (qc_complete calls item) (\<lambda>_. ret (seen @ [s])))"

fun take_items :: "'w queue_calls \<Rightarrow> string \<Rightarrow> string \<Rightarrow> rat list \<Rightarrow> queue_item list \<Rightarrow> ('w, rat list) client_script" where
  "take_items calls ns w seen [] = ret seen"
| "take_items calls ns w seen (item # items) =
     run_then (take_item calls ns w seen item) (\<lambda>seen'. take_items calls ns w seen' items)"

text \<open>The polls of one worker until three in a row are empty.\<close>

fun drain_worker :: "nat \<Rightarrow> 'w queue_calls \<Rightarrow> string \<Rightarrow> string \<Rightarrow> nat \<Rightarrow> rat list \<Rightarrow> ('w, rat list) client_script" where
  "drain_worker 0 calls ns w empty_polls seen = fail StillRunning"
| "drain_worker (Suc n) calls ns w empty_polls seen =
     (if empty_polls \<ge> 3 then ret seen
      else
        run_then (qc_reserve calls (''queue://destroyer/'' @ ns @ ''/'' @ w) 30 32 (Some 1)) (\<lambda>items.
        if items = [] then drain_worker n calls ns w (empty_polls + 1) seen
        else run_then (take_items calls ns w seen items) (\<lambda>seen'. drain_worker n calls ns w 0 seen')))"

definition drain_step ::
  "nat \<Rightarrow> 'w queue_calls \<Rightarrow> string \<Rightarrow> (string, rat list) js_map \<Rightarrow> string \<Rightarrow> ('w, (string, rat list) js_map) client_script" where
  "drain_step fuel_n calls ns observed w =
     run_then (drain_worker fuel_n calls ns w 0 []) (\<lambda>sequences. ret (map_set observed w (sort sequences)))"

fun drain_workers ::
  "nat \<Rightarrow> 'w queue_calls \<Rightarrow> string \<Rightarrow> (string, rat list) js_map \<Rightarrow> string list \<Rightarrow> ('w, (string, rat list) js_map) client_script" where
  "drain_workers fuel_n calls ns observed [] = ret observed"
| "drain_workers fuel_n calls ns observed (w # ws) =
     run_then (drain_step fuel_n calls ns observed w) (\<lambda>observed'. drain_workers fuel_n calls ns observed' ws)"

text \<open>The value that \<^verbatim>\<open>pressure_queue_reconcile_complete\<close> logs.\<close>

definition run_pressure_queue_reconciler ::
  "nat \<Rightarrow> 'w queue_calls \<Rightarrow> string \<Rightarrow> string list \<Rightarrow> ('w, (string, rat list) js_map) client_script" where
  "run_pressure_queue_reconciler fuel_n calls ns ws = drain_workers fuel_n calls ns [] ws"

subsection \<open>Facts\<close>

lemma decode_pressure_value:
  assumes "is_ascii ns" "is_ascii w" "int n \<le> max_safe_integer"
  shows "decode_pressure_queue_sequence ns w (pressure_value ns w Queue n) = Inr (of_nat n)"
proof -
  have n: "n \<le> 2 ^ 53" using assms(3) by (simp add: max_safe_integer_def)
  have safe: "is_safe_integer (of_nat n :: rat)" using assms(3) by (simp add: is_safe_integer_def)
  have decoded: "utf8_decode (pressure_value ns w Queue n) = (ns @ '':'' @ w @ '':queue:'') @ pad n 12"
    using assms by (simp add: pressure_value_def utf8_decode_utf8)
  have parts: "prefix a (a @ b)" "drop (length a) (a @ b) = b" for a b :: string by simp_all
  show ?thesis
    unfolding decode_pressure_queue_sequence_def decoded Let_def
    by (simp only: parts js_to_number_pad [OF n] option.case not_True_eq_False if_False safe) simp
qed

lemma decode_valid: "decode_pressure_queue_sequence ns w body = Inr s \<Longrightarrow> is_safe_integer s \<and> 0 \<le> s"
  by (auto simp: decode_pressure_queue_sequence_def Let_def split: if_splits option.splits)

lemma of_checked_ok [script_ok]: "of_checked r w = (Inr x, w') \<longleftrightarrow> r = Inr x \<and> w' = w"
  by (auto simp: of_checked_def ret_def fail_def split: sum.splits)

lemma take_item_valid:
  "take_item calls ns w seen item s = (Inr seen', s') \<Longrightarrow> valid_sequences seen \<Longrightarrow> valid_sequences seen'"
  by (auto simp: take_item_def script_ok valid_sequences_def dest: decode_valid split: if_splits)

lemma take_items_valid:
  "take_items calls ns w seen items s = (Inr seen', s') \<Longrightarrow> valid_sequences seen \<Longrightarrow> valid_sequences seen'"
  by (induction items arbitrary: seen s) (auto simp: script_ok dest: take_item_valid)

lemma drain_worker_valid:
  "drain_worker n calls ns w k seen s = (Inr seen', s') \<Longrightarrow> valid_sequences seen \<Longrightarrow> valid_sequences seen'"
proof (induction n arbitrary: k seen s)
  case (Suc n)
  then show ?case by (auto simp: script_ok dest: take_items_valid split: if_splits)
qed (simp add: script_ok)

lemma valid_sequences_sort: "valid_sequences xs \<Longrightarrow> valid_sequences (sort xs)"
  by (simp add: valid_sequences_def list_all_iff)

lemma drain_workers_valid:
  "drain_workers n calls ns observed ws s = (Inr observed', s') \<Longrightarrow>
     list_all (\<lambda>(w, xs). valid_sequences xs \<and> sorted xs) observed \<Longrightarrow>
     list_all (\<lambda>(w, xs). valid_sequences xs \<and> sorted xs) observed'"
proof (induction ws arbitrary: observed s)
  case (Cons w ws)
  have set_entry: "list_all P m \<Longrightarrow> P (k, v) \<Longrightarrow> list_all P (map_set m k v)" for P m k and v :: "rat list"
    by (induction m) auto
  obtain xs s1 where drained: "drain_worker n calls ns w 0 [] s = (Inr xs, s1)"
    and rest: "drain_workers n calls ns (map_set observed w (sort xs)) ws s1 = (Inr observed', s')"
    using Cons.prems(1) by (auto simp: drain_step_def script_ok)
  have "valid_sequences xs" using drain_worker_valid [OF drained] by (simp add: valid_sequences_def)
  then show ?case using Cons.IH [OF rest] Cons.prems(2) by (simp add: set_entry valid_sequences_sort)
qed (simp add: script_ok)

text \<open>
  What the reconciler reports is what \<^verbatim>\<open>reconcileQueueOutcomes\<close> asks of the observed sequences: safe,
  distinct, in order.
\<close>

lemma reconciler_report_valid:
  "run_pressure_queue_reconciler n calls ns ws s = (Inr observed, s') \<Longrightarrow>
     list_all (\<lambda>(w, xs). valid_sequences xs \<and> sorted xs) observed"
  unfolding run_pressure_queue_reconciler_def by (erule drain_workers_valid) simp

end
