(* ===== verification/FitzClient.thy ===== *)
theory FitzClient
  imports PressureWorkload Host
begin

text \<open>
  The client of the broker as the workloads use it (src/workloads): one record of calls per domain,
  over the unknown state of the client and the broker, and the control structures of the
  workloads.  Handles name transactions, sessions, iterators, leases and subscriptions.  Abort signals
  and timeouts are part of what a call answers: a call that is aborted throws.
\<close>

subsection \<open>The calls\<close>

type_synonym bytes = "byte list"

record stream_record =
  sr_offset :: nat
  sr_route :: string
  sr_global :: "nat option"
  sr_body :: bytes

record schedule_entry =
  se_route :: string
  se_cron :: string
  se_mode :: string
  se_payload :: bytes

record lease_state =
  le_held :: bool
  le_waiters :: nat

record rpc_response =
  rr_sequence :: nat
  rr_body :: bytes

record 'o kv_calls =
  kc_begin :: "string \<Rightarrow> bool \<Rightarrow> ('o, nat) client_script"
  kc_put :: "nat \<Rightarrow> bytes \<Rightarrow> bytes \<Rightarrow> ('o, unit) client_script"
  kc_get :: "nat \<Rightarrow> bytes \<Rightarrow> ('o, bytes option) client_script"
  kc_delete :: "nat \<Rightarrow> bytes \<Rightarrow> ('o, unit) client_script"
  kc_scan :: "nat \<Rightarrow> bytes \<Rightarrow> nat \<Rightarrow> ('o, (bytes \<times> bytes) list) client_script"
  kc_commit :: "nat \<Rightarrow> ('o, unit) client_script"
  kc_rollback :: "nat \<Rightarrow> ('o, unit) client_script"

record 'o stream_calls =
  sc_begin :: "string \<Rightarrow> ('o, nat) client_script"
  sc_append :: "nat \<Rightarrow> nat \<Rightarrow> bytes \<Rightarrow> ('o, unit) client_script"
  sc_commit :: "nat \<Rightarrow> ('o, unit) client_script"
  sc_rollback :: "nat \<Rightarrow> ('o, unit) client_script"
  sc_read :: "string \<Rightarrow> nat \<Rightarrow> nat \<Rightarrow> ('o, nat) client_script"
  sc_next :: "nat \<Rightarrow> ('o, stream_record list option) client_script"
  sc_end :: "nat \<Rightarrow> ('o, unit) client_script"

record 'o schedule_calls =
  hc_create :: "string \<Rightarrow> string \<Rightarrow> string \<Rightarrow> bytes \<Rightarrow> ('o, unit) client_script"
  hc_cancel :: "string \<Rightarrow> ('o, unit) client_script"
  hc_entries :: "string \<Rightarrow> nat \<Rightarrow> ('o, nat) client_script"
  hc_next :: "nat \<Rightarrow> ('o, schedule_entry list option) client_script"
  hc_end :: "nat \<Rightarrow> ('o, unit) client_script"

record 'o lease_calls =
  lc_acquire :: "string \<Rightarrow> nat \<Rightarrow> nat \<Rightarrow> ('o, nat) client_script"
  lc_token :: "nat \<Rightarrow> 'o \<Rightarrow> nat"
  lc_release :: "nat \<Rightarrow> ('o, unit) client_script"
  lc_query :: "string \<Rightarrow> ('o, lease_state) client_script"

record 'o rpc_calls =
  rc_call :: "string \<Rightarrow> bytes \<Rightarrow> int \<Rightarrow> ('o, nat) client_script"
  rc_next :: "nat \<Rightarrow> ('o, rpc_response option) client_script"
  rc_end :: "nat \<Rightarrow> ('o, unit) client_script"
  rc_abort :: "nat \<Rightarrow> thrown \<Rightarrow> ('o, unit) client_script"
  rc_register :: "string \<Rightarrow> nat option \<Rightarrow> ('o, nat) client_script"
  rc_respond :: "nat \<Rightarrow> bool \<Rightarrow> bytes \<Rightarrow> ('o, unit) client_script"

text \<open>
  What arrives while a workload waits: a message for a subscription, a request for a registered worker, the
  abort of the signal of the workload, the expiry of a timeout, or nothing more for now.  \<^verbatim>\<open>fz_ticks\<close> says how
  often the interval timer of a workload has fired since it was last asked.
\<close>

datatype delivery =
    Delivered nat string bytes
  | Requested nat nat bytes
  | Aborted
  | Expired
  | Idle

record 'o fitz_client =
  fz_queue :: "'o queue_calls"
  fz_enqueue :: "string \<Rightarrow> bytes \<Rightarrow> ('o, unit) client_script"
  fz_kv :: "'o kv_calls"
  fz_stream :: "'o stream_calls"
  fz_schedule :: "'o schedule_calls"
  fz_lease :: "'o lease_calls"
  fz_rpc :: "'o rpc_calls"
  fz_publish :: "string \<Rightarrow> bytes \<Rightarrow> ('o, unit) client_script"
  fz_subscribe :: "domain \<Rightarrow> string \<Rightarrow> ('o, nat) client_script"
  fz_unsubscribe :: "nat \<Rightarrow> ('o, unit) client_script"
  fz_delivery :: "'o \<Rightarrow> delivery \<times> 'o"
  fz_aborted :: "'o \<Rightarrow> bool"
  fz_reason :: "'o \<Rightarrow> thrown"
  fz_performance :: "'o \<Rightarrow> rat \<times> 'o"
  fz_date :: "'o \<Rightarrow> rat \<times> 'o"
  fz_ticks :: "'o \<Rightarrow> nat \<times> 'o"
  fz_sleep :: "int \<Rightarrow> 'o \<Rightarrow> 'o"

definition reading :: "('o \<Rightarrow> 'a \<times> 'o) \<Rightarrow> ('o, 'a) client_script" where
  "reading f = (\<lambda>s. case f s of (x, s') \<Rightarrow> (Inr x, s'))"

definition client_sleep :: "'o fitz_client \<Rightarrow> int \<Rightarrow> ('o, unit) client_script" where
  "client_sleep c ms = modify (fz_sleep c ms)"

subsection \<open>Control structures\<close>

text \<open>
  \<^verbatim>\<open>catch\<close> and \<^verbatim>\<open>finally\<close> for workloads: a loop that has not returned (\<^verbatim>\<open>StillRunning\<close>) has thrown
  nothing, so neither clause runs.
\<close>

definition catching :: "('w, 'a) client_script \<Rightarrow> (client_error \<Rightarrow> ('w, 'a) client_script) \<Rightarrow> ('w, 'a) client_script" where
  "catching m h = try_catch m (\<lambda>e. if e = StillRunning then fail StillRunning else h e)"

definition finally_do :: "('w, 'a) client_script \<Rightarrow> ('w, unit) client_script \<Rightarrow> ('w, 'a) client_script" where
  "finally_do m f =
     run_then (attempt m) (\<lambda>r. case r of
       Inl e \<Rightarrow> if e = StillRunning then fail StillRunning else run_then f (\<lambda>_. fail e)
     | Inr x \<Rightarrow> run_then f (\<lambda>_. ret x))"

text \<open>\<^verbatim>\<open>catch (error) { await cleanup.catch(() => undefined); throw error; }\<close>.\<close>

definition undo_on_error :: "('w, 'a) client_script \<Rightarrow> ('w, unit) client_script \<Rightarrow> ('w, 'a) client_script" where
  "undo_on_error m cleanup = catching m (\<lambda>e. run_then (ignore_failure cleanup) (\<lambda>_. fail e))"

text \<open>
  \<^verbatim>\<open>for await (const x of iterator)\<close>: the body goes on with new local variables or leaves the loop
  with a value; leaving or throwing closes the iterator.
\<close>

fun for_await ::
  "nat \<Rightarrow> ('w, 'b option) client_script \<Rightarrow> ('w, unit) client_script \<Rightarrow> ('b \<Rightarrow> 's \<Rightarrow> ('w, 's + 'a) client_script) \<Rightarrow> 's \<Rightarrow>
   ('w, 's + 'a) client_script" where
  "for_await 0 next close body s = fail StillRunning"
| "for_await (Suc n) next close body s =
     run_then next (\<lambda>b. case b of
       None \<Rightarrow> ret (Inl s)
     | Some x \<Rightarrow>
         run_then (undo_on_error (body x s) close) (\<lambda>r. case r of
           Inl s' \<Rightarrow> for_await n next close body s'
         | Inr y \<Rightarrow> run_then close (\<lambda>_. ret (Inr y))))"

text \<open>A loop over a list with local variables.\<close>

fun for_of :: "('b \<Rightarrow> 's \<Rightarrow> ('w, 's) client_script) \<Rightarrow> 'b list \<Rightarrow> 's \<Rightarrow> ('w, 's) client_script" where
  "for_of body [] s = ret s"
| "for_of body (x # xs) s = run_then (body x s) (for_of body xs)"

text \<open>\<^verbatim>\<open>while\<close> with fuel: the body says whether to go on.\<close>

fun while_do :: "nat \<Rightarrow> ('s \<Rightarrow> ('w, 's + 'a) client_script) \<Rightarrow> 's \<Rightarrow> ('w, 'a) client_script" where
  "while_do 0 body s = fail StillRunning"
| "while_do (Suc n) body s = run_then (body s) (\<lambda>r. case r of Inl s' \<Rightarrow> while_do n body s' | Inr x \<Rightarrow> ret x)"

definition stream_batches ::
  "nat \<Rightarrow> 'o fitz_client \<Rightarrow> string \<Rightarrow> nat \<Rightarrow> nat \<Rightarrow> (stream_record list \<Rightarrow> 's \<Rightarrow> ('o, 's + 'a) client_script) \<Rightarrow> 's \<Rightarrow>
   ('o, 's + 'a) client_script" where
  "stream_batches n c route from_offset batch body s =
     run_then (sc_read (fz_stream c) route from_offset batch) (\<lambda>it.
     for_await n (sc_next (fz_stream c) it) (sc_end (fz_stream c) it) body s)"

definition schedule_pages ::
  "nat \<Rightarrow> 'o fitz_client \<Rightarrow> string \<Rightarrow> nat \<Rightarrow> (schedule_entry list \<Rightarrow> 's \<Rightarrow> ('o, 's + 'a) client_script) \<Rightarrow> 's \<Rightarrow>
   ('o, 's + 'a) client_script" where
  "schedule_pages n c selector page body s =
     run_then (hc_entries (fz_schedule c) selector page) (\<lambda>it.
     for_await n (hc_next (fz_schedule c) it) (hc_end (fz_schedule c) it) body s)"

subsection \<open>A workload and its log\<close>

record 'o live_world =
  lv_log :: "(string \<times> (string \<times> json) list) list"
  lv_outside :: 'o

type_synonym ('o, 'a) workload = "('o live_world, 'a) client_script"

definition ask :: "('o, 'a) client_script \<Rightarrow> ('o, 'a) workload" where
  "ask m = (\<lambda>w. case m (lv_outside w) of (r, s) \<Rightarrow> (r, w\<lparr>lv_outside := s\<rparr>))"

definition log_event :: "string \<Rightarrow> (string \<times> json) list \<Rightarrow> ('o, unit) workload" where
  "log_event name entries = modify (\<lambda>w. w\<lparr>lv_log := lv_log w @ [(name, entries)]\<rparr>)"

definition performance :: "'o fitz_client \<Rightarrow> ('o, rat) workload" where
  "performance c = ask (reading (fz_performance c))"

definition elapsed_time :: "'o fitz_client \<Rightarrow> rat \<Rightarrow> ('o, int) workload" where
  "elapsed_time c started_at = run_then (performance c) (\<lambda>t. ret (elapsed_ms t started_at))"

subsection \<open>Runs that return\<close>

lemma attempt_ok [script_ok]: "attempt m w = (Inr r, w') \<longleftrightarrow> m w = (r, w')"
  by (auto simp: attempt_def split: prod.splits)

lemma undo_on_error_ok [script_ok]: "undo_on_error m f w = (Inr x, w') \<longleftrightarrow> m w = (Inr x, w')"
  by (auto simp: undo_on_error_def catching_def try_catch_def script_ok split: prod.splits sum.splits if_splits)

lemma finally_do_ok [script_ok]:
  "finally_do m f w = (Inr x, w') \<longleftrightarrow> (\<exists>v. m w = (Inr x, v) \<and> f v = (Inr (), w'))"
proof (cases "m w")
  case (Pair r v)
  then show ?thesis by (cases r) (auto simp: finally_do_def script_ok run_then_def attempt_def ret_def fail_def split: prod.splits sum.splits)
qed

lemma ask_ok [script_ok]: "ask m w = (Inr x, w') \<longleftrightarrow> (\<exists>s. m (lv_outside w) = (Inr x, s) \<and> w' = w\<lparr>lv_outside := s\<rparr>)"
  by (auto simp: ask_def split: prod.splits)

lemma reading_ok [script_ok]: "reading f s = (Inr x, s') \<longleftrightarrow> f s = (x, s')"
  by (auto simp: reading_def split: prod.splits)

lemma log_event_ok [script_ok]: "log_event name es w = (Inr u, w') \<longleftrightarrow> w' = w\<lparr>lv_log := lv_log w @ [(name, es)]\<rparr>"
  by (auto simp: log_event_def script_ok)

text \<open>A loop over a list that checks every element against its position.\<close>

lemma for_of_checked:
  assumes "\<And>x k k' w w'. body x k w = (Inr k', w') \<longleftrightarrow> P x k \<and> k' = Suc k \<and> w' = w"
  shows "for_of body xs k w = (Inr k', w') \<longleftrightarrow> list_all2 P xs [k..<k + length xs] \<and> k' = k + length xs \<and> w' = w"
proof (induction xs arbitrary: k)
  case (Cons x xs)
  have "[k..<k + length (x # xs)] = k # [Suc k..<Suc k + length xs]" by (simp add: upt_rec)
  then show ?case using Cons [of "Suc k"] by (auto simp: script_ok assms)
qed (auto simp: script_ok)

text \<open>What a loop keeps until it returns.\<close>

lemma while_do_ok:
  assumes "while_do n body s w = (Inr x, w')" "I s w"
    and "\<And>s w s' w'. I s w \<Longrightarrow> body s w = (Inr (Inl s'), w') \<Longrightarrow> I s' w'"
  shows "\<exists>s' v. I s' v \<and> body s' v = (Inr (Inr x), w')"
  using assms(1,2)
proof (induction n arbitrary: s w)
  case (Suc n)
  then obtain r v where r: "body s w = (Inr r, v)" "(case r of Inl s' \<Rightarrow> while_do n body s' | Inr x \<Rightarrow> ret x) v = (Inr x, w')"
    by (auto simp: script_ok)
  show ?case
  proof (cases r)
    case (Inl s')
    then show ?thesis using Suc.IH [of s' v] assms(3) [OF Suc.prems(2)] r by simp
  qed (use Suc.prems r in \<open>auto simp: script_ok\<close>)
qed (simp add: script_ok)

subsection \<open>What a workload logs\<close>

text \<open>\<^verbatim>\<open>logs_only P m\<close>: every event that the workload logs, however it ends, satisfies \<^verbatim>\<open>P\<close>.\<close>

definition logs_only :: "(string \<times> (string \<times> json) list \<Rightarrow> bool) \<Rightarrow> ('o, 'a) workload \<Rightarrow> bool" where
  "logs_only P m = (\<forall>w. \<exists>ls. lv_log (snd (m w)) = lv_log w @ ls \<and> list_all P ls)"

named_theorems log_intros

lemma logs_only_ask [log_intros]: "logs_only P (ask m)"
  by (auto simp: logs_only_def ask_def split: prod.splits)

lemma logs_only_simple [log_intros]:
  "logs_only P (ret x)" "logs_only P (fail e)" "logs_only P (of_checked r)" "logs_only P (of_result r')" "logs_only P (get_state f)"
  by (auto simp: logs_only_def ret_def fail_def of_checked_def of_result_def get_state_def split: sum.splits)

lemma logs_only_event: "P (name, es) \<Longrightarrow> logs_only P (log_event name es)"
  by (simp add: logs_only_def log_event_def modify_def)

lemma logs_only_run_then [log_intros]:
  assumes "logs_only P m" "\<And>x. logs_only P (k x)"
  shows "logs_only P (run_then m k)"
  unfolding logs_only_def
proof
  fix w
  obtain r w1 where m: "m w = (r, w1)" by (cases "m w")
  obtain ls where ls: "lv_log w1 = lv_log w @ ls" "list_all P ls"
    using assms(1) m unfolding logs_only_def by (metis snd_conv)
  show "\<exists>ls. lv_log (snd (run_then m k w)) = lv_log w @ ls \<and> list_all P ls"
  proof (cases r)
    case (Inr x)
    obtain ls' where "lv_log (snd (k x w1)) = lv_log w1 @ ls'" "list_all P ls'"
      using assms(2) unfolding logs_only_def by blast
    then show ?thesis using m ls Inr by (simp add: run_then_def)
  qed (use m ls in \<open>simp add: run_then_def\<close>)
qed

lemma logs_only_attempt [log_intros]: "logs_only P m \<Longrightarrow> logs_only P (attempt m)"
  unfolding logs_only_def attempt_def by (auto split: prod.splits) (metis snd_conv)

lemma logs_only_ignore [log_intros]: "logs_only P m \<Longrightarrow> logs_only P (ignore_failure m)"
  by (simp add: logs_only_def ignore_failure_def)

lemma logs_only_if [log_intros]:
  "(b \<Longrightarrow> logs_only P m) \<Longrightarrow> (\<not> b \<Longrightarrow> logs_only P m') \<Longrightarrow> logs_only P (if b then m else m')"
  by simp

lemma logs_only_option [log_intros]:
  "(z = None \<Longrightarrow> logs_only P m) \<Longrightarrow> (\<And>x. z = Some x \<Longrightarrow> logs_only P (k x)) \<Longrightarrow>
     logs_only P (case z of None \<Rightarrow> m | Some x \<Rightarrow> k x)"
  by (cases z) simp_all

lemma logs_only_sum [log_intros]:
  "(\<And>x. z = Inl x \<Longrightarrow> logs_only P (f x)) \<Longrightarrow> (\<And>y. z = Inr y \<Longrightarrow> logs_only P (g y)) \<Longrightarrow>
     logs_only P (case z of Inl x \<Rightarrow> f x | Inr y \<Rightarrow> g y)"
  by (cases z) simp_all

lemma logs_only_prod [log_intros]:
  "(\<And>x y. z = (x, y) \<Longrightarrow> logs_only P (f x y)) \<Longrightarrow> logs_only P (case z of (x, y) \<Rightarrow> f x y)"
  by (cases z) simp

lemma logs_only_catching [log_intros]: "logs_only P m \<Longrightarrow> (\<And>e. logs_only P (h e)) \<Longrightarrow> logs_only P (catching m h)"
proof -
  assume m: "logs_only P m" and h: "\<And>e. logs_only P (h e)"
  have eq: "catching m h = run_then (attempt m) (\<lambda>r. case r of Inl e \<Rightarrow> if e = StillRunning then fail StillRunning else h e | Inr x \<Rightarrow> ret x)"
    by (rule ext) (auto simp: catching_def try_catch_def run_then_def attempt_def ret_def split: prod.splits sum.splits)
  show ?thesis unfolding eq by (intro log_intros m h)
qed

lemma logs_only_finally [log_intros]: "logs_only P m \<Longrightarrow> logs_only P f \<Longrightarrow> logs_only P (finally_do m f)"
  unfolding finally_do_def by (intro log_intros)

lemma logs_only_undo [log_intros]: "logs_only P m \<Longrightarrow> logs_only P f \<Longrightarrow> logs_only P (undo_on_error m f)"
  unfolding undo_on_error_def by (intro log_intros)

lemma logs_only_for_of [log_intros]: "(\<And>x s. logs_only P (body x s)) \<Longrightarrow> logs_only P (for_of body xs s)"
  by (induction xs arbitrary: s) (simp_all add: log_intros)

lemma logs_only_while [log_intros]: "(\<And>s. logs_only P (body s)) \<Longrightarrow> logs_only P (while_do n body s)"
  by (induction n arbitrary: s) (auto intro!: log_intros)

lemma logs_only_for_await [log_intros]:
  "logs_only P next \<Longrightarrow> logs_only P close \<Longrightarrow> (\<And>x s. logs_only P (body x s)) \<Longrightarrow> logs_only P (for_await n next close body s)"
  by (induction n arbitrary: s) (auto intro!: log_intros)

lemma logs_only_each [log_intros]: "(\<And>x. logs_only P (f x)) \<Longrightarrow> logs_only P (each f xs)"
  by (induction xs) (simp_all add: log_intros)

lemma logs_only_gather [log_intros]: "(\<And>x. logs_only P (f x)) \<Longrightarrow> logs_only P (gather f xs)"
  by (induction xs) (simp_all add: log_intros)

lemma logs_only_of_checked_then:
  "(\<And>x. r = Inr x \<Longrightarrow> logs_only P (k x)) \<Longrightarrow> logs_only P (run_then (of_checked r) k)"
  by (cases r) (simp_all add: run_then_def of_checked_def logs_only_def ret_def fail_def)

end
