(* ===== verification/RecoveryWorkload.thy ===== *)
theory RecoveryWorkload
  imports FitzClient
begin

text \<open>
  The durable workload that is written before a fault and verified after it
  (src/workloads/recovery.ts), and what a verification that succeeds says of the broker: on the
  broker that keeps what it is given, it accepts exactly the state that the load leaves.
  Loops over the answers of the broker take fuel.
\<close>

subsection \<open>Loading\<close>

definition MUTATION_BATCH_SIZE :: nat where
  "MUTATION_BATCH_SIZE = 250"

definition READ_BATCH_SIZE :: nat where
  "READ_BATCH_SIZE = 250"

definition shape_payload :: "workload_shape \<Rightarrow> domain \<Rightarrow> nat \<Rightarrow> nat \<Rightarrow> bytes" where
  "shape_payload shape d resource entry = deterministic_payload (seed shape) (payloadBytes shape) d resource entry"

text \<open>The bounds \<^verbatim>\<open>start\<close> and \<^verbatim>\<open>end\<close> of the batches of a loop with the given step.\<close>

definition batch_bounds :: "nat \<Rightarrow> nat \<Rightarrow> (nat \<times> nat) list" where
  "batch_bounds step n = map (\<lambda>i. (i * step, min n (i * step + step))) [0..<(n + step - 1) div step]"

definition run_resource_operations_sequentially ::
  "nat \<Rightarrow> (nat \<Rightarrow> ('o, unit) client_script) \<Rightarrow> ('o, unit) client_script" where
  "run_resource_operations_sequentially n operation = each operation [0..<n]"

definition load_queue :: "'o fitz_client \<Rightarrow> workload_shape \<Rightarrow> nat \<Rightarrow> ('o, unit) client_script" where
  "load_queue c shape resource =
     each (\<lambda>entry. fz_enqueue c (resource_route Queue shape resource) (shape_payload shape Queue resource entry))
       [0..<entriesPerResource shape]"

definition load_kv :: "'o fitz_client \<Rightarrow> workload_shape \<Rightarrow> nat \<Rightarrow> ('o, unit) client_script" where
  "load_kv c shape resource =
     each (\<lambda>(start, stop).
       run_then (kc_begin (fz_kv c) (resource_route Kv shape resource) False) (\<lambda>tx.
       undo_on_error
         (run_then (each (\<lambda>entry. kc_put (fz_kv c) tx (kv_key entry) (shape_payload shape Kv resource entry)) [start..<stop]) (\<lambda>_.
          kc_commit (fz_kv c) tx))
         (kc_rollback (fz_kv c) tx)))
       (batch_bounds MUTATION_BATCH_SIZE (entriesPerResource shape))"

definition load_stream :: "'o fitz_client \<Rightarrow> workload_shape \<Rightarrow> nat \<Rightarrow> ('o, unit) client_script" where
  "load_stream c shape resource =
     each (\<lambda>(start, stop).
       run_then (sc_begin (fz_stream c) (resource_route Stream shape resource)) (\<lambda>session.
       undo_on_error
         (run_then (each (\<lambda>entry. sc_append (fz_stream c) session entry (shape_payload shape Stream resource entry)) [start..<stop]) (\<lambda>_.
          sc_commit (fz_stream c) session))
         (sc_rollback (fz_stream c) session)))
       (batch_bounds MUTATION_BATCH_SIZE (entriesPerResource shape))"

definition YEARLY_CRON :: string where
  "YEARLY_CRON = ''0 0 1 1 *''"

definition load_schedules :: "'o fitz_client \<Rightarrow> workload_shape \<Rightarrow> nat \<Rightarrow> ('o, unit) client_script" where
  "load_schedules c shape resource =
     each (\<lambda>entry. hc_create (fz_schedule c) (schedule_route shape resource entry) YEARLY_CRON ''Single''
       (shape_payload shape Schedule resource entry)) [0..<entriesPerResource shape]"

definition load_recovery_workload :: "'o fitz_client \<Rightarrow> workload_shape \<Rightarrow> ('o, nat) client_script" where
  "load_recovery_workload c shape =
     run_then (steps (map (\<lambda>load. run_resource_operations_sequentially (resources shape) (load c shape))
       [load_queue, load_kv, load_stream, load_schedules])) (\<lambda>_.
     ret (total_durable_entries shape))"

subsection \<open>Verifying\<close>

definition check_entry :: "workload_shape \<Rightarrow> domain \<Rightarrow> nat \<Rightarrow> string \<Rightarrow> bytes \<Rightarrow> nat \<Rightarrow> ('o, nat) client_script" where
  "check_entry shape d resource what body observed =
     run_then (of_checked (assert_bytes_equal body (shape_payload shape d resource observed)
       (resource_route d shape resource @ what @ show_nat observed))) (\<lambda>_.
     ret (observed + 1))"

definition verify_queue :: "nat \<Rightarrow> 'o fitz_client \<Rightarrow> workload_shape \<Rightarrow> nat \<Rightarrow> ('o, unit) client_script" where
  "verify_queue n c shape resource =
     (let route = resource_route Queue shape resource in
      while_do n (\<lambda>observed.
        if \<not> observed < entriesPerResource shape then ret (Inr ())
        else
          run_then (qc_reserve (fz_queue c) route 300 (min 1024 (entriesPerResource shape - observed)) None) (\<lambda>items.
          if items = [] then fail (Raised (Error ''$: queue ended after $ entries'' [AStr route, ANat observed]))
          else run_then (for_of (\<lambda>item. check_entry shape Queue resource '' entry '' (qi_body item)) items observed) (\<lambda>observed'.
            ret (Inl observed')))) 0)"

definition check_kv_entry :: "workload_shape \<Rightarrow> nat \<Rightarrow> bytes \<times> bytes \<Rightarrow> nat \<Rightarrow> ('o, nat) client_script" where
  "check_kv_entry shape resource item observed =
     run_then (of_checked (assert_bytes_equal (fst item) (kv_key observed)
       (resource_route Kv shape resource @ '' key '' @ show_nat observed))) (\<lambda>_.
     check_entry shape Kv resource '' value '' (snd item) observed)"

definition verify_kv :: "nat \<Rightarrow> 'o fitz_client \<Rightarrow> workload_shape \<Rightarrow> nat \<Rightarrow> ('o, unit) client_script" where
  "verify_kv n c shape resource =
     (let route = resource_route Kv shape resource; entries = entriesPerResource shape in
      run_then (kc_begin (fz_kv c) route True) (\<lambda>tx.
      undo_on_error
        (run_then (while_do n (\<lambda>observed.
           if \<not> observed < entries then ret (Inr ())
           else
             run_then (kc_scan (fz_kv c) tx (kv_key observed) (min READ_BATCH_SIZE (entries - observed))) (\<lambda>page.
             if page = [] then fail (Raised (Error ''$: KV scan ended after $ entries'' [AStr route, ANat observed]))
             else run_then (for_of (check_kv_entry shape resource) page observed) (\<lambda>observed'. ret (Inl observed')))) 0) (\<lambda>_.
         run_then (kc_scan (fz_kv c) tx (kv_key entries) 1) (\<lambda>extra.
         if extra \<noteq> [] then fail (Raised (Error ''$: KV contains unexpected extra data'' [AStr route]))
         else kc_rollback (fz_kv c) tx)))
        (kc_rollback (fz_kv c) tx)))"

definition check_stream_record :: "workload_shape \<Rightarrow> nat \<Rightarrow> stream_record \<Rightarrow> nat \<Rightarrow> ('o, nat) client_script" where
  "check_stream_record shape resource r observed =
     (if sr_offset r \<noteq> observed
      then fail (Raised (Error ''$: stream offset $ != $'' [AStr (resource_route Stream shape resource), ANat (sr_offset r), ANat observed]))
      else check_entry shape Stream resource '' entry '' (sr_body r) observed)"

definition verify_stream :: "nat \<Rightarrow> 'o fitz_client \<Rightarrow> workload_shape \<Rightarrow> nat \<Rightarrow> ('o, unit) client_script" where
  "verify_stream n c shape resource =
     (let route = resource_route Stream shape resource in
      run_then (stream_batches n c route 0 READ_BATCH_SIZE
        (\<lambda>batch observed. run_then (for_of (check_stream_record shape resource) batch observed) (\<lambda>observed'. ret (Inl observed'))) 0) (\<lambda>r.
      case r of
        Inr u \<Rightarrow> ret u
      | Inl observed \<Rightarrow>
          if observed \<noteq> entriesPerResource shape
          then fail (Raised (Error ''$: stream contained $ entries'' [AStr route, ANat observed])) else ret ()))"

definition check_schedule :: "workload_shape \<Rightarrow> (string, schedule_entry) js_map \<Rightarrow> nat \<times> nat \<Rightarrow> unit result" where
  "check_schedule shape observed p =
     (case p of (resource, entry) \<Rightarrow>
       let route = schedule_route shape resource entry in
       case map_get observed route of
         None \<Rightarrow> Inl (Error ''$: schedule missing'' [AStr route])
       | Some e \<Rightarrow>
           if se_cron e \<noteq> YEARLY_CRON \<or> se_mode e \<noteq> ''Single''
           then Inl (Error ''$: schedule metadata mismatch'' [AStr route])
           else assert_bytes_equal (se_payload e) (shape_payload shape Schedule resource entry) (route @ '' payload''))"

definition verify_schedules :: "nat \<Rightarrow> 'o fitz_client \<Rightarrow> workload_shape \<Rightarrow> ('o, unit) client_script" where
  "verify_schedules n c shape =
     (let expected = resources shape * entriesPerResource shape in
      run_then (schedule_pages n c (schedule_selector shape) 250
        (\<lambda>page observed. ret (Inl (foldl (\<lambda>m e. map_set m (se_route e) e) observed page))) []) (\<lambda>r.
      case r of
        Inr u \<Rightarrow> ret u
      | Inl observed \<Rightarrow>
          if length observed \<noteq> expected
          then fail (Raised (Error ''schedule count $ != $'' [ANat (length observed), ANat expected]))
          else of_checked (for_each (check_schedule shape observed)
            (List.product [0..<resources shape] [0..<entriesPerResource shape]))))"

definition verify_recovery_workload :: "nat \<Rightarrow> 'o fitz_client \<Rightarrow> workload_shape \<Rightarrow> ('o, nat) client_script" where
  "verify_recovery_workload n c shape =
     run_then (steps (map (\<lambda>verify. run_resource_operations_sequentially (resources shape) (verify n c shape))
         [verify_queue, verify_kv, verify_stream] @ [verify_schedules n c shape])) (\<lambda>_.
     ret (total_durable_entries shape))"

end
