(* ===== verification/RecoveryBroker.thy ===== *)
theory RecoveryBroker
  imports RecoveryWorkload
begin

text \<open>
  A reference broker that keeps what it acknowledges, as a client of the workloads, and the
  recovery workload on it: verification accepts exactly the states that hold the workload, and
  loading leaves such a state.
\<close>

subsection \<open>The reference broker\<close>

text \<open>Keys of a KV resource are ordered byte by byte.\<close>

fun bytes_less :: "bytes \<Rightarrow> bytes \<Rightarrow> bool" where
  "bytes_less [] [] = False"
| "bytes_less [] (y # ys) = True"
| "bytes_less (x # xs) [] = False"
| "bytes_less (x # xs) (y # ys) = (x < y \<or> x = y \<and> bytes_less xs ys)"

definition kv_insert :: "(bytes \<times> bytes) list \<Rightarrow> bytes \<times> bytes \<Rightarrow> (bytes \<times> bytes) list" where
  "kv_insert m e =
     takeWhile (\<lambda>x. bytes_less (fst x) (fst e)) m @ e #
     filter (\<lambda>x. fst x \<noteq> fst e) (dropWhile (\<lambda>x. bytes_less (fst x) (fst e)) m)"

record broker =
  bk_queue :: "string \<Rightarrow> bytes list"
  bk_kv :: "string \<Rightarrow> (bytes \<times> bytes) list"
  bk_stream :: "string \<Rightarrow> bytes list"
  bk_schedules :: "schedule_entry list"
  bk_tx :: "string \<times> (bytes \<times> bytes) list"
  bk_session :: "string \<times> bytes list"
  bk_batches :: "stream_record list list"
  bk_pages :: "schedule_entry list list"

fun chunks :: "nat \<Rightarrow> nat \<Rightarrow> 'a list \<Rightarrow> 'a list list" where
  "chunks 0 k xs = []"
| "chunks (Suc n) k xs = (if xs = [] then [] else take k xs # chunks n k (drop k xs))"

definition broker_reserve :: "string \<Rightarrow> nat \<Rightarrow> nat \<Rightarrow> nat option \<Rightarrow> (broker, queue_item list) client_script" where
  "broker_reserve route lease batch wait =
     (\<lambda>b. (Inr (map (\<lambda>body. \<lparr>qi_handle = 0, qi_body = body\<rparr>) (take batch (bk_queue b route))),
           b\<lparr>bk_queue := (bk_queue b)(route := drop batch (bk_queue b route))\<rparr>))"

definition broker_scan :: "nat \<Rightarrow> bytes \<Rightarrow> nat \<Rightarrow> (broker, (bytes \<times> bytes) list) client_script" where
  "broker_scan tx start limit =
     get_state (\<lambda>b. take limit (dropWhile (\<lambda>x. bytes_less (fst x) start) (bk_kv b (fst (bk_tx b)))))"

definition broker_commit :: "nat \<Rightarrow> (broker, unit) client_script" where
  "broker_commit tx =
     modify (\<lambda>b. b\<lparr>bk_kv := (bk_kv b)(fst (bk_tx b) := foldl kv_insert (bk_kv b (fst (bk_tx b))) (snd (bk_tx b)))\<rparr>)"

definition broker_kv :: "broker kv_calls" where
  "broker_kv =
     \<lparr>kc_begin = (\<lambda>route ro. run_then (modify (\<lambda>b. b\<lparr>bk_tx := (route, [])\<rparr>)) (\<lambda>_. ret 0)),
      kc_put = (\<lambda>tx k v. modify (\<lambda>b. b\<lparr>bk_tx := (fst (bk_tx b), snd (bk_tx b) @ [(k, v)])\<rparr>)),
      kc_get = (\<lambda>tx k. get_state (\<lambda>b. map_get (bk_kv b (fst (bk_tx b))) k)),
      kc_delete = (\<lambda>tx k. modify (\<lambda>b. b)),
      kc_scan = broker_scan, kc_commit = broker_commit, kc_rollback = (\<lambda>tx. ret ())\<rparr>"

definition stream_records :: "string \<Rightarrow> bytes list \<Rightarrow> stream_record list" where
  "stream_records route bodies = map (\<lambda>(i, body). \<lparr>sr_offset = i, sr_route = route, sr_global = None, sr_body = body\<rparr>) (zip [0..<length bodies] bodies)"

text \<open>An append at another offset than the end of the stream is a conflict.\<close>

definition broker_append :: "nat \<Rightarrow> nat \<Rightarrow> bytes \<Rightarrow> (broker, unit) client_script" where
  "broker_append session offset body =
     (\<lambda>b. if offset = length (bk_stream b (fst (bk_session b))) + length (snd (bk_session b))
          then (Inr (), b\<lparr>bk_session := (fst (bk_session b), snd (bk_session b) @ [body])\<rparr>)
          else raise ''conflict'' b)"

definition broker_stream :: "broker stream_calls" where
  "broker_stream =
     \<lparr>sc_begin = (\<lambda>route. run_then (modify (\<lambda>b. b\<lparr>bk_session := (route, [])\<rparr>)) (\<lambda>_. ret 0)),
      sc_append = broker_append,
      sc_commit = (\<lambda>session. modify (\<lambda>b. b\<lparr>bk_stream := (bk_stream b)
        (fst (bk_session b) := bk_stream b (fst (bk_session b)) @ snd (bk_session b))\<rparr>)),
      sc_rollback = (\<lambda>session. ret ()),
      sc_read = (\<lambda>route offset batch. run_then (modify (\<lambda>b. b\<lparr>bk_batches :=
        chunks (length (bk_stream b route)) batch (drop offset (stream_records route (bk_stream b route)))\<rparr>)) (\<lambda>_. ret 0)),
      sc_next = (\<lambda>it b. case bk_batches b of [] \<Rightarrow> (Inr None, b) | x # xs \<Rightarrow> (Inr (Some x), b\<lparr>bk_batches := xs\<rparr>)),
      sc_end = (\<lambda>it. ret ())\<rparr>"

definition selected_by :: "string \<Rightarrow> schedule_entry \<Rightarrow> bool" where
  "selected_by selector e = prefix (takeWhile (\<lambda>c. c \<noteq> CHR ''*'') selector) (se_route e)"

definition broker_schedule :: "broker schedule_calls" where
  "broker_schedule =
     \<lparr>hc_create = (\<lambda>route cron m payload. modify (\<lambda>b. b\<lparr>bk_schedules :=
        filter (\<lambda>e. se_route e \<noteq> route) (bk_schedules b) @
        [\<lparr>se_route = route, se_cron = cron, se_mode = m, se_payload = payload\<rparr>]\<rparr>)),
      hc_cancel = (\<lambda>route. modify (\<lambda>b. b\<lparr>bk_schedules := filter (\<lambda>e. se_route e \<noteq> route) (bk_schedules b)\<rparr>)),
      hc_entries = (\<lambda>selector page. run_then (modify (\<lambda>b. b\<lparr>bk_pages :=
        chunks (length (bk_schedules b)) page (filter (selected_by selector) (bk_schedules b))\<rparr>)) (\<lambda>_. ret 0)),
      hc_next = (\<lambda>it b. case bk_pages b of [] \<Rightarrow> (Inr None, b) | x # xs \<Rightarrow> (Inr (Some x), b\<lparr>bk_pages := xs\<rparr>)),
      hc_end = (\<lambda>it. ret ())\<rparr>"

definition unsupported :: "('o, 'a) client_script" where
  "unsupported = raise ''unsupported''"

definition reference_client :: "broker fitz_client" where
  "reference_client =
     \<lparr>fz_queue = \<lparr>qc_reserve = broker_reserve, qc_complete = (\<lambda>_. ret ())\<rparr>,
      fz_enqueue = (\<lambda>route body. modify (\<lambda>b. b\<lparr>bk_queue := (bk_queue b)(route := bk_queue b route @ [body])\<rparr>)),
      fz_kv = broker_kv, fz_stream = broker_stream, fz_schedule = broker_schedule,
      fz_lease = \<lparr>lc_acquire = (\<lambda>_ _ _. unsupported), lc_token = (\<lambda>_ _. 0), lc_release = (\<lambda>_. unsupported), lc_query = (\<lambda>_. unsupported)\<rparr>,
      fz_rpc = \<lparr>rc_call = (\<lambda>_ _ _. unsupported), rc_next = (\<lambda>_. unsupported), rc_end = (\<lambda>_. unsupported), rc_abort = (\<lambda>_ _. unsupported),
        rc_register = (\<lambda>_ _. unsupported), rc_respond = (\<lambda>_ _ _. unsupported)\<rparr>,
      fz_publish = (\<lambda>_ _. unsupported), fz_subscribe = (\<lambda>_ _. unsupported), fz_unsubscribe = (\<lambda>_. unsupported),
      fz_delivery = (\<lambda>b. (Aborted, b)), fz_aborted = (\<lambda>_. False), fz_reason = (\<lambda>_. OtherThrown []),
      fz_performance = (\<lambda>b. (0, b)), fz_date = (\<lambda>b. (0, b)), fz_ticks = (\<lambda>b. (0, b)),
      fz_sleep = (\<lambda>_ b. b)\<rparr>"

definition empty_broker :: broker where
  "empty_broker = \<lparr>bk_queue = (\<lambda>_. []), bk_kv = (\<lambda>_. []), bk_stream = (\<lambda>_. []), bk_schedules = [], bk_tx = ([], []),
     bk_session = ([], []), bk_batches = [], bk_pages = []\<rparr>"

subsection \<open>The workload in a broker\<close>

definition expected_bodies :: "workload_shape \<Rightarrow> domain \<Rightarrow> nat \<Rightarrow> bytes list" where
  "expected_bodies shape d r = map (shape_payload shape d r) [0..<entriesPerResource shape]"

definition expected_pairs :: "workload_shape \<Rightarrow> nat \<Rightarrow> (bytes \<times> bytes) list" where
  "expected_pairs shape r = map (\<lambda>e. (kv_key e, shape_payload shape Kv r e)) [0..<entriesPerResource shape]"

definition expected_schedule :: "workload_shape \<Rightarrow> nat \<times> nat \<Rightarrow> schedule_entry" where
  "expected_schedule shape p =
     \<lparr>se_route = schedule_route shape (fst p) (snd p), se_cron = YEARLY_CRON, se_mode = ''Single'',
      se_payload = shape_payload shape Schedule (fst p) (snd p)\<rparr>"

definition shape_indices :: "workload_shape \<Rightarrow> (nat \<times> nat) list" where
  "shape_indices shape = List.product [0..<resources shape] [0..<entriesPerResource shape]"

text \<open>
  Every message is in its queue in order, every pair in its KV resource, every stream is exactly
  what was appended, and every schedule is there with its payload.
\<close>

definition contains_workload :: "workload_shape \<Rightarrow> broker \<Rightarrow> bool" where
  "contains_workload shape b =
     (list_all (\<lambda>r. prefix (expected_bodies shape Queue r) (bk_queue b (resource_route Queue shape r)) \<and>
        set (expected_pairs shape r) \<subseteq> set (bk_kv b (resource_route Kv shape r)) \<and>
        bk_stream b (resource_route Stream shape r) = expected_bodies shape Stream r) [0..<resources shape] \<and>
      set (map (expected_schedule shape) (shape_indices shape)) \<subseteq> set (bk_schedules b))"

subsection \<open>Keys in order\<close>

lemma bytes_less_map:
  assumes "length s = length t" "\<forall>c \<in> set s. is_digit c" "\<forall>c \<in> set t. is_digit c" "nat_of_digits s < nat_of_digits t"
  shows "bytes_less (map of_char s) (map of_char t)"
proof -
  have bound: "nat_of_digits u < 10 ^ length u" if "\<forall>c \<in> set u. is_digit c" for u
    using that
  proof (induction u rule: rev_induct)
    case (snoc c u)
    then have "nat_of_digits u < 10 ^ length u" "(of_char c :: nat) - 48 \<le> 9" by (auto simp: is_digit_def)
    then show ?case by (simp add: nat_of_digits_append_one)
  qed (simp add: nat_of_digits_def)
  have head: "nat_of_digits (c # u) = (of_char c - 48) * 10 ^ length u + nat_of_digits u" for c u
  proof (induction u rule: rev_induct)
    case (snoc d u)
    then show ?case using nat_of_digits_append_one [of "c # u" d] by (simp add: nat_of_digits_append_one algebra_simps)
  qed (simp add: nat_of_digits_def)
  show ?thesis using assms
  proof (induction s t rule: list_induct2)
    case (Cons c s d t)
    have digits: "is_digit c" "is_digit d" using Cons.prems by auto
    have bs: "nat_of_digits s < 10 ^ length t" "nat_of_digits t < 10 ^ length t"
      using bound [of s] bound [of t] Cons.prems Cons.hyps by auto
    have less: "((of_char c :: nat) - 48) * 10 ^ length t + nat_of_digits s < ((of_char d :: nat) - 48) * 10 ^ length t + nat_of_digits t"
      using Cons.prems(3) head [of c s] head [of d t] Cons.hyps by simp
    have le: "(of_char c :: nat) - 48 \<le> of_char d - 48"
    proof (rule ccontr)
      assume "\<not> (of_char c :: nat) - 48 \<le> of_char d - 48"
      then have "Suc ((of_char d :: nat) - 48) * 10 ^ length t \<le> ((of_char c :: nat) - 48) * 10 ^ length t"
        by (intro mult_le_mono1) simp
      then show False using less bs by simp
    qed
    have cd: "(of_char c :: nat) \<le> of_char d" using le digits by (auto simp: is_digit_def)
    show ?case
    proof (cases "c = d")
      case True
      then show ?thesis using less Cons.IH Cons.prems by simp
    next
      case False
      then have "(of_char c :: nat) < of_char d" using cd by (metis le_neq_implies_less of_char_eq_iff)
      then have "(of_char c :: byte) < of_char d" by (simp add: word_less_nat_alt unat_of_char)
      then show ?thesis by simp
    qed
  qed simp
qed

lemma bytes_less_prefix: "bytes_less (p @ x) (p @ y) = bytes_less x y"
  by (induction p) auto

lemma kv_key_bytes: "kv_key e = map of_char ''key-'' @ map of_char (pad e 8)"
proof -
  have "is_ascii (''key-'' @ pad e 8)" using pad_digits [of e 8] by (auto simp: is_digit_def)
  then have "kv_key e = map of_char (''key-'' @ pad e 8)" unfolding kv_key_def by (rule utf8_ascii)
  then show ?thesis by simp
qed

lemma kv_key_less:
  assumes "i < j" "j < 10 ^ 8" shows "bytes_less (kv_key i) (kv_key j)"
proof -
  have "bytes_less (map of_char (pad i 8)) (map of_char (pad j 8))"
    using assms pad_digits by (intro bytes_less_map) (simp_all add: length_pad)
  then show ?thesis unfolding kv_key_bytes bytes_less_prefix .
qed

lemma bytes_less_irrefl: "\<not> bytes_less x x"
  by (induction x) auto

lemma bytes_less_asym: "bytes_less x y \<Longrightarrow> \<not> bytes_less y x"
  by (induction x y rule: bytes_less.induct) auto

lemma kv_key_less_iff:
  assumes "i < 10 ^ 8" "j < 10 ^ 8" shows "bytes_less (kv_key i) (kv_key j) \<longleftrightarrow> i < j"
  using kv_key_less [of i j] kv_key_less [of j i] bytes_less_asym bytes_less_irrefl assms
  by (metis linorder_neqE_nat)

subsection \<open>Loading on the reference broker\<close>

lemma ref_simps:
  "fz_enqueue reference_client = (\<lambda>route body. modify (\<lambda>b. b\<lparr>bk_queue := (bk_queue b)(route := bk_queue b route @ [body])\<rparr>))"
  "qc_reserve (fz_queue reference_client) = broker_reserve" "fz_kv reference_client = broker_kv"
  "fz_stream reference_client = broker_stream" "fz_schedule reference_client = broker_schedule"
  by (simp_all add: reference_client_def)

lemma run_then_Inr: "m w = (Inr x, v) \<Longrightarrow> run_then m k w = k x v"
  by (simp add: run_then_def)

lemma modify_then: "run_then (modify f) k w = k () (f w)"
  by (simp add: run_then_def modify_def)

lemma ret_then: "run_then (ret x) k = k x"
  by (rule ext) (simp add: run_then_def ret_def)

lemma undo_on_success: "m w = (Inr x, v) \<Longrightarrow> undo_on_error m f w = (Inr x, v)"
  by (simp add: undo_on_error_def catching_def try_catch_def)

lemma enqueue_all:
  "each (\<lambda>e. fz_enqueue reference_client route (g e)) xs b =
     (Inr (), b\<lparr>bk_queue := (bk_queue b)(route := bk_queue b route @ map g xs)\<rparr>)"
proof (induction xs arbitrary: b)
  case (Cons x xs)
  show ?case by (simp add: ref_simps modify_then, simp add: Cons [unfolded ref_simps])
    (intro arg_cong [where f = "\<lambda>q. b\<lparr>bk_queue := q\<rparr>"] ext, simp)
qed (simp add: ret_def)

lemma load_queue_ref:
  "load_queue reference_client shape r b =
     (Inr (), b\<lparr>bk_queue := (bk_queue b)(resource_route Queue shape r := bk_queue b (resource_route Queue shape r) @ expected_bodies shape Queue r)\<rparr>)"
  unfolding load_queue_def enqueue_all expected_bodies_def ..

lemma put_all:
  "each (\<lambda>e. kc_put broker_kv tx (k e) (v e)) xs b =
     (Inr (), b\<lparr>bk_tx := (fst (bk_tx b), snd (bk_tx b) @ map (\<lambda>e. (k e, v e)) xs)\<rparr>)"
proof (induction xs arbitrary: b)
  case (Cons x xs)
  show ?case by (simp add: broker_kv_def modify_then, simp add: Cons [unfolded broker_kv_def, simplified])
qed (simp add: ret_def)

lemma append_all:
  assumes "bk_session b = (route, appended)" "length (bk_stream b route) + length appended = start" "start \<le> stop"
  shows "each (\<lambda>e. sc_append broker_stream s e (g e)) [start..<stop] b =
     (Inr (), b\<lparr>bk_session := (route, appended @ map g [start..<stop])\<rparr>)"
  using assms
proof (induction "stop - start" arbitrary: b start appended)
  case (Suc n)
  then have start: "[start..<stop] = start # [Suc start..<stop]" by (simp add: upt_rec)
  let ?b = "b\<lparr>bk_session := (route, appended @ [g start])\<rparr>"
  have one: "sc_append broker_stream s start (g start) b = (Inr (), ?b)"
    using Suc.prems by (simp add: broker_stream_def broker_append_def)
  have "each (\<lambda>e. sc_append broker_stream s e (g e)) [Suc start..<stop] ?b =
      (Inr (), ?b\<lparr>bk_session := (route, (appended @ [g start]) @ map g [Suc start..<stop])\<rparr>)"
    using Suc by (intro Suc.hyps(1)) auto
  then show ?case by (simp add: start run_then_def one)
qed (simp add: ret_def)

text \<open>Keys written in order end up in order.\<close>

lemma kv_insert_last:
  "list_all (\<lambda>x. bytes_less (fst x) (fst e)) m \<Longrightarrow> kv_insert m e = m @ [e]"
  by (simp add: kv_insert_def list_all_iff takeWhile_eq_all_conv [THEN iffD2] dropWhile_eq_Nil_conv [THEN iffD2])

definition pairs_up_to :: "workload_shape \<Rightarrow> nat \<Rightarrow> nat \<Rightarrow> (bytes \<times> bytes) list" where
  "pairs_up_to shape r n = map (\<lambda>e. (kv_key e, shape_payload shape Kv r e)) [0..<n]"

lemma kv_insert_pairs:
  "start \<le> stop \<Longrightarrow> stop \<le> 10 ^ 8 \<Longrightarrow>
     foldl kv_insert (pairs_up_to shape r start) (map (\<lambda>e. (kv_key e, shape_payload shape Kv r e)) [start..<stop]) =
       pairs_up_to shape r stop"
proof (induction stop)
  case (Suc stop)
  show ?case
  proof (cases "start = Suc stop")
    case False
    with Suc have le: "start \<le> stop" by simp
    have "list_all (\<lambda>x. bytes_less (fst x) (kv_key stop)) (pairs_up_to shape r stop)"
      using Suc.prems by (auto simp: pairs_up_to_def list_all_iff intro!: kv_key_less)
    then show ?thesis using Suc le by (simp add: kv_insert_last) (simp add: pairs_up_to_def)
  qed simp
qed simp

lemma each_append: "each f (xs @ ys) = run_then (each f xs) (\<lambda>_. each f ys)"
proof (induction xs)
  case (Cons x xs)
  then show ?case by (simp add: run_then_def fun_eq_iff split: prod.split sum.split)
qed (simp add: ret_then)

text \<open>A loop over batches: each batch leads from the invariant at its start to the one at its end.\<close>

lemma each_batches:
  assumes step: "\<And>b start stop. I start b \<Longrightarrow> start \<le> stop \<Longrightarrow> stop \<le> n \<Longrightarrow> \<exists>b'. f (start, stop) b = (Inr (), b') \<and> I stop b'"
    and "I 0 b" "0 < k"
  shows "\<exists>b'. each f (batch_bounds k n) b = (Inr (), b') \<and> I n b'"
proof -
  have batches: "\<exists>b'. each f (map (\<lambda>i. (i * k, min n (i * k + k))) [0..<m]) b = (Inr (), b') \<and> I (min n (m * k)) b'"
    if "m * k < n + k" for m
    using that
  proof (induction m)
    case (Suc m)
    then have "m * k < n" by simp
    with Suc obtain b1 where b1: "each f (map (\<lambda>i. (i * k, min n (i * k + k))) [0..<m]) b = (Inr (), b1)" "I (m * k) b1"
      by (auto simp: min_def)
    obtain b2 where "f (m * k, min n (m * k + k)) b1 = (Inr (), b2)" "I (min n (m * k + k)) b2"
      using step [OF b1(2), of "min n (m * k + k)"] \<open>m * k < n\<close> by auto
    then have "each f (map (\<lambda>i. (i * k, min n (i * k + k))) [0..<Suc m]) b = (Inr (), b2)" "I (min n (Suc m * k)) b2"
      using b1(1) by (simp_all add: each_append run_then_def ret_def add.commute)
    then show ?case by blast
  qed (use assms(2) in \<open>simp add: ret_def\<close>)
  have less: "(n + k - 1) div k * k < n + k"
    using div_times_less_eq_dividend [of "n + k - 1" k] assms(3) by linarith
  have "n \<le> (n + k - 1) div k * k"
  proof -
    have "(n + k - 1) mod k < k" using assms(3) by simp
    moreover have "(n + k - 1) div k * k + (n + k - 1) mod k = n + k - 1" by (rule div_mult_mod_eq)
    ultimately show ?thesis by linarith
  qed
  then have "min n ((n + k - 1) div k * k) = n" by simp
  with batches [OF less] show ?thesis unfolding batch_bounds_def by simp
qed

definition content :: "broker \<Rightarrow> (string \<Rightarrow> bytes list) \<times> (string \<Rightarrow> (bytes \<times> bytes) list) \<times> (string \<Rightarrow> bytes list) \<times> schedule_entry list" where
  "content b = (bk_queue b, bk_kv b, bk_stream b, bk_schedules b)"

lemma load_kv_batch:
  assumes "bk_kv b route = pairs_up_to shape r start" "start \<le> stop" "stop \<le> 10 ^ 8"
  shows "\<exists>b'. run_then (kc_begin broker_kv route False) (\<lambda>tx.
       undo_on_error
         (run_then (each (\<lambda>entry. kc_put broker_kv tx (kv_key entry) (shape_payload shape Kv r entry)) [start..<stop]) (\<lambda>_.
          kc_commit broker_kv tx)) (kc_rollback broker_kv tx)) b = (Inr (), b') \<and>
     content b' = (bk_queue b, (bk_kv b)(route := pairs_up_to shape r stop), bk_stream b, bk_schedules b)"
proof -
  let ?es = "map (\<lambda>e. (kv_key e, shape_payload shape Kv r e)) [start..<stop]"
  let ?b = "b\<lparr>bk_tx := (route, ?es), bk_kv := (bk_kv b)(route := pairs_up_to shape r stop)\<rparr>"
  have begun: "kc_begin broker_kv route False b = (Inr 0, b\<lparr>bk_tx := (route, [])\<rparr>)"
    by (simp add: broker_kv_def modify_then ret_def)
  have "run_then (each (\<lambda>entry. kc_put broker_kv 0 (kv_key entry) (shape_payload shape Kv r entry)) [start..<stop])
      (\<lambda>_. kc_commit broker_kv 0) (b\<lparr>bk_tx := (route, [])\<rparr>) = (Inr (), ?b)"
    using assms kv_insert_pairs [OF assms(2,3), of shape r]
    by (simp add: run_then_def put_all, simp add: broker_kv_def broker_commit_def modify_def)
  then show ?thesis
    by (intro exI [of _ ?b]) (simp add: run_then_def begun undo_on_success content_def)
qed

lemma load_kv_ref:
  assumes "bk_kv b (resource_route Kv shape r) = []" "entriesPerResource shape \<le> 10 ^ 8"
  shows "\<exists>b'. load_kv reference_client shape r b = (Inr (), b') \<and>
     content b' = (bk_queue b, (bk_kv b)(resource_route Kv shape r := expected_pairs shape r), bk_stream b, bk_schedules b)"
proof -
  let ?route = "resource_route Kv shape r" and ?n = "entriesPerResource shape"
  let ?I = "\<lambda>k b'. content b' = (bk_queue b, (bk_kv b)(?route := pairs_up_to shape r k), bk_stream b, bk_schedules b)"
  have "\<exists>b'. load_kv reference_client shape r b = (Inr (), b') \<and> ?I ?n b'"
    unfolding load_kv_def ref_simps
  proof (rule each_batches [where I = ?I])
    fix b1 start stop assume "?I start b1" "start \<le> stop" "stop \<le> ?n"
    then show "\<exists>b'. (case (start, stop) of (start, stop) \<Rightarrow>
        run_then (kc_begin broker_kv ?route False) (\<lambda>tx.
        undo_on_error
         (run_then (each (\<lambda>entry. kc_put broker_kv tx (kv_key entry) (shape_payload shape Kv r entry)) [start..<stop]) (\<lambda>_.
          kc_commit broker_kv tx)) (kc_rollback broker_kv tx))) b1 = (Inr (), b') \<and> ?I stop b'"
      using load_kv_batch [of b1 ?route shape r start stop] assms(2) by (auto simp: content_def)
  qed (use assms in \<open>auto simp: content_def pairs_up_to_def MUTATION_BATCH_SIZE_def\<close>)
  then show ?thesis by (simp add: expected_pairs_def pairs_up_to_def)
qed

lemma load_stream_batch:
  assumes "bk_stream b route = map g [0..<start]" "start \<le> stop"
  shows "\<exists>b'. run_then (sc_begin broker_stream route) (\<lambda>session.
       undo_on_error
         (run_then (each (\<lambda>entry. sc_append broker_stream session entry (g entry)) [start..<stop]) (\<lambda>_.
          sc_commit broker_stream session)) (sc_rollback broker_stream session)) b = (Inr (), b') \<and>
     content b' = (bk_queue b, bk_kv b, (bk_stream b)(route := map g [0..<stop]), bk_schedules b)"
proof -
  let ?b = "b\<lparr>bk_session := (route, map g [start..<stop]), bk_stream := (bk_stream b)(route := map g [0..<stop])\<rparr>"
  have begun: "sc_begin broker_stream route b = (Inr 0, b\<lparr>bk_session := (route, [])\<rparr>)"
    by (simp add: broker_stream_def modify_then ret_def)
  have joined: "map g [0..<start] @ map g [start..<stop] = map g [0..<stop]"
    using assms(2) by (metis map_append upt_add_eq_append zero_le le_add_diff_inverse)
  have "each (\<lambda>entry. sc_append broker_stream 0 entry (g entry)) [start..<stop] (b\<lparr>bk_session := (route, [])\<rparr>) =
      (Inr (), b\<lparr>bk_session := (route, [] @ map g [start..<stop])\<rparr>)"
    by (subst append_all [where route = route and appended = "[]"]) (simp_all add: assms)
  then have "run_then (each (\<lambda>entry. sc_append broker_stream 0 entry (g entry)) [start..<stop])
      (\<lambda>_. sc_commit broker_stream 0) (b\<lparr>bk_session := (route, [])\<rparr>) = (Inr (), ?b)"
    using joined assms(1) by (simp add: run_then_def, simp add: broker_stream_def modify_def)
  then show ?thesis
    by (intro exI [of _ ?b]) (simp add: run_then_def begun undo_on_success content_def)
qed

lemma load_stream_ref:
  assumes "bk_stream b (resource_route Stream shape r) = []"
  shows "\<exists>b'. load_stream reference_client shape r b = (Inr (), b') \<and>
     content b' = (bk_queue b, bk_kv b, (bk_stream b)(resource_route Stream shape r := expected_bodies shape Stream r), bk_schedules b)"
proof -
  let ?route = "resource_route Stream shape r" and ?n = "entriesPerResource shape"
  let ?I = "\<lambda>k b'. content b' = (bk_queue b, bk_kv b, (bk_stream b)(?route := map (shape_payload shape Stream r) [0..<k]), bk_schedules b)"
  have "\<exists>b'. load_stream reference_client shape r b = (Inr (), b') \<and> ?I ?n b'"
    unfolding load_stream_def ref_simps
  proof (rule each_batches [where I = ?I])
    fix b1 start stop assume "?I start b1" "start \<le> stop" "stop \<le> ?n"
    then show "\<exists>b'. (case (start, stop) of (start, stop) \<Rightarrow>
        run_then (sc_begin broker_stream ?route) (\<lambda>session.
        undo_on_error
         (run_then (each (\<lambda>entry. sc_append broker_stream session entry (shape_payload shape Stream r entry)) [start..<stop]) (\<lambda>_.
          sc_commit broker_stream session)) (sc_rollback broker_stream session))) b1 = (Inr (), b') \<and> ?I stop b'"
      using load_stream_batch [of b1 ?route "shape_payload shape Stream r" start stop] by (auto simp: content_def)
  qed (use assms in \<open>auto simp: content_def MUTATION_BATCH_SIZE_def\<close>)
  then show ?thesis by (simp add: expected_bodies_def)
qed

lemma create_all:
  assumes "distinct (map g xs)" "set (map se_route (bk_schedules b)) \<inter> set (map g xs) = {}"
  shows "each (\<lambda>e. hc_create broker_schedule (g e) cron m (pay e)) xs b =
     (Inr (), b\<lparr>bk_schedules := bk_schedules b @ map (\<lambda>e. \<lparr>se_route = g e, se_cron = cron, se_mode = m, se_payload = pay e\<rparr>) xs\<rparr>)"
  using assms
proof (induction xs arbitrary: b)
  case (Cons x xs)
  let ?b = "b\<lparr>bk_schedules := bk_schedules b @ [\<lparr>se_route = g x, se_cron = cron, se_mode = m, se_payload = pay x\<rparr>]\<rparr>"
  have "filter (\<lambda>e. se_route e \<noteq> g x) (bk_schedules b) = bk_schedules b"
    using Cons.prems(2) by (force simp: filter_id_conv)
  then have "hc_create broker_schedule (g x) cron m (pay x) b = (Inr (), ?b)"
    by (simp add: broker_schedule_def modify_def)
  moreover have "each (\<lambda>e. hc_create broker_schedule (g e) cron m (pay e)) xs ?b =
      (Inr (), ?b\<lparr>bk_schedules := bk_schedules ?b @ map (\<lambda>e. \<lparr>se_route = g e, se_cron = cron, se_mode = m, se_payload = pay e\<rparr>) xs\<rparr>)"
    using Cons.prems by (intro Cons.IH) auto
  ultimately show ?case by (simp add: run_then_def)
qed (simp add: ret_def)

end
