(* ===== verification/RecoveryProofs.thy ===== *)
theory RecoveryProofs
  imports RecoveryBroker
begin

text \<open>
  The two halves of the recovery workload together: on the reference broker a verification that
  passes has found the whole workload, and the state that a load leaves passes verification.
\<close>

subsection \<open>What the steps of a verification establish\<close>

lemma check_entry_ok:
  "check_entry shape d r what body k w = (Inr k', w') \<longleftrightarrow> body = shape_payload shape d r k \<and> k' = Suc k \<and> w' = w"
  by (auto simp: check_entry_def script_ok assert_bytes_equal_ok)

text \<open>Steps that read a broker: what each of them finds holds of the content before them all.\<close>

lemma each_observes:
  assumes "\<And>x b b'. x \<in> set xs \<Longrightarrow> f x b = (Inr (), b') \<Longrightarrow> content b' = content b \<and> Q x (content b)"
    and "each f xs b = (Inr (), b')"
  shows "content b' = content b \<and> (\<forall>x \<in> set xs. Q x (content b))"
  using assms
proof (induction xs arbitrary: b)
  case (Cons x xs)
  then obtain b1 where b1: "f x b = (Inr (), b1)" "each f xs b1 = (Inr (), b')" by (auto simp: script_ok)
  then show ?case using Cons.IH [of b1] Cons.prems(1) [of x b b1] Cons.prems(1) by auto
qed (simp add: script_ok)

lemma each_accepts:
  assumes "\<And>x b. x \<in> set xs \<Longrightarrow> content b = c \<Longrightarrow> \<exists>b'. f x b = (Inr (), b') \<and> content b' = c" and "content b = c"
  shows "\<exists>b'. each f xs b = (Inr (), b') \<and> content b' = c"
  using assms
proof (induction xs arbitrary: b)
  case (Cons x xs)
  obtain b1 where "f x b = (Inr (), b1)" "content b1 = c" using Cons.prems(1) [OF list.set_intros(1) Cons.prems(2)] by blast
  then show ?case using Cons.IH [of b1] Cons.prems(1) by (auto simp: run_then_Inr)
qed (simp add: ret_def)

lemma list_all2_fun: "list_all2 (\<lambda>x i. f x = g i) xs ys \<longleftrightarrow> map f xs = map g ys"
proof (induction xs arbitrary: ys)
  case (Cons x xs)
  then show ?case by (cases ys) auto
qed auto

lemma content_simps [simp]: "content b = (q, k, s, d) \<longleftrightarrow> bk_queue b = q \<and> bk_kv b = k \<and> bk_stream b = s \<and> bk_schedules b = d"
  by (auto simp: content_def)

subsection \<open>Queues\<close>

lemma reserve_ok:
  "broker_reserve route lease batch wait b = (Inr items, b') \<longleftrightarrow>
     items = map (\<lambda>body. \<lparr>qi_handle = 0, qi_body = body\<rparr>) (take batch (bk_queue b route)) \<and>
     b' = b\<lparr>bk_queue := (bk_queue b)(route := drop batch (bk_queue b route))\<rparr>"
  by (auto simp: broker_reserve_def)

lemma check_items_ok:
  "for_of (\<lambda>item. check_entry shape Queue r what (qi_body item)) items k w = (Inr k', w') \<longleftrightarrow>
     map qi_body items = map (shape_payload shape Queue r) [k..<k + length items] \<and> k' = k + length items \<and> w' = w"
  unfolding list_all2_fun [symmetric] by (rule for_of_checked) (auto simp: check_entry_ok)

definition queue_left :: "workload_shape \<Rightarrow> nat \<Rightarrow> nat \<Rightarrow> bytes list" where
  "queue_left shape r k = map (shape_payload shape Queue r) [k..<entriesPerResource shape]"

definition queue_round :: "workload_shape \<Rightarrow> nat \<Rightarrow> nat \<Rightarrow> (broker, nat + unit) client_script" where
  "queue_round shape r k =
     (if \<not> k < entriesPerResource shape then ret (Inr ())
      else run_then (broker_reserve (resource_route Queue shape r) 300 (min 1024 (entriesPerResource shape - k)) None) (\<lambda>items.
        if items = [] then fail (Raised (Error ''$: queue ended after $ entries'' [AStr (resource_route Queue shape r), ANat k]))
        else run_then (for_of (\<lambda>item. check_entry shape Queue r '' entry '' (qi_body item)) items k) (\<lambda>k'. ret (Inl k'))))"

lemma verify_queue_rounds: "verify_queue n reference_client shape r = while_do n (queue_round shape r) 0"
  unfolding verify_queue_def ref_simps queue_round_def [abs_def] Let_def ..

definition only_queue :: "string \<Rightarrow> broker \<Rightarrow> broker \<Rightarrow> bool" where
  "only_queue route b b' =
     ((\<forall>route'. route' \<noteq> route \<longrightarrow> bk_queue b' route' = bk_queue b route') \<and> bk_kv b' = bk_kv b \<and> bk_stream b' = bk_stream b \<and>
      bk_schedules b' = bk_schedules b)"

text \<open>A round takes the next entries from the front of the queue.\<close>

lemma queue_round_ok:
  assumes "queue_round shape r k b = (Inr (Inl k'), b')"
  shows "k < k' \<and> k' \<le> entriesPerResource shape \<and>
     bk_queue b (resource_route Queue shape r) = map (shape_payload shape Queue r) [k..<k'] @ bk_queue b' (resource_route Queue shape r) \<and>
     only_queue (resource_route Queue shape r) b b'"
proof -
  let ?q = "bk_queue b (resource_route Queue shape r)" and ?m = "min 1024 (entriesPerResource shape - k)"
  have k: "k < entriesPerResource shape" "take ?m ?q \<noteq> []" "take ?m ?q = map (shape_payload shape Queue r) [k..<k + length (take ?m ?q)]"
    "k' = k + length (take ?m ?q)" "b' = b\<lparr>bk_queue := (bk_queue b)(resource_route Queue shape r := drop ?m ?q)\<rparr>"
    using assms by (auto simp: queue_round_def script_ok reserve_ok check_items_ok comp_def split: if_splits)
  then have "?q = map (shape_payload shape Queue r) [k..<k'] @ drop ?m ?q" by (metis append_take_drop_id)
  then show ?thesis using k by (auto simp: only_queue_def)
qed

lemma queue_rounds_sound:
  assumes "while_do n (queue_round shape r) k b = (Inr (), b')" "k \<le> entriesPerResource shape"
  shows "prefix (queue_left shape r k) (bk_queue b (resource_route Queue shape r)) \<and>
     only_queue (resource_route Queue shape r) b b'"
  using assms
proof (induction n arbitrary: k b)
  case (Suc n)
  then obtain z v where z: "queue_round shape r k b = (Inr z, v)" "(case z of Inl k' \<Rightarrow> while_do n (queue_round shape r) k' | Inr x \<Rightarrow> ret x) v = (Inr (), b')"
    by (auto simp: script_ok)
  show ?case
  proof (cases z)
    case (Inl k')
    note one = queue_round_ok [OF z(1) [unfolded Inl]]
    have rest: "prefix (queue_left shape r k') (bk_queue v (resource_route Queue shape r))"
      "only_queue (resource_route Queue shape r) v b'"
      using Suc.IH [of k' v] z(2) one by (auto simp: Inl)
    have "queue_left shape r k = map (shape_payload shape Queue r) [k..<k'] @ queue_left shape r k'"
      using one unfolding queue_left_def map_append [symmetric] by (metis less_imp_le upt_add_eq_append le_add_diff_inverse)
    then show ?thesis using one rest by (simp add: only_queue_def)
  next
    case (Inr u)
    then show ?thesis using z by (auto simp: queue_round_def queue_left_def only_queue_def script_ok split: if_splits)
  qed
qed (simp add: script_ok)

definition queue_holds :: "workload_shape \<Rightarrow> broker \<Rightarrow> nat \<Rightarrow> bool" where
  "queue_holds shape b r = prefix (expected_bodies shape Queue r) (bk_queue b (resource_route Queue shape r))"

lemma queue_left_0: "queue_left shape r 0 = expected_bodies shape Queue r"
  by (simp add: queue_left_def expected_bodies_def)

lemma queue_holds_other:
  assumes "only_queue (resource_route Queue shape r) b b1" "r \<noteq> x"
  shows "queue_holds shape b1 x = queue_holds shape b x"
proof -
  have "resource_route Queue shape x \<noteq> resource_route Queue shape r" using assms(2) by (simp add: resource_route_inj)
  then show ?thesis using assms(1) by (simp add: queue_holds_def only_queue_def)
qed

text \<open>Over all resources: what one resource takes leaves the queues of the others alone.\<close>

lemma each_queue_sound:
  assumes "each (verify_queue n reference_client shape) rs b = (Inr (), b')" "distinct rs"
  shows "list_all (queue_holds shape b) rs \<and> bk_kv b' = bk_kv b \<and> bk_stream b' = bk_stream b \<and> bk_schedules b' = bk_schedules b"
  using assms
proof (induction rs arbitrary: b)
  case (Cons r rs)
  then obtain b1 where b1: "verify_queue n reference_client shape r b = (Inr (), b1)" "each (verify_queue n reference_client shape) rs b1 = (Inr (), b')"
    by (auto simp: script_ok)
  have one: "queue_holds shape b r" "only_queue (resource_route Queue shape r) b b1"
    using queue_rounds_sound [OF b1(1) [unfolded verify_queue_rounds]] by (simp_all add: queue_holds_def queue_left_0)
  have "queue_holds shape b1 x = queue_holds shape b x" if "x \<in> set rs" for x
    using that one(2) Cons.prems(2) by (intro queue_holds_other) auto
  then show ?case using Cons.IH [OF b1(2)] Cons.prems(2) one by (auto simp: list_all_iff only_queue_def)
qed (simp add: script_ok)

lemma queue_round_accepts:
  assumes "prefix (queue_left shape r k) (bk_queue b (resource_route Queue shape r))" "k < entriesPerResource shape"
  shows "\<exists>k' b'. queue_round shape r k b = (Inr (Inl k'), b')"
proof -
  let ?q = "bk_queue b (resource_route Queue shape r)" and ?m = "min 1024 (entriesPerResource shape - k)"
  obtain rest where q: "?q = queue_left shape r k @ rest" using assms(1) by (auto simp: prefix_def)
  have len: "?m \<le> length (queue_left shape r k)" by (simp add: queue_left_def)
  have taken: "take ?m ?q = map (shape_payload shape Queue r) [k..<k + ?m]"
    using len assms(2) by (simp add: q) (simp add: queue_left_def take_map take_upt min_def)
  then have "take ?m ?q \<noteq> []" "length (take ?m ?q) = ?m" using assms(2) by auto
  then show ?thesis
    using assms(2) taken
    by (intro exI [of _ "k + ?m"] exI [of _ "b\<lparr>bk_queue := (bk_queue b)(resource_route Queue shape r := drop ?m ?q)\<rparr>"])
      (auto simp: queue_round_def script_ok reserve_ok check_items_ok comp_def)
qed

lemma queue_rounds_complete:
  assumes "prefix (queue_left shape r k) (bk_queue b (resource_route Queue shape r))" "k \<le> entriesPerResource shape"
    "entriesPerResource shape - k < n"
  shows "\<exists>b'. while_do n (queue_round shape r) k b = (Inr (), b')"
  using assms
proof (induction n arbitrary: k b)
  case (Suc n)
  show ?case
  proof (cases "k < entriesPerResource shape")
    case True
    obtain k' v where one: "queue_round shape r k b = (Inr (Inl k'), v)" using queue_round_accepts [OF Suc.prems(1) True] by blast
    note facts = queue_round_ok [OF one]
    have "queue_left shape r k = map (shape_payload shape Queue r) [k..<k'] @ queue_left shape r k'"
      using facts unfolding queue_left_def map_append [symmetric] by (metis less_imp_le upt_add_eq_append le_add_diff_inverse)
    then have "prefix (queue_left shape r k') (bk_queue v (resource_route Queue shape r))" using Suc.prems(1) facts by simp
    then have "\<exists>b'. while_do n (queue_round shape r) k' v = (Inr (), b')" using facts Suc.prems by (intro Suc.IH) auto
    then show ?thesis by (auto simp: run_then_def one)
  qed (simp add: queue_round_def ret_then, simp add: ret_def)
qed simp

lemma each_queue_complete:
  assumes "list_all (queue_holds shape b) rs" "distinct rs" "entriesPerResource shape < n"
  shows "\<exists>b'. each (verify_queue n reference_client shape) rs b = (Inr (), b')"
  using assms
proof (induction rs arbitrary: b)
  case (Cons r rs)
  have "\<exists>b1. verify_queue n reference_client shape r b = (Inr (), b1)"
    unfolding verify_queue_rounds using Cons.prems by (intro queue_rounds_complete) (auto simp: queue_holds_def queue_left_0)
  then obtain b1 where b1: "verify_queue n reference_client shape r b = (Inr (), b1)" by blast
  have "only_queue (resource_route Queue shape r) b b1"
    using queue_rounds_sound [OF b1 [unfolded verify_queue_rounds]] by simp
  then have "list_all (queue_holds shape b1) rs"
    using Cons.prems queue_holds_other [of shape r b b1] unfolding list_all_iff by (metis distinct.simps(2) list.set_intros(2))
  then show ?case using Cons.IH [of b1] Cons.prems by (auto simp: run_then_def b1)
qed (simp add: ret_def)

subsection \<open>KV resources\<close>

lemma check_pairs_ok:
  "for_of (check_kv_entry shape r) page k w = (Inr k', w') \<longleftrightarrow>
     page = map (\<lambda>e. (kv_key e, shape_payload shape Kv r e)) [k..<k + length page] \<and> k' = k + length page \<and> w' = w"
proof -
  have "for_of (check_kv_entry shape r) page k w = (Inr k', w') \<longleftrightarrow>
      list_all2 (\<lambda>x i. id x = (kv_key i, shape_payload shape Kv r i)) page [k..<k + length page] \<and> k' = k + length page \<and> w' = w"
    by (rule for_of_checked) (auto simp: check_kv_entry_def script_ok assert_bytes_equal_ok check_entry_ok)
  then show ?thesis unfolding list_all2_fun by simp
qed

definition kv_round :: "nat \<Rightarrow> workload_shape \<Rightarrow> nat \<Rightarrow> nat \<Rightarrow> (broker, nat + unit) client_script" where
  "kv_round tx shape r k =
     (if \<not> k < entriesPerResource shape then ret (Inr ())
      else run_then (broker_scan tx (kv_key k) (min READ_BATCH_SIZE (entriesPerResource shape - k))) (\<lambda>page.
        if page = [] then fail (Raised (Error ''$: KV scan ended after $ entries'' [AStr (resource_route Kv shape r), ANat k]))
        else run_then (for_of (check_kv_entry shape r) page k) (\<lambda>k'. ret (Inl k'))))"

definition scanned :: "broker \<Rightarrow> nat \<Rightarrow> (bytes \<times> bytes) list" where
  "scanned b k = dropWhile (\<lambda>x. bytes_less (fst x) (kv_key k)) (bk_kv b (fst (bk_tx b)))"

lemma scan_ok: "broker_scan tx (kv_key k) m b = (Inr page, b') \<longleftrightarrow> page = take m (scanned b k) \<and> b' = b"
  by (auto simp: broker_scan_def scanned_def script_ok)

lemma verify_kv_ok:
  "verify_kv n reference_client shape r b = (Inr (), b') \<longleftrightarrow>
     b' = b\<lparr>bk_tx := (resource_route Kv shape r, [])\<rparr> \<and> while_do n (kv_round 0 shape r) 0 b' = (Inr (), b') \<and>
     scanned b' (entriesPerResource shape) = []"
proof -
  have ops: "kc_scan broker_kv = broker_scan" "kc_begin broker_kv route ro = run_then (modify (\<lambda>b. b\<lparr>bk_tx := (route, [])\<rparr>)) (\<lambda>_. ret 0)"
    "kc_rollback broker_kv tx = ret ()" for route ro tx
    by (simp_all add: broker_kv_def)
  have round: "while_do n (kv_round tx shape r) k v = (Inr (), v') \<Longrightarrow> v' = v" for tx k v v'
    by (induction n arbitrary: k) (auto simp: kv_round_def script_ok scan_ok check_pairs_ok split: if_splits)
  show ?thesis
    unfolding verify_kv_def ref_simps ops Let_def kv_round_def [symmetric]
    by (auto simp: script_ok scan_ok split: if_splits dest: round)
qed

definition kv_holds :: "workload_shape \<Rightarrow> broker \<Rightarrow> nat \<Rightarrow> bool" where
  "kv_holds shape b r = (set (expected_pairs shape r) \<subseteq> set (bk_kv b (resource_route Kv shape r)))"

lemma kv_round_ok:
  "kv_round tx shape r k b = (Inr z, b') \<longleftrightarrow> b' = b \<and>
     (let page = take (min READ_BATCH_SIZE (entriesPerResource shape - k)) (scanned b k) in
      if k < entriesPerResource shape
      then page \<noteq> [] \<and> page = map (\<lambda>e. (kv_key e, shape_payload shape Kv r e)) [k..<k + length page] \<and> z = Inl (k + length page)
      else z = Inr ())"
  by (auto simp: kv_round_def script_ok scan_ok check_pairs_ok Let_def)

lemma kv_rounds_sound:
  assumes "while_do n (kv_round tx shape r) k b = (Inr (), b')" "k \<le> e" "e < entriesPerResource shape"
  shows "(kv_key e, shape_payload shape Kv r e) \<in> set (bk_kv b (fst (bk_tx b)))"
  using assms
proof (induction n arbitrary: k)
  case (Suc n)
  define page where "page = take (min READ_BATCH_SIZE (entriesPerResource shape - k)) (scanned b k)"
  have page: "page = map (\<lambda>e. (kv_key e, shape_payload shape Kv r e)) [k..<k + length page]"
    "while_do n (kv_round tx shape r) (k + length page) b = (Inr (), b')"
    using Suc.prems by (auto simp: kv_round_ok script_ok Let_def page_def [symmetric] split: if_splits)
  show ?case
  proof (cases "e < k + length page")
    case True
    then have "(kv_key e, shape_payload shape Kv r e) \<in> set page" using page(1) Suc.prems(2) by (metis (no_types, lifting) atLeastLessThan_iff image_eqI set_map set_upt)
    then show ?thesis unfolding page_def scanned_def by (meson in_set_takeD set_dropWhileD)
  next
    case False
    then show ?thesis using Suc.IH [OF page(2)] Suc.prems by simp
  qed
qed (simp add: script_ok)

lemma verify_kv_sound:
  assumes "verify_kv n reference_client shape r b = (Inr (), b')"
  shows "content b' = content b \<and> kv_holds shape b r"
proof -
  let ?b = "b\<lparr>bk_tx := (resource_route Kv shape r, [])\<rparr>"
  have "b' = ?b" "while_do n (kv_round 0 shape r) 0 ?b = (Inr (), ?b)" using assms by (auto simp: verify_kv_ok)
  then show ?thesis using kv_rounds_sound [of n 0 shape r 0 ?b ?b] by (auto simp: kv_holds_def expected_pairs_def content_def)
qed

text \<open>Pairs whose keys come before all keys of the workload make no difference to the scans.\<close>

definition before_all :: "(bytes \<times> bytes) list \<Rightarrow> bool" where
  "before_all m = (\<forall>x \<in> set m. \<forall>k. bytes_less (fst x) (kv_key k))"

lemma scanned_expected:
  assumes "before_all m" "bk_kv b (fst (bk_tx b)) = m @ expected_pairs shape r" "k \<le> entriesPerResource shape" "entriesPerResource shape < 10 ^ 8"
  shows "scanned b k = map (\<lambda>e. (kv_key e, shape_payload shape Kv r e)) [k..<entriesPerResource shape]"
proof -
  let ?f = "\<lambda>e. (kv_key e, shape_payload shape Kv r e)"
  have "[0..<entriesPerResource shape] = [0..<k] @ [k..<entriesPerResource shape]"
    using assms(3) by (metis le_add_diff_inverse upt_add_eq_append zero_le)
  then have "expected_pairs shape r = map ?f [0..<k] @ map ?f [k..<entriesPerResource shape]" by (simp add: expected_pairs_def)
  then have "scanned b k = dropWhile (\<lambda>x. bytes_less (fst x) (kv_key k)) ((m @ map ?f [0..<k]) @ map ?f [k..<entriesPerResource shape])"
    by (simp add: scanned_def assms(2))
  also have "\<dots> = dropWhile (\<lambda>x. bytes_less (fst x) (kv_key k)) (map ?f [k..<entriesPerResource shape])"
    using assms(1,3,4) by (intro dropWhile_append2) (auto simp: before_all_def intro!: kv_key_less)
  finally have "scanned b k = dropWhile (\<lambda>x. bytes_less (fst x) (kv_key k)) (map ?f [k..<entriesPerResource shape])" .
  then show ?thesis
    using assms(3) by (cases "k < entriesPerResource shape") (simp_all add: upt_rec [of k] bytes_less_irrefl)
qed

lemma kv_rounds_complete:
  assumes "before_all m" "bk_kv b (fst (bk_tx b)) = m @ expected_pairs shape r" "entriesPerResource shape < 10 ^ 8"
  shows "k \<le> entriesPerResource shape \<Longrightarrow> entriesPerResource shape - k < n \<Longrightarrow> while_do n (kv_round tx shape r) k b = (Inr (), b)"
proof (induction n arbitrary: k)
  case (Suc n)
  show ?case
  proof (cases "k < entriesPerResource shape")
    case True
    define page where "page = take (min READ_BATCH_SIZE (entriesPerResource shape - k)) (scanned b k)"
    have page: "page = map (\<lambda>e. (kv_key e, shape_payload shape Kv r e)) [k..<k + min READ_BATCH_SIZE (entriesPerResource shape - k)]"
      unfolding page_def scanned_expected [OF assms(1,2) Suc.prems(1) assms(3)] using True by (simp add: take_map take_upt min_def)
    then have len: "length page = min READ_BATCH_SIZE (entriesPerResource shape - k)" by simp
    then have "0 < length page" "k + length page \<le> entriesPerResource shape" using True by (auto simp: READ_BATCH_SIZE_def)
    moreover have "kv_round tx shape r k b = (Inr (Inl (k + length page)), b)"
      using True page len calculation by (auto simp: kv_round_ok Let_def page_def [symmetric])
    moreover have "while_do n (kv_round tx shape r) (k + length page) b = (Inr (), b)"
      using calculation Suc.prems(2) by (intro Suc.IH; linarith)
    ultimately show ?thesis by (simp add: run_then_def)
  next
    case False
    then have "kv_round tx shape r k b = (Inr (Inr ()), b)" by (simp add: kv_round_ok)
    then show ?thesis by (simp add: run_then_def ret_def)
  qed
qed simp

lemma verify_kv_complete:
  assumes "before_all m" "bk_kv b (resource_route Kv shape r) = m @ expected_pairs shape r" "entriesPerResource shape < 10 ^ 8" "entriesPerResource shape < n"
  shows "\<exists>b'. verify_kv n reference_client shape r b = (Inr (), b') \<and> content b' = content b"
proof -
  let ?b = "b\<lparr>bk_tx := (resource_route Kv shape r, [])\<rparr>"
  have "scanned ?b (entriesPerResource shape) = []" using scanned_expected [of m ?b shape r "entriesPerResource shape"] assms by simp
  moreover have "while_do n (kv_round 0 shape r) 0 ?b = (Inr (), ?b)" using assms by (intro kv_rounds_complete [of m]) auto
  ultimately show ?thesis by (auto simp: verify_kv_ok content_def)
qed

text \<open>The check for unexpected data only looks behind the last key: a pair before the first key is not seen.\<close>

lemma verify_kv_misses_leading_pair:
  "entriesPerResource shape < 10 ^ 8 \<Longrightarrow> entriesPerResource shape < n \<Longrightarrow>
     bk_kv b (resource_route Kv shape r) = ([0], v) # expected_pairs shape r \<Longrightarrow>
     \<exists>b'. verify_kv n reference_client shape r b = (Inr (), b')"
  using verify_kv_complete [of "[([0], v)]" b shape r n] by (auto simp: before_all_def kv_key_bytes of_char_def)

subsection \<open>Streams and schedules\<close>

fun fold_relation :: "('b \<Rightarrow> 's \<Rightarrow> 's \<Rightarrow> bool) \<Rightarrow> 'b list \<Rightarrow> 's \<Rightarrow> 's \<Rightarrow> bool" where
  "fold_relation G [] s s' = (s' = s)"
| "fold_relation G (x # xs) s s' = (\<exists>t. G x s t \<and> fold_relation G xs t s')"

text \<open>
  A loop over the pages that a broker has prepared, whose body goes on or throws, is a fold over the
  pages; it needs one unit of fuel more than there are pages.
\<close>

lemma for_await_pages:
  assumes step: "\<And>b. advance b = (case pages b of [] \<Rightarrow> (Inr None, b) | x # xs \<Rightarrow> (Inr (Some x), rest xs b))"
    and "\<And>xs b. pages (rest xs b) = xs" "\<And>xs b. content (rest xs b) = content b"
    and body: "\<And>x s r w w'. body x s w = (Inr r, w') \<longleftrightarrow> (\<exists>s'. r = Inl s' \<and> w' = w \<and> G x s s')"
  shows "for_await n advance close body s b = (Inr r, b') \<Longrightarrow> \<exists>s'. r = Inl s' \<and> fold_relation G (pages b) s s' \<and> content b' = content b"
    and "fold_relation G (pages b) s s' \<Longrightarrow> length (pages b) < n \<Longrightarrow> \<exists>b'. for_await n advance close body s b = (Inr (Inl s'), b') \<and> content b' = content b"
proof -
  have next_none: "pages b = [] \<Longrightarrow> advance b = (Inr None, b)" and next_some: "pages b = x # xs \<Longrightarrow> advance b = (Inr (Some x), rest xs b)" for b x xs
    using step [of b] by simp_all
  have undone: "undo_on_error (body x s) close w = (Inr r, w') \<longleftrightarrow> (\<exists>s'. r = Inl s' \<and> w' = w \<and> G x s s')" for x s w r w'
    by (simp add: undo_on_error_ok body)
  show "for_await n advance close body s b = (Inr r, b') \<Longrightarrow> \<exists>s'. r = Inl s' \<and> fold_relation G (pages b) s s' \<and> content b' = content b"
  proof (induction n arbitrary: s b)
    case (Suc n)
    show ?case
    proof (cases "pages b")
      case (Cons x xs)
      then obtain t where t: "G x s t" "for_await n advance close body t (rest xs b) = (Inr r, b')"
        using Suc.prems by (auto simp: next_some run_then_ok undone)
      show ?thesis using Suc.IH [OF t(2)] t(1) assms(2,3) Cons by auto
    qed (use Suc.prems in \<open>auto simp: next_none script_ok\<close>)
  qed (simp add: script_ok)
  show "fold_relation G (pages b) s s' \<Longrightarrow> length (pages b) < n \<Longrightarrow> \<exists>b'. for_await n advance close body s b = (Inr (Inl s'), b') \<and> content b' = content b"
  proof (induction n arbitrary: s b)
    case (Suc n)
    show ?case
    proof (cases "pages b")
      case (Cons x xs)
      then obtain t where t: "G x s t" "fold_relation G xs t s'" using Suc.prems by auto
      have "undo_on_error (body x s) close (rest xs b) = (Inr (Inl t), rest xs b)" using t(1) by (simp add: undone)
      moreover have "\<exists>b'. for_await n advance close body t (rest xs b) = (Inr (Inl s'), b') \<and> content b' = content (rest xs b)"
        using Suc.prems(2) t(2) Cons assms(2) by (intro Suc.IH) auto
      ultimately show ?thesis using assms(3) Cons by (auto simp: next_some run_then_def)
    qed (use Suc.prems in \<open>simp add: next_none run_then_def ret_def\<close>)
  qed simp
qed

lemma chunks_concat: "length xs \<le> n \<Longrightarrow> 0 < k \<Longrightarrow> concat (chunks n k xs) = xs"
  by (induction n arbitrary: xs) auto

lemma length_chunks: "length (chunks n k xs) \<le> n"
  by (induction n arbitrary: xs) auto

definition good_record :: "workload_shape \<Rightarrow> nat \<Rightarrow> stream_record \<Rightarrow> nat \<Rightarrow> bool" where
  "good_record shape r x i = ((sr_offset x, sr_body x) = (i, shape_payload shape Stream r i))"

definition good_batch :: "workload_shape \<Rightarrow> nat \<Rightarrow> stream_record list \<Rightarrow> nat \<Rightarrow> nat \<Rightarrow> bool" where
  "good_batch shape r batch k k' = (list_all2 (good_record shape r) batch [k..<k + length batch] \<and> k' = k + length batch)"

lemma check_records_ok:
  "for_of (check_stream_record shape r) batch k w = (Inr k', w') \<longleftrightarrow> good_batch shape r batch k k' \<and> w' = w"
proof -
  have "for_of (check_stream_record shape r) batch k w = (Inr k', w') \<longleftrightarrow>
      list_all2 (good_record shape r) batch [k..<k + length batch] \<and> k' = k + length batch \<and> w' = w"
    by (rule for_of_checked) (auto simp: check_stream_record_def good_record_def script_ok check_entry_ok)
  then show ?thesis by (auto simp: good_batch_def)
qed

lemma good_batches: "fold_relation (good_batch shape r) bs k k' \<longleftrightarrow> good_batch shape r (concat bs) k k'"
proof (induction bs arbitrary: k)
  case (Cons b bs)
  have "[k..<k + (length b + length (concat bs))] = [k..<k + length b] @ [k + length b..<k + length b + length (concat bs)]"
    by (metis add.assoc le_add1 upt_add_eq_append)
  then show ?case using Cons by (auto simp: good_batch_def list_all2_append add.assoc simp del: length_concat)
qed (simp add: good_batch_def)

lemma good_stream:
  "good_batch shape r (stream_records route bodies) 0 k \<longleftrightarrow> bodies = map (shape_payload shape Stream r) [0..<length bodies] \<and> k = length bodies"
proof -
  have "list_all2 (good_record shape r) (stream_records route bodies) [0..<length bodies] \<longleftrightarrow>
      map (\<lambda>x. (sr_offset x, sr_body x)) (stream_records route bodies) = map (\<lambda>i. (i, shape_payload shape Stream r i)) [0..<length bodies]"
    unfolding good_record_def [abs_def] by (rule list_all2_fun)
  also have "\<dots> \<longleftrightarrow> zip [0..<length bodies] bodies = zip [0..<length bodies] (map (shape_payload shape Stream r) [0..<length bodies])"
    by (simp add: stream_records_def comp_def case_prod_unfold zip_map2 map_zip_map2 zip_same_conv_map)
  also have "\<dots> \<longleftrightarrow> bodies = map (shape_payload shape Stream r) [0..<length bodies]"
    by (metis length_map length_upt map_snd_zip diff_zero)
  finally show ?thesis by (auto simp: good_batch_def stream_records_def)
qed

definition stream_started :: "workload_shape \<Rightarrow> nat \<Rightarrow> broker \<Rightarrow> broker" where
  "stream_started shape r b =
     (let route = resource_route Stream shape r in
      b\<lparr>bk_batches := chunks (length (bk_stream b route)) READ_BATCH_SIZE (stream_records route (bk_stream b route))\<rparr>)"

lemma stream_started: "content (stream_started shape r b) = content b"
  "concat (bk_batches (stream_started shape r b)) = stream_records (resource_route Stream shape r) (bk_stream b (resource_route Stream shape r))"
  "length (bk_batches (stream_started shape r b)) \<le> length (bk_stream b (resource_route Stream shape r))"
  by (simp_all add: stream_started_def Let_def content_def chunks_concat stream_records_def READ_BATCH_SIZE_def length_chunks)

lemma run_then_at: "m w = (z, v) \<Longrightarrow> run_then m k w = (case z of Inl e \<Rightarrow> (Inl e, v) | Inr x \<Rightarrow> k x v)"
  by (simp add: run_then_def)

lemma verify_stream_ok:
  "verify_stream n reference_client shape r b = (Inr (), b') \<longleftrightarrow>
     for_await n (sc_next broker_stream 0) (sc_end broker_stream 0)
       (\<lambda>batch k. run_then (for_of (check_stream_record shape r) batch k) (\<lambda>k'. ret (Inl k'))) 0 (stream_started shape r b) =
       ((Inr (Inl (entriesPerResource shape)) :: client_error + nat + unit), b')"
proof -
  have read: "sc_read broker_stream (resource_route Stream shape r) 0 READ_BATCH_SIZE b = (Inr 0, stream_started shape r b)"
    by (simp add: broker_stream_def stream_started_def Let_def modify_then ret_def)
  have no_value: "for_await n (sc_next broker_stream 0) (sc_end broker_stream 0)
       (\<lambda>batch k. run_then (for_of (check_stream_record shape r) batch k) (\<lambda>k'. ret (Inl k'))) k v \<noteq> (Inr (Inr u), v')" for n k v v' and u :: unit
  proof (induction n arbitrary: k v)
    case (Suc n)
    then show ?case by (auto simp: script_ok split: option.splits sum.splits)
  qed (simp add: script_ok)
  define f where "f = for_await n (sc_next broker_stream 0) (sc_end broker_stream 0)
       (\<lambda>batch k. run_then (for_of (check_stream_record shape r) batch k) (\<lambda>k'. ret (Inl k' :: nat + unit))) 0"
  obtain z v where z: "f (stream_started shape r b) = (z, v)" by (cases "f (stream_started shape r b)")
  have "z \<noteq> Inr (Inr ())" using z no_value unfolding f_def by blast
  moreover define g where "g = (\<lambda>it. for_await n (sc_next broker_stream it) (sc_end broker_stream it)
       (\<lambda>batch k. run_then (for_of (check_stream_record shape r) batch k) (\<lambda>k'. ret (Inl k' :: nat + unit))) 0)"
  have inner: "run_then (sc_read broker_stream (resource_route Stream shape r) 0 READ_BATCH_SIZE) g b = (z, v)"
    unfolding run_then_at [where m = "sc_read broker_stream (resource_route Stream shape r) 0 READ_BATCH_SIZE", OF read]
    using z by (simp add: f_def g_def)
  have "verify_stream n reference_client shape r b = (case z of
      Inl e \<Rightarrow> (Inl e, v) | Inr (Inr u) \<Rightarrow> (Inr u, v)
    | Inr (Inl k) \<Rightarrow> if k = entriesPerResource shape then (Inr (), v)
        else (Inl (Raised (Error ''$: stream contained $ entries'' [AStr (resource_route Stream shape r), ANat k])), v))"
    unfolding verify_stream_def ref_simps stream_batches_def Let_def g_def [symmetric]
      run_then_at [where m = "run_then (sc_read broker_stream (resource_route Stream shape r) 0 READ_BATCH_SIZE) g", OF inner]
    by (auto simp: ret_def fail_def split: sum.split)
  ultimately show ?thesis unfolding f_def [symmetric] z by (auto split: sum.splits)
qed

lemma stream_pages:
  fixes shape r n k b b' and z :: "nat + unit"
  defines "m \<equiv> for_await n (sc_next broker_stream 0) (sc_end broker_stream 0)
     (\<lambda>batch k. run_then (for_of (check_stream_record shape r) batch k) (\<lambda>k'. ret (Inl k' :: nat + unit)))"
  shows "m k b = (Inr z, b') \<Longrightarrow> \<exists>k'. z = Inl k' \<and> good_batch shape r (concat (bk_batches b)) k k' \<and> content b' = content b"
    and "good_batch shape r (concat (bk_batches b)) k k' \<Longrightarrow> length (bk_batches b) < n \<Longrightarrow> \<exists>b'. m k b = (Inr (Inl k'), b') \<and> content b' = content b"
proof -
  let ?body = "\<lambda>batch k. run_then (for_of (check_stream_record shape r) batch k) (\<lambda>k'. ret (Inl k' :: nat + unit))"
  have step: "sc_next broker_stream 0 b = (case bk_batches b of [] \<Rightarrow> (Inr None, b) | x # xs \<Rightarrow> (Inr (Some x), b\<lparr>bk_batches := xs\<rparr>))" for b
    by (simp add: broker_stream_def)
  have body: "?body x s w = (Inr z, w') \<longleftrightarrow> (\<exists>s'. z = Inl s' \<and> w' = w \<and> good_batch shape r x s s')" for x s z w w'
    by (auto simp: script_ok check_records_ok)
  note pages = for_await_pages [where advance = "sc_next broker_stream 0" and pages = bk_batches and rest = "\<lambda>xs b. b\<lparr>bk_batches := xs\<rparr>" and
      body = ?body and G = "good_batch shape r", OF step _ _ body, where s = k and b = b and n = n and close = "sc_end broker_stream 0", unfolded good_batches, folded m_def]
  show "m k b = (Inr z, b') \<Longrightarrow> \<exists>k'. z = Inl k' \<and> good_batch shape r (concat (bk_batches b)) k k' \<and> content b' = content b"
    by (rule pages(1)) (simp_all add: content_def)
  show "good_batch shape r (concat (bk_batches b)) k k' \<Longrightarrow> length (bk_batches b) < n \<Longrightarrow> \<exists>b'. m k b = (Inr (Inl k'), b') \<and> content b' = content b"
    by (rule pages(2)) (simp_all add: content_def)
qed

lemma verify_stream_sound:
  assumes "verify_stream n reference_client shape r b = (Inr (), b')"
  shows "content b' = content b \<and> bk_stream b (resource_route Stream shape r) = expected_bodies shape Stream r"
  using stream_pages(1) [OF assms [unfolded verify_stream_ok]] by (auto simp: stream_started good_stream expected_bodies_def)

lemma verify_stream_complete:
  assumes "bk_stream b (resource_route Stream shape r) = expected_bodies shape Stream r" "entriesPerResource shape < n"
  shows "\<exists>b'. verify_stream n reference_client shape r b = (Inr (), b') \<and> content b' = content b"
proof -
  have "length (bk_stream b (resource_route Stream shape r)) = entriesPerResource shape" by (simp add: assms(1) expected_bodies_def)
  then have "good_batch shape r (concat (bk_batches (stream_started shape r b))) 0 (entriesPerResource shape)"
    "length (bk_batches (stream_started shape r b)) < n"
    using assms(2) stream_started(3) [of shape r b] by (simp_all add: stream_started good_stream, simp add: assms(1) expected_bodies_def)
  then show ?thesis using stream_pages(2) [of shape r "stream_started shape r b" 0 "entriesPerResource shape" n]
    by (simp add: verify_stream_ok stream_started(1))
qed

definition collect_page :: "schedule_entry list \<Rightarrow> (string, schedule_entry) js_map \<Rightarrow> (string, schedule_entry) js_map" where
  "collect_page page m = foldl (\<lambda>m e. map_set m (se_route e) e) m page"

lemma collected_pages: "fold_relation (\<lambda>page m m'. m' = collect_page page m) ps m m' \<longleftrightarrow> m' = collect_page (concat ps) m"
  by (induction ps arbitrary: m) (auto simp: collect_page_def)

definition schedules_started :: "workload_shape \<Rightarrow> broker \<Rightarrow> broker" where
  "schedules_started shape b =
     b\<lparr>bk_pages := chunks (length (bk_schedules b)) 250 (filter (selected_by (schedule_selector shape)) (bk_schedules b))\<rparr>"

lemma schedules_started: "content (schedules_started shape b) = content b"
  "concat (bk_pages (schedules_started shape b)) = filter (selected_by (schedule_selector shape)) (bk_schedules b)"
  "length (bk_pages (schedules_started shape b)) \<le> length (bk_schedules b)"
  by (simp_all add: schedules_started_def content_def chunks_concat length_chunks)

definition observed_schedules :: "workload_shape \<Rightarrow> broker \<Rightarrow> (string, schedule_entry) js_map" where
  "observed_schedules shape b = collect_page (filter (selected_by (schedule_selector shape)) (bk_schedules b)) []"

definition schedule_checks :: "workload_shape \<Rightarrow> broker \<Rightarrow> bool" where
  "schedule_checks shape b =
     (length (observed_schedules shape b) = resources shape * entriesPerResource shape \<and>
      (\<forall>p \<in> set (shape_indices shape). check_schedule shape (observed_schedules shape b) p = Inr ()))"

lemma verify_schedules_pages:
  fixes shape :: workload_shape
  shows "verify_schedules n reference_client shape b = (Inr (), b') \<Longrightarrow> content b' = content b \<and> schedule_checks shape b"
    and "schedule_checks shape b \<Longrightarrow> length (bk_schedules b) < n \<Longrightarrow> \<exists>b'. verify_schedules n reference_client shape b = (Inr (), b') \<and> content b' = content b"
proof -
  let ?body = "\<lambda>page m. ret (Inl (foldl (\<lambda>m e. map_set m (se_route e) e) m page) :: (string, schedule_entry) js_map + unit)"
  have step: "hc_next broker_schedule 0 b = (case bk_pages b of [] \<Rightarrow> (Inr None, b) | x # xs \<Rightarrow> (Inr (Some x), b\<lparr>bk_pages := xs\<rparr>))" for b
    by (simp add: broker_schedule_def)
  have body: "?body x s w = (Inr z, w') \<longleftrightarrow> (\<exists>s'. z = Inl s' \<and> w' = w \<and> s' = collect_page x s)" for x s z w w'
    by (auto simp: script_ok collect_page_def)
  define f where "f = for_await n (hc_next broker_schedule 0) (hc_end broker_schedule 0) ?body []"
  note pages = for_await_pages [where advance = "hc_next broker_schedule 0" and pages = bk_pages and rest = "\<lambda>xs b. b\<lparr>bk_pages := xs\<rparr>" and
      body = ?body and G = "\<lambda>page m m'. m' = collect_page page m", OF step _ _ body, where s = "[]" and b = "schedules_started shape b" and n = n and
      close = "hc_end broker_schedule 0", unfolded collected_pages schedules_started, folded observed_schedules_def f_def]
  have read: "hc_entries broker_schedule (schedule_selector shape) 250 b = (Inr 0, schedules_started shape b)"
    by (simp add: broker_schedule_def schedules_started_def modify_then ret_def)
  define g where "g = (\<lambda>it. for_await n (hc_next broker_schedule it) (hc_end broker_schedule it) ?body [])"
  obtain z v where z: "f (schedules_started shape b) = (z, v)" by (cases "f (schedules_started shape b)")
  have inner: "run_then (hc_entries broker_schedule (schedule_selector shape) 250) g b = (z, v)"
    unfolding run_then_at [where m = "hc_entries broker_schedule (schedule_selector shape) 250", OF read]
    using z by (simp add: f_def g_def)
  have all: "verify_schedules n reference_client shape b = (Inr (), w) \<longleftrightarrow> z = Inr (Inr ()) \<and> w = v \<or>
      (\<exists>m. z = Inr (Inl m) \<and> w = v \<and> length m = resources shape * entriesPerResource shape \<and> (\<forall>p \<in> set (shape_indices shape). check_schedule shape m p = Inr ()))" for w
    unfolding verify_schedules_def ref_simps schedule_pages_def Let_def g_def [symmetric]
      run_then_at [where m = "run_then (hc_entries broker_schedule (schedule_selector shape) 250) g", OF inner]
    by (auto simp: script_ok for_each_ok shape_indices_def split: sum.split)
  show "verify_schedules n reference_client shape b = (Inr (), b') \<Longrightarrow> content b' = content b \<and> schedule_checks shape b"
    using pages(1) [of "projr z" v] z unfolding all schedule_checks_def by (auto simp: content_def)
  show "schedule_checks shape b \<Longrightarrow> length (bk_schedules b) < n \<Longrightarrow> \<exists>b'. verify_schedules n reference_client shape b = (Inr (), b') \<and> content b' = content b"
    using pages(2) [of "observed_schedules shape b"] schedules_started(3) [of shape b] z unfolding all schedule_checks_def by (auto simp: content_def)
qed

text \<open>The checks find the expected schedules among those of the broker, and nothing else under the selector.\<close>

lemma check_schedule_ok:
  assumes "\<And>e. map_get m (schedule_route shape (fst p) (snd p)) = Some e \<Longrightarrow> se_route e = schedule_route shape (fst p) (snd p)"
  shows "check_schedule shape m p = Inr () \<longleftrightarrow> map_get m (schedule_route shape (fst p) (snd p)) = Some (expected_schedule shape p)"
  using assms
  by (cases p) (auto simp: check_schedule_def expected_schedule_def assert_bytes_equal_ok Let_def split: option.splits)

lemma collect_get: "map_get (collect_page es m) route = Some e \<Longrightarrow> e \<in> set es \<and> se_route e = route \<or> map_get m route = Some e"
proof (induction es arbitrary: m)
  case (Cons x es)
  then show ?case by (fastforce simp: collect_page_def map_get_set split: if_splits)
qed (simp add: collect_page_def)

lemma collect_all:
  "distinct (map_keys m @ map se_route es) \<Longrightarrow> collect_page es m = m @ map (\<lambda>e. (se_route e, e)) es"
proof (induction es arbitrary: m)
  case (Cons x es)
  have fresh: "map_set m k v = m @ [(k, v)]" if "k \<notin> set (map_keys m)" for m :: "(string, schedule_entry) js_map" and k v
    using that by (induction m k v rule: map_set.induct) (auto simp: map_keys_def)
  show ?case using Cons.IH [of "m @ [(se_route x, x)]"] Cons.prems by (simp add: collect_page_def fresh map_keys_def)
qed (simp add: collect_page_def)

lemma schedule_checks_sound:
  assumes "schedule_checks shape b" shows "set (map (expected_schedule shape) (shape_indices shape)) \<subseteq> set (bk_schedules b)"
proof
  fix e assume "e \<in> set (map (expected_schedule shape) (shape_indices shape))"
  then obtain p where p: "p \<in> set (shape_indices shape)" "e = expected_schedule shape p" by auto
  have "check_schedule shape (observed_schedules shape b) p = Inr ()" using assms p(1) by (simp add: schedule_checks_def)
  then have "map_get (observed_schedules shape b) (schedule_route shape (fst p) (snd p)) = Some e"
    unfolding p(2) by (subst (asm) check_schedule_ok) (auto simp: observed_schedules_def dest!: collect_get)
  then show "e \<in> set (bk_schedules b)" by (auto simp: observed_schedules_def dest!: collect_get)
qed

lemma expected_selected: "selected_by (schedule_selector shape) (expected_schedule shape p)"
proof -
  have "takeWhile (\<lambda>c. c \<noteq> CHR ''*'') (u @ ''/*'') = takeWhile (\<lambda>c. c \<noteq> CHR ''*'') (u @ ''/'')" for u
    by (induction u) auto
  moreover have "prefix (takeWhile (\<lambda>c. c \<noteq> CHR ''*'') (u @ ''/'')) (u @ CHR ''/'' # t)" for u t
    by (metis append.assoc append_Cons append_Nil prefix_def prefix_order.trans takeWhile_is_prefix)
  moreover define u where "u = ''schedule://destroyer/'' @ namespace shape"
  have "schedule_selector shape = u @ ''/*''" by (simp add: schedule_selector_def u_def)
  moreover have "se_route (expected_schedule shape p) = u @ CHR ''/'' # (''schedule-'' @ pad (fst p) 4 @ ''/job-'' @ pad (snd p) 8)"
    by (simp add: expected_schedule_def schedule_route_def u_def)
  ultimately show ?thesis by (simp only: selected_by_def)
qed

lemma distinct_expected: "distinct (map se_route (map (expected_schedule shape) (shape_indices shape)))"
proof -
  have "inj_on (\<lambda>p. schedule_route shape (fst p) (snd p)) (set (shape_indices shape))"
    by (auto simp: inj_on_def schedule_route_inj)
  then show ?thesis by (simp add: distinct_map comp_def expected_schedule_def shape_indices_def distinct_product)
qed

lemma schedule_checks_complete:
  assumes "bk_schedules b = map (expected_schedule shape) (shape_indices shape)"
  shows "schedule_checks shape b"
proof -
  have "observed_schedules shape b = collect_page (map (expected_schedule shape) (shape_indices shape)) []"
    by (simp add: observed_schedules_def assms filter_id_conv expected_selected)
  also have "\<dots> = map (\<lambda>e. (se_route e, e)) (map (expected_schedule shape) (shape_indices shape))"
    using distinct_expected [of shape] by (simp add: collect_all map_keys_def)
  finally have obs: "observed_schedules shape b = map (\<lambda>e. (se_route e, e)) (map (expected_schedule shape) (shape_indices shape))" .
  have found: "map_get (observed_schedules shape b) (schedule_route shape (fst p) (snd p)) = Some (expected_schedule shape p)"
    if "p \<in> set (shape_indices shape)" for p
    using that distinct_expected [of shape] by (intro map_get_in) (auto simp: obs map_keys_def comp_def expected_schedule_def image_iff intro!: bexI [of _ p])
  have "\<forall>p \<in> set (shape_indices shape). check_schedule shape (observed_schedules shape b) p = Inr ()"
    by (intro ballI, subst check_schedule_ok) (simp_all only: found option.inject, simp_all add: expected_schedule_def, auto)
  then show ?thesis by (simp add: schedule_checks_def obs shape_indices_def length_product)
qed

subsection \<open>The whole workload\<close>

lemma verify_recovery_sound:
  assumes "verify_recovery_workload n reference_client shape b = (Inr t, b')"
  shows "t = total_durable_entries shape \<and> contains_workload shape b"
proof -
  let ?each = "\<lambda>verify. each (verify n reference_client shape) [0..<resources shape]"
  obtain b1 b2 b3 where run: "?each verify_queue b = (Inr (), b1)" "?each verify_kv b1 = (Inr (), b2)" "?each verify_stream b2 = (Inr (), b3)"
    "verify_schedules n reference_client shape b3 = (Inr (), b')" "t = total_durable_entries shape"
    using assms by (auto simp: verify_recovery_workload_def script_ok run_resource_operations_sequentially_def)
  have q: "list_all (queue_holds shape b) [0..<resources shape]" "bk_kv b1 = bk_kv b" "bk_stream b1 = bk_stream b" "bk_schedules b1 = bk_schedules b"
    using each_queue_sound [OF run(1)] by simp_all
  have k: "content b2 = content b1" "\<forall>r \<in> set [0..<resources shape]. kv_holds shape b1 r"
    using each_observes [OF _ run(2), of "\<lambda>r c. set (expected_pairs shape r) \<subseteq> set (fst (snd c) (resource_route Kv shape r))"] verify_kv_sound
    by (auto simp: kv_holds_def content_def)
  have s: "content b3 = content b2" "\<forall>r \<in> set [0..<resources shape]. bk_stream b2 (resource_route Stream shape r) = expected_bodies shape Stream r"
    using each_observes [OF _ run(3), of "\<lambda>r c. fst (snd (snd c)) (resource_route Stream shape r) = expected_bodies shape Stream r"] verify_stream_sound
    by (auto simp: content_def)
  have d: "set (map (expected_schedule shape) (shape_indices shape)) \<subseteq> set (bk_schedules b3)"
    using verify_schedules_pages(1) [OF run(4)] schedule_checks_sound by blast
  show ?thesis
    using run(5) q k s d by (auto simp: contains_workload_def list_all_iff queue_holds_def kv_holds_def content_def)
qed

lemma each_upt:
  assumes "\<And>k b. k < n \<Longrightarrow> I k b \<Longrightarrow> \<exists>b'. f k b = (Inr (), b') \<and> I (Suc k) b'" "I 0 b"
  shows "\<exists>b'. each f [0..<n] b = (Inr (), b') \<and> I n b'"
  using assms
proof (induction n)
  case (Suc n)
  then obtain b1 where b1: "each f [0..<n] b = (Inr (), b1)" "I n b1" by (metis less_SucI)
  then obtain b2 where "f n b1 = (Inr (), b2)" "I (Suc n) b2" using Suc.prems(1) by blast
  then show ?case using b1(1) by (auto simp: each_append run_then_def ret_def)
qed (simp add: ret_def)

text \<open>The broker after so many resources of each domain have been loaded.\<close>

definition loaded :: "workload_shape \<Rightarrow> nat \<Rightarrow> nat \<Rightarrow> nat \<Rightarrow> nat \<Rightarrow> broker \<Rightarrow> bool" where
  "loaded shape q k s d b =
     ((\<forall>r. bk_queue b (resource_route Queue shape r) = (if r < q then expected_bodies shape Queue r else [])) \<and>
      (\<forall>r. bk_kv b (resource_route Kv shape r) = (if r < k then expected_pairs shape r else [])) \<and>
      (\<forall>r. bk_stream b (resource_route Stream shape r) = (if r < s then expected_bodies shape Stream r else [])) \<and>
      bk_schedules b = map (expected_schedule shape) (List.product [0..<d] [0..<entriesPerResource shape]))"

lemma product_Suc: "List.product [0..<Suc d] ys = List.product [0..<d] ys @ map (Pair d) ys"
  by (induction d) (simp_all add: product_concat_map)

lemma load_schedules_ref:
  assumes "loaded shape q k s d b"
  shows "\<exists>b'. load_schedules reference_client shape d b = (Inr (), b') \<and> loaded shape q k s (Suc d) b'"
proof -
  have "distinct (map (schedule_route shape d) [0..<entriesPerResource shape])"
    by (auto simp: distinct_map inj_on_def schedule_route_inj)
  moreover have "set (map se_route (bk_schedules b)) \<inter> set (map (schedule_route shape d) [0..<entriesPerResource shape]) = {}"
  proof -
    have "bk_schedules b = map (expected_schedule shape) (List.product [0..<d] [0..<entriesPerResource shape])"
      using assms by (simp add: loaded_def)
    then show ?thesis by (fastforce simp: expected_schedule_def schedule_route_inj)
  qed
  moreover have "map (expected_schedule shape) (List.product [0..<Suc d] [0..<entriesPerResource shape]) =
      map (expected_schedule shape) (List.product [0..<d] [0..<entriesPerResource shape]) @
      map (\<lambda>e. \<lparr>se_route = schedule_route shape d e, se_cron = YEARLY_CRON, se_mode = ''Single'',
        se_payload = shape_payload shape Schedule d e\<rparr>) [0..<entriesPerResource shape]"
    unfolding product_Suc by (simp add: expected_schedule_def comp_def)
  ultimately show ?thesis
    unfolding load_schedules_def ref_simps
    using assms by (subst create_all) (simp_all add: loaded_def image_image del: upt_Suc)
qed

lemma load_steps:
  assumes "entriesPerResource shape \<le> 10 ^ 8"
  shows "loaded shape q k s d b \<Longrightarrow> \<exists>b'. load_queue reference_client shape q b = (Inr (), b') \<and> loaded shape (Suc q) k s d b'"
    and "loaded shape q k s d b \<Longrightarrow> \<exists>b'. load_kv reference_client shape k b = (Inr (), b') \<and> loaded shape q (Suc k) s d b'"
    and "loaded shape q k s d b \<Longrightarrow> \<exists>b'. load_stream reference_client shape s b = (Inr (), b') \<and> loaded shape q k (Suc s) d b'"
proof -
  show "loaded shape q k s d b \<Longrightarrow> \<exists>b'. load_queue reference_client shape q b = (Inr (), b') \<and> loaded shape (Suc q) k s d b'"
    unfolding load_queue_ref by (auto simp: loaded_def resource_route_inj)
  show "loaded shape q k s d b \<Longrightarrow> \<exists>b'. load_kv reference_client shape k b = (Inr (), b') \<and> loaded shape q (Suc k) s d b'"
    using load_kv_ref [of b shape k] assms by (auto simp: loaded_def resource_route_inj)
  show "loaded shape q k s d b \<Longrightarrow> \<exists>b'. load_stream reference_client shape s b = (Inr (), b') \<and> loaded shape q k (Suc s) d b'"
    using load_stream_ref [of b shape s] by (auto simp: loaded_def resource_route_inj)
qed

lemma load_recovery_loaded:
  assumes "entriesPerResource shape \<le> 10 ^ 8"
  shows "\<exists>b. load_recovery_workload reference_client shape empty_broker = (Inr (total_durable_entries shape), b) \<and>
     loaded shape (resources shape) (resources shape) (resources shape) (resources shape) b"
proof -
  let ?R = "resources shape"
  have "loaded shape 0 0 0 0 empty_broker" by (simp add: loaded_def empty_broker_def)
  then obtain b1 where b1: "each (load_queue reference_client shape) [0..<?R] empty_broker = (Inr (), b1)" "loaded shape ?R 0 0 0 b1"
    using each_upt [where I = "\<lambda>k. loaded shape k 0 0 0"] load_steps(1) [OF assms] by blast
  then obtain b2 where b2: "each (load_kv reference_client shape) [0..<?R] b1 = (Inr (), b2)" "loaded shape ?R ?R 0 0 b2"
    using each_upt [where I = "\<lambda>k. loaded shape ?R k 0 0"] load_steps(2) [OF assms] by blast
  then obtain b3 where b3: "each (load_stream reference_client shape) [0..<?R] b2 = (Inr (), b3)" "loaded shape ?R ?R ?R 0 b3"
    using each_upt [where I = "\<lambda>k. loaded shape ?R ?R k 0"] load_steps(3) [OF assms] by blast
  then obtain b4 where b4: "each (load_schedules reference_client shape) [0..<?R] b3 = (Inr (), b4)" "loaded shape ?R ?R ?R ?R b4"
    using each_upt [where I = "\<lambda>k. loaded shape ?R ?R ?R k"] load_schedules_ref by blast
  then show ?thesis
    using b1 b2 b3
    by (auto simp: load_recovery_workload_def run_resource_operations_sequentially_def run_then_def ret_def)
qed

lemma verify_loaded:
  assumes "loaded shape (resources shape) (resources shape) (resources shape) (resources shape) b"
    "entriesPerResource shape < 10 ^ 8" "entriesPerResource shape < n" "resources shape * entriesPerResource shape < n"
  shows "\<exists>b'. verify_recovery_workload n reference_client shape b = (Inr (total_durable_entries shape), b')"
proof -
  let ?each = "\<lambda>verify. each (verify n reference_client shape) [0..<resources shape]"
  have "list_all (queue_holds shape b) [0..<resources shape]" using assms(1) by (auto simp: list_all_iff queue_holds_def loaded_def)
  then obtain b1 where b1: "?each verify_queue b = (Inr (), b1)" using each_queue_complete assms(3) by (metis distinct_upt)
  have c1: "bk_kv b1 = bk_kv b" "bk_stream b1 = bk_stream b" "bk_schedules b1 = bk_schedules b"
    using each_queue_sound [OF b1] by simp_all
  have "\<exists>b'. ?each verify_kv b1 = (Inr (), b') \<and> content b' = content b1"
  proof (rule each_accepts)
    fix r v assume "r \<in> set [0..<resources shape]" "content v = content b1"
    then have "bk_kv v (resource_route Kv shape r) = expected_pairs shape r" using assms(1) c1 by (auto simp: loaded_def content_def)
    then show "\<exists>b'. verify_kv n reference_client shape r v = (Inr (), b') \<and> content b' = content b1"
      using verify_kv_complete [of "[]" v shape r n] assms(2,3) \<open>content v = content b1\<close> by (simp add: before_all_def)
  qed simp
  then obtain b2 where b2: "?each verify_kv b1 = (Inr (), b2)" "content b2 = content b1" by blast
  have "\<exists>b'. ?each verify_stream b2 = (Inr (), b') \<and> content b' = content b2"
  proof (rule each_accepts)
    fix r v assume "r \<in> set [0..<resources shape]" "content v = content b2"
    then have "bk_stream v (resource_route Stream shape r) = expected_bodies shape Stream r" using assms(1) c1 b2(2) by (auto simp: loaded_def content_def)
    then show "\<exists>b'. verify_stream n reference_client shape r v = (Inr (), b') \<and> content b' = content b2"
      using verify_stream_complete assms(3) \<open>content v = content b2\<close> by metis
  qed simp
  then obtain b3 where b3: "?each verify_stream b2 = (Inr (), b3)" "content b3 = content b2" by blast
  have d: "bk_schedules b3 = map (expected_schedule shape) (shape_indices shape)"
    using assms(1) c1 b2(2) b3(2) by (auto simp: loaded_def content_def shape_indices_def)
  then obtain b4 where "verify_schedules n reference_client shape b3 = (Inr (), b4)"
    using verify_schedules_pages(2) [OF schedule_checks_complete [OF d]] assms(4) by (auto simp: shape_indices_def length_product)
  then show ?thesis
    using b1 b2(1) b3(1) by (auto simp: verify_recovery_workload_def run_resource_operations_sequentially_def run_then_def ret_def)
qed

lemma load_then_verify:
  assumes "entriesPerResource shape < 10 ^ 8" "entriesPerResource shape < n" "resources shape * entriesPerResource shape < n"
  shows "\<exists>b b'. load_recovery_workload reference_client shape empty_broker = (Inr (total_durable_entries shape), b) \<and>
     verify_recovery_workload n reference_client shape b = (Inr (total_durable_entries shape), b')"
  using load_recovery_loaded [of shape] verify_loaded [of shape _ n] assms by fastforce

definition sample_shape :: workload_shape where
  "sample_shape = \<lparr>namespace = ''run'', seed = 7, resources = 2, entriesPerResource = 300, payloadBytes = 64\<rparr>"

text \<open>
  C34. On the reference broker, which keeps what it acknowledges and serves it in pages, loading the
  recovery workload into an empty broker returns the number of durable entries and leaves a state that the verification
  accepts with the same number, for every shape whose keys keep their eight digits.
\<close>

theorem recovery_load_verifies:
  assumes "entriesPerResource shape < 10 ^ 8" "entriesPerResource shape < n" "resources shape * entriesPerResource shape < n"
  shows "\<exists>b b'. load_recovery_workload reference_client shape empty_broker = (Inr (total_durable_entries shape), b) \<and>
     verify_recovery_workload n reference_client shape b = (Inr (total_durable_entries shape), b')"
  using assms by (rule load_then_verify)

theorem recovery_load_verifies_witness:
  "\<exists>b b'. load_recovery_workload reference_client sample_shape empty_broker = (Inr 2400, b) \<and>
     verify_recovery_workload 1000 reference_client sample_shape b = (Inr 2400, b')"
  using recovery_load_verifies [of sample_shape 1000]
  by (simp add: sample_shape_def total_durable_entries_def DURABLE_DOMAINS_def)

text \<open>
  C35. Whatever the broker holds, when the verification of the recovery workload passes, it returns
  the number of durable entries and the broker held all of it: every message in order at the front of its queue, every
  pair, every stream exactly, and every schedule with its payload.
\<close>

theorem recovery_verification_sound:
  assumes "verify_recovery_workload n reference_client shape b = (Inr t, b')"
  shows "t = total_durable_entries shape \<and> contains_workload shape b"
  using assms by (rule verify_recovery_sound)

theorem recovery_verification_sound_witness:
  "\<exists>b. contains_workload sample_shape b \<and> load_recovery_workload reference_client sample_shape empty_broker = (Inr 2400, b)"
proof -
  obtain b b' where b: "load_recovery_workload reference_client sample_shape empty_broker = (Inr 2400, b)"
    "verify_recovery_workload 1000 reference_client sample_shape b = (Inr 2400, b')"
    using load_then_verify [of sample_shape 1000] by (auto simp: sample_shape_def total_durable_entries_def DURABLE_DOMAINS_def)
  then show ?thesis using recovery_verification_sound [OF b(2)] by blast
qed

end
