(* ===== verification/IsoDate.thy ===== *)
theory IsoDate
  imports Model
begin

text \<open>
  \<^verbatim>\<open>Date.prototype.toISOString\<close> and \<^verbatim>\<open>Date.parse\<close> on the texts it writes, which are the only
  timestamps the program exchanges: \<^verbatim>\<open>YYYY-MM-DDTHH:mm:ss.sssZ\<close> for the years 0 to 9999.  A text of another
  form is read as \<^verbatim>\<open>NaN\<close> (\<^verbatim>\<open>None\<close>); the other forms that the engine's parser accepts are outside the
  model.
\<close>

definition DAY_MS :: int where "DAY_MS = 86400000"

text \<open>The days since 1970-01-01 of a date of the Gregorian calendar, and back.\<close>

definition days_of_date :: "int \<Rightarrow> int \<Rightarrow> int \<Rightarrow> int" where
  "days_of_date year month day =
     (let y = (if month \<le> 2 then year - 1 else year);
          era = y div 400; yoe = y mod 400;
          doy = (153 * (month + (if month > 2 then - 3 else 9)) + 2) div 5 + day - 1;
          doe = yoe * 365 + yoe div 4 - yoe div 100 + doy
      in era * 146097 + doe - 719468)"

definition date_of_days :: "int \<Rightarrow> int \<times> int \<times> int" where
  "date_of_days days =
     (let z = days + 719468; era = z div 146097; doe = z mod 146097;
          yoe = (doe - doe div 1460 + doe div 36524 - doe div 146096) div 365;
          doy = doe - (365 * yoe + yoe div 4 - yoe div 100);
          mp = (5 * doy + 2) div 153;
          day = doy - (153 * mp + 2) div 5 + 1;
          month = (if mp < 10 then mp + 3 else mp - 9)
      in (yoe + era * 400 + (if month \<le> 2 then 1 else 0), month, day))"

definition iso_of_ms :: "int \<Rightarrow> string" where
  "iso_of_ms ms =
     (case date_of_days (ms div DAY_MS) of (year, month, day) \<Rightarrow>
        let t = ms mod DAY_MS in
        pad (nat year) 4 @ ''-'' @ pad (nat month) 2 @ ''-'' @ pad (nat day) 2 @ ''T'' @
        pad (nat (t div 3600000)) 2 @ '':'' @ pad (nat (t div 60000 mod 60)) 2 @ '':'' @
        pad (nat (t div 1000 mod 60)) 2 @ ''.'' @ pad (nat (t mod 1000)) 3 @ ''Z'')"

text \<open>The digits where the pattern has a \<^verbatim>\<open>9\<close>, and the pattern's own characters elsewhere.\<close>

fun matches_pattern :: "string \<Rightarrow> string \<Rightarrow> bool" where
  "matches_pattern [] [] \<longleftrightarrow> True"
| "matches_pattern (p # ps) (c # cs) \<longleftrightarrow> (if p = CHR ''9'' then is_digit c else c = p) \<and> matches_pattern ps cs"
| "matches_pattern _ _ \<longleftrightarrow> False"

definition number_at :: "string \<Rightarrow> nat \<Rightarrow> nat \<Rightarrow> int" where
  "number_at s i n = int (nat_of_digits (take n (drop i s)))"

definition ms_of_iso :: "string \<Rightarrow> int option" where
  "ms_of_iso s =
     (if \<not> matches_pattern ''9999-99-99T99:99:99.999Z'' s then None
      else (let year = number_at s 0 4; month = number_at s 5 2; day = number_at s 8 2;
                h = number_at s 11 2; m = number_at s 14 2; sec = number_at s 17 2; ms = number_at s 20 3 in
        if 1 \<le> month \<and> month \<le> 12 \<and> 1 \<le> day \<and> day \<le> 31 \<and> h \<le> 23 \<and> m \<le> 59 \<and> sec \<le> 59
        then Some (days_of_date year month day * DAY_MS + h * 3600000 + m * 60000 + sec * 1000 + ms) else None))"

end
