(* ===== verification/PressureEvidence.thy ===== *)
theory PressureEvidence
  imports PressureWarnings QueueReconcile WorkloadLog IsoDate
begin

text \<open>
  The evidence of a pressure run, read from the logs of the bombard clients: the parsing,
  aggregation and assertion functions of src/orchestration/pressure.ts.
\<close>

subsection \<open>The evidence\<close>

record evidence_stage =
  ev_started :: nat
  ev_succeeded :: nat
  ev_failed :: nat
  ev_ambiguous :: nat
  ev_retryable :: nat
  ev_cancellations :: shutdown_cancellations
  ev_histogram :: latency_histogram
  ev_latency :: latency_report
  ev_errorClasses :: "(string, nat) js_map"
  ev_errorSamples :: "(string \<times> string) list"

record evidence_domain =
  ed_succeeded :: nat
  ed_failed :: nat
  ed_stages :: "(string, evidence_stage) js_map"

record client_evidence =
  ce_container :: string
  ce_worker :: string
  ce_domains :: "(domain, evidence_domain) js_map"
  ce_queueOutcome :: "queue_client_outcome option"

definition empty_evidence_stage :: evidence_stage where
  "empty_evidence_stage =
     \<lparr>ev_started = 0, ev_succeeded = 0, ev_failed = 0, ev_ambiguous = 0, ev_retryable = 0,
      ev_cancellations = \<lparr>failed_esc = 0, ambiguous_esc = 0\<rparr>, ev_histogram = empty_histogram,
      ev_latency = latency_summary empty_histogram, ev_errorClasses = [], ev_errorSamples = []\<rparr>"

subsection \<open>Reading values\<close>

definition object_value :: "json option \<Rightarrow> string \<Rightarrow> json result" where
  "object_value v label =
     (case v of Some (JObj m) \<Rightarrow> Inr (JObj m) | _ \<Rightarrow> Inl (Error ''$ must be an object'' [AStr label]))"

definition entries_of :: "json \<Rightarrow> (string \<times> json) list" where
  "entries_of v = (case v of JObj m \<Rightarrow> m | _ \<Rightarrow> [])"

definition string_value :: "json option \<Rightarrow> string \<Rightarrow> string result" where
  "string_value v label =
     (case v of Some (JStr s) \<Rightarrow> if s = [] then Inl (Error ''$ must be a string'' [AStr label]) else Inr s
      | _ \<Rightarrow> Inl (Error ''$ must be a string'' [AStr label]))"

definition non_negative_value :: "json option \<Rightarrow> string \<Rightarrow> rat result" where
  "non_negative_value v label =
     (case v of Some (JNum x) \<Rightarrow> if x < 0 then Inl (Error ''$ must be a non-negative number'' [AStr label]) else Inr x
      | _ \<Rightarrow> Inl (Error ''$ must be a non-negative number'' [AStr label]))"

definition read_latency :: "json option \<Rightarrow> string \<Rightarrow> latency_histogram result" where
  "read_latency v label =
     try_in (object_value v label) (\<lambda>r.
     try_in (numeric_array (json_get r ''buckets'') (label @ '' buckets'')) (\<lambda>bs.
     if length bs \<noteq> length LATENCY_BUCKET_UPPER_MS
     then Inl (Error ''$ expected $ buckets, found $'' [AStr label, ANat (length LATENCY_BUCKET_UPPER_MS), ANat (length bs)])
     else
     try_in (numeric_value (json_get r ''count'') (label @ ''.count'')) (\<lambda>n.
     try_in (non_negative_value (json_get r ''totalMs'') (label @ ''.totalMs'')) (\<lambda>total_ms.
     try_in (non_negative_value (json_get r ''maxMs'') (label @ ''.maxMs'')) (\<lambda>max_ms.
     try_in (numeric_value (json_get r ''overflow'') (label @ ''.overflow'')) (\<lambda>over.
     Inr \<lparr>count = n, totalMs = total_ms, maxMs = max_ms, buckets = bs, overflow = over\<rparr>))))))"

definition read_error_classes :: "json option \<Rightarrow> string \<Rightarrow> (string, nat) js_map result" where
  "read_error_classes v label =
     try_in (object_value v (label @ '' error classes'')) (\<lambda>r.
     fold_result (\<lambda>m (name, found). try_in (numeric_value (Some found) (label @ '' '' @ name)) (\<lambda>n. Inr (map_set m name n)))
       [] (entries_of r))"

definition read_error_sample :: "string \<Rightarrow> nat \<times> json \<Rightarrow> (string \<times> string) result" where
  "read_error_sample label entry =
     (case entry of (index, sample) \<Rightarrow>
     try_in (object_value (Some sample) (label @ '' error sample '' @ show_nat index)) (\<lambda>item.
     try_in (string_value (json_get item ''class'') (label @ '' error sample class'')) (\<lambda>c.
     try_in (string_value (json_get item ''error'') (label @ '' error sample error'')) (\<lambda>e.
     Inr (c, e)))))"

text \<open>A missing \<^verbatim>\<open>expectedShutdownCancellations\<close> or \<^verbatim>\<open>retryableBackpressure\<close> is zero.\<close>

definition read_cancellations :: "json \<Rightarrow> string \<Rightarrow> json result" where
  "read_cancellations r label =
     (case json_get r ''expectedShutdownCancellations'' of
        None \<Rightarrow> Inr (JObj [(''failed'', JNum 0), (''ambiguous'', JNum 0)])
      | Some v \<Rightarrow> object_value (Some v) (label @ '' expected shutdown cancellations''))"

definition read_stage :: "json \<Rightarrow> string \<Rightarrow> evidence_stage result" where
  "read_stage v label =
     try_in (object_value (Some v) label) (\<lambda>r.
     try_in (read_latency (json_get r ''latency'') (label @ '' latency'')) (\<lambda>histogram.
     try_in (read_error_classes (json_get r ''errorClasses'') label) (\<lambda>classes.
     try_in (traverse (read_error_sample label)
       (case json_get r ''errorSamples'' of Some (JArr items) \<Rightarrow> zip [0..<length items] items | _ \<Rightarrow> [])) (\<lambda>samples.
     try_in (read_cancellations r label) (\<lambda>cancellations.
     try_in (numeric_value (json_get r ''started'') (label @ ''.started'')) (\<lambda>n_started.
     try_in (numeric_value (json_get r ''succeeded'') (label @ ''.succeeded'')) (\<lambda>n_succeeded.
     try_in (numeric_value (json_get r ''failed'') (label @ ''.failed'')) (\<lambda>n_failed.
     try_in (numeric_value (json_get r ''ambiguous'') (label @ ''.ambiguous'')) (\<lambda>n_ambiguous.
     try_in (case json_get r ''retryableBackpressure'' of None \<Rightarrow> Inr 0
         | Some found \<Rightarrow> numeric_value (Some found) (label @ ''.retryableBackpressure'')) (\<lambda>n_retryable.
     try_in (numeric_value (json_get cancellations ''failed'') (label @ '' shutdown cancellation failures'')) (\<lambda>cancelled.
     try_in (numeric_value (json_get cancellations ''ambiguous'') (label @ '' ambiguous shutdown cancellations'')) (\<lambda>cancelled_ambiguous.
     Inr \<lparr>ev_started = n_started, ev_succeeded = n_succeeded, ev_failed = n_failed, ev_ambiguous = n_ambiguous,
       ev_retryable = n_retryable, ev_cancellations = \<lparr>failed_esc = cancelled, ambiguous_esc = cancelled_ambiguous\<rparr>,
       ev_histogram = histogram, ev_latency = latency_summary histogram, ev_errorClasses = classes,
       ev_errorSamples = samples\<rparr>))))))))))))"

definition read_sequences :: "json \<Rightarrow> string \<Rightarrow> string \<Rightarrow> rat list result" where
  "read_sequences r field label = try_in (numeric_array (json_get r field) label) (\<lambda>ns. Inr (map of_nat ns))"

definition read_queue_outcome :: "string \<Rightarrow> json option \<Rightarrow> queue_client_outcome result" where
  "read_queue_outcome name v =
     try_in (object_value v (name @ '' queue outcome'')) (\<lambda>r.
     try_in (read_sequences r ''acknowledged'' (name @ '' acknowledged'')) (\<lambda>a.
     try_in (read_sequences r ''ambiguousEnqueues'' (name @ '' ambiguous enqueues'')) (\<lambda>b.
     try_in (read_sequences r ''failedEnqueues'' (name @ '' failed enqueues'')) (\<lambda>c.
     try_in (read_sequences r ''completed'' (name @ '' completed'')) (\<lambda>d.
     try_in (read_sequences r ''ambiguousCompletions'' (name @ '' ambiguous completions'')) (\<lambda>e.
     Inr \<lparr>worker = name, acknowledged = a, ambiguousEnqueues = b, failedEnqueues = c, completed = d, ambiguousCompletions = e\<rparr>))))))"

subsection \<open>The logs of the clients\<close>

definition read_stages :: "json \<Rightarrow> string \<Rightarrow> (string, evidence_stage) js_map result" where
  "read_stages domain_stages label =
     fold_result (\<lambda>m (name, v). try_in (read_stage v (label @ ''/'' @ name)) (\<lambda>s. Inr (map_set m name s))) [] (entries_of domain_stages)"

definition read_domain :: "string \<Rightarrow> json \<Rightarrow> json \<Rightarrow> domain \<Rightarrow> evidence_domain result" where
  "read_domain name all_totals all_stages d =
     (let label = name @ '' '' @ domain_name d in
     try_in (object_value (json_get all_totals (domain_name d)) (label @ '' totals'')) (\<lambda>domain_total.
     try_in (object_value (json_get all_stages (domain_name d)) (label @ '' stages'')) (\<lambda>domain_stages.
     try_in (read_stages domain_stages label) (\<lambda>parsed.
     if parsed = [] then Inl (Error ''$ $ omitted stage evidence'' [AStr name, AStr (domain_name d)])
     else
     try_in (numeric_value (json_get domain_total ''success'') (label @ ''.success'')) (\<lambda>successes.
     try_in (numeric_value (json_get domain_total ''error'') (label @ ''.error'')) (\<lambda>errors.
     Inr \<lparr>ed_succeeded = successes, ed_failed = errors, ed_stages = parsed\<rparr>))))))"

definition analyze_client_log :: "domain list \<Rightarrow> string \<times> string \<Rightarrow> client_evidence result" where
  "analyze_client_log domains entry =
     (case entry of (container, l) \<Rightarrow>
     (case find_last (has_event ''stopped'') (parse_json_records l) of
        None \<Rightarrow> Inl (Error ''Bombard client $ omitted stopped evidence'' [AStr container])
      | Some stopped \<Rightarrow>
     try_in (string_value (json_get stopped ''worker'') (container @ '' worker'')) (\<lambda>name.
     try_in (object_value (json_get stopped ''totals'') (name @ '' totals'')) (\<lambda>all_totals.
     try_in (object_value (json_get stopped ''stages'') (name @ '' stages'')) (\<lambda>all_stages.
     try_in (fold_result (\<lambda>m d. try_in (read_domain name all_totals all_stages d) (\<lambda>e. Inr (map_set m d e))) [] domains) (\<lambda>ds.
     try_in (if Queue \<in> set domains
         then try_in (read_queue_outcome name (json_get stopped ''queueOutcome'')) (\<lambda>q. Inr (Some q)) else Inr None) (\<lambda>q.
     Inr \<lparr>ce_container = container, ce_worker = name, ce_domains = ds, ce_queueOutcome = q\<rparr>)))))))"

definition analyze_pressure_logs :: "role_logs \<Rightarrow> domain list \<Rightarrow> client_evidence list result" where
  "analyze_pressure_logs logs domains = traverse (analyze_client_log domains) logs"

subsection \<open>Progress windows\<close>

definition window_count :: "rat \<Rightarrow> rat \<Rightarrow> rat \<Rightarrow> nat" where
  "window_count started_ms completed_ms window_ms =
     nat (max 1 \<lfloor>fl (max 1 (fl (completed_ms - started_ms)) / window_ms)\<rfloor>)"

text \<open>The time of a progress record that falls within the run.\<close>

definition progress_time :: "rat \<Rightarrow> rat \<Rightarrow> json \<Rightarrow> rat option" where
  "progress_time started_ms completed_ms r =
     (case json_get r ''timestamp'' of
        Some (JStr stamp) \<Rightarrow>
          if \<not> has_event ''progress'' r then None
          else (case ms_of_iso stamp of
                  Some t \<Rightarrow> if of_int t < started_ms \<or> of_int t > completed_ms then None else Some (of_int t)
                | None \<Rightarrow> None)
      | _ \<Rightarrow> None)"

definition window_index :: "nat \<Rightarrow> rat \<Rightarrow> rat \<Rightarrow> rat \<Rightarrow> nat" where
  "window_index windows started_ms window_ms t = min (windows - 1) (nat \<lfloor>fl (fl (t - started_ms) / window_ms)\<rfloor>)"

text \<open>The successes of every domain in every window: \<^verbatim>\<open>totals[index][domain]\<close>.\<close>

definition add_window ::
  "string \<Rightarrow> json \<Rightarrow> (domain, nat) js_map \<Rightarrow> domain \<Rightarrow> (domain, nat) js_map result" where
  "add_window container found m d =
     try_in (object_value (json_get found (domain_name d)) (container @ '' '' @ domain_name d @ '' progress'')) (\<lambda>v.
     try_in (numeric_value (json_get v ''success'') (container @ '' '' @ domain_name d @ ''.success'')) (\<lambda>n.
     Inr (map_bump m d n)))"

definition add_progress ::
  "string \<Rightarrow> domain list \<Rightarrow> rat \<Rightarrow> rat \<Rightarrow> rat \<Rightarrow> nat \<Rightarrow> (domain, nat) js_map list \<Rightarrow> json \<Rightarrow> (domain, nat) js_map list result" where
  "add_progress container domains started_ms completed_ms window_ms windows ts r =
     (case progress_time started_ms completed_ms r of
        None \<Rightarrow> Inr ts
      | Some t \<Rightarrow>
          (let index = window_index windows started_ms window_ms t in
          try_in (object_value (json_get r ''window'') (container @ '' progress window'')) (\<lambda>found.
          try_in (fold_result (add_window container found) (ts ! index) domains) (\<lambda>m.
          Inr (ts[index := m])))))"

definition empty_windows :: "nat \<Rightarrow> domain list \<Rightarrow> (domain, nat) js_map list" where
  "empty_windows windows domains = replicate windows (foldl (\<lambda>m d. map_set m d 0) [] domains)"

definition missing_windows :: "string \<Rightarrow> domain list \<Rightarrow> (domain, nat) js_map list \<Rightarrow> string list" where
  "missing_windows container domains ts =
     concat (map (\<lambda>(index, m). map (\<lambda>d. container @ ''/'' @ domain_name d @ ''/window-'' @ show_nat index)
       (filter (\<lambda>d. map_get m d = Some 0) domains)) (zip [0..<length ts] ts))"

definition assert_progress_windows ::
  "role_logs \<Rightarrow> domain list \<Rightarrow> rat \<Rightarrow> rat \<Rightarrow> rat \<Rightarrow> unit result" where
  "assert_progress_windows logs domains started_ms completed_ms window_ms =
     (let windows = window_count started_ms completed_ms window_ms in
     try_in (fold_result (\<lambda>missing (container, l).
         try_in (fold_result (add_progress container domains started_ms completed_ms window_ms windows)
           (empty_windows windows domains) (parse_json_records l)) (\<lambda>ts.
         Inr (missing @ missing_windows container domains ts))) [] logs) (\<lambda>missing.
     ensure (missing = []) (Error ''Missing required pressure progress: $'' [AStrs (take 50 missing)])))"

definition PROGRESS_WINDOW_MS :: rat where
  "PROGRESS_WINDOW_MS = 10000"

definition pressure_verification_completed_at_ms :: "rat \<Rightarrow> rat \<Rightarrow> rat \<Rightarrow> rat" where
  "pressure_verification_completed_at_ms started_ms completed_ms requested_ms = min completed_ms (fl (started_ms + requested_ms))"

subsection \<open>Unexpected errors\<close>

definition unexpected_count :: "client_evidence \<Rightarrow> domain \<Rightarrow> nat" where
  "unexpected_count c d =
     (case map_get (ce_domains c) d of
        None \<Rightarrow> 0
      | Some e \<Rightarrow> if d = Queue \<or> d = Stream then sum_list (map (\<lambda>(_, s). ev_failed s) (ed_stages e)) else ed_failed e)"

definition pressure_unexpected_errors :: "client_evidence list \<Rightarrow> domain list \<Rightarrow> string list" where
  "pressure_unexpected_errors cs domains =
     concat (map (\<lambda>c. concat (map (\<lambda>d.
       if unexpected_count c d = 0 then []
       else [ce_worker c @ ''/'' @ domain_name d @ ''='' @ show_nat (unexpected_count c d)]) domains)) cs)"

subsection \<open>Aggregation\<close>

definition merge_stage :: "evidence_stage \<Rightarrow> evidence_stage \<Rightarrow> evidence_stage result" where
  "merge_stage target source =
     try_in (merge_latency_histograms [ev_histogram target, ev_histogram source]) (\<lambda>histogram.
     Inr (target\<lparr>ev_started := ev_started target + ev_started source,
       ev_succeeded := ev_succeeded target + ev_succeeded source,
       ev_failed := ev_failed target + ev_failed source,
       ev_ambiguous := ev_ambiguous target + ev_ambiguous source,
       ev_retryable := ev_retryable target + ev_retryable source,
       ev_cancellations :=
         \<lparr>failed_esc = failed_esc (ev_cancellations target) + failed_esc (ev_cancellations source),
          ambiguous_esc = ambiguous_esc (ev_cancellations target) + ambiguous_esc (ev_cancellations source)\<rparr>,
       ev_histogram := histogram,
       ev_errorClasses := foldl (\<lambda>m (name, n). map_bump m name n) (ev_errorClasses target) (ev_errorClasses source),
       ev_errorSamples := take 10 (ev_errorSamples target @ ev_errorSamples source)\<rparr>))"

definition aggregate_stage ::
  "(string, evidence_stage) js_map \<Rightarrow> string \<times> evidence_stage \<Rightarrow> (string, evidence_stage) js_map result" where
  "aggregate_stage m entry =
     (case entry of (name, s) \<Rightarrow>
     try_in (merge_stage (get_or empty_evidence_stage (map_get m name)) s) (\<lambda>merged. Inr (map_set m name merged)))"

definition aggregate_client :: "domain \<Rightarrow> evidence_domain \<Rightarrow> client_evidence \<Rightarrow> evidence_domain result" where
  "aggregate_client d a c =
     (case map_get (ce_domains c) d of
        None \<Rightarrow> Inr a
      | Some e \<Rightarrow>
          try_in (fold_result aggregate_stage (ed_stages a) (ed_stages e)) (\<lambda>m.
          Inr \<lparr>ed_succeeded = ed_succeeded a + ed_succeeded e, ed_failed = ed_failed a + ed_failed e, ed_stages = m\<rparr>))"

definition summarized :: "evidence_stage \<Rightarrow> evidence_stage" where
  "summarized s = s\<lparr>ev_latency := latency_summary (ev_histogram s)\<rparr>"

definition aggregate_domain :: "client_evidence list \<Rightarrow> domain \<Rightarrow> evidence_domain result" where
  "aggregate_domain cs d =
     try_in (fold_result (aggregate_client d) \<lparr>ed_succeeded = 0, ed_failed = 0, ed_stages = []\<rparr> cs) (\<lambda>a.
     Inr (a\<lparr>ed_stages := map (\<lambda>(name, s). (name, summarized s)) (ed_stages a)\<rparr>))"

definition aggregate_clients :: "client_evidence list \<Rightarrow> domain list \<Rightarrow> (domain, evidence_domain) js_map result" where
  "aggregate_clients cs domains =
     fold_result (\<lambda>m d. try_in (aggregate_domain cs d) (\<lambda>e. Inr (map_set m d e))) [] domains"

subsection \<open>The broker's snapshots\<close>

record broker_summary =
  bs_mailboxHighWater :: rat
  bs_finalQueuePending :: rat
  bs_finalRpcPending :: rat
  bs_ingressTimeouts :: rat
  bs_backpressure :: rat
  bs_highLaneBackpressure :: rat

definition number_or_zero :: "json option \<Rightarrow> rat" where
  "number_or_zero v = (case v of Some (JNum x) \<Rightarrow> x | _ \<Rightarrow> 0)"

definition counter_delta :: "(broker_router \<Rightarrow> rat) \<Rightarrow> broker_sample list \<Rightarrow> rat" where
  "counter_delta field samples =
     (case samples of [] \<Rightarrow> 0 | _ \<Rightarrow> max 0 (fl (field (router (last samples)) - field (router (hd samples)))))"

definition summarize_broker_snapshots :: "broker_sample list \<Rightarrow> broker_summary" where
  "summarize_broker_snapshots samples =
     \<lparr>bs_mailboxHighWater = foldl (\<lambda>m s. max m (currentMailboxDepth (router s))) 0 samples,
      bs_finalQueuePending = (if samples = [] then 0 else number_or_zero (map_get (queue_stats (last samples)) ''messages_pending'')),
      bs_finalRpcPending = (if samples = [] then 0 else number_or_zero (map_get (rpc_stats (last samples)) ''requests_pending'')),
      bs_ingressTimeouts = counter_delta ingressDispatchTimeoutsTotal samples,
      bs_backpressure = counter_delta routerBackpressureTotal samples,
      bs_highLaneBackpressure = counter_delta routerHighLaneBackpressureTotal samples\<rparr>"

end
