(* ===== verification/PressureAggregate.thy ===== *)
theory PressureAggregate
  imports PressureEvidence
begin

text \<open>
  What the analysis of pressure logs promises: every client made progress in every window exactly
  when the progress assertion passes, and the aggregate of the clients loses nothing.
\<close>

subsection \<open>Counts that add up\<close>

text \<open>The count over the entries of a name.\<close>

definition count_at :: "(evidence_stage \<Rightarrow> nat) \<Rightarrow> (string, evidence_stage) js_map \<Rightarrow> string \<Rightarrow> nat" where
  "count_at f m name = sum_list (map (\<lambda>(n, s). if n = name then f s else 0) m)"

lemma count_at_simps [simp]:
  "count_at f [] name = 0" "count_at f ((n, s) # m) name = (if n = name then f s else 0) + count_at f m name"
  by (simp_all add: count_at_def)

definition client_count :: "(evidence_stage \<Rightarrow> nat) \<Rightarrow> domain \<Rightarrow> string \<Rightarrow> client_evidence \<Rightarrow> nat" where
  "client_count f d name c = (case map_get (ce_domains c) d of None \<Rightarrow> 0 | Some e \<Rightarrow> count_at f (ed_stages e) name)"

lemma aggregate_stage_ok:
  "aggregate_stage m (n, s) = Inr m' \<longleftrightarrow>
     (\<exists>r. merge_stage (get_or empty_evidence_stage (map_get m n)) s = Inr r \<and> m' = map_set m n r)"
  by (auto simp: aggregate_stage_def result_simps)

text \<open>A count of a stage that merging two stages adds up and that an empty stage does not have.\<close>

locale additive_count =
  fixes f :: "evidence_stage \<Rightarrow> nat"
  assumes merge_adds: "merge_stage t s = Inr r \<Longrightarrow> f r = f t + f s"
    and none_at_first: "f empty_evidence_stage = 0"
    and summary_keeps: "f (summarized s) = f s"
begin

lemma count_at_set:
  "f r = f (get_or empty_evidence_stage (map_get m n)) + k \<Longrightarrow>
     count_at f (map_set m n r) name = count_at f m name + (if n = name then k else 0)"
  by (induction m) (auto simp: none_at_first)

lemma stages_add:
  "fold_result aggregate_stage m es = Inr m' \<Longrightarrow> count_at f m' name = count_at f m name + count_at f es name"
proof (induction es arbitrary: m)
  case (Cons x es)
  obtain n s where x: "x = (n, s)" by (cases x)
  obtain r where r: "merge_stage (get_or empty_evidence_stage (map_get m n)) s = Inr r"
    and rest: "fold_result aggregate_stage (map_set m n r) es = Inr m'"
    using Cons.prems by (auto simp: x aggregate_stage_ok result_simps)
  show ?case using Cons.IH [OF rest] by (simp add: x count_at_set [OF merge_adds [OF r]])
qed simp

lemma clients_add:
  "fold_result (aggregate_client d) a cs = Inr a' \<Longrightarrow>
     count_at f (ed_stages a') name = count_at f (ed_stages a) name + sum_list (map (client_count f d name) cs)"
  by (induction cs arbitrary: a)
    (auto simp: aggregate_client_def client_count_def result_simps split: option.splits dest!: stages_add)

lemma domain_adds:
  "aggregate_domain cs d = Inr a \<Longrightarrow> count_at f (ed_stages a) name = sum_list (map (client_count f d name) cs)"
proof -
  have "count_at f (map (\<lambda>(n, s). (n, summarized s)) m) name = count_at f m name" for m
    by (induction m) (auto simp: summary_keeps)
  moreover assume "aggregate_domain cs d = Inr a"
  ultimately show ?thesis by (auto simp: aggregate_domain_def result_simps dest!: clients_add)
qed

end

text \<open>The errors of a class.\<close>

definition class_errors :: "string \<Rightarrow> evidence_stage \<Rightarrow> nat" where
  "class_errors c s = sum_list (map (\<lambda>(n, k). if n = c then k else 0) (ev_errorClasses s))"

lemma bump_adds:
  "sum_list (map (\<lambda>(n, k). if n = c then k else 0) (map_bump m n k)) =
     sum_list (map (\<lambda>(n, k). if n = c then k else 0) m) + (if n = c then k else (0::nat))"
  by (induction m) (auto simp: map_bump_def)

lemma classes_add:
  "sum_list (map (\<lambda>(n, k). if n = c then k else 0) (foldl (\<lambda>m (n, k). map_bump m n k) m es)) =
     sum_list (map (\<lambda>(n, k). if n = c then k else 0) m) + (sum_list (map (\<lambda>(n, k). if n = c then k else 0) es) :: nat)"
  by (induction es arbitrary: m) (auto simp: bump_adds)

lemma merged_stage:
  "merge_stage t s = Inr r \<Longrightarrow>
     length (buckets (ev_histogram t)) = length LATENCY_BUCKET_UPPER_MS \<and>
     length (buckets (ev_histogram s)) = length LATENCY_BUCKET_UPPER_MS \<and>
     length (buckets (ev_histogram r)) = length LATENCY_BUCKET_UPPER_MS"
  by (auto simp: merge_stage_def merge_latency_histograms_def merge_into_def result_simps empty_histogram_def split: if_splits)

definition histogram_count :: "evidence_stage \<Rightarrow> nat" where
  "histogram_count s = count (ev_histogram s)"

definition histogram_overflow :: "evidence_stage \<Rightarrow> nat" where
  "histogram_overflow s = overflow (ev_histogram s)"

lemmas merges = merge_stage_def merge_latency_histograms_def merge_into_def result_simps empty_histogram_def
  empty_evidence_stage_def summarized_def

interpretation sum_started: additive_count ev_started by unfold_locales (auto simp: merges)
interpretation sum_succeeded: additive_count ev_succeeded by unfold_locales (auto simp: merges)
interpretation sum_failed: additive_count ev_failed by unfold_locales (auto simp: merges)
interpretation sum_ambiguous: additive_count ev_ambiguous by unfold_locales (auto simp: merges)
interpretation sum_retryable: additive_count ev_retryable by unfold_locales (auto simp: merges)
interpretation sum_count: additive_count histogram_count
  by unfold_locales (auto simp: merges histogram_count_def split: if_splits)
interpretation sum_overflow: additive_count histogram_overflow
  by unfold_locales (auto simp: merges histogram_overflow_def split: if_splits)
interpretation sum_class: additive_count "class_errors c" for c
  by unfold_locales (auto simp: merges class_errors_def classes_add)

definition COUNTS :: "(evidence_stage \<Rightarrow> nat) list" where
  "COUNTS = [ev_started, ev_succeeded, ev_failed, ev_ambiguous, ev_retryable, histogram_count, histogram_overflow]"

subsection \<open>The aggregation of analysed logs\<close>

definition good_entry :: "string \<times> evidence_stage \<Rightarrow> bool" where
  "good_entry entry = (length (buckets (ev_histogram (snd entry))) = length LATENCY_BUCKET_UPPER_MS)"

definition good_stages :: "(string, evidence_stage) js_map \<Rightarrow> bool" where
  "good_stages m = list_all good_entry m"

definition good_client :: "client_evidence \<Rightarrow> bool" where
  "good_client c = list_all (\<lambda>(_, e). good_stages (ed_stages e)) (ce_domains c)"

lemma list_all_map_set: "list_all P m \<Longrightarrow> P (k, v) \<Longrightarrow> list_all P (map_set m k v)"
  by (induction m) auto

lemma list_all_map_get: "list_all P m \<Longrightarrow> map_get m k = Some v \<Longrightarrow> P (k, v)"
  by (induction m) (auto split: if_splits)

lemma read_stages_good: "read_stages v label = Inr m \<Longrightarrow> good_stages m"
  unfolding read_stages_def good_stages_def
  by (rule fold_result_invariant [where P = "list_all good_entry"])
    (auto simp: good_entry_def read_stage_def read_latency_def result_simps split: if_splits intro!: list_all_map_set)

lemma covered_keys:
  "fold_result (\<lambda>m d. try_in (g d) (\<lambda>e. Inr (map_set m d e))) m es = Inr m' \<Longrightarrow> d \<in> set es \<or> map_get m d \<noteq> None \<Longrightarrow>
     map_get m' d \<noteq> None"
proof (induction es arbitrary: m)
  case (Cons e es)
  then obtain v where "fold_result (\<lambda>m d. try_in (g d) (\<lambda>e. Inr (map_set m d e))) (map_set m e v) es = Inr m'"
    by (auto simp: result_simps)
  then show ?case using Cons.IH Cons.prems(2) by (cases "d = e") auto
qed simp

lemma analyzed_client_good:
  assumes "analyze_client_log domains (k, l) = Inr c"
  shows "good_client c \<and> (\<forall>d \<in> set domains. map_get (ce_domains c) d \<noteq> None)"
proof -
  obtain name all_totals all_stages where ds:
    "fold_result (\<lambda>m d. try_in (read_domain name all_totals all_stages d) (\<lambda>e. Inr (map_set m d e))) [] domains = Inr (ce_domains c)"
    using assms by (auto simp: analyze_client_log_def result_simps split: option.splits)
  have "list_all (\<lambda>(_, e). good_stages (ed_stages e)) (ce_domains c)"
    by (rule fold_result_invariant [OF ds]) (auto simp: read_domain_def Let_def result_simps split: if_splits
      intro!: list_all_map_set dest: read_stages_good)
  then show ?thesis using ds by (auto simp: good_client_def dest: covered_keys)
qed

lemma fold_result_total:
  assumes "P x" "\<And>y. y \<in> set ys \<Longrightarrow> R y" "\<And>x y. P x \<Longrightarrow> R y \<Longrightarrow> \<exists>x'. f x y = Inr x' \<and> P x'"
  shows "\<exists>z. fold_result f x ys = Inr z \<and> P z"
  using assms(1,2)
proof (induction ys arbitrary: x)
  case (Cons y ys)
  then obtain x' where "f x y = Inr x'" "P x'" using assms(3) [of x y] by auto
  then show ?case using Cons.IH [of x'] Cons.prems(2) by simp
qed simp

lemma merge_stage_total:
  assumes "length (buckets (ev_histogram t)) = length LATENCY_BUCKET_UPPER_MS"
    "length (buckets (ev_histogram s)) = length LATENCY_BUCKET_UPPER_MS"
  shows "\<exists>r. merge_stage t s = Inr r \<and> length (buckets (ev_histogram r)) = length LATENCY_BUCKET_UPPER_MS"
  using assms by (simp add: merge_stage_def merge_latency_histograms_def merge_into_def empty_histogram_def)

lemma aggregate_stages_total:
  assumes "good_stages m" "good_stages es"
  shows "\<exists>m'. fold_result aggregate_stage m es = Inr m' \<and> good_stages m'"
proof (rule fold_result_total [where R = good_entry])
  show "good_entry y" if "y \<in> set es" for y
    using assms(2) that by (auto simp: good_stages_def list_all_iff)
  fix m y
  assume m: "good_stages m" and y: "good_entry y"
  obtain n s where ns: "y = (n, s)" by (cases y)
  have "length (buckets (ev_histogram (get_or empty_evidence_stage (map_get m n)))) = length LATENCY_BUCKET_UPPER_MS"
    using m by (cases "map_get m n")
      (auto simp: good_stages_def good_entry_def empty_evidence_stage_def empty_histogram_def dest: list_all_map_get)
  then obtain r where "merge_stage (get_or empty_evidence_stage (map_get m n)) s = Inr r"
    "length (buckets (ev_histogram r)) = length LATENCY_BUCKET_UPPER_MS"
    using y merge_stage_total by (auto simp: ns good_entry_def)
  then show "\<exists>m'. aggregate_stage m y = Inr m' \<and> good_stages m'"
    using m by (auto simp: ns aggregate_stage_ok good_stages_def good_entry_def intro!: list_all_map_set)
qed (rule assms(1))

lemma aggregate_domain_total:
  assumes "\<And>c. c \<in> set cs \<Longrightarrow> good_client c"
  shows "\<exists>a. aggregate_domain cs d = Inr a"
proof -
  have "\<exists>a. fold_result (aggregate_client d) \<lparr>ed_succeeded = 0, ed_failed = 0, ed_stages = []\<rparr> cs = Inr a \<and> good_stages (ed_stages a)"
  proof (rule fold_result_total [where R = good_client])
    show "\<exists>a'. aggregate_client d a c = Inr a' \<and> good_stages (ed_stages a')"
      if a: "good_stages (ed_stages a)" and c: "good_client c" for a c
    proof (cases "map_get (ce_domains c) d")
      case (Some e)
      then have "good_stages (ed_stages e)" using c by (auto simp: good_client_def dest: list_all_map_get)
      then obtain m where "fold_result aggregate_stage (ed_stages a) (ed_stages e) = Inr m" "good_stages m"
        using aggregate_stages_total [OF a] by blast
      then show ?thesis by (simp add: aggregate_client_def Some)
    qed (use a in \<open>simp add: aggregate_client_def\<close>)
  qed (use assms in \<open>simp_all add: good_stages_def\<close>)
  then show ?thesis by (auto simp: aggregate_domain_def)
qed

lemma aggregated_domain:
  "fold_result (\<lambda>m d. try_in (g d) (\<lambda>e. Inr (map_set m d e))) m ds = Inr m' \<Longrightarrow>
     (if d \<in> set ds then \<exists>e. map_get m' d = Some e \<and> g d = Inr e else map_get m' d = map_get m d)"
proof (induction ds arbitrary: m)
  case (Cons x ds)
  then obtain v where "g x = Inr v" "fold_result (\<lambda>m d. try_in (g d) (\<lambda>e. Inr (map_set m d e))) (map_set m x v) ds = Inr m'"
    by (auto simp: result_simps)
  then show ?case using Cons.IH by (cases "d = x"; cases "d \<in> set ds") force+
qed simp

lemma client_totals_add:
  "fold_result (aggregate_client d) a cs = Inr a' \<Longrightarrow>
     ed_succeeded a' = ed_succeeded a + sum_list (map (\<lambda>c. case map_get (ce_domains c) d of None \<Rightarrow> 0 | Some e \<Rightarrow> ed_succeeded e) cs) \<and>
     ed_failed a' = ed_failed a + sum_list (map (\<lambda>c. case map_get (ce_domains c) d of None \<Rightarrow> 0 | Some e \<Rightarrow> ed_failed e) cs)"
  by (induction cs arbitrary: a) (force simp: aggregate_client_def result_simps split: option.splits)+

text \<open>What every client reports of a domain, summed over the clients.\<close>

definition aggregate_exact :: "client_evidence list \<Rightarrow> domain \<Rightarrow> evidence_domain \<Rightarrow> bool" where
  "aggregate_exact cs d a =
     (ed_succeeded a = sum_list (map (\<lambda>c. case map_get (ce_domains c) d of None \<Rightarrow> 0 | Some e \<Rightarrow> ed_succeeded e) cs) \<and>
      ed_failed a = sum_list (map (\<lambda>c. case map_get (ce_domains c) d of None \<Rightarrow> 0 | Some e \<Rightarrow> ed_failed e) cs) \<and>
      (\<forall>name. list_all (\<lambda>f. count_at f (ed_stages a) name = sum_list (map (client_count f d name) cs)) COUNTS) \<and>
      (\<forall>name c. count_at (class_errors c) (ed_stages a) name = sum_list (map (client_count (class_errors c) d name) cs)))"

lemma aggregate_domain_exact: "aggregate_domain cs d = Inr a \<Longrightarrow> aggregate_exact cs d a"
  unfolding aggregate_exact_def COUNTS_def
  by (auto simp: sum_started.domain_adds sum_succeeded.domain_adds sum_failed.domain_adds sum_ambiguous.domain_adds
      sum_retryable.domain_adds sum_count.domain_adds sum_overflow.domain_adds sum_class.domain_adds)
    (auto simp: aggregate_domain_def result_simps dest!: client_totals_add)


text \<open>One client, one KV stage with two latency samples.\<close>

definition sample_pressure_log :: string where
  "sample_pressure_log = with_quotes
     (''{~event~:~stopped~,~worker~:~w-1~,~totals~:{~kv~:{~success~:2,~error~:0}},'' @
      ''~stages~:{~kv~:{~put~:{~started~:2,~succeeded~:2,~failed~:0,~ambiguous~:0,'' @
      ''~latency~:{~count~:2,~totalMs~:9,~maxMs~:7,~overflow~:0,~buckets~:[0,1,0,1,0,0,0,0,0,0,0,0,0,0,0]},'' @
      ''~errorClasses~:{}}}}}'')"

definition sample_stopped :: json where
  "sample_stopped = JObj
     [(''event'', JStr ''stopped''), (''worker'', JStr ''w-1''),
      (''totals'', JObj [(''kv'', JObj [(''success'', JNum 2), (''error'', JNum 0)])]),
      (''stages'', JObj [(''kv'', JObj [(''put'', JObj
         [(''started'', JNum 2), (''succeeded'', JNum 2), (''failed'', JNum 0), (''ambiguous'', JNum 0),
          (''latency'', JObj [(''count'', JNum 2), (''totalMs'', JNum 9), (''maxMs'', JNum 7), (''overflow'', JNum 0),
             (''buckets'', JArr [JNum 0, JNum 1, JNum 0, JNum 1, JNum 0, JNum 0, JNum 0, JNum 0, JNum 0, JNum 0, JNum 0,
                JNum 0, JNum 0, JNum 0, JNum 0])]),
          (''errorClasses'', JObj [])])])])]"

lemma sample_pressure_records: "parse_json_records sample_pressure_log = [sample_stopped]"
  by code_simp

lemma sample_pressure_analyzed: "is_ok (analyze_pressure_logs [(''c'', sample_pressure_log)] [Kv])"
  by (simp add: analyze_pressure_logs_def analyze_client_log_def sample_pressure_records find_last_def has_event_def
      sample_stopped_def json_get_def string_value_def object_value_def read_domain_def read_stages_def entries_of_def
      read_stage_def read_latency_def numeric_array_def numeric_value_def is_safe_integer_def max_safe_integer_def non_negative_value_def
      LATENCY_BUCKET_UPPER_MS_def read_error_classes_def read_cancellations_def is_ok_def Let_def)


subsection \<open>Progress in every window\<close>

definition domain_success :: "json \<Rightarrow> domain \<Rightarrow> nat option" where
  "domain_success found d =
     (case json_get found (domain_name d) of
        Some (JObj m) \<Rightarrow> (case numeric_value (json_get (JObj m) ''success'') [] of Inr n \<Rightarrow> Some n | Inl _ \<Rightarrow> None)
      | _ \<Rightarrow> None)"

definition window_of :: "json \<Rightarrow> json" where
  "window_of r = get_or JNull (json_get r ''window'')"

text \<open>A progress record within the run has a window with a number of successes for every domain.\<close>

definition readable_progress :: "domain list \<Rightarrow> rat \<Rightarrow> rat \<Rightarrow> json \<Rightarrow> bool" where
  "readable_progress domains started_ms completed_ms r =
     (progress_time started_ms completed_ms r = None \<or>
      is_plain_object (window_of r) \<and> list_all (\<lambda>d. domain_success (window_of r) d \<noteq> None) domains)"

definition success_in :: "rat \<Rightarrow> rat \<Rightarrow> rat \<Rightarrow> nat \<Rightarrow> domain \<Rightarrow> json \<Rightarrow> bool" where
  "success_in started_ms completed_ms window_ms i d r =
     (case progress_time started_ms completed_ms r of
        None \<Rightarrow> False
      | Some t \<Rightarrow> window_index (window_count started_ms completed_ms window_ms) started_ms window_ms t = i \<and>
          get_or 0 (domain_success (window_of r) d) > 0)"

definition steady_progress :: "domain list \<Rightarrow> rat \<Rightarrow> rat \<Rightarrow> rat \<Rightarrow> string \<Rightarrow> bool" where
  "steady_progress domains started_ms completed_ms window_ms l =
     (list_all (readable_progress domains started_ms completed_ms) (parse_json_records l) \<and>
      list_all (\<lambda>i. list_all (\<lambda>d. list_ex (success_in started_ms completed_ms window_ms i d) (parse_json_records l)) domains)
        [0..<window_count started_ms completed_ms window_ms])"

lemma numeric_value_label: "numeric_value v label = Inr n \<longleftrightarrow> numeric_value v [] = Inr n"
  by (auto simp: numeric_value_def split: option.splits json.splits if_splits)

lemma object_value_ok: "object_value v label = Inr r \<longleftrightarrow> v = Some r \<and> is_plain_object r"
  by (auto simp: object_value_def is_plain_object_def split: option.splits json.splits)

lemma add_window_ok: "add_window container found m d = Inr m' \<longleftrightarrow> (\<exists>n. domain_success found d = Some n \<and> m' = map_bump m d n)"
  by (auto simp: add_window_def domain_success_def result_simps object_value_ok is_plain_object_def
      numeric_value_label [of _ "container @ _"] split: option.splits json.splits sum.splits)

definition has_count :: "(domain, nat) js_map \<Rightarrow> domain \<Rightarrow> bool" where
  "has_count m d = (map_get m d \<noteq> None)"

definition positive :: "(domain, nat) js_map \<Rightarrow> domain \<Rightarrow> bool" where
  "positive m d = (get_or 0 (map_get m d) > 0)"

lemma bump_positive: "positive (map_bump m d n) d' \<longleftrightarrow> positive m d' \<or> d' = d \<and> n > 0"
  "has_count m d' \<Longrightarrow> has_count (map_bump m d n) d'"
  by (auto simp: positive_def has_count_def map_bump_def)

lemma add_windows_total:
  "(\<exists>m'. fold_result (add_window container found) m ds = Inr m') \<longleftrightarrow> list_all (\<lambda>d. domain_success found d \<noteq> None) ds"
  by (induction ds arbitrary: m) (auto simp: result_simps add_window_ok)

lemma add_windows:
  "fold_result (add_window container found) m ds = Inr m' \<Longrightarrow>
     (positive m' d \<longleftrightarrow> positive m d \<or> d \<in> set ds \<and> get_or 0 (domain_success found d) > 0) \<and> (has_count m d \<longrightarrow> has_count m' d)"
proof (induction ds arbitrary: m)
  case (Cons x ds)
  then obtain n where n: "domain_success found x = Some n" and "fold_result (add_window container found) (map_bump m x n) ds = Inr m'"
    by (auto simp: result_simps add_window_ok)
  from Cons.IH [OF this(2)] show ?case by (auto simp: bump_positive n)
qed simp

lemma window_index_less: "window_index (window_count a b w) a w t < window_count a b w"
  by (simp add: window_index_def window_count_def)

lemma add_progress_ok:
  "(\<exists>ts'. add_progress container domains a b w windows ts r = Inr ts') \<longleftrightarrow> readable_progress domains a b r"
  using add_windows_total [of container "window_of r" _ domains]
  by (cases "json_get r ''window''"; cases "progress_time a b r")
    (auto simp: add_progress_def readable_progress_def window_of_def Let_def result_simps object_value_ok is_plain_object_def)

lemma add_progress_counts:
  assumes "add_progress container domains a b w (window_count a b w) ts r = Inr ts'" "length ts = window_count a b w"
    and "i < length ts" "d \<in> set domains"
  shows "length ts' = length ts \<and> (positive (ts' ! i) d \<longleftrightarrow> positive (ts ! i) d \<or> success_in a b w i d r) \<and>
    (has_count (ts ! i) d \<longrightarrow> has_count (ts' ! i) d)"
proof (cases "progress_time a b r")
  case None
  then show ?thesis using assms(1) by (simp add: add_progress_def success_in_def)
next
  case (Some t)
  let ?i = "window_index (window_count a b w) a w t"
  obtain m where m: "fold_result (add_window container (window_of r)) (ts ! ?i) domains = Inr m" and ts': "ts' = ts[?i := m]"
    using assms(1) Some by (auto simp: add_progress_def window_of_def Let_def result_simps object_value_ok)
  show ?thesis
    using add_windows [OF m, of d] assms(2-4) window_index_less [of a b w t]
    by (cases "?i = i") (auto simp: ts' success_in_def Some)
qed

lemma all_progress_ok:
  "(\<exists>ts'. fold_result (add_progress container domains a b w windows) ts rs = Inr ts') \<longleftrightarrow> list_all (readable_progress domains a b) rs"
proof (induction rs arbitrary: ts)
  case (Cons r rs)
  then show ?case by (auto simp: result_simps simp flip: add_progress_ok [of container domains a b w windows ts])
qed simp

lemma all_progress_length:
  "fold_result (add_progress container domains a b w windows) ts rs = Inr ts' \<Longrightarrow> length ts' = length ts"
proof (induction rs arbitrary: ts)
  case (Cons r rs)
  then obtain us where "add_progress container domains a b w windows ts r = Inr us" "length ts' = length us"
    by (auto simp: result_simps)
  then show ?case by (auto simp: add_progress_def Let_def result_simps split: option.splits)
qed simp

lemma all_progress_counts:
  "fold_result (add_progress container domains a b w (window_count a b w)) ts rs = Inr ts' \<Longrightarrow> length ts = window_count a b w \<Longrightarrow>
     i < length ts \<Longrightarrow> d \<in> set domains \<Longrightarrow>
     length ts' = length ts \<and> (positive (ts' ! i) d \<longleftrightarrow> positive (ts ! i) d \<or> list_ex (success_in a b w i d) rs) \<and>
     (has_count (ts ! i) d \<longrightarrow> has_count (ts' ! i) d)"
proof (induction rs arbitrary: ts)
  case (Cons r rs)
  obtain us where us: "add_progress container domains a b w (window_count a b w) ts r = Inr us"
    and rest: "fold_result (add_progress container domains a b w (window_count a b w)) us rs = Inr ts'"
    using Cons.prems(1) by (auto simp: result_simps)
  from add_progress_counts [OF us Cons.prems(2-4)] Cons.IH [OF rest] Cons.prems show ?case by auto
qed simp

lemma empty_windows_counts:
  assumes "i < windows" "d \<in> set domains"
  shows "\<not> positive (empty_windows windows domains ! i) d" "has_count (empty_windows windows domains ! i) d"
proof -
  have "map_get (foldl (\<lambda>m d. map_set m d (0 :: nat)) m ds) d = (if d \<in> set ds then Some 0 else map_get m d)" for m ds
    by (induction ds arbitrary: m) auto
  then show "\<not> positive (empty_windows windows domains ! i) d" "has_count (empty_windows windows domains ! i) d"
    using assms by (simp_all add: empty_windows_def positive_def has_count_def)
qed

lemma missing_windows_none:
  assumes "\<And>i d. i < length ts \<Longrightarrow> d \<in> set domains \<Longrightarrow> has_count (ts ! i) d"
  shows "missing_windows container domains ts = [] \<longleftrightarrow> list_all (\<lambda>i. list_all (positive (ts ! i)) domains) [0..<length ts]"
proof -
  have "map_get (ts ! i) d \<noteq> Some 0 \<longleftrightarrow> positive (ts ! i) d" if "i < length ts" "d \<in> set domains" for i d
    using assms [OF that] by (auto simp: has_count_def positive_def)
  moreover have "zip [0..<length ts] ts = map (\<lambda>i. (i, ts ! i)) [0..<length ts]"
    by (rule nth_equalityI) simp_all
  ultimately show ?thesis by (auto simp: missing_windows_def list_all_iff filter_empty_conv)
qed

lemma steady_progress_iff:
  "(\<exists>ts. fold_result (add_progress container domains a b w (window_count a b w)) (empty_windows (window_count a b w) domains)
       (parse_json_records l) = Inr ts \<and> missing_windows container domains ts = []) \<longleftrightarrow> steady_progress domains a b w l"
  (is "?passes \<longleftrightarrow> _")
proof (cases "list_all (readable_progress domains a b) (parse_json_records l)")
  case True
  let ?n = "window_count a b w"
  obtain ts where ts: "fold_result (add_progress container domains a b w ?n) (empty_windows ?n domains) (parse_json_records l) = Inr ts"
    using True all_progress_ok by blast
  have n: "length (empty_windows ?n domains) = ?n" by (simp add: empty_windows_def)
  have len: "length ts = ?n"
    using all_progress_length [OF ts] n by simp
  have counts: "(positive (ts ! i) d \<longleftrightarrow> list_ex (success_in a b w i d) (parse_json_records l)) \<and> has_count (ts ! i) d"
    if "i < ?n" "d \<in> set domains" for i d
    using all_progress_counts [OF ts n, of i d] empty_windows_counts [OF that] that n by simp
  then have "missing_windows container domains ts = [] \<longleftrightarrow> steady_progress domains a b w l"
    using True by (subst missing_windows_none) (auto simp: len steady_progress_def list_all_iff)
  then show ?thesis using ts by simp
next
  case False
  then show ?thesis unfolding steady_progress_def by (metis all_progress_ok)
qed

text \<open>
  The progress assertion passes exactly when every client's log is well formed and shows, in
  every window of the run and for every selected domain, a progress record with a success.
\<close>
lemma progress_windows_exact:
  "assert_progress_windows logs domains started_ms completed_ms window_ms = Inr () \<longleftrightarrow>
     list_all (\<lambda>(_, l). steady_progress domains started_ms completed_ms window_ms l) logs"
proof -
  let ?check = "\<lambda>missing (container, l).
    try_in (fold_result (add_progress container domains started_ms completed_ms window_ms
        (window_count started_ms completed_ms window_ms))
      (empty_windows (window_count started_ms completed_ms window_ms) domains) (parse_json_records l)) (\<lambda>ts.
    Inr (missing @ missing_windows container domains ts))"
  have "(\<exists>missing. fold_result ?check found logs = Inr missing \<and> missing = []) \<longleftrightarrow>
      found = [] \<and> list_all (\<lambda>(_, l). steady_progress domains started_ms completed_ms window_ms l) logs" for found
  proof (induction logs arbitrary: found)
    case (Cons entry logs)
    obtain container l where entry: "entry = (container, l)" by (cases entry)
    show ?case
      using Cons.IH steady_progress_iff [of container domains started_ms completed_ms window_ms l]
      by (auto simp: entry result_simps)
  qed auto
  from this [of "[]"] show ?thesis
    by (auto simp: assert_progress_windows_def Let_def result_simps)
qed

end
