(* ===== verification/PressureRun.thy ===== *)
theory PressureRun
  imports PressureAggregate StackCalls ComposeLife
begin

text \<open>
  The pressure scenarios (domain-pressure and soak): \<^verbatim>\<open>runPressureScenario\<close> of
  src/orchestration/pressure.ts with its sampling loop, the reconciliation of the queue and the
  evidence file.  A failed assertion does not end the run: it is recorded, the evidence is written, and
  the scenario throws at the end.  A sample appended to soak-samples.ndjson is logged as a
  \<^verbatim>\<open>JsonWritten\<close> call; the message of a warning is a template with its values.
\<close>

datatype pressure_kind = DomainPressure | Soak

fun pressure_name :: "pressure_kind \<Rightarrow> string" where
  "pressure_name DomainPressure = ''domain-pressure''"
| "pressure_name Soak = ''soak''"

subsection \<open>Sampling\<close>

definition append_sample :: "'o stack \<Rightarrow> broker_sample \<Rightarrow> ('o, unit) action" where
  "append_sample st s =
     effect [JsonWritten ''soak-samples.ndjson'' (sample_json s)] (host_append (host_of st) ''soak-samples.ndjson'' (sample_json s))"

text \<open>The samples are the local variable: they are kept when a later sample fails.\<close>

definition take_sample :: "'o stack \<Rightarrow> bool \<Rightarrow> ('o world \<times> broker_sample list, unit) script" where
  "take_sample st persist =
     run_then (outer (pressure_snapshot st)) (\<lambda>s.
     run_then get_local (\<lambda>samples.
     run_then (set_local (samples @ [s])) (\<lambda>_.
     outer (when_do persist (append_sample st s)))))"

definition sample_round ::
  "'o stack \<Rightarrow> rat \<Rightarrow> rat \<Rightarrow> bool \<Rightarrow> rat \<Rightarrow> ('o world \<times> broker_sample list, rat + unit) script" where
  "sample_round st deadline sample_ms persist next_at =
     run_then (outer (date_now (host_of st))) (\<lambda>t.
     if \<not> t < deadline then ret (Inr ())
     else
     run_then (outer (date_now (host_of st))) (\<lambda>t1.
     run_then (outer (date_now (host_of st))) (\<lambda>t2.
     run_then (outer (sleep (host_of st) (max 0 \<lfloor>min (fl (next_at - t1)) (fl (deadline - t2))\<rfloor>))) (\<lambda>_.
     run_then (outer (date_now (host_of st))) (\<lambda>t3.
     if deadline \<le> t3 then ret (Inr ())
     else run_then (take_sample st persist) (\<lambda>_. ret (Inl (fl (next_at + sample_ms)))))))))"

definition sample_pressure ::
  "'o stack \<Rightarrow> rat \<Rightarrow> rat \<Rightarrow> bool \<Rightarrow> ('o world \<times> broker_sample list, unit) script" where
  "sample_pressure st duration_ms sample_ms persist =
     run_then (outer (date_now (host_of st))) (\<lambda>t.
     run_then (outer (date_now (host_of st))) (\<lambda>t'.
     poll (fuel st) (sample_round st (fl (t + duration_ms)) sample_ms persist) (fl (t' + sample_ms))))"

record pressure_window =
  pw_started :: rat
  pw_completed :: rat
  pw_failure :: "error option"
  pw_samples :: "broker_sample list"

definition requested_duration :: "run_config \<Rightarrow> pressure_kind \<Rightarrow> rat" where
  "requested_duration config kind = of_int (case kind of Soak \<Rightarrow> durationMs config | DomainPressure \<Rightarrow> phaseMs config)"

definition measured_window :: "'o stack \<Rightarrow> run_config \<Rightarrow> pressure_kind \<Rightarrow> ('o, pressure_window) action" where
  "measured_window st config kind =
     run_then (read_clock (host_timestamp (host_of st))) (\<lambda>since.
     run_then (wait_for_all_client_domains st since (nat (clientReplicas config))) (\<lambda>_.
     run_then (date_now (host_of st)) (\<lambda>started_at.
     run_then (with_local []
       (run_then (attempt (sample_pressure st (requested_duration config kind) (of_int (sampleMs config)) (kind = Soak))) (\<lambda>outcome.
        run_then get_local (\<lambda>samples. ret (outcome, samples))))) (\<lambda>(outcome, samples).
     run_then (date_now (host_of st)) (\<lambda>completed_at.
     ret \<lparr>pw_started = started_at, pw_completed = completed_at,
       pw_failure = (case outcome of Inl e \<Rightarrow> Some e | Inr _ \<Rightarrow> None), pw_samples = samples\<rparr>)))))"

subsection \<open>What is checked\<close>

definition failure_of :: "string \<Rightarrow> 'a result \<Rightarrow> error list" where
  "failure_of lead r = (case r of Inl e \<Rightarrow> [also_error (lead @ ''Error: '') e] | Inr _ \<Rightarrow> [])"

definition analyzed_clients :: "run_config \<Rightarrow> role_logs \<Rightarrow> client_evidence list" where
  "analyzed_clients config logs =
     (case analyze_pressure_logs logs (bombardDomains config) of Inl _ \<Rightarrow> [] | Inr cs \<Rightarrow> cs)"

definition window_check :: "run_config \<Rightarrow> pressure_kind \<Rightarrow> pressure_window \<Rightarrow> role_logs \<Rightarrow> unit result" where
  "window_check config kind pw logs =
     assert_progress_windows logs (bombardDomains config) (pw_started pw)
       (pressure_verification_completed_at_ms (pw_started pw) (pw_completed pw) (requested_duration config kind)) PROGRESS_WINDOW_MS"

definition log_failures :: "run_config \<Rightarrow> pressure_kind \<Rightarrow> pressure_window \<Rightarrow> role_logs \<Rightarrow> error list" where
  "log_failures config kind pw logs =
     (let unexpected = pressure_unexpected_errors (analyzed_clients config logs) (bombardDomains config) in
     (case pw_failure pw of None \<Rightarrow> [] | Some e \<Rightarrow> [also_error ''broker sampling failed: Error: '' e]) @
     (if int (length logs) = clientReplicas config then []
      else [Error ''expected $ bombard client logs, captured $'' [AInt (clientReplicas config), ANat (length logs)]]) @
     failure_of ''pressure log analysis failed: '' (analyze_pressure_logs logs (bombardDomains config)) @
     failure_of [] (window_check config kind pw logs) @
     (if unexpected = [] then [] else [Error ''unexpected pressure errors: $'' [AStrs unexpected]]))"

definition observed_sequences :: "json \<Rightarrow> string list \<Rightarrow> (string, rat list) js_map result" where
  "observed_sequences observed names =
     fold_result (\<lambda>m name. try_in (read_sequences observed name (name @ '' observed'')) (\<lambda>ns. Inr (map_set m name ns))) [] names"

definition client_outcomes :: "client_evidence list \<Rightarrow> queue_client_outcome list result" where
  "client_outcomes cs =
     traverse (\<lambda>c. case ce_queueOutcome c of Some q \<Rightarrow> Inr q
       | None \<Rightarrow> Inl (Error ''$ omitted queue outcome evidence'' [AStr (ce_worker c)])) cs"

definition reconciled_logs :: "client_evidence list \<Rightarrow> role_logs \<Rightarrow> queue_reconciliation result" where
  "reconciled_logs cs logs =
     try_in (case logs of [(_, l)] \<Rightarrow> Inr l | _ \<Rightarrow> Inl (Error ''Expected one pressure reconciler log, found $'' [ANat (length logs)])) (\<lambda>l.
     try_in (case find_last (has_event ''pressure_queue_reconcile_complete'') (parse_json_records l) of
         None \<Rightarrow> Inl (Error ''Pressure reconciler omitted completion evidence'' []) | Some r \<Rightarrow> Inr r) (\<lambda>r.
     try_in (object_value (json_get r ''observed'') ''pressure reconciler observed'') (\<lambda>observed.
     try_in (observed_sequences observed (map ce_worker cs)) (\<lambda>found.
     try_in (client_outcomes cs) (\<lambda>outcomes.
     reconcile_queue_outcomes outcomes found)))))"

definition reconcile_pressure_queue ::
  "'o stack \<Rightarrow> workload_shape \<Rightarrow> client_evidence list \<Rightarrow> ('o, queue_reconciliation) action" where
  "reconcile_pressure_queue st shape cs =
     run_then (start_role_containers st ''pressure-reconciler'' 1 shape
       [(''DESTROYER_PRESSURE_WORKERS'', join_with '','' (map ce_worker cs))]) (\<lambda>containers.
     run_then (finish_role_containers st containers ''pressure-reconciler'') (\<lambda>logs.
     of_result (reconciled_logs cs logs)))"

text \<open>The sample is kept when writing it down fails.\<close>

definition final_sample :: "'o stack \<Rightarrow> pressure_kind \<Rightarrow> ('o, broker_sample list \<times> error list) action" where
  "final_sample st kind =
     run_then (attempt (wait_for_pressure_quiescence st)) (\<lambda>quiescent.
     case quiescent of
       Inl e \<Rightarrow> ret ([], failure_of ''post-run quiescence failed: '' (Inl e :: unit result))
     | Inr s \<Rightarrow>
         run_then (attempt (when_do (kind = Soak) (append_sample st s))) (\<lambda>written.
         ret ([s], failure_of ''post-run quiescence failed: '' written)))"

definition warning_inputs :: "client_evidence list \<Rightarrow> stage_latency list" where
  "warning_inputs cs =
     concat (map (\<lambda>c. concat (map (\<lambda>(d, e). map (\<lambda>(name, s).
       \<lparr>client = ce_worker c, domain_of = d, stage = name, latency_of = ev_histogram s\<rparr>) (ed_stages e)) (ce_domains c))) cs)"

subsection \<open>The evidence file\<close>

definition histogram_json :: "latency_histogram \<Rightarrow> json" where
  "histogram_json h = JObj
     [(''count'', jnat (count h)), (''totalMs'', JNum (totalMs h)), (''maxMs'', JNum (maxMs h)),
      (''buckets'', JArr (map jnat (buckets h))), (''overflow'', jnat (overflow h))]"

definition latency_json :: "latency_report \<Rightarrow> json" where
  "latency_json l = JObj
     [(''count'', jnat (count_sum l)), (''meanMs'', JNum (meanMs l)), (''p50Ms'', JNum (p50Ms l)), (''p95Ms'', JNum (p95Ms l)),
      (''p99Ms'', JNum (p99Ms l)), (''maxMs'', JNum (maxMs_sum l))]"

definition evidence_stage_json :: "evidence_stage \<Rightarrow> json" where
  "evidence_stage_json s = JObj
     [(''started'', jnat (ev_started s)), (''succeeded'', jnat (ev_succeeded s)), (''failed'', jnat (ev_failed s)),
      (''ambiguous'', jnat (ev_ambiguous s)), (''retryableBackpressure'', jnat (ev_retryable s)),
      (''expectedShutdownCancellations'',
         JObj [(''failed'', jnat (failed_esc (ev_cancellations s))), (''ambiguous'', jnat (ambiguous_esc (ev_cancellations s)))]),
      (''latencyHistogram'', histogram_json (ev_histogram s)), (''latency'', latency_json (ev_latency s)),
      (''errorClasses'', JObj (map (\<lambda>(name, n). (name, jnat n)) (ev_errorClasses s))),
      (''errorSamples'', JArr (map (\<lambda>(c, e). JObj [(''class'', JStr c), (''error'', JStr e)]) (ev_errorSamples s)))]"

definition evidence_domains_json :: "(domain, evidence_domain) js_map \<Rightarrow> json" where
  "evidence_domains_json ds = JObj (map (\<lambda>(d, e). (domain_name d, JObj
     [(''succeeded'', jnat (ed_succeeded e)), (''failed'', jnat (ed_failed e)),
      (''stages'', JObj (map (\<lambda>(name, s). (name, evidence_stage_json s)) (ed_stages e)))])) ds)"

definition jnums :: "rat list \<Rightarrow> json" where
  "jnums xs = JArr (map JNum xs)"

definition queue_outcome_entries :: "queue_client_outcome \<Rightarrow> (string \<times> json) list" where
  "queue_outcome_entries q =
     [(''worker'', JStr (worker q)), (''acknowledged'', jnums (acknowledged q)), (''ambiguousEnqueues'', jnums (ambiguousEnqueues q)),
      (''failedEnqueues'', jnums (failedEnqueues q)), (''completed'', jnums (completed q)),
      (''ambiguousCompletions'', jnums (ambiguousCompletions q))]"

definition client_evidence_json :: "client_evidence \<Rightarrow> json" where
  "client_evidence_json c = JObj
     ([(''container'', JStr (ce_container c)), (''worker'', JStr (ce_worker c)), (''domains'', evidence_domains_json (ce_domains c))] @
      (case ce_queueOutcome c of None \<Rightarrow> [] | Some q \<Rightarrow> [(''queueOutcome'', JObj (queue_outcome_entries q))]))"

definition reconciliation_json :: "queue_reconciliation option \<Rightarrow> json" where
  "reconciliation_json r =
     (case r of
        None \<Rightarrow> JNull
      | Some q \<Rightarrow> JObj
          [(''verdict'', JStr ''reconciled''),
           (''totals'', JObj
              [(''acknowledged'', jnat (acknowledged_tot (totals q))), (''ambiguousEnqueues'', jnat (ambiguousEnqueues_tot (totals q))),
               (''failedEnqueues'', jnat (failedEnqueues_tot (totals q))), (''completed'', jnat (completed_tot (totals q))),
               (''ambiguousCompletions'', jnat (ambiguousCompletions_tot (totals q))), (''observed'', jnat (observed_tot (totals q)))]),
           (''clients'', JArr (map (\<lambda>(oc, found). JObj (queue_outcome_entries oc @ [(''observed'', jnums found)])) (clients q)))])"

definition broker_summary_json :: "broker_summary \<Rightarrow> json" where
  "broker_summary_json b = JObj
     [(''observedMailboxHighWaterDepth'', JNum (bs_mailboxHighWater b)), (''finalQueuePending'', JNum (bs_finalQueuePending b)),
      (''finalRpcPending'', JNum (bs_finalRpcPending b)), (''ingressDispatchTimeoutsDelta'', JNum (bs_ingressTimeouts b)),
      (''routerBackpressureDelta'', JNum (bs_backpressure b)), (''routerHighLaneBackpressureDelta'', JNum (bs_highLaneBackpressure b))]"

definition rss_json :: "rss_growth_assessment \<Rightarrow> json" where
  "rss_json a =
     (case a of Assessed \<Rightarrow> JObj [(''status'', JStr ''assessed'')]
      | NotAssessed why \<Rightarrow> JObj [(''status'', JStr ''not-assessed''), (''reason'', JStr why)])"

fun warning_entries :: "pressure_warning \<Rightarrow> (string \<times> json) list" where
  "warning_entries (LatencyNearTimeout item l timeout) =
     [(''code'', JStr ''latency-near-timeout''),
      (''message'', JArr [JStr ''$ $/$ p95 $ ms exceeds half the request timeout'', JStr (client item),
         JStr (domain_name (domain_of item)), JStr (stage item), JNum (p95Ms l)]),
      (''details'', JObj [(''client'', JStr (client item)), (''domain'', JStr (domain_name (domain_of item))),
         (''stage'', JStr (stage item)), (''latency'', latency_json l), (''requestTimeoutMs'', JNum timeout)])]"
| "warning_entries (PendingGrowth final) =
     [(''code'', JStr ''pending-growth''), (''message'', JStr ''Broker pending work grew through the final three samples''),
      (''details'', JObj [(''finalPendingWork'', jnums final)])]"
| "warning_entries (RssGrowth baseline final growth) =
     [(''code'', JStr ''rss-growth''), (''message'', JStr ''Post-warmup Fitz RSS grew by at least 25% and 64 MiB''),
      (''details'', JObj [(''baselineRssBytes'', JNum baseline), (''finalRssBytes'', JNum final), (''growthBytes'', JNum growth)])]"

text \<open>A message of an assertion failure: its template and the values in it.\<close>

definition arg_json :: "arg \<Rightarrow> json" where
  "arg_json a =
     (case a of ANat n \<Rightarrow> jnat n | AInt n \<Rightarrow> jint n | ARat x \<Rightarrow> JNum x | AStr s \<Rightarrow> JStr s | ASeq ns \<Rightarrow> JArr (map jnat ns)
      | AStrs ss \<Rightarrow> jstrs ss | AJson v \<Rightarrow> v)"

definition error_json :: "error \<Rightarrow> json" where
  "error_json e = (case e of Error t args \<Rightarrow> JArr (JStr t # map arg_json args))"

definition pressure_evidence ::
  "run_config \<Rightarrow> pressure_kind \<Rightarrow> pressure_window \<Rightarrow> client_evidence list \<Rightarrow> (domain, evidence_domain) js_map \<Rightarrow>
   queue_reconciliation option \<Rightarrow> broker_sample list \<Rightarrow> pressure_warning list \<Rightarrow> error list \<Rightarrow> json" where
  "pressure_evidence config kind pw cs all_domains reconciliation samples warnings failures = JObj
     [(''scenario'', JStr (pressure_name kind)), (''startedAt'', JStr (iso_of_ms \<lfloor>pw_started pw\<rfloor>)),
      (''completedAt'', JStr (iso_of_ms \<lfloor>pw_completed pw\<rfloor>)), (''durationMs'', JNum (fl (pw_completed pw - pw_started pw))),
      (''sampleMs'', jint (sampleMs config)), (''requestTimeoutMs'', jint (requestTimeoutMs config)),
      (''selectedDomains'', jstrs (map domain_name (bombardDomains config))),
      (''clients'', JArr (map client_evidence_json cs)), (''aggregate'', evidence_domains_json all_domains),
      (''queueReconciliation'', reconciliation_json reconciliation), (''brokerSnapshots'', JArr (map sample_json samples)),
      (''brokerSummary'', broker_summary_json (summarize_broker_snapshots samples)),
      (''rssGrowthAssessment'', rss_json (rss_growth_assessment (bombardDomains config))),
      (''warnings'', JArr (map (\<lambda>x. JObj (warning_entries x)) warnings)),
      (''assertionFailures'', JArr (map error_json failures))]"

subsection \<open>The scenario\<close>

definition attempted_reconciliation ::
  "'o stack \<Rightarrow> run_config \<Rightarrow> workload_shape \<Rightarrow> client_evidence list \<Rightarrow> ('o, queue_reconciliation result option) action" where
  "attempted_reconciliation st config shape cs =
     (if Queue \<in> set (bombardDomains config) \<and> cs \<noteq> []
      then run_then (attempt (reconcile_pressure_queue st shape cs)) (\<lambda>r. ret (Some r)) else ret None)"

definition reconciliation_failures :: "queue_reconciliation result option \<Rightarrow> error list" where
  "reconciliation_failures r = (case r of None \<Rightarrow> [] | Some q \<Rightarrow> failure_of ''queue reconciliation failed: '' q)"

definition reconciliation_value :: "queue_reconciliation result option \<Rightarrow> queue_reconciliation option" where
  "reconciliation_value r = (case r of Some (Inr q) \<Rightarrow> Some q | _ \<Rightarrow> None)"

definition report_pressure ::
  "'o stack \<Rightarrow> run_config \<Rightarrow> pressure_kind \<Rightarrow> rat \<Rightarrow> pressure_window \<Rightarrow> client_evidence list \<Rightarrow> queue_reconciliation option \<Rightarrow>
   broker_sample list \<Rightarrow> error list \<Rightarrow> ('o, unit) action" where
  "report_pressure st config kind started_at pw cs reconciliation samples failures =
     (let warnings = diagnostic_warnings (warning_inputs cs) samples (of_int (requestTimeoutMs config)) (bombardDomains config) in
     run_then (each (\<lambda>x. event st ''pressure_diagnostic_warning'' (warning_entries x)) warnings) (\<lambda>_.
     run_then (of_result (aggregate_clients cs (bombardDomains config))) (\<lambda>all_domains.
     run_then (artifact_write_json (host_of st) ''pressure-evidence.json''
       (pressure_evidence config kind pw cs all_domains reconciliation samples warnings failures)) (\<lambda>_.
     run_then (elapsed_since (host_of st) started_at) (\<lambda>ms.
     run_then (event st ''pressure_complete''
       [(''scenario'', JStr (pressure_name kind)), (''clients'', jnat (length cs)), (''warnings'', jnat (length warnings)),
        (''assertionFailures'', jnat (length failures)), (''elapsedMs'', jint ms)]) (\<lambda>_.
     if failures = [] then ret ()
     else fail (Error ''Pressure assertions failed: $'' [AJson (JArr (map error_json failures))])))))))"

definition run_pressure_scenario :: "'o stack \<Rightarrow> run_config \<Rightarrow> workload_shape \<Rightarrow> pressure_kind \<Rightarrow> ('o, unit) action" where
  "run_pressure_scenario st config shape kind =
     run_then (performance_now (host_of st)) (\<lambda>started_at.
     run_then (event st ''pressure_started''
       [(''scenario'', JStr (pressure_name kind)), (''clients'', jint (clientReplicas config)),
        (''durationMs'', JNum (requested_duration config kind)), (''sampleMs'', jint (sampleMs config)),
        (''domains'', jstrs (map domain_name (bombardDomains config)))]) (\<lambda>_.
     run_then (date_now (host_of st)) (\<lambda>_.
     run_then (start_clients st (nat (clientReplicas config))) (\<lambda>_.
     run_then (attempt (measured_window st config kind)) (\<lambda>outcome.
     run_then (stop_bombard_clients_and_capture st (pressure_name kind)) (\<lambda>logs.
     run_then (of_result outcome) (\<lambda>pw.
     run_then (attempted_reconciliation st config shape (analyzed_clients config logs)) (\<lambda>reconciled.
     run_then (final_sample st kind) (\<lambda>(final, final_failures).
     report_pressure st config kind started_at pw (analyzed_clients config logs) (reconciliation_value reconciled)
       (pw_samples pw @ final)
       (log_failures config kind pw logs @ reconciliation_failures reconciled @ final_failures))))))))))"

subsection \<open>What the evidence of a passed run says\<close>

definition reconciled :: "client_evidence list \<Rightarrow> queue_reconciliation option \<Rightarrow> bool" where
  "reconciled cs r =
     (\<exists>q outcomes observed. r = Some q \<and> client_outcomes cs = Inr outcomes \<and> reconcile_queue_outcomes outcomes observed = Inr q)"

text \<open>
  Evidence without an assertion failure: the logs of every client were captured and analysed, each
  client progressed in every domain and window, no domain saw an unexpected error, the queue was
  reconciled, and the aggregate is the sum of the clients.
\<close>

definition clean_evidence :: "run_config \<Rightarrow> (string \<times> json) list \<Rightarrow> bool" where
  "clean_evidence config m =
     (\<exists>logs cs a b all_domains r.
        int (length logs) = clientReplicas config \<and> analyze_pressure_logs logs (bombardDomains config) = Inr cs \<and>
        list_all (\<lambda>(_, l). steady_progress (bombardDomains config) a b PROGRESS_WINDOW_MS l) logs \<and>
        pressure_unexpected_errors cs (bombardDomains config) = [] \<and>
        (Queue \<in> set (bombardDomains config) \<and> cs \<noteq> [] \<longrightarrow> reconciled cs r) \<and>
        list_all (\<lambda>d. \<exists>e. map_get all_domains d = Some e \<and> aggregate_exact cs d e) (bombardDomains config) \<and>
        map_get m ''clients'' = Some (JArr (map client_evidence_json cs)) \<and>
        map_get m ''aggregate'' = Some (evidence_domains_json all_domains) \<and>
        map_get m ''queueReconciliation'' = Some (reconciliation_json r))"

definition sound_pressure_evidence :: "run_config \<Rightarrow> os_call \<Rightarrow> bool" where
  "sound_pressure_evidence config c =
     (case c of
        JsonWritten n (JObj m) \<Rightarrow>
          n = ''pressure-evidence.json'' \<and> map_get m ''assertionFailures'' = Some (JArr []) \<longrightarrow> clean_evidence config m
      | _ \<Rightarrow> True)"

text \<open>A scenario that returns has written evidence without a failure.\<close>

definition returns_only_clean :: "('o, unit) action \<Rightarrow> bool" where
  "returns_only_clean act =
     (\<forall>w w'. act w = (Inr (), w') \<longrightarrow>
        list_ex (\<lambda>c. case c of JsonWritten n (JObj m) \<Rightarrow>
          n = ''pressure-evidence.json'' \<and> map_get m ''assertionFailures'' = Some (JArr []) | _ \<Rightarrow> False) (calls w'))"

interpretation pressure_calls: quiet_stack "[''pressure-evidence.json'']" "sound_pressure_evidence config" for config
  by unfold_locales
    (auto simp: sound_pressure_evidence_def reports_under_def STACK_REPORTS_def split: os_call.splits json.splits)

lemma append_sample_calls [calls_intros]: "only_calls (sound_pressure_evidence config) (append_sample st s)"
  unfolding append_sample_def by (intro calls_intros) simp

lemma sampling_calls [calls_intros]:
  "only_calls (sound_pressure_evidence config)
     (with_local [] (run_then (attempt (sample_pressure st d ms persist)) (\<lambda>outcome.
        run_then get_local (\<lambda>samples. ret (outcome, samples)))))"
  unfolding sample_pressure_def sample_round_def take_sample_def
  by (rule keeps_only_calls, rule keeps_with_local, intro keeps_intros keeps_locals)
    (fastforce intro!: only_calls_keeps calls_intros)+

lemma bombard_logs_calls [calls_intros]:
  "only_calls (sound_pressure_evidence config) (capture_bombard_logs st label i cs)"
  by (induction cs arbitrary: i) (simp_all add: calls_intros)

lemma client_calls [calls_intros]:
  "only_calls (sound_pressure_evidence config) (start_clients st n)"
  "only_calls (sound_pressure_evidence config) (wait_for_all_client_domains st since n)"
  "only_calls (sound_pressure_evidence config) (stop_bombard_clients_and_capture st label)"
  unfolding start_clients_def wait_for_all_client_domains_def progress_round_def logs_since_def
    stop_bombard_clients_and_capture_def stop_clients_def Let_def
  by (intro calls_intros pressure_calls.calls_event; simp)+

lemma reconciliation_calls [calls_intros]:
  "only_calls (sound_pressure_evidence config) (attempted_reconciliation st config' shape cs)"
  unfolding attempted_reconciliation_def reconcile_pressure_queue_def by (intro calls_intros)

text \<open>What an empty list of failures means.\<close>

definition clean_logs :: "run_config \<Rightarrow> role_logs \<Rightarrow> client_evidence list \<Rightarrow> bool" where
  "clean_logs config logs cs =
     (\<exists>a b. int (length logs) = clientReplicas config \<and> analyze_pressure_logs logs (bombardDomains config) = Inr cs \<and>
        list_all (\<lambda>(_, l). steady_progress (bombardDomains config) a b PROGRESS_WINDOW_MS l) logs \<and>
        pressure_unexpected_errors cs (bombardDomains config) = [])"

lemma failure_of_none: "failure_of lead r = [] \<longleftrightarrow> (\<exists>x. r = Inr x)"
  by (auto simp: failure_of_def split: sum.splits)

lemma no_log_failures:
  "log_failures config kind pw logs = [] \<Longrightarrow> clean_logs config logs (analyzed_clients config logs)"
  unfolding log_failures_def clean_logs_def analyzed_clients_def window_check_def Let_def
  by (auto simp: failure_of_none progress_windows_exact split: if_splits option.splits)

lemma aggregate_exact_of_logs:
  "clean_logs config logs cs \<Longrightarrow> aggregate_clients cs (bombardDomains config) = Inr all_domains \<Longrightarrow>
     list_all (\<lambda>d. \<exists>e. map_get all_domains d = Some e \<and> aggregate_exact cs d e) (bombardDomains config)"
  unfolding list_all_iff
proof
  fix d assume "aggregate_clients cs (bombardDomains config) = Inr all_domains" "d \<in> set (bombardDomains config)"
  then show "\<exists>e. map_get all_domains d = Some e \<and> aggregate_exact cs d e"
    using aggregated_domain [of "aggregate_domain cs" "[]" "bombardDomains config" all_domains d]
    by (auto simp: aggregate_clients_def dest: aggregate_domain_exact)
qed

lemma report_calls:
  assumes "failures = [] \<Longrightarrow> clean_logs config logs cs"
    and "failures = [] \<Longrightarrow> Queue \<in> set (bombardDomains config) \<Longrightarrow> cs \<noteq> [] \<Longrightarrow> reconciled cs r"
  shows "only_calls (sound_pressure_evidence config) (report_pressure st config kind started_at pw cs r samples failures)"
  unfolding report_pressure_def Let_def
proof (intro only_calls_of_result_then calls_intros pressure_calls.calls_event)
  fix all_domains assume agg: "aggregate_clients cs (bombardDomains config) = Inr all_domains"
  have "clean_evidence config m"
    if ev: "pressure_evidence config kind pw cs all_domains r samples warnings failures = JObj m" and none: "failures = []" for m warnings
  proof -
    obtain a b where "int (length logs) = clientReplicas config" "analyze_pressure_logs logs (bombardDomains config) = Inr cs"
      "list_all (\<lambda>(_, l). steady_progress (bombardDomains config) a b PROGRESS_WINDOW_MS l) logs"
      "pressure_unexpected_errors cs (bombardDomains config) = []"
      using assms(1) [OF none] by (auto simp: clean_logs_def)
    moreover have "list_all (\<lambda>d. \<exists>e. map_get all_domains d = Some e \<and> aggregate_exact cs d e) (bombardDomains config)"
      using aggregate_exact_of_logs [OF assms(1) [OF none] agg] .
    moreover have "Queue \<in> set (bombardDomains config) \<and> cs \<noteq> [] \<longrightarrow> reconciled cs r" using assms(2) none by blast
    moreover have "map_get m ''clients'' = Some (JArr (map client_evidence_json cs))"
      "map_get m ''aggregate'' = Some (evidence_domains_json all_domains)"
      "map_get m ''queueReconciliation'' = Some (reconciliation_json r)"
      using ev by (auto simp: pressure_evidence_def)
    ultimately show ?thesis unfolding clean_evidence_def by blast
  qed
  then show "only_calls (sound_pressure_evidence config) (artifact_write_json (host_of st) ''pressure-evidence.json''
      (pressure_evidence config kind pw cs all_domains r samples warnings failures))" for warnings
    unfolding artifact_write_json_def
    by (intro only_calls_effect) (auto simp: sound_pressure_evidence_def pressure_evidence_def split: json.splits)
qed simp_all

lemma returns_only_clean_then: "(\<And>x. returns_only_clean (k x)) \<Longrightarrow> returns_only_clean (run_then m k)"
  by (auto simp: returns_only_clean_def script_ok)

lemma returns_only_clean_pair: "(\<And>x y. returns_only_clean (f x y)) \<Longrightarrow> returns_only_clean (case z of (x, y) \<Rightarrow> f x y)"
  by (cases z) simp

lemma only_calls_grows: "only_calls P m \<Longrightarrow> m w = (r, w') \<Longrightarrow> set (calls w) \<subseteq> set (calls w')"
  unfolding only_calls_def by (metis Un_upper1 set_append snd_conv)

lemma report_clean: "returns_only_clean (report_pressure st config kind started_at pw cs r samples failures)"
  unfolding returns_only_clean_def
proof (intro allI impI)
  fix w w' assume "report_pressure st config kind started_at pw cs r samples failures w = (Inr (), w')"
  then obtain all_domains warnings w1 w2 w3 ms where none: "failures = []"
    and written: "artifact_write_json (host_of st) ''pressure-evidence.json''
        (pressure_evidence config kind pw cs all_domains r samples warnings failures) w1 = (Inr (), w2)"
    and rest: "elapsed_since (host_of st) started_at w2 = (Inr ms, w3)"
      "event st ''pressure_complete''
        [(''scenario'', JStr (pressure_name kind)), (''clients'', jnat (length cs)), (''warnings'', jnat (length warnings)),
         (''assertionFailures'', jnat (length failures)), (''elapsedMs'', jint ms)] w3 = (Inr (), w')"
    by (auto simp: report_pressure_def Let_def script_ok split: if_splits)
  have "JsonWritten ''pressure-evidence.json'' (pressure_evidence config kind pw cs all_domains r samples warnings failures) \<in> set (calls w2)"
    using written by (auto simp: artifact_write_json_def effect_def split: prod.splits)
  moreover have "set (calls w2) \<subseteq> set (calls w')"
    using only_calls_grows [OF any_calls.calls_host(5) rest(1)] only_calls_grows [OF any_calls.calls_event rest(2)] by auto
  ultimately show "list_ex (\<lambda>c. case c of JsonWritten n (JObj m) \<Rightarrow>
      n = ''pressure-evidence.json'' \<and> map_get m ''assertionFailures'' = Some (JArr []) | _ \<Rightarrow> False) (calls w')"
    unfolding list_ex_iff
    by (intro bexI [of _ "JsonWritten ''pressure-evidence.json'' (pressure_evidence config kind pw cs all_domains r samples warnings failures)"])
      (auto simp: pressure_evidence_def none)
qed

lemma attempted_reconciled:
  "returns (\<lambda>r. reconciliation_failures r = [] \<longrightarrow> Queue \<in> set (bombardDomains config) \<longrightarrow> cs \<noteq> [] \<longrightarrow>
     reconciled cs (reconciliation_value r)) (attempted_reconciliation st config shape cs)"
proof -
  have ok: "reconciled cs (Some q)" if "reconciled_logs cs logs = Inr q" for logs q
    using that by (auto simp: reconciled_logs_def reconciled_def result_simps split: option.splits; blast)
  have "returns (\<lambda>q. reconciled cs (Some q)) (reconcile_pressure_queue st shape cs)"
    unfolding reconcile_pressure_queue_def
    by (intro returns_run_then) (auto simp: returns_def of_result_def intro: ok)
  from returns_attempt [OF this] show ?thesis
    unfolding attempted_reconciliation_def
    by (auto simp: returns_def run_then_def ret_def reconciliation_failures_def reconciliation_value_def failure_of_none
        split: sum.splits prod.splits if_splits)
qed


end
