(* ===== verification/Worker.thy ===== *)
theory Worker
  imports ConformanceScenarios Scenario
begin

text \<open>
  The worker process (src/worker.ts): its modes, its environment variables and the dispatch of
  \<^verbatim>\<open>main\<close> and \<^verbatim>\<open>runLiveRole\<close>.  A container is started with a map of variables, from which the
  worker reads the role and its options; the dispatch yields the call of the workload as a value
  of \<^verbatim>\<open>role_call\<close>.  The workload, the client and the abort signals answer through the record
  \<^verbatim>\<open>worker_host\<close>.
\<close>

subsection \<open>Modes\<close>

text \<open>The type \<^verbatim>\<open>WorkerMode\<close> is a union of string literals.\<close>

type_synonym worker_mode = string

definition WORKER_MODES :: "worker_mode list" where
  "WORKER_MODES =
     [''load'', ''verify'', ''bombard'', ''durability-verifier'', ''durability-writer'',
      ''lease-contender'', ''lease-owner'', ''lease-probe'', ''hot-route'', ''canary'',
      ''protocol-abuse'', ''notice-publisher'', ''notice-subscriber'', ''schedule-producer'',
      ''schedule-subscriber'', ''session-boundaries'', ''queue-redelivery-producer'',
      ''queue-redelivery-victim'', ''queue-redelivery-drainer'', ''rpc-caller'', ''rpc-worker'',
      ''rpc-stream-caller'', ''rpc-stream-worker'', ''pressure-reconciler'',
      ''queue-lifecycle-producer'', ''queue-lifecycle-abandoner'', ''queue-lifecycle-consumer'',
      ''transaction-contender'', ''transaction-holder'', ''transaction-verifier'',
      ''stream-replay-worker'', ''schedule-outage-producer'', ''schedule-outage-canceller'',
      ''schedule-outage-cleanup'', ''schedule-outage-subscriber'', ''queue-overload-producer'',
      ''queue-overload-drainer'', ''authorization-isolation'', ''stream-global-recovery'',
      ''queue-dead-letter-fencing'', ''hostile-rpc-worker'', ''hostile-rpc-caller'',
      ''route-cardinality-churn'', ''exhaustion-probe'', ''wire-conformance'',
      ''ephemeral-reply-loss-preparer'', ''ephemeral-reply-loss-victim'',
      ''ephemeral-reply-loss-verifier'', ''slow-recipient'', ''slow-recipient-observer'',
      ''slow-recipient-publisher'', ''shutdown-reconnect-cleanup-storm'',
      ''control-lane-cleanup-under-saturation'', ''route-family-isolation-matrix'',
      ''rpc-response-state-conformance'', ''response-envelope-boundaries'',
      ''lease-waiter-disconnect-races'', ''wildcard-registration-quota-reclamation'',
      ''stream-selector-cursor-conformance'', ''schedule-due-storm-isolation'',
      ''same-shard-family-fairness'', ''family-actor-partial-failure-isolation'',
      ''same-shard-family-failure-isolation'', ''family-actor-exhaustion-readiness'',
      ''family-actor-inflight-concurrent-failure'']"

type_synonym environment = "string \<Rightarrow> string option"

definition required_mode :: "string option \<Rightarrow> worker_mode result" where
  "required_mode v =
     (case find (\<lambda>m. v = Some m) WORKER_MODES of
        Some m \<Rightarrow> Inr m
      | None \<Rightarrow> Inl (Error ''DESTROYER_MODE is invalid; received $'' [AStr (get_or ''unset'' v)]))"

subsection \<open>Environment variables\<close>

definition required_env :: "environment \<Rightarrow> string \<Rightarrow> string result" where
  "required_env env name =
     (let v = js_trim (get_or [] (env name))
      in if v = [] then Inl (Error ''$ is required'' [AStr name]) else Inr v)"

definition non_negative_env :: "environment \<Rightarrow> string \<Rightarrow> int \<Rightarrow> int result" where
  "non_negative_env env name fallback =
     (case env name of
        None \<Rightarrow> Inr fallback
      | Some raw \<Rightarrow>
          (let e = Error ''$ must be a non-negative integer'' [AStr name] in
           case js_to_number raw of
             None \<Rightarrow> Inl e
           | Some v \<Rightarrow> if \<not> is_safe_integer v \<or> v < 0 then Inl e else Inr \<lfloor>v\<rfloor>))"

definition positive_env :: "environment \<Rightarrow> string \<Rightarrow> int \<Rightarrow> int result" where
  "positive_env env name fallback =
     try_in (non_negative_env env name fallback) (\<lambda>v.
     if v < 1 then Inl (Error ''$ must be positive'' [AStr name]) else Inr v)"

definition boolean_env :: "environment \<Rightarrow> string \<Rightarrow> bool \<Rightarrow> bool result" where
  "boolean_env env name fallback =
     (case env name of
        None \<Rightarrow> Inr fallback
      | Some raw \<Rightarrow>
          if raw = ''true'' then Inr True
          else if raw = ''false'' then Inr False
          else Inl (Error ''$ must be true or false'' [AStr name]))"

definition worker_segment :: "string \<Rightarrow> string result" where
  "worker_segment v =
     (let s = route_segment v
      in if s = [] then Inl (Error ''Cannot turn $ into a route segment'' [AStr v]) else Inr s)"

definition segment_env :: "environment \<Rightarrow> string \<Rightarrow> string result" where
  "segment_env env name = try_in (required_env env name) worker_segment"

definition env_or :: "string \<Rightarrow> environment \<Rightarrow> string \<Rightarrow> string" where
  "env_or fallback env name = get_or fallback (env name)"

definition WS_URL :: string where
  "WS_URL = ''ws://fitz:4090/ws''"

definition FAILPOINT_URL :: string where
  "FAILPOINT_URL = ''http://fitz:4090''"

datatype client_transport = WebSocketTransport | TcpTransport

definition transport_env :: "string option \<Rightarrow> client_transport result" where
  "transport_env v =
     (if v = None \<or> v = Some ''ws'' then Inr WebSocketTransport
      else if v = Some ''tcp'' then Inr TcpTransport
      else Inl (Error ''DESTROYER_TRANSPORT must be ws or tcp, received $'' [AStr (get_or [] v)]))"

subsection \<open>Actions of the roles\<close>

text \<open>The parsers of the actions: a missing variable is the fallback, an unknown name an error.\<close>

definition one_of :: "string \<Rightarrow> string \<Rightarrow> (string \<times> 'a) list \<Rightarrow> string option \<Rightarrow> 'a result" where
  "one_of name fallback choices v =
     (let chosen = get_or fallback v in
      case map_of choices chosen of
        Some a \<Rightarrow> Inr a
      | None \<Rightarrow> Inl (Error ''$ is invalid; received $'' [AStr name, AStr chosen]))"

datatype durability_action = BaselineWrites | CutWrites | VerifyWrites

definition durability_action_of :: "string option \<Rightarrow> durability_action result" where
  "durability_action_of = one_of ''DESTROYER_DURABILITY_ACTION'' ''baseline''
     [(''baseline'', BaselineWrites), (''cut'', CutWrites)]"

datatype auth_action = AuthWrite | AuthVerify

definition auth_action_of :: "string option \<Rightarrow> auth_action result" where
  "auth_action_of = one_of ''DESTROYER_AUTH_ACTION'' ''verify''
     [(''write'', AuthWrite), (''verify'', AuthVerify)]"

datatype stream_global_action = GlobalLoad | GlobalVerify

definition stream_global_action_of :: "string option \<Rightarrow> stream_global_action result" where
  "stream_global_action_of = one_of ''DESTROYER_STREAM_GLOBAL_ACTION'' ''verify''
     [(''load'', GlobalLoad), (''verify'', GlobalVerify)]"

datatype hostile_rpc_behavior = ReturnWithoutTerminal | ThrowInHandler

definition hostile_rpc_behavior_of :: "string option \<Rightarrow> hostile_rpc_behavior result" where
  "hostile_rpc_behavior_of = one_of ''DESTROYER_HOSTILE_RPC_BEHAVIOR'' ''return-without-terminal''
     [(''return-without-terminal'', ReturnWithoutTerminal), (''throw'', ThrowInHandler)]"

datatype lease_contention_action = LeaseContend | LeaseHold | LeaseProbe

definition lease_contention_action_of :: "string option \<Rightarrow> lease_contention_action result" where
  "lease_contention_action_of = one_of ''DESTROYER_LEASE_ACTION'' ''contend''
     [(''contend'', LeaseContend), (''hold'', LeaseHold), (''probe'', LeaseProbe)]"

datatype queue_redelivery_action = RedeliveryProduce | RedeliveryVictim | RedeliveryDrain

definition queue_redelivery_action_of :: "string option \<Rightarrow> queue_redelivery_action result" where
  "queue_redelivery_action_of = one_of ''DESTROYER_QUEUE_REDELIVERY_ACTION'' ''drain''
     [(''produce'', RedeliveryProduce), (''victim'', RedeliveryVictim), (''drain'', RedeliveryDrain)]"

datatype queue_lifecycle_action = LifecycleProduce | LifecycleAbandon | LifecycleConsume

definition queue_lifecycle_action_of :: "string option \<Rightarrow> queue_lifecycle_action result" where
  "queue_lifecycle_action_of = one_of ''DESTROYER_QUEUE_LIFECYCLE_ACTION'' ''consume''
     [(''produce'', LifecycleProduce), (''abandon'', LifecycleAbandon), (''consume'', LifecycleConsume)]"

datatype transaction_action = TransactionPrepare | TransactionContend | TransactionHold | TransactionVerify

definition transaction_action_of :: "string option \<Rightarrow> transaction_action result" where
  "transaction_action_of = one_of ''DESTROYER_TRANSACTION_ACTION'' ''contend''
     [(''prepare'', TransactionPrepare), (''contend'', TransactionContend), (''hold'', TransactionHold), (''verify'', TransactionVerify)]"

datatype stream_replay_action = ReplayContend | ReplayVerify

definition stream_replay_action_of :: "string option \<Rightarrow> stream_replay_action result" where
  "stream_replay_action_of = one_of ''DESTROYER_STREAM_REPLAY_ACTION'' ''verify''
     [(''contend'', ReplayContend), (''verify'', ReplayVerify)]"

datatype schedule_outage_action = OutageCreate | OutageRaceCancel | OutageCleanup | OutageSubscribe

definition schedule_outage_action_of :: "string option \<Rightarrow> schedule_outage_action result" where
  "schedule_outage_action_of = one_of ''DESTROYER_SCHEDULE_OUTAGE_ACTION'' ''create''
     [(''create'', OutageCreate), (''race-cancel'', OutageRaceCancel), (''cleanup'', OutageCleanup), (''subscribe'', OutageSubscribe)]"

datatype schedule_producer_action = ScheduleCreate | ScheduleCancel

definition schedule_producer_action_of :: "string option \<Rightarrow> schedule_producer_action result" where
  "schedule_producer_action_of = one_of ''DESTROYER_SCHEDULE_ACTION'' ''create''
     [(''create'', ScheduleCreate), (''cancel'', ScheduleCancel)]"

datatype rpc_stream_outcome = ExpectComplete | ExpectCancel | ExpectFailure

definition rpc_stream_outcome_of :: "string option \<Rightarrow> rpc_stream_outcome result" where
  "rpc_stream_outcome_of = one_of ''DESTROYER_RPC_STREAM_EXPECTED_OUTCOME'' ''complete''
     [(''complete'', ExpectComplete), (''cancel'', ExpectCancel), (''failure'', ExpectFailure)]"

datatype control_lane_action = ControlSaturate | ControlHold | ControlProbe

definition control_lane_action_of :: "string option \<Rightarrow> control_lane_action result" where
  "control_lane_action_of = one_of ''DESTROYER_RELIABILITY_ACTION'' ''probe''
     [(''saturate'', ControlSaturate), (''hold'', ControlHold), (''probe'', ControlProbe)]"
datatype route_family_identity = IdentityA | IdentityB

definition parse_route_family_identity :: "string option \<Rightarrow> route_family_identity result" where
  "parse_route_family_identity v =
     (if v = Some ''identity-a'' then Inr IdentityA
      else if v = Some ''identity-b'' then Inr IdentityB
      else Inl (Error ''DESTROYER_ROUTE_FAMILY_IDENTITY must be identity-a or identity-b, received $''
             [AStr (get_or [] v)]))"

datatype isolation_action = HoldFamilies | VerifySurvivor | VerifyClosed

definition parse_route_family_isolation_action :: "string option \<Rightarrow> isolation_action result" where
  "parse_route_family_isolation_action v =
     (if v = Some ''hold'' then Inr HoldFamilies
      else if v = Some ''verify-survivor'' then Inr VerifySurvivor
      else if v = Some ''verify-closed'' then Inr VerifyClosed
      else Inl (Error ''DESTROYER_ROUTE_FAMILY_ACTION must be hold, verify-survivor, or verify-closed, received $''
             [AStr (get_or [] v)]))"

definition wire_conformance_case_of :: "string option \<Rightarrow> wire_conformance_case result" where
  "wire_conformance_case_of v =
     (case Option.bind v (map_of (map (\<lambda>c. (wire_case_name c, c))
         [LeaseRouteAliasing, TcpPreauthFramingSlowloris, ConnectPipelineFamilyRebind])) of
        Some c \<Rightarrow> Inr c
      | None \<Rightarrow> Inl (Error ''DESTROYER_WIRE_CASE is invalid; received $'' [AStr (get_or ''unset'' v)]))"

datatype exhaustion_domain = StreamExhaustion | RpcExhaustion

definition exhaustion_domain_of :: "string option \<Rightarrow> exhaustion_domain result" where
  "exhaustion_domain_of v =
     (if v = Some ''stream'' then Inr StreamExhaustion
      else if v = Some ''rpc'' then Inr RpcExhaustion
      else Inl (Error ''DESTROYER_FAMILY_EXHAUSTION_DOMAIN must be stream or rpc'' []))"

datatype reply_loss_action = PrepareReplies | LoseReplies | VerifyReplies

subsection \<open>Options of a role\<close>

text \<open>
  \<^verbatim>\<open>lo_deadline\<close> is the timeout of the signal of the options: \<^verbatim>\<open>None\<close> for the roles that only the
  shutdown signal ends.
\<close>

record live_options =
  lo_namespace :: string
  lo_workerId :: string
  lo_operations :: int
  lo_payloadBytes :: int
  lo_concurrency :: int
  lo_handlerDelayMs :: int
  lo_requestTimeoutMs :: int
  lo_deadline :: "int option"

definition UNBOUNDED_MODES :: "worker_mode list" where
  "UNBOUNDED_MODES =
     [''durability-writer'', ''lease-owner'', ''queue-redelivery-victim'', ''rpc-worker'', ''rpc-stream-worker'',
      ''hostile-rpc-worker'', ''schedule-subscriber'', ''schedule-outage-subscriber'', ''session-boundaries'',
      ''ephemeral-reply-loss-preparer'', ''ephemeral-reply-loss-victim'', ''slow-recipient'',
      ''shutdown-reconnect-cleanup-storm'', ''control-lane-cleanup-under-saturation'', ''route-family-isolation-matrix'',
      ''schedule-due-storm-isolation'']"

definition live_options_of :: "environment \<Rightarrow> worker_mode \<Rightarrow> int \<Rightarrow> int \<Rightarrow> live_options result" where
  "live_options_of env m timeout_ms job_timeout =
     try_in (segment_env env ''DESTROYER_NAMESPACE'') (\<lambda>ns.
     try_in (segment_env env ''DESTROYER_WORKER_ID'') (\<lambda>worker.
     try_in (positive_env env ''DESTROYER_OPERATIONS'' 100) (\<lambda>operations.
     try_in (positive_env env ''DESTROYER_PAYLOAD_BYTES'' 256) (\<lambda>bytes.
     try_in (positive_env env ''DESTROYER_CONCURRENCY'' 8) (\<lambda>concurrency.
     try_in (non_negative_env env ''DESTROYER_HANDLER_DELAY_MS'' 1) (\<lambda>delay.
     Inr \<lparr>lo_namespace = ns, lo_workerId = worker, lo_operations = operations, lo_payloadBytes = bytes,
          lo_concurrency = concurrency, lo_handlerDelayMs = delay, lo_requestTimeoutMs = timeout_ms,
          lo_deadline = (if m \<in> set UNBOUNDED_MODES then None else Some job_timeout)\<rparr>))))))"

subsection \<open>The call of a role\<close>

datatype plain_workload =
    DeadLetterWork | RouteChurnWork | EnvelopeWork | ExhaustionProbeWork | SlowRecipientWork
  | SlowObserverWork | SlowPublisherWork | NoticePublisherWork | RpcCallerWork | RpcWorkerWork

datatype url_workload = RpcStateWork | LeaseRaceWork | WildcardWork | StreamSelectorWork | FairnessWork

datatype failpoint_workload =
    PartialFailureWork | SameShardFailureWork | InflightFailureWork | ExhaustionReadinessWork exhaustion_domain

datatype seeded_workload =
    DurabilityWork int int durability_action
  | StreamReplayWork stream_replay_action int
  | ScheduleOutageWork schedule_outage_action int int
  | TransactionWork transaction_action int
  | RedeliveryWork queue_redelivery_action
  | SessionBoundariesWork
  | LifecycleWork queue_lifecycle_action
  | ScheduleSubscriberWork int
  | ScheduleProducerWork int schedule_producer_action

datatype role_call =
    PlainRole plain_workload
  | UrlRole url_workload string
  | FailpointRole failpoint_workload string string
  | SeededRole int seeded_workload
  | CanaryRole "domain list"
  | AuthorizationRole auth_action
  | StreamGlobalRole stream_global_action
  | HostileWorkerRole hostile_rpc_behavior
  | HostileCallerRole hostile_rpc_behavior
  | DueStormRole int int string
  | ReplyLossRole reply_loss_action
  | CleanupStormRole int
  | ControlLaneRole control_lane_action int int
  | FamilyMatrixRole route_family_identity isolation_action
  | LeaseRole lease_contention_action string
  | OverloadProducerRole "string list"
  | OverloadDrainerRole "string list"
  | NoticeSubscriberRole int
  | RpcStreamWorkerRole int int int
  | RpcStreamCallerRole int int int rpc_stream_outcome int
  | PressureReconcilerRole "string list"

definition seed_env :: "environment \<Rightarrow> int result" where
  "seed_env env = non_negative_env env ''DESTROYER_SEED'' 424242"

definition lease_participant :: "environment \<Rightarrow> string \<Rightarrow> live_options \<Rightarrow> string result" where
  "lease_participant env mode_text opts =
     worker_segment (env_or (mode_text @ ''-'' @ lo_workerId opts) env ''DESTROYER_LEASE_PARTICIPANT'')"

definition overload_workers :: "environment \<Rightarrow> live_options \<Rightarrow> string list" where
  "overload_workers env opts = split_on CHR '','' (env_or (lo_workerId opts) env ''DESTROYER_QUEUE_OVERLOAD_WORKERS'')"

definition lease_role :: "environment \<Rightarrow> live_options \<Rightarrow> string \<Rightarrow> role_call result" where
  "lease_role env opts mode_text =
     try_in (lease_contention_action_of (env ''DESTROYER_LEASE_ACTION'')) (\<lambda>action.
     try_in (lease_participant env mode_text opts) (\<lambda>participant.
     Inr (LeaseRole action participant)))"

definition schedule_outage_role :: "environment \<Rightarrow> role_call result" where
  "schedule_outage_role env =
     try_in (seed_env env) (\<lambda>sd.
     try_in (schedule_outage_action_of (env ''DESTROYER_SCHEDULE_OUTAGE_ACTION'')) (\<lambda>action.
     try_in (positive_env env ''DESTROYER_SCHEDULE_OUTAGE_MISSED_AT_MS'' 1) (\<lambda>missed.
     try_in (positive_env env ''DESTROYER_SCHEDULE_OUTAGE_RACE_AT_MS'' 1) (\<lambda>race.
     Inr (SeededRole sd (ScheduleOutageWork action missed race))))))"

definition transaction_role :: "environment \<Rightarrow> role_call result" where
  "transaction_role env =
     try_in (seed_env env) (\<lambda>sd.
     try_in (transaction_action_of (env ''DESTROYER_TRANSACTION_ACTION'')) (\<lambda>action.
     try_in (positive_env env ''DESTROYER_TRANSACTION_COMMIT_AT_MS'' 1) (\<lambda>commit_at.
     Inr (SeededRole sd (TransactionWork action commit_at)))))"

definition stream_replay_role :: "environment \<Rightarrow> role_call result" where
  "stream_replay_role env =
     try_in (seed_env env) (\<lambda>sd.
     try_in (stream_replay_action_of (env ''DESTROYER_STREAM_REPLAY_ACTION'')) (\<lambda>action.
     try_in (positive_env env ''DESTROYER_STREAM_REPLAY_COMMIT_AT_MS'' 1) (\<lambda>commit_at.
     Inr (SeededRole sd (StreamReplayWork action commit_at)))))"

definition queue_redelivery_role :: "environment \<Rightarrow> role_call result" where
  "queue_redelivery_role env =
     try_in (seed_env env) (\<lambda>sd.
     try_in (queue_redelivery_action_of (env ''DESTROYER_QUEUE_REDELIVERY_ACTION'')) (\<lambda>action.
     Inr (SeededRole sd (RedeliveryWork action))))"

definition queue_lifecycle_role :: "environment \<Rightarrow> role_call result" where
  "queue_lifecycle_role env =
     try_in (seed_env env) (\<lambda>sd.
     try_in (queue_lifecycle_action_of (env ''DESTROYER_QUEUE_LIFECYCLE_ACTION'')) (\<lambda>action.
     Inr (SeededRole sd (LifecycleWork action))))"

definition durability_role :: "environment \<Rightarrow> bool \<Rightarrow> role_call result" where
  "durability_role env verifier =
     try_in (seed_env env) (\<lambda>sd.
     try_in (non_negative_env env ''DESTROYER_DURABILITY_SEQUENCE'' 0) (\<lambda>sequence.
     try_in (non_negative_env env ''DESTROYER_DURABILITY_ITERATIONS'' 1) (\<lambda>rounds.
     try_in (if verifier then Inr VerifyWrites else durability_action_of (env ''DESTROYER_DURABILITY_ACTION'')) (\<lambda>action.
     Inr (SeededRole sd (DurabilityWork sequence rounds action))))))"

definition rpc_stream_worker_role :: "environment \<Rightarrow> role_call result" where
  "rpc_stream_worker_role env =
     try_in (positive_env env ''DESTROYER_RPC_STREAM_FRAMES'' 100) (\<lambda>frames.
     try_in (positive_env env ''DESTROYER_RPC_STREAM_FRAME_BYTES'' 1024) (\<lambda>frame_bytes.
     try_in (positive_env env ''DESTROYER_RPC_STREAM_PROGRESS_AFTER_FRAMES'' 10) (\<lambda>progress.
     Inr (RpcStreamWorkerRole frames frame_bytes progress))))"

definition rpc_stream_caller_role :: "environment \<Rightarrow> role_call result" where
  "rpc_stream_caller_role env =
     try_in (positive_env env ''DESTROYER_RPC_STREAM_FRAMES'' 100) (\<lambda>frames.
     try_in (positive_env env ''DESTROYER_RPC_STREAM_FRAME_BYTES'' 1024) (\<lambda>frame_bytes.
     try_in (non_negative_env env ''DESTROYER_RPC_STREAM_READER_DELAY_MS'' 0) (\<lambda>delay.
     try_in (rpc_stream_outcome_of (env ''DESTROYER_RPC_STREAM_EXPECTED_OUTCOME'')) (\<lambda>outcome.
     try_in (positive_env env ''DESTROYER_RPC_STREAM_CANCEL_AFTER_FRAMES'' (max 1 (frames div 2))) (\<lambda>cancel_after.
     Inr (RpcStreamCallerRole frames frame_bytes delay outcome cancel_after))))))"

definition control_lane_role :: "environment \<Rightarrow> int \<Rightarrow> role_call result" where
  "control_lane_role env job_timeout =
     try_in (control_lane_action_of (env ''DESTROYER_RELIABILITY_ACTION'')) (\<lambda>action.
     try_in (positive_env env ''DESTROYER_PROGRESS_INTERVAL_MS'' 250) (\<lambda>interval.
     try_in (positive_env env ''DESTROYER_RECONNECT_TIMEOUT_MS'' job_timeout) (\<lambda>reconnect.
     Inr (ControlLaneRole action interval reconnect))))"

definition family_matrix_role :: "environment \<Rightarrow> role_call result" where
  "family_matrix_role env =
     try_in (parse_route_family_identity (env ''DESTROYER_ROUTE_FAMILY_IDENTITY'')) (\<lambda>identity.
     try_in (parse_route_family_isolation_action (env ''DESTROYER_ROUTE_FAMILY_ACTION'')) (\<lambda>action.
     Inr (FamilyMatrixRole identity action)))"

definition due_storm_role :: "environment \<Rightarrow> role_call result" where
  "due_storm_role env =
     try_in (positive_env env ''DESTROYER_SCHEDULE_STORM_FIRE_AT_MS'' 1) (\<lambda>fire_at.
     try_in (positive_env env ''DESTROYER_SCHEDULE_STORM_OBSERVATION_MS'' 5000) (\<lambda>observation.
     Inr (DueStormRole fire_at observation (env_or WS_URL env ''DESTROYER_SCHEDULE_STORM_URL''))))"

definition schedule_role :: "environment \<Rightarrow> worker_mode \<Rightarrow> role_call result" where
  "schedule_role env m =
     try_in (seed_env env) (\<lambda>sd.
     try_in (positive_env env ''DESTROYER_SCHEDULE_FIRE_AT_MS'' 1) (\<lambda>fire_at.
     if m = ''schedule-subscriber'' then Inr (SeededRole sd (ScheduleSubscriberWork fire_at))
     else try_in (schedule_producer_action_of (env ''DESTROYER_SCHEDULE_ACTION'')) (\<lambda>action.
       Inr (SeededRole sd (ScheduleProducerWork fire_at action)))))"

text \<open>The dispatch of \<^verbatim>\<open>runLiveRole\<close>; its last branch takes every mode that no other branch names.\<close>

definition role_call_of :: "environment \<Rightarrow> int \<Rightarrow> live_options \<Rightarrow> worker_mode \<Rightarrow> role_call result" where
  "role_call_of env job_timeout opts m =
     (if m = ''canary''
      then Inr (CanaryRole ALL_DOMAINS)
      else if m = ''durability-writer''
      then durability_role env False
      else if m = ''durability-verifier''
      then durability_role env True
      else if m = ''authorization-isolation''
      then try_in (auth_action_of (env ''DESTROYER_AUTH_ACTION'')) (\<lambda>a. Inr (AuthorizationRole a))
      else if m = ''stream-global-recovery''
      then try_in (stream_global_action_of (env ''DESTROYER_STREAM_GLOBAL_ACTION'')) (\<lambda>a. Inr (StreamGlobalRole a))
      else if m = ''queue-dead-letter-fencing''
      then Inr (PlainRole DeadLetterWork)
      else if m = ''hostile-rpc-worker''
      then try_in (hostile_rpc_behavior_of (env ''DESTROYER_HOSTILE_RPC_BEHAVIOR'')) (\<lambda>b. Inr (HostileWorkerRole b))
      else if m = ''hostile-rpc-caller''
      then try_in (hostile_rpc_behavior_of (env ''DESTROYER_HOSTILE_RPC_BEHAVIOR'')) (\<lambda>b. Inr (HostileCallerRole b))
      else if m = ''route-cardinality-churn''
      then Inr (PlainRole RouteChurnWork)
      else if m = ''rpc-response-state-conformance''
      then Inr (UrlRole RpcStateWork (env_or WS_URL env ''DESTROYER_RPC_STATE_URL''))
      else if m = ''response-envelope-boundaries''
      then Inr (PlainRole EnvelopeWork)
      else if m = ''lease-waiter-disconnect-races''
      then Inr (UrlRole LeaseRaceWork (env_or WS_URL env ''DESTROYER_LEASE_RACE_URL''))
      else if m = ''wildcard-registration-quota-reclamation''
      then Inr (UrlRole WildcardWork (env_or WS_URL env ''DESTROYER_WILDCARD_QUOTA_URL''))
      else if m = ''stream-selector-cursor-conformance''
      then Inr (UrlRole StreamSelectorWork (env_or WS_URL env ''DESTROYER_STREAM_SELECTOR_URL''))
      else if m = ''schedule-due-storm-isolation''
      then due_storm_role env
      else if m = ''same-shard-family-fairness''
      then Inr (UrlRole FairnessWork (env_or WS_URL env ''DESTROYER_SAME_SHARD_URL''))
      else if m = ''family-actor-partial-failure-isolation''
      then Inr (FailpointRole PartialFailureWork (env_or WS_URL env ''DESTROYER_FAMILY_FAILURE_URL'') (env_or FAILPOINT_URL env ''DESTROYER_FAMILY_FAILURE_HTTP_URL''))
      else if m = ''same-shard-family-failure-isolation''
      then Inr (FailpointRole SameShardFailureWork (env_or WS_URL env ''DESTROYER_SAME_SHARD_FAILURE_URL'') (env_or FAILPOINT_URL env ''DESTROYER_SAME_SHARD_FAILURE_HTTP_URL''))
      else if m = ''family-actor-exhaustion-readiness''
      then try_in (exhaustion_domain_of (env ''DESTROYER_FAMILY_EXHAUSTION_DOMAIN'')) (\<lambda>d. Inr (FailpointRole (ExhaustionReadinessWork d) (env_or WS_URL env ''DESTROYER_FAMILY_EXHAUSTION_URL'') (env_or FAILPOINT_URL env ''DESTROYER_FAMILY_EXHAUSTION_HTTP_URL'')))
      else if m = ''family-actor-inflight-concurrent-failure''
      then Inr (FailpointRole InflightFailureWork (env_or WS_URL env ''DESTROYER_FAMILY_INFLIGHT_URL'') (env_or FAILPOINT_URL env ''DESTROYER_FAMILY_INFLIGHT_HTTP_URL''))
      else if m = ''exhaustion-probe''
      then Inr (PlainRole ExhaustionProbeWork)
      else if m = ''ephemeral-reply-loss-preparer''
      then Inr (ReplyLossRole PrepareReplies)
      else if m = ''ephemeral-reply-loss-victim''
      then Inr (ReplyLossRole LoseReplies)
      else if m = ''ephemeral-reply-loss-verifier''
      then Inr (ReplyLossRole VerifyReplies)
      else if m = ''slow-recipient''
      then Inr (PlainRole SlowRecipientWork)
      else if m = ''slow-recipient-observer''
      then Inr (PlainRole SlowObserverWork)
      else if m = ''slow-recipient-publisher''
      then Inr (PlainRole SlowPublisherWork)
      else if m = ''shutdown-reconnect-cleanup-storm''
      then try_in (positive_env env ''DESTROYER_RECONNECT_TIMEOUT_MS'' job_timeout) (\<lambda>t. Inr (CleanupStormRole t))
      else if m = ''control-lane-cleanup-under-saturation''
      then control_lane_role env job_timeout
      else if m = ''route-family-isolation-matrix''
      then family_matrix_role env
      else if m = ''lease-contender''
      then lease_role env opts ''lease-contender''
      else if m = ''lease-owner''
      then lease_role env opts ''lease-owner''
      else if m = ''lease-probe''
      then lease_role env opts ''lease-probe''
      else if m = ''queue-overload-producer''
      then Inr (OverloadProducerRole (overload_workers env opts))
      else if m = ''queue-overload-drainer''
      then Inr (OverloadDrainerRole (overload_workers env opts))
      else if m = ''stream-replay-worker''
      then stream_replay_role env
      else if m = ''schedule-outage-producer'' \<or> m = ''schedule-outage-canceller'' \<or> m = ''schedule-outage-cleanup'' \<or> m = ''schedule-outage-subscriber''
      then schedule_outage_role env
      else if m = ''transaction-contender'' \<or> m = ''transaction-holder'' \<or> m = ''transaction-verifier''
      then transaction_role env
      else if m = ''queue-redelivery-producer'' \<or> m = ''queue-redelivery-victim'' \<or> m = ''queue-redelivery-drainer''
      then queue_redelivery_role env
      else if m = ''session-boundaries''
      then try_in (seed_env env) (\<lambda>sd. Inr (SeededRole sd SessionBoundariesWork))
      else if m = ''notice-publisher''
      then Inr (PlainRole NoticePublisherWork)
      else if m = ''notice-subscriber''
      then try_in (positive_env env ''DESTROYER_PUBLISHER_COUNT'' 1) (\<lambda>n. Inr (NoticeSubscriberRole n))
      else if m = ''rpc-caller''
      then Inr (PlainRole RpcCallerWork)
      else if m = ''rpc-worker''
      then Inr (PlainRole RpcWorkerWork)
      else if m = ''rpc-stream-worker''
      then rpc_stream_worker_role env
      else if m = ''rpc-stream-caller''
      then rpc_stream_caller_role env
      else if m = ''pressure-reconciler''
      then try_in (required_env env ''DESTROYER_PRESSURE_WORKERS'') (\<lambda>v. Inr (PressureReconcilerRole (split_on CHR '','' v)))
      else if m = ''queue-lifecycle-producer'' \<or> m = ''queue-lifecycle-abandoner'' \<or> m = ''queue-lifecycle-consumer''
      then queue_lifecycle_role env
      else schedule_role env m)"

subsection \<open>The client and the jobs\<close>

record client_config =
  cc_url :: string
  cc_transport :: client_transport
  cc_token :: bool
  cc_timeout :: int
  cc_reconnect :: bool
  cc_heartbeat :: bool
  cc_handlers :: int

definition make_client :: "environment \<Rightarrow> int \<Rightarrow> bool \<Rightarrow> client_config result" where
  "make_client env timeout_ms reconnect =
     try_in (transport_env (env ''DESTROYER_TRANSPORT'')) (\<lambda>t.
     try_in (boolean_env env ''DESTROYER_HEARTBEAT_ENABLED'' True) (\<lambda>heartbeat.
     try_in (positive_env env ''DESTROYER_ASYNC_HANDLER_CONCURRENCY'' 128) (\<lambda>handlers.
     Inr \<lparr>cc_url = env_or (if t = TcpTransport then ''tcp://fitz:4091'' else WS_URL) env ''FITZ_URL'',
          cc_transport = t, cc_token = (env ''DESTROYER_JWT'' \<noteq> None), cc_timeout = timeout_ms,
          cc_reconnect = reconnect, cc_heartbeat = heartbeat, cc_handlers = handlers\<rparr>)))"

record recovery_shape =
  rs_namespace :: string
  rs_seed :: int
  rs_resources :: int
  rs_entries :: int
  rs_payloadBytes :: int

definition recovery_shape_of :: "environment \<Rightarrow> recovery_shape result" where
  "recovery_shape_of env =
     try_in (segment_env env ''DESTROYER_NAMESPACE'') (\<lambda>ns.
     try_in (seed_env env) (\<lambda>sd.
     try_in (positive_env env ''DESTROYER_RESOURCES'' 2) (\<lambda>resources.
     try_in (positive_env env ''DESTROYER_ENTRIES'' 20) (\<lambda>entries.
     try_in (positive_env env ''DESTROYER_PAYLOAD_BYTES'' 256) (\<lambda>bytes.
     Inr \<lparr>rs_namespace = ns, rs_seed = sd, rs_resources = resources, rs_entries = entries, rs_payloadBytes = bytes\<rparr>)))))"

datatype worker_job =
    AbuseJob string int int int
  | WireJob string int int int wire_conformance_case string
  | LoadJob recovery_shape
  | VerifyJob recovery_shape
  | BombardJob
  | RoleJob live_options role_call

datatype worker_event =
    ClientConnect client_config "int option"
  | GateAwaited
  | JobStarted worker_job
  | ClientClosed
  | WorkerLog string "(string \<times> json) list"
  | ExitCodeSet int

text \<open>
  What the process does not decide: \<^verbatim>\<open>connectWhenReady\<close>, the start gate raced against the abort
  signal, the body of a job (with the number of entries of a recovery job) and the clock.
\<close>

record 'o worker_host =
  wk_connect :: "client_config \<Rightarrow> int option \<Rightarrow> ('o, unit) script"
  wk_gate :: "('o, unit) script"
  wk_job :: "worker_job \<Rightarrow> ('o, nat) script"
  wk_close :: "('o, unit) script"
  wk_clock :: "('o, rat) script"

type_synonym 'o worker_world = "worker_event list \<times> 'o"

definition worker_effect :: "worker_event \<Rightarrow> ('o, 'a) script \<Rightarrow> ('o worker_world, 'a) script" where
  "worker_effect e m = (\<lambda>(es, s). case m s of (r, s') \<Rightarrow> (r, es @ [e], s'))"

definition worker_clock :: "'o worker_host \<Rightarrow> ('o worker_world, rat) script" where
  "worker_clock h = (\<lambda>(es, s). case wk_clock h s of (r, s') \<Rightarrow> (r, es, s'))"

definition worker_log :: "string \<Rightarrow> (string \<times> json) list \<Rightarrow> ('o worker_world, unit) script" where
  "worker_log name entries = worker_effect (WorkerLog name entries) (ret ())"

definition run_job :: "'o worker_host \<Rightarrow> worker_job \<Rightarrow> ('o worker_world, nat) script" where
  "run_job h j = worker_effect (JobStarted j) (wk_job h j)"

definition run_live_role :: "environment \<Rightarrow> 'o worker_host \<Rightarrow> int \<Rightarrow> string \<Rightarrow> worker_mode \<Rightarrow> ('o worker_world, unit) script" where
  "run_live_role env h timeout_ms mode_text m =
     run_then (of_result (positive_env env ''DESTROYER_JOB_TIMEOUT_MS'' 180000)) (\<lambda>job_timeout.
     run_then (of_result (live_options_of env m timeout_ms job_timeout)) (\<lambda>opts.
     run_then (of_result (boolean_env env ''DESTROYER_WAIT_FOR_START_SIGNAL'' False)) (\<lambda>gated.
     run_then (when_do gated
       (let entries = [(''mode'', JStr mode_text), (''workerId'', JStr (lo_workerId opts))] in
        steps [worker_log ''live_producer_ready'' entries, worker_effect GateAwaited (wk_gate h),
               worker_log ''live_producer_released'' entries])) (\<lambda>_.
     run_then (of_result (role_call_of env job_timeout opts m)) (\<lambda>call.
     run_then (run_job h (RoleJob opts call)) (\<lambda>_. ret ()))))))"

definition run_recovery :: "environment \<Rightarrow> 'o worker_host \<Rightarrow> string \<Rightarrow> (recovery_shape \<Rightarrow> worker_job) \<Rightarrow> ('o worker_world, unit) script" where
  "run_recovery env h mode_text job =
     run_then (of_result (recovery_shape_of env)) (\<lambda>shape.
     run_then (worker_clock h) (\<lambda>started_at.
     run_then (run_job h (job shape)) (\<lambda>entries.
     run_then (worker_clock h) (\<lambda>now.
     worker_log ''job_complete'' [(''mode'', JStr mode_text), (''entries'', jnat entries),
       (''elapsedMs'', jint (js_round (fl (now - started_at))))]))))"

definition connected_job :: "environment \<Rightarrow> 'o worker_host \<Rightarrow> int \<Rightarrow> string \<Rightarrow> worker_mode \<Rightarrow> client_config \<Rightarrow> ('o worker_world, unit) script" where
  "connected_job env h timeout_ms mode_text m cc =
     run_then (if m = ''bombard'' then ret None
       else run_then (of_result (positive_env env ''DESTROYER_STARTUP_TIMEOUT_MS'' 180000)) (\<lambda>t. ret (Some t))) (\<lambda>startup.
     run_then (worker_effect (ClientConnect cc startup) (wk_connect h cc startup)) (\<lambda>_.
     run_then (worker_log ''connected'' [(''mode'', JStr mode_text), (''url'', JStr (env_or WS_URL env ''FITZ_URL''))]) (\<lambda>_.
     if m = ''load'' then run_recovery env h mode_text LoadJob
     else if m = ''verify'' then run_recovery env h mode_text VerifyJob
     else if m = ''bombard'' \<or> m = ''hot-route'' then run_then (run_job h BombardJob) (\<lambda>_. ret ())
     else run_live_role env h timeout_ms mode_text m)))"

definition abuse_job :: "environment \<Rightarrow> worker_job result" where
  "abuse_job env =
     try_in (positive_env env ''DESTROYER_JOB_TIMEOUT_MS'' 180000) (\<lambda>t.
     try_in (positive_env env ''DESTROYER_OPERATIONS'' 100) (\<lambda>operations.
     try_in (positive_env env ''DESTROYER_CONCURRENCY'' 8) (\<lambda>concurrency.
     Inr (AbuseJob (env_or WS_URL env ''FITZ_URL'') operations concurrency t))))"

definition wire_job :: "environment \<Rightarrow> int \<Rightarrow> worker_job result" where
  "wire_job env timeout_ms =
     try_in (segment_env env ''DESTROYER_NAMESPACE'') (\<lambda>ns.
     try_in (positive_env env ''DESTROYER_OPERATIONS'' 100) (\<lambda>operations.
     try_in (positive_env env ''DESTROYER_CLIENT_REPLICAS'' 4) (\<lambda>replicas.
     try_in (wire_conformance_case_of (env ''DESTROYER_WIRE_CASE'')) (\<lambda>c.
     Inr (WireJob ns timeout_ms operations replicas c (env_or WS_URL env ''DESTROYER_WIRE_URL''))))))"

definition worker_main :: "environment \<Rightarrow> 'o worker_host \<Rightarrow> int \<Rightarrow> string \<Rightarrow> worker_mode \<Rightarrow> ('o worker_world, unit) script" where
  "worker_main env h timeout_ms mode_text m =
     (if m = ''protocol-abuse'' then run_then (of_result (abuse_job env)) (\<lambda>j. run_then (run_job h j) (\<lambda>_. ret ()))
      else if m = ''wire-conformance''
      then run_then (of_result (wire_job env timeout_ms)) (\<lambda>j. run_then (run_job h j) (\<lambda>_. ret ()))
      else
        run_then (of_result (make_client env timeout_ms (m \<noteq> ''load'' \<and> m \<noteq> ''verify''))) (\<lambda>cc.
        try_finally (connected_job env h timeout_ms mode_text m cc)
          (ignore_failure (worker_effect ClientClosed (wk_close h)))))"

text \<open>
  The module: an invalid mode or request timeout ends the process before \<^verbatim>\<open>main\<close>; an error of
  \<^verbatim>\<open>main\<close> is logged as fatal and sets the exit code.
\<close>

definition worker_process :: "environment \<Rightarrow> 'o worker_host \<Rightarrow> ('o worker_world, unit) script" where
  "worker_process env h =
     run_then (of_result (required_mode (env ''DESTROYER_MODE''))) (\<lambda>m.
     run_then (of_result (positive_env env ''DESTROYER_REQUEST_TIMEOUT_MS'' 10000)) (\<lambda>timeout_ms.
     try_catch (worker_main env h timeout_ms (get_or [] (env ''DESTROYER_MODE'')) m) (\<lambda>e.
       run_then (worker_log ''fatal'' [(''error'', error_json e)]) (\<lambda>_.
       worker_effect (ExitCodeSet 1) (ret ())))))"
end
