(* ===== verification/WorkerSession.thy ===== *)
theory WorkerSession
  imports Worker
begin

text \<open>
  The worker process as a whole: the variables that the Compose stack gives to a role container
  decode to the values of the configuration, and whatever the environment and the client answer
  the process follows one session protocol with jobs whose numbers are in range.
\<close>

subsection \<open>Numbers of the environment\<close>

lemma non_negative_env_show:
  "env name = Some (show_nat n) \<Longrightarrow> int n \<le> max_safe_integer \<Longrightarrow> non_negative_env env name d = Inr (int n)"
  using js_to_number_show_nat [of n] by (simp add: non_negative_env_def is_safe_integer_def max_safe_integer_def)

lemma positive_env_show:
  "env name = Some (show_nat n) \<Longrightarrow> int n \<le> max_safe_integer \<Longrightarrow> 0 < n \<Longrightarrow> positive_env env name d = Inr (int n)"
  by (simp add: positive_env_def non_negative_env_show)

lemma show_int_nat: "0 \<le> n \<Longrightarrow> show_int n = show_nat (nat n)"
  by (simp add: show_int_def)

subsection \<open>Route segments\<close>

lemma collapse_same: "no_double_dash s \<Longrightarrow> collapse_dashes s = s"
  by (induction s rule: collapse_dashes.induct) auto

lemma route_char_lower: "is_route_char c \<Longrightarrow> lower_char c = c"
  by (auto simp: is_route_char_def lower_char_def Let_def)

lemma route_segment_same:
  assumes "segment_ok s" shows "route_segment s = s"
proof -
  have chars: "\<forall>c \<in> set s. is_route_char c" and dd: "no_double_dash s"
    and ends: "s = [] \<or> hd s \<noteq> CHR ''-'' \<and> last s \<noteq> CHR ''-''"
    using assms by (auto simp: segment_ok_def list_all_iff)
  have "map (\<lambda>c. if is_route_char c then c else CHR ''-'') (lower s) = s"
    using chars by (auto simp: lower_def route_char_lower intro!: map_idI)
  then show ?thesis using collapse_same [OF dd] ends
    by (cases s) (auto simp: route_segment_def drop_first_dash_def drop_last_dash_def)
qed

lemma route_char_no_space: "is_route_char c \<Longrightarrow> \<not> is_space c"
  by (auto simp: is_route_char_def is_space_def Let_def)

lemma segment_env_same:
  assumes "env name = Some s" "segment_ok s" "s \<noteq> []" shows "segment_env env name = Inr s"
proof -
  have "js_trim s = s"
    by (rule js_trim_same) (use assms(2) in \<open>auto simp: segment_ok_def list_all_iff route_char_no_space\<close>)
  then show ?thesis
    using assms route_segment_same [OF assms(2)]
    by (simp add: segment_env_def required_env_def worker_segment_def get_or_def)
qed

lemma show_nat_segment: "segment_ok (show_nat n)"
proof -
  have route: "is_digit c \<Longrightarrow> is_route_char c \<and> c \<noteq> CHR ''-''" for c
    by (auto simp: is_digit_def is_route_char_def Let_def)
  have "CHR ''-'' \<notin> set s \<Longrightarrow> no_double_dash s" for s
    by (induction s rule: no_double_dash.induct) auto
  moreover have "CHR ''-'' \<notin> set (show_nat n)" using show_nat_digits route by blast
  moreover have "hd (show_nat n) \<noteq> CHR ''-''" "last (show_nat n) \<noteq> CHR ''-''"
    using calculation(2) by (metis hd_in_set show_nat_nonempty, metis last_in_set show_nat_nonempty)
  ultimately show ?thesis
    using show_nat_digits route by (auto simp: segment_ok_def list_all_iff)
qed

subsection \<open>The environment of a role container\<close>

definition ROLE_VARIABLES :: "string list" where
  "ROLE_VARIABLES =
     [''DESTROYER_MODE'', ''DESTROYER_NAMESPACE'', ''DESTROYER_WORKER_ID'', ''DESTROYER_OPERATIONS'',
      ''DESTROYER_PAYLOAD_BYTES'', ''DESTROYER_CONCURRENCY'', ''DESTROYER_ASYNC_HANDLER_CONCURRENCY'',
      ''DESTROYER_HANDLER_DELAY_MS'', ''DESTROYER_JOB_TIMEOUT_MS'']"

definition shape_ok :: "workload_shape \<Rightarrow> bool" where
  "shape_ok shape \<longleftrightarrow>
     segment_ok (namespace shape) \<and> namespace shape \<noteq> [] \<and>
     0 < entriesPerResource shape \<and> int (entriesPerResource shape) \<le> max_safe_integer \<and>
     0 < payloadBytes shape \<and> int (payloadBytes shape) \<le> max_safe_integer"

lemma role_variable:
  assumes "\<forall>k \<in> set ROLE_VARIABLES. map_get extra k = None" "distinct (map_keys extra)" "k \<in> set ROLE_VARIABLES"
  shows "map_get (role_environment st role shape index extra) k = map_get (role_environment st role shape index []) k"
  using assms by (simp add: role_environment_def map_get_fold_set map_get_rev)

lemma config_ok_numbers:
  assumes "config_ok c"
  shows "0 < liveConcurrency c \<and> liveConcurrency c \<le> max_safe_integer \<and> 0 < client_handler_concurrency c \<and>
    client_handler_concurrency c \<le> max_safe_integer \<and> 0 \<le> handlerDelayMs c \<and> handlerDelayMs c \<le> max_safe_integer \<and>
    0 < startupTimeoutMs c \<and> startupTimeoutMs c \<le> max_safe_integer"
  using assms by (auto simp: config_ok_def between_def client_handler_concurrency_def max_safe_integer_def)

lemma positive_env_int:
  "env name = Some (show_int n) \<Longrightarrow> 0 < n \<Longrightarrow> n \<le> max_safe_integer \<Longrightarrow> positive_env env name d = Inr n"
  using positive_env_show [of env name "nat n" d] by (simp add: show_int_nat)

lemma non_negative_env_int:
  "env name = Some (show_int n) \<Longrightarrow> 0 \<le> n \<Longrightarrow> n \<le> max_safe_integer \<Longrightarrow> non_negative_env env name d = Inr n"
  using non_negative_env_show [of env name "nat n" d] by (simp add: show_int_nat)

lemma required_mode_ok: "m \<in> set WORKER_MODES \<Longrightarrow> required_mode (Some m) = Inr m"
proof -
  have "find (\<lambda>n. Some m = Some n) ms = Some m" if "m \<in> set ms" for ms
    using that by (induction ms) auto
  then show "m \<in> set WORKER_MODES \<Longrightarrow> required_mode (Some m) = Inr m" by (simp add: required_mode_def)
qed

definition role_environment_accepted :: "environment \<Rightarrow> run_config \<Rightarrow> workload_shape \<Rightarrow> nat \<Rightarrow> string \<Rightarrow> int \<Rightarrow> bool" where
  "role_environment_accepted env config shape index role timeout_ms \<longleftrightarrow>
     required_mode (env ''DESTROYER_MODE'') = Inr role \<and>
     positive_env env ''DESTROYER_JOB_TIMEOUT_MS'' 180000 = Inr (startupTimeoutMs config) \<and>
     positive_env env ''DESTROYER_ASYNC_HANDLER_CONCURRENCY'' 128 = Inr (client_handler_concurrency config) \<and>
     live_options_of env role timeout_ms (startupTimeoutMs config) =
       Inr \<lparr>lo_namespace = namespace shape, lo_workerId = show_nat index,
            lo_operations = int (entriesPerResource shape), lo_payloadBytes = int (payloadBytes shape),
            lo_concurrency = liveConcurrency config, lo_handlerDelayMs = handlerDelayMs config,
            lo_requestTimeoutMs = timeout_ms,
            lo_deadline = (if role \<in> set UNBOUNDED_MODES then None else Some (startupTimeoutMs config))\<rparr>"

text \<open>
  C30.  The variables that \<^verbatim>\<open>startRoleContainers\<close> passes are read back by the worker as the values of
  the configuration and of the shape, for every mode of the worker and every configuration that the
  command line accepts, whatever other variables the scenario adds.
\<close>
theorem role_environment_round_trip:
  assumes "parse_args resolve_path resolve_from root_dir argv process_env = Inr (config_of st)"
    and "shape_ok shape" "role \<in> set WORKER_MODES"
    and "distinct (map_keys extra)" "\<forall>k \<in> set ROLE_VARIABLES. map_get extra k = None"
  shows "role_environment_accepted (map_get (role_environment st role shape index extra)) (config_of st) shape index role timeout_ms"
proof -
  define env where "env = map_get (role_environment st role shape index extra)"
  have same: "env k = map_get (role_environment st role shape index []) k" if "k \<in> set ROLE_VARIABLES" for k
    unfolding env_def using role_variable [OF assms(5,4) that] .
  note numbers = config_ok_numbers [OF parse_args_bounds [OF assms(1)]]
  note shape = assms(2) [unfolded shape_ok_def]
  have v: "env ''DESTROYER_MODE'' = Some role" "env ''DESTROYER_NAMESPACE'' = Some (namespace shape)"
    "env ''DESTROYER_WORKER_ID'' = Some (show_nat index)"
    "env ''DESTROYER_OPERATIONS'' = Some (show_nat (entriesPerResource shape))"
    "env ''DESTROYER_PAYLOAD_BYTES'' = Some (show_nat (payloadBytes shape))"
    "env ''DESTROYER_CONCURRENCY'' = Some (show_int (liveConcurrency (config_of st)))"
    "env ''DESTROYER_ASYNC_HANDLER_CONCURRENCY'' = Some (show_int (client_handler_concurrency (config_of st)))"
    "env ''DESTROYER_HANDLER_DELAY_MS'' = Some (show_int (handlerDelayMs (config_of st)))"
    "env ''DESTROYER_JOB_TIMEOUT_MS'' = Some (show_int (startupTimeoutMs (config_of st)))"
    by (subst same; simp add: ROLE_VARIABLES_def role_environment_def)+
  have "live_options_of env role timeout_ms (startupTimeoutMs (config_of st)) =
       Inr \<lparr>lo_namespace = namespace shape, lo_workerId = show_nat index,
            lo_operations = int (entriesPerResource shape), lo_payloadBytes = int (payloadBytes shape),
            lo_concurrency = liveConcurrency (config_of st), lo_handlerDelayMs = handlerDelayMs (config_of st),
            lo_requestTimeoutMs = timeout_ms,
            lo_deadline = (if role \<in> set UNBOUNDED_MODES then None else Some (startupTimeoutMs (config_of st)))\<rparr>"
    using shape numbers
    by (simp add: live_options_of_def segment_env_same [where env = env and name = "''DESTROYER_NAMESPACE''", OF v(2)] segment_env_same [where env = env and name = "''DESTROYER_WORKER_ID''", OF v(3) show_nat_segment]
        positive_env_show [where env = env and name = "''DESTROYER_OPERATIONS''", OF v(4)] positive_env_show [where env = env and name = "''DESTROYER_PAYLOAD_BYTES''", OF v(5)] positive_env_int [where env = env and name = "''DESTROYER_CONCURRENCY''", OF v(6)] non_negative_env_int [where env = env and name = "''DESTROYER_HANDLER_DELAY_MS''", OF v(8)])
  then show ?thesis
    using numbers required_mode_ok [OF assms(3)]
    unfolding env_def [symmetric]
    by (simp add: role_environment_accepted_def v(1) positive_env_int [where env = env and name = "''DESTROYER_JOB_TIMEOUT_MS''", OF v(9)] positive_env_int [where env = env and name = "''DESTROYER_ASYNC_HANDLER_CONCURRENCY''", OF v(7)])
qed

theorem role_environment_round_trip_witness:
  "\<exists>(st :: nat stack) shape. shape_ok shape \<and>
     role_environment_accepted (map_get (role_environment st ''canary'' shape 0 [(''DESTROYER_SEED'', ''7'')])) (config_of st) shape 0
       ''canary'' 10000"
proof -
  obtain c where c: "parse_args id (@) ''/srv'' [''chaos'', ''--seed'', ''7'', ''--keep''] [] = Inr c"
    using sample_args_ok by blast
  let ?st = "undefined\<lparr>config_of := c\<rparr> :: nat stack"
  let ?shape = "\<lparr>namespace = ''run-1'', seed = 7, resources = 1, entriesPerResource = 3, payloadBytes = 64\<rparr>"
  have shape: "shape_ok ?shape"
    by (simp add: shape_ok_def segment_ok_def is_route_char_def max_safe_integer_def)
  have "role_environment_accepted (map_get (role_environment ?st ''canary'' ?shape 0 [(''DESTROYER_SEED'', ''7'')]))
     (config_of ?st) ?shape 0 ''canary'' 10000"
    by (rule role_environment_round_trip [where st = ?st, OF _ shape])
      (use c in \<open>simp_all add: WORKER_MODES_def ROLE_VARIABLES_def map_keys_def\<close>)
  then show ?thesis using shape by blast
qed

subsection \<open>The session protocol\<close>

fun event_kind :: "worker_event \<Rightarrow> string list" where
  "event_kind (ClientConnect cc t) = [''connect'']"
| "event_kind GateAwaited = [''gate'']"
| "event_kind (JobStarted j) = [''job'']"
| "event_kind ClientClosed = [''close'']"
| "event_kind (WorkerLog name entries) = (if name = ''fatal'' then [''fatal''] else [])"
| "event_kind (ExitCodeSet n) = [''exit'']"

definition kinds :: "worker_event list \<Rightarrow> string list" where
  "kinds es = concat (map event_kind es)"

definition options_ok :: "live_options \<Rightarrow> bool" where
  "options_ok opts \<longleftrightarrow>
     segment_ok (lo_namespace opts) \<and> lo_namespace opts \<noteq> [] \<and> segment_ok (lo_workerId opts) \<and> lo_workerId opts \<noteq> [] \<and>
     1 \<le> lo_operations opts \<and> 1 \<le> lo_payloadBytes opts \<and> 1 \<le> lo_concurrency opts \<and> 0 \<le> lo_handlerDelayMs opts"

fun job_ok :: "worker_job \<Rightarrow> bool" where
  "job_ok (AbuseJob url operations concurrency t) = (1 \<le> operations \<and> 1 \<le> concurrency \<and> 1 \<le> t)"
| "job_ok (WireJob ns t operations replicas c url) = (segment_ok ns \<and> ns \<noteq> [] \<and> 1 \<le> operations \<and> 1 \<le> replicas)"
| "job_ok (LoadJob shape) = (segment_ok (rs_namespace shape) \<and> 1 \<le> rs_resources shape \<and> 1 \<le> rs_entries shape \<and> 1 \<le> rs_payloadBytes shape)"
| "job_ok (VerifyJob shape) = (segment_ok (rs_namespace shape) \<and> 1 \<le> rs_resources shape \<and> 1 \<le> rs_entries shape \<and> 1 \<le> rs_payloadBytes shape)"
| "job_ok BombardJob = True"
| "job_ok (RoleJob opts call) = options_ok opts"

fun started_ok :: "worker_event \<Rightarrow> bool" where
  "started_ok (JobStarted j) = job_ok j"
| "started_ok _ = True"

text \<open>The sessions of a client, and how the process may end after one.\<close>

definition CLIENT_SESSIONS :: "string list list" where
  "CLIENT_SESSIONS =
     [[], [''job''], [''close''], [''connect'', ''close''], [''connect'', ''job'', ''close''],
      [''connect'', ''gate'', ''close''], [''connect'', ''gate'', ''job'', ''close'']]"

definition worker_session :: "worker_event list \<Rightarrow> bool" where
  "worker_session es \<longleftrightarrow>
     list_all started_ok es \<and>
     (\<exists>session \<in> set CLIENT_SESSIONS. kinds es = session \<or> kinds es = session @ [''fatal'', ''exit''])"

definition leaves :: "('o worker_world, 'a) script \<Rightarrow> ('a result \<Rightarrow> worker_event list \<Rightarrow> bool) \<Rightarrow> bool" where
  "leaves m P \<longleftrightarrow> (\<forall>es s. case m (es, s) of (r, es', s') \<Rightarrow> \<exists>added. es' = es @ added \<and> P r added)"

lemma leaves_ret: "P (Inr x) [] \<Longrightarrow> leaves (ret x) P"
  by (simp add: leaves_def ret_def)

lemma leaves_of_result: "P r [] \<Longrightarrow> leaves (of_result r) P"
  by (simp add: leaves_def of_result_def)

lemma leaves_effect: "(\<And>r. P r [e]) \<Longrightarrow> leaves (worker_effect e m) P"
  by (simp add: leaves_def worker_effect_def split: prod.splits)

lemma leaves_clock: "(\<And>r. P r []) \<Longrightarrow> leaves (worker_clock h) P"
  by (simp add: leaves_def worker_clock_def split: prod.splits)

lemma leavesD: "leaves m P \<Longrightarrow> m (es, s) = (r, es', s') \<Longrightarrow> \<exists>added. es' = es @ added \<and> P r added"
  unfolding leaves_def by (drule spec [of _ es], drule spec [of _ s]) simp

lemma leavesI:
  "(\<And>es s r es' s'. m (es, s) = (r, es', s') \<Longrightarrow> \<exists>added. es' = es @ added \<and> P r added) \<Longrightarrow> leaves m P"
  unfolding leaves_def by (simp split: prod.splits)

lemma leaves_mono: "leaves m P \<Longrightarrow> (\<And>r es. P r es \<Longrightarrow> Q r es) \<Longrightarrow> leaves m Q"
  by (rule leavesI) (drule leavesD, assumption, blast)

lemma leaves_run_then:
  assumes "leaves m P" "\<And>x es1. P (Inr x) es1 \<Longrightarrow> leaves (k x) (\<lambda>r es2. R r (es1 @ es2))"
    and "\<And>e es. P (Inl e) es \<Longrightarrow> R (Inl e) es"
  shows "leaves (run_then m k) R"
proof (rule leavesI)
  fix es s r es' s'
  assume all: "run_then m k (es, s) = (r, es', s')"
  obtain q es1 s1 where m: "m (es, s) = (q, es1, s1)" by (cases "m (es, s)") auto
  obtain added where a: "es1 = es @ added" "P q added" using leavesD [OF assms(1) m] by blast
  show "\<exists>added. es' = es @ added \<and> R r added"
  proof (cases q)
    case (Inl e)
    then have "r = Inl e" "es' = es1" using all m by (auto simp: run_then_def)
    then show ?thesis using a Inl assms(3) by blast
  next
    case (Inr x)
    then have "k x (es @ added, s1) = (r, es', s')" using all m a(1) by (simp add: run_then_def)
    from leavesD [OF assms(2) this] a(2) Inr show ?thesis by auto
  qed
qed

lemma leaves_result_then:
  assumes "\<And>x. v = Inr x \<Longrightarrow> leaves (k x) R" "\<And>e. v = Inl e \<Longrightarrow> R (Inl e) []"
  shows "leaves (run_then (of_result v) k) R"
  by (rule leaves_run_then [where P = "\<lambda>r es. r = v \<and> es = []"]) (use assms in \<open>auto intro: leaves_of_result\<close>)

lemma leaves_finally:
  assumes "leaves m P" "\<And>r es1. P r es1 \<Longrightarrow> R r (es1 @ [e])"
  shows "leaves (try_finally m (ignore_failure (worker_effect e f))) R"
proof (rule leavesI)
  fix es s r es' s'
  assume all: "try_finally m (ignore_failure (worker_effect e f)) (es, s) = (r, es', s')"
  obtain q es1 s1 where m: "m (es, s) = (q, es1, s1)" by (cases "m (es, s)") auto
  obtain added where "es1 = es @ added" "P q added" using leavesD [OF assms(1) m] by blast
  moreover have "r = q" "es' = es1 @ [e]"
    using all m by (auto simp: try_finally_def ignore_failure_def worker_effect_def split: prod.splits)
  ultimately show "\<exists>added. es' = es @ added \<and> R r added" using assms(2) by auto
qed

lemma leaves_catch:
  assumes "leaves m P" "\<And>x es. P (Inr x) es \<Longrightarrow> R (Inr x) es"
    and "\<And>e es1. P (Inl e) es1 \<Longrightarrow> leaves (h e) (\<lambda>r es2. R r (es1 @ es2))"
  shows "leaves (try_catch m h) R"
proof (rule leavesI)
  fix es s r es' s'
  assume all: "try_catch m h (es, s) = (r, es', s')"
  obtain q es1 s1 where m: "m (es, s) = (q, es1, s1)" by (cases "m (es, s)") auto
  obtain added where a: "es1 = es @ added" "P q added" using leavesD [OF assms(1) m] by blast
  show "\<exists>added. es' = es @ added \<and> R r added"
  proof (cases q)
    case (Inr x)
    then have "r = Inr x" "es' = es1" using all m by (auto simp: try_catch_def)
    then show ?thesis using a Inr assms(2) by blast
  next
    case (Inl e)
    then have "h e (es @ added, s1) = (r, es', s')" using all m a(1) by (simp add: try_catch_def)
    from leavesD [OF assms(3) this] a(2) Inl show ?thesis by auto
  qed
qed

lemma leaves_if: "(b \<Longrightarrow> leaves m P) \<Longrightarrow> (\<not> b \<Longrightarrow> leaves n P) \<Longrightarrow> leaves (if b then m else n) P"
  by simp

subsection \<open>Values of the environment\<close>

lemma positive_env_ok: "positive_env env name d = Inr v \<Longrightarrow> 1 \<le> v"
  by (auto simp: positive_env_def try_in_eq_Inr split: if_splits)

lemma non_negative_env_ok: "non_negative_env env name d = Inr v \<Longrightarrow> 0 \<le> d \<Longrightarrow> 0 \<le> v"
  by (auto simp: non_negative_env_def Let_def split: option.splits if_splits)

lemma segment_env_ok: "segment_env env name = Inr s \<Longrightarrow> segment_ok s \<and> s \<noteq> []"
  using route_segment_valid by (auto simp: segment_env_def worker_segment_def Let_def try_in_eq_Inr split: if_splits)

lemma live_options_ok: "live_options_of env m t j = Inr opts \<Longrightarrow> options_ok opts"
  by (auto simp: live_options_of_def options_ok_def try_in_eq_Inr
      dest!: positive_env_ok segment_env_ok non_negative_env_ok)

lemma recovery_shape_ok:
  "recovery_shape_of env = Inr shape \<Longrightarrow>
     segment_ok (rs_namespace shape) \<and> 1 \<le> rs_resources shape \<and> 1 \<le> rs_entries shape \<and> 1 \<le> rs_payloadBytes shape"
  by (auto simp: recovery_shape_of_def try_in_eq_Inr dest!: positive_env_ok segment_env_ok)

lemma abuse_job_ok: "abuse_job env = Inr j \<Longrightarrow> job_ok j"
  by (auto simp: abuse_job_def try_in_eq_Inr dest!: positive_env_ok)

lemma wire_job_ok: "wire_job env t = Inr j \<Longrightarrow> job_ok j"
  by (auto simp: wire_job_def try_in_eq_Inr dest!: positive_env_ok segment_env_ok)

subsection \<open>Every run follows the protocol\<close>

definition runs_as :: "string list list \<Rightarrow> worker_event list \<Rightarrow> bool" where
  "runs_as sessions es \<longleftrightarrow> list_all started_ok es \<and> kinds es \<in> set sessions"

lemma kinds_simps [simp]:
  "kinds [] = []" "kinds (e # es) = event_kind e @ kinds es" "kinds (xs @ ys) = kinds xs @ kinds ys"
  by (simp_all add: kinds_def)

lemma leaves_log:
  "name \<noteq> ''fatal'' \<Longrightarrow> leaves (worker_log name entries) (\<lambda>r es. runs_as [[]] es)"
  unfolding worker_log_def by (rule leaves_effect) (simp add: runs_as_def)

lemma leaves_job: "job_ok j \<Longrightarrow> leaves (run_job h j) (\<lambda>r es. runs_as [[''job'']] es)"
  unfolding run_job_def by (rule leaves_effect) (simp add: runs_as_def)

lemma leaves_job_done:
  "job_ok j \<Longrightarrow> leaves (run_then (run_job h j) (\<lambda>_. ret ())) (\<lambda>r es. runs_as [[''job'']] es)"
  by (rule leaves_run_then, erule leaves_job) (auto intro!: leaves_ret simp: runs_as_def)

lemma leaves_gate:
  "leaves (when_do gated (steps [worker_log ''live_producer_ready'' entries, worker_effect GateAwaited g,
     worker_log ''live_producer_released'' entries])) (\<lambda>r es. runs_as [[], [''gate'']] es)"
proof (cases gated)
  case True
  have gate: "leaves (worker_effect GateAwaited g) (\<lambda>r es. runs_as [[''gate'']] es)"
    by (rule leaves_effect) (simp add: runs_as_def)
  have "leaves (steps [worker_log ''live_producer_ready'' entries, worker_effect GateAwaited g,
     worker_log ''live_producer_released'' entries]) (\<lambda>r es. runs_as [[], [''gate'']] es)"
    unfolding steps.simps
    by (intro leaves_run_then [OF leaves_log] leaves_run_then [OF gate] leaves_ret) (auto simp: runs_as_def)
  then show ?thesis by (simp add: True when_do_def)
qed (auto simp: when_do_def runs_as_def intro: leaves_ret)

lemma leaves_live_role:
  "leaves (run_live_role env h t mode_text m) (\<lambda>r es. runs_as [[], [''gate''], [''job''], [''gate'', ''job'']] es)"
  unfolding run_live_role_def Let_def
  by (intro leaves_result_then leaves_run_then [OF leaves_gate] leaves_mono [OF leaves_job_done])
    (auto simp: runs_as_def dest: live_options_ok)

lemma leaves_recovery:
  assumes "\<And>shape. recovery_shape_of env = Inr shape \<Longrightarrow> job_ok (job shape)"
  shows "leaves (run_recovery env h mode_text job) (\<lambda>r es. runs_as [[], [''job'']] es)"
  unfolding run_recovery_def
  by (intro leaves_result_then leaves_run_then [OF leaves_job] leaves_mono [OF leaves_log]
      leaves_run_then [OF leaves_clock [where P = "\<lambda>r es. es = []"]])
    (auto simp: runs_as_def assms)

lemma leaves_connected:
  "leaves (connected_job env h t mode_text m cc) (\<lambda>r es. runs_as
     [[], [''connect''], [''connect'', ''job''], [''connect'', ''gate''], [''connect'', ''gate'', ''job'']] es)"
proof -
  have startup: "leaves (if m = ''bombard'' then ret None
       else run_then (of_result (positive_env env ''DESTROYER_STARTUP_TIMEOUT_MS'' 180000)) (\<lambda>t. ret (Some t)))
     (\<lambda>r es. es = [])"
    by (intro leaves_if leaves_result_then leaves_ret) auto
  have connect: "leaves (worker_effect (ClientConnect cc u) c) (\<lambda>r es. runs_as [[''connect'']] es)" for u c
    by (rule leaves_effect) (simp add: runs_as_def)
  show ?thesis
    unfolding connected_job_def
    by (intro leaves_run_then [OF startup] leaves_run_then [OF connect] leaves_run_then [OF leaves_log] leaves_if
        leaves_mono [OF leaves_recovery] leaves_mono [OF leaves_job_done] leaves_mono [OF leaves_live_role])
      (auto simp: runs_as_def dest: recovery_shape_ok)
qed

lemma leaves_main: "leaves (worker_main env h t mode_text m) (\<lambda>r es. runs_as CLIENT_SESSIONS es)"
  unfolding worker_main_def
  by (intro leaves_if leaves_result_then leaves_mono [OF leaves_job_done] leaves_finally [OF leaves_connected])
    (auto simp: runs_as_def CLIENT_SESSIONS_def dest: abuse_job_ok wire_job_ok)


end
