(* ===== verification/Bombard.thy ===== *)
theory Bombard
  imports PressureWorkload Worker
begin

text \<open>
  The pressure client: \<^verbatim>\<open>bombard\<close> of src/worker.ts with its stages, its domain loops and its
  progress timer.  The loops of the domains share the state below, but each changes only the part of
  its domain, so a run is a sequence of turns: an iteration of one loop or a tick of the timer,
  in any order.  The broker answers through the record \<^verbatim>\<open>pressure_calls\<close>.
\<close>

subsection \<open>The client and the state\<close>

record 'o pressure_calls =
  pc_queue :: "'o queue_calls"
  pc_enqueue :: "string \<Rightarrow> byte list \<Rightarrow> ('o, unit) client_script"
  pc_kv_begin :: "string \<Rightarrow> ('o, nat) client_script"
  pc_kv_put :: "nat \<Rightarrow> byte list \<times> byte list \<Rightarrow> ('o, unit) client_script"
  pc_kv_commit :: "nat \<Rightarrow> ('o, unit) client_script"
  pc_kv_rollback :: "nat \<Rightarrow> ('o, unit) client_script"
  pc_connect :: "('o, nat) client_script"
  pc_close :: "nat \<Rightarrow> ('o, unit) client_script"
  pc_stream_begin :: "nat \<Rightarrow> string \<Rightarrow> ('o, nat) client_script"
  pc_stream_append :: "nat \<Rightarrow> nat \<Rightarrow> byte list \<Rightarrow> ('o, unit) client_script"
  pc_stream_commit :: "nat \<Rightarrow> ('o, unit) client_script"
  pc_stream_rollback :: "nat \<Rightarrow> ('o, unit) client_script"
  pc_stream_peek :: "nat \<Rightarrow> string \<Rightarrow> ('o, nat option) client_script"
  pc_schedule :: "string \<Rightarrow> string \<Rightarrow> string \<Rightarrow> byte list \<Rightarrow> ('o, unit) client_script"
  pc_publish :: "string \<Rightarrow> byte list \<Rightarrow> ('o, unit) client_script"
  pc_acquire :: "string \<Rightarrow> nat \<Rightarrow> nat \<Rightarrow> ('o, nat) client_script"
  pc_release :: "nat \<Rightarrow> ('o, unit) client_script"
  pc_register :: "string \<Rightarrow> ('o, nat) client_script"
  pc_unsubscribe :: "nat \<Rightarrow> ('o, unit) client_script"
  pc_rpc :: "string \<Rightarrow> byte list \<Rightarrow> ('o, byte list list) client_script"
  pc_aborted :: "'o \<Rightarrow> bool"
  pc_clock :: "'o \<Rightarrow> rat \<times> 'o"
  pc_sleep :: "nat \<Rightarrow> 'o \<Rightarrow> 'o"

record tally =
  successes :: nat
  errors :: nat

type_synonym counters = "domain \<Rightarrow> tally"

definition empty_counters :: counters where
  "empty_counters = (\<lambda>d. \<lparr>successes = 0, errors = 0\<rparr>)"

datatype bombard_entry =
    ProgressEntry counters counters pressure_stages "(domain, string) js_map"
  | RetryEntry string nat nat thrown
  | StoppedEntry counters pressure_stages queue_client_outcome

record 'o bombard =
  bo_stages :: pressure_stages
  bo_outcome :: queue_client_outcome
  bo_totals :: counters
  bo_window :: counters
  bo_lastErrors :: "(domain, string) js_map"
  bo_offset :: nat
  bo_stream :: "nat option"
  bo_counter :: "domain \<Rightarrow> nat"
  bo_ended :: "domain list"
  bo_hung :: "domain list"
  bo_log :: "bombard_entry list"
  bo_outside :: 'o

definition start_bombard :: "string \<Rightarrow> 'o \<Rightarrow> 'o bombard" where
  "start_bombard w s =
     \<lparr>bo_stages = [],
      bo_outcome = \<lparr>worker = w, acknowledged = [], ambiguousEnqueues = [], failedEnqueues = [], completed = [],
        ambiguousCompletions = []\<rparr>,
      bo_totals = empty_counters, bo_window = empty_counters, bo_lastErrors = [], bo_offset = 0, bo_stream = None,
      bo_counter = (\<lambda>d. 0), bo_ended = [], bo_hung = [], bo_log = [], bo_outside = s\<rparr>"

type_synonym ('o, 'a) bombard_script = "('o bombard, 'a) client_script"

definition calling :: "('o, 'a) client_script \<Rightarrow> ('o, 'a) bombard_script" where
  "calling m = (\<lambda>b. case m (bo_outside b) of (r, s) \<Rightarrow> (r, b\<lparr>bo_outside := s\<rparr>))"

definition is_aborted :: "'o pressure_calls \<Rightarrow> 'o bombard \<Rightarrow> bool" where
  "is_aborted c b = pc_aborted c (bo_outside b)"

definition read_time :: "'o pressure_calls \<Rightarrow> ('o, rat) bombard_script" where
  "read_time c = calling (\<lambda>s. case pc_clock c s of (t, s') \<Rightarrow> (Inr t, s'))"

definition pause :: "'o pressure_calls \<Rightarrow> nat \<Rightarrow> ('o, unit) bombard_script" where
  "pause c ms = calling (\<lambda>s. (Inr (), pc_sleep c ms s))"

subsection \<open>Stages\<close>

definition update_stage :: "domain \<Rightarrow> string \<Rightarrow> (stage_state \<Rightarrow> stage_state) \<Rightarrow> ('o, unit) bombard_script" where
  "update_stage d stg f =
     modify (\<lambda>b. b\<lparr>bo_stages := put_stage (bo_stages b) d stg (f (snd (stage_metrics (bo_stages b) d stg)))\<rparr>)"

definition record_elapsed :: "'o pressure_calls \<Rightarrow> domain \<Rightarrow> string \<Rightarrow> rat \<Rightarrow> ('o, unit) bombard_script" where
  "record_elapsed c d stg started_at =
     run_then (read_time c) (\<lambda>now. update_stage d stg (\<lambda>m. record_stage_latency m (fl (now - started_at))))"

text \<open>
  \<^verbatim>\<open>observeStage\<close>; an operation that has not returned (\<^verbatim>\<open>StillRunning\<close>) leaves the stage started.
\<close>

definition observe_stage ::
  "'o pressure_calls \<Rightarrow> domain \<Rightarrow> string \<Rightarrow> bool \<Rightarrow> ('o, 'a) bombard_script \<Rightarrow> ('o, 'a) bombard_script" where
  "observe_stage c d stg durable op =
     run_then (update_stage d stg id) (\<lambda>_.
     run_then (read_time c) (\<lambda>started_at.
     run_then (update_stage d stg (\<lambda>m. m\<lparr>started := started m + 1\<rparr>)) (\<lambda>_.
     run_then (attempt op) (\<lambda>r.
     case r of
       Inr x \<Rightarrow>
         run_then (update_stage d stg (\<lambda>m. m\<lparr>succeeded := succeeded m + 1\<rparr>)) (\<lambda>_.
         run_then (record_elapsed c d stg started_at) (\<lambda>_. ret x))
     | Inl e \<Rightarrow>
         if e = StillRunning then fail StillRunning
         else
           run_then (get_state (is_aborted c)) (\<lambda>stopping.
           run_then (update_stage d stg (\<lambda>m. fst (record_stage_error m (thrown_value e)
             (durable \<and> is_ambiguous_durable_error (thrown_value e)) stopping))) (\<lambda>_.
           run_then (record_elapsed c d stg started_at) (\<lambda>_. fail e)))))))"

definition retried :: "'o pressure_calls \<Rightarrow> nat \<Rightarrow> string \<Rightarrow> ('o, 'a) client_script \<Rightarrow> ('o, 'a) bombard_script" where
  "retried c n stg op =
     retry_queue_backpressure n 0 (calling op)
       (\<lambda>retries delay e.
         run_then (update_stage Queue stg (\<lambda>m. m\<lparr>retryableBackpressure := retryableBackpressure m + 1\<rparr>)) (\<lambda>_.
         modify (\<lambda>b. b\<lparr>bo_log := bo_log b @ [RetryEntry stg retries delay (thrown_value e)]\<rparr>)))
       (pause c)"

definition queue_outcome :: "(queue_client_outcome \<Rightarrow> queue_client_outcome) \<Rightarrow> ('o, unit) bombard_script" where
  "queue_outcome f = modify (\<lambda>b. b\<lparr>bo_outcome := f (bo_outcome b)\<rparr>)"

definition is_ambiguous :: "client_error \<Rightarrow> bool" where
  "is_ambiguous e = is_ambiguous_durable_error (thrown_value e)"

subsection \<open>The operation of each domain\<close>

definition bombard_route :: "domain \<Rightarrow> string \<Rightarrow> string \<Rightarrow> string" where
  "bombard_route d ns w = domain_name d @ ''://destroyer/'' @ ns @ ''/'' @ w"

definition enqueue_step :: "'o pressure_calls \<Rightarrow> nat \<Rightarrow> string \<Rightarrow> string \<Rightarrow> nat \<Rightarrow> ('o, unit) bombard_script" where
  "enqueue_step c n ns w i =
     run_then (update_stage Queue ''enqueue'' id) (\<lambda>_.
     try_catch
       (run_then (observe_stage c Queue ''enqueue'' True
          (retried c n ''enqueue'' (pc_enqueue c (bombard_route Queue ns w) (pressure_value ns w Queue i)))) (\<lambda>_.
        queue_outcome (\<lambda>q. q\<lparr>acknowledged := acknowledged q @ [of_nat i]\<rparr>)))
       (\<lambda>e.
         if e = StillRunning then fail e
         else
           run_then (queue_outcome (\<lambda>q.
             if is_ambiguous e then q\<lparr>ambiguousEnqueues := ambiguousEnqueues q @ [of_nat i]\<rparr>
             else q\<lparr>failedEnqueues := failedEnqueues q @ [of_nat i]\<rparr>)) (\<lambda>_. fail e)))"

definition complete_step :: "'o pressure_calls \<Rightarrow> queue_item \<Rightarrow> rat \<Rightarrow> ('o, unit) bombard_script" where
  "complete_step c item s =
     try_catch
       (run_then (observe_stage c Queue ''complete'' True (calling (qc_complete (pc_queue c) item))) (\<lambda>_.
        queue_outcome (\<lambda>q. q\<lparr>completed := completed q @ [s]\<rparr>)))
       (\<lambda>e. run_then (queue_outcome (\<lambda>q.
          if is_ambiguous e then q\<lparr>ambiguousCompletions := ambiguousCompletions q @ [s]\<rparr> else q)) (\<lambda>_. fail e))"

definition queue_operation :: "'o pressure_calls \<Rightarrow> nat \<Rightarrow> string \<Rightarrow> string \<Rightarrow> nat \<Rightarrow> ('o, unit) bombard_script" where
  "queue_operation c n ns w i =
     run_then (enqueue_step c n ns w i) (\<lambda>_.
     run_then (update_stage Queue ''reserve'' id) (\<lambda>_.
     run_then (observe_stage c Queue ''reserve'' True
       (retried c n ''reserve'' (qc_reserve (pc_queue c) (bombard_route Queue ns w) 2 1 None))) (\<lambda>items.
     case items of
       [] \<Rightarrow> ret ()
     | item # _ \<Rightarrow>
         run_then (of_checked (decode_pressure_queue_sequence ns w (qi_body item))) (\<lambda>s.
         complete_step c item s))))"

definition kv_operation :: "'o pressure_calls \<Rightarrow> string \<Rightarrow> string \<Rightarrow> nat \<Rightarrow> ('o, unit) bombard_script" where
  "kv_operation c ns w i =
     observe_stage c Kv ''transaction'' True (calling
       (run_then (pc_kv_begin c (bombard_route Kv ns w)) (\<lambda>tx.
        try_catch
          (run_then (pc_kv_put c tx (pressure_kv_write ns w i)) (\<lambda>_. pc_kv_commit c tx))
          (\<lambda>e. run_then (ignore_failure (pc_kv_rollback c tx)) (\<lambda>_. fail e)))))"

definition STREAM_UNAVAILABLE :: client_error where
  "STREAM_UNAVAILABLE = Thrown (ErrorObject ''Error'' ''stream pressure client is unavailable'') None"

definition RECONCILIATION_ERROR :: client_error where
  "RECONCILIATION_ERROR =
     Thrown (ErrorObject ''PressureStreamReconciliationError'' ''stream durable outcome could not be reconciled'') None"

text \<open>The body of the \<^verbatim>\<open>try\<close>, with the session it has begun as a local variable for the \<^verbatim>\<open>catch\<close>.\<close>

definition append_record ::
  "'o pressure_calls \<Rightarrow> nat \<Rightarrow> string \<Rightarrow> nat \<Rightarrow> byte list \<Rightarrow> (client_error, 'o \<times> nat option, unit) throwing" where
  "append_record c current route expected body =
     run_then (outer (pc_stream_begin c current route)) (\<lambda>session.
     run_then (set_local (Some session)) (\<lambda>_.
     run_then (outer (pc_stream_append c session expected body)) (\<lambda>_.
     outer (pc_stream_commit c session))))"

definition append_attempt ::
  "'o pressure_calls \<Rightarrow> nat \<Rightarrow> string \<Rightarrow> nat \<Rightarrow> byte list \<Rightarrow> ('o, (client_error \<times> nat option) option) client_script" where
  "append_attempt c current route expected body s =
     (case append_record c current route expected body (s, None) of
        (Inr _, s', _) \<Rightarrow> (Inr None, s')
      | (Inl e, s', session) \<Rightarrow> (Inr (Some (e, session)), s'))"

definition recover_stream :: "'o pressure_calls \<Rightarrow> string \<Rightarrow> nat \<Rightarrow> ('o, unit) bombard_script" where
  "recover_stream c route current =
     try_catch
       (run_then (calling (replace_and_reconcile (pc_close c current) (pc_connect c) (\<lambda>k. pc_stream_peek c k route) (pc_close c)))
         (\<lambda>(replacement, next_offset).
          modify (\<lambda>b. b\<lparr>bo_stream := Some replacement, bo_offset := next_offset\<rparr>)))
       (\<lambda>_. fail RECONCILIATION_ERROR)"

fun append_loop :: "'o pressure_calls \<Rightarrow> nat \<Rightarrow> string \<Rightarrow> nat \<Rightarrow> byte list \<Rightarrow> ('o, unit) bombard_script" where
  "append_loop c 0 route expected body = fail StillRunning"
| "append_loop c (Suc n) route expected body =
     run_then (get_state bo_stream) (\<lambda>stream_client.
     case stream_client of
       None \<Rightarrow> fail STREAM_UNAVAILABLE
     | Some current \<Rightarrow>
         run_then (calling (append_attempt c current route expected body)) (\<lambda>r.
         case r of
           None \<Rightarrow> modify (\<lambda>b. b\<lparr>bo_offset := bo_offset b + 1\<rparr>)
         | Some (e, session) \<Rightarrow>
             run_then (case session of None \<Rightarrow> ret () | Some h \<Rightarrow> ignore_failure (calling (pc_stream_rollback c h))) (\<lambda>_.
             run_then (get_state (is_aborted c)) (\<lambda>stopping.
             if stopping then fail e
             else
               run_then (recover_stream c route current) (\<lambda>_.
               if is_pressure_stream_cleanup_pending e
               then run_then (pause c 50) (\<lambda>_. append_loop c n route expected body)
               else fail e)))))"

definition stream_operation :: "'o pressure_calls \<Rightarrow> nat \<Rightarrow> string \<Rightarrow> string \<Rightarrow> nat \<Rightarrow> ('o, unit) bombard_script" where
  "stream_operation c n ns w i =
     run_then (get_state bo_stream) (\<lambda>stream_client.
     if stream_client = None then fail STREAM_UNAVAILABLE
     else
       run_then (get_state bo_offset) (\<lambda>next_offset.
       case pressure_stream_write ns w next_offset of (route, expected) \<Rightarrow>
       observe_stage c Stream ''append'' True (append_loop c n route expected (pressure_value ns w Stream i))))"

definition lease_operation :: "'o pressure_calls \<Rightarrow> string \<Rightarrow> string \<Rightarrow> ('o, unit) bombard_script" where
  "lease_operation c ns w =
     observe_stage c Lease ''acquire-release'' False (calling
       (run_then (pc_acquire c (bombard_route Lease ns w) 5 0) (\<lambda>held. pc_release c held)))"

definition rpc_operation :: "'o pressure_calls \<Rightarrow> string \<Rightarrow> string \<Rightarrow> nat \<Rightarrow> ('o, unit) bombard_script" where
  "rpc_operation c ns w i =
     observe_stage c Rpc ''call'' False
       (run_then (calling (pc_rpc c (bombard_route Rpc ns w) (pressure_value ns w Rpc i))) (\<lambda>bodies.
        let responses = length (filter (\<lambda>body. body \<noteq> []) bodies)
        in if responses \<noteq> 1 then raise (''expected one RPC response, received '' @ show_nat responses) else ret ()))"

fun operation_of :: "'o pressure_calls \<Rightarrow> nat \<Rightarrow> string \<Rightarrow> string \<Rightarrow> domain \<Rightarrow> nat \<Rightarrow> ('o, unit) bombard_script" where
  "operation_of c n ns w Queue i = queue_operation c n ns w i"
| "operation_of c n ns w Kv i = kv_operation c ns w i"
| "operation_of c n ns w Stream i = stream_operation c n ns w i"
| "operation_of c n ns w Schedule i =
     observe_stage c Schedule ''create'' True (calling
       (pc_schedule c (pressure_schedule_route ns w) ''0 0 1 1 *'' ''Single'' (pressure_value ns w Schedule i)))"
| "operation_of c n ns w Notice i =
     observe_stage c Notice ''publish'' False (calling (pc_publish c (bombard_route Notice ns w) (pressure_value ns w Notice i)))"
| "operation_of c n ns w Lease i = lease_operation c ns w"
| "operation_of c n ns w Rpc i = rpc_operation c ns w i"

subsection \<open>Turns\<close>

definition count_success :: "domain \<Rightarrow> counters \<Rightarrow> counters" where
  "count_success d k = k(d := (k d)\<lparr>successes := successes (k d) + 1\<rparr>)"

definition count_error :: "domain \<Rightarrow> counters \<Rightarrow> counters" where
  "count_error d k = k(d := (k d)\<lparr>errors := errors (k d) + 1\<rparr>)"

definition loop_success :: "domain \<Rightarrow> 'o bombard \<Rightarrow> 'o bombard" where
  "loop_success d b =
     b\<lparr>bo_totals := count_success d (bo_totals b), bo_window := count_success d (bo_window b),
       bo_lastErrors := filter (\<lambda>(k, _). k \<noteq> d) (bo_lastErrors b)\<rparr>"

definition loop_error :: "domain \<Rightarrow> client_error \<Rightarrow> 'o bombard \<Rightarrow> 'o bombard" where
  "loop_error d e b =
     b\<lparr>bo_totals := count_error d (bo_totals b), bo_window := count_error d (bo_window b),
       bo_lastErrors := map_set (bo_lastErrors b) d (error_message (thrown_value e))\<rparr>"

definition loop_next :: "'o pressure_calls \<Rightarrow> domain \<Rightarrow> 'o bombard \<Rightarrow> 'o bombard" where
  "loop_next c d b =
     snd (pause c (pressure_loop_delay_ms d) (b\<lparr>bo_counter := (bo_counter b)(d := bo_counter b d + 1)\<rparr>))"

definition end_loop :: "domain \<Rightarrow> 'o bombard \<Rightarrow> 'o bombard" where
  "end_loop d b = b\<lparr>bo_ended := bo_ended b @ [d]\<rparr>"

definition hang_loop :: "domain \<Rightarrow> 'o bombard \<Rightarrow> 'o bombard" where
  "hang_loop d b = b\<lparr>bo_hung := bo_hung b @ [d]\<rparr>"

text \<open>One round of \<^verbatim>\<open>domainLoop\<close>; a loop that has left or hangs makes no further round.\<close>

definition domain_turn :: "'o pressure_calls \<Rightarrow> nat \<Rightarrow> string \<Rightarrow> string \<Rightarrow> domain \<Rightarrow> 'o bombard \<Rightarrow> 'o bombard" where
  "domain_turn c n ns w d b =
     (if d \<in> set (bo_ended b) \<or> d \<in> set (bo_hung b) then b
      else if is_aborted c b then end_loop d b
      else
        (case operation_of c n ns w d (bo_counter b d) b of
           (Inr _, b') \<Rightarrow> loop_next c d (loop_success d b')
         | (Inl e, b') \<Rightarrow>
             if e = StillRunning then hang_loop d b'
             else if is_aborted c b' then end_loop d b'
             else loop_next c d (loop_error d e b')))"

definition progress_tick :: "'o bombard \<Rightarrow> 'o bombard" where
  "progress_tick b =
     b\<lparr>bo_window := empty_counters,
       bo_log := bo_log b @ [ProgressEntry (bo_totals b) (bo_window b) (bo_stages b) (bo_lastErrors b)]\<rparr>"

datatype turn = Turn domain | Tick

fun take_turn :: "'o pressure_calls \<Rightarrow> nat \<Rightarrow> string \<Rightarrow> string \<Rightarrow> domain list \<Rightarrow> 'o bombard \<Rightarrow> turn \<Rightarrow> 'o bombard" where
  "take_turn c n ns w ds b (Turn d) = (if d \<in> set ds then domain_turn c n ns w d b else b)"
| "take_turn c n ns w ds b Tick = progress_tick b"

definition take_turns :: "'o pressure_calls \<Rightarrow> nat \<Rightarrow> string \<Rightarrow> string \<Rightarrow> domain list \<Rightarrow> turn list \<Rightarrow> 'o bombard \<Rightarrow> 'o bombard" where
  "take_turns c n ns w ds ts b = foldl (take_turn c n ns w ds) b ts"

text \<open>
  \<^verbatim>\<open>bombard\<close>: the options, the stream client and the RPC worker, the turns until every loop has
  left, and the \<^verbatim>\<open>finally\<close> clause.  \<^verbatim>\<open>turns\<close> is the order in which the event loop resumes the loops and
  the timer; a sequence that leaves a loop running has not returned.
\<close>

definition bombard_worker :: "environment \<Rightarrow> string \<Rightarrow> string result" where
  "bombard_worker env host_name =
     try_in (boolean_env env ''DESTROYER_SHARED_ROUTE'' False) (\<lambda>shared.
     if shared then Inr ''hot'' else worker_segment host_name)"

definition bombard_setup :: "'o pressure_calls \<Rightarrow> string \<Rightarrow> string \<Rightarrow> domain list \<Rightarrow> ('o, nat option) bombard_script" where
  "bombard_setup c ns w ds =
     run_then (if Stream \<in> set ds
       then run_then (calling (pc_connect c)) (\<lambda>k. modify (\<lambda>b. b\<lparr>bo_stream := Some k\<rparr>)) else ret ()) (\<lambda>_.
     if Rpc \<in> set ds then run_then (calling (pc_register c (bombard_route Rpc ns w))) (\<lambda>k. ret (Some k)) else ret None)"

definition bombard_finish :: "'o pressure_calls \<Rightarrow> nat option \<Rightarrow> ('o, unit) bombard_script" where
  "bombard_finish c rpc_worker =
     run_then (case rpc_worker of None \<Rightarrow> ret () | Some k \<Rightarrow> ignore_failure (calling (pc_unsubscribe c k))) (\<lambda>_.
     run_then (get_state bo_stream) (\<lambda>stream_client.
     run_then (case stream_client of None \<Rightarrow> ret () | Some k \<Rightarrow> ignore_failure (calling (pc_close c k))) (\<lambda>_.
     modify (\<lambda>b. b\<lparr>bo_log := bo_log b @ [StoppedEntry (bo_totals b) (bo_stages b) (bo_outcome b)]\<rparr>))))"

definition bombard_loops :: "'o pressure_calls \<Rightarrow> nat \<Rightarrow> string \<Rightarrow> string \<Rightarrow> domain list \<Rightarrow> turn list \<Rightarrow> ('o, unit) bombard_script" where
  "bombard_loops c n ns w ds ts =
     run_then (modify (take_turns c n ns w ds ts)) (\<lambda>_.
     run_then (get_state (\<lambda>b. set ds \<subseteq> set (bo_ended b))) (\<lambda>all_left.
     if all_left then ret () else fail StillRunning))"

definition bombard ::
  "environment \<Rightarrow> string \<Rightarrow> 'o pressure_calls \<Rightarrow> nat \<Rightarrow> turn list \<Rightarrow> 'o \<Rightarrow> (client_error + unit) \<times> 'o bombard" where
  "bombard env host_name c n ts s =
     (case (case segment_env env ''DESTROYER_NAMESPACE'' of
              Inl e \<Rightarrow> Inl e
            | Inr ns \<Rightarrow> try_in (bombard_worker env host_name) (\<lambda>w.
                try_in (parse_domain_selection (env ''DESTROYER_DOMAINS'')) (\<lambda>ds. Inr (ns, w, ds)))) of
        Inl e \<Rightarrow> (Inl (Raised e), start_bombard [] s)
      | Inr (ns, w, ds) \<Rightarrow>
          run_then (bombard_setup c ns w ds) (\<lambda>rpc_worker.
          run_then (of_checked (positive_env env ''DESTROYER_PROGRESS_INTERVAL_MS'' 1000)) (\<lambda>_.
          run_then (bombard_loops c n ns w ds ts) (\<lambda>_. bombard_finish c rpc_worker))) (start_bombard w s))"

end
