(* ===== verification/BombardProofs.thy ===== *)
theory BombardProofs
  imports Bombard
begin

text \<open>
  What a pressure client reports: every stage is balanced, every sequence has one enqueue outcome
  and the progress windows add up to the totals, in whatever order the loops take their turns and
  whatever the broker answers.
\<close>

subsection \<open>The stage of a name\<close>

definition stage_at :: "pressure_stages \<Rightarrow> domain \<Rightarrow> string \<Rightarrow> stage_state" where
  "stage_at ss d s = snd (stage_metrics ss d s)"

definition balanced :: "stage_state \<Rightarrow> bool" where
  "balanced m \<longleftrightarrow> stage_ok m \<and> started m = succeeded m + failed m + ambiguous m \<and> count (latency m) = started m"

lemma stage_at_put: "stage_at (put_stage ss d s m) d' s' = (if d = d' \<and> s = s' then m else stage_at ss d' s')"
  by (auto simp: stage_at_def put_stage_def stage_metrics_def Let_def get_or_def)

lemma stage_at_Nil [simp]: "stage_at [] d s = create_stage_metrics"
  by (simp add: stage_at_def stage_metrics_def get_or_def)

lemma balanced_create: "balanced create_stage_metrics"
  using create_stage_ok by (simp add: balanced_def create_stage_metrics_def empty_histogram_def)

lemma update_stage_run:
  "update_stage d s f b = (Inr (), b\<lparr>bo_stages := put_stage (bo_stages b) d s (f (stage_at (bo_stages b) d s))\<rparr>)"
  by (simp add: update_stage_def modify_def stage_at_def)

subsection \<open>What an operation leaves alone\<close>

definition flushed :: "bombard_entry list \<Rightarrow> counters list" where
  "flushed l = concat (map (\<lambda>e. case e of ProgressEntry t w ss le \<Rightarrow> [w] | _ \<Rightarrow> []) l)"

lemma flushed_simps [simp]:
  "flushed [] = []" "flushed (l @ m) = flushed l @ flushed m"
  "flushed (ProgressEntry t w ss le # l) = w # flushed l" "flushed (RetryEntry s r n e # l) = flushed l"
  "flushed (StoppedEntry t ss q # l) = flushed l"
  by (simp_all add: flushed_def)

definition stops :: "bombard_entry list \<Rightarrow> nat" where
  "stops l = length (filter (\<lambda>e. case e of StoppedEntry t ss q \<Rightarrow> True | _ \<Rightarrow> False) l)"

lemma stops_simps [simp]:
  "stops [] = 0" "stops (l @ m) = stops l + stops m" "stops (ProgressEntry t w ss le # l) = stops l"
  "stops (RetryEntry s r n e # l) = stops l" "stops (StoppedEntry t ss q # l) = Suc (stops l)"
  by (simp_all add: stops_def)

definition untouched :: "domain \<Rightarrow> 'o bombard \<Rightarrow> 'o bombard \<Rightarrow> bool" where
  "untouched d b b' \<longleftrightarrow>
     (\<forall>d' s. d' \<noteq> d \<longrightarrow> stage_at (bo_stages b') d' s = stage_at (bo_stages b) d' s) \<and>
     bo_totals b' = bo_totals b \<and> bo_window b' = bo_window b \<and> bo_counter b' = bo_counter b \<and>
     bo_ended b' = bo_ended b \<and> bo_hung b' = bo_hung b \<and> flushed (bo_log b') = flushed (bo_log b) \<and>
     stops (bo_log b') = stops (bo_log b) \<and>
     (d \<noteq> Queue \<longrightarrow> bo_outcome b' = bo_outcome b)"

lemma untouched_refl [simp]: "untouched d b b"
  by (simp add: untouched_def)

lemma untouched_trans: "untouched d b b' \<Longrightarrow> untouched d b' b'' \<Longrightarrow> untouched d b b''"
  by (simp add: untouched_def)

definition good :: "domain \<Rightarrow> 'o bombard \<Rightarrow> bool" where
  "good d b \<longleftrightarrow> (\<forall>s. balanced (stage_at (bo_stages b) d s))"

text \<open>
  \<^verbatim>\<open>safe d m\<close>: a script of the loop of \<^verbatim>\<open>d\<close> that touches no other domain and, when it returns, leaves
  the stages of \<^verbatim>\<open>d\<close> balanced.  \<^verbatim>\<open>quiet d m\<close>: one that may only count retries.
\<close>

definition safe :: "domain \<Rightarrow> ('o, 'a) bombard_script \<Rightarrow> bool" where
  "safe d m \<longleftrightarrow>
     (\<forall>b r b'. m b = (r, b') \<longrightarrow> untouched d b b' \<and> (r \<noteq> Inl StillRunning \<longrightarrow> good d b \<longrightarrow> good d b'))"

definition core :: "stage_state \<Rightarrow> stage_state" where
  "core m = m\<lparr>retryableBackpressure := 0\<rparr>"

definition retries_only :: "domain \<Rightarrow> 'o bombard \<Rightarrow> 'o bombard \<Rightarrow> bool" where
  "retries_only d b b' \<longleftrightarrow>
     untouched d b b' \<and> bo_outcome b' = bo_outcome b \<and>
     (\<forall>s. core (stage_at (bo_stages b') d s) = core (stage_at (bo_stages b) d s))"

definition quiet :: "domain \<Rightarrow> ('o, 'a) bombard_script \<Rightarrow> bool" where
  "quiet d m \<longleftrightarrow> (\<forall>b r b'. m b = (r, b') \<longrightarrow> retries_only d b b')"

lemma retries_only_refl [simp]: "retries_only d b b"
  by (simp add: retries_only_def)

lemma retries_only_trans: "retries_only d b b' \<Longrightarrow> retries_only d b' b'' \<Longrightarrow> retries_only d b b''"
  unfolding retries_only_def by (auto intro: untouched_trans)

lemma balanced_core: "balanced (core m) = balanced m"
  by (simp add: balanced_def core_def stage_ok_def)

lemma retries_only_good: "retries_only d b b' \<Longrightarrow> good d b \<Longrightarrow> good d b'"
  unfolding retries_only_def good_def by (metis balanced_core)

named_theorems turn_intros

lemma quietD: "quiet d m \<Longrightarrow> m b = (r, b') \<Longrightarrow> retries_only d b b'"
  by (simp add: quiet_def)

lemma quietI: "(\<And>b r b'. m b = (r, b') \<Longrightarrow> retries_only d b b') \<Longrightarrow> quiet d m"
  by (simp add: quiet_def)

lemma safeD: "safe d m \<Longrightarrow> m b = (r, b') \<Longrightarrow> untouched d b b' \<and> (r \<noteq> Inl StillRunning \<longrightarrow> good d b \<longrightarrow> good d b')"
  by (simp add: safe_def)

lemma safeI:
  "(\<And>b r b'. m b = (r, b') \<Longrightarrow> untouched d b b' \<and> (r \<noteq> Inl StillRunning \<longrightarrow> good d b \<longrightarrow> good d b')) \<Longrightarrow> safe d m"
  by (simp add: safe_def)

lemma quiet_safe: "quiet d m \<Longrightarrow> safe d m"
  by (rule safeI) (use quietD retries_only_good in \<open>fastforce simp: retries_only_def\<close>)

lemma quiet_ret [turn_intros]: "quiet d (ret x)"
  by (rule quietI) (simp add: ret_def)

lemma quiet_fail [turn_intros]: "quiet d (fail e)"
  by (rule quietI) (simp add: fail_def)

lemma quiet_get_state [turn_intros]: "quiet d (get_state f)"
  by (rule quietI) (simp add: get_state_def)

lemma quiet_checked [turn_intros]: "quiet d (of_checked r)"
  by (cases r) (simp_all add: of_checked_def turn_intros)

lemma quiet_calling [turn_intros]: "quiet d (calling m)"
  by (rule quietI) (auto simp: calling_def retries_only_def untouched_def split: prod.splits)

lemma quiet_time [turn_intros]: "quiet d (read_time c)"
  unfolding read_time_def by (rule quiet_calling)

lemma quiet_pause [turn_intros]: "quiet d (pause c ms)"
  unfolding pause_def by (rule quiet_calling)

lemma quiet_run_then [turn_intros]: "quiet d m \<Longrightarrow> (\<And>x. quiet d (k x)) \<Longrightarrow> quiet d (run_then m k)"
  by (rule quietI, auto simp: run_then_def split: prod.splits sum.splits)
    (metis quietD retries_only_trans, metis quietD retries_only_trans)

lemma quiet_attempt [turn_intros]: "quiet d m \<Longrightarrow> quiet d (attempt m)"
  by (rule quietI) (auto simp: attempt_def dest: quietD split: prod.splits)

lemma quiet_catch [turn_intros]: "quiet d m \<Longrightarrow> (\<And>e. quiet d (h e)) \<Longrightarrow> quiet d (try_catch m h)"
  by (rule quietI, auto simp: try_catch_def split: prod.splits sum.splits) (metis quietD retries_only_trans, metis quietD)

lemma quiet_ignore [turn_intros]: "quiet d m \<Longrightarrow> quiet d (ignore_failure m)"
  by (rule quietI) (auto simp: ignore_failure_def dest: quietD split: prod.splits, metis prod.collapse quietD)

lemma quiet_if [turn_intros]: "quiet d m \<Longrightarrow> quiet d m' \<Longrightarrow> quiet d (if b then m else m')"
  by simp

lemma quiet_option [turn_intros]: "quiet d m \<Longrightarrow> (\<And>x. quiet d (k x)) \<Longrightarrow> quiet d (case z of None \<Rightarrow> m | Some x \<Rightarrow> k x)"
  by (cases z) simp_all

lemma quiet_prod [turn_intros]: "(\<And>x y. quiet d (k x y)) \<Longrightarrow> quiet d (case z of (x, y) \<Rightarrow> k x y)"
  by (cases z) simp

lemma quiet_sum [turn_intros]:
  "(\<And>x. quiet d (f x)) \<Longrightarrow> (\<And>y. quiet d (g y)) \<Longrightarrow> quiet d (case z of Inl x \<Rightarrow> f x | Inr y \<Rightarrow> g y)"
  by (cases z) simp_all

lemma safe_run_then: "safe d m \<Longrightarrow> (\<And>x. safe d (k x)) \<Longrightarrow> safe d (run_then m k)"
proof (rule safeI)
  fix b r b'
  assume m: "safe d m" and k: "\<And>x. safe d (k x)" and run: "run_then m k b = (r, b')"
  obtain q b1 where q: "m b = (q, b1)" by (cases "m b")
  show "untouched d b b' \<and> (r \<noteq> Inl StillRunning \<longrightarrow> good d b \<longrightarrow> good d b')"
  proof (cases q)
    case (Inl e)
    then have "r = Inl e" "b' = b1" using run q by (auto simp: run_then_def)
    then show ?thesis using safeD [OF m q] Inl by auto
  next
    case (Inr x)
    then have "k x b1 = (r, b')" using run q by (auto simp: run_then_def)
    from safeD [OF k this] safeD [OF m q] Inr show ?thesis by (auto intro: untouched_trans)
  qed
qed

lemma safe_list: "safe d m \<Longrightarrow> (\<And>x xs. safe d (k x xs)) \<Longrightarrow> safe d (case z of [] \<Rightarrow> m | x # xs \<Rightarrow> k x xs)"
  by (cases z) simp_all

subsection \<open>Observed stages\<close>

lemma update_stage_untouched:
  "untouched d b (b\<lparr>bo_stages := put_stage (bo_stages b) d s m\<rparr>)"
  by (simp add: untouched_def stage_at_put)

lemma safe_stage_entry: "safe d (update_stage d s id)"
  by (rule safeI) (auto simp: update_stage_run update_stage_untouched good_def stage_at_put)

lemma retried_quiet: "quiet Queue (retried c n s op)"
proof -
  have update: "quiet Queue (update_stage Queue s (\<lambda>m. m\<lparr>retryableBackpressure := retryableBackpressure m + 1\<rparr>))"
    by (rule quietI)
      (auto simp: update_stage_run retries_only_def update_stage_untouched stage_at_put core_def)
  have logged: "quiet Queue (modify (\<lambda>b. b\<lparr>bo_log := bo_log b @ [RetryEntry s r delay e]\<rparr>))" for r delay e
    by (rule quietI) (auto simp: modify_def retries_only_def untouched_def)
  have "quiet Queue (retry_queue_backpressure n r (calling op)
     (\<lambda>retries delay e. run_then (update_stage Queue s (\<lambda>m. m\<lparr>retryableBackpressure := retryableBackpressure m + 1\<rparr>))
        (\<lambda>_. modify (\<lambda>b. b\<lparr>bo_log := bo_log b @ [RetryEntry s retries delay (thrown_value e)]\<rparr>))) (pause c))" for r
    by (induction n arbitrary: r) (auto intro!: turn_intros update [simplified] logged simp: Let_def)
  then show ?thesis unfolding retried_def .
qed

lemma core_eq: "core m' = core m \<Longrightarrow> m' = m\<lparr>retryableBackpressure := retryableBackpressure m'\<rparr>"
  by (cases m; cases m') (simp add: core_def)

definition opened :: "stage_state \<Rightarrow> stage_state \<Rightarrow> bool" where
  "opened m m' \<longleftrightarrow> balanced m \<and> core m' = core (m\<lparr>started := started m + 1\<rparr>)"

lemma opened_fields:
  assumes "opened m m'"
  shows "stage_ok m' \<and> started m' = succeeded m' + failed m' + ambiguous m' + 1 \<and> count (latency m') = succeeded m' + failed m' + ambiguous m'"
proof -
  have "m' = (m\<lparr>started := started m + 1\<rparr>)\<lparr>retryableBackpressure := retryableBackpressure m'\<rparr>"
    using assms core_eq by (simp add: opened_def)
  moreover have "balanced m" using assms by (simp add: opened_def)
  ultimately obtain k where "m' = (m\<lparr>started := started m + 1\<rparr>)\<lparr>retryableBackpressure := k\<rparr>" "balanced m" by blast
  then show ?thesis by (simp add: balanced_def stage_ok_def)
qed

lemma latency_count: "count (record_latency h x) = count h + 1"
  by (simp add: record_latency_def Let_def split: option.splits)

lemma closed_success:
  assumes "opened m m'" shows "balanced (record_stage_latency (m'\<lparr>succeeded := succeeded m' + 1\<rparr>) x)"
proof -
  have "stage_ok (m'\<lparr>succeeded := succeeded m' + 1\<rparr>)"
    using opened_fields [OF assms] by (simp add: stage_ok_def)
  then show ?thesis
    using opened_fields [OF assms] record_stage_latency_ok [of "m'\<lparr>succeeded := succeeded m' + 1\<rparr>" x]
    by (simp add: balanced_def record_stage_latency_def latency_count)
qed

lemma closed_error:
  assumes "opened m m'" shows "balanced (record_stage_latency (fst (record_stage_error m' e amb expected)) x)"
proof -
  have fields: "started (fst (record_stage_error m' e amb expected)) = started m'"
    "succeeded (fst (record_stage_error m' e amb expected)) = succeeded m'"
    by (simp_all add: record_stage_error_def Let_def)
  show ?thesis
    using opened_fields [OF assms] record_stage_latency_ok [OF record_stage_error_ok, of m' e amb expected x]
    by (simp add: balanced_def record_stage_latency_def latency_count record_stage_error_counts fields)
qed

lemma record_elapsed_run:
  "\<exists>x s'. record_elapsed c d s t b = (Inr (), b\<lparr>bo_outside := s', bo_stages :=
     put_stage (bo_stages b) d s (record_stage_latency (stage_at (bo_stages b) d s) x)\<rparr>)"
  by (auto simp: record_elapsed_def read_time_def calling_def run_then_def update_stage_run split: prod.splits)

lemma put_put_stage:
  "stage_at (put_stage (put_stage ss d s m) d s m') d' s' = stage_at (put_stage ss d s m') d' s'"
  by (simp add: stage_at_put)

lemma observe_stage_safe:
  assumes "quiet d op" shows "safe d (observe_stage c d s durable op)"
proof (rule safeI)
  fix b r b'
  assume run: "observe_stage c d s durable op b = (r, b')"
  let ?m = "stage_at (bo_stages b) d s"
  define b1 where "b1 = b\<lparr>bo_stages := put_stage (bo_stages b) d s ?m\<rparr>"
  obtain t s1 where clock: "pc_clock c (bo_outside b1) = (t, s1)" by (cases "pc_clock c (bo_outside b1)")
  define b3 where "b3 = b1\<lparr>bo_outside := s1, bo_stages := put_stage (bo_stages b1) d s (?m\<lparr>started := started ?m + 1\<rparr>)\<rparr>"
  have entry: "update_stage d s id b = (Inr (), b1)" by (simp add: update_stage_run b1_def)
  have time: "read_time c b1 = (Inr t, b1\<lparr>bo_outside := s1\<rparr>)"
    by (simp add: read_time_def calling_def clock)
  have begun: "update_stage d s (\<lambda>m. m\<lparr>started := started m + 1\<rparr>) (b1\<lparr>bo_outside := s1\<rparr>) = (Inr (), b3)"
    by (simp add: update_stage_run b3_def b1_def stage_at_put)
  obtain q b4 where op: "op b3 = (q, b4)" by (cases "op b3")
  have u3: "untouched d b b3" by (simp add: untouched_def b3_def b1_def stage_at_put)
  have r4: "retries_only d b3 b4" using quietD [OF assms op] .
  then have u4: "untouched d b b4" using u3 untouched_trans unfolding retries_only_def by blast
  let ?m4 = "stage_at (bo_stages b4) d s"
  have m4: "core ?m4 = core (?m\<lparr>started := started ?m + 1\<rparr>)"
    using r4 by (simp add: retries_only_def b3_def stage_at_put)
  have others: "balanced (stage_at (bo_stages b4) d s')" if "good d b" "s' \<noteq> s" for s'
  proof -
    have "core (stage_at (bo_stages b4) d s') = core (stage_at (bo_stages b) d s')"
      using r4 that(2) by (auto simp: retries_only_def b3_def b1_def stage_at_put)
    then show ?thesis using that(1) balanced_core unfolding good_def by metis
  qed
  have start_ok: "good d b \<Longrightarrow> opened ?m ?m4" using m4 by (simp add: opened_def good_def)
  show "untouched d b b' \<and> (r \<noteq> Inl StillRunning \<longrightarrow> good d b \<longrightarrow> good d b')"
  proof (cases q)
    case (Inr x)
    define b5 where "b5 = b4\<lparr>bo_stages := put_stage (bo_stages b4) d s (?m4\<lparr>succeeded := succeeded ?m4 + 1\<rparr>)\<rparr>"
    obtain y s5 where last: "record_elapsed c d s t b5 = (Inr (), b5\<lparr>bo_outside := s5, bo_stages :=
        put_stage (bo_stages b5) d s (record_stage_latency (stage_at (bo_stages b5) d s) y)\<rparr>)"
      using record_elapsed_run [of c d s t b5] by (elim exE)
    have "b' = b5\<lparr>bo_outside := s5, bo_stages :=
        put_stage (bo_stages b5) d s (record_stage_latency (?m4\<lparr>succeeded := succeeded ?m4 + 1\<rparr>) y)\<rparr>"
      using run entry time begun op last Inr
      by (auto simp: observe_stage_def run_then_def attempt_def ret_def update_stage_run b5_def stage_at_put)
    then show ?thesis
      using u4 others start_ok closed_success [of ?m ?m4 y]
      by (auto simp: untouched_def good_def b5_def stage_at_put)
  next
    case (Inl e)
    show ?thesis
    proof (cases "e = StillRunning")
      case True
      then have "b' = b4" "r = Inl StillRunning"
        using run entry time begun op Inl by (auto simp: observe_stage_def run_then_def attempt_def fail_def)
      then show ?thesis using u4 by simp
    next
      case False
      let ?x = "fst (record_stage_error ?m4 (thrown_value e) (durable \<and> is_ambiguous_durable_error (thrown_value e)) (is_aborted c b4))"
      define b5 where "b5 = b4\<lparr>bo_stages := put_stage (bo_stages b4) d s ?x\<rparr>"
      obtain y s5 where last: "record_elapsed c d s t b5 = (Inr (), b5\<lparr>bo_outside := s5, bo_stages :=
          put_stage (bo_stages b5) d s (record_stage_latency (stage_at (bo_stages b5) d s) y)\<rparr>)"
        using record_elapsed_run [of c d s t b5] by (elim exE)
      have "b' = b5\<lparr>bo_outside := s5, bo_stages := put_stage (bo_stages b5) d s (record_stage_latency ?x y)\<rparr>"
        using run entry time begun op last Inl False
        by (auto simp: observe_stage_def run_then_def attempt_def fail_def get_state_def update_stage_run b5_def stage_at_put)
      then show ?thesis
        using u4 others start_ok closed_error [of ?m ?m4]
        by (auto simp: untouched_def good_def b5_def stage_at_put)
    qed
  qed
qed

subsection \<open>The operations\<close>

lemma safe_quiet_then: "quiet d m \<Longrightarrow> (\<And>x. safe d (k x)) \<Longrightarrow> safe d (run_then m k)"
  by (rule safe_run_then [OF quiet_safe])

lemma safe_catch:
  assumes m: "safe d m" and h: "\<And>e. e \<noteq> StillRunning \<Longrightarrow> safe d (h e)"
    and hang: "\<And>b r b'. h StillRunning b = (r, b') \<Longrightarrow> untouched d b b' \<and> r = Inl StillRunning"
  shows "safe d (try_catch m h)"
proof (rule safeI)
  fix b r b'
  assume run: "try_catch m h b = (r, b')"
  obtain q b1 where q: "m b = (q, b1)" by (cases "m b")
  show "untouched d b b' \<and> (r \<noteq> Inl StillRunning \<longrightarrow> good d b \<longrightarrow> good d b')"
  proof (cases q)
    case (Inr x)
    then show ?thesis using safeD [OF m q] run q by (auto simp: try_catch_def)
  next
    case (Inl e)
    then have he: "h e b1 = (r, b')" using run q by (auto simp: try_catch_def)
    show ?thesis
    proof (cases "e = StillRunning")
      case True
      then show ?thesis using hang [of b1 r b'] he safeD [OF m q] by (auto intro: untouched_trans)
    next
      case False
      then show ?thesis using safeD [OF h he] safeD [OF m q] Inl by (auto intro: untouched_trans)
    qed
  qed
qed

lemma safe_outcome: "safe Queue (queue_outcome f)"
  by (rule safeI) (auto simp: queue_outcome_def modify_def untouched_def good_def)

lemma fail_run: "fail e b = (Inl e, b)"
  by (simp add: fail_def)

lemmas safe_fail = quiet_safe [OF quiet_fail]

lemma safe_enqueue: "safe Queue (enqueue_step c n ns w i)"
  unfolding enqueue_step_def
  by (intro safe_run_then safe_catch safe_stage_entry observe_stage_safe retried_quiet safe_outcome)
    (auto simp: fail_run intro!: safe_run_then [OF safe_outcome] safe_fail)

lemma safe_complete: "safe Queue (complete_step c item s)"
  unfolding complete_step_def
  by (intro safe_run_then safe_catch observe_stage_safe quiet_calling safe_outcome quiet_safe [OF quiet_fail])
    (auto simp: run_then_def queue_outcome_def modify_def fail_def untouched_def)

lemma safe_queue: "safe Queue (queue_operation c n ns w i)"
  unfolding queue_operation_def
  by (intro safe_run_then safe_enqueue safe_stage_entry observe_stage_safe retried_quiet safe_list safe_complete
      quiet_safe [OF quiet_ret] quiet_safe [OF quiet_checked])

lemma quiet_stream_field:
  "quiet Stream (modify (\<lambda>b. b\<lparr>bo_stream := x, bo_offset := y\<rparr>))"
  "quiet Stream (modify (\<lambda>b. b\<lparr>bo_offset := bo_offset b + 1\<rparr>))"
  by (auto simp: quiet_def modify_def retries_only_def untouched_def)

lemma recover_quiet: "quiet Stream (recover_stream c route current)"
  unfolding recover_stream_def by (intro turn_intros quiet_stream_field)

lemma append_quiet: "quiet Stream (append_loop c n route expected body)"
proof (induction n)
  case (Suc n)
  then show ?case
    unfolding append_loop.simps by (intro turn_intros quiet_stream_field recover_quiet)
qed (simp add: turn_intros)

lemma raise_quiet: "quiet d (raise message)"
  unfolding raise_def by (rule quiet_fail)

lemma operation_safe: "safe d (operation_of c n ns w d i)"
proof (cases d)
  case Queue
  then show ?thesis by (simp add: safe_queue)
next
  case Stream
  have "safe Stream (stream_operation c n ns w i)"
    unfolding stream_operation_def pressure_stream_write_def
    by (auto intro!: safe_quiet_then [OF quiet_get_state] observe_stage_safe append_quiet quiet_safe [OF quiet_fail])
  then show ?thesis using Stream by simp
qed (auto simp: kv_operation_def lease_operation_def rpc_operation_def Let_def
    intro!: observe_stage_safe turn_intros raise_quiet)

subsection \<open>The enqueue outcomes\<close>

definition enqueued :: "queue_client_outcome \<Rightarrow> rat multiset" where
  "enqueued q = mset (acknowledged q @ ambiguousEnqueues q @ failedEnqueues q)"

definition still_enqueued :: "rat multiset \<Rightarrow> 'o bombard \<Rightarrow> bool" where
  "still_enqueued X b \<longleftrightarrow> enqueued (bo_outcome b) = X"

lemma still_update [keeps_intros]: "keeps (still_enqueued X) (update_stage d s f)"
  by (simp add: keeps_def update_stage_run still_enqueued_def)

lemma still_calling [keeps_intros]: "keeps (still_enqueued X) (calling m)"
  by (auto simp: keeps_def calling_def still_enqueued_def split: prod.splits)

lemma still_elapsed [keeps_intros]: "keeps (still_enqueued X) (record_elapsed c d s t)"
  unfolding record_elapsed_def read_time_def by (intro keeps_intros)

lemma still_checked [keeps_intros]: "keeps I (of_checked r)"
  by (cases r) (simp_all add: of_checked_def keeps_intros)

lemma still_observe [keeps_intros]:
  "keeps (still_enqueued X) op \<Longrightarrow> keeps (still_enqueued X) (observe_stage c d s durable op)"
  unfolding observe_stage_def read_time_def by (intro keeps_intros)

lemma quiet_still: "quiet d m \<Longrightarrow> keeps (still_enqueued X) m"
  unfolding keeps_def still_enqueued_def by (metis prod.collapse quietD retries_only_def)

lemma still_retried [keeps_intros]: "keeps (still_enqueued X) (retried c n s op)"
  by (rule quiet_still [OF retried_quiet])

lemma still_complete [keeps_intros]: "keeps (still_enqueued X) (complete_step c item s)"
proof -
  have outcome: "keeps (still_enqueued X) (queue_outcome (\<lambda>q. q\<lparr>completed := completed q @ [s]\<rparr>))"
    "keeps (still_enqueued X) (queue_outcome (\<lambda>q. if amb then q\<lparr>ambiguousCompletions := ambiguousCompletions q @ [s]\<rparr> else q))" for amb
    by (auto simp: keeps_def queue_outcome_def modify_def still_enqueued_def enqueued_def)
  show ?thesis unfolding complete_step_def by (intro keeps_intros outcome)
qed

lemma enqueue_adds:
  assumes "enqueue_step c n ns w i b = (r, b')" "r \<noteq> Inl StillRunning"
  shows "enqueued (bo_outcome b') = add_mset (of_nat i) (enqueued (bo_outcome b))"
proof -
  let ?op = "observe_stage c Queue ''enqueue'' True
      (retried c n ''enqueue'' (pc_enqueue c (bombard_route Queue ns w) (pressure_value ns w Queue i)))"
  obtain u b1 where b1: "update_stage Queue ''enqueue'' id b = (Inr u, b1)" by (simp add: update_stage_run)
  obtain q b2 where b2: "?op b1 = (q, b2)" by (cases "?op b1")
  have still: "keeps (still_enqueued (enqueued (bo_outcome b))) ?op" by (intro keeps_intros)
  have "still_enqueued (enqueued (bo_outcome b)) b1"
    using b1 by (auto simp: update_stage_run still_enqueued_def)
  then have same: "enqueued (bo_outcome b2) = enqueued (bo_outcome b)"
    using keepsD [OF still b2] by (auto simp: still_enqueued_def)
  show ?thesis
    using assms b1 b2 same
    by (cases q) (auto simp: enqueue_step_def run_then_def try_catch_def queue_outcome_def modify_def fail_def
        enqueued_def split: if_splits)
qed

lemma queue_adds:
  assumes "queue_operation c n ns w i b = (r, b')" "r \<noteq> Inl StillRunning"
  shows "enqueued (bo_outcome b') = add_mset (of_nat i) (enqueued (bo_outcome b))"
proof -
  obtain q b1 where b1: "enqueue_step c n ns w i b = (q, b1)" by (cases "enqueue_step c n ns w i b")
  show ?thesis
  proof (cases q)
    case (Inl e)
    then have "r = q" "b' = b1" using assms(1) b1 by (auto simp: queue_operation_def run_then_def)
    then show ?thesis using enqueue_adds [OF b1] assms(2) by simp
  next
    case (Inr x)
    let ?rest = "run_then (update_stage Queue ''reserve'' id) (\<lambda>_.
     run_then (observe_stage c Queue ''reserve'' True
       (retried c n ''reserve'' (qc_reserve (pc_queue c) (bombard_route Queue ns w) 2 1 None))) (\<lambda>items.
     case items of
       [] \<Rightarrow> ret ()
     | item # _ \<Rightarrow>
         run_then (of_checked (decode_pressure_queue_sequence ns w (qi_body item))) (\<lambda>s.
         complete_step c item s)))"
    have rest: "?rest b1 = (r, b')" using assms(1) b1 Inr by (auto simp: queue_operation_def run_then_def)
    have still: "keeps (still_enqueued (enqueued (bo_outcome b1))) ?rest" by (intro keeps_intros)
    have "enqueued (bo_outcome b') = enqueued (bo_outcome b1)"
      using keepsD [OF still rest] by (simp add: still_enqueued_def)
    then show ?thesis using enqueue_adds [OF b1] Inr by simp
  qed
qed

subsection \<open>The invariant of a client\<close>

definition windows_add_up :: "'o bombard \<Rightarrow> domain \<Rightarrow> bool" where
  "windows_add_up b d \<longleftrightarrow>
     successes (bo_totals b d) = sum_list (map (\<lambda>w. successes (w d)) (flushed (bo_log b))) + successes (bo_window b d) \<and>
     errors (bo_totals b d) = sum_list (map (\<lambda>w. errors (w d)) (flushed (bo_log b))) + errors (bo_window b d)"

definition queue_rounds :: "'o bombard \<Rightarrow> nat \<Rightarrow> bool" where
  "queue_rounds b k \<longleftrightarrow>
     enqueued (bo_outcome b) = mset (map of_nat [0..<k]) \<and>
     (k = bo_counter b Queue \<or> k = bo_counter b Queue + 1 \<and> Queue \<in> set (bo_ended b))"

definition client_inv :: "'o bombard \<Rightarrow> bool" where
  "client_inv b \<longleftrightarrow>
     stops (bo_log b) = 0 \<and>
     (\<forall>d. d \<notin> set (bo_hung b) \<longrightarrow> good d b) \<and>
     (\<forall>d. successes (bo_totals b d) + errors (bo_totals b d) = bo_counter b d) \<and>
     (\<forall>d. windows_add_up b d) \<and>
     (Queue \<notin> set (bo_hung b) \<longrightarrow> (\<exists>k. queue_rounds b k))"

lemma start_inv: "client_inv (start_bombard w s)"
  by (simp add: client_inv_def start_bombard_def good_def balanced_create empty_counters_def windows_add_up_def
      queue_rounds_def enqueued_def)

lemma outside_inv [simp]: "client_inv (b\<lparr>bo_outside := s\<rparr>) = client_inv b"
  by (simp add: client_inv_def good_def windows_add_up_def queue_rounds_def)

lemma loop_next_fields:
  "\<exists>s. loop_next c d b = b\<lparr>bo_counter := (bo_counter b)(d := bo_counter b d + 1), bo_outside := s\<rparr>"
  by (auto simp: loop_next_def pause_def calling_def)

lemma end_loop_inv: "client_inv b \<Longrightarrow> client_inv (end_loop d b)"
  by (auto simp: client_inv_def end_loop_def good_def windows_add_up_def queue_rounds_def)

lemma good_other:
  "untouched d b b' \<Longrightarrow> d' \<noteq> d \<Longrightarrow> good d' b \<Longrightarrow> good d' b'"
  by (simp add: untouched_def good_def)

lemma rounds_other:
  "untouched d b b' \<Longrightarrow> d \<noteq> Queue \<Longrightarrow> queue_rounds b k \<Longrightarrow> queue_rounds b' k"
  by (simp add: untouched_def queue_rounds_def)

lemma hang_inv: "client_inv b \<Longrightarrow> untouched d b b' \<Longrightarrow> client_inv (hang_loop d b')"
  using good_other [of d b b'] rounds_other [of d b b']
  by (auto simp: client_inv_def hang_loop_def good_def windows_add_up_def queue_rounds_def untouched_def)

text \<open>The state after an operation of \<^verbatim>\<open>d\<close> that has returned.\<close>

definition after_operation :: "domain \<Rightarrow> 'o bombard \<Rightarrow> 'o bombard \<Rightarrow> bool" where
  "after_operation d b b' \<longleftrightarrow>
     untouched d b b' \<and> (good d b \<longrightarrow> good d b') \<and>
     (d = Queue \<longrightarrow> enqueued (bo_outcome b') = add_mset (of_nat (bo_counter b d)) (enqueued (bo_outcome b)))"

lemma operation_after:
  assumes "operation_of c n ns w d (bo_counter b d) b = (r, b')" "r \<noteq> Inl StillRunning"
  shows "after_operation d b b'"
  using safeD [OF operation_safe assms(1)] assms queue_adds [of c n ns w _ b r b']
  by (cases d) (auto simp: after_operation_def)

lemma rounds_next: "enqueued q = mset (map of_nat [0..<k]) \<Longrightarrow>
    add_mset (of_nat k) (enqueued q) = mset (map of_nat [0..<k + 1])"
  by simp

lemma end_after_inv:
  assumes "client_inv b" "after_operation d b b'" "d \<notin> set (bo_ended b)" "d \<notin> set (bo_hung b)"
  shows "client_inv (end_loop d b')"
proof -
  have u: "untouched d b b'" and g: "good d b'" using assms by (auto simp: after_operation_def client_inv_def)
  have "\<exists>k. queue_rounds (end_loop d b') k" if nh: "Queue \<notin> set (bo_hung b)"
  proof (cases "d = Queue")
    case True
    then have "enqueued (bo_outcome b) = mset (map of_nat [0..<bo_counter b d])"
      using assms nh by (auto simp: client_inv_def queue_rounds_def)
    then have "queue_rounds (end_loop d b') (bo_counter b d + 1)"
      using True assms(2) u by (simp add: after_operation_def queue_rounds_def end_loop_def untouched_def)
    then show ?thesis by blast
  next
    case False
    obtain k where "queue_rounds b k" using assms(1) nh by (auto simp: client_inv_def)
    then have "queue_rounds (end_loop d b') k"
      using rounds_other [OF u False] False by (auto simp: queue_rounds_def end_loop_def)
    then show ?thesis by blast
  qed
  moreover have "good d' (end_loop d b')" if nh: "d' \<notin> set (bo_hung b)" for d'
    using assms(1) g good_other [OF u, of d'] nh by (cases "d' = d") (auto simp: client_inv_def good_def end_loop_def)
  moreover have "windows_add_up (end_loop d b') d'" for d'
    using assms(1) u by (simp add: client_inv_def windows_add_up_def untouched_def end_loop_def)
  ultimately show ?thesis
    using assms(1) u unfolding client_inv_def by (auto simp: end_loop_def untouched_def)
qed

lemma next_after_inv:
  assumes "client_inv b" "after_operation d b b'" "d \<notin> set (bo_ended b)" "d \<notin> set (bo_hung b)"
    and "f = count_success d \<or> f = count_error d"
  shows "client_inv (loop_next c d (b'\<lparr>bo_totals := f (bo_totals b'), bo_window := f (bo_window b'), bo_lastErrors := le\<rparr>))"
proof -
  have u: "untouched d b b'" and g: "good d b'" using assms by (auto simp: after_operation_def client_inv_def)
  obtain s where b'': "loop_next c d (b'\<lparr>bo_totals := f (bo_totals b'), bo_window := f (bo_window b'), bo_lastErrors := le\<rparr>) =
     b'\<lparr>bo_totals := f (bo_totals b'), bo_window := f (bo_window b'), bo_lastErrors := le,
        bo_counter := (bo_counter b')(d := bo_counter b' d + 1), bo_outside := s\<rparr>" (is "_ = ?b''")
    using loop_next_fields [of c d "b'\<lparr>bo_totals := f (bo_totals b'), bo_window := f (bo_window b'), bo_lastErrors := le\<rparr>"] by auto
  have rounds: "\<exists>k. queue_rounds ?b'' k" if nh: "Queue \<notin> set (bo_hung b)"
  proof (cases "d = Queue")
    case True
    then have "enqueued (bo_outcome b) = mset (map of_nat [0..<bo_counter b d])"
      using assms nh by (auto simp: client_inv_def queue_rounds_def)
    then have "queue_rounds ?b'' (bo_counter b d + 1)"
      using True assms(2) u by (simp add: after_operation_def queue_rounds_def untouched_def)
    then show ?thesis by blast
  next
    case False
    obtain k where "queue_rounds b k" using assms(1) nh by (auto simp: client_inv_def)
    then have "queue_rounds ?b'' k" using u False by (simp add: queue_rounds_def untouched_def)
    then show ?thesis by blast
  qed
  have adds: "windows_add_up ?b'' d'" for d'
    using assms(1,5) u
    by (auto simp: client_inv_def windows_add_up_def untouched_def count_success_def count_error_def)
  have counts: "successes (bo_totals ?b'' d') + errors (bo_totals ?b'' d') = bo_counter ?b'' d'" for d'
    using assms(1,5) u
    by (auto simp: client_inv_def untouched_def count_success_def count_error_def)
  have goods: "good d' ?b''" if "d' \<notin> set (bo_hung b)" for d'
    using assms(1) g good_other [OF u, of d'] that by (cases "d' = d") (auto simp: client_inv_def good_def)
  have "stops (bo_log b) = 0" using assms(1) by (simp add: client_inv_def)
  then show ?thesis
    unfolding b'' client_inv_def using rounds adds counts goods u by (auto simp: untouched_def)
qed

lemma turn_inv: "client_inv b \<Longrightarrow> client_inv (take_turn c n ns w ds b t)"
proof (cases t)
  case (Turn d)
  assume inv: "client_inv b"
  have "client_inv (domain_turn c n ns w d b)"
  proof (cases "d \<in> set (bo_ended b) \<or> d \<in> set (bo_hung b) \<or> is_aborted c b")
    case True
    then show ?thesis using inv end_loop_inv by (auto simp: domain_turn_def)
  next
    case False
    obtain r b' where op: "operation_of c n ns w d (bo_counter b d) b = (r, b')"
      by (cases "operation_of c n ns w d (bo_counter b d) b")
    show ?thesis
    proof (cases "r = Inl StillRunning")
      case True
      then show ?thesis
        using False op hang_inv [OF inv] safeD [OF operation_safe op] by (simp add: domain_turn_def)
    next
      case returned: False
      note after = operation_after [OF op returned]
      note next_ok = next_after_inv [OF inv after, of _ c] and end_ok = end_after_inv [OF inv after]
      show ?thesis
        using False op returned next_ok end_ok
        by (cases r) (auto simp: domain_turn_def loop_success_def loop_error_def)
    qed
  qed
  then show ?thesis using inv Turn by simp
next
  case Tick
  assume "client_inv b"
  then show ?thesis
    using Tick by (auto simp: client_inv_def progress_tick_def good_def windows_add_up_def queue_rounds_def empty_counters_def)
qed

lemma turns_inv: "client_inv b \<Longrightarrow> client_inv (take_turns c n ns w ds ts b)"
  unfolding take_turns_def by (induction ts arbitrary: b) (auto intro: turn_inv)

subsection \<open>The stopped record\<close>

text \<open>What the last record of a client says when \<^verbatim>\<open>bombard\<close> returns.\<close>

definition enqueues_accepted :: "queue_client_outcome \<Rightarrow> bool" where
  "enqueues_accepted q \<longleftrightarrow>
     is_ok (assert_unique (acknowledged q) []) \<and> is_ok (assert_unique (ambiguousEnqueues q) []) \<and>
     is_ok (assert_unique (failedEnqueues q) []) \<and>
     is_ok (assert_disjoint (worker q) (acknowledged q) (ambiguousEnqueues q) (failedEnqueues q))"

definition stopped_sound :: "domain list \<Rightarrow> 'o bombard \<Rightarrow> bool" where
  "stopped_sound ds b \<longleftrightarrow>
     (\<exists>l totals stages q k.
        bo_log b = l @ [StoppedEntry totals stages q] \<and>
        (\<forall>d \<in> set ds. \<forall>s. balanced (stage_at stages d s)) \<and>
        (\<forall>d. \<exists>w :: tally. successes (totals d) = sum_list (map (\<lambda>w. successes (w d)) (flushed l)) + successes w \<and>
           errors (totals d) = sum_list (map (\<lambda>w. errors (w d)) (flushed l)) + errors w) \<and>
        (Queue \<in> set ds \<longrightarrow>
           enqueued q = mset (map of_nat [0..<k]) \<and>
           (k = successes (totals Queue) + errors (totals Queue) \<or> k = successes (totals Queue) + errors (totals Queue) + 1) \<and>
           (int k \<le> max_safe_integer \<longrightarrow> enqueues_accepted q)))"

lemma enqueues_accepted_ok:
  assumes "enqueued q = mset (map of_nat [0..<k])" "int k \<le> max_safe_integer"
  shows "enqueues_accepted q"
proof -
  let ?all = "acknowledged q @ ambiguousEnqueues q @ failedEnqueues q"
  have all: "mset ?all = mset (map of_nat [0..<k])" using assms(1) by (simp add: enqueued_def)
  have "distinct (map of_nat [0..<k] :: rat list)" by (simp add: distinct_map inj_on_def)
  then have d: "distinct ?all" using mset_eq_imp_distinct_iff [OF all] by simp
  have "set ?all = of_nat ` {0..<k}" using mset_eq_setD [OF all] by simp
  moreover have "is_safe_integer (of_nat n :: rat)" if "n < k" for n
    using that assms(2) by (simp add: is_safe_integer_def)
  ultimately have v: "\<forall>x \<in> set ?all. is_safe_integer x \<and> 0 \<le> x" by auto
  have "valid_sequences (acknowledged q)" "valid_sequences (ambiguousEnqueues q)" "valid_sequences (failedEnqueues q)"
    using d v by (auto simp: valid_sequences_def list_all_iff)
  moreover have "set (acknowledged q) \<inter> set (ambiguousEnqueues q) = {}"
    "(set (acknowledged q) \<union> set (ambiguousEnqueues q)) \<inter> set (failedEnqueues q) = {}"
    using d by auto
  ultimately show ?thesis by (auto simp: enqueues_accepted_def result_simps)
qed

definition same_evidence :: "'o bombard \<Rightarrow> 'o bombard \<Rightarrow> bool" where
  "same_evidence b0 b \<longleftrightarrow>
     bo_log b = bo_log b0 \<and> bo_totals b = bo_totals b0 \<and> bo_window b = bo_window b0 \<and> bo_stages b = bo_stages b0 \<and>
     bo_outcome b = bo_outcome b0 \<and> bo_counter b = bo_counter b0 \<and> bo_ended b = bo_ended b0 \<and> bo_hung b = bo_hung b0"

lemma same_inv: "same_evidence b0 b \<Longrightarrow> client_inv b = client_inv b0"
  by (cases b0; cases b) (simp add: client_inv_def same_evidence_def good_def windows_add_up_def queue_rounds_def)

lemma same_calling: "keeps (same_evidence b0) (calling m)"
  by (auto simp: keeps_def calling_def same_evidence_def split: prod.splits)

lemma setup_start:
  "bombard_setup c ns w ds (start_bombard w s) = (r, b) \<Longrightarrow> client_inv b \<and> bo_ended b = [] \<and> bo_hung b = []"
proof -
  assume run: "bombard_setup c ns w ds (start_bombard w s) = (r, b)"
  have "keeps (same_evidence (start_bombard w s)) (modify (\<lambda>b. b\<lparr>bo_stream := k\<rparr>))" for k
    by (auto simp: keeps_def modify_def same_evidence_def)
  then have "keeps (same_evidence (start_bombard w s)) (bombard_setup c ns w ds)"
    unfolding bombard_setup_def by (intro keeps_intros same_calling)
  from keepsD [OF this run] have "same_evidence (start_bombard w s) b" by (simp add: same_evidence_def)
  then show ?thesis using start_inv [of w s] by (simp add: same_inv) (simp add: same_evidence_def start_bombard_def)
qed

lemma finish_entry:
  assumes "bombard_finish c rpc_worker b0 = (r, b)"
  shows "bo_log b = bo_log b0 @ [StoppedEntry (bo_totals b0) (bo_stages b0) (bo_outcome b0)]"
proof -
  let ?closing = "run_then (case rpc_worker of None \<Rightarrow> ret () | Some k \<Rightarrow> ignore_failure (calling (pc_unsubscribe c k))) (\<lambda>_.
     run_then (get_state bo_stream) (\<lambda>stream_client.
     (case stream_client of None \<Rightarrow> ret () | Some k \<Rightarrow> ignore_failure (calling (pc_close c k)))))"
  obtain q b1 where closing: "?closing b0 = (q, b1)" by (cases "?closing b0")
  have "keeps (same_evidence b0) ?closing" by (intro keeps_intros same_calling)
  from keepsD [OF this closing] have same: "same_evidence b0 b1" by (simp add: same_evidence_def)
  have "\<exists>u. q = Inr u"
    using closing by (auto simp: run_then_def ignore_failure_def ret_def get_state_def split: option.splits)
  then have "b = b1\<lparr>bo_log := bo_log b1 @ [StoppedEntry (bo_totals b1) (bo_stages b1) (bo_outcome b1)]\<rparr>"
    using assms closing by (auto simp: bombard_finish_def run_then_def modify_def split: prod.splits sum.splits)
  then show ?thesis using same by (simp add: same_evidence_def)
qed

lemma turn_disjoint:
  assumes "set (bo_ended b) \<inter> set (bo_hung b) = {}"
  shows "set (bo_ended (take_turn c n ns w ds b t)) \<inter> set (bo_hung (take_turn c n ns w ds b t)) = {}"
proof (cases t)
  case (Turn d)
  have "set (bo_ended (domain_turn c n ns w d b)) \<inter> set (bo_hung (domain_turn c n ns w d b)) = {}"
  proof (cases "d \<in> set (bo_ended b) \<or> d \<in> set (bo_hung b) \<or> is_aborted c b")
    case True
    then show ?thesis using assms by (auto simp: domain_turn_def end_loop_def)
  next
    case False
    obtain r b' where op: "operation_of c n ns w d (bo_counter b d) b = (r, b')"
      by (cases "operation_of c n ns w d (bo_counter b d) b")
    have same: "bo_ended b' = bo_ended b" "bo_hung b' = bo_hung b"
      using safeD [OF operation_safe op] by (simp_all add: untouched_def)
    have fields: "bo_ended (loop_next c d x) = bo_ended x" "bo_hung (loop_next c d x) = bo_hung x" for x
      using loop_next_fields [of c d x] by auto
    show ?thesis
      using False op assms same
      by (cases r) (auto simp: domain_turn_def fields loop_success_def loop_error_def hang_loop_def end_loop_def)
  qed
  then show ?thesis using Turn assms by simp
qed (use assms in \<open>simp add: progress_tick_def\<close>)

lemma turns_disjoint:
  "set (bo_ended b) \<inter> set (bo_hung b) = {} \<Longrightarrow>
     set (bo_ended (take_turns c n ns w ds ts b)) \<inter> set (bo_hung (take_turns c n ns w ds ts b)) = {}"
  unfolding take_turns_def
proof (induction ts arbitrary: b)
  case (Cons t ts)
  then show ?case using turn_disjoint [OF Cons.prems] by simp
qed simp

lemma finish_returns: "bombard_finish c rpc_worker b0 = (r, b) \<Longrightarrow> \<exists>u. r = Inr u"
  by (auto simp: bombard_finish_def run_then_def ignore_failure_def ret_def get_state_def modify_def
      split: option.splits prod.splits)

lemma stopped_sound_finish:
  assumes inv: "client_inv b0" and left: "set ds \<subseteq> set (bo_ended b0)"
    and disjoint: "set (bo_ended b0) \<inter> set (bo_hung b0) = {}"
    and l: "bo_log b = bo_log b0 @ [StoppedEntry (bo_totals b0) (bo_stages b0) (bo_outcome b0)]"
  shows "stopped_sound ds b"
proof -
  have running: "d \<notin> set (bo_hung b0)" if "d \<in> set ds" for d using that left disjoint by blast
  have counts: "bo_counter b0 d = successes (bo_totals b0 d) + errors (bo_totals b0 d)" for d
    using inv by (simp add: client_inv_def)
  obtain k where k: "Queue \<in> set ds \<Longrightarrow> queue_rounds b0 k"
    using inv running by (auto simp: client_inv_def)
  have "\<exists>w :: tally. successes (bo_totals b0 d) = sum_list (map (\<lambda>w. successes (w d)) (flushed (bo_log b0))) + successes w \<and>
      errors (bo_totals b0 d) = sum_list (map (\<lambda>w. errors (w d)) (flushed (bo_log b0))) + errors w" for d
    using inv by (intro exI [of _ "bo_window b0 d"]) (simp add: client_inv_def windows_add_up_def)
  moreover have "balanced (stage_at (bo_stages b0) d s)" if "d \<in> set ds" for d s
    using inv running [OF that] by (simp add: client_inv_def good_def)
  ultimately show ?thesis
    unfolding stopped_sound_def
    using l k counts [of Queue] enqueues_accepted_ok [of "bo_outcome b0" k]
    by (intro exI [of _ "bo_log b0"] exI [of _ "bo_totals b0"] exI [of _ "bo_stages b0"] exI [of _ "bo_outcome b0"]
        exI [of _ k]) (auto simp: queue_rounds_def)
qed

definition bombard_sound :: "environment \<Rightarrow> (client_error + unit) \<times> 'o bombard \<Rightarrow> bool" where
  "bombard_sound env outcome =
     (case outcome of
        (Inl e, b) \<Rightarrow> stops (bo_log b) = 0
      | (Inr u, b) \<Rightarrow> \<exists>ds. parse_domain_selection (env ''DESTROYER_DOMAINS'') = Inr ds \<and> stopped_sound ds b)"


end
