(* ===== verification/BombardEvidence.thy ===== *)
theory BombardEvidence
  imports BombardProofs PressureEvidence
begin

text \<open>
  From the pressure client to the evidence of the run: the JSON of the record that a client logs
  when it stops (src/worker.ts) is what the analysis of src/orchestration/pressure.ts reads.
\<close>

subsection \<open>The records of the client\<close>

fun class_text :: "error_class \<Rightarrow> string" where
  "class_text Timeout = ''timeout''"
| "class_text Connection = ''connection''"
| "class_text Capacity = ''capacity''"
| "class_text Conflict = ''conflict''"
| "class_text Cancelled = ''cancelled''"
| "class_text Protocol = ''protocol''"
| "class_text Unknown = ''unknown''"

definition json_of_histogram :: "latency_histogram \<Rightarrow> json" where
  "json_of_histogram h =
     JObj [(''count'', JNum (of_nat (count h))), (''totalMs'', JNum (totalMs h)), (''maxMs'', JNum (maxMs h)),
           (''buckets'', JArr (map (\<lambda>n. JNum (of_nat n)) (buckets h))), (''overflow'', JNum (of_nat (overflow h)))]"

definition json_of_stage :: "stage_state \<Rightarrow> json" where
  "json_of_stage m =
     JObj [(''started'', JNum (of_nat (started m))), (''succeeded'', JNum (of_nat (succeeded m))),
           (''failed'', JNum (of_nat (failed m))), (''ambiguous'', JNum (of_nat (ambiguous m))),
           (''retryableBackpressure'', JNum (of_nat (retryableBackpressure m))),
           (''expectedShutdownCancellations'',
              JObj [(''failed'', JNum (of_nat (failed_esc (expectedShutdownCancellations m)))),
                    (''ambiguous'', JNum (of_nat (ambiguous_esc (expectedShutdownCancellations m))))]),
           (''latency'', json_of_histogram (latency m)),
           (''errorClasses'', JObj (map (\<lambda>(k, n). (class_text k, JNum (of_nat n))) (errorClasses m))),
           (''errorSamples'', JArr (map (\<lambda>(k, e). JObj [(''class'', JStr (class_text k)), (''error'', JStr e)]) (errorSamples m)))]"

definition json_of_sequences :: "rat list \<Rightarrow> json" where
  "json_of_sequences xs = JArr (map JNum xs)"

definition json_of_outcome :: "queue_client_outcome \<Rightarrow> json" where
  "json_of_outcome q =
     JObj [(''acknowledged'', json_of_sequences (acknowledged q)), (''ambiguousEnqueues'', json_of_sequences (ambiguousEnqueues q)),
           (''failedEnqueues'', json_of_sequences (failedEnqueues q)), (''completed'', json_of_sequences (completed q)),
           (''ambiguousCompletions'', json_of_sequences (ambiguousCompletions q))]"

definition json_of_totals :: "counters \<Rightarrow> json" where
  "json_of_totals k =
     JObj (map (\<lambda>d. (domain_name d, JObj [(''success'', JNum (of_nat (successes (k d)))), (''error'', JNum (of_nat (errors (k d))))])) ALL_DOMAINS)"

definition json_of_stages :: "pressure_stages \<Rightarrow> json" where
  "json_of_stages ss = JObj (map (\<lambda>(d, m). (domain_name d, JObj (map (\<lambda>(s, x). (s, json_of_stage x)) m))) ss)"

subsection \<open>Reading them back\<close>

definition evidence_of :: "stage_state \<Rightarrow> evidence_stage" where
  "evidence_of m =
     \<lparr>ev_started = started m, ev_succeeded = succeeded m, ev_failed = failed m, ev_ambiguous = ambiguous m,
      ev_retryable = retryableBackpressure m, ev_cancellations = expectedShutdownCancellations m,
      ev_histogram = latency m, ev_latency = latency_summary (latency m),
      ev_errorClasses = map (\<lambda>(k, n). (class_text k, n)) (errorClasses m),
      ev_errorSamples = map (\<lambda>(k, e). (class_text k, e)) (errorSamples m)\<rparr>"

definition small :: "nat \<Rightarrow> bool" where
  "small n \<longleftrightarrow> int n \<le> max_safe_integer"

text \<open>What a balanced stage needs for its numbers to be safe integers, and its texts to be texts.\<close>

definition readable :: "stage_state \<Rightarrow> bool" where
  "readable m \<longleftrightarrow>
     balanced m \<and> small (started m) \<and> small (retryableBackpressure m) \<and> 0 \<le> totalMs (latency m) \<and>
     (\<forall>(k, e) \<in> set (errorSamples m). e \<noteq> [])"

lemma numeric_small [simp]: "small n \<Longrightarrow> numeric_value (Some (JNum (of_nat n))) label = Inr n"
  by (simp add: numeric_value_def small_def is_safe_integer_def)

lemma numeric_list [simp]: "list_all small ns \<Longrightarrow> numeric_array (Some (JArr (map (\<lambda>n. JNum (of_nat n)) ns))) label = Inr ns"
proof -
  assume "list_all small ns"
  then have "traverse (\<lambda>item. numeric_value (Some item) label) (map (\<lambda>n. JNum (of_nat n)) ns) = Inr ns"
    by (induction ns) simp_all
  then show "numeric_array (Some (JArr (map (\<lambda>n. JNum (of_nat n)) ns))) label = Inr ns" by (simp add: numeric_array_def)
qed

lemma small_le: "small n \<Longrightarrow> m \<le> n \<Longrightarrow> small m"
  by (simp add: small_def)

lemma readable_numbers:
  assumes "readable m"
  shows "small (started m) \<and> small (succeeded m) \<and> small (failed m) \<and> small (ambiguous m) \<and> small (retryableBackpressure m) \<and>
    small (failed_esc (expectedShutdownCancellations m)) \<and> small (ambiguous_esc (expectedShutdownCancellations m)) \<and>
    small (count (latency m)) \<and> small (overflow (latency m)) \<and> list_all small (buckets (latency m)) \<and>
    length (buckets (latency m)) = 15 \<and> 0 \<le> totalMs (latency m) \<and> 0 \<le> maxMs (latency m)"
proof -
  have b: "balanced m" and s: "small (started m)" using assms by (auto simp: readable_def)
  have parts: "started m = succeeded m + failed m + ambiguous m" "count (latency m) = started m"
    "failed_esc (expectedShutdownCancellations m) \<le> failed m" "ambiguous_esc (expectedShutdownCancellations m) \<le> ambiguous m"
    "sum_list (buckets (latency m)) + overflow (latency m) = count (latency m)"
    using b by (auto simp: balanced_def stage_ok_def histogram_ok_def)
  have "list_all small (buckets (latency m))"
    unfolding list_all_iff
  proof
    fix n assume "n \<in> set (buckets (latency m))"
    then have "n \<le> started m" using member_le_sum_list [of n "buckets (latency m)"] parts(2,5) by linarith
    then show "small n" by (rule small_le [OF s])
  qed
  moreover have "small n" if "n \<le> started m" for n using small_le [OF s that] .
  ultimately show ?thesis
    using parts s assms b by (auto simp: readable_def balanced_def stage_ok_def histogram_ok_def)
qed

lemma read_histogram:
  assumes "list_all small (buckets h)" "length (buckets h) = 15" "small (count h)" "small (overflow h)"
    and "0 \<le> totalMs h" "0 \<le> maxMs h"
  shows "read_latency (Some (json_of_histogram h)) label = Inr h"
  using assms
  by (simp add: read_latency_def json_of_histogram_def object_value_def json_get_def non_negative_value_def LATENCY_BUCKET_UPPER_MS_def)

lemma class_text_inj: "class_text a = class_text b \<longleftrightarrow> a = b"
  by (cases a; cases b) simp_all

lemma fold_set_new:
  "distinct (map fst m @ map fst es) \<Longrightarrow> foldl (\<lambda>m (k, v). map_set m k v) m es = m @ es"
proof (induction es arbitrary: m)
  case (Cons e es)
  have absent: "fst e \<notin> set (map fst m) \<Longrightarrow> map_set m (fst e) (snd e) = m @ [e]" for m :: "('a \<times> 'b) list"
    by (induction m) auto
  show ?case using Cons.prems Cons.IH [of "m @ [e]"] absent [of m] by (cases e) auto
qed simp

lemma read_classes:
  assumes "distinct (map fst cs)" "\<forall>(k, n) \<in> set cs. small n"
  shows "read_error_classes (Some (JObj (map (\<lambda>(k, n). (class_text k, JNum (of_nat n))) cs))) label =
    Inr (map (\<lambda>(k, n). (class_text k, n)) cs)"
proof -
  have fold: "fold_result (\<lambda>m (name, found). try_in (numeric_value (Some found) (label @ '' '' @ name)) (\<lambda>n. Inr (map_set m name n))) m
      (map (\<lambda>(k, n). (class_text k, JNum (of_nat n))) cs) =
    Inr (foldl (\<lambda>m (k, v). map_set m k v) m (map (\<lambda>(k, n). (class_text k, n)) cs))" for m
    using assms(2) by (induction cs arbitrary: m) auto
  have "distinct (map fst (map (\<lambda>(k, n). (class_text k, n)) cs))"
    using assms(1) by (induction cs) (force simp: class_text_inj)+
  then show ?thesis
    using fold_set_new [of "[] :: (string \<times> nat) list" "map (\<lambda>(k, n). (class_text k, n)) cs"] fold [of "[]"]
    by (simp add: read_error_classes_def object_value_def entries_of_def)
qed

lemma class_text_nonempty: "class_text k \<noteq> []"
  by (cases k) simp_all

lemma read_samples:
  assumes "\<forall>(k, e) \<in> set es. e \<noteq> []"
  shows "traverse (read_error_sample label) (zip [j..<j + length es]
      (map (\<lambda>(k, e). JObj [(''class'', JStr (class_text k)), (''error'', JStr e)]) es)) =
    Inr (map (\<lambda>(k, e). (class_text k, e)) es)"
  using assms
proof (induction es arbitrary: j)
  case (Cons x es)
  obtain k e where x: "x = (k, e)" by (cases x)
  have "[j..<j + length (x # es)] = j # [Suc j..<Suc j + length es]" by (rule trans [OF upt_conv_Cons]) simp_all
  then show ?case
    using Cons.IH [of "Suc j"] Cons.prems x
    by (simp add: read_error_sample_def object_value_def string_value_def json_get_def class_text_nonempty)
qed simp

lemma read_stage_back:
  assumes "readable m" shows "read_stage (json_of_stage m) label = Inr (evidence_of m)"
proof -
  note numbers = readable_numbers [OF assms]
  have b: "balanced m" using assms by (simp add: readable_def)
  have keys: "distinct (map fst (errorClasses m))"
    using b by (auto simp: balanced_def stage_ok_def map_keys_def)
  have total: "sum_list (map snd (errorClasses m)) \<le> started m"
    using b by (auto simp: balanced_def stage_ok_def map_total_def)
  have "small n" if "(k, n) \<in> set (errorClasses m)" for k n
  proof -
    have "n \<in> set (map snd (errorClasses m))" using that by force
    from member_le_sum_list [OF this] have "n \<le> started m" using total by linarith
    then show ?thesis using numbers small_le by blast
  qed
  then have classes: "\<forall>(k, n) \<in> set (errorClasses m). small n" by auto
  have texts: "\<forall>(k, e) \<in> set (errorSamples m). e \<noteq> []" using assms by (simp add: readable_def)
  have histogram: "read_latency (Some (json_of_histogram (latency m))) l = Inr (latency m)" for l
    using numbers by (intro read_histogram) auto
  show ?thesis
    using numbers read_samples [OF texts, of label 0] read_classes [OF keys classes, of label]
    by (simp add: read_stage_def json_of_stage_def object_value_def json_get_def histogram read_cancellations_def evidence_of_def)
qed

subsection \<open>A domain and the queue outcome\<close>

lemma sequences_array:
  "valid_sequences xs \<Longrightarrow> numeric_array (Some (json_of_sequences xs)) label = Inr (map (\<lambda>x. nat \<lfloor>x\<rfloor>) xs)"
proof -
  assume "valid_sequences xs"
  then have "list_all (\<lambda>x. is_safe_integer x \<and> 0 \<le> x) xs" by (simp add: valid_sequences_def)
  then have "traverse (\<lambda>item. numeric_value (Some item) label) (map JNum xs) = Inr (map (\<lambda>x. nat \<lfloor>x\<rfloor>) xs)"
    by (induction xs) (simp_all add: numeric_value_def)
  then show ?thesis by (simp add: numeric_array_def json_of_sequences_def)
qed

lemma sequences_back: "valid_sequences xs \<Longrightarrow> map (of_nat \<circ> (\<lambda>x. nat \<lfloor>x\<rfloor>)) xs = xs"
proof (rule map_idI)
  fix x assume "valid_sequences xs" "x \<in> set xs"
  then have "x = of_int \<lfloor>x\<rfloor>" "0 \<le> x" by (auto simp: valid_sequences_def list_all_iff is_safe_integer_def)
  then show "(of_nat \<circ> (\<lambda>x. nat \<lfloor>x\<rfloor>)) x = x" by simp
qed

definition outcome_valid :: "queue_client_outcome \<Rightarrow> bool" where
  "outcome_valid q \<longleftrightarrow>
     list_all valid_sequences [acknowledged q, ambiguousEnqueues q, failedEnqueues q, completed q, ambiguousCompletions q]"

lemma read_outcome_back:
  assumes "outcome_valid q" shows "read_queue_outcome (worker q) (Some (json_of_outcome q)) = Inr q"
  using assms
  by (simp add: read_queue_outcome_def json_of_outcome_def object_value_def outcome_valid_def read_sequences_def
      sequences_array sequences_back)

lemma read_stages_back:
  assumes "distinct (map fst m)" "\<forall>(s, x) \<in> set m. readable x"
  shows "read_stages (JObj (map (\<lambda>(s, x). (s, json_of_stage x)) m)) label = Inr (map (\<lambda>(s, x). (s, evidence_of x)) m)"
proof -
  have fold: "fold_result (\<lambda>r (name, v). try_in (read_stage v (label @ ''/'' @ name)) (\<lambda>s. Inr (map_set r name s))) r
      (map (\<lambda>(s, x). (s, json_of_stage x)) m) =
    Inr (foldl (\<lambda>r (k, v). map_set r k v) r (map (\<lambda>(s, x). (s, evidence_of x)) m))" for r
    using assms(2) by (induction m arbitrary: r) (auto simp: read_stage_back)
  have "distinct (map fst (map (\<lambda>(s, x). (s, evidence_of x)) m))"
    using assms(1) by (simp add: comp_def case_prod_unfold)
  then show ?thesis
    using fold_set_new [of "[] :: (string \<times> evidence_stage) list" "map (\<lambda>(s, x). (s, evidence_of x)) m"] fold [of "[]"]
    by (simp add: read_stages_def entries_of_def)
qed

definition domain_readable :: "pressure_stages \<Rightarrow> counters \<Rightarrow> domain \<Rightarrow> bool" where
  "domain_readable ss k d \<longleftrightarrow>
     map_get ss d \<noteq> None \<and> get_or [] (map_get ss d) \<noteq> [] \<and> distinct (map fst (get_or [] (map_get ss d))) \<and>
     (\<forall>(s, x) \<in> set (get_or [] (map_get ss d)). readable x) \<and> small (successes (k d)) \<and> small (errors (k d))"

lemma domain_name_eq: "domain_name a = domain_name b \<longleftrightarrow> a = b"
  by (cases a; cases b) simp_all

lemma map_get_named: "map_get (map (\<lambda>(d, m). (domain_name d, f m)) ss) (domain_name d) = map_option f (map_get ss d)"
  by (induction ss) (auto simp: domain_name_eq)

lemma map_get_totals:
  "map_get (map (\<lambda>d. (domain_name d, g d)) ALL_DOMAINS) (domain_name d) = Some (g d)"
  by (cases d) (simp_all add: ALL_DOMAINS_def)



end
