(* ===== verification/LiveKit.thy ===== *)
theory LiveKit
  imports FitzClient Worker
begin

text \<open>
  What the workloads of the live roles share: their options are those that the worker reads
  (Worker), their log is the one of FitzClient.  A loop that waits for messages, requests or the
  abort signal takes fuel.
\<close>

definition live_count :: "live_options \<Rightarrow> nat" where
  "live_count opts = nat (lo_operations opts)"

definition live_payload :: "int \<Rightarrow> live_options \<Rightarrow> domain \<Rightarrow> nat \<Rightarrow> nat \<Rightarrow> bytes" where
  "live_payload sd opts d resource entry = deterministic_payload (nat sd) (nat (lo_payloadBytes opts)) d resource entry"

definition error_text :: "client_error \<Rightarrow> string" where
  "error_text e = error_message (thrown_value e)"

definition fail_with :: "string \<Rightarrow> arg list \<Rightarrow> ('w, 'a) client_script" where
  "fail_with template args = fail (Raised (Error template args))"

definition require :: "bool \<Rightarrow> string \<Rightarrow> arg list \<Rightarrow> ('w, unit) client_script" where
  "require b template args = (if b then ret () else fail_with template args)"

lemma require_ok [script_ok]: "require b t as w = (Inr u, w') \<longleftrightarrow> b \<and> w' = w"
  by (auto simp: require_def fail_with_def script_ok)

lemma fail_with_ok [script_ok]: "fail_with t as w = (Inr u, w') \<longleftrightarrow> False"
  by (simp add: fail_with_def script_ok)

definition same_bytes :: "bytes \<Rightarrow> bytes \<Rightarrow> string \<Rightarrow> ('w, unit) client_script" where
  "same_bytes actual expected what = of_checked (assert_bytes_equal actual expected what)"

lemma same_bytes_ok [script_ok]: "same_bytes a e what w = (Inr u, w') \<longleftrightarrow> a = e \<and> w' = w"
  by (auto simp: same_bytes_def script_ok assert_bytes_equal_ok)

subsection \<open>Time and the abort signal\<close>

definition date_ms :: "'o fitz_client \<Rightarrow> ('o, int) client_script" where
  "date_ms c = run_then (reading (fz_date c)) (\<lambda>t. ret \<lfloor>t\<rfloor>)"

definition sleep_until_ms :: "'o fitz_client \<Rightarrow> int \<Rightarrow> ('o, unit) client_script" where
  "sleep_until_ms c at_ms = run_then (date_ms c) (\<lambda>now. client_sleep c (max 0 (at_ms - now)))"

definition next_delivery :: "'o fitz_client \<Rightarrow> ('o, delivery) client_script" where
  "next_delivery c = reading (fz_delivery c)"

definition throw_reason :: "'o fitz_client \<Rightarrow> ('o, 'a) client_script" where
  "throw_reason c = run_then (get_state (fz_reason c)) (\<lambda>e. fail (Thrown e None))"

definition throw_if_aborted :: "'o fitz_client \<Rightarrow> ('o, unit) client_script" where
  "throw_if_aborted c = run_then (get_state (fz_aborted c)) (\<lambda>b. if b then throw_reason c else ret ())"

text \<open>A promise that resolves, and one that rejects, when the signal is aborted.\<close>

definition wait_for_abort :: "nat \<Rightarrow> 'o fitz_client \<Rightarrow> ('o, unit) client_script" where
  "wait_for_abort n c = while_do n (\<lambda>_. run_then (next_delivery c) (\<lambda>d. ret (if d = Aborted then Inr () else Inl ()))) ()"

definition reject_on_abort :: "nat \<Rightarrow> 'o fitz_client \<Rightarrow> ('o, 'a) client_script" where
  "reject_on_abort n c = run_then (wait_for_abort n c) (\<lambda>_. throw_reason c)"

text \<open>\<^verbatim>\<open>Promise.race([delivered, rejectOnAbort(signal)])\<close>: the first message of a subscription.\<close>

definition first_message :: "nat \<Rightarrow> 'o fitz_client \<Rightarrow> nat \<Rightarrow> ('o, bytes) client_script" where
  "first_message n c subscription =
     while_do n (\<lambda>_. run_then (next_delivery c) (\<lambda>d. case d of
       Delivered h route body \<Rightarrow> ret (if h = subscription then Inr body else Inl ())
     | Aborted \<Rightarrow> throw_reason c
     | Expired \<Rightarrow> throw_reason c
     | _ \<Rightarrow> ret (Inl ()))) ()"

text \<open>The handlers of registered workers run while the workload awaits something.\<close>

definition serve_requests ::
  "nat \<Rightarrow> 'o fitz_client \<Rightarrow> nat \<Rightarrow> (nat \<Rightarrow> bytes \<Rightarrow> ('o, unit) client_script) \<Rightarrow> ('o, unit) client_script" where
  "serve_requests n c registered handler =
     while_do n (\<lambda>_. run_then (next_delivery c) (\<lambda>d. case d of
       Requested h request body \<Rightarrow>
         if h = registered then run_then (ignore_failure (handler request body)) (\<lambda>_. ret (Inl ())) else ret (Inl ())
     | Idle \<Rightarrow> ret (Inr ())
     | _ \<Rightarrow> ret (Inl ()))) ()"

text \<open>
  \<^verbatim>\<open>runConcurrent\<close> of the queue workloads: the lanes take the sequences in order from a shared
  counter, here one operation at a time; the signal is looked at before each.
\<close>

definition run_concurrent :: "'o fitz_client \<Rightarrow> nat \<Rightarrow> (nat \<Rightarrow> 's \<Rightarrow> ('o live_world, 's) client_script) \<Rightarrow> 's \<Rightarrow> ('o, 's) workload" where
  "run_concurrent c operations operation s =
     for_of (\<lambda>sequence s. run_then (ask (throw_if_aborted c)) (\<lambda>_. operation sequence s)) [0..<operations] s"

subsection \<open>Runs that throw\<close>

named_theorems script_err

lemma ret_err [script_err]: "ret x w = (Inl e, w') \<longleftrightarrow> False"
  by (simp add: ret_def)

lemma fail_err [script_err]: "fail e w = (Inl e', w') \<longleftrightarrow> e' = e \<and> w' = w"
  by (auto simp: fail_def)

lemma run_then_err [script_err]:
  "run_then m k w = (Inl e, w') \<longleftrightarrow> m w = (Inl e, w') \<or> (\<exists>x v. m w = (Inr x, v) \<and> k x v = (Inl e, w'))"
  by (auto simp: run_then_def split: prod.splits sum.splits)

lemma modify_err [script_err]: "modify f w = (Inl e, w') \<longleftrightarrow> False"
  by (simp add: modify_def)

lemma get_state_err [script_err]: "get_state f w = (Inl e, w') \<longleftrightarrow> False"
  by (simp add: get_state_def)

lemma reading_err [script_err]: "reading f w = (Inl e, w') \<longleftrightarrow> False"
  by (auto simp: reading_def split: prod.splits)

lemma attempt_err [script_err]: "attempt m w = (Inl e, w') \<longleftrightarrow> False"
  by (auto simp: attempt_def split: prod.splits)

lemma ignore_failure_err [script_err]: "ignore_failure m w = (Inl e, w') \<longleftrightarrow> False"
  by (simp add: ignore_failure_def)

lemma of_checked_err [script_err]: "of_checked r w = (Inl e, w') \<longleftrightarrow> (\<exists>x. r = Inl x \<and> e = Raised x) \<and> w' = w"
  by (auto simp: of_checked_def script_err split: sum.splits)

lemma ask_err [script_err]: "ask m w = (Inl e, w') \<longleftrightarrow> (\<exists>s. m (lv_outside w) = (Inl e, s) \<and> w' = w\<lparr>lv_outside := s\<rparr>)"
  by (auto simp: ask_def split: prod.splits)

lemma log_event_err [script_err]: "log_event name es w = (Inl e, w') \<longleftrightarrow> False"
  by (simp add: log_event_def script_err)

lemma fail_with_err [script_err]: "fail_with t as w = (Inl e, w') \<longleftrightarrow> e = Raised (Error t as) \<and> w' = w"
  by (auto simp: fail_with_def script_err)

lemma require_err [script_err]: "require b t as w = (Inl e, w') \<longleftrightarrow> \<not> b \<and> e = Raised (Error t as) \<and> w' = w"
  by (auto simp: require_def script_err)

lemma sleep_until_err [script_err]: "sleep_until_ms c t w = (Inl e, w') \<longleftrightarrow> False"
  by (auto simp: sleep_until_ms_def date_ms_def client_sleep_def script_err)

lemma catching_ok [script_ok]:
  "catching m h w = (Inr x, w') \<longleftrightarrow> m w = (Inr x, w') \<or> (\<exists>e v. e \<noteq> StillRunning \<and> m w = (Inl e, v) \<and> h e v = (Inr x, w'))"
  by (auto simp: catching_def try_catch_def script_ok split: prod.splits sum.splits if_splits)

text \<open>Local variables beside the world.\<close>

lemma local_ok [script_ok]:
  "outer m (w, v) = (Inr x, w', v') \<longleftrightarrow> m w = (Inr x, w') \<and> v' = v"
  "set_local l (w, v) = (Inr u, w', v') \<longleftrightarrow> w' = w \<and> v' = l"
  "get_local (w, v) = (Inr y, w', v') \<longleftrightarrow> y = v \<and> w' = w \<and> v' = v"
  "with_local l n w = (Inr z, w') \<longleftrightarrow> (\<exists>v. n (w, l) = (Inr z, w', v))"
  by (auto simp: outer_def set_local_def modify_def get_local_def get_state_def with_local_def split: prod.splits)

lemma local_err [script_err]:
  "outer m (w, v) = (Inl e, w', v') \<longleftrightarrow> m w = (Inl e, w') \<and> v' = v"
  "set_local l (w, v) = (Inl e, w', v') \<longleftrightarrow> False"
  "get_local (w, v) = (Inl e, w', v') \<longleftrightarrow> False"
  "with_local l n w = (Inl e, w') \<longleftrightarrow> (\<exists>v. n (w, l) = (Inl e, w', v))"
  by (auto simp: outer_def set_local_def modify_def get_local_def get_state_def with_local_def split: prod.splits)

text \<open>A run that returns from a case distinction.\<close>

lemma case_sum_ok:
  "(case z of Inl a \<Rightarrow> f a | Inr b \<Rightarrow> g b) w = (Inr y, w') \<longleftrightarrow>
     (\<exists>a. z = Inl a \<and> f a w = (Inr y, w')) \<or> (\<exists>b. z = Inr b \<and> g b w = (Inr y, w'))"
  by (cases z) auto

lemma case_option_ok:
  "(case z of None \<Rightarrow> f | Some a \<Rightarrow> g a) w = (Inr y, w') \<longleftrightarrow>
     z = None \<and> f w = (Inr y, w') \<or> (\<exists>a. z = Some a \<and> g a w = (Inr y, w'))"
  by (cases z) auto

lemmas case_ok = case_sum_ok case_option_ok

lemma run_thenE:
  assumes "run_then m k w = (Inr y, w')" obtains x v where "m w = (Inr x, v)" "k x v = (Inr y, w')"
  using assms by (auto simp: run_then_ok)

text \<open>What the loops over a list keep, the second one with the position.\<close>

lemma for_of_keeps:
  assumes "\<And>x t t' v v'. x \<in> set xs \<Longrightarrow> I t v \<Longrightarrow> body x t v = (Inr t', v') \<Longrightarrow> I t' v'"
  shows "for_of body xs s w = (Inr s', w') \<Longrightarrow> I s w \<Longrightarrow> I s' w'"
  using assms
proof (induction xs arbitrary: s w)
  case (Cons x xs)
  then obtain t v where t: "body x s w = (Inr t, v)" "for_of body xs t v = (Inr s', w')" by (auto simp: script_ok)
  have "I t v" using Cons.prems(3) [OF _ Cons.prems(2) t(1)] by simp
  show ?case by (rule Cons.IH [OF t(2) \<open>I t v\<close>]) (rule Cons.prems(3), simp_all)
qed (simp add: script_ok)

lemma for_of_counts:
  assumes "\<And>k t t' v v'. k < n \<Longrightarrow> I k t v \<Longrightarrow> body k t v = (Inr t', v') \<Longrightarrow> I (Suc k) t' v'"
  shows "for_of body [0..<n] s w = (Inr s', w') \<Longrightarrow> I 0 s w \<Longrightarrow> I n s' w'"
proof -
  have "for_of body [k..<n] s w = (Inr s', w') \<Longrightarrow> I k s w \<Longrightarrow> k \<le> n \<Longrightarrow> I n s' w'" for k s w
  proof (induction "n - k" arbitrary: k s w)
    case (Suc m)
    then have split: "[k..<n] = k # [Suc k..<n]" by (simp add: upt_rec)
    obtain t v where t: "body k s w = (Inr t, v)" "for_of body [Suc k..<n] t v = (Inr s', w')"
      using Suc.prems(1) by (auto simp: split script_ok)
    show ?case using Suc.hyps(1) [OF _ t(2)] Suc.hyps(2) assms [OF _ Suc.prems(2) t(1)] by simp
  qed (simp add: script_ok)
  then show "for_of body [0..<n] s w = (Inr s', w') \<Longrightarrow> I 0 s w \<Longrightarrow> I n s' w'" by blast
qed

lemma elapsed_ok: "elapsed_time c t w = (Inr ms, w') \<Longrightarrow> lv_log w' = lv_log w"
  by (auto simp: elapsed_time_def performance_def script_ok)

end
