(* ===== verification/DurableWorkloads.thy ===== *)
theory DurableWorkloads
  imports LiveKit
begin

text \<open>
  The workloads on KV transactions and on streams: transaction contention, stream replay and
  global recovery (src/workloads/transaction-contention.ts, stream-replay.ts,
  stream-global-recovery.ts), for an arbitrary client, with what their logs say about a run.
\<close>

subsection \<open>Transaction contention\<close>

definition transaction_contention_route :: "string \<Rightarrow> string" where
  "transaction_contention_route ns = ''kv://destroyer/'' @ ns @ ''/transaction-contention''"

definition put_committed :: "'o fitz_client \<Rightarrow> string \<Rightarrow> bytes \<Rightarrow> bytes \<Rightarrow> ('o, unit) client_script" where
  "put_committed c route item_key v =
     run_then (kc_begin (fz_kv c) route False) (\<lambda>tx.
     undo_on_error
       (run_then (kc_put (fz_kv c) tx item_key v) (\<lambda>_. kc_commit (fz_kv c) tx))
       (kc_rollback (fz_kv c) tx))"

definition assert_missing :: "'o fitz_client \<Rightarrow> string \<Rightarrow> bytes \<Rightarrow> string \<Rightarrow> ('o, unit) client_script" where
  "assert_missing c route item_key label =
     run_then (kc_begin (fz_kv c) route True) (\<lambda>tx.
     finally_do
       (run_then (kc_get (fz_kv c) tx item_key) (\<lambda>found.
        require (found = None) ''$ key remains visible'' [AStr label]))
       (ignore_failure (kc_rollback (fz_kv c) tx)))"

definition matching_writer :: "int \<Rightarrow> live_options \<Rightarrow> bytes \<Rightarrow> nat result" where
  "matching_writer sd opts actual =
     (case find (\<lambda>writer. is_ok (assert_bytes_equal actual (live_payload sd opts Kv 0 writer) ''Contended KV winner'')) [1, 2] of
        Some writer \<Rightarrow> Inr writer
      | None \<Rightarrow> Inl (Error ''Contended KV value does not match either writer'' []))"

text \<open>\<^verbatim>\<open>Number(options.workerId) + 1\<close>, which must be 1 or 2.\<close>

definition contender_of :: "string \<Rightarrow> string \<Rightarrow> nat result" where
  "contender_of what worker_id =
     (if js_to_number worker_id = Some 0 then Inr 1
      else if js_to_number worker_id = Some 1 then Inr 2
      else Inl (Error ''Invalid $ contender $'' [AStr what, AStr worker_id]))"

text \<open>The local variables \<^verbatim>\<open>transaction\<close> (or \<^verbatim>\<open>session\<close>) and \<^verbatim>\<open>stage\<close> of a contender survive the exception.\<close>

type_synonym contender_locals = "nat option \<times> string"

definition transaction_writes ::
  "'o fitz_client \<Rightarrow> int \<Rightarrow> int \<Rightarrow> live_options \<Rightarrow> nat \<Rightarrow> ('o live_world \<times> contender_locals, unit) client_script" where
  "transaction_writes c sd commit_at opts writer =
     run_then (outer (ask (kc_begin (fz_kv c) (transaction_contention_route (lo_namespace opts)) False))) (\<lambda>tx.
     run_then (set_local (Some tx, ''read'')) (\<lambda>_.
     run_then (outer (ask (kc_get (fz_kv c) tx (utf8 ''contended'')))) (\<lambda>existing.
     run_then (require (existing \<noteq> None) ''KV contention baseline is missing'' []) (\<lambda>_.
     run_then (set_local (Some tx, ''put'')) (\<lambda>_.
     run_then (outer (ask (kc_put (fz_kv c) tx (utf8 ''contended'') (live_payload sd opts Kv 0 writer)))) (\<lambda>_.
     run_then (outer (log_event ''transaction_contender_ready'' [(''writer'', jnat writer), (''commitAtMs'', jint commit_at)])) (\<lambda>_.
     run_then (outer (ask (sleep_until_ms c commit_at))) (\<lambda>_.
     run_then (set_local (Some tx, ''commit'')) (\<lambda>_.
     run_then (outer (ask (kc_commit (fz_kv c) tx))) (\<lambda>_.
     outer (log_event ''transaction_contender_complete'' [(''writer'', jnat writer), (''outcome'', JStr ''committed'')])))))))))))"

text \<open>The \<^verbatim>\<open>catch\<close> clause: the optional rollback and the record of the rejection.\<close>

definition contender_rejected ::
  "string \<Rightarrow> nat \<Rightarrow> (nat \<Rightarrow> ('o, unit) client_script) \<Rightarrow> client_error \<Rightarrow> ('o live_world \<times> contender_locals, unit) client_script" where
  "contender_rejected name writer rollback e =
     run_then get_local (\<lambda>(handle, stage_name). outer
       (run_then (case handle of None \<Rightarrow> ret () | Some h \<Rightarrow> ask (ignore_failure (rollback h))) (\<lambda>_.
        log_event name [(''writer'', jnat writer), (''outcome'', JStr ''rejected''), (''stage'', JStr stage_name), (''error'', JStr (error_text e))])))"

definition contend_transaction :: "'o fitz_client \<Rightarrow> int \<Rightarrow> int \<Rightarrow> live_options \<Rightarrow> ('o, unit) workload" where
  "contend_transaction c sd commit_at opts =
     run_then (of_checked (contender_of ''KV'' (lo_workerId opts))) (\<lambda>writer.
     with_local (None, ''begin'')
       (catching (transaction_writes c sd commit_at opts writer)
          (contender_rejected ''transaction_contender_complete'' writer (kc_rollback (fz_kv c)))))"

definition hold_transaction :: "nat \<Rightarrow> 'o fitz_client \<Rightarrow> int \<Rightarrow> live_options \<Rightarrow> ('o, unit) workload" where
  "hold_transaction n c sd opts =
     (let route = transaction_contention_route (lo_namespace opts) in
      run_then (ask (kc_begin (fz_kv c) route False)) (\<lambda>tx.
      run_then (ask (kc_put (fz_kv c) tx (utf8 ''long-lived'') (live_payload sd opts Kv 0 9))) (\<lambda>_.
      run_then (log_event ''transaction_holder_ready'' [(''route'', JStr route)]) (\<lambda>_.
      ask (wait_for_abort n c)))))"

definition verify_transaction :: "'o fitz_client \<Rightarrow> int \<Rightarrow> live_options \<Rightarrow> ('o, unit) workload" where
  "verify_transaction c sd opts =
     (let route = transaction_contention_route (lo_namespace opts) in
      run_then (ask (kc_begin (fz_kv c) route True)) (\<lambda>tx.
      finally_do
        (run_then (ask (kc_get (fz_kv c) tx (utf8 ''long-lived''))) (\<lambda>long_lived.
         run_then (require (long_lived = None) ''Long-lived transaction mutation escaped disconnect rollback'' []) (\<lambda>_.
         run_then (ask (kc_get (fz_kv c) tx (utf8 ''contended''))) (\<lambda>contended.
         case contended of
           None \<Rightarrow> fail_with ''Contended KV winner is missing'' []
         | Some v \<Rightarrow>
             run_then (of_checked (matching_writer sd opts v)) (\<lambda>winner.
             log_event ''transaction_cleanup_verified'' [(''route'', JStr route), (''winner'', jnat winner)])))))
        (ask (ignore_failure (kc_rollback (fz_kv c) tx)))))"

definition prepare_transaction :: "'o fitz_client \<Rightarrow> int \<Rightarrow> live_options \<Rightarrow> ('o, unit) workload" where
  "prepare_transaction c sd opts =
     (let route = transaction_contention_route (lo_namespace opts); pay = live_payload sd opts Kv 0 in
      steps
       [ask (put_committed c route (utf8 ''contended'') (pay 0)),
        ask (run_then (kc_begin (fz_kv c) route False) (\<lambda>tx.
          steps [kc_put (fz_kv c) tx (utf8 ''rolled-back'') (pay 3), kc_rollback (fz_kv c) tx])),
        ask (assert_missing c route (utf8 ''rolled-back'') ''rollback isolation''),
        ask (put_committed c route (utf8 ''deleted'') (pay 4)),
        ask (run_then (kc_begin (fz_kv c) route False) (\<lambda>tx.
          steps [kc_delete (fz_kv c) tx (utf8 ''deleted''), kc_commit (fz_kv c) tx])),
        ask (assert_missing c route (utf8 ''deleted'') ''delete tombstone''),
        log_event ''transaction_prepare_complete'' [(''rollbackIsolated'', JBool True), (''deleteHidden'', JBool True)]])"

definition run_transaction_contention ::
  "nat \<Rightarrow> 'o fitz_client \<Rightarrow> int \<Rightarrow> transaction_action \<Rightarrow> int \<Rightarrow> live_options \<Rightarrow> ('o, unit) workload" where
  "run_transaction_contention n c sd action commit_at opts =
     (case action of
        TransactionHold \<Rightarrow> hold_transaction n c sd opts
      | TransactionVerify \<Rightarrow> verify_transaction c sd opts
      | TransactionContend \<Rightarrow> contend_transaction c sd commit_at opts
      | TransactionPrepare \<Rightarrow> prepare_transaction c sd opts)"

subsection \<open>Stream replay\<close>

definition stream_replay_route :: "string \<Rightarrow> string" where
  "stream_replay_route ns = ''stream://destroyer/'' @ ns @ ''/replay''"

definition boundary_payload :: "int \<Rightarrow> nat \<Rightarrow> bytes" where
  "boundary_payload sd n = xorshift_bytes n (if sd = 0 then 0x9e3779b9 else of_int sd)"

definition stream_writes ::
  "'o fitz_client \<Rightarrow> int \<Rightarrow> int \<Rightarrow> live_options \<Rightarrow> nat \<Rightarrow> ('o live_world \<times> contender_locals, unit) client_script" where
  "stream_writes c sd commit_at opts writer =
     run_then (outer (ask (sc_begin (fz_stream c) (stream_replay_route (lo_namespace opts))))) (\<lambda>session.
     run_then (set_local (Some session, ''append'')) (\<lambda>_.
     run_then (outer (ask (sc_append (fz_stream c) session 0 (live_payload sd opts Stream writer 0)))) (\<lambda>_.
     run_then (outer (log_event ''stream_replay_contender_ready'' [(''writer'', jnat writer), (''commitAtMs'', jint commit_at)])) (\<lambda>_.
     run_then (outer (ask (sleep_until_ms c commit_at))) (\<lambda>_.
     run_then (set_local (Some session, ''commit'')) (\<lambda>_.
     run_then (outer (ask (sc_commit (fz_stream c) session))) (\<lambda>_.
     outer (log_event ''stream_replay_contender_complete'' [(''writer'', jnat writer), (''outcome'', JStr ''committed'')]))))))))"

definition contend_stream :: "'o fitz_client \<Rightarrow> int \<Rightarrow> int \<Rightarrow> live_options \<Rightarrow> ('o, unit) workload" where
  "contend_stream c sd commit_at opts =
     run_then (of_checked (contender_of ''Stream'' (lo_workerId opts))) (\<lambda>writer.
     with_local (None, ''begin'')
       (catching (stream_writes c sd commit_at opts writer)
          (contender_rejected ''stream_replay_contender_complete'' writer (sc_rollback (fz_stream c)))))"

definition replay_writer :: "int \<Rightarrow> live_options \<Rightarrow> bytes \<Rightarrow> nat option" where
  "replay_writer sd opts body =
     find (\<lambda>writer. is_ok (assert_bytes_equal body (live_payload sd opts Stream writer 0) ''Stream contention winner'')) [1, 2]"

definition replay_winner :: "nat \<Rightarrow> 'o fitz_client \<Rightarrow> int \<Rightarrow> live_options \<Rightarrow> string \<Rightarrow> ('o, nat) client_script" where
  "replay_winner n c sd opts route =
     run_then (stream_batches n c route 0 1 (\<lambda>batch u. case batch of
         [] \<Rightarrow> ret (Inl u)
       | first # _ \<Rightarrow>
           if sr_offset first \<noteq> 0 then ret (Inl u)
           else (case replay_writer sd opts (sr_body first) of
               Some writer \<Rightarrow> ret (Inr writer)
             | None \<Rightarrow> fail_with ''Stream offset zero does not match either contender'' [])) ()) (\<lambda>r.
     case r of Inr winner \<Rightarrow> ret winner | Inl _ \<Rightarrow> fail_with ''Stream contention produced no offset-zero record'' [])"

definition assert_stale_offset_conflict :: "'o fitz_client \<Rightarrow> int \<Rightarrow> live_options \<Rightarrow> string \<Rightarrow> ('o, unit) client_script" where
  "assert_stale_offset_conflict c sd opts route =
     run_then (sc_begin (fz_stream c) route) (\<lambda>session.
     finally_do
       (catching
          (run_then (sc_append (fz_stream c) session 0 (live_payload sd opts Stream 0 999999)) (\<lambda>_.
           fail_with ''Stale Stream expected offset was accepted'' []))
          (\<lambda>e. if sublist ''conflict'' (lower (error_text e)) then ret () else fail e))
       (ignore_failure (sc_rollback (fz_stream c) session)))"

text \<open>The bounds of the batches of a loop from \<^verbatim>\<open>lo\<close> to \<^verbatim>\<open>n\<close> in steps.\<close>

definition batches_from :: "nat \<Rightarrow> nat \<Rightarrow> nat \<Rightarrow> (nat \<times> nat) list" where
  "batches_from lo step n = map (\<lambda>i. (lo + i * step, min n (lo + i * step + step))) [0..<(n - lo + step - 1) div step]"

definition append_rest :: "'o fitz_client \<Rightarrow> int \<Rightarrow> live_options \<Rightarrow> string \<Rightarrow> nat \<Rightarrow> ('o, unit) client_script" where
  "append_rest c sd opts route total_records =
     each (\<lambda>(start, stop).
       run_then (sc_begin (fz_stream c) route) (\<lambda>session.
       undo_on_error
         (run_then (each (\<lambda>sequence. sc_append (fz_stream c) session sequence (live_payload sd opts Stream 0 sequence)) [start..<stop]) (\<lambda>_.
          sc_commit (fz_stream c) session))
         (sc_rollback (fz_stream c) session)))
       (batches_from 1 100 total_records)"

definition check_replayed :: "int \<Rightarrow> live_options \<Rightarrow> nat \<Rightarrow> stream_record \<Rightarrow> nat \<Rightarrow> ('o, nat) client_script" where
  "check_replayed sd opts winner r observed =
     run_then (require (sr_offset r = observed) ''Stream replay offset $ != $'' [ANat (sr_offset r), ANat observed]) (\<lambda>_.
     run_then (same_bytes (sr_body r) (live_payload sd opts Stream (if observed = 0 then winner else 0) observed)
       (''Stream replay '' @ show_nat observed)) (\<lambda>_.
     ret (observed + 1)))"

definition replay_page ::
  "'o fitz_client \<Rightarrow> int \<Rightarrow> live_options \<Rightarrow> nat \<Rightarrow> stream_record list \<Rightarrow> nat \<times> nat \<Rightarrow> ('o, (nat \<times> nat) + (nat \<times> nat)) client_script" where
  "replay_page c sd opts winner batch = (\<lambda>(observed, pages).
     run_then (for_of (check_replayed sd opts winner) batch observed) (\<lambda>observed'.
     run_then (when_do (0 < lo_handlerDelayMs opts) (client_sleep c (lo_handlerDelayMs opts))) (\<lambda>_.
     ret (Inl (observed', pages + 1)))))"

definition replay_all :: "nat \<Rightarrow> 'o fitz_client \<Rightarrow> int \<Rightarrow> live_options \<Rightarrow> string \<Rightarrow> nat \<Rightarrow> ('o, nat \<times> nat) client_script" where
  "replay_all n c sd opts route winner =
     run_then (stream_batches n c route 0 17 (replay_page c sd opts winner) (0, 0)) (\<lambda>r.
     case r of Inl counted \<Rightarrow> ret counted | Inr u \<Rightarrow> ret u)"

definition check_boundary :: "bytes \<Rightarrow> stream_record \<Rightarrow> nat \<Rightarrow> ('o, nat) client_script" where
  "check_boundary boundary r records =
     run_then (same_bytes (sr_body r) boundary ''Stream boundary replay'') (\<lambda>_. ret (records + 1))"

definition boundary_replay :: "nat \<Rightarrow> 'o fitz_client \<Rightarrow> string \<Rightarrow> bytes \<Rightarrow> ('o, nat) client_script" where
  "boundary_replay n c route boundary =
     run_then (sc_begin (fz_stream c) route) (\<lambda>session.
     run_then (sc_append (fz_stream c) session 0 boundary) (\<lambda>_.
     run_then (sc_commit (fz_stream c) session) (\<lambda>_.
     run_then (stream_batches n c route 0 1 (\<lambda>batch records.
       run_then (for_of (check_boundary boundary) batch records) (\<lambda>records'. ret (Inl records'))) 0) (\<lambda>r.
     case r of Inl records \<Rightarrow> ret records | Inr u \<Rightarrow> ret u))))"

definition verify_replay :: "nat \<Rightarrow> 'o fitz_client \<Rightarrow> int \<Rightarrow> live_options \<Rightarrow> ('o, unit) workload" where
  "verify_replay n c sd opts =
     (let route = stream_replay_route (lo_namespace opts); total_records = nat (max 1 (lo_operations opts));
          boundary = boundary_payload sd 60000 in
      run_then (ask (replay_winner n c sd opts route)) (\<lambda>winner.
      run_then (ask (assert_stale_offset_conflict c sd opts route)) (\<lambda>_.
      run_then (ask (append_rest c sd opts route total_records)) (\<lambda>_.
      run_then (ask (replay_all n c sd opts route winner)) (\<lambda>(observed, pages).
      run_then (require (observed = total_records) ''Stream replay observed $/$ records'' [ANat observed, ANat total_records]) (\<lambda>_.
      run_then (ask (boundary_replay n c (route @ ''-boundary'') boundary)) (\<lambda>boundary_records.
      run_then (require (boundary_records = 1) ''Stream boundary replay returned $ records'' [ANat boundary_records]) (\<lambda>_.
      log_event ''stream_replay_complete''
        [(''winner'', jnat winner), (''offsetConflicts'', jnat 1), (''records'', jnat observed), (''pages'', jnat pages),
         (''boundaryBytes'', jnat (length boundary)), (''boundaryRecords'', jnat boundary_records)]))))))))"

definition run_stream_replay ::
  "nat \<Rightarrow> 'o fitz_client \<Rightarrow> int \<Rightarrow> stream_replay_action \<Rightarrow> int \<Rightarrow> live_options \<Rightarrow> ('o, unit) workload" where
  "run_stream_replay n c sd action commit_at opts =
     (case action of ReplayContend \<Rightarrow> contend_stream c sd commit_at opts | ReplayVerify \<Rightarrow> verify_replay n c sd opts)"

subsection \<open>What a contender logs\<close>

text \<open>
  A contender reports its outcome once: committed after it was ready and its commit returned, or
  rejected at the stage that threw, which comes after the ready event only for the commit.
\<close>

definition contender_trace ::
  "string \<Rightarrow> string list \<Rightarrow> nat \<Rightarrow> int \<Rightarrow> (string \<times> (string \<times> json) list) list \<Rightarrow> bool" where
  "contender_trace name stages writer commit_at ls =
     (let ready = (name @ ''_contender_ready'', [(''writer'', jnat writer), (''commitAtMs'', jint commit_at)]);
          complete_event = name @ ''_contender_complete'';
          rejected = (\<lambda>stage_name e. (complete_event,
            [(''writer'', jnat writer), (''outcome'', JStr ''rejected''), (''stage'', JStr stage_name), (''error'', JStr e)])) in
      ls = [ready, (complete_event, [(''writer'', jnat writer), (''outcome'', JStr ''committed'')])] \<or>
      (\<exists>e. ls = [ready, rejected ''commit'' e]) \<or>
      (\<exists>stage_name e. stage_name \<in> set stages \<and> ls = [rejected stage_name e]))"

lemma contender_rejected_ok:
  "contender_rejected name writer rollback e (w, handle, stage_name) = (Inr (), w', l') \<Longrightarrow>
     lv_log w' = lv_log w @ [(name, [(''writer'', jnat writer), (''outcome'', JStr ''rejected''), (''stage'', JStr stage_name), (''error'', JStr (error_text e))])]"
  by (auto simp: contender_rejected_def script_ok split: option.splits)

lemma contend_transaction_trace:
  assumes "contend_transaction c sd commit_at opts w = (Inr (), w')"
  shows "\<exists>writer ls. contender_of ''KV'' (lo_workerId opts) = Inr writer \<and> lv_log w' = lv_log w @ ls \<and>
     contender_trace ''transaction'' [''begin'', ''read'', ''put''] writer commit_at ls"
proof -
  obtain writer l where writer: "contender_of ''KV'' (lo_workerId opts) = Inr writer"
    and run: "catching (transaction_writes c sd commit_at opts writer)
      (contender_rejected ''transaction_contender_complete'' writer (kc_rollback (fz_kv c))) (w, None, ''begin'') = (Inr (), w', l)"
    using assms by (auto simp: contend_transaction_def script_ok)
  from run consider (ok) "transaction_writes c sd commit_at opts writer (w, None, ''begin'') = (Inr (), w', l)"
    | (thrown) e v t where "transaction_writes c sd commit_at opts writer (w, None, ''begin'') = (Inl e, v, t)"
      "contender_rejected ''transaction_contender_complete'' writer (kc_rollback (fz_kv c)) e (v, t) = (Inr (), w', l)"
    by (auto simp: script_ok)
  then have "\<exists>ls. lv_log w' = lv_log w @ ls \<and> contender_trace ''transaction'' [''begin'', ''read'', ''put''] writer commit_at ls"
  proof cases
    case ok
    then show ?thesis by (auto simp: transaction_writes_def script_ok contender_trace_def Let_def)
  next
    case (thrown e v t)
    then show ?thesis
      by (cases t) (auto simp: transaction_writes_def script_ok script_err contender_trace_def Let_def dest!: contender_rejected_ok)
  qed
  then show ?thesis using writer by blast
qed

lemma contend_stream_trace:
  assumes "contend_stream c sd commit_at opts w = (Inr (), w')"
  shows "\<exists>writer ls. contender_of ''Stream'' (lo_workerId opts) = Inr writer \<and> lv_log w' = lv_log w @ ls \<and>
     contender_trace ''stream_replay'' [''begin'', ''append''] writer commit_at ls"
proof -
  obtain writer l where writer: "contender_of ''Stream'' (lo_workerId opts) = Inr writer"
    and run: "catching (stream_writes c sd commit_at opts writer)
      (contender_rejected ''stream_replay_contender_complete'' writer (sc_rollback (fz_stream c))) (w, None, ''begin'') = (Inr (), w', l)"
    using assms by (auto simp: contend_stream_def script_ok)
  from run consider (ok) "stream_writes c sd commit_at opts writer (w, None, ''begin'') = (Inr (), w', l)"
    | (thrown) e v t where "stream_writes c sd commit_at opts writer (w, None, ''begin'') = (Inl e, v, t)"
      "contender_rejected ''stream_replay_contender_complete'' writer (sc_rollback (fz_stream c)) e (v, t) = (Inr (), w', l)"
    by (auto simp: script_ok)
  then have "\<exists>ls. lv_log w' = lv_log w @ ls \<and> contender_trace ''stream_replay'' [''begin'', ''append''] writer commit_at ls"
  proof cases
    case ok
    then show ?thesis by (auto simp: stream_writes_def script_ok contender_trace_def Let_def)
  next
    case (thrown e v t)
    then show ?thesis
      by (cases t) (auto simp: stream_writes_def script_ok script_err contender_trace_def Let_def dest!: contender_rejected_ok)
  qed
  then show ?thesis using writer by blast
qed

subsection \<open>What a verifier logs\<close>

lemma find_contender: "find P [Suc 0, 2] = Some writer \<Longrightarrow> writer = 1 \<or> writer = 2"
  by (auto split: if_splits)

lemma matching_writer_ok: "matching_writer sd opts v = Inr winner \<Longrightarrow> winner = 1 \<or> winner = 2"
  by (auto simp: matching_writer_def simp del: find.simps dest!: find_contender split: option.splits)

lemma verify_transaction_trace:
  assumes "verify_transaction c sd opts w = (Inr (), w')"
  shows "\<exists>winner. (winner = 1 \<or> winner = 2) \<and> lv_log w' = lv_log w @
     [(''transaction_cleanup_verified'', [(''route'', JStr (transaction_contention_route (lo_namespace opts))), (''winner'', jnat winner)])]"
  using assms by (auto simp: verify_transaction_def Let_def script_ok case_ok dest!: matching_writer_ok)

lemma prepare_transaction_trace:
  assumes "prepare_transaction c sd opts w = (Inr (), w')"
  shows "lv_log w' = lv_log w @ [(''transaction_prepare_complete'', [(''rollbackIsolated'', JBool True), (''deleteHidden'', JBool True)])]"
  using assms by (auto simp: prepare_transaction_def Let_def script_ok)

text \<open>A loop that is left with a value was left by its body; what its body keeps holds when it ends.\<close>

lemma for_await_left:
  "for_await n advance close body s w = (Inr (Inr y), w') \<Longrightarrow> \<exists>x t v v'. body x t v = (Inr (Inr y), v')"
proof (induction n arbitrary: s w)
  case (Suc n)
  then show ?case by (auto simp: script_ok case_ok)
qed (simp add: script_ok)

lemma for_await_keeps:
  assumes "\<And>k x t t' v v'. I k t \<Longrightarrow> body x t v = (Inr (Inl t'), v') \<Longrightarrow> I (Suc k) t'"
  shows "for_await n advance close body s w = (Inr (Inl s'), w') \<Longrightarrow> I k s \<Longrightarrow> \<exists>j < n. I (k + j) s'"
proof (induction n arbitrary: s w k)
  case (Suc n)
  then obtain r v where r: "advance w = (Inr r, v)" "(case r of
       None \<Rightarrow> ret (Inl s)
     | Some x \<Rightarrow> run_then (undo_on_error (body x s) close) (\<lambda>r. case r of
           Inl s' \<Rightarrow> for_await n advance close body s'
         | Inr y \<Rightarrow> run_then close (\<lambda>_. ret (Inr y)))) v = (Inr (Inl s'), w')"
    by (auto simp: script_ok)
  show ?case
  proof (cases r)
    case None
    then show ?thesis using r Suc.prems(2) by (intro exI [of _ 0]) (simp add: script_ok)
  next
    case (Some x)
    then obtain t v1 where t: "body x s v = (Inr (Inl t), v1)" "for_await n advance close body t v1 = (Inr (Inl s'), w')"
      using r(2) by (auto simp: script_ok case_ok)
    from Suc.IH [OF t(2) assms [OF Suc.prems(2) t(1)]] show ?thesis by (auto intro: exI [of _ "Suc _"])
  qed
qed (simp add: script_ok)

lemma replay_winner_ok:
  assumes "replay_winner n c sd opts route w = (Inr winner, w')" shows "winner = 1 \<or> winner = 2"
  using assms
  by (auto simp: replay_winner_def stream_batches_def script_ok case_ok replay_writer_def simp del: find.simps
      split: list.splits if_splits dest!: for_await_left find_contender)

text \<open>The pages are at most as many as the fuel, and without a page nothing has been observed.\<close>

lemma replay_all_pages:
  assumes "replay_all n c sd opts route winner w = (Inr (observed, pages), w')"
  shows "pages < n \<and> (observed = 0 \<or> 0 < pages)"
proof -
  obtain it v r v' where r: "for_await n (sc_next (fz_stream c) it) (sc_end (fz_stream c) it) (replay_page c sd opts winner) (0, 0) v = (Inr r, v')"
    "(case r of Inl counted \<Rightarrow> ret counted | Inr u \<Rightarrow> ret u) v' = (Inr (observed, pages) :: client_error + nat \<times> nat, w')"
    using assms unfolding replay_all_def stream_batches_def run_then_ok by (elim exE conjE) (rule that)
  show ?thesis
  proof (cases r)
    case (Inl counted)
    then have r1: "for_await n (sc_next (fz_stream c) it) (sc_end (fz_stream c) it) (replay_page c sd opts winner) (0, 0) v = (Inr (Inl (observed, pages)), v')"
      using r by (simp add: script_ok)
    have "\<exists>j < n. (\<lambda>k (observed, pages). pages = k \<and> (observed = 0 \<or> 0 < k)) (0 + j) (observed, pages)"
      by (rule for_await_keeps [OF _ r1]) (auto simp: replay_page_def script_ok)
    then show ?thesis by auto
  next
    case (Inr u)
    then show ?thesis using r(1) by (auto simp: replay_page_def script_ok dest!: for_await_left)
  qed
qed

lemma length_boundary [simp]: "length (boundary_payload sd n) = n"
  by (simp add: boundary_payload_def)

lemma verify_replay_trace:
  assumes "verify_replay n c sd opts w = (Inr (), w')"
  shows "\<exists>winner pages. (winner = 1 \<or> winner = 2) \<and> 0 < pages \<and> pages < n \<and> lv_log w' = lv_log w @
     [(''stream_replay_complete'',
       [(''winner'', jnat winner), (''offsetConflicts'', jnat 1), (''records'', jnat (nat (max 1 (lo_operations opts)))), (''pages'', jnat pages),
        (''boundaryBytes'', jnat 60000), (''boundaryRecords'', jnat 1)])]"
proof -
  from assms show ?thesis
    unfolding verify_replay_def Let_def case_prod_unfold
  proof (elim run_thenE)
    fix winner counted records u1 u2 u3 u4 v1 v2 v3 v4 v5 v6 v7
    assume run: "ask (replay_winner n c sd opts (stream_replay_route (lo_namespace opts))) w = (Inr winner, v1)"
      "ask (assert_stale_offset_conflict c sd opts (stream_replay_route (lo_namespace opts))) v1 = (Inr u1, v2)"
      "ask (append_rest c sd opts (stream_replay_route (lo_namespace opts)) (nat (max 1 (lo_operations opts)))) v2 = (Inr u2, v3)"
      "ask (replay_all n c sd opts (stream_replay_route (lo_namespace opts)) winner) v3 = (Inr counted, v4)"
      "require (fst counted = nat (max 1 (lo_operations opts))) ''Stream replay observed $/$ records'' [ANat (fst counted), ANat (nat (max 1 (lo_operations opts)))] v4 = (Inr u3, v5)"
      "ask (boundary_replay n c (stream_replay_route (lo_namespace opts) @ ''-boundary'') (boundary_payload sd 60000)) v5 = (Inr records, v6)"
      "require (records = 1) ''Stream boundary replay returned $ records'' [ANat records] v6 = (Inr u4, v7)"
      "log_event ''stream_replay_complete''
        [(''winner'', jnat winner), (''offsetConflicts'', jnat 1), (''records'', jnat (fst counted)), (''pages'', jnat (snd counted)),
         (''boundaryBytes'', jnat (length (boundary_payload sd 60000))), (''boundaryRecords'', jnat records)] v7 = (Inr (), w')"
    obtain observed pages where counted: "counted = (observed, pages)" by (cases counted)
    have "winner = 1 \<or> winner = 2" using run(1) by (auto simp: ask_ok dest: replay_winner_ok)
    moreover have "pages < n \<and> (observed = 0 \<or> 0 < pages)" using run(4) counted by (auto simp: ask_ok dest: replay_all_pages)
    moreover have same: "lv_log v7 = lv_log w" "observed = nat (max 1 (lo_operations opts))" "records = 1"
      using run(1-7) counted by (auto simp: ask_ok require_ok)
    ultimately show ?thesis
      using run(8) counted by (intro exI [of _ winner] exI [of _ pages]) (simp add: log_event_ok)
  qed
qed

subsection \<open>Global recovery\<close>

definition global_routes :: "string \<Rightarrow> string list" where
  "global_routes ns =
     [''stream://'' @ ns @ ''-a/area-a/resource-a'', ''stream://'' @ ns @ ''-a/area-b/resource-b'',
      ''stream://'' @ ns @ ''-b/area-a/resource-c'', ''stream://'' @ ns @ ''-b/area-b/resource-d'']"

definition global_payload :: "nat \<Rightarrow> bytes" where
  "global_payload sequence = utf8 (''global-record-'' @ pad sequence 12)"

text \<open>One round of the load: the next route takes one record at its own next offset.\<close>

definition load_global_record ::
  "'o fitz_client \<Rightarrow> string list \<Rightarrow> nat \<Rightarrow> (string, nat) js_map \<Rightarrow> ('o, (string, nat) js_map) client_script" where
  "load_global_record c routes sequence offsets =
     (let route = routes ! (sequence mod length routes); offset = get_or 0 (map_get offsets route) in
      run_then (sc_begin (fz_stream c) route) (\<lambda>session.
      undo_on_error
        (run_then (sc_append (fz_stream c) session offset (global_payload sequence)) (\<lambda>_.
         run_then (sc_commit (fz_stream c) session) (\<lambda>_.
         ret (map_set offsets route (offset + 1)))))
        (sc_rollback (fz_stream c) session)))"

definition load_global :: "'o fitz_client \<Rightarrow> live_options \<Rightarrow> rat \<Rightarrow> ('o, unit) workload" where
  "load_global c opts started_at =
     (let routes = global_routes (lo_namespace opts) in
      run_then (ask (for_of (load_global_record c routes) [0..<live_count opts] (map (\<lambda>route. (route, 0)) routes))) (\<lambda>_.
      run_then (elapsed_time c started_at) (\<lambda>ms.
      log_event ''stream_global_load_complete''
        [(''records'', jint (lo_operations opts)), (''resources'', jnat (length routes)), (''elapsedMs'', jint ms)])))"

definition check_global_record :: "string list \<Rightarrow> stream_record \<Rightarrow> nat \<times> (string, nat) js_map \<Rightarrow> ('o, nat \<times> (string, nat) js_map) client_script" where
  "check_global_record routes r = (\<lambda>(observed, offsets).
     let expected = get_or 0 (map_get offsets (sr_route r)) in
     run_then (require (sr_route r \<in> set routes) ''Unexpected global Stream route $'' [AStr (sr_route r)]) (\<lambda>_.
     run_then (require (sr_global r = Some observed) ''Global Stream offset $ != $'' [AStr (case sr_global r of None \<Rightarrow> ''undefined'' | Some k \<Rightarrow> show_nat k), ANat observed]) (\<lambda>_.
     run_then (require (sr_offset r = expected) ''$ offset $ != $'' [AStr (sr_route r), ANat (sr_offset r), ANat expected]) (\<lambda>_.
     run_then (same_bytes (sr_body r) (global_payload observed) (''global Stream record '' @ show_nat observed)) (\<lambda>_.
     ret (observed + 1, map_set offsets (sr_route r) (expected + 1)))))))"

definition global_page ::
  "string list \<Rightarrow> stream_record list \<Rightarrow> nat \<times> (nat \<times> (string, nat) js_map) \<Rightarrow>
   ('o, (nat \<times> (nat \<times> (string, nat) js_map)) + (nat \<times> (nat \<times> (string, nat) js_map))) client_script" where
  "global_page routes batch = (\<lambda>(pages, seen).
     run_then (for_of (check_global_record routes) batch seen) (\<lambda>seen'. ret (Inl (pages + 1, seen'))))"

definition verify_global :: "nat \<Rightarrow> 'o fitz_client \<Rightarrow> live_options \<Rightarrow> rat \<Rightarrow> ('o, unit) workload" where
  "verify_global n c opts started_at =
     run_then (ask (stream_batches n c ''stream://**'' 0 7 (global_page (global_routes (lo_namespace opts))) (0, 0, []))) (\<lambda>r.
     case (case r of Inl counted \<Rightarrow> counted | Inr counted \<Rightarrow> counted) of (pages, observed, offsets) \<Rightarrow>
     run_then (require (int observed = lo_operations opts) ''Global Stream replay observed $/$ records'' [ANat observed, AInt (lo_operations opts)]) (\<lambda>_.
     run_then (elapsed_time c started_at) (\<lambda>ms.
     log_event ''stream_global_verify_complete''
       [(''records'', jnat observed), (''resources'', jnat (length offsets)), (''pages'', jnat pages), (''elapsedMs'', jint ms)])))"

definition run_stream_global_recovery ::
  "nat \<Rightarrow> 'o fitz_client \<Rightarrow> stream_global_action \<Rightarrow> live_options \<Rightarrow> ('o, unit) workload" where
  "run_stream_global_recovery n c action opts =
     run_then (performance c) (\<lambda>started_at.
     case action of GlobalLoad \<Rightarrow> load_global c opts started_at | GlobalVerify \<Rightarrow> verify_global n c opts started_at)"

text \<open>
  The next offset of each route counts the records seen on it, so the offsets of the routes
  add up to the number of the records.
\<close>

lemma check_global_total:
  assumes "check_global_record routes r (observed, offsets) w = (Inr (observed', offsets'), w')"
  shows "map_total offsets' + observed = map_total offsets + observed' \<and> observed' = observed + 1 \<and>
     (set (map_keys offsets) \<subseteq> set routes \<longrightarrow> set (map_keys offsets') \<subseteq> set routes) \<and>
     (distinct (map_keys offsets) \<longrightarrow> distinct (map_keys offsets'))"
proof -
  let ?e = "get_or 0 (map_get offsets (sr_route r))"
  have r: "sr_route r \<in> set routes" "observed' = observed + 1" "offsets' = map_set offsets (sr_route r) (?e + 1)"
    using assms by (auto simp: check_global_record_def Let_def script_ok)
  have "map_total (map_set offsets (sr_route r) (?e + 1)) + ?e = map_total offsets + (?e + 1)" by (rule map_total_set)
  then show ?thesis unfolding r(3) using r(1,2) by (auto simp: jm.set_keys_set jm.distinct_set)
qed

end
