(* ===== verification/QueueWorkloads.thy ===== *)
theory QueueWorkloads
  imports LiveKit
begin

text \<open>
  The queue workloads (src/workloads/queue-redelivery.ts, queue-lifecycle.ts, queue-overload.ts and
  queue-dead-letter-fencing.ts) for an arbitrary client: what they ask of the broker, what they
  check of every message, and what a run that returns has logged.
\<close>

subsection \<open>The identity of a message\<close>

text \<open>
  \<^verbatim>\<open>queue:0000:\<close>, eight digits and a colon; the caller decides how much of the text is given.
\<close>

definition queue_identity :: "string \<Rightarrow> nat option" where
  "queue_identity s =
     (if length s = 20 \<and> take 11 s = ''queue:0000:'' \<and> list_all is_digit (take 8 (drop 11 s)) \<and> drop 19 s = '':''
      then Some (nat_of_digits (take 8 (drop 11 s))) else None)"

definition verify_queue_item :: "int \<Rightarrow> live_options \<Rightarrow> bytes \<Rightarrow> nat result" where
  "verify_queue_item sd opts body =
     (let text_prefix = utf8_decode (take 20 body) in
      case queue_identity text_prefix of
        None \<Rightarrow> Inl (Error ''Queue body has invalid identity $'' [AStr text_prefix])
      | Some sequence \<Rightarrow>
          try_in (ensure (int sequence < lo_operations opts)
            (Error ''Queue sequence $ is outside 0..$'' [ANat sequence, AInt (lo_operations opts - 1)])) (\<lambda>_.
          try_in (assert_bytes_equal body (live_payload sd opts Queue 0 sequence) (''Queue redelivery '' @ show_nat sequence)) (\<lambda>_.
          Inr sequence)))"

definition lifecycle_identify :: "int \<Rightarrow> live_options \<Rightarrow> bytes \<Rightarrow> nat result" where
  "lifecycle_identify sd opts actual =
     (let e = Error ''Queue lifecycle payload omitted a valid deterministic sequence'' [] in
      case queue_identity (take 20 (utf8_decode (take 32 actual))) of
        None \<Rightarrow> Inl e
      | Some sequence \<Rightarrow>
          try_in (ensure (int sequence < lo_operations opts) e) (\<lambda>_.
          try_in (assert_bytes_equal actual (live_payload sd opts Queue 0 sequence) ''Queue lifecycle payload'') (\<lambda>_.
          Inr sequence)))"

text \<open>Both accept exactly the payloads of the sequences below the number of operations.\<close>

lemma queue_item_ok:
  assumes "verify_queue_item sd opts body = Inr s \<or> lifecycle_identify sd opts body = Inr s"
  shows "int s < lo_operations opts \<and> body = live_payload sd opts Queue 0 s"
  using assms
  by (auto simp: verify_queue_item_def lifecycle_identify_def Let_def result_simps assert_bytes_equal_ok split: option.splits)

subsection \<open>Redelivery\<close>

definition queue_redelivery_route :: "string \<Rightarrow> string" where
  "queue_redelivery_route ns = ''queue://destroyer/'' @ ns @ ''/redelivery''"

definition produce_redelivery :: "'o fitz_client \<Rightarrow> int \<Rightarrow> live_options \<Rightarrow> ('o, unit) workload" where
  "produce_redelivery c sd opts =
     (let route = queue_redelivery_route (lo_namespace opts) in
      run_then (run_concurrent c (live_count opts) (\<lambda>sequence u. ask (fz_enqueue c route (live_payload sd opts Queue 0 sequence))) ()) (\<lambda>_.
      log_event ''queue_redelivery_producer_complete'' [(''route'', JStr route), (''produced'', jint (lo_operations opts))]))"

definition victim_request :: "live_options \<Rightarrow> nat" where
  "victim_request opts = min 1024 (max 1 ((live_count opts + 1) div 2))"

definition reserve_victim :: "nat \<Rightarrow> 'o fitz_client \<Rightarrow> int \<Rightarrow> live_options \<Rightarrow> ('o, unit) workload" where
  "reserve_victim n c sd opts =
     (let route = queue_redelivery_route (lo_namespace opts); requested = victim_request opts in
      run_then (ask (qc_reserve (fz_queue c) route 300 requested (Some 10))) (\<lambda>items.
      run_then (of_checked (traverse (\<lambda>item. verify_queue_item sd opts (qi_body item)) items)) (\<lambda>sequences.
      run_then (require (length items = requested) ''Queue victim reserved $/$ messages'' [ANat (length items), ANat requested]) (\<lambda>_.
      run_then (log_event ''queue_victim_reserved'' [(''route'', JStr route), (''sequences'', JArr (map jnat sequences))]) (\<lambda>_.
      ask (reject_on_abort n c))))))"

definition take_redelivered :: "'o fitz_client \<Rightarrow> int \<Rightarrow> live_options \<Rightarrow> queue_item \<Rightarrow> nat list \<Rightarrow> ('o, nat list) workload" where
  "take_redelivered c sd opts item seen =
     run_then (of_checked (verify_queue_item sd opts (qi_body item))) (\<lambda>sequence.
     run_then (require (sequence \<notin> set seen) ''Queue drainer received duplicate sequence $'' [ANat sequence]) (\<lambda>_.
     run_then (ask (qc_complete (fz_queue c) item)) (\<lambda>_. ret (seen @ [sequence]))))"

text \<open>The drain goes on until nothing has come for twenty seconds after the first empty poll.\<close>

definition drain_goes_on :: "'o fitz_client \<Rightarrow> rat option \<Rightarrow> ('o, bool) workload" where
  "drain_goes_on c idle_since =
     (case idle_since of None \<Rightarrow> ret True | Some t \<Rightarrow> run_then (performance c) (\<lambda>now. ret (fl (now - t) < 20000)))"

definition drain_round ::
  "'o fitz_client \<Rightarrow> int \<Rightarrow> live_options \<Rightarrow> rat option \<times> nat list \<Rightarrow> ('o, (rat option \<times> nat list) + nat list) workload" where
  "drain_round c sd opts = (\<lambda>(idle_since, seen).
     run_then (drain_goes_on c idle_since) (\<lambda>go.
     if \<not> go then ret (Inr seen)
     else
       run_then (ask (qc_reserve (fz_queue c) (queue_redelivery_route (lo_namespace opts)) 30 1024 (Some 1))) (\<lambda>items.
       if items = [] then
         (case idle_since of
            Some t \<Rightarrow> ret (Inl (Some t, seen))
          | None \<Rightarrow> run_then (performance c) (\<lambda>now. ret (Inl (Some now, seen))))
       else
         run_then (for_of (take_redelivered c sd opts) items seen) (\<lambda>seen'.
         run_then (log_event ''queue_drainer_progress'' [(''workerId'', JStr (lo_workerId opts)), (''completed'', jnat (length seen'))]) (\<lambda>_.
         ret (Inl (None, seen')))))))"

definition drain_redelivery :: "nat \<Rightarrow> 'o fitz_client \<Rightarrow> int \<Rightarrow> live_options \<Rightarrow> ('o, unit) workload" where
  "drain_redelivery n c sd opts =
     run_then (while_do n (drain_round c sd opts) (None, [])) (\<lambda>seen.
     log_event ''queue_drainer_complete'' [(''workerId'', JStr (lo_workerId opts)), (''sequences'', JArr (map jnat (sort seen)))])"

definition run_queue_redelivery :: "nat \<Rightarrow> 'o fitz_client \<Rightarrow> int \<Rightarrow> queue_redelivery_action \<Rightarrow> live_options \<Rightarrow> ('o, unit) workload" where
  "run_queue_redelivery n c sd action opts =
     (case action of
        RedeliveryProduce \<Rightarrow> produce_redelivery c sd opts
      | RedeliveryVictim \<Rightarrow> run_then (reserve_victim n c sd opts) (\<lambda>_. drain_redelivery n c sd opts)
      | RedeliveryDrain \<Rightarrow> drain_redelivery n c sd opts)"

subsection \<open>Life cycle\<close>

definition queue_lifecycle_route :: "string \<Rightarrow> string" where
  "queue_lifecycle_route ns = ''queue://destroyer/'' @ ns @ ''/lifecycle''"

definition lifecycle_enqueue :: "'o fitz_client \<Rightarrow> int \<Rightarrow> live_options \<Rightarrow> nat list \<Rightarrow> ('o, unit) workload" where
  "lifecycle_enqueue c sd opts sequences =
     each (\<lambda>sequence. ask (fz_enqueue c (queue_lifecycle_route (lo_namespace opts)) (live_payload sd opts Queue 0 sequence))) sequences"

definition identify_sorted :: "int \<Rightarrow> live_options \<Rightarrow> queue_item list \<Rightarrow> nat list result" where
  "identify_sorted sd opts items =
     try_in (traverse (\<lambda>item. lifecycle_identify sd opts (qi_body item)) items) (\<lambda>sequences. Inr (sort sequences))"

definition produce_lifecycle :: "'o fitz_client \<Rightarrow> int \<Rightarrow> live_options \<Rightarrow> ('o, unit) workload" where
  "produce_lifecycle c sd opts =
     (let route = queue_lifecycle_route (lo_namespace opts); complete_item = (\<lambda>item. ask (qc_complete (fz_queue c) item)) in
      run_then (require (8 \<le> lo_operations opts) ''Queue lifecycle requires at least 8 operations'' []) (\<lambda>_.
      run_then (lifecycle_enqueue c sd opts [0..<4]) (\<lambda>_.
      run_then (ask (qc_reserve (fz_queue c) route 1 4 None)) (\<lambda>partial_batch.
      run_then (require (length partial_batch = 4) ''Expected partial Queue batch of 4, received $'' [ANat (length partial_batch)]) (\<lambda>_.
      run_then (of_checked (identify_sorted sd opts partial_batch)) (\<lambda>reserved.
      run_then (each complete_item (take 2 partial_batch)) (\<lambda>_.
      run_then (of_checked (identify_sorted sd opts (take 2 partial_batch))) (\<lambda>completed_first.
      run_then (ask (client_sleep c 1250)) (\<lambda>_.
      run_then (ask (qc_reserve (fz_queue c) route 30 4 None)) (\<lambda>redelivered.
      run_then (of_checked (identify_sorted sd opts redelivered)) (\<lambda>redelivered_sequences.
      run_then (of_checked (identify_sorted sd opts (drop 2 partial_batch))) (\<lambda>expected.
      run_then (require (redelivered_sequences = expected) ''Queue lease expiry redelivery $ != $''
        [AJson (JArr (map jnat redelivered_sequences)), AJson (JArr (map jnat expected))]) (\<lambda>_.
      run_then (each complete_item redelivered) (\<lambda>_.
      run_then (lifecycle_enqueue c sd opts [4..<live_count opts]) (\<lambda>_.
      log_event ''queue_lifecycle_producer_complete''
        [(''operations'', jint (lo_operations opts)), (''initiallyReserved'', JArr (map jnat reserved)),
         (''initiallyCompleted'', JArr (map jnat completed_first)), (''redelivered'', JArr (map jnat redelivered_sequences)),
         (''completed'', JArr (map jnat (sort (completed_first @ redelivered_sequences))))])))))))))))))))"

definition abandon_lifecycle :: "'o fitz_client \<Rightarrow> int \<Rightarrow> live_options \<Rightarrow> ('o, unit) workload" where
  "abandon_lifecycle c sd opts =
     run_then (ask (qc_reserve (fz_queue c) (queue_lifecycle_route (lo_namespace opts)) 30 1 (Some 5))) (\<lambda>items.
     case items of
       [] \<Rightarrow> fail_with ''Queue abandoner did not reserve an item'' []
     | item # _ \<Rightarrow>
         run_then (of_checked (lifecycle_identify sd opts (qi_body item))) (\<lambda>sequence.
         log_event ''queue_lifecycle_abandoned'' [(''sequence'', jnat sequence)]))"

definition consume_round :: "'o fitz_client \<Rightarrow> int \<Rightarrow> live_options \<Rightarrow> nat \<times> nat list \<Rightarrow> ('o, (nat \<times> nat list) + nat list) workload" where
  "consume_round c sd opts = (\<lambda>(empty_polls, sequences).
     if \<not> empty_polls < 2 then ret (Inr sequences)
     else
       run_then (ask (qc_reserve (fz_queue c) (queue_lifecycle_route (lo_namespace opts)) 30 1 (Some 1))) (\<lambda>items.
       case items of
         [] \<Rightarrow> ret (Inl (empty_polls + 1, sequences))
       | item # _ \<Rightarrow>
           run_then (of_checked (lifecycle_identify sd opts (qi_body item))) (\<lambda>sequence.
           run_then (ask (qc_complete (fz_queue c) item)) (\<lambda>_.
           run_then (when_do (0 < lo_handlerDelayMs opts) (ask (client_sleep c (lo_handlerDelayMs opts)))) (\<lambda>_.
           ret (Inl (0, sequences @ [sequence])))))))"

definition consume_lifecycle :: "nat \<Rightarrow> 'o fitz_client \<Rightarrow> int \<Rightarrow> live_options \<Rightarrow> ('o, unit) workload" where
  "consume_lifecycle n c sd opts =
     run_then (while_do n (consume_round c sd opts) (0, [])) (\<lambda>sequences.
     log_event ''queue_lifecycle_consumer_complete'' [(''workerId'', JStr (lo_workerId opts)), (''sequences'', JArr (map jnat sequences))])"

definition run_queue_lifecycle :: "nat \<Rightarrow> 'o fitz_client \<Rightarrow> int \<Rightarrow> queue_lifecycle_action \<Rightarrow> live_options \<Rightarrow> ('o, unit) workload" where
  "run_queue_lifecycle n c sd action opts =
     (case action of
        LifecycleProduce \<Rightarrow> produce_lifecycle c sd opts
      | LifecycleAbandon \<Rightarrow> abandon_lifecycle c sd opts
      | LifecycleConsume \<Rightarrow> consume_lifecycle n c sd opts)"

subsection \<open>Overload\<close>

definition overload_route :: "string \<Rightarrow> string \<Rightarrow> string" where
  "overload_route ns w = ''queue://destroyer/'' @ ns @ ''/'' @ w"

definition overload_payload :: "live_options \<Rightarrow> nat \<Rightarrow> bytes" where
  "overload_payload opts sequence =
     (let header = lo_namespace opts @ '':'' @ lo_workerId opts @ '':'' @ pad sequence 12 @ '':'' in
      utf8 (header @ replicate (nat (lo_payloadBytes opts) - length header) CHR ''x''))"

definition overload_sequence :: "string \<Rightarrow> string \<Rightarrow> bytes \<Rightarrow> nat result" where
  "overload_sequence ns w body =
     (let v = utf8_decode body; start = ns @ '':'' @ w @ '':'' in
      if \<not> prefix start v then Inl (Error ''$ Queue payload had the wrong identity'' [AStr w])
      else
        (let e = Error ''$ Queue payload had an invalid sequence'' [AStr w] in
         case js_to_number (take 12 (drop (length start) v)) of
           None \<Rightarrow> Inl e
         | Some x \<Rightarrow> if \<not> is_safe_integer x \<or> x < 0 then Inl e else Inr (nat \<lfloor>x\<rfloor>)))"

record overload_counts =
  oc_acknowledged :: "nat list"
  oc_failed :: "nat list"
  oc_reported :: bool

definition overload_enqueue :: "'o fitz_client \<Rightarrow> live_options \<Rightarrow> nat \<Rightarrow> overload_counts \<Rightarrow> ('o, overload_counts) workload" where
  "overload_enqueue c opts sequence k =
     catching
       (run_then (ask (fz_enqueue c (overload_route (lo_namespace opts) (lo_workerId opts)) (overload_payload opts sequence))) (\<lambda>_.
        ret (k\<lparr>oc_acknowledged := oc_acknowledged k @ [sequence]\<rparr>)))
       (\<lambda>e. run_then (when_do (\<not> oc_reported k) (log_event ''queue_overload_failure_observed''
             [(''workerId'', JStr (lo_workerId opts)), (''sequence'', jnat sequence), (''error'', JStr (error_text e))])) (\<lambda>_.
          ret (k\<lparr>oc_failed := oc_failed k @ [sequence], oc_reported := True\<rparr>)))"

definition produce_overload :: "'o fitz_client \<Rightarrow> live_options \<Rightarrow> ('o, unit) workload" where
  "produce_overload c opts =
     run_then (performance c) (\<lambda>started_at.
     run_then (log_event ''queue_overload_dispatched''
       [(''workerId'', JStr (lo_workerId opts)), (''operations'', jint (lo_operations opts)), (''concurrency'', jint (lo_concurrency opts))]) (\<lambda>_.
     run_then (run_concurrent c (live_count opts) (overload_enqueue c opts)
       \<lparr>oc_acknowledged = [], oc_failed = [], oc_reported = False\<rparr>) (\<lambda>k.
     run_then (elapsed_time c started_at) (\<lambda>ms.
     log_event ''queue_overload_producer_complete''
       [(''workerId'', JStr (lo_workerId opts)), (''started'', jint (lo_operations opts)),
        (''acknowledged'', JArr (map jnat (sort (oc_acknowledged k)))), (''failed'', JArr (map jnat (sort (oc_failed k)))),
        (''elapsedMs'', jint ms)]))))"

definition take_overloaded :: "'o fitz_client \<Rightarrow> live_options \<Rightarrow> string \<Rightarrow> queue_item \<Rightarrow> nat list \<Rightarrow> ('o, nat list) workload" where
  "take_overloaded c opts w item seen =
     run_then (of_checked (overload_sequence (lo_namespace opts) w (qi_body item))) (\<lambda>sequence.
     run_then (require (sequence \<notin> set seen) ''$ observed duplicate Queue sequence $'' [AStr w, ANat sequence]) (\<lambda>_.
     run_then (ask (qc_complete (fz_queue c) item)) (\<lambda>_. ret (seen @ [sequence]))))"

definition overload_round ::
  "'o fitz_client \<Rightarrow> live_options \<Rightarrow> string \<Rightarrow> nat \<times> nat list \<Rightarrow> ('o, (nat \<times> nat list) + nat list) workload" where
  "overload_round c opts w = (\<lambda>(empty_polls, seen).
     if \<not> empty_polls < 3 then ret (Inr seen)
     else
       run_then (ask (qc_reserve (fz_queue c) (overload_route (lo_namespace opts) w) 30 1024 (Some 1))) (\<lambda>items.
       if items = [] then ret (Inl (empty_polls + 1, seen))
       else run_then (for_of (take_overloaded c opts w) items seen) (\<lambda>seen'. ret (Inl (0, seen')))))"

definition drain_overload :: "nat \<Rightarrow> 'o fitz_client \<Rightarrow> live_options \<Rightarrow> string list \<Rightarrow> ('o, unit) workload" where
  "drain_overload n c opts ws =
     run_then (performance c) (\<lambda>started_at.
     run_then (for_of (\<lambda>w observed. run_then (while_do n (overload_round c opts w) (0, [])) (\<lambda>seen.
        ret (map_set observed w (sort seen)))) ws []) (\<lambda>observed.
     run_then (elapsed_time c started_at) (\<lambda>ms.
     log_event ''queue_overload_drain_complete''
       [(''observed'', JObj (map (\<lambda>(w, ns). (w, JArr (map jnat ns))) observed)), (''elapsedMs'', jint ms)])))"

definition run_queue_overload :: "nat \<Rightarrow> 'o fitz_client \<Rightarrow> bool \<Rightarrow> string list \<Rightarrow> live_options \<Rightarrow> ('o, unit) workload" where
  "run_queue_overload n c drain ws opts = (if drain then drain_overload n c opts ws else produce_overload c opts)"

subsection \<open>Fencing of dead letters\<close>

definition UNDELIVERABLE_BODY_BYTES :: nat where
  "UNDELIVERABLE_BODY_BYTES = 65536"

definition dead_letter_route :: "string \<Rightarrow> string" where
  "dead_letter_route ns = ''queue://'' @ ns @ ''/fencing/dead-letter''"

text \<open>\<^verbatim>\<open>let rejected = 0; try { await m; } catch { rejected = 1; }\<close>.\<close>

definition rejected_count :: "('w, unit) client_script \<Rightarrow> ('w, nat) client_script" where
  "rejected_count m = catching (run_then m (\<lambda>_. ret 0)) (\<lambda>_. ret 1)"

definition wait_for_redelivery :: "nat \<Rightarrow> 'o fitz_client \<Rightarrow> string \<Rightarrow> ('o, queue_item) client_script" where
  "wait_for_redelivery n c route =
     run_then (date_ms c) (\<lambda>started_at.
     while_do n (\<lambda>_. run_then (date_ms c) (\<lambda>now.
       if \<not> now < started_at + 10000 then fail_with ''Queue did not redeliver the expired fencing probe'' []
       else run_then (qc_reserve (fz_queue c) route 30 1 None) (\<lambda>items. case items of
           item # _ \<Rightarrow> ret (Inr item)
         | [] \<Rightarrow> run_then (client_sleep c 100) (\<lambda>_. ret (Inl ()))))) ())"

definition run_queue_dead_letter_fencing :: "nat \<Rightarrow> 'o fitz_client \<Rightarrow> live_options \<Rightarrow> ('o, unit) workload" where
  "run_queue_dead_letter_fencing n c opts =
     (let route = dead_letter_route (lo_namespace opts); body = utf8 ''stale-delivery-token'' in
      run_then (performance c) (\<lambda>started_at.
      run_then (ask (rejected_count (fz_enqueue c route (replicate UNDELIVERABLE_BODY_BYTES 0)))) (\<lambda>oversized.
      run_then (require (oversized = 1) ''Queue accepted a body that cannot fit a reserve response'' []) (\<lambda>_.
      run_then (ask (fz_enqueue c route body)) (\<lambda>_.
      run_then (ask (qc_reserve (fz_queue c) route 1 1 None)) (\<lambda>items.
      case items of
        [] \<Rightarrow> fail_with ''Queue did not return the fencing probe'' []
      | first # _ \<Rightarrow>
          run_then (ask (wait_for_redelivery n c route)) (\<lambda>second.
          run_then (same_bytes (qi_body second) body ''Queue redelivery body'') (\<lambda>_.
          run_then (ask (rejected_count (qc_complete (fz_queue c) first))) (\<lambda>stale.
          run_then (require (stale = 1) ''Queue accepted a stale delivery token'' []) (\<lambda>_.
          run_then (ask (qc_complete (fz_queue c) second)) (\<lambda>_.
          run_then (elapsed_time c started_at) (\<lambda>ms.
          log_event ''queue_dead_letter_fencing_worker_complete''
            [(''oversizedRejected'', jnat oversized), (''staleCompletionRejected'', jnat stale), (''redelivered'', jnat 1),
             (''completed'', jnat 1), (''elapsedMs'', jint ms)]))))))))))))"

subsection \<open>What a drain has seen\<close>

definition drained :: "live_options \<Rightarrow> nat list \<Rightarrow> bool" where
  "drained opts seen = (distinct seen \<and> list_all (\<lambda>s. int s < lo_operations opts) seen)"

text \<open>The log of a drain: progress only, then the record of the distinct sequences that it completed.\<close>

definition progress_only :: "string \<Rightarrow> (string \<times> (string \<times> json) list) list \<Rightarrow> bool" where
  "progress_only name ls = list_all (\<lambda>e. fst e = name) ls"

definition drain_state :: "live_options \<Rightarrow> (string \<times> (string \<times> json) list) list \<Rightarrow> nat list \<Rightarrow> (string \<times> (string \<times> json) list) list \<Rightarrow> bool" where
  "drain_state opts before seen now = (drained opts seen \<and> (\<exists>ls. now = before @ ls \<and> progress_only ''queue_drainer_progress'' ls))"

lemma take_redelivered_ok:
  assumes "take_redelivered c sd opts item seen w = (Inr seen', w')"
  shows "\<exists>s. seen' = seen @ [s] \<and> s \<notin> set seen \<and> int s < lo_operations opts \<and> lv_log w' = lv_log w"
  using assms by (auto simp: take_redelivered_def script_ok dest!: queue_item_ok [OF disjI1])

lemma drain_round_keeps:
  assumes "drain_round c sd opts (idle_since, seen) w = (Inr r, w')" "drain_state opts L seen (lv_log w)"
  shows "case r of Inl (t, seen') \<Rightarrow> drain_state opts L seen' (lv_log w') | Inr seen' \<Rightarrow> seen' = seen \<and> drain_state opts L seen' (lv_log w')"
proof -
  obtain go v where go: "drain_goes_on c idle_since w = (Inr go, v)" "lv_log v = lv_log w"
    using assms(1) by (auto simp: drain_round_def script_ok drain_goes_on_def performance_def case_ok)
  have taken: "drain_state opts L s' (lv_log u')"
    if "for_of (take_redelivered c sd opts) items s u = (Inr s', u')" "drain_state opts L s (lv_log u)" for items s s' u u'
    using that(1)
  proof (rule for_of_keeps [where I = "\<lambda>s u. drain_state opts L s (lv_log u)", rotated])
    fix x t t' v v' assume "drain_state opts L t (lv_log v)" "take_redelivered c sd opts x t v = (Inr t', v')"
    then show "drain_state opts L t' (lv_log v')" using take_redelivered_ok [of c sd opts x t v t' v'] by (auto simp: drain_state_def drained_def)
  qed (use that(2) in simp)
  have logged: "drain_state opts L s (l @ [(''queue_drainer_progress'', es)])" if "drain_state opts L s l" for s l es
    using that by (auto simp: drain_state_def progress_only_def)
  show ?thesis
    using assms go
    by (auto simp: drain_round_def script_ok performance_def case_ok logged dest!: taken split: if_splits)
qed

lemma drain_redelivery_ok:
  assumes "drain_redelivery n c sd opts w = (Inr (), w')"
  shows "\<exists>ls seen. lv_log w' = lv_log w @ ls @ [(''queue_drainer_complete'', [(''workerId'', JStr (lo_workerId opts)), (''sequences'', JArr (map jnat (sort seen)))])] \<and>
     progress_only ''queue_drainer_progress'' ls \<and> drained opts seen"
proof -
  obtain seen v where v: "while_do n (drain_round c sd opts) (None, []) w = (Inr seen, v)"
    "log_event ''queue_drainer_complete'' [(''workerId'', JStr (lo_workerId opts)), (''sequences'', JArr (map jnat (sort seen)))] v = (Inr (), w')"
    using assms by (auto simp: drain_redelivery_def script_ok)
  have "\<exists>s u. (\<lambda>(idle_since, seen) u. drain_state opts (lv_log w) seen (lv_log u)) s u \<and> drain_round c sd opts s u = (Inr (Inr seen), v)"
  proof (rule while_do_ok [OF v(1)])
    show "(\<lambda>(idle_since, seen) u. drain_state opts (lv_log w) seen (lv_log u)) (None, []) w"
      by (simp add: drain_state_def drained_def progress_only_def)
  qed (auto dest: drain_round_keeps)
  then have "drain_state opts (lv_log w) seen (lv_log v)" by (auto dest: drain_round_keeps)
  then show ?thesis using v(2) by (auto simp: drain_state_def log_event_ok)
qed

text \<open>The victim holds its reservations until it is killed: it never returns.\<close>

lemma victim_never_returns: "run_queue_redelivery n c sd RedeliveryVictim opts w \<noteq> (Inr (), w')"
  by (auto simp: run_queue_redelivery_def reserve_victim_def Let_def script_ok reject_on_abort_def throw_reason_def)

subsection \<open>What an overloaded producer reports\<close>

definition overload_split :: "nat \<Rightarrow> overload_counts \<Rightarrow> bool" where
  "overload_split k counts = (mset (oc_acknowledged counts) + mset (oc_failed counts) = mset [0..<k])"

lemma overload_enqueue_ok:
  assumes "overload_enqueue c opts k t w = (Inr t', w')" "overload_split k t"
  shows "overload_split (Suc k) t' \<and> (\<exists>ls. lv_log w' = lv_log w @ ls \<and> progress_only ''queue_overload_failure_observed'' ls)"
  using assms by (auto simp: overload_enqueue_def script_ok script_err overload_split_def progress_only_def when_do_def split: if_splits)

lemma produce_overload_ok:
  assumes "produce_overload c opts w = (Inr (), w')"
  shows "\<exists>d ls acked lost ms. lv_log w' = lv_log w @ (''queue_overload_dispatched'', d) # ls @
       [(''queue_overload_producer_complete'', [(''workerId'', JStr (lo_workerId opts)), (''started'', jint (lo_operations opts)),
          (''acknowledged'', JArr (map jnat acked)), (''failed'', JArr (map jnat lost)), (''elapsedMs'', jint ms)])] \<and>
     progress_only ''queue_overload_failure_observed'' ls \<and> mset acked + mset lost = mset [0..<live_count opts] \<and> sorted acked \<and> sorted lost"
proof -
  let ?d = "[(''workerId'', JStr (lo_workerId opts)), (''operations'', jint (lo_operations opts)), (''concurrency'', jint (lo_concurrency opts))]"
  from assms obtain t0 v0 v k v1 ms v2 where run: "performance c w = (Inr t0, v0)"
    "log_event ''queue_overload_dispatched'' ?d v0 = (Inr (), v)"
    "run_concurrent c (live_count opts) (overload_enqueue c opts) \<lparr>oc_acknowledged = [], oc_failed = [], oc_reported = False\<rparr> v = (Inr k, v1)"
    "elapsed_time c t0 v1 = (Inr ms, v2)"
    "log_event ''queue_overload_producer_complete'' [(''workerId'', JStr (lo_workerId opts)), (''started'', jint (lo_operations opts)),
          (''acknowledged'', JArr (map jnat (sort (oc_acknowledged k)))), (''failed'', JArr (map jnat (sort (oc_failed k)))), (''elapsedMs'', jint ms)] v2 = (Inr (), w')"
    unfolding produce_overload_def by (elim run_thenE) simp
  let ?I = "\<lambda>j t u. overload_split j t \<and> (\<exists>ls. lv_log u = lv_log v @ ls \<and> progress_only ''queue_overload_failure_observed'' ls)"
  have "?I (live_count opts) k v1"
  proof (rule for_of_counts [OF _ run(3) [unfolded run_concurrent_def]])
    fix j t t' u u'
    assume I: "?I j t u" and "run_then (ask (throw_if_aborted c)) (\<lambda>_. overload_enqueue c opts j t) u = (Inr t', u')"
    then obtain u1 where u1: "overload_enqueue c opts j t u1 = (Inr t', u')" "lv_log u1 = lv_log u"
      by (auto simp: script_ok)
    show "?I (Suc j) t' u'" using overload_enqueue_ok [OF u1(1)] I u1(2) by (auto simp: progress_only_def)
  qed (simp add: overload_split_def progress_only_def)
  then obtain ls where "overload_split (live_count opts) k" "lv_log v1 = lv_log v @ ls" "progress_only ''queue_overload_failure_observed'' ls" by blast
  moreover have "lv_log v = lv_log w @ [(''queue_overload_dispatched'', ?d)]" "lv_log v2 = lv_log v1"
    using run(1,2) elapsed_ok [OF run(4)] by (auto simp: performance_def script_ok)
  ultimately show ?thesis using run(5) unfolding overload_split_def
    by (intro exI [of _ ?d] exI [of _ ls] exI [of _ "sort (oc_acknowledged k)"] exI [of _ "sort (oc_failed k)"] exI [of _ ms])
      (simp add: log_event_ok del: mset_upt)
qed

end
