(* ===== verification/WorkloadEvidence.thy ===== *)
theory WorkloadEvidence
  imports DurableWorkloads QueueWorkloads DomainScenarios QueueScenarios
begin

text \<open>
  From the workloads to the ledgers: the log of a container carries the events that its workload
  logged, and the analysis of the orchestrator (src/orchestration) reads from it what the workload
  saw, whatever the broker answered.
\<close>

subsection \<open>Events in a log\<close>

text \<open>The record that \<^verbatim>\<open>log\<close> of src/worker.ts writes for an event.\<close>

definition event_json :: "string \<Rightarrow> string \<times> (string \<times> json) list \<Rightarrow> json" where
  "event_json t e = JObj ((''timestamp'', JStr t) # (''event'', JStr (fst e)) # snd e)"

text \<open>Among other lines, the text has the records of the events of the given names, in order.\<close>

definition carries :: "string list \<Rightarrow> (string \<times> (string \<times> json) list) list \<Rightarrow> string \<Rightarrow> bool" where
  "carries names ls contents =
     list_all (\<lambda>name. list_all2 (\<lambda>r e. \<exists>t. r = event_json t e)
       (filter (has_event name) (parse_json_records contents)) (filter (\<lambda>e. fst e = name) ls)) names"

lemma find_last_filter: "find_last P xs = (if filter P xs = [] then None else Some (last (filter P xs)))"
proof (induction xs rule: rev_induct)
  case (snoc x xs)
  then show ?case by (simp add: find_last_append) (simp add: find_last_def)
qed (simp add: find_last_def)

lemma carried_event:
  assumes "carries names ls contents" "name \<in> set names" "filter (\<lambda>e. fst e = name) ls = es @ [e]"
  shows "\<exists>t. required_event contents name = Inr (event_json t e)"
proof -
  have all: "list_all2 (\<lambda>r e. \<exists>t. r = event_json t e) (filter (has_event name) (parse_json_records contents)) (es @ [e])"
    using assms by (auto simp: carries_def list_all_iff)
  then obtain rs r t where "filter (has_event name) (parse_json_records contents) = rs @ [r]" "r = event_json t e"
    by (auto simp: list_all2_append2 list_all2_Cons2)
  then show ?thesis by (auto simp: required_event_def find_last_filter)
qed

lemma event_get [simp]:
  "k \<noteq> ''timestamp'' \<Longrightarrow> k \<noteq> ''event'' \<Longrightarrow> json_get (event_json t e) k = map_get (snd e) k"
  by (auto simp: event_json_def)

lemma safe_nat: "int k \<le> max_safe_integer \<Longrightarrow> is_safe_integer (of_nat k)"
  by (simp add: is_safe_integer_def)

lemma numeric_jnat [simp]: "int k \<le> max_safe_integer \<Longrightarrow> numeric_value (Some (jnat k)) f = Inr k"
  by (simp add: numeric_value_ok jnat_def safe_nat)

lemma numeric_of_small [simp]: "k \<le> 60000 \<Longrightarrow> numeric_value (Some (jnat k)) f = Inr k"
  by (rule numeric_jnat) (simp add: max_safe_integer_def)

subsection \<open>Contention\<close>

text \<open>What a contender reported, from its events: the writer and whether it committed.\<close>

definition reported :: "nat \<Rightarrow> bool \<Rightarrow> string \<Rightarrow> (string \<times> (string \<times> json) list) list \<Rightarrow> bool" where
  "reported writer committed name ls =
     (\<exists>es. filter (\<lambda>e. fst e = name) ls = [(name, (''writer'', jnat writer) # (''outcome'', JStr (if committed then ''committed'' else ''rejected'')) # es)])"

lemma trace_reported:
  assumes "contender_trace name stages writer commit_at ls"
  shows "\<exists>committed. reported writer committed (name @ ''_contender_complete'') ls"
proof -
  have yes: "reported writer True (name @ ''_contender_complete'') ls"
    if "ls = [(name @ ''_contender_ready'', x), (name @ ''_contender_complete'', [(''writer'', jnat writer), (''outcome'', JStr ''committed'')])]" for x
    by (simp add: that reported_def)
  have no: "reported writer False (name @ ''_contender_complete'') ls"
    if "ls = xs @ [(name @ ''_contender_complete'', (''writer'', jnat writer) # (''outcome'', JStr ''rejected'') # es)]"
      "xs = [] \<or> xs = [(name @ ''_contender_ready'', x)]" for x xs es
    using that(2) by (auto simp: that(1) reported_def)
  show ?thesis
    using assms unfolding contender_trace_def Let_def
  proof (elim disjE exE conjE)
    fix e assume "ls = [(name @ ''_contender_ready'', [(''writer'', jnat writer), (''commitAtMs'', jint commit_at)]),
      (name @ ''_contender_complete'', [(''writer'', jnat writer), (''outcome'', JStr ''rejected''), (''stage'', JStr ''commit''), (''error'', JStr e)])]"
    then show ?thesis
      by (intro exI [of _ False] no [of "[(name @ ''_contender_ready'', [(''writer'', jnat writer), (''commitAtMs'', jint commit_at)])]"]) auto
  next
    fix stage_name e assume "ls = [(name @ ''_contender_complete'', [(''writer'', jnat writer), (''outcome'', JStr ''rejected''),
      (''stage'', JStr stage_name), (''error'', JStr e)])]"
    then show ?thesis by (intro exI [of _ False] no [of "[]"]) auto
  qed (intro exI [of _ True] yes, assumption)
qed

lemma reported_unique:
  "reported writer a name ls \<Longrightarrow> reported writer b name ls \<Longrightarrow> a = b"
  by (auto simp: reported_def split: if_splits)

lemma contender_outcome:
  assumes "carries names ls contents" "name \<in> set names" "reported writer committed name ls"
  shows "\<exists>r. required_event contents name = Inr r \<and> json_get r ''writer'' = Some (jnat writer) \<and>
     json_get r ''outcome'' = Some (JStr (if committed then ''committed'' else ''rejected''))"
proof -
  obtain es where "filter (\<lambda>e. fst e = name) ls =
      [] @ [(name, (''writer'', jnat writer) # (''outcome'', JStr (if committed then ''committed'' else ''rejected'')) # es)]"
    using assms(3) by (auto simp: reported_def)
  from carried_event [OF assms(1,2) this] show ?thesis by auto
qed

text \<open>Of two outcomes the single winner is the one that committed, when the other one did not.\<close>

lemma two_outcomes:
  assumes "json_get r1 ''outcome'' = Some (JStr (if c1 then ''committed'' else ''rejected''))"
    "json_get r2 ''outcome'' = Some (JStr (if c2 then ''committed'' else ''rejected''))"
  shows "single_winner template [r1, r2] = (if c1 \<and> \<not> c2 then Inr r1 else if c2 \<and> \<not> c1 then Inr r2 else Inl (Error template [AJson (JArr [r1, r2])]))"
    and "c1 \<noteq> c2 \<Longrightarrow> length (with_outcome ''rejected'' [r1, r2]) = 1"
  using assms by (auto simp: single_winner_def with_outcome_def)

definition winner_of :: "nat \<times> bool \<Rightarrow> nat \<times> bool \<Rightarrow> nat option" where
  "winner_of a b = (if snd a \<and> \<not> snd b then Some (fst a) else if snd b \<and> \<not> snd a then Some (fst b) else None)"

lemma analyze_stream_outcomes:
  assumes "carries names ls1 t1" "carries names ls2 t2" "''stream_replay_contender_complete'' \<in> set names"
    "reported w1 c1 ''stream_replay_contender_complete'' ls1" "reported w2 c2 ''stream_replay_contender_complete'' ls2"
    "required_event t3 ''stream_replay_complete'' = Inr r" "w1 \<le> 2" "w2 \<le> 2"
    "json_get r ''winner'' = Some (jnat winner)" "json_get r ''offsetConflicts'' = Some (jnat 1)" "json_get r ''records'' = Some (jnat records)"
    "json_get r ''pages'' = Some (jnat pages)" "json_get r ''boundaryBytes'' = Some (jnat bytes)" "json_get r ''boundaryRecords'' = Some (jnat 1)"
    "winner \<le> 2" "int records \<le> max_safe_integer" "int pages \<le> max_safe_integer" "bytes = 60000"
  shows "analyze_stream_replay [(a, t1), (b, t2)] [(v, t3)] = Inr l \<longleftrightarrow>
     winner_of (w1, c1) (w2, c2) = Some winner \<and> l = \<lparr>sr_winner = winner, sr_conflicts = 1, sr_offsetConflicts = 1, sr_records = records,
       sr_pages = pages, sr_boundaryBytes = bytes, sr_boundaryRecords = 1\<rparr>"
proof -
  obtain r1 where r1: "required_event t1 ''stream_replay_contender_complete'' = Inr r1" "json_get r1 ''writer'' = Some (jnat w1)"
    "json_get r1 ''outcome'' = Some (JStr (if c1 then ''committed'' else ''rejected''))"
    using contender_outcome [OF assms(1,3,4)] by blast
  obtain r2 where r2: "required_event t2 ''stream_replay_contender_complete'' = Inr r2" "json_get r2 ''writer'' = Some (jnat w2)"
    "json_get r2 ''outcome'' = Some (JStr (if c2 then ''committed'' else ''rejected''))"
    using contender_outcome [OF assms(2,3,5)] by blast
  have outcomes: "contender_outcomes [(a, t1), (b, t2)] ''stream_replay_contender_complete'' = Inr [r1, r2]"
    by (simp add: contender_outcomes_def r1 r2 result_simps)
  note winner = two_outcomes(1) [OF r1(3) r2(3)]
  show ?thesis
  proof (cases "c1 = c2")
    case True
    then show ?thesis by (auto simp: analyze_stream_replay_def outcomes result_simps winner winner_of_def)
  next
    case False
    then have "length (with_outcome ''rejected'' [r1, r2]) = 1" by (rule two_outcomes(2) [OF r1(3) r2(3)])
    then show ?thesis using False assms(6-)
      by (auto simp: analyze_stream_replay_def outcomes result_simps winner winner_of_def r1 r2)
  qed
qed

lemma contender_ids: "contender_of what ''0'' = Inr 1" "contender_of what ''1'' = Inr 2"
proof -
  have "js_to_number ''0'' = Some 0" "js_to_number ''1'' = Some 1" by code_simp+
  then show "contender_of what ''0'' = Inr 1" "contender_of what ''1'' = Inr 2" by (simp_all add: contender_of_def)
qed

text \<open>
  The verdict on a pair of contenders: accepted logs name the writer that alone committed, and the
  writer that the verifier found.
\<close>

definition stream_verdict :: "nat \<Rightarrow> bool \<Rightarrow> bool \<Rightarrow> nat \<Rightarrow> stream_replay_ledger result \<Rightarrow> bool" where
  "stream_verdict operations c1 c2 winner result_of =
     (case result_of of
        Inl e \<Rightarrow> winner_of (1, c1) (2, c2) \<noteq> Some winner
      | Inr l \<Rightarrow> winner_of (1, c1) (2, c2) = Some winner \<and> sr_winner l = winner \<and> assert_stream_replay l operations = Inr ())"

lemma stream_logs_verdict:
  fixes w1 w2 w3 w1' w2' w3' :: "'o live_world"
  assumes runs: "run_stream_replay n c1 sd ReplayContend commit_at o1 w1 = (Inr (), w1')" "lv_log w1 = []" "lo_workerId o1 = ''0''"
      "run_stream_replay n c2 sd ReplayContend commit_at o2 w2 = (Inr (), w2')" "lv_log w2 = []" "lo_workerId o2 = ''1''"
      "run_stream_replay n c3 sd ReplayVerify commit_at o3 w3 = (Inr (), w3')" "lv_log w3 = []"
    and logs: "carries [''stream_replay_contender_complete''] (lv_log w1') t1" "carries [''stream_replay_contender_complete''] (lv_log w2') t2"
      "carries [''stream_replay_complete''] (lv_log w3') t3"
    and bounds: "int n \<le> max_safe_integer" "lo_operations o3 \<le> max_safe_integer"
  shows "\<exists>b1 b2 winner. reported 1 b1 ''stream_replay_contender_complete'' (lv_log w1') \<and>
     reported 2 b2 ''stream_replay_contender_complete'' (lv_log w2') \<and>
     stream_verdict (live_count o3) b1 b2 winner (analyze_stream_replay [(a, t1), (b, t2)] [(v, t3)])"
proof -
  obtain b1 where b1: "reported 1 b1 ''stream_replay_contender_complete'' (lv_log w1')"
    using contend_stream_trace [OF runs(1) [unfolded run_stream_replay_def, simplified]] runs(2,3)
    by (auto simp: contender_ids dest!: trace_reported)
  obtain b2 where b2: "reported 2 b2 ''stream_replay_contender_complete'' (lv_log w2')"
    using contend_stream_trace [OF runs(4) [unfolded run_stream_replay_def, simplified]] runs(5,6)
    by (auto simp: contender_ids dest!: trace_reported)
  obtain winner pages where verify: "winner = 1 \<or> winner = 2" "0 < pages" "pages < n" "lv_log w3' = [] @
     [(''stream_replay_complete'',
       [(''winner'', jnat winner), (''offsetConflicts'', jnat 1), (''records'', jnat (nat (max 1 (lo_operations o3)))), (''pages'', jnat pages),
        (''boundaryBytes'', jnat 60000), (''boundaryRecords'', jnat 1)])]"
    using verify_replay_trace [OF runs(7) [unfolded run_stream_replay_def, simplified]] runs(8) by auto
  have only: "filter (\<lambda>e. fst e = ''stream_replay_complete'') (lv_log w3') = [] @
     [(''stream_replay_complete'',
       [(''winner'', jnat winner), (''offsetConflicts'', jnat 1), (''records'', jnat (nat (max 1 (lo_operations o3)))), (''pages'', jnat pages),
        (''boundaryBytes'', jnat 60000), (''boundaryRecords'', jnat 1)])]"
    by (simp add: verify(4))
  obtain t where r: "required_event t3 ''stream_replay_complete'' = Inr (event_json t (''stream_replay_complete'',
       [(''winner'', jnat winner), (''offsetConflicts'', jnat 1), (''records'', jnat (nat (max 1 (lo_operations o3)))), (''pages'', jnat pages),
        (''boundaryBytes'', jnat 60000), (''boundaryRecords'', jnat 1)]))"
    using carried_event [OF logs(3) _ only] by auto
  have records: "int (nat (max 1 (lo_operations o3))) \<le> max_safe_integer" using bounds(2) by (simp add: max_safe_integer_def)
  have outcome: "analyze_stream_replay [(a, t1), (b, t2)] [(v, t3)] = Inr l \<longleftrightarrow> winner_of (1, b1) (2, b2) = Some winner \<and>
      l = \<lparr>sr_winner = winner, sr_conflicts = 1, sr_offsetConflicts = 1, sr_records = nat (max 1 (lo_operations o3)), sr_pages = pages,
        sr_boundaryBytes = 60000, sr_boundaryRecords = 1\<rparr>" for l
    by (rule analyze_stream_outcomes [OF logs(1,2) _ b1 b2 r]) (use verify bounds records in auto)
  have "stream_verdict (live_count o3) b1 b2 winner (analyze_stream_replay [(a, t1), (b, t2)] [(v, t3)])"
  proof (cases "analyze_stream_replay [(a, t1), (b, t2)] [(v, t3)]")
    case (Inl e)
    then show ?thesis using outcome by (auto simp: stream_verdict_def)
  next
    case (Inr l)
    then have "winner_of (1, b1) (2, b2) = Some winner \<and> l = \<lparr>sr_winner = winner, sr_conflicts = 1, sr_offsetConflicts = 1,
        sr_records = nat (max 1 (lo_operations o3)), sr_pages = pages, sr_boundaryBytes = 60000, sr_boundaryRecords = 1\<rparr>"
      using outcome by blast
    then show ?thesis using verify
      by (auto simp: stream_verdict_def Inr assert_stream_replay_def live_count_def result_simps max_def)
  qed
  then show ?thesis using b1 b2 by blast
qed


subsection \<open>A sample run\<close>

definition sample_options :: "string \<Rightarrow> live_options" where
  "sample_options w = \<lparr>lo_namespace = ''run'', lo_workerId = w, lo_operations = 1, lo_payloadBytes = 32, lo_concurrency = 1,
     lo_handlerDelayMs = 0, lo_requestTimeoutMs = 1000, lo_deadline = None\<rparr>"

text \<open>A broker with the record of the first writer, which rejects a second record at the same offset.\<close>

definition sample_record :: "bytes \<Rightarrow> stream_record" where
  "sample_record body = \<lparr>sr_offset = 0, sr_route = [], sr_global = None, sr_body = body\<rparr>"

definition sample_streams :: "(nat \<Rightarrow> (stream_record list list, unit) client_script) \<Rightarrow> stream_record list list stream_calls" where
  "sample_streams on_append =
     \<lparr>sc_begin = (\<lambda>route. ret (if route = stream_replay_route ''run'' then 0 else 1)), sc_append = (\<lambda>session _ _. on_append session),
      sc_commit = (\<lambda>_. ret ()), sc_rollback = (\<lambda>_. ret ()),
      sc_read = (\<lambda>route _ _. run_then (modify (\<lambda>_. if route = stream_replay_route ''run''
        then [[sample_record (live_payload 7 (sample_options ''0'') Stream 1 0)]] else [[sample_record (boundary_payload 7 60000)]])) (\<lambda>_. ret 0)),
      sc_next = (\<lambda>_ s. case s of [] \<Rightarrow> (Inr None, s) | x # xs \<Rightarrow> (Inr (Some x), xs)), sc_end = (\<lambda>_. ret ())\<rparr>"

text \<open>A client whose calls return at once and to which nothing arrives.\<close>

definition idle_client :: "'o fitz_client" where
  "idle_client =
     \<lparr>fz_queue = \<lparr>qc_reserve = (\<lambda>_ _ _ _. ret []), qc_complete = (\<lambda>_. ret ())\<rparr>, fz_enqueue = (\<lambda>_ _. ret ()),
      fz_kv = \<lparr>kc_begin = (\<lambda>_ _. ret 0), kc_put = (\<lambda>_ _ _. ret ()), kc_get = (\<lambda>_ _. ret None), kc_delete = (\<lambda>_ _. ret ()),
        kc_scan = (\<lambda>_ _ _. ret []), kc_commit = (\<lambda>_. ret ()), kc_rollback = (\<lambda>_. ret ())\<rparr>,
      fz_stream = \<lparr>sc_begin = (\<lambda>_. ret 0), sc_append = (\<lambda>_ _ _. ret ()), sc_commit = (\<lambda>_. ret ()), sc_rollback = (\<lambda>_. ret ()),
        sc_read = (\<lambda>_ _ _. ret 0), sc_next = (\<lambda>_. ret None), sc_end = (\<lambda>_. ret ())\<rparr>,
      fz_schedule = \<lparr>hc_create = (\<lambda>_ _ _ _. ret ()), hc_cancel = (\<lambda>_. ret ()), hc_entries = (\<lambda>_ _. ret 0), hc_next = (\<lambda>_. ret None), hc_end = (\<lambda>_. ret ())\<rparr>,
      fz_lease = \<lparr>lc_acquire = (\<lambda>_ _ _. ret 0), lc_token = (\<lambda>_ _. 0), lc_release = (\<lambda>_. ret ()), lc_query = (\<lambda>_. ret \<lparr>le_held = False, le_waiters = 0\<rparr>)\<rparr>,
      fz_rpc = \<lparr>rc_call = (\<lambda>_ _ _. ret 0), rc_next = (\<lambda>_. ret None), rc_end = (\<lambda>_. ret ()), rc_abort = (\<lambda>_ _. ret ()), rc_register = (\<lambda>_ _. ret 0), rc_respond = (\<lambda>_ _ _. ret ())\<rparr>,
      fz_publish = (\<lambda>_ _. ret ()), fz_subscribe = (\<lambda>_ _. ret 0), fz_unsubscribe = (\<lambda>_. ret ()),
      fz_delivery = (\<lambda>s. (Idle, s)), fz_aborted = (\<lambda>_. False), fz_reason = (\<lambda>_. OtherThrown []), fz_performance = (\<lambda>s. (0, s)),
      fz_date = (\<lambda>s. (0, s)), fz_ticks = (\<lambda>s. (0, s)), fz_sleep = (\<lambda>_ s. s)\<rparr>"

definition sample_client :: "(nat \<Rightarrow> (stream_record list list, unit) client_script) \<Rightarrow> stream_record list list fitz_client" where
  "sample_client on_append = idle_client\<lparr>fz_stream := sample_streams on_append\<rparr>"

definition accepting :: "stream_record list list fitz_client" where
  "accepting = sample_client (\<lambda>_. ret ())"

definition conflicting :: "stream_record list list fitz_client" where
  "conflicting = sample_client (\<lambda>session. if session = 0 then raise ''conflict'' else ret ())"

definition sample_start :: "stream_record list list live_world" where
  "sample_start = \<lparr>lv_log = [], lv_outside = []\<rparr>"

lemma sample_contenders:
  "run_stream_replay 9 accepting 7 ReplayContend 5 (sample_options ''0'') sample_start = (Inr (), \<lparr>lv_log =
     [(''stream_replay_contender_ready'', [(''writer'', jnat 1), (''commitAtMs'', jint 5)]),
      (''stream_replay_contender_complete'', [(''writer'', jnat 1), (''outcome'', JStr ''committed'')])], lv_outside = []\<rparr>)"
  "run_stream_replay 9 conflicting 7 ReplayContend 5 (sample_options ''1'') sample_start = (Inr (), \<lparr>lv_log =
     [(''stream_replay_contender_complete'', [(''writer'', jnat 2), (''outcome'', JStr ''rejected''), (''stage'', JStr ''append''),
        (''error'', JStr ''Error: conflict'')])], lv_outside = []\<rparr>)"
  by (simp_all add: run_stream_replay_def contend_stream_def sample_options_def contender_ids of_checked_def stream_writes_def
      contender_rejected_def accepting_def conflicting_def sample_client_def idle_client_def sample_streams_def sample_start_def run_then_def ret_def fail_def raise_def
      with_local_def outer_def set_local_def get_local_def get_state_def modify_def ask_def log_event_def catching_def try_catch_def
      sleep_until_ms_def date_ms_def reading_def client_sleep_def ignore_failure_def error_text_def)

text \<open>The phases of the verifier on this broker.\<close>

lemma sample_pages:
  "sc_read (fz_stream (sample_client f)) (stream_replay_route ''run'') m b s =
     (Inr 0, [[sample_record (live_payload 7 (sample_options ''0'') Stream 1 0)]])"
  "sc_read (fz_stream (sample_client f)) (stream_replay_route ''run'' @ ''-boundary'') m b s = (Inr 0, [[sample_record (boundary_payload 7 60000)]])"
  "sc_next (fz_stream (sample_client f)) it [] = (Inr None, [])"
  "sc_next (fz_stream (sample_client f)) it (x # xs) = (Inr (Some x), xs)"
  "sc_end (fz_stream (sample_client f)) it s = (Inr (), s)"
  "sc_begin (fz_stream (sample_client f)) (stream_replay_route ''run'') s = (Inr 0, s)"
  "sc_begin (fz_stream (sample_client f)) (stream_replay_route ''run'' @ ''-boundary'') s = (Inr 1, s)"
  "sc_append (fz_stream (sample_client f)) h k body s = f h s" "sc_commit (fz_stream (sample_client f)) h s = (Inr (), s)"
  "sc_rollback (fz_stream (sample_client f)) h s = (Inr (), s)"
  by (simp_all add: sample_client_def idle_client_def sample_streams_def run_then_def ret_def modify_def)

lemma sample_options_fields [simp]: "lo_namespace (sample_options i) = ''run''" "lo_operations (sample_options i) = 1" "lo_handlerDelayMs (sample_options i) = 0"
  by (simp_all add: sample_options_def)

lemma same_body: "assert_bytes_equal x x t = Inr ()" "same_bytes x x t s = (Inr (), s)"
  by (simp_all add: same_bytes_def of_checked_def ret_def assert_bytes_equal_ok [THEN iffD2])

lemma sample_winner:
  "replay_winner (Suc (Suc n)) (sample_client f) 7 (sample_options ''0'') (stream_replay_route ''run'') s = (Inr 1, [])"
  by (simp add: replay_winner_def stream_batches_def run_then_def sample_pages sample_record_def replay_writer_def same_body
      is_ok_def ret_def undo_on_error_def catching_def try_catch_def)

lemma sample_stale:
  "assert_stale_offset_conflict conflicting 7 (sample_options ''0'') (stream_replay_route ''run'') s = (Inr (), s)"
proof -
  have "sublist ''conflict'' (lower ''Error: conflict'')" by code_simp
  then show ?thesis
    by (simp add: assert_stale_offset_conflict_def conflicting_def run_then_def sample_pages finally_do_def attempt_def catching_def try_catch_def
        raise_def fail_def ret_def ignore_failure_def error_text_def)
qed

lemma sample_replay:
  "replay_all (Suc (Suc n)) (sample_client f) 7 (sample_options ''0'') (stream_replay_route ''run'') 1 s = (Inr (1, 1), [])"
  by (simp add: replay_all_def stream_batches_def run_then_def sample_pages sample_record_def replay_page_def check_replayed_def same_body
      require_def when_do_def ret_def undo_on_error_def catching_def try_catch_def)

lemma sample_boundary:
  "boundary_replay (Suc (Suc n)) conflicting (stream_replay_route ''run'' @ ''-boundary'') (boundary_payload 7 60000) s = (Inr 1, [])"
  by (simp add: boundary_replay_def stream_batches_def run_then_def sample_pages conflicting_def sample_record_def check_boundary_def same_body
      ret_def undo_on_error_def catching_def try_catch_def del: append_assoc)

lemma sample_verifier:
  "run_stream_replay 9 conflicting 7 ReplayVerify 5 (sample_options ''0'') sample_start = (Inr (), \<lparr>lv_log =
     [(''stream_replay_complete'', [(''winner'', jnat 1), (''offsetConflicts'', jnat 1), (''records'', jnat 1), (''pages'', jnat 1),
        (''boundaryBytes'', jnat 60000), (''boundaryRecords'', jnat 1)])], lv_outside = []\<rparr>)"
proof -
  have winner: "replay_winner 9 conflicting 7 (sample_options ''0'') (stream_replay_route ''run'') s = (Inr 1, [])" for s
    using sample_winner [of 7] by (simp add: conflicting_def)
  have replay: "replay_all 9 conflicting 7 (sample_options ''0'') (stream_replay_route ''run'') 1 s = (Inr (1, 1), [])" for s
    using sample_replay [of 7] by (simp add: conflicting_def)
  have boundary: "boundary_replay 9 conflicting (stream_replay_route ''run'' @ ''-boundary'') (boundary_payload 7 60000) s = (Inr 1, [])" for s
    using sample_boundary [of 7] by simp
  have rest: "append_rest conflicting 7 (sample_options ''0'') (stream_replay_route ''run'') 1 s = (Inr (), s)" for s
    by (simp add: append_rest_def batches_from_def ret_def)
  show ?thesis
    by (simp add: run_stream_replay_def verify_replay_def Let_def ask_def run_then_def sample_start_def sample_stale
        winner [simplified] replay [simplified] boundary [simplified] rest [simplified] ret_def require_def log_event_def modify_def)
qed

text \<open>The logs of the three containers.\<close>

definition sample_log :: "nat \<Rightarrow> string" where
  "sample_log k = with_quotes (
     if k = 0 then
       ''{~timestamp~:~t0~,~event~:~stream_replay_contender_ready~,~writer~:1,~commitAtMs~:5}'' @ [CHR 0x0A] @
       ''{~timestamp~:~t1~,~event~:~stream_replay_contender_complete~,~writer~:1,~outcome~:~committed~}'' @ [CHR 0x0A]
     else if k = 1 then
       ''{~timestamp~:~t2~,~event~:~stream_replay_contender_complete~,~writer~:2,~outcome~:~rejected~,~stage~:~append~,~error~:~Error: conflict~}''
     else
       ''starting'' @ [CHR 0x0A] @
       ''{~timestamp~:~t3~,~event~:~stream_replay_complete~,~winner~:1,~offsetConflicts~:1,~records~:1,~pages~:1,~boundaryBytes~:60000,~boundaryRecords~:1}'')"

lemma sample_records:
  "filter (has_event ''stream_replay_contender_complete'') (parse_json_records (sample_log 0)) =
     [event_json ''t1'' (''stream_replay_contender_complete'', [(''writer'', jnat 1), (''outcome'', JStr ''committed'')])]"
  "filter (has_event ''stream_replay_contender_complete'') (parse_json_records (sample_log 1)) =
     [event_json ''t2'' (''stream_replay_contender_complete'', [(''writer'', jnat 2), (''outcome'', JStr ''rejected''), (''stage'', JStr ''append''),
        (''error'', JStr ''Error: conflict'')])]"
  by code_simp+

text \<open>Numbers evaluate on binary integers.\<close>

lemma number_value_code [code]:
  "number_value neg ds fs e =
     (let m = of_int (foldl (\<lambda>a c. a * 10 + int (of_char c - 48)) 0 (ds @ fs)) * 10 powi (e - int (length fs))
      in fl (if neg then - m else m))"
proof -
  have digits: "foldl (\<lambda>a c. a * 10 + int (of_char c - 48)) (int k) xs = int (foldl (\<lambda>a c. a * 10 + (of_char c - 48)) k xs)" for k xs
  proof (induction xs arbitrary: k)
    case (Cons c xs)
    then show ?case using Cons.IH [of "k * 10 + (of_char c - 48)"] by simp
  qed simp
  show ?thesis
    using digits [of 0] by (simp add: number_value_def nat_of_digits_def digits of_int_of_nat_eq del: foldl_append)
qed

lemma sample_record_2:
  "filter (has_event ''stream_replay_complete'') (parse_json_records (sample_log 2)) =
     [event_json ''t3'' (''stream_replay_complete'', [(''winner'', JNum 1), (''offsetConflicts'', JNum 1), (''records'', JNum 1), (''pages'', JNum 1),
        (''boundaryBytes'', JNum 60000), (''boundaryRecords'', JNum 1)])]"
  by code_simp


end
