(* ===== verification/LiveWorkloads.thy ===== *)
theory LiveWorkloads
  imports LiveKit "HOL-Library.List_Lexorder" "HOL-Library.Char_ord"
begin

text \<open>
  The live workloads of src/workloads/live.ts: notice publishers and subscribers, RPC workers and
  callers, streamed RPC.  Message and request handlers are asynchronous: a handler that sleeps is kept
  in a list with the others, and since all of them sleep equally long, a timer that expires wakes the
  first one.
\<close>

subsection \<open>Payloads\<close>

definition live_header :: "string \<Rightarrow> string list \<Rightarrow> bytes" where
  "live_header tag fs = utf8 (tag @ ''|'' @ join_with ''|'' fs @ ''|'')"

definition tagged_payload :: "string \<Rightarrow> string list \<Rightarrow> int \<Rightarrow> bytes result" where
  "tagged_payload tag fs len =
     (let header = live_header tag fs in
      if len < int (length header)
      then Inl (Error ''live payload header requires $ bytes but payload is $'' [ANat (length header), AInt len])
      else Inr (header @ replicate (nat len - length header) 0x78))"

definition parse_live_payload :: "bytes \<Rightarrow> string \<Rightarrow> nat \<Rightarrow> string list result" where
  "parse_live_payload body tag k =
     (let parts = split_on CHR ''|'' (utf8_decode body) in
      if hd parts \<noteq> tag \<or> length parts < k + 2 then Inl (Error ''invalid $ live payload header'' [AStr tag])
      else Inr (take k (drop 1 parts)))"

definition integer_field :: "string \<Rightarrow> string \<Rightarrow> nat result" where
  "integer_field v name =
     (case js_to_number v of
        Some x \<Rightarrow> if is_safe_integer x \<and> 0 \<le> x then Inr (nat \<lfloor>x\<rfloor>) else Inl (Error ''$ $ is not a non-negative integer'' [AStr name, AStr v])
      | None \<Rightarrow> Inl (Error ''$ $ is not a non-negative integer'' [AStr name, AStr v]))"

definition assert_payload :: "bytes \<Rightarrow> bytes \<Rightarrow> string \<Rightarrow> unit result" where
  "assert_payload actual expected what =
     (if length actual \<noteq> length expected then Inl (Error ''$: length $ != $'' [AStr what, ANat (length actual), ANat (length expected)])
      else (case find (\<lambda>i. actual ! i \<noteq> expected ! i) [0..<length actual] of
          Some i \<Rightarrow> Inl (Error ''$: byte mismatch at $'' [AStr what, ANat i])
        | None \<Rightarrow> Inr ()))"

lemma assert_payload_ok: "assert_payload actual expected what = Inr () \<longleftrightarrow> actual = expected"
proof -
  have none: "find (\<lambda>_. False) xs = None" for xs :: "nat list" by (simp add: find_None_iff)
  show ?thesis
    by (auto simp: assert_payload_def none find_None_iff split: option.splits if_splits intro: nth_equalityI)
qed

definition rpc_stream_request_payload :: "string \<Rightarrow> nat \<Rightarrow> int \<Rightarrow> int \<Rightarrow> bytes result" where
  "rpc_stream_request_payload caller call frames frame_bytes =
     tagged_payload ''h'' [caller, show_nat call, show_int frames, show_int frame_bytes] 128"

definition rpc_stream_frame_payload :: "string \<Rightarrow> nat \<Rightarrow> nat \<Rightarrow> nat \<Rightarrow> int \<Rightarrow> bytes result" where
  "rpc_stream_frame_payload w caller call frame len =
     (let fs = [w, show_nat caller, show_nat call, show_nat frame]; header_length = length (live_header ''s'' fs) in
      try_in (tagged_payload ''s'' fs len) (\<lambda>result_bytes.
      Inr (take header_length result_bytes @
        map (\<lambda>i. of_nat (caller * 17 + call * 31 + frame * 43 + i)) [header_length..<length result_bytes])))"

text \<open>
  \<^verbatim>\<open>Number(options.workerId)\<close> and its text; of a number with a fraction the text shows the integer part.
\<close>

definition worker_number :: "live_options \<Rightarrow> rat option" where
  "worker_number opts = js_to_number (lo_workerId opts)"

definition worker_number_text :: "live_options \<Rightarrow> string" where
  "worker_number_text opts = (case worker_number opts of None \<Rightarrow> ''NaN'' | Some x \<Rightarrow> show_int \<lfloor>x\<rfloor>)"

subsection \<open>Progress and lanes\<close>

text \<open>The interval timer of \<^verbatim>\<open>progressLogger\<close> fires while the workload awaits an answer.\<close>

definition progress_ticks ::
  "'o fitz_client \<Rightarrow> string \<Rightarrow> ('l \<Rightarrow> (string \<times> json) list) \<Rightarrow> ('o live_world \<times> 'l, unit) client_script" where
  "progress_ticks c name entries =
     run_then (outer (ask (reading (fz_ticks c)))) (\<lambda>k.
     run_then get_local (\<lambda>l. each (\<lambda>_. outer (log_event name (entries l))) [0..<k]))"

definition modify_local :: "('l \<Rightarrow> 'l) \<Rightarrow> ('w \<times> 'l, unit) client_script" where
  "modify_local f = run_then get_local (\<lambda>l. set_local (f l))"

definition live_lanes ::
  "'o fitz_client \<Rightarrow> nat \<Rightarrow> (nat \<Rightarrow> ('o live_world \<times> 'l, unit) client_script) \<Rightarrow> ('o live_world \<times> 'l, unit) client_script" where
  "live_lanes c operations operation =
     each (\<lambda>sequence. run_then (outer (ask (throw_if_aborted c))) (\<lambda>_. operation sequence)) [0..<operations]"

subsection \<open>Notices\<close>

definition notice_route :: "string \<Rightarrow> string \<Rightarrow> string" where
  "notice_route ns publisher = ''notice://destroyer/'' @ ns @ ''/'' @ publisher"

definition publisher_progress :: "live_options \<Rightarrow> nat \<Rightarrow> (string \<times> json) list" where
  "publisher_progress opts published = [(''workerId'', JStr (lo_workerId opts)), (''published'', jnat published)]"

definition publish_notice :: "'o fitz_client \<Rightarrow> live_options \<Rightarrow> string \<Rightarrow> nat \<Rightarrow> ('o live_world \<times> nat, unit) client_script" where
  "publish_notice c opts route sequence =
     run_then (of_checked (tagged_payload ''n'' [lo_workerId opts, show_nat sequence] (lo_payloadBytes opts))) (\<lambda>body.
     run_then (outer (ask (fz_publish c route body))) (\<lambda>_.
     run_then (progress_ticks c ''notice_publisher_progress'' (publisher_progress opts)) (\<lambda>_.
     modify_local Suc)))"

definition run_notice_publisher :: "'o fitz_client \<Rightarrow> live_options \<Rightarrow> ('o, unit) workload" where
  "run_notice_publisher c opts =
     (let route = notice_route (lo_namespace opts) (lo_workerId opts) in
      run_then (performance c) (\<lambda>started_at.
      run_then (with_local 0 (run_then (live_lanes c (live_count opts) (publish_notice c opts route)) (\<lambda>_. get_local))) (\<lambda>published.
      run_then (elapsed_time c started_at) (\<lambda>ms.
      log_event ''notice_publisher_complete''
        [(''workerId'', JStr (lo_workerId opts)), (''route'', JStr route), (''published'', jnat published), (''elapsedMs'', jint ms)]))))"

record notice_state =
  ns_seen :: "(nat \<times> nat) list"
  ns_duplicates :: nat
  ns_invalid :: nat
  ns_active :: nat
  ns_maxActive :: nat
  ns_firstInvalid :: "string option"
  ns_sleeping :: "(string \<times> bytes) list"

definition no_notices :: notice_state where
  "no_notices = \<lparr>ns_seen = [], ns_duplicates = 0, ns_invalid = 0, ns_active = 0, ns_maxActive = 0, ns_firstInvalid = None, ns_sleeping = []\<rparr>"

text \<open>The checks of the handler: the publisher and the sequence of a message.\<close>

definition check_notice :: "live_options \<Rightarrow> int \<Rightarrow> string \<Rightarrow> bytes \<Rightarrow> (nat \<times> nat) result" where
  "check_notice opts publishers route body =
     try_in (parse_live_payload body ''n'' 2) (\<lambda>identity.
     try_in (integer_field (identity ! 0) ''notice publisher'') (\<lambda>publisher.
     try_in (integer_field (identity ! 1) ''notice sequence'') (\<lambda>sequence.
     try_in (ensure (int publisher < publishers) (Error ''notice publisher $ is outside the expected range'' [ANat publisher])) (\<lambda>_.
     try_in (ensure (int sequence < lo_operations opts) (Error ''notice sequence $ is outside the expected range'' [ANat sequence])) (\<lambda>_.
     (let expected_route = notice_route (lo_namespace opts) (show_nat publisher) in
      try_in (ensure (route = expected_route) (Error ''notice route $ != $'' [AStr route, AStr expected_route])) (\<lambda>_.
      try_in (tagged_payload ''n'' [show_nat publisher, show_nat sequence] (lo_payloadBytes opts)) (\<lambda>expected.
      try_in (assert_payload body expected (''notice '' @ show_nat publisher @ ''/'' @ show_nat sequence)) (\<lambda>_.
      Inr (publisher, sequence))))))))))"

definition notice_started :: "notice_state \<Rightarrow> notice_state" where
  "notice_started st = st\<lparr>ns_active := ns_active st + 1, ns_maxActive := max (ns_maxActive st) (ns_active st + 1)\<rparr>"

definition notice_finished :: "live_options \<Rightarrow> int \<Rightarrow> string \<times> bytes \<Rightarrow> notice_state \<Rightarrow> notice_state" where
  "notice_finished opts publishers m st =
     (let st' =
        (case check_notice opts publishers (fst m) (snd m) of
           Inl e \<Rightarrow> st\<lparr>ns_invalid := ns_invalid st + 1,
             ns_firstInvalid := (case ns_firstInvalid st of None \<Rightarrow> Some (error_text (Raised e)) | Some t \<Rightarrow> Some t)\<rparr>
         | Inr key \<Rightarrow>
             if key \<in> set (ns_seen st) then st\<lparr>ns_duplicates := ns_duplicates st + 1\<rparr>
             else st\<lparr>ns_seen := ns_seen st @ [key]\<rparr>)
      in st'\<lparr>ns_active := ns_active st' - 1\<rparr>)"

definition notice_delivery :: "live_options \<Rightarrow> int \<Rightarrow> nat \<Rightarrow> delivery \<Rightarrow> notice_state \<Rightarrow> notice_state" where
  "notice_delivery opts publishers subscription d st =
     (case d of
        Delivered h route body \<Rightarrow>
          if h \<noteq> subscription then st
          else if 0 < lo_handlerDelayMs opts
          then (notice_started st)\<lparr>ns_sleeping := ns_sleeping st @ [(route, body)]\<rparr>
          else notice_finished opts publishers (route, body) (notice_started st)
      | Expired \<Rightarrow> (case ns_sleeping st of [] \<Rightarrow> st | m # ms \<Rightarrow> notice_finished opts publishers m (st\<lparr>ns_sleeping := ms\<rparr>))
      | _ \<Rightarrow> st)"

text \<open>\<^verbatim>\<open>Promise.race([complete, rejectOnAbort(options.signal)])\<close>.\<close>

definition await_notices :: "nat \<Rightarrow> 'o fitz_client \<Rightarrow> live_options \<Rightarrow> int \<Rightarrow> nat \<Rightarrow> int \<Rightarrow> ('o, notice_state) client_script" where
  "await_notices n c opts publishers subscription expected =
     while_do n (\<lambda>st.
       if ns_seen st \<noteq> [] \<and> int (length (ns_seen st)) = expected then ret (Inr st)
       else run_then (next_delivery c) (\<lambda>d.
         if d = Aborted then throw_reason c else ret (Inl (notice_delivery opts publishers subscription d st)))) no_notices"

text \<open>The pause after the last message, in which more of them may arrive.\<close>

definition settle_notices :: "nat \<Rightarrow> 'o fitz_client \<Rightarrow> live_options \<Rightarrow> int \<Rightarrow> nat \<Rightarrow> notice_state \<Rightarrow> ('o, notice_state) client_script" where
  "settle_notices n c opts publishers subscription st =
     run_then (client_sleep c (max 20 (lo_handlerDelayMs opts * 2))) (\<lambda>_.
     while_do n (\<lambda>st. run_then (next_delivery c) (\<lambda>d.
       if d = Idle then ret (Inr st) else ret (Inl (notice_delivery opts publishers subscription d st)))) st)"

definition run_notice_subscriber :: "nat \<Rightarrow> 'o fitz_client \<Rightarrow> int \<Rightarrow> live_options \<Rightarrow> ('o, unit) workload" where
  "run_notice_subscriber n c publishers opts =
     (let pattern = ''notice://destroyer/'' @ lo_namespace opts @ ''/*''; expected = publishers * lo_operations opts in
      run_then (performance c) (\<lambda>started_at.
      run_then (ask (fz_subscribe c Notice pattern)) (\<lambda>subscription.
      run_then (log_event ''notice_subscriber_ready''
        [(''workerId'', JStr (lo_workerId opts)), (''pattern'', JStr pattern), (''expected'', jint expected)]) (\<lambda>_.
      run_then (ask (finally_do
          (run_then (await_notices n c opts publishers subscription expected) (settle_notices n c opts publishers subscription))
          (ignore_failure (fz_unsubscribe c subscription)))) (\<lambda>st.
      run_then (require (int (length (ns_seen st)) = expected \<and> ns_duplicates st = 0 \<and> ns_invalid st = 0)
        ''notice verification failed: received=$/$, duplicates=$, invalid=$, firstInvalid=$''
        [ANat (length (ns_seen st)), AInt expected, ANat (ns_duplicates st), ANat (ns_invalid st), AStr (get_or ''none'' (ns_firstInvalid st))]) (\<lambda>_.
      run_then (elapsed_time c started_at) (\<lambda>ms.
      log_event ''notice_subscriber_complete''
        [(''workerId'', JStr (lo_workerId opts)), (''received'', jnat (length (ns_seen st))), (''expected'', jint expected),
         (''duplicates'', jnat (ns_duplicates st)), (''invalid'', jnat (ns_invalid st)), (''maxActiveHandlers'', jnat (ns_maxActive st)),
         (''elapsedMs'', jint ms)])))))))"

subsection \<open>Registered RPC workers\<close>

text \<open>The counters of a worker and its handlers that sleep.\<close>

record 'j rpc_server =
  sv_handled :: nat
  sv_failures :: nat
  sv_framesSent :: nat
  sv_active :: nat
  sv_maxActive :: nat
  sv_sleeping :: "'j list"

definition new_server :: "'j rpc_server" where
  "new_server = \<lparr>sv_handled = 0, sv_failures = 0, sv_framesSent = 0, sv_active = 0, sv_maxActive = 0, sv_sleeping = []\<rparr>"

definition server_concurrency :: "live_options \<Rightarrow> nat" where
  "server_concurrency opts = nat (max 1 (lo_concurrency opts div 4))"

text \<open>
  A handler runs until it sleeps, with what is left to do, or has answered; one that throws has failed.
\<close>

definition settle_handler ::
  "('o live_world \<times> 'j rpc_server, 'j option) client_script \<Rightarrow> ('o live_world \<times> 'j rpc_server, unit) client_script" where
  "settle_handler m =
     run_then (attempt m) (\<lambda>r. case r of
       Inl e \<Rightarrow>
         if e = StillRunning then fail StillRunning
         else modify_local (\<lambda>sv. sv\<lparr>sv_failures := sv_failures sv + 1, sv_active := sv_active sv - 1\<rparr>)
     | Inr (Some j) \<Rightarrow> modify_local (\<lambda>sv. sv\<lparr>sv_sleeping := sv_sleeping sv @ [j]\<rparr>)
     | Inr None \<Rightarrow> modify_local (\<lambda>sv. sv\<lparr>sv_handled := sv_handled sv + 1, sv_active := sv_active sv - 1\<rparr>))"

definition server_turn ::
  "'o fitz_client \<Rightarrow> nat \<Rightarrow> (nat \<Rightarrow> bytes \<Rightarrow> ('o live_world \<times> 'j rpc_server, 'j option) client_script) \<Rightarrow>
   ('j \<Rightarrow> ('o live_world \<times> 'j rpc_server, 'j option) client_script) \<Rightarrow> ('o live_world \<times> 'j rpc_server, unit + unit) client_script" where
  "server_turn c registered handle resume =
     run_then (outer (ask (next_delivery c))) (\<lambda>d. case d of
       Requested h request body \<Rightarrow>
         if h \<noteq> registered then ret (Inl ())
         else
           run_then (modify_local (\<lambda>sv. sv\<lparr>sv_active := sv_active sv + 1, sv_maxActive := max (sv_maxActive sv) (sv_active sv + 1)\<rparr>)) (\<lambda>_.
           run_then (settle_handler (handle request body)) (\<lambda>_. ret (Inl ())))
     | Expired \<Rightarrow>
         run_then get_local (\<lambda>sv. case sv_sleeping sv of
           [] \<Rightarrow> ret (Inl ())
         | j # js \<Rightarrow>
             run_then (set_local (sv\<lparr>sv_sleeping := js\<rparr>)) (\<lambda>_.
             run_then (settle_handler (resume j)) (\<lambda>_. ret (Inl ()))))
     | Aborted \<Rightarrow> ret (Inr ())
     | _ \<Rightarrow> ret (Inl ()))"

definition serve_until_abort ::
  "nat \<Rightarrow> 'o fitz_client \<Rightarrow> nat \<Rightarrow> (nat \<Rightarrow> bytes \<Rightarrow> ('o live_world \<times> 'j rpc_server, 'j option) client_script) \<Rightarrow>
   ('j \<Rightarrow> ('o live_world \<times> 'j rpc_server, 'j option) client_script) \<Rightarrow> ('o, 'j rpc_server) workload" where
  "serve_until_abort n c registered handle resume =
     with_local new_server (run_then (while_do n (\<lambda>_. server_turn c registered handle resume) ()) (\<lambda>_. get_local))"

definition rpc_route :: "string \<Rightarrow> string" where
  "rpc_route ns = ''rpc://destroyer/'' @ ns @ ''/pressure''"

definition check_rpc_request :: "live_options \<Rightarrow> bytes \<Rightarrow> (nat \<times> nat) result" where
  "check_rpc_request opts body =
     try_in (parse_live_payload body ''q'' 2) (\<lambda>identity.
     try_in (integer_field (identity ! 0) ''RPC caller'') (\<lambda>caller.
     try_in (integer_field (identity ! 1) ''RPC sequence'') (\<lambda>sequence.
     try_in (tagged_payload ''q'' [show_nat caller, show_nat sequence] (lo_payloadBytes opts)) (\<lambda>expected.
     try_in (assert_payload body expected (''RPC request '' @ show_nat caller @ ''/'' @ show_nat sequence)) (\<lambda>_.
     Inr (caller, sequence))))))"

definition rpc_answer :: "live_options \<Rightarrow> nat \<Rightarrow> nat \<times> nat \<Rightarrow> bytes result" where
  "rpc_answer opts frame = (\<lambda>(caller, sequence).
     tagged_payload ''r'' [lo_workerId opts, show_nat frame, show_nat caller, show_nat sequence] (lo_payloadBytes opts))"

definition rpc_answer_last :: "'o fitz_client \<Rightarrow> live_options \<Rightarrow> nat \<times> nat \<times> nat \<Rightarrow> ('o live_world \<times> 'l, 'j option) client_script" where
  "rpc_answer_last c opts = (\<lambda>(request, call).
     run_then (of_checked (rpc_answer opts 1 call)) (\<lambda>body.
     run_then (outer (ask (rc_respond (fz_rpc c) request True body))) (\<lambda>_. ret None)))"

definition rpc_handle :: "'o fitz_client \<Rightarrow> live_options \<Rightarrow> nat \<Rightarrow> bytes \<Rightarrow> ('o live_world \<times> 'l, (nat \<times> nat \<times> nat) option) client_script" where
  "rpc_handle c opts request request_body =
     run_then (of_checked (check_rpc_request opts request_body)) (\<lambda>call.
     run_then (of_checked (rpc_answer opts 0 call)) (\<lambda>body.
     run_then (outer (ask (rc_respond (fz_rpc c) request False body))) (\<lambda>_.
     if 0 < lo_handlerDelayMs opts then ret (Some (request, call)) else rpc_answer_last c opts (request, call))))"

definition run_rpc_worker :: "nat \<Rightarrow> 'o fitz_client \<Rightarrow> live_options \<Rightarrow> ('o, unit) workload" where
  "run_rpc_worker n c opts =
     (let route = rpc_route (lo_namespace opts); max_concurrency = server_concurrency opts in
      run_then (performance c) (\<lambda>started_at.
      run_then (ask (rc_register (fz_rpc c) route (Some max_concurrency))) (\<lambda>registered.
      run_then (log_event ''rpc_worker_ready''
        [(''workerId'', JStr (lo_workerId opts)), (''route'', JStr route), (''maxConcurrency'', jnat max_concurrency)]) (\<lambda>_.
      run_then (serve_until_abort n c registered (rpc_handle c opts) (rpc_answer_last c opts)) (\<lambda>sv.
      run_then (ask (ignore_failure (fz_unsubscribe c registered))) (\<lambda>_.
      run_then (elapsed_time c started_at) (\<lambda>ms.
      log_event ''rpc_worker_complete''
        [(''workerId'', JStr (lo_workerId opts)), (''handled'', jnat (sv_handled sv)), (''failures'', jnat (sv_failures sv)),
         (''maxActive'', jnat (sv_maxActive sv)), (''elapsedMs'', jint ms)])))))))"

subsection \<open>RPC callers\<close>

record caller_counts =
  cc_workers :: "(string, nat) js_map"
  cc_completed :: nat
  cc_frames :: nat

definition caller_progress :: "live_options \<Rightarrow> caller_counts \<Rightarrow> (string \<times> json) list" where
  "caller_progress opts k =
     [(''workerId'', JStr (lo_workerId opts)), (''completed'', jnat (cc_completed k)), (''responseFrames'', jnat (cc_frames k))]"

text \<open>The answers of one call come from one worker; what is checked is the frame and the caller.\<close>

definition same_worker :: "string option \<Rightarrow> string \<Rightarrow> string \<Rightarrow> unit result" where
  "same_worker selected w what =
     try_in (ensure (w \<noteq> []) (Error (what @ '' omitted its worker identity'') [])) (\<lambda>_.
     case selected of
       Some s \<Rightarrow> ensure (s = w) (Error (what @ '' switched workers from $ to $'') [AStr s, AStr w])
     | None \<Rightarrow> Inr ())"

definition check_rpc_response :: "live_options \<Rightarrow> nat \<Rightarrow> string option \<Rightarrow> nat \<Rightarrow> rpc_response \<Rightarrow> string result" where
  "check_rpc_response opts sequence selected frames r =
     try_in (ensure (rr_sequence r = frames) (Error ''RPC response sequence $ != $'' [ANat (rr_sequence r), ANat frames])) (\<lambda>_.
     try_in (parse_live_payload (rr_body r) ''r'' 4) (\<lambda>identity.
     try_in (integer_field (identity ! 1) ''RPC response frame'') (\<lambda>frame.
     try_in (integer_field (identity ! 2) ''RPC response caller'') (\<lambda>caller.
     try_in (integer_field (identity ! 3) ''RPC response sequence'') (\<lambda>response_sequence.
     try_in (same_worker selected (identity ! 0) ''RPC response'') (\<lambda>_.
     try_in (ensure (frame = frames \<and> worker_number opts = Some (of_nat caller) \<and> response_sequence = sequence)
       (Error ''RPC response identity mismatch for caller $/$'' [AStr (lo_workerId opts), ANat sequence])) (\<lambda>_.
     try_in (tagged_payload ''r'' [identity ! 0, show_nat frame, show_nat caller, show_nat response_sequence] (lo_payloadBytes opts)) (\<lambda>expected.
     try_in (assert_payload (rr_body r) expected
       (''RPC response '' @ lo_workerId opts @ ''/'' @ show_nat sequence @ ''/'' @ show_nat frames)) (\<lambda>_.
     Inr (identity ! 0))))))))))"

definition take_rpc_response ::
  "live_options \<Rightarrow> nat \<Rightarrow> rpc_response \<Rightarrow> string option \<times> nat \<Rightarrow>
   ('o live_world \<times> caller_counts, (string option \<times> nat) + unit) client_script" where
  "take_rpc_response opts sequence r = (\<lambda>(selected, frames).
     run_then (of_checked (check_rpc_response opts sequence selected frames r)) (\<lambda>w.
     run_then (modify_local (\<lambda>k. k\<lparr>cc_frames := cc_frames k + 1\<rparr>)) (\<lambda>_.
     ret (Inl (Some w, frames + 1)))))"

definition rpc_caller_call :: "nat \<Rightarrow> 'o fitz_client \<Rightarrow> live_options \<Rightarrow> nat \<Rightarrow> ('o live_world \<times> caller_counts, unit) client_script" where
  "rpc_caller_call n c opts sequence =
     run_then (of_checked (tagged_payload ''q'' [lo_workerId opts, show_nat sequence] (lo_payloadBytes opts))) (\<lambda>request.
     run_then (outer (ask (rc_call (fz_rpc c) (rpc_route (lo_namespace opts)) request (lo_requestTimeoutMs opts)))) (\<lambda>call.
     run_then (for_await n
         (run_then (outer (ask (rc_next (fz_rpc c) call))) (\<lambda>r.
          run_then (progress_ticks c ''rpc_caller_progress'' (caller_progress opts)) (\<lambda>_. ret r)))
         (outer (ask (rc_end (fz_rpc c) call))) (take_rpc_response opts sequence) (None, 0)) (\<lambda>r.
     case r of
       Inr u \<Rightarrow> ret ()
     | Inl (selected, frames) \<Rightarrow>
         (case selected of
            Some w \<Rightarrow>
              run_then (require (frames = 2) ''RPC call $/$ returned $ frames'' [AStr (lo_workerId opts), ANat sequence, ANat frames]) (\<lambda>_.
              modify_local (\<lambda>k. k\<lparr>cc_workers := map_bump (cc_workers k) w 1, cc_completed := cc_completed k + 1\<rparr>))
          | None \<Rightarrow> fail_with ''RPC call $/$ returned $ frames'' [AStr (lo_workerId opts), ANat sequence, ANat frames]))))"

text \<open>\<^verbatim>\<open>[...entries].sort()\<close> compares the texts of the entries.\<close>

definition sorted_counts :: "(string, nat) js_map \<Rightarrow> json" where
  "sorted_counts m = JObj (map (\<lambda>(w, k). (w, jnat k)) (sort_key (\<lambda>(w, k). w @ '','' @ show_nat k) m))"

definition run_rpc_caller :: "nat \<Rightarrow> 'o fitz_client \<Rightarrow> live_options \<Rightarrow> ('o, unit) workload" where
  "run_rpc_caller n c opts =
     run_then (performance c) (\<lambda>started_at.
     run_then (with_local \<lparr>cc_workers = [], cc_completed = 0, cc_frames = 0\<rparr>
       (run_then (live_lanes c (live_count opts) (rpc_caller_call n c opts)) (\<lambda>_. get_local))) (\<lambda>k.
     run_then (elapsed_time c started_at) (\<lambda>ms.
     log_event ''rpc_caller_complete''
       [(''workerId'', JStr (lo_workerId opts)), (''completed'', jnat (cc_completed k)), (''responseFrames'', jnat (cc_frames k)),
        (''workerCounts'', sorted_counts (cc_workers k)), (''elapsedMs'', jint ms)])))"

subsection \<open>Streamed RPC\<close>

definition rpc_stream_route :: "string \<Rightarrow> string" where
  "rpc_stream_route ns = ''rpc://destroyer/'' @ ns @ ''/stream-hose''"

record stream_job =
  sj_request :: nat
  sj_caller :: nat
  sj_call :: nat
  sj_frame :: nat
  sj_frames :: nat
  sj_frameBytes :: nat

definition check_stream_request :: "int \<Rightarrow> int \<Rightarrow> nat \<Rightarrow> bytes \<Rightarrow> stream_job result" where
  "check_stream_request max_frames max_frame_bytes request body =
     try_in (parse_live_payload body ''h'' 4) (\<lambda>identity.
     try_in (integer_field (identity ! 0) ''RPC stream caller'') (\<lambda>caller.
     try_in (integer_field (identity ! 1) ''RPC stream call'') (\<lambda>call.
     try_in (integer_field (identity ! 2) ''RPC stream frame count'') (\<lambda>frames.
     try_in (integer_field (identity ! 3) ''RPC stream frame bytes'') (\<lambda>frame_bytes.
     try_in (ensure (2 \<le> frames \<and> int frames \<le> max_frames) (Error ''RPC stream requested $ frames; maximum is $'' [ANat frames, AInt max_frames])) (\<lambda>_.
     try_in (ensure (64 \<le> frame_bytes \<and> int frame_bytes \<le> max_frame_bytes)
       (Error ''RPC stream requested $ frame bytes; maximum is $'' [ANat frame_bytes, AInt max_frame_bytes])) (\<lambda>_.
     try_in (rpc_stream_request_payload (show_nat caller) call (int frames) (int frame_bytes)) (\<lambda>expected.
     try_in (assert_payload body expected (''RPC stream request '' @ show_nat caller @ ''/'' @ show_nat call)) (\<lambda>_.
     Inr \<lparr>sj_request = request, sj_caller = caller, sj_call = call, sj_frame = 0, sj_frames = frames, sj_frameBytes = frame_bytes\<rparr>)))))))))"

text \<open>The rest of the frames of a request, until the handler sleeps.\<close>

definition send_frame :: "'o fitz_client \<Rightarrow> int \<Rightarrow> live_options \<Rightarrow> stream_job \<Rightarrow> ('o live_world \<times> stream_job rpc_server, unit) client_script" where
  "send_frame c progress_after opts j =
     run_then (of_checked (rpc_stream_frame_payload (lo_workerId opts) (sj_caller j) (sj_call j) (sj_frame j) (int (sj_frameBytes j)))) (\<lambda>body.
     run_then (outer (ask (rc_respond (fz_rpc c) (sj_request j) (sj_frame j + 1 = sj_frames j) body))) (\<lambda>_.
     run_then (modify_local (\<lambda>sv. sv\<lparr>sv_framesSent := sv_framesSent sv + 1\<rparr>)) (\<lambda>_.
     when_do (int (sj_frame j) + 1 = progress_after)
       (outer (log_event ''rpc_stream_worker_progress''
          [(''workerId'', JStr (lo_workerId opts)), (''callerId'', jnat (sj_caller j)), (''call'', jnat (sj_call j)),
           (''framesSentForCall'', jnat (sj_frame j + 1))])))))"

fun send_frames ::
  "nat \<Rightarrow> 'o fitz_client \<Rightarrow> int \<Rightarrow> live_options \<Rightarrow> stream_job \<Rightarrow> ('o live_world \<times> stream_job rpc_server, stream_job option) client_script" where
  "send_frames 0 c progress_after opts j = ret None"
| "send_frames (Suc left) c progress_after opts j =
     run_then (send_frame c progress_after opts j) (\<lambda>_.
     let j' = j\<lparr>sj_frame := sj_frame j + 1\<rparr> in
     if 0 < left \<and> 0 < lo_handlerDelayMs opts then ret (Some j') else send_frames left c progress_after opts j')"

definition rpc_stream_resume ::
  "'o fitz_client \<Rightarrow> int \<Rightarrow> live_options \<Rightarrow> stream_job \<Rightarrow> ('o live_world \<times> stream_job rpc_server, stream_job option) client_script" where
  "rpc_stream_resume c progress_after opts j = send_frames (sj_frames j - sj_frame j) c progress_after opts j"

definition rpc_stream_handle ::
  "'o fitz_client \<Rightarrow> int \<Rightarrow> int \<Rightarrow> int \<Rightarrow> live_options \<Rightarrow> nat \<Rightarrow> bytes \<Rightarrow>
   ('o live_world \<times> stream_job rpc_server, stream_job option) client_script" where
  "rpc_stream_handle c max_frames max_frame_bytes progress_after opts request body =
     run_then (of_checked (check_stream_request max_frames max_frame_bytes request body)) (rpc_stream_resume c progress_after opts)"

definition run_rpc_stream_worker :: "nat \<Rightarrow> 'o fitz_client \<Rightarrow> int \<Rightarrow> int \<Rightarrow> int \<Rightarrow> live_options \<Rightarrow> ('o, unit) workload" where
  "run_rpc_stream_worker n c max_frames max_frame_bytes progress_after opts =
     (let route = rpc_stream_route (lo_namespace opts); max_concurrency = server_concurrency opts in
      run_then (performance c) (\<lambda>started_at.
      run_then (ask (rc_register (fz_rpc c) route (Some max_concurrency))) (\<lambda>registered.
      run_then (log_event ''rpc_stream_worker_ready''
        [(''workerId'', JStr (lo_workerId opts)), (''route'', JStr route), (''maxConcurrency'', jnat max_concurrency),
         (''maxFrames'', jint max_frames), (''maxFrameBytes'', jint max_frame_bytes)]) (\<lambda>_.
      run_then (serve_until_abort n c registered (rpc_stream_handle c max_frames max_frame_bytes progress_after opts)
        (rpc_stream_resume c progress_after opts)) (\<lambda>sv.
      run_then (ask (ignore_failure (fz_unsubscribe c registered))) (\<lambda>_.
      run_then (elapsed_time c started_at) (\<lambda>ms.
      log_event ''rpc_stream_worker_complete''
        [(''workerId'', JStr (lo_workerId opts)), (''handled'', jnat (sv_handled sv)), (''failures'', jnat (sv_failures sv)),
         (''framesSent'', jnat (sv_framesSent sv)), (''maxActive'', jnat (sv_maxActive sv)), (''elapsedMs'', jint ms)])))))))"

text \<open>
  The counters of a caller, and of the call that it is making: the worker that answers, the frames
  so far and whether the caller has aborted the call.
\<close>

record stream_counts =
  sk_completed :: nat
  sk_interrupted :: nat
  sk_frames :: nat
  sk_bytes :: nat
  sk_selected :: "string option"
  sk_callFrames :: nat
  sk_cancelled :: bool

record stream_plan =
  sl_frames :: int
  sl_frameBytes :: int
  sl_readerDelayMs :: int
  sl_outcome :: rpc_stream_outcome
  sl_cancelAfter :: int

fun stream_outcome_name :: "rpc_stream_outcome \<Rightarrow> string" where
  "stream_outcome_name ExpectComplete = ''complete''"
| "stream_outcome_name ExpectCancel = ''cancel''"
| "stream_outcome_name ExpectFailure = ''failure''"

definition stream_caller_progress :: "live_options \<Rightarrow> stream_counts \<Rightarrow> (string \<times> json) list" where
  "stream_caller_progress opts k =
     [(''workerId'', JStr (lo_workerId opts)), (''completed'', jnat (sk_completed k)), (''interrupted'', jnat (sk_interrupted k)),
      (''responseFrames'', jnat (sk_frames k)), (''responseBytes'', jnat (sk_bytes k))]"

definition check_stream_response :: "live_options \<Rightarrow> stream_plan \<Rightarrow> nat \<Rightarrow> string option \<Rightarrow> nat \<Rightarrow> rpc_response \<Rightarrow> string result" where
  "check_stream_response opts plan call selected frames r =
     try_in (ensure (rr_sequence r = frames) (Error ''RPC stream response sequence $ != $'' [ANat (rr_sequence r), ANat frames])) (\<lambda>_.
     try_in (parse_live_payload (rr_body r) ''s'' 4) (\<lambda>identity.
     try_in (integer_field (identity ! 1) ''RPC stream response caller'') (\<lambda>caller.
     try_in (integer_field (identity ! 2) ''RPC stream response call'') (\<lambda>response_call.
     try_in (integer_field (identity ! 3) ''RPC stream response frame'') (\<lambda>response_frame.
     try_in (same_worker selected (identity ! 0) ''RPC stream response'') (\<lambda>_.
     try_in (ensure (worker_number opts = Some (of_nat caller) \<and> response_call = call \<and> response_frame = frames)
       (Error ''RPC stream response identity mismatch for $/$'' [AStr (lo_workerId opts), ANat call])) (\<lambda>_.
     try_in (rpc_stream_frame_payload (identity ! 0) caller call frames (sl_frameBytes plan)) (\<lambda>expected.
     try_in (assert_payload (rr_body r) expected
       (''RPC stream response '' @ lo_workerId opts @ ''/'' @ show_nat call @ ''/'' @ show_nat frames)) (\<lambda>_.
     Inr (identity ! 0))))))))))"

definition frame_counted :: "string \<Rightarrow> nat \<Rightarrow> stream_counts \<Rightarrow> stream_counts" where
  "frame_counted w bytes k =
     k\<lparr>sk_selected := Some w, sk_callFrames := sk_callFrames k + 1, sk_frames := sk_frames k + 1, sk_bytes := sk_bytes k + bytes\<rparr>"

definition cancel_text :: "nat \<Rightarrow> thrown" where
  "cancel_text frames = ErrorObject ''Error'' (''cancelled after '' @ show_nat frames @ '' RPC stream frames'')"

definition take_stream_response ::
  "'o fitz_client \<Rightarrow> live_options \<Rightarrow> stream_plan \<Rightarrow> nat \<Rightarrow> nat \<Rightarrow> rpc_response \<Rightarrow> unit \<Rightarrow>
   ('o live_world \<times> stream_counts, unit + unit) client_script" where
  "take_stream_response c opts plan call handle_of_call r u =
     run_then get_local (\<lambda>k.
     run_then (of_checked (check_stream_response opts plan call (sk_selected k) (sk_callFrames k) r)) (\<lambda>w.
     let k' = frame_counted w (length (rr_body r)) k in
     run_then (set_local k') (\<lambda>_.
     run_then (when_do (sl_outcome plan = ExpectCancel \<and> int (sk_callFrames k') = sl_cancelAfter plan)
       (run_then (set_local (k'\<lparr>sk_cancelled := True\<rparr>)) (\<lambda>_.
        outer (ask (rc_abort (fz_rpc c) handle_of_call (cancel_text (sk_callFrames k')))))) ) (\<lambda>_.
     run_then (when_do (0 < sl_readerDelayMs plan) (outer (ask (client_sleep c (sl_readerDelayMs plan))))) (\<lambda>_.
     ret (Inl ()))))))"

definition stream_call :: "nat \<Rightarrow> 'o fitz_client \<Rightarrow> live_options \<Rightarrow> stream_plan \<Rightarrow> nat \<Rightarrow> ('o live_world \<times> stream_counts, unit) client_script" where
  "stream_call n c opts plan call =
     run_then (of_checked (rpc_stream_request_payload (worker_number_text opts) call (sl_frames plan) (sl_frameBytes plan))) (\<lambda>request.
     run_then (outer (ask (rc_call (fz_rpc c) (rpc_stream_route (lo_namespace opts)) request (lo_requestTimeoutMs opts)))) (\<lambda>handle_of_call.
     run_then (for_await n
         (run_then (outer (ask (rc_next (fz_rpc c) handle_of_call))) (\<lambda>r.
          run_then (progress_ticks c ''rpc_stream_caller_progress'' (stream_caller_progress opts)) (\<lambda>_. ret r)))
         (outer (ask (rc_end (fz_rpc c) handle_of_call))) (take_stream_response c opts plan call handle_of_call) ()) (\<lambda>_.
     run_then (require (sl_outcome plan = ExpectComplete) ''RPC stream unexpectedly completed during $ phase''
       [AStr (stream_outcome_name (sl_outcome plan))]) (\<lambda>_.
     run_then get_local (\<lambda>k.
     run_then (require (int (sk_callFrames k) = sl_frames plan \<and> sk_selected k \<noteq> None) ''RPC stream call $/$ returned $/$ frames''
       [AStr (lo_workerId opts), ANat call, ANat (sk_callFrames k), AInt (sl_frames plan)]) (\<lambda>_.
     set_local (k\<lparr>sk_completed := sk_completed k + 1\<rparr>)))))))"

definition stream_fault :: "live_options \<Rightarrow> stream_plan \<Rightarrow> nat \<Rightarrow> client_error \<Rightarrow> ('o live_world \<times> stream_counts, unit) client_script" where
  "stream_fault opts plan call e =
     run_then get_local (\<lambda>k.
     if sl_outcome plan = ExpectComplete then fail e
     else if sl_outcome plan = ExpectCancel \<and> \<not> sk_cancelled k then fail e
     else
       run_then (set_local (k\<lparr>sk_interrupted := sk_interrupted k + 1\<rparr>)) (\<lambda>_.
       outer (log_event ''rpc_stream_fault_observed''
         [(''workerId'', JStr (lo_workerId opts)), (''call'', jnat call), (''expectedOutcome'', JStr (stream_outcome_name (sl_outcome plan))),
          (''frames'', jnat (sk_callFrames k)), (''error'', JStr (error_text e))])))"

definition stream_caller_call :: "nat \<Rightarrow> 'o fitz_client \<Rightarrow> live_options \<Rightarrow> stream_plan \<Rightarrow> nat \<Rightarrow> ('o live_world \<times> stream_counts, unit) client_script" where
  "stream_caller_call n c opts plan call =
     run_then (modify_local (\<lambda>k. k\<lparr>sk_selected := None, sk_callFrames := 0, sk_cancelled := False\<rparr>)) (\<lambda>_.
     catching (stream_call n c opts plan call) (stream_fault opts plan call))"

definition no_stream_calls :: stream_counts where
  "no_stream_calls = \<lparr>sk_completed = 0, sk_interrupted = 0, sk_frames = 0, sk_bytes = 0, sk_selected = None, sk_callFrames = 0, sk_cancelled = False\<rparr>"

definition run_rpc_stream_caller :: "nat \<Rightarrow> 'o fitz_client \<Rightarrow> stream_plan \<Rightarrow> live_options \<Rightarrow> ('o, unit) workload" where
  "run_rpc_stream_caller n c plan opts =
     run_then (require (sl_outcome plan = ExpectComplete \<or> lo_operations opts = 1) ''RPC stream fault callers must make exactly one call'' []) (\<lambda>_.
     run_then (performance c) (\<lambda>started_at.
     run_then (with_local no_stream_calls (run_then (live_lanes c (live_count opts) (stream_caller_call n c opts plan)) (\<lambda>_. get_local))) (\<lambda>k.
     run_then (require (sl_outcome plan \<noteq> ExpectComplete \<or> int (sk_completed k) = lo_operations opts) ''RPC stream completed $/$ calls''
       [ANat (sk_completed k), AInt (lo_operations opts)]) (\<lambda>_.
     run_then (require (sl_outcome plan = ExpectComplete \<or> int (sk_interrupted k) = lo_operations opts) ''RPC stream observed $/$ interruptions''
       [ANat (sk_interrupted k), AInt (lo_operations opts)]) (\<lambda>_.
     run_then (elapsed_time c started_at) (\<lambda>ms.
     log_event ''rpc_stream_caller_complete''
       [(''workerId'', JStr (lo_workerId opts)), (''expectedOutcome'', JStr (stream_outcome_name (sl_outcome plan))),
        (''completed'', jnat (sk_completed k)), (''interrupted'', jnat (sk_interrupted k)), (''responseFrames'', jnat (sk_frames k)),
        (''responseBytes'', jnat (sk_bytes k)), (''elapsedMs'', jint ms)]))))))"

end
