(* ===== verification/LiveProofs.thy ===== *)
theory LiveProofs
  imports LiveWorkloads QueueWorkloads WorkloadLog
begin

text \<open>
  What the live workloads (LiveWorkloads) report when they return: payloads are read back, a
  subscriber has seen every notice once, every call of a caller was answered in full by one worker.
\<close>

subsection \<open>What a script keeps\<close>

definition preserves :: "('w \<Rightarrow> 'w \<Rightarrow> bool) \<Rightarrow> ('w, 'a) client_script \<Rightarrow> bool" where
  "preserves R m = (\<forall>w. R w (snd (m w)))"

lemma preservesD: "preserves R m \<Longrightarrow> m w = (r, w') \<Longrightarrow> R w w'"
  by (metis preserves_def snd_conv)

text \<open>However a script ends, the world that it leaves is related to the one that it found.\<close>

locale kept =
  fixes R :: "'w \<Rightarrow> 'w \<Rightarrow> bool"
  assumes R_refl: "R w w" and R_trans: "R u v \<Longrightarrow> R v w \<Longrightarrow> R u w"
begin

lemma preserves_simple: "preserves R (ret x)" "preserves R (fail e)" "preserves R (of_checked r)" "preserves R (get_state f)"
  by (auto simp: preserves_def ret_def fail_def of_checked_def get_state_def R_refl split: sum.splits)

lemma preserves_checks: "preserves R (require b t args)" "preserves R (fail_with t args)"
  by (simp_all add: require_def fail_with_def preserves_simple)

lemma preserves_run_then:
  assumes "preserves R m" "\<And>x. preserves R (k x)" shows "preserves R (run_then m k)"
  unfolding preserves_def run_then_def
proof
  fix w
  obtain r v where m: "m w = (r, v)" by (cases "m w")
  then have "R w v" using assms(1) by (rule preservesD [rotated])
  then show "R w (snd (case m w of (Inl e, w') \<Rightarrow> (Inl e, w') | (Inr x, w') \<Rightarrow> k x w'))"
    using m assms(2) by (cases r) (auto simp: preserves_def intro: R_trans)
qed

lemma preserves_attempt: "preserves R m \<Longrightarrow> preserves R (attempt m)"
  by (auto simp: preserves_def attempt_def split: prod.splits) (metis snd_conv)

lemma preserves_if: "preserves R m \<Longrightarrow> preserves R m' \<Longrightarrow> preserves R (if b then m else m')"
  by simp

lemma preserves_when: "preserves R m \<Longrightarrow> preserves R (when_do b m)"
  by (simp add: when_do_def preserves_simple)

lemma preserves_option: "preserves R m \<Longrightarrow> (\<And>x. preserves R (k x)) \<Longrightarrow> preserves R (case z of None \<Rightarrow> m | Some x \<Rightarrow> k x)"
  by (cases z) simp_all

lemma preserves_sum: "(\<And>x. preserves R (f x)) \<Longrightarrow> (\<And>y. preserves R (g y)) \<Longrightarrow> preserves R (case z of Inl x \<Rightarrow> f x | Inr y \<Rightarrow> g y)"
  by (cases z) simp_all

lemma preserves_prod: "(\<And>x y. preserves R (f x y)) \<Longrightarrow> preserves R (case z of (x, y) \<Rightarrow> f x y)"
  by (cases z) simp

lemma preserves_each: "(\<And>x. preserves R (f x)) \<Longrightarrow> preserves R (each f xs)"
  by (induction xs) (simp_all add: preserves_simple preserves_run_then)

lemma preserves_catching:
  assumes "preserves R m" "\<And>e. preserves R (h e)" shows "preserves R (catching m h)"
proof -
  have eq: "catching m h = run_then (attempt m) (\<lambda>r. case r of Inl e \<Rightarrow> if e = StillRunning then fail StillRunning else h e | Inr x \<Rightarrow> ret x)"
    by (rule ext) (auto simp: catching_def try_catch_def run_then_def attempt_def ret_def split: prod.splits sum.splits)
  show ?thesis unfolding eq by (intro preserves_run_then preserves_attempt preserves_sum preserves_if preserves_simple assms)
qed

lemma preserves_ignore: "preserves R m \<Longrightarrow> preserves R (ignore_failure m)"
  by (simp add: preserves_def ignore_failure_def)

lemma preserves_undo: "preserves R m \<Longrightarrow> preserves R f \<Longrightarrow> preserves R (undo_on_error m f)"
  unfolding undo_on_error_def by (intro preserves_catching preserves_run_then preserves_ignore preserves_simple)

lemma preserves_for_await:
  "preserves R advance \<Longrightarrow> preserves R close \<Longrightarrow> (\<And>x s. preserves R (body x s)) \<Longrightarrow> preserves R (for_await n advance close body s)"
  by (induction n arbitrary: s)
    (simp_all add: preserves_simple preserves_run_then preserves_option preserves_undo preserves_sum)

lemmas preserves_intros =
  preserves_simple preserves_checks preserves_run_then preserves_when preserves_option preserves_sum preserves_prod preserves_each preserves_catching preserves_ignore
  preserves_undo preserves_for_await

end

text \<open>The log has grown by events of the given names.\<close>

definition named :: "string list \<Rightarrow> (string \<times> (string \<times> json) list) list \<Rightarrow> bool" where
  "named names ls = list_all (\<lambda>e. fst e \<in> set names) ls"

definition grown :: "string list \<Rightarrow> 'o live_world \<times> 'l \<Rightarrow> 'o live_world \<times> 'l \<Rightarrow> bool" where
  "grown names u v = (\<exists>ls. lv_log (fst v) = lv_log (fst u) @ ls \<and> named names ls)"

interpretation grown: kept "grown names" for names
proof
  fix u v w :: "'a live_world \<times> 'b"
  assume "grown names u v" "grown names v w"
  then show "grown names u w" by (auto simp: grown_def named_def)
qed (simp add: grown_def named_def)

lemma grown_basics:
  "preserves (grown names) (outer (ask m))" "name \<in> set names \<Longrightarrow> preserves (grown names) (outer (log_event name es))" "preserves (grown names) (set_local l)"
  "preserves (grown names) get_local"
  by (auto simp: preserves_def grown_def named_def outer_def ask_def log_event_def modify_def set_local_def get_local_def get_state_def split: prod.splits)

lemma grown_local: "preserves (grown names) (modify_local f)"
  unfolding modify_local_def by (intro grown.preserves_intros grown_basics)

lemma grown_ticks: "name \<in> set names \<Longrightarrow> preserves (grown names) (progress_ticks c name entries)"
  unfolding progress_ticks_def by (intro grown.preserves_intros grown_basics)

lemma grown_lanes: "(\<And>k. preserves (grown names) (operation k)) \<Longrightarrow> preserves (grown names) (live_lanes c n operation)"
  unfolding live_lanes_def by (intro grown.preserves_intros grown_basics)

lemmas grown_intros = grown.preserves_intros grown.preserves_if grown_basics grown_local grown_ticks grown_lanes

text \<open>A workload with local variables logs what its body logs.\<close>

lemma with_local_grown:
  assumes "with_local l (run_then m (\<lambda>_. get_local)) w = (Inr k, w')" "preserves (grown names) m"
  shows "\<exists>ls v. m (w, l) = (Inr (), v, k) \<and> w' = v \<and> lv_log w' = lv_log w @ ls \<and> named names ls"
proof -
  obtain v where v: "m (w, l) = (Inr (), v, k)" "w' = v" using assms(1) by (auto simp: script_ok)
  then show ?thesis using preservesD [OF assms(2) v(1)] by (auto simp: grown_def)
qed

text \<open>The lanes: what every operation establishes at its position.\<close>

lemma each_counts:
  assumes "\<And>k w w'. k < n \<Longrightarrow> I k w \<Longrightarrow> f k w = (Inr (), w') \<Longrightarrow> I (Suc k) w'"
  shows "each f [0..<n] w = (Inr (), w') \<Longrightarrow> I 0 w \<Longrightarrow> I n w'"
proof -
  have "each f [k..<n] w = (Inr (), w') \<Longrightarrow> I k w \<Longrightarrow> k \<le> n \<Longrightarrow> I n w'" for k w
  proof (induction "n - k" arbitrary: k w)
    case (Suc m)
    then have split: "[k..<n] = k # [Suc k..<n]" by (simp add: upt_rec)
    obtain v where v: "f k w = (Inr (), v)" "each f [Suc k..<n] v = (Inr (), w')"
      using Suc.prems(1) unfolding split by (auto simp: script_ok)
    have "I (Suc k) v" using assms Suc.hyps(2) Suc.prems(2) v(1) by simp
    then show ?case using Suc.hyps v(2) by (intro Suc.hyps(1)) auto
  qed (simp add: script_ok)
  then show "each f [0..<n] w = (Inr (), w') \<Longrightarrow> I 0 w \<Longrightarrow> I n w'" by simp
qed

lemma lanes_count:
  assumes "live_lanes c n operation (w, l) = (Inr (), w', l')" "I 0 l"
    and "\<And>k w l w' l'. k < n \<Longrightarrow> I k l \<Longrightarrow> operation k (w, l) = (Inr (), w', l') \<Longrightarrow> I (Suc k) l'"
  shows "I n l'"
proof -
  have "(\<lambda>k (u, l). I k l) n (w', l')"
    by (rule each_counts [OF _ assms(1) [unfolded live_lanes_def]]) (use assms(2,3) in \<open>auto simp: script_ok\<close>)
  then show ?thesis by simp
qed

text \<open>The steps of a loop over answers.\<close>

lemma for_await_steps:
  "advance u = (Inr (Some x), u') \<Longrightarrow> body x s u' = (Inr (Inl t), u'') \<Longrightarrow>
     for_await (Suc n) advance close body s u = for_await n advance close body t u''"
  "advance u = (Inr None, u') \<Longrightarrow> for_await (Suc n) advance close body s u = (Inr (Inl s), u')"
  by (simp_all add: run_then_def undo_on_error_def catching_def try_catch_def ret_def)

text \<open>A loop over answers whose body always goes on.\<close>

lemma for_await_inv:
  assumes "\<And>s u v x. I s u \<Longrightarrow> advance u = (Inr x, v) \<Longrightarrow> I s v"
    and "\<And>x s u r v. I s u \<Longrightarrow> body x s u = (Inr r, v) \<Longrightarrow> (\<exists>t. r = Inl t \<and> I t v)"
  shows "for_await n advance close body s u = (Inr r, v) \<Longrightarrow> I s u \<Longrightarrow> \<exists>t. r = Inl t \<and> I t v"
proof (induction n arbitrary: s u)
  case (Suc n)
  then obtain x u' where x: "advance u = (Inr x, u')" "(case x of None \<Rightarrow> ret (Inl s)
     | Some x \<Rightarrow> run_then (undo_on_error (body x s) close) (\<lambda>r. case r of
           Inl s' \<Rightarrow> for_await n advance close body s'
         | Inr y \<Rightarrow> run_then close (\<lambda>_. ret (Inr y)))) u' = (Inr r, v)"
    by (auto simp: script_ok)
  have I: "I s u'" using assms(1) [OF Suc.prems(2) x(1)] .
  show ?case
  proof (cases x)
    case None
    then show ?thesis using x(2) I by (simp add: script_ok)
  next
    case (Some a)
    then obtain q u'' where q: "body a s u' = (Inr q, u'')" "(case q of Inl s' \<Rightarrow> for_await n advance close body s'
         | Inr y \<Rightarrow> run_then close (\<lambda>_. ret (Inr y))) u'' = (Inr r, v)"
      using x(2) by (auto simp: script_ok)
    obtain t where "q = Inl t" "I t u''" using assms(2) [OF I q(1)] by blast
    then show ?thesis using q(2) Suc.IH by simp
  qed
qed (simp add: script_ok)

subsection \<open>Payloads\<close>

definition plain_field :: "string \<Rightarrow> bool" where
  "plain_field s = (is_ascii s \<and> CHR ''|'' \<notin> set s)"

lemma split_on_free: "c \<notin> set s \<Longrightarrow> split_on c s = [s]"
  by (induction s) auto

lemma split_fields: "fs \<noteq> [] \<Longrightarrow> list_all plain_field fs \<Longrightarrow> split_on CHR ''|'' (join_with ''|'' fs @ CHR ''|'' # t) = fs @ split_on CHR ''|'' t"
proof (induction fs)
  case (Cons x xs)
  then show ?case by (cases xs) (simp_all add: split_on_append split_on_free plain_field_def)
qed simp

lemma utf8_decode_append: "is_ascii s \<Longrightarrow> utf8_decode (utf8 s @ rest) = s @ utf8_decode rest"
proof -
  assume ascii: "is_ascii s"
  have "is_ascii s \<Longrightarrow> utf8_decode (map of_char s @ rest) = s @ utf8_decode rest"
  proof (induction s)
    case (Cons x s)
    have "(of_char x :: byte) < 128" using Cons.prems by (simp add: word_less_nat_alt is_ascii_def)
    moreover have "char_of (unat (of_char x :: byte)) = x" by (simp add: unat_of_char)
    ultimately show ?case using Cons by (simp add: utf8_decode_cons is_ascii_def)
  qed simp
  then show ?thesis using ascii by (simp add: utf8_ascii)
qed

text \<open>Whatever follows a header, its fields are read back.\<close>

lemma header_read_back:
  assumes "plain_field tag" "list_all plain_field fs" "fs \<noteq> []" "k = length fs"
  shows "parse_live_payload (live_header tag fs @ rest) tag k = Inr fs"
proof -
  have fields: "is_ascii (join_with ''|'' fs)"
    using assms(2)
  proof (induction fs)
    case (Cons x xs)
    then show ?case by (cases xs) (auto simp: plain_field_def is_ascii_def)
  qed (simp add: is_ascii_def)
  then have "is_ascii (tag @ ''|'' @ join_with ''|'' fs @ ''|'')" using assms(1) by (simp add: is_ascii_def plain_field_def)
  then have text_of: "utf8_decode (live_header tag fs @ rest) = tag @ CHR ''|'' # join_with ''|'' fs @ CHR ''|'' # utf8_decode rest"
    unfolding live_header_def by (simp add: utf8_decode_append)
  obtain p ps where p: "split_on CHR ''|'' (utf8_decode rest) = p # ps" using split_on_set_nonempty by (metis list.exhaust)
  have "split_on CHR ''|'' (utf8_decode (live_header tag fs @ rest)) = tag # fs @ p # ps"
    unfolding text_of using assms(1) split_fields [OF assms(3,2), of "utf8_decode rest"] p
    by (simp add: split_on_append [of _ tag] split_on_free plain_field_def)
  then show ?thesis using assms(4) by (simp add: parse_live_payload_def)
qed

lemma tagged_payload_header: "tagged_payload tag fs len = Inr body \<Longrightarrow> \<exists>rest. body = live_header tag fs @ rest"
  by (auto simp: tagged_payload_def Let_def split: if_splits)

lemma tagged_payload_length: "tagged_payload tag fs len = Inr body \<Longrightarrow> length body = nat len \<and> length (live_header tag fs) \<le> nat len"
  by (auto simp: tagged_payload_def Let_def split: if_splits)

lemma frame_payload_header:
  assumes "rpc_stream_frame_payload w caller call frame len = Inr body"
  shows "\<exists>rest. body = live_header ''s'' [w, show_nat caller, show_nat call, show_nat frame] @ rest"
  using assms by (auto simp: rpc_stream_frame_payload_def Let_def result_simps dest!: tagged_payload_header)

lemma plain_show_nat: "plain_field (show_nat n)"
  using show_nat_digits [of n] is_digit_cases by (fastforce simp: plain_field_def is_ascii_def list_all_iff is_digit_def)

lemma integer_field_show: "int k \<le> max_safe_integer \<Longrightarrow> integer_field (show_nat k) name = Inr k"
  by (simp add: integer_field_def js_to_number_show_nat is_safe_integer_def max_safe_integer_def)

lemma assert_same: "assert_payload x x what = Inr ()"
  by (simp add: assert_payload_ok)

text \<open>What a worker of the streamed RPC accepts and what it sends, and the same for plain RPC and notices.\<close>

lemma stream_request_accepted:
  assumes body: "rpc_stream_request_payload (show_nat caller) call (int frames) (int frame_bytes) = Inr body"
    and safe: "int caller \<le> max_safe_integer" "int call \<le> max_safe_integer" "int frames \<le> max_safe_integer" "int frame_bytes \<le> max_safe_integer"
    and allowed: "2 \<le> frames" "int frames \<le> max_frames" "64 \<le> frame_bytes" "int frame_bytes \<le> max_bytes"
  shows "check_stream_request max_frames max_bytes request body =
     Inr \<lparr>sj_request = request, sj_caller = caller, sj_call = call, sj_frame = 0, sj_frames = frames, sj_frameBytes = frame_bytes\<rparr>"
proof -
  let ?fs = "[show_nat caller, show_nat call, show_nat frames, show_nat frame_bytes]"
  have "tagged_payload ''h'' ?fs 128 = Inr body" using body by (simp add: rpc_stream_request_payload_def show_int_def)
  then obtain rest where "body = live_header ''h'' ?fs @ rest" using tagged_payload_header by blast
  then have "parse_live_payload body ''h'' 4 = Inr ?fs"
    using header_read_back [of "''h''" ?fs 4 rest] by (simp add: plain_show_nat) (simp add: plain_field_def is_ascii_def)
  then show ?thesis
    using assms by (simp add: check_stream_request_def integer_field_show assert_same result_simps)
qed

lemma stream_frame_accepted:
  assumes body: "rpc_stream_frame_payload sender caller call frame (sl_frameBytes plan) = Inr body"
    and sender: "plain_field sender" "sender \<noteq> []" "selected \<in> {None, Some sender}" and caller: "worker_number opts = Some (of_nat caller)"
    and safe: "int caller \<le> max_safe_integer" "int call \<le> max_safe_integer" "int frame \<le> max_safe_integer"
  shows "check_stream_response opts plan call selected frame \<lparr>rr_sequence = frame, rr_body = body\<rparr> = Inr sender"
proof -
  let ?fs = "[sender, show_nat caller, show_nat call, show_nat frame]"
  obtain rest where "body = live_header ''s'' ?fs @ rest" using frame_payload_header [OF body] by blast
  then have "parse_live_payload body ''s'' 4 = Inr ?fs"
    using header_read_back [of "''s''" ?fs 4 rest] sender(1) by (simp add: plain_show_nat) (simp add: plain_field_def is_ascii_def)
  then show ?thesis
    using assms by (auto simp: check_stream_response_def same_worker_def integer_field_show assert_same result_simps)
qed

lemma rpc_request_accepted:
  assumes body: "tagged_payload ''q'' [show_nat caller, show_nat sequence] (lo_payloadBytes opts) = Inr body"
    and safe: "int caller \<le> max_safe_integer" "int sequence \<le> max_safe_integer"
  shows "check_rpc_request opts body = Inr (caller, sequence)"
proof -
  let ?fs = "[show_nat caller, show_nat sequence]"
  obtain rest where "body = live_header ''q'' ?fs @ rest" using tagged_payload_header [OF body] by blast
  then have "parse_live_payload body ''q'' 2 = Inr ?fs"
    using header_read_back [of "''q''" ?fs 2 rest] by (simp add: plain_show_nat) (simp add: plain_field_def is_ascii_def)
  then show ?thesis using assms by (simp add: check_rpc_request_def integer_field_show assert_same result_simps)
qed

lemma rpc_answer_accepted:
  assumes body: "rpc_answer worker_opts frame (caller, sequence) = Inr body" and same: "lo_payloadBytes worker_opts = lo_payloadBytes opts"
    and sender: "plain_field (lo_workerId worker_opts)" "lo_workerId worker_opts \<noteq> []" "selected \<in> {None, Some (lo_workerId worker_opts)}"
    and caller: "worker_number opts = Some (of_nat caller)"
    and safe: "int caller \<le> max_safe_integer" "int sequence \<le> max_safe_integer" "int frame \<le> max_safe_integer"
  shows "check_rpc_response opts sequence selected frame \<lparr>rr_sequence = frame, rr_body = body\<rparr> = Inr (lo_workerId worker_opts)"
proof -
  let ?fs = "[lo_workerId worker_opts, show_nat frame, show_nat caller, show_nat sequence]"
  have payload: "tagged_payload ''r'' ?fs (lo_payloadBytes opts) = Inr body" using body same by (simp add: rpc_answer_def)
  obtain rest where "body = live_header ''r'' ?fs @ rest" using tagged_payload_header [OF payload] by blast
  then have "parse_live_payload body ''r'' 4 = Inr ?fs"
    using header_read_back [of "''r''" ?fs 4 rest] sender(1) by (simp add: plain_show_nat) (simp add: plain_field_def is_ascii_def)
  then show ?thesis
    using payload assms by (auto simp: check_rpc_response_def same_worker_def integer_field_show assert_same result_simps)
qed

lemma notice_accepted:
  assumes body: "tagged_payload ''n'' [show_nat publisher, show_nat sequence] (lo_payloadBytes opts) = Inr body"
    and safe: "int publisher \<le> max_safe_integer" "int sequence \<le> max_safe_integer"
    and range: "int publisher < publishers" "int sequence < lo_operations opts"
  shows "check_notice opts publishers (notice_route (lo_namespace opts) (show_nat publisher)) body = Inr (publisher, sequence)"
proof -
  let ?fs = "[show_nat publisher, show_nat sequence]"
  obtain rest where "body = live_header ''n'' ?fs @ rest" using tagged_payload_header [OF body] by blast
  then have "parse_live_payload body ''n'' 2 = Inr ?fs"
    using header_read_back [of "''n''" ?fs 2 rest] by (simp add: plain_show_nat) (simp add: plain_field_def is_ascii_def)
  then show ?thesis using assms by (simp add: check_notice_def integer_field_show assert_same result_simps Let_def)
qed

subsection \<open>Local variables\<close>

text \<open>A view of the local variables that a script does not change.\<close>

definition same_view :: "('l \<Rightarrow> 'v) \<Rightarrow> 'w \<times> 'l \<Rightarrow> 'w \<times> 'l \<Rightarrow> bool" where
  "same_view f u v = (f (snd v) = f (snd u))"

interpretation view: kept "same_view f" for f
  by unfold_locales (auto simp: same_view_def)

lemma view_basics: "preserves (same_view f) (outer m)" "preserves (same_view f) get_local"
  by (auto simp: preserves_def same_view_def outer_def get_local_def get_state_def split: prod.splits)

lemma view_ticks: "preserves (same_view f) (progress_ticks c name entries)"
  unfolding progress_ticks_def by (intro view.preserves_intros view_basics)

lemma ticks_ok: "progress_ticks c name entries (w, l) = (Inr u, w', l') \<Longrightarrow> l' = l"
  using preservesD [OF view_ticks [of "\<lambda>l. l"]] by (fastforce simp: same_view_def)

lemma modify_local_ok [script_ok]: "modify_local f (w, l) = (Inr u, w', l') \<longleftrightarrow> w' = w \<and> l' = f l"
  by (auto simp: modify_local_def script_ok)

lemma performance_log: "performance c w = (Inr t, w') \<Longrightarrow> lv_log w' = lv_log w"
  by (auto simp: performance_def script_ok)

lemma ask_log: "ask m w = (Inr x, w') \<Longrightarrow> lv_log w' = lv_log w"
  by (auto simp: script_ok)

subsection \<open>Notices\<close>

lemma publisher_report:
  assumes "run_notice_publisher c opts w = (Inr (), w')"
  shows "\<exists>ls ms. lv_log w' = lv_log w @ ls @ [(''notice_publisher_complete'', [(''workerId'', JStr (lo_workerId opts)),
       (''route'', JStr (notice_route (lo_namespace opts) (lo_workerId opts))), (''published'', jnat (live_count opts)), (''elapsedMs'', jint ms)])] \<and>
     named [''notice_publisher_progress''] ls"
proof -
  let ?r = "notice_route (lo_namespace opts) (lo_workerId opts)"
  from assms obtain t v0 k v1 ms v2 where run: "performance c w = (Inr t, v0)"
    "with_local 0 (run_then (live_lanes c (live_count opts) (publish_notice c opts ?r)) (\<lambda>_. get_local)) v0 = (Inr k, v1)"
    "elapsed_time c t v1 = (Inr ms, v2)"
    "log_event ''notice_publisher_complete''
        [(''workerId'', JStr (lo_workerId opts)), (''route'', JStr ?r), (''published'', jnat k), (''elapsedMs'', jint ms)] v2 = (Inr (), w')"
    unfolding run_notice_publisher_def Let_def by (elim run_thenE) simp
  have "preserves (grown [''notice_publisher_progress'']) (live_lanes c (live_count opts) (publish_notice c opts ?r))"
    unfolding publish_notice_def by (intro grown_intros) simp
  from with_local_grown [OF run(2) this] obtain ls v where
    lanes: "live_lanes c (live_count opts) (publish_notice c opts ?r) (v0, 0) = (Inr (), v, k)"
    and ls: "lv_log v1 = lv_log v0 @ ls" "named [''notice_publisher_progress''] ls" by blast
  have "(\<lambda>j l. l = j) (live_count opts) k"
    by (rule lanes_count [OF lanes]) (auto simp: publish_notice_def script_ok dest!: ticks_ok)
  then show ?thesis using run ls performance_log [OF run(1)] elapsed_ok [OF run(3)] by (auto simp: log_event_ok)
qed

text \<open>The pairs that a subscriber has seen: distinct and in range.\<close>

definition expected_notices :: "live_options \<Rightarrow> int \<Rightarrow> (nat \<times> nat) set" where
  "expected_notices opts publishers = {..<nat publishers} \<times> {..<live_count opts}"

definition notices_in_range :: "live_options \<Rightarrow> int \<Rightarrow> notice_state \<Rightarrow> bool" where
  "notices_in_range opts publishers st = (distinct (ns_seen st) \<and> set (ns_seen st) \<subseteq> expected_notices opts publishers)"

lemma check_notice_range: "check_notice opts publishers route body = Inr key \<Longrightarrow> key \<in> expected_notices opts publishers"
  by (auto simp: check_notice_def result_simps Let_def expected_notices_def live_count_def)

lemma notice_finished_range:
  "notices_in_range opts publishers st \<Longrightarrow> notices_in_range opts publishers (notice_finished opts publishers m st)"
  using check_notice_range [of opts publishers "fst m" "snd m"]
  by (auto simp: notice_finished_def notices_in_range_def Let_def split: sum.splits)

lemma notice_delivery_range:
  "notices_in_range opts publishers st \<Longrightarrow> notices_in_range opts publishers (notice_delivery opts publishers subscription d st)"
  by (auto simp: notice_delivery_def notice_started_def split: delivery.splits list.splits intro!: notice_finished_range)
    (auto simp: notices_in_range_def)

lemma await_notices_range:
  assumes "await_notices n c opts publishers subscription expected s = (Inr st, s')"
  shows "notices_in_range opts publishers st"
proof -
  let ?turn = "\<lambda>t. if ns_seen t \<noteq> [] \<and> int (length (ns_seen t)) = expected then ret (Inr t)
       else run_then (next_delivery c) (\<lambda>d.
         if d = Aborted then throw_reason c else ret (Inl (notice_delivery opts publishers subscription d t)))"
  have turn: "notices_in_range opts publishers t'" if "notices_in_range opts publishers t" "?turn t v = (Inr (Inl t'), v')" for t t' v v'
    using that by (auto simp: script_ok throw_reason_def intro: notice_delivery_range split: if_splits)
  have "notices_in_range opts publishers no_notices" by (simp add: notices_in_range_def no_notices_def)
  then have "\<exists>t v. notices_in_range opts publishers t \<and> ?turn t v = (Inr (Inr st), s')"
    by (rule while_do_ok [OF assms [unfolded await_notices_def], where I = "\<lambda>t _. notices_in_range opts publishers t"]) (erule (1) turn)
  then show ?thesis by (auto simp: script_ok throw_reason_def split: if_splits)
qed

lemma settle_notices_range:
  assumes "settle_notices n c opts publishers subscription st s = (Inr st', s')" "notices_in_range opts publishers st"
  shows "notices_in_range opts publishers st'"
proof -
  let ?turn = "\<lambda>t. run_then (next_delivery c) (\<lambda>d. if d = Idle then ret (Inr t) else ret (Inl (notice_delivery opts publishers subscription d t)))"
  obtain u where u: "while_do n ?turn st u = (Inr st', s')" using assms(1) by (auto simp: settle_notices_def script_ok)
  have turn: "notices_in_range opts publishers t'" if "notices_in_range opts publishers t" "?turn t v = (Inr (Inl t'), v')" for t t' v v'
    using that by (auto simp: script_ok intro: notice_delivery_range split: if_splits)
  from assms(2) have "\<exists>t v. notices_in_range opts publishers t \<and> ?turn t v = (Inr (Inr st'), s')"
    by (rule while_do_ok [OF u, where I = "\<lambda>t _. notices_in_range opts publishers t"]) (erule (1) turn)
  then show ?thesis by (auto simp: script_ok split: if_splits)
qed

text \<open>A subscriber that completes has seen every notice of every publisher, once, and nothing else.\<close>

lemma subscriber_report:
  assumes "run_notice_subscriber n c publishers opts w = (Inr (), w')"
  shows "\<exists>d seen most ms. lv_log w' = lv_log w @ [(''notice_subscriber_ready'', d), (''notice_subscriber_complete'',
       [(''workerId'', JStr (lo_workerId opts)), (''received'', jnat (length seen)), (''expected'', jint (publishers * lo_operations opts)),
        (''duplicates'', jnat 0), (''invalid'', jnat 0), (''maxActiveHandlers'', jnat most), (''elapsedMs'', jint ms)])] \<and>
     distinct seen \<and> int (length seen) = publishers * lo_operations opts \<and> set seen \<subseteq> expected_notices opts publishers"
proof -
  let ?p = "''notice://destroyer/'' @ lo_namespace opts @ ''/*''" and ?x = "publishers * lo_operations opts"
  let ?d = "[(''workerId'', JStr (lo_workerId opts)), (''pattern'', JStr ?p), (''expected'', jint ?x)]"
  from assms obtain t v0 h v1 v2 st v3 v4 ms v5 where run: "performance c w = (Inr t, v0)" "ask (fz_subscribe c Notice ?p) v0 = (Inr h, v1)"
    "log_event ''notice_subscriber_ready'' ?d v1 = (Inr (), v2)"
    "ask (finally_do (run_then (await_notices n c opts publishers h ?x) (settle_notices n c opts publishers h)) (ignore_failure (fz_unsubscribe c h))) v2 = (Inr st, v3)"
    "int (length (ns_seen st)) = ?x" "ns_duplicates st = 0" "ns_invalid st = 0" "v4 = v3" "elapsed_time c t v4 = (Inr ms, v5)"
    "log_event ''notice_subscriber_complete'' [(''workerId'', JStr (lo_workerId opts)), (''received'', jnat (length (ns_seen st))), (''expected'', jint ?x),
         (''duplicates'', jnat (ns_duplicates st)), (''invalid'', jnat (ns_invalid st)), (''maxActiveHandlers'', jnat (ns_maxActive st)),
         (''elapsedMs'', jint ms)] v5 = (Inr (), w')"
    unfolding run_notice_subscriber_def Let_def by (elim run_thenE) (simp add: require_ok)
  have "notices_in_range opts publishers st"
    using run(4) by (auto simp: script_ok dest!: await_notices_range settle_notices_range)
  then show ?thesis
    using run performance_log [OF run(1)] ask_log [OF run(2)] ask_log [OF run(4)] elapsed_ok [OF run(9)]
    by (intro exI [of _ ?d] exI [of _ "ns_seen st"] exI [of _ "ns_maxActive st"] exI [of _ ms]) (auto simp: log_event_ok notices_in_range_def)
qed

lemma subscriber_saw_all:
  assumes "distinct seen" "int (length seen) = publishers * lo_operations opts" "set seen \<subseteq> expected_notices opts publishers"
    "0 < publishers" "0 < lo_operations opts"
  shows "set seen = expected_notices opts publishers"
proof (rule card_subset_eq)
  have "card (expected_notices opts publishers) = nat publishers * nat (lo_operations opts)"
    by (simp add: expected_notices_def live_count_def)
  also have "\<dots> = length seen" using assms(2,4,5) by (simp add: nat_mult_distrib [symmetric])
  finally show "card (set seen) = card (expected_notices opts publishers)" using distinct_card [OF assms(1)] by simp
qed (use assms(3) in \<open>auto simp: expected_notices_def\<close>)

lemma subscriber_count:
  assumes "distinct seen" "int (length seen) = publishers * lo_operations opts" "set seen \<subseteq> expected_notices opts publishers"
  shows "length seen = card (expected_notices opts publishers)"
proof (cases "0 < publishers \<and> 0 < lo_operations opts")
  case True
  then show ?thesis using subscriber_saw_all [OF assms] distinct_card [OF assms(1)] by simp
next
  case False
  then have "expected_notices opts publishers = {}" by (auto simp: expected_notices_def live_count_def)
  then show ?thesis using assms(3) by simp
qed

subsection \<open>Callers\<close>

definition calls_answered :: "nat \<Rightarrow> caller_counts \<Rightarrow> bool" where
  "calls_answered k l = (cc_completed l = k \<and> cc_frames l = 2 * k \<and> map_total (cc_workers l) = k)"

lemma caller_call_counts:
  assumes "rpc_caller_call n c opts sequence (w, l) = (Inr (), w', l')" "calls_answered k l"
  shows "calls_answered (Suc k) l'"
proof -
  let ?I = "\<lambda>(selected :: string option, frames) (u :: 'a live_world, m). cc_completed m = k \<and> cc_workers m = cc_workers l \<and> cc_frames m = 2 * k + frames"
  from assms(1) obtain request u0 call u1 r u2 where run:
    "of_checked (tagged_payload ''q'' [lo_workerId opts, show_nat sequence] (lo_payloadBytes opts)) (w, l) = (Inr request, u0)"
    "outer (ask (rc_call (fz_rpc c) (rpc_route (lo_namespace opts)) request (lo_requestTimeoutMs opts))) u0 = (Inr call, u1)"
    "for_await n (run_then (outer (ask (rc_next (fz_rpc c) call))) (\<lambda>r.
          run_then (progress_ticks c ''rpc_caller_progress'' (caller_progress opts)) (\<lambda>_. ret r)))
         (outer (ask (rc_end (fz_rpc c) call))) (take_rpc_response opts sequence) (None, 0) u1 = (Inr r, u2)"
    "(case r of Inr u \<Rightarrow> ret () | Inl (selected, frames) \<Rightarrow>
         (case selected of
            Some w \<Rightarrow>
              run_then (require (frames = 2) ''RPC call $/$ returned $ frames'' [AStr (lo_workerId opts), ANat sequence, ANat frames]) (\<lambda>_.
              modify_local (\<lambda>k. k\<lparr>cc_workers := map_bump (cc_workers k) w 1, cc_completed := cc_completed k + 1\<rparr>))
          | None \<Rightarrow> fail_with ''RPC call $/$ returned $ frames'' [AStr (lo_workerId opts), ANat sequence, ANat frames])) u2 = (Inr (), w', l')"
    unfolding rpc_caller_call_def by (elim run_thenE) simp
  have "\<exists>t. r = Inl t \<and> ?I t u2"
  proof (rule for_await_inv [OF _ _ run(3)])
    show "?I (None, 0) u1" using run(1,2) assms(2) by (cases u0; cases u1) (auto simp: calls_answered_def script_ok)
  next
    fix s u x v assume "?I s u" "run_then (outer (ask (rc_next (fz_rpc c) call))) (\<lambda>r.
          run_then (progress_ticks c ''rpc_caller_progress'' (caller_progress opts)) (\<lambda>_. ret r)) u = (Inr x, v)"
    then show "?I s v" by (cases u; cases v) (auto simp: script_ok dest!: ticks_ok)
  next
    fix x s u q v assume "?I s u" "take_rpc_response opts sequence x s u = (Inr q, v)"
    then show "\<exists>t. q = Inl t \<and> ?I t v"
      by (cases u; cases v) (auto simp: take_rpc_response_def script_ok split: prod.splits)
  qed
  then obtain selected frames where "r = Inl (selected, frames)" "?I (selected, frames) u2" by auto
  then show ?thesis
    using run(4) assms(2) by (cases u2; cases selected) (auto simp: script_ok calls_answered_def)
qed

lemma caller_report:
  assumes "run_rpc_caller n c opts w = (Inr (), w')"
  shows "\<exists>ls m ms. lv_log w' = lv_log w @ ls @ [(''rpc_caller_complete'', [(''workerId'', JStr (lo_workerId opts)),
       (''completed'', jnat (live_count opts)), (''responseFrames'', jnat (2 * live_count opts)), (''workerCounts'', sorted_counts m), (''elapsedMs'', jint ms)])] \<and>
     named [''rpc_caller_progress''] ls \<and> map_total m = live_count opts"
proof -
  from assms obtain t v0 k v1 ms v2 where run: "performance c w = (Inr t, v0)"
    "with_local \<lparr>cc_workers = [], cc_completed = 0, cc_frames = 0\<rparr> (run_then (live_lanes c (live_count opts) (rpc_caller_call n c opts)) (\<lambda>_. get_local)) v0 = (Inr k, v1)"
    "elapsed_time c t v1 = (Inr ms, v2)"
    "log_event ''rpc_caller_complete''
       [(''workerId'', JStr (lo_workerId opts)), (''completed'', jnat (cc_completed k)), (''responseFrames'', jnat (cc_frames k)),
        (''workerCounts'', sorted_counts (cc_workers k)), (''elapsedMs'', jint ms)] v2 = (Inr (), w')"
    unfolding run_rpc_caller_def by (elim run_thenE) simp
  have "preserves (grown [''rpc_caller_progress'']) (live_lanes c (live_count opts) (rpc_caller_call n c opts))"
    unfolding rpc_caller_call_def take_rpc_response_def by (intro grown_intros) simp
  from with_local_grown [OF run(2) this] obtain ls v where
    lanes: "live_lanes c (live_count opts) (rpc_caller_call n c opts) (v0, \<lparr>cc_workers = [], cc_completed = 0, cc_frames = 0\<rparr>) = (Inr (), v, k)"
    and ls: "lv_log v1 = lv_log v0 @ ls" "named [''rpc_caller_progress''] ls" by blast
  have "calls_answered (live_count opts) k"
    by (rule lanes_count [OF lanes]) (auto simp: calls_answered_def [of 0] map_total_def intro: caller_call_counts)
  then show ?thesis using run ls performance_log [OF run(1)] elapsed_ok [OF run(3)]
    by (intro exI [of _ ls] exI [of _ "cc_workers k"] exI [of _ ms]) (auto simp: log_event_ok calls_answered_def)
qed

text \<open>
  Inside a call of the streamed RPC, whatever happens: frames and bytes are counted together, nothing
  is completed or interrupted, and the call is cancelled only after the planned number of frames.
\<close>

definition frames_counted :: "stream_plan \<Rightarrow> 'w \<times> stream_counts \<Rightarrow> 'w \<times> stream_counts \<Rightarrow> bool" where
  "frames_counted plan u v =
     (sk_completed (snd v) = sk_completed (snd u) \<and> sk_interrupted (snd v) = sk_interrupted (snd u) \<and>
      sk_callFrames (snd u) \<le> sk_callFrames (snd v) \<and>
      sk_frames (snd v) + sk_callFrames (snd u) = sk_frames (snd u) + sk_callFrames (snd v) \<and>
      sk_bytes (snd v) + nat (sl_frameBytes plan) * sk_callFrames (snd u) = sk_bytes (snd u) + nat (sl_frameBytes plan) * sk_callFrames (snd v) \<and>
      (sk_cancelled (snd v) \<longrightarrow> sk_cancelled (snd u) \<or> sl_cancelAfter plan \<le> int (sk_callFrames (snd v))))"

interpretation frames: kept "frames_counted plan" for plan
proof
  fix u v w :: "'w \<times> stream_counts"
  assume "frames_counted plan u v" "frames_counted plan v w"
  then show "frames_counted plan u w" by (auto simp: frames_counted_def)
qed (simp add: frames_counted_def)

lemma frames_basics: "preserves (frames_counted plan) (outer m)" "preserves (frames_counted plan) get_local"
  by (auto simp: preserves_def frames_counted_def outer_def get_local_def get_state_def split: prod.splits)

lemma frames_ticks: "preserves (frames_counted plan) (progress_ticks c name entries)"
  unfolding progress_ticks_def by (intro frames.preserves_intros frames_basics)

lemma frame_length: "rpc_stream_frame_payload w caller call frame len = Inr b \<Longrightarrow> length b = nat len"
  by (auto simp: rpc_stream_frame_payload_def Let_def result_simps dest!: tagged_payload_length)

lemma check_stream_length: "check_stream_response opts plan call selected frames r = Inr w \<Longrightarrow> length (rr_body r) = nat (sl_frameBytes plan)"
  by (auto simp: check_stream_response_def result_simps assert_payload_ok dest!: frame_length)

lemma local_steps:
  "run_then get_local k (w, l) = k l (w, l)" "run_then (set_local l') k' (w, l) = k' () (w, l')"
  "run_then (of_checked (Inr x)) k'' u = k'' x u" "run_then (of_checked (Inl e)) k'' u = (Inl (Raised e), u)"
  by (simp_all add: run_then_def get_local_def get_state_def set_local_def modify_def of_checked_def ret_def fail_def)

lemma local_after:
  "snd (snd (run_then (when_do b (run_then (set_local l') (\<lambda>_. outer m))) (\<lambda>_. run_then (when_do b' (outer m')) (\<lambda>_. ret x)) (w, l))) = (if b then l' else l)"
  by (auto simp: run_then_def when_do_def outer_def set_local_def modify_def ret_def split: prod.splits sum.splits)

lemma take_stream_local:
  "snd (snd (take_stream_response c opts plan call h r u (w, l))) =
     (case check_stream_response opts plan call (sk_selected l) (sk_callFrames l) r of
        Inl e \<Rightarrow> l
      | Inr sender \<Rightarrow> (let l' = frame_counted sender (length (rr_body r)) l in
          if sl_outcome plan = ExpectCancel \<and> int (sk_callFrames l') = sl_cancelAfter plan then l'\<lparr>sk_cancelled := True\<rparr> else l'))"
  by (cases "check_stream_response opts plan call (sk_selected l) (sk_callFrames l) r")
    (simp_all add: take_stream_response_def Let_def local_steps local_after)

lemma frames_take: "preserves (frames_counted plan) (take_stream_response c opts plan call h r u)"
  unfolding preserves_def
proof
  fix v :: "'a live_world \<times> stream_counts"
  obtain w l where v: "v = (w, l)" by (cases v)
  have "frames_counted plan (w, l) (w', snd (snd (take_stream_response c opts plan call h r u (w, l))))" for w' :: "'a live_world"
    unfolding take_stream_local
    by (auto simp: frames_counted_def frame_counted_def Let_def dest!: check_stream_length split: sum.splits)
  then have "frames_counted plan (w, l) (fst (snd (take_stream_response c opts plan call h r u (w, l))), snd (snd (take_stream_response c opts plan call h r u (w, l))))"
    by blast
  then show "frames_counted plan v (snd (take_stream_response c opts plan call h r u v))" by (simp add: v)
qed

definition stream_settled :: "stream_plan \<Rightarrow> nat \<Rightarrow> stream_counts \<Rightarrow> bool" where
  "stream_settled plan k l =
     (sk_bytes l = nat (sl_frameBytes plan) * sk_frames l \<and>
      (if sl_outcome plan = ExpectComplete
       then sk_completed l = k \<and> sk_interrupted l = 0 \<and> sk_frames l = nat (sl_frames plan) * k
       else sk_completed l = 0 \<and> sk_interrupted l = k \<and> (sl_outcome plan = ExpectCancel \<and> 0 < k \<longrightarrow> sl_cancelAfter plan \<le> int (sk_frames l))))"

lemma stream_call_settles:
  assumes "stream_caller_call n c opts plan call (w, l) = (Inr (), w', l')" "stream_settled plan k l"
  shows "stream_settled plan (Suc k) l'"
proof -
  let ?l = "l\<lparr>sk_selected := None, sk_callFrames := 0, sk_cancelled := False\<rparr>"
  let ?loop = "\<lambda>h. for_await n (run_then (outer (ask (rc_next (fz_rpc c) h))) (\<lambda>r.
          run_then (progress_ticks c ''rpc_stream_caller_progress'' (stream_caller_progress opts)) (\<lambda>_. ret r)))
         (outer (ask (rc_end (fz_rpc c) h))) (take_stream_response c opts plan call h) ()"
  have loop: "preserves (frames_counted plan) (?loop h)" for h
    by (intro frames.preserves_intros frames_basics frames_ticks frames_take)
  from assms(1) consider (ok) "stream_call n c opts plan call (w, ?l) = (Inr (), w', l')"
    | (thrown) e v m where "stream_call n c opts plan call (w, ?l) = (Inl e, v, m)" "stream_fault opts plan call e (v, m) = (Inr (), w', l')"
    by (auto simp: stream_caller_call_def script_ok)
  then show ?thesis
  proof cases
    case ok
    then show ?thesis using assms(2)
      by (auto simp: stream_call_def script_ok stream_settled_def frames_counted_def add_mult_distrib2 dest!: preservesD [OF loop])
  next
    case (thrown e v m)
    have "frames_counted plan (w, ?l) (v, m)"
      using thrown(1) by (auto simp: stream_call_def script_ok script_err frames_counted_def dest!: preservesD [OF loop])
    then show ?thesis using assms(2) thrown(2)
      by (auto simp: stream_fault_def script_ok stream_settled_def frames_counted_def add_mult_distrib2 split: if_splits)
  qed
qed

lemma stream_caller_report:
  assumes "run_rpc_stream_caller n c plan opts w = (Inr (), w')"
  shows "\<exists>ls k ms. lv_log w' = lv_log w @ ls @ [(''rpc_stream_caller_complete'',
       [(''workerId'', JStr (lo_workerId opts)), (''expectedOutcome'', JStr (stream_outcome_name (sl_outcome plan))),
        (''completed'', jnat (sk_completed k)), (''interrupted'', jnat (sk_interrupted k)), (''responseFrames'', jnat (sk_frames k)),
        (''responseBytes'', jnat (sk_bytes k)), (''elapsedMs'', jint ms)])] \<and>
     named [''rpc_stream_caller_progress'', ''rpc_stream_fault_observed''] ls \<and> stream_settled plan (live_count opts) k"
proof -
  let ?lanes = "live_lanes c (live_count opts) (stream_caller_call n c opts plan)"
  let ?names = "[''rpc_stream_caller_progress'', ''rpc_stream_fault_observed'']"
  from assms obtain u1 t v0 k v1 ms v2 where run: "require (sl_outcome plan = ExpectComplete \<or> lo_operations opts = 1) ''RPC stream fault callers must make exactly one call'' [] w = (Inr (), u1)"
    "performance c u1 = (Inr t, v0)"
    "with_local no_stream_calls (run_then ?lanes (\<lambda>_. get_local)) v0 = (Inr k, v1)"
    "elapsed_time c t v1 = (Inr ms, v2)"
    "log_event ''rpc_stream_caller_complete''
       [(''workerId'', JStr (lo_workerId opts)), (''expectedOutcome'', JStr (stream_outcome_name (sl_outcome plan))),
        (''completed'', jnat (sk_completed k)), (''interrupted'', jnat (sk_interrupted k)), (''responseFrames'', jnat (sk_frames k)),
        (''responseBytes'', jnat (sk_bytes k)), (''elapsedMs'', jint ms)] v2 = (Inr (), w')"
    unfolding run_rpc_stream_caller_def by (elim run_thenE) (simp add: require_ok)
  have "preserves (grown ?names) ?lanes"
    unfolding stream_caller_call_def stream_call_def stream_fault_def take_stream_response_def Let_def by (intro grown_intros) simp_all
  from with_local_grown [OF run(3) this] obtain ls v where
    lanes: "?lanes (v0, no_stream_calls) = (Inr (), v, k)" and ls: "lv_log v1 = lv_log v0 @ ls" "named ?names ls" by blast
  have "stream_settled plan (live_count opts) k"
    by (rule lanes_count [OF lanes]) (auto simp: stream_settled_def [of _ 0] no_stream_calls_def intro: stream_call_settles)
  then show ?thesis using run ls performance_log [OF run(2)] elapsed_ok [OF run(4)]
    by (intro exI [of _ ls] exI [of _ k] exI [of _ ms]) (auto simp: log_event_ok require_ok)
qed

end
