(* ===== verification/LiveEvidence.thy ===== *)
theory LiveEvidence
  imports LiveProofs WorkloadEvidence RpcScenarios
begin

text \<open>
  The live workloads and the live scenarios together: what the callers, publishers and
  subscribers log when they return is what src/orchestration expects to read from their containers.
\<close>

subsection \<open>Reports\<close>

text \<open>Whenever the workload returns, what it has logged satisfies \<^verbatim>\<open>P\<close>.\<close>

definition returns_with :: "('o, unit) workload \<Rightarrow> ((string \<times> (string \<times> json) list) list \<Rightarrow> bool) \<Rightarrow> bool" where
  "returns_with m P = (\<forall>w w'. m w = (Inr (), w') \<longrightarrow> (\<exists>ls. lv_log w' = lv_log w @ ls \<and> P ls))"

lemma returns_withI: "(\<And>w w'. m w = (Inr (), w') \<Longrightarrow> \<exists>ls. lv_log w' = lv_log w @ ls \<and> P ls) \<Longrightarrow> returns_with m P"
  by (simp add: returns_with_def)

text \<open>Progress, and at the end one event with the given numbers.\<close>

definition final_numbers :: "string list \<Rightarrow> string \<Rightarrow> (string \<times> nat) list \<Rightarrow> (string \<times> (string \<times> json) list) list \<Rightarrow> bool" where
  "final_numbers names name numbers ls =
     (\<exists>before es. ls = before @ [(name, es)] \<and> named names before \<and> list_all (\<lambda>(k, n). map_get es k = Some (jnat n)) numbers)"

definition subscriber_log :: "int \<Rightarrow> live_options \<Rightarrow> (string \<times> (string \<times> json) list) list \<Rightarrow> bool" where
  "subscriber_log publishers opts ls =
     (final_numbers [''notice_subscriber_ready''] ''notice_subscriber_complete''
        [(''received'', card (expected_notices opts publishers)), (''duplicates'', 0), (''invalid'', 0)] ls)"

definition drainer_log :: "live_options \<Rightarrow> (string \<times> (string \<times> json) list) list \<Rightarrow> bool" where
  "drainer_log opts ls =
     (\<exists>before es sequences. ls = before @ [(''queue_drainer_complete'', es)] \<and> progress_only ''queue_drainer_progress'' before \<and>
        map_get es ''sequences'' = Some (JArr (map jnat sequences)) \<and> sorted_wrt (<) sequences \<and> list_all (\<lambda>k. k < live_count opts) sequences)"

definition overload_log :: "live_options \<Rightarrow> (string \<times> (string \<times> json) list) list \<Rightarrow> bool" where
  "overload_log opts ls =
     (\<exists>before es acknowledged failed. ls = before @ [(''queue_overload_producer_complete'', es)] \<and>
        named [''queue_overload_dispatched'', ''queue_overload_failure_observed''] before \<and>
        map_get es ''acknowledged'' = Some (JArr (map jnat acknowledged)) \<and> map_get es ''failed'' = Some (JArr (map jnat failed)) \<and>
        mset acknowledged + mset failed = mset [0..<live_count opts])"


subsection \<open>Streamed RPC\<close>

definition plan_of_shape :: "stream_shape \<Rightarrow> stream_plan" where
  "plan_of_shape s =
     \<lparr>sl_frames = int (ss_framesPerCall s), sl_frameBytes = int (ss_frameBytes s), sl_readerDelayMs = int (ss_readerDelayMs s),
      sl_outcome = ExpectComplete, sl_cancelAfter = 1\<rparr>"

text \<open>A caller that returned, and a container log with its events.\<close>

definition finished_caller :: "nat \<Rightarrow> 'o fitz_client \<Rightarrow> stream_shape \<Rightarrow> live_options \<Rightarrow> 'o \<Rightarrow> string \<Rightarrow> bool" where
  "finished_caller n c s opts start contents =
     (case run_rpc_stream_caller n c (plan_of_shape s) opts \<lparr>lv_log = [], lv_outside = start\<rparr> of (r, w) \<Rightarrow>
        r = Inr () \<and> lo_operations opts = int (ss_callsPerCaller s) \<and> carries [''rpc_stream_caller_complete''] (lv_log w) contents)"

lemma named_other: "named names ls \<Longrightarrow> name \<notin> set names \<Longrightarrow> filter (\<lambda>e. fst e = name) ls = []"
  by (induction ls) (auto simp: named_def)

text \<open>The final event of a run, read back from the log of its container.\<close>

lemma final_event:
  assumes "carries [name] (ls @ [(name, es)]) contents" "named names ls" "name \<notin> set names"
  shows "\<exists>t. required_event contents name = Inr (event_json t (name, es))"
  by (rule carried_event [OF assms(1), where es = "[]"]) (simp_all add: named_other [OF assms(2,3)])

lemma finished_caller_event:
  assumes "finished_caller n c s opts start contents"
    "int (ss_callsPerCaller s * ss_framesPerCall s * ss_frameBytes s) \<le> max_safe_integer"
    "int (ss_callsPerCaller s * ss_framesPerCall s) \<le> max_safe_integer" "int (ss_callsPerCaller s) \<le> max_safe_integer"
  shows "\<exists>r. required_event contents ''rpc_stream_caller_complete'' = Inr r \<and> numeric_field r ''completed'' = Inr (ss_callsPerCaller s) \<and>
     numeric_field r ''interrupted'' = Inr 0 \<and> numeric_field r ''responseFrames'' = Inr (ss_callsPerCaller s * ss_framesPerCall s) \<and>
     numeric_field r ''responseBytes'' = Inr (ss_callsPerCaller s * ss_framesPerCall s * ss_frameBytes s)"
proof -
  obtain w where run: "run_rpc_stream_caller n c (plan_of_shape s) opts \<lparr>lv_log = [], lv_outside = start\<rparr> = (Inr (), w)"
    and operations: "lo_operations opts = int (ss_callsPerCaller s)" and log: "carries [''rpc_stream_caller_complete''] (lv_log w) contents"
    using assms(1) by (auto simp: finished_caller_def split: prod.splits)
  from stream_caller_report [OF run] obtain ls k ms where report: "lv_log w = ls @ [(''rpc_stream_caller_complete'',
       [(''workerId'', JStr (lo_workerId opts)), (''expectedOutcome'', JStr (stream_outcome_name (sl_outcome (plan_of_shape s)))),
        (''completed'', jnat (sk_completed k)), (''interrupted'', jnat (sk_interrupted k)), (''responseFrames'', jnat (sk_frames k)),
        (''responseBytes'', jnat (sk_bytes k)), (''elapsedMs'', jint ms)])]"
    "named [''rpc_stream_caller_progress'', ''rpc_stream_fault_observed''] ls" "stream_settled (plan_of_shape s) (live_count opts) k"
    by auto
  have counts: "sk_completed k = ss_callsPerCaller s" "sk_interrupted k = 0" "sk_frames k = ss_callsPerCaller s * ss_framesPerCall s"
    "sk_bytes k = ss_callsPerCaller s * ss_framesPerCall s * ss_frameBytes s"
    using report(3) operations by (auto simp: stream_settled_def plan_of_shape_def live_count_def)
  from final_event [OF log [unfolded report(1)] report(2)] obtain t where
    "required_event contents ''rpc_stream_caller_complete'' = Inr (event_json t (''rpc_stream_caller_complete'',
       [(''workerId'', JStr (lo_workerId opts)), (''expectedOutcome'', JStr (stream_outcome_name (sl_outcome (plan_of_shape s)))),
        (''completed'', jnat (sk_completed k)), (''interrupted'', jnat (sk_interrupted k)), (''responseFrames'', jnat (sk_frames k)),
        (''responseBytes'', jnat (sk_bytes k)), (''elapsedMs'', jint ms)]))" by auto
  then show ?thesis using assms(2-4) by (simp add: numeric_field_def counts)
qed

lemma sum_completion_step:
  assumes "list_all (\<lambda>(_, l). \<exists>r. required_event l name = Inr r \<and> numeric_field r ''completed'' = Inr a \<and>
     numeric_field r ''interrupted'' = Inr b \<and> numeric_field r ''responseFrames'' = Inr f \<and> numeric_field r ''responseBytes'' = Inr g) logs"
  shows "sum_completion_logs logs name = Inr \<lparr>ct_completed = length logs * a, ct_interrupted = length logs * b,
     ct_responseFrames = length logs * f, ct_responseBytes = length logs * g\<rparr>"
proof -
  let ?step = "\<lambda>t (_, l).
       try_in (required_event l name) (\<lambda>r.
       try_in (numeric_field r ''completed'') (\<lambda>completed.
       try_in (numeric_field r ''interrupted'') (\<lambda>interrupted.
       try_in (numeric_field r ''responseFrames'') (\<lambda>frames.
       try_in (numeric_field r ''responseBytes'') (\<lambda>bytes.
       Inr \<lparr>ct_completed = ct_completed t + completed, ct_interrupted = ct_interrupted t + interrupted,
         ct_responseFrames = ct_responseFrames t + frames, ct_responseBytes = ct_responseBytes t + bytes\<rparr>)))))"
  have "fold_result ?step t logs = Inr \<lparr>ct_completed = ct_completed t + length logs * a, ct_interrupted = ct_interrupted t + length logs * b,
     ct_responseFrames = ct_responseFrames t + length logs * f, ct_responseBytes = ct_responseBytes t + length logs * g\<rparr>" for t
    using assms by (induction logs arbitrary: t) (auto simp: result_simps add.assoc [symmetric])
  then show ?thesis by (simp add: sum_completion_logs_def)
qed

text \<open>
  C37.  Streamed RPC: when every caller of a phase has returned and its container log carries its events,
  the totals that the orchestration sums from the logs are exactly the expected calls, frames and bytes,
  with no interruption, whatever the broker answered.
\<close>

theorem stream_callers_meet_expectation:
  assumes "list_all (\<lambda>(opts, start, _, contents). finished_caller n c s opts start contents) callers" "length callers = ss_callers s"
    "stream_expectation label s = Inr (expected_calls, expected_frames, expected_bytes)"
  shows "sum_completion_logs (map (\<lambda>(_, _, l). l) callers) ''rpc_stream_caller_complete'' =
     Inr \<lparr>ct_completed = expected_calls, ct_interrupted = 0, ct_responseFrames = expected_frames, ct_responseBytes = expected_bytes\<rparr>"
proof -
  have expected: "expected_calls = ss_callers s * ss_callsPerCaller s" "expected_frames = expected_calls * ss_framesPerCall s"
    "expected_bytes = expected_frames * ss_frameBytes s" and
    safe: "int expected_calls \<le> max_safe_integer" "int expected_frames \<le> max_safe_integer" "int expected_bytes \<le> max_safe_integer"
    using assms(3) by (auto simp: stream_expectation_def stream_product_def result_simps Let_def split: if_splits)
  have less: "int k \<le> max_safe_integer" if "int (ss_callers s * k) \<le> max_safe_integer" "0 < ss_callers s" for k
  proof -
    have "k \<le> ss_callers s * k" using that(2) by (cases "ss_callers s") auto
    then show ?thesis using that(1) by linarith
  qed
  have "list_all (\<lambda>(_, l). \<exists>r. required_event l ''rpc_stream_caller_complete'' = Inr r \<and> numeric_field r ''completed'' = Inr (ss_callsPerCaller s) \<and>
     numeric_field r ''interrupted'' = Inr 0 \<and> numeric_field r ''responseFrames'' = Inr (ss_callsPerCaller s * ss_framesPerCall s) \<and>
     numeric_field r ''responseBytes'' = Inr (ss_callsPerCaller s * ss_framesPerCall s * ss_frameBytes s)) (map (\<lambda>(_, _, l). l) callers)"
    unfolding list_all_iff
  proof
    fix x assume "x \<in> set (map (\<lambda>(_, _, l). l) callers)"
    then obtain opts start name l where x: "x = (name, l)" and l: "(opts, start, name, l) \<in> set callers" by auto
    then have run: "finished_caller n c s opts start l" and one: "0 < ss_callers s"
      using assms(1,2) length_pos_if_in_set [OF l] by (auto simp: list_all_iff)
    have bounds: "int (ss_callsPerCaller s) \<le> max_safe_integer" "int (ss_callsPerCaller s * ss_framesPerCall s) \<le> max_safe_integer"
      "int (ss_callsPerCaller s * ss_framesPerCall s * ss_frameBytes s) \<le> max_safe_integer"
      by (rule less, use safe one in \<open>simp_all only: expected mult.assoc\<close>)+
    show "case x of (_, l) \<Rightarrow> \<exists>r. required_event l ''rpc_stream_caller_complete'' = Inr r \<and> numeric_field r ''completed'' = Inr (ss_callsPerCaller s) \<and>
     numeric_field r ''interrupted'' = Inr 0 \<and> numeric_field r ''responseFrames'' = Inr (ss_callsPerCaller s * ss_framesPerCall s) \<and>
     numeric_field r ''responseBytes'' = Inr (ss_callsPerCaller s * ss_framesPerCall s * ss_frameBytes s)"
      unfolding x prod.case
      by (rule finished_caller_event [OF run bounds(3,2,1)])
  qed
  from sum_completion_step [OF this] show ?thesis
    by (simp add: assms(2) expected mult.assoc)
qed

subsection \<open>A sample call\<close>

definition sample_stream_shape :: stream_shape where
  "sample_stream_shape = \<lparr>ss_namespace = ''run'', ss_callers = 1, ss_callsPerCaller = 1, ss_framesPerCall = 2, ss_frameBytes = 64,
     ss_readerDelayMs = 0, ss_handlerDelayMs = 0\<rparr>"

text \<open>A worker that answers the call with its two frames.\<close>

definition sample_frame :: "nat \<Rightarrow> bytes" where
  "sample_frame k = (case rpc_stream_frame_payload ''w'' 0 0 k 64 of Inr b \<Rightarrow> b | Inl e \<Rightarrow> [])"

definition answering :: "rpc_response list fitz_client" where
  "answering = idle_client\<lparr>fz_rpc :=
     \<lparr>rc_call = (\<lambda>_ _ _ _. (Inr 0, [\<lparr>rr_sequence = 0, rr_body = sample_frame 0\<rparr>, \<lparr>rr_sequence = 1, rr_body = sample_frame 1\<rparr>])),
      rc_next = (\<lambda>_ s. case s of [] \<Rightarrow> (Inr None, s) | x # xs \<Rightarrow> (Inr (Some x), xs)), rc_end = (\<lambda>_. ret ()), rc_abort = (\<lambda>_ _. ret ()),
      rc_register = (\<lambda>_ _. ret 0), rc_respond = (\<lambda>_ _ _. ret ())\<rparr>\<rparr>"

lemma sample_worker: "worker_number (sample_options ''0'') = Some 0" "worker_number_text (sample_options ''0'') = ''0''"
proof -
  have "js_to_number ''0'' = Some 0" by code_simp
  then show number: "worker_number (sample_options ''0'') = Some 0" by (simp add: worker_number_def sample_options_def)
  show "worker_number_text (sample_options ''0'') = ''0''" by (simp add: worker_number_text_def number) code_simp
qed

lemma sample_frames:
  assumes "k = 0 \<or> k = 1"
  shows "rpc_stream_frame_payload ''w'' 0 0 k 64 = Inr (sample_frame k)" and "length (sample_frame k) = 64"
proof -
  have "is_ok (rpc_stream_frame_payload ''w'' 0 0 0 64)" "is_ok (rpc_stream_frame_payload ''w'' 0 0 1 64)" by code_simp+
  then show *: "rpc_stream_frame_payload ''w'' 0 0 k 64 = Inr (sample_frame k)"
    using assms by (auto simp: sample_frame_def is_ok_def split: sum.splits)
  show "length (sample_frame k) = 64" using frame_length [OF *] by simp
qed

lemma sample_response:
  "check_stream_response (sample_options ''0'') (plan_of_shape sample_stream_shape) 0 None 0 \<lparr>rr_sequence = 0, rr_body = sample_frame 0\<rparr> = Inr ''w''"
  "check_stream_response (sample_options ''0'') (plan_of_shape sample_stream_shape) 0 (Some ''w'') (Suc 0) \<lparr>rr_sequence = Suc 0, rr_body = sample_frame (Suc 0)\<rparr> = Inr ''w''"
  using sample_frames [of 0] sample_frames [of 1] sample_worker
  by (auto intro!: stream_frame_accepted simp: plan_of_shape_def sample_stream_shape_def plain_field_def is_ascii_def max_safe_integer_def)

lemma sample_advance:
  "run_then (outer (ask (rc_next (fz_rpc answering) h))) (\<lambda>r. run_then (progress_ticks answering name entries) (\<lambda>_. ret r)) (w, l) =
     (case lv_outside w of [] \<Rightarrow> (Inr None, w, l) | x # xs \<Rightarrow> (Inr (Some x), w\<lparr>lv_outside := xs\<rparr>, l))"
  by (cases "lv_outside w")
    (simp_all add: answering_def idle_client_def run_then_def outer_def ask_def progress_ticks_def reading_def get_local_def get_state_def ret_def)

lemma sample_take:
  "check_stream_response (sample_options ''0'') (plan_of_shape sample_stream_shape) 0 (sk_selected l) (sk_callFrames l) r = Inr sender \<Longrightarrow>
     take_stream_response answering (sample_options ''0'') (plan_of_shape sample_stream_shape) 0 h r u (w, l) =
       (Inr (Inl ()), w, frame_counted sender (length (rr_body r)) l)"
  by (simp add: take_stream_response_def local_steps Let_def plan_of_shape_def sample_stream_shape_def)
    (simp add: when_do_def run_then_def ret_def)

lemma sample_loop:
  "for_await 9 (run_then (outer (ask (rc_next (fz_rpc answering) h))) (\<lambda>r.
       run_then (progress_ticks answering name entries) (\<lambda>_. ret r)))
     (outer (ask (rc_end (fz_rpc answering) h))) (take_stream_response answering (sample_options ''0'') (plan_of_shape sample_stream_shape) 0 h) ()
     (\<lparr>lv_log = [], lv_outside = [\<lparr>rr_sequence = 0, rr_body = sample_frame 0\<rparr>, \<lparr>rr_sequence = 1, rr_body = sample_frame 1\<rparr>]\<rparr>, no_stream_calls) =
     (Inr (Inl ()), \<lparr>lv_log = [], lv_outside = []\<rparr>, no_stream_calls\<lparr>sk_frames := 2, sk_bytes := 128, sk_selected := Some ''w'', sk_callFrames := 2\<rparr>)"
    (is "for_await 9 ?advance ?close ?body () (?world [?r0, ?r1], _) = _")
proof -
  let ?l1 = "frame_counted ''w'' (length (rr_body ?r0)) no_stream_calls"
  let ?l2 = "frame_counted ''w'' (length (rr_body ?r1)) ?l1"
  have sizes: "length (sample_frame 0) = 64" "length (sample_frame (Suc 0)) = 64" using sample_frames [of 0] sample_frames [of 1] by simp_all
  have "for_await (Suc 8) ?advance ?close ?body () (?world [?r0, ?r1], no_stream_calls) = for_await 8 ?advance ?close ?body () (?world [?r1], ?l1)"
  proof (rule for_await_steps(1) [where u' = "(?world [?r1], no_stream_calls)" and x = ?r0])
    show "?body ?r0 () (?world [?r1], no_stream_calls) = (Inr (Inl ()), ?world [?r1], ?l1)"
      by (rule sample_take) (simp add: no_stream_calls_def sample_response)
  qed (simp add: sample_advance)
  also have "\<dots> = for_await (Suc 7) ?advance ?close ?body () (?world [?r1], ?l1)" by simp
  also have "\<dots> = for_await 7 ?advance ?close ?body () (?world [], ?l2)"
  proof (rule for_await_steps(1) [where u' = "(?world [], ?l1)" and x = ?r1])
    show "?body ?r1 () (?world [], ?l1) = (Inr (Inl ()), ?world [], ?l2)"
      by (rule sample_take) (simp add: no_stream_calls_def frame_counted_def sample_response)
  qed (simp add: sample_advance)
  also have "\<dots> = for_await (Suc 6) ?advance ?close ?body () (?world [], ?l2)" by simp
  also have "\<dots> = (Inr (Inl ()), ?world [], ?l2)"
    by (rule for_await_steps(2)) (simp add: sample_advance)
  finally show ?thesis by (simp add: sizes frame_counted_def no_stream_calls_def)
qed

lemma sample_plan [simp]:
  "sl_frames (plan_of_shape sample_stream_shape) = 2" "sl_frameBytes (plan_of_shape sample_stream_shape) = 64" "sl_outcome (plan_of_shape sample_stream_shape) = ExpectComplete"
  by (simp_all add: plan_of_shape_def sample_stream_shape_def)

lemma run_then_returned: "m w = (Inr x, v) \<Longrightarrow> run_then m k w = k x v"
  by (simp add: run_then_def)

lemma sample_call:
  "run_rpc_stream_caller 9 answering (plan_of_shape sample_stream_shape) (sample_options ''0'') \<lparr>lv_log = [], lv_outside = []\<rparr> =
     (Inr (), \<lparr>lv_log = [(''rpc_stream_caller_complete'',
       [(''workerId'', JStr ''0''), (''expectedOutcome'', JStr ''complete''), (''completed'', jnat 1), (''interrupted'', jnat 0),
        (''responseFrames'', jnat 2), (''responseBytes'', jnat 128), (''elapsedMs'', jint 0)])], lv_outside = []\<rparr>)"
proof -
  let ?l = "no_stream_calls\<lparr>sk_completed := 1, sk_frames := 2, sk_bytes := 128, sk_selected := Some ''w'', sk_callFrames := 2\<rparr>"
  have "is_ok (rpc_stream_request_payload ''0'' 0 2 64)" by code_simp
  then obtain request where request: "rpc_stream_request_payload ''0'' 0 2 64 = Inr request" by (auto simp: is_ok_def split: sum.splits)
  have call: "run_then (outer (ask (rc_call (fz_rpc answering) route request t))) k (\<lparr>lv_log = [], lv_outside = []\<rparr>, l) =
      k 0 (\<lparr>lv_log = [], lv_outside = [\<lparr>rr_sequence = 0, rr_body = sample_frame 0\<rparr>, \<lparr>rr_sequence = 1, rr_body = sample_frame 1\<rparr>]\<rparr>, l)" for route t k l
    by (simp add: run_then_def answering_def outer_def ask_def)
  note loop = run_then_returned [where m = "for_await 9 _ _ _ _", OF sample_loop]
  have "stream_call 9 answering (sample_options ''0'') (plan_of_shape sample_stream_shape) 0 (\<lparr>lv_log = [], lv_outside = []\<rparr>, no_stream_calls) =
      (Inr (), \<lparr>lv_log = [], lv_outside = []\<rparr>, ?l)"
    unfolding stream_call_def sample_worker sample_plan request local_steps call loop
    by (simp add: require_def ret_def [of "()"] run_then_def get_local_def get_state_def set_local_def modify_def no_stream_calls_def)
  moreover have "no_stream_calls\<lparr>sk_selected := None, sk_callFrames := 0, sk_cancelled := False\<rparr> = no_stream_calls" by (simp add: no_stream_calls_def)
  ultimately have once: "stream_caller_call 9 answering (sample_options ''0'') (plan_of_shape sample_stream_shape) 0 (\<lparr>lv_log = [], lv_outside = []\<rparr>, no_stream_calls) =
      (Inr (), \<lparr>lv_log = [], lv_outside = []\<rparr>, ?l)"
    by (simp add: stream_caller_call_def modify_local_def catching_def try_catch_def run_then_def get_local_def get_state_def set_local_def modify_def)
  have quiet: "outer (ask (throw_if_aborted answering)) u = (Inr (), u)" for u :: "rpc_response list live_world \<times> stream_counts"
    by (cases u) (simp add: throw_if_aborted_def answering_def idle_client_def outer_def ask_def run_then_def get_state_def ret_def)
  have lanes: "live_lanes answering (live_count (sample_options ''0'')) (stream_caller_call 9 answering (sample_options ''0'') (plan_of_shape sample_stream_shape))
      (\<lparr>lv_log = [], lv_outside = []\<rparr>, no_stream_calls) = (Inr (), \<lparr>lv_log = [], lv_outside = []\<rparr>, ?l)"
    by (simp add: live_lanes_def live_count_def run_then_def quiet once ret_def)
  have clock: "performance answering w = (Inr 0, w)" "elapsed_time answering 0 w = (Inr 0, w)" for w
    by (simp_all add: elapsed_time_def performance_def ask_def reading_def answering_def idle_client_def run_then_def ret_def elapsed_ms_def js_round_def fl_def floor_eq_iff)
  have counted: "run_then (with_local no_stream_calls (run_then (live_lanes answering (live_count (sample_options ''0''))
      (stream_caller_call 9 answering (sample_options ''0'') (plan_of_shape sample_stream_shape))) (\<lambda>_. get_local))) k \<lparr>lv_log = [], lv_outside = []\<rparr> =
      k ?l \<lparr>lv_log = [], lv_outside = []\<rparr>" for k :: "stream_counts \<Rightarrow> (rpc_response list, unit) workload"
    unfolding with_local_def run_then_def lanes by (simp add: get_local_def get_state_def)
  have checked: "b \<Longrightarrow> run_then (require b t args) k w = k () w" for b t args k w
    by (simp add: run_then_def require_def ret_def)
  have timed: "run_then (performance answering) k w = k 0 w" "run_then (elapsed_time answering 0) k' w = k' 0 w" for k k' w
    by (simp_all add: run_then_def clock)
  show ?thesis
    unfolding run_rpc_stream_caller_def
    by (simp add: checked timed counted) (simp add: log_event_def modify_def no_stream_calls_def sample_options_def)
qed

text \<open>The log of its container, and a witness for the theorem.\<close>

definition sample_caller_log :: string where
  "sample_caller_log = with_quotes (''{~timestamp~:~t0~,~event~:~rpc_stream_caller_complete~,~workerId~:~0~,~expectedOutcome~:~complete~,'' @
     ''~completed~:1,~interrupted~:0,~responseFrames~:2,~responseBytes~:128,~elapsedMs~:0}'')"

lemma sample_caller_record:
  "filter (has_event ''rpc_stream_caller_complete'') (parse_json_records sample_caller_log) =
     [event_json ''t0'' (''rpc_stream_caller_complete'',
       [(''workerId'', JStr ''0''), (''expectedOutcome'', JStr ''complete''), (''completed'', JNum 1), (''interrupted'', JNum 0),
        (''responseFrames'', JNum 2), (''responseBytes'', JNum 128), (''elapsedMs'', JNum 0)])]"
  by code_simp

lemma sample_finished: "finished_caller 9 answering sample_stream_shape (sample_options ''0'') [] sample_caller_log"
  by (auto simp: finished_caller_def sample_call carries_def sample_caller_record jnat_def jint_def) (simp add: sample_stream_shape_def)

theorem stream_callers_meet_expectation_witness:
  "sum_completion_logs [(''caller-0'', sample_caller_log)] ''rpc_stream_caller_complete'' =
     Inr \<lparr>ct_completed = 1, ct_interrupted = 0, ct_responseFrames = 2, ct_responseBytes = 128\<rparr>"
  using stream_callers_meet_expectation [where callers = "[(sample_options ''0'', [], ''caller-0'', sample_caller_log)]" and c = answering and n = 9
    and s = sample_stream_shape and expected_calls = 1 and expected_frames = 2 and expected_bytes = 128 and label = "''phase''"]
  by (simp add: sample_finished) (simp add: stream_expectation_def stream_product_def sample_stream_shape_def max_safe_integer_def)

end
