(* ===== verification/ClientWorkloads.thy ===== *)
theory ClientWorkloads
  imports LiveKit
begin

text \<open>
  The durable writers and verifiers of src/workloads/durability-crash-cuts.ts, the canaries of
  src/workloads/canary.ts and the contenders of src/workloads/lease-contention.ts, for an arbitrary client.
\<close>

subsection \<open>Crash cuts: the writes\<close>

definition crash_cut_route :: "domain \<Rightarrow> string \<Rightarrow> nat \<Rightarrow> string" where
  "crash_cut_route d ns sequence =
     (if d = Schedule then ''schedule://destroyer/'' @ ns @ ''/crash-cut/job-'' @ pad sequence 8
      else if d = Stream \<and> 0 < sequence then ''stream://destroyer/'' @ ns @ ''/crash-cut-'' @ pad sequence 8
      else domain_name d @ ''://destroyer/'' @ ns @ ''/crash-cut'')"

definition crash_cut_payload :: "int \<Rightarrow> live_options \<Rightarrow> domain \<Rightarrow> nat \<Rightarrow> bytes" where
  "crash_cut_payload sd opts d sequence = live_payload sd opts d 0 sequence"

text \<open>A transaction or session with one write, undone when the write or the commit throws.\<close>

definition put_one :: "'o fitz_client \<Rightarrow> string \<Rightarrow> bytes \<Rightarrow> bytes \<Rightarrow> ('o, unit) client_script" where
  "put_one c route key v =
     run_then (kc_begin (fz_kv c) route False) (\<lambda>transaction.
     undo_on_error
       (run_then (kc_put (fz_kv c) transaction key v) (\<lambda>_. kc_commit (fz_kv c) transaction))
       (kc_rollback (fz_kv c) transaction))"

definition append_one :: "'o fitz_client \<Rightarrow> string \<Rightarrow> nat \<Rightarrow> bytes \<Rightarrow> ('o, unit) client_script" where
  "append_one c route offset body =
     run_then (sc_begin (fz_stream c) route) (\<lambda>session.
     undo_on_error
       (run_then (sc_append (fz_stream c) session offset body) (\<lambda>_. sc_commit (fz_stream c) session))
       (sc_rollback (fz_stream c) session))"

definition NEW_YEAR_CRON :: string where
  "NEW_YEAR_CRON = ''0 0 1 1 *''"

fun write_durable_value :: "'o fitz_client \<Rightarrow> int \<Rightarrow> live_options \<Rightarrow> domain \<Rightarrow> nat \<Rightarrow> ('o, unit) client_script" where
  "write_durable_value c sd opts Queue sequence =
     fz_enqueue c (crash_cut_route Queue (lo_namespace opts) 0) (crash_cut_payload sd opts Queue sequence)"
| "write_durable_value c sd opts Kv sequence =
     put_one c (crash_cut_route Kv (lo_namespace opts) 0) (kv_key sequence) (crash_cut_payload sd opts Kv sequence)"
| "write_durable_value c sd opts Stream sequence =
     append_one c (crash_cut_route Stream (lo_namespace opts) sequence) 0 (crash_cut_payload sd opts Stream sequence)"
| "write_durable_value c sd opts d sequence =
     hc_create (fz_schedule c) (crash_cut_route Schedule (lo_namespace opts) sequence) NEW_YEAR_CRON ''Single'' (crash_cut_payload sd opts Schedule sequence)"

fun durability_action_name :: "durability_action \<Rightarrow> string" where
  "durability_action_name BaselineWrites = ''baseline''"
| "durability_action_name CutWrites = ''cut''"
| "durability_action_name VerifyWrites = ''verify''"

definition durability_entries :: "durability_action \<Rightarrow> domain \<Rightarrow> nat \<Rightarrow> (string \<times> json) list" where
  "durability_entries action d sequence =
     [(''action'', JStr (durability_action_name action)), (''domain'', JStr (domain_name d)), (''sequence'', jnat sequence)]"

definition durable_write :: "'o fitz_client \<Rightarrow> int \<Rightarrow> live_options \<Rightarrow> durability_action \<Rightarrow> nat \<Rightarrow> domain \<Rightarrow> ('o, domain \<times> bool) workload" where
  "durable_write c sd opts action sequence d =
     catching
       (run_then (ask (write_durable_value c sd opts d sequence)) (\<lambda>_.
        run_then (log_event ''durability_operation_acknowledged'' (durability_entries action d sequence)) (\<lambda>_. ret (d, True))))
       (\<lambda>e. run_then (log_event ''durability_operation_failed'' (durability_entries action d sequence @ [(''error'', JStr (error_text e))])) (\<lambda>_.
          ret (d, False)))"

definition cut_entries_json :: "(domain \<times> bool) list \<Rightarrow> json" where
  "cut_entries_json xs = JArr (map (\<lambda>(d, acknowledged). JObj
     [(''domain'', JStr (domain_name d)), (''outcome'', JStr (if acknowledged then ''acknowledged'' else ''failed''))]) xs)"

text \<open>Every write is started before the first one is answered.\<close>

definition write_durable_values :: "'o fitz_client \<Rightarrow> int \<Rightarrow> live_options \<Rightarrow> durability_action \<Rightarrow> nat \<Rightarrow> ('o, unit) workload" where
  "write_durable_values c sd opts action sequence =
     run_then (each (\<lambda>d. log_event ''durability_operation_started'' (durability_entries action d sequence)) DURABLE_DOMAINS) (\<lambda>_.
     run_then (log_event ''durability_operations_dispatched''
       [(''action'', JStr (durability_action_name action)), (''sequence'', jnat sequence), (''domains'', jstrs (map domain_name DURABLE_DOMAINS))]) (\<lambda>_.
     run_then (gather (durable_write c sd opts action sequence) DURABLE_DOMAINS) (\<lambda>outcomes.
     run_then (log_event ''durability_writer_complete''
       [(''action'', JStr (durability_action_name action)), (''sequence'', jnat sequence), (''outcomes'', cut_entries_json outcomes)]) (\<lambda>_.
     require (\<not> (action = BaselineWrites \<and> list_ex (\<lambda>(_, acknowledged). \<not> acknowledged) outcomes))
       ''One or more durability baselines were not acknowledged'' []))))"

subsection \<open>Crash cuts: what the broker has kept\<close>

definition identify_crash_payload :: "int \<Rightarrow> live_options \<Rightarrow> nat \<Rightarrow> domain \<Rightarrow> bytes \<Rightarrow> nat result" where
  "identify_crash_payload sd opts iterations_of d actual =
     (case find (\<lambda>sequence. is_ok (assert_bytes_equal actual (crash_cut_payload sd opts d sequence) (domain_name d @ '' payload''))) [0..<Suc iterations_of] of
        Some sequence \<Rightarrow> Inr sequence
      | None \<Rightarrow> Inl (Error ''$ crash-cut payload did not match a started operation'' [AStr (domain_name d)]))"

definition take_crash_item :: "'o fitz_client \<Rightarrow> int \<Rightarrow> live_options \<Rightarrow> nat \<Rightarrow> queue_item \<Rightarrow> nat list \<Rightarrow> ('o, nat list) client_script" where
  "take_crash_item c sd opts iterations_of item found =
     run_then (of_checked (identify_crash_payload sd opts iterations_of Queue (qi_body item))) (\<lambda>sequence.
     run_then (qc_complete (fz_queue c) item) (\<lambda>_. ret (found @ [sequence])))"

definition observed_queue :: "nat \<Rightarrow> 'o fitz_client \<Rightarrow> int \<Rightarrow> live_options \<Rightarrow> nat \<Rightarrow> ('o, nat list) client_script" where
  "observed_queue n c sd opts iterations_of =
     while_do n (\<lambda>found.
       run_then (qc_reserve (fz_queue c) (crash_cut_route Queue (lo_namespace opts) 0) 30 10 None) (\<lambda>items.
       if items = [] then ret (Inr found)
       else run_then (for_of (take_crash_item c sd opts iterations_of) items found) (\<lambda>found'. ret (Inl found')))) []"

definition observed_kv :: "'o fitz_client \<Rightarrow> int \<Rightarrow> live_options \<Rightarrow> nat \<Rightarrow> ('o, nat list) client_script" where
  "observed_kv c sd opts iterations_of =
     run_then (kc_begin (fz_kv c) (crash_cut_route Kv (lo_namespace opts) 0) True) (\<lambda>transaction.
     finally_do
       (for_of (\<lambda>sequence found.
          run_then (kc_get (fz_kv c) transaction (kv_key sequence)) (\<lambda>v. case v of
            None \<Rightarrow> ret found
          | Some body \<Rightarrow>
              run_then (same_bytes body (crash_cut_payload sd opts Kv sequence) (''KV crash-cut '' @ show_nat sequence)) (\<lambda>_.
              ret (found @ [sequence])))) [0..<Suc iterations_of] [])
       (ignore_failure (kc_rollback (fz_kv c) transaction)))"

definition check_crash_record :: "int \<Rightarrow> live_options \<Rightarrow> nat \<Rightarrow> stream_record \<Rightarrow> nat list \<Rightarrow> ('o, nat list) client_script" where
  "check_crash_record sd opts sequence r found =
     run_then (require (sr_offset r = 0) ''Unexpected Stream crash-cut offset $'' [ANat (sr_offset r)]) (\<lambda>_.
     run_then (same_bytes (sr_body r) (crash_cut_payload sd opts Stream sequence) (''Stream crash-cut '' @ show_nat sequence)) (\<lambda>_.
     ret (found @ [sequence])))"

definition observed_streams :: "nat \<Rightarrow> 'o fitz_client \<Rightarrow> int \<Rightarrow> live_options \<Rightarrow> nat \<Rightarrow> ('o, nat list) client_script" where
  "observed_streams n c sd opts iterations_of =
     for_of (\<lambda>sequence found.
       run_then (stream_batches n c (crash_cut_route Stream (lo_namespace opts) sequence) 0 10 (\<lambda>batch found.
         run_then (for_of (check_crash_record sd opts sequence) batch found) (\<lambda>found'. ret (Inl found'))) found) (\<lambda>r.
       case r of Inl found' \<Rightarrow> ret found' | Inr u \<Rightarrow> ret u)) [0..<Suc iterations_of] []"

text \<open>\<^verbatim>\<open>/\/job-(\d{8})$/\<close>.\<close>

definition crash_job :: "string \<Rightarrow> nat option" where
  "crash_job route =
     (let t = drop (length route - 13) route in
      if 13 \<le> length route \<and> take 5 t = ''/job-'' \<and> list_all is_digit (drop 5 t) then Some (nat_of_digits (drop 5 t)) else None)"

definition check_crash_schedule :: "int \<Rightarrow> live_options \<Rightarrow> nat \<Rightarrow> schedule_entry \<Rightarrow> nat list \<Rightarrow> ('o, nat list) client_script" where
  "check_crash_schedule sd opts iterations_of entry found =
     (case crash_job (se_route entry) of
        None \<Rightarrow> fail_with ''Unexpected Schedule crash-cut route $'' [AStr (se_route entry)]
      | Some sequence \<Rightarrow>
          run_then (require (sequence \<le> iterations_of) ''Unexpected Schedule crash-cut route $'' [AStr (se_route entry)]) (\<lambda>_.
          run_then (same_bytes (se_payload entry) (crash_cut_payload sd opts Schedule sequence) (''Schedule crash-cut '' @ show_nat sequence)) (\<lambda>_.
          ret (found @ [sequence]))))"

definition observed_crash_schedules :: "nat \<Rightarrow> 'o fitz_client \<Rightarrow> int \<Rightarrow> live_options \<Rightarrow> nat \<Rightarrow> ('o, nat list) client_script" where
  "observed_crash_schedules n c sd opts iterations_of =
     run_then (schedule_pages n c (''schedule://destroyer/'' @ lo_namespace opts @ ''/crash-cut'') 10 (\<lambda>page found.
       run_then (for_of (check_crash_schedule sd opts iterations_of) page found) (\<lambda>found'. ret (Inl found'))) []) (\<lambda>r.
     case r of Inl found \<Rightarrow> ret found | Inr u \<Rightarrow> ret u)"

definition report_observed :: "domain \<times> nat list \<Rightarrow> ('o, unit) workload" where
  "report_observed = (\<lambda>(d, found).
     each (\<lambda>sequence. log_event ''durability_operation_observed'' [(''domain'', JStr (domain_name d)), (''sequence'', jnat sequence)]) found)"

definition verify_durability_state :: "nat \<Rightarrow> 'o fitz_client \<Rightarrow> int \<Rightarrow> live_options \<Rightarrow> nat \<Rightarrow> ('o, unit) workload" where
  "verify_durability_state n c sd opts iterations_of =
     run_then (ask (observed_queue n c sd opts iterations_of)) (\<lambda>queue.
     run_then (ask (observed_kv c sd opts iterations_of)) (\<lambda>kv.
     run_then (ask (observed_streams n c sd opts iterations_of)) (\<lambda>stream.
     run_then (ask (observed_crash_schedules n c sd opts iterations_of)) (\<lambda>schedule.
     let observed = [(Queue, sort queue), (Kv, sort kv), (Stream, sort stream), (Schedule, sort schedule)] in
     run_then (each report_observed observed) (\<lambda>_.
     log_event ''durability_verify_complete''
       [(''observed'', JObj (map (\<lambda>(d, found). (domain_name d, JArr (map jnat found))) observed))])))))"

definition run_durability_crash_cut ::
  "nat \<Rightarrow> 'o fitz_client \<Rightarrow> int \<Rightarrow> durability_action \<Rightarrow> nat \<Rightarrow> nat \<Rightarrow> live_options \<Rightarrow> ('o, unit) workload" where
  "run_durability_crash_cut n c sd action sequence iterations_of opts =
     (if action = VerifyWrites then verify_durability_state n c sd opts iterations_of
      else write_durable_values c sd opts action sequence)"

subsection \<open>Canaries\<close>

definition canary_route :: "domain \<Rightarrow> string \<Rightarrow> nat \<Rightarrow> string" where
  "canary_route d ns sequence =
     (if d = Schedule then ''schedule://destroyer/'' @ ns @ ''/canary/job-'' @ show_nat sequence
      else domain_name d @ ''://destroyer/'' @ ns @ ''/canary'' @ (if d = Stream then ''-'' @ show_nat sequence else []))"

definition canary_payload :: "domain \<Rightarrow> nat \<Rightarrow> int \<Rightarrow> bytes" where
  "canary_payload d sequence len =
     (let start = utf8 (''canary:'' @ domain_name d @ '':'' @ show_nat sequence @ '':'') in
      map (\<lambda>i. if i < length start then start ! i else of_nat (sequence + i)) [0..<nat len])"

definition retrying :: "nat \<Rightarrow> 'o fitz_client \<Rightarrow> ('o, 'a) client_script \<Rightarrow> ('o, 'a) client_script" where
  "retrying n c operation = retry_queue_backpressure n 0 operation (\<lambda>_ _ _. ret ()) (\<lambda>delay. client_sleep c (int delay))"

definition queue_canary :: "nat \<Rightarrow> 'o fitz_client \<Rightarrow> string \<Rightarrow> bytes \<Rightarrow> nat \<Rightarrow> ('o, unit) client_script" where
  "queue_canary n c route payload sequence =
     run_then (retrying n c (fz_enqueue c route payload)) (\<lambda>_.
     run_then (retrying n c (qc_reserve (fz_queue c) route 30 1 (Some 5))) (\<lambda>items.
     case items of
       [] \<Rightarrow> fail_with ''Queue canary $ did not reserve its message'' [ANat sequence]
     | item # _ \<Rightarrow>
         run_then (same_bytes (qi_body item) payload (''Queue canary '' @ show_nat sequence)) (\<lambda>_.
         retrying n c (qc_complete (fz_queue c) item))))"

definition notice_canary :: "nat \<Rightarrow> 'o fitz_client \<Rightarrow> string \<Rightarrow> bytes \<Rightarrow> nat \<Rightarrow> ('o, unit) client_script" where
  "notice_canary n c route payload sequence =
     run_then (fz_subscribe c Notice route) (\<lambda>subscription.
     finally_do
       (run_then (fz_publish c route payload) (\<lambda>_.
        run_then (first_message n c subscription) (\<lambda>body.
        same_bytes body payload (''Notice canary '' @ show_nat sequence))))
       (ignore_failure (fz_unsubscribe c subscription)))"

definition lease_canary :: "'o fitz_client \<Rightarrow> string \<Rightarrow> ('o, unit) client_script" where
  "lease_canary c route = run_then (lc_acquire (fz_lease c) route 5 5) (lc_release (fz_lease c))"

text \<open>The call is answered by the worker that the canary itself registers.\<close>

definition rpc_canary :: "nat \<Rightarrow> 'o fitz_client \<Rightarrow> live_options \<Rightarrow> string \<Rightarrow> bytes \<Rightarrow> nat \<Rightarrow> ('o, unit) client_script" where
  "rpc_canary n c opts route payload sequence =
     run_then (rc_register (fz_rpc c) route None) (\<lambda>registered.
     finally_do
       (run_then (rc_call (fz_rpc c) route payload (lo_requestTimeoutMs opts)) (\<lambda>call.
        run_then (for_await n
            (run_then (serve_requests n c registered (\<lambda>request body. rc_respond (fz_rpc c) request True body)) (\<lambda>_. rc_next (fz_rpc c) call))
            (rc_end (fz_rpc c) call)
            (\<lambda>r responses. run_then (same_bytes (rr_body r) payload (''RPC canary '' @ show_nat sequence)) (\<lambda>_. ret (Inl (responses + 1))))
            (0 :: nat)) (\<lambda>r. case r of
          Inl responses \<Rightarrow> require (responses = 1) ''RPC canary received $/1 responses'' [ANat responses]
        | Inr u \<Rightarrow> ret u)))
       (ignore_failure (fz_unsubscribe c registered)))"

definition run_canary_operation :: "nat \<Rightarrow> 'o fitz_client \<Rightarrow> live_options \<Rightarrow> domain \<Rightarrow> nat \<Rightarrow> string option \<Rightarrow> ('o, unit) client_script" where
  "run_canary_operation n c opts d sequence route_override =
     (let route = get_or (canary_route d (lo_namespace opts) sequence) route_override;
          payload = canary_payload d sequence (lo_payloadBytes opts) in
      case d of
        Queue \<Rightarrow> queue_canary n c route payload sequence
      | Kv \<Rightarrow> put_one c route (take 16 payload) payload
      | Stream \<Rightarrow> append_one c route 0 payload
      | Schedule \<Rightarrow> run_then (hc_create (fz_schedule c) route NEW_YEAR_CRON ''Single'' payload) (\<lambda>_. hc_cancel (fz_schedule c) route)
      | Notice \<Rightarrow> notice_canary n c route payload sequence
      | Lease \<Rightarrow> lease_canary c route
      | Rpc \<Rightarrow> rpc_canary n c opts route payload sequence)"

definition timed_canary :: "nat \<Rightarrow> 'o fitz_client \<Rightarrow> live_options \<Rightarrow> nat \<Rightarrow> domain \<Rightarrow> (string, int) js_map \<Rightarrow> ('o, (string, int) js_map) workload" where
  "timed_canary n c opts sequence d maximums =
     run_then (performance c) (\<lambda>started_at.
     run_then (ask (run_canary_operation n c opts d sequence None)) (\<lambda>_.
     run_then (elapsed_time c started_at) (\<lambda>ms.
     run_then (log_event ''canary_operation_complete''
       [(''domain'', JStr (domain_name d)), (''sequence'', jnat sequence), (''elapsedMs'', jint ms)]) (\<lambda>_.
     ret (map_set maximums (domain_name d) (max (get_or 0 (map_get maximums (domain_name d))) ms))))))"

definition run_canaries :: "nat \<Rightarrow> 'o fitz_client \<Rightarrow> domain list \<Rightarrow> live_options \<Rightarrow> ('o, unit) workload" where
  "run_canaries n c ds opts =
     run_then (for_of (\<lambda>sequence. for_of (timed_canary n c opts sequence) ds) [0..<live_count opts] (map (\<lambda>d. (domain_name d, 0)) ds)) (\<lambda>maximums.
     log_event ''canary_complete''
       [(''domains'', jstrs (map domain_name ds)), (''operationsPerDomain'', jint (lo_operations opts)),
        (''maximumMs'', JObj (map (\<lambda>(d, ms). (d, jint ms)) maximums))])"

subsection \<open>Lease contention\<close>

definition lease_contention_route :: "string \<Rightarrow> string" where
  "lease_contention_route ns = ''lease://destroyer/'' @ ns @ ''/contended''"

fun lease_action_name :: "lease_contention_action \<Rightarrow> string" where
  "lease_action_name LeaseContend = ''contend''"
| "lease_action_name LeaseHold = ''hold''"
| "lease_action_name LeaseProbe = ''probe''"

definition probe_lease :: "'o fitz_client \<Rightarrow> live_options \<Rightarrow> ('o, unit) workload" where
  "probe_lease c opts =
     (let route = lease_contention_route (lo_namespace opts) in
      run_then (ask (lc_query (fz_lease c) route)) (\<lambda>st.
      run_then (log_event ''lease_probe_complete''
        [(''route'', JStr route), (''isHeld'', JBool (le_held st)), (''pendingWaiters'', jnat (le_waiters st))]) (\<lambda>_.
      require (\<not> le_held st \<and> le_waiters st = 0) ''Lease did not quiesce: isHeld=$, pendingWaiters=$''
        [AStr (if le_held st then ''true'' else ''false''), ANat (le_waiters st)])))"

text \<open>A pause that the abort of the signal, or the loss of the lease, turns into a failure.\<close>

definition sleep_with_signal :: "'o fitz_client \<Rightarrow> int \<Rightarrow> ('o, unit) client_script" where
  "sleep_with_signal c ms =
     (if ms = 0 then ret ()
      else run_then (throw_if_aborted c) (\<lambda>_.
        run_then (client_sleep c ms) (\<lambda>_. throw_if_aborted c)))"

text \<open>
  \<^verbatim>\<open>withLease\<close> of the client: the callback runs between the acquisition and the release of the lease.
\<close>

definition with_lease ::
  "'o fitz_client \<Rightarrow> string \<Rightarrow> nat \<Rightarrow> nat \<Rightarrow> (nat \<Rightarrow> ('o, unit) workload) \<Rightarrow> ('o, nat) workload" where
  "with_lease c route ttl wait body =
     run_then (ask (lc_acquire (fz_lease c) route ttl wait)) (\<lambda>lease.
     run_then (ask (get_state (lc_token (fz_lease c) lease))) (\<lambda>token.
     run_then (finally_do (body token) (ask (lc_release (fz_lease c) lease))) (\<lambda>_. ret token)))"

definition contend_once :: "nat \<Rightarrow> 'o fitz_client \<Rightarrow> lease_contention_action \<Rightarrow> string \<Rightarrow> live_options \<Rightarrow> nat \<Rightarrow> ('o, unit) workload" where
  "contend_once n c action participant opts sequence =
     run_then (performance c) (\<lambda>started_at.
     run_then (with_lease c (lease_contention_route (lo_namespace opts)) 5 (nat (max 1 (- ((- lo_requestTimeoutMs opts) div 1000)))) (\<lambda>token.
       run_then (ask (date_ms c)) (\<lambda>now.
       run_then (log_event ''lease_entered''
         [(''participant'', JStr participant), (''sequence'', jnat sequence), (''fencingToken'', JStr (show_nat token)), (''acquiredAtMs'', jint now)]) (\<lambda>_.
       ask (if action = LeaseHold then reject_on_abort n c else sleep_with_signal c (lo_handlerDelayMs opts)))))) (\<lambda>token.
     run_then (ask (date_ms c)) (\<lambda>now.
     run_then (elapsed_time c started_at) (\<lambda>ms.
     log_event ''lease_exited''
       [(''participant'', JStr participant), (''sequence'', jnat sequence), (''fencingToken'', JStr (show_nat token)),
        (''releasedAtMs'', jint now), (''elapsedMs'', jint ms)]))))"

definition contend_lease :: "nat \<Rightarrow> 'o fitz_client \<Rightarrow> lease_contention_action \<Rightarrow> string \<Rightarrow> live_options \<Rightarrow> ('o, unit) workload" where
  "contend_lease n c action participant opts =
     (let operations = (if action = LeaseHold then 1 else lo_operations opts) in
      run_then (log_event ''lease_contender_ready''
        [(''action'', JStr (lease_action_name action)), (''participant'', JStr participant), (''operations'', jint operations),
         (''route'', JStr (lease_contention_route (lo_namespace opts)))]) (\<lambda>_.
      run_then (each (contend_once n c action participant opts) [0..<nat operations]) (\<lambda>_.
      log_event ''lease_contender_complete''
        [(''action'', JStr (lease_action_name action)), (''participant'', JStr participant), (''operations'', jint operations)])))"

definition run_lease_contention :: "nat \<Rightarrow> 'o fitz_client \<Rightarrow> lease_contention_action \<Rightarrow> string \<Rightarrow> live_options \<Rightarrow> ('o, unit) workload" where
  "run_lease_contention n c action participant opts =
     (if action = LeaseProbe then probe_lease c opts else contend_lease n c action participant opts)"

end
