(* ===== verification/ClientProofs.thy ===== *)
theory ClientProofs
  imports ClientWorkloads LeaseScenarios DurabilityScenarios WorkloadEvidence
begin

text \<open>
  What the writers, verifiers and contenders of ClientWorkloads report when they return, and what the
  orchestration (LeaseScenarios) reads from the logs of the contenders.
\<close>

subsection \<open>Lease contenders\<close>

definition entered_event :: "string \<Rightarrow> nat \<Rightarrow> nat \<times> int \<Rightarrow> string \<times> (string \<times> json) list" where
  "entered_event participant sequence = (\<lambda>(token, at_ms).
     (''lease_entered'', [(''participant'', JStr participant), (''sequence'', jnat sequence), (''fencingToken'', JStr (show_nat token)), (''acquiredAtMs'', jint at_ms)]))"

lemma with_lease_ok:
  assumes "with_lease c route ttl wait body w = (Inr token, w')"
  shows "\<exists>v v'. body token v = (Inr (), v') \<and> lv_log v = lv_log w \<and> lv_log w' = lv_log v'"
proof -
  from assms obtain lease v1 t v2 v3 where run: "ask (lc_acquire (fz_lease c) route ttl wait) w = (Inr lease, v1)"
    "ask (get_state (lc_token (fz_lease c) lease)) v1 = (Inr t, v2)" "finally_do (body t) (ask (lc_release (fz_lease c) lease)) v2 = (Inr (), v3)"
    "token = t" "w' = v3"
    unfolding with_lease_def by (elim run_thenE) (auto simp: ret_ok)
  from run(3) obtain v' where v': "body t v2 = (Inr (), v')" "ask (lc_release (fz_lease c) lease) v' = (Inr (), v3)" by (auto simp: finally_do_ok)
  have "lv_log v2 = lv_log w" "lv_log v3 = lv_log v'" using run(1,2) v'(2) by (auto simp: ask_ok)
  then show ?thesis using v'(1) run(4,5) by blast
qed

text \<open>The events of one entry: it enters with the token of the lease, then it exits.\<close>

lemma contend_once_ok:
  assumes "contend_once n c action participant opts sequence w = (Inr (), w')"
  shows "\<exists>g es. lv_log w' = lv_log w @ [entered_event participant sequence g, (''lease_exited'', es)]"
proof -
  from assms obtain t v0 token v1 now v2 ms v3 where run: "performance c w = (Inr t, v0)"
    "with_lease c (lease_contention_route (lo_namespace opts)) 5 (nat (max 1 (- ((- lo_requestTimeoutMs opts) div 1000)))) (\<lambda>token.
       run_then (ask (date_ms c)) (\<lambda>now.
       run_then (log_event ''lease_entered''
         [(''participant'', JStr participant), (''sequence'', jnat sequence), (''fencingToken'', JStr (show_nat token)), (''acquiredAtMs'', jint now)]) (\<lambda>_.
       ask (if action = LeaseHold then reject_on_abort n c else sleep_with_signal c (lo_handlerDelayMs opts))))) v0 = (Inr token, v1)"
    "ask (date_ms c) v1 = (Inr now, v2)" "elapsed_time c t v2 = (Inr ms, v3)"
    "log_event ''lease_exited'' [(''participant'', JStr participant), (''sequence'', jnat sequence), (''fencingToken'', JStr (show_nat token)),
        (''releasedAtMs'', jint now), (''elapsedMs'', jint ms)] v3 = (Inr (), w')"
    unfolding contend_once_def by (elim run_thenE) simp
  from with_lease_ok [OF run(2)] obtain at_ms where "lv_log v1 = lv_log v0 @ [entered_event participant sequence (token, at_ms)]"
    by (auto simp: run_then_ok ask_ok log_event_ok entered_event_def)
  then have "lv_log w' = lv_log w @ [entered_event participant sequence (token, at_ms), (''lease_exited'', [(''participant'', JStr participant),
      (''sequence'', jnat sequence), (''fencingToken'', JStr (show_nat token)), (''releasedAtMs'', jint now), (''elapsedMs'', jint ms)])]"
    using run(1,3,5) elapsed_ok [OF run(4)] by (auto simp: performance_def ask_ok log_event_ok)
  then show ?thesis by blast
qed

lemma entries_ok:
  "each (contend_once n c action participant opts) xs w = (Inr (), w') \<Longrightarrow>
     \<exists>gs. length gs = length xs \<and> filter (\<lambda>e. fst e = ''lease_entered'') (lv_log w') =
       filter (\<lambda>e. fst e = ''lease_entered'') (lv_log w) @ map2 (entered_event participant) xs gs"
proof (induction xs arbitrary: w)
  case (Cons x xs)
  then obtain v where v: "contend_once n c action participant opts x w = (Inr (), v)" "each (contend_once n c action participant opts) xs v = (Inr (), w')"
    by (auto simp: script_ok)
  obtain g es where g: "lv_log v = lv_log w @ [entered_event participant x g, (''lease_exited'', es)]" using contend_once_ok [OF v(1)] by blast
  obtain gs where "length gs = length xs" "filter (\<lambda>e. fst e = ''lease_entered'') (lv_log w') =
       filter (\<lambda>e. fst e = ''lease_entered'') (lv_log v) @ map2 (entered_event participant) xs gs" using Cons.IH [OF v(2)] by blast
  then show ?case by (intro exI [of _ "g # gs"]) (cases g, simp add: g entered_event_def)
qed (simp add: script_ok)

lemma contend_lease_ok:
  assumes "contend_lease n c LeaseContend participant opts w = (Inr (), w')" "lv_log w = []"
  shows "\<exists>gs. length gs = nat (lo_operations opts) \<and>
     filter (\<lambda>e. fst e = ''lease_entered'') (lv_log w') = map2 (entered_event participant) [0..<nat (lo_operations opts)] gs"
proof -
  from assms(1) obtain v v' where run: "log_event ''lease_contender_ready'' [(''action'', JStr ''contend''),
         (''participant'', JStr participant), (''operations'', jint (lo_operations opts)), (''route'', JStr (lease_contention_route (lo_namespace opts)))] w = (Inr (), v)"
    "each (contend_once n c LeaseContend participant opts) [0..<nat (lo_operations opts)] v = (Inr (), v')"
    "log_event ''lease_contender_complete'' [(''action'', JStr ''contend''), (''participant'', JStr participant),
         (''operations'', jint (lo_operations opts))] v' = (Inr (), w')"
    unfolding contend_lease_def Let_def by (elim run_thenE) simp
  from entries_ok [OF run(2)] show ?thesis using run(1,3) assms(2) by (auto simp: log_event_ok)
qed

subsection \<open>Admissions\<close>

lemma big_int_show: "big_int_of (show_nat t) = Some (int t)"
proof -
  have digits: "list_all is_digit (show_nat t)" using show_nat_digits [of t] by (simp add: list_all_iff)
  obtain c u where s: "show_nat t = c # u" using show_nat_nonempty [of t] by (cases "show_nat t") auto
  have trim: "js_trim (show_nat t) = c # u"
    unfolding s [symmetric] by (rule js_trim_same) (use digits in \<open>auto simp: list_all_iff dest: is_digit_cases\<close>)
  have c: "is_digit c" and u: "list_all is_digit u" using digits s by auto
  have sign: "c \<noteq> CHR ''-''" "c \<noteq> CHR ''+''" using is_digit_cases [OF c] by blast+
  have hex: "u \<noteq> [] \<Longrightarrow> hd u \<notin> {CHR ''x'', CHR ''X'', CHR ''o'', CHR ''O'', CHR ''b'', CHR ''B''}"
    using u is_digit_cases [of "hd u"] by (cases u) auto
  have decimal: "decimal_integer (c # u) = Some (int t)" using digits s show_nat_value [of t] by (simp add: decimal_integer_def)
  show ?thesis using hex sign decimal by (auto simp: big_int_of_def trim)
qed

definition admission :: "string \<Rightarrow> nat \<Rightarrow> nat \<times> int \<Rightarrow> lease_admission" where
  "admission participant sequence g = \<lparr>la_participant = participant, la_sequence = sequence, la_fencingToken = int (fst g)\<rparr>"

lemma admission_of_entered:
  "int sequence \<le> max_safe_integer \<Longrightarrow> admission_of (event_json t (entered_event participant sequence g)) = Inr (admission participant sequence g)"
  by (cases g) (simp add: admission_of_def entered_event_def numeric_field_def big_int_show admission_def)

text \<open>A contender that returned after \<^verbatim>\<open>k\<close> operations, and a log with its entries.\<close>

definition finished_contender :: "nat \<Rightarrow> 'o fitz_client \<Rightarrow> nat \<Rightarrow> string \<Rightarrow> live_options \<Rightarrow> 'o \<Rightarrow> string \<Rightarrow> bool" where
  "finished_contender n c k participant opts start contents =
     (case contend_lease n c LeaseContend participant opts \<lparr>lv_log = [], lv_outside = start\<rparr> of (r, w) \<Rightarrow>
        r = Inr () \<and> lo_operations opts = int k \<and> carries [''lease_entered''] (lv_log w) contents)"

lemma traverse_list_all2: "list_all2 (\<lambda>x y. f x = Inr y) xs ys \<Longrightarrow> traverse f xs = Inr ys"
  by (induction rule: list_all2_induct) (simp_all add: result_simps)

lemma traverse_concat: "list_all2 (\<lambda>xs ys. traverse f xs = Inr ys) xss yss \<Longrightarrow> traverse f (concat xss) = Inr (concat yss)"
proof (induction rule: list_all2_induct)
  case (Cons x xs y ys)
  have "traverse f x = Inr y \<Longrightarrow> traverse f (x @ concat xs) = Inr (y @ concat ys)" for x y
    using Cons.IH by (induction x arbitrary: y) (auto simp: result_simps)
  then show ?case using Cons.hyps by simp
qed simp

lemma finished_contender_admissions:
  assumes "finished_contender n c k participant opts start contents" "int k \<le> max_safe_integer"
  shows "\<exists>gs. length gs = k \<and> traverse admission_of (filter (has_event ''lease_entered'') (parse_json_records contents)) =
     Inr (map2 (admission participant) [0..<k] gs)"
proof -
  obtain w where run: "contend_lease n c LeaseContend participant opts \<lparr>lv_log = [], lv_outside = start\<rparr> = (Inr (), w)"
    and operations: "lo_operations opts = int k" and log: "carries [''lease_entered''] (lv_log w) contents"
    using assms(1) by (auto simp: finished_contender_def split: prod.splits)
  from contend_lease_ok [OF run] operations obtain gs where gs: "length gs = k"
    "filter (\<lambda>e. fst e = ''lease_entered'') (lv_log w) = map2 (entered_event participant) [0..<k] gs" by auto
  have "list_all2 (\<lambda>r e. \<exists>t. r = event_json t e) (filter (has_event ''lease_entered'') (parse_json_records contents)) (map2 (entered_event participant) [0..<k] gs)"
    using log gs(2) by (simp add: carries_def)
  then have "list_all2 (\<lambda>r a. admission_of r = Inr a) (filter (has_event ''lease_entered'') (parse_json_records contents)) (map2 (admission participant) [0..<k] gs)"
    unfolding list_all2_conv_all_nth
  proof (intro conjI allI impI)
    fix i assume all: "length (filter (has_event ''lease_entered'') (parse_json_records contents)) = length (map2 (entered_event participant) [0..<k] gs) \<and>
        (\<forall>i < length (filter (has_event ''lease_entered'') (parse_json_records contents)).
           \<exists>t. filter (has_event ''lease_entered'') (parse_json_records contents) ! i = event_json t (map2 (entered_event participant) [0..<k] gs ! i))"
      and i: "i < length (filter (has_event ''lease_entered'') (parse_json_records contents))"
    then obtain t where t: "filter (has_event ''lease_entered'') (parse_json_records contents) ! i = event_json t (entered_event participant i (gs ! i))"
      using gs(1) by auto
    show "admission_of (filter (has_event ''lease_entered'') (parse_json_records contents) ! i) = Inr (map2 (admission participant) [0..<k] gs ! i)"
      unfolding t using all i gs(1) assms(2) by (subst admission_of_entered) auto
  qed (use gs(1) in auto)
  then show ?thesis using gs(1) traverse_list_all2 by blast
qed

text \<open>The admissions of contenders with \<^verbatim>\<open>k\<close> entries each.\<close>

definition all_admissions :: "nat \<Rightarrow> (string \<times> (nat \<times> int) list) list \<Rightarrow> lease_admission list" where
  "all_admissions k rows = concat (map (\<lambda>(p, gs). map2 (admission p) [0..<k] gs) rows)"

definition full_rows :: "nat \<Rightarrow> (string \<times> (nat \<times> int) list) list \<Rightarrow> bool" where
  "full_rows k rows = (distinct (map fst rows) \<and> list_all (\<lambda>(_, gs). length gs = k) rows)"

lemma admission_fields:
  "length gs = k \<Longrightarrow> map la_sequence (map2 (admission p) [0..<k] gs) = [0..<k]"
  "a \<in> set (map2 (admission p) ks gs) \<Longrightarrow> la_participant a = p"
  by (auto simp: admission_def list_eq_iff_nth_eq)

lemma all_admissions_simps [simp]:
  "all_admissions k [] = []" "all_admissions k ((p, gs) # rows) = map2 (admission p) [0..<k] gs @ all_admissions k rows"
  by (simp_all add: all_admissions_def)

lemma all_admissions_length: "full_rows k rows \<Longrightarrow> length (all_admissions k rows) = length rows * k"
  by (induction rows) (auto simp: full_rows_def)

lemma all_admissions_participants: "full_rows k rows \<Longrightarrow> 0 < k \<Longrightarrow> la_participant ` set (all_admissions k rows) = fst ` set rows"
proof (induction rows)
  case (Cons row rows)
  obtain p gs where row: "row = (p, gs)" "length gs = k" using Cons.prems(1) by (cases row) (auto simp: full_rows_def)
  have "la_participant ` set (map2 (admission p) [0..<k] gs) = {p}"
  proof
    show "{p} \<subseteq> la_participant ` set (map2 (admission p) [0..<k] gs)"
      using row(2) Cons.prems(2) by (cases gs) (auto simp: upt_rec [of 0] admission_def)
  qed (auto dest: admission_fields(2) simp: admission_def)
  then show ?case using Cons row(1) by (simp add: image_Un full_rows_def)
qed simp

lemma own_admissions:
  "filter (\<lambda>b. la_participant b = p) (map2 (admission q) ks hs) = (if p = q then map2 (admission q) ks hs else [])"
  by (auto simp: filter_empty_conv admission_def intro!: filter_True)

lemma no_admissions: "p \<notin> fst ` set rows \<Longrightarrow> filter (\<lambda>b. la_participant b = p) (all_admissions k rows) = []"
  by (induction rows) (auto simp: own_admissions)

lemma all_admissions_filter:
  "full_rows k rows \<Longrightarrow> (p, gs) \<in> set rows \<Longrightarrow> filter (\<lambda>b. la_participant b = p) (all_admissions k rows) = map2 (admission p) [0..<k] gs"
proof (induction rows)
  case (Cons row rows)
  obtain q hs where row: "row = (q, hs)" by (cases row)
  have rest: "full_rows k rows" "q \<notin> fst ` set rows" using Cons.prems by (auto simp: row full_rows_def)
  show ?case
  proof (cases "p = q")
    case True
    then have "hs = gs" using Cons.prems(2) rest(2) by (force simp: row)
    then show ?thesis using True rest(2) by (simp add: row own_admissions no_admissions)
  next
    case False
    then show ?thesis using Cons rest(1) by (auto simp: row own_admissions)
  qed
qed simp

lemma all_admissions_accepted:
  assumes "full_rows k rows" "rows \<noteq> []" "0 < k"
  shows "assert_lease_admissions (all_admissions k rows) (length rows * k) (length rows) = Inr () \<longleftrightarrow> distinct (map la_fencingToken (all_admissions k rows))"
proof -
  have "card (la_participant ` set (all_admissions k rows)) = length rows"
    using assms distinct_card [of "map fst rows"] by (simp add: all_admissions_participants full_rows_def)
  moreover have "mset (map la_sequence (filter (\<lambda>b. la_participant b = la_participant a) (all_admissions k rows))) = mset [0..<k]"
    if "a \<in> set (all_admissions k rows)" for a
  proof -
    have "la_participant a \<in> fst ` set rows" using that all_admissions_participants [OF assms(1,3)] by blast
    then obtain gs where gs: "(la_participant a, gs) \<in> set rows" by force
    then have "length gs = k" using assms(1) by (auto simp: full_rows_def list_all_iff)
    then show ?thesis using all_admissions_filter [OF assms(1) gs] admission_fields(1) by simp
  qed
  ultimately show ?thesis
    using assms all_admissions_length [OF assms(1)] by (subst lease_admissions_exact) (auto simp: list_all_iff simp del: mset_upt)
qed

lemma contenders_rows:
  assumes "list_all (\<lambda>(p, opts, start, contents). finished_contender n c k p opts start contents) contenders" "int k \<le> max_safe_integer"
  shows "\<exists>rows. map fst rows = map fst contenders \<and> list_all (\<lambda>(_, gs). length gs = k) rows \<and>
     lease_admissions (map (\<lambda>(p, _, _, l). (p, l)) contenders) = Inr (all_admissions k rows)"
  using assms(1)
proof (induction contenders)
  case (Cons x xs)
  obtain p opts start l where x: "x = (p, opts, start, l)" by (cases x)
  obtain rows where rows: "map fst rows = map fst xs" "list_all (\<lambda>(_, gs). length gs = k) rows"
    "traverse admission_of (filter (has_event ''lease_entered'') (concat (map (\<lambda>(_, l). parse_json_records l) (map (\<lambda>(p, _, _, l). (p, l)) xs)))) = Inr (all_admissions k rows)"
    using Cons by (auto simp: lease_admissions_def)
  obtain gs where gs: "length gs = k"
    "traverse admission_of (filter (has_event ''lease_entered'') (parse_json_records l)) = Inr (map2 (admission p) [0..<k] gs)"
    using finished_contender_admissions [OF _ assms(2), of n c p opts start l] Cons.prems by (auto simp: x)
  have "traverse admission_of (concat [filter (has_event ''lease_entered'') (parse_json_records l),
      filter (has_event ''lease_entered'') (concat (map (\<lambda>(_, l). parse_json_records l) (map (\<lambda>(p, _, _, l). (p, l)) xs)))]) =
    Inr (concat [map2 (admission p) [0..<k] gs, all_admissions k rows])"
    by (rule traverse_concat) (use gs(2) rows(3) in simp)
  then show ?case using rows(1,2) gs(1)
    by (intro exI [of _ "(p, gs) # rows"]) (simp add: x lease_admissions_def)
qed (simp add: lease_admissions_def)


text \<open>A contender that enters once, on a client that grants the lease at once.\<close>

definition sample_contender_log :: string where
  "sample_contender_log = with_quotes (''{~timestamp~:~t0~,~event~:~lease_entered~,~participant~:~p~,~sequence~:0,~fencingToken~:~0~,~acquiredAtMs~:0}'')"

lemma sample_contender: "finished_contender 1 (idle_client :: unit fitz_client) 1 ''p'' (sample_options ''0'') () sample_contender_log"
proof -
  have run: "\<exists>rest. contend_lease 1 (idle_client :: unit fitz_client) LeaseContend ''p'' (sample_options ''0'') \<lparr>lv_log = [], lv_outside = ()\<rparr> =
     (Inr (), \<lparr>lv_log = [(''lease_contender_ready'', [(''action'', JStr ''contend''), (''participant'', JStr ''p''), (''operations'', jint 1),
          (''route'', JStr (lease_contention_route ''run''))]), entered_event ''p'' 0 (0, 0), (''lease_exited'', rest),
        (''lease_contender_complete'', [(''action'', JStr ''contend''), (''participant'', JStr ''p''), (''operations'', jint 1)])], lv_outside = ()\<rparr>)"
    by (simp add: contend_lease_def contend_once_def with_lease_def sample_options_def idle_client_def performance_def elapsed_time_def date_ms_def reading_def
        sleep_with_signal_def finally_do_def attempt_def ask_def run_then_def ret_def get_state_def log_event_def modify_def entered_event_def)
  have "filter (has_event ''lease_entered'') (parse_json_records sample_contender_log) = [event_json ''t0'' (''lease_entered'',
      [(''participant'', JStr ''p''), (''sequence'', JNum 0), (''fencingToken'', JStr ''0''), (''acquiredAtMs'', JNum 0)])]"
    by code_simp
  moreover have "show_nat 0 = ''0''" by code_simp
  ultimately show ?thesis
    using run by (auto simp: finished_contender_def carries_def entered_event_def jnat_def jint_def)
qed


end
