(* ===== verification/SessionWorkloads.thy ===== *)
theory SessionWorkloads
  imports ClientWorkloads CleanupScenarios
begin

text \<open>
  The state that a session leaves behind (src/workloads/reliability-session-state.ts) and the workloads
  that arm, lose and probe it (src/workloads/control-lane-cleanup-under-saturation.ts and
  ephemeral-reply-loss.ts).  The view of the connection says whether it stands and which of its handles are open.
\<close>

record 'o session_view =
  sw_connected :: "'o \<Rightarrow> bool"
  sw_transactionOpen :: "nat \<Rightarrow> 'o \<Rightarrow> bool"
  sw_sessionOpen :: "nat \<Rightarrow> 'o \<Rightarrow> bool"

subsection \<open>Arming a session\<close>

record reliability_routes =
  rt_queue :: string
  rt_kv :: string
  rt_stream :: string
  rt_notice :: string
  rt_rpc :: string
  rt_lease :: string
  rt_schedule :: string

definition reliability_routes_of :: "string \<Rightarrow> string \<Rightarrow> reliability_routes" where
  "reliability_routes_of ns wid =
     (let resource = ''cleanup-'' @ wid; route = (\<lambda>d. domain_name d @ ''://destroyer/'' @ ns @ ''/'' @ resource) in
      \<lparr>rt_queue = route Queue, rt_kv = route Kv, rt_stream = route Stream, rt_notice = route Notice, rt_rpc = route Rpc,
       rt_lease = route Lease, rt_schedule = route Schedule @ ''/fire''\<rparr>)"

definition routes_json :: "reliability_routes \<Rightarrow> json" where
  "routes_json r = JObj
     [(''queue'', JStr (rt_queue r)), (''kv'', JStr (rt_kv r)), (''stream'', JStr (rt_stream r)), (''notice'', JStr (rt_notice r)),
      (''rpc'', JStr (rt_rpc r)), (''lease'', JStr (rt_lease r)), (''schedule'', JStr (rt_schedule r))]"

text \<open>A text repeated to the length of the payload.\<close>

definition repeated_text :: "string \<Rightarrow> int \<Rightarrow> bytes" where
  "repeated_text s len = (let unit = utf8 s in map (\<lambda>i. unit ! (i mod length unit)) [0..<nat len])"

definition reliability_payload :: "string \<Rightarrow> string \<Rightarrow> int \<Rightarrow> bytes" where
  "reliability_payload ns identity len = repeated_text (''cleanup:'' @ ns @ '':'' @ identity @ '':'') len"

definition uncommitted_key :: "live_options \<Rightarrow> bytes" where
  "uncommitted_key opts = utf8 (''uncommitted-'' @ lo_workerId opts)"

definition own_payload :: "live_options \<Rightarrow> bytes" where
  "own_payload opts = reliability_payload (lo_namespace opts) (lo_workerId opts) (lo_payloadBytes opts)"

definition own_routes :: "live_options \<Rightarrow> reliability_routes" where
  "own_routes opts = reliability_routes_of (lo_namespace opts) (lo_workerId opts)"

text \<open>What has been armed so far; the error path undoes it.\<close>

record armed_parts =
  ap_item :: "queue_item option"
  ap_transaction :: "nat option"
  ap_session :: "nat option"
  ap_lease :: "nat option"
  ap_registrations :: "nat list"

definition nothing_armed :: armed_parts where
  "nothing_armed = \<lparr>ap_item = None, ap_transaction = None, ap_session = None, ap_lease = None, ap_registrations = []\<rparr>"

record armed_session =
  as_routes :: reliability_routes
  as_item :: queue_item
  as_transaction :: nat
  as_session :: nat
  as_lease :: nat
  as_registrations :: "nat list"

definition unsubscribe_registrations :: "'o fitz_client \<Rightarrow> nat list \<Rightarrow> ('o, unit) client_script" where
  "unsubscribe_registrations c hs = each (\<lambda>h. ignore_failure (fz_unsubscribe c h)) hs"

fun if_armed :: "('a \<Rightarrow> ('o, unit) client_script) \<Rightarrow> 'a option \<Rightarrow> ('o, unit) client_script" where
  "if_armed f None = ret ()"
| "if_armed f (Some x) = ignore_failure (f x)"

definition disarm :: "'o fitz_client \<Rightarrow> armed_parts \<Rightarrow> ('o, unit) client_script" where
  "disarm c p =
     run_then (unsubscribe_registrations c (ap_registrations p)) (\<lambda>_.
     run_then (if_armed (lc_release (fz_lease c)) (ap_lease p)) (\<lambda>_.
     run_then (if_armed (sc_rollback (fz_stream c)) (ap_session p)) (\<lambda>_.
     run_then (if_armed (kc_rollback (fz_kv c)) (ap_transaction p)) (\<lambda>_.
     if_armed (qc_complete (fz_queue c)) (ap_item p)))))"

text \<open>
  The subscriptions of the session and its worker; the list is filled when all of them are registered.
  Nobody calls the worker, which would echo a request, while the session is armed.
\<close>

definition register_all :: "'o fitz_client \<Rightarrow> live_options \<Rightarrow> reliability_routes \<Rightarrow> ('o, nat list) client_script" where
  "register_all c opts routes =
     run_then (gather (\<lambda>(d, route). fz_subscribe c d route)
       [(Kv, rt_kv routes), (Queue, rt_queue routes), (Stream, rt_stream routes), (Notice, rt_notice routes),
        (Lease, rt_lease routes), (Schedule, rt_schedule routes)]) (\<lambda>hs.
     run_then (rc_register (fz_rpc c) (rt_rpc routes) (Some (nat (max 1 (lo_concurrency opts))))) (\<lambda>h. ret (hs @ [h])))"

definition armed :: "(armed_parts \<Rightarrow> armed_parts) \<Rightarrow> ('o \<times> armed_parts, unit) client_script" where
  "armed f = run_then get_local (\<lambda>p. set_local (f p))"

definition arm_steps :: "'o fitz_client \<Rightarrow> live_options \<Rightarrow> ('o \<times> armed_parts, armed_session) client_script" where
  "arm_steps c opts =
     (let routes = own_routes opts; body = own_payload opts in
      run_then (outer (fz_enqueue c (rt_queue routes) body)) (\<lambda>_.
      run_then (outer (qc_reserve (fz_queue c) (rt_queue routes) 30 1 (Some 5))) (\<lambda>items.
      case items of
        [] \<Rightarrow> fail_with ''$ was not reserved'' [AStr (rt_queue routes)]
      | item # _ \<Rightarrow>
          run_then (armed (\<lambda>p. p\<lparr>ap_item := Some item\<rparr>)) (\<lambda>_.
          run_then (outer (kc_begin (fz_kv c) (rt_kv routes) False)) (\<lambda>transaction.
          run_then (armed (\<lambda>p. p\<lparr>ap_transaction := Some transaction\<rparr>)) (\<lambda>_.
          run_then (outer (kc_put (fz_kv c) transaction (uncommitted_key opts) body)) (\<lambda>_.
          run_then (outer (sc_begin (fz_stream c) (rt_stream routes))) (\<lambda>session.
          run_then (armed (\<lambda>p. p\<lparr>ap_session := Some session\<rparr>)) (\<lambda>_.
          run_then (outer (sc_append (fz_stream c) session 0 body)) (\<lambda>_.
          run_then (outer (lc_acquire (fz_lease c) (rt_lease routes) 30 5)) (\<lambda>lease.
          run_then (armed (\<lambda>p. p\<lparr>ap_lease := Some lease\<rparr>)) (\<lambda>_.
          run_then (outer (register_all c opts routes)) (\<lambda>hs.
          run_then (armed (\<lambda>p. p\<lparr>ap_registrations := hs\<rparr>)) (\<lambda>_.
          ret \<lparr>as_routes = routes, as_item = item, as_transaction = transaction, as_session = session, as_lease = lease,
               as_registrations = hs\<rparr>))))))))))))))"

definition arm_reliability_session :: "'o fitz_client \<Rightarrow> live_options \<Rightarrow> ('o, armed_session) client_script" where
  "arm_reliability_session c opts =
     with_local nothing_armed (catching (arm_steps c opts)
       (\<lambda>e. run_then get_local (\<lambda>p. run_then (outer (disarm c p)) (\<lambda>_. fail e))))"

definition dispose_reliability_session :: "'o fitz_client \<Rightarrow> armed_session \<Rightarrow> ('o, unit) client_script" where
  "dispose_reliability_session c s =
     disarm c \<lparr>ap_item = Some (as_item s), ap_transaction = Some (as_transaction s), ap_session = Some (as_session s),
       ap_lease = Some (as_lease s), ap_registrations = as_registrations s\<rparr>"

subsection \<open>Probing that nothing of it is left\<close>

record probe_evidence =
  pe_redelivered :: nat
  pe_values :: nat
  pe_records :: nat
  pe_held :: bool
  pe_waiters :: nat
  pe_calls :: nat
  pe_failures :: nat

definition probe_json :: "probe_evidence \<Rightarrow> (string \<times> json) list" where
  "probe_json p =
     [(''queueRedelivered'', jnat (pe_redelivered p)), (''kvUncommittedValues'', jnat (pe_values p)),
      (''streamUncommittedRecords'', jnat (pe_records p)), (''leaseHeld'', jnat (if pe_held p then 1 else 0)),
      (''leasePendingWaiters'', jnat (pe_waiters p)), (''rpcProbeCalls'', jnat (pe_calls p)), (''rpcProbeFailures'', jnat (pe_failures p))]"

definition probe_queue :: "'o fitz_client \<Rightarrow> live_options \<Rightarrow> ('o, unit) client_script" where
  "probe_queue c opts =
     (let route = rt_queue (own_routes opts) in
      run_then (qc_reserve (fz_queue c) route 30 2 (Some 5)) (\<lambda>reserved.
      case reserved of
        [item] \<Rightarrow>
          run_then (same_bytes (qi_body item) (own_payload opts) (route @ '' cleanup redelivery'')) (\<lambda>_.
          run_then (qc_complete (fz_queue c) item) (\<lambda>_.
          run_then (qc_reserve (fz_queue c) route 5 1 None) (\<lambda>remaining.
          require (remaining = []) ''$ retained duplicate work'' [AStr route])))
      | _ \<Rightarrow> fail_with ''$ redelivered $/1 cleanup message'' [AStr route, ANat (length reserved)]))"

definition probe_kv :: "'o fitz_client \<Rightarrow> live_options \<Rightarrow> ('o, nat) client_script" where
  "probe_kv c opts =
     run_then (kc_begin (fz_kv c) (rt_kv (own_routes opts)) True) (\<lambda>transaction.
     finally_do
       (run_then (kc_get (fz_kv c) transaction (uncommitted_key opts)) (\<lambda>v. ret (if v = None then 0 else 1)))
       (ignore_failure (kc_rollback (fz_kv c) transaction)))"

definition probe_stream :: "nat \<Rightarrow> 'o fitz_client \<Rightarrow> live_options \<Rightarrow> ('o, nat) client_script" where
  "probe_stream n c opts =
     run_then (stream_batches n c (rt_stream (own_routes opts)) 0 8 (\<lambda>batch k. ret (Inl (k + length batch))) 0) (\<lambda>r.
     case r of Inl k \<Rightarrow> ret k | Inr u \<Rightarrow> ret u)"

definition probe_lease_released :: "'o fitz_client \<Rightarrow> live_options \<Rightarrow> ('o, lease_state) client_script" where
  "probe_lease_released c opts =
     (let route = rt_lease (own_routes opts) in
      run_then (lc_query (fz_lease c) route) (\<lambda>st.
      run_then (require (\<not> le_held st \<and> le_waiters st = 0) ''$ retained owner=$ waiters=$''
        [AStr route, AStr (if le_held st then ''true'' else ''false''), ANat (le_waiters st)]) (\<lambda>_.
      run_then (lc_acquire (fz_lease c) route 5 5) (\<lambda>lease.
      run_then (lc_release (fz_lease c) lease) (\<lambda>_. ret st)))))"

text \<open>One call that the worker of the same client echoes: how many answers there were.\<close>

definition echoed_call ::
  "nat \<Rightarrow> 'o fitz_client \<Rightarrow> live_options \<Rightarrow> nat \<Rightarrow> string \<Rightarrow> bytes \<Rightarrow> bytes \<Rightarrow> string \<Rightarrow> (bytes \<Rightarrow> bytes) \<Rightarrow> ('o, nat) client_script" where
  "echoed_call n c opts registered route request expected what answer =
     run_then (rc_call (fz_rpc c) route request (lo_requestTimeoutMs opts)) (\<lambda>call.
     run_then (for_await n
         (run_then (serve_requests n c registered (\<lambda>h body. rc_respond (fz_rpc c) h True (answer body))) (\<lambda>_. rc_next (fz_rpc c) call))
         (rc_end (fz_rpc c) call)
         (\<lambda>r responses. run_then (same_bytes (rr_body r) expected what) (\<lambda>_. ret (Inl (responses + 1)))) 0) (\<lambda>r.
     case r of Inl responses \<Rightarrow> ret responses | Inr u \<Rightarrow> ret u))"

definition probe_rpc :: "nat \<Rightarrow> 'o fitz_client \<Rightarrow> live_options \<Rightarrow> ('o, nat) client_script" where
  "probe_rpc n c opts =
     (let route = rt_rpc (own_routes opts) in
      run_then (rc_register (fz_rpc c) route (Some RELIABILITY_RPC_PROBE_CALLS)) (\<lambda>registered.
      finally_do
        (for_of (\<lambda>sequence calls.
           let request = reliability_payload (lo_namespace opts) (lo_workerId opts @ ''-rpc-'' @ show_nat sequence) (lo_payloadBytes opts) in
           run_then (echoed_call n c opts registered route request request (route @ '' probe '' @ show_nat sequence) id) (\<lambda>responses.
           run_then (require (responses = 1) ''$ returned $/1 probe frames'' [AStr route, ANat responses]) (\<lambda>_.
           ret (calls + 1)))) [0..<RELIABILITY_RPC_PROBE_CALLS] 0)
        (ignore_failure (fz_unsubscribe c registered))))"

text \<open>The count of failed calls never leaves the probe: a call that fails ends it.\<close>

definition verify_reliability_session_released :: "nat \<Rightarrow> 'o fitz_client \<Rightarrow> live_options \<Rightarrow> ('o, probe_evidence) client_script" where
  "verify_reliability_session_released n c opts =
     run_then (probe_queue c opts) (\<lambda>_.
     run_then (probe_kv c opts) (\<lambda>kv.
     run_then (probe_stream n c opts) (\<lambda>stream.
     run_then (probe_lease_released c opts) (\<lambda>st.
     run_then (probe_rpc n c opts) (\<lambda>calls.
     run_then (require (kv = 0 \<and> stream = 0) ''Uncommitted cleanup state survived: kv=$, stream=$'' [ANat kv, ANat stream]) (\<lambda>_.
     ret \<lparr>pe_redelivered = 1, pe_values = kv, pe_records = stream, pe_held = le_held st, pe_waiters = le_waiters st,
          pe_calls = calls, pe_failures = 0\<rparr>))))))"

subsection \<open>Losing the session in a shutdown\<close>

definition wait_for_reconnect ::
  "nat \<Rightarrow> 'o fitz_client \<Rightarrow> 'o session_view \<Rightarrow> armed_session \<Rightarrow> int \<Rightarrow> ('o, int) client_script" where
  "wait_for_reconnect n c v s reconnect_timeout =
     (let transaction_open = get_state (sw_transactionOpen v (as_transaction s)); session_open = get_state (sw_sessionOpen v (as_session s)) in
      run_then (reading (fz_performance c)) (\<lambda>started_at.
      run_then (date_ms c) (\<lambda>t.
      run_then (while_do n (\<lambda>_.
        run_then transaction_open (\<lambda>a. run_then session_open (\<lambda>b.
        if \<not> (a \<and> b) then ret (Inr ())
        else run_then (date_ms c) (\<lambda>now.
          if now < t + reconnect_timeout then run_then (client_sleep c 10) (\<lambda>_. ret (Inl ())) else ret (Inr ()))))) ()) (\<lambda>_.
      run_then transaction_open (\<lambda>a. run_then session_open (\<lambda>b.
      run_then (require (\<not> (a \<or> b)) ''Fitz shutdown did not invalidate connection-bound handles'' []) (\<lambda>_.
      run_then (date_ms c) (\<lambda>t'.
      run_then (while_do n (\<lambda>_.
        run_then (get_state (sw_connected v)) (\<lambda>connected.
        if connected then ret (Inr ())
        else run_then (date_ms c) (\<lambda>now.
          if now < t' + reconnect_timeout then run_then (client_sleep c 10) (\<lambda>_. ret (Inl ())) else ret (Inr ())))) ()) (\<lambda>_.
      run_then (get_state (sw_connected v)) (\<lambda>connected.
      run_then (require connected ''Client did not reconnect after Fitz restarted'' []) (\<lambda>_.
      run_then (reading (fz_performance c)) (\<lambda>now. ret (elapsed_ms now started_at)))))))))))))"

definition reject_stale_handles :: "'o fitz_client \<Rightarrow> armed_session \<Rightarrow> ('o, nat) client_script" where
  "reject_stale_handles c s =
     (let attempts = [qc_complete (fz_queue c) (as_item s), kc_commit (fz_kv c) (as_transaction s),
        sc_commit (fz_stream c) (as_session s), lc_release (fz_lease c) (as_lease s)] in
      run_then (for_of (\<lambda>m rejected. catching (run_then m (\<lambda>_. ret rejected)) (\<lambda>_. ret (rejected + 1))) attempts 0) (\<lambda>rejected.
      run_then (require (rejected = length attempts) ''Stale cleanup handles rejected $/$ operations'' [ANat rejected, ANat (length attempts)]) (\<lambda>_.
      ret rejected)))"

definition run_cleanup_storm :: "nat \<Rightarrow> 'o fitz_client \<Rightarrow> 'o session_view \<Rightarrow> int \<Rightarrow> live_options \<Rightarrow> ('o, unit) workload" where
  "run_cleanup_storm n c v reconnect_timeout opts =
     run_then (performance c) (\<lambda>started_at.
     run_then (ask (arm_reliability_session c opts)) (\<lambda>s.
     run_then (log_event ''shutdown_reconnect_cleanup_armed''
       [(''workerId'', JStr (lo_workerId opts)), (''routes'', routes_json (as_routes s))]) (\<lambda>_.
     finally_do
       (run_then (ask (wait_for_reconnect n c v s reconnect_timeout)) (\<lambda>reconnect_ms.
        run_then (ask (reject_stale_handles c s)) (\<lambda>rejected.
        run_then (ask (unsubscribe_registrations c (as_registrations s))) (\<lambda>_.
        run_then (ask (verify_reliability_session_released n c opts)) (\<lambda>probe.
        run_then (elapsed_time c started_at) (\<lambda>ms.
        log_event ''shutdown_reconnect_cleanup_complete''
          ([(''workerId'', JStr (lo_workerId opts)), (''reconnects'', jnat 1), (''reconnectMs'', jint reconnect_ms),
            (''staleHandleRejections'', jnat rejected)] @ probe_json probe @ [(''elapsedMs'', jint ms)])))))))
       (ask (dispose_reliability_session c s)))))"

end
