(* ===== verification/ScheduleWorkloads.thy ===== *)
theory ScheduleWorkloads
  imports LiveKit IsoDate
begin

text \<open>
  The schedule workloads (src/workloads/schedule-delivery.ts, schedule-outage.ts and
  schedule-due-storm-isolation.ts) for an arbitrary client.  A notification handler that sleeps is
  counted; since all of them sleep equally long, a timer that expires ends the first one.
\<close>

subsection \<open>Cron expressions\<close>

text \<open>The fields of a date in UTC; a date beyond the range of \<^verbatim>\<open>Date\<close> has none.\<close>

definition MAX_DATE_MS :: int where "MAX_DATE_MS = 8640000000000000"

definition utc_minutes :: "int \<Rightarrow> int" where "utc_minutes t = t div 60000 mod 60"

definition utc_hours :: "int \<Rightarrow> int" where "utc_hours t = t div 3600000 mod 24"

definition utc_date :: "int \<Rightarrow> int \<times> int \<times> int" where "utc_date t = date_of_days (t div DAY_MS)"

definition day_and_month :: "int \<Rightarrow> string" where
  "day_and_month t = (case utc_date t of (year, month, day) \<Rightarrow> show_int day @ '' '' @ show_int month)"

definition schedule_cron_at :: "int \<Rightarrow> string result" where
  "schedule_cron_at t =
     (if \<bar>t\<bar> \<le> max_safe_integer \<and> 0 < t \<and> t mod 60000 = 0
      then Inr (if t \<le> MAX_DATE_MS
        then show_int (utc_minutes t) @ '' '' @ show_int (utc_hours t) @ '' '' @ day_and_month t @ '' *''
        else ''NaN NaN NaN NaN *'')
      else Inl (Error ''Schedule fire time must be a positive whole UTC minute'' []))"

definition consecutive_minute_cron_at :: "int \<Rightarrow> string result" where
  "consecutive_minute_cron_at t =
     (let u = t + 60000 in
      if \<bar>t\<bar> \<le> max_safe_integer \<and> 0 < t \<and> t mod 60000 = 0 \<and> u \<le> MAX_DATE_MS \<and> utc_date t = utc_date u \<and> utc_hours t = utc_hours u
      then Inr (show_int (utc_minutes t) @ '','' @ show_int (utc_minutes u) @ '' '' @ show_int (utc_hours t) @ '' '' @ day_and_month t @ '' *'')
      else Inl (Error ''Repeated Schedule occurrences must be consecutive minutes in one UTC hour'' []))"

text \<open>The two occurrences are neighbours within one hour.\<close>

lemma consecutive_minutes:
  assumes "consecutive_minute_cron_at t = Inr cron"
  shows "utc_minutes (t + 60000) = utc_minutes t + 1"
proof -
  have same: "t div 3600000 mod 24 = (t + 60000) div 3600000 mod 24" and whole: "t mod 60000 = 0"
    using assms unfolding consecutive_minute_cron_at_def utc_hours_def Let_def by (metis sum.distinct(2))+
  obtain m where m: "t = 60000 * m" using whole by (elim dvdE [OF mod_0_imp_dvd])
  have hours: "(60000 * k) div 3600000 = k div 60" and minutes: "(60000 * k) div 60000 = k" for k :: int
    using div_mult_mult1 [of 60000 k 60] by simp_all
  have after: "t + 60000 = 60000 * (m + 1)" by (simp only: m distrib_left)
  have steady: "m div 60 mod 24 = (m + 1) div 60 mod 24" by (rule same [unfolded after, unfolded m hours])
  obtain q r where split: "m = 60 * q + r" "0 \<le> r" "r < 60" by (rule that [of "m div 60" "m mod 60"]) simp_all
  have parts: "m div 60 = q" "m mod 60 = r" using split by (simp_all add: int_div_pos_eq int_mod_pos_eq)
  have "(m + 1) div 60 = q + 1" if "r = 59" by (rule int_div_pos_eq [where r = 0]) (use split that in simp_all)
  moreover have "q mod 24 \<noteq> (q + 1) mod 24" by (simp add: mod_eq_dvd_iff)
  ultimately have "r \<noteq> 59" using steady parts by auto
  then have "(m + 1) mod 60 = m mod 60 + 1"
    unfolding parts by (intro int_mod_pos_eq [where q = q]) (use split in simp_all)
  then show ?thesis unfolding utc_minutes_def after minutes unfolding m minutes .
qed

subsection \<open>Delivery: routes and payloads\<close>

definition SCHEDULE_DELIVERY_TOLERANCE_MS :: int where "SCHEDULE_DELIVERY_TOLERANCE_MS = 1000"

datatype delivery_kind = BroadcastKind | SingleKind | CancelledKind

definition DELIVERY_KINDS :: "delivery_kind list" where
  "DELIVERY_KINDS = [BroadcastKind, SingleKind, CancelledKind]"

fun delivery_kind_name :: "delivery_kind \<Rightarrow> string" where
  "delivery_kind_name BroadcastKind = ''broadcast''"
| "delivery_kind_name SingleKind = ''single''"
| "delivery_kind_name CancelledKind = ''cancelled''"

fun delivery_kind_index :: "delivery_kind \<Rightarrow> nat" where
  "delivery_kind_index BroadcastKind = 0"
| "delivery_kind_index SingleKind = 1"
| "delivery_kind_index CancelledKind = 2"

definition delivery_mode :: "delivery_kind \<Rightarrow> string" where
  "delivery_mode kind = (if kind = BroadcastKind then ''Broadcast'' else ''Single'')"

definition schedule_delivery_route :: "string \<Rightarrow> delivery_kind \<Rightarrow> nat \<Rightarrow> string" where
  "schedule_delivery_route ns kind sequence =
     ''schedule://destroyer/'' @ ns @ ''/'' @ delivery_kind_name kind @ ''/job-'' @ pad sequence 8"

definition schedule_delivery_payload :: "int \<Rightarrow> live_options \<Rightarrow> delivery_kind \<Rightarrow> nat \<Rightarrow> bytes" where
  "schedule_delivery_payload sd opts kind sequence = live_payload sd opts Schedule (delivery_kind_index kind) sequence"

text \<open>\<^verbatim>\<open>/^job-(\d{8})$/\<close>.\<close>

definition job_number :: "string \<Rightarrow> nat option" where
  "job_number s =
     (if length s = 12 \<and> take 4 s = ''job-'' \<and> list_all is_digit (drop 4 s) then Some (nat_of_digits (drop 4 s)) else None)"

definition starts_with :: "string \<Rightarrow> string \<Rightarrow> bool" where
  "starts_with s p = (take (length p) s = p)"

definition parse_schedule_route :: "string \<Rightarrow> string \<Rightarrow> (delivery_kind \<times> nat) result" where
  "parse_schedule_route ns route =
     (let start_text = ''schedule://destroyer/'' @ ns @ ''/''; e = Error ''unexpected Schedule route $'' [AStr route] in
      if \<not> starts_with route start_text then Inl e
      else
        (case split_on CHR ''/'' (drop (length start_text) route) of
           [kind_name, operation] \<Rightarrow>
             (case find (\<lambda>kind. delivery_kind_name kind = kind_name) DELIVERY_KINDS of
                None \<Rightarrow> Inl e
              | Some kind \<Rightarrow>
                  (case job_number operation of
                     None \<Rightarrow> Inl (Error ''unexpected Schedule operation $'' [AStr operation])
                   | Some sequence \<Rightarrow> Inr (kind, sequence)))
         | _ \<Rightarrow> Inl e))"

subsection \<open>Delivery: the producer\<close>

definition create_delivery ::
  "'o fitz_client \<Rightarrow> int \<Rightarrow> live_options \<Rightarrow> string \<Rightarrow> nat \<Rightarrow> delivery_kind \<Rightarrow> nat \<Rightarrow> ('o, nat) workload" where
  "create_delivery c sd opts cron sequence kind created =
     run_then (ask (hc_create (fz_schedule c) (schedule_delivery_route (lo_namespace opts) kind sequence) cron (delivery_mode kind)
       (schedule_delivery_payload sd opts kind sequence))) (\<lambda>_. ret (created + 1))"

definition cancel_delivery :: "'o fitz_client \<Rightarrow> live_options \<Rightarrow> nat \<Rightarrow> delivery_kind \<Rightarrow> nat \<Rightarrow> ('o, nat) workload" where
  "cancel_delivery c opts sequence kind cancelled =
     run_then (ask (hc_cancel (fz_schedule c) (schedule_delivery_route (lo_namespace opts) kind sequence))) (\<lambda>_. ret (cancelled + 1))"

definition all_entries :: "nat \<Rightarrow> 'o fitz_client \<Rightarrow> string \<Rightarrow> nat \<Rightarrow> ('o, schedule_entry list) client_script" where
  "all_entries n c selector page_size =
     run_then (schedule_pages n c selector page_size (\<lambda>page es. ret (Inl (es @ page))) []) (\<lambda>r.
     case r of Inl es \<Rightarrow> ret es | Inr u \<Rightarrow> ret u)"

definition entries_by_route :: "schedule_entry list \<Rightarrow> (string, schedule_entry) js_map" where
  "entries_by_route es = foldl (\<lambda>m e. map_set m (se_route e) e) [] es"

definition check_definition ::
  "int \<Rightarrow> live_options \<Rightarrow> string \<Rightarrow> (string, schedule_entry) js_map \<Rightarrow> nat \<Rightarrow> delivery_kind \<Rightarrow> unit result" where
  "check_definition sd opts cron by_route sequence kind =
     (let route = schedule_delivery_route (lo_namespace opts) kind sequence in
      case map_get by_route route of
        None \<Rightarrow> Inl (Error ''$ is missing from Schedule listing'' [AStr route])
      | Some entry \<Rightarrow>
          try_in (ensure (se_cron entry = cron \<and> se_mode entry = delivery_mode kind)
            (Error ''$ Schedule metadata does not match its create request'' [AStr route])) (\<lambda>_.
          assert_bytes_equal (se_payload entry) (schedule_delivery_payload sd opts kind sequence) (route @ '' listed payload'')))"

definition verify_definitions :: "nat \<Rightarrow> 'o fitz_client \<Rightarrow> int \<Rightarrow> live_options \<Rightarrow> string \<Rightarrow> bool \<Rightarrow> ('o, nat) client_script" where
  "verify_definitions n c sd opts cron expect_empty =
     run_then (all_entries n c (''schedule://destroyer/'' @ lo_namespace opts @ ''/*'') 250) (\<lambda>es.
     let expected_count = (if expect_empty then 0 else live_count opts * 2) in
     run_then (require (length es = expected_count) ''schedule definition count $ != $'' [ANat (length es), ANat expected_count]) (\<lambda>_.
     if expect_empty then ret (length es)
     else
       run_then (of_checked (for_each (\<lambda>sequence.
         for_each (check_definition sd opts cron (entries_by_route es) sequence) [BroadcastKind, SingleKind]) [0..<live_count opts])) (\<lambda>_.
       ret (length es))))"

definition producer_complete ::
  "'o fitz_client \<Rightarrow> schedule_producer_action \<Rightarrow> int \<Rightarrow> rat \<Rightarrow> string \<Rightarrow> nat \<Rightarrow> nat \<Rightarrow> nat \<Rightarrow> ('o, unit) workload" where
  "producer_complete c action fire_at started_at cron created cancelled listed =
     run_then (elapsed_time c started_at) (\<lambda>ms.
     log_event ''schedule_producer_complete''
       [(''action'', JStr (if action = ScheduleCreate then ''create'' else ''cancel'')), (''created'', jnat created),
        (''cancelled'', jnat cancelled), (''listed'', jnat listed), (''cron'', JStr cron), (''fireAtMs'', jint fire_at), (''elapsedMs'', jint ms)])"

definition run_schedule_producer ::
  "nat \<Rightarrow> 'o fitz_client \<Rightarrow> int \<Rightarrow> int \<Rightarrow> schedule_producer_action \<Rightarrow> live_options \<Rightarrow> ('o, unit) workload" where
  "run_schedule_producer n c sd fire_at action opts =
     run_then (performance c) (\<lambda>started_at.
     run_then (of_checked (schedule_cron_at fire_at)) (\<lambda>cron.
     if action = ScheduleCreate then
       run_then (run_concurrent c (live_count opts)
         (\<lambda>sequence. for_of (create_delivery c sd opts cron sequence) DELIVERY_KINDS) 0) (\<lambda>created.
       run_then (run_concurrent c (live_count opts) (\<lambda>sequence. cancel_delivery c opts sequence CancelledKind) 0) (\<lambda>cancelled.
       run_then (ask (verify_definitions n c sd opts cron False)) (\<lambda>listed.
       producer_complete c action fire_at started_at cron created cancelled listed)))
     else
       run_then (run_concurrent c (live_count opts)
         (\<lambda>sequence. for_of (cancel_delivery c opts sequence) [BroadcastKind, SingleKind]) 0) (\<lambda>cancelled.
       run_then (ask (verify_definitions n c sd opts cron True)) (\<lambda>listed.
       producer_complete c action fire_at started_at cron 0 cancelled listed))))"

subsection \<open>Delivery: the subscriber\<close>

record delivery_counts =
  dc_seen :: "(delivery_kind \<times> nat) list"
  dc_counts :: "(delivery_kind, nat) js_map"
  dc_duplicates :: nat
  dc_invalid :: nat
  dc_active :: nat
  dc_maxActive :: nat
  dc_maxLateness :: int
  dc_sleeping :: nat

definition no_deliveries :: delivery_counts where
  "no_deliveries = \<lparr>dc_seen = [], dc_counts = map (\<lambda>kind. (kind, 0)) DELIVERY_KINDS, dc_duplicates = 0, dc_invalid = 0,
     dc_active = 0, dc_maxActive = 0, dc_maxLateness = 0, dc_sleeping = 0\<rparr>"

text \<open>The checks of the handler: the kind, the sequence and the lateness of a notification.\<close>

definition check_schedule_notification ::
  "int \<Rightarrow> int \<Rightarrow> live_options \<Rightarrow> int \<Rightarrow> string \<Rightarrow> bytes \<Rightarrow> (delivery_kind \<times> nat \<times> int) result" where
  "check_schedule_notification sd fire_at opts received_at route payload =
     try_in (parse_schedule_route (lo_namespace opts) route) (\<lambda>(kind, sequence).
     try_in (ensure (int sequence < lo_operations opts)
       (Error ''schedule sequence $ is outside 0..$'' [ANat sequence, AInt (lo_operations opts - 1)])) (\<lambda>_.
     try_in (assert_bytes_equal payload (schedule_delivery_payload sd opts kind sequence) route) (\<lambda>_.
     let lateness = received_at - fire_at in
     try_in (ensure (0 \<le> lateness \<and> lateness \<le> SCHEDULE_DELIVERY_TOLERANCE_MS)
       (Error ''$ arrived $ms from its scheduled time'' [AStr route, AInt lateness])) (\<lambda>_.
     Inr (kind, sequence, lateness)))))"

definition handler_started :: "delivery_counts \<Rightarrow> delivery_counts" where
  "handler_started st = st\<lparr>dc_active := dc_active st + 1, dc_maxActive := max (dc_maxActive st) (dc_active st + 1)\<rparr>"

definition handler_ended :: "delivery_counts \<Rightarrow> delivery_counts" where
  "handler_ended st = st\<lparr>dc_active := dc_active st - 1\<rparr>"

definition handler_rests :: "live_options \<Rightarrow> delivery_counts \<Rightarrow> delivery_counts" where
  "handler_rests opts st = (if 0 < lo_handlerDelayMs opts then st\<lparr>dc_sleeping := dc_sleeping st + 1\<rparr> else handler_ended st)"

definition count_notification :: "delivery_kind \<Rightarrow> nat \<Rightarrow> int \<Rightarrow> delivery_counts \<Rightarrow> delivery_counts" where
  "count_notification kind sequence lateness st =
     (let st' = st\<lparr>dc_maxLateness := max (dc_maxLateness st) lateness\<rparr> in
      if (kind, sequence) \<in> set (dc_seen st) then st'\<lparr>dc_duplicates := dc_duplicates st + 1\<rparr>
      else st'\<lparr>dc_seen := dc_seen st @ [(kind, sequence)], dc_counts := map_bump (dc_counts st) kind 1\<rparr>)"

definition schedule_notified ::
  "'o fitz_client \<Rightarrow> int \<Rightarrow> int \<Rightarrow> live_options \<Rightarrow> string \<Rightarrow> bytes \<Rightarrow> delivery_counts \<Rightarrow> ('o, delivery_counts) workload" where
  "schedule_notified c sd fire_at opts route payload st =
     run_then (ask (date_ms c)) (\<lambda>received_at.
     case check_schedule_notification sd fire_at opts received_at route payload of
       Inl e \<Rightarrow>
         run_then (log_event ''schedule_notification_invalid''
           [(''workerId'', JStr (lo_workerId opts)), (''route'', JStr route), (''receivedAtMs'', jint received_at),
            (''error'', JStr (error_text (Raised e)))]) (\<lambda>_.
         ret (handler_ended ((handler_started st)\<lparr>dc_invalid := dc_invalid st + 1\<rparr>)))
     | Inr (kind, sequence, lateness) \<Rightarrow>
         run_then (log_event ''schedule_notification_received''
           [(''workerId'', JStr (lo_workerId opts)), (''route'', JStr route), (''kind'', JStr (delivery_kind_name kind)),
            (''sequence'', jnat sequence), (''fireAtMs'', jint fire_at), (''receivedAtMs'', jint received_at), (''latenessMs'', jint lateness)]) (\<lambda>_.
         ret (handler_rests opts (count_notification kind sequence lateness (handler_started st)))))"

definition schedule_delivery_turn ::
  "'o fitz_client \<Rightarrow> int \<Rightarrow> int \<Rightarrow> live_options \<Rightarrow> nat \<Rightarrow> delivery \<Rightarrow> delivery_counts \<Rightarrow> ('o, delivery_counts) workload" where
  "schedule_delivery_turn c sd fire_at opts subscription d st =
     (case d of
        Delivered h route body \<Rightarrow> if h = subscription then schedule_notified c sd fire_at opts route body st else ret st
      | Expired \<Rightarrow> ret (if dc_sleeping st = 0 then st else handler_ended (st\<lparr>dc_sleeping := dc_sleeping st - 1\<rparr>))
      | _ \<Rightarrow> ret st)"

text \<open>
  What arrives until the signal is aborted, and what arrives during a pause.  The turn of a handler is
  its argument, since the two subscribers differ in it alone.
\<close>

definition receive_until_abort :: "nat \<Rightarrow> 'o fitz_client \<Rightarrow> (delivery \<Rightarrow> 's \<Rightarrow> ('o, 's) workload) \<Rightarrow> 's \<Rightarrow> ('o, 's) workload" where
  "receive_until_abort n c turn st =
     while_do n (\<lambda>st. run_then (ask (next_delivery c)) (\<lambda>d.
       if d = Aborted then ret (Inr st) else run_then (turn d st) (\<lambda>st'. ret (Inl st')))) st"

definition pause_ms :: "nat \<Rightarrow> 'o fitz_client \<Rightarrow> int \<Rightarrow> (delivery \<Rightarrow> 's \<Rightarrow> ('o, 's) workload) \<Rightarrow> 's \<Rightarrow> ('o, 's) workload" where
  "pause_ms n c ms turn st =
     run_then (ask (client_sleep c ms)) (\<lambda>_.
     while_do n (\<lambda>st. run_then (ask (next_delivery c)) (\<lambda>d.
       if d = Idle then ret (Inr st) else run_then (turn d st) (\<lambda>st'. ret (Inl st')))) st)"

text \<open>\<^verbatim>\<open>backlog\<close>: the handlers of the client that are active and those that are queued.\<close>

definition wait_for_handlers ::
  "nat \<Rightarrow> 'o fitz_client \<Rightarrow> ('o \<Rightarrow> nat \<times> nat) \<Rightarrow> int \<Rightarrow> (delivery \<Rightarrow> delivery_counts \<Rightarrow> ('o, delivery_counts) workload) \<Rightarrow>
   delivery_counts \<Rightarrow> ('o, delivery_counts) workload" where
  "wait_for_handlers n c backlog timeout_ms turn st =
     run_then (ask (date_ms c)) (\<lambda>now.
     let deadline = now + timeout_ms in
     while_do n (\<lambda>st.
       run_then (ask (date_ms c)) (\<lambda>t.
       run_then (ask (get_state backlog)) (\<lambda>(active, queued).
       if t < deadline then
         (if dc_active st = 0 \<and> active = 0 \<and> queued = 0 then ret (Inr st)
          else run_then (pause_ms n c 10 turn st) (\<lambda>st'. ret (Inl st')))
       else fail_with ''Schedule handlers did not drain: workload=$, client active=$, client queued=$''
         [ANat (dc_active st), ANat active, ANat queued]))) st)"

definition run_schedule_subscriber ::
  "nat \<Rightarrow> 'o fitz_client \<Rightarrow> ('o \<Rightarrow> nat \<times> nat) \<Rightarrow> int \<Rightarrow> int \<Rightarrow> live_options \<Rightarrow> ('o, unit) workload" where
  "run_schedule_subscriber n c backlog sd fire_at opts =
     (let pattern = ''schedule://destroyer/'' @ lo_namespace opts @ ''/*/*'' in
      run_then (performance c) (\<lambda>started_at.
      run_then (ask (fz_subscribe c Schedule pattern)) (\<lambda>subscription.
      run_then (log_event ''schedule_subscriber_ready''
        [(''workerId'', JStr (lo_workerId opts)), (''pattern'', JStr pattern), (''fireAtMs'', jint fire_at),
         (''expectedBroadcast'', jint (lo_operations opts))]) (\<lambda>_.
      let turn = schedule_delivery_turn c sd fire_at opts subscription in
      run_then (receive_until_abort n c turn no_deliveries) (\<lambda>st1.
      run_then (ask (ignore_failure (fz_unsubscribe c subscription))) (\<lambda>_.
      run_then (wait_for_handlers n c backlog (lo_requestTimeoutMs opts) turn st1) (\<lambda>st.
      run_then (ask (get_state backlog)) (\<lambda>(active, queued).
      run_then (elapsed_time c started_at) (\<lambda>ms.
      let counted = (\<lambda>kind. jnat (get_or 0 (map_get (dc_counts st) kind))) in
      log_event ''schedule_subscriber_complete''
        [(''workerId'', JStr (lo_workerId opts)), (''broadcast'', counted BroadcastKind), (''single'', counted SingleKind),
         (''cancelled'', counted CancelledKind), (''duplicates'', jnat (dc_duplicates st)), (''invalid'', jnat (dc_invalid st)),
         (''maxActiveHandlers'', jnat (dc_maxActive st)), (''clientHandlersActive'', jnat active), (''clientHandlersQueued'', jnat queued),
         (''maxLatenessMs'', jint (dc_maxLateness st)), (''elapsedMs'', jint ms)])))))))))"

subsection \<open>Outage\<close>

datatype outage_kind = RepeatedKind | RaceKind

fun outage_kind_name :: "outage_kind \<Rightarrow> string" where
  "outage_kind_name RepeatedKind = ''repeated''"
| "outage_kind_name RaceKind = ''race''"

definition schedule_outage_route :: "string \<Rightarrow> outage_kind \<Rightarrow> nat \<Rightarrow> string" where
  "schedule_outage_route ns kind sequence =
     ''schedule://destroyer/'' @ ns @ ''/'' @ outage_kind_name kind @ ''/job-'' @ pad sequence 8"

definition schedule_outage_payload :: "int \<Rightarrow> live_options \<Rightarrow> outage_kind \<Rightarrow> nat \<Rightarrow> bytes" where
  "schedule_outage_payload sd opts kind sequence = live_payload sd opts Schedule (if kind = RepeatedKind then 0 else 1) sequence"

definition parse_outage_route :: "string \<Rightarrow> string \<Rightarrow> (outage_kind \<times> nat) result" where
  "parse_outage_route ns route =
     (let start_text = (\<lambda>kind. ''schedule://destroyer/'' @ ns @ ''/'' @ outage_kind_name kind @ ''/'') in
      case find (\<lambda>kind. starts_with route (start_text kind) \<and> job_number (drop (length (start_text kind)) route) \<noteq> None) [RepeatedKind, RaceKind] of
        None \<Rightarrow> Inl (Error ''Unexpected Schedule outage route $'' [AStr route])
      | Some kind \<Rightarrow> Inr (kind, get_or 0 (job_number (drop (length (start_text kind)) route))))"

text \<open>One definition that is due at the missed and the next minute, and one for the race.\<close>

definition create_outage ::
  "'o fitz_client \<Rightarrow> int \<Rightarrow> int \<Rightarrow> int \<Rightarrow> live_options \<Rightarrow> nat \<Rightarrow> nat \<Rightarrow> ('o, nat) client_script" where
  "create_outage c sd missed_at race_at opts sequence created =
     (let define = (\<lambda>kind cron. hc_create (fz_schedule c) (schedule_outage_route (lo_namespace opts) kind sequence) cron ''Single''
        (schedule_outage_payload sd opts kind sequence)) in
      run_then (of_checked (consecutive_minute_cron_at missed_at)) (\<lambda>cron.
      run_then (define RepeatedKind cron) (\<lambda>_.
      run_then (of_checked (schedule_cron_at race_at)) (\<lambda>race_cron.
      run_then (define RaceKind race_cron) (\<lambda>_. ret (created + 2))))))"

definition cancel_race :: "'o fitz_client \<Rightarrow> live_options \<Rightarrow> nat \<Rightarrow> nat list \<times> nat list \<Rightarrow> ('o, nat list \<times> nat list) client_script" where
  "cancel_race c opts sequence = (\<lambda>(acknowledged, failed).
     catching
       (run_then (hc_cancel (fz_schedule c) (schedule_outage_route (lo_namespace opts) RaceKind sequence)) (\<lambda>_.
        ret (acknowledged @ [sequence], failed)))
       (\<lambda>_. ret (acknowledged, failed @ [sequence])))"

record outage_counts =
  oc_seen :: "(outage_kind \<times> nat) list"
  oc_deliveries :: "(outage_kind \<times> nat \<times> int) list"
  oc_duplicates :: nat
  oc_active :: nat
  oc_sleeping :: nat

definition no_outage_deliveries :: outage_counts where
  "no_outage_deliveries = \<lparr>oc_seen = [], oc_deliveries = [], oc_duplicates = 0, oc_active = 0, oc_sleeping = 0\<rparr>"

definition outage_delivery_json :: "outage_kind \<times> nat \<times> int \<Rightarrow> (string \<times> json) list" where
  "outage_delivery_json = (\<lambda>(kind, sequence, received_at).
     [(''kind'', JStr (outage_kind_name kind)), (''sequence'', jnat sequence), (''receivedAtMs'', jint received_at)])"

definition check_outage_notification :: "int \<Rightarrow> live_options \<Rightarrow> string \<Rightarrow> bytes \<Rightarrow> (outage_kind \<times> nat) result" where
  "check_outage_notification sd opts route payload =
     try_in (parse_outage_route (lo_namespace opts) route) (\<lambda>(kind, sequence).
     try_in (assert_bytes_equal payload (schedule_outage_payload sd opts kind sequence) route) (\<lambda>_. Inr (kind, sequence)))"

text \<open>A handler that throws has only ended; the client does not tell the workload.\<close>

definition outage_notified ::
  "'o fitz_client \<Rightarrow> int \<Rightarrow> live_options \<Rightarrow> string \<Rightarrow> bytes \<Rightarrow> outage_counts \<Rightarrow> ('o, outage_counts) workload" where
  "outage_notified c sd opts route payload st =
     (case check_outage_notification sd opts route payload of
        Inl e \<Rightarrow> ret st
      | Inr (kind, sequence) \<Rightarrow>
          let rests = (\<lambda>st. if 0 < lo_handlerDelayMs opts then st\<lparr>oc_active := oc_active st + 1, oc_sleeping := oc_sleeping st + 1\<rparr> else st) in
          if (kind, sequence) \<in> set (oc_seen st) then ret (rests (st\<lparr>oc_duplicates := oc_duplicates st + 1\<rparr>))
          else
            run_then (ask (date_ms c)) (\<lambda>received_at.
            run_then (log_event ''schedule_outage_delivery'' (outage_delivery_json (kind, sequence, received_at))) (\<lambda>_.
            ret (rests (st\<lparr>oc_seen := oc_seen st @ [(kind, sequence)],
              oc_deliveries := oc_deliveries st @ [(kind, sequence, received_at)]\<rparr>)))))"

definition outage_turn :: "'o fitz_client \<Rightarrow> int \<Rightarrow> live_options \<Rightarrow> nat \<Rightarrow> delivery \<Rightarrow> outage_counts \<Rightarrow> ('o, outage_counts) workload" where
  "outage_turn c sd opts subscription d st =
     (case d of
        Delivered h route body \<Rightarrow> if h = subscription then outage_notified c sd opts route body st else ret st
      | Expired \<Rightarrow> ret (if oc_sleeping st = 0 then st else st\<lparr>oc_active := oc_active st - 1, oc_sleeping := oc_sleeping st - 1\<rparr>)
      | _ \<Rightarrow> ret st)"

definition drain_outage_handlers ::
  "nat \<Rightarrow> 'o fitz_client \<Rightarrow> ('o \<Rightarrow> nat \<times> nat) \<Rightarrow> int \<Rightarrow> (delivery \<Rightarrow> outage_counts \<Rightarrow> ('o, outage_counts) workload) \<Rightarrow>
   outage_counts \<Rightarrow> ('o, outage_counts) workload" where
  "drain_outage_handlers n c backlog timeout_ms turn st =
     run_then (ask (date_ms c)) (\<lambda>now.
     let deadline = now + timeout_ms; busy = (\<lambda>st (active, queued). 0 < oc_active st \<or> 0 < active \<or> 0 < queued) in
     run_then (while_do n (\<lambda>st.
       run_then (ask (date_ms c)) (\<lambda>t.
       run_then (ask (get_state backlog)) (\<lambda>b.
       if t < deadline \<and> busy st b then run_then (pause_ms n c 10 turn st) (\<lambda>st'. ret (Inl st')) else ret (Inr st)))) st) (\<lambda>st.
     run_then (ask (get_state backlog)) (\<lambda>b.
     run_then (require (\<not> busy st b) ''Schedule outage handlers did not drain: $''
       [AJson (JObj [(''active'', jnat (fst b)), (''queued'', jnat (snd b))])]) (\<lambda>_. ret st))))"

definition subscribe_outage :: "nat \<Rightarrow> 'o fitz_client \<Rightarrow> ('o \<Rightarrow> nat \<times> nat) \<Rightarrow> int \<Rightarrow> live_options \<Rightarrow> ('o, unit) workload" where
  "subscribe_outage n c backlog sd opts =
     run_then (ask (fz_subscribe c Schedule (''schedule://destroyer/'' @ lo_namespace opts @ ''/*/*''))) (\<lambda>subscription.
     run_then (log_event ''schedule_outage_subscriber_ready'' [(''workerId'', JStr (lo_workerId opts))]) (\<lambda>_.
     let turn = outage_turn c sd opts subscription in
     run_then (receive_until_abort n c turn no_outage_deliveries) (\<lambda>st1.
     run_then (ask (ignore_failure (fz_unsubscribe c subscription))) (\<lambda>_.
     run_then (drain_outage_handlers n c backlog (lo_requestTimeoutMs opts) turn st1) (\<lambda>st.
     log_event ''schedule_outage_subscriber_complete''
       [(''workerId'', JStr (lo_workerId opts)), (''deliveries'', JArr (map (\<lambda>d. JObj (outage_delivery_json d)) (oc_deliveries st))),
        (''duplicates'', jnat (oc_duplicates st))])))))"

definition run_schedule_outage ::
  "nat \<Rightarrow> 'o fitz_client \<Rightarrow> ('o \<Rightarrow> nat \<times> nat) \<Rightarrow> int \<Rightarrow> schedule_outage_action \<Rightarrow> int \<Rightarrow> int \<Rightarrow> live_options \<Rightarrow> ('o, unit) workload" where
  "run_schedule_outage n c backlog sd action missed_at race_at opts =
     (case action of
        OutageSubscribe \<Rightarrow> subscribe_outage n c backlog sd opts
      | OutageCreate \<Rightarrow>
          run_then (for_of (\<lambda>sequence created. ask (create_outage c sd missed_at race_at opts sequence created)) [0..<live_count opts] 0) (\<lambda>created.
          log_event ''schedule_outage_create_complete'' [(''created'', jnat created)])
      | OutageRaceCancel \<Rightarrow>
          run_then (ask (sleep_until_ms c race_at)) (\<lambda>_.
          run_then (for_of (\<lambda>sequence r. ask (cancel_race c opts sequence r)) [0..<live_count opts] ([], [])) (\<lambda>(acknowledged, failed).
          log_event ''schedule_outage_race_cancel_complete''
            [(''acknowledged'', JArr (map jnat acknowledged)), (''failed'', JArr (map jnat failed))]))
      | OutageCleanup \<Rightarrow>
          run_then (ask (all_entries n c (''schedule://destroyer/'' @ lo_namespace opts @ ''/*'') 250)) (\<lambda>es.
          run_then (for_of (\<lambda>entry cancelled. run_then (ask (hc_cancel (fz_schedule c) (se_route entry))) (\<lambda>_. ret (cancelled + 1))) es (0 :: nat)) (\<lambda>cancelled.
          log_event ''schedule_outage_cleanup_complete'' [(''listed'', jnat (length es)), (''cancelled'', jnat cancelled)])))"

end
