(* ===== verification/SessionProofs.thy ===== *)
theory SessionProofs
  imports SessionWorkloads ScheduleWorkloads ScheduleScenarios WorkloadEvidence
begin

text \<open>
  What the workers of the cleanup storm (SessionWorkloads) and the schedule producers
  (ScheduleWorkloads) report when they return, and what the orchestration (CleanupScenarios,
  ScheduleScenarios) reads from their logs.
\<close>

subsection \<open>A session that was lost\<close>

lemma probe_lease_ok: "probe_lease_released c opts s = (Inr st, s') \<Longrightarrow> \<not> le_held st \<and> le_waiters st = 0"
  by (auto simp: probe_lease_released_def Let_def script_ok)

lemma probe_rpc_ok:
  assumes "probe_rpc n c opts s = (Inr k, s')" shows "k = RELIABILITY_RPC_PROBE_CALLS"
proof -
  from assms obtain registered v v' where run: "for_of (\<lambda>sequence calls.
       let route = rt_rpc (own_routes opts);
           request = reliability_payload (lo_namespace opts) (lo_workerId opts @ ''-rpc-'' @ show_nat sequence) (lo_payloadBytes opts) in
       run_then (echoed_call n c opts registered route request request (route @ '' probe '' @ show_nat sequence) id) (\<lambda>responses.
       run_then (require (responses = 1) ''$ returned $/1 probe frames'' [AStr route, ANat responses]) (\<lambda>_.
       ret (calls + 1)))) [0..<RELIABILITY_RPC_PROBE_CALLS] 0 v = (Inr k, v')"
    by (auto simp: probe_rpc_def Let_def script_ok)
  show ?thesis by (rule for_of_counts [where I = "\<lambda>j calls _. calls = j", OF _ run]) (auto simp: Let_def script_ok)
qed

lemma probe_ok:
  assumes "verify_reliability_session_released n c opts s = (Inr p, s')"
  shows "p = \<lparr>pe_redelivered = 1, pe_values = 0, pe_records = 0, pe_held = False, pe_waiters = 0,
    pe_calls = RELIABILITY_RPC_PROBE_CALLS, pe_failures = 0\<rparr>"
  using assms unfolding verify_reliability_session_released_def
  by (elim run_thenE) (auto simp: script_ok dest: probe_lease_ok probe_rpc_ok)

lemma stale_handles_ok: "reject_stale_handles c s w = (Inr k, w') \<Longrightarrow> k = 4"
  by (auto simp: reject_stale_handles_def Let_def script_ok)

text \<open>The counts that every worker reports.\<close>

definition SESSION_COUNTS :: "(string \<times> nat) list" where
  "SESSION_COUNTS =
     [(''reconnects'', 1), (''staleHandleRejections'', 4), (''queueRedelivered'', 1), (''kvUncommittedValues'', 0),
      (''streamUncommittedRecords'', 0), (''leaseHeld'', 0), (''leasePendingWaiters'', 0),
      (''rpcProbeCalls'', RELIABILITY_RPC_PROBE_CALLS), (''rpcProbeFailures'', 0)]"

lemma cleanup_session_report:
  assumes "run_cleanup_storm n c v reconnect_timeout opts w = (Inr (), w')"
  shows "\<exists>armed_entries es. lv_log w' = lv_log w @ [(''shutdown_reconnect_cleanup_armed'', armed_entries), (''shutdown_reconnect_cleanup_complete'', es)] \<and>
     list_all (\<lambda>(f, k). map_get es f = Some (jnat k)) SESSION_COUNTS"
proof -
  from assms obtain t v0 s v1 v2 v3 where run: "performance c w = (Inr t, v0)" "ask (arm_reliability_session c opts) v0 = (Inr s, v1)"
    "log_event ''shutdown_reconnect_cleanup_armed'' [(''workerId'', JStr (lo_workerId opts)), (''routes'', routes_json (as_routes s))] v1 = (Inr (), v2)"
    "run_then (ask (wait_for_reconnect n c v s reconnect_timeout)) (\<lambda>reconnect_ms.
        run_then (ask (reject_stale_handles c s)) (\<lambda>rejected.
        run_then (ask (unsubscribe_registrations c (as_registrations s))) (\<lambda>_.
        run_then (ask (verify_reliability_session_released n c opts)) (\<lambda>probe.
        run_then (elapsed_time c t) (\<lambda>ms.
        log_event ''shutdown_reconnect_cleanup_complete''
          ([(''workerId'', JStr (lo_workerId opts)), (''reconnects'', jnat 1), (''reconnectMs'', jint reconnect_ms),
            (''staleHandleRejections'', jnat rejected)] @ probe_json probe @ [(''elapsedMs'', jint ms)])))))) v2 = (Inr (), v3)"
    "ask (dispose_reliability_session c s) v3 = (Inr (), w')"
    unfolding run_cleanup_storm_def by (elim run_thenE) (auto simp: finally_do_ok)
  from run(4) obtain ms0 v4 k v5 u v6 p v7 ms v8 where steps: "ask (wait_for_reconnect n c v s reconnect_timeout) v2 = (Inr ms0, v4)"
    "ask (reject_stale_handles c s) v4 = (Inr k, v5)" "ask (unsubscribe_registrations c (as_registrations s)) v5 = (Inr u, v6)"
    "ask (verify_reliability_session_released n c opts) v6 = (Inr p, v7)" "elapsed_time c t v7 = (Inr ms, v8)"
    "log_event ''shutdown_reconnect_cleanup_complete''
          ([(''workerId'', JStr (lo_workerId opts)), (''reconnects'', jnat 1), (''reconnectMs'', jint ms0),
            (''staleHandleRejections'', jnat k)] @ probe_json p @ [(''elapsedMs'', jint ms)]) v8 = (Inr (), v3)"
    by (elim run_thenE)
  have k: "k = 4" using steps(2) by (auto simp: ask_ok dest: stale_handles_ok)
  have p: "p = \<lparr>pe_redelivered = 1, pe_values = 0, pe_records = 0, pe_held = False, pe_waiters = 0,
    pe_calls = RELIABILITY_RPC_PROBE_CALLS, pe_failures = 0\<rparr>" using steps(4) by (auto simp: ask_ok dest: probe_ok)
  have "lv_log v2 = lv_log w @ [(''shutdown_reconnect_cleanup_armed'', [(''workerId'', JStr (lo_workerId opts)), (''routes'', routes_json (as_routes s))])]"
    using run(1-3) by (auto simp: performance_def ask_ok log_event_ok)
  moreover have "lv_log v8 = lv_log v2" using steps(1-4) elapsed_ok [OF steps(5)] by (auto simp: ask_ok)
  moreover have "lv_log w' = lv_log v8 @ [(''shutdown_reconnect_cleanup_complete'',
       [(''workerId'', JStr (lo_workerId opts)), (''reconnects'', jnat 1), (''reconnectMs'', jint ms0),
            (''staleHandleRejections'', jnat k)] @ probe_json p @ [(''elapsedMs'', jint ms)])]"
    using steps(6) run(5) by (auto simp: ask_ok log_event_ok)
  ultimately show ?thesis
    by (intro exI conjI) (auto simp: k p probe_json_def SESSION_COUNTS_def)
qed

subsection \<open>The counters of the storm\<close>

text \<open>A worker that returned, and a container log with its final event.\<close>

definition finished_session :: "nat \<Rightarrow> 'o fitz_client \<Rightarrow> 'o session_view \<Rightarrow> int \<Rightarrow> live_options \<Rightarrow> 'o \<Rightarrow> string \<Rightarrow> bool" where
  "finished_session n c v reconnect_timeout opts start contents =
     (case run_cleanup_storm n c v reconnect_timeout opts \<lparr>lv_log = [], lv_outside = start\<rparr> of (r, w) \<Rightarrow>
        r = Inr () \<and> carries [''shutdown_reconnect_cleanup_complete''] (lv_log w) contents)"

lemma finished_session_event:
  assumes "finished_session n c v reconnect_timeout opts start contents"
  shows "\<exists>r. required_event contents ''shutdown_reconnect_cleanup_complete'' = Inr r \<and>
     list_all (\<lambda>(f, k). numeric_field r f = Inr k) SESSION_COUNTS"
proof -
  obtain w where run: "run_cleanup_storm n c v reconnect_timeout opts \<lparr>lv_log = [], lv_outside = start\<rparr> = (Inr (), w)"
    and log: "carries [''shutdown_reconnect_cleanup_complete''] (lv_log w) contents"
    using assms by (auto simp: finished_session_def split: prod.splits)
  from cleanup_session_report [OF run] obtain a es where report:
    "lv_log w = [(''shutdown_reconnect_cleanup_armed'', a), (''shutdown_reconnect_cleanup_complete'', es)]"
    "list_all (\<lambda>(f, k). map_get es f = Some (jnat k)) SESSION_COUNTS" by auto
  have "filter (\<lambda>e. fst e = ''shutdown_reconnect_cleanup_complete'') (lv_log w) = [] @ [(''shutdown_reconnect_cleanup_complete'', es)]"
    by (simp add: report(1))
  from carried_event [OF log _ this] obtain t where
    "required_event contents ''shutdown_reconnect_cleanup_complete'' = Inr (event_json t (''shutdown_reconnect_cleanup_complete'', es))" by auto
  then show ?thesis using report(2)
    by (auto simp: SESSION_COUNTS_def numeric_field_def RELIABILITY_RPC_PROBE_CALLS_def)
qed

text \<open>The sums after \<^verbatim>\<open>k\<close> logs.\<close>

definition session_sums :: "nat \<Rightarrow> counter_sums" where
  "session_sums k = map (\<lambda>(f, m). (f, of_nat (k * m))) SESSION_COUNTS"

lemma add_session:
  assumes "list_all (\<lambda>(f, k). numeric_field r f = Inr k) SESSION_COUNTS" "k < 2 ^ 50"
  shows "add_all_numeric r RECONNECT_FIELDS (session_sums k) = Inr (session_sums (Suc k))"
proof -
  have exact: "fl (of_nat a) = of_nat a" if "a \<le> 4 + k * 4" for a
    by (rule fl_of_nat) (use that assms(2) in simp)
  have "fl (of_nat (k * m) + of_nat m) = of_nat (Suc k * m)" if "m \<le> 4" for m
  proof -
    have "m + k * m \<le> 4 + k * 4" using that by (intro add_mono mult_left_mono) simp_all
    from exact [OF this] show ?thesis by (simp add: add.commute)
  qed
  from this [of 0] this [of 1] this [of 4] show ?thesis
    using assms(1)
    by (simp add: RECONNECT_FIELDS_def PROBE_FIELDS_def session_sums_def SESSION_COUNTS_def RELIABILITY_RPC_PROBE_CALLS_def
        add_numeric_def result_simps)
qed

lemma sum_sessions:
  assumes "list_all (\<lambda>l. \<exists>r. required_event l name = Inr r \<and> list_all (\<lambda>(f, k). numeric_field r f = Inr k) SESSION_COUNTS) ls"
    "k + length ls \<le> 2 ^ 50"
  shows "sum_evidence name RECONNECT_FIELDS ls (session_sums k) = Inr (session_sums (k + length ls))"
  using assms
proof (induction ls arbitrary: k)
  case (Cons l ls)
  then obtain r where r: "required_event l name = Inr r" "list_all (\<lambda>(f, k). numeric_field r f = Inr k) SESSION_COUNTS" by auto
  show ?case using Cons.IH [of "Suc k"] Cons.prems by (simp add: r(1) result_simps add_session [OF r(2)])
qed simp

lemma zero_session_sums: "zero_sums RECONNECT_FIELDS = session_sums 0"
  by (simp add: zero_sums_def session_sums_def RECONNECT_FIELDS_def PROBE_FIELDS_def SESSION_COUNTS_def)

definition accepted_counters :: "nat \<Rightarrow> counter_sums result \<Rightarrow> bool" where
  "accepted_counters k outcome =
     (case outcome of Inl e \<Rightarrow> False | Inr acc \<Rightarrow>
        is_ok (for_each (expect_counter ''Shutdown cleanup cycle $'' [ANat 1] (acc @ [(''cleanupPending'', 0)])) (cycle_counts k)))"

lemma session_sums_accepted: "accepted_counters k (Inr (session_sums k))"
  by (simp add: accepted_counters_def cycle_counts_def expect_counter_def session_sums_def SESSION_COUNTS_def is_ok_def)

text \<open>
  C40.  The cleanup storm: when every worker of a cycle has returned and its container log carries its final
  event, the counters that the orchestration sums from the logs satisfy every check of the cycle (one
  reconnect and four rejected stale handles per client, the queued message delivered again, no
  uncommitted value or record, no lease or waiter left, every probe call answered), whatever the broker
  answered, once no cleanup is pending.
\<close>

theorem cleanup_sessions_accepted:
  assumes "list_all (\<lambda>(opts, start, contents). finished_session n c v reconnect_timeout opts start contents) sessions" "length sessions \<le> 2 ^ 50"
  shows "accepted_counters (length sessions)
     (sum_evidence ''shutdown_reconnect_cleanup_complete'' RECONNECT_FIELDS (map (\<lambda>(_, _, l). l) sessions) (zero_sums RECONNECT_FIELDS))"
proof -
  have "list_all (\<lambda>l. \<exists>r. required_event l ''shutdown_reconnect_cleanup_complete'' = Inr r \<and>
      list_all (\<lambda>(f, k). numeric_field r f = Inr k) SESSION_COUNTS) (map (\<lambda>(_, _, l). l) sessions)"
    using assms(1) finished_session_event by (fastforce simp: list_all_iff)
  from sum_sessions [OF this, of 0] assms(2) show ?thesis
    by (simp add: zero_session_sums session_sums_accepted)
qed

subsection \<open>A sample session\<close>

text \<open>
  The broker goes down when the worker first pauses; from then on it rejects the handles of before.  The
  second component is the request of the call that is open.
\<close>

type_synonym sample_broker = "bool \<times> bytes option"

definition unless_stale :: "nat \<Rightarrow> (sample_broker, unit) client_script" where
  "unless_stale h = (\<lambda>s. if fst s \<and> h = 1 then raise ''stale'' s else (Inr (), s))"

definition new_handle :: "(sample_broker, nat) client_script" where
  "new_handle = (\<lambda>s. (Inr (if fst s then 2 else 1), s))"

definition sample_session_client :: "sample_broker fitz_client" where
  "sample_session_client = idle_client\<lparr>
     fz_queue := \<lparr>qc_reserve = (\<lambda>_ _ _ wait s. (Inr (if wait = None then [] else
         [\<lparr>qi_handle = (if fst s then 2 else 1), qi_body = own_payload (sample_options ''0'')\<rparr>]), s)),
       qc_complete = (\<lambda>item. unless_stale (qi_handle item))\<rparr>,
     fz_kv := (fz_kv idle_client)\<lparr>kc_begin := (\<lambda>_ _. new_handle), kc_commit := unless_stale\<rparr>,
     fz_stream := (fz_stream idle_client)\<lparr>sc_begin := (\<lambda>_. new_handle), sc_commit := unless_stale\<rparr>,
     fz_lease := (fz_lease idle_client)\<lparr>lc_acquire := (\<lambda>_ _ _. new_handle), lc_release := unless_stale\<rparr>,
     fz_rpc := (fz_rpc idle_client)\<lparr>rc_call := (\<lambda>_ body _ s. (Inr 0, fst s, Some body)),
       rc_next := (\<lambda>_ s. (Inr (map_option (\<lambda>body. \<lparr>rr_sequence = 0, rr_body = body\<rparr>) (snd s)), fst s, None))\<rparr>,
     fz_sleep := (\<lambda>_ s. (True, snd s))\<rparr>"

definition sample_view :: "sample_broker session_view" where
  "sample_view = \<lparr>sw_connected = (\<lambda>_. True), sw_transactionOpen = (\<lambda>_ s. \<not> fst s), sw_sessionOpen = (\<lambda>_ s. \<not> fst s)\<rparr>"

definition sample_session_log :: string where
  "sample_session_log = with_quotes (''{~timestamp~:~t~,~event~:~shutdown_reconnect_cleanup_complete~,~workerId~:~0~,~reconnects~:1,~reconnectMs~:0,'' @
     ''~staleHandleRejections~:4,~queueRedelivered~:1,~kvUncommittedValues~:0,~streamUncommittedRecords~:0,~leaseHeld~:0,'' @
     ''~leasePendingWaiters~:0,~rpcProbeCalls~:4,~rpcProbeFailures~:0,~elapsedMs~:0}'')"

lemma sample_storm:
  "run_cleanup_storm 3 sample_session_client sample_view 1000 (sample_options ''0'') \<lparr>lv_log = [], lv_outside = (False, None)\<rparr> =
     (Inr (), \<lparr>lv_log = [(''shutdown_reconnect_cleanup_armed'', [(''workerId'', JStr ''0''), (''routes'', routes_json (own_routes (sample_options ''0'')))]),
        (''shutdown_reconnect_cleanup_complete'', [(''workerId'', JStr ''0''), (''reconnects'', jnat 1), (''reconnectMs'', jint 0),
          (''staleHandleRejections'', jnat 4), (''queueRedelivered'', jnat 1), (''kvUncommittedValues'', jnat 0),
          (''streamUncommittedRecords'', jnat 0), (''leaseHeld'', jnat 0), (''leasePendingWaiters'', jnat 0), (''rpcProbeCalls'', jnat 4),
          (''rpcProbeFailures'', jnat 0), (''elapsedMs'', jint 0)])], lv_outside = (True, None)\<rparr>)"
  by code_simp

lemma sample_session_record:
  "filter (has_event ''shutdown_reconnect_cleanup_complete'') (parse_json_records sample_session_log) =
     [event_json ''t'' (''shutdown_reconnect_cleanup_complete'', [(''workerId'', JStr ''0''), (''reconnects'', JNum 1), (''reconnectMs'', JNum 0),
          (''staleHandleRejections'', JNum 4), (''queueRedelivered'', JNum 1), (''kvUncommittedValues'', JNum 0),
          (''streamUncommittedRecords'', JNum 0), (''leaseHeld'', JNum 0), (''leasePendingWaiters'', JNum 0), (''rpcProbeCalls'', JNum 4),
          (''rpcProbeFailures'', JNum 0), (''elapsedMs'', JNum 0)])]"
  by code_simp

lemma sample_session: "finished_session 3 sample_session_client sample_view 1000 (sample_options ''0'') (False, None) sample_session_log"
  by (auto simp: finished_session_def sample_storm carries_def sample_session_record jnat_def jint_def)

text \<open>Witness: one worker whose session is lost and probed.\<close>

theorem cleanup_sessions_accepted_witness:
  "accepted_counters 1 (sum_evidence ''shutdown_reconnect_cleanup_complete'' RECONNECT_FIELDS [sample_session_log] (zero_sums RECONNECT_FIELDS))"
  using cleanup_sessions_accepted [of 3 sample_session_client sample_view 1000 "[(sample_options ''0'', (False, None), sample_session_log)]"]
  by (simp add: sample_session)

subsection \<open>Schedule producers\<close>

lemma created_ok:
  "run_concurrent c k (\<lambda>sequence. for_of (create_delivery c sd opts cron sequence) DELIVERY_KINDS) 0 w = (Inr m, w') \<Longrightarrow> m = k * 3 \<and> lv_log w' = lv_log w"
  unfolding run_concurrent_def
  by (drule for_of_counts [where I = "\<lambda>j m v. m = j * 3 \<and> lv_log v = lv_log w", rotated])
    (auto simp: create_delivery_def DELIVERY_KINDS_def script_ok)

lemma cancelled_ok:
  "run_concurrent c k (\<lambda>sequence. cancel_delivery c opts sequence kind) 0 w = (Inr m, w') \<Longrightarrow> m = k \<and> lv_log w' = lv_log w"
  "run_concurrent c k (\<lambda>sequence. for_of (cancel_delivery c opts sequence) [kind1, kind2]) 0 w = (Inr m, w') \<Longrightarrow> m = k * 2 \<and> lv_log w' = lv_log w"
  unfolding run_concurrent_def
   apply (drule for_of_counts [where I = "\<lambda>j m v. m = j \<and> lv_log v = lv_log w", rotated])
     apply (auto simp: cancel_delivery_def script_ok)[3]
  apply (drule for_of_counts [where I = "\<lambda>j m v. m = j * 2 \<and> lv_log v = lv_log w", rotated])
    apply (auto simp: cancel_delivery_def script_ok)
  done

lemma listed_ok:
  assumes "verify_definitions n c sd opts cron expect_empty s = (Inr m, s')"
  shows "m = (if expect_empty then 0 else live_count opts * 2)"
  using assms by (auto simp: verify_definitions_def Let_def script_ok split: if_splits)

text \<open>The orchestration accepts the log of every producer that returned.\<close>

lemma producer_report:
  assumes "run_schedule_producer n c sd fire_at action opts w = (Inr (), w')"
  shows "\<exists>cron ms. lv_log w' = lv_log w @ [(''schedule_producer_complete'',
     [(''action'', JStr (if action = ScheduleCreate then ''create'' else ''cancel'')),
      (''created'', jnat (if action = ScheduleCreate then live_count opts * 3 else 0)),
      (''cancelled'', jnat (if action = ScheduleCreate then live_count opts else live_count opts * 2)),
      (''listed'', jnat (if action = ScheduleCreate then live_count opts * 2 else 0)), (''cron'', JStr cron),
      (''fireAtMs'', jint fire_at), (''elapsedMs'', jint ms)])]"
proof -
  have closing: "\<exists>ms. lv_log w2 = lv_log w1 @ [(''schedule_producer_complete'',
     [(''action'', JStr (if action = ScheduleCreate then ''create'' else ''cancel'')), (''created'', jnat created), (''cancelled'', jnat cancelled),
      (''listed'', jnat listed), (''cron'', JStr cron), (''fireAtMs'', jint fire_at), (''elapsedMs'', jint ms)])]"
    if "producer_complete c action fire_at t cron created cancelled listed w1 = (Inr (), w2)" for t cron created cancelled listed w1 w2
    using that unfolding producer_complete_def by (elim run_thenE) (auto simp: log_event_ok dest: elapsed_ok)
  from assms obtain t w0 cron w1 where started: "performance c w = (Inr t, w0)" "of_checked (schedule_cron_at fire_at) w0 = (Inr cron, w1)" and
    run: "(if action = ScheduleCreate then
       run_then (run_concurrent c (live_count opts)
         (\<lambda>sequence. for_of (create_delivery c sd opts cron sequence) DELIVERY_KINDS) 0) (\<lambda>created.
       run_then (run_concurrent c (live_count opts) (\<lambda>sequence. cancel_delivery c opts sequence CancelledKind) 0) (\<lambda>cancelled.
       run_then (ask (verify_definitions n c sd opts cron False)) (\<lambda>listed.
       producer_complete c action fire_at t cron created cancelled listed)))
     else
       run_then (run_concurrent c (live_count opts)
         (\<lambda>sequence. for_of (cancel_delivery c opts sequence) [BroadcastKind, SingleKind]) 0) (\<lambda>cancelled.
       run_then (ask (verify_definitions n c sd opts cron True)) (\<lambda>listed.
       producer_complete c action fire_at t cron 0 cancelled listed))) w1 = (Inr (), w')"
    unfolding run_schedule_producer_def by (elim run_thenE)
  have log: "lv_log w1 = lv_log w" using started by (auto simp: performance_def ask_ok of_checked_ok)
  show ?thesis
  proof (cases "action = ScheduleCreate")
    case True
    from run [unfolded if_P [OF True]] obtain created w2 cancelled w3 listed s where
      steps: "run_concurrent c (live_count opts) (\<lambda>sequence. for_of (create_delivery c sd opts cron sequence) DELIVERY_KINDS) 0 w1 = (Inr created, w2)"
      "run_concurrent c (live_count opts) (\<lambda>sequence. cancel_delivery c opts sequence CancelledKind) 0 w2 = (Inr cancelled, w3)"
      "verify_definitions n c sd opts cron False (lv_outside w3) = (Inr listed, s)"
      "producer_complete c action fire_at t cron created cancelled listed (w3\<lparr>lv_outside := s\<rparr>) = (Inr (), w')"
      by (elim run_thenE) (auto simp: ask_ok)
    show ?thesis
      using created_ok [OF steps(1)] cancelled_ok(1) [OF steps(2)] listed_ok [OF steps(3)] closing [OF steps(4)] log by (auto simp: True)
  next
    case False
    from run [unfolded if_not_P [OF False]] obtain cancelled w3 listed s where
      steps: "run_concurrent c (live_count opts) (\<lambda>sequence. for_of (cancel_delivery c opts sequence) [BroadcastKind, SingleKind]) 0 w1 = (Inr cancelled, w3)"
      "verify_definitions n c sd opts cron True (lv_outside w3) = (Inr listed, s)"
      "producer_complete c action fire_at t cron 0 cancelled listed (w3\<lparr>lv_outside := s\<rparr>) = (Inr (), w')"
      by (elim run_thenE) (auto simp: ask_ok)
    show ?thesis
      using cancelled_ok(2) [OF steps(1)] listed_ok [OF steps(2)] closing [OF steps(3)] log by (auto simp: False)
  qed
qed

lemma schedule_producer_accepted:
  assumes "run_schedule_producer n c sd fire_at action opts \<lparr>lv_log = [], lv_outside = start\<rparr> = (Inr (), w)"
    "carries [''schedule_producer_complete''] (lv_log w) contents" "int (live_count opts * 3) \<le> max_safe_integer"
  shows "assert_producer_complete [(container, contents)] (action = ScheduleCreate) (live_count opts) = Inr ()"
proof -
  from producer_report [OF assms(1)] obtain es where
    es: "lv_log w = [] @ [(''schedule_producer_complete'', es)]" "map_get es ''action'' = Some (JStr (if action = ScheduleCreate then ''create'' else ''cancel''))"
      "map_get es ''created'' = Some (jnat (if action = ScheduleCreate then live_count opts * 3 else 0))"
      "map_get es ''cancelled'' = Some (jnat (if action = ScheduleCreate then live_count opts else live_count opts * 2))"
      "map_get es ''listed'' = Some (jnat (if action = ScheduleCreate then live_count opts * 2 else 0))" by auto
  have "filter (\<lambda>e. fst e = ''schedule_producer_complete'') (lv_log w) = [] @ [(''schedule_producer_complete'', es)]" by (simp add: es(1))
  from carried_event [OF assms(2) _ this] obtain t where
    "required_event contents ''schedule_producer_complete'' = Inr (event_json t (''schedule_producer_complete'', es))" by auto
  moreover have "int (live_count opts) \<le> max_safe_integer" "int (live_count opts * 2) \<le> max_safe_integer" using assms(3) by linarith+
  ultimately show ?thesis using assms(3)
    by (auto simp: assert_producer_complete_def Let_def numeric_field_def es(2-5) ensure_def result_simps)
qed

end
