(* ===== verification/Spec2Isabelle.thy ===== *)
theory Spec2Isabelle
  imports QueueReconcile PressureWarnings Suite ReportText ReportAnalysis RawConnection WorkerPool LeaseScenarios ScheduleScenarios
    CleanupScenarios RecoveryProofs PressureRun WorkerSession BombardEvidence WorkloadEvidence LiveEvidence ClientProofs SessionProofs
begin

text \<open>
  A model of Fitz Destroyer, the fault-injection harness of the Fitz broker (src/).

  The program.  The command line (src/config.ts) selects one scenario or the suite
  (src/suite.ts).  A scenario run (src/scenario.ts) prepares a Compose stack, executes the
  scenario's workload against it, collects artifacts, cleans up and writes a summary.
  Workloads (src/workloads) drive the broker with deterministic routes and payloads; the
  orchestration (src/orchestration) injects faults and reconciles the logs of the
  workloads into ledgers.  Reports (src/report-analysis.ts, src/report.ts) turn the artifacts of
  a matrix of scenarios into one verdict, with operational guidance extracted from event
  logs and pressure evidence (src/operational-guidance.ts, src/pressure.ts).

  Theories, in the order of their dependencies.
  Prelude: errors as values of a sum type, loops that throw, array helpers.
  JsNumber: binary64 arithmetic on rationals, rounding to nearest even, \<^verbatim>\<open>Math.round\<close>.
  JsMap: insertion-ordered maps, with the locale \<^verbatim>\<open>ordered_map\<close> interpreted for them.
  Json, JsonParse, Text: JSON values and parser, word matching of the regular expressions.
  Model: src/workloads/model.ts.
  Pressure, QueueReconcile, PressureWarnings: src/pressure.ts.
  GuidanceMetrics, GuidanceScenarios, GuidanceCompletion, PressureGuidance, Guidance:
  src/operational-guidance.ts and src/operational-guidance-completion.ts.
  Config: src/config.ts.  Scenario: src/scenario.ts.  Suite: src/suite.ts.
  Report, ReportText: src/report.ts.  ReportAnalysis: src/report-analysis.ts.
  RawProtocol, RawConnection: src/workloads/raw-protocol.ts.
  WorkerPool: the concurrent operation pool of src/workloads/live.ts as a step machine.
  Script: asynchronous code as state passing, with \<^verbatim>\<open>try\<close>, \<^verbatim>\<open>finally\<close> and polling loops.
  WorkloadLog, LiveObservability, ComposeEvidence: the readers of container logs, broker
  statistics and metrics (src/orchestration/workload-log.ts, live-observability.ts,
  compose-evidence.ts).
  Host: processes, HTTP, clocks and artifact files as a record of functions over an unknown
  state (command.ts, artifacts.ts).  Compose, ComposeWait, ComposeLife, ComposeProofs: the class
  \<^verbatim>\<open>ComposeStack\<close> and its jobs (compose.ts, compose-jobs.ts, compose-model.ts, compose-upgrade.ts).
  StackCalls: what a scenario can report, as the locale \<^verbatim>\<open>quiet_stack\<close>, interpreted per scenario.
  QueueScenarios, LeaseScenarios, DurabilityScenarios, ScheduleScenarios: the ledgers and the
  scenario scripts of src/orchestration with these names.
  AuthToken: the tokens of src/auth-token.ts, for any keyed hash.
  Evidence: the checks of the worker records (the \<^verbatim>\<open>assert...Evidence\<close> functions of src/workloads
  and src/orchestration) as tables of expected counts.
  ConformanceScenarios, SessionScenarios, DomainScenarios, RpcScenarios, IsolationScenarios,
  CleanupScenarios: the scripts of src/orchestration for protocol conformance, for outages and
  sessions, for transactions, streams, interference and shutdown, for fan-out, RPC pressure and
  streamed RPC, for the isolation of families and shards, and for the cleanup of lost sessions.
  IsoDate: the ISO timestamps of the logs.  PressureEvidence, PressureAggregate, PressureRun:
  src/orchestration/pressure.ts, from the log of a client to the evidence file of a run.
  Worker, WorkerSession: src/worker.ts, the environment of a role, the dispatch of the roles and
  the events of a worker.  ClientCalls: the calls of the third-party client as the workloads make
  them, with its error classes and the retries of src/workloads/queue-backpressure.ts.
  PressureWorkload: src/workloads/pressure.ts.  Bombard, BombardProofs, BombardEvidence: the
  bombard role of src/worker.ts, its counters and the final record it prints.
  FitzClient: the calls of the client as a record over an unknown state, loops over its iterators
  and the log of a workload.  LiveKit: what the workloads of the live roles share.
  RecoveryWorkload, RecoveryBroker, RecoveryProofs: src/workloads/recovery.ts and a broker that
  keeps what it acknowledges.  DurableWorkloads: transaction-contention.ts, stream-replay.ts and
  stream-global-recovery.ts.  QueueWorkloads: queue-redelivery.ts, queue-lifecycle.ts,
  queue-overload.ts, queue-dead-letter-fencing.ts.  LiveWorkloads: live.ts.  ClientWorkloads:
  durability-crash-cuts.ts, canary.ts, lease-contention.ts.  ScheduleWorkloads: schedule-delivery.ts,
  schedule-outage.ts.  SessionWorkloads: reliability-session-state.ts.  (All under src/workloads.)
  LiveProofs, ClientProofs, SessionProofs, WorkloadEvidence, LiveEvidence: what these workloads
  report, and what the orchestration concludes from the logs that carry it.

  Correspondence.  A TypeScript type is a record or datatype with the source's fields; a
  function that throws returns \<^verbatim>\<open>error + 'a\<close>, the error being the message template of the throw
  site and its interpolated values; a class or closure with local variables is a record
  threaded through its operations, and an event handler is a step on it.  What the program
  does not decide itself is an argument: whether a Compose call fails and with what, the
  outcome of a file read, the clock, the URL or path arithmetic of Node.  The orchestration is a
  script over a world: the mutable fields of the stack, the list of the calls made so far and the
  unknown state of the machine; docker, HTTP, the file system and the clocks answer through the
  functions of a record \<^verbatim>\<open>'o host\<close>, which every theorem leaves arbitrary or restricts by a named
  hypothesis.  A workload is a script over the state of the client and its log; what arrives while it
  waits (a message, a request, the expiry of a timer, the abort of its signal) is an answer of the
  client, and the handlers that sleep form a list, first come first woken.  The interval timers of
  progress events fire as often as the client says; \<^verbatim>\<open>withLease\<close> runs its callback between an
  acquisition and a release; abort signals and timeouts are part of what a call answers.  Promises
  started together by \<^verbatim>\<open>Promise.all\<close>, and the lanes of \<^verbatim>\<open>runConcurrent\<close> in the workloads, run in the
  order of the array, which is one of the orders the code allows (WorkerPool has all of them).  Messages for the console are left out, quotes around a value
  in an error template are dropped, and the ISO text \<^verbatim>\<open>fireAt\<close> of an event is left out.

  What the lemmas show.  The codecs and payloads are injective and round trip; histograms,
  counters and merges are exact in spite of binary64; guidance extraction is total and its
  numbers are well-formed; accepted command lines are in range; a scenario's verdict,
  classification, cleanup and log follow from what failed first and a suite runs everything;
  a report passes exactly when every expected scenario has one passing summary, its
  numbers agree with its rows and captured text cannot break its quotes; the raw connections
  match the i-th call with the i-th frame and leave no call pending; the pool starts and
  settles each operation once and ends; the stack removes only its own cache volumes, waits
  end, and finished containers exited with code 0; a scenario reports completion only after
  its ledger passed, and the ledger checks accept exactly the promised outcomes; a worker reports
  each step of its role in order, the stopped record of the bombard role agrees with what its
  operations did, and the orchestration reads back what the worker printed.  The recovery load
  verifies on a broker that keeps what it acknowledges, and a verification that passes is sound.
  Workloads that return have reported exact counts, and the orchestration accepts their logs
  exactly when the promise of the scenario holds: one stream winner, every frame of a streamed
  call, no fencing token twice; it accepts every schedule producer and every worker of the
  cleanup storm that returned.

  Bounds.  JavaScript numbers are rationals with every operation rounded to 53 bits of
  precision by \<^verbatim>\<open>fl\<close>; overflow to infinity and the sign of zero are outside the model, and so
  are code units above 255.  A polling loop of the stack takes fuel from the stack record:
  a run that exhausts it fails with an error of its own, and \<^verbatim>\<open>wait_ready_ends\<close> and
  \<^verbatim>\<open>poll_until_ends\<close> show that one round per millisecond of the deadline is enough on a clock that
  goes forward.  Every other loop is structural or has a measure.

  Not modelled: the third-party client and what a broker does with it beyond RecoveryBroker; the
  bodies of the remaining workloads (due storm, control lane, reply loss, family isolation, slow
  recipients, session boundaries and the wire and protocol workloads, which open sockets or further
  clients of their own); the line-by-line assembly of the Markdown report; the command lines,
  which parse with the modelled functions and print; the logger and meter callbacks of the client;
  the storage fault proxy and the disk filler, which only do input and output.  A worker id with a
  fraction is shown by its integer part.
\<close>

end
